(* ===== verification/Prelude.thy ===== *)
theory Prelude
  imports
    Main
    "HOL-Library.AList"
    "HOL-Library.Char_ord"
    "HOL-Library.List_Lexorder"
    "HOL-Library.Multiset"
    "HOL-Library.Word"
begin

text \<open>
  Generic material shared by all components: the effect type of the operations
  that talk to external services, the iteration order of Go maps, insertion of
  keyed values in Go maps, and sorting by a \<open>less\<close> function as \<open>sort.Slice\<close>
  does.
\<close>

named_theorems eff_simps \<open>unfolding rules for running effectful operations\<close>
named_theorems emits_intros \<open>compositional rules for the calls an operation may issue\<close>

section \<open>Effectful operations\<close>

text \<open>
  An operation receives the list of calls issued so far and returns a Go-style
  result (\<open>Inl\<close> is a non-nil error) with the extended list. What an external
  service answers is a function of the calls issued before, so every history
  dependent service, and every interference with it, is some such function.
\<close>

type_synonym ('c, 'e, 'a) eff = "'c list \<Rightarrow> ('e + 'a) \<times> 'c list"

definition eff_return :: "'a \<Rightarrow> ('c, 'e, 'a) eff" where
  "eff_return x = (\<lambda>h. (Inr x, h))"

definition eff_fail :: "'e \<Rightarrow> ('c, 'e, 'a) eff" where
  "eff_fail e = (\<lambda>h. (Inl e, h))"

definition eff_bind :: "('c, 'e, 'a) eff \<Rightarrow> ('a \<Rightarrow> ('c, 'e, 'b) eff) \<Rightarrow> ('c, 'e, 'b) eff" where
  "eff_bind m f = (\<lambda>h. case m h of (r, h') \<Rightarrow>
     (case r of Inl e \<Rightarrow> (Inl e, h') | Inr x \<Rightarrow> f x h'))"

text \<open>Issue call \<open>c\<close>; the response is computed from the history before the call.\<close>

definition eff_call :: "'c \<Rightarrow> ('c list \<Rightarrow> 'r) \<Rightarrow> ('c, 'e, 'r) eff" where
  "eff_call c resp = (\<lambda>h. (Inr (resp h), h @ [c]))"

text \<open>Read something that depends on the moment (the context, a map order) without a call.\<close>

definition eff_ask :: "('c list \<Rightarrow> 'r) \<Rightarrow> ('c, 'e, 'r) eff" where
  "eff_ask f = (\<lambda>h. (Inr (f h), h))"

text \<open>Run an operation and hand its error to the caller as a value.\<close>

definition eff_attempt :: "('c, 'e, 'a) eff \<Rightarrow> ('c, 'f, 'e + 'a) eff" where
  "eff_attempt m = (\<lambda>h. case m h of (r, h') \<Rightarrow> (Inr r, h'))"

text \<open>A loop that returns at the first error, and a loop that collects the errors.\<close>

fun eff_foreach :: "('a \<Rightarrow> ('c, 'e, unit) eff) \<Rightarrow> 'a list \<Rightarrow> ('c, 'e, unit) eff" where
  "eff_foreach f [] = eff_return ()"
| "eff_foreach f (x # xs) = eff_bind (f x) (\<lambda>_. eff_foreach f xs)"

fun eff_collect :: "('a \<Rightarrow> ('c, 'e, unit) eff) \<Rightarrow> 'a list \<Rightarrow> ('c, 'f, 'e list) eff" where
  "eff_collect f [] = eff_return []"
| "eff_collect f (x # xs) =
     eff_bind (eff_attempt (f x)) (\<lambda>r.
     eff_bind (eff_collect f xs) (\<lambda>errs.
       eff_return (case r of Inl e \<Rightarrow> e # errs | Inr _ \<Rightarrow> errs)))"

lemma eff_return_run [eff_simps]: "eff_return x h = (Inr x, h)"
  by (simp add: eff_return_def)

lemma eff_fail_run [eff_simps]: "eff_fail e h = (Inl e, h)"
  by (simp add: eff_fail_def)

lemma eff_call_run [eff_simps]: "eff_call c resp h = (Inr (resp h), h @ [c])"
  by (simp add: eff_call_def)

lemma eff_ask_run [eff_simps]: "eff_ask f h = (Inr (f h), h)"
  by (simp add: eff_ask_def)

lemma eff_attempt_run [eff_simps]:
  "eff_attempt m h = (Inr (fst (m h)), snd (m h))"
  by (simp add: eff_attempt_def split: prod.split)

lemma eff_bind_Inr [eff_simps]: "m h = (Inr x, h') \<Longrightarrow> eff_bind m f h = f x h'"
  by (simp add: eff_bind_def)

lemma eff_bind_Inl [eff_simps]: "m h = (Inl e, h') \<Longrightarrow> eff_bind m f h = (Inl e, h')"
  by (simp add: eff_bind_def)

lemma eff_bind_return [eff_simps]: "eff_bind (eff_return x) f = f x"
  by (simp add: eff_bind_def eff_return_def)

lemma eff_bind_fail [eff_simps]: "eff_bind (eff_fail e) f = eff_fail e"
  by (simp add: eff_bind_def eff_fail_def)

lemma eff_bind_call [eff_simps]: "eff_bind (eff_call c resp) f h = f (resp h) (h @ [c])"
  by (simp add: eff_bind_def eff_call_def)

lemma eff_bind_ask [eff_simps]: "eff_bind (eff_ask g) f h = f (g h) h"
  by (simp add: eff_bind_def eff_ask_def)

lemma eff_bind_attempt [eff_simps]: "eff_bind (eff_attempt m) f h = f (fst (m h)) (snd (m h))"
  by (simp add: eff_bind_def eff_attempt_def split: prod.split)

lemma eff_if: "(if b then m else n) h = (if b then m h else n h)"
  by simp

lemma eff_bind_assoc: "eff_bind (eff_bind m f) g = eff_bind m (\<lambda>x. eff_bind (f x) g)"
  by (simp add: eff_bind_def fun_eq_iff split: prod.split sum.split)

lemma eff_bind_InrE:
  assumes "eff_bind m f h = (Inr y, h2)"
  obtains x h1 where "m h = (Inr x, h1)" "f x h1 = (Inr y, h2)"
  using assms by (auto simp: eff_bind_def split: prod.splits sum.splits)

subsection \<open>The calls an operation may issue\<close>

definition emits :: "('c \<Rightarrow> bool) \<Rightarrow> ('c, 'e, 'a) eff \<Rightarrow> bool" where
  "emits P m \<longleftrightarrow> (\<forall>h. \<exists>cs. snd (m h) = h @ cs \<and> list_all P cs)"

lemma emitsI: "(\<And>h. \<exists>cs. snd (m h) = h @ cs \<and> list_all P cs) \<Longrightarrow> emits P m"
  by (simp add: emits_def)

lemma emitsD: "emits P m \<Longrightarrow> m h = (r, h') \<Longrightarrow> \<exists>cs. h' = h @ cs \<and> list_all P cs"
  by (metis emits_def snd_conv)

lemma emits_return [emits_intros]: "emits P (eff_return x)"
  by (simp add: emits_def eff_return_def)

lemma emits_fail [emits_intros]: "emits P (eff_fail e)"
  by (simp add: emits_def eff_fail_def)

lemma emits_ask [emits_intros]: "emits P (eff_ask f)"
  by (simp add: emits_def eff_ask_def)

lemma emits_call [emits_intros]: "P c \<Longrightarrow> emits P (eff_call c resp)"
  by (simp add: emits_def eff_call_def)

lemma emits_bind [emits_intros]:
  assumes "emits P m" and "\<And>x. emits P (f x)"
  shows "emits P (eff_bind m f)"
proof (rule emitsI)
  fix h
  obtain r h1 where m: "m h = (r, h1)" by (cases "m h")
  then obtain cs1 where cs1: "h1 = h @ cs1" "list_all P cs1"
    using assms(1) by (meson emitsD)
  show "\<exists>cs. snd (eff_bind m f h) = h @ cs \<and> list_all P cs"
  proof (cases r)
    case (Inl e)
    with m cs1 show ?thesis by (auto simp: eff_bind_def)
  next
    case (Inr x)
    obtain r2 h2 where f: "f x h1 = (r2, h2)" by (cases "f x h1")
    then obtain cs2 where "h2 = h1 @ cs2" "list_all P cs2"
      using assms(2) by (meson emitsD)
    with Inr m f cs1 show ?thesis by (auto simp: eff_bind_def)
  qed
qed

text \<open>What follows a call needs to behave only for the answers the service can give.\<close>

lemma emits_bind_call: "P c \<Longrightarrow> (\<And>h. emits P (f (resp h))) \<Longrightarrow> emits P (eff_bind (eff_call c resp) f)"
proof (rule emitsI)
  fix h
  assume "P c" "\<And>h. emits P (f (resp h))"
  moreover from this(2) obtain cs where "snd (f (resp h) (h @ [c])) = (h @ [c]) @ cs" "list_all P cs"
    unfolding emits_def by blast
  ultimately show "\<exists>cs. snd (eff_bind (eff_call c resp) f h) = h @ cs \<and> list_all P cs"
    by (simp add: eff_bind_call)
qed

text \<open>What an operation returns when it succeeds, and how that restricts what follows.\<close>

definition yields :: "('a \<Rightarrow> bool) \<Rightarrow> ('c, 'e, 'a) eff \<Rightarrow> bool" where
  "yields Q m \<longleftrightarrow> (\<forall>h x h'. m h = (Inr x, h') \<longrightarrow> Q x)"

lemma yieldsD: "yields Q m \<Longrightarrow> m h = (Inr x, h') \<Longrightarrow> Q x"
  unfolding yields_def by blast

lemma yields_return: "Q x \<Longrightarrow> yields Q (eff_return x)"
  by (simp add: yields_def eff_return_def)

lemma yields_fail: "yields Q (eff_fail e)"
  by (simp add: yields_def eff_fail_def)

lemma yields_bind: "(\<And>x. yields Q (f x)) \<Longrightarrow> yields Q (eff_bind m f)"
  unfolding yields_def by (metis eff_bind_InrE)

lemma yields_bind_post: "yields R m \<Longrightarrow> (\<And>x. R x \<Longrightarrow> yields Q (f x)) \<Longrightarrow> yields Q (eff_bind m f)"
  unfolding yields_def by (metis eff_bind_InrE)

lemma emits_bind_post:
  assumes "emits P m" "yields Q m" "\<And>x. Q x \<Longrightarrow> emits P (f x)"
  shows "emits P (eff_bind m f)"
proof (rule emitsI)
  fix h
  obtain r h1 where m: "m h = (r, h1)" by (cases "m h")
  then obtain cs1 where cs1: "h1 = h @ cs1" "list_all P cs1" using assms(1) by (meson emitsD)
  show "\<exists>cs. snd (eff_bind m f h) = h @ cs \<and> list_all P cs"
  proof (cases r)
    case (Inl e)
    with m cs1 show ?thesis by (auto simp: eff_bind_def)
  next
    case (Inr x)
    with m assms(2,3) have "emits P (f x)" by (auto dest: yieldsD)
    then obtain cs2 where "snd (f x h1) = h1 @ cs2" "list_all P cs2" unfolding emits_def by blast
    with Inr m cs1 show ?thesis by (auto simp: eff_bind_def)
  qed
qed

lemma emits_attempt [emits_intros]: "emits P m \<Longrightarrow> emits P (eff_attempt m)"
  by (simp add: emits_def eff_attempt_run)

lemma emits_foreach [emits_intros]:
  "(\<And>x. x \<in> set xs \<Longrightarrow> emits P (f x)) \<Longrightarrow> emits P (eff_foreach f xs)"
  by (induction xs) (auto intro!: emits_return emits_bind)

lemma emits_collect [emits_intros]:
  "(\<And>x. x \<in> set xs \<Longrightarrow> emits P (f x)) \<Longrightarrow> emits P (eff_collect f xs)"
  by (induction xs) (auto intro!: emits_return emits_bind emits_attempt)

lemma emits_mono: "emits P m \<Longrightarrow> (\<And>c. P c \<Longrightarrow> Q c) \<Longrightarrow> emits Q m"
  unfolding emits_def by (metis list_all_cong list.pred_mono_strong)

subsection \<open>Calls an operation always issues\<close>

text \<open>An operation that issues a call whatever happened before; the collecting loop is one.\<close>

definition issues :: "'c \<Rightarrow> ('c, 'e, 'a) eff \<Rightarrow> bool" where
  "issues c m \<longleftrightarrow> (\<forall>h. \<exists>cs. snd (m h) = h @ cs \<and> c \<in> set cs)"

definition extends :: "('c, 'e, 'a) eff \<Rightarrow> bool" where
  "extends m \<longleftrightarrow> emits (\<lambda>_. True) m"

lemma extendsD: "extends m \<Longrightarrow> \<exists>cs. snd (m h) = h @ cs"
  by (auto simp: extends_def emits_def)

lemma emits_extends: "emits P m \<Longrightarrow> extends m"
  unfolding extends_def by (erule emits_mono) simp

text \<open>A request that a first step never issues comes from what follows it.\<close>

lemma emits_guard:
  assumes "emits (\<lambda>c. \<not> P c) m" "\<And>x. extends (f x)" "snd (eff_bind m f h) = h @ xs @ c # ys" "P c"
  shows "\<exists>x cs xs'. m h = (Inr x, h @ cs) \<and> xs = cs @ xs' \<and> snd (f x (h @ cs)) = (h @ cs) @ xs' @ c # ys"
proof -
  obtain r cs where r: "m h = (r, h @ cs)" and quiet: "list_all (\<lambda>c. \<not> P c) cs"
    using assms(1) by (cases "m h") (metis emitsD)
  show ?thesis
  proof (cases r)
    case (Inl e)
    then have "cs = xs @ c # ys" using assms(3) r by (simp add: eff_bind_def)
    then show ?thesis using quiet assms(4) by simp
  next
    case (Inr x)
    obtain ds where ds: "snd (f x (h @ cs)) = (h @ cs) @ ds" using extendsD [OF assms(2)] by blast
    then have "cs @ ds = xs @ c # ys" using assms(3) r Inr by (simp add: eff_bind_def)
    moreover have "c \<notin> set cs" using quiet assms(4) by (auto simp: list_all_iff)
    ultimately have "\<exists>xs'. xs = cs @ xs' \<and> ds = xs' @ c # ys"
      by (auto simp: append_eq_append_conv2 append_eq_Cons_conv)
    then obtain xs' where "xs = cs @ xs'" "ds = xs' @ c # ys" by blast
    then show ?thesis using r Inr ds by auto
  qed
qed

text \<open>Every call of a run is allowed by the calls before it.\<close>

definition guarded :: "('c list \<Rightarrow> 'c \<Rightarrow> bool) \<Rightarrow> ('c, 'e, 'a) eff \<Rightarrow> 'c list \<Rightarrow> bool" where
  "guarded P m h \<longleftrightarrow> (\<exists>cs. snd (m h) = h @ cs \<and> (\<forall>xs c ys. cs = xs @ c # ys \<longrightarrow> P (h @ xs) c))"

lemma guarded_emits: "emits Q m \<Longrightarrow> (\<And>h c. Q c \<Longrightarrow> P h c) \<Longrightarrow> guarded P m h"
  unfolding emits_def guarded_def by (metis Un_iff list.set_intros(1) list_all_iff set_append)

lemma guarded_quiet: "snd (m h) = h \<Longrightarrow> guarded P m h"
  unfolding guarded_def by simp

lemma guarded_bind:
  assumes "guarded P m h" "\<And>x h'. m h = (Inr x, h') \<Longrightarrow> guarded P (f x) h'"
  shows "guarded P (eff_bind m f) h"
proof -
  obtain r cs where m: "m h = (r, h @ cs)" and ok: "\<And>xs c ys. cs = xs @ c # ys \<Longrightarrow> P (h @ xs) c"
    using assms(1) unfolding guarded_def by (metis prod.collapse)
  show ?thesis
  proof (cases r)
    case (Inl e)
    then show ?thesis using m ok unfolding guarded_def by (auto simp: eff_bind_def)
  next
    case (Inr x)
    then obtain ds where ds: "snd (f x (h @ cs)) = (h @ cs) @ ds"
        and ok': "\<And>xs c ys. ds = xs @ c # ys \<Longrightarrow> P ((h @ cs) @ xs) c"
      using assms(2) [of x "h @ cs"] m unfolding guarded_def by auto
    have "P (h @ xs) c" if "cs @ ds = xs @ c # ys" for xs c ys
      using that ok [of xs c] ok' [of _ c]
      by (fastforce simp: append_eq_append_conv2 append_eq_Cons_conv)
    then show ?thesis using m Inr ds unfolding guarded_def by (auto simp: eff_bind_def)
  qed
qed

lemma guarded_attempt: "guarded P m h \<Longrightarrow> guarded P (eff_attempt m) h"
  by (cases "m h"; cases "fst (m h)") (auto simp: guarded_def eff_attempt_run)

lemma guardedD: "guarded P m h \<Longrightarrow> snd (m h) = h @ xs @ c # ys \<Longrightarrow> P (h @ xs) c"
  unfolding guarded_def by auto

lemma issues_bind: "issues c m \<Longrightarrow> (\<And>x. extends (f x)) \<Longrightarrow> issues c (eff_bind m f)"
proof -
  assume m: "issues c m" and f: "\<And>x. extends (f x)"
  have "\<exists>cs. snd (eff_bind m f h) = h @ cs \<and> c \<in> set cs" for h
  proof -
    obtain r h1 where run: "m h = (r, h1)" by fastforce
    then obtain cs where cs: "h1 = h @ cs" "c \<in> set cs" using m by (metis issues_def snd_conv)
    show ?thesis
    proof (cases r)
      case (Inl e)
      with run cs show ?thesis by (simp add: eff_bind_def)
    next
      case (Inr x)
      obtain ds where "snd (f x h1) = h1 @ ds" using extendsD [OF f] by blast
      with run cs Inr show ?thesis by (simp add: eff_bind_def)
    qed
  qed
  then show ?thesis by (simp add: issues_def)
qed

lemma issues_later: "extends m \<Longrightarrow> (\<And>h. \<exists>x. fst (m h) = Inr x) \<Longrightarrow> (\<And>x. issues c (f x)) \<Longrightarrow> issues c (eff_bind m f)"
proof -
  assume m: "extends m" and ok: "\<And>h. \<exists>x. fst (m h) = Inr x" and f: "\<And>x. issues c (f x)"
  have "\<exists>cs. snd (eff_bind m f h) = h @ cs \<and> c \<in> set cs" for h
  proof -
    obtain x h1 where run: "m h = (Inr x, h1)" using ok by (metis prod.collapse)
    then obtain cs where "h1 = h @ cs" using extendsD [OF m] by (metis snd_conv)
    moreover obtain ds where "snd (f x h1) = h1 @ ds" "c \<in> set ds" using f by (metis issues_def)
    ultimately show ?thesis using run by (simp add: eff_bind_def)
  qed
  then show ?thesis by (simp add: issues_def)
qed

lemma issues_attempt: "issues c m \<Longrightarrow> issues c (eff_attempt m)"
  by (simp add: issues_def eff_attempt_run)

lemma eff_collect_ok: "\<exists>errs. fst ((eff_collect f xs :: ('c, 'g, 'e list) eff) h) = Inr errs"
proof (induction xs arbitrary: h)
  case (Cons x xs)
  let ?rest = "(eff_collect f xs :: ('c, 'g, 'e list) eff) (snd (f x h))"
  obtain errs where "fst ?rest = Inr errs" using Cons by blast
  then obtain h2 where "?rest = (Inr errs, h2)" by (cases ?rest) simp
  then show ?case by (simp add: eff_bind_attempt) (simp add: eff_bind_def eff_return_run)
qed (simp add: eff_return_run)

lemma extends_collect: "\<forall>x. extends (f x) \<Longrightarrow> extends (eff_collect f xs)"
  unfolding extends_def by (intro emits_collect) blast

lemma issues_collect:
  "x \<in> set xs \<Longrightarrow> issues c (f x) \<Longrightarrow> \<forall>x. extends (f x) \<Longrightarrow>
    issues c (eff_collect f xs :: ('c, 'g, 'e list) eff)"
proof (induction xs)
  case (Cons y ys)
  have rest: "extends (eff_bind (eff_collect f ys) (\<lambda>errs. eff_return (case r of Inl e \<Rightarrow> e # errs | Inr _ \<Rightarrow> errs))
      :: ('c, 'g, 'e list) eff)" for r :: "'e + unit"
    using extends_collect [OF Cons.prems(3), of ys] unfolding extends_def by (auto intro!: emits_bind emits_return)
  show ?case
  proof (cases "x = y")
    case True
    with Cons.prems(2) rest show ?thesis by (simp add: issues_bind issues_attempt)
  next
    case False
    then have "issues c (eff_collect f ys :: ('c, 'g, 'e list) eff)" using Cons by auto
    then have "issues c (eff_bind (eff_collect f ys) (\<lambda>errs. eff_return (case r of Inl e \<Rightarrow> e # errs | Inr _ \<Rightarrow> errs))
        :: ('c, 'g, 'e list) eff)" for r :: "'e + unit"
      by (rule issues_bind) (auto simp: extends_def intro: emits_return)
    moreover have "extends (eff_attempt (f y) :: ('c, 'g, 'e + unit) eff)"
      using Cons.prems(3) by (simp add: extends_def emits_attempt)
    ultimately show ?thesis unfolding eff_collect.simps by - (rule issues_later, simp_all add: eff_attempt_run)
  qed
qed simp

section \<open>Results of pure code\<close>

text \<open>A loop over a slice that returns at the first error and appends the results.\<close>

fun result_map :: "('a \<Rightarrow> 'e + 'b) \<Rightarrow> 'a list \<Rightarrow> 'e + 'b list" where
  "result_map f [] = Inr []"
| "result_map f (x # xs) =
     (case f x of Inl e \<Rightarrow> Inl e
      | Inr y \<Rightarrow> (case result_map f xs of Inl e \<Rightarrow> Inl e | Inr ys \<Rightarrow> Inr (y # ys)))"

lemma result_map_Inr_iff:
  "result_map f xs = Inr ys \<longleftrightarrow> list_all2 (\<lambda>x y. f x = Inr y) xs ys"
proof (induction xs arbitrary: ys)
  case Nil
  then show ?case by auto
next
  case (Cons x xs)
  then show ?case
    by (cases "f x"; cases "result_map f xs") (auto simp: list_all2_Cons1)
qed

lemma result_map_Inl_iff:
  "(\<exists>e. result_map f xs = Inl e) \<longleftrightarrow> (\<exists>x\<in>set xs. \<exists>e. f x = Inl e)"
  by (induction xs) (auto split: sum.splits)

lemma result_map_first_error:
  "f x = Inl e \<Longrightarrow> result_map f ys = Inr zs \<Longrightarrow> result_map f (ys @ x # xs) = Inl e"
  by (induction ys arbitrary: zs) (auto split: sum.splits)

section \<open>Go maps\<close>

text \<open>
  A Go map is an association list with distinct keys. Iterating over it visits the
  entries in an order the runtime chooses: \<open>map_iter seed\<close> is the order that the
  choices \<open>seed\<close> make, and every order is made by some choices.
\<close>

fun map_iter :: "nat list \<Rightarrow> 'a list \<Rightarrow> 'a list" where
  "map_iter _ [] = []"
| "map_iter [] (x # xs) = x # map_iter [] xs"
| "map_iter (n # ns) (x # xs) =
     (let i = n mod Suc (length xs); ys = x # xs in
      ys ! i # map_iter ns (take i ys @ drop (Suc i) ys))"

lemma mset_take_nth_drop: "i < length ys \<Longrightarrow> add_mset (ys ! i) (mset (take i ys @ drop (Suc i) ys)) = mset ys"
  by (metis add_mset_add_single id_take_nth_drop mset.simps(2) mset_append union_mset_add_mset_right)

lemma mset_map_iter [simp]: "mset (map_iter seed xs) = mset xs"
proof (induction seed xs rule: map_iter.induct)
  case (3 n ns x xs)
  define i where "i = n mod Suc (length xs)"
  have "i < length (x # xs)" by (simp add: i_def)
  from mset_take_nth_drop [OF this] 3 [OF i_def refl] show ?case
    by (simp add: Let_def i_def [symmetric])
qed auto

lemma set_map_iter [simp]: "set (map_iter seed xs) = set xs"
  by (metis mset_map_iter set_mset_mset)

lemma length_map_iter [simp]: "length (map_iter seed xs) = length xs"
  by (metis mset_map_iter size_mset)

lemma distinct_map_iter [simp]: "distinct (map_iter seed xs) = distinct xs"
  by (metis distinct_count_atmost_1 mset_map_iter set_map_iter)

lemma distinct_map_map_iter [simp]: "distinct (map f (map_iter seed xs)) = distinct (map f xs)"
  by (metis mset_map mset_map_iter mset_eq_imp_distinct_iff)

lemma map_iter_Nil_seed [simp]: "map_iter [] xs = xs"
  by (induction xs) auto

text \<open>Every order is possible, so a statement for all seeds is about every order.\<close>

lemma map_iter_surj: "mset ys = mset xs \<Longrightarrow> \<exists>seed. map_iter seed xs = ys"
proof (induction ys arbitrary: xs)
  case Nil
  then show ?case by simp
next
  case (Cons y ys)
  then have "y \<in> set xs" by (metis list.set_intros(1) mset_eq_setD)
  then obtain i where i: "i < length xs" "xs ! i = y" by (auto simp: in_set_conv_nth)
  have "mset ys = mset (take i xs @ drop (Suc i) xs)"
    using mset_take_nth_drop [OF i(1)] Cons.prems i(2) by (metis add_left_imp_eq add_mset_add_single mset.simps(2) union_commute)
  then obtain seed where seed: "map_iter seed (take i xs @ drop (Suc i) xs) = ys"
    using Cons.IH by blast
  from i obtain x' xs' where xs: "xs = x' # xs'" by (cases xs) auto
  with i have "i mod Suc (length xs') = i" by simp
  with seed i xs have "map_iter (i # seed) xs = y # ys" by (simp add: Let_def)
  then show ?case by blast
qed

text \<open>\<open>lo.SliceToMap\<close> and writing a map entry: a later entry replaces an earlier one.\<close>

fun slice_to_map :: "('a \<Rightarrow> 'k) \<Rightarrow> ('a \<Rightarrow> 'v) \<Rightarrow> ('k \<times> 'v) list \<Rightarrow> 'a list \<Rightarrow> ('k \<times> 'v) list" where
  "slice_to_map key val m [] = m"
| "slice_to_map key val m (x # xs) = slice_to_map key val (AList.update (key x) (val x) m) xs"

lemma slice_to_map_append:
  "slice_to_map key val m (xs @ ys) = slice_to_map key val (slice_to_map key val m xs) ys"
  by (induction xs arbitrary: m) auto

lemma distinct_slice_to_map:
  "distinct (map fst m) \<Longrightarrow> distinct (map fst (slice_to_map key val m xs))"
  by (induction xs arbitrary: m) (auto simp: distinct_update)

lemma map_of_slice_to_map:
  "map_of (slice_to_map key val m xs) k =
    (case find (\<lambda>x. key x = k) (rev xs) of Some x \<Rightarrow> Some (val x) | None \<Rightarrow> map_of m k)"
proof (induction xs arbitrary: m rule: rev_induct)
  case Nil
  then show ?case by simp
next
  case (snoc x xs)
  then show ?case by (simp add: slice_to_map_append update_conv')
qed

lemma dom_slice_to_map: "dom (map_of (slice_to_map key val m xs)) = dom (map_of m) \<union> key ` set xs"
  by (induction xs arbitrary: m) (auto simp: update_conv')

lemma find_unique:
  assumes "distinct (map f xs)" "x \<in> set xs"
  shows "find (\<lambda>y. f y = f x) xs = Some x"
  using assms by (induction xs) (auto simp: image_iff)

lemma map_of_slice_to_map_unique:
  assumes "distinct (map key xs)" "x \<in> set xs"
  shows "map_of (slice_to_map key val m xs) (key x) = Some (val x)"
proof -
  have "distinct (map key (rev xs))" using assms(1) by (simp add: rev_map [symmetric])
  then have "find (\<lambda>y. key y = key x) (rev xs) = Some x"
    using assms(2) by (intro find_unique) auto
  then show ?thesis by (simp add: map_of_slice_to_map)
qed

section \<open>Sorting by a comparison function\<close>

text \<open>
  \<open>sort.Slice\<close> and \<open>sort.Strings\<close>, written as insertion sort. That the code's
  result does not depend on the algorithm of the library is proved below for every
  \<open>lt\<close> that orders the elements totally (locale \<open>strict_order\<close>).
\<close>

fun insert_by :: "('a \<Rightarrow> 'a \<Rightarrow> bool) \<Rightarrow> 'a \<Rightarrow> 'a list \<Rightarrow> 'a list" where
  "insert_by lt x [] = [x]"
| "insert_by lt x (y # ys) = (if lt y x then y # insert_by lt x ys else x # y # ys)"

fun sort_by :: "('a \<Rightarrow> 'a \<Rightarrow> bool) \<Rightarrow> 'a list \<Rightarrow> 'a list" where
  "sort_by lt [] = []"
| "sort_by lt (x # xs) = insert_by lt x (sort_by lt xs)"

lemma mset_insert_by [simp]: "mset (insert_by lt x xs) = add_mset x (mset xs)"
  by (induction xs) auto

lemma mset_sort_by [simp]: "mset (sort_by lt xs) = mset xs"
  by (induction xs) auto

lemma set_sort_by [simp]: "set (sort_by lt xs) = set xs"
  by (metis mset_sort_by set_mset_mset)

lemma length_sort_by [simp]: "length (sort_by lt xs) = length xs"
  by (metis mset_sort_by size_mset)

lemma distinct_sort_by [simp]: "distinct (sort_by lt xs) = distinct xs"
  by (metis distinct_count_atmost_1 mset_sort_by set_sort_by)

locale strict_order =
  fixes lt :: "'a \<Rightarrow> 'a \<Rightarrow> bool" and ok :: "'a list \<Rightarrow> bool"
  assumes irrefl: "\<not> lt x x"
    and trans: "lt x y \<Longrightarrow> lt y z \<Longrightarrow> lt x z"
    and total: "ok xs \<Longrightarrow> x \<in> set xs \<Longrightarrow> y \<in> set xs \<Longrightarrow> x \<noteq> y \<Longrightarrow> lt x y \<or> lt y x"
begin

lemma asym: "lt x y \<Longrightarrow> \<not> lt y x"
  using irrefl trans by blast

lemma insert_by_sorted:
  assumes "sorted_wrt (\<lambda>a b. \<not> lt b a) xs"
    and "\<And>y z. y \<in> set (x # xs) \<Longrightarrow> z \<in> set (x # xs) \<Longrightarrow> y \<noteq> z \<Longrightarrow> lt y z \<or> lt z y"
  shows "sorted_wrt (\<lambda>a b. \<not> lt b a) (insert_by lt x xs)"
  using assms
proof (induction xs)
  case Nil
  then show ?case by simp
next
  case (Cons y ys)
  have set_ins: "set (insert_by lt x ys) = insert x (set ys)"
    by (metis mset_insert_by set_mset_add_mset_insert set_mset_mset)
  show ?case
  proof (cases "lt y x")
    case True
    have "sorted_wrt (\<lambda>a b. \<not> lt b a) (insert_by lt x ys)"
      using Cons.prems by (intro Cons.IH) auto
    with True Cons.prems(1) show ?thesis by (auto simp: set_ins dest: asym)
  next
    case False
    have "\<not> lt z x" if "z \<in> set ys" for z
    proof
      assume "lt z x"
      with False have "z \<noteq> y" by blast
      with Cons.prems(1) that have "\<not> lt z y" by auto
      with \<open>z \<noteq> y\<close> Cons.prems(2) [of y z] that have "lt y z" by auto
      from this \<open>lt z x\<close> have "lt y x" by (rule trans)
      with False show False ..
    qed
    with False Cons.prems(1) show ?thesis by auto
  qed
qed

lemma sort_by_sorted:
  assumes "ok xs"
  shows "sorted_wrt (\<lambda>a b. \<not> lt b a) (sort_by lt xs)"
proof -
  have "sorted_wrt (\<lambda>a b. \<not> lt b a) (sort_by lt ys)" if "set ys \<subseteq> set xs" for ys
    using that
  proof (induction ys)
    case Nil
    then show ?case by simp
  next
    case (Cons y ys)
    have "lt a b \<or> lt b a" if "a \<in> set (y # ys)" "b \<in> set (y # ys)" "a \<noteq> b" for a b
      using total [OF assms] that Cons.prems by blast
    moreover have "sorted_wrt (\<lambda>a b. \<not> lt b a) (sort_by lt ys)"
      using Cons by simp
    ultimately have "sorted_wrt (\<lambda>a b. \<not> lt b a) (insert_by lt y (sort_by lt ys))"
      by (intro insert_by_sorted) (simp_all only: set_sort_by list.set)
    then show ?case by simp
  qed
  then show ?thesis by simp
qed

text \<open>A sorted arrangement of given elements is unique, whatever computes it.\<close>

lemma sorted_unique:
  assumes "ok xs" "mset ys = mset xs" "mset zs = mset xs"
    and "sorted_wrt (\<lambda>a b. \<not> lt b a) ys" "sorted_wrt (\<lambda>a b. \<not> lt b a) zs"
  shows "ys = zs"
proof -
  have tot: "lt a b \<or> lt b a" if "a \<in> set xs" "b \<in> set xs" "a \<noteq> b" for a b
    using total [OF assms(1)] that by blast
  have "ys = zs" if "mset ys = mset zs" "set ys \<subseteq> set xs"
      "sorted_wrt (\<lambda>a b. \<not> lt b a) ys" "sorted_wrt (\<lambda>a b. \<not> lt b a) zs" for ys zs
    using that
  proof (induction ys arbitrary: zs)
    case Nil
    then show ?case by simp
  next
    case (Cons y ys)
    then obtain z zs' where zs: "zs = z # zs'" by (cases zs) auto
    have sets: "set (y # ys) = set (z # zs')" using Cons.prems(1) zs by (metis mset_eq_setD)
    have "y = z"
    proof (rule ccontr)
      assume "y \<noteq> z"
      with sets have "z \<in> set ys" "y \<in> set zs'" by auto
      with Cons.prems(3,4) zs have "\<not> lt z y" "\<not> lt y z" by auto
      with tot [of y z] Cons.prems(2) \<open>z \<in> set ys\<close> \<open>y \<noteq> z\<close> show False by auto
    qed
    with Cons zs show ?case by auto
  qed
  moreover have "mset ys = mset zs" using assms by simp
  moreover have "set ys \<subseteq> set xs" using assms(2) by (metis mset_eq_setD subset_refl)
  ultimately show ?thesis using assms(4,5) by blast
qed

lemma sort_by_perm_eq:
  assumes "ok xs" "mset ys = mset xs" "ok ys"
  shows "sort_by lt ys = sort_by lt xs"
  using assms sort_by_sorted by (intro sorted_unique [of xs]) auto

lemma sort_by_sorted_id:
  assumes "ok xs" "sorted_wrt (\<lambda>a b. \<not> lt b a) xs"
  shows "sort_by lt xs = xs"
  using assms sort_by_sorted by (intro sorted_unique [of xs]) auto

end

text \<open>\<open>sort.Strings\<close>: the byte order of strings is total.\<close>

definition sort_strings :: "string list \<Rightarrow> string list" where
  "sort_strings xs = sort_by (<) xs"

interpretation strings: strict_order "(<) :: string \<Rightarrow> string \<Rightarrow> bool" "\<lambda>_. True"
  by unfold_locales auto

lemma sort_strings_perm: "mset xs = mset ys \<Longrightarrow> sort_strings xs = sort_strings ys"
  unfolding sort_strings_def by (rule strings.sort_by_perm_eq) auto

lemma mset_sort_strings [simp]: "mset (sort_strings xs) = mset xs"
  by (simp add: sort_strings_def)

lemma set_sort_strings [simp]: "set (sort_strings xs) = set xs"
  by (simp add: sort_strings_def)

lemma distinct_sort_strings [simp]: "distinct (sort_strings xs) = distinct xs"
  by (simp add: sort_strings_def)

lemma sorted_sort_strings: "sorted (sort_strings xs)"
  using strings.sort_by_sorted [of xs] by (simp add: sort_strings_def not_less)

lemma sort_strings_eq_sort: "sort_strings xs = sort xs"
  by (metis mset_sort_strings properties_for_sort sorted_sort_strings)

lemma find_SomeD: "List.find P xs = Some x \<Longrightarrow> P x \<and> x \<in> set xs"
  by (induction xs) (auto split: if_splits)

lemma find_None_ball: "List.find P xs = None \<longleftrightarrow> (\<forall>x\<in>set xs. \<not> P x)"
  by (auto simp: find_None_iff)

section \<open>Pointers\<close>

text \<open>\<open>lo.FromPtr\<close>: the pointed-to value, or the zero value of the type for nil.\<close>

definition from_ptr :: "'a \<Rightarrow> 'a option \<Rightarrow> 'a" where
  "from_ptr zero p = (case p of None \<Rightarrow> zero | Some x \<Rightarrow> x)"

lemma from_ptr_simps [simp]: "from_ptr z None = z" "from_ptr z (Some x) = x"
  by (simp_all add: from_ptr_def)

abbreviation str_ptr :: "string option \<Rightarrow> string" where
  "str_ptr \<equiv> from_ptr []"

abbreviation int_ptr :: "int option \<Rightarrow> int" where
  "int_ptr \<equiv> from_ptr 0"

abbreviation bool_ptr :: "bool option \<Rightarrow> bool" where
  "bool_ptr \<equiv> from_ptr False"

end
