(* ===== verification/GoStrings.thy ===== *)
theory GoStrings
  imports Prelude
begin

text \<open>
  The parts of Go's \<open>strings\<close>, \<open>strconv\<close> and \<open>fmt\<close> packages that the controller
  uses. A Go string is a sequence of bytes, here a list of 8-bit characters; sources
  that work on runes (\<open>TrimSpace\<close>, \<open>ToLower\<close>, regular expressions) decode UTF-8.
\<close>

section \<open>Prefixes, suffixes, substrings\<close>

definition has_prefix :: "string \<Rightarrow> string \<Rightarrow> bool" where
  "has_prefix s p \<longleftrightarrow> take (length p) s = p"

definition has_suffix :: "string \<Rightarrow> string \<Rightarrow> bool" where
  "has_suffix s p \<longleftrightarrow> length p \<le> length s \<and> drop (length s - length p) s = p"

text \<open>\<open>strings.CutPrefix\<close> and \<open>CutSuffix\<close>: \<open>None\<close> is the result with \<open>false\<close>.\<close>

definition cut_prefix :: "string \<Rightarrow> string \<Rightarrow> string option" where
  "cut_prefix s p = (if has_prefix s p then Some (drop (length p) s) else None)"

definition cut_suffix :: "string \<Rightarrow> string \<Rightarrow> string option" where
  "cut_suffix s p = (if has_suffix s p then Some (take (length s - length p) s) else None)"

definition trim_prefix :: "string \<Rightarrow> string \<Rightarrow> string" where
  "trim_prefix s p = (case cut_prefix s p of Some r \<Rightarrow> r | None \<Rightarrow> s)"

definition trim_suffix :: "string \<Rightarrow> string \<Rightarrow> string" where
  "trim_suffix s p = (case cut_suffix s p of Some r \<Rightarrow> r | None \<Rightarrow> s)"

fun str_contains :: "string \<Rightarrow> string \<Rightarrow> bool" where
  "str_contains [] p = (p = [])"
| "str_contains (c # cs) p = (has_prefix (c # cs) p \<or> str_contains cs p)"

text \<open>\<open>strings.Cut\<close> at a separator: what precedes and follows its first occurrence.\<close>

fun str_cut :: "string \<Rightarrow> string \<Rightarrow> (string \<times> string) option" where
  "str_cut [] p = (if p = [] then Some ([], []) else None)"
| "str_cut (c # cs) p =
     (if has_prefix (c # cs) p then Some ([], drop (length p) (c # cs))
      else map_option (\<lambda>(a, b). (c # a, b)) (str_cut cs p))"

lemma has_prefix_append [simp]: "has_prefix (p @ s) p"
  by (simp add: has_prefix_def)

lemma has_prefixE: "has_prefix s p \<Longrightarrow> \<exists>r. s = p @ r"
  by (metis append_take_drop_id has_prefix_def)

lemma has_prefix_iff: "has_prefix s p \<longleftrightarrow> (\<exists>r. s = p @ r)"
  using has_prefixE by auto

lemma has_suffix_iff: "has_suffix s p \<longleftrightarrow> (\<exists>r. s = r @ p)"
proof
  assume "has_suffix s p"
  then have "s = take (length s - length p) s @ p"
    unfolding has_suffix_def by (metis append_take_drop_id)
  then show "\<exists>r. s = r @ p" ..
qed (auto simp: has_suffix_def)

lemma cut_prefix_append [simp]: "cut_prefix (p @ s) p = Some s"
  by (simp add: cut_prefix_def)

lemma cut_prefix_Some: "cut_prefix s p = Some r \<longleftrightarrow> s = p @ r"
  by (auto simp: cut_prefix_def has_prefix_iff split: if_splits)

lemma cut_suffix_append [simp]: "cut_suffix (s @ p) p = Some s"
  by (simp add: cut_suffix_def has_suffix_def)

lemma cut_suffix_Some: "cut_suffix s p = Some r \<longleftrightarrow> s = r @ p"
  by (auto simp: cut_suffix_def has_suffix_iff split: if_splits)

lemma cut_suffix_None: "cut_suffix s p = None \<longleftrightarrow> (\<forall>r. s \<noteq> r @ p)"
  by (auto simp: cut_suffix_def has_suffix_iff)

lemma str_contains_iff: "str_contains s p \<longleftrightarrow> (\<exists>a b. s = a @ p @ b)"
proof (induction s)
  case Nil
  then show ?case by auto
next
  case (Cons c cs)
  have "(\<exists>a b. c # cs = a @ p @ b) \<longleftrightarrow> has_prefix (c # cs) p \<or> (\<exists>a b. cs = a @ p @ b)"
    by (auto simp: has_prefix_iff Cons_eq_append_conv)
  with Cons show ?case by simp
qed

lemma str_cut_None: "str_cut s p = None \<longleftrightarrow> \<not> str_contains s p"
  by (induction s) (auto simp: has_prefix_def)

lemma str_cut_Some: "str_cut s p = Some (a, b) \<Longrightarrow> s = a @ p @ b"
  by (induction s arbitrary: a) (auto simp: has_prefix_iff split: if_splits)

lemma str_cut_char: "c \<notin> set a \<Longrightarrow> str_cut (a @ c # b) [c] = Some (a, b)"
  by (induction a) (auto simp: has_prefix_def)

lemma str_contains_char: "str_contains s [c] \<longleftrightarrow> c \<in> set s"
  by (auto simp: str_contains_iff in_set_conv_decomp)

section \<open>Join and split\<close>

fun str_join :: "string \<Rightarrow> string list \<Rightarrow> string" where
  "str_join sep [] = []"
| "str_join sep [x] = x"
| "str_join sep (x # y # zs) = x @ sep @ str_join sep (y # zs)"

text \<open>\<open>strings.Split\<close> at a one-byte separator.\<close>

fun str_split :: "char \<Rightarrow> string \<Rightarrow> string list" where
  "str_split c [] = [[]]"
| "str_split c (x # xs) =
     (if x = c then [] # str_split c xs
      else (case str_split c xs of [] \<Rightarrow> [[x]] | y # ys \<Rightarrow> (x # y) # ys))"

lemma str_split_nonempty [simp]: "str_split c s \<noteq> []"
  by (induction s) (auto split: list.split)

lemma str_split_no_sep: "c \<notin> set s \<Longrightarrow> str_split c s = [s]"
  by (induction s) auto

lemma str_split_append: "c \<notin> set a \<Longrightarrow> str_split c (a @ c # b) = a # str_split c b"
  by (induction a) auto

lemma str_join_Cons: "ys \<noteq> [] \<Longrightarrow> str_join sep (x # ys) = x @ sep @ str_join sep ys"
  by (cases ys) auto

lemma str_split_join:
  assumes "xs \<noteq> []" "\<And>x. x \<in> set xs \<Longrightarrow> c \<notin> set x"
  shows "str_split c (str_join [c] xs) = xs"
  using assms
proof (induction xs)
  case Nil
  then show ?case by simp
next
  case (Cons x xs)
  then show ?case
    by (cases "xs = []") (auto simp: str_split_no_sep str_join_Cons str_split_append)
qed

lemma set_str_join: "set (str_join sep xs) \<subseteq> set sep \<union> (\<Union>x\<in>set xs. set x)"
  by (induction sep xs rule: str_join.induct) auto

lemma str_join_inj:
  assumes "xs \<noteq> []" "ys \<noteq> []" "\<And>x. x \<in> set xs \<union> set ys \<Longrightarrow> c \<notin> set x"
    and "str_join [c] xs = str_join [c] ys"
  shows "xs = ys"
proof -
  have "str_split c (str_join [c] xs) = xs" "str_split c (str_join [c] ys) = ys"
    using assms(1-3) by (blast intro: str_split_join)+
  with assms(4) show ?thesis by metis
qed

section \<open>White space\<close>

text \<open>The UTF-8 encodings of the runes for which \<open>unicode.IsSpace\<close> holds.\<close>

definition go_spaces :: "string list" where
  "go_spaces = [[CHR 0x09], [CHR 0x0A], [CHR 0x0B], [CHR 0x0C], [CHR 0x0D], [CHR 0x20],
    [CHR 0xC2, CHR 0x85], [CHR 0xC2, CHR 0xA0], [CHR 0xE1, CHR 0x9A, CHR 0x80],
    [CHR 0xE2, CHR 0x80, CHR 0x80], [CHR 0xE2, CHR 0x80, CHR 0x81],
    [CHR 0xE2, CHR 0x80, CHR 0x82], [CHR 0xE2, CHR 0x80, CHR 0x83],
    [CHR 0xE2, CHR 0x80, CHR 0x84], [CHR 0xE2, CHR 0x80, CHR 0x85],
    [CHR 0xE2, CHR 0x80, CHR 0x86], [CHR 0xE2, CHR 0x80, CHR 0x87],
    [CHR 0xE2, CHR 0x80, CHR 0x88], [CHR 0xE2, CHR 0x80, CHR 0x89],
    [CHR 0xE2, CHR 0x80, CHR 0x8A], [CHR 0xE2, CHR 0x80, CHR 0xA8],
    [CHR 0xE2, CHR 0x80, CHR 0xA9], [CHR 0xE2, CHR 0x80, CHR 0xAF],
    [CHR 0xE2, CHR 0x81, CHR 0x9F], [CHR 0xE3, CHR 0x80, CHR 0x80]]"

text \<open>White space starts and ends with a byte that is no printable ASCII character.\<close>

definition plain_char :: "char \<Rightarrow> bool" where
  "plain_char c \<longleftrightarrow> 0x20 < (of_char c :: nat) \<and> (of_char c :: nat) < 0x80"

lemma go_spaces_not_plain:
  "list_all (\<lambda>sp. sp \<noteq> [] \<and> \<not> plain_char (hd sp) \<and> \<not> plain_char (last sp)) go_spaces"
  by (simp add: go_spaces_def plain_char_def)

lemma go_spacesD:
  assumes "sp \<in> set go_spaces"
  shows "sp \<noteq> []" "\<not> plain_char (hd sp)" "\<not> plain_char (last sp)"
  using go_spaces_not_plain assms unfolding list_all_iff by blast+

definition starts_with_space :: "string \<Rightarrow> string option" where
  "starts_with_space s = List.find (has_prefix s) go_spaces"

lemma starts_with_space_Some:
  "starts_with_space s = Some sp \<Longrightarrow> has_prefix s sp \<and> sp \<noteq> [] \<and> sp \<in> set go_spaces"
  unfolding starts_with_space_def by (auto dest: find_SomeD go_spacesD(1))

function trim_left :: "string \<Rightarrow> string" where
  "trim_left s =
     (case starts_with_space s of None \<Rightarrow> s | Some sp \<Rightarrow> trim_left (drop (length sp) s))"
  by pat_completeness auto
termination
proof (relation "measure length", goal_cases)
  case 1
  then show ?case by simp
next
  case (2 s sp)
  then have "has_prefix s sp" "sp \<noteq> []" by (auto dest: starts_with_space_Some)
  then show ?case by (auto simp: has_prefix_iff)
qed

declare trim_left.simps [simp del]

definition ends_with_space :: "string \<Rightarrow> string option" where
  "ends_with_space s = List.find (has_suffix s) go_spaces"

lemma ends_with_space_Some:
  "ends_with_space s = Some sp \<Longrightarrow> has_suffix s sp \<and> sp \<noteq> [] \<and> sp \<in> set go_spaces"
  unfolding ends_with_space_def by (auto dest: find_SomeD go_spacesD(1))

function trim_right :: "string \<Rightarrow> string" where
  "trim_right s =
     (case ends_with_space s of None \<Rightarrow> s | Some sp \<Rightarrow> trim_right (take (length s - length sp) s))"
  by pat_completeness auto
termination
proof (relation "measure length", goal_cases)
  case 1
  then show ?case by simp
next
  case (2 s sp)
  then have "has_suffix s sp" "sp \<noteq> []" by (auto dest: ends_with_space_Some)
  then show ?case by (auto simp: has_suffix_iff)
qed

declare trim_right.simps [simp del]

text \<open>\<open>strings.TrimSpace\<close>.\<close>

definition trim_space :: "string \<Rightarrow> string" where
  "trim_space s = trim_right (trim_left s)"

text \<open>A string that neither starts nor ends with white space is unchanged.\<close>

definition trimmed :: "string \<Rightarrow> bool" where
  "trimmed s \<longleftrightarrow> starts_with_space s = None \<and> ends_with_space s = None"

lemma trim_space_trimmed: "trimmed s \<Longrightarrow> trim_space s = s"
  by (simp add: trimmed_def trim_space_def trim_left.simps [of s] trim_right.simps [of s])

lemma trim_space_Nil [simp]: "trim_space [] = []"
proof (rule trim_space_trimmed)
  have "\<not> has_prefix [] sp \<and> \<not> has_suffix [] sp" if "sp \<in> set go_spaces" for sp
    using go_spacesD(1) [OF that] by (simp add: has_prefix_iff has_suffix_iff)
  then show "trimmed []"
    by (simp add: trimmed_def starts_with_space_def ends_with_space_def find_None_ball)
qed

text \<open>Printable ASCII characters at both ends suffice.\<close>

lemma starts_with_space_plain:
  assumes "plain_char c"
  shows "starts_with_space (c # s) = None"
proof -
  have "\<not> has_prefix (c # s) sp" if "sp \<in> set go_spaces" for sp
    using go_spacesD(1,2) [OF that] assms by (auto simp: has_prefix_iff Cons_eq_append_conv)
  then show ?thesis by (simp add: starts_with_space_def find_None_ball)
qed

lemma ends_with_space_plain:
  assumes "plain_char c"
  shows "ends_with_space (s @ [c]) = None"
proof -
  have "\<not> has_suffix (s @ [c]) sp" if "sp \<in> set go_spaces" for sp
  proof
    assume "has_suffix (s @ [c]) sp"
    then obtain r where "s @ [c] = r @ sp" by (auto simp: has_suffix_iff)
    then have "last sp = c" using go_spacesD(1) [OF that] by (metis last_appendR last_snoc)
    with go_spacesD(3) [OF that] assms show False by simp
  qed
  then show ?thesis by (simp add: ends_with_space_def find_None_ball)
qed

lemma trimmed_plain:
  assumes "s \<noteq> []" "plain_char (hd s)" "plain_char (last s)"
  shows "trimmed s"
proof -
  from assms obtain c r where "s = c # r" "plain_char c" by (cases s) auto
  moreover from assms have "s = butlast s @ [last s]" by simp
  ultimately show ?thesis
    unfolding trimmed_def using starts_with_space_plain ends_with_space_plain assms by metis
qed

section \<open>Case mapping\<close>

text \<open>
  \<open>strings.ToLower\<close> as far as its ASCII output can tell: ASCII letters, and the two
  other runes whose lower case is ASCII (U+0130 and U+212A). Other bytes stay.
\<close>

definition lower_char :: "char \<Rightarrow> char" where
  "lower_char c = (if 65 \<le> (of_char c :: nat) \<and> (of_char c :: nat) \<le> 90
     then char_of ((of_char c :: nat) + 32) else c)"

fun to_lower :: "string \<Rightarrow> string" where
  "to_lower [] = []"
| "to_lower (c # cs) =
     (if has_prefix (c # cs) [CHR 0xC4, CHR 0xB0] then CHR ''i'' # to_lower (drop 1 cs)
      else if has_prefix (c # cs) [CHR 0xE2, CHR 0x84, CHR 0xAA] then CHR ''k'' # to_lower (drop 2 cs)
      else lower_char c # to_lower cs)"

section \<open>Decimal and hexadecimal output\<close>

definition digit_char :: "nat \<Rightarrow> char" where
  "digit_char n = (if n < 10 then char_of (48 + n) else char_of (87 + n))"

fun nat_to_string :: "nat \<Rightarrow> string" where
  "nat_to_string n =
     (if n < 10 then [digit_char n] else nat_to_string (n div 10) @ [digit_char (n mod 10)])"

declare nat_to_string.simps [simp del]

text \<open>\<open>strconv.Itoa\<close> and \<open>%d\<close>.\<close>

definition int_to_string :: "int \<Rightarrow> string" where
  "int_to_string i = (if i < 0 then ''-'' @ nat_to_string (nat (- i)) else nat_to_string (nat i))"

text \<open>\<open>%0<n>d\<close>: the sign counts as a digit and zeros follow it.\<close>

definition pad_zero :: "nat \<Rightarrow> string \<Rightarrow> string" where
  "pad_zero n s = replicate (n - length s) (CHR ''0'') @ s"

fun hex_digits :: "nat \<Rightarrow> nat \<Rightarrow> string" where
  "hex_digits 0 n = []"
| "hex_digits (Suc k) n = hex_digits k (n div 16) @ [digit_char (n mod 16)]"

definition digit_value :: "char \<Rightarrow> nat" where
  "digit_value c = (of_char c :: nat) - 48"

definition string_to_nat :: "string \<Rightarrow> nat" where
  "string_to_nat s = foldl (\<lambda>a c. 10 * a + digit_value c) 0 s"

lemma digit_value_digit_char [simp]: "n < 10 \<Longrightarrow> digit_value (digit_char n) = n"
  by (simp add: digit_value_def digit_char_def)

lemma string_to_nat_inverse: "string_to_nat (nat_to_string n) = n"
proof (induction n rule: nat_to_string.induct)
  case (1 n)
  then show ?case
    by (cases "n < 10") (auto simp: nat_to_string.simps [of n] string_to_nat_def)
qed

lemma nat_to_string_inj: "nat_to_string m = nat_to_string n \<longleftrightarrow> m = n"
  by (metis string_to_nat_inverse)

definition is_digit :: "char \<Rightarrow> bool" where
  "is_digit c \<longleftrightarrow> 48 \<le> (of_char c :: nat) \<and> (of_char c :: nat) \<le> 57"

lemma is_digit_digit_char: "n < 10 \<Longrightarrow> is_digit (digit_char n)"
  by (simp add: is_digit_def digit_char_def)

lemma nat_to_string_digits: "c \<in> set (nat_to_string n) \<Longrightarrow> is_digit c"
proof (induction n rule: nat_to_string.induct)
  case (1 n)
  then show ?case
    by (cases "n < 10") (auto simp: nat_to_string.simps [of n] is_digit_digit_char)
qed

lemma nat_to_string_nonempty [simp]: "nat_to_string n \<noteq> []"
  by (simp add: nat_to_string.simps [of n])

lemma length_hex_digits [simp]: "length (hex_digits k n) = k"
  by (induction k arbitrary: n) auto

text \<open>
  \<open>strconv.Atoi\<close>: an optional sign and decimal digits whose value is in the range of a 64 bit
  integer.
\<close>

definition go_atoi :: "string \<Rightarrow> int option" where
  "go_atoi s =
     (let (neg, ds) = (case s of
            [] \<Rightarrow> (False, [])
          | c # r \<Rightarrow> if c = CHR ''-'' then (True, r) else if c = CHR ''+'' then (False, r) else (False, s));
          v = (if neg then - int (string_to_nat ds) else int (string_to_nat ds))
      in if ds = [] \<or> \<not> list_all is_digit ds \<or> v < - (2 ^ 63) \<or> 2 ^ 63 \<le> v then None else Some v)"

lemma nat_to_string_all_digits: "list_all is_digit (nat_to_string n)"
  by (simp add: list_all_iff nat_to_string_digits)

lemma go_atoi_int_to_string: "- (2 ^ 63) \<le> i \<Longrightarrow> i < 2 ^ 63 \<Longrightarrow> go_atoi (int_to_string i) = Some i"
proof -
  assume range: "- (2 ^ 63) \<le> i" "i < 2 ^ 63"
  have hd: "hd (nat_to_string n) \<noteq> CHR ''-''" "hd (nat_to_string n) \<noteq> CHR ''+''" for n
    using nat_to_string_digits [of "hd (nat_to_string n)" n] by (auto simp: is_digit_def)
  show ?thesis
  proof (cases "i < 0")
    case True
    with range show ?thesis
      by (simp add: go_atoi_def int_to_string_def string_to_nat_inverse nat_to_string_all_digits)
  next
    case False
    obtain c r where cr: "nat_to_string (nat i) = c # r" by (cases "nat_to_string (nat i)") auto
    with hd [of "nat i"] have "c \<noteq> CHR ''-''" "c \<noteq> CHR ''+''" by simp_all
    with False range cr nat_to_string_all_digits [of "nat i"] string_to_nat_inverse [of "nat i"] show ?thesis
      by (simp add: go_atoi_def int_to_string_def)
  qed
qed

end
