(* ===== verification/Errors.thy ===== *)
theory Errors
  imports GoStrings
begin

text \<open>
  Go errors as values (\<open>src/internal/app/errors.go\<close>): the sentinel and struct errors of
  the controller, wrapping by \<open>fmt.Errorf\<close> with \<open>%w\<close>, joining by \<open>errors.Join\<close>, and
  the search through wrapped errors that \<open>errors.As\<close> makes. An error of an OCI client is
  a \<open>ServiceError\<close> (the SDK's \<open>IsServiceError\<close> holds) or any other failure. \<open>ErrApi\<close> is
  an error of the Kubernetes API server with its reason. \<open>ErrRouteStatus\<close> is
  \<open>httpRouteStatusError\<close>, \<open>grpcRouteStatusError\<close>, \<open>tcpRouteStatusError\<close>, \<open>udpRouteStatusError\<close> or
  \<open>tlsRouteStatusError\<close>, by the kind of the route.
\<close>

datatype svc_error =
    ServiceError (svc_status: int) (svc_code: string) (svc_message: string)
  | TransportError string

datatype (plugins only: code size) error =
    ErrText string
  | ErrWrap string error string
  | ErrService svc_error
  | ErrApi string string
  | ErrUnsupportedMatch
  | ErrResourceStatus string string string "error option"
  | ErrReconcile string bool "error option"
  | ErrBusy string "svc_error option"
  | ErrJoin "error list"
  | ErrRouteStatus string string string string
  | ErrBackendTLSPolicyNotFound
  | ErrBackendTLSStatus string string
  | ErrCABundleStillAssociated
  | ErrDeadlineExceeded
  | ErrCanceled

text \<open>\<open>http.StatusNotFound\<close>, \<open>http.StatusConflict\<close> and \<open>http.StatusBadRequest\<close> of the SDK's error.\<close>

definition svc_has_status :: "int \<Rightarrow> svc_error \<Rightarrow> bool" where
  "svc_has_status n e = (case e of ServiceError st _ _ \<Rightarrow> st = n | TransportError _ \<Rightarrow> False)"

lemma svc_has_status_simps [simp]:
  "svc_has_status n (ServiceError st code msg) \<longleftrightarrow> st = n"
  "\<not> svc_has_status n (TransportError t)"
  by (simp_all add: svc_has_status_def)

text \<open>A message with an argument in the middle, as \<open>fmt.Errorf\<close> formats it.\<close>

definition errtext :: "string \<Rightarrow> string \<Rightarrow> string \<Rightarrow> string" where
  "errtext before arg after = before @ arg @ after"

section \<open>Error texts\<close>

text \<open>
  \<open>Error()\<close> of the error types; \<open>svc\<close> is the text of an SDK error. \<open>%t\<close> prints a
  boolean.
\<close>

definition bool_text :: "bool \<Rightarrow> string" where
  "bool_text b = (if b then ''true'' else ''false'')"

fun error_text :: "(svc_error \<Rightarrow> string) \<Rightarrow> error \<Rightarrow> string" where
  "error_text svc (ErrText m) = m"
| "error_text svc (ErrWrap pre e post) = pre @ error_text svc e @ post"
| "error_text svc (ErrService e) = svc e"
| "error_text svc (ErrApi reason m) = m"
| "error_text svc ErrUnsupportedMatch = ''unsupported match type''"
| "error_text svc (ErrResourceStatus ty reason msg (Some cause)) =
     ''resourceStatusError: type='' @ ty @ '', reason='' @ reason @ '', message='' @ msg @
     '', cause='' @ error_text svc cause"
| "error_text svc (ErrResourceStatus ty reason msg None) =
     ''resourceStatusError: type='' @ ty @ '', reason='' @ reason @ '', message='' @ msg"
| "error_text svc (ErrReconcile msg retriable (Some cause)) =
     ''reconcileError: retriable='' @ bool_text retriable @ '', message='' @ msg @
     '', cause='' @ error_text svc cause"
| "error_text svc (ErrReconcile msg retriable None) =
     ''reconcileError: retriable='' @ bool_text retriable @ '', message='' @ msg"
| "error_text svc (ErrBusy i (Some cause)) =
     ''OCI Network Load Balancer '' @ i @ '' is busy: '' @ svc cause"
| "error_text svc (ErrBusy i None) = ''OCI Network Load Balancer '' @ i @ '' is busy''"
| "error_text svc (ErrJoin es) = str_join [CHR 0x0A] (map (error_text svc) es)"
| "error_text svc (ErrRouteStatus kind ty reason msg) = msg"
| "error_text svc ErrBackendTLSPolicyNotFound = ''backend TLS policy not found''"
| "error_text svc (ErrBackendTLSStatus reason msg) = msg"
| "error_text svc ErrCABundleStillAssociated = ''backend TLS CA bundle still associated''"
| "error_text svc ErrDeadlineExceeded = ''context deadline exceeded''"
| "error_text svc ErrCanceled = ''context canceled''"

section \<open>Searching wrapped errors\<close>

text \<open>
  \<open>errors.As\<close>: the first error in the tree for which the target type fits. Of the
  controller's types only \<open>networkLoadBalancerBusyError\<close> and the errors of \<open>fmt\<close> and
  \<open>errors.Join\<close> have an \<open>Unwrap\<close> method; the causes of the other types are not searched.
\<close>

fun errors_as :: "(error \<Rightarrow> 'a option) \<Rightarrow> error \<Rightarrow> 'a option" where
  "errors_as p (ErrWrap pre e post) =
     (case p (ErrWrap pre e post) of Some x \<Rightarrow> Some x | None \<Rightarrow> errors_as p e)"
| "errors_as p (ErrJoin es) =
     (case p (ErrJoin es) of Some x \<Rightarrow> Some x
      | None \<Rightarrow> (case List.map_filter id (map (errors_as p) es) of [] \<Rightarrow> None | x # _ \<Rightarrow> Some x))"
| "errors_as p (ErrBusy i (Some cause)) =
     (case p (ErrBusy i (Some cause)) of Some x \<Rightarrow> Some x | None \<Rightarrow> p (ErrService cause))"
| "errors_as p e = p e"

fun status_of :: "error \<Rightarrow> (string \<times> string \<times> string) option" where
  "status_of (ErrResourceStatus ty reason msg _) = Some (ty, reason, msg)"
| "status_of _ = None"

fun route_status_of :: "string \<Rightarrow> error \<Rightarrow> (string \<times> string \<times> string) option" where
  "route_status_of kind (ErrRouteStatus k ty reason msg) = (if k = kind then Some (ty, reason, msg) else None)"
| "route_status_of kind _ = None"

fun backend_tls_status_of :: "error \<Rightarrow> (string \<times> string) option" where
  "backend_tls_status_of (ErrBackendTLSStatus reason msg) = Some (reason, msg)"
| "backend_tls_status_of _ = None"

text \<open>\<open>errors.Is\<close> for a sentinel.\<close>

definition errors_is :: "error \<Rightarrow> error \<Rightarrow> bool" where
  "errors_is err sentinel = (errors_as (\<lambda>e. if e = sentinel then Some () else None) err = Some ())"

fun svc_of :: "error \<Rightarrow> svc_error option" where
  "svc_of (ErrService e) = Some e"
| "svc_of _ = None"

fun api_reason :: "error \<Rightarrow> string option" where
  "api_reason (ErrApi reason _) = Some reason"
| "api_reason _ = None"

text \<open>\<open>IsNotFound\<close> and \<open>IsConflict\<close> of \<open>apierrors\<close>.\<close>

definition is_not_found :: "error \<Rightarrow> bool" where
  "is_not_found err = (errors_as api_reason err = Some ''NotFound'')"

definition is_conflict :: "error \<Rightarrow> bool" where
  "is_conflict err = (errors_as api_reason err = Some ''Conflict'')"

text \<open>\<open>meta.IsNoMatchError\<close>: the API server does not know the kind.\<close>

definition is_no_match :: "error \<Rightarrow> bool" where
  "is_no_match err = (errors_as api_reason err = Some ''NoMatch'')"

fun busy_of :: "error \<Rightarrow> string option" where
  "busy_of (ErrBusy i _) = Some i"
| "busy_of _ = None"

definition isParentGatewayStatusError :: "error \<Rightarrow> bool" where
  "isParentGatewayStatusError err =
     (case errors_as status_of err of
        None \<Rightarrow> False
      | Some (ty, _, _) \<Rightarrow> ty = ''Accepted'' \<or> ty = ''Programmed'')"

fun ReconcileError_IsRetriable :: "error \<Rightarrow> bool" where
  "ReconcileError_IsRetriable (ErrReconcile _ retriable _) = retriable"
| "ReconcileError_IsRetriable _ = False"

text \<open>A wrapped or joined status error is still recognised; a status error used as a cause is not.\<close>

lemma isParentGatewayStatusError_wrap:
  "isParentGatewayStatusError (ErrWrap pre e post) = isParentGatewayStatusError e"
  by (simp add: isParentGatewayStatusError_def)

end
