(* ===== verification/GatewayTypes.thy ===== *)
theory GatewayTypes
  imports GoStrings
begin

text \<open>
  The fields of the Gateway API and Kubernetes objects that the modelled code reads.
  Optional (pointer) fields are options; Go's string enumerations stay strings.
\<close>

record http_path_match =
  path_type :: "string option"
  path_value :: "string option"

text \<open>\<open>HTTPHeaderMatch\<close> and \<open>GRPCHeaderMatch\<close>.\<close>

record header_match =
  hm_type :: "string option"
  hm_name :: string
  hm_value :: string

record http_route_match =
  hrm_path :: "http_path_match option"
  hrm_headers :: "header_match list"
  hrm_query_params :: "string list"
  hrm_method :: "string option"

record grpc_method_match =
  gm_type :: "string option"
  gm_service :: "string option"
  gm_method :: "string option"

record grpc_route_match =
  grm_method :: "grpc_method_match option"
  grm_headers :: "header_match list"

text \<open>
  \<open>BackendObjectReference\<close> with the weight of an HTTP or GRPC backend reference. Group
  and kind are options because the API server defaults them and Go code checks for nil.
\<close>

record backend_ref =
  br_group :: "string option"
  br_kind :: "string option"
  br_name :: string
  br_namespace :: "string option"
  br_port :: "int option"
  br_weight :: "int option"

text \<open>A reference to a parent, and \<open>metav1.Condition\<close>, whose transition time is never compared.\<close>

record parent_ref =
  pr_group :: "string option"
  pr_kind :: "string option"
  pr_namespace :: "string option"
  pr_name :: string
  pr_section :: "string option"
  pr_port :: "int option"

record condition =
  cn_type :: string
  cn_status :: string
  cn_reason :: string
  cn_message :: string
  cn_generation :: int

record route_parent_status =
  rps_ref :: parent_ref
  rps_controller :: string
  rps_conditions :: "condition list"

text \<open>
  HTTPRoute and GRPCRoute have the same shape and differ in the matches of their rules;
  TCPRoute, UDPRoute and TLSRoute have rules without matches. A creation time is a number;
  \<open>rt_deleting\<close> says that a deletion timestamp is set.
\<close>

record 'm route_rule =
  rr_name :: "string option"
  rr_matches :: "'m list"
  rr_backend_refs :: "backend_ref list"

record 'm l7_route =
  rt_namespace :: string
  rt_name :: string
  rt_creation :: int
  rt_generation :: int
  rt_deleting :: bool
  rt_finalizers :: "string list"
  rt_annotations :: "(string \<times> string) list"
  rt_parent_refs :: "parent_ref list"
  rt_hostnames :: "string list"
  rt_rules :: "'m route_rule list"
  rt_parents :: "route_parent_status list"

type_synonym http_route = "http_route_match l7_route"
type_synonym grpc_route = "grpc_route_match l7_route"
type_synonym l4_route = "unit l7_route"

text \<open>A Gateway listener with its TLS settings; options are a map.\<close>

record secret_ref =
  sr_name :: string
  sr_namespace :: "string option"

record listener_tls =
  tls_mode :: "string option"
  tls_cert_refs :: "secret_ref list"
  tls_options :: "(string \<times> string) list"

text \<open>
  Which routes may attach to a listener. A namespace selector is the text of a label selector;
  what it selects is decided by the Kubernetes libraries.
\<close>

record route_group_kind =
  rgk_group :: "string option"
  rgk_kind :: string

record route_namespaces =
  rn_from :: "string option"
  rn_selector :: "string option"

record allowed_routes =
  ar_namespaces :: "route_namespaces option"
  ar_kinds :: "route_group_kind list"

record gw_listener =
  l_name :: string
  l_hostname :: "string option"
  l_port :: int
  l_protocol :: string
  l_tls :: "listener_tls option"
  l_allowed :: "allowed_routes option"

text \<open>\<open>ObjectReference\<close>, and the TLS settings of the frontend of a Gateway.\<close>

record object_ref =
  or_group :: string
  or_kind :: string
  or_name :: string
  or_namespace :: "string option"

record frontend_validation =
  fv_mode :: string
  fv_ca_refs :: "object_ref list"

record frontend_tls =
  ft_default :: "frontend_validation option"
  ft_per_port :: "(int \<times> frontend_validation option) list"

text \<open>
  A Gateway. The creation time is the text it is formatted to, \<open>None\<close> for the zero time;
  \<open>gw_deleting\<close> says that a deletion timestamp is set.
\<close>

record gateway =
  gw_namespace :: string
  gw_name :: string
  gw_uid :: string
  gw_creation :: "string option"
  gw_generation :: int
  gw_deleting :: bool
  gw_finalizers :: "string list"
  gw_annotations :: "(string \<times> string) list"
  gw_class_name :: string
  gw_parameters :: "string option"
  gw_listeners :: "gw_listener list"
  gw_allowed_listeners :: "route_namespaces option"
  gw_frontend :: "frontend_tls option"
  gw_conditions :: "condition list"
  gw_addresses :: "(string option \<times> string) list"
  gw_attached_listener_sets :: "int option"

record gateway_class =
  gc_name :: string
  gc_controller :: string
  gc_generation :: int
  gc_finalizers :: "string list"
  gc_annotations :: "(string \<times> string) list"
  gc_conditions :: "condition list"

text \<open>A ListenerSet with its status; \<open>ls_deleting\<close> says that a deletion timestamp is set.\<close>

record listener_entry_status =
  les_name :: string
  les_supported :: "route_group_kind list"
  les_attached :: int
  les_conditions :: "condition list"

record listener_set_status =
  lss_conditions :: "condition list"
  lss_listeners :: "listener_entry_status list"

record listener_set =
  ls_namespace :: string
  ls_name :: string
  ls_creation :: int
  ls_generation :: int
  ls_deleting :: bool
  ls_annotations :: "(string \<times> string) list"
  ls_parent :: parent_ref
  ls_listeners :: "gw_listener list"
  ls_status :: listener_set_status

text \<open>Reading a Go map of strings: the zero value for an absent key.\<close>

definition map_get :: "(string \<times> string) list \<Rightarrow> string \<Rightarrow> string" where
  "map_get m k = (case map_of m k of None \<Rightarrow> [] | Some v \<Rightarrow> v)"

lemma map_get_simps [simp]:
  "map_get [] k = []" "map_get ((k', v) # m) k = (if k = k' then v else map_get m k)"
  by (simp_all add: map_get_def)

text \<open>
  Services and endpoint slices. A target port is an \<open>IntOrString\<close>: whether it is a string,
  its integer field, and what its method \<open>IntValue\<close> returns.
\<close>

record target_port =
  tp_is_string :: bool
  tp_int_val :: int
  tp_int_value :: int

record service_port =
  sp_name :: string
  sp_port :: int
  sp_target_port :: target_port

record k8s_service =
  svc_namespace :: string
  svc_name :: string
  svc_ports :: "service_port list"

record endpoint =
  ep_addresses :: "string list"
  ep_ready :: "bool option"
  ep_terminating :: "bool option"

record endpoint_port =
  epp_name :: "string option"
  epp_port :: "int option"

record endpoint_slice =
  es_endpoints :: "endpoint list"
  es_ports :: "endpoint_port list"

text \<open>ReferenceGrants.\<close>

record grant_from =
  gf_group :: string
  gf_kind :: string
  gf_namespace :: string

record grant_to =
  gt_group :: string
  gt_kind :: string
  gt_name :: "string option"

record reference_grant =
  rg_namespace :: string
  rg_name :: string
  rg_uid :: string
  rg_version :: string
  rg_from :: "grant_from list"
  rg_to :: "grant_to list"

text \<open>
  A BackendTLSPolicy; the time of its creation as a number and as the text it is formatted to,
  \<open>None\<close> for the zero time. The status of an ancestor has the shape of a route's parent status.
\<close>

record policy_target_ref =
  ptr_group :: string
  ptr_kind :: string
  ptr_name :: string
  ptr_section :: "string option"

record ca_ref =
  cr_group :: string
  cr_kind :: string
  cr_name :: string

record backend_tls_policy =
  btp_namespace :: string
  btp_name :: string
  btp_uid :: string
  btp_creation :: int
  btp_creation_text :: "string option"
  btp_generation :: int
  btp_deleting :: bool
  btp_finalizers :: "string list"
  btp_annotations :: "(string \<times> string) list"
  btp_target_refs :: "policy_target_ref list"
  btp_ca_refs :: "ca_ref list"
  btp_well_known :: "string option"
  btp_subject_alt_names :: "string list"
  btp_options :: "(string \<times> string) list"
  btp_ancestors :: "route_parent_status list"

end
