(* ===== verification/RoutingConditions.thy ===== *)
theory RoutingConditions
  imports Errors GatewayTypes
begin

text \<open>
  \<open>src/internal/app/oci_load_balancer_routing_rules.go\<close>: the translation of HTTPRoute and
  GRPCRoute matches to the condition language of OCI routing policies. A user supplied
  value ends up inside a quoted literal of that language, so the central facts are that no
  value can leave its literal, and that the parts of a condition can be taken apart and put
  together again without loss.
\<close>

section \<open>Literals\<close>

definition isRegexMetaCharacter :: "char \<Rightarrow> bool" where
  "isRegexMetaCharacter c \<longleftrightarrow> c \<in> set ''.^$*+?()[]{}|''"

definition isOCIConditionLiteralByte :: "char \<Rightarrow> bool" where
  "isOCIConditionLiteralByte c \<longleftrightarrow>
     0x20 \<le> (of_char c :: nat) \<and> (of_char c :: nat) \<noteq> 0x7F \<and> c \<noteq> CHR 0x27"

fun parseRegexLiteralLoop :: "string \<Rightarrow> string option" where
  "parseRegexLiteralLoop [] = Some []"
| "parseRegexLiteralLoop (c # cs) =
     (if c \<noteq> CHR 0x5C then
        (if \<not> isOCIConditionLiteralByte c then None
         else if isRegexMetaCharacter c then None
         else map_option ((#) c) (parseRegexLiteralLoop cs))
      else (case cs of
        [] \<Rightarrow> None
      | d # ds \<Rightarrow>
          (if d = CHR ''.'' \<or> d = CHR ''/'' \<or> d = CHR 0x5C then
             (if \<not> isOCIConditionLiteralByte d then None
              else map_option ((#) d) (parseRegexLiteralLoop ds))
           else None)))"

definition parseRegexLiteral :: "string \<Rightarrow> string option" where
  "parseRegexLiteral value = (if value = [] then None else parseRegexLiteralLoop value)"

definition parseRegexForStartsWith :: "string \<Rightarrow> string option" where
  "parseRegexForStartsWith pattern =
     (case cut_prefix pattern ''^'' of
        None \<Rightarrow> None
      | Some value \<Rightarrow>
          parseRegexLiteral (trim_suffix (trim_suffix value ''.*$'') ''.*''))"

definition parseRegexForEndsWith :: "string \<Rightarrow> string option" where
  "parseRegexForEndsWith pattern =
     (case cut_suffix pattern ''$'' of
        None \<Rightarrow> None
      | Some value \<Rightarrow> parseRegexLiteral (trim_prefix value ''.*''))"

definition validateOCIConditionLiteral :: "string \<Rightarrow> string \<Rightarrow> error + unit" where
  "validateOCIConditionLiteral valueKind value =
     (if list_all isOCIConditionLiteralByte value then Inr ()
      else Inl (ErrWrap [] ErrUnsupportedMatch
        ('': '' @ valueKind @ '' contains characters unsupported by OCI routing policy conditions'')))"

section \<open>Matches\<close>

definition quoted :: "string \<Rightarrow> string" where
  "quoted v = [CHR 0x27] @ v @ [CHR 0x27]"

text \<open>The format strings of the conditions; \<open>op\<close> is \<open>eq\<close>, \<open>sw\<close> (starts with) or \<open>ew\<close>.\<close>

definition pathCondition :: "string \<Rightarrow> string \<Rightarrow> string" where
  "pathCondition op value = ''http.request.url.path '' @ op @ '' '' @ quoted value"

definition exactHeaderCondition :: "string \<Rightarrow> string \<Rightarrow> string" where
  "exactHeaderCondition name value =
     ''http.request.headers[(i '' @ quoted name @ '')] eq (i '' @ quoted value @ '')''"

definition firstHeaderCondition :: "string \<Rightarrow> string \<Rightarrow> string \<Rightarrow> string" where
  "firstHeaderCondition op name value =
     ''http.request.headers[(i '' @ quoted name @ '')][0] '' @ op @ '' (i '' @ quoted value @ '')''"

definition mapPathMatchToCondition :: "http_path_match \<Rightarrow> error + string" where
  "mapPathMatchToCondition pathMatch =
     (case path_value pathMatch of
        None \<Rightarrow> Inl (ErrText ''path match value cannot be nil'')
      | Some pathValue \<Rightarrow>
          (let pathType = (case path_type pathMatch of None \<Rightarrow> ''PathPrefix'' | Some t \<Rightarrow> t) in
           if pathType = ''Exact'' then
             (case validateOCIConditionLiteral ''path match value'' pathValue of
                Inl e \<Rightarrow> Inl e
              | Inr _ \<Rightarrow> Inr (pathCondition ''eq'' pathValue))
           else if pathType = ''PathPrefix'' then
             (case validateOCIConditionLiteral ''path match value'' pathValue of
                Inl e \<Rightarrow> Inl e
              | Inr _ \<Rightarrow> Inr (pathCondition ''sw'' pathValue))
           else if pathType = ''RegularExpression'' then
             Inl (ErrWrap [] ErrUnsupportedMatch '': regex path matching'')
           else
             Inl (ErrWrap [] ErrUnsupportedMatch ('': unknown path match type '' @ quoted pathType))))"

definition mapRegexHeaderValueToCondition :: "string \<Rightarrow> string \<Rightarrow> error + string" where
  "mapRegexHeaderValueToCondition headerName headerValue =
     (case validateOCIConditionLiteral ''header match name'' headerName of
        Inl e \<Rightarrow> Inl e
      | Inr _ \<Rightarrow>
          (case parseRegexForStartsWith headerValue of
             Some prefix \<Rightarrow> Inr (firstHeaderCondition ''sw'' headerName prefix)
           | None \<Rightarrow>
               (case parseRegexForEndsWith headerValue of
                  Some suffix \<Rightarrow> Inr (firstHeaderCondition ''ew'' headerName suffix)
                | None \<Rightarrow> Inl (ErrWrap [] ErrUnsupportedMatch
                    ('': regex header matching for header '' @ quoted headerName)))))"

definition mapRegexHeaderMatchToCondition :: "header_match \<Rightarrow> error + string" where
  "mapRegexHeaderMatchToCondition headerMatch =
     mapRegexHeaderValueToCondition (hm_name headerMatch) (hm_value headerMatch)"

definition mapHeaderMatchToCondition :: "header_match \<Rightarrow> error + string" where
  "mapHeaderMatchToCondition headerMatch =
     (let headerType = (case hm_type headerMatch of None \<Rightarrow> ''Exact'' | Some t \<Rightarrow> t) in
      if headerType = ''Exact'' then
        (case validateOCIConditionLiteral ''header match name'' (hm_name headerMatch) of
           Inl e \<Rightarrow> Inl e
         | Inr _ \<Rightarrow>
             (case validateOCIConditionLiteral ''header match value'' (hm_value headerMatch) of
                Inl e \<Rightarrow> Inl e
              | Inr _ \<Rightarrow> Inr (exactHeaderCondition (hm_name headerMatch) (hm_value headerMatch))))
      else if headerType = ''RegularExpression'' then mapRegexHeaderMatchToCondition headerMatch
      else Inl (ErrWrap [] ErrUnsupportedMatch
        ('': unknown header match type '' @ quoted headerType @ '' for header '' @
         quoted (hm_name headerMatch))))"

text \<open>The common tail of the match translations: none, one or \<open>all(...)\<close>.\<close>

definition combineConditions :: "string list \<Rightarrow> string" where
  "combineConditions conditions =
     (case conditions of
        [] \<Rightarrow> []
      | [c] \<Rightarrow> c
      | _ \<Rightarrow> ''all('' @ str_join '', '' conditions @ '')'')"

definition mapHTTPRouteMatchToCondition :: "http_route_match \<Rightarrow> error + string" where
  "mapHTTPRouteMatchToCondition match =
     (if hrm_query_params match \<noteq> [] then
        Inl (ErrWrap [] ErrUnsupportedMatch '': query parameter matching'')
      else if hrm_method match \<noteq> None then
        Inl (ErrWrap [] ErrUnsupportedMatch '': method matching'')
      else
        (case (case hrm_path match of
                 None \<Rightarrow> Inr []
               | Some p \<Rightarrow>
                   (case mapPathMatchToCondition p of Inl e \<Rightarrow> Inl e | Inr c \<Rightarrow> Inr [c])) of
           Inl e \<Rightarrow> Inl e
         | Inr pathConditions \<Rightarrow>
             (case result_map mapHeaderMatchToCondition (hrm_headers match) of
                Inl e \<Rightarrow> Inl e
              | Inr headerConditions \<Rightarrow>
                  Inr (combineConditions (pathConditions @ headerConditions)))))"

definition mapGRPCMethodMatchToCondition :: "grpc_method_match \<Rightarrow> error + string" where
  "mapGRPCMethodMatchToCondition methodMatch =
     (let matchType = (case gm_type methodMatch of None \<Rightarrow> ''Exact'' | Some t \<Rightarrow> t) in
      if matchType \<noteq> ''Exact'' then
        Inl (ErrWrap [] ErrUnsupportedMatch '': grpc regex method matching'')
      else
        (let service = trim_prefix (str_ptr (gm_service methodMatch)) ''.'';
             method = str_ptr (gm_method methodMatch) in
         case validateOCIConditionLiteral ''grpc service match value'' service of
           Inl e \<Rightarrow> Inl e
         | Inr _ \<Rightarrow>
             (case validateOCIConditionLiteral ''grpc method match value'' method of
                Inl e \<Rightarrow> Inl e
              | Inr _ \<Rightarrow>
                  (if service \<noteq> [] \<and> method \<noteq> [] then
                     Inr (pathCondition ''eq'' (''/'' @ service @ ''/'' @ method))
                   else if service \<noteq> [] then
                     Inr (pathCondition ''sw'' (''/'' @ service @ ''/''))
                   else if method \<noteq> [] then
                     Inr (pathCondition ''ew'' (''/'' @ method))
                   else Inl (ErrText ''grpc method match requires service or method'')))))"

definition mapGRPCHeaderMatchToCondition :: "header_match \<Rightarrow> error + string" where
  "mapGRPCHeaderMatchToCondition headerMatch =
     (let headerType = (case hm_type headerMatch of None \<Rightarrow> ''Exact'' | Some t \<Rightarrow> t) in
      if headerType = ''Exact'' then
        (case validateOCIConditionLiteral ''grpc header match name'' (hm_name headerMatch) of
           Inl e \<Rightarrow> Inl e
         | Inr _ \<Rightarrow>
             (case validateOCIConditionLiteral ''grpc header match value'' (hm_value headerMatch) of
                Inl e \<Rightarrow> Inl e
              | Inr _ \<Rightarrow> Inr (exactHeaderCondition (hm_name headerMatch) (hm_value headerMatch))))
      else if headerType = ''RegularExpression'' then
        mapRegexHeaderValueToCondition (hm_name headerMatch) (hm_value headerMatch)
      else Inl (ErrWrap [] ErrUnsupportedMatch
        ('': unsupported grpc header match type '' @ quoted headerType @ '' for header '' @
         quoted (hm_name headerMatch))))"

definition mapGRPCRouteMatchToCondition :: "grpc_route_match \<Rightarrow> error + string" where
  "mapGRPCRouteMatchToCondition match =
     (case (case grm_method match of
              None \<Rightarrow> Inr []
            | Some m \<Rightarrow>
                (case mapGRPCMethodMatchToCondition m of
                   Inl e \<Rightarrow> Inl e
                 | Inr c \<Rightarrow> Inr (if c \<noteq> [] then [c] else []))) of
        Inl e \<Rightarrow> Inl e
      | Inr methodConditions \<Rightarrow>
          (case result_map mapGRPCHeaderMatchToCondition (grm_headers match) of
             Inl e \<Rightarrow> Inl e
           | Inr headerConditions \<Rightarrow>
               Inr (combineConditions (methodConditions @ headerConditions))))"

text \<open>The conditions of a list of matches, without the empty ones.\<close>

definition mapHTTPRouteMatchesToConditions :: "http_route_match list \<Rightarrow> error + string list" where
  "mapHTTPRouteMatchesToConditions matches =
     (case result_map mapHTTPRouteMatchToCondition matches of
        Inl e \<Rightarrow> Inl e
      | Inr conditions \<Rightarrow> Inr (filter (\<lambda>c. c \<noteq> []) conditions))"

definition mapGRPCRouteMatchesToConditions :: "grpc_route_match list \<Rightarrow> error + string list" where
  "mapGRPCRouteMatchesToConditions matches =
     (case result_map mapGRPCRouteMatchToCondition matches of
        Inl e \<Rightarrow> Inl e
      | Inr conditions \<Rightarrow> Inr (filter (\<lambda>c. c \<noteq> []) conditions))"

definition anyConditions :: "string list \<Rightarrow> string" where
  "anyConditions conditions = ''any('' @ str_join '', '' conditions @ '')''"

definition mapHTTPRouteMatchesToCondition :: "http_route_match list \<Rightarrow> error + string" where
  "mapHTTPRouteMatchesToCondition matches =
     (case mapHTTPRouteMatchesToConditions matches of
        Inl e \<Rightarrow> Inl e
      | Inr conditions \<Rightarrow> Inr (if conditions = [] then [] else anyConditions conditions))"

section \<open>Taking conditions apart\<close>

definition updateOCIConditionDepth :: "int \<Rightarrow> char \<Rightarrow> int \<times> bool" where
  "updateOCIConditionDepth depth c =
     (if c = CHR ''('' then (depth + 1, True)
      else if c = CHR '')'' then (depth - 1, 0 \<le> depth - 1)
      else (depth, True))"

definition trimOCIConditionArgument :: "string \<Rightarrow> string option" where
  "trimOCIConditionArgument value = (let v = trim_space value in if v = [] then None else Some v)"

text \<open>
  The index loop of \<open>splitOCIConditionArguments\<close>: \<open>cur\<close> is \<open>value[start:index]\<close> and the
  first argument is what follows \<open>index\<close>. The separator check reads the byte after the
  comma, which the loop then skips.
\<close>

fun splitOCIConditionLoop ::
    "string \<Rightarrow> string \<Rightarrow> string list \<Rightarrow> int \<Rightarrow> bool \<Rightarrow> string list option" where
  "splitOCIConditionLoop [] cur parts depth inLiteral =
     (if inLiteral \<or> depth \<noteq> 0 then None
      else (case trimOCIConditionArgument cur of None \<Rightarrow> None | Some p \<Rightarrow> Some (parts @ [p])))"
| "splitOCIConditionLoop (c # cs) cur parts depth inLiteral =
     (if c = CHR 0x27 then splitOCIConditionLoop cs (cur @ [c]) parts depth (\<not> inLiteral)
      else if inLiteral then splitOCIConditionLoop cs (cur @ [c]) parts depth inLiteral
      else (case updateOCIConditionDepth depth c of (depth', ok) \<Rightarrow>
        if \<not> ok then None
        else if c \<noteq> CHR '','' \<or> depth' \<noteq> 0 then
          splitOCIConditionLoop cs (cur @ [c]) parts depth' inLiteral
        else (case cs of
          [] \<Rightarrow> None
        | s # rest \<Rightarrow>
            if s \<noteq> CHR '' '' then None
            else (case trimOCIConditionArgument cur of
              None \<Rightarrow> None
            | Some p \<Rightarrow> splitOCIConditionLoop rest [] (parts @ [p]) depth' inLiteral))))"

definition splitOCIConditionArguments :: "string \<Rightarrow> string list option" where
  "splitOCIConditionArguments value =
     (if value = [] then None else splitOCIConditionLoop value [] [] 0 False)"

definition appendRoutingConditionParts :: "string list \<Rightarrow> string \<Rightarrow> string list" where
  "appendRoutingConditionParts conditions condition =
     (if condition = [] then conditions
      else (case cut_prefix condition ''all('' of
        None \<Rightarrow> conditions @ [condition]
      | Some inner \<Rightarrow>
          (case cut_suffix inner '')'' of
             None \<Rightarrow> conditions @ [condition]
           | Some args \<Rightarrow>
               (case splitOCIConditionArguments args of
                  None \<Rightarrow> conditions @ [condition]
                | Some parts \<Rightarrow> conditions @ parts))))"

definition allRoutingConditions :: "string list \<Rightarrow> string" where
  "allRoutingConditions conditions =
     combineConditions (foldl appendRoutingConditionParts [] conditions)"

section \<open>Hostnames\<close>

definition hostHeaderEquals :: "string \<Rightarrow> string" where
  "hostHeaderEquals hostname = exactHeaderCondition ''host'' hostname"

definition hostConditionsForHostname :: "string \<Rightarrow> int \<Rightarrow> string list" where
  "hostConditionsForHostname hostname listenerPort =
     hostHeaderEquals hostname #
     (if 0 < listenerPort \<and> \<not> has_prefix hostname ''*.'' \<and> \<not> str_contains hostname '':''
      then [hostHeaderEquals (hostname @ '':'' @ int_to_string listenerPort)] else [])"

definition mapHTTPRouteHostnamesAndMatchesToCondition ::
    "string list \<Rightarrow> int \<Rightarrow> http_route_match list \<Rightarrow> error + string" where
  "mapHTTPRouteHostnamesAndMatchesToCondition hostnames listenerPort matches =
     (if hostnames = [] then mapHTTPRouteMatchesToCondition matches
      else (case mapHTTPRouteMatchesToConditions matches of
        Inl e \<Rightarrow> Inl e
      | Inr matchConditions \<Rightarrow>
          Inr (anyConditions
            (concat (map (\<lambda>hostname.
              concat (map (\<lambda>hostCondition.
                if matchConditions = [] then [hostCondition]
                else map (\<lambda>matchCondition. allRoutingConditions [hostCondition, matchCondition])
                  matchConditions)
                (hostConditionsForHostname hostname listenerPort)))
              hostnames)))))"

definition grpcContentTypeConditions :: "string list" where
  "grpcContentTypeConditions =
     [firstHeaderCondition ''eq'' ''content-type'' ''application/grpc'',
      firstHeaderCondition ''sw'' ''content-type'' ''application/grpc+'',
      firstHeaderCondition ''sw'' ''content-type'' ''application/grpc;'']"

definition grpcContentTypeCondition :: string where
  "grpcContentTypeCondition = anyConditions grpcContentTypeConditions"

definition mapGRPCRouteMatchesToCondition :: "grpc_route_match list \<Rightarrow> error + string" where
  "mapGRPCRouteMatchesToCondition matches =
     (case mapGRPCRouteMatchesToConditions matches of
        Inl e \<Rightarrow> Inl e
      | Inr conditions \<Rightarrow>
          Inr (if conditions = [] then grpcContentTypeCondition
            else anyConditions
              (concat (map (\<lambda>condition.
                map (\<lambda>contentTypeCondition. allRoutingConditions [contentTypeCondition, condition])
                  grpcContentTypeConditions) conditions))))"

definition mapGRPCRouteHostnamesAndMatchesToCondition ::
    "string list \<Rightarrow> int \<Rightarrow> grpc_route_match list \<Rightarrow> error + string" where
  "mapGRPCRouteHostnamesAndMatchesToCondition hostnames listenerPort matches =
     (if hostnames = [] then mapGRPCRouteMatchesToCondition matches
      else (case mapGRPCRouteMatchesToConditions matches of
        Inl e \<Rightarrow> Inl e
      | Inr matchConditions \<Rightarrow>
          Inr (anyConditions
            (concat (map (\<lambda>hostname.
              concat (map (\<lambda>hostCondition.
                if matchConditions = [] then
                  map (\<lambda>contentTypeCondition.
                    allRoutingConditions [hostCondition, contentTypeCondition]) grpcContentTypeConditions
                else concat (map (\<lambda>matchCondition.
                  map (\<lambda>contentTypeCondition.
                    allRoutingConditions [hostCondition, contentTypeCondition, matchCondition])
                    grpcContentTypeConditions) matchConditions))
                (hostConditionsForHostname hostname listenerPort)))
              hostnames)))))"

section \<open>Well-formed conditions\<close>

text \<open>
  The scanner of \<open>splitOCIConditionArguments\<close> run over a text: the depth and literal
  state it ends in, or \<open>None\<close> where it rejects or finds a top-level comma. A condition is
  closed when it leaves the scanner where it started and has no white space at its ends.
\<close>

fun scanCondition :: "string \<Rightarrow> int \<times> bool \<Rightarrow> (int \<times> bool) option" where
  "scanCondition [] st = Some st"
| "scanCondition (c # cs) (depth, inLiteral) =
     (if c = CHR 0x27 then scanCondition cs (depth, \<not> inLiteral)
      else if inLiteral then scanCondition cs (depth, inLiteral)
      else (case updateOCIConditionDepth depth c of (depth', ok) \<Rightarrow>
        if \<not> ok \<or> (c = CHR '','' \<and> depth' = 0) then None
        else scanCondition cs (depth', inLiteral)))"

definition closedCondition :: "string \<Rightarrow> bool" where
  "closedCondition c \<longleftrightarrow> scanCondition c (0, False) = Some (0, False) \<and> trimmed c \<and> c \<noteq> []"

lemma scanCondition_append:
  "scanCondition (a @ b) st = Option.bind (scanCondition a st) (scanCondition b)"
  by (induction a st rule: scanCondition.induct) (auto split: prod.splits)

lemma scanCondition_literal: "CHR 0x27 \<notin> set v \<Longrightarrow> scanCondition v (d, True) = Some (d, True)"
  by (induction v) auto

lemma scanCondition_quoted:
  "CHR 0x27 \<notin> set v \<Longrightarrow> scanCondition (quoted v @ rest) (d, False) = scanCondition rest (d, False)"
  by (simp add: quoted_def scanCondition_append scanCondition_literal)

lemma scanCondition_deeper:
  assumes "scanCondition s (d, l) = Some (d', l')" "0 \<le> d" "0 < k"
  shows "scanCondition s (d + k, l) = Some (d' + k, l')"
  using assms
proof (induction s arbitrary: d l)
  case Nil
  then show ?case by simp
next
  case (Cons c cs)
  show ?case
  proof (cases "c = CHR 0x27 \<or> l")
    case True
    with Cons show ?thesis by (auto split: if_splits)
  next
    case False
    obtain e ok where e: "updateOCIConditionDepth d c = (e, ok)" by fastforce
    with False Cons.prems have ok: "ok" "scanCondition cs (e, l) = Some (d', l')"
      by (auto split: if_splits)
    from e ok(1) \<open>0 \<le> d\<close> have "0 \<le> e" by (auto simp: updateOCIConditionDepth_def split: if_splits)
    moreover from e have "updateOCIConditionDepth (d + k) c = (e + k, True)"
      using \<open>0 \<le> d\<close> \<open>0 < k\<close> ok(1) by (auto simp: updateOCIConditionDepth_def split: if_splits)
    moreover from False have "c \<noteq> CHR 0x27" "\<not> l" by auto
    ultimately show ?thesis using Cons.IH [OF ok(2)] \<open>0 < k\<close> by simp
  qed
qed

lemma scanCondition_join:
  assumes "\<And>c. c \<in> set cs \<Longrightarrow> scanCondition c (0, False) = Some (0, False)"
  shows "scanCondition (str_join '', '' cs) (1, False) = Some (1, False)"
  using assms
proof (induction cs)
  case Nil
  then show ?case by simp
next
  case (Cons c cs)
  have c: "scanCondition c (1, False) = Some (1, False)"
    using scanCondition_deeper [of c 0 False 0 False 1] Cons.prems by simp
  show ?case
  proof (cases "cs = []")
    case True
    with c show ?thesis by simp
  next
    case False
    moreover have "scanCondition ('', '' @ str_join '', '' cs) (1, False) = Some (1, False)"
      using Cons by (simp add: updateOCIConditionDepth_def)
    ultimately show ?thesis using c by (simp add: str_join_Cons scanCondition_append)
  qed
qed

lemma closedCondition_all:
  assumes "\<And>c. c \<in> set cs \<Longrightarrow> closedCondition c"
  shows "closedCondition (''all('' @ str_join '', '' cs @ '')'')"
proof -
  have "scanCondition (str_join '', '' cs) (1, False) = Some (1, False)"
    using assms by (intro scanCondition_join) (auto simp: closedCondition_def)
  then show ?thesis
    by (auto simp: closedCondition_def scanCondition_append updateOCIConditionDepth_def
        plain_char_def intro!: trimmed_plain)
qed

section \<open>The split is the inverse of the join\<close>

lemma splitOCIConditionLoop_scan:
  assumes "scanCondition c (d, l) = Some (d', l')"
  shows "splitOCIConditionLoop (c @ rest) cur parts d l = splitOCIConditionLoop rest (cur @ c) parts d' l'"
  using assms
proof (induction c arbitrary: cur d l)
  case Nil
  then show ?case by simp
next
  case (Cons x xs)
  then show ?case by (auto split: if_splits prod.splits)
qed

lemma trimOCIConditionArgument_trimmed:
  "trimmed c \<Longrightarrow> c \<noteq> [] \<Longrightarrow> trimOCIConditionArgument c = Some c"
  by (simp add: trimOCIConditionArgument_def trim_space_trimmed)

lemma splitOCIConditionLoop_join:
  assumes "cs \<noteq> []" "\<And>c. c \<in> set cs \<Longrightarrow> closedCondition c"
  shows "splitOCIConditionLoop (str_join '', '' cs) [] parts 0 False = Some (parts @ cs)"
  using assms
proof (induction cs arbitrary: parts)
  case Nil
  then show ?case by simp
next
  case (Cons c cs)
  then have c: "scanCondition c (0, False) = Some (0, False)" "trimOCIConditionArgument c = Some c"
    by (auto simp: closedCondition_def intro: trimOCIConditionArgument_trimmed)
  show ?case
  proof (cases "cs = []")
    case True
    with splitOCIConditionLoop_scan [OF c(1), of "[]" "[]" parts] c(2) show ?thesis by simp
  next
    case False
    with Cons have "splitOCIConditionLoop (str_join '', '' cs) [] (parts @ [c]) 0 False
        = Some ((parts @ [c]) @ cs)"
      by simp
    with False c show ?thesis
      by (simp add: str_join_Cons splitOCIConditionLoop_scan [OF c(1)] updateOCIConditionDepth_def)
  qed
qed

lemma str_join_Nil_iff: "(\<And>c. c \<in> set cs \<Longrightarrow> c \<noteq> []) \<Longrightarrow> str_join sep cs = [] \<longleftrightarrow> cs = []"
  by (induction sep cs rule: str_join.induct) auto

lemma splitOCIConditionArguments_join:
  assumes "cs \<noteq> []" "\<And>c. c \<in> set cs \<Longrightarrow> closedCondition c"
  shows "splitOCIConditionArguments (str_join '', '' cs) = Some cs"
proof -
  have "str_join '', '' cs \<noteq> []"
    using assms by (subst str_join_Nil_iff) (auto simp: closedCondition_def)
  then show ?thesis
    using splitOCIConditionLoop_join [OF assms, of "[]"] by (simp add: splitOCIConditionArguments_def)
qed

section \<open>The conditions the translation produces\<close>

text \<open>An atom: a closed condition that is no \<open>all(...)\<close> itself.\<close>

definition conditionAtom :: "string \<Rightarrow> bool" where
  "conditionAtom c \<longleftrightarrow> closedCondition c \<and> \<not> has_prefix c ''all(''"

lemma literal_no_quote: "list_all isOCIConditionLiteralByte v \<Longrightarrow> CHR 0x27 \<notin> set v"
  by (auto simp: list_all_iff isOCIConditionLiteralByte_def)

lemma validateOCIConditionLiteral_ok:
  "validateOCIConditionLiteral k v = Inr u \<longleftrightarrow> list_all isOCIConditionLiteralByte v"
  by (simp add: validateOCIConditionLiteral_def)

lemma last_quoted [simp]: "quoted v \<noteq> []" "last (quoted v) = CHR 0x27"
  by (simp_all add: quoted_def)

definition conditionOp :: "string \<Rightarrow> bool" where
  "conditionOp op \<longleftrightarrow> op \<in> {''eq'', ''sw'', ''ew''}"

lemma conditionAtomI:
  assumes "scanCondition c (0, False) = Some (0, False)" "c = CHR ''h'' # r"
    "last c = CHR 0x27 \<or> last c = CHR '')''"
  shows "conditionAtom c"
  using assms
  by (auto simp: conditionAtom_def closedCondition_def has_prefix_def plain_char_def intro!: trimmed_plain)

lemma pathCondition_atom:
  assumes "conditionOp op" "CHR 0x27 \<notin> set v"
  shows "conditionAtom (pathCondition op v)"
proof -
  have "scanCondition (''http.request.url.path '' @ op @ '' '' @ quoted v) (0, False) = Some (0, False)"
    using assms scanCondition_quoted [OF assms(2), of "[]" 0]
    by (auto simp: conditionOp_def updateOCIConditionDepth_def)
  then show ?thesis unfolding pathCondition_def by (rule conditionAtomI) auto
qed

lemma firstHeaderCondition_atom:
  assumes "conditionOp op" "CHR 0x27 \<notin> set a" "CHR 0x27 \<notin> set b"
  shows "conditionAtom (firstHeaderCondition op a b)"
proof -
  have "scanCondition (''http.request.headers[(i '' @ quoted a @ '')][0] '' @ op @ '' (i '' @ quoted b @ '')'')
      (0, False) = Some (0, False)"
    using assms by (auto simp: conditionOp_def updateOCIConditionDepth_def scanCondition_quoted)
  then show ?thesis unfolding firstHeaderCondition_def by (rule conditionAtomI) auto
qed

lemma exactHeaderCondition_atom:
  assumes "CHR 0x27 \<notin> set a" "CHR 0x27 \<notin> set b"
  shows "conditionAtom (exactHeaderCondition a b)"
proof -
  have "scanCondition (''http.request.headers[(i '' @ quoted a @ '')] eq (i '' @ quoted b @ '')'')
      (0, False) = Some (0, False)"
    using assms by (auto simp: updateOCIConditionDepth_def scanCondition_quoted)
  then show ?thesis unfolding exactHeaderCondition_def by (rule conditionAtomI) auto
qed

lemmas template_atoms = pathCondition_atom firstHeaderCondition_atom exactHeaderCondition_atom

lemma hostHeaderEquals_atom: "CHR 0x27 \<notin> set h \<Longrightarrow> conditionAtom (hostHeaderEquals h)"
  unfolding hostHeaderEquals_def by (rule exactHeaderCondition_atom) simp_all

lemma grpcContentTypeConditions_atoms: "c \<in> set grpcContentTypeConditions \<Longrightarrow> conditionAtom c"
  unfolding grpcContentTypeConditions_def by (auto simp: conditionOp_def intro!: firstHeaderCondition_atom)

lemma parseRegexLiteralLoop_valid:
  "parseRegexLiteralLoop v = Some s \<Longrightarrow> list_all isOCIConditionLiteralByte s"
proof (induction v arbitrary: s rule: length_induct)
  case (1 v)
  have IH: "parseRegexLiteralLoop w = Some t \<Longrightarrow> list_all isOCIConditionLiteralByte t"
    if "length w < length v" for w t
    using 1 that by blast
  show ?case
  proof (cases v)
    case Nil
    with 1 show ?thesis by simp
  next
    case (Cons c cs)
    with 1 IH [of cs] IH [of "tl cs"] show ?thesis
      by (cases cs) (auto split: if_splits)
  qed
qed

lemma parseRegexForStartsWith_valid:
  "parseRegexForStartsWith p = Some s \<Longrightarrow> list_all isOCIConditionLiteralByte s"
  by (auto simp: parseRegexForStartsWith_def parseRegexLiteral_def
      dest: parseRegexLiteralLoop_valid split: option.splits if_splits)

lemma parseRegexForEndsWith_valid:
  "parseRegexForEndsWith p = Some s \<Longrightarrow> list_all isOCIConditionLiteralByte s"
  by (auto simp: parseRegexForEndsWith_def parseRegexLiteral_def
      dest: parseRegexLiteralLoop_valid split: option.splits if_splits)

lemmas condition_valid = parseRegexForStartsWith_valid parseRegexForEndsWith_valid

lemma mapPathMatch_atom: "mapPathMatchToCondition p = Inr c \<Longrightarrow> conditionAtom c"
  by (auto simp: mapPathMatchToCondition_def Let_def validateOCIConditionLiteral_def conditionOp_def
      split: option.splits if_splits intro!: template_atoms dest!: literal_no_quote)

lemma mapRegexHeaderValue_atom: "mapRegexHeaderValueToCondition n v = Inr c \<Longrightarrow> conditionAtom c"
  by (auto simp: mapRegexHeaderValueToCondition_def validateOCIConditionLiteral_def conditionOp_def
      split: option.splits if_splits intro!: template_atoms
      dest!: condition_valid dest: literal_no_quote)

lemma mapHeaderMatch_atom: "mapHeaderMatchToCondition m = Inr c \<Longrightarrow> conditionAtom c"
  by (auto simp: mapHeaderMatchToCondition_def mapRegexHeaderMatchToCondition_def Let_def
      validateOCIConditionLiteral_def split: if_splits
      intro!: template_atoms dest: mapRegexHeaderValue_atom literal_no_quote)

lemma mapGRPCHeaderMatch_atom: "mapGRPCHeaderMatchToCondition m = Inr c \<Longrightarrow> conditionAtom c"
  by (auto simp: mapGRPCHeaderMatchToCondition_def Let_def
      validateOCIConditionLiteral_def split: if_splits
      intro!: template_atoms dest: mapRegexHeaderValue_atom literal_no_quote)

lemma mapGRPCMethodMatch_atom: "mapGRPCMethodMatchToCondition m = Inr c \<Longrightarrow> conditionAtom c"
  by (auto simp: mapGRPCMethodMatchToCondition_def Let_def validateOCIConditionLiteral_def
      conditionOp_def split: if_splits intro!: template_atoms dest!: literal_no_quote)

section \<open>Combining and flattening\<close>

lemma conditionAtomD:
  "conditionAtom c \<Longrightarrow> closedCondition c" "conditionAtom c \<Longrightarrow> c \<noteq> []"
  "conditionAtom c \<Longrightarrow> cut_prefix c ''all('' = None"
  by (auto simp: conditionAtom_def closedCondition_def cut_prefix_def)

lemma combineConditions_many: "combineConditions (a # b # cs) = ''all('' @ str_join '', '' (a # b # cs) @ '')''"
  by (simp add: combineConditions_def)

lemma combineConditions_simps [simp]: "combineConditions [] = []" "combineConditions [c] = c"
  by (simp_all add: combineConditions_def)

lemma combineConditions_Nil_iff:
  "(\<And>c. c \<in> set cs \<Longrightarrow> conditionAtom c) \<Longrightarrow> combineConditions cs = [] \<longleftrightarrow> cs = []"
  by (cases cs rule: remdups_adj.cases) (auto simp: combineConditions_many dest: conditionAtomD(2))

lemma combineConditions_closed:
  assumes "cs \<noteq> []" "\<And>c. c \<in> set cs \<Longrightarrow> conditionAtom c"
  shows "closedCondition (combineConditions cs)"
proof (cases cs rule: remdups_adj.cases)
  case 3
  with assms show ?thesis
    unfolding 3 combineConditions_many by (intro closedCondition_all) (auto dest: conditionAtomD(1))
qed (use assms in \<open>auto dest: conditionAtomD(1)\<close>)

lemma cut_all_parts:
  assumes "\<And>c. c \<in> set (a # b # cs) \<Longrightarrow> conditionAtom c"
  obtains args where "cut_prefix (combineConditions (a # b # cs)) ''all('' = Some (args @ '')'')"
    and "splitOCIConditionArguments args = Some (a # b # cs)"
proof
  show "cut_prefix (combineConditions (a # b # cs)) ''all('' = Some (str_join '', '' (a # b # cs) @ '')'')"
    unfolding combineConditions_many by (rule cut_prefix_append)
  show "splitOCIConditionArguments (str_join '', '' (a # b # cs)) = Some (a # b # cs)"
    using assms conditionAtomD(1) by (intro splitOCIConditionArguments_join) blast+
qed

lemma appendRoutingConditionParts_combine:
  assumes "\<And>c. c \<in> set as \<Longrightarrow> conditionAtom c"
  shows "appendRoutingConditionParts cs (combineConditions as) = cs @ as"
proof (cases as rule: remdups_adj.cases)
  case 1
  then show ?thesis by (simp add: appendRoutingConditionParts_def)
next
  case (2 a)
  with assms have "a \<noteq> []" "cut_prefix a ''all('' = None" by (auto dest: conditionAtomD)
  with 2 show ?thesis by (simp add: appendRoutingConditionParts_def)
next
  case (3 a b bs)
  obtain args where "cut_prefix (combineConditions as) ''all('' = Some (args @ '')'')"
      "splitOCIConditionArguments args = Some as"
    using cut_all_parts [of a b bs] assms unfolding 3 by metis
  moreover have "combineConditions as \<noteq> []" unfolding 3 combineConditions_many by simp
  ultimately show ?thesis by (simp add: appendRoutingConditionParts_def)
qed

lemma allRoutingConditions_combine:
  assumes "\<And>as c. as \<in> set ass \<Longrightarrow> c \<in> set as \<Longrightarrow> conditionAtom c"
  shows "allRoutingConditions (map combineConditions ass) = combineConditions (concat ass)"
proof -
  have "\<forall>as\<in>set ass. \<forall>c\<in>set as. conditionAtom c" using assms by blast
  then have "foldl appendRoutingConditionParts cs (map combineConditions ass) = cs @ concat ass" for cs
    by (induction ass arbitrary: cs) (simp_all add: appendRoutingConditionParts_combine)
  then show ?thesis by (simp add: allRoutingConditions_def)
qed

lemmas allRoutingConditions_two = allRoutingConditions_combine [of "[[h], as]" for h as, simplified]
lemmas allRoutingConditions_three = allRoutingConditions_combine [of "[[h], [t], as]" for h t as, simplified]

section \<open>What a condition says\<close>

text \<open>
  The truth of a condition, given the truth \<open>v\<close> of its atoms: \<open>any(...)\<close> and \<open>all(...)\<close>
  are read with the argument splitter.
\<close>

definition conditionArguments :: "string \<Rightarrow> string \<Rightarrow> string list option" where
  "conditionArguments kw c =
     (case cut_prefix c (kw @ ''('') of
        None \<Rightarrow> None
      | Some inner \<Rightarrow> (case cut_suffix inner '')'' of None \<Rightarrow> None | Some args \<Rightarrow> splitOCIConditionArguments args))"

definition evalConjunction :: "(string \<Rightarrow> bool) \<Rightarrow> string \<Rightarrow> bool" where
  "evalConjunction v c =
     (case conditionArguments ''all'' c of None \<Rightarrow> v c | Some parts \<Rightarrow> list_all v parts)"

definition evalCondition :: "(string \<Rightarrow> bool) \<Rightarrow> string \<Rightarrow> bool" where
  "evalCondition v c =
     (case conditionArguments ''any'' c of
        None \<Rightarrow> evalConjunction v c
      | Some parts \<Rightarrow> list_ex (evalConjunction v) parts)"

lemma evalConjunction_combine:
  assumes "as \<noteq> []" "\<And>c. c \<in> set as \<Longrightarrow> conditionAtom c"
  shows "evalConjunction v (combineConditions as) = list_all v as"
proof (cases as rule: remdups_adj.cases)
  case (2 a)
  with assms have "cut_prefix a ''all('' = None" by (auto dest: conditionAtomD)
  with 2 show ?thesis by (simp add: evalConjunction_def conditionArguments_def)
next
  case (3 a b bs)
  obtain args where "cut_prefix (combineConditions as) ''all('' = Some (args @ '')'')"
      "splitOCIConditionArguments args = Some as"
    using cut_all_parts [of a b bs] assms unfolding 3 by metis
  then show ?thesis by (simp add: evalConjunction_def conditionArguments_def)
qed (use assms in simp)

lemma evalCondition_dnf:
  assumes "dnf \<noteq> []" "\<And>as. as \<in> set dnf \<Longrightarrow> as \<noteq> []"
    and "\<And>as c. as \<in> set dnf \<Longrightarrow> c \<in> set as \<Longrightarrow> conditionAtom c"
  shows "evalCondition v (anyConditions (map combineConditions dnf)) = (\<exists>as\<in>set dnf. \<forall>a\<in>set as. v a)"
proof -
  have "splitOCIConditionArguments (str_join '', '' (map combineConditions dnf)) = Some (map combineConditions dnf)"
    using assms by (intro splitOCIConditionArguments_join) (auto intro!: combineConditions_closed)
  moreover have "cut_prefix (anyConditions (map combineConditions dnf)) ''any('' =
      Some (str_join '', '' (map combineConditions dnf) @ '')'')"
    unfolding anyConditions_def by (rule cut_prefix_append)
  ultimately have "evalCondition v (anyConditions (map combineConditions dnf)) =
      list_ex (evalConjunction v) (map combineConditions dnf)"
    by (simp add: evalCondition_def conditionArguments_def)
  also have "\<dots> = list_ex (list_all v) dnf"
    using assms by (auto simp: list_ex_iff evalConjunction_combine)
  finally show ?thesis by (simp add: list_ex_iff list_all_iff)
qed

section \<open>The atoms of a match\<close>

definition httpMatchAtoms :: "http_route_match \<Rightarrow> string list" where
  "httpMatchAtoms match =
     (case hrm_path match of None \<Rightarrow> [] | Some p \<Rightarrow> [projr (mapPathMatchToCondition p)]) @
     map (projr \<circ> mapHeaderMatchToCondition) (hrm_headers match)"

definition grpcMatchAtoms :: "grpc_route_match \<Rightarrow> string list" where
  "grpcMatchAtoms match =
     (case grm_method match of None \<Rightarrow> [] | Some p \<Rightarrow> [projr (mapGRPCMethodMatchToCondition p)]) @
     map (projr \<circ> mapGRPCHeaderMatchToCondition) (grm_headers match)"

lemma result_map_Inr_projr:
  "result_map f xs = Inr ys \<Longrightarrow> ys = map (projr \<circ> f) xs \<and> (\<forall>x\<in>set xs. f x = Inr (projr (f x)))"
  by (induction xs arbitrary: ys) (auto split: sum.splits)

lemma mapHTTPRouteMatch_atoms:
  assumes "mapHTTPRouteMatchToCondition m = Inr c"
  shows "c = combineConditions (httpMatchAtoms m)" "\<And>a. a \<in> set (httpMatchAtoms m) \<Longrightarrow> conditionAtom a"
  using assms
  by (auto simp: mapHTTPRouteMatchToCondition_def httpMatchAtoms_def
      split: if_splits sum.splits option.splits
      dest!: result_map_Inr_projr dest: mapPathMatch_atom mapHeaderMatch_atom)

lemma mapGRPCRouteMatch_atoms:
  assumes "mapGRPCRouteMatchToCondition m = Inr c"
  shows "c = combineConditions (grpcMatchAtoms m)" "\<And>a. a \<in> set (grpcMatchAtoms m) \<Longrightarrow> conditionAtom a"
  using assms
  by (auto simp: mapGRPCRouteMatchToCondition_def grpcMatchAtoms_def
      split: if_splits sum.splits option.splits
      dest!: result_map_Inr_projr dest: mapGRPCMethodMatch_atom mapGRPCHeaderMatch_atom
      dest!: conditionAtomD(2))

text \<open>The non-empty matches, as lists of atoms.\<close>

definition nonemptyMatches :: "('m \<Rightarrow> string list) \<Rightarrow> 'm list \<Rightarrow> string list list" where
  "nonemptyMatches atoms matches = filter (\<lambda>as. as \<noteq> []) (map atoms matches)"

lemma filter_combine:
  assumes "\<And>as c. as \<in> set ass \<Longrightarrow> c \<in> set as \<Longrightarrow> conditionAtom c"
  shows "filter (\<lambda>c. c \<noteq> []) (map combineConditions ass) = map combineConditions (filter (\<lambda>as. as \<noteq> []) ass)"
  using assms
proof (induction ass)
  case (Cons as ass)
  moreover have "combineConditions as = [] \<longleftrightarrow> as = []"
    using Cons.prems by (intro combineConditions_Nil_iff) auto
  moreover have "filter (\<lambda>c. c \<noteq> []) (map combineConditions ass) =
      map combineConditions (filter (\<lambda>as. as \<noteq> []) ass)"
    by (rule Cons.IH) (use Cons.prems in auto)
  ultimately show ?case by simp
qed simp

text \<open>
  What the list translations rely on: a match is translated to the combination of its
  atoms. Both kinds of route matches provide it.
\<close>

locale match_translation =
  fixes translate :: "'m \<Rightarrow> error + string" and atoms :: "'m \<Rightarrow> string list"
  assumes translate_combine: "translate m = Inr c \<Longrightarrow> c = combineConditions (atoms m)"
    and translate_atom: "translate m = Inr c \<Longrightarrow> a \<in> set (atoms m) \<Longrightarrow> conditionAtom a"
begin

lemma nonempty_atoms:
  assumes "result_map translate ms = Inr ds" "as \<in> set (nonemptyMatches atoms ms)"
  shows "as \<noteq> []" "\<And>c. c \<in> set as \<Longrightarrow> conditionAtom c"
proof -
  from assms show "as \<noteq> []" by (auto simp: nonemptyMatches_def)
  fix c assume "c \<in> set as"
  with assms(2) obtain m where "m \<in> set ms" "c \<in> set (atoms m)" by (auto simp: nonemptyMatches_def)
  with result_map_Inr_projr [OF assms(1)] translate_atom show "conditionAtom c" by blast
qed

lemma filter_translated:
  assumes "result_map translate ms = Inr ds"
  shows "filter (\<lambda>c. c \<noteq> []) ds = map combineConditions (nonemptyMatches atoms ms)"
proof -
  have ok: "\<forall>m\<in>set ms. translate m = Inr (projr (translate m))" "ds = map (projr \<circ> translate) ms"
    using result_map_Inr_projr [OF assms] by auto
  then have "ds = map (combineConditions \<circ> atoms) ms"
    using translate_combine by (auto simp: o_def)
  moreover have "\<And>as c. as \<in> set (map atoms ms) \<Longrightarrow> c \<in> set as \<Longrightarrow> conditionAtom c"
    using ok(1) translate_atom by auto
  ultimately show ?thesis using filter_combine [of "map atoms ms"] by (simp add: nonemptyMatches_def)
qed

text \<open>Prefixing the conditions of the matches with other atoms flattens.\<close>

lemma prefix_flat:
  assumes "result_map translate ms = Inr ds" "as \<in> set (nonemptyMatches atoms ms)"
    and "\<And>c. c \<in> set pre \<Longrightarrow> conditionAtom c"
  shows "allRoutingConditions (pre @ [combineConditions as]) = combineConditions (pre @ as)"
proof -
  have "allRoutingConditions (map combineConditions (map (\<lambda>a. [a]) pre @ [as])) =
      combineConditions (concat (map (\<lambda>a. [a]) pre @ [as]))"
    using nonempty_atoms [OF assms(1,2)] assms(3) by (intro allRoutingConditions_combine) auto
  then show ?thesis by (simp add: o_def)
qed

end

lemma allRoutingConditions_atoms:
  assumes "\<And>c. c \<in> set pre \<Longrightarrow> conditionAtom c"
  shows "allRoutingConditions pre = combineConditions pre"
proof -
  have "allRoutingConditions (map combineConditions (map (\<lambda>a. [a]) pre)) =
      combineConditions (concat (map (\<lambda>a. [a]) pre))"
    using assms by (intro allRoutingConditions_combine) auto
  then show ?thesis by (simp add: o_def)
qed

interpretation http_match: match_translation mapHTTPRouteMatchToCondition httpMatchAtoms
  by unfold_locales (rule mapHTTPRouteMatch_atoms; assumption)+

interpretation grpc_match: match_translation mapGRPCRouteMatchToCondition grpcMatchAtoms
  by unfold_locales (rule mapGRPCRouteMatch_atoms; assumption)+

lemma int_to_string_no_quote: "CHR 0x27 \<notin> set (int_to_string i)"
  by (auto simp: int_to_string_def is_digit_def dest!: nat_to_string_digits)

lemma hostConditions_atoms:
  "CHR 0x27 \<notin> set host \<Longrightarrow> c \<in> set (hostConditionsForHostname host port) \<Longrightarrow> conditionAtom c"
  by (auto simp: hostConditionsForHostname_def int_to_string_no_quote intro!: hostHeaderEquals_atom
      split: if_splits)

lemma hostConditions_nonempty [simp]:
  "hostConditionsForHostname host port \<noteq> []" "\<exists>h. h \<in> set (hostConditionsForHostname host port)"
  by (auto simp: hostConditionsForHostname_def)

section \<open>What a route condition says\<close>

lemma mapHTTPRoute_dnf:
  assumes "result_map mapHTTPRouteMatchToCondition ms = Inr ds" "hosts \<noteq> []"
    and "\<And>host. host \<in> set hosts \<Longrightarrow> CHR 0x27 \<notin> set host"
  shows "mapHTTPRouteHostnamesAndMatchesToCondition hosts port ms = Inr (anyConditions (map combineConditions
    (concat (map (\<lambda>host. concat (map (\<lambda>h.
      if nonemptyMatches httpMatchAtoms ms = [] then [[h]]
      else map ((#) h) (nonemptyMatches httpMatchAtoms ms))
      (hostConditionsForHostname host port))) hosts))))"
proof -
  have flat: "allRoutingConditions [h, combineConditions as] = combineConditions (h # as)"
    if "host \<in> set hosts" "h \<in> set (hostConditionsForHostname host port)"
      "as \<in> set (nonemptyMatches httpMatchAtoms ms)" for host h as
  proof -
    have "conditionAtom h" using hostConditions_atoms assms(3) that by blast
    then show ?thesis using http_match.prefix_flat [OF assms(1) that(3), of "[h]"] by simp
  qed
  show ?thesis
    using assms(1,2) flat
    by (auto simp: mapHTTPRouteHostnamesAndMatchesToCondition_def mapHTTPRouteMatchesToConditions_def
        http_match.filter_translated map_concat
        intro!: arg_cong [where f = anyConditions] arg_cong [where f = concat] map_cong)
qed

lemma mapGRPCRoute_dnf:
  assumes "result_map mapGRPCRouteMatchToCondition ms = Inr ds" "hosts \<noteq> []"
    and "\<And>host. host \<in> set hosts \<Longrightarrow> CHR 0x27 \<notin> set host"
  shows "mapGRPCRouteHostnamesAndMatchesToCondition hosts port ms = Inr (anyConditions (map combineConditions
    (concat (map (\<lambda>host. concat (map (\<lambda>h.
      if nonemptyMatches grpcMatchAtoms ms = [] then map (\<lambda>t. [h, t]) grpcContentTypeConditions
      else concat (map (\<lambda>as. map (\<lambda>t. h # t # as) grpcContentTypeConditions)
        (nonemptyMatches grpcMatchAtoms ms)))
      (hostConditionsForHostname host port))) hosts))))"
proof -
  have flat: "allRoutingConditions [h, t, combineConditions as] = combineConditions (h # t # as)"
    if "host \<in> set hosts" "h \<in> set (hostConditionsForHostname host port)"
      "t \<in> set grpcContentTypeConditions" "as \<in> set (nonemptyMatches grpcMatchAtoms ms)" for host h t as
  proof -
    have "\<And>c. c \<in> set [h, t] \<Longrightarrow> conditionAtom c"
      using hostConditions_atoms [OF assms(3)] grpcContentTypeConditions_atoms that by fastforce
    then have "allRoutingConditions ([h, t] @ [combineConditions as]) = combineConditions ([h, t] @ as)"
      by (rule grpc_match.prefix_flat [OF assms(1) that(4)])
    then show ?thesis by simp
  qed
  have two: "allRoutingConditions [h, t] = combineConditions [h, t]"
    if "host \<in> set hosts" "h \<in> set (hostConditionsForHostname host port)"
      "t \<in> set grpcContentTypeConditions" for host h t
    using hostConditions_atoms [OF assms(3)] grpcContentTypeConditions_atoms that
    by (intro allRoutingConditions_atoms) fastforce
  show ?thesis
    using assms(1,2) flat two
    by (auto simp: mapGRPCRouteHostnamesAndMatchesToCondition_def mapGRPCRouteMatchesToConditions_def
        grpc_match.filter_translated map_concat
        intro!: arg_cong [where f = anyConditions] arg_cong [where f = concat] map_cong)
qed



text \<open>A concrete match, for the witnesses: an exact path and one exact header.\<close>

definition exampleHTTPMatch :: http_route_match where
  "exampleHTTPMatch = \<lparr>hrm_path = Some \<lparr>path_type = Some ''Exact'', path_value = Some ''/api''\<rparr>,
     hrm_headers = [\<lparr>hm_type = None, hm_name = ''x-env'', hm_value = ''prod''\<rparr>],
     hrm_query_params = [], hrm_method = None\<rparr>"

definition exampleGRPCMatch :: grpc_route_match where
  "exampleGRPCMatch = \<lparr>grm_method = Some \<lparr>gm_type = None, gm_service = Some ''pkg.Svc'', gm_method = Some ''Get''\<rparr>,
     grm_headers = []\<rparr>"

lemma exampleHTTPMatch_ok:
  "mapHTTPRouteMatchToCondition exampleHTTPMatch =
     Inr (combineConditions [pathCondition ''eq'' ''/api'', exactHeaderCondition ''x-env'' ''prod''])"
  by (simp add: exampleHTTPMatch_def mapHTTPRouteMatchToCondition_def mapPathMatchToCondition_def
      mapHeaderMatchToCondition_def validateOCIConditionLiteral_def isOCIConditionLiteralByte_def)

lemma exampleGRPCMatch_ok:
  "mapGRPCRouteMatchToCondition exampleGRPCMatch = Inr (pathCondition ''eq'' ''/pkg.Svc/Get'')"
  by (simp add: exampleGRPCMatch_def mapGRPCRouteMatchToCondition_def mapGRPCMethodMatchToCondition_def
      validateOCIConditionLiteral_def isOCIConditionLiteralByte_def trim_prefix_def cut_prefix_def
      has_prefix_def pathCondition_def)



section \<open>Regular expressions that become prefix and suffix tests\<close>

text \<open>
  A matcher for the patterns at issue: literal bytes, escaped bytes, \<open>.\<close>, \<open>.*\<close> and a
  final \<open>$\<close>; \<open>regex_search\<close> looks for a match anywhere, or at the start after \<open>^\<close>.
\<close>

function regex_here :: "string \<Rightarrow> string \<Rightarrow> bool" where
  "regex_here [] t = True"
| "regex_here (c # p) t =
     (if c = CHR ''$'' \<and> p = [] then t = []
      else if c = CHR ''.'' \<and> has_prefix p ''*'' then
        regex_here (tl p) t \<or> (case t of [] \<Rightarrow> False | x # xs \<Rightarrow> x \<noteq> CHR 0x0A \<and> regex_here (c # p) xs)
      else (case t of [] \<Rightarrow> False
        | x # xs \<Rightarrow>
            if c = CHR 0x5C then (case p of [] \<Rightarrow> False | d # ds \<Rightarrow> x = d \<and> regex_here ds xs)
            else if c = CHR ''.'' then x \<noteq> CHR 0x0A \<and> regex_here p xs
            else x = c \<and> regex_here p xs))"
  by pat_completeness auto
termination by (relation "measures [\<lambda>(p, t). length p, \<lambda>(p, t). length t]") (auto simp: has_prefix_def)

declare regex_here.simps(2) [simp del]

definition regex_search :: "string \<Rightarrow> string \<Rightarrow> bool" where
  "regex_search p t =
     (case cut_prefix p ''^'' of
        Some q \<Rightarrow> regex_here q t
      | None \<Rightarrow> list_ex (\<lambda>i. regex_here p (drop i t)) [0..<Suc (length t)])"

lemma regex_here_literal:
  "parseRegexLiteralLoop l = Some s \<Longrightarrow>
    regex_here (l @ rest) t \<longleftrightarrow> (\<exists>u. t = s @ u \<and> regex_here rest u)"
proof (induction l arbitrary: s t rule: parseRegexLiteralLoop.induct)
  case 1
  then show ?case by simp
next
  case (2 c cs)
  show ?case
  proof (cases "c = CHR 0x5C")
    case True
    with 2 obtain d ds s' where d: "cs = d # ds" "s = d # s'" "parseRegexLiteralLoop ds = Some s'"
      by (auto split: list.splits if_splits)
    have IH: "regex_here (ds @ rest) u \<longleftrightarrow> (\<exists>w. u = s' @ w \<and> regex_here rest w)" for u
      using 2 True d by (auto split: if_splits)
    show ?thesis
      using True d by (cases t) (auto simp: regex_here.simps(2) IH)
  next
    case False
    with 2 obtain s' where d: "s = c # s'" "parseRegexLiteralLoop cs = Some s'" "\<not> isRegexMetaCharacter c"
      by (auto split: if_splits)
    have IH: "regex_here (cs @ rest) u \<longleftrightarrow> (\<exists>w. u = s' @ w \<and> regex_here rest w)" for u
      using 2 False d by (auto split: if_splits)
    have "c \<noteq> CHR ''.''" "c \<noteq> CHR ''$''" using d(3) by (auto simp: isRegexMetaCharacter_def)
    with d False show ?thesis by (cases t) (auto simp: regex_here.simps(2) IH)
  qed
qed

lemma regex_here_dotstar:
  "CHR 0x0A \<notin> set t \<Longrightarrow> regex_here (CHR ''.'' # CHR ''*'' # p) t \<longleftrightarrow> (\<exists>i\<le>length t. regex_here p (drop i t))"
proof (induction t)
  case Nil
  then show ?case by (simp add: regex_here.simps(2) has_prefix_def)
next
  case (Cons x xs)
  have "regex_here (CHR ''.'' # CHR ''*'' # p) (x # xs) \<longleftrightarrow>
      regex_here p (x # xs) \<or> regex_here (CHR ''.'' # CHR ''*'' # p) xs"
    using Cons.prems by (subst regex_here.simps(2)) (auto simp: has_prefix_def)
  also have "\<dots> \<longleftrightarrow> regex_here p (drop 0 (x # xs)) \<or> (\<exists>i\<le>length xs. regex_here p (drop (Suc i) (x # xs)))"
    using Cons by simp
  also have "\<dots> \<longleftrightarrow> (\<exists>i\<le>length (x # xs). regex_here p (drop i (x # xs)))"
    by (metis (no_types, lifting) Suc_le_mono le0 length_Cons not0_implies_Suc)
  finally show ?case .
qed

lemma trim_suffix_cases: "s = trim_suffix s p \<or> s = trim_suffix s p @ p"
  by (auto simp: trim_suffix_def cut_suffix_Some split: option.split)

lemma trim_prefix_cases: "s = trim_prefix s p \<or> s = p @ trim_prefix s p"
  by (auto simp: trim_prefix_def cut_prefix_Some split: option.split)

lemma atLeast0_lessThan_Suc_eq: "(\<exists>i\<in>{0..<Suc n}. P i) \<longleftrightarrow> (\<exists>i\<le>n. P i)"
  by (auto simp: less_Suc_eq_le)

lemma regex_here_end [simp]: "regex_here ''$'' t \<longleftrightarrow> t = []"
  by (simp add: regex_here.simps(2))

lemma regex_here_rest:
  assumes "CHR 0x0A \<notin> set t" "rest \<in> {[], ''.*'', ''.*$'', ''.*.*$''}"
  shows "regex_here rest t"
proof -
  have "regex_here ''.*$'' u" if "CHR 0x0A \<notin> set u" for u
    using regex_here_dotstar [of u "''$''"] that by auto
  moreover have "regex_here ''.*'' u" if "CHR 0x0A \<notin> set u" for u
    using regex_here_dotstar [of u "[]"] that by auto
  moreover have "regex_here ''.*.*$'' t"
    using regex_here_dotstar [of t "''.*$''"] assms(1) calculation(1) [of t] by (metis drop0 le0)
  ultimately show ?thesis using assms by auto
qed

text \<open>
  A header regular expression that is turned into a starts-with test means that test: on a
  value without line breaks, searching the expression succeeds exactly when the value
  starts with the literal.
\<close>

theorem regex_starts_with:
  assumes "parseRegexForStartsWith p = Some s" "CHR 0x0A \<notin> set t"
  shows "regex_search p t \<longleftrightarrow> has_prefix t s"
proof -
  from assms(1) obtain q where q: "cut_prefix p ''^'' = Some q"
    and s: "parseRegexLiteralLoop (trim_suffix (trim_suffix q ''.*$'') ''.*'') = Some s"
    by (auto simp: parseRegexForStartsWith_def parseRegexLiteral_def split: option.splits if_splits)
  obtain l rest where l: "q = l @ rest" "rest \<in> {[], ''.*'', ''.*$'', ''.*.*$''}"
      "parseRegexLiteralLoop l = Some s"
  proof -
    define l where "l = trim_suffix (trim_suffix q ''.*$'') ''.*''"
    have "trim_suffix q ''.*$'' \<in> {l, l @ ''.*''}" "q \<in> {trim_suffix q ''.*$'', trim_suffix q ''.*$'' @ ''.*$''}"
      using trim_suffix_cases [of "trim_suffix q ''.*$''" "''.*''"] trim_suffix_cases [of q "''.*$''"]
      by (simp_all only: l_def insert_iff empty_iff simp_thms)
    then have "q \<in> {l @ [], l @ ''.*'', l @ ''.*$'', l @ ''.*.*$''}" by auto
    with s [folded l_def] that show thesis by blast
  qed
  have "regex_here rest u" if "t = s @ u" for u
    using that assms(2) l(2) by (intro regex_here_rest) auto
  then show ?thesis
    using q l by (auto simp: regex_search_def regex_here_literal has_prefix_iff)
qed

theorem regex_starts_with_witness:
  "parseRegexForStartsWith (''^v1'' @ [CHR 0x5C, CHR ''.'']) = Some ''v1.'' \<and> (regex_search (''^v1'' @ [CHR 0x5C, CHR ''.'']) ''v1.2'' \<longleftrightarrow> has_prefix ''v1.2'' ''v1.'')"
  using regex_starts_with [of "(''^v1'' @ [CHR 0x5C, CHR ''.''])" "''v1.''" "''v1.2''"]
  by (simp add: parseRegexForStartsWith_def cut_prefix_def has_prefix_def trim_suffix_def cut_suffix_def
      has_suffix_def parseRegexLiteral_def isOCIConditionLiteralByte_def isRegexMetaCharacter_def)

text \<open>The same for the expressions that become ends-with tests.\<close>

theorem regex_ends_with:
  assumes "parseRegexForEndsWith p = Some s" "CHR 0x0A \<notin> set t"
  shows "regex_search p t \<longleftrightarrow> has_suffix t s"
proof -
  from assms(1) obtain v where v: "p = v @ ''$''"
    and s: "parseRegexLiteralLoop (trim_prefix v ''.*'') = Some s" "trim_prefix v ''.*'' \<noteq> []"
    by (auto simp: parseRegexForEndsWith_def parseRegexLiteral_def cut_suffix_Some split: option.splits if_splits)
  obtain pre l where l: "p = pre @ l @ ''$''" "pre \<in> {[], ''.*''}" "parseRegexLiteralLoop l = Some s" "l \<noteq> []"
    using v s trim_prefix_cases [of v "''.*''"] by (metis append.assoc append_Nil insertCI)
  have "\<not> has_prefix l ''^''"
    using l(3,4) by (cases l) (auto simp: has_prefix_def isRegexMetaCharacter_def split: if_splits)
  with l have "cut_prefix p ''^'' = None" by (cases l) (auto simp: cut_prefix_def has_prefix_def)
  then have "regex_search p t \<longleftrightarrow> (\<exists>i\<le>length t. regex_here p (drop i t))"
    by (simp add: regex_search_def list_ex_iff atLeast0_lessThan_Suc_eq del: upt_Suc)
  also have "\<dots> \<longleftrightarrow> (\<exists>i\<le>length t. regex_here (l @ ''$'') (drop i t))"
  proof (cases "pre = []")
    case False
    have "CHR 0x0A \<notin> set (drop i t)" for i using assms(2) by (meson in_set_dropD)
    with False l have *: "regex_here p (drop i t) \<longleftrightarrow> (\<exists>j\<le>length t - i. regex_here (l @ ''$'') (drop (i + j) t))" for i
      by (auto simp: regex_here_dotstar add.commute)
    show ?thesis unfolding * by (metis add.commute add_cancel_right_left le_add_diff_inverse2 le_zero_eq
        nat_add_left_cancel_le nat_le_linear zero_le)
  qed (use l in simp)
  also have "\<dots> \<longleftrightarrow> (\<exists>i\<le>length t. drop i t = s)"
    using regex_here_literal [OF l(3)] by simp
  also have "\<dots> \<longleftrightarrow> has_suffix t s"
    by (metis append_take_drop_id diff_le_self has_suffix_def has_suffix_iff)
  finally show ?thesis .
qed

theorem regex_ends_with_witness:
  "parseRegexForEndsWith ''.*-beta$'' = Some ''-beta'' \<and> (regex_search ''.*-beta$'' ''v1-beta'' \<longleftrightarrow> has_suffix ''v1-beta'' ''-beta'')"
  using regex_ends_with [of "''.*-beta$''" "''-beta''" "''v1-beta''"]
  by (simp add: parseRegexForEndsWith_def cut_prefix_def has_prefix_def trim_prefix_def cut_suffix_def
      has_suffix_def parseRegexLiteral_def isOCIConditionLiteralByte_def isRegexMetaCharacter_def)

section \<open>Matches without conditions\<close>

definition grpcMatchEverything :: grpc_route_match where
  "grpcMatchEverything = \<lparr>grm_method = None, grm_headers = []\<rparr>"

text \<open>
  A match entry without method and headers, which matches every request, is dropped: a
  rule that lists it beside others gets the narrower condition of the others alone.
\<close>

theorem grpc_match_everything_dropped:
  "mapGRPCRouteHostnamesAndMatchesToCondition hosts port (grpcMatchEverything # ms) =
    mapGRPCRouteHostnamesAndMatchesToCondition hosts port ms"
proof -
  have "mapGRPCRouteMatchesToConditions (grpcMatchEverything # ms) = mapGRPCRouteMatchesToConditions ms"
    by (simp add: mapGRPCRouteMatchesToConditions_def grpcMatchEverything_def
        mapGRPCRouteMatchToCondition_def split: sum.split)
  then show ?thesis
    by (simp add: mapGRPCRouteHostnamesAndMatchesToCondition_def mapGRPCRouteMatchesToCondition_def)
qed

end
