(* ===== verification/Hashes.thy ===== *)
theory Hashes
  imports GoStrings
begin

text \<open>
  The checksums of Go's \<open>hash/crc32\<close> and \<open>crypto/sha256\<close> that the resource names
  carry, on strings as byte sequences.
\<close>

unbundle bit_operations_syntax

section \<open>CRC-32\<close>

definition byte_word :: "char \<Rightarrow> 32 word" where
  "byte_word c = of_nat (of_char c)"

fun crc32_bits :: "nat \<Rightarrow> 32 word \<Rightarrow> 32 word" where
  "crc32_bits 0 crc = crc"
| "crc32_bits (Suc n) crc =
     crc32_bits n (if crc AND 1 = 1 then drop_bit 1 crc XOR 0xEDB88320 else drop_bit 1 crc)"

text \<open>\<open>crc32.ChecksumIEEE\<close>: the reflected polynomial, bit by bit.\<close>

definition crc32_ieee :: "string \<Rightarrow> 32 word" where
  "crc32_ieee s = NOT (foldl (\<lambda>crc c. crc32_bits 8 (crc XOR byte_word c)) 0xFFFFFFFF s)"

section \<open>SHA-256\<close>

text \<open>
  The first 32 bits of the fractional parts of the cube roots of the first 64 primes, and of
  the square roots of the first eight.
\<close>

definition sha256_constants :: "32 word list" where
  "sha256_constants =
    [1116352408, 1899447441, 3049323471, 3921009573, 961987163, 1508970993,
     2453635748, 2870763221, 3624381080, 310598401, 607225278, 1426881987,
     1925078388, 2162078206, 2614888103, 3248222580, 3835390401, 4022224774,
     264347078, 604807628, 770255983, 1249150122, 1555081692, 1996064986,
     2554220882, 2821834349, 2952996808, 3210313671, 3336571891, 3584528711,
     113926993, 338241895, 666307205, 773529912, 1294757372, 1396182291,
     1695183700, 1986661051, 2177026350, 2456956037, 2730485921, 2820302411,
     3259730800, 3345764771, 3516065817, 3600352804, 4094571909, 275423344,
     430227734, 506948616, 659060556, 883997877, 958139571, 1322822218,
     1537002063, 1747873779, 1955562222, 2024104815, 2227730452, 2361852424,
     2428436474, 2756734187, 3204031479, 3329325298]"

definition sha256_initial :: "32 word list" where
  "sha256_initial =
    [1779033703, 3144134277, 1013904242, 2773480762,
     1359893119, 2600822924, 528734635, 1541459225]"

definition sha256_pad :: "string \<Rightarrow> string" where
  "sha256_pad s =
     s @ [CHR 0x80] @ replicate ((119 - length s mod 64) mod 64) (CHR 0x00) @
     map (\<lambda>i. char_of (8 * length s div 256 ^ i mod 256)) (rev [0..<8])"

fun be_words :: "string \<Rightarrow> 32 word list" where
  "be_words (a # b # c # d # rest) =
     (push_bit 24 (byte_word a) OR push_bit 16 (byte_word b) OR push_bit 8 (byte_word c) OR byte_word d)
       # be_words rest"
| "be_words _ = []"

fun chunks :: "nat \<Rightarrow> nat \<Rightarrow> 'a list \<Rightarrow> 'a list list" where
  "chunks n 0 xs = []"
| "chunks n (Suc k) xs = take n xs # chunks n k (drop n xs)"

text \<open>The message schedule, newest word first.\<close>

fun sha256_schedule :: "nat \<Rightarrow> 32 word list \<Rightarrow> 32 word list" where
  "sha256_schedule 0 ws = ws"
| "sha256_schedule (Suc n) ws =
     (let w15 = ws ! 14; w2 = ws ! 1;
          s0 = word_rotr 7 w15 XOR word_rotr 18 w15 XOR drop_bit 3 w15;
          s1 = word_rotr 17 w2 XOR word_rotr 19 w2 XOR drop_bit 10 w2
      in sha256_schedule n ((ws ! 15 + s0 + ws ! 6 + s1) # ws))"

fun sha256_round :: "32 word list \<Rightarrow> 32 word \<times> 32 word \<Rightarrow> 32 word list" where
  "sha256_round [a, b, c, d, e, f, g, h] (k, w) =
     (let s1 = word_rotr 6 e XOR word_rotr 11 e XOR word_rotr 25 e;
          ch = (e AND f) XOR (NOT e AND g);
          t1 = h + s1 + ch + k + w;
          s0 = word_rotr 2 a XOR word_rotr 13 a XOR word_rotr 22 a;
          maj = (a AND b) XOR (a AND c) XOR (b AND c)
      in [t1 + (s0 + maj), a, b, c, d + t1, e, f, g])"
| "sha256_round st _ = st"

definition sha256_block :: "32 word list \<Rightarrow> 32 word list \<Rightarrow> 32 word list" where
  "sha256_block st ws =
     map (\<lambda>(x, y). x + y)
       (zip st (foldl sha256_round st (zip sha256_constants (rev (sha256_schedule 48 (rev ws))))))"

text \<open>\<open>hex.EncodeToString\<close> of \<open>sha256.Sum256\<close>.\<close>

definition sha256_hex :: "string \<Rightarrow> string" where
  "sha256_hex s =
     (let ws = be_words (sha256_pad s)
      in concat (map (\<lambda>w. hex_digits 8 (unat w))
           (foldl sha256_block sha256_initial (chunks 16 (length ws div 16) ws))))"

lemma length_sha256_round [simp]: "length (sha256_round st kw) = length st"
  by (induction st kw rule: sha256_round.induct) (auto simp: Let_def)

lemma length_sha256_block [simp]: "length (sha256_block st ws) = length st"
proof -
  have "length (foldl sha256_round st kws) = length st" for kws
    by (induction kws arbitrary: st) auto
  then show ?thesis by (simp add: sha256_block_def)
qed

lemma length_sha256_hex [simp]: "length (sha256_hex s) = 64"
proof -
  have "length (foldl sha256_block st bs) = length st" for st bs
    by (induction bs arbitrary: st) auto
  then show ?thesis
    by (simp add: sha256_hex_def Let_def length_concat o_def sum_list_triv sha256_initial_def)
qed

definition is_hex_digit :: "char \<Rightarrow> bool" where
  "is_hex_digit c \<longleftrightarrow> is_digit c \<or> 97 \<le> (of_char c :: nat) \<and> (of_char c :: nat) \<le> 102"

lemma hex_digits_hex: "c \<in> set (hex_digits k n) \<Longrightarrow> is_hex_digit c"
proof (induction k arbitrary: n)
  case (Suc k)
  have "n mod 16 < 16" by simp
  then have "is_hex_digit (digit_char (n mod 16))"
    by (auto simp: is_hex_digit_def is_digit_def digit_char_def)
  with Suc show ?case by auto
qed simp

lemma sha256_hex_hex: "c \<in> set (sha256_hex s) \<Longrightarrow> is_hex_digit c"
  by (auto simp: sha256_hex_def Let_def dest: hex_digits_hex)

end
