(* ===== verification/OciNames.thy ===== *)
theory OciNames
  imports Hashes GatewayTypes
begin

text \<open>
  The names of OCI resources: \<open>src/internal/services/ociapi/oci_resources.go\<close> and the
  naming functions at the end of \<open>src/internal/app/oci_load_balancer_model.go\<close>. Shown:
  names fit OCI's limits and character set whatever the Kubernetes names are, a policy name
  is recognised as the controller's own, and rule names sort by rule index.
\<close>

section \<open>Runes and patterns\<close>

text \<open>The number of bytes of the first rune, as \<open>utf8.DecodeRune\<close> finds it; an invalid byte counts alone.\<close>

definition byte_in :: "nat \<Rightarrow> nat \<Rightarrow> char \<Rightarrow> bool" where
  "byte_in lo hi c \<longleftrightarrow> lo \<le> (of_char c :: nat) \<and> (of_char c :: nat) \<le> hi"

fun rune_width :: "string \<Rightarrow> nat" where
  "rune_width (a # b # c # d # s) =
     (if byte_in 0xC2 0xDF a \<and> byte_in 0x80 0xBF b then 2
      else if (a = CHR 0xE0 \<and> byte_in 0xA0 0xBF b \<or> a = CHR 0xED \<and> byte_in 0x80 0x9F b \<or>
         a \<noteq> CHR 0xED \<and> byte_in 0xE1 0xEF a \<and> byte_in 0x80 0xBF b) \<and> byte_in 0x80 0xBF c then 3
      else if (a = CHR 0xF0 \<and> byte_in 0x90 0xBF b \<or> a = CHR 0xF4 \<and> byte_in 0x80 0x8F b \<or>
         byte_in 0xF1 0xF3 a \<and> byte_in 0x80 0xBF b) \<and> byte_in 0x80 0xBF c \<and> byte_in 0x80 0xBF d then 4
      else 1)"
| "rune_width [a, b, c] =
     (if byte_in 0xC2 0xDF a \<and> byte_in 0x80 0xBF b then 2
      else if (a = CHR 0xE0 \<and> byte_in 0xA0 0xBF b \<or> a = CHR 0xED \<and> byte_in 0x80 0x9F b \<or>
         a \<noteq> CHR 0xED \<and> byte_in 0xE1 0xEF a \<and> byte_in 0x80 0xBF b) \<and> byte_in 0x80 0xBF c then 3
      else 1)"
| "rune_width [a, b] = (if byte_in 0xC2 0xDF a \<and> byte_in 0x80 0xBF b then 2 else 1)"
| "rune_width _ = 1"

lemma rune_width_pos [simp]: "0 < rune_width s"
  by (induction s rule: rune_width.induct) auto

text \<open>
  A compiled pattern that matches single runes, by the runes it matches;
  \<open>ReplaceAllString\<close> with a replacement for each.
\<close>

type_synonym rune_pattern = "string \<Rightarrow> bool"

function replace_runes :: "rune_pattern \<Rightarrow> string \<Rightarrow> string \<Rightarrow> string" where
  "replace_runes pat [] r = []"
| "replace_runes pat (c # cs) r =
     (let n = rune_width (c # cs); rune = take n (c # cs)
      in (if pat rune then r else rune) @ replace_runes pat (drop n (c # cs)) r)"
  by pat_completeness auto
termination by (relation "measure (\<lambda>(_, s, _). length s)") auto

declare replace_runes.simps(2) [simp del]

definition name_char :: "char \<Rightarrow> bool" where
  "name_char c \<longleftrightarrow> byte_in 97 122 c \<or> byte_in 65 90 c \<or> is_digit c \<or> c = CHR ''_''"

definition name_start :: "char \<Rightarrow> bool" where
  "name_start c \<longleftrightarrow> name_char c \<and> \<not> is_digit c"

definition invalidCharsForPolicyNamePattern :: rune_pattern where
  "invalidCharsForPolicyNamePattern rune \<longleftrightarrow> \<not> (\<exists>c\<in>set rune. rune = [c] \<and> name_char c)"

lemma replace_runes_valid:
  "list_all name_char (replace_runes invalidCharsForPolicyNamePattern s ''_'')"
proof (induction s rule: length_induct)
  case (1 s)
  show ?case
  proof (cases s)
    case Nil
    then show ?thesis by simp
  next
    case (Cons c cs)
    have "length (drop (rune_width s) s) < length s" using Cons by simp
    with 1 have "list_all name_char (replace_runes invalidCharsForPolicyNamePattern (drop (rune_width s) s) ''_'')"
      by blast
    then show ?thesis
      unfolding Cons by (subst replace_runes.simps(2))
        (auto simp: Let_def invalidCharsForPolicyNamePattern_def list_all_iff name_char_def)
  qed
qed

lemma replace_runes_nonempty: "s \<noteq> [] \<Longrightarrow> replace_runes invalidCharsForPolicyNamePattern s ''_'' \<noteq> []"
proof (cases s)
  case (Cons c cs)
  have "take (rune_width s) s \<noteq> []" using Cons rune_width_pos [of s] by (metis gr_implies_not0 list.distinct(1) take_eq_Nil)
  then show ?thesis unfolding Cons by (subst replace_runes.simps(2)) (auto simp: Let_def simp del: take_eq_Nil)
qed simp

lemma rune_width_ascii: "byte_in 0 127 c \<Longrightarrow> rune_width (c # cs) = 1"
  by (cases "c # cs" rule: rune_width.cases) (auto simp: byte_in_def)

lemma name_char_ascii: "name_char c \<Longrightarrow> byte_in 0 127 c"
  by (auto simp: name_char_def byte_in_def is_digit_def)

lemma replace_runes_id_prefix:
  "list_all name_char a \<Longrightarrow>
    replace_runes invalidCharsForPolicyNamePattern (a @ s) ''_'' = a @ replace_runes invalidCharsForPolicyNamePattern s ''_''"
  by (induction a) (auto simp: replace_runes.simps(2) Let_def rune_width_ascii [OF name_char_ascii]
      invalidCharsForPolicyNamePattern_def)

section \<open>oci_resources.go\<close>

record oci_resource_name_config =
  MaxLength :: int
  InvalidCharsPattern :: "rune_pattern option"
  sanitizeFunc :: "(string \<Rightarrow> rune_pattern option \<Rightarrow> string) option"
  hashFunc :: "(string \<Rightarrow> string) option"

definition defaultHashFunc :: "string \<Rightarrow> string" where
  "defaultHashFunc input = hex_digits 8 (unat (crc32_ieee input))"

definition defaultSanitizeFunc :: "string \<Rightarrow> rune_pattern option \<Rightarrow> string" where
  "defaultSanitizeFunc name pattern =
     (case pattern of None \<Rightarrow> name | Some pat \<Rightarrow> if name = [] then name else replace_runes pat name ''_'')"

text \<open>
  Where the hash starts and where the rest of the name resumes, in the integer arithmetic
  of the code, for a name of length \<open>n\<close>, a hash of length \<open>h\<close> and a limit \<open>m\<close>.
\<close>

definition hashPlacement :: "int \<Rightarrow> int \<Rightarrow> int \<Rightarrow> int \<times> int" where
  "hashPlacement n h m =
     (let hashStarts0 = n div 2 - h div 2;
          maxHashStart = m - h;
          hashStarts = (if hashStarts0 > maxHashStart then (maxHashStart + 1) div 2 else hashStarts0);
          remainingLength = m - (hashStarts + h)
      in (hashStarts, n - remainingLength))"

definition ConstructOCIResourceName :: "string \<Rightarrow> oci_resource_name_config \<Rightarrow> string" where
  "ConstructOCIResourceName originalName config =
     (let hashF = (case hashFunc config of None \<Rightarrow> defaultHashFunc | Some f \<Rightarrow> f);
          sanitizeF = (case sanitizeFunc config of None \<Rightarrow> defaultSanitizeFunc | Some f \<Rightarrow> f);
          resultingName = (case InvalidCharsPattern config of
            None \<Rightarrow> originalName | Some p \<Rightarrow> sanitizeF originalName (Some p))
      in if MaxLength config > 0 \<and> int (length resultingName) > MaxLength config then
           (let hash = hashF originalName in
            if int (length hash) \<ge> MaxLength config then take (nat (MaxLength config)) hash
            else (let (hashStarts, tailStarts) =
                    hashPlacement (int (length resultingName)) (int (length hash)) (MaxLength config)
                  in take (nat hashStarts) resultingName @ hash @ drop (nat tailStarts) resultingName))
         else resultingName)"

text \<open>The slice expressions of the code are in range: no name makes it panic.\<close>

lemma hashPlacement_range:
  assumes "hashPlacement n h m = (s, t)" "0 \<le> h" "h < m" "m < n"
  shows "0 \<le> s" "s \<le> n" "0 \<le> t" "t \<le> n" "s + h + (n - t) = m"
  using assms by (auto simp: hashPlacement_def Let_def split: if_splits)

lemma ConstructOCIResourceName_length:
  assumes "0 < MaxLength config"
  shows "int (length (ConstructOCIResourceName name config)) \<le> MaxLength config"
proof -
  have "int (length (take (nat s) r @ hash @ drop (nat t) r)) = m"
    if "hashPlacement (int (length r)) (int (length hash)) m = (s, t)" "int (length hash) < m" "m < int (length r)"
    for r hash :: string and m s t
    using hashPlacement_range [OF that(1)] that by (simp add: min_def)
  then show ?thesis
    using assms by (auto simp: ConstructOCIResourceName_def Let_def not_le split: prod.split)
qed

lemma ConstructOCIResourceName_short:
  assumes "InvalidCharsPattern config = None" "int (length name) \<le> MaxLength config \<or> MaxLength config \<le> 0"
  shows "ConstructOCIResourceName name config = name"
  using assms by (auto simp: ConstructOCIResourceName_def)

lemma ConstructOCIResourceName_chars:
  assumes "InvalidCharsPattern config = Some invalidCharsForPolicyNamePattern"
    and "sanitizeFunc config = None" "hashFunc config = None"
  shows "list_all name_char (ConstructOCIResourceName name config)"
proof -
  have sane: "list_all name_char (defaultSanitizeFunc name (Some invalidCharsForPolicyNamePattern))"
    by (simp add: defaultSanitizeFunc_def replace_runes_valid)
  have "name_char c" if "c \<in> set (hex_digits k n)" for c k n
    using hex_digits_hex [OF that] by (auto simp: is_hex_digit_def name_char_def byte_in_def)
  then have "list_all name_char (defaultHashFunc name)"
    by (auto simp: defaultHashFunc_def list_all_iff)
  with sane show ?thesis
    by (auto simp: ConstructOCIResourceName_def assms Let_def list_all_iff
        dest: in_set_takeD in_set_dropD split: prod.split)
qed

section \<open>Listener policy names\<close>

definition maxBackendSetNameLength :: nat where
  "maxBackendSetNameLength = 32"

definition maxListenerPolicyNameLength :: nat where
  "maxListenerPolicyNameLength = 32"

definition listenerPolicyNameHashLength :: nat where
  "listenerPolicyNameHashLength = 16"

lemmas name_limits = maxBackendSetNameLength_def maxListenerPolicyNameLength_def listenerPolicyNameHashLength_def

text \<open>\<open>validOCIRoutingPolicyNamePattern\<close> and \<open>hashedListenerPolicyNamePattern\<close>.\<close>

definition validOCIRoutingPolicyNamePattern :: "string \<Rightarrow> bool" where
  "validOCIRoutingPolicyNamePattern s \<longleftrightarrow> s \<noteq> [] \<and> name_start (hd s) \<and> list_all name_char (tl s)"

definition hashedListenerPolicyNamePattern :: "string \<Rightarrow> bool" where
  "hashedListenerPolicyNamePattern s \<longleftrightarrow>
     (let rest = drop 18 s in
      take 2 s = ''p_'' \<and> length (take 16 (drop 2 s)) = 16 \<and> list_all is_hex_digit (take 16 (drop 2 s)) \<and>
      has_prefix rest ''_'' \<and> tl rest \<noteq> [] \<and> list_all name_char (tl rest))"

definition isValidOCIRoutingPolicyName :: "string \<Rightarrow> bool" where
  "isValidOCIRoutingPolicyName policyName \<longleftrightarrow>
     length policyName \<le> maxListenerPolicyNameLength \<and> validOCIRoutingPolicyNamePattern policyName"

definition isControllerManagedListenerPolicyName :: "string \<Rightarrow> bool" where
  "isControllerManagedListenerPolicyName policyName \<longleftrightarrow>
     hashedListenerPolicyNamePattern policyName \<or>
     (has_suffix policyName ''_policy'' \<and> isValidOCIRoutingPolicyName policyName)"

definition listenerPolicyNameHash :: "string \<Rightarrow> string" where
  "listenerPolicyNameHash listenerName = take listenerPolicyNameHashLength (sha256_hex listenerName)"

definition listenerPolicyName :: "string \<Rightarrow> string" where
  "listenerPolicyName listenerName =
     (let rawName = listenerName @ ''_policy'' in
      if isValidOCIRoutingPolicyName rawName then rawName
      else (let namePrefix = ''p_'' @ listenerPolicyNameHash listenerName @ ''_'';
                nameSuffix = replace_runes invalidCharsForPolicyNamePattern rawName ''_'';
                maxSuffixLength = maxListenerPolicyNameLength - length namePrefix
            in namePrefix @ (if length nameSuffix > maxSuffixLength
                 then take maxSuffixLength nameSuffix else nameSuffix)))"

lemma listenerPolicyName_hashed:
  assumes "\<not> isValidOCIRoutingPolicyName (listenerName @ ''_policy'')"
  obtains suffix where "listenerPolicyName listenerName = ''p_'' @ listenerPolicyNameHash listenerName @ ''_'' @ suffix"
    and "suffix \<noteq> []" "list_all name_char suffix" "length suffix \<le> 13"
proof
  define r where "r = replace_runes invalidCharsForPolicyNamePattern (listenerName @ ''_policy'') ''_''"
  have "length (listenerPolicyNameHash listenerName) = 16"
    by (simp add: listenerPolicyNameHash_def name_limits)
  then have n: "maxListenerPolicyNameLength - length (''p_'' @ listenerPolicyNameHash listenerName @ ''_'') = 13"
    by (simp add: name_limits)
  show "listenerPolicyName listenerName = ''p_'' @ listenerPolicyNameHash listenerName @ ''_'' @ take 13 r"
    using assms unfolding listenerPolicyName_def Let_def r_def [symmetric] n by simp
  show "take 13 r \<noteq> []" using replace_runes_nonempty by (simp add: r_def)
  show "list_all name_char (take 13 r)"
    using replace_runes_valid [of "listenerName @ ''_policy''"] by (auto simp: list_all_iff r_def dest: in_set_takeD)
  show "length (take 13 r) \<le> 13" by simp
qed

lemma hash_is_hex: "list_all is_hex_digit (listenerPolicyNameHash l)"
  by (auto simp: listenerPolicyNameHash_def list_all_iff dest: in_set_takeD sha256_hex_hex)

lemma hash_length: "length (listenerPolicyNameHash l) = 16"
  by (simp add: listenerPolicyNameHash_def name_limits)

lemma hex_name_char: "is_hex_digit c \<Longrightarrow> name_char c"
  by (auto simp: is_hex_digit_def name_char_def byte_in_def)

text \<open>C27: The name of a listener's routing policy is one that OCI accepts.\<close>

theorem listenerPolicyName_valid: "isValidOCIRoutingPolicyName (listenerPolicyName listenerName)"
proof (cases "isValidOCIRoutingPolicyName (listenerName @ ''_policy'')")
  case True
  then show ?thesis by (simp add: listenerPolicyName_def)
next
  case False
  obtain suffix where s: "listenerPolicyName listenerName = ''p_'' @ listenerPolicyNameHash listenerName @ ''_'' @ suffix"
    "suffix \<noteq> []" "list_all name_char suffix" "length suffix \<le> 13"
    using listenerPolicyName_hashed [OF False] .
  have "list_all name_char (listenerPolicyNameHash listenerName)"
    using hash_is_hex hex_name_char by (auto simp: list_all_iff)
  with s show ?thesis
    by (simp add: isValidOCIRoutingPolicyName_def validOCIRoutingPolicyNamePattern_def name_limits hash_length
        name_start_def name_char_def byte_in_def is_digit_def)
qed

text \<open>
  Every policy name the controller makes is recognised as its own when it looks for
  orphaned policies.
\<close>

theorem listenerPolicyName_managed: "isControllerManagedListenerPolicyName (listenerPolicyName listenerName)"
proof (cases "isValidOCIRoutingPolicyName (listenerName @ ''_policy'')")
  case True
  then show ?thesis
    by (auto simp: listenerPolicyName_def isControllerManagedListenerPolicyName_def has_suffix_iff)
next
  case False
  obtain suffix where s: "listenerPolicyName listenerName = ''p_'' @ listenerPolicyNameHash listenerName @ ''_'' @ suffix"
    "suffix \<noteq> []" "list_all name_char suffix"
    using listenerPolicyName_hashed [OF False] .
  have "drop 18 (listenerPolicyName listenerName) = ''_'' @ suffix"
    "take 16 (drop 2 (listenerPolicyName listenerName)) = listenerPolicyNameHash listenerName"
    using hash_length by (simp_all add: s(1))
  then have "hashedListenerPolicyNamePattern (listenerPolicyName listenerName)"
    unfolding hashedListenerPolicyNamePattern_def Let_def
    using s(2,3) hash_is_hex hash_length by (simp add: s(1) has_prefix_def)
  then show ?thesis by (simp add: isControllerManagedListenerPolicyName_def)
qed

section \<open>Rule names\<close>

definition ociListenerPolicyRuleIdentity :: "int \<Rightarrow> string list \<Rightarrow> string" where
  "ociListenerPolicyRuleIdentity ruleIndex nameParts =
     int_to_string ruleIndex @
     concat (map (\<lambda>part. '':'' @ int_to_string (int (length part)) @ '':'' @ part) nameParts)"

text \<open>\<open>%04d\<close>: the sign is part of the width.\<close>

definition index04 :: "int \<Rightarrow> string" where
  "index04 i = (if i < 0 then ''-'' @ pad_zero 3 (nat_to_string (nat (- i))) else pad_zero 4 (nat_to_string (nat i)))"

definition policyRuleNameConfig :: oci_resource_name_config where
  "policyRuleNameConfig = \<lparr>MaxLength = int maxListenerPolicyNameLength,
     InvalidCharsPattern = Some invalidCharsForPolicyNamePattern, sanitizeFunc = None, hashFunc = None\<rparr>"

definition ociListenerPolicyRuleNameFromParts :: "int \<Rightarrow> string list \<Rightarrow> string" where
  "ociListenerPolicyRuleNameFromParts ruleIndex nameParts =
     ConstructOCIResourceName
       (''p'' @ index04 ruleIndex @ ''_'' @
        hex_digits 8 (unat (crc32_ieee (ociListenerPolicyRuleIdentity ruleIndex nameParts))) @ ''_'' @
        str_join ''_'' nameParts)
       policyRuleNameConfig"

definition ociListerPolicyRuleName :: "http_route \<Rightarrow> nat \<Rightarrow> string" where
  "ociListerPolicyRuleName route ruleIndex =
     ociListenerPolicyRuleNameFromParts (int ruleIndex)
       ([rt_namespace route, rt_name route] @
        (case rr_name (rt_rules route ! ruleIndex) of None \<Rightarrow> [] | Some n \<Rightarrow> [n]))"

definition ociGRPCListenerPolicyRuleName :: "grpc_route \<Rightarrow> nat \<Rightarrow> string" where
  "ociGRPCListenerPolicyRuleName route ruleIndex =
     ociListenerPolicyRuleNameFromParts (int ruleIndex)
       ([''grpc'', rt_namespace route, rt_name route] @
        (case rr_name (rt_rules route ! ruleIndex) of None \<Rightarrow> [] | Some n \<Rightarrow> [n]))"

text \<open>The checksummed identity of a rule tells rules apart: it is injective.\<close>

lemma nat_to_string_no_colon: "CHR '':'' \<notin> set (nat_to_string n)"
  using nat_to_string_digits [of "CHR '':''"] by (auto simp: is_digit_def)

lemma split_at_colon:
  assumes "CHR '':'' \<notin> set a" "CHR '':'' \<notin> set b" "a @ CHR '':'' # x = b @ CHR '':'' # y"
  shows "a = b \<and> x = y"
  using assms
proof (induction a arbitrary: b)
  case Nil
  then show ?case by (cases b) auto
next
  case (Cons c a)
  then show ?case by (cases b) auto
qed

definition identityParts :: "string list \<Rightarrow> string" where
  "identityParts nameParts =
     concat (map (\<lambda>part. '':'' @ int_to_string (int (length part)) @ '':'' @ part) nameParts)"

lemma identityParts_Nil: "identityParts [] = []"
  by (simp add: identityParts_def)

lemma identityParts_Cons:
  "identityParts (p # ps) = CHR '':'' # nat_to_string (length p) @ CHR '':'' # p @ identityParts ps"
  by (simp add: identityParts_def int_to_string_def)

lemma identityParts_inj: "identityParts ps = identityParts qs \<Longrightarrow> ps = qs"
proof (induction ps arbitrary: qs)
  case Nil
  then show ?case by (cases qs) (auto simp: identityParts_Cons, simp_all add: identityParts_def)
next
  case (Cons p ps)
  then obtain q qs' where qs: "qs = q # qs'"
    by (cases qs) (auto simp: identityParts_Cons, simp add: identityParts_def)
  from Cons.prems have "nat_to_string (length p) @ CHR '':'' # p @ identityParts ps =
      nat_to_string (length q) @ CHR '':'' # q @ identityParts qs'"
    by (simp add: qs identityParts_Cons)
  then have "nat_to_string (length p) = nat_to_string (length q) \<and> p @ identityParts ps = q @ identityParts qs'"
    by (intro split_at_colon nat_to_string_no_colon)
  then have "p = q" "identityParts ps = identityParts qs'"
    by (auto simp: nat_to_string_inj)
  with Cons.IH qs show ?case by simp
qed

lemma int_to_string_inj: "int_to_string i = int_to_string j \<longleftrightarrow> i = j"
proof -
  have "nat_to_string a \<noteq> CHR ''-'' # s" for a s
    using nat_to_string_digits [of "CHR ''-''" a] by (auto simp: is_digit_def)
  then show ?thesis
    by (auto simp: int_to_string_def nat_to_string_inj dest: sym split: if_splits)
qed

lemma int_to_string_no_colon: "CHR '':'' \<notin> set (int_to_string i)"
  by (auto simp: int_to_string_def nat_to_string_no_colon)

lemma takeWhile_to_end: "c \<notin> set a \<Longrightarrow> r = [] \<or> hd r = c \<Longrightarrow> takeWhile (\<lambda>x. x \<noteq> c) (a @ r) = a"
  by (induction a) (cases r; auto)+

text \<open>
  Rules of different routes, or different rules of one route, have different identities, so
  only the truncated hash of an identity can make their names collide.
\<close>

theorem ruleIdentity_injective:
  "ociListenerPolicyRuleIdentity i ps = ociListenerPolicyRuleIdentity j qs \<longleftrightarrow> i = j \<and> ps = qs"
proof
  assume eq: "ociListenerPolicyRuleIdentity i ps = ociListenerPolicyRuleIdentity j qs"
  then have eq': "int_to_string i @ identityParts ps = int_to_string j @ identityParts qs"
    by (simp add: ociListenerPolicyRuleIdentity_def identityParts_def)
  have no: "CHR '':'' \<notin> set (int_to_string i)" for i by (rule int_to_string_no_colon)
  have "identityParts ps = [] \<or> hd (identityParts ps) = CHR '':''" for ps
    by (cases ps) (simp_all add: identityParts_Cons identityParts_Nil)
  then have "takeWhile (\<lambda>c. c \<noteq> CHR '':'') (int_to_string i @ identityParts ps) = int_to_string i" for i ps
    using takeWhile_to_end [OF no] by metis
  with eq' have "int_to_string i = int_to_string j" by metis
  with eq' have "i = j" "identityParts ps = identityParts qs" by (auto simp: int_to_string_inj)
  then show "i = j \<and> ps = qs" using identityParts_inj by blast
qed simp

text \<open>The hash never replaces the start of a name: the index prefix of a rule name survives.\<close>

lemma ConstructOCIResourceName_take:
  assumes "sanitizeFunc config = None" "hashFunc config = None" "MaxLength config = 32"
    and "InvalidCharsPattern config = Some pat" "raw \<noteq> []"
    and "replace_runes pat raw ''_'' = pre @ rest" "length pre \<le> 12"
  shows "\<exists>r. ConstructOCIResourceName raw config = pre @ r"
proof (cases "length (replace_runes pat raw ''_'') > 32")
  case False
  with assms show ?thesis by (simp add: ConstructOCIResourceName_def defaultSanitizeFunc_def Let_def)
next
  case True
  define r where "r = replace_runes pat raw ''_''"
  obtain s t where st: "hashPlacement (int (length r)) 8 32 = (s, t)" by fastforce
  have "12 \<le> s" "s \<le> int (length r)" using st True by (auto simp: hashPlacement_def Let_def r_def split: if_splits)
  then have "length pre \<le> nat s" using assms(7) by simp
  then have "take (nat s) r = pre @ take (nat s - length pre) rest"
    by (simp add: r_def assms(6))
  moreover have "ConstructOCIResourceName raw config =
      take (nat s) r @ defaultHashFunc raw @ drop (nat t) r"
    using assms(1-5) True st
    by (simp add: ConstructOCIResourceName_def defaultSanitizeFunc_def Let_def r_def defaultHashFunc_def)
  ultimately show ?thesis by simp
qed

definition rawRuleName :: "int \<Rightarrow> string list \<Rightarrow> string" where
  "rawRuleName i parts = ''p'' @ index04 i @ ''_'' @
    hex_digits 8 (unat (crc32_ieee (ociListenerPolicyRuleIdentity i parts))) @ ''_'' @ str_join ''_'' parts"

lemma ruleName_raw: "ociListenerPolicyRuleNameFromParts i parts = ConstructOCIResourceName (rawRuleName i parts) policyRuleNameConfig"
  by (simp add: ociListenerPolicyRuleNameFromParts_def rawRuleName_def)

lemma digit_name_char: "is_digit c \<Longrightarrow> name_char c"
  by (simp add: name_char_def)

lemma index04_digits: "0 \<le> i \<Longrightarrow> list_all name_char (index04 i)"
  by (auto simp: index04_def pad_zero_def list_all_iff is_digit_def
      intro!: digit_name_char dest: nat_to_string_digits)

lemma length_nat_to_string:
  "n < 10 \<Longrightarrow> length (nat_to_string n) = 1"
  "10 \<le> n \<Longrightarrow> n < 100 \<Longrightarrow> length (nat_to_string n) = 2"
  by (simp_all add: nat_to_string.simps [of n] nat_to_string.simps [of "n div 10"])

lemma digits4:
  assumes "n < 10000"
  shows "pad_zero 4 (nat_to_string n) = [digit_char (n div 1000), digit_char (n div 100 mod 10),
    digit_char (n div 10 mod 10), digit_char (n mod 10)]"
proof -
  have step: "nat_to_string k = nat_to_string (k div 10) @ [digit_char (k mod 10)]" if "10 \<le> k" for k
    using that by (simp add: nat_to_string.simps [of k])
  have one: "nat_to_string k = [digit_char k]" if "k < 10" for k
    using that by (simp add: nat_to_string.simps [of k])
  have rep: "replicate 3 c = [c, c, c]" "replicate 2 c = [c, c]" for c :: char
    by (simp_all add: numeral_eq_Suc)
  have z: "digit_char 0 = CHR ''0''" by code_simp
  consider "n < 10" | "10 \<le> n" "n < 100" | "100 \<le> n" "n < 1000" | "1000 \<le> n" by linarith
  then show ?thesis
  proof cases
    case 1
    then have "n div 10 = 0" "n div 100 = 0" "n div 1000 = 0" by auto
    with one [OF 1] 1 show ?thesis by (simp add: pad_zero_def z rep)
  next
    case 2
    then have "n div 10 < 10" "n div 100 = 0" "n div 1000 = 0" by auto
    with step [OF 2(1)] show ?thesis by (simp add: one pad_zero_def z rep)
  next
    case 3
    then have "10 \<le> n" "10 \<le> n div 10" "n div 100 < 10" "n div 1000 = 0" by auto
    with step [of n] step [of "n div 10"] show ?thesis
      by (simp add: one pad_zero_def z div_mult2_eq [of n 10 10, simplified])
  next
    case 4
    then have "10 \<le> n" "10 \<le> n div 10" "10 \<le> n div 100" "n div 1000 < 10" using assms by auto
    with step [of n] step [of "n div 10"] step [of "n div 100"] show ?thesis
      by (simp add: one pad_zero_def div_mult2_eq [of n 10 10, simplified] div_mult2_eq [of n 100 10, simplified])
  qed
qed

lemma ruleName_starts_p: "\<exists>r. ociListenerPolicyRuleNameFromParts i parts = CHR ''p'' # r"
proof -
  define rest where "rest = tl (rawRuleName i parts)"
  have raw: "rawRuleName i parts = ''p'' @ rest" by (simp add: rest_def rawRuleName_def)
  have "\<exists>r. ConstructOCIResourceName (rawRuleName i parts) policyRuleNameConfig = ''p'' @ r"
  proof (rule ConstructOCIResourceName_take)
    show "replace_runes invalidCharsForPolicyNamePattern (rawRuleName i parts) ''_'' =
        ''p'' @ replace_runes invalidCharsForPolicyNamePattern rest ''_''"
      unfolding raw by (rule replace_runes_id_prefix) (simp add: name_char_def byte_in_def)
  qed (simp_all add: policyRuleNameConfig_def name_limits raw)
  then show ?thesis by (simp add: ruleName_raw)
qed

lemma ruleName_starts_index:
  assumes "0 \<le> i" "i < 10000"
  shows "\<exists>r. ociListenerPolicyRuleNameFromParts i parts = (CHR ''p'' # index04 i) @ r"
proof -
  have len: "length (index04 i) = 4" using assms digits4 [of "nat i"] by (simp add: index04_def)
  define rest where "rest = drop 5 (rawRuleName i parts)"
  have raw: "rawRuleName i parts = (CHR ''p'' # index04 i) @ rest" by (simp add: rest_def rawRuleName_def len)
  have "\<exists>r. ConstructOCIResourceName (rawRuleName i parts) policyRuleNameConfig = (CHR ''p'' # index04 i) @ r"
  proof (rule ConstructOCIResourceName_take)
    show "replace_runes invalidCharsForPolicyNamePattern (rawRuleName i parts) ''_'' =
        (CHR ''p'' # index04 i) @ replace_runes invalidCharsForPolicyNamePattern rest ''_''"
      unfolding raw using index04_digits [OF assms(1)]
      by (intro replace_runes_id_prefix) (simp add: name_char_def byte_in_def)
  qed (simp_all add: policyRuleNameConfig_def name_limits raw len)
  then show ?thesis by (simp add: ruleName_raw)
qed

lemma digit_char_less: "a < 10 \<Longrightarrow> b < 10 \<Longrightarrow> digit_char a < digit_char b \<longleftrightarrow> a < b"
  by (simp add: digit_char_def less_char_def)

lemma less_prefix: "length a = length b \<Longrightarrow> a < b \<Longrightarrow> a @ x < b @ (y :: string)"
  by (induction a b rule: list_induct2) auto

lemma digits_less:
  fixes a b :: nat
  assumes "1000 * a + 100 * b + 10 * c + d < 1000 * a' + 100 * b' + 10 * c' + d'"
    and "b < 10" "b' < 10" "c < 10" "c' < 10" "d < 10" "d' < 10"
  shows "a < a' \<or> a = a' \<and> (b < b' \<or> b = b' \<and> (c < c' \<or> c = c' \<and> d < d'))"
  using assms by linarith

lemma index04_less:
  assumes "0 \<le> i" "i < j" "j < 10000"
  shows "index04 i < index04 j"
proof -
  define m n where "m = nat i" and "n = nat j"
  have mn: "m < n" "n < 10000" "m < 10000" using assms by (auto simp: m_def n_def)
  have digits: "k = 1000 * (k div 1000) + 100 * (k div 100 mod 10) + 10 * (k div 10 mod 10) + k mod 10" for k :: nat
  proof -
    have "k div 100 = 10 * (k div 1000) + k div 100 mod 10" "k div 10 = 10 * (k div 100) + k div 10 mod 10"
      by (simp_all add: div_mult2_eq [of k 10 10, simplified] div_mult2_eq [of k 100 10, simplified])
    moreover have "k = 10 * (k div 10) + k mod 10" by simp
    ultimately show ?thesis by linarith
  qed
  have "m div 1000 < n div 1000 \<or> m div 1000 = n div 1000 \<and>
      (m div 100 mod 10 < n div 100 mod 10 \<or> m div 100 mod 10 = n div 100 mod 10 \<and>
      (m div 10 mod 10 < n div 10 mod 10 \<or> m div 10 mod 10 = n div 10 mod 10 \<and> m mod 10 < n mod 10))"
    using digits_less [of "m div 1000" "m div 100 mod 10" "m div 10 mod 10" "m mod 10"
        "n div 1000" "n div 100 mod 10" "n div 10 mod 10" "n mod 10"] digits [of m] digits [of n] mn(1)
    by simp
  moreover have "m div 1000 < 10" "n div 1000 < 10" using mn by auto
  ultimately have "pad_zero 4 (nat_to_string m) < pad_zero 4 (nat_to_string n)"
    using mn by (auto simp: digits4 digit_char_less)
  with assms show ?thesis by (simp add: index04_def m_def n_def)
qed

text \<open>
  Rule names sort by the rule index, whatever route the rules belong to, for the first ten
  thousand indices.
\<close>

theorem ruleNames_sortable:
  assumes "0 \<le> i" "i < j" "j < 10000"
  shows "ociListenerPolicyRuleNameFromParts i parts < ociListenerPolicyRuleNameFromParts j parts'"
proof -
  obtain r r' where r: "ociListenerPolicyRuleNameFromParts i parts = (CHR ''p'' # index04 i) @ r"
      "ociListenerPolicyRuleNameFromParts j parts' = (CHR ''p'' # index04 j) @ r'"
    using ruleName_starts_index assms by (metis order.strict_trans order.strict_trans1 order_less_imp_le)
  have "length (index04 i) = length (index04 j)"
    using assms digits4 [of "nat i"] digits4 [of "nat j"] by (simp add: index04_def)
  with index04_less [OF assms] show ?thesis unfolding r by (intro less_prefix) simp_all
qed

theorem ruleNames_sortable_witness:
  "ociListenerPolicyRuleNameFromParts 2 [''ns'', ''b''] < ociListenerPolicyRuleNameFromParts 10 [''ns'', ''a'']"
  by (rule ruleNames_sortable) simp_all

text \<open>The name of a rule is valid for OCI, whatever the names of the route are.\<close>

theorem ruleName_valid: "isValidOCIRoutingPolicyName (ociListenerPolicyRuleNameFromParts i parts)"
proof -
  have "list_all name_char (ociListenerPolicyRuleNameFromParts i parts)"
    unfolding ociListenerPolicyRuleNameFromParts_def
    by (rule ConstructOCIResourceName_chars) (simp_all add: policyRuleNameConfig_def)
  moreover have "int (length (ociListenerPolicyRuleNameFromParts i parts)) \<le> 32"
    using ConstructOCIResourceName_length [of policyRuleNameConfig "rawRuleName i parts"]
    by (simp add: ruleName_raw policyRuleNameConfig_def name_limits)
  ultimately show ?thesis
    using ruleName_starts_p [of i parts]
    by (auto simp: isValidOCIRoutingPolicyName_def validOCIRoutingPolicyNamePattern_def name_limits
        name_start_def is_digit_def)
qed

section \<open>Backend sets and certificates\<close>

definition backendSetNameConfig :: oci_resource_name_config where
  "backendSetNameConfig = \<lparr>MaxLength = int maxBackendSetNameLength, InvalidCharsPattern = None,
     sanitizeFunc = None, hashFunc = None\<rparr>"

definition ociBackendSetNameFromBackendObjectRef :: "string \<Rightarrow> backend_ref \<Rightarrow> string" where
  "ociBackendSetNameFromBackendObjectRef defaultNamespace backendRef =
     (let refName = br_name backendRef;
          refNamespace0 = str_ptr (br_namespace backendRef);
          refNamespace = (if refNamespace0 = [] then defaultNamespace else refNamespace0);
          originalName0 = refNamespace @ ''-'' @ refName;
          originalName = (case br_port backendRef of
            None \<Rightarrow> originalName0 | Some port \<Rightarrow> originalName0 @ ''-'' @ int_to_string port)
      in ConstructOCIResourceName originalName backendSetNameConfig)"

definition ociBackendSetNameFromBackendRef :: "http_route \<Rightarrow> backend_ref \<Rightarrow> string" where
  "ociBackendSetNameFromBackendRef httpRoute backendRef =
     ociBackendSetNameFromBackendObjectRef (rt_namespace httpRoute) backendRef"

definition ociBackendSetNameFromGRPCBackendRef :: "grpc_route \<Rightarrow> backend_ref \<Rightarrow> string" where
  "ociBackendSetNameFromGRPCBackendRef grpcRoute backendRef =
     ociBackendSetNameFromBackendObjectRef (rt_namespace grpcRoute) backendRef"

definition ociBackendSetNameFromService :: "string \<Rightarrow> string \<Rightarrow> string" where
  "ociBackendSetNameFromService namespace name =
     ConstructOCIResourceName (namespace @ ''-'' @ name) backendSetNameConfig"

record k8s_secret =
  sec_namespace :: string
  sec_name :: string
  sec_uid :: string
  sec_resource_version :: string
  sec_data :: "(string \<times> string) list"

definition ociCertificateNameFromSecret :: "k8s_secret \<Rightarrow> string" where
  "ociCertificateNameFromSecret secret =
     sec_namespace secret @ ''-'' @ sec_name secret @ ''-rev-'' @ sec_resource_version secret"

definition frontendMTLSListenerCertificateName :: "k8s_secret \<Rightarrow> int \<Rightarrow> string \<Rightarrow> string" where
  "frontendMTLSListenerCertificateName secret port caPEM =
     ociCertificateNameFromSecret secret @ ''-fmtls-'' @ int_to_string port @ ''-'' @ take 8 (sha256_hex caPEM)"

definition frontendMTLSCertificateRootName :: "string \<Rightarrow> string" where
  "frontendMTLSCertificateRootName certName =
     (case str_cut certName ''-fmtls-'' of Some (root, _) \<Rightarrow> root | None \<Rightarrow> certName)"

text \<open>
  Backend set names fit the limit of 32 bytes.
\<close>

theorem backendSetName_length:
  "length (ociBackendSetNameFromBackendObjectRef namespace ref) \<le> maxBackendSetNameLength"
  using ConstructOCIResourceName_length [of backendSetNameConfig]
  by (simp add: ociBackendSetNameFromBackendObjectRef_def backendSetNameConfig_def name_limits Let_def)

text \<open>
  Backend set names are not unique: namespace and name are joined by a hyphen that both may
  contain, so two services of different namespaces share a backend set.
\<close>

theorem backendSetName_collision:
  "\<exists>refA refB. br_namespace refA \<noteq> br_namespace refB \<and> br_name refA \<noteq> br_name refB \<and>
    ociBackendSetNameFromBackendObjectRef ns refA = ociBackendSetNameFromBackendObjectRef ns refB"
proof (intro exI conjI)
  let ?ref = "\<lambda>ns n. \<lparr>br_group = None, br_kind = None, br_name = n, br_namespace = Some ns,
    br_port = Some 80, br_weight = None\<rparr>"
  show "ociBackendSetNameFromBackendObjectRef ns (?ref ''team-a'' ''web'') =
      ociBackendSetNameFromBackendObjectRef ns (?ref ''team'' ''a-web'')"
    by (simp add: ociBackendSetNameFromBackendObjectRef_def)
qed simp_all

text \<open>Cutting at the mutual TLS marker gives back the certificate the name was built from.\<close>

lemma str_cut_first:
  assumes "p \<noteq> []" "\<not> str_contains (a @ butlast p) p"
  shows "str_cut (a @ p @ b) p = Some (a, b)"
  using assms(2)
proof (induction a)
  case Nil
  have "has_prefix (p @ b) p" by simp
  moreover have "drop (length p) (p @ b) = b" by simp
  moreover obtain x xs where "p @ b = x # xs" using assms(1) by (cases "p @ b") auto
  ultimately show ?case by simp
next
  case (Cons c a)
  have pb: "c # a @ p @ b = (c # a @ butlast p) @ [last p] @ b"
    using append_butlast_last_id [OF assms(1)] by (metis append.assoc append_Cons)
  have "\<not> has_prefix (c # a @ p @ b) p"
  proof
    assume "has_prefix (c # a @ p @ b) p"
    then have "take (length p) ((c # a @ butlast p) @ [last p] @ b) = p"
      unfolding has_prefix_def pb by simp
    moreover have "length p \<le> length (c # a @ butlast p)" using assms(1) by simp
    ultimately have "take (length p) (c # a @ butlast p) = p" by (metis take_append append_Nil2 diff_is_0_eq take_eq_Nil)
    with Cons.prems show False by (simp add: has_prefix_def)
  qed
  with Cons show ?case by simp
qed

text \<open>
  The root name of a frontend mTLS certificate is read back from the certificate's name.
\<close>

theorem frontendMTLS_root_roundtrip:
  assumes "\<not> str_contains (ociCertificateNameFromSecret secret @ ''-fmtls'') ''-fmtls-''"
  shows "frontendMTLSCertificateRootName (frontendMTLSListenerCertificateName secret port caPEM) =
    ociCertificateNameFromSecret secret"
proof -
  have "str_cut (ociCertificateNameFromSecret secret @ ''-fmtls-'' @ int_to_string port @ ''-'' @ take 8 (sha256_hex caPEM))
      ''-fmtls-'' = Some (ociCertificateNameFromSecret secret, int_to_string port @ ''-'' @ take 8 (sha256_hex caPEM))"
    using assms by (intro str_cut_first) simp_all
  then show ?thesis
    by (simp add: frontendMTLSCertificateRootName_def frontendMTLSListenerCertificateName_def)
qed

theorem frontendMTLS_root_roundtrip_witness:
  "frontendMTLSCertificateRootName (frontendMTLSListenerCertificateName
     \<lparr>sec_namespace = ''ns'', sec_name = ''tls'', sec_uid = ''u'', sec_resource_version = ''42'', sec_data = []\<rparr> 443 ''pem'') = ''ns-tls-rev-42''"
  using frontendMTLS_root_roundtrip
    [of "\<lparr>sec_namespace = ''ns'', sec_name = ''tls'', sec_uid = ''u'', sec_resource_version = ''42'', sec_data = []\<rparr>" 443 "''pem''"]
  by (simp add: ociCertificateNameFromSecret_def has_prefix_def)

end
