(* ===== verification/Ports.thy ===== *)
theory Ports
  imports Errors OciNames GatewayTypes
begin

text \<open>
  The OCI Load Balancer service as the controller sees it (\<open>src/internal/app/ports.go\<close>):
  the objects it reads and writes, one constructor of \<open>lb_call\<close> per request, and the
  answers \<open>lb_env\<close>, functions of the calls issued before. Sub-objects the code only copies
  are strings.
\<close>

section \<open>Objects\<close>

type_synonym 'v go_map = "(string \<times> 'v) list"

record ssl_configuration =
  sc_verify_depth :: "int option"
  sc_verify_peer :: "bool option"
  sc_session_resumption :: "bool option"
  sc_trusted_ca_ids :: "string list"
  sc_certificate_ids :: "string list"
  sc_certificate_name :: "string option"
  sc_protocols :: "string list"
  sc_cipher_suite :: "string option"
  sc_server_order :: string

record ssl_details =
  sd_verify_depth :: "int option"
  sd_verify_peer :: "bool option"
  sd_session_resumption :: "bool option"
  sd_trusted_ca_ids :: "string list"
  sd_certificate_ids :: "string list"
  sd_certificate_name :: "string option"
  sd_protocols :: "string list"
  sd_cipher_suite :: "string option"
  sd_server_order :: string

record health_checker =
  hc_protocol :: "string option"
  hc_port :: "int option"
  hc_return_code :: "int option"
  hc_body_regex :: "string option"
  hc_url_path :: "string option"
  hc_retries :: "int option"
  hc_timeout :: "int option"
  hc_interval :: "int option"
  hc_plain_text :: "bool option"

record health_checker_details =
  hd_protocol :: "string option"
  hd_port :: "int option"
  hd_return_code :: "int option"
  hd_body_regex :: "string option"
  hd_url_path :: "string option"
  hd_retries :: "int option"
  hd_timeout :: "int option"
  hd_interval :: "int option"
  hd_plain_text :: "bool option"

record lb_backend =
  b_name :: "string option"
  b_ip :: "string option"
  b_port :: "int option"
  b_weight :: "int option"
  b_max_connections :: "int option"
  b_backup :: "bool option"
  b_drain :: "bool option"
  b_offline :: "bool option"

record backend_details =
  bd_ip :: "string option"
  bd_port :: "int option"
  bd_weight :: "int option"
  bd_max_connections :: "int option"
  bd_backup :: "bool option"
  bd_drain :: "bool option"
  bd_offline :: "bool option"

record backend_set =
  bs_name :: "string option"
  bs_policy :: "string option"
  bs_backends :: "lb_backend list"
  bs_health_checker :: "health_checker option"
  bs_ssl :: "ssl_configuration option"
  bs_session_persistence :: "string option"
  bs_lb_cookie_persistence :: "string option"

datatype routing_action = ForwardToBackendSet "string option" | OtherAction string

record routing_rule =
  rule_name :: "string option"
  rule_condition :: "string option"
  rule_actions :: "routing_action list"

record routing_policy =
  rp_name :: "string option"
  rp_language :: string
  rp_rules :: "routing_rule list"

record lb_listener =
  ll_name :: "string option"
  ll_default_backend_set :: "string option"
  ll_port :: "int option"
  ll_protocol :: "string option"
  ll_hostname_names :: "string list"
  ll_path_route_set :: "string option"
  ll_routing_policy :: "string option"
  ll_ssl :: "ssl_configuration option"
  ll_connection :: "string option"
  ll_rule_sets :: "string list"

record lb_certificate =
  ct_name :: "string option"
  ct_public :: "string option"

record load_balancer =
  lb_compartment :: "string option"
  lb_ip_addresses :: "string option list"
  lb_listeners :: "lb_listener go_map"
  lb_backend_sets :: "backend_set go_map"
  lb_routing_policies :: "routing_policy go_map"
  lb_certificates :: "lb_certificate go_map"

section \<open>Requests\<close>

record create_backend_set =
  cb_name :: string
  cb_policy :: string
  cb_backends :: "backend_details list"
  cb_health_checker :: health_checker_details
  cb_ssl :: "ssl_details option"

record update_backend_set =
  ub_backends :: "backend_details list"
  ub_policy :: "string option"
  ub_health_checker :: "health_checker_details option"
  ub_session_persistence :: "string option"
  ub_lb_cookie_persistence :: "string option"
  ub_ssl :: "ssl_details option"

record create_listener =
  cl_name :: string
  cl_default_backend_set :: string
  cl_port :: int
  cl_protocol :: string
  cl_routing_policy :: string
  cl_ssl :: "ssl_details option"

record update_listener =
  ul_default_backend_set :: "string option"
  ul_port :: "int option"
  ul_protocol :: "string option"
  ul_hostname_names :: "string list"
  ul_path_route_set :: "string option"
  ul_routing_policy :: "string option"
  ul_ssl :: "ssl_details option"
  ul_connection :: "string option"
  ul_rule_sets :: "string list"

record create_routing_policy =
  cp_name :: string
  cp_language :: string
  cp_rules :: "routing_rule list"

record update_routing_policy =
  up_language :: string
  up_rules :: "routing_rule list"

record create_certificate =
  cc_name :: string
  cc_public :: string
  cc_private :: string
  cc_ca :: "string option"

text \<open>CA bundles of the certificates service; a lifecycle state may be empty.\<close>

record ca_bundle =
  cab_id :: "string option"
  cab_name :: "string option"
  cab_state :: string
  cab_tags :: "string go_map"

record create_ca_bundle =
  ccb_name :: string
  ccb_compartment :: string
  ccb_pem :: string
  ccb_tags :: "string go_map"

record config_map =
  cm_namespace :: string
  cm_name :: string
  cm_uid :: string
  cm_version :: string
  cm_data :: "string go_map"

text \<open>Objects and requests of the network load balancer service.\<close>

record nlb_backend =
  nb_ip :: "string option"
  nb_port :: "int option"
  nb_weight :: "int option"
  nb_drain :: "bool option"
  nb_backup :: "bool option"
  nb_offline :: "bool option"

record nlb_backend_details =
  nd_name :: "string option"
  nd_ip :: "string option"
  nd_target_id :: "string option"
  nd_port :: "int option"
  nd_weight :: "int option"
  nd_drain :: "bool option"
  nd_backup :: "bool option"
  nd_offline :: "bool option"

record nlb_update_backend =
  nu_weight :: "int option"
  nu_drain :: "bool option"
  nu_backup :: "bool option"
  nu_offline :: "bool option"

record nlb_health_checker =
  nh_protocol :: string
  nh_port :: "int option"
  nh_retries :: "int option"
  nh_timeout :: "int option"
  nh_interval :: "int option"
  nh_url_path :: "string option"
  nh_body_regex :: "string option"
  nh_return_code :: "int option"
  nh_request_data :: "string option"
  nh_response_data :: "string option"
  nh_dns :: "string option"

record nlb_backend_set =
  nbs_policy :: string
  nbs_preserve_source :: "bool option"
  nbs_health_checker :: "nlb_health_checker option"
  nbs_backends :: "nlb_backend list"

record nlb_backend_set_details =
  ns_backends :: "nlb_backend_details list"
  ns_policy :: "string option"
  ns_preserve_source :: "bool option"
  ns_health_checker :: "nlb_health_checker option"

record nlb_create_backend_set =
  nc_name :: "string option"
  nc_policy :: string
  nc_health_checker :: "nlb_health_checker option"
  nc_preserve_source :: "bool option"

record nlb_listener =
  nll_protocol :: string
  nll_port :: "int option"
  nll_backend_set :: "string option"
  nll_tcp_idle :: "int option"
  nll_udp_idle :: "int option"

record nlb_update_listener =
  nul_backend_set :: "string option"
  nul_port :: "int option"
  nul_protocol :: string
  nul_tcp_idle :: "int option"
  nul_udp_idle :: "int option"

record network_load_balancer =
  nl_id :: "string option"
  nl_lifecycle :: string
  nl_addresses :: "string option list"
  nl_listeners :: "nlb_listener go_map"
  nl_backend_sets :: "nlb_backend_set go_map option"

text \<open>The requests to the load balancer service start with the load balancer id; the
  others wait for a work request or read the Kubernetes API.\<close>

datatype (plugins only: code size) lb_call =
    GetLoadBalancer string
  | GetBackendSet string string
  | GetRoutingPolicy string string
  | CreateBackendSet string create_backend_set
  | UpdateBackendSet string string update_backend_set
  | DeleteBackendSet string string
  | CreateListener string create_listener
  | UpdateListener string string update_listener
  | DeleteListener string "string option"
  | CreateRoutingPolicy string create_routing_policy
  | UpdateRoutingPolicy string string update_routing_policy
  | DeleteRoutingPolicy string string
  | CreateCertificate string create_certificate
  | DeleteCertificate string "string option"
  | WaitFor string
  | GetSecret string string
  | GetService string string
  | ListEndpointSlices string string
  | ListReferenceGrants string
  | GetNamespace string
  | GetConfigMap string string
  | GetGateway string string
  | GetGatewayClass string
  | GetGatewayConfig string string
  | ListListenerSets "string option"
  | GetListenerSet string string
  | UpdateGateway gateway
  | UpdateGatewayStatus gateway
  | UpdateGatewayClass gateway_class
  | UpdateGatewayClassStatus gateway_class
  | UpdateListenerSet listener_set
  | UpdateListenerSetStatus listener_set
  | GetHTTPRoute string string
  | GetGRPCRoute string string
  | GetL4Route string string string
  | ListHTTPRoutes
  | ListGRPCRoutes
  | ListL4Routes string
  | UpdateHTTPRoute http_route
  | UpdateHTTPRouteStatus http_route
  | UpdateGRPCRoute grpc_route
  | UpdateGRPCRouteStatus grpc_route
  | ListGateways
  | ListBackendTLSPolicies string
  | GetBackendTLSPolicy string string
  | UpdateBackendTLSPolicy backend_tls_policy
  | UpdateBackendTLSPolicyStatus backend_tls_policy
  | CacheCaBundle string string string string
  | GetCaBundle string
  | ListCaBundles string "string option"
  | CreateCaBundle create_ca_bundle
  | UpdateCaBundle "string option" string "string go_map"
  | DeleteCaBundle "string option"
  | GetNlb string
  | NlbCreateListener "string option" string nlb_update_listener
  | NlbUpdateListener "string option" string nlb_update_listener
  | NlbDeleteListener "string option" string
  | NlbCreateBackendSet "string option" nlb_create_backend_set
  | NlbUpdateBackendSet "string option" string nlb_backend_set_details
  | NlbDeleteBackendSet "string option" string
  | NlbCreateBackend "string option" string nlb_backend_details
  | NlbUpdateBackend "string option" string string nlb_update_backend
  | NlbDeleteBackend "string option" string string
  | NlbWaitFor string
  | UpdateL4Route string l4_route
  | UpdateL4RouteStatus string l4_route

section \<open>Answers\<close>

text \<open>
  \<open>env_unwraps\<close> says whether the SDK's \<open>IsServiceError\<close> looks into wrapped errors.
  \<open>env_certs_client\<close> says whether the controller has a client for the certificates service.
  The configuration of a Gateway is its load balancer id; a layer 4 route has a kind.
  \<open>env_selector\<close>, \<open>env_pem_decode\<close> (type, bytes and rest of a block) and \<open>env_x509\<close> (whether
  the certificate is a CA, and its common name) are the libraries the code calls.
  \<open>env_svc_text\<close> is the text of an SDK error, \<open>env_now\<close> the clock in nanoseconds;
  \<open>CacheCaBundle\<close> (compartment, name, hash, id) is the entry of a CA bundle in the controller's
  own cache, kept in the history for later lookups.
  A write answers with an optional work request id; \<open>env_wait\<close> is the outcome of
  waiting for one; \<open>env_order\<close> makes the choices of a Go map iteration; \<open>env_ctx_err\<close> is
  \<open>ctx.Err()\<close> at the moment.
\<close>

record lb_env =
  env_load_balancer :: "lb_call list \<Rightarrow> string \<Rightarrow> svc_error + load_balancer"
  env_backend_set :: "lb_call list \<Rightarrow> string \<Rightarrow> string \<Rightarrow> svc_error + backend_set"
  env_routing_policy :: "lb_call list \<Rightarrow> string \<Rightarrow> string \<Rightarrow> svc_error + routing_policy"
  env_write :: "lb_call list \<Rightarrow> lb_call \<Rightarrow> svc_error + string option"
  env_wait :: "lb_call list \<Rightarrow> string \<Rightarrow> error option"
  env_secret :: "lb_call list \<Rightarrow> string \<Rightarrow> string \<Rightarrow> error + k8s_secret"
  env_service :: "lb_call list \<Rightarrow> string \<Rightarrow> string \<Rightarrow> error + k8s_service"
  env_endpoint_slices :: "lb_call list \<Rightarrow> string \<Rightarrow> string \<Rightarrow> error + endpoint_slice list"
  env_grants :: "lb_call list \<Rightarrow> string \<Rightarrow> error + reference_grant list"
  env_namespace_labels :: "lb_call list \<Rightarrow> string \<Rightarrow> error + string go_map"
  env_config_map :: "lb_call list \<Rightarrow> string \<Rightarrow> string \<Rightarrow> error + config_map"
  env_gateway :: "lb_call list \<Rightarrow> string \<Rightarrow> string \<Rightarrow> error + gateway"
  env_gateway_class :: "lb_call list \<Rightarrow> string \<Rightarrow> error + gateway_class"
  env_gateway_config :: "lb_call list \<Rightarrow> string \<Rightarrow> string \<Rightarrow> error + string"
  env_listener_sets :: "lb_call list \<Rightarrow> string option \<Rightarrow> error + listener_set list"
  env_listener_set :: "lb_call list \<Rightarrow> string \<Rightarrow> string \<Rightarrow> error + listener_set"
  env_http_route :: "lb_call list \<Rightarrow> string \<Rightarrow> string \<Rightarrow> error + http_route"
  env_grpc_route :: "lb_call list \<Rightarrow> string \<Rightarrow> string \<Rightarrow> error + grpc_route"
  env_l4_route :: "lb_call list \<Rightarrow> string \<Rightarrow> string \<Rightarrow> string \<Rightarrow> error + l4_route"
  env_http_routes :: "lb_call list \<Rightarrow> error + http_route list"
  env_grpc_routes :: "lb_call list \<Rightarrow> error + grpc_route list"
  env_l4_routes :: "lb_call list \<Rightarrow> string \<Rightarrow> error + l4_route list"
  env_gateways :: "lb_call list \<Rightarrow> error + gateway list"
  env_backend_tls_policies :: "lb_call list \<Rightarrow> string \<Rightarrow> error + backend_tls_policy list"
  env_backend_tls_policy :: "lb_call list \<Rightarrow> string \<Rightarrow> string \<Rightarrow> error + backend_tls_policy"
  env_update :: "lb_call list \<Rightarrow> lb_call \<Rightarrow> error option"
  env_ca_bundle :: "lb_call list \<Rightarrow> string \<Rightarrow> svc_error option"
  env_ca_bundles :: "lb_call list \<Rightarrow> string \<Rightarrow> string option \<Rightarrow> svc_error + ca_bundle list"
  env_ca_create :: "lb_call list \<Rightarrow> create_ca_bundle \<Rightarrow> svc_error + ca_bundle"
  env_ca_write :: "lb_call list \<Rightarrow> lb_call \<Rightarrow> svc_error option"
  env_certs_client :: bool
  env_unwraps :: bool
  env_selector :: "string \<Rightarrow> error + (string go_map \<Rightarrow> bool)"
  env_pem_decode :: "string \<Rightarrow> (string \<times> string \<times> string) option"
  env_x509 :: "string \<Rightarrow> string + bool \<times> string"
  env_svc_text :: "svc_error \<Rightarrow> string"
  env_now :: "lb_call list \<Rightarrow> int"
  env_order :: "lb_call list \<Rightarrow> nat list"
  env_ctx_err :: "lb_call list \<Rightarrow> error option"
  env_nlb :: "lb_call list \<Rightarrow> string \<Rightarrow> svc_error + network_load_balancer"
  env_nlb_wait :: "lb_call list \<Rightarrow> string \<Rightarrow> error option"

type_synonym 'a lb_op = "(lb_call, error, 'a) eff"

definition get_load_balancer :: "lb_env \<Rightarrow> string \<Rightarrow> (svc_error + load_balancer) lb_op" where
  "get_load_balancer w lb = eff_call (GetLoadBalancer lb) (\<lambda>h. env_load_balancer w h lb)"

definition get_backend_set :: "lb_env \<Rightarrow> string \<Rightarrow> string \<Rightarrow> (svc_error + backend_set) lb_op" where
  "get_backend_set w lb name = eff_call (GetBackendSet lb name) (\<lambda>h. env_backend_set w h lb name)"

definition get_routing_policy :: "lb_env \<Rightarrow> string \<Rightarrow> string \<Rightarrow> (svc_error + routing_policy) lb_op" where
  "get_routing_policy w lb name = eff_call (GetRoutingPolicy lb name) (\<lambda>h. env_routing_policy w h lb name)"

text \<open>Reads of the Kubernetes API: a namespace and a name.\<close>

definition get_secret :: "lb_env \<Rightarrow> string \<Rightarrow> string \<Rightarrow> (error + k8s_secret) lb_op" where
  "get_secret w ns name = eff_call (GetSecret ns name) (\<lambda>h. env_secret w h ns name)"

definition get_service :: "lb_env \<Rightarrow> string \<Rightarrow> string \<Rightarrow> (error + k8s_service) lb_op" where
  "get_service w ns name = eff_call (GetService ns name) (\<lambda>h. env_service w h ns name)"

definition list_endpoint_slices :: "lb_env \<Rightarrow> string \<Rightarrow> string \<Rightarrow> (error + endpoint_slice list) lb_op" where
  "list_endpoint_slices w ns name = eff_call (ListEndpointSlices ns name) (\<lambda>h. env_endpoint_slices w h ns name)"

definition list_grants :: "lb_env \<Rightarrow> string \<Rightarrow> (error + reference_grant list) lb_op" where
  "list_grants w ns = eff_call (ListReferenceGrants ns) (\<lambda>h. env_grants w h ns)"

definition get_namespace :: "lb_env \<Rightarrow> string \<Rightarrow> (error + string go_map) lb_op" where
  "get_namespace w name = eff_call (GetNamespace name) (\<lambda>h. env_namespace_labels w h name)"

definition get_config_map :: "lb_env \<Rightarrow> string \<Rightarrow> string \<Rightarrow> (error + config_map) lb_op" where
  "get_config_map w ns name = eff_call (GetConfigMap ns name) (\<lambda>h. env_config_map w h ns name)"

definition get_gateway :: "lb_env \<Rightarrow> string \<Rightarrow> string \<Rightarrow> (error + gateway) lb_op" where
  "get_gateway w ns name = eff_call (GetGateway ns name) (\<lambda>h. env_gateway w h ns name)"

definition get_gateway_class :: "lb_env \<Rightarrow> string \<Rightarrow> (error + gateway_class) lb_op" where
  "get_gateway_class w name = eff_call (GetGatewayClass name) (\<lambda>h. env_gateway_class w h name)"

definition get_gateway_config :: "lb_env \<Rightarrow> string \<Rightarrow> string \<Rightarrow> (error + string) lb_op" where
  "get_gateway_config w ns name = eff_call (GetGatewayConfig ns name) (\<lambda>h. env_gateway_config w h ns name)"

definition list_listener_sets :: "lb_env \<Rightarrow> string option \<Rightarrow> (error + listener_set list) lb_op" where
  "list_listener_sets w key = eff_call (ListListenerSets key) (\<lambda>h. env_listener_sets w h key)"

definition get_listener_set :: "lb_env \<Rightarrow> string \<Rightarrow> string \<Rightarrow> (error + listener_set) lb_op" where
  "get_listener_set w ns name = eff_call (GetListenerSet ns name) (\<lambda>h. env_listener_set w h ns name)"

definition get_http_route :: "lb_env \<Rightarrow> string \<Rightarrow> string \<Rightarrow> (error + http_route) lb_op" where
  "get_http_route w ns name = eff_call (GetHTTPRoute ns name) (\<lambda>h. env_http_route w h ns name)"

definition get_grpc_route :: "lb_env \<Rightarrow> string \<Rightarrow> string \<Rightarrow> (error + grpc_route) lb_op" where
  "get_grpc_route w ns name = eff_call (GetGRPCRoute ns name) (\<lambda>h. env_grpc_route w h ns name)"

definition get_l4_route :: "lb_env \<Rightarrow> string \<Rightarrow> string \<Rightarrow> string \<Rightarrow> (error + l4_route) lb_op" where
  "get_l4_route w kind ns name = eff_call (GetL4Route kind ns name) (\<lambda>h. env_l4_route w h kind ns name)"

definition list_http_routes :: "lb_env \<Rightarrow> (error + http_route list) lb_op" where
  "list_http_routes w = eff_call ListHTTPRoutes (env_http_routes w)"

definition list_grpc_routes :: "lb_env \<Rightarrow> (error + grpc_route list) lb_op" where
  "list_grpc_routes w = eff_call ListGRPCRoutes (env_grpc_routes w)"

definition list_l4_routes :: "lb_env \<Rightarrow> string \<Rightarrow> (error + l4_route list) lb_op" where
  "list_l4_routes w kind = eff_call (ListL4Routes kind) (\<lambda>h. env_l4_routes w h kind)"

definition list_gateways :: "lb_env \<Rightarrow> (error + gateway list) lb_op" where
  "list_gateways w = eff_call ListGateways (env_gateways w)"

definition list_backend_tls_policies :: "lb_env \<Rightarrow> string \<Rightarrow> (error + backend_tls_policy list) lb_op" where
  "list_backend_tls_policies w ns = eff_call (ListBackendTLSPolicies ns) (\<lambda>h. env_backend_tls_policies w h ns)"

definition get_backend_tls_policy :: "lb_env \<Rightarrow> string \<Rightarrow> string \<Rightarrow> (error + backend_tls_policy) lb_op" where
  "get_backend_tls_policy w ns name = eff_call (GetBackendTLSPolicy ns name) (\<lambda>h. env_backend_tls_policy w h ns name)"

text \<open>Writes to the Kubernetes API, and the requests to the certificates service.\<close>

definition k8s_update :: "lb_env \<Rightarrow> lb_call \<Rightarrow> error option lb_op" where
  "k8s_update w c = eff_call c (\<lambda>h. env_update w h c)"

definition get_ca_bundle :: "lb_env \<Rightarrow> string \<Rightarrow> svc_error option lb_op" where
  "get_ca_bundle w i = eff_call (GetCaBundle i) (\<lambda>h. env_ca_bundle w h i)"

definition list_ca_bundles :: "lb_env \<Rightarrow> string \<Rightarrow> string option \<Rightarrow> (svc_error + ca_bundle list) lb_op" where
  "list_ca_bundles w compartment name =
     eff_call (ListCaBundles compartment name) (\<lambda>h. env_ca_bundles w h compartment name)"

definition create_ca_bundle_call :: "lb_env \<Rightarrow> create_ca_bundle \<Rightarrow> (svc_error + ca_bundle) lb_op" where
  "create_ca_bundle_call w details = eff_call (CreateCaBundle details) (\<lambda>h. env_ca_create w h details)"

definition ca_write :: "lb_env \<Rightarrow> lb_call \<Rightarrow> svc_error option lb_op" where
  "ca_write w c = eff_call c (\<lambda>h. env_ca_write w h c)"

definition write_call :: "lb_env \<Rightarrow> lb_call \<Rightarrow> (svc_error + string option) lb_op" where
  "write_call w c = eff_call c (\<lambda>h. env_write w h c)"

definition get_nlb :: "lb_env \<Rightarrow> string \<Rightarrow> (svc_error + network_load_balancer) lb_op" where
  "get_nlb w i = eff_call (GetNlb i) (\<lambda>h. env_nlb w h i)"

text \<open>Waiting for a request to the network load balancer service; \<open>None\<close> is success.\<close>

definition nlb_wait :: "lb_env \<Rightarrow> string \<Rightarrow> error option lb_op" where
  "nlb_wait w i = eff_call (NlbWaitFor i) (\<lambda>h. env_nlb_wait w h i)"

definition wait_for :: "lb_env \<Rightarrow> string \<Rightarrow> string \<Rightarrow> unit lb_op" where
  "wait_for w waiting i =
     eff_bind (eff_call (WaitFor i) (\<lambda>h. env_wait w h i))
       (\<lambda>r. case r of None \<Rightarrow> eff_return () | Some e \<Rightarrow> eff_fail (ErrWrap (waiting @ '': '') e []))"

text \<open>
  The shape every write has in the code: the request, an error for a missing work request
  id, and the wait; \<open>doing\<close> and \<open>waiting\<close> start the error messages.
\<close>

definition awaited_write :: "lb_env \<Rightarrow> lb_call \<Rightarrow> string \<Rightarrow> string \<Rightarrow> unit lb_op" where
  "awaited_write w c doing waiting =
     eff_bind (write_call w c) (\<lambda>r. case r of
         Inl e \<Rightarrow> eff_fail (ErrWrap (doing @ '': '') (ErrService e) [])
       | Inr None \<Rightarrow> eff_fail (ErrText (doing @ '': missing work request id''))
       | Inr (Some i) \<Rightarrow> wait_for w waiting i)"

text \<open>\<open>IsServiceError\<close> of the SDK, and a service error with a given HTTP status.\<close>

definition is_service_error :: "lb_env \<Rightarrow> error \<Rightarrow> svc_error option" where
  "is_service_error w err = (if env_unwraps w then errors_as svc_of err else svc_of err)"

definition service_error_status :: "lb_env \<Rightarrow> int \<Rightarrow> error \<Rightarrow> bool" where
  "service_error_status w status err =
     (case is_service_error w err of None \<Rightarrow> False | Some e \<Rightarrow> svc_has_status status e)"

section \<open>Facts about the calls\<close>

text \<open>Calls that change nothing.\<close>

fun reading :: "lb_call \<Rightarrow> bool" where
  "reading (GetLoadBalancer _) = True"
| "reading (GetBackendSet _ _) = True"
| "reading (GetRoutingPolicy _ _) = True"
| "reading (WaitFor _) = True"
| "reading (GetSecret _ _) = True"
| "reading (GetService _ _) = True"
| "reading (ListEndpointSlices _ _) = True"
| "reading (ListReferenceGrants _) = True"
| "reading (GetNamespace _) = True"
| "reading (GetConfigMap _ _) = True"
| "reading (GetGateway _ _) = True"
| "reading (GetGatewayClass _) = True"
| "reading (GetGatewayConfig _ _) = True"
| "reading (ListListenerSets _) = True"
| "reading (GetListenerSet _ _) = True"
| "reading (GetHTTPRoute _ _) = True"
| "reading (GetGRPCRoute _ _) = True"
| "reading (GetL4Route _ _ _) = True"
| "reading ListHTTPRoutes = True"
| "reading ListGRPCRoutes = True"
| "reading (ListL4Routes _) = True"
| "reading ListGateways = True"
| "reading (ListBackendTLSPolicies _) = True"
| "reading (GetBackendTLSPolicy _ _) = True"
| "reading (CacheCaBundle _ _ _ _) = True"
| "reading (GetCaBundle _) = True"
| "reading (ListCaBundles _ _) = True"
| "reading (GetNlb _) = True"
| "reading (NlbWaitFor _) = True"
| "reading _ = False"

definition writes_of :: "lb_call list \<Rightarrow> lb_call list" where
  "writes_of cs = filter (\<lambda>c. \<not> reading c) cs"

lemma writes_of_simps [simp]:
  "writes_of [] = []" "writes_of (c # cs) = (if reading c then writes_of cs else c # writes_of cs)"
  "writes_of (cs @ ds) = writes_of cs @ writes_of ds"
  by (simp_all add: writes_of_def)

lemma get_run [eff_simps]:
  "get_load_balancer w lb h = (Inr (env_load_balancer w h lb), h @ [GetLoadBalancer lb])"
  "get_backend_set w lb n h = (Inr (env_backend_set w h lb n), h @ [GetBackendSet lb n])"
  "get_routing_policy w lb n h = (Inr (env_routing_policy w h lb n), h @ [GetRoutingPolicy lb n])"
  "write_call w c h = (Inr (env_write w h c), h @ [c])"
  by (simp_all add: get_load_balancer_def get_backend_set_def get_routing_policy_def write_call_def eff_simps)

lemma k8s_run [eff_simps]:
  "get_secret w ns n h = (Inr (env_secret w h ns n), h @ [GetSecret ns n])"
  "get_service w ns n h = (Inr (env_service w h ns n), h @ [GetService ns n])"
  "list_endpoint_slices w ns n h = (Inr (env_endpoint_slices w h ns n), h @ [ListEndpointSlices ns n])"
  "list_grants w ns h = (Inr (env_grants w h ns), h @ [ListReferenceGrants ns])"
  "get_namespace w n h = (Inr (env_namespace_labels w h n), h @ [GetNamespace n])"
  by (simp_all add: get_secret_def get_service_def list_endpoint_slices_def list_grants_def get_namespace_def
      eff_simps)

lemma gateway_run [eff_simps]:
  "get_config_map w ns n h = (Inr (env_config_map w h ns n), h @ [GetConfigMap ns n])"
  "get_gateway w ns n h = (Inr (env_gateway w h ns n), h @ [GetGateway ns n])"
  "get_gateway_class w n h = (Inr (env_gateway_class w h n), h @ [GetGatewayClass n])"
  "get_gateway_config w ns n h = (Inr (env_gateway_config w h ns n), h @ [GetGatewayConfig ns n])"
  "list_listener_sets w k h = (Inr (env_listener_sets w h k), h @ [ListListenerSets k])"
  "get_listener_set w ns n h = (Inr (env_listener_set w h ns n), h @ [GetListenerSet ns n])"
  "k8s_update w c h = (Inr (env_update w h c), h @ [c])"
  by (simp_all add: get_config_map_def get_gateway_def get_gateway_class_def get_gateway_config_def
      list_listener_sets_def get_listener_set_def k8s_update_def eff_simps)

lemma route_run [eff_simps]:
  "get_http_route w ns n h = (Inr (env_http_route w h ns n), h @ [GetHTTPRoute ns n])"
  "get_grpc_route w ns n h = (Inr (env_grpc_route w h ns n), h @ [GetGRPCRoute ns n])"
  "get_l4_route w k ns n h = (Inr (env_l4_route w h k ns n), h @ [GetL4Route k ns n])"
  "list_http_routes w h = (Inr (env_http_routes w h), h @ [ListHTTPRoutes])"
  "list_grpc_routes w h = (Inr (env_grpc_routes w h), h @ [ListGRPCRoutes])"
  "list_l4_routes w k h = (Inr (env_l4_routes w h k), h @ [ListL4Routes k])"
  by (simp_all add: get_http_route_def get_grpc_route_def get_l4_route_def list_http_routes_def
      list_grpc_routes_def list_l4_routes_def eff_simps)

lemma policy_run [eff_simps]:
  "list_gateways w h = (Inr (env_gateways w h), h @ [ListGateways])"
  "list_backend_tls_policies w ns h = (Inr (env_backend_tls_policies w h ns), h @ [ListBackendTLSPolicies ns])"
  "get_backend_tls_policy w ns n h = (Inr (env_backend_tls_policy w h ns n), h @ [GetBackendTLSPolicy ns n])"
  by (simp_all add: list_gateways_def list_backend_tls_policies_def get_backend_tls_policy_def eff_simps)

lemma ca_run [eff_simps]:
  "get_ca_bundle w i h = (Inr (env_ca_bundle w h i), h @ [GetCaBundle i])"
  "list_ca_bundles w c name h = (Inr (env_ca_bundles w h c name), h @ [ListCaBundles c name])"
  "create_ca_bundle_call w d h = (Inr (env_ca_create w h d), h @ [CreateCaBundle d])"
  "ca_write w call h = (Inr (env_ca_write w h call), h @ [call])"
  by (simp_all add: get_ca_bundle_def list_ca_bundles_def create_ca_bundle_call_def ca_write_def eff_simps)

lemma nlb_run [eff_simps]:
  "get_nlb w i h = (Inr (env_nlb w h i), h @ [GetNlb i])"
  "nlb_wait w i h = (Inr (env_nlb_wait w h i), h @ [NlbWaitFor i])"
  by (simp_all add: get_nlb_def nlb_wait_def eff_call_run)

lemma wait_for_run [eff_simps]:
  "wait_for w waiting i h =
    ((case env_wait w h i of None \<Rightarrow> Inr () | Some e \<Rightarrow> Inl (ErrWrap (waiting @ '': '') e [])), h @ [WaitFor i])"
  by (simp add: wait_for_def eff_bind_call eff_simps split: option.split)

text \<open>
  An awaited write succeeds when the request is accepted with a work request id and the
  wait for it succeeds; it issues the request once and waits only for its id.
\<close>

lemma awaited_write_run [eff_simps]:
  "awaited_write w c doing waiting h =
    (case env_write w h c of
       Inl e \<Rightarrow> (Inl (ErrWrap (doing @ '': '') (ErrService e) []), h @ [c])
     | Inr None \<Rightarrow> (Inl (ErrText (doing @ '': missing work request id'')), h @ [c])
     | Inr (Some i) \<Rightarrow>
         ((case env_wait w (h @ [c]) i of None \<Rightarrow> Inr () | Some e \<Rightarrow> Inl (ErrWrap (waiting @ '': '') e [])),
          h @ [c, WaitFor i]))"
  by (simp add: awaited_write_def eff_bind_Inr [OF get_run(4)] eff_simps split: sum.split option.split)

lemma emits_get [emits_intros]:
  "P (GetLoadBalancer lb) \<Longrightarrow> emits P (get_load_balancer w lb)"
  "P (GetBackendSet lb n) \<Longrightarrow> emits P (get_backend_set w lb n)"
  "P (GetRoutingPolicy lb n) \<Longrightarrow> emits P (get_routing_policy w lb n)"
  "P c \<Longrightarrow> emits P (write_call w c)"
  by (simp_all add: get_load_balancer_def get_backend_set_def get_routing_policy_def write_call_def
      emits_intros)

lemma emits_k8s [emits_intros]:
  "P (GetSecret ns n) \<Longrightarrow> emits P (get_secret w ns n)"
  "P (GetService ns n) \<Longrightarrow> emits P (get_service w ns n)"
  "P (ListEndpointSlices ns n) \<Longrightarrow> emits P (list_endpoint_slices w ns n)"
  "P (ListReferenceGrants ns) \<Longrightarrow> emits P (list_grants w ns)"
  "P (GetNamespace n) \<Longrightarrow> emits P (get_namespace w n)"
  by (simp_all add: get_secret_def get_service_def list_endpoint_slices_def list_grants_def get_namespace_def
      emits_intros)

lemma emits_gateway [emits_intros]:
  "P (GetConfigMap ns n) \<Longrightarrow> emits P (get_config_map w ns n)"
  "P (GetGateway ns n) \<Longrightarrow> emits P (get_gateway w ns n)"
  "P (GetGatewayClass n) \<Longrightarrow> emits P (get_gateway_class w n)"
  "P (GetGatewayConfig ns n) \<Longrightarrow> emits P (get_gateway_config w ns n)"
  "P (ListListenerSets k) \<Longrightarrow> emits P (list_listener_sets w k)"
  "P (GetListenerSet ns n) \<Longrightarrow> emits P (get_listener_set w ns n)"
  "P c \<Longrightarrow> emits P (k8s_update w c)"
  "P (GetCaBundle i) \<Longrightarrow> emits P (get_ca_bundle w i)"
  "P (ListCaBundles cp name) \<Longrightarrow> emits P (list_ca_bundles w cp name)"
  "P (CreateCaBundle d) \<Longrightarrow> emits P (create_ca_bundle_call w d)"
  "P c \<Longrightarrow> emits P (ca_write w c)"
  by (simp_all add: get_config_map_def get_gateway_def get_gateway_class_def get_gateway_config_def
      list_listener_sets_def get_listener_set_def k8s_update_def get_ca_bundle_def list_ca_bundles_def
      create_ca_bundle_call_def ca_write_def emits_intros)

lemma emits_route [emits_intros]:
  "P (GetHTTPRoute ns n) \<Longrightarrow> emits P (get_http_route w ns n)"
  "P (GetGRPCRoute ns n) \<Longrightarrow> emits P (get_grpc_route w ns n)"
  "P (GetL4Route k ns n) \<Longrightarrow> emits P (get_l4_route w k ns n)"
  "P ListHTTPRoutes \<Longrightarrow> emits P (list_http_routes w)"
  "P ListGRPCRoutes \<Longrightarrow> emits P (list_grpc_routes w)"
  "P (ListL4Routes k) \<Longrightarrow> emits P (list_l4_routes w k)"
  by (simp_all add: get_http_route_def get_grpc_route_def get_l4_route_def list_http_routes_def
      list_grpc_routes_def list_l4_routes_def emits_intros)

lemma emits_policy [emits_intros]:
  "P ListGateways \<Longrightarrow> emits P (list_gateways w)"
  "P (ListBackendTLSPolicies ns) \<Longrightarrow> emits P (list_backend_tls_policies w ns)"
  "P (GetBackendTLSPolicy ns n) \<Longrightarrow> emits P (get_backend_tls_policy w ns n)"
  by (simp_all add: list_gateways_def list_backend_tls_policies_def get_backend_tls_policy_def emits_intros)

lemma emits_nlb [emits_intros]:
  "P (GetNlb i) \<Longrightarrow> emits P (get_nlb w i)"
  "P (NlbWaitFor i) \<Longrightarrow> emits P (nlb_wait w i)"
  by (simp_all add: get_nlb_def nlb_wait_def emits_intros)

lemma emits_awaited_write [emits_intros]:
  assumes "P c" "\<And>i. P (WaitFor i)"
  shows "emits P (awaited_write w c doing waiting)"
  using assms
  by (auto simp: emits_def awaited_write_run split: sum.split option.split)

lemma writes_of_awaited_write:
  "\<not> reading c \<Longrightarrow> writes_of (snd (awaited_write w c doing waiting h)) = writes_of h @ [c]"
  by (simp add: awaited_write_run split: sum.split option.split)

text \<open>The service accepts a write, or all of them, from a point on.\<close>

definition accepted :: "lb_env \<Rightarrow> lb_call list \<Rightarrow> lb_call \<Rightarrow> bool" where
  "accepted w h c \<longleftrightarrow> (\<exists>i. env_write w h c = Inr (Some i) \<and> env_wait w (h @ [c]) i = None)"

lemma awaited_write_accepted:
  "fst (awaited_write w c doing waiting h) = Inr () \<longleftrightarrow> accepted w h c"
  by (auto simp: awaited_write_run accepted_def split: sum.split option.split)

section \<open>What the service stores\<close>

text \<open>
  The effect of the accepted writes on stored objects of one kind, by load balancer and
  name: \<open>apply c\<close> is the effect of call \<open>c\<close>. \<open>serves\<close> says what the code relies on: a
  read answers with what is stored, or says that it is missing only when it is; it may
  also fail otherwise, and so may every write.
\<close>

type_synonym 'o store = "string \<times> string \<rightharpoonup> 'o"

fun storedRev :: "(lb_call \<Rightarrow> 'o store \<Rightarrow> 'o store) \<Rightarrow> lb_env \<Rightarrow> 'o store \<Rightarrow> lb_call list \<Rightarrow> 'o store" where
  "storedRev apply_call w s [] = s"
| "storedRev apply_call w s (c # rh) =
     (if accepted w (rev rh) c then apply_call c (storedRev apply_call w s rh) else storedRev apply_call w s rh)"

definition storedBy ::
    "(lb_call \<Rightarrow> 'o store \<Rightarrow> 'o store) \<Rightarrow> lb_env \<Rightarrow> 'o store \<Rightarrow> lb_call list \<Rightarrow> 'o store" where
  "storedBy apply_call w s h = storedRev apply_call w s (rev h)"

definition serves ::
    "(lb_env \<Rightarrow> lb_call list \<Rightarrow> string \<Rightarrow> string \<Rightarrow> svc_error + 'o) \<Rightarrow> (lb_call \<Rightarrow> 'o store \<Rightarrow> 'o store) \<Rightarrow>
      lb_env \<Rightarrow> 'o store \<Rightarrow> bool" where
  "serves read apply_call w s \<longleftrightarrow> (\<forall>h lb name. case read w h lb name of
     Inr obj \<Rightarrow> storedBy apply_call w s h (lb, name) = Some obj
   | Inl err \<Rightarrow> svc_has_status 404 err \<longrightarrow> storedBy apply_call w s h (lb, name) = None)"

text \<open>A service that accepts every write replays them all.\<close>

definition replay :: "(lb_call \<Rightarrow> 'o store \<Rightarrow> 'o store) \<Rightarrow> 'o store \<Rightarrow> lb_call list \<Rightarrow> 'o store" where
  "replay apply_call s h = foldl (\<lambda>s c. apply_call c s) s h"

definition stored_answer :: "'o option \<Rightarrow> svc_error + 'o" where
  "stored_answer r = (case r of None \<Rightarrow> Inl (ServiceError 404 [] []) | Some obj \<Rightarrow> Inr obj)"

lemma stored_answer_simps [simp]:
  "stored_answer None = Inl (ServiceError 404 [] [])" "stored_answer (Some x) = Inr x"
  by (simp_all add: stored_answer_def)

locale object_service =
  fixes apply_call :: "lb_call \<Rightarrow> 'o store \<Rightarrow> 'o store"
    and read :: "lb_env \<Rightarrow> lb_call list \<Rightarrow> string \<Rightarrow> string \<Rightarrow> svc_error + 'o"
  assumes apply_reading: "reading c \<Longrightarrow> apply_call c s = s"
begin

lemma stored_snoc:
  "storedBy apply_call w s (h @ [c]) =
    (if accepted w h c then apply_call c (storedBy apply_call w s h) else storedBy apply_call w s h)"
  by (simp add: storedBy_def)

lemma stored_reading: "reading c \<Longrightarrow> storedBy apply_call w s (h @ [c]) = storedBy apply_call w s h"
  by (simp add: stored_snoc apply_reading)

lemma found: "serves read apply_call w s \<Longrightarrow> read w h lb n = Inr x \<Longrightarrow> storedBy apply_call w s h (lb, n) = Some x"
  unfolding serves_def by (drule spec [of _ h], drule spec [of _ lb], drule spec [of _ n]) simp

lemma missing:
  "serves read apply_call w s \<Longrightarrow> read w h lb n = Inl e \<Longrightarrow> svc_has_status 404 e \<Longrightarrow>
    storedBy apply_call w s h (lb, n) = None"
  unfolding serves_def by (drule spec [of _ h], drule spec [of _ lb], drule spec [of _ n]) simp

lemma awaited_write_stored:
  assumes "awaited_write w c doing waiting h = (Inr (), h')"
  shows "storedBy apply_call w s h' = apply_call c (storedBy apply_call w s h)"
proof -
  obtain i where "env_write w h c = Inr (Some i)" "env_wait w (h @ [c]) i = None" "h' = (h @ [c]) @ [WaitFor i]"
    using assms by (auto simp: awaited_write_run split: sum.splits option.splits)
  moreover from this have "accepted w h c" by (auto simp: accepted_def)
  ultimately show ?thesis by (simp add: stored_snoc apply_reading del: append_assoc)
qed

lemma stored_replay:
  assumes "\<And>h c. accepted w h c"
  shows "storedBy apply_call w s h = replay apply_call s h"
proof (induction h rule: rev_induct)
  case Nil
  then show ?case by (simp add: storedBy_def replay_def)
next
  case (snoc c h)
  with assms show ?case by (simp add: stored_snoc replay_def)
qed

lemma replay_serves:
  assumes "\<And>h c. accepted w h c" "\<And>h lb n. read w h lb n = stored_answer (replay apply_call s h (lb, n))"
  shows "serves read apply_call w s"
  using assms(2) by (simp add: serves_def stored_replay [OF assms(1)] stored_answer_def split: option.split)

end

text \<open>A service that accepts every write and has no objects, for examples.\<close>

definition agreeable_env :: lb_env where
  "agreeable_env = \<lparr>env_load_balancer = (\<lambda>_ _. Inl (ServiceError 404 [] [])),
     env_backend_set = (\<lambda>_ _ _. Inl (ServiceError 404 [] [])),
     env_routing_policy = (\<lambda>_ _ _. Inl (ServiceError 404 [] [])),
     env_write = (\<lambda>_ _. Inr (Some ''wr'')), env_wait = (\<lambda>_ _. None),
     env_secret = (\<lambda>_ _ _. Inl (ErrText ''not found'')),
     env_service = (\<lambda>_ _ _. Inl (ErrText ''not found'')), env_endpoint_slices = (\<lambda>_ _ _. Inr []),
     env_grants = (\<lambda>_ _. Inr []), env_namespace_labels = (\<lambda>_ _. Inr []),
     env_config_map = (\<lambda>_ _ _. Inl (ErrApi ''NotFound'' ''not found'')),
     env_gateway = (\<lambda>_ _ _. Inl (ErrApi ''NotFound'' ''not found'')),
     env_gateway_class = (\<lambda>_ _. Inl (ErrApi ''NotFound'' ''not found'')),
     env_gateway_config = (\<lambda>_ _ _. Inl (ErrApi ''NotFound'' ''not found'')),
     env_listener_sets = (\<lambda>_ _. Inr []),
     env_listener_set = (\<lambda>_ _ _. Inl (ErrApi ''NotFound'' ''not found'')),
     env_http_route = (\<lambda>_ _ _. Inl (ErrApi ''NotFound'' ''not found'')),
     env_grpc_route = (\<lambda>_ _ _. Inl (ErrApi ''NotFound'' ''not found'')),
     env_l4_route = (\<lambda>_ _ _ _. Inl (ErrApi ''NotFound'' ''not found'')),
     env_http_routes = (\<lambda>_. Inr []), env_grpc_routes = (\<lambda>_. Inr []), env_l4_routes = (\<lambda>_ _. Inr []),
     env_gateways = (\<lambda>_. Inr []), env_backend_tls_policies = (\<lambda>_ _. Inr []),
     env_backend_tls_policy = (\<lambda>_ _ _. Inl (ErrApi ''NotFound'' ''not found'')),
     env_update = (\<lambda>_ _. None), env_ca_bundle = (\<lambda>_ _. None), env_ca_bundles = (\<lambda>_ _ _. Inr []),
     env_ca_create = (\<lambda>_ d. Inr \<lparr>cab_id = Some (ccb_name d), cab_name = Some (ccb_name d), cab_state = ''ACTIVE'',
       cab_tags = ccb_tags d\<rparr>),
     env_ca_write = (\<lambda>_ _. None), env_certs_client = True, env_unwraps = False, env_selector = (\<lambda>_. Inr (\<lambda>_. True)), env_pem_decode = (\<lambda>_. None),
     env_x509 = (\<lambda>_. Inl []),
     env_svc_text = (\<lambda>_. []), env_now = (\<lambda>_. 0),
     env_order = (\<lambda>_. []), env_ctx_err = (\<lambda>_. None),
     env_nlb = (\<lambda>_ _. Inl (ServiceError 404 [] [])), env_nlb_wait = (\<lambda>_ _. None)\<rparr>"

lemma agreeable_env_simps [simp]:
  "env_write agreeable_env h c = Inr (Some ''wr'')" "env_wait agreeable_env h i = None"
  "env_order agreeable_env h = []" "env_ctx_err agreeable_env h = None"
  by (simp_all add: agreeable_env_def)

end
