(* ===== verification/RoutingPolicy.thy ===== *)
theory RoutingPolicy
  imports Ports RoutingConditions
begin

text \<open>
  Routing policies of listeners (\<open>src/internal/app/oci_load_balancer_model.go\<close>): the default
  catch-all rule, the order of rules, the merge of a route's rules into a policy, and the
  operations that create, repair, commit and delete policies. Shown: the order is total on
  named rules, so no result depends on the iteration order of Go maps; a commit refines an
  update of a map from rule names to rules and leaves the rules of other routes alone; a
  second commit changes nothing.
\<close>

section \<open>The default rule\<close>

definition defaultCatchAllRuleName :: string where
  "defaultCatchAllRuleName = ''default_catch_all''"

definition defaultCatchAllCondition :: string where
  "defaultCatchAllCondition = ''any('' @ pathCondition ''sw'' ''/'' @ '')''"

definition ruleName :: "routing_rule \<Rightarrow> string" where
  "ruleName rule = str_ptr (rule_name rule)"

definition defaultCatchAllRoutingRule :: "string \<Rightarrow> routing_rule" where
  "defaultCatchAllRoutingRule defaultBackendSetName =
     \<lparr>rule_name = Some defaultCatchAllRuleName, rule_condition = Some defaultCatchAllCondition,
      rule_actions = [ForwardToBackendSet (Some defaultBackendSetName)]\<rparr>"

fun forwards_to :: "string \<Rightarrow> routing_action \<Rightarrow> bool" where
  "forwards_to name (ForwardToBackendSet p) = (str_ptr p = name)"
| "forwards_to name (OtherAction _) = False"

definition routingRuleForwardsToBackendSet :: "routing_rule \<Rightarrow> string \<Rightarrow> bool" where
  "routingRuleForwardsToBackendSet rule backendSetName = list_ex (forwards_to backendSetName) (rule_actions rule)"

definition defaultCatchAllRuleMatches :: "routing_rule \<Rightarrow> string \<Rightarrow> bool" where
  "defaultCatchAllRuleMatches rule defaultBackendSetName \<longleftrightarrow>
     ruleName rule = defaultCatchAllRuleName \<and>
     str_ptr (rule_condition rule) = defaultCatchAllCondition \<and>
     length (rule_actions rule) = 1 \<and>
     routingRuleForwardsToBackendSet rule defaultBackendSetName"

fun defaultRuleDrifted :: "routing_rule list \<Rightarrow> string \<Rightarrow> bool" where
  "defaultRuleDrifted [] defaultBackendSetName = True"
| "defaultRuleDrifted (rule # rules) defaultBackendSetName =
     (if ruleName rule = defaultCatchAllRuleName
      then \<not> defaultCatchAllRuleMatches rule defaultBackendSetName
      else defaultRuleDrifted rules defaultBackendSetName)"

definition routingPolicyDefaultRuleDrifted :: "routing_policy \<Rightarrow> string \<Rightarrow> bool" where
  "routingPolicyDefaultRuleDrifted policy defaultBackendSetName =
     defaultRuleDrifted (rp_rules policy) defaultBackendSetName"

definition desiredRoutingPolicyRulesWithDefault :: "routing_policy \<Rightarrow> string \<Rightarrow> routing_rule list" where
  "desiredRoutingPolicyRulesWithDefault policy defaultBackendSetName =
     map (\<lambda>rule. if ruleName rule = defaultCatchAllRuleName
       then defaultCatchAllRoutingRule defaultBackendSetName else rule) (rp_rules policy) @
     (if list_ex (\<lambda>rule. ruleName rule = defaultCatchAllRuleName) (rp_rules policy)
      then [] else [defaultCatchAllRoutingRule defaultBackendSetName])"

lemma ruleName_default [simp]: "ruleName (defaultCatchAllRoutingRule b) = defaultCatchAllRuleName"
  by (simp add: ruleName_def defaultCatchAllRoutingRule_def)

lemma defaultCatchAllRuleMatches_default [simp]: "defaultCatchAllRuleMatches (defaultCatchAllRoutingRule b) b"
  by (simp add: defaultCatchAllRuleMatches_def routingRuleForwardsToBackendSet_def defaultCatchAllRoutingRule_def
      ruleName_def)

lemma desired_not_drifted: "\<not> defaultRuleDrifted (desiredRoutingPolicyRulesWithDefault policy b) b"
proof -
  have "\<not> defaultRuleDrifted (map (\<lambda>rule. if ruleName rule = defaultCatchAllRuleName
       then defaultCatchAllRoutingRule b else rule) rules @ rest) b"
    if "list_ex (\<lambda>rule. ruleName rule = defaultCatchAllRuleName) rules \<or> rest = [defaultCatchAllRoutingRule b]"
    for rules rest
    using that by (induction rules) auto
  then show ?thesis unfolding desiredRoutingPolicyRulesWithDefault_def by simp
qed

section \<open>The order of rules\<close>

definition routingRuleMatchesNativeGRPC :: "routing_rule \<Rightarrow> bool" where
  "routingRuleMatchesNativeGRPC rule \<longleftrightarrow>
     (let condition = str_ptr (rule_condition rule) in
      str_contains condition (''eq (i '' @ quoted ''application/grpc'' @ '')'') \<or>
      str_contains condition (''sw (i '' @ quoted ''application/grpc+'' @ '')'') \<or>
      str_contains condition (''sw (i '' @ quoted ''application/grpc;'' @ '')''))"

definition routingRuleLess :: "routing_rule \<Rightarrow> routing_rule \<Rightarrow> bool" where
  "routingRuleLess ruleI ruleJ =
     (if ruleName ruleI = defaultCatchAllRuleName then False
      else if ruleName ruleJ = defaultCatchAllRuleName then True
      else (let grpcI = routingRuleMatchesNativeGRPC ruleI; grpcJ = routingRuleMatchesNativeGRPC ruleJ in
        if grpcI \<noteq> grpcJ then grpcI else ruleName ruleI < ruleName ruleJ))"

definition sortRoutingRules :: "routing_rule list \<Rightarrow> routing_rule list" where
  "sortRoutingRules rules = sort_by routingRuleLess rules"

definition sortedRoutingRules :: "routing_rule list \<Rightarrow> routing_rule list" where
  "sortedRoutingRules rules = sortRoutingRules rules"

definition routingRulesEqual :: "routing_rule list \<Rightarrow> routing_rule list \<Rightarrow> bool" where
  "routingRulesEqual rulesA rulesB \<longleftrightarrow> sortedRoutingRules rulesA = sortedRoutingRules rulesB"

text \<open>Rules with different names are totally ordered, so sorting them is deterministic.\<close>

abbreviation distinct_names :: "routing_rule list \<Rightarrow> bool" where
  "distinct_names rules \<equiv> distinct (map ruleName rules)"

interpretation rule_order: strict_order routingRuleLess distinct_names
proof unfold_locales
  fix x y z :: routing_rule and xs :: "routing_rule list"
  show "\<not> routingRuleLess x x" by (simp add: routingRuleLess_def)
  show "routingRuleLess x z" if "routingRuleLess x y" "routingRuleLess y z"
    using that by (auto simp: routingRuleLess_def Let_def split: if_splits)
  show "routingRuleLess x y \<or> routingRuleLess y x"
    if "distinct_names xs" "x \<in> set xs" "y \<in> set xs" "x \<noteq> y"
  proof -
    have "ruleName x \<noteq> ruleName y" using that by (meson distinct_map inj_onD)
    then show ?thesis by (auto simp: routingRuleLess_def Let_def)
  qed
qed

lemma set_sortRoutingRules [simp]: "set (sortRoutingRules rules) = set rules"
  by (simp add: sortRoutingRules_def)

lemma mset_sortRoutingRules [simp]: "mset (sortRoutingRules rules) = mset rules"
  by (simp add: sortRoutingRules_def)

lemma distinct_names_perm: "mset xs = mset ys \<Longrightarrow> distinct_names xs = distinct_names ys"
  by (metis mset_map mset_eq_imp_distinct_iff)

lemma distinct_names_sort [simp]: "distinct_names (sortRoutingRules rules) = distinct_names rules"
  by (rule distinct_names_perm) simp

lemma sortRoutingRules_perm:
  "distinct_names xs \<Longrightarrow> mset xs = mset ys \<Longrightarrow> sortRoutingRules xs = sortRoutingRules ys"
  unfolding sortRoutingRules_def
  by (rule rule_order.sort_by_perm_eq) (simp_all add: distinct_names_perm [of xs ys])

text \<open>What the comparison of policies decides: equality up to the order of the rules.\<close>

lemma routingRulesEqual_iff:
  assumes "distinct_names xs"
  shows "routingRulesEqual xs ys \<longleftrightarrow> mset xs = mset ys"
proof
  assume "routingRulesEqual xs ys"
  then have "mset (sortRoutingRules xs) = mset (sortRoutingRules ys)"
    by (simp only: routingRulesEqual_def sortedRoutingRules_def)
  then show "mset xs = mset ys" by simp
qed (use assms sortRoutingRules_perm in \<open>auto simp: routingRulesEqual_def sortedRoutingRules_def\<close>)

section \<open>Merging the rules of a route\<close>

text \<open>The map of rules by name that \<open>commitRoutingPolicyLocked\<close> builds, and its sorted values.\<close>

definition mergedRulesByName ::
    "routing_rule list \<Rightarrow> routing_rule list \<Rightarrow> string list \<Rightarrow> routing_rule go_map" where
  "mergedRulesByName current policyRules prevPolicyRules =
     (let currentRulesByName = slice_to_map ruleName id [] current;
          withNew = slice_to_map ruleName id currentRulesByName policyRules;
          policyRulesNames = map ruleName policyRules
      in foldl (\<lambda>m prev. if prev \<in> set policyRulesNames then m else AList.delete prev m) withNew prevPolicyRules)"

definition mergedRules ::
    "nat list \<Rightarrow> routing_rule list \<Rightarrow> routing_rule list \<Rightarrow> string list \<Rightarrow> routing_rule list" where
  "mergedRules order current policyRules prevPolicyRules =
     sortRoutingRules (map snd (map_iter order (mergedRulesByName current policyRules prevPolicyRules)))"

text \<open>Its specification: a map update.\<close>

definition rulesByName :: "routing_rule list \<Rightarrow> string \<rightharpoonup> routing_rule" where
  "rulesByName rules = map_of (slice_to_map ruleName id [] rules)"

definition commitSpec ::
    "routing_rule list \<Rightarrow> string list \<Rightarrow> (string \<rightharpoonup> routing_rule) \<Rightarrow> (string \<rightharpoonup> routing_rule)" where
  "commitSpec new prev current =
     (current ++ rulesByName new) |` (- (set prev - ruleName ` set new))"

lemma foldl_delete:
  "distinct (map fst m) \<Longrightarrow>
    distinct (map fst (foldl (\<lambda>m p. if p \<in> keep then m else AList.delete p m) m ps)) \<and>
    map_of (foldl (\<lambda>m p. if p \<in> keep then m else AList.delete p m) m ps) k =
      (if k \<in> set ps - keep then None else map_of m k)"
proof (induction ps arbitrary: m)
  case Nil
  then show ?case by simp
next
  case (Cons p ps)
  then show ?case by (auto simp: delete_conv' distinct_delete)
qed

lemma map_of_slice_to_map_start:
  "map_of (slice_to_map key id m xs) = map_of m ++ map_of (slice_to_map key id [] xs)"
  by (rule ext) (simp add: map_of_slice_to_map map_add_def split: option.split)

lemma mergedRulesByName_spec:
  "distinct (map fst (mergedRulesByName current new prev))"
  "map_of (mergedRulesByName current new prev) = commitSpec new prev (rulesByName current)"
proof -
  have "distinct (map fst (slice_to_map ruleName id (slice_to_map ruleName id [] current) new))"
    by (intro distinct_slice_to_map) simp
  note del = foldl_delete [OF this]
  show "distinct (map fst (mergedRulesByName current new prev))"
    using del by (simp add: mergedRulesByName_def Let_def)
  show "map_of (mergedRulesByName current new prev) = commitSpec new prev (rulesByName current)"
    using del map_of_slice_to_map_start [of ruleName "slice_to_map ruleName id [] current" new]
    by (simp add: mergedRulesByName_def Let_def commitSpec_def rulesByName_def fun_eq_iff restrict_map_def)
qed

text \<open>Keys of a map of rules are the names of its rules.\<close>

lemma rulesByName_named: "rulesByName rules n = Some r \<Longrightarrow> ruleName r = n \<and> r \<in> set rules"
  by (auto simp: rulesByName_def map_of_slice_to_map dest: find_SomeD split: option.splits)

lemma rulesByName_unique:
  "distinct_names rules \<Longrightarrow> rulesByName rules n = Some r \<longleftrightarrow> r \<in> set rules \<and> ruleName r = n"
  using map_of_slice_to_map_unique [of ruleName rules r id "[]"] rulesByName_named [of rules n r]
  by (auto simp: rulesByName_def)

lemma dom_rulesByName: "dom (rulesByName rules) = ruleName ` set rules"
  by (simp add: rulesByName_def dom_slice_to_map)

lemma rulesByName_None: "rulesByName rules n = None \<longleftrightarrow> n \<notin> ruleName ` set rules"
  by (metis dom_rulesByName domIff)

lemma commitSpec_named: "commitSpec new prev (rulesByName current) n = Some r \<Longrightarrow> ruleName r = n"
  by (auto simp: commitSpec_def restrict_map_def dest: rulesByName_named split: if_splits)

lemma values_named:
  assumes "distinct (map fst m)" "\<And>n r. map_of m n = Some r \<Longrightarrow> ruleName r = n"
  shows "map ruleName (map snd m) = map fst m"
  using assms by (auto intro!: map_cong dest: map_of_is_SomeI)

lemma mergedRules_values:
  "distinct_names (map snd (mergedRulesByName current new prev))"
  "rulesByName (map snd (mergedRulesByName current new prev)) = commitSpec new prev (rulesByName current)"
proof -
  let ?m = "mergedRulesByName current new prev"
  have names: "map ruleName (map snd ?m) = map fst ?m"
    using mergedRulesByName_spec [of current new prev] commitSpec_named [of new prev current]
    by (intro values_named) simp_all
  then show d: "distinct_names (map snd ?m)" using mergedRulesByName_spec(1) by metis
  have "map_of ?m n = Some r \<longleftrightarrow> r \<in> set (map snd ?m) \<and> ruleName r = n" for n r
  proof -
    have "\<forall>(k, v)\<in>set ?m. ruleName v = k"
      using mergedRulesByName_spec [of current new prev] commitSpec_named [of new prev current]
      by (auto simp: map_of_eq_Some_iff [symmetric])
    then show ?thesis
      using mergedRulesByName_spec(1) [of current new prev] by (force simp: map_of_eq_Some_iff)
  qed
  then have "rulesByName (map snd ?m) n = Some r \<longleftrightarrow> map_of ?m n = Some r" for n r
    using rulesByName_unique [OF d] by simp
  then have "rulesByName (map snd ?m) = map_of ?m" by (metis not_Some_eq ext)
  then show "rulesByName (map snd ?m) = commitSpec new prev (rulesByName current)"
    using mergedRulesByName_spec(2) by simp
qed

lemma rulesByName_perm:
  assumes "mset xs = mset ys" "distinct_names xs"
  shows "rulesByName xs = rulesByName ys"
proof -
  have "distinct_names ys" using assms distinct_names_perm by blast
  moreover have "set xs = set ys" using assms(1) by (metis mset_eq_setD)
  ultimately have "rulesByName xs n = Some r \<longleftrightarrow> rulesByName ys n = Some r" for n r
    using assms by (simp add: rulesByName_unique)
  then show ?thesis by (metis not_Some_eq ext)
qed

lemma mset_mergedRules: "mset (mergedRules order c new prev) = mset (map snd (mergedRulesByName c new prev))"
  by (simp add: mergedRules_def)

lemma mergedRules_spec:
  "distinct_names (mergedRules order current new prev)"
  "rulesByName (mergedRules order current new prev) = commitSpec new prev (rulesByName current)"
proof -
  note perm = mset_mergedRules [of order current new prev]
  show "distinct_names (mergedRules order current new prev)"
    using distinct_names_perm [OF perm] mergedRules_values(1) by blast
  then show "rulesByName (mergedRules order current new prev) = commitSpec new prev (rulesByName current)"
    using rulesByName_perm [OF perm] mergedRules_values(2) by simp
qed

lemma mergedRules_order: "mergedRules order1 c new prev = mergedRules order2 c new prev"
  unfolding mergedRules_def
  using mergedRules_values(1) [of c new prev] by (intro sortRoutingRules_perm) simp_all

lemma mergedRules_sorted: "sorted_wrt (\<lambda>a b. \<not> routingRuleLess b a) (mergedRules order c new prev)"
proof -
  have "distinct_names (map snd (map_iter order (mergedRulesByName c new prev)))"
    using mergedRules_values(1) [of c new prev] by simp
  then show ?thesis unfolding mergedRules_def sortRoutingRules_def by (rule rule_order.sort_by_sorted)
qed

lemma sorted_default_last:
  assumes "sorted_wrt (\<lambda>a b. \<not> routingRuleLess b a) rules" "distinct_names rules"
    and "rules = pre @ r # post" "ruleName r = defaultCatchAllRuleName"
  shows "post = []"
proof (cases post)
  case (Cons s post')
  have "\<not> routingRuleLess s r" using assms(1) by (simp add: assms(3) Cons sorted_wrt_append)
  then have "ruleName s = defaultCatchAllRuleName" using assms(4) by (simp add: routingRuleLess_def split: if_splits)
  with assms(2,3,4) Cons show ?thesis by simp
qed simp

section \<open>Operations on policies\<close>

record reconcile_http_listener_params =
  rl_compartmentID :: string
  rl_gateway :: "gateway option"
  rl_loadBalancerID :: string
  rl_knownListeners :: "lb_listener go_map"
  rl_knownRoutingPolicies :: "routing_policy go_map"
  rl_listenerCertificates :: "lb_certificate list"
  rl_listenerCertificateID :: string
  rl_defaultBackendSetName :: string
  rl_listenerSpec :: gw_listener

record commit_routing_policy_params =
  cm_loadBalancerID :: string
  cm_listenerName :: string
  cm_policyRules :: "routing_rule list"
  cm_prevPolicyRules :: "string list"

definition routingPolicyNotFound :: "svc_error \<Rightarrow> bool" where
  "routingPolicyNotFound err = svc_has_status 404 err"

definition getListenerRoutingPolicy :: "lb_env \<Rightarrow> string \<Rightarrow> string \<Rightarrow> routing_policy option lb_op" where
  "getListenerRoutingPolicy w loadBalancerID routingPolicyName =
     eff_bind (get_routing_policy w loadBalancerID routingPolicyName) (\<lambda>r. case r of
         Inl err \<Rightarrow>
           (if routingPolicyNotFound err then eff_return None
            else eff_fail (ErrWrap (errtext ''failed to get routing policy '' routingPolicyName '': '') (ErrService err) []))
       | Inr policy \<Rightarrow> eff_return (Some policy))"

definition languageV1 :: string where
  "languageV1 = ''V1''"

definition createListenerRoutingPolicy ::
    "lb_env \<Rightarrow> reconcile_http_listener_params \<Rightarrow> string \<Rightarrow> unit lb_op" where
  "createListenerRoutingPolicy w params routingPolicyName =
     awaited_write w
       (CreateRoutingPolicy (rl_loadBalancerID params)
         \<lparr>cp_name = routingPolicyName, cp_language = languageV1,
          cp_rules = [defaultCatchAllRoutingRule (rl_defaultBackendSetName params)]\<rparr>)
       (errtext ''failed to create routing policy '' routingPolicyName [])
       (errtext ''failed to wait for routing policy '' routingPolicyName [])"

definition updateListenerRoutingPolicyDefaultRule ::
    "lb_env \<Rightarrow> reconcile_http_listener_params \<Rightarrow> string \<Rightarrow> routing_policy \<Rightarrow> unit lb_op" where
  "updateListenerRoutingPolicyDefaultRule w params routingPolicyName policy =
     awaited_write w
       (UpdateRoutingPolicy (rl_loadBalancerID params) routingPolicyName
         \<lparr>up_language = rp_language policy,
          up_rules = desiredRoutingPolicyRulesWithDefault policy (rl_defaultBackendSetName params)\<rparr>)
       (errtext ''failed to update routing policy '' routingPolicyName [])
       (errtext ''failed to wait for routing policy '' routingPolicyName '' update'')"

definition reconcileListenerRoutingPolicyLocked ::
    "lb_env \<Rightarrow> reconcile_http_listener_params \<Rightarrow> string \<Rightarrow> unit lb_op" where
  "reconcileListenerRoutingPolicyLocked w params routingPolicyName =
     (let known = map_of (rl_knownRoutingPolicies params) routingPolicyName;
          drifted = (\<lambda>policy. routingPolicyDefaultRuleDrifted policy (rl_defaultBackendSetName params))
      in eff_bind
        (if (case known of None \<Rightarrow> True | Some policy \<Rightarrow> drifted policy) then
           eff_bind (getListenerRoutingPolicy w (rl_loadBalancerID params) routingPolicyName)
             (\<lambda>refreshed. eff_return (case refreshed of Some policy \<Rightarrow> Some policy | None \<Rightarrow> known))
         else eff_return known)
        (\<lambda>current. case current of
            None \<Rightarrow> createListenerRoutingPolicy w params routingPolicyName
          | Some policy \<Rightarrow>
              (if drifted policy then updateListenerRoutingPolicyDefaultRule w params routingPolicyName policy
               else eff_return ())))"

definition reconcileListenerRoutingPolicy :: "lb_env \<Rightarrow> reconcile_http_listener_params \<Rightarrow> unit lb_op" where
  "reconcileListenerRoutingPolicy w params =
     reconcileListenerRoutingPolicyLocked w params (listenerPolicyName (l_name (rl_listenerSpec params)))"

definition deleteMissingRoutingPolicy :: "lb_env \<Rightarrow> string \<Rightarrow> string option \<Rightarrow> unit lb_op" where
  "deleteMissingRoutingPolicy w loadBalancerID routingPolicyName =
     (case routingPolicyName of
        None \<Rightarrow> eff_return ()
      | Some name \<Rightarrow>
          awaited_write w (DeleteRoutingPolicy loadBalancerID name)
            (errtext ''failed to delete routing policy '' name [])
            (errtext ''failed to wait for routing policy '' name '' deletion''))"

definition createMissingCommittedRoutingPolicy ::
    "lb_env \<Rightarrow> commit_routing_policy_params \<Rightarrow> string \<Rightarrow> unit lb_op" where
  "createMissingCommittedRoutingPolicy w params policyName =
     (if cm_policyRules params = [] then eff_return ()
      else awaited_write w
        (CreateRoutingPolicy (cm_loadBalancerID params)
          \<lparr>cp_name = policyName, cp_language = languageV1, cp_rules = sortRoutingRules (cm_policyRules params)\<rparr>)
        (errtext ''failed to create routing policy '' policyName [])
        (errtext ''failed to wait for routing policy '' policyName '' creation''))"

definition commitRoutingPolicyLocked :: "lb_env \<Rightarrow> commit_routing_policy_params \<Rightarrow> string \<Rightarrow> unit lb_op" where
  "commitRoutingPolicyLocked w params policyName =
     eff_bind (get_routing_policy w (cm_loadBalancerID params) policyName) (\<lambda>r. case r of
         Inl err \<Rightarrow>
           (if routingPolicyNotFound err then createMissingCommittedRoutingPolicy w params policyName
            else eff_fail (ErrWrap (errtext ''failed to get routing policy '' policyName '': '') (ErrService err) []))
       | Inr policy \<Rightarrow>
           eff_bind (eff_ask (env_order w)) (\<lambda>order.
             (let merged = mergedRules order (rp_rules policy) (cm_policyRules params) (cm_prevPolicyRules params) in
              if merged = [] then deleteMissingRoutingPolicy w (cm_loadBalancerID params) (Some policyName)
              else if routingRulesEqual (rp_rules policy) merged then eff_return ()
              else awaited_write w
                (UpdateRoutingPolicy (cm_loadBalancerID params) policyName
                  \<lparr>up_language = rp_language policy, up_rules = merged\<rparr>)
                (errtext ''failed to update routing policy '' policyName [])
                (errtext ''failed to wait for routing policy '' policyName '' update''))))"

definition commitRoutingPolicy :: "lb_env \<Rightarrow> commit_routing_policy_params \<Rightarrow> unit lb_op" where
  "commitRoutingPolicy w params =
     commitRoutingPolicyLocked w params (listenerPolicyName (cm_listenerName params))"

section \<open>Rules of routes\<close>

text \<open>\<open>buildForwardRoutingRule\<close> and the two callers of \<open>makeBackendRoutingRule\<close>.\<close>

definition buildForwardRoutingRule :: "string \<Rightarrow> string \<Rightarrow> string list \<Rightarrow> routing_rule" where
  "buildForwardRoutingRule name condition targetBackends =
     \<lparr>rule_name = Some name, rule_condition = Some condition,
      rule_actions = map (\<lambda>b. ForwardToBackendSet (Some b)) targetBackends\<rparr>"

definition makeBackendRoutingRule ::
    "string \<Rightarrow> 'b list \<Rightarrow> ('b \<Rightarrow> string) \<Rightarrow> error + string \<Rightarrow> string \<Rightarrow> error + routing_rule" where
  "makeBackendRoutingRule name backendRefs backendSetName mapCondition conditionErrContext =
     (case mapCondition of
        Inl err \<Rightarrow> Inl (ErrWrap (conditionErrContext @ '': '') err [])
      | Inr condition \<Rightarrow> Inr (buildForwardRoutingRule name condition (map backendSetName backendRefs)))"

definition makeRoutingRule :: "http_route \<Rightarrow> nat \<Rightarrow> int \<Rightarrow> error + routing_rule" where
  "makeRoutingRule route ruleIndex listenerPort =
     (let rule = rt_rules route ! ruleIndex in
      makeBackendRoutingRule (ociListerPolicyRuleName route ruleIndex) (rr_backend_refs rule)
        (ociBackendSetNameFromBackendRef route)
        (mapHTTPRouteHostnamesAndMatchesToCondition (rt_hostnames route) listenerPort (rr_matches rule))
        ''failed to map http route matches to condition'')"

definition makeGRPCRoutingRule :: "grpc_route \<Rightarrow> nat \<Rightarrow> int \<Rightarrow> error + routing_rule" where
  "makeGRPCRoutingRule route ruleIndex listenerPort =
     (let rule = rt_rules route ! ruleIndex in
      makeBackendRoutingRule (ociGRPCListenerPolicyRuleName route ruleIndex) (rr_backend_refs rule)
        (ociBackendSetNameFromGRPCBackendRef route)
        (mapGRPCRouteHostnamesAndMatchesToCondition (rt_hostnames route) listenerPort (rr_matches rule))
        ''failed to map grpc route matches to condition'')"

definition listenerPolicyContainsGRPCRules :: "routing_policy option \<Rightarrow> bool" where
  "listenerPolicyContainsGRPCRules policy =
     list_ex (\<lambda>rule. case rule_condition rule of None \<Rightarrow> False
        | Some c \<Rightarrow> str_contains (to_lower c) ''application/grpc'')
       (case policy of None \<Rightarrow> [] | Some p \<Rightarrow> rp_rules p)"

section \<open>The policies stored by the service\<close>

text \<open>The effect of the calls on the routing policies of the service.\<close>

type_synonym policy_store = "routing_policy store"

fun applyPolicyCall :: "lb_call \<Rightarrow> policy_store \<Rightarrow> policy_store" where
  "applyPolicyCall (CreateRoutingPolicy lb d) s =
     s((lb, cp_name d) \<mapsto> \<lparr>rp_name = Some (cp_name d), rp_language = cp_language d, rp_rules = cp_rules d\<rparr>)"
| "applyPolicyCall (UpdateRoutingPolicy lb name d) s =
     s((lb, name) \<mapsto> \<lparr>rp_name = Some name, rp_language = up_language d, rp_rules = up_rules d\<rparr>)"
| "applyPolicyCall (DeleteRoutingPolicy lb name) s = s((lb, name) := None)"
| "applyPolicyCall _ s = s"

interpretation policies: object_service applyPolicyCall env_routing_policy
proof unfold_locales
  show "reading c \<Longrightarrow> applyPolicyCall c s = s" for c s by (cases c) simp_all
qed

abbreviation storedPolicies :: "lb_env \<Rightarrow> policy_store \<Rightarrow> lb_call list \<Rightarrow> policy_store" where
  "storedPolicies \<equiv> storedBy applyPolicyCall"

abbreviation servesPolicies :: "lb_env \<Rightarrow> policy_store \<Rightarrow> bool" where
  "servesPolicies \<equiv> serves env_routing_policy applyPolicyCall"

lemmas awaited_write_stored = policies.awaited_write_stored
lemmas servesPolicies_found = policies.found

lemma storedPolicies_read [simp]:
  "storedPolicies w s (h @ [GetRoutingPolicy lb n]) = storedPolicies w s h"
  by (simp add: policies.stored_reading)

lemma servesPolicies_missing:
  "servesPolicies w s \<Longrightarrow> env_routing_policy w h lb n = Inl e \<Longrightarrow> routingPolicyNotFound e \<Longrightarrow>
    storedPolicies w s h (lb, n) = None"
  by (simp add: policies.missing routingPolicyNotFound_def)

text \<open>The rules of a policy by name; a policy that does not exist has none.\<close>

definition policyRules :: "routing_policy option \<Rightarrow> string \<rightharpoonup> routing_rule" where
  "policyRules p = (case p of None \<Rightarrow> Map.empty | Some policy \<Rightarrow> rulesByName (rp_rules policy))"

lemma policyRules_simps [simp]: "policyRules None = Map.empty" "policyRules (Some p) = rulesByName (rp_rules p)"
  by (simp_all add: policyRules_def)

lemma rulesByName_Nil [simp]: "rulesByName [] = Map.empty"
  by (simp add: rulesByName_def)

lemma rulesByName_sort: "distinct_names rules \<Longrightarrow> rulesByName (sortRoutingRules rules) = rulesByName rules"
  by (rule rulesByName_perm) simp_all

lemma commitSpec_empty: "commitSpec new prev Map.empty = rulesByName new"
proof (rule ext)
  fix n show "commitSpec new prev Map.empty n = rulesByName new n"
    using dom_rulesByName [of new] by (auto simp: commitSpec_def restrict_map_def dom_def set_eq_iff)
qed

lemma sort_nonempty: "sortRoutingRules rules = [] \<longleftrightarrow> rules = []"
  by (metis set_empty2 set_sortRoutingRules)

lemma commit_run:
  assumes "commitRoutingPolicyLocked w params name h = (Inr (), h')"
    and "servesPolicies w s" "distinct_names (cm_policyRules params)"
  shows "policyRules (storedPolicies w s h' (cm_loadBalancerID params, name)) =
      commitSpec (cm_policyRules params) (cm_prevPolicyRules params)
        (policyRules (storedPolicies w s h (cm_loadBalancerID params, name)))" (is ?A)
    and "k \<noteq> (cm_loadBalancerID params, name) \<Longrightarrow> storedPolicies w s h' k = storedPolicies w s h k" (is "_ \<Longrightarrow> ?B")
    and "storedPolicies w s h' (cm_loadBalancerID params, name) = Some p \<Longrightarrow>
      distinct_names (rp_rules p) \<and> rp_rules p \<noteq> []" (is "_ \<Longrightarrow> ?C p")
proof -
  let ?lb = "cm_loadBalancerID params" and ?new = "cm_policyRules params" and ?prev = "cm_prevPolicyRules params"
  define h1 where "h1 = h @ [GetRoutingPolicy ?lb name]"
  have st: "storedPolicies w s h1 = storedPolicies w s h" by (simp add: h1_def)
  note run = assms(1) [unfolded commitRoutingPolicyLocked_def eff_bind_Inr [OF get_run(3)] h1_def [symmetric]]
  have both: "?A \<and> (\<forall>k. k \<noteq> (?lb, name) \<longrightarrow> storedPolicies w s h' k = storedPolicies w s h k) \<and>
      (\<forall>p. storedPolicies w s h' (?lb, name) = Some p \<longrightarrow> ?C p)"
  proof (cases "env_routing_policy w h ?lb name")
    case (Inl err)
    then have nf: "routingPolicyNotFound err" using run by (auto simp: eff_simps split: if_splits)
    have none: "storedPolicies w s h (?lb, name) = None"
      using servesPolicies_missing [OF assms(2) Inl nf] .
    have cr: "createMissingCommittedRoutingPolicy w params name h1 = (Inr (), h')" using run Inl nf by simp
    show ?thesis
    proof (cases "?new = []")
      case True
      with cr have "h' = h1" by (simp add: createMissingCommittedRoutingPolicy_def eff_simps)
      with none st True show ?thesis by (simp add: commitSpec_empty)
    next
      case False
      with awaited_write_stored [of w _ _ _ h1 h' s] cr st none show ?thesis
        by (simp add: createMissingCommittedRoutingPolicy_def commitSpec_empty rulesByName_sort assms(3)
            sort_nonempty)
    qed
  next
    case (Inr policy)
    define merged where "merged = mergedRules (env_order w h1) (rp_rules policy) ?new ?prev"
    have now: "storedPolicies w s h (?lb, name) = Some policy"
      using servesPolicies_found [OF assms(2) Inr] .
    have spec: "rulesByName merged = commitSpec ?new ?prev (rulesByName (rp_rules policy))"
      unfolding merged_def by (rule mergedRules_spec)
    have run': "(if merged = [] then deleteMissingRoutingPolicy w ?lb (Some name)
        else if routingRulesEqual (rp_rules policy) merged then eff_return ()
        else awaited_write w (UpdateRoutingPolicy ?lb name \<lparr>up_language = rp_language policy, up_rules = merged\<rparr>)
          (errtext ''failed to update routing policy '' name [])
          (errtext ''failed to wait for routing policy '' name '' update'')) h1 = (Inr (), h')"
      using run unfolding Inr merged_def by (simp only: eff_bind_ask Let_def sum.case)
    consider "merged = []" | "merged \<noteq> []" "routingRulesEqual (rp_rules policy) merged"
      | "merged \<noteq> []" "\<not> routingRulesEqual (rp_rules policy) merged" by blast
    then show ?thesis
    proof cases
      case 1
      with awaited_write_stored [of w _ _ _ h1 h' s] run' st now spec show ?thesis
        by (simp add: deleteMissingRoutingPolicy_def)
    next
      case 2
      then have "mset merged = mset (rp_rules policy)"
        using routingRulesEqual_iff [of merged] mergedRules_spec(1) [of "env_order w h1" "rp_rules policy" ?new ?prev]
        by (metis merged_def routingRulesEqual_def)
      then have "rulesByName merged = rulesByName (rp_rules policy)"
        by (rule rulesByName_perm) (simp add: merged_def mergedRules_spec)
      moreover have "distinct_names (rp_rules policy) \<and> rp_rules policy \<noteq> []"
        using \<open>mset merged = mset (rp_rules policy)\<close> 2(1)
          mergedRules_spec(1) [of "env_order w h1" "rp_rules policy" ?new ?prev]
        by (metis distinct_names_perm merged_def mset_zero_iff_right)
      ultimately show ?thesis using 2 run' st now spec by (simp add: eff_simps)
    next
      case 3
      with awaited_write_stored [of w _ _ _ h1 h' s] run' st now spec show ?thesis
        by (simp add: merged_def mergedRules_spec(1))
    qed
  qed
  then show ?A by blast
  from both show "k \<noteq> (?lb, name) \<Longrightarrow> ?B" by blast
  from both show "storedPolicies w s h' (?lb, name) = Some p \<Longrightarrow> ?C p" by blast
qed

lemma rulesByName_eq_mset:
  assumes "rulesByName xs = rulesByName ys" "distinct_names xs" "distinct_names ys"
  shows "mset xs = mset ys"
proof -
  have "r \<in> set xs \<longleftrightarrow> r \<in> set ys" for r
    using assms rulesByName_unique [of xs "ruleName r" r] rulesByName_unique [of ys "ruleName r" r] by simp
  moreover have "distinct xs" "distinct ys" using assms(2,3) by (auto simp: distinct_map)
  ultimately show ?thesis by (simp add: set_eq_iff set_eq_iff_mset_eq_distinct [symmetric])
qed

lemma commitSpec_idem: "commitSpec new prev (commitSpec new prev m) = commitSpec new prev m"
proof (rule ext)
  fix n
  note rulesByName_None [of new n]
  then show "commitSpec new prev (commitSpec new prev m) n = commitSpec new prev m n"
    by (auto simp: commitSpec_def restrict_map_def map_add_def split: option.split)
qed

lemma commit_again:
  assumes "commitRoutingPolicyLocked w params name h = (Inr (), h')"
    and "commitRoutingPolicyLocked w params name h' = (Inr (), h'')"
    and "servesPolicies w s" "distinct_names (cm_policyRules params)"
  shows "writes_of h'' = writes_of h'"
proof -
  let ?lb = "cm_loadBalancerID params" and ?new = "cm_policyRules params" and ?prev = "cm_prevPolicyRules params"
  note first = commit_run [OF assms(1,3,4)]
  define h1 where "h1 = h' @ [GetRoutingPolicy ?lb name]"
  have w1: "writes_of h1 = writes_of h'" by (simp add: h1_def)
  note run = assms(2) [unfolded commitRoutingPolicyLocked_def eff_bind_Inr [OF get_run(3)] h1_def [symmetric]]
  show ?thesis
  proof (cases "env_routing_policy w h' ?lb name")
    case (Inl err)
    then have nf: "routingPolicyNotFound err" using run by (auto simp: eff_simps split: if_splits)
    with servesPolicies_missing [OF assms(3) Inl] first(1)
    have empty: "commitSpec ?new ?prev (policyRules (storedPolicies w s h (?lb, name))) = Map.empty" by simp
    have "?new = []"
    proof (cases ?new)
      case (Cons r rs)
      then have "ruleName r \<in> dom (rulesByName ?new)" by (simp add: dom_rulesByName)
      with empty Cons show ?thesis
        by (auto simp: commitSpec_def restrict_map_def map_add_def fun_eq_iff split: if_splits option.splits)
          (metis dom_rulesByName domIff image_eqI list.set_intros(1) option.simps(3))
    qed
    with run Inl nf w1 show ?thesis
      by (simp add: createMissingCommittedRoutingPolicy_def eff_simps split: if_splits)
  next
    case (Inr policy)
    define merged where "merged = mergedRules (env_order w h1) (rp_rules policy) ?new ?prev"
    have now: "storedPolicies w s h' (?lb, name) = Some policy"
      using servesPolicies_found [OF assms(3) Inr] .
    have "rulesByName merged = rulesByName (rp_rules policy)"
      using first(1) now mergedRules_spec(2) [of "env_order w h1" "rp_rules policy" ?new ?prev]
      by (simp add: merged_def commitSpec_idem)
    with first(3) [OF now] have "mset merged = mset (rp_rules policy)"
      by (intro rulesByName_eq_mset) (simp_all add: merged_def mergedRules_spec(1))
    with first(3) [OF now] have "merged \<noteq> []" "routingRulesEqual (rp_rules policy) merged"
      by (auto simp: routingRulesEqual_iff)
    with run Inr w1 show ?thesis by (simp add: eff_bind_ask Let_def merged_def eff_simps)
  qed
qed

section \<open>What a commit does\<close>

text \<open>A service that stores policies and accepts every write.\<close>

definition storingEnv :: "policy_store \<Rightarrow> lb_env" where
  "storingEnv s = agreeable_env\<lparr>env_routing_policy :=
     (\<lambda>h lb name. stored_answer (replay applyPolicyCall s h (lb, name)))\<rparr>"

lemma storingEnv_simps [simp]:
  "env_write (storingEnv s) h c = Inr (Some ''wr'')" "env_wait (storingEnv s) h i = None"
  "env_order (storingEnv s) h = []"
  "env_routing_policy (storingEnv s) h lb name = stored_answer (replay applyPolicyCall s h (lb, name))"
  by (simp_all add: storingEnv_def)

lemma storingEnv_accepts: "accepted (storingEnv s) h c"
  by (simp add: accepted_def)

lemma storedPolicies_storingEnv: "storedPolicies (storingEnv s) s h = replay applyPolicyCall s h"
  by (rule policies.stored_replay [OF storingEnv_accepts])

lemma storingEnv_serves: "servesPolicies (storingEnv s) s"
  by (rule policies.replay_serves [OF storingEnv_accepts]) simp

definition exampleRule :: "string \<Rightarrow> routing_rule" where
  "exampleRule name = \<lparr>rule_name = Some name, rule_condition = Some ''c'', rule_actions = []\<rparr>"

definition exampleCommit :: commit_routing_policy_params where
  "exampleCommit = \<lparr>cm_loadBalancerID = ''lb'', cm_listenerName = ''http'',
     cm_policyRules = [exampleRule ''p0000'', exampleRule ''p0001''], cm_prevPolicyRules = [''p0002'']\<rparr>"

lemma exampleCommit_runs:
  "\<exists>h'. commitRoutingPolicy (storingEnv Map.empty) exampleCommit [] = (Inr (), h')"
  by (simp add: commitRoutingPolicy_def commitRoutingPolicyLocked_def eff_simps replay_def
      routingPolicyNotFound_def createMissingCommittedRoutingPolicy_def exampleCommit_def
      eff_bind_Inr [OF get_run(3)])

text \<open>
  C11: A successful commit is the update of a map from rule names to rules: the route's rules
  are set, its previous rules that it no longer has are removed, every other rule stays as
  it is, and no other policy changes.
\<close>

theorem commitRoutingPolicy_refines:
  assumes "servesPolicies w s" "distinct_names (cm_policyRules params)"
    and "commitRoutingPolicy w params h = (Inr (), h')"
  shows "policyRules (storedPolicies w s h' (cm_loadBalancerID params, listenerPolicyName (cm_listenerName params))) =
      commitSpec (cm_policyRules params) (cm_prevPolicyRules params)
        (policyRules (storedPolicies w s h (cm_loadBalancerID params, listenerPolicyName (cm_listenerName params)))) \<and>
    storedPolicies w s h' |` (- {(cm_loadBalancerID params, listenerPolicyName (cm_listenerName params))}) =
      storedPolicies w s h |` (- {(cm_loadBalancerID params, listenerPolicyName (cm_listenerName params))})"
  using commit_run [OF assms(3) [unfolded commitRoutingPolicy_def] assms(1,2)]
  by (auto simp: restrict_map_def fun_eq_iff)

theorem commitRoutingPolicy_refines_witness:
  "\<exists>h'. commitRoutingPolicy (storingEnv Map.empty) exampleCommit [] = (Inr (), h') \<and>
    policyRules (storedPolicies (storingEnv Map.empty) Map.empty h' (''lb'', listenerPolicyName ''http'')) =
      commitSpec (cm_policyRules exampleCommit) [''p0002''] Map.empty"
proof -
  obtain h' where run: "commitRoutingPolicy (storingEnv Map.empty) exampleCommit [] = (Inr (), h')"
    using exampleCommit_runs by blast
  have "distinct_names (cm_policyRules exampleCommit)"
    by (simp add: exampleCommit_def exampleRule_def ruleName_def)
  from commitRoutingPolicy_refines [OF storingEnv_serves this run] run show ?thesis
    by (auto simp: exampleCommit_def storedPolicies_storingEnv replay_def)
qed

text \<open>Committing the same rules again writes nothing.\<close>

theorem commitRoutingPolicy_idempotent:
  assumes "servesPolicies w s" "distinct_names (cm_policyRules params)"
    and "commitRoutingPolicy w params h = (Inr (), h')" "commitRoutingPolicy w params h' = (Inr (), h'')"
  shows "writes_of h'' = writes_of h'"
  using commit_again [OF assms(3,4) [unfolded commitRoutingPolicy_def] assms(1,2)] .

lemma exampleRule_grpc [simp]: "\<not> routingRuleMatchesNativeGRPC (exampleRule n)"
  by (simp add: routingRuleMatchesNativeGRPC_def exampleRule_def has_prefix_def Let_def)

lemma exampleRule_name [simp]: "ruleName (exampleRule n) = n"
  by (simp add: exampleRule_def ruleName_def)

lemma exampleRules_sorted:
  "sortRoutingRules [exampleRule ''p0000'', exampleRule ''p0001''] = [exampleRule ''p0000'', exampleRule ''p0001'']"
  by (simp add: sortRoutingRules_def routingRuleLess_def defaultCatchAllRuleName_def Let_def)

lemma exampleCommit_first:
  "commitRoutingPolicy (storingEnv Map.empty) exampleCommit [] = (Inr (),
    [GetRoutingPolicy ''lb'' (listenerPolicyName ''http''),
     CreateRoutingPolicy ''lb'' \<lparr>cp_name = listenerPolicyName ''http'', cp_language = languageV1,
       cp_rules = cm_policyRules exampleCommit\<rparr>, WaitFor ''wr''])"
  by (simp add: commitRoutingPolicy_def commitRoutingPolicyLocked_def eff_simps replay_def
      routingPolicyNotFound_def createMissingCommittedRoutingPolicy_def exampleCommit_def
      eff_bind_Inr [OF get_run(3)] exampleRules_sorted)

lemma exampleCommit_second:
  "\<exists>h''. commitRoutingPolicy (storingEnv Map.empty) exampleCommit
    (snd (commitRoutingPolicy (storingEnv Map.empty) exampleCommit [])) = (Inr (), h'')"
  unfolding exampleCommit_first snd_conv
  unfolding commitRoutingPolicy_def commitRoutingPolicyLocked_def eff_bind_Inr [OF get_run(3)]
  by (simp add: eff_bind_ask replay_def exampleCommit_def
      awaited_write_run eff_simps eff_if deleteMissingRoutingPolicy_def Let_def)

theorem commitRoutingPolicy_idempotent_witness:
  "\<exists>h''. commitRoutingPolicy (storingEnv Map.empty) exampleCommit
      (snd (commitRoutingPolicy (storingEnv Map.empty) exampleCommit [])) = (Inr (), h'') \<and>
    writes_of h'' = writes_of (snd (commitRoutingPolicy (storingEnv Map.empty) exampleCommit []))"
proof -
  obtain h'' where second: "commitRoutingPolicy (storingEnv Map.empty) exampleCommit
      (snd (commitRoutingPolicy (storingEnv Map.empty) exampleCommit [])) = (Inr (), h'')"
    using exampleCommit_second by blast
  have first: "commitRoutingPolicy (storingEnv Map.empty) exampleCommit [] =
      (Inr (), snd (commitRoutingPolicy (storingEnv Map.empty) exampleCommit []))"
    by (simp add: exampleCommit_first)
  have "distinct_names (cm_policyRules exampleCommit)"
    by (simp add: exampleCommit_def exampleRule_def ruleName_def)
  from commitRoutingPolicy_idempotent [OF storingEnv_serves this first second] second show ?thesis by blast
qed

text \<open>
  The rules a commit writes do not depend on the iteration order of Go maps, and are in
  strict order: rules that match native gRPC first, then by name, the catch-all rule last.
\<close>

theorem mergedRules_deterministic:
  "mergedRules order1 current new prev = mergedRules order2 current new prev \<and>
    sorted_wrt routingRuleLess (mergedRules order1 current new prev)"
proof -
  have strict: "sorted_wrt routingRuleLess rules"
    if "sorted_wrt (\<lambda>a b. \<not> routingRuleLess b a) rules" "distinct_names rules" for rules
    using that
  proof (induction rules)
    case (Cons r rules)
    have "routingRuleLess r x" if "x \<in> set rules" for x
    proof -
      have "r \<noteq> x" using Cons.prems(2) that by auto
      then show ?thesis using rule_order.total [OF Cons.prems(2), of r x] Cons.prems(1) that by auto
    qed
    with Cons show ?case by auto
  qed simp
  show ?thesis using mergedRules_order strict [OF mergedRules_sorted mergedRules_spec(1)] by blast
qed

text \<open>
  A commit whose merged rules are those of the policy in another order writes nothing: the
  comparison sorts both sides, so a policy whose rules are in the wrong order stays so.
\<close>

theorem commit_ignores_rule_order:
  assumes "env_routing_policy w h (cm_loadBalancerID params) name = Inr policy" "rp_rules policy \<noteq> []"
    and "mset (rp_rules policy) =
      mset (mergedRules (env_order w (h @ [GetRoutingPolicy (cm_loadBalancerID params) name])) (rp_rules policy)
        (cm_policyRules params) (cm_prevPolicyRules params))"
  shows "commitRoutingPolicyLocked w params name h = (Inr (), h @ [GetRoutingPolicy (cm_loadBalancerID params) name])"
proof -
  define h1 where "h1 = h @ [GetRoutingPolicy (cm_loadBalancerID params) name]"
  define merged where "merged = mergedRules (env_order w h1) (rp_rules policy)
    (cm_policyRules params) (cm_prevPolicyRules params)"
  have m: "mset (rp_rules policy) = mset merged" using assms(3) by (simp add: merged_def h1_def)
  with assms(2) have "merged \<noteq> []" by auto
  moreover from m have "distinct_names (rp_rules policy)"
    using distinct_names_perm mergedRules_spec(1) by (metis merged_def)
  with m have "routingRulesEqual (rp_rules policy) merged" by (simp add: routingRulesEqual_iff)
  ultimately show ?thesis
    unfolding commitRoutingPolicyLocked_def eff_bind_Inr [OF get_run(3)] assms(1) h1_def [symmetric]
    by (simp add: eff_bind_ask merged_def eff_simps)
qed

definition exampleUnsorted :: routing_policy where
  "exampleUnsorted = \<lparr>rp_name = Some ''p'', rp_language = languageV1,
     rp_rules = [exampleRule ''p0001'', exampleRule ''p0000'']\<rparr>"

theorem commit_ignores_rule_order_witness:
  "\<not> sorted_wrt routingRuleLess (rp_rules exampleUnsorted) \<and>
    commitRoutingPolicyLocked (storingEnv [(''lb'', ''p'') \<mapsto> exampleUnsorted]) exampleCommit ''p'' [] =
      (Inr (), [GetRoutingPolicy ''lb'' ''p''])"
proof
  show "\<not> sorted_wrt routingRuleLess (rp_rules exampleUnsorted)"
    by (simp add: exampleUnsorted_def routingRuleLess_def defaultCatchAllRuleName_def Let_def)
  have "mset (rp_rules exampleUnsorted) = mset (mergedRules [] (rp_rules exampleUnsorted)
      (cm_policyRules exampleCommit) (cm_prevPolicyRules exampleCommit))"
    by (simp add: mset_mergedRules mergedRulesByName_def exampleUnsorted_def exampleCommit_def Let_def)
  then show "commitRoutingPolicyLocked (storingEnv [(''lb'', ''p'') \<mapsto> exampleUnsorted]) exampleCommit ''p'' [] =
      (Inr (), [GetRoutingPolicy ''lb'' ''p''])"
    using commit_ignores_rule_order [of "storingEnv [(''lb'', ''p'') \<mapsto> exampleUnsorted]" "[]" exampleCommit "''p''"
        exampleUnsorted]
    by (simp add: exampleCommit_def replay_def exampleUnsorted_def)
qed

section \<open>Keeping the default rule\<close>

lemma not_drifted_exists: "\<not> defaultRuleDrifted rules b \<Longrightarrow> \<exists>r\<in>set rules. defaultCatchAllRuleMatches r b"
  by (induction rules) (auto split: if_splits)

text \<open>Replacing the default rule keeps the other rules.\<close>

lemma rulesByName_desired:
  "n \<noteq> defaultCatchAllRuleName \<Longrightarrow>
    rulesByName (desiredRoutingPolicyRulesWithDefault policy b) n = rulesByName (rp_rules policy) n"
proof -
  assume n: "n \<noteq> defaultCatchAllRuleName"
  define f where "f = (\<lambda>rule. if ruleName rule = defaultCatchAllRuleName then defaultCatchAllRoutingRule b else rule)"
  have names: "ruleName (f r) = ruleName r" for r by (simp add: f_def)
  have other: "ruleName r = n \<Longrightarrow> f r = r" for r using n by (simp add: f_def)
  have "find (\<lambda>r. ruleName r = n) (map f rs) = find (\<lambda>r. ruleName r = n) rs" for rs
    by (induction rs) (auto simp: names other)
  then have "rulesByName (map f rs @ rest) n = rulesByName rs n" if "rest = [] \<or> rest = [defaultCatchAllRoutingRule b]" for rs rest
    using that n by (auto simp: rulesByName_def map_of_slice_to_map rev_map)
  then show ?thesis by (simp add: desiredRoutingPolicyRulesWithDefault_def f_def [symmetric])
qed

lemma getListenerRoutingPolicy_run:
  "getListenerRoutingPolicy w lb name h =
    ((case env_routing_policy w h lb name of
        Inl err \<Rightarrow> (if routingPolicyNotFound err then Inr None
          else Inl (ErrWrap (errtext ''failed to get routing policy '' name '': '') (ErrService err) []))
      | Inr policy \<Rightarrow> Inr (Some policy)), h @ [GetRoutingPolicy lb name])"
  by (simp add: getListenerRoutingPolicy_def eff_bind_Inr [OF get_run(3)] eff_simps split: sum.split)

text \<open>The tail of the reconciliation, for a policy found or not found.\<close>

lemma reconcilePolicy_tail:
  assumes "(case current of
        None \<Rightarrow> createListenerRoutingPolicy w params name
      | Some policy \<Rightarrow>
          (if routingPolicyDefaultRuleDrifted policy (rl_defaultBackendSetName params)
           then updateListenerRoutingPolicyDefaultRule w params name policy else eff_return ())) h = (Inr (), h')"
    and "storedPolicies w s h (rl_loadBalancerID params, name) = current"
  shows "\<exists>policy. storedPolicies w s h' (rl_loadBalancerID params, name) = Some policy \<and>
    \<not> routingPolicyDefaultRuleDrifted policy (rl_defaultBackendSetName params) \<and>
    (\<forall>n. n = defaultCatchAllRuleName \<or> rulesByName (rp_rules policy) n = policyRules current n)"
proof (cases current)
  case None
  with assms awaited_write_stored [of w _ _ _ h h' s] show ?thesis
    by (simp add: createListenerRoutingPolicy_def routingPolicyDefaultRuleDrifted_def rulesByName_None)
next
  case (Some policy)
  show ?thesis
  proof (cases "routingPolicyDefaultRuleDrifted policy (rl_defaultBackendSetName params)")
    case True
    have "\<forall>n. n = defaultCatchAllRuleName \<or>
        rulesByName (desiredRoutingPolicyRulesWithDefault policy (rl_defaultBackendSetName params)) n =
          rulesByName (rp_rules policy) n"
      using rulesByName_desired by blast
    with True Some assms awaited_write_stored [of w _ _ _ h h' s] show ?thesis
      by (simp add: updateListenerRoutingPolicyDefaultRule_def routingPolicyDefaultRuleDrifted_def desired_not_drifted)
  next
    case False
    with Some assms show ?thesis by (simp add: eff_return_run)
  qed
qed

text \<open>
  After a successful reconciliation of a listener the service stores its routing policy,
  the policy's catch-all rule forwards to the default backend set, and the rules of routes
  are as before. The known policies, read earlier, may be out of date, as long as the
  policy was not deleted since.
\<close>

theorem reconcileListenerRoutingPolicy_default:
  assumes "servesPolicies w s"
    and "key = (rl_loadBalancerID params, listenerPolicyName (l_name (rl_listenerSpec params)))"
    and "map_of (rl_knownRoutingPolicies params) (snd key) = known"
    and "known = None \<or> known = storedPolicies w s h key \<or>
      storedPolicies w s h key \<noteq> None \<and> routingPolicyDefaultRuleDrifted (the known) (rl_defaultBackendSetName params)"
    and "reconcileListenerRoutingPolicy w params h = (Inr (), h')"
  shows "\<exists>policy. storedPolicies w s h' key = Some policy \<and>
    \<not> routingPolicyDefaultRuleDrifted policy (rl_defaultBackendSetName params) \<and>
    (\<forall>n. n = defaultCatchAllRuleName \<or> rulesByName (rp_rules policy) n = policyRules (storedPolicies w s h key) n)"
proof -
  define name where "name = snd key"
  have key: "key = (rl_loadBalancerID params, name)" "listenerPolicyName (l_name (rl_listenerSpec params)) = name"
    using assms(2) by (simp_all add: name_def)
  define h1 where "h1 = h @ [GetRoutingPolicy (rl_loadBalancerID params) name]"
  let ?tail = "\<lambda>current. (case current of
        None \<Rightarrow> createListenerRoutingPolicy w params name
      | Some policy \<Rightarrow>
          (if routingPolicyDefaultRuleDrifted policy (rl_defaultBackendSetName params)
           then updateListenerRoutingPolicyDefaultRule w params name policy else eff_return ()))"
  define refresh where "refresh = (case known of None \<Rightarrow> True
    | Some policy \<Rightarrow> routingPolicyDefaultRuleDrifted policy (rl_defaultBackendSetName params))"
  have run: "eff_bind (if refresh then eff_bind (getListenerRoutingPolicy w (rl_loadBalancerID params) name)
        (\<lambda>refreshed. eff_return (case refreshed of Some policy \<Rightarrow> Some policy | None \<Rightarrow> known))
      else eff_return known) ?tail h = (Inr (), h')"
    using assms(5) unfolding reconcileListenerRoutingPolicy_def reconcileListenerRoutingPolicyLocked_def key(2)
      assms(3) [folded name_def] refresh_def by (simp only: Let_def)
  show ?thesis
  proof (cases refresh)
    case False
    then have k: "storedPolicies w s h (rl_loadBalancerID params, name) = known"
      using assms(4) by (auto simp: refresh_def key(1) split: option.splits)
    have "?tail known h = (Inr (), h')" using run False by (simp only: if_False eff_bind_return)
    from reconcilePolicy_tail [OF this k] show ?thesis unfolding key(1) k .
  next
    case True
    obtain current where "?tail current h1 = (Inr (), h')" "storedPolicies w s h1 (rl_loadBalancerID params, name) = current"
    proof (cases "env_routing_policy w h (rl_loadBalancerID params) name")
      case (Inl err)
      then have nf: "routingPolicyNotFound err"
        using run True by (auto simp: eff_bind_def getListenerRoutingPolicy_run split: if_splits)
      have "storedPolicies w s h key = None"
        using servesPolicies_missing [OF assms(1) Inl nf] by (simp add: key)
      moreover from this have "known = None" using assms(4) by auto
      ultimately show thesis
        using that [of None] run True Inl nf
        by (simp add: eff_bind_def eff_return_run getListenerRoutingPolicy_run h1_def key)
    next
      case (Inr policy)
      then have "storedPolicies w s h key = Some policy"
        using servesPolicies_found [OF assms(1)] by (simp add: key)
      then show thesis
        using that [of "Some policy"] run True Inr
        by (simp add: eff_bind_def eff_return_run getListenerRoutingPolicy_run h1_def key)
    qed
    note t = reconcilePolicy_tail [OF this]
    have "storedPolicies w s h1 = storedPolicies w s h" by (simp add: h1_def)
    with t \<open>storedPolicies w s h1 (rl_loadBalancerID params, name) = current\<close> show ?thesis
      unfolding key(1) by simp
  qed
qed

definition exampleListenerSpec :: gw_listener where
  "exampleListenerSpec = \<lparr>l_name = ''http'', l_hostname = None, l_port = 80, l_protocol = ''HTTP'', l_tls = None, l_allowed = None\<rparr>"

definition exampleListenerParams :: reconcile_http_listener_params where
  "exampleListenerParams = \<lparr>rl_compartmentID = [], rl_gateway = None, rl_loadBalancerID = ''lb'', rl_knownListeners = [], rl_knownRoutingPolicies = [],
     rl_listenerCertificates = [], rl_listenerCertificateID = [], rl_defaultBackendSetName = ''default'',
     rl_listenerSpec = exampleListenerSpec\<rparr>"

theorem reconcileListenerRoutingPolicy_default_witness:
  "\<exists>h'. reconcileListenerRoutingPolicy (storingEnv Map.empty) exampleListenerParams [] = (Inr (), h') \<and>
    (\<exists>policy. storedPolicies (storingEnv Map.empty) Map.empty h' (''lb'', listenerPolicyName ''http'') = Some policy \<and>
      \<not> routingPolicyDefaultRuleDrifted policy ''default'')"
proof -
  obtain h' where run: "reconcileListenerRoutingPolicy (storingEnv Map.empty) exampleListenerParams [] = (Inr (), h')"
    by (simp add: reconcileListenerRoutingPolicy_def reconcileListenerRoutingPolicyLocked_def Let_def
        exampleListenerParams_def eff_bind_def getListenerRoutingPolicy_run replay_def routingPolicyNotFound_def
        eff_return_run createListenerRoutingPolicy_def awaited_write_run)
  have "map_of (rl_knownRoutingPolicies exampleListenerParams)
      (snd (''lb'', listenerPolicyName ''http'')) = None"
    by (simp add: exampleListenerParams_def)
  from reconcileListenerRoutingPolicy_default [OF storingEnv_serves _ this _ run] run show ?thesis
    by (auto simp: exampleListenerParams_def exampleListenerSpec_def)
qed

section \<open>Native gRPC rules\<close>

lemma str_contains_trans: "str_contains b p \<Longrightarrow> str_contains a b \<Longrightarrow> str_contains a p"
  unfolding str_contains_iff by (metis append.assoc)

lemma str_contains_append: "str_contains b p \<Longrightarrow> str_contains (a @ b @ c) p"
  unfolding str_contains_iff by (metis append.assoc)

lemma str_contains_self [simp]: "str_contains p p"
  unfolding str_contains_iff by (metis append_Nil append_Nil2)

lemma str_contains_join: "x \<in> set xs \<Longrightarrow> str_contains (str_join sep xs) x"
proof (induction sep xs rule: str_join.induct)
  case (3 sep x1 y zs)
  show ?case
  proof (cases "x = x1")
    case True
    then show ?thesis by (simp add: str_contains_iff) (metis append_Nil)
  next
    case False
    with 3 have "str_contains (str_join sep (y # zs)) x" by simp
    then show ?thesis using str_contains_append [of "str_join sep (y # zs)" x "x1 @ sep" "[]"] by simp
  qed
qed simp_all

lemma combineConditions_contains: "x \<in> set cs \<Longrightarrow> str_contains (combineConditions cs) x"
proof (cases cs rule: remdups_adj.cases)
  case (3 a b bs)
  assume "x \<in> set cs"
  then show ?thesis unfolding 3 combineConditions_many by (intro str_contains_append str_contains_join) simp
qed auto

lemma appendParts_keeps: "x \<in> set cs \<Longrightarrow> x \<in> set (appendRoutingConditionParts cs c)"
  by (auto simp: appendRoutingConditionParts_def split: option.split)

lemma appendParts_fold: "x \<in> set cs \<Longrightarrow> x \<in> set (foldl appendRoutingConditionParts cs ds)"
  by (induction ds arbitrary: cs) (auto simp: appendParts_keeps)

lemma allRoutingConditions_contains:
  assumes "x \<in> set ds" "conditionAtom x"
  shows "str_contains (allRoutingConditions ds) x"
proof -
  obtain a b where ds: "ds = a @ x # b" using assms(1) by (metis split_list)
  have "x \<in> set (appendRoutingConditionParts cs x)" for cs
    using conditionAtomD [OF assms(2)] by (simp add: appendRoutingConditionParts_def)
  then have "x \<in> set (foldl appendRoutingConditionParts [] ds)"
    by (simp add: ds appendParts_fold)
  then show ?thesis by (simp add: allRoutingConditions_def combineConditions_contains)
qed

lemma anyConditions_contains: "x \<in> set cs \<Longrightarrow> str_contains x p \<Longrightarrow> str_contains (anyConditions cs) p"
  unfolding anyConditions_def
  by (intro str_contains_append) (blast intro: str_contains_trans str_contains_join)

definition grpcMarker :: string where
  "grpcMarker = firstHeaderCondition ''eq'' ''content-type'' ''application/grpc''"

lemma grpcMarker_in: "grpcMarker \<in> set grpcContentTypeConditions" "conditionAtom grpcMarker"
  using grpcContentTypeConditions_atoms by (simp_all add: grpcMarker_def grpcContentTypeConditions_def)

lemma grpcMarker_native: "str_contains c grpcMarker \<Longrightarrow> str_contains c (''eq (i '' @ quoted ''application/grpc'' @ '')'')"
proof -
  have "grpcMarker = (''http.request.headers[(i '' @ quoted ''content-type'' @ '')][0] '') @
      (''eq (i '' @ quoted ''application/grpc'' @ '')'') @ []"
    by (simp add: grpcMarker_def firstHeaderCondition_def)
  then have "str_contains grpcMarker (''eq (i '' @ quoted ''application/grpc'' @ '')'')"
    unfolding str_contains_iff by blast
  then show "str_contains c grpcMarker \<Longrightarrow> ?thesis" using str_contains_trans by blast
qed

lemma grpc_condition_marked:
  assumes "mapGRPCRouteHostnamesAndMatchesToCondition hosts port ms = Inr c"
  shows "str_contains c grpcMarker"
proof -
  obtain conds where conds: "mapGRPCRouteMatchesToConditions ms = Inr conds"
    using assms by (auto simp: mapGRPCRouteHostnamesAndMatchesToCondition_def mapGRPCRouteMatchesToCondition_def
        split: if_splits sum.splits)
  note marked = allRoutingConditions_contains [OF _ grpcMarker_in(2)]
  show ?thesis
  proof (cases hosts)
    case Nil
    show ?thesis
    proof (cases conds)
      case (Cons d ds)
      then have "allRoutingConditions [grpcMarker, d] \<in> set (concat (map (\<lambda>condition.
          map (\<lambda>t. allRoutingConditions [t, condition]) grpcContentTypeConditions) conds))"
        using grpcMarker_in(1) by auto
      from anyConditions_contains [OF this marked] Nil Cons conds assms show ?thesis
        by (simp add: mapGRPCRouteHostnamesAndMatchesToCondition_def mapGRPCRouteMatchesToCondition_def)
    next
      case c: Nil
      have "str_contains grpcContentTypeCondition grpcMarker"
        unfolding grpcContentTypeCondition_def by (rule anyConditions_contains [OF grpcMarker_in(1)]) simp
      with Nil c conds assms show ?thesis
        by (simp add: mapGRPCRouteHostnamesAndMatchesToCondition_def mapGRPCRouteMatchesToCondition_def)
    qed
  next
    case (Cons host hosts')
    define g where "g = (\<lambda>hc. if conds = [] then map (\<lambda>t. allRoutingConditions [hc, t]) grpcContentTypeConditions
      else concat (map (\<lambda>mc. map (\<lambda>t. allRoutingConditions [hc, t, mc]) grpcContentTypeConditions) conds))"
    have "\<exists>x\<in>set (g (hostHeaderEquals host)). str_contains x grpcMarker"
    proof (cases conds)
      case Nil
      then have "allRoutingConditions [hostHeaderEquals host, grpcMarker] \<in> set (g (hostHeaderEquals host))"
        using grpcMarker_in(1) by (simp add: g_def)
      moreover have "str_contains (allRoutingConditions [hostHeaderEquals host, grpcMarker]) grpcMarker"
        by (rule marked) simp
      ultimately show ?thesis by blast
    next
      case (Cons d ds)
      then have "allRoutingConditions [hostHeaderEquals host, grpcMarker, d] \<in> set (g (hostHeaderEquals host))"
        using grpcMarker_in(1) by (auto simp: g_def)
      moreover have "str_contains (allRoutingConditions [hostHeaderEquals host, grpcMarker, d]) grpcMarker"
        by (rule marked) simp
      ultimately show ?thesis by blast
    qed
    then obtain x where x: "x \<in> set (g (hostHeaderEquals host))" "str_contains x grpcMarker" by blast
    have "c = anyConditions (concat (map (\<lambda>hostname. concat (map g (hostConditionsForHostname hostname port))) hosts))"
      using assms Cons conds by (simp add: mapGRPCRouteHostnamesAndMatchesToCondition_def g_def)
    moreover have "x \<in> set (concat (map (\<lambda>hostname. concat (map g (hostConditionsForHostname hostname port))) hosts))"
      using x(1) Cons by (auto simp: hostConditionsForHostname_def)
    ultimately show ?thesis using x(2) anyConditions_contains by blast
  qed
qed

text \<open>
  Every rule made for a GRPCRoute is recognised as a native gRPC rule, so it sorts before
  the rules of HTTPRoutes that do not test the gRPC content type.
\<close>

theorem makeGRPCRoutingRule_native:
  assumes "makeGRPCRoutingRule route ruleIndex listenerPort = Inr rule"
  shows "routingRuleMatchesNativeGRPC rule \<and> ruleName rule = ociGRPCListenerPolicyRuleName route ruleIndex"
proof -
  obtain c where c: "mapGRPCRouteHostnamesAndMatchesToCondition (rt_hostnames route) listenerPort
      (rr_matches (rt_rules route ! ruleIndex)) = Inr c" "rule_condition rule = Some c"
    "rule_name rule = Some (ociGRPCListenerPolicyRuleName route ruleIndex)"
    using assms by (auto simp: makeGRPCRoutingRule_def makeBackendRoutingRule_def Let_def buildForwardRoutingRule_def
        split: sum.splits)
  with grpcMarker_native [OF grpc_condition_marked [OF c(1)]] show ?thesis
    by (simp add: routingRuleMatchesNativeGRPC_def ruleName_def Let_def)
qed

definition exampleGRPCRoute :: grpc_route where
  "exampleGRPCRoute = \<lparr>rt_namespace = ''ns'', rt_name = ''r'', rt_creation = 0, rt_generation = 1, rt_deleting = False,
     rt_finalizers = [], rt_annotations = [], rt_parent_refs = [], rt_hostnames = [''a.test''],
     rt_rules = [\<lparr>rr_name = None, rr_matches = [exampleGRPCMatch], rr_backend_refs = []\<rparr>], rt_parents = []\<rparr>"

theorem makeGRPCRoutingRule_native_witness:
  "\<exists>rule. makeGRPCRoutingRule exampleGRPCRoute 0 80 = Inr rule \<and> routingRuleMatchesNativeGRPC rule"
proof -
  obtain rule where "makeGRPCRoutingRule exampleGRPCRoute 0 80 = Inr rule"
    by (simp add: makeGRPCRoutingRule_def exampleGRPCRoute_def makeBackendRoutingRule_def Let_def
        mapGRPCRouteHostnamesAndMatchesToCondition_def mapGRPCRouteMatchesToConditions_def exampleGRPCMatch_ok)
  with makeGRPCRoutingRule_native [OF this] show ?thesis by blast
qed

end
