(* ===== verification/BackendSets.thy ===== *)
theory BackendSets
  imports Ports
begin

text \<open>
  Backend sets (\<open>oci_load_balancer_model.go\<close>) and service ports
  (\<open>backend_service_port.go\<close>): when a backend set needs an update, its creation, update
  and removal, and the health check port. Shown: an update makes the backend set match
  and keeps its backends, so that reconciling again writes nothing; removal treats a
  missing set and a set still in use as success and reports everything else.
\<close>

section \<open>Service ports\<close>

definition servicePortForBackendRef :: "k8s_service \<Rightarrow> backend_ref \<Rightarrow> error + service_port" where
  "servicePortForBackendRef service backendRef =
     (case br_port backendRef of
        None \<Rightarrow> Inl (ErrText (errtext ''backendRef '' (br_name backendRef) '' is missing port''))
      | Some port \<Rightarrow>
          (case List.find (\<lambda>p. sp_port p = port) (svc_ports service) of
             Some p \<Rightarrow> Inr p
           | None \<Rightarrow> Inl (ErrText (errtext ''backendRef service '' (br_name backendRef)
               (errtext '' has no port '' (int_to_string port) [])))))"

fun endpointPortLoop :: "string \<Rightarrow> endpoint_port list \<Rightarrow> int option" where
  "endpointPortLoop portName [] = None"
| "endpointPortLoop portName (p # ps) =
     (case epp_port p of
        None \<Rightarrow> endpointPortLoop portName ps
      | Some n \<Rightarrow> if epp_name p = Some portName then Some n else endpointPortLoop portName ps)"

definition endpointPortForServicePort :: "service_port \<Rightarrow> endpoint_slice \<Rightarrow> int option" where
  "endpointPortForServicePort servicePort endpointSlice =
     (let target = sp_target_port servicePort in
      if \<not> tp_is_string target \<or> tp_int_val target \<noteq> 0 then
        (let port = tp_int_value target in Some (if port = 0 then sp_port servicePort else port))
      else endpointPortLoop (sp_name servicePort) (es_ports endpointSlice))"

definition targetOrServicePort :: "service_port \<Rightarrow> int" where
  "targetOrServicePort p =
     (let targetPort = tp_int_value (sp_target_port p) in if targetPort \<noteq> 0 then targetPort else sp_port p)"

definition healthCheckerPortForBackendRef :: "k8s_service \<Rightarrow> backend_ref \<Rightarrow> int" where
  "healthCheckerPortForBackendRef service backendRef =
     (case servicePortForBackendRef service backendRef of
        Inr servicePort \<Rightarrow> targetOrServicePort servicePort
      | Inl _ \<Rightarrow> (case svc_ports service of [] \<Rightarrow> 0 | p # _ \<Rightarrow> targetOrServicePort p))"

text \<open>
  The health check goes to the port of the endpoints when the target port is a number; a
  target port given by name is answered with the service port, which no endpoint need
  listen on.
\<close>

theorem healthCheckerPort_numeric:
  assumes "servicePortForBackendRef service ref = Inr p" "\<not> tp_is_string (sp_target_port p)"
  shows "endpointPortForServicePort p es = Some (healthCheckerPortForBackendRef service ref)"
  using assms
  by (simp add: endpointPortForServicePort_def healthCheckerPortForBackendRef_def targetOrServicePort_def Let_def)

definition examplePort :: "bool \<Rightarrow> int \<Rightarrow> service_port" where
  "examplePort named n = \<lparr>sp_name = ''web'', sp_port = 80,
     sp_target_port = \<lparr>tp_is_string = named, tp_int_val = n, tp_int_value = n\<rparr>\<rparr>"

definition exampleService :: "service_port \<Rightarrow> k8s_service" where
  "exampleService p = \<lparr>svc_namespace = ''ns'', svc_name = ''web'', svc_ports = [p]\<rparr>"

definition exampleRef :: backend_ref where
  "exampleRef = \<lparr>br_group = None, br_kind = None, br_name = ''web'', br_namespace = None,
     br_port = Some 80, br_weight = None\<rparr>"

theorem healthCheckerPort_numeric_witness:
  "endpointPortForServicePort (examplePort False 8080) \<lparr>es_endpoints = [], es_ports = []\<rparr> =
    Some (healthCheckerPortForBackendRef (exampleService (examplePort False 8080)) exampleRef)"
  by (rule healthCheckerPort_numeric)
    (simp_all add: servicePortForBackendRef_def exampleService_def exampleRef_def examplePort_def)

text \<open>
  When the target port of a Service is a name, the health checker takes the Service port
  although the backends take the port of the endpoint slice.
\<close>

theorem healthCheckerPort_named_differs:
  "\<exists>service ref p es port. servicePortForBackendRef service ref = Inr p \<and>
    endpointPortForServicePort p es = Some port \<and> healthCheckerPortForBackendRef service ref \<noteq> port"
proof (intro exI conjI)
  show "servicePortForBackendRef (exampleService (examplePort True 0)) exampleRef = Inr (examplePort True 0)"
    by (simp add: servicePortForBackendRef_def exampleService_def exampleRef_def examplePort_def)
  then show "healthCheckerPortForBackendRef (exampleService (examplePort True 0)) exampleRef \<noteq> 8080"
    by (simp add: healthCheckerPortForBackendRef_def targetOrServicePort_def examplePort_def)
  show "endpointPortForServicePort (examplePort True 0)
      \<lparr>es_endpoints = [], es_ports = [\<lparr>epp_name = Some ''web'', epp_port = Some 8080\<rparr>]\<rparr> = Some 8080"
    by (simp add: endpointPortForServicePort_def examplePort_def)
qed

section \<open>Comparing configurations\<close>

definition stringSlicesEqual :: "string list \<Rightarrow> string list \<Rightarrow> bool" where
  "stringSlicesEqual left right \<longleftrightarrow>
     str_join [CHR 0x00] (sort_strings left) = str_join [CHR 0x00] (sort_strings right)"

definition sslConfigurationDetailsFromBackendSet :: "ssl_configuration option \<Rightarrow> ssl_details option" where
  "sslConfigurationDetailsFromBackendSet config =
     (case config of None \<Rightarrow> None | Some c \<Rightarrow> Some
       \<lparr>sd_verify_depth = sc_verify_depth c, sd_verify_peer = sc_verify_peer c,
        sd_session_resumption = sc_session_resumption c, sd_trusted_ca_ids = sc_trusted_ca_ids c,
        sd_certificate_ids = sc_certificate_ids c, sd_certificate_name = sc_certificate_name c,
        sd_protocols = sc_protocols c, sd_cipher_suite = sc_cipher_suite c,
        sd_server_order = sc_server_order c\<rparr>)"

definition loadBalancerSSLConfigurationsEqual :: "ssl_details option \<Rightarrow> ssl_details option \<Rightarrow> bool" where
  "loadBalancerSSLConfigurationsEqual current desired =
     (case (current, desired) of
        (Some c, Some d) \<Rightarrow>
          int_ptr (sd_verify_depth c) = int_ptr (sd_verify_depth d) \<and>
          bool_ptr (sd_verify_peer c) = bool_ptr (sd_verify_peer d) \<and>
          bool_ptr (sd_session_resumption c) = bool_ptr (sd_session_resumption d) \<and>
          str_ptr (sd_certificate_name c) = str_ptr (sd_certificate_name d) \<and>
          str_ptr (sd_cipher_suite c) = str_ptr (sd_cipher_suite d) \<and>
          sd_server_order c = sd_server_order d \<and>
          stringSlicesEqual (sd_protocols c) (sd_protocols d) \<and>
          stringSlicesEqual (sd_certificate_ids c) (sd_certificate_ids d) \<and>
          stringSlicesEqual (sd_trusted_ca_ids c) (sd_trusted_ca_ids d)
      | _ \<Rightarrow> current = None \<and> desired = None)"

definition loadBalancerListenerSSLConfigurationsEqual :: "ssl_details option \<Rightarrow> ssl_details option \<Rightarrow> bool" where
  "loadBalancerListenerSSLConfigurationsEqual current desired =
     (case (current, desired) of
        (Some c, Some d) \<Rightarrow>
          (if str_ptr (sd_certificate_name c) \<noteq> str_ptr (sd_certificate_name d) \<or>
              \<not> stringSlicesEqual (sd_certificate_ids c) (sd_certificate_ids d) then False
           else if sd_cipher_suite d \<noteq> None \<and> str_ptr (sd_cipher_suite c) \<noteq> str_ptr (sd_cipher_suite d) then False
           else if sd_protocols d \<noteq> [] \<and> \<not> stringSlicesEqual (sd_protocols c) (sd_protocols d) then False
           else if bool_ptr (sd_verify_peer c) \<noteq> bool_ptr (sd_verify_peer d) then False
           else if sd_verify_depth d \<noteq> None \<and> int_ptr (sd_verify_depth c) \<noteq> int_ptr (sd_verify_depth d) then False
           else if \<not> stringSlicesEqual (sd_trusted_ca_ids c) (sd_trusted_ca_ids d) then False
           else True)
      | _ \<Rightarrow> current = None \<and> desired = None)"

definition loadBalancerHealthCheckerMatches :: "health_checker option \<Rightarrow> health_checker_details \<Rightarrow> bool" where
  "loadBalancerHealthCheckerMatches current desired =
     (case current of
        None \<Rightarrow> False
      | Some c \<Rightarrow> str_ptr (hc_protocol c) = str_ptr (hd_protocol desired) \<and>
                 int_ptr (hc_port c) = int_ptr (hd_port desired))"

definition loadBalancerBackendSetMatches ::
    "backend_set \<Rightarrow> string \<Rightarrow> health_checker_details \<Rightarrow> ssl_details option \<Rightarrow> bool" where
  "loadBalancerBackendSetMatches current policy healthChecker desiredSSLConfig \<longleftrightarrow>
     str_ptr (bs_policy current) = policy \<and>
     loadBalancerHealthCheckerMatches (bs_health_checker current) healthChecker \<and>
     loadBalancerSSLConfigurationsEqual (sslConfigurationDetailsFromBackendSet (bs_ssl current)) desiredSSLConfig"

text \<open>
  Comparing the joined strings compares the slices as bags of strings, except that an empty
  slice and a slice with one empty string look alike.
\<close>

lemma str_join_eq_Nil: "str_join [c] xs = [] \<longleftrightarrow> xs = [] \<or> xs = [[]]"
  by (cases xs rule: remdups_adj.cases) auto

lemma sort_strings_eq_iff: "sort_strings xs = sort_strings ys \<longleftrightarrow> mset xs = mset ys"
  by (metis mset_sort_strings sort_strings_perm)

lemma sort_strings_singleton: "sort_strings xs = [[]] \<longleftrightarrow> xs = [[]]"
proof
  assume "sort_strings xs = [[]]"
  then have "mset xs = {#[]#}" by (metis mset_sort_strings mset_single_iff_right mset.simps)
  then show "xs = [[]]" by simp
qed (simp add: sort_strings_def)

theorem stringSlicesEqual_bag:
  assumes "\<forall>x\<in>set xs \<union> set ys. CHR 0x00 \<notin> set x"
  shows "stringSlicesEqual xs ys \<longleftrightarrow> mset xs = mset ys \<or> {xs, ys} = {[], [[]]}"
proof -
  define a b where "a = sort_strings xs" and "b = sort_strings ys"
  have sets: "set a = set xs" "set b = set ys" by (simp_all add: a_def b_def)
  have nil: "a = [] \<longleftrightarrow> xs = []" "b = [] \<longleftrightarrow> ys = []" using sets by (metis set_empty)+
  have one: "a = [[]] \<longleftrightarrow> xs = [[]]" "b = [[]] \<longleftrightarrow> ys = [[]]" by (simp_all add: a_def b_def sort_strings_singleton)
  have "str_join [CHR 0x00] a = str_join [CHR 0x00] b \<longleftrightarrow> a = b \<or> {a, b} = {[], [[]]}"
  proof (cases "a = [] \<or> b = []")
    case True
    then show ?thesis using str_join_eq_Nil [of "CHR 0x00" a] str_join_eq_Nil [of "CHR 0x00" b]
      by (auto simp: doubleton_eq_iff)
  next
    case False
    then have "str_join [CHR 0x00] a = str_join [CHR 0x00] b \<longleftrightarrow> a = b"
      using str_join_inj [of a b "CHR 0x00"] assms sets by blast
    with False show ?thesis by (auto simp: doubleton_eq_iff)
  qed
  then show ?thesis
    using nil one by (auto simp: stringSlicesEqual_def a_def [symmetric] b_def [symmetric] doubleton_eq_iff)
      (auto simp: a_def b_def sort_strings_eq_iff)
qed

theorem stringSlicesEqual_bag_witness:
  "stringSlicesEqual [] [[]] = (mset [] = mset [[] :: string] \<or> {[], [[]]} = {[], [[] :: string]})"
  using stringSlicesEqual_bag [of "[]" "[[]]"] by simp

lemma stringSlicesEqual_refl [simp]: "stringSlicesEqual xs xs"
  by (simp add: stringSlicesEqual_def)

lemma loadBalancerSSLConfigurationsEqual_refl [simp]: "loadBalancerSSLConfigurationsEqual c c"
  by (cases c) (simp_all add: loadBalancerSSLConfigurationsEqual_def)

section \<open>Operations\<close>

definition loadBalancerBackendSetHealthChecker :: "int \<Rightarrow> health_checker_details" where
  "loadBalancerBackendSetHealthChecker port =
     \<lparr>hd_protocol = Some ''TCP'', hd_port = Some port, hd_return_code = None, hd_body_regex = None,
      hd_url_path = None, hd_retries = None, hd_timeout = None, hd_interval = None, hd_plain_text = None\<rparr>"

definition ociBackendToDetails :: "lb_backend \<Rightarrow> backend_details" where
  "ociBackendToDetails b =
     \<lparr>bd_ip = b_ip b, bd_port = b_port b, bd_weight = b_weight b, bd_max_connections = b_max_connections b,
      bd_backup = b_backup b, bd_drain = b_drain b, bd_offline = b_offline b\<rparr>"

definition healthCheckerFromDetails :: "health_checker_details \<Rightarrow> health_checker" where
  "healthCheckerFromDetails d =
     \<lparr>hc_protocol = hd_protocol d, hc_port = hd_port d, hc_return_code = hd_return_code d,
      hc_body_regex = hd_body_regex d, hc_url_path = hd_url_path d, hc_retries = hd_retries d,
      hc_timeout = hd_timeout d, hc_interval = hd_interval d, hc_plain_text = hd_plain_text d\<rparr>"

definition updateBackendSetConfig ::
    "lb_env \<Rightarrow> string \<Rightarrow> string \<Rightarrow> backend_set \<Rightarrow> string \<Rightarrow> health_checker_details \<Rightarrow> ssl_details option \<Rightarrow>
      unit lb_op" where
  "updateBackendSetConfig w loadBalancerID backendSetName backendSet policy healthChecker desiredSSLConfig =
     awaited_write w
       (UpdateBackendSet loadBalancerID backendSetName
         \<lparr>ub_backends = map ociBackendToDetails (bs_backends backendSet), ub_policy = Some policy,
          ub_health_checker = Some healthChecker,
          ub_session_persistence = bs_session_persistence backendSet,
          ub_lb_cookie_persistence = bs_lb_cookie_persistence backendSet, ub_ssl = desiredSSLConfig\<rparr>)
       (errtext ''failed to update backend set '' backendSetName [])
       (errtext ''failed to wait for backend set '' backendSetName '' update'')"

definition defaultBackendSetPort :: int where
  "defaultBackendSetPort = 80"

definition roundRobin :: string where
  "roundRobin = ''ROUND_ROBIN''"

definition gatewayDefaultBackendSetName :: "string \<Rightarrow> string" where
  "gatewayDefaultBackendSetName gatewayName = gatewayName @ ''-default''"

record reconcile_default_backend_params =
  rdb_loadBalancerID :: string
  rdb_knownBackendSets :: "backend_set go_map"
  rdb_gatewayName :: string

definition reconcileDefaultBackendSet :: "lb_env \<Rightarrow> reconcile_default_backend_params \<Rightarrow> backend_set lb_op" where
  "reconcileDefaultBackendSet w params =
     (let name = gatewayDefaultBackendSetName (rdb_gatewayName params);
          desiredHealthChecker = loadBalancerBackendSetHealthChecker defaultBackendSetPort
      in case map_of (rdb_knownBackendSets params) name of
        Some existing \<Rightarrow>
          (let existingSSL = sslConfigurationDetailsFromBackendSet (bs_ssl existing) in
           if \<not> loadBalancerBackendSetMatches existing roundRobin desiredHealthChecker existingSSL then
             eff_bind (updateBackendSetConfig w (rdb_loadBalancerID params) name existing roundRobin
                 desiredHealthChecker existingSSL)
               (\<lambda>_. eff_return (existing\<lparr>bs_policy := Some roundRobin,
                 bs_health_checker := Some (healthCheckerFromDetails desiredHealthChecker)\<rparr>))
           else eff_return existing)
      | None \<Rightarrow>
          eff_bind (awaited_write w
              (CreateBackendSet (rdb_loadBalancerID params)
                \<lparr>cb_name = name, cb_policy = roundRobin, cb_backends = [],
                 cb_health_checker = desiredHealthChecker, cb_ssl = None\<rparr>)
              (errtext ''failed to create default backend set '' name [])
              (errtext ''failed to wait for default backend set '' name []))
            (\<lambda>_. eff_bind (get_backend_set w (rdb_loadBalancerID params) name) (\<lambda>r. case r of
                Inl err \<Rightarrow> eff_fail (ErrWrap (errtext ''failed to get default backend set '' name '': '')
                  (ErrService err) [])
              | Inr bs \<Rightarrow> eff_return bs)))"

record reconcile_backend_set_params =
  rb_loadBalancerID :: string
  rb_service :: k8s_service
  rb_routeNS :: string
  rb_backendRef :: backend_ref
  rb_sslConfig :: "ssl_details option"
  rb_manageSSLConfig :: bool

definition reconcileExistingBackendSet ::
    "lb_env \<Rightarrow> reconcile_backend_set_params \<Rightarrow> string \<Rightarrow> backend_set \<Rightarrow> string \<Rightarrow> health_checker_details \<Rightarrow>
      unit lb_op" where
  "reconcileExistingBackendSet w params name existing desiredPolicy desiredHealthChecker =
     (let desiredSSL = (if rb_manageSSLConfig params then rb_sslConfig params
            else sslConfigurationDetailsFromBackendSet (bs_ssl existing))
      in if \<not> loadBalancerBackendSetMatches existing desiredPolicy desiredHealthChecker desiredSSL then
           updateBackendSetConfig w (rb_loadBalancerID params) name existing desiredPolicy
             desiredHealthChecker desiredSSL
         else eff_return ())"

text \<open>\<open>Some true\<close> is found, \<open>Some false\<close> not found, \<open>None\<close> an error to report.\<close>

definition backendSetLookupFound :: "svc_error option \<Rightarrow> svc_error + bool" where
  "backendSetLookupFound err =
     (case err of None \<Rightarrow> Inr True | Some e \<Rightarrow> if svc_has_status 404 e then Inr False else Inl e)"

definition reconcileBackendSet :: "lb_env \<Rightarrow> reconcile_backend_set_params \<Rightarrow> unit lb_op" where
  "reconcileBackendSet w params =
     (let name = ociBackendSetNameFromBackendObjectRef (rb_routeNS params) (rb_backendRef params);
          port = healthCheckerPortForBackendRef (rb_service params) (rb_backendRef params);
          desiredHealthChecker = loadBalancerBackendSetHealthChecker port
      in eff_bind (get_backend_set w (rb_loadBalancerID params) name) (\<lambda>r.
        case backendSetLookupFound (case r of Inl e \<Rightarrow> Some e | Inr _ \<Rightarrow> None) of
          Inl err \<Rightarrow> eff_fail (ErrWrap (errtext ''failed to get backend set '' name '': '') (ErrService err) [])
        | Inr found \<Rightarrow>
            (if found then
               reconcileExistingBackendSet w params name (projr r) roundRobin desiredHealthChecker
             else awaited_write w
               (CreateBackendSet (rb_loadBalancerID params)
                 \<lparr>cb_name = name, cb_policy = roundRobin, cb_backends = [],
                  cb_health_checker = desiredHealthChecker,
                  cb_ssl = (if rb_manageSSLConfig params then rb_sslConfig params else None)\<rparr>)
               (errtext ''failed to create backend set '' name [])
               (errtext ''failed to wait for backend set '' name []))))"

text \<open>The failures of a deletion that count as done.\<close>

definition deletionDone :: "svc_error \<Rightarrow> bool" where
  "deletionDone err =
     (case err of
        TransportError _ \<Rightarrow> False
      | ServiceError status code text \<Rightarrow>
          status = 404 \<or>
          status = 400 \<and> code = ''InvalidParameter'' \<and> str_contains text ''used in routing policy'')"

definition deprovisionBackendSetByName :: "lb_env \<Rightarrow> string \<Rightarrow> string \<Rightarrow> unit lb_op" where
  "deprovisionBackendSetByName w loadBalancerID backendSetName =
     eff_bind (write_call w (DeleteBackendSet loadBalancerID backendSetName)) (\<lambda>r. case r of
         Inl err \<Rightarrow>
           (if deletionDone err then eff_return ()
            else eff_fail (ErrWrap (errtext ''failed to delete backend set '' backendSetName '': '') (ErrService err) []))
       | Inr None \<Rightarrow> eff_fail (ErrText (errtext ''failed to delete backend set '' backendSetName '': missing work request id''))
       | Inr (Some i) \<Rightarrow> wait_for w (errtext ''failed to wait for backend set '' backendSetName '' deletion'') i)"

definition deprovisionBackendSet :: "lb_env \<Rightarrow> string \<Rightarrow> string \<Rightarrow> backend_ref \<Rightarrow> unit lb_op" where
  "deprovisionBackendSet w loadBalancerID routeNamespace backendRef =
     deprovisionBackendSetByName w loadBalancerID (ociBackendSetNameFromBackendObjectRef routeNamespace backendRef)"

section \<open>The backend sets stored by the service\<close>

text \<open>The service turns the details of a request into the objects it returns.\<close>

definition sslFromDetails :: "ssl_details option \<Rightarrow> ssl_configuration option" where
  "sslFromDetails d =
     (case d of None \<Rightarrow> None | Some c \<Rightarrow> Some
       \<lparr>sc_verify_depth = sd_verify_depth c, sc_verify_peer = sd_verify_peer c,
        sc_session_resumption = sd_session_resumption c, sc_trusted_ca_ids = sd_trusted_ca_ids c,
        sc_certificate_ids = sd_certificate_ids c, sc_certificate_name = sd_certificate_name c,
        sc_protocols = sd_protocols c, sc_cipher_suite = sd_cipher_suite c,
        sc_server_order = sd_server_order c\<rparr>)"

definition backendFromDetails :: "backend_details \<Rightarrow> lb_backend" where
  "backendFromDetails d =
     \<lparr>b_name = None, b_ip = bd_ip d, b_port = bd_port d, b_weight = bd_weight d,
      b_max_connections = bd_max_connections d, b_backup = bd_backup d, b_drain = bd_drain d,
      b_offline = bd_offline d\<rparr>"

type_synonym backend_set_store = "backend_set store"

fun applyBackendSetCall :: "lb_call \<Rightarrow> backend_set_store \<Rightarrow> backend_set_store" where
  "applyBackendSetCall (CreateBackendSet lb d) s =
     s((lb, cb_name d) \<mapsto> \<lparr>bs_name = Some (cb_name d), bs_policy = Some (cb_policy d),
       bs_backends = map backendFromDetails (cb_backends d),
       bs_health_checker = Some (healthCheckerFromDetails (cb_health_checker d)),
       bs_ssl = sslFromDetails (cb_ssl d), bs_session_persistence = None, bs_lb_cookie_persistence = None\<rparr>)"
| "applyBackendSetCall (UpdateBackendSet lb name d) s =
     s((lb, name) \<mapsto> \<lparr>bs_name = Some name, bs_policy = ub_policy d,
       bs_backends = map backendFromDetails (ub_backends d),
       bs_health_checker = map_option healthCheckerFromDetails (ub_health_checker d),
       bs_ssl = sslFromDetails (ub_ssl d), bs_session_persistence = ub_session_persistence d,
       bs_lb_cookie_persistence = ub_lb_cookie_persistence d\<rparr>)"
| "applyBackendSetCall (DeleteBackendSet lb name) s = s((lb, name) := None)"
| "applyBackendSetCall _ s = s"

interpretation backend_sets: object_service applyBackendSetCall env_backend_set
proof unfold_locales
  show "reading c \<Longrightarrow> applyBackendSetCall c s = s" for c s by (cases c) simp_all
qed

lemma sslFromDetails_inverse [simp]: "sslConfigurationDetailsFromBackendSet (sslFromDetails d) = d"
  by (cases d) (simp_all add: sslConfigurationDetailsFromBackendSet_def sslFromDetails_def)

lemma backendFromDetails_inverse [simp]: "ociBackendToDetails (backendFromDetails d) = d"
  by (simp add: ociBackendToDetails_def backendFromDetails_def)

lemma healthCheckerFromDetails_matches [simp]: "loadBalancerHealthCheckerMatches (Some (healthCheckerFromDetails d)) d"
  by (simp add: loadBalancerHealthCheckerMatches_def healthCheckerFromDetails_def)

text \<open>What reconciling a backend set asks for.\<close>

definition backendSetReconciled :: "reconcile_backend_set_params \<Rightarrow> backend_set \<Rightarrow> bool" where
  "backendSetReconciled params bs \<longleftrightarrow>
     loadBalancerBackendSetMatches bs roundRobin
       (loadBalancerBackendSetHealthChecker (healthCheckerPortForBackendRef (rb_service params) (rb_backendRef params)))
       (if rb_manageSSLConfig params then rb_sslConfig params else sslConfigurationDetailsFromBackendSet (bs_ssl bs))"

lemma reconcileBackendSet_run:
  assumes "reconcileBackendSet w params h = (Inr (), h')"
    and "serves env_backend_set applyBackendSetCall w s"
    and "name = ociBackendSetNameFromBackendObjectRef (rb_routeNS params) (rb_backendRef params)"
    and "key = (rb_loadBalancerID params, name)"
  obtains bs where "storedBy applyBackendSetCall w s h' key = Some bs" "backendSetReconciled params bs"
    and "map ociBackendToDetails (bs_backends bs) = (case storedBy applyBackendSetCall w s h key of
        None \<Rightarrow> [] | Some old \<Rightarrow> map ociBackendToDetails (bs_backends old))"
    and "case env_backend_set w h (rb_loadBalancerID params) name of
        Inr old \<Rightarrow> backendSetReconciled params old \<longrightarrow> writes_of h' = writes_of h | Inl _ \<Rightarrow> True"
proof -
  let ?lb = "rb_loadBalancerID params"
  define hc where "hc = loadBalancerBackendSetHealthChecker
    (healthCheckerPortForBackendRef (rb_service params) (rb_backendRef params))"
  define h1 where "h1 = h @ [GetBackendSet ?lb name]"
  have st: "storedBy applyBackendSetCall w s h1 = storedBy applyBackendSetCall w s h"
    by (simp add: h1_def backend_sets.stored_reading)
  note run = assms(1) [unfolded reconcileBackendSet_def Let_def assms(3) [symmetric] hc_def [symmetric]
      eff_bind_Inr [OF get_run(2)] h1_def [symmetric]]
  show thesis
  proof (cases "env_backend_set w h ?lb name")
    case (Inl err)
    then have nf: "svc_has_status 404 err"
      using run by (auto simp: backendSetLookupFound_def eff_simps split: if_splits)
    have none: "storedBy applyBackendSetCall w s h key = None"
      using backend_sets.missing [OF assms(2) Inl nf] assms(4) by simp
    have "awaited_write w (CreateBackendSet ?lb
        \<lparr>cb_name = name, cb_policy = roundRobin, cb_backends = [], cb_health_checker = hc,
         cb_ssl = (if rb_manageSSLConfig params then rb_sslConfig params else None)\<rparr>)
        (errtext ''failed to create backend set '' name []) (errtext ''failed to wait for backend set '' name []) h1 =
        (Inr (), h')"
      using run Inl nf by (simp add: backendSetLookupFound_def)
    note w = backend_sets.awaited_write_stored [OF this, of s]
    have "\<exists>bs. storedBy applyBackendSetCall w s h' key = Some bs \<and> backendSetReconciled params bs \<and> bs_backends bs = []"
      using w by (simp add: assms(4) backendSetReconciled_def hc_def loadBalancerBackendSetMatches_def)
    then show thesis using that none Inl by auto
  next
    case (Inr old)
    have now: "storedBy applyBackendSetCall w s h key = Some old"
      using backend_sets.found [OF assms(2) Inr] assms(4) by simp
    have ex: "reconcileExistingBackendSet w params name old roundRobin hc h1 = (Inr (), h')"
      using run Inr by (simp add: backendSetLookupFound_def)
    show thesis
    proof (cases "backendSetReconciled params old")
      case True
      then have "h' = h1"
        using ex by (simp add: reconcileExistingBackendSet_def backendSetReconciled_def hc_def eff_return_run Let_def)
      then show thesis
        by (intro that [of old]) (simp_all add: True st now h1_def [symmetric], simp_all add: h1_def Inr)
    next
      case False
      then have "updateBackendSetConfig w ?lb name old roundRobin hc
          (if rb_manageSSLConfig params then rb_sslConfig params else sslConfigurationDetailsFromBackendSet (bs_ssl old))
          h1 = (Inr (), h')"
        using ex by (simp add: reconcileExistingBackendSet_def backendSetReconciled_def hc_def Let_def)
      note w = backend_sets.awaited_write_stored [OF this [unfolded updateBackendSetConfig_def], of s]
      have "\<exists>bs. storedBy applyBackendSetCall w s h' key = Some bs \<and> backendSetReconciled params bs \<and>
          map ociBackendToDetails (bs_backends bs) = map ociBackendToDetails (bs_backends old)"
        using w by (simp add: assms(4) backendSetReconciled_def hc_def loadBalancerBackendSetMatches_def o_def)
      then show thesis using that now Inr False by auto
    qed
  qed
qed


definition backendSetEnv :: "backend_set_store \<Rightarrow> lb_env" where
  "backendSetEnv s = agreeable_env\<lparr>env_backend_set :=
     (\<lambda>h lb name. stored_answer (replay applyBackendSetCall s h (lb, name)))\<rparr>"

lemma backendSetEnv_simps [simp]:
  "env_write (backendSetEnv s) h c = Inr (Some ''wr'')" "env_wait (backendSetEnv s) h i = None"
  "env_backend_set (backendSetEnv s) h lb name = stored_answer (replay applyBackendSetCall s h (lb, name))"
  by (simp_all add: backendSetEnv_def)

lemma backendSetEnv_serves: "serves env_backend_set applyBackendSetCall (backendSetEnv s) s"
  by (rule backend_sets.replay_serves) (simp_all add: accepted_def)

definition exampleBackendParams :: reconcile_backend_set_params where
  "exampleBackendParams = \<lparr>rb_loadBalancerID = ''lb'', rb_service = exampleService (examplePort False 8080),
     rb_routeNS = ''ns'', rb_backendRef = exampleRef, rb_sslConfig = None, rb_manageSSLConfig = False\<rparr>"

lemma exampleBackend_runs:
  "\<exists>h'. reconcileBackendSet (backendSetEnv Map.empty) exampleBackendParams [] = (Inr (), h')"
  by (simp add: reconcileBackendSet_def Let_def eff_bind_Inr [OF get_run(2)] replay_def
      backendSetLookupFound_def awaited_write_run)

lemma exampleBackend_total:
  "\<exists>h''. reconcileBackendSet (backendSetEnv Map.empty) exampleBackendParams h' = (Inr (), h'')"
proof -
  let ?w = "backendSetEnv Map.empty" and ?p = exampleBackendParams
  let ?name = "ociBackendSetNameFromBackendObjectRef (rb_routeNS ?p) (rb_backendRef ?p)"
  have wr: "\<exists>h2. awaited_write ?w c d e h1 = (Inr (), h2)" for c d e h1
    by (simp add: awaited_write_run)
  show ?thesis
  proof (cases "replay applyBackendSetCall Map.empty h' (rb_loadBalancerID ?p, ?name)")
    case None
    then show ?thesis using wr
      by (simp add: reconcileBackendSet_def Let_def eff_bind_Inr [OF get_run(2)] backendSetLookupFound_def)
  next
    case (Some bs)
    then show ?thesis using wr
      by (simp add: reconcileBackendSet_def Let_def eff_bind_Inr [OF get_run(2)] backendSetLookupFound_def
          reconcileExistingBackendSet_def updateBackendSetConfig_def eff_if eff_return_run)
  qed
qed


text \<open>Reconciling a backend set that is as desired only reads it.\<close>

theorem reconcileBackendSet_idle:
  assumes "serves env_backend_set applyBackendSetCall w s"
    and "reconcileBackendSet w params h = (Inr (), h')" "reconcileBackendSet w params h' = (Inr (), h'')"
  shows "writes_of h'' = writes_of h'"
proof -
  let ?name = "ociBackendSetNameFromBackendObjectRef (rb_routeNS params) (rb_backendRef params)"
  obtain bs where bs: "storedBy applyBackendSetCall w s h' (rb_loadBalancerID params, ?name) = Some bs"
      "backendSetReconciled params bs"
    using reconcileBackendSet_run [OF assms(2,1) refl refl] by metis
  show ?thesis
  proof (cases "env_backend_set w h' (rb_loadBalancerID params) ?name")
    case (Inl err)
    then have "svc_has_status 404 err"
      using assms(3) by (auto simp: reconcileBackendSet_def Let_def eff_bind_Inr [OF get_run(2)]
          backendSetLookupFound_def eff_simps split: if_splits)
    with backend_sets.missing [OF assms(1) Inl] bs(1) show ?thesis by simp
  next
    case (Inr bs')
    have "bs' = bs" using backend_sets.found [OF assms(1) Inr] bs(1) by simp
    moreover have "case env_backend_set w h' (rb_loadBalancerID params) ?name of
        Inr old \<Rightarrow> backendSetReconciled params old \<longrightarrow> writes_of h'' = writes_of h' | Inl _ \<Rightarrow> True"
      by (rule reconcileBackendSet_run [OF assms(3,1) refl refl])
    ultimately show ?thesis using Inr bs(2) by simp
  qed
qed

theorem reconcileBackendSet_idle_witness:
  "\<exists>h' h''. reconcileBackendSet (backendSetEnv Map.empty) exampleBackendParams [] = (Inr (), h') \<and>
    reconcileBackendSet (backendSetEnv Map.empty) exampleBackendParams h' = (Inr (), h'') \<and>
    writes_of h'' = writes_of h'"
proof -
  obtain h' where run: "reconcileBackendSet (backendSetEnv Map.empty) exampleBackendParams [] = (Inr (), h')"
    using exampleBackend_runs by blast
  obtain h'' where "reconcileBackendSet (backendSetEnv Map.empty) exampleBackendParams h' = (Inr (), h'')"
    using exampleBackend_total by blast
  with reconcileBackendSet_idle [OF backendSetEnv_serves run this] run show ?thesis by blast
qed

text \<open>
  Removing a backend set succeeds exactly when the deletion is done, or the set is gone, or
  the service says that a routing policy still uses it.
\<close>

theorem deprovisionBackendSet_outcome:
  "fst (deprovisionBackendSetByName w lb name h) = Inr () \<longleftrightarrow>
    accepted w h (DeleteBackendSet lb name) \<or>
    (\<exists>text. env_write w h (DeleteBackendSet lb name) = Inl (ServiceError 400 ''InvalidParameter'' text) \<and>
      str_contains text ''used in routing policy'') \<or>
    (\<exists>code text. env_write w h (DeleteBackendSet lb name) = Inl (ServiceError 404 code text))"
proof -
  have ok: "deletionDone err \<longleftrightarrow> (\<exists>text. err = ServiceError 400 ''InvalidParameter'' text \<and>
      str_contains text ''used in routing policy'') \<or> (\<exists>code text. err = ServiceError 404 code text)" for err
    by (cases err) (auto simp: deletionDone_def)
  show ?thesis
    by (auto simp: deprovisionBackendSetByName_def eff_bind_Inr [OF get_run(4)] accepted_def ok eff_simps
        split: sum.split option.split)
qed

end
