(* ===== verification/HttpBackend.thy ===== *)
theory HttpBackend
  imports BackendSets
begin

text \<open>
  Endpoints of backend sets (\<open>src/internal/app/httpbackend_model.go\<close>): which addresses a
  backend set should have, whether it has them, and the update. Shown: an update is asked
  for exactly when the addresses or their draining state differ, whatever order Go visits
  the maps in; after a synchronisation the stored backends are the desired ones and the
  next one asks for no update.
\<close>

section \<open>Backends of endpoint slices\<close>

type_synonym backend_key = "string \<times> int"

fun l7BackendsForSlice :: "endpoint list \<Rightarrow> int \<Rightarrow> backend_details list \<times> int" where
  "l7BackendsForSlice [] endpointPort = ([], 0)"
| "l7BackendsForSlice (e # es) endpointPort =
     (if ep_ready e = Some False then l7BackendsForSlice es endpointPort
      else (case ep_addresses e of
        [] \<Rightarrow> l7BackendsForSlice es endpointPort
      | address # _ \<Rightarrow>
          (let isDraining = (ep_terminating e = Some True);
               (backends, drainingCount) = l7BackendsForSlice es endpointPort
           in (\<lparr>bd_ip = Some address, bd_port = Some endpointPort, bd_weight = None, bd_max_connections = None,
                bd_backup = None, bd_drain = Some isDraining, bd_offline = None\<rparr> # backends,
               (if isDraining then drainingCount + 1 else drainingCount)))))"

fun desiredBackendsMap ::
    "service_port \<Rightarrow> endpoint_slice list \<Rightarrow> (backend_key \<times> backend_details) list \<Rightarrow> int \<Rightarrow>
      (backend_key \<times> backend_details) list \<times> int" where
  "desiredBackendsMap servicePort [] m drainingCount = (m, drainingCount)"
| "desiredBackendsMap servicePort (s # slices) m drainingCount =
     (case endpointPortForServicePort servicePort s of
        None \<Rightarrow> desiredBackendsMap servicePort slices m drainingCount
      | Some endpointPort \<Rightarrow>
          (let (sliceBackends, sliceDrainingCount) = l7BackendsForSlice (es_endpoints s) endpointPort
           in desiredBackendsMap servicePort slices
                (slice_to_map (\<lambda>b. (the (bd_ip b), endpointPort)) id m sliceBackends)
                (drainingCount + sliceDrainingCount)))"

definition currentBackendsMap :: "lb_backend list \<Rightarrow> (backend_key \<times> lb_backend) list" where
  "currentBackendsMap currentBackends =
     slice_to_map (\<lambda>b. (the (b_ip b), int_ptr (b_port b))) id []
       (filter (\<lambda>b. b_ip b \<noteq> None) currentBackends)"

record identify_result =
  ir_updateRequired :: bool
  ir_updatedBackends :: "backend_details list"
  ir_drainingCount :: int

text \<open>\<open>order\<close> makes the choices of the iterations over the map of desired backends.\<close>

definition identifyBackendsToUpdate ::
    "nat list \<Rightarrow> service_port \<Rightarrow> lb_backend list \<Rightarrow> endpoint_slice list \<Rightarrow> identify_result" where
  "identifyBackendsToUpdate order servicePort currentBackends endpointSlices =
     (let (desired, drainingCount) = desiredBackendsMap servicePort endpointSlices [] 0;
          current = currentBackendsMap currentBackends;
          updateRequired = (if length desired \<noteq> length current then True
            else list_ex (\<lambda>(k, d). case map_of current k of
                None \<Rightarrow> True
              | Some c \<Rightarrow> bool_ptr (bd_drain d) \<noteq> bool_ptr (b_drain c)) (map_iter order desired))
      in \<lparr>ir_updateRequired = updateRequired,
          ir_updatedBackends = map snd (map_iter order desired),
          ir_drainingCount = drainingCount\<rparr>)"

section \<open>The decision\<close>

text \<open>The backends as a map from addresses to the draining flag.\<close>

definition desiredDrains :: "service_port \<Rightarrow> endpoint_slice list \<Rightarrow> backend_key \<rightharpoonup> bool" where
  "desiredDrains servicePort slices k =
     map_option (\<lambda>d. bool_ptr (bd_drain d)) (map_of (fst (desiredBackendsMap servicePort slices [] 0)) k)"

definition currentDrains :: "lb_backend list \<Rightarrow> backend_key \<rightharpoonup> bool" where
  "currentDrains backends k = map_option (\<lambda>b. bool_ptr (b_drain b)) (map_of (currentBackendsMap backends) k)"

lemma distinct_desired: "distinct (map fst m) \<Longrightarrow> distinct (map fst (fst (desiredBackendsMap p slices m n)))"
proof (induction slices arbitrary: m n)
  case (Cons s slices)
  then show ?case
    by (auto simp: distinct_slice_to_map split: option.split prod.split)
qed simp

lemma distinct_current: "distinct (map fst (currentBackendsMap bs))"
  by (simp add: currentBackendsMap_def distinct_slice_to_map)

lemma identify_required:
  "ir_updateRequired (identifyBackendsToUpdate order p bs slices) \<longleftrightarrow> desiredDrains p slices \<noteq> currentDrains bs"
proof -
  define d c where "d = fst (desiredBackendsMap p slices [] 0)" and "c = currentBackendsMap bs"
  have dist: "distinct (map fst d)" "distinct (map fst c)"
    using distinct_desired [of "[]"] distinct_current by (simp_all add: d_def c_def)
  have "desiredDrains p slices = currentDrains bs \<longleftrightarrow>
      length d = length c \<and> (\<forall>(k, x)\<in>set d. \<exists>y. map_of c k = Some y \<and> bool_ptr (bd_drain x) = bool_ptr (b_drain y))"
    (is "?eq \<longleftrightarrow> ?check")
  proof
    assume eq: ?eq
    have "map_of d k = None \<longleftrightarrow> map_of c k = None" for k
    proof -
      have "desiredDrains p slices k = currentDrains bs k" using eq by simp
      then show ?thesis by (cases "map_of d k"; cases "map_of c k")
        (simp_all add: desiredDrains_def currentDrains_def d_def [symmetric] c_def [symmetric])
    qed
    then have "k \<in> fst ` set d \<longleftrightarrow> k \<in> fst ` set c" for k by (metis map_of_eq_None_iff)
    then have "fst ` set d = fst ` set c" by blast
    then have "length d = length c"
      using dist by (metis distinct_card length_map list.set_map)
    moreover have "\<exists>y. map_of c k = Some y \<and> bool_ptr (bd_drain x) = bool_ptr (b_drain y)" if "(k, x) \<in> set d" for k x
    proof -
      have "map_of d k = Some x" using dist(1) that by simp
      moreover have "desiredDrains p slices k = currentDrains bs k" using eq by simp
      ultimately show ?thesis
        by (cases "map_of c k") (simp_all add: desiredDrains_def currentDrains_def d_def [symmetric] c_def [symmetric])
    qed
    ultimately show ?check by auto
  next
    assume check: ?check
    then have sub: "fst ` set d \<subseteq> fst ` set c" by (force dest: map_of_SomeD)
    have "card (fst ` set d) = card (fst ` set c)"
      using check dist by (metis distinct_card length_map list.set_map)
    then have same: "fst ` set d = fst ` set c" using sub by (intro card_subset_eq) auto
    show ?eq
    proof
      fix k
      show "desiredDrains p slices k = currentDrains bs k"
      proof (cases "map_of d k")
        case None
        then have "map_of c k = None" using same by (simp add: map_of_eq_None_iff)
        with None show ?thesis
          by (simp add: desiredDrains_def currentDrains_def d_def [symmetric] c_def [symmetric])
      next
        case (Some x)
        then obtain y where "map_of c k = Some y" "bool_ptr (bd_drain x) = bool_ptr (b_drain y)"
          using check by (fastforce dest: map_of_SomeD)
        with Some show ?thesis
          by (simp add: desiredDrains_def currentDrains_def d_def [symmetric] c_def [symmetric])
      qed
    qed
  qed
  moreover have "ir_updateRequired (identifyBackendsToUpdate order p bs slices) \<longleftrightarrow> \<not> ?check"
    by (cases "desiredBackendsMap p slices [] 0")
      (auto simp: identifyBackendsToUpdate_def Let_def d_def c_def list_ex_iff split: option.splits)
  ultimately show ?thesis by blast
qed

lemma identify_backends:
  "mset (ir_updatedBackends (identifyBackendsToUpdate order p bs slices)) =
    mset (map snd (fst (desiredBackendsMap p slices [] 0)))"
  by (cases "desiredBackendsMap p slices [] 0") (simp add: identifyBackendsToUpdate_def Let_def)


section \<open>Updating\<close>

definition makeUpdateOciBackendSetDetails :: "backend_set \<Rightarrow> backend_details list \<Rightarrow> update_backend_set" where
  "makeUpdateOciBackendSetDetails existing newBackends =
     \<lparr>ub_backends = newBackends, ub_policy = bs_policy existing,
      ub_health_checker = (case bs_health_checker existing of
          None \<Rightarrow> None
        | Some hc \<Rightarrow> Some
            \<lparr>hd_protocol = hc_protocol hc,
             hd_port = (case newBackends of [] \<Rightarrow> hc_port hc | b # _ \<Rightarrow> bd_port b),
             hd_return_code = hc_return_code hc, hd_body_regex = hc_body_regex hc, hd_url_path = hc_url_path hc,
             hd_retries = hc_retries hc, hd_timeout = hc_timeout hc, hd_interval = hc_interval hc,
             hd_plain_text = hc_plain_text hc\<rparr>),
      ub_session_persistence = bs_session_persistence existing,
      ub_lb_cookie_persistence = bs_lb_cookie_persistence existing,
      ub_ssl = sslConfigurationDetailsFromBackendSet (bs_ssl existing)\<rparr>"

definition resolveL7ServicePort :: "lb_env \<Rightarrow> string \<Rightarrow> backend_ref \<Rightarrow> service_port lb_op" where
  "resolveL7ServicePort w namespace backendRef =
     eff_bind (get_service w namespace (br_name backendRef)) (\<lambda>r. case r of
         Inl err \<Rightarrow> eff_fail (ErrWrap (errtext ''failed to get service for backend '' (br_name backendRef) '': '') err [])
       | Inr service \<Rightarrow>
           (case servicePortForBackendRef service backendRef of
              Inl err \<Rightarrow>
                eff_fail (ErrWrap (errtext ''failed to resolve service port for backend '' (br_name backendRef) '': '') err [])
            | Inr p \<Rightarrow> eff_return p))"

record sync_backend_ref_params =
  sy_loadBalancerID :: string
  sy_routeNS :: string
  sy_backendRef :: backend_ref

definition syncRouteBackendRefEndpoints :: "lb_env \<Rightarrow> sync_backend_ref_params \<Rightarrow> unit lb_op" where
  "syncRouteBackendRefEndpoints w params =
     (let ref = sy_backendRef params; lb = sy_loadBalancerID params;
          namespace = (case br_namespace ref of None \<Rightarrow> sy_routeNS params | Some ns \<Rightarrow> ns);
          name = ociBackendSetNameFromBackendObjectRef (sy_routeNS params) ref
      in eff_bind (get_backend_set w lb name) (\<lambda>r. case r of
         Inl err \<Rightarrow> eff_fail (ErrWrap (errtext ''failed to get backend set '' name '': '') (ErrService err) [])
       | Inr existing \<Rightarrow>
           eff_bind (list_endpoint_slices w namespace (br_name ref)) (\<lambda>r. case r of
             Inl err \<Rightarrow> eff_fail (ErrWrap (errtext ''failed to list endpoint slices for backend '' (br_name ref) '': '') err [])
           | Inr slices \<Rightarrow>
               eff_bind (resolveL7ServicePort w namespace ref) (\<lambda>servicePort.
               eff_bind (eff_ask (env_order w)) (\<lambda>order.
                 (let res = identifyBackendsToUpdate order servicePort (bs_backends existing) slices in
                  if \<not> ir_updateRequired res then eff_return ()
                  else awaited_write w
                    (UpdateBackendSet lb name (makeUpdateOciBackendSetDetails existing (ir_updatedBackends res)))
                    (errtext ''failed to update backend set '' name [])
                    (errtext ''failed to wait for backend set '' name '' to be updated'')))))))"

definition backendObjectRefName :: "backend_ref \<Rightarrow> string \<Rightarrow> string \<times> string" where
  "backendObjectRefName ref defaultNamespace =
     ((case br_namespace ref of None \<Rightarrow> defaultNamespace | Some ns \<Rightarrow> ns), br_name ref)"

definition l7BackendRefKey :: "backend_ref \<Rightarrow> string \<Rightarrow> string" where
  "l7BackendRefKey ref defaultNamespace =
     fst (backendObjectRefName ref defaultNamespace) @ ''/'' @ snd (backendObjectRefName ref defaultNamespace) @
     '':'' @ int_to_string (int_ptr (br_port ref))"

text \<open>The loop over the backend references, with its index and the references done.\<close>

fun syncL7RouteLoop :: "lb_env \<Rightarrow> string \<Rightarrow> string \<Rightarrow> nat \<Rightarrow> string list \<Rightarrow> backend_ref list \<Rightarrow> unit lb_op" where
  "syncL7RouteLoop w lb routeNS index processed [] = eff_return ()"
| "syncL7RouteLoop w lb routeNS index processed (ref # refs) =
     (let refKey = l7BackendRefKey ref routeNS in
      if refKey \<in> set processed then syncL7RouteLoop w lb routeNS (Suc index) processed refs
      else eff_bind (eff_attempt (syncRouteBackendRefEndpoints w
          \<lparr>sy_loadBalancerID = lb, sy_routeNS = routeNS, sy_backendRef = ref\<rparr>)) (\<lambda>r. case r of
            Inl err \<Rightarrow> eff_fail (ErrWrap (errtext ''failed to sync route backend endpoints for backend ref ''
              (nat_to_string index) '': '') err [])
          | Inr _ \<Rightarrow> syncL7RouteLoop w lb routeNS (Suc index) (refKey # processed) refs))"

definition syncL7RouteEndpoints :: "lb_env \<Rightarrow> string \<Rightarrow> string \<Rightarrow> backend_ref list \<Rightarrow> unit lb_op" where
  "syncL7RouteEndpoints w lb routeNS backendRefs = syncL7RouteLoop w lb routeNS 0 [] backendRefs"

definition syncRouteEndpoints :: "lb_env \<Rightarrow> string \<Rightarrow> http_route \<Rightarrow> unit lb_op" where
  "syncRouteEndpoints w lb route =
     syncL7RouteEndpoints w lb (rt_namespace route) (concat (map rr_backend_refs (rt_rules route)))"

definition syncGRPCRouteEndpoints :: "lb_env \<Rightarrow> string \<Rightarrow> grpc_route \<Rightarrow> unit lb_op" where
  "syncGRPCRouteEndpoints w lb route =
     syncL7RouteEndpoints w lb (rt_namespace route) (concat (map rr_backend_refs (rt_rules route)))"

section \<open>The state after a synchronisation\<close>

text \<open>Every desired backend is stored under its own address.\<close>

lemma l7BackendsForSlice_keys:
  "b \<in> set (fst (l7BackendsForSlice es port)) \<Longrightarrow> bd_ip b \<noteq> None \<and> bd_port b = Some port"
  by (induction es port rule: l7BackendsForSlice.induct)
    (auto simp: Let_def split: if_splits list.splits prod.splits)

definition keyedBackends :: "(backend_key \<times> backend_details) list \<Rightarrow> bool" where
  "keyedBackends m \<longleftrightarrow> distinct (map fst m) \<and>
     (\<forall>(k, d)\<in>set m. bd_ip d \<noteq> None \<and> k = (the (bd_ip d), int_ptr (bd_port d)))"

lemma set_update_cases: "x \<in> set (AList.update k v m) \<Longrightarrow> x = (k, v) \<or> x \<in> set m"
  by (induction m) (auto split: if_splits)

lemma keyedBackends_slice:
  assumes "keyedBackends m" "\<forall>b\<in>set bs. bd_ip b \<noteq> None \<and> bd_port b = Some port"
  shows "keyedBackends (slice_to_map (\<lambda>b. (the (bd_ip b), port)) id m bs)"
  using assms
proof (induction bs arbitrary: m)
  case (Cons b bs)
  have "keyedBackends (AList.update (the (bd_ip b), port) b m)"
    unfolding keyedBackends_def
  proof (intro conjI ballI)
    show "distinct (map fst (AList.update (the (bd_ip b), port) b m))"
      using Cons.prems(1) by (simp add: keyedBackends_def distinct_update)
    fix x assume "x \<in> set (AList.update (the (bd_ip b), port) b m)"
    then have "x = ((the (bd_ip b), port), b) \<or> x \<in> set m"
      by (rule set_update_cases)
    then show "case x of (k, d) \<Rightarrow> bd_ip d \<noteq> None \<and> k = (the (bd_ip d), int_ptr (bd_port d))"
      using Cons.prems by (auto simp: keyedBackends_def)
  qed
  with Cons show ?case by simp
qed simp

lemma keyedBackends_desired: "keyedBackends m \<Longrightarrow> keyedBackends (fst (desiredBackendsMap p slices m n))"
proof (induction slices arbitrary: m n)
  case (Cons s slices)
  then show ?case
    by (auto split: option.split prod.split intro!: Cons.IH keyedBackends_slice dest: l7BackendsForSlice_keys
        simp: prod_eq_iff)
qed simp

lemma find_rev_keyed:
  assumes "keyedBackends m"
  shows "map_of (currentBackendsMap (map backendFromDetails (map snd (map_iter order m)))) k =
    map_option backendFromDetails (map_of m k)"
proof -
  let ?key = "\<lambda>b. (the (b_ip b), int_ptr (b_port b))"
  let ?bs = "map backendFromDetails (map snd (map_iter order m))"
  have keys: "?key (backendFromDetails d) = k \<and> b_ip (backendFromDetails d) \<noteq> None" if "(k, d) \<in> set m" for k d
    using assms that by (auto simp: keyedBackends_def backendFromDetails_def)
  then have "filter (\<lambda>b. b_ip b \<noteq> None) ?bs = ?bs" by (intro filter_True) force
  then have cur: "currentBackendsMap ?bs = slice_to_map ?key id [] ?bs" by (simp add: currentBackendsMap_def)
  have fsts: "map ?key ?bs = map fst (map_iter order m)" using keys by force
  have dist: "distinct (map ?key ?bs)" unfolding fsts using assms by (simp add: keyedBackends_def)
  show ?thesis
  proof (cases "map_of m k")
    case None
    then have "k \<notin> ?key ` set ?bs" using keys by (force simp: map_of_eq_None_iff)
    then have "k \<notin> dom (map_of (currentBackendsMap ?bs))" unfolding cur by (simp add: dom_slice_to_map)
    with None show ?thesis by (simp add: domIff)
  next
    case (Some d)
    then have "(k, d) \<in> set m" by (rule map_of_SomeD)
    then have key: "?key (backendFromDetails d) = k" using keys by blast
    from \<open>(k, d) \<in> set m\<close> have "backendFromDetails d \<in> set ?bs" by force
    from map_of_slice_to_map_unique [OF dist this, of id "[]"] show ?thesis
      unfolding cur key Some by simp
  qed
qed

text \<open>Storing the backends of an update makes the current addresses the desired ones.\<close>

lemma updated_current:
  "currentDrains (map backendFromDetails (ir_updatedBackends (identifyBackendsToUpdate order p bs slices))) =
    desiredDrains p slices"
proof
  fix k
  obtain m n where m: "desiredBackendsMap p slices [] 0 = (m, n)" by fastforce
  have "keyedBackends m" using keyedBackends_desired [of "[]" p slices 0] by (simp add: m keyedBackends_def)
  from find_rev_keyed [OF this, of order k] show
    "currentDrains (map backendFromDetails (ir_updatedBackends (identifyBackendsToUpdate order p bs slices))) k =
      desiredDrains p slices k"
    by (simp add: currentDrains_def desiredDrains_def identifyBackendsToUpdate_def m Let_def
        option.map_comp o_def backendFromDetails_def)
qed

text \<open>Once the identified backends are stored, the same endpoints require no update.\<close>

theorem identifyBackendsToUpdate_converges:
  "\<not> ir_updateRequired (identifyBackendsToUpdate order2 p
      (map backendFromDetails (ir_updatedBackends (identifyBackendsToUpdate order1 p bs slices))) slices)"
  by (simp add: identify_required updated_current)

text \<open>
  C16: After a successful synchronisation of a backend reference the stored backend set has the
  addresses of the endpoints, and the policy and TLS configuration it had.
\<close>

theorem syncRouteBackendRef_stores:
  assumes "serves env_backend_set applyBackendSetCall w s"
    and "name = ociBackendSetNameFromBackendObjectRef (sy_routeNS params) (sy_backendRef params)"
    and "namespace = (case br_namespace (sy_backendRef params) of None \<Rightarrow> sy_routeNS params | Some ns \<Rightarrow> ns)"
    and "h1 = h @ [GetBackendSet (sy_loadBalancerID params) name]"
    and "env_endpoint_slices w h1 namespace (br_name (sy_backendRef params)) = Inr slices"
    and "env_service w (h1 @ [ListEndpointSlices namespace (br_name (sy_backendRef params))]) namespace
      (br_name (sy_backendRef params)) = Inr service"
    and "servicePortForBackendRef service (sy_backendRef params) = Inr p"
    and "syncRouteBackendRefEndpoints w params h = (Inr (), h')"
  shows "\<exists>old new. storedBy applyBackendSetCall w s h (sy_loadBalancerID params, name) = Some old \<and>
    storedBy applyBackendSetCall w s h' (sy_loadBalancerID params, name) = Some new \<and>
    currentDrains (bs_backends new) = desiredDrains p slices \<and>
    bs_policy new = bs_policy old \<and>
    sslConfigurationDetailsFromBackendSet (bs_ssl new) = sslConfigurationDetailsFromBackendSet (bs_ssl old)"
proof -
  let ?lb = "sy_loadBalancerID params" and ?ref = "sy_backendRef params"
  define h3 where "h3 = (h1 @ [ListEndpointSlices namespace (br_name ?ref)]) @ [GetService namespace (br_name ?ref)]"
  obtain old where get: "env_backend_set w h ?lb name = Inr old"
    using assms(8) by (cases "env_backend_set w h ?lb name")
      (auto simp: syncRouteBackendRefEndpoints_def Let_def assms(2) eff_bind_Inr [OF get_run(2)] eff_fail_run)
  have "resolveL7ServicePort w namespace ?ref (h1 @ [ListEndpointSlices namespace (br_name ?ref)]) = (Inr p, h3)"
    unfolding resolveL7ServicePort_def eff_bind_Inr [OF k8s_run(2)]
    by (simp add: assms(6,7) eff_return_run h3_def)
  then have svc: "eff_bind (resolveL7ServicePort w namespace ?ref) f
      (h1 @ [ListEndpointSlices namespace (br_name ?ref)]) = f p h3" for f :: "service_port \<Rightarrow> unit lb_op"
    by (rule eff_bind_Inr)
  define res where "res = identifyBackendsToUpdate (env_order w h3) p (bs_backends old) slices"
  have run: "(if \<not> ir_updateRequired res then eff_return ()
      else awaited_write w (UpdateBackendSet ?lb name (makeUpdateOciBackendSetDetails old (ir_updatedBackends res)))
        (errtext ''failed to update backend set '' name [])
        (errtext ''failed to wait for backend set '' name '' to be updated'')) h3 = (Inr (), h')"
    using assms(8)
    unfolding syncRouteBackendRefEndpoints_def Let_def assms(2,3) [symmetric] eff_bind_Inr [OF get_run(2)]
      get sum.case assms(4) [symmetric] eff_bind_Inr [OF k8s_run(3)] assms(5) svc
      eff_bind_ask res_def [symmetric] .
  have st3: "storedBy applyBackendSetCall w s h3 = storedBy applyBackendSetCall w s h"
    by (simp add: h3_def assms(4) backend_sets.stored_reading del: append_assoc)
  have now: "storedBy applyBackendSetCall w s h (?lb, name) = Some old"
    by (rule backend_sets.found [OF assms(1) get])
  show ?thesis
  proof (cases "ir_updateRequired res")
    case False
    with run have "h' = h3" by (simp add: eff_return_run)
    moreover from False have "currentDrains (bs_backends old) = desiredDrains p slices"
      by (simp add: res_def identify_required)
    ultimately show ?thesis using now st3 by simp
  next
    case True
    with run have "awaited_write w (UpdateBackendSet ?lb name
        (makeUpdateOciBackendSetDetails old (ir_updatedBackends res)))
        (errtext ''failed to update backend set '' name [])
        (errtext ''failed to wait for backend set '' name '' to be updated'') h3 = (Inr (), h')" by simp
    from backend_sets.awaited_write_stored [OF this, of s] now show ?thesis
      by (simp add: makeUpdateOciBackendSetDetails_def updated_current res_def)
  qed
qed

definition exampleEndpoint :: "string \<Rightarrow> endpoint" where
  "exampleEndpoint ip = \<lparr>ep_addresses = [ip], ep_ready = Some True, ep_terminating = None\<rparr>"

definition exampleSlice :: "string \<Rightarrow> int \<Rightarrow> endpoint_slice" where
  "exampleSlice ip port = \<lparr>es_endpoints = [exampleEndpoint ip],
     es_ports = [\<lparr>epp_name = Some ''web'', epp_port = Some port\<rparr>]\<rparr>"

definition exampleBackendSet :: backend_set where
  "exampleBackendSet = \<lparr>bs_name = None, bs_policy = Some roundRobin, bs_backends = [],
     bs_health_checker = Some (healthCheckerFromDetails (loadBalancerBackendSetHealthChecker 80)),
     bs_ssl = None, bs_session_persistence = None, bs_lb_cookie_persistence = None\<rparr>"

definition exampleSync :: sync_backend_ref_params where
  "exampleSync = \<lparr>sy_loadBalancerID = ''lb'', sy_routeNS = ''ns'', sy_backendRef = exampleRef\<rparr>"

definition exampleStore :: backend_set_store where
  "exampleStore = [(''lb'', ociBackendSetNameFromBackendObjectRef ''ns'' exampleRef) \<mapsto> exampleBackendSet]"

definition exampleSyncEnv :: lb_env where
  "exampleSyncEnv = (backendSetEnv exampleStore)\<lparr>
     env_endpoint_slices := (\<lambda>_ _ _. Inr [exampleSlice ''10.0.0.1'' 8080]),
     env_service := (\<lambda>_ _ _. Inr (exampleService (examplePort True 0)))\<rparr>"

lemma exampleSyncEnv_simps [simp]:
  "env_write exampleSyncEnv h c = Inr (Some ''wr'')" "env_wait exampleSyncEnv h i = None"
  "env_backend_set exampleSyncEnv h lb name = stored_answer (replay applyBackendSetCall exampleStore h (lb, name))"
  "env_endpoint_slices exampleSyncEnv h ns n = Inr [exampleSlice ''10.0.0.1'' 8080]"
  "env_service exampleSyncEnv h ns n = Inr (exampleService (examplePort True 0))"
  by (simp_all add: exampleSyncEnv_def)

lemma exampleSyncEnv_serves: "serves env_backend_set applyBackendSetCall exampleSyncEnv exampleStore"
  by (rule backend_sets.replay_serves) (simp_all add: accepted_def)

lemma examplePort_found: "servicePortForBackendRef (exampleService (examplePort True 0)) exampleRef = Inr (examplePort True 0)"
  by (simp add: servicePortForBackendRef_def exampleService_def exampleRef_def examplePort_def)

lemma exampleSync_runs: "\<exists>h'. syncRouteBackendRefEndpoints exampleSyncEnv exampleSync [] = (Inr (), h')"
proof -
  have "eff_bind (resolveL7ServicePort exampleSyncEnv ns exampleRef) f h =
      f (examplePort True 0) (h @ [GetService ns (br_name exampleRef)])"
    for ns h and f :: "service_port \<Rightarrow> unit lb_op"
    by (rule eff_bind_Inr) (simp add: resolveL7ServicePort_def eff_bind_Inr [OF k8s_run(2)] examplePort_found eff_return_run)
  then show ?thesis
    by (simp add: syncRouteBackendRefEndpoints_def Let_def eff_bind_Inr [OF get_run(2)]
        eff_bind_Inr [OF k8s_run(3)] exampleSync_def replay_def exampleStore_def
        eff_bind_ask eff_if eff_return_run awaited_write_run)
qed

theorem syncRouteBackendRef_stores_witness:
  "\<exists>h' new. syncRouteBackendRefEndpoints exampleSyncEnv exampleSync [] = (Inr (), h') \<and>
    storedBy applyBackendSetCall exampleSyncEnv exampleStore h'
      (''lb'', ociBackendSetNameFromBackendObjectRef ''ns'' exampleRef) = Some new \<and>
    currentDrains (bs_backends new) = desiredDrains (examplePort True 0) [exampleSlice ''10.0.0.1'' 8080]"
proof -
  obtain h' where run: "syncRouteBackendRefEndpoints exampleSyncEnv exampleSync [] = (Inr (), h')"
    using exampleSync_runs by blast
  have "servicePortForBackendRef (exampleService (examplePort True 0)) (sy_backendRef exampleSync) = Inr (examplePort True 0)"
    by (simp add: exampleSync_def examplePort_found)
  from syncRouteBackendRef_stores [OF exampleSyncEnv_serves refl refl refl exampleSyncEnv_simps(4)
      exampleSyncEnv_simps(5) this run] run
  show ?thesis by (auto simp: exampleSync_def)
qed

text \<open>
  The health check port of an update is the port of the first backend, in the order of a
  map iteration: with endpoint slices that map a named port to different numbers, two runs
  over the same cluster state set different health check ports.
\<close>

theorem healthCheckPort_depends_on_order:
  "\<exists>order1 order2 p bs slices.
    map_option hd_port (ub_health_checker (makeUpdateOciBackendSetDetails bs
      (ir_updatedBackends (identifyBackendsToUpdate order1 p [] slices)))) \<noteq>
    map_option hd_port (ub_health_checker (makeUpdateOciBackendSetDetails bs
      (ir_updatedBackends (identifyBackendsToUpdate order2 p [] slices))))"
proof -
  let ?slices = "[exampleSlice ''10.0.0.1'' 8080, exampleSlice ''10.0.0.2'' 9090]"
  have "map_option hd_port (ub_health_checker (makeUpdateOciBackendSetDetails exampleBackendSet
      (ir_updatedBackends (identifyBackendsToUpdate [0] (examplePort True 0) [] ?slices)))) \<noteq>
    map_option hd_port (ub_health_checker (makeUpdateOciBackendSetDetails exampleBackendSet
      (ir_updatedBackends (identifyBackendsToUpdate [1] (examplePort True 0) [] ?slices))))"
    by (simp add: identifyBackendsToUpdate_def makeUpdateOciBackendSetDetails_def exampleSlice_def
        exampleEndpoint_def examplePort_def endpointPortForServicePort_def exampleBackendSet_def Let_def)
  then show ?thesis by blast
qed

lemma l7BackendsForSlice_drops:
  "l7BackendsForSlice (filter (\<lambda>e. ep_ready e \<noteq> Some False) es) port = l7BackendsForSlice es port"
  by (induction es port rule: l7BackendsForSlice.induct) (auto split: list.split)

text \<open>
  An endpoint that is not ready gets no backend, terminating or not; a terminating endpoint
  is drained only while its slice does not report it as not ready.
\<close>

theorem terminating_not_ready_dropped:
  "l7BackendsForSlice (map (\<lambda>e. e\<lparr>ep_ready := Some False, ep_terminating := Some True\<rparr>) es) port = ([], 0)"
  by (induction es) simp_all

end
