(* ===== verification/ReferenceGrants.thy ===== *)
theory ReferenceGrants
  imports Ports
begin

text \<open>
  References across namespaces (\<open>referencegrant_policy.go\<close>): a reference to an object of
  another namespace needs a ReferenceGrant there. Shown: a reference is allowed exactly
  within one namespace or when some listed grant has a matching source and target, and
  grants only ever widen what is allowed.
\<close>

definition gatewayAPIGroup :: string where
  "gatewayAPIGroup = ''gateway.networking.k8s.io''"

definition serviceKind :: string where
  "serviceKind = ''Service''"

fun fromMatches :: "grant_from list \<Rightarrow> string \<Rightarrow> string \<Rightarrow> bool" where
  "fromMatches [] routeKind routeNamespace = False"
| "fromMatches (f # fs) routeKind routeNamespace =
     (if gf_group f = gatewayAPIGroup \<and> gf_kind f = routeKind \<and> gf_namespace f = routeNamespace then True
      else fromMatches fs routeKind routeNamespace)"

definition referenceGrantHasMatchingFrom :: "reference_grant \<Rightarrow> string \<Rightarrow> string \<Rightarrow> bool" where
  "referenceGrantHasMatchingFrom grant routeKind routeNamespace = fromMatches (rg_from grant) routeKind routeNamespace"

fun toMatches :: "grant_to list \<Rightarrow> string \<Rightarrow> string \<Rightarrow> bool" where
  "toMatches [] kind name = False"
| "toMatches (t # ts) kind name =
     (if gt_group t \<noteq> [] \<or> gt_kind t \<noteq> kind then toMatches ts kind name
      else if gt_name t = None \<or> gt_name t = Some name then True
      else toMatches ts kind name)"

definition referenceGrantHasMatchingCoreTo :: "reference_grant \<Rightarrow> string \<Rightarrow> string \<Rightarrow> bool" where
  "referenceGrantHasMatchingCoreTo grant kind name = toMatches (rg_to grant) kind name"

definition referenceGrantHasMatchingSecretTo :: "reference_grant \<Rightarrow> string \<Rightarrow> bool" where
  "referenceGrantHasMatchingSecretTo grant secretName = referenceGrantHasMatchingCoreTo grant ''Secret'' secretName"

definition referenceGrantHasMatchingServiceTo :: "reference_grant \<Rightarrow> string \<Rightarrow> bool" where
  "referenceGrantHasMatchingServiceTo grant serviceName = referenceGrantHasMatchingCoreTo grant serviceKind serviceName"

fun grantLoop :: "(reference_grant \<Rightarrow> bool) \<Rightarrow> (reference_grant \<Rightarrow> bool) \<Rightarrow> reference_grant list \<Rightarrow> bool" where
  "grantLoop from_ok to_ok [] = False"
| "grantLoop from_ok to_ok (g # gs) =
     (if \<not> from_ok g then grantLoop from_ok to_ok gs
      else if to_ok g then True
      else grantLoop from_ok to_ok gs)"

definition referenceGrantAllowsServiceBackend ::
    "lb_env \<Rightarrow> string \<Rightarrow> string \<Rightarrow> string \<Rightarrow> string \<Rightarrow> bool lb_op" where
  "referenceGrantAllowsServiceBackend w routeKind routeNamespace backendNamespace backendName =
     (if backendNamespace = routeNamespace then eff_return True
      else eff_bind (list_grants w backendNamespace) (\<lambda>r. case r of
          Inl err \<Rightarrow> eff_fail (ErrWrap (errtext ''failed to list ReferenceGrants in namespace '' backendNamespace '': '') err [])
        | Inr grants \<Rightarrow> eff_return (grantLoop (\<lambda>g. referenceGrantHasMatchingFrom g routeKind routeNamespace)
            (\<lambda>g. referenceGrantHasMatchingServiceTo g backendName) grants)))"

definition referenceGrantAllowsCoreRef ::
    "lb_env \<Rightarrow> string \<Rightarrow> string \<Rightarrow> string \<Rightarrow> string \<Rightarrow> string \<Rightarrow> bool lb_op" where
  "referenceGrantAllowsCoreRef w fromKind fromNamespace toKind refNamespace refName =
     (if refNamespace = fromNamespace then eff_return True
      else eff_bind (list_grants w refNamespace) (\<lambda>r. case r of
          Inl err \<Rightarrow> eff_fail (ErrWrap (errtext ''failed to list ReferenceGrants in namespace '' refNamespace '': '') err [])
        | Inr grants \<Rightarrow> eff_return (grantLoop (\<lambda>g. referenceGrantHasMatchingFrom g fromKind fromNamespace)
            (\<lambda>g. referenceGrantHasMatchingCoreTo g toKind refName) grants)))"

definition referenceGrantAllowsSecretRef ::
    "lb_env \<Rightarrow> string \<Rightarrow> string \<Rightarrow> string \<Rightarrow> string \<Rightarrow> bool lb_op" where
  "referenceGrantAllowsSecretRef w fromKind fromNamespace secretNamespace secretName =
     referenceGrantAllowsCoreRef w fromKind fromNamespace ''Secret'' secretNamespace secretName"

section \<open>What a grant permits\<close>

text \<open>The rule of the Gateway API, as sets: some \<open>from\<close> names the source and some \<open>to\<close> the target.\<close>

definition grantPermits :: "reference_grant \<Rightarrow> string \<Rightarrow> string \<Rightarrow> string \<Rightarrow> string \<Rightarrow> bool" where
  "grantPermits g fromKind fromNamespace kind name \<longleftrightarrow>
     \<lparr>gf_group = gatewayAPIGroup, gf_kind = fromKind, gf_namespace = fromNamespace\<rparr> \<in> set (rg_from g) \<and>
     (\<lparr>gt_group = [], gt_kind = kind, gt_name = None\<rparr> \<in> set (rg_to g) \<or>
      \<lparr>gt_group = [], gt_kind = kind, gt_name = Some name\<rparr> \<in> set (rg_to g))"

lemma fromMatches_iff:
  "fromMatches fs k ns \<longleftrightarrow> \<lparr>gf_group = gatewayAPIGroup, gf_kind = k, gf_namespace = ns\<rparr> \<in> set fs"
proof (induction fs)
  case (Cons f fs)
  then show ?case by (cases f) auto
qed simp

lemma toMatches_iff:
  "toMatches ts k n \<longleftrightarrow> \<lparr>gt_group = [], gt_kind = k, gt_name = None\<rparr> \<in> set ts \<or>
    \<lparr>gt_group = [], gt_kind = k, gt_name = Some n\<rparr> \<in> set ts"
proof (induction ts)
  case (Cons t ts)
  then show ?case by (cases t) auto
qed simp

lemma grantLoop_iff: "grantLoop p q gs \<longleftrightarrow> (\<exists>g\<in>set gs. p g \<and> q g)"
  by (induction gs) auto

lemma grant_matches_iff:
  "referenceGrantHasMatchingFrom g fk fns \<and> referenceGrantHasMatchingCoreTo g k n \<longleftrightarrow> grantPermits g fk fns k n"
  by (simp add: referenceGrantHasMatchingFrom_def referenceGrantHasMatchingCoreTo_def grantPermits_def
      fromMatches_iff toMatches_iff)

lemma coreRef_run:
  "referenceGrantAllowsCoreRef w fk fns k ns n h =
    (if ns = fns then (Inr True, h)
     else ((case env_grants w h ns of
         Inl err \<Rightarrow> Inl (ErrWrap (errtext ''failed to list ReferenceGrants in namespace '' ns '': '') err [])
       | Inr grants \<Rightarrow> Inr (\<exists>g\<in>set grants. grantPermits g fk fns k n)), h @ [ListReferenceGrants ns]))"
  by (simp add: referenceGrantAllowsCoreRef_def eff_bind_Inr [OF k8s_run(4)] eff_simps grantLoop_iff
      grant_matches_iff split: sum.split)

lemma serviceBackend_core:
  "referenceGrantAllowsServiceBackend w fk fns ns n = referenceGrantAllowsCoreRef w fk fns serviceKind ns n"
  by (simp add: referenceGrantAllowsServiceBackend_def referenceGrantAllowsCoreRef_def
      referenceGrantHasMatchingServiceTo_def)

text \<open>
  A reference to a Service is allowed exactly within the route's namespace, or when a grant of
  the Service's namespace names the route's kind and namespace and the Service (or all
  Services); a failure to list the grants is an error, never a permission.
\<close>

theorem referenceGrantAllowsServiceBackend_iff:
  "fst (referenceGrantAllowsServiceBackend w routeKind routeNamespace ns name h) = Inr True \<longleftrightarrow>
    ns = routeNamespace \<or>
    (\<exists>grants. env_grants w h ns = Inr grants \<and> (\<exists>g\<in>set grants. grantPermits g routeKind routeNamespace serviceKind name))"
  by (auto simp: serviceBackend_core coreRef_run split: sum.splits)

lemma allowsSecretRef_iff:
  "fst (referenceGrantAllowsSecretRef w fk fns ns name h) = Inr True \<longleftrightarrow>
    ns = fns \<or> (\<exists>grants. env_grants w h ns = Inr grants \<and> (\<exists>g\<in>set grants. grantPermits g fk fns ''Secret'' name))"
  by (auto simp: referenceGrantAllowsSecretRef_def coreRef_run split: sum.splits)

lemma emits_coreRef [emits_intros]:
  "P (ListReferenceGrants ns) \<Longrightarrow> emits P (referenceGrantAllowsCoreRef w fk fns k ns n)"
  by (auto simp: referenceGrantAllowsCoreRef_def split: sum.split intro!: emits_intros)

end
