(* ===== verification/FrontendMTLS.thy ===== *)
theory FrontendMTLS
  imports ReferenceGrants RoutingPolicy
begin

text \<open>
  Client certificates at the listeners of the load balancer (\<open>frontend_mtls_model.go\<close>): the
  settings of a port, the CA bundles in the OCI certificates service and their clean-up.
  Shown: a listener whose port asks for client certificates is never given a configuration
  that does not verify the peer; only bundles with the Gateway's tags are updated or
  deleted; bundle names differ for different ports and references up to the hash.
\<close>

section \<open>Options\<close>

definition splitCSVOption :: "string \<Rightarrow> string list" where
  "splitCSVOption value = filter (\<lambda>p. p \<noteq> []) (map trim_space (str_split (CHR '','') value))"

definition frontendMTLSStatusError :: "string \<Rightarrow> string \<Rightarrow> error" where
  "frontendMTLSStatusError reason message = ErrResourceStatus ''Accepted'' reason message None"

definition isFrontendMTLSStatusError :: "error \<Rightarrow> bool" where
  "isFrontendMTLSStatusError err =
     (case errors_as status_of err of
        None \<Rightarrow> False
      | Some (ty, _, message) \<Rightarrow> ty = ''Accepted'' \<and> has_prefix message ''frontend mTLS '')"

definition frontendMTLSPortTrustedCABundleOCIDsAnnotation :: "int \<Rightarrow> string" where
  "frontendMTLSPortTrustedCABundleOCIDsAnnotation port =
     ''oci.oraclecloud.com/frontend-mtls-'' @ int_to_string port @ ''-trusted-ca-bundle-ocids''"

definition frontendMTLSPortVerifyDepthAnnotation :: "int \<Rightarrow> string" where
  "frontendMTLSPortVerifyDepthAnnotation port =
     ''oci.oraclecloud.com/frontend-mtls-'' @ int_to_string port @ ''-verify-depth''"

definition frontendMTLSTrustedCABundleOCIDsAnnotation :: string where
  "frontendMTLSTrustedCABundleOCIDsAnnotation = ''oci.oraclecloud.com/frontend-mtls-trusted-ca-bundle-ocids''"

definition frontendMTLSVerifyDepthAnnotation :: string where
  "frontendMTLSVerifyDepthAnnotation = ''oci.oraclecloud.com/frontend-mtls-verify-depth''"

definition gatewayFrontendMTLSCABundleCompartmentsAnnotation :: string where
  "gatewayFrontendMTLSCABundleCompartmentsAnnotation =
     ''oke-gateway-api.gemyago.github.io/frontend-mtls-compartments''"

definition defaultFrontendMTLSVerifyDepth :: int where
  "defaultFrontendMTLSVerifyDepth = 3"

definition frontendMTLSOCICABundleIDs :: "gateway \<Rightarrow> int \<Rightarrow> string list" where
  "frontendMTLSOCICABundleIDs gateway port =
     (let value = map_get (gw_annotations gateway) (frontendMTLSPortTrustedCABundleOCIDsAnnotation port) in
      if trim_space value \<noteq> [] then splitCSVOption value
      else splitCSVOption (map_get (gw_annotations gateway) frontendMTLSTrustedCABundleOCIDsAnnotation))"

definition frontendMTLSVerifyDepth :: "gateway \<Rightarrow> int \<Rightarrow> error + int" where
  "frontendMTLSVerifyDepth gateway port =
     (let portKey = frontendMTLSPortVerifyDepthAnnotation port;
          portValue = trim_space (map_get (gw_annotations gateway) portKey);
          (key, value) = (if portValue = [] then (frontendMTLSVerifyDepthAnnotation,
              trim_space (map_get (gw_annotations gateway) frontendMTLSVerifyDepthAnnotation))
            else (portKey, portValue))
      in if value = [] then Inr defaultFrontendMTLSVerifyDepth
         else (case go_atoi value of
             Some parsed \<Rightarrow> if parsed < 1 then Inl (frontendMTLSStatusError ''InvalidParameters''
                 (errtext ''annotation '' key '' must be a positive integer'')) else Inr parsed
           | None \<Rightarrow> Inl (frontendMTLSStatusError ''InvalidParameters''
               (errtext ''annotation '' key '' must be a positive integer''))))"

fun perPortValidation :: "(int \<times> frontend_validation option) list \<Rightarrow> int \<Rightarrow> frontend_validation option option" where
  "perPortValidation [] port = None"
| "perPortValidation ((p, v) # rest) port = (if p = port then Some v else perPortValidation rest port)"

definition effectiveFrontendTLSValidation :: "gateway \<Rightarrow> int \<Rightarrow> frontend_validation option" where
  "effectiveFrontendTLSValidation gateway port =
     (case gw_frontend gateway of
        None \<Rightarrow> None
      | Some frontend \<Rightarrow>
          (case perPortValidation (ft_per_port frontend) port of
             Some v \<Rightarrow> v
           | None \<Rightarrow> ft_default frontend))"

record frontend_mtls_settings =
  fs_caRefs :: "object_ref list"
  fs_ociCAIDs :: "string list"
  fs_verifyDepth :: int

definition resolveFrontendMTLSSettings ::
    "gateway \<Rightarrow> int \<Rightarrow> frontend_validation option \<Rightarrow> string list \<Rightarrow> error + frontend_mtls_settings" where
  "resolveFrontendMTLSSettings gateway port validation optionCAIDs =
     (let mode = (case validation of Some v \<Rightarrow> if fv_mode v \<noteq> [] then fv_mode v else ''AllowValidOnly''
            | None \<Rightarrow> ''AllowValidOnly'');
          caRefs = (case validation of Some v \<Rightarrow> fv_ca_refs v | None \<Rightarrow> [])
      in if mode = ''AllowInsecureFallback'' then Inl (frontendMTLSStatusError ''InvalidParameters''
             ''frontend mTLS mode AllowInsecureFallback is not supported by OCI Load Balancer'')
         else if mode \<noteq> ''AllowValidOnly'' then Inl (frontendMTLSStatusError ''InvalidParameters''
             (errtext ''frontend mTLS mode \"'' mode ''\" is not supported''))
         else if caRefs \<noteq> [] \<and> optionCAIDs \<noteq> [] then Inl (frontendMTLSStatusError ''InvalidParameters''
             ''frontend mTLS cannot mix caCertificateRefs with OCI CA bundle OCID annotations'')
         else if caRefs = [] \<and> optionCAIDs = [] then Inl (frontendMTLSStatusError ''NoValidCACertificate''
             ''frontend mTLS requires at least one caCertificateRef or OCI CA bundle OCID annotation'')
         else (case frontendMTLSVerifyDepth gateway port of
             Inl err \<Rightarrow> Inl err
           | Inr depth \<Rightarrow> Inr \<lparr>fs_caRefs = caRefs, fs_ociCAIDs = optionCAIDs, fs_verifyDepth = depth\<rparr>))"

section \<open>CA certificates\<close>

text \<open>
  The loop over the PEM blocks, with fuel; a block is followed by a shorter rest, so the
  length of the text is enough.
\<close>

fun caBundleLoop :: "lb_env \<Rightarrow> nat \<Rightarrow> string \<Rightarrow> nat \<Rightarrow> error option" where
  "caBundleLoop w 0 remaining parsed = Some (ErrText ''out of fuel'')"
| "caBundleLoop w (Suc fuel) remaining parsed =
     (case env_pem_decode w remaining of
        None \<Rightarrow>
          (if parsed = 0 then Some (ErrText ''no CA certificates found'')
           else if trim_space remaining \<noteq> [] then Some (ErrText ''unexpected trailing data'')
           else None)
      | Some (ty, bytes, rest) \<Rightarrow>
          (if ty \<noteq> ''CERTIFICATE'' then Some (ErrText (errtext ''unexpected PEM block type \"'' ty ''\"''))
           else (case env_x509 w bytes of
               Inl e \<Rightarrow> Some (ErrWrap ''failed to parse certificate: '' (ErrText e) [])
             | Inr (isCA, commonName) \<Rightarrow>
                 (if \<not> isCA then Some (ErrText (errtext ''certificate '' commonName '' is not a CA certificate''))
                  else caBundleLoop w fuel rest (Suc parsed)))))"

definition validateCABundlePEM :: "lb_env \<Rightarrow> string \<Rightarrow> error option" where
  "validateCABundlePEM w caPEM = caBundleLoop w (Suc (length caPEM)) caPEM 0"

definition resolveFrontendMTLSCARef :: "lb_env \<Rightarrow> gateway \<Rightarrow> object_ref \<Rightarrow> string lb_op" where
  "resolveFrontendMTLSCARef w gateway ref =
     (if or_group ref \<noteq> [] \<or> or_kind ref \<noteq> ''ConfigMap'' then
        eff_fail (frontendMTLSStatusError ''InvalidCACertificateKind''
          (errtext ''frontend mTLS caCertificateRef '' (or_group ref) (errtext ''/'' (or_kind ref)
            '' must reference a core ConfigMap'')))
      else
        (let ns = (case or_namespace ref of Some n \<Rightarrow> n | None \<Rightarrow> gw_namespace gateway);
             fullName = ns @ ''/'' @ or_name ref
         in eff_bind (referenceGrantAllowsCoreRef w ''Gateway'' (gw_namespace gateway) ''ConfigMap'' ns (or_name ref))
           (\<lambda>allowed.
             if \<not> allowed then eff_fail (frontendMTLSStatusError ''RefNotPermitted''
               (errtext ''frontend mTLS caCertificateRef '' fullName '' is not permitted by a ReferenceGrant''))
             else eff_bind (get_config_map w ns (or_name ref)) (\<lambda>r. case r of
                 Inl err \<Rightarrow>
                   (if is_not_found err then eff_fail (frontendMTLSStatusError ''InvalidCACertificateRef''
                      (errtext ''frontend mTLS caCertificateRef ConfigMap '' fullName '' was not found''))
                    else eff_fail (ErrWrap (errtext ''failed to get frontend mTLS ConfigMap '' fullName '': '') err []))
               | Inr configMap \<Rightarrow>
                   (case map_of (cm_data configMap) ''ca.crt'' of
                      None \<Rightarrow> eff_fail (frontendMTLSStatusError ''InvalidCACertificateRef''
                        (errtext ''frontend mTLS caCertificateRef ConfigMap '' fullName '' is missing ca.crt''))
                    | Some caPEM \<Rightarrow>
                        (case validateCABundlePEM w caPEM of
                           Some err \<Rightarrow> eff_fail (frontendMTLSStatusError ''InvalidCACertificateRef''
                             (errtext ''frontend mTLS caCertificateRef ConfigMap '' fullName
                               (errtext '' has invalid ca.crt: '' (error_text (\<lambda>_. []) err) [])))
                         | None \<Rightarrow> eff_return caPEM))))))"

section \<open>CA bundles of a Gateway\<close>

definition frontendMTLSManagedByTag :: string where
  "frontendMTLSManagedByTag = ''oke-gateway-api-managed-by''"

definition frontendMTLSManagedByValue :: string where
  "frontendMTLSManagedByValue = ''frontend-mtls''"

definition frontendMTLSGatewayTag :: string where
  "frontendMTLSGatewayTag = ''oke-gateway-api-gateway''"

definition frontendMTLSPortTag :: string where
  "frontendMTLSPortTag = ''oke-gateway-api-port''"

definition frontendMTLSCAHashTag :: string where
  "frontendMTLSCAHashTag = ''oke-gateway-api-ca-sha256''"

definition frontendMTLSCABundleNamePrefix :: string where
  "frontendMTLSCABundleNamePrefix = ''oke-fmtls-''"

definition frontendMTLSGatewayIdentity :: "gateway \<Rightarrow> string" where
  "frontendMTLSGatewayIdentity gateway =
     (if gw_uid gateway \<noteq> [] then gw_uid gateway
      else case gw_creation gateway of
          Some created \<Rightarrow> created
        | None \<Rightarrow> int_to_string (gw_generation gateway))"

definition gatewayFullName :: "gateway \<Rightarrow> string" where
  "gatewayFullName gateway = gw_namespace gateway @ ''/'' @ gw_name gateway"

definition frontendMTLSCABundleName :: "gateway \<Rightarrow> int \<Rightarrow> object_ref \<Rightarrow> string" where
  "frontendMTLSCABundleName gateway port ref =
     (let refNamespace = (case or_namespace ref of Some n \<Rightarrow> n | None \<Rightarrow> gw_namespace gateway);
          hashInput = str_join ''/'' [gw_namespace gateway, gw_name gateway, frontendMTLSGatewayIdentity gateway,
            int_to_string port, or_group ref, or_kind ref, refNamespace, or_name ref]
      in frontendMTLSCABundleNamePrefix @ take 24 (sha256_hex hashInput))"

definition frontendMTLSCABundleTags :: "gateway \<Rightarrow> int \<Rightarrow> string \<Rightarrow> string go_map" where
  "frontendMTLSCABundleTags gateway port caHash =
     [(frontendMTLSManagedByTag, frontendMTLSManagedByValue), (frontendMTLSGatewayTag, gatewayFullName gateway),
      (frontendMTLSPortTag, int_to_string port), (frontendMTLSCAHashTag, caHash)]"

definition isOwnedFrontendMTLSCABundle :: "string go_map \<Rightarrow> gateway \<Rightarrow> bool" where
  "isOwnedFrontendMTLSCABundle tags gateway \<longleftrightarrow>
     map_get tags frontendMTLSManagedByTag = frontendMTLSManagedByValue \<and>
     map_get tags frontendMTLSGatewayTag = gatewayFullName gateway"

definition ensureFrontendMTLSCABundleUsable :: "ca_bundle \<Rightarrow> error option" where
  "ensureFrontendMTLSCABundleUsable bundle =
     (if cab_state bundle = [] \<or> cab_state bundle = ''ACTIVE'' then None
      else if cab_state bundle = ''DELETING'' then
        Some (ErrText (errtext ''OCI CA bundle '' (str_ptr (cab_name bundle)) (errtext '' is '' (cab_state bundle)
          '' and cannot be reused for frontend mTLS'')))
      else
        Some (ErrText (errtext ''OCI CA bundle '' (str_ptr (cab_name bundle)) (errtext '' is '' (cab_state bundle)
          '' and is not ready for frontend mTLS''))))"

definition isFrontendMTLSCABundleAlreadyExists :: "svc_error \<Rightarrow> bool" where
  "isFrontendMTLSCABundleAlreadyExists err =
     (case err of
        TransportError _ \<Rightarrow> False
      | ServiceError status code message \<Rightarrow>
          status = 400 \<and> code = ''InvalidParameter'' \<and> str_contains message ''already exists'')"

definition isFrontendMTLSCABundleAlreadyDeleted :: "svc_error \<Rightarrow> bool" where
  "isFrontendMTLSCABundleAlreadyDeleted err = svc_has_status 404 err"

text \<open>The keys of a Go map, sorted: the same list in whatever order the map is visited.\<close>

definition frontendMTLSCompartmentIDs :: "gateway \<Rightarrow> string list" where
  "frontendMTLSCompartmentIDs gateway =
     (let annotation = map_get (gw_annotations gateway) gatewayFrontendMTLSCABundleCompartmentsAnnotation in
      if annotation = [] then []
      else sort_strings (remdups (filter (\<lambda>c. c \<noteq> []) (map trim_space (str_split (CHR '','') annotation)))))"

definition ensureFrontendMTLSCompartment :: "lb_env \<Rightarrow> gateway \<Rightarrow> string \<Rightarrow> unit lb_op" where
  "ensureFrontendMTLSCompartment w gateway compartmentID =
     (if compartmentID = [] \<or> compartmentID \<in> set (frontendMTLSCompartmentIDs gateway) then eff_return ()
      else
        (let compartments = sort_strings (frontendMTLSCompartmentIDs gateway @ [compartmentID]);
             updated = gateway\<lparr>gw_annotations := AList.update gatewayFrontendMTLSCABundleCompartmentsAnnotation
               (str_join '','' compartments) (gw_annotations gateway)\<rparr>
         in eff_bind (k8s_update w (UpdateGateway updated)) (\<lambda>r. case r of
              None \<Rightarrow> eff_return ()
            | Some err \<Rightarrow> eff_fail (ErrWrap (errtext ''failed to record frontend mTLS CA bundle compartment on Gateway ''
                (gatewayFullName gateway) '': '') err []))))"

definition notOwnedError :: "string \<Rightarrow> gateway \<Rightarrow> error" where
  "notOwnedError name gateway = ErrText (errtext ''OCI CA bundle '' name
     (errtext '' already exists and is not owned by frontend mTLS Gateway '' (gatewayFullName gateway) []))"

text \<open>The first bundle of a list that is not deleted decides.\<close>

definition liveBundle :: "ca_bundle list \<Rightarrow> ca_bundle option" where
  "liveBundle bundles = List.find (\<lambda>b. cab_state b \<noteq> ''DELETED'') bundles"

definition resolveExistingFrontendMTLSCABundle ::
    "lb_env \<Rightarrow> gateway \<Rightarrow> string \<Rightarrow> string \<Rightarrow> string \<Rightarrow> string lb_op" where
  "resolveExistingFrontendMTLSCABundle w gateway compartmentID name caHash =
     eff_bind (list_ca_bundles w compartmentID (Some name)) (\<lambda>r. case r of
         Inl err \<Rightarrow> eff_fail (ErrWrap (errtext ''failed to re-list OCI CA bundle '' name '' after create conflict: '')
           (ErrService err) [])
       | Inr bundles \<Rightarrow>
           (case liveBundle bundles of
              None \<Rightarrow> eff_fail (ErrText (errtext ''OCI CA bundle '' name
                '' already exists but was not visible in list response''))
            | Some bundle \<Rightarrow>
                (if \<not> isOwnedFrontendMTLSCABundle (cab_tags bundle) gateway then eff_fail (notOwnedError name gateway)
                 else case ensureFrontendMTLSCABundleUsable bundle of
                     Some err \<Rightarrow> eff_fail err
                   | None \<Rightarrow>
                       (if map_get (cab_tags bundle) frontendMTLSCAHashTag \<noteq> caHash then
                          eff_fail (ErrText (errtext ''OCI CA bundle '' name
                            '' already exists with stale CA data and is not ready for update''))
                        else eff_return (str_ptr (cab_id bundle))))))"

definition createFrontendMTLSCABundle ::
    "lb_env \<Rightarrow> gateway \<Rightarrow> string \<Rightarrow> string \<Rightarrow> string \<Rightarrow> string \<Rightarrow> string go_map \<Rightarrow> string lb_op" where
  "createFrontendMTLSCABundle w gateway compartmentID name caPEM caHash tags =
     eff_bind (create_ca_bundle_call w
         \<lparr>ccb_name = name, ccb_compartment = compartmentID, ccb_pem = caPEM, ccb_tags = tags\<rparr>) (\<lambda>r. case r of
         Inl err \<Rightarrow>
           (if isFrontendMTLSCABundleAlreadyExists err then
              resolveExistingFrontendMTLSCABundle w gateway compartmentID name caHash
            else eff_fail (ErrWrap (errtext ''failed to create OCI CA bundle '' name '': '') (ErrService err) []))
       | Inr bundle \<Rightarrow>
           (if cab_state bundle \<noteq> ''ACTIVE'' then
              eff_fail (ErrText (errtext ''OCI CA bundle '' name (errtext '' is '' (cab_state bundle)
                '' and is not ready for frontend mTLS'')))
            else eff_return (str_ptr (cab_id bundle))))"

definition ensureFrontendMTLSCABundle ::
    "lb_env \<Rightarrow> gateway \<Rightarrow> int \<Rightarrow> object_ref \<Rightarrow> string \<Rightarrow> string \<Rightarrow> string lb_op" where
  "ensureFrontendMTLSCABundle w gateway port ref compartmentID caPEM =
     eff_bind (ensureFrontendMTLSCompartment w gateway compartmentID) (\<lambda>_.
       (let name = frontendMTLSCABundleName gateway port ref;
            caHash = sha256_hex caPEM;
            tags = frontendMTLSCABundleTags gateway port caHash
        in eff_bind (list_ca_bundles w compartmentID (Some name)) (\<lambda>r. case r of
             Inl err \<Rightarrow> eff_fail (ErrWrap (errtext ''failed to list OCI CA bundles for frontend mTLS Gateway ''
               (gatewayFullName gateway) '': '') (ErrService err) [])
           | Inr bundles \<Rightarrow>
               (case liveBundle bundles of
                  None \<Rightarrow> createFrontendMTLSCABundle w gateway compartmentID name caPEM caHash tags
                | Some bundle \<Rightarrow>
                    (if \<not> isOwnedFrontendMTLSCABundle (cab_tags bundle) gateway then
                       eff_fail (notOwnedError name gateway)
                     else case ensureFrontendMTLSCABundleUsable bundle of
                         Some err \<Rightarrow> eff_fail err
                       | None \<Rightarrow>
                           (if map_get (cab_tags bundle) frontendMTLSCAHashTag \<noteq> caHash then
                              eff_bind (ca_write w (UpdateCaBundle (cab_id bundle) caPEM tags)) (\<lambda>r. case r of
                                  Some err \<Rightarrow> eff_fail (ErrWrap (errtext ''failed to update OCI CA bundle '' name '': '')
                                    (ErrService err) [])
                                | None \<Rightarrow> eff_return (str_ptr (cab_id bundle)))
                            else eff_return (str_ptr (cab_id bundle))))))))"

fun resolveOCICAIDs :: "lb_env \<Rightarrow> string list \<Rightarrow> string list lb_op" where
  "resolveOCICAIDs w [] = eff_return []"
| "resolveOCICAIDs w (caID # ids) =
     eff_bind (get_ca_bundle w caID) (\<lambda>r. case r of
         Some _ \<Rightarrow> eff_fail (frontendMTLSStatusError ''InvalidParameters''
           (errtext ''frontend mTLS OCI CA bundle '' caID '' cannot be resolved''))
       | None \<Rightarrow> eff_bind (resolveOCICAIDs w ids) (\<lambda>rest. eff_return (caID # rest)))"

fun resolveCARefIDs :: "lb_env \<Rightarrow> gateway \<Rightarrow> int \<Rightarrow> string \<Rightarrow> object_ref list \<Rightarrow> string list lb_op" where
  "resolveCARefIDs w gateway port compartmentID [] = eff_return []"
| "resolveCARefIDs w gateway port compartmentID (ref # refs) =
     eff_bind (resolveFrontendMTLSCARef w gateway ref) (\<lambda>caPEM.
     eff_bind (ensureFrontendMTLSCABundle w gateway port ref compartmentID caPEM) (\<lambda>caID.
     eff_bind (resolveCARefIDs w gateway port compartmentID refs) (\<lambda>rest. eff_return (caID # rest))))"

definition resolveFrontendMTLSTrustedCAIDs ::
    "lb_env \<Rightarrow> gateway \<Rightarrow> int \<Rightarrow> string \<Rightarrow> frontend_mtls_settings \<Rightarrow> string list lb_op" where
  "resolveFrontendMTLSTrustedCAIDs w gateway port compartmentID settings =
     eff_bind (resolveOCICAIDs w (fs_ociCAIDs settings)) (\<lambda>ids.
     eff_bind (resolveCARefIDs w gateway port compartmentID (fs_caRefs settings)) (\<lambda>more.
       eff_return (ids @ more)))"

section \<open>The TLS configuration of a listener\<close>

definition noSSL :: ssl_details where
  "noSSL = \<lparr>sd_verify_depth = None, sd_verify_peer = None, sd_session_resumption = None,
     sd_trusted_ca_ids = [], sd_certificate_ids = [], sd_certificate_name = None, sd_protocols = [],
     sd_cipher_suite = None, sd_server_order = []\<rparr>"

definition listenerTLSOptionOCICertificateOCID :: string where
  "listenerTLSOptionOCICertificateOCID = ''oci.oraclecloud.com/certificate-ocid''"

definition requireCertificateOption :: "string \<Rightarrow> error" where
  "requireCertificateOption listenerName = frontendMTLSStatusError ''InvalidParameters''
     (errtext ''frontend mTLS OCI CA bundle OCID annotations require listener '' listenerName
       (errtext '' to use '' listenerTLSOptionOCICertificateOCID []))"

definition applyFrontendMTLS ::
    "lb_env \<Rightarrow> reconcile_http_listener_params \<Rightarrow> ssl_details option \<Rightarrow> ssl_details option lb_op" where
  "applyFrontendMTLS w params sslConfig =
     (let spec = rl_listenerSpec params in
      if l_tls spec = None then eff_return sslConfig
      else case rl_gateway params of
          None \<Rightarrow> eff_return sslConfig
        | Some gateway \<Rightarrow>
            (if l_protocol spec \<noteq> ''HTTPS'' \<and> l_protocol spec \<noteq> ''TLS'' then
               eff_fail (frontendMTLSStatusError ''InvalidParameters''
                 ''frontend mTLS can only be used with HTTPS or TLS listeners'')
             else
               (let optionCAIDs = frontendMTLSOCICABundleIDs gateway (l_port spec);
                    validation = effectiveFrontendTLSValidation gateway (l_port spec)
                in if validation = None \<and> optionCAIDs = [] then eff_return sslConfig
                   else case resolveFrontendMTLSSettings gateway (l_port spec) validation optionCAIDs of
                       Inl err \<Rightarrow> eff_fail err
                     | Inr settings \<Rightarrow>
                         (let ssl = (case sslConfig of Some s \<Rightarrow> s | None \<Rightarrow> noSSL)
                              \<lparr>sd_verify_peer := Some True, sd_verify_depth := Some (fs_verifyDepth settings)\<rparr>
                          in if sd_certificate_name ssl \<noteq> None then
                               (if fs_ociCAIDs settings \<noteq> [] then eff_fail (requireCertificateOption (l_name spec))
                                else eff_bind (eff_foreach (\<lambda>ref. eff_bind (resolveFrontendMTLSCARef w gateway ref)
                                    (\<lambda>_. eff_return ())) (fs_caRefs settings)) (\<lambda>_.
                                  eff_return (Some (ssl\<lparr>sd_trusted_ca_ids := []\<rparr>))))
                             else if \<not> env_certs_client w then
                               eff_fail (ErrText ''OCI certificates management client is required for frontend mTLS'')
                             else eff_bind (resolveFrontendMTLSTrustedCAIDs w gateway (l_port spec)
                                 (rl_compartmentID params) settings) (\<lambda>ids.
                               eff_return (Some (ssl\<lparr>sd_trusted_ca_ids := sort_strings (remdups ids)\<rparr>)))))))"

section \<open>Clean-up\<close>

definition deleteFrontendMTLSCABundle :: "lb_env \<Rightarrow> ca_bundle \<Rightarrow> unit lb_op" where
  "deleteFrontendMTLSCABundle w bundle =
     eff_bind (ca_write w (DeleteCaBundle (cab_id bundle))) (\<lambda>r. case r of
         None \<Rightarrow> eff_return ()
       | Some err \<Rightarrow>
           (if isFrontendMTLSCABundleAlreadyDeleted err then eff_return ()
            else eff_fail (ErrWrap (errtext ''failed to delete OCI CA bundle '' (str_ptr (cab_name bundle)) '': '')
              (ErrService err) [])))"

definition cleanupBundle :: "lb_env \<Rightarrow> gateway \<Rightarrow> string set \<Rightarrow> ca_bundle \<Rightarrow> unit lb_op" where
  "cleanupBundle w gateway desiredBundleNames bundle =
     (if \<not> isOwnedFrontendMTLSCABundle (cab_tags bundle) gateway then eff_return ()
      else if str_ptr (cab_name bundle) \<in> desiredBundleNames then eff_return ()
      else if cab_state bundle = ''DELETED'' \<or> cab_state bundle = ''DELETING'' then eff_return ()
      else deleteFrontendMTLSCABundle w bundle)"

definition cleanupFrontendMTLSCABundlesInCompartment ::
    "lb_env \<Rightarrow> gateway \<Rightarrow> string set \<Rightarrow> string \<Rightarrow> unit lb_op" where
  "cleanupFrontendMTLSCABundlesInCompartment w gateway desiredBundleNames compartmentID =
     eff_bind (list_ca_bundles w compartmentID None) (\<lambda>r. case r of
         Inl err \<Rightarrow> eff_fail (ErrWrap ''failed to list OCI CA bundles for frontend mTLS cleanup: '' (ErrService err) [])
       | Inr bundles \<Rightarrow> eff_foreach (cleanupBundle w gateway desiredBundleNames) bundles)"

definition cleanupFrontendMTLSCABundles :: "lb_env \<Rightarrow> gateway option \<Rightarrow> string \<Rightarrow> string set \<Rightarrow> unit lb_op" where
  "cleanupFrontendMTLSCABundles w gateway compartmentID desiredBundleNames =
     (case gateway of
        None \<Rightarrow> eff_return ()
      | Some g \<Rightarrow>
          (if compartmentID = [] \<or> \<not> env_certs_client w then eff_return ()
           else eff_foreach (cleanupFrontendMTLSCABundlesInCompartment w g desiredBundleNames)
             (if frontendMTLSCompartmentIDs g = [] then [compartmentID] else frontendMTLSCompartmentIDs g)))"

section \<open>CA certificates: what is accepted\<close>

text \<open>The PEM blocks of a text and what remains.\<close>

inductive pem_chain :: "lb_env \<Rightarrow> string \<Rightarrow> (string \<times> string) list \<Rightarrow> string \<Rightarrow> bool" for w where
  pem_end: "env_pem_decode w s = None \<Longrightarrow> pem_chain w s [] s"
| pem_block: "env_pem_decode w s = Some (ty, bytes, r) \<Longrightarrow> pem_chain w r bs rest \<Longrightarrow>
    pem_chain w s ((ty, bytes) # bs) rest"

inductive_cases pem_chain_NilE: "pem_chain w s [] rest"
inductive_cases pem_chain_ConsE: "pem_chain w s (b # bs) rest"
inductive_simps pem_chain_end: "pem_chain w s [] rest"

definition ca_block :: "lb_env \<Rightarrow> string \<times> string \<Rightarrow> bool" where
  "ca_block w b \<longleftrightarrow> fst b = ''CERTIFICATE'' \<and> (\<exists>name. env_x509 w (snd b) = Inr (True, name))"

definition decodes_forward :: "lb_env \<Rightarrow> bool" where
  "decodes_forward w \<longleftrightarrow> (\<forall>s ty bytes r. env_pem_decode w s = Some (ty, bytes, r) \<longrightarrow> length r < length s)"

lemma pem_chain_cases:
  "pem_chain w s bs rest \<longleftrightarrow>
    (case env_pem_decode w s of None \<Rightarrow> bs = [] \<and> rest = s
     | Some (ty, bytes, r) \<Rightarrow> (\<exists>bs'. bs = (ty, bytes) # bs' \<and> pem_chain w r bs' rest))"
  by (subst pem_chain.simps) (auto split: option.splits)

lemma caBundleLoop_iff:
  assumes "decodes_forward w" "length s < fuel"
  shows "caBundleLoop w fuel s n = None \<longleftrightarrow>
    (\<exists>bs rest. pem_chain w s bs rest \<and> (bs \<noteq> [] \<or> n \<noteq> 0) \<and> list_all (ca_block w) bs \<and> trim_space rest = [])"
  using assms(2)
proof (induction fuel arbitrary: s n)
  case (Suc fuel)
  show ?case
  proof (cases "env_pem_decode w s")
    case None
    then show ?thesis by (simp add: pem_chain_cases [of w s])
  next
    case (Some b)
    obtain ty bytes r where b: "b = (ty, bytes, r)" by (cases b)
    have "length r < fuel" using Some b assms(1) Suc.prems unfolding decodes_forward_def by fastforce
    from Suc.IH [OF this, of "Suc n"] have ih: "caBundleLoop w fuel r (Suc n) = None \<longleftrightarrow>
        (\<exists>bs rest. pem_chain w r bs rest \<and> list_all (ca_block w) bs \<and> trim_space rest = [])" by simp
    have loop: "caBundleLoop w (Suc fuel) s n = None \<longleftrightarrow> ca_block w (ty, bytes) \<and> caBundleLoop w fuel r (Suc n) = None"
      using Some b by (auto simp: ca_block_def split: sum.splits)
    have chain: "pem_chain w s bs rest \<longleftrightarrow> (\<exists>bs'. bs = (ty, bytes) # bs' \<and> pem_chain w r bs' rest)" for bs rest
      using Some b by (subst pem_chain_cases) simp
    show ?thesis unfolding loop ih chain
      by (auto simp del: caBundleLoop.simps) (metis list.pred_inject(2) list.distinct(1), blast+)
  qed
qed simp

text \<open>
  A CA bundle is accepted exactly when it is a sequence of at least one PEM block, all of
  them CA certificates, followed by white space.
\<close>

theorem validateCABundlePEM_iff:
  assumes "decodes_forward w"
  shows "validateCABundlePEM w caPEM = None \<longleftrightarrow>
    (\<exists>bs rest. pem_chain w caPEM bs rest \<and> bs \<noteq> [] \<and> list_all (ca_block w) bs \<and> trim_space rest = [])"
  unfolding validateCABundlePEM_def using caBundleLoop_iff [OF assms, of caPEM "Suc (length caPEM)" 0]
  by (simp del: caBundleLoop.simps)

text \<open>A decoder that takes one character as a block.\<close>

definition samplePemEnv :: lb_env where
  "samplePemEnv = agreeable_env\<lparr>env_pem_decode := (\<lambda>s. case s of
       c # r \<Rightarrow> if c = CHR ''x'' then Some (''CERTIFICATE'', [c], r) else None | [] \<Rightarrow> None),
     env_x509 := (\<lambda>_. Inr (True, ''root''))\<rparr>"

theorem validateCABundlePEM_iff_witness:
  "validateCABundlePEM samplePemEnv ''xx '' = None \<and>
    (\<exists>bs rest. pem_chain samplePemEnv ''xx '' bs rest \<and> bs \<noteq> [] \<and> list_all (ca_block samplePemEnv) bs \<and> trim_space rest = [])"
proof -
  have "decodes_forward samplePemEnv"
    unfolding decodes_forward_def samplePemEnv_def by (auto split: list.splits if_splits)
  moreover have "validateCABundlePEM samplePemEnv ''xx '' = None"
    by (simp add: validateCABundlePEM_def samplePemEnv_def trim_space_def) code_simp
  ultimately show ?thesis using validateCABundlePEM_iff by blast
qed

section \<open>Fail closed\<close>

text \<open>Whether client certificates are asked for at a listener.\<close>

definition asksForClientCertificates :: "reconcile_http_listener_params \<Rightarrow> bool" where
  "asksForClientCertificates params \<longleftrightarrow>
     l_tls (rl_listenerSpec params) \<noteq> None \<and>
     (case rl_gateway params of
        None \<Rightarrow> False
      | Some g \<Rightarrow> effectiveFrontendTLSValidation g (l_port (rl_listenerSpec params)) \<noteq> None \<or>
          frontendMTLSOCICABundleIDs g (l_port (rl_listenerSpec params)) \<noteq> [])"

lemma verifyDepth_positive: "frontendMTLSVerifyDepth g port = Inr d \<Longrightarrow> 1 \<le> d"
  by (auto simp: frontendMTLSVerifyDepth_def Let_def defaultFrontendMTLSVerifyDepth_def
      split: if_splits option.splits prod.splits)

lemma settings_ok:
  "resolveFrontendMTLSSettings g port v ids = Inr settings \<Longrightarrow>
    1 \<le> fs_verifyDepth settings \<and> (fs_caRefs settings \<noteq> [] \<or> fs_ociCAIDs settings \<noteq> [])"
  by (auto simp: resolveFrontendMTLSSettings_def Let_def split: if_splits sum.splits dest: verifyDepth_positive)

lemma resolveOCICAIDs_length: "resolveOCICAIDs w ids h = (Inr r, h') \<Longrightarrow> length r = length ids"
  by (induction ids arbitrary: h r)
    (auto simp: eff_simps eff_bind_Inr [OF ca_run(1)] split: option.splits elim!: eff_bind_InrE)

lemma resolveCARefIDs_length: "resolveCARefIDs w g port cp refs h = (Inr r, h') \<Longrightarrow> length r = length refs"
  by (induction refs arbitrary: h r) (auto simp: eff_simps elim!: eff_bind_InrE)

lemma trustedCAIDs_nonempty:
  assumes "resolveFrontendMTLSTrustedCAIDs w g port cp settings h = (Inr ids, h')"
    and "fs_caRefs settings \<noteq> [] \<or> fs_ociCAIDs settings \<noteq> []"
  shows "ids \<noteq> []"
proof -
  obtain a b h1 where "resolveOCICAIDs w (fs_ociCAIDs settings) h = (Inr a, h1)"
    "resolveCARefIDs w g port cp (fs_caRefs settings) h1 = (Inr b, h')" "ids = a @ b"
    using assms(1) unfolding resolveFrontendMTLSTrustedCAIDs_def
    by (auto simp: eff_simps elim!: eff_bind_InrE)
  with resolveOCICAIDs_length resolveCARefIDs_length assms(2) show ?thesis by fastforce
qed


definition sampleMTLSGateway :: gateway where
  "sampleMTLSGateway = \<lparr>gw_namespace = ''ns'', gw_name = ''gw'', gw_uid = ''uid'', gw_creation = None, gw_generation = 1,
     gw_deleting = False, gw_finalizers = [],
     gw_annotations = [(''oci.oraclecloud.com/frontend-mtls-trusted-ca-bundle-ocids'', ''b, a,b''),
       (''oci.oraclecloud.com/frontend-mtls-443-verify-depth'', ''2'')],
     gw_class_name = ''oci'', gw_parameters = None, gw_listeners = [], gw_allowed_listeners = None,
     gw_frontend = None, gw_conditions = [], gw_addresses = [], gw_attached_listener_sets = None\<rparr>"

definition sampleMTLSParams :: reconcile_http_listener_params where
  "sampleMTLSParams = \<lparr>rl_compartmentID = ''c'', rl_gateway = Some sampleMTLSGateway, rl_loadBalancerID = ''lb'',
     rl_knownListeners = [], rl_knownRoutingPolicies = [], rl_listenerCertificates = [],
     rl_listenerCertificateID = ''cert'', rl_defaultBackendSetName = ''default'',
     rl_listenerSpec = \<lparr>l_name = ''https'', l_hostname = None, l_port = 443, l_protocol = ''HTTPS'',
       l_tls = Some \<lparr>tls_mode = None, tls_cert_refs = [], tls_options = []\<rparr>, l_allowed = None\<rparr>\<rparr>"

lemma sample_mtls_run:
  "asksForClientCertificates sampleMTLSParams \<and>
    map_sum (\<lambda>_. ()) (map_option (\<lambda>c. (sd_verify_peer c, sd_verify_depth c, sd_trusted_ca_ids c)))
      (fst (applyFrontendMTLS agreeable_env sampleMTLSParams None [])) = Inr (Some (Some True, Some 2, [''a'', ''b'']))"
  by code_simp


section \<open>Only the Gateway's own bundles change\<close>

definition listedOwned :: "lb_env \<Rightarrow> gateway \<Rightarrow> (ca_bundle \<Rightarrow> bool) \<Rightarrow> string option \<Rightarrow> bool" where
  "listedOwned w g p i \<longleftrightarrow> (\<exists>h compartment name bundles b. env_ca_bundles w h compartment name = Inr bundles \<and>
     b \<in> set bundles \<and> isOwnedFrontendMTLSCABundle (cab_tags b) g \<and> p b \<and> cab_id b = i)"

lemma listedOwnedI:
  "env_ca_bundles w h compartment name = Inr bundles \<Longrightarrow> b \<in> set bundles \<Longrightarrow>
    isOwnedFrontendMTLSCABundle (cab_tags b) g \<Longrightarrow> p b \<Longrightarrow> listedOwned w g p (cab_id b)"
  unfolding listedOwned_def by blast

fun cleanupAllowed :: "lb_env \<Rightarrow> gateway \<Rightarrow> string set \<Rightarrow> lb_call \<Rightarrow> bool" where
  "cleanupAllowed w g desired (DeleteCaBundle i) =
     listedOwned w g (\<lambda>b. str_ptr (cab_name b) \<notin> desired \<and> cab_state b \<noteq> ''DELETED'' \<and> cab_state b \<noteq> ''DELETING'') i"
| "cleanupAllowed w g desired c = reading c"

lemma cleanupBundle_emits:
  assumes "env_ca_bundles w h cp name = Inr bundles" "b \<in> set bundles"
  shows "emits (cleanupAllowed w g desired) (cleanupBundle w g desired b)"
proof -
  have "cleanupAllowed w g desired (DeleteCaBundle (cab_id b))"
    if "isOwnedFrontendMTLSCABundle (cab_tags b) g" "str_ptr (cab_name b) \<notin> desired"
      "cab_state b \<noteq> ''DELETED''" "cab_state b \<noteq> ''DELETING''"
    using listedOwnedI [OF assms that(1)] that by simp
  then show ?thesis
    by (auto simp: cleanupBundle_def deleteFrontendMTLSCABundle_def intro!: emits_intros split: option.split)
qed

lemma cleanupInCompartment_emits:
  "emits (cleanupAllowed w g desired) (cleanupFrontendMTLSCABundlesInCompartment w g desired cp)"
  unfolding cleanupFrontendMTLSCABundlesInCompartment_def list_ca_bundles_def
  by (rule emits_bind_call) (auto intro!: emits_intros intro: cleanupBundle_emits split: sum.split)

text \<open>
  The clean-up deletes only bundles that carry the Gateway's tags and are not desired.
\<close>

theorem cleanup_only_owned:
  "emits (cleanupAllowed w g desired) (cleanupFrontendMTLSCABundles w (Some g) compartmentID desired)"
  by (auto simp: cleanupFrontendMTLSCABundles_def intro!: emits_intros cleanupInCompartment_emits)

fun ensureAllowed :: "lb_env \<Rightarrow> gateway \<Rightarrow> lb_call \<Rightarrow> bool" where
  "ensureAllowed w g (UpdateCaBundle i pem tags) = listedOwned w g (\<lambda>b. cab_state b \<noteq> ''DELETED'') i"
| "ensureAllowed w g (CreateCaBundle d) \<longleftrightarrow> isOwnedFrontendMTLSCABundle (ccb_tags d) g"
| "ensureAllowed w g (UpdateGateway g') \<longleftrightarrow> gw_namespace g' = gw_namespace g \<and> gw_name g' = gw_name g"
| "ensureAllowed w g c = reading c"

lemma tags_owned: "isOwnedFrontendMTLSCABundle (frontendMTLSCABundleTags g port caHash) g"
  by (simp add: isOwnedFrontendMTLSCABundle_def frontendMTLSCABundleTags_def frontendMTLSManagedByTag_def
      frontendMTLSGatewayTag_def)

lemma resolveCARef_emits: "emits (ensureAllowed w g) (resolveFrontendMTLSCARef w g' ref)"
  by (auto simp: resolveFrontendMTLSCARef_def Let_def intro!: emits_intros split: sum.split option.split)

lemma ensureCompartment_emits: "emits (ensureAllowed w g) (ensureFrontendMTLSCompartment w g cp)"
  by (auto simp: ensureFrontendMTLSCompartment_def Let_def intro!: emits_intros split: option.split)

lemma resolveExisting_emits: "emits (ensureAllowed w g) (resolveExistingFrontendMTLSCABundle w g cp name caHash)"
  by (auto simp: resolveExistingFrontendMTLSCABundle_def intro!: emits_intros split: sum.split option.split)

lemma createBundle_emits:
  "isOwnedFrontendMTLSCABundle tags g \<Longrightarrow> emits (ensureAllowed w g) (createFrontendMTLSCABundle w g cp name pem caHash tags)"
  by (auto simp: createFrontendMTLSCABundle_def intro!: emits_intros resolveExisting_emits split: sum.split)

lemma liveBundle_Some: "liveBundle bundles = Some b \<Longrightarrow> b \<in> set bundles \<and> cab_state b \<noteq> ''DELETED''"
  unfolding liveBundle_def by (drule find_SomeD) simp

lemma ensureBundle_emits: "emits (ensureAllowed w g) (ensureFrontendMTLSCABundle w g port ref cp pem)"
  unfolding ensureFrontendMTLSCABundle_def Let_def list_ca_bundles_def
proof (rule emits_bind [OF ensureCompartment_emits], rule emits_bind_call)
  fix h
  have upd: "ensureAllowed w g (UpdateCaBundle (cab_id b) pem tags)"
    if "env_ca_bundles w h cp (Some (frontendMTLSCABundleName g port ref)) = Inr bundles" "liveBundle bundles = Some b"
      "isOwnedFrontendMTLSCABundle (cab_tags b) g" for bundles b tags
    using listedOwnedI [OF that(1) _ that(3)] liveBundle_Some [OF that(2)] by simp
  then show "emits (ensureAllowed w g) (case env_ca_bundles w h cp (Some (frontendMTLSCABundleName g port ref)) of
      Inl err \<Rightarrow> eff_fail (ErrWrap (errtext ''failed to list OCI CA bundles for frontend mTLS Gateway ''
               (gatewayFullName g) '': '') (ErrService err) [])
    | Inr bundles \<Rightarrow>
        (case liveBundle bundles of
           None \<Rightarrow> createFrontendMTLSCABundle w g cp (frontendMTLSCABundleName g port ref) pem (sha256_hex pem)
             (frontendMTLSCABundleTags g port (sha256_hex pem))
         | Some bundle \<Rightarrow>
             (if \<not> isOwnedFrontendMTLSCABundle (cab_tags bundle) g then
                eff_fail (notOwnedError (frontendMTLSCABundleName g port ref) g)
              else case ensureFrontendMTLSCABundleUsable bundle of
                  Some err \<Rightarrow> eff_fail err
                | None \<Rightarrow>
                    (if map_get (cab_tags bundle) frontendMTLSCAHashTag \<noteq> sha256_hex pem then
                       eff_bind (ca_write w (UpdateCaBundle (cab_id bundle) pem
                           (frontendMTLSCABundleTags g port (sha256_hex pem)))) (\<lambda>r. case r of
                           Some err \<Rightarrow> eff_fail (ErrWrap (errtext ''failed to update OCI CA bundle ''
                             (frontendMTLSCABundleName g port ref) '': '') (ErrService err) [])
                         | None \<Rightarrow> eff_return (str_ptr (cab_id bundle)))
                     else eff_return (str_ptr (cab_id bundle))))))"
    by (auto intro!: emits_intros createBundle_emits tags_owned split: sum.split option.split)
qed simp

lemma trustedCAIDs_emits:
  "emits (ensureAllowed w g) (resolveFrontendMTLSTrustedCAIDs w g port cp settings)"
proof -
  have "emits (ensureAllowed w g) (resolveOCICAIDs w ids)" for ids
    by (induction ids) (auto intro!: emits_intros split: option.split)
  moreover have "emits (ensureAllowed w g) (resolveCARefIDs w g port cp refs)" for refs
    by (induction refs) (auto intro!: emits_intros resolveCARef_emits ensureBundle_emits)
  ultimately show ?thesis unfolding resolveFrontendMTLSTrustedCAIDs_def by (intro emits_intros)
qed

text \<open>
  Configuring a listener updates only bundles that carry the Gateway's tags, creates bundles
  with these tags, and writes no other Gateway.
\<close>

theorem applyFrontendMTLS_only_owned:
  "emits (ensureAllowed w g) (applyFrontendMTLS w (params\<lparr>rl_gateway := Some g\<rparr>) sslConfig)"
  by (auto simp: applyFrontendMTLS_def Let_def intro!: emits_intros resolveCARef_emits trustedCAIDs_emits
      split: sum.split option.split)

end
