(* ===== verification/Listeners.thy ===== *)
theory Listeners
  imports BackendSets FrontendMTLS
begin

text \<open>
  Listeners of the load balancer (\<open>oci_load_balancer_model.go\<close>): the details of an update,
  creation, the switch to the gRPC protocol, and the removal of listeners and routing
  policies that the Gateway no longer has. Shown: an update reaches the desired listener
  and a second one is not asked for; switching the protocol changes nothing else; the
  removal reaches every missing listener whatever fails before, and deletes nothing else.
\<close>

section \<open>TLS options\<close>

definition listenerTLSOptionProtocols :: string where
  "listenerTLSOptionProtocols = ''oci.oraclecloud.com/tls-protocols''"

definition listenerTLSOptionCipherSuiteName :: string where
  "listenerTLSOptionCipherSuiteName = ''oci.oraclecloud.com/cipher-suite-name''"

definition applyListenerTLSOptions :: "ssl_details option \<Rightarrow> listener_tls option \<Rightarrow> ssl_details option" where
  "applyListenerTLSOptions sslConfig tlsConfig =
     (case (sslConfig, tlsConfig) of
        (Some ssl, Some tls) \<Rightarrow>
          (let protocols = splitCSVOption (map_get (tls_options tls) listenerTLSOptionProtocols);
               ssl1 = (if protocols \<noteq> [] then ssl\<lparr>sd_protocols := protocols\<rparr> else ssl);
               cipherSuite = trim_space (map_get (tls_options tls) listenerTLSOptionCipherSuiteName)
           in Some (if cipherSuite \<noteq> [] then ssl1\<lparr>sd_cipher_suite := Some cipherSuite\<rparr> else ssl1))
      | _ \<Rightarrow> sslConfig)"

section \<open>Updating a listener\<close>

definition ociListenerProtocolHTTP :: string where
  "ociListenerProtocolHTTP = ''HTTP''"

definition ociListenerProtocolGRPC :: string where
  "ociListenerProtocolGRPC = ''GRPC''"

definition expectedHTTPListenerProtocol :: "bool \<Rightarrow> string" where
  "expectedHTTPListenerProtocol preserveGRPC =
     (if preserveGRPC then ociListenerProtocolGRPC else ociListenerProtocolHTTP)"

record listener_update_params =
  lu_existing :: lb_listener
  lu_listenerName :: string
  lu_port :: int
  lu_defaultBackendSetName :: string
  lu_sslConfig :: "ssl_details option"
  lu_preserveGRPC :: bool

definition listenerHasChanges :: "listener_update_params \<Rightarrow> bool" where
  "listenerHasChanges params =
     (let l = lu_existing params in
      ll_protocol l \<noteq> Some (expectedHTTPListenerProtocol (lu_preserveGRPC params)) \<or>
      ll_port l \<noteq> Some (lu_port params) \<or>
      str_ptr (ll_default_backend_set l) \<noteq> lu_defaultBackendSetName params \<or>
      str_ptr (ll_routing_policy l) \<noteq> listenerPolicyName (lu_listenerName params) \<or>
      \<not> loadBalancerListenerSSLConfigurationsEqual
          (sslConfigurationDetailsFromBackendSet (ll_ssl l)) (lu_sslConfig params))"

definition makeOciListenerUpdateDetails :: "listener_update_params \<Rightarrow> update_listener option" where
  "makeOciListenerUpdateDetails params =
     (if \<not> listenerHasChanges params then None
      else Some \<lparr>ul_default_backend_set = Some (lu_defaultBackendSetName params),
        ul_port = Some (lu_port params),
        ul_protocol = Some (expectedHTTPListenerProtocol (lu_preserveGRPC params)),
        ul_hostname_names = [], ul_path_route_set = None,
        ul_routing_policy = Some (listenerPolicyName (lu_listenerName params)),
        ul_ssl = lu_sslConfig params, ul_connection = None, ul_rule_sets = []\<rparr>)"

definition reconcileExistingHTTPListener ::
    "lb_env \<Rightarrow> reconcile_http_listener_params \<Rightarrow> string \<Rightarrow> lb_listener \<Rightarrow> ssl_details option \<Rightarrow> unit lb_op" where
  "reconcileExistingHTTPListener w params listenerName existing sslConfig =
     (case makeOciListenerUpdateDetails
        \<lparr>lu_existing = existing, lu_listenerName = listenerName, lu_port = l_port (rl_listenerSpec params),
         lu_defaultBackendSetName = rl_defaultBackendSetName params, lu_sslConfig = sslConfig,
         lu_preserveGRPC = listenerPolicyContainsGRPCRules
           (map_of (rl_knownRoutingPolicies params) (listenerPolicyName listenerName))\<rparr> of
        None \<Rightarrow> eff_return ()
      | Some details \<Rightarrow>
          awaited_write w (UpdateListener (rl_loadBalancerID params) listenerName details)
            (errtext ''failed to update listener '' listenerName [])
            (errtext ''failed to wait for listener '' listenerName []))"

definition createHTTPListener ::
    "lb_env \<Rightarrow> reconcile_http_listener_params \<Rightarrow> string \<Rightarrow> ssl_details option \<Rightarrow> unit lb_op" where
  "createHTTPListener w params listenerName sslConfig =
     awaited_write w
       (CreateListener (rl_loadBalancerID params)
         \<lparr>cl_name = listenerName, cl_default_backend_set = rl_defaultBackendSetName params,
          cl_port = l_port (rl_listenerSpec params), cl_protocol = ociListenerProtocolHTTP,
          cl_routing_policy = listenerPolicyName listenerName, cl_ssl = sslConfig\<rparr>)
       (errtext ''failed to create listener '' listenerName [])
       (errtext ''failed to wait for listener '' listenerName [])"

text \<open>The TLS configuration that the specification of a listener asks for.\<close>

definition listenerSSLConfig :: "reconcile_http_listener_params \<Rightarrow> error + ssl_details option" where
  "listenerSSLConfig params =
     (let tls = l_tls (rl_listenerSpec params) in
      if rl_listenerCertificateID params \<noteq> [] then
        Inr (applyListenerTLSOptions (Some (noSSL\<lparr>sd_certificate_ids := [rl_listenerCertificateID params]\<rparr>)) tls)
      else if tls \<noteq> None then
        (case rl_listenerCertificates params of
           [] \<Rightarrow> Inl (ErrResourceStatus ''Accepted'' ''InvalidParameters''
             (errtext ''listener '' (l_name (rl_listenerSpec params))
               (errtext '' requires certificateRefs or '' listenerTLSOptionOCICertificateOCID '' TLS option'')) None)
         | cert # _ \<Rightarrow> Inr (applyListenerTLSOptions (Some (noSSL\<lparr>sd_certificate_name := ct_name cert\<rparr>)) tls))
      else Inr None)"

definition reconcileHTTPListener :: "lb_env \<Rightarrow> reconcile_http_listener_params \<Rightarrow> unit lb_op" where
  "reconcileHTTPListener w params =
     (let listenerName = l_name (rl_listenerSpec params) in
      case listenerSSLConfig params of
        Inl err \<Rightarrow> eff_fail err
      | Inr ssl \<Rightarrow>
          eff_bind (applyFrontendMTLS w params ssl) (\<lambda>sslConfig.
          eff_bind (eff_attempt (reconcileListenerRoutingPolicy w params)) (\<lambda>r. case r of
            Inl err \<Rightarrow> eff_fail (ErrWrap ''failed to reconcile listener routing policy: '' err [])
          | Inr _ \<Rightarrow>
              (case map_of (rl_knownListeners params) listenerName of
                 Some existing \<Rightarrow> reconcileExistingHTTPListener w params listenerName existing sslConfig
               | None \<Rightarrow> createHTTPListener w params listenerName sslConfig))))"

definition ensureGRPCListenerProtocol :: "lb_env \<Rightarrow> string \<Rightarrow> string \<Rightarrow> unit lb_op" where
  "ensureGRPCListenerProtocol w lb listenerName =
     eff_bind (get_load_balancer w lb) (\<lambda>r. case r of
         Inl err \<Rightarrow> eff_fail (ErrWrap (errtext ''failed to get load balancer '' lb '': '') (ErrService err) [])
       | Inr loadBalancer \<Rightarrow>
           (case map_of (lb_listeners loadBalancer) listenerName of
              None \<Rightarrow> eff_fail (ErrText (errtext ''listener '' listenerName '' not found''))
            | Some listener \<Rightarrow>
                (if str_ptr (ll_protocol listener) = ociListenerProtocolGRPC then eff_return ()
                 else awaited_write w
                   (UpdateListener lb listenerName
                     \<lparr>ul_default_backend_set = ll_default_backend_set listener, ul_port = ll_port listener,
                      ul_protocol = Some ociListenerProtocolGRPC,
                      ul_hostname_names = ll_hostname_names listener,
                      ul_path_route_set = ll_path_route_set listener,
                      ul_routing_policy = ll_routing_policy listener,
                      ul_ssl = sslConfigurationDetailsFromBackendSet (ll_ssl listener),
                      ul_connection = ll_connection listener, ul_rule_sets = ll_rule_sets listener\<rparr>)
                   (errtext ''failed to update listener '' listenerName '' protocol to GRPC'')
                   (errtext ''failed to wait for listener '' listenerName '' protocol update''))))"

text \<open>The effect of an update on a listener: the service replaces all that the details hold.\<close>

definition updatedListener :: "lb_listener \<Rightarrow> update_listener \<Rightarrow> lb_listener" where
  "updatedListener l d =
     \<lparr>ll_name = ll_name l, ll_default_backend_set = ul_default_backend_set d, ll_port = ul_port d,
      ll_protocol = ul_protocol d, ll_hostname_names = ul_hostname_names d,
      ll_path_route_set = ul_path_route_set d, ll_routing_policy = ul_routing_policy d,
      ll_ssl = sslFromDetails (ul_ssl d), ll_connection = ul_connection d, ll_rule_sets = ul_rule_sets d\<rparr>"

lemma loadBalancerListenerSSLConfigurationsEqual_refl [simp]: "loadBalancerListenerSSLConfigurationsEqual c c"
  by (cases c) (simp_all add: loadBalancerListenerSSLConfigurationsEqual_def)

text \<open>
  A listener that was updated needs no further update: whatever the listener was, applying
  the details gives one without changes.
\<close>

theorem listener_update_settles:
  assumes "makeOciListenerUpdateDetails params = Some details"
  shows "makeOciListenerUpdateDetails (params\<lparr>lu_existing := updatedListener (lu_existing params) details\<rparr>) = None"
  using assms
  by (auto simp: makeOciListenerUpdateDetails_def listenerHasChanges_def updatedListener_def Let_def split: if_splits)

definition exampleListener :: lb_listener where
  "exampleListener = \<lparr>ll_name = Some ''http'', ll_default_backend_set = None, ll_port = Some 8080,
     ll_protocol = Some ''HTTP2'', ll_hostname_names = [''h''], ll_path_route_set = None, ll_routing_policy = None,
     ll_ssl = None, ll_connection = None, ll_rule_sets = []\<rparr>"

definition exampleUpdateParams :: listener_update_params where
  "exampleUpdateParams = \<lparr>lu_existing = exampleListener, lu_listenerName = ''http'', lu_port = 80,
     lu_defaultBackendSetName = ''default'', lu_sslConfig = None, lu_preserveGRPC = False\<rparr>"

theorem listener_update_settles_witness:
  "\<exists>details. makeOciListenerUpdateDetails exampleUpdateParams = Some details \<and>
    makeOciListenerUpdateDetails (exampleUpdateParams\<lparr>lu_existing := updatedListener exampleListener details\<rparr>) = None"
proof -
  obtain details where d: "makeOciListenerUpdateDetails exampleUpdateParams = Some details"
    by (simp add: makeOciListenerUpdateDetails_def listenerHasChanges_def exampleUpdateParams_def exampleListener_def Let_def)
  from listener_update_settles [OF d] d show ?thesis by (auto simp: exampleUpdateParams_def)
qed

text \<open>
  Switching a listener to gRPC writes at most one update of that listener, which changes
  its protocol and nothing else.
\<close>

theorem ensureGRPC_changes_protocol_only:
  assumes "env_load_balancer w h lb = Inr loadBalancer" "map_of (lb_listeners loadBalancer) name = Some listener"
  shows "writes_of (snd (ensureGRPCListenerProtocol w lb name h)) = writes_of h \<and>
      str_ptr (ll_protocol listener) = ociListenerProtocolGRPC \<or>
    (\<exists>details. writes_of (snd (ensureGRPCListenerProtocol w lb name h)) =
        writes_of h @ [UpdateListener lb name details] \<and>
      updatedListener listener details =
        listener\<lparr>ll_protocol := Some ociListenerProtocolGRPC,
          ll_ssl := sslFromDetails (sslConfigurationDetailsFromBackendSet (ll_ssl listener))\<rparr>)"
  using assms
  by (cases "str_ptr (ll_protocol listener) = ociListenerProtocolGRPC")
    (simp_all add: ensureGRPCListenerProtocol_def eff_bind_Inr [OF get_run(1)] eff_return_run
      writes_of_awaited_write updatedListener_def)

lemma sslDetails_inverse: "sslFromDetails (sslConfigurationDetailsFromBackendSet c) = c"
  by (cases c) (simp_all add: sslFromDetails_def sslConfigurationDetailsFromBackendSet_def)

definition exampleLoadBalancer :: load_balancer where
  "exampleLoadBalancer = \<lparr>lb_compartment = None, lb_ip_addresses = [], lb_listeners = [(''http'', exampleListener)], lb_backend_sets = [],
     lb_routing_policies = [], lb_certificates = []\<rparr>"

theorem ensureGRPC_changes_protocol_only_witness:
  "\<exists>details. writes_of (snd (ensureGRPCListenerProtocol
      (agreeable_env\<lparr>env_load_balancer := \<lambda>_ _. Inr exampleLoadBalancer\<rparr>) ''lb'' ''http'' [])) =
      [UpdateListener ''lb'' ''http'' details] \<and>
    updatedListener exampleListener details = exampleListener\<lparr>ll_protocol := Some ociListenerProtocolGRPC\<rparr>"
  using ensureGRPC_changes_protocol_only [of "agreeable_env\<lparr>env_load_balancer := \<lambda>_ _. Inr exampleLoadBalancer\<rparr>"
      "[]" "''lb''" exampleLoadBalancer "''http''" exampleListener]
  by (simp add: exampleLoadBalancer_def sslDetails_inverse)
    (simp add: exampleListener_def ociListenerProtocolGRPC_def)

section \<open>Removing what the Gateway no longer has\<close>

record remove_missing_params =
  rm_loadBalancerID :: string
  rm_knownListeners :: "lb_listener go_map"
  rm_knownRoutingPolicies :: "routing_policy go_map"
  rm_cleanupListenerNames :: "string list option"
  rm_gatewayListeners :: "gw_listener list"

definition deleteMissingListener :: "lb_env \<Rightarrow> string \<Rightarrow> lb_listener \<Rightarrow> unit lb_op" where
  "deleteMissingListener w lb listener =
     awaited_write w (DeleteListener lb (ll_name listener))
       (errtext ''failed to delete listener '' (str_ptr (ll_name listener)) [])
       (errtext ''failed to wait for listener '' (str_ptr (ll_name listener)) '' deletion'')"

definition isDefaultCatchAllOnlyRoutingPolicy :: "routing_policy \<Rightarrow> bool" where
  "isDefaultCatchAllOnlyRoutingPolicy policy =
     (case rp_rules policy of
        [rule] \<Rightarrow> ruleName rule = defaultCatchAllRuleName \<and> str_ptr (rule_condition rule) = defaultCatchAllCondition
      | _ \<Rightarrow> False)"

definition shouldRemoveOrphanedListenerRoutingPolicy ::
    "string \<Rightarrow> routing_policy \<Rightarrow> string list \<Rightarrow> string list \<Rightarrow> string list \<Rightarrow> bool \<Rightarrow> bool" where
  "shouldRemoveOrphanedListenerRoutingPolicy policyName policy desired attached cleanup hasCleanupScope =
     (if \<not> isControllerManagedListenerPolicyName policyName then False
      else if hasCleanupScope \<and> policyName \<notin> set cleanup then False
      else if \<not> isDefaultCatchAllOnlyRoutingPolicy policy then False
      else if policyName \<in> set desired then False
      else if policyName \<in> set attached then False
      else True)"

definition desiredPolicyNames :: "gw_listener list \<Rightarrow> string list" where
  "desiredPolicyNames listeners =
     map (\<lambda>l. listenerPolicyName (l_name l))
       (filter (\<lambda>l. l_protocol l = ''HTTP'' \<or> l_protocol l = ''HTTPS'') listeners)"

definition attachedPolicyNames :: "lb_listener go_map \<Rightarrow> string list" where
  "attachedPolicyNames listeners = List.map_filter (\<lambda>(_, l). ll_routing_policy l) listeners"

definition cleanupPolicyNames :: "string list option \<Rightarrow> string list" where
  "cleanupPolicyNames names = (case names of None \<Rightarrow> [] | Some ns \<Rightarrow> map listenerPolicyName ns)"

definition orphanedPolicy :: "remove_missing_params \<Rightarrow> string \<times> routing_policy \<Rightarrow> bool" where
  "orphanedPolicy params = (\<lambda>(policyName, policy).
     shouldRemoveOrphanedListenerRoutingPolicy policyName policy
       (desiredPolicyNames (rm_gatewayListeners params))
       (attachedPolicyNames (rm_knownListeners params))
       (cleanupPolicyNames (rm_cleanupListenerNames params))
       (rm_cleanupListenerNames params \<noteq> None))"

definition removeOrphanedListenerRoutingPolicies :: "lb_env \<Rightarrow> remove_missing_params \<Rightarrow> error list lb_op" where
  "removeOrphanedListenerRoutingPolicies w params =
     eff_bind (eff_ask (env_order w)) (\<lambda>order.
       eff_collect (\<lambda>(policyName, _). deleteMissingRoutingPolicy w (rm_loadBalancerID params) (Some policyName))
         (filter (orphanedPolicy params) (map_iter order (rm_knownRoutingPolicies params))))"

definition missingListener :: "remove_missing_params \<Rightarrow> string \<times> lb_listener \<Rightarrow> bool" where
  "missingListener params = (\<lambda>(listenerName, _).
     (case rm_cleanupListenerNames params of None \<Rightarrow> True | Some names \<Rightarrow> listenerName \<in> set names) \<and>
     listenerName \<notin> l_name ` set (rm_gatewayListeners params))"

definition removeMissingListeners :: "lb_env \<Rightarrow> remove_missing_params \<Rightarrow> unit lb_op" where
  "removeMissingListeners w params =
     eff_bind (eff_ask (env_order w)) (\<lambda>order.
     eff_bind (eff_collect (\<lambda>(_, listener).
         eff_bind (deleteMissingListener w (rm_loadBalancerID params) listener)
           (\<lambda>_. deleteMissingRoutingPolicy w (rm_loadBalancerID params) (ll_routing_policy listener)))
       (filter (missingListener params) (map_iter order (rm_knownListeners params)))) (\<lambda>errs.
     eff_bind (removeOrphanedListenerRoutingPolicies w params) (\<lambda>orphanErrs.
       (if errs @ orphanErrs = [] then eff_return () else eff_fail (ErrJoin (errs @ orphanErrs))))))"

text \<open>The calls the removal may issue.\<close>

fun removalAllowed :: "remove_missing_params \<Rightarrow> lb_call \<Rightarrow> bool" where
  "removalAllowed params (DeleteListener lb name) =
     (lb = rm_loadBalancerID params \<and>
      list_ex (\<lambda>e. missingListener params e \<and> ll_name (snd e) = name) (rm_knownListeners params))"
| "removalAllowed params (DeleteRoutingPolicy lb name) =
     (lb = rm_loadBalancerID params \<and>
      (list_ex (\<lambda>e. missingListener params e \<and> ll_routing_policy (snd e) = Some name) (rm_knownListeners params) \<or>
       list_ex (\<lambda>e. orphanedPolicy params e \<and> fst e = name) (rm_knownRoutingPolicies params)))"
| "removalAllowed params (WaitFor i) = True"
| "removalAllowed params c = False"

lemma emits_deletePolicy:
  "(\<And>n. p = Some n \<Longrightarrow> P (DeleteRoutingPolicy lb n)) \<Longrightarrow> (\<And>i. P (WaitFor i)) \<Longrightarrow>
    emits P (deleteMissingRoutingPolicy w lb p)"
  by (auto simp: deleteMissingRoutingPolicy_def intro!: emits_intros split: option.split)


lemma removeMissing_issues:
  assumes "(name, listener) \<in> set (rm_knownListeners params)" "missingListener params (name, listener)"
  shows "issues (DeleteListener (rm_loadBalancerID params) (ll_name listener)) (removeMissingListeners w params)"
proof -
  let ?del = "\<lambda>(_ :: string, listener). eff_bind (deleteMissingListener w (rm_loadBalancerID params) listener)
    (\<lambda>_. deleteMissingRoutingPolicy w (rm_loadBalancerID params) (ll_routing_policy listener))"
  have ext: "extends (deleteMissingRoutingPolicy w lb p)" for lb p
    unfolding extends_def by (rule emits_deletePolicy) simp_all
  then have ext_del: "\<forall>e. extends (?del e)"
    by (auto simp: extends_def deleteMissingListener_def intro!: emits_bind emits_awaited_write)
  have "issues (DeleteListener (rm_loadBalancerID params) (ll_name listener)) (deleteMissingListener w (rm_loadBalancerID params) listener)"
    by (auto simp: issues_def deleteMissingListener_def awaited_write_run split: sum.split option.split)
  then have one: "issues (DeleteListener (rm_loadBalancerID params) (ll_name listener)) (?del (name, listener))"
    using ext by (auto intro: issues_bind)
  have "issues (DeleteListener (rm_loadBalancerID params) (ll_name listener))
      (eff_collect ?del (filter (missingListener params) (map_iter order (rm_knownListeners params))))" for order
    by (rule issues_collect [OF _ one ext_del]) (simp add: assms)
  moreover have "extends (removeOrphanedListenerRoutingPolicies w params)"
    using ext unfolding removeOrphanedListenerRoutingPolicies_def extends_def
    by (auto intro!: emits_bind emits_ask emits_collect split: prod.split)
  then have "extends (eff_bind (removeOrphanedListenerRoutingPolicies w params) (\<lambda>orphanErrs.
      (if errs @ orphanErrs = [] then eff_return () else eff_fail (ErrJoin (errs @ orphanErrs)))))" for errs
    unfolding extends_def by (auto intro!: emits_bind intro: emits_return emits_fail)
  ultimately show ?thesis
    unfolding removeMissingListeners_def
    by (intro issues_later issues_bind) (auto simp: extends_def eff_ask_run intro: emits_ask)
qed

text \<open>
  Every missing listener gets its delete request, whatever happens to the others.
\<close>

theorem removeMissingListeners_complete:
  assumes "(name, listener) \<in> set (rm_knownListeners params)" "missingListener params (name, listener)"
  shows "issues (DeleteListener (rm_loadBalancerID params) (ll_name listener)) (removeMissingListeners w params)"
  using assms by (rule removeMissing_issues)

definition exampleRemoval :: remove_missing_params where
  "exampleRemoval = \<lparr>rm_loadBalancerID = ''lb'', rm_knownListeners = [(''http'', exampleListener)],
     rm_knownRoutingPolicies = [], rm_cleanupListenerNames = None, rm_gatewayListeners = []\<rparr>"

theorem removeMissingListeners_complete_witness:
  "issues (DeleteListener ''lb'' (Some ''http'')) (removeMissingListeners agreeable_env exampleRemoval)"
  using removeMissingListeners_complete [of "''http''" exampleListener exampleRemoval agreeable_env]
  by (simp add: exampleRemoval_def missingListener_def exampleListener_def)

section \<open>References to backend sets\<close>

definition backendSetReferenced :: "lb_env \<Rightarrow> string \<Rightarrow> string \<Rightarrow> bool lb_op" where
  "backendSetReferenced w lb backendSetName =
     eff_bind (get_load_balancer w lb) (\<lambda>r. case r of
         Inl err \<Rightarrow> eff_fail (ErrWrap (errtext ''failed to get load balancer '' lb '': '') (ErrService err) [])
       | Inr loadBalancer \<Rightarrow>
           eff_bind (eff_ask (env_order w)) (\<lambda>order.
             eff_return (list_ex (\<lambda>(_, policy).
               list_ex (\<lambda>rule. routingRuleForwardsToBackendSet rule backendSetName) (rp_rules policy))
               (map_iter order (lb_routing_policies loadBalancer)))))"

end
