(* ===== verification/Certificates.thy ===== *)
theory Certificates
  imports Listeners
begin

text \<open>
  Certificates of listeners (\<open>oci_load_balancer_model.go\<close>, \<open>gateway_model.go\<close>): which
  certificate a listener uses, uploading those of Secrets, and removing the ones that are
  no longer used. Shown: the certificates recorded on a Gateway are read back; a certificate
  that the load balancer has is never uploaded again; the removal never deletes a desired
  certificate, deletes only certificates of the controller, and reaches all of them
  whatever fails.
\<close>

section \<open>Which certificate\<close>

definition listenerOCICertificateOCID :: "gw_listener \<Rightarrow> string" where
  "listenerOCICertificateOCID listener =
     (case l_tls listener of
        None \<Rightarrow> []
      | Some tls \<Rightarrow> map_get (tls_options tls) listenerTLSOptionOCICertificateOCID)"

definition certificateIDsByListener :: "gw_listener list \<Rightarrow> string go_map" where
  "certificateIDsByListener listeners =
     slice_to_map l_name listenerOCICertificateOCID [] (filter (\<lambda>l. listenerOCICertificateOCID l \<noteq> []) listeners)"

definition gatewayCertificateIDsByListener :: "gateway \<Rightarrow> string go_map" where
  "gatewayCertificateIDsByListener gateway = certificateIDsByListener (gw_listeners gateway)"

definition invalidOption :: "gw_listener \<Rightarrow> string \<Rightarrow> error" where
  "invalidOption listener problem = ErrResourceStatus ''Accepted'' ''InvalidParameters''
     (errtext ''listener '' (l_name listener) (errtext '' option '' listenerTLSOptionOCICertificateOCID problem)) None"

fun validateListenerCertificateOptions :: "gw_listener list \<Rightarrow> error option" where
  "validateListenerCertificateOptions [] = None"
| "validateListenerCertificateOptions (listener # rest) =
     (if listenerOCICertificateOCID listener = [] then validateListenerCertificateOptions rest
      else if l_protocol listener \<noteq> ''HTTPS'' \<and> l_protocol listener \<noteq> ''TLS'' then
        Some (invalidOption listener '' can only be used with HTTPS or TLS listeners'')
      else case l_tls listener of
          None \<Rightarrow> validateListenerCertificateOptions rest
        | Some tls \<Rightarrow>
            (if tls_mode tls \<noteq> None \<and> tls_mode tls \<noteq> Some ''Terminate'' then
               Some (invalidOption listener '' can only be used with Terminate TLS mode'')
             else if tls_cert_refs tls \<noteq> [] then
               Some (invalidOption listener '' cannot be used together with listener.tls.certificateRefs'')
             else validateListenerCertificateOptions rest))"

definition validateGatewayCertificateOptions :: "gateway \<Rightarrow> error option" where
  "validateGatewayCertificateOptions gateway = validateListenerCertificateOptions (gw_listeners gateway)"

section \<open>Names recorded on a Gateway\<close>

definition normalizeProgrammedCertificateNames :: "string list \<Rightarrow> string list" where
  "normalizeProgrammedCertificateNames certNames = remdups_adj (sort_strings (filter (\<lambda>n. n \<noteq> []) certNames))"

definition programmedCertificateNamesFromSecrets :: "nat list \<Rightarrow> k8s_secret go_map \<Rightarrow> string list" where
  "programmedCertificateNamesFromSecrets order gatewaySecrets =
     normalizeProgrammedCertificateNames (map (\<lambda>(_, secret). ociCertificateNameFromSecret secret) (map_iter order gatewaySecrets))"

definition programmedGatewayCertificatesAnnotation :: "string list \<Rightarrow> string" where
  "programmedGatewayCertificatesAnnotation certNames = str_join '','' (normalizeProgrammedCertificateNames certNames)"

definition parseProgrammedGatewayCertificatesAnnotation :: "string \<Rightarrow> string list" where
  "parseProgrammedGatewayCertificatesAnnotation annotationValue =
     (if annotationValue = [] then []
      else normalizeProgrammedCertificateNames (map trim_space (str_split (CHR '','') annotationValue)))"

definition programmedGatewayListenersAnnotation :: "gw_listener list \<Rightarrow> string" where
  "programmedGatewayListenersAnnotation listeners = str_join '','' (sort_strings (map l_name listeners))"

lemma distinct_remdups_adj_sorted: "sorted xs \<Longrightarrow> distinct (remdups_adj xs)"
  for xs :: "'a :: linorder list"
  by (induction xs rule: remdups_adj.induct) (auto simp: less_le order.antisym)

lemma sorted_remdups_adj_sort: "sorted (remdups_adj (sort_strings xs)) \<and> distinct (remdups_adj (sort_strings xs))"
  using sorted_sort_strings [of xs] by (simp add: sorted_remdups_adj distinct_remdups_adj_sorted)

lemma set_normalize [simp]: "set (normalizeProgrammedCertificateNames ns) = set ns - {[]}"
  by (auto simp: normalizeProgrammedCertificateNames_def)

lemma sorted_normalize: "sorted (normalizeProgrammedCertificateNames ns)"
  using sorted_remdups_adj_sort by (simp add: normalizeProgrammedCertificateNames_def)

lemma distinct_normalize: "distinct (normalizeProgrammedCertificateNames ns)"
  using sorted_remdups_adj_sort by (simp add: normalizeProgrammedCertificateNames_def)

lemma normalize_by_set: "set ms - {[]} = set ns - {[]} \<Longrightarrow>
    normalizeProgrammedCertificateNames ms = normalizeProgrammedCertificateNames ns"
  by (rule sorted_distinct_set_unique) (simp_all add: sorted_normalize distinct_normalize)

lemma normalize_idem: "normalizeProgrammedCertificateNames (normalizeProgrammedCertificateNames ns) =
    normalizeProgrammedCertificateNames ns"
  by (rule normalize_by_set) simp

text \<open>
  The certificates recorded in the annotation of a Gateway are read back sorted and without
  duplicates, whenever their names have neither commas nor outer white space.
\<close>

theorem programmed_certificates_roundtrip:
  assumes "\<forall>n\<in>set names. CHR '','' \<notin> set n \<and> trimmed n"
  shows "parseProgrammedGatewayCertificatesAnnotation (programmedGatewayCertificatesAnnotation names) =
    normalizeProgrammedCertificateNames names"
proof -
  let ?ns = "normalizeProgrammedCertificateNames names"
  have ok: "CHR '','' \<notin> set n" "trim_space n = n" "n \<noteq> []" if "n \<in> set ?ns" for n
    using that assms trim_space_trimmed by auto
  show ?thesis
  proof (cases "?ns = []")
    case True
    then show ?thesis
      by (simp add: programmedGatewayCertificatesAnnotation_def parseProgrammedGatewayCertificatesAnnotation_def)
  next
    case False
    then have "str_join '','' ?ns \<noteq> []" using ok(3) by (cases ?ns rule: remdups_adj.cases) auto
    moreover have "str_split (CHR '','') (str_join '','' ?ns) = ?ns"
      using str_split_join [OF False, of "CHR '',''"] ok(1) by simp
    moreover have "map trim_space ?ns = ?ns" using ok(2) by (rule map_idI)
    ultimately show ?thesis
      by (simp add: programmedGatewayCertificatesAnnotation_def parseProgrammedGatewayCertificatesAnnotation_def
          normalize_idem)
  qed
qed

theorem programmed_certificates_roundtrip_witness:
  "parseProgrammedGatewayCertificatesAnnotation (programmedGatewayCertificatesAnnotation [''ns-b-rev-2'', ''ns-a-rev-1'', ''ns-b-rev-2'']) =
    normalizeProgrammedCertificateNames [''ns-b-rev-2'', ''ns-a-rev-1'', ''ns-b-rev-2'']"
proof (rule programmed_certificates_roundtrip)
  show "\<forall>n\<in>set [''ns-b-rev-2'', ''ns-a-rev-1'', ''ns-b-rev-2'']. CHR '','' \<notin> set n \<and> trimmed n" by code_simp
qed

section \<open>Uploading the certificates of Secrets\<close>

definition loadBalancerCertificateLockKey :: "string \<Rightarrow> string \<Rightarrow> string" where
  "loadBalancerCertificateLockKey loadBalancerID certificateName = loadBalancerID @ ''/'' @ certificateName"

definition certificateRefNamespacedName :: "string \<Rightarrow> secret_ref \<Rightarrow> string \<times> string" where
  "certificateRefNamespacedName gatewayNamespace ref =
     ((case sr_namespace ref of Some n \<Rightarrow> n | None \<Rightarrow> gatewayNamespace), sr_name ref)"

definition getListenerCertificateSecret :: "lb_env \<Rightarrow> string \<Rightarrow> secret_ref \<Rightarrow> k8s_secret lb_op" where
  "getListenerCertificateSecret w gatewayNamespace ref =
     (case certificateRefNamespacedName gatewayNamespace ref of (ns, name) \<Rightarrow>
        eff_bind (get_secret w ns name) (\<lambda>r. case r of
            Inl err \<Rightarrow> eff_fail (ErrWrap (errtext ''failed to get secret '' (sr_name ref) '': '') err [])
          | Inr secret \<Rightarrow> eff_return secret))"

fun resolveCAPEMs :: "lb_env \<Rightarrow> gateway \<Rightarrow> object_ref list \<Rightarrow> string list lb_op" where
  "resolveCAPEMs w gateway [] = eff_return []"
| "resolveCAPEMs w gateway (ref # refs) =
     eff_bind (resolveFrontendMTLSCARef w gateway ref) (\<lambda>pem.
     eff_bind (resolveCAPEMs w gateway refs) (\<lambda>pems. eff_return (trim_space pem # pems)))"

definition frontendMTLSCAForListenerCertificate :: "lb_env \<Rightarrow> gateway \<Rightarrow> gw_listener \<Rightarrow> string lb_op" where
  "frontendMTLSCAForListenerCertificate w gateway listenerSpec =
     (let optionCAIDs = frontendMTLSOCICABundleIDs gateway (l_port listenerSpec);
          validation = effectiveFrontendTLSValidation gateway (l_port listenerSpec)
      in if validation = None \<and> optionCAIDs = [] then eff_return []
         else case resolveFrontendMTLSSettings gateway (l_port listenerSpec) validation optionCAIDs of
             Inl err \<Rightarrow> eff_fail err
           | Inr settings \<Rightarrow>
               (if fs_ociCAIDs settings \<noteq> [] then eff_fail (requireCertificateOption (l_name listenerSpec))
                else eff_bind (resolveCAPEMs w gateway (fs_caRefs settings)) (\<lambda>pems.
                  eff_return (str_join [CHR 0x0A] pems))))"

definition tlsCertKey :: string where
  "tlsCertKey = ''tls.crt''"

definition tlsPrivateKeyKey :: string where
  "tlsPrivateKeyKey = ''tls.key''"

definition createListenerCertificate ::
    "lb_env \<Rightarrow> string \<Rightarrow> string \<Rightarrow> k8s_secret \<Rightarrow> string \<Rightarrow> lb_certificate lb_op" where
  "createListenerCertificate w loadBalancerID certName secret caPEM =
     eff_bind (awaited_write w
       (CreateCertificate loadBalancerID
         \<lparr>cc_name = certName, cc_public = map_get (sec_data secret) tlsCertKey,
          cc_private = map_get (sec_data secret) tlsPrivateKeyKey,
          cc_ca = (if caPEM \<noteq> [] then Some caPEM else None)\<rparr>)
       (errtext ''failed to create certificate '' certName [])
       (errtext ''failed to wait for certificate '' certName [])) (\<lambda>_.
       eff_return \<lparr>ct_name = Some certName, ct_public = Some (map_get (sec_data secret) tlsCertKey)\<rparr>)"

text \<open>
  The certificates known so far are threaded through. \<open>cache\<close> is what the certificate lock of
  a key holds when its operation runs; the lock itself is the component of keyed locks.
\<close>

type_synonym cert_cache = "lb_call list \<Rightarrow> string \<Rightarrow> lb_certificate option"

definition createUnderLock ::
    "cert_cache \<Rightarrow> lb_env \<Rightarrow> string \<Rightarrow> string \<Rightarrow> k8s_secret \<Rightarrow> string \<Rightarrow> lb_certificate go_map \<Rightarrow>
      (lb_certificate \<times> lb_certificate go_map) lb_op" where
  "createUnderLock cache w loadBalancerID certName secret caPEM known =
     eff_bind (eff_ask (\<lambda>h. cache h (loadBalancerCertificateLockKey loadBalancerID certName))) (\<lambda>cached. case cached of
         Some cert \<Rightarrow> eff_return (cert, AList.update certName cert known)
       | None \<Rightarrow>
           (case map_of known certName of
              Some cert \<Rightarrow> eff_return (cert, known)
            | None \<Rightarrow>
                eff_bind (createListenerCertificate w loadBalancerID certName secret caPEM) (\<lambda>cert.
                  eff_return (cert, AList.update certName cert known))))"

definition reconcileListenerSecretCertificate ::
    "cert_cache \<Rightarrow> lb_env \<Rightarrow> string \<Rightarrow> string \<Rightarrow> gateway option \<Rightarrow> gw_listener \<Rightarrow> secret_ref \<Rightarrow>
      lb_certificate go_map \<Rightarrow> (lb_certificate \<times> lb_certificate go_map) lb_op" where
  "reconcileListenerSecretCertificate cache w loadBalancerID gatewayNamespace gateway listenerSpec ref known =
     eff_bind (getListenerCertificateSecret w gatewayNamespace ref) (\<lambda>secret.
     eff_bind (case gateway of
         None \<Rightarrow> eff_return []
       | Some g \<Rightarrow> frontendMTLSCAForListenerCertificate w g listenerSpec) (\<lambda>caPEM.
       (let certName = (if caPEM \<noteq> [] then frontendMTLSListenerCertificateName secret (l_port listenerSpec) caPEM
             else ociCertificateNameFromSecret secret)
        in case map_of known certName of
            Some cert \<Rightarrow> eff_return (cert, known)
          | None \<Rightarrow> createUnderLock cache w loadBalancerID certName secret caPEM known)))"

fun secretCertificatesLoop ::
    "(secret_ref \<Rightarrow> lb_certificate go_map \<Rightarrow> (lb_certificate \<times> lb_certificate go_map) lb_op) \<Rightarrow> string \<Rightarrow>
      (string \<times> string) set \<Rightarrow> secret_ref list \<Rightarrow> lb_certificate go_map \<Rightarrow>
      (lb_certificate list \<times> lb_certificate go_map) lb_op" where
  "secretCertificatesLoop one ns seen [] known = eff_return ([], known)"
| "secretCertificatesLoop one ns seen (ref # refs) known =
     (if certificateRefNamespacedName ns ref \<in> seen then secretCertificatesLoop one ns seen refs known
      else eff_bind (one ref known) (\<lambda>(cert, known1).
        eff_bind (secretCertificatesLoop one ns (insert (certificateRefNamespacedName ns ref) seen) refs known1)
          (\<lambda>(certs, known2). eff_return (cert # certs, known2))))"

definition reconcileListenerSecretCertificates ::
    "cert_cache \<Rightarrow> lb_env \<Rightarrow> string \<Rightarrow> string \<Rightarrow> gateway option \<Rightarrow> gw_listener \<Rightarrow> lb_certificate go_map \<Rightarrow>
      (lb_certificate list \<times> lb_certificate go_map) lb_op" where
  "reconcileListenerSecretCertificates cache w loadBalancerID gatewayNamespace gateway listenerSpec known =
     (case l_tls listenerSpec of
        None \<Rightarrow> eff_return ([], known)
      | Some tls \<Rightarrow> secretCertificatesLoop
          (reconcileListenerSecretCertificate cache w loadBalancerID gatewayNamespace gateway listenerSpec)
          gatewayNamespace {} (tls_cert_refs tls) known)"

record listener_certificates =
  lc_reconciled :: "lb_certificate go_map"
  lc_byListener :: "lb_certificate list go_map"
  lc_idsByListener :: "string go_map"

fun listenersCertificatesLoop ::
    "cert_cache \<Rightarrow> lb_env \<Rightarrow> string \<Rightarrow> gateway \<Rightarrow> string go_map \<Rightarrow> gw_listener list \<Rightarrow> lb_certificate go_map \<Rightarrow>
      lb_certificate list go_map \<Rightarrow> listener_certificates lb_op" where
  "listenersCertificatesLoop cache w lb gateway ids [] known byListener =
     eff_return \<lparr>lc_reconciled = known, lc_byListener = byListener, lc_idsByListener = ids\<rparr>"
| "listenersCertificatesLoop cache w lb gateway ids (l # ls) known byListener =
     (if map_of ids (l_name l) \<noteq> None then listenersCertificatesLoop cache w lb gateway ids ls known byListener
      else eff_bind (reconcileListenerSecretCertificates cache w lb (gw_namespace gateway) (Some gateway) l known)
        (\<lambda>(certs, known1). listenersCertificatesLoop cache w lb gateway ids ls known1
          (if certs \<noteq> [] then AList.update (l_name l) certs byListener else byListener)))"

definition reconcileListenersCertificates ::
    "cert_cache \<Rightarrow> lb_env \<Rightarrow> string \<Rightarrow> gateway \<Rightarrow> gw_listener list \<Rightarrow> lb_certificate go_map \<Rightarrow>
      listener_certificates lb_op" where
  "reconcileListenersCertificates cache w loadBalancerID gateway gatewayListeners knownCertificates =
     (let listeners = (if gatewayListeners = [] then gw_listeners gateway else gatewayListeners)
      in listenersCertificatesLoop cache w loadBalancerID gateway (certificateIDsByListener listeners) listeners
           knownCertificates [])"

section \<open>Removing unused certificates\<close>

definition certificateNamesFromListenerCertificates :: "nat list \<Rightarrow> lb_certificate list go_map \<Rightarrow> string list" where
  "certificateNamesFromListenerCertificates order listenerCertificates =
     normalizeProgrammedCertificateNames
       (concat (map (\<lambda>(_, certs). List.map_filter ct_name certs) (map_iter order listenerCertificates)))"

definition knownFrontendMTLSCertificateNames :: "nat list \<Rightarrow> lb_certificate go_map \<Rightarrow> string list \<Rightarrow> string list" where
  "knownFrontendMTLSCertificateNames order knownCertificates controllerCertificates =
     (let prefixes = map (\<lambda>n. frontendMTLSCertificateRootName n @ ''-fmtls-'')
            (normalizeProgrammedCertificateNames controllerCertificates)
      in if prefixes = [] then []
         else normalizeProgrammedCertificateNames
           (filter (\<lambda>n. list_ex (has_prefix n) prefixes) (map fst (map_iter order knownCertificates))))"

record remove_certificates_params =
  rc_loadBalancerID :: string
  rc_previous :: "string list"
  rc_desired :: "string list"
  rc_known :: "lb_certificate go_map"

definition deleteCertificate :: "lb_env \<Rightarrow> string \<Rightarrow> string \<times> lb_certificate \<Rightarrow> unit lb_op" where
  "deleteCertificate w loadBalancerID = (\<lambda>(certName, cert).
     awaited_write w (DeleteCertificate loadBalancerID (ct_name cert))
       (errtext ''failed to delete certificate '' certName [])
       (errtext ''failed to wait for certificate '' certName '' deletion''))"

text \<open>The names the loop goes through, and the certificates it deletes.\<close>

definition cleanupCandidates :: "nat list \<Rightarrow> remove_certificates_params \<Rightarrow> string list" where
  "cleanupCandidates order params =
     normalizeProgrammedCertificateNames
       (rc_previous params @ knownFrontendMTLSCertificateNames order (rc_known params)
         (rc_desired params @ rc_previous params))"

definition unusedCertificates :: "nat list \<Rightarrow> remove_certificates_params \<Rightarrow> (string \<times> lb_certificate) list" where
  "unusedCertificates order params =
     List.map_filter (\<lambda>name. if name \<in> set (rc_desired params) then None
       else map_option (Pair name) (map_of (rc_known params) name)) (cleanupCandidates order params)"

definition removeUnusedCertificates :: "lb_env \<Rightarrow> remove_certificates_params \<Rightarrow> unit lb_op" where
  "removeUnusedCertificates w params =
     eff_bind (eff_ask (env_order w)) (\<lambda>order.
     eff_bind (eff_collect (deleteCertificate w (rc_loadBalancerID params)) (unusedCertificates order params)) (\<lambda>errs.
     eff_bind (eff_ask (env_ctx_err w)) (\<lambda>ctxErr. case ctxErr of
         Some err \<Rightarrow> eff_fail (ErrWrap ''failed to remove unused certificates: '' err [])
       | None \<Rightarrow> if errs \<noteq> [] then eff_fail (ErrJoin errs) else eff_return ())))"

text \<open>The certificates that belong to the controller: recorded ones, and those for frontend mTLS.\<close>

definition controllerCertificate :: "remove_certificates_params \<Rightarrow> string \<Rightarrow> bool" where
  "controllerCertificate params name \<longleftrightarrow> name \<in> set (rc_previous params) \<or>
     (\<exists>c\<in>set (rc_desired params @ rc_previous params).
       c \<noteq> [] \<and> has_prefix name (frontendMTLSCertificateRootName c @ ''-fmtls-''))"

fun certificateRemovalAllowed :: "remove_certificates_params \<Rightarrow> lb_call \<Rightarrow> bool" where
  "certificateRemovalAllowed params (DeleteCertificate lb ref) =
     (lb = rc_loadBalancerID params \<and> (\<exists>name cert. map_of (rc_known params) name = Some cert \<and> ct_name cert = ref \<and>
       name \<notin> set (rc_desired params) \<and> controllerCertificate params name))"
| "certificateRemovalAllowed params (WaitFor i) = True"
| "certificateRemovalAllowed params c = False"

lemma knownFrontendMTLS_set:
  "name \<in> set (knownFrontendMTLSCertificateNames order known certs) \<longleftrightarrow> name \<noteq> [] \<and> name \<in> fst ` set known \<and>
    (\<exists>c\<in>set certs. c \<noteq> [] \<and> has_prefix name (frontendMTLSCertificateRootName c @ ''-fmtls-''))"
proof (cases "normalizeProgrammedCertificateNames certs = []")
  case True
  then have "set certs - {[]} = {}" by (metis set_normalize list.set(1))
  with True show ?thesis by (auto simp: knownFrontendMTLSCertificateNames_def)
next
  case False
  then show ?thesis by (auto simp: knownFrontendMTLSCertificateNames_def Let_def list_ex_iff)
qed

lemma set_unusedCertificates:
  "(name, cert) \<in> set (unusedCertificates order params) \<longleftrightarrow> name \<noteq> [] \<and>
    map_of (rc_known params) name = Some cert \<and> name \<notin> set (rc_desired params) \<and> controllerCertificate params name"
proof -
  have "(name, cert) \<in> set (unusedCertificates order params) \<longleftrightarrow> name \<in> set (cleanupCandidates order params) \<and>
      name \<notin> set (rc_desired params) \<and> map_of (rc_known params) name = Some cert"
    by (force simp: unusedCertificates_def map_filter_def split: if_splits)
  moreover have "name \<in> fst ` set (rc_known params)" if "map_of (rc_known params) name = Some cert"
    using that map_of_eq_None_iff [of "rc_known params" name] by (cases "name \<in> fst ` set (rc_known params)") auto
  ultimately show ?thesis
    unfolding cleanupCandidates_def controllerCertificate_def
    by (simp add: knownFrontendMTLS_set) blast
qed

text \<open>
  The clean-up deletes only certificates of the controller that the load balancer has and no
  listener of the Gateway uses.
\<close>

theorem removeUnusedCertificates_safe:
  "emits (certificateRemovalAllowed params) (removeUnusedCertificates w params)"
proof -
  have "emits (certificateRemovalAllowed params) (deleteCertificate w (rc_loadBalancerID params) e)"
    if "e \<in> set (unusedCertificates order params)" for e order
  proof -
    obtain name cert where e: "e = (name, cert)" by (cases e)
    with that have "certificateRemovalAllowed params (DeleteCertificate (rc_loadBalancerID params) (ct_name cert))"
      by (auto simp: set_unusedCertificates)
    then show ?thesis unfolding e deleteCertificate_def by (simp add: emits_awaited_write)
  qed
  then show ?thesis
    unfolding removeUnusedCertificates_def
    by (intro emits_bind emits_ask emits_collect)
      (auto intro: emits_return emits_fail split: option.split)
qed

lemma deleteCertificate_issues:
  "issues (DeleteCertificate lb (ct_name cert)) (deleteCertificate w lb (name, cert))"
  by (auto simp: issues_def deleteCertificate_def awaited_write_run split: sum.split option.split)

text \<open>
  Every certificate of the controller that is known and not desired gets its delete request,
  whatever happens to the others.
\<close>

theorem removeUnusedCertificates_complete:
  assumes "map_of (rc_known params) name = Some cert" "name \<notin> set (rc_desired params)" "name \<noteq> []"
    and "controllerCertificate params name"
  shows "issues (DeleteCertificate (rc_loadBalancerID params) (ct_name cert)) (removeUnusedCertificates w params)"
proof -
  have ext: "\<forall>e. extends (deleteCertificate w (rc_loadBalancerID params) e)"
    by (auto simp: extends_def deleteCertificate_def intro!: emits_awaited_write)
  have "issues (DeleteCertificate (rc_loadBalancerID params) (ct_name cert))
      (eff_collect (deleteCertificate w (rc_loadBalancerID params)) (unusedCertificates order params)
        :: error list lb_op)" for order
    by (rule issues_collect [OF _ deleteCertificate_issues [of _ _ _ name] ext])
      (use assms in \<open>simp add: set_unusedCertificates\<close>)
  moreover have "extends (eff_bind (eff_ask (env_ctx_err w)) (\<lambda>ctxErr. case ctxErr of
         Some err \<Rightarrow> eff_fail (ErrWrap ''failed to remove unused certificates: '' err [])
       | None \<Rightarrow> if errs \<noteq> [] then eff_fail (ErrJoin errs) else eff_return ()))" for errs
    unfolding extends_def by (auto intro!: emits_bind intro: emits_return emits_fail emits_ask split: option.split)
  ultimately show ?thesis
    unfolding removeUnusedCertificates_def
    by (intro issues_later issues_bind) (auto simp: extends_def eff_ask_run intro: emits_ask)
qed

definition exampleCertificateRemoval :: remove_certificates_params where
  "exampleCertificateRemoval = \<lparr>rc_loadBalancerID = ''lb'', rc_previous = [''ns-a-rev-1'', ''ns-b-rev-1''],
     rc_desired = [''ns-b-rev-1''],
     rc_known = [(''ns-a-rev-1'', \<lparr>ct_name = Some ''ns-a-rev-1'', ct_public = None\<rparr>)]\<rparr>"

theorem removeUnusedCertificates_complete_witness:
  "issues (DeleteCertificate ''lb'' (Some ''ns-a-rev-1'')) (removeUnusedCertificates agreeable_env exampleCertificateRemoval)"
  using removeUnusedCertificates_complete [of exampleCertificateRemoval "''ns-a-rev-1''"
      "\<lparr>ct_name = Some ''ns-a-rev-1'', ct_public = None\<rparr>" agreeable_env]
  by (simp add: exampleCertificateRemoval_def controllerCertificate_def)

section \<open>No certificate is uploaded twice\<close>

fun uploadsOnly :: "(string \<Rightarrow> bool) \<Rightarrow> lb_call \<Rightarrow> bool" where
  "uploadsOnly new (CreateCertificate lb d) = new (cc_name d)"
| "uploadsOnly new c = reading c"

abbreviation knownKept :: "'v go_map \<Rightarrow> 'a \<times> 'v go_map \<Rightarrow> bool" where
  "knownKept known \<equiv> \<lambda>(_, known1). fst ` set known \<subseteq> fst ` set known1"

lemma dom_update_mono: "fst ` set known \<subseteq> fst ` set (AList.update k v known)"
  by (auto simp: dom_update)

lemma resolveCAPEMs_reading: "emits reading (resolveCAPEMs w g refs)"
  by (induction refs)
    (auto simp: resolveFrontendMTLSCARef_def referenceGrantAllowsCoreRef_def Let_def
      intro!: emits_intros split: sum.split option.split)

lemma frontendCA_reading: "emits reading (frontendMTLSCAForListenerCertificate w g l)"
  by (auto simp: frontendMTLSCAForListenerCertificate_def Let_def intro!: emits_intros resolveCAPEMs_reading
      split: sum.split)

lemma uploadsOnly_reading: "emits reading m \<Longrightarrow> emits (uploadsOnly new) m"
  by (erule emits_mono) (case_tac c; simp)

lemma createUnderLock_uploads:
  assumes "fst ` set known \<subseteq> fst ` set known1"
  shows "emits (uploadsOnly (\<lambda>n. n \<notin> fst ` set known)) (createUnderLock cache w lb certName secret caPEM known1)"
    and "yields (knownKept known1) (createUnderLock cache w lb certName secret caPEM known1)"
proof -
  have "certName \<notin> fst ` set known" if "map_of known1 certName = None"
    using that assms by (auto simp: map_of_eq_None_iff)
  then show "emits (uploadsOnly (\<lambda>n. n \<notin> fst ` set known)) (createUnderLock cache w lb certName secret caPEM known1)"
    by (auto simp: createUnderLock_def createListenerCertificate_def
        intro!: emits_bind emits_ask emits_return emits_awaited_write split: option.split)
  show "yields (knownKept known1) (createUnderLock cache w lb certName secret caPEM known1)"
    by (auto simp: createUnderLock_def intro!: yields_bind yields_return subset_trans [OF _ dom_update_mono]
        split: option.split)
qed

lemma secretCertificate_uploads:
  assumes "fst ` set known \<subseteq> fst ` set known1"
  shows "emits (uploadsOnly (\<lambda>n. n \<notin> fst ` set known)) (reconcileListenerSecretCertificate cache w lb ns g l ref known1)"
    and "yields (knownKept known1) (reconcileListenerSecretCertificate cache w lb ns g l ref known1)"
  by (auto simp: reconcileListenerSecretCertificate_def getListenerCertificateSecret_def Let_def
      intro!: emits_bind emits_k8s emits_return emits_fail uploadsOnly_reading [OF frontendCA_reading]
        createUnderLock_uploads assms yields_bind yields_return
      split: prod.split sum.split option.split)

lemma secretLoop_uploads:
  assumes one: "\<And>ref known1. fst ` set known \<subseteq> fst ` set known1 \<Longrightarrow> emits P (one ref known1)"
    and kept: "\<And>ref known1. yields (knownKept known1) (one ref known1)"
    and "fst ` set known \<subseteq> fst ` set known1"
  shows "emits P (secretCertificatesLoop one ns seen refs known1)"
    and "yields (knownKept known1) (secretCertificatesLoop one ns seen refs known1)"
  using assms(3)
proof (induction refs arbitrary: seen known1)
  case (Cons ref refs)
  {
    case (1 seen known1)
  let ?rest = "\<lambda>(cert, known1). eff_bind (secretCertificatesLoop one ns (insert (certificateRefNamespacedName ns ref) seen) refs known1)
    (\<lambda>(certs, known2). eff_return (cert # certs, known2))"
    have "emits P (?rest x)" if "knownKept known1 x" for x
      using that 1 Cons.IH(1) by (cases x) (auto intro!: emits_bind emits_return split: prod.split)
    then have "emits P (eff_bind (one ref known1) ?rest)"
      by (rule emits_bind_post [OF one [OF 1] kept])
    with Cons.IH(1) [OF 1] show ?case unfolding secretCertificatesLoop.simps by (simp only: if_splits) blast
  next
    case (2 seen known1)
  let ?rest = "\<lambda>(cert, known1). eff_bind (secretCertificatesLoop one ns (insert (certificateRefNamespacedName ns ref) seen) refs known1)
    (\<lambda>(certs, known2). eff_return (cert # certs, known2))"
    have "yields (knownKept known1) (?rest x)" if x: "knownKept known1 x" for x
    proof -
      obtain cert k where "x = (cert, k)" by (cases x)
      moreover have "yields (knownKept known1) (eff_bind (secretCertificatesLoop one ns s refs k)
          (\<lambda>(certs, known2). eff_return (cert # certs, known2)))" for s
        by (rule yields_bind_post [OF Cons.IH(2)]) (use x 2 \<open>x = (cert, k)\<close> in \<open>force simp del: subset_iff intro!: yields_return dest: subset_trans\<close>)+
      ultimately show ?thesis by simp
    qed
    then have "yields (knownKept known1) (eff_bind (one ref known1) ?rest)"
      by (rule yields_bind_post [OF kept])
    with Cons.IH(2) [OF 2] show ?case unfolding secretCertificatesLoop.simps by (simp only: if_splits) blast
  }
qed (simp_all add: emits_return yields_return)

text \<open>
  Certificates that the load balancer has are not uploaded again: whatever the Gateway,
  the Secrets and the locks' caches hold, uploads are of names that are not known.
\<close>

theorem reconcileListenersCertificates_uploads_new:
  "emits (uploadsOnly (\<lambda>n. map_of known n = None)) (reconcileListenersCertificates cache w lb gateway ls known)"
proof -
  let ?P = "uploadsOnly (\<lambda>n. n \<notin> fst ` set known)"
  have secrets: "emits ?P (reconcileListenerSecretCertificates cache w lb ns g l known1) \<and>
      yields (knownKept known1) (reconcileListenerSecretCertificates cache w lb ns g l known1)"
    if "fst ` set known \<subseteq> fst ` set known1" for ns g l known1
    unfolding reconcileListenerSecretCertificates_def
    using secretLoop_uploads [where P = ?P, OF secretCertificate_uploads(1) secretCertificate_uploads(2) [OF subset_refl] that]
    by (auto intro: emits_return yields_return split: option.split)
  have "emits ?P (listenersCertificatesLoop cache w lb gateway ids ls known1 byL)"
    if "fst ` set known \<subseteq> fst ` set known1" for ids ls known1 byL
    using that
  proof (induction ls arbitrary: known1 byL)
    case (Cons l ls)
    have "emits ?P (eff_bind (reconcileListenerSecretCertificates cache w lb (gw_namespace gateway) (Some gateway) l known1)
        (\<lambda>(certs, known2). listenersCertificatesLoop cache w lb gateway ids ls known2
          (if certs \<noteq> [] then AList.update (l_name l) certs byL else byL)))"
      by (rule emits_bind_post [OF conjunct1 [OF secrets [OF Cons.prems]] conjunct2 [OF secrets [OF Cons.prems]]])
        (use Cons in auto)
    with Cons show ?case by simp
  qed (simp add: emits_return)
  then show ?thesis by (simp add: reconcileListenersCertificates_def Let_def map_of_eq_None_iff)
qed

text \<open>The names of the desired certificates do not depend on the order Go visits the map in.\<close>

lemma certificateNames_deterministic:
  "certificateNamesFromListenerCertificates order m = certificateNamesFromListenerCertificates order' m"
  unfolding certificateNamesFromListenerCertificates_def by (rule normalize_by_set) auto

end
