(* ===== verification/NlbBackends.thy ===== *)
theory NlbBackends
  imports Ports
begin

text \<open>
  Backends of OCI Network Load Balancers (\<open>network_load_balancer_retry.go\<close> and the backend
  merge of \<open>tcproute_model.go\<close>): duplicate endpoints are merged, the backend set is updated,
  then its backends are created, updated and deleted one by one. Shown: merging adds the
  weights of the endpoints of one address; a synchronisation that succeeds leaves exactly
  the desired backends, whatever order Go visits the maps in; which answers of the service
  are reported as busy.
\<close>

section \<open>Busy load balancers\<close>

definition networkLoadBalancerBackendNotFound :: "svc_error \<Rightarrow> bool" where
  "networkLoadBalancerBackendNotFound err = svc_has_status 404 err"

definition isNetworkLoadBalancerBusyServiceError :: "svc_error \<Rightarrow> bool" where
  "isNetworkLoadBalancerBusyServiceError err =
     (case err of
        TransportError _ \<Rightarrow> False
      | ServiceError status code0 message0 \<Rightarrow>
          (if status \<noteq> 409 then False
           else (let code = to_lower code0; message = to_lower message0 in
             (str_contains message ''invalid state transition'' \<and> str_contains message ''updating'') \<or>
             str_contains code ''invalidstatetransition'')))"

definition networkLoadBalancerBusyErrorFromState :: "network_load_balancer option \<Rightarrow> error option" where
  "networkLoadBalancerBusyErrorFromState nlb =
     (case nlb of
        None \<Rightarrow> None
      | Some n \<Rightarrow> if nl_lifecycle n \<noteq> ''UPDATING'' then None else Some (ErrBusy (str_ptr (nl_id n)) None))"

definition networkLoadBalancerBusyErrorFromOCI :: "string option \<Rightarrow> svc_error \<Rightarrow> error option" where
  "networkLoadBalancerBusyErrorFromOCI i err =
     (if \<not> isNetworkLoadBalancerBusyServiceError err then None else Some (ErrBusy (str_ptr i) (Some err)))"

definition networkLoadBalancerMissingBackendSetErrorFromOCI :: "string option \<Rightarrow> svc_error \<Rightarrow> error option" where
  "networkLoadBalancerMissingBackendSetErrorFromOCI i err =
     (if \<not> networkLoadBalancerBackendNotFound err then None else Some (ErrBusy (str_ptr i) (Some err)))"

section \<open>Merging backends\<close>

definition networkLoadBalancerBackendKey :: "nlb_backend_details \<Rightarrow> string" where
  "networkLoadBalancerBackendKey b = str_ptr (nd_ip b) @ '':'' @ int_to_string (int_ptr (nd_port b))"

definition mergeNetworkLoadBalancerBackend ::
    "(string \<times> nlb_backend_details) list \<Rightarrow> nlb_backend_details \<Rightarrow> (string \<times> nlb_backend_details) list" where
  "mergeNetworkLoadBalancerBackend desired backend =
     (let key = networkLoadBalancerBackendKey backend;
          named = backend\<lparr>nd_name := Some key\<rparr>
      in AList.update key
           (case map_of desired key of
              None \<Rightarrow> named
            | Some existing \<Rightarrow> named\<lparr>
                nd_weight := Some (int_ptr (nd_weight existing) + int_ptr (nd_weight backend)),
                nd_drain := Some (bool_ptr (nd_drain existing) \<and> bool_ptr (nd_drain backend))\<rparr>)
           desired)"

definition mergedBackends :: "nlb_backend_details list \<Rightarrow> (string \<times> nlb_backend_details) list" where
  "mergedBackends backends = foldl mergeNetworkLoadBalancerBackend [] backends"

definition normalizeNetworkLoadBalancerBackendDetails ::
    "nat list \<Rightarrow> nlb_backend_details list \<Rightarrow> nlb_backend_details list" where
  "normalizeNetworkLoadBalancerBackendDetails order backends = map snd (map_iter order (mergedBackends backends))"

lemma key_update [simp]:
  "networkLoadBalancerBackendKey (b\<lparr>nd_name := n\<rparr>) = networkLoadBalancerBackendKey b"
  "networkLoadBalancerBackendKey (b\<lparr>nd_weight := wt\<rparr>) = networkLoadBalancerBackendKey b"
  "networkLoadBalancerBackendKey (b\<lparr>nd_drain := d\<rparr>) = networkLoadBalancerBackendKey b"
  by (simp_all add: networkLoadBalancerBackendKey_def)

lemma mergedBackends_snoc:
  "mergedBackends (bs @ [b]) = mergeNetworkLoadBalancerBackend (mergedBackends bs) b"
  by (simp add: mergedBackends_def)

lemma distinct_mergedBackends: "distinct (map fst (mergedBackends bs))"
  by (induction bs rule: rev_induct)
    (simp_all add: mergedBackends_snoc mergeNetworkLoadBalancerBackend_def Let_def distinct_update,
     simp add: mergedBackends_def)

definition backendsAt :: "nlb_backend_details list \<Rightarrow> string \<Rightarrow> nlb_backend_details list" where
  "backendsAt bs key = filter (\<lambda>b. networkLoadBalancerBackendKey b = key) bs"

text \<open>What merging gives for one address.\<close>

definition mergedAs :: "nlb_backend_details list \<Rightarrow> string \<Rightarrow> nlb_backend_details option \<Rightarrow> bool" where
  "mergedAs bs key r \<longleftrightarrow>
     (case r of
        None \<Rightarrow> backendsAt bs key = []
      | Some d \<Rightarrow> backendsAt bs key \<noteq> [] \<and> nd_name d = Some key \<and> networkLoadBalancerBackendKey d = key \<and>
          int_ptr (nd_weight d) = sum_list (map (\<lambda>b. int_ptr (nd_weight b)) (backendsAt bs key)) \<and>
          bool_ptr (nd_drain d) = list_all (\<lambda>b. bool_ptr (nd_drain b)) (backendsAt bs key))"

lemma mergedBackends_at: "mergedAs bs key (map_of (mergedBackends bs) key)"
proof (induction bs rule: rev_induct)
  case Nil
  then show ?case by (simp add: mergedAs_def backendsAt_def mergedBackends_def)
next
  case (snoc b bs)
  show ?case
  proof (cases "networkLoadBalancerBackendKey b = key")
    case False
    then have "backendsAt (bs @ [b]) key = backendsAt bs key"
      "map_of (mergedBackends (bs @ [b])) key = map_of (mergedBackends bs) key"
      by (simp_all add: backendsAt_def mergedBackends_snoc mergeNetworkLoadBalancerBackend_def Let_def update_conv')
    with snoc show ?thesis unfolding mergedAs_def by (cases "map_of (mergedBackends bs) key") simp_all
  next
    case True
    then have at: "backendsAt (bs @ [b]) key = backendsAt bs key @ [b]" by (simp add: backendsAt_def)
    show ?thesis
    proof (cases "map_of (mergedBackends bs) key")
      case None
      with snoc have "backendsAt bs key = []" by (simp add: mergedAs_def)
      with None True at show ?thesis
        by (simp add: mergedAs_def mergedBackends_snoc mergeNetworkLoadBalancerBackend_def Let_def update_conv')
    next
      case (Some d)
      with snoc True at show ?thesis
        by (simp add: mergedAs_def mergedBackends_snoc mergeNetworkLoadBalancerBackend_def Let_def update_conv')
    qed
  qed
qed

lemma mergedBackends_keyed: "(k, d) \<in> set (mergedBackends bs) \<Longrightarrow> networkLoadBalancerBackendKey d = k \<and> nd_name d = Some k"
  using mergedBackends_at [of bs k] distinct_mergedBackends [of bs] by (simp add: mergedAs_def)

lemma distinct_normalized: "distinct (map networkLoadBalancerBackendKey (normalizeNetworkLoadBalancerBackendDetails order bs))"
proof -
  have "map networkLoadBalancerBackendKey (map snd (map_iter order (mergedBackends bs))) =
      map fst (map_iter order (mergedBackends bs))"
    using mergedBackends_keyed by force
  moreover have "distinct (map fst (map_iter order (mergedBackends bs)))" using distinct_mergedBackends by simp
  ultimately show ?thesis unfolding normalizeNetworkLoadBalancerBackendDetails_def by metis
qed

lemma find_normalized:
  "List.find (\<lambda>d. networkLoadBalancerBackendKey d = key) (normalizeNetworkLoadBalancerBackendDetails order bs) =
    map_of (mergedBackends bs) key"
proof (cases "map_of (mergedBackends bs) key")
  case None
  have "networkLoadBalancerBackendKey d \<noteq> key" if "(k, d) \<in> set (mergedBackends bs)" for k d
  proof -
    have "k \<noteq> key" using None that by (force simp: map_of_eq_None_iff)
    with mergedBackends_keyed [OF that] show ?thesis by simp
  qed
  then have "List.find (\<lambda>d. networkLoadBalancerBackendKey d = key)
      (normalizeNetworkLoadBalancerBackendDetails order bs) = None"
    unfolding find_None_ball normalizeNetworkLoadBalancerBackendDetails_def by force
  with None show ?thesis by simp
next
  case (Some x)
  then have "(key, x) \<in> set (mergedBackends bs)" by (rule map_of_SomeD)
  then have "x \<in> set (normalizeNetworkLoadBalancerBackendDetails order bs)" "networkLoadBalancerBackendKey x = key"
    using mergedBackends_keyed by (force simp: normalizeNetworkLoadBalancerBackendDetails_def)+
  with find_unique [OF distinct_normalized] Some show ?thesis by metis
qed

text \<open>
  Backends of the same address and port become one: its weight is the sum of theirs and it
  drains only if all of them do. No address is lost and none is listed twice.
\<close>

theorem normalize_merges:
  "distinct (map networkLoadBalancerBackendKey (normalizeNetworkLoadBalancerBackendDetails order bs)) \<and>
    mergedAs bs key (List.find (\<lambda>d. networkLoadBalancerBackendKey d = key)
      (normalizeNetworkLoadBalancerBackendDetails order bs))"
  by (simp add: distinct_normalized find_normalized mergedBackends_at)

section \<open>Synchronising backends\<close>

definition mapNetworkLoadBalancerBackends :: "nlb_backend list \<Rightarrow> (string \<times> nlb_backend) list" where
  "mapNetworkLoadBalancerBackends backends =
     slice_to_map (\<lambda>b. str_ptr (nb_ip b) @ '':'' @ int_to_string (int_ptr (nb_port b))) id [] backends"

definition networkLoadBalancerBackendDetailsEqual :: "nlb_backend \<Rightarrow> nlb_backend_details \<Rightarrow> bool" where
  "networkLoadBalancerBackendDetailsEqual current desired \<longleftrightarrow>
     int_ptr (nb_weight current) = int_ptr (nd_weight desired) \<and>
     bool_ptr (nb_drain current) = bool_ptr (nd_drain desired) \<and>
     bool_ptr (nb_backup current) = bool_ptr (nd_backup desired) \<and>
     bool_ptr (nb_offline current) = bool_ptr (nd_offline desired)"

definition waitForNetworkLoadBalancerBackendOperation ::
    "lb_env \<Rightarrow> string option \<Rightarrow> string \<Rightarrow> string \<Rightarrow> string \<Rightarrow> unit lb_op" where
  "waitForNetworkLoadBalancerBackendOperation w workRequestID operation backendSetName backendName =
     (case workRequestID of
        None \<Rightarrow> eff_fail (ErrText (errtext ''failed to '' operation
          (errtext '' Network Load Balancer backend '' backendName
            (errtext '' in backend set '' backendSetName '': missing work request id''))))
      | Some i \<Rightarrow>
          eff_bind (nlb_wait w i) (\<lambda>r. case r of
            None \<Rightarrow> eff_return ()
          | Some err \<Rightarrow> eff_fail (ErrWrap (errtext ''failed waiting for backend '' backendName
              (errtext '' in backend set '' backendSetName (errtext '' '' operation '': ''))) err [])))"

definition createNetworkLoadBalancerBackend ::
    "lb_env \<Rightarrow> string option \<Rightarrow> string \<Rightarrow> nlb_backend_details \<Rightarrow> unit lb_op" where
  "createNetworkLoadBalancerBackend w nlbID backendSetName backend =
     eff_bind (write_call w (NlbCreateBackend nlbID backendSetName backend)) (\<lambda>r. case r of
         Inl err \<Rightarrow> eff_fail (ErrWrap (errtext ''failed to create Network Load Balancer backend ''
           (networkLoadBalancerBackendKey backend) '': '') (ErrService err) [])
       | Inr i \<Rightarrow> waitForNetworkLoadBalancerBackendOperation w i ''create'' backendSetName
           (networkLoadBalancerBackendKey backend))"

definition updateNetworkLoadBalancerBackend ::
    "lb_env \<Rightarrow> string option \<Rightarrow> string \<Rightarrow> string \<Rightarrow> nlb_backend_details \<Rightarrow> unit lb_op" where
  "updateNetworkLoadBalancerBackend w nlbID backendSetName backendName backend =
     eff_bind (write_call w (NlbUpdateBackend nlbID backendSetName backendName
         \<lparr>nu_weight = nd_weight backend, nu_drain = nd_drain backend, nu_backup = nd_backup backend,
          nu_offline = nd_offline backend\<rparr>)) (\<lambda>r. case r of
         Inl err \<Rightarrow>
           (if networkLoadBalancerBackendNotFound err then
              createNetworkLoadBalancerBackend w nlbID backendSetName backend
            else eff_fail (ErrWrap (errtext ''failed to update Network Load Balancer backend '' backendName '': '')
              (ErrService err) []))
       | Inr i \<Rightarrow> waitForNetworkLoadBalancerBackendOperation w i ''update'' backendSetName backendName)"

definition deleteNetworkLoadBalancerBackend ::
    "lb_env \<Rightarrow> string option \<Rightarrow> string \<Rightarrow> string \<Rightarrow> unit lb_op" where
  "deleteNetworkLoadBalancerBackend w nlbID backendSetName backendName =
     eff_bind (write_call w (NlbDeleteBackend nlbID backendSetName backendName)) (\<lambda>r. case r of
         Inl err \<Rightarrow>
           (if networkLoadBalancerBackendNotFound err then eff_return ()
            else eff_fail (ErrWrap (errtext ''failed to delete Network Load Balancer backend '' backendName '': '')
              (ErrService err) []))
       | Inr i \<Rightarrow> waitForNetworkLoadBalancerBackendOperation w i ''delete'' backendSetName backendName)"

definition currentBackends :: "network_load_balancer \<Rightarrow> string \<Rightarrow> (string \<times> nlb_backend) list" where
  "currentBackends nlb backendSetName =
     mapNetworkLoadBalancerBackends
       (case nl_backend_sets nlb of
          None \<Rightarrow> []
        | Some sets \<Rightarrow> (case map_of sets backendSetName of None \<Rightarrow> [] | Some bs \<Rightarrow> nbs_backends bs))"

text \<open>The bodies of the two loops of \<open>syncNetworkLoadBalancerBackends\<close>.\<close>

definition syncDesiredBackend ::
    "lb_env \<Rightarrow> string option \<Rightarrow> string \<Rightarrow> (string \<times> nlb_backend) list \<Rightarrow>
      string \<times> nlb_backend_details \<Rightarrow> unit lb_op" where
  "syncDesiredBackend w nlbID backendSetName current = (\<lambda>(name, backend).
     case map_of current name of
       None \<Rightarrow> createNetworkLoadBalancerBackend w nlbID backendSetName backend
     | Some currentBackend \<Rightarrow>
         (if \<not> networkLoadBalancerBackendDetailsEqual currentBackend backend then
            updateNetworkLoadBalancerBackend w nlbID backendSetName name backend
          else eff_return ()))"

definition syncStaleBackend ::
    "lb_env \<Rightarrow> string option \<Rightarrow> string \<Rightarrow> (string \<times> nlb_backend_details) list \<Rightarrow>
      string \<times> nlb_backend \<Rightarrow> unit lb_op" where
  "syncStaleBackend w nlbID backendSetName desiredMap = (\<lambda>(name, _).
     if map_of desiredMap name \<noteq> None then eff_return ()
     else deleteNetworkLoadBalancerBackend w nlbID backendSetName name)"

definition syncNetworkLoadBalancerBackends ::
    "lb_env \<Rightarrow> network_load_balancer \<Rightarrow> string \<Rightarrow> nlb_backend_details list \<Rightarrow> unit lb_op" where
  "syncNetworkLoadBalancerBackends w nlb backendSetName desired =
     (let current = currentBackends nlb backendSetName;
          desiredMap = slice_to_map networkLoadBalancerBackendKey id [] desired
      in eff_bind (eff_ask (env_order w)) (\<lambda>order.
         eff_bind (eff_foreach (syncDesiredBackend w (nl_id nlb) backendSetName current) (map_iter order desiredMap)) (\<lambda>_.
         eff_bind (eff_ask (env_order w)) (\<lambda>order.
           eff_foreach (syncStaleBackend w (nl_id nlb) backendSetName desiredMap) (map_iter order current)))))"

definition updateNetworkLoadBalancerBackendSet ::
    "lb_env \<Rightarrow> network_load_balancer \<Rightarrow> string \<Rightarrow> string \<Rightarrow> nlb_backend_set_details \<Rightarrow> unit lb_op" where
  "updateNetworkLoadBalancerBackendSet w nlb backendSetName operation details =
     (case networkLoadBalancerBusyErrorFromState (Some nlb) of
        Some busy \<Rightarrow> eff_fail busy
      | None \<Rightarrow>
          eff_bind (eff_ask (env_order w)) (\<lambda>order.
            (let desiredBackends = normalizeNetworkLoadBalancerBackendDetails order (ns_backends details) in
             eff_bind (write_call w (NlbUpdateBackendSet (nl_id nlb) backendSetName (details\<lparr>ns_backends := []\<rparr>))) (\<lambda>r.
             case r of
               Inl err \<Rightarrow>
                 (case networkLoadBalancerBusyErrorFromOCI (nl_id nlb) err of
                    Some busy \<Rightarrow> eff_fail busy
                  | None \<Rightarrow>
                      (case networkLoadBalancerMissingBackendSetErrorFromOCI (nl_id nlb) err of
                         Some busy \<Rightarrow> eff_fail busy
                       | None \<Rightarrow> eff_fail (ErrWrap (errtext ''failed to '' operation
                           (errtext '' Network Load Balancer backend set '' backendSetName '': '')) (ErrService err) [])))
             | Inr None \<Rightarrow> eff_fail (ErrText (errtext ''failed to '' operation
                 (errtext '' Network Load Balancer backend set '' backendSetName '': missing work request id'')))
             | Inr (Some i) \<Rightarrow>
                 eff_bind (nlb_wait w i) (\<lambda>r. case r of
                   Some err \<Rightarrow> eff_fail (ErrWrap (errtext ''failed waiting for backend set '' backendSetName
                     (errtext '' '' operation '': '')) err [])
                 | None \<Rightarrow> syncNetworkLoadBalancerBackends w nlb backendSetName desiredBackends)))))"

section \<open>The backends stored by the service\<close>

text \<open>
  The attributes of the backends of one backend set, by name, under the accepted writes. A
  created backend is known under the name it was given.
\<close>

type_synonym nlb_attrs = "int \<times> bool \<times> bool \<times> bool"

definition currentAttrs :: "nlb_backend \<Rightarrow> nlb_attrs" where
  "currentAttrs b = (int_ptr (nb_weight b), bool_ptr (nb_drain b), bool_ptr (nb_backup b), bool_ptr (nb_offline b))"

definition detailsAttrs :: "nlb_backend_details \<Rightarrow> nlb_attrs" where
  "detailsAttrs b = (int_ptr (nd_weight b), bool_ptr (nd_drain b), bool_ptr (nd_backup b), bool_ptr (nd_offline b))"

definition nlbAccepted :: "lb_env \<Rightarrow> lb_call list \<Rightarrow> lb_call \<Rightarrow> bool" where
  "nlbAccepted w h c \<longleftrightarrow> (\<exists>i. env_write w h c = Inr (Some i) \<and> env_nlb_wait w (h @ [c]) i = None)"

fun applyNlbCall :: "string option \<Rightarrow> string \<Rightarrow> lb_call \<Rightarrow> (string \<rightharpoonup> nlb_attrs) \<Rightarrow> (string \<rightharpoonup> nlb_attrs)" where
  "applyNlbCall lb bs (NlbCreateBackend i b d) s =
     (if i = lb \<and> b = bs then s(str_ptr (nd_name d) \<mapsto> detailsAttrs d) else s)"
| "applyNlbCall lb bs (NlbUpdateBackend i b n u) s =
     (if i = lb \<and> b = bs then s(n \<mapsto> (int_ptr (nu_weight u), bool_ptr (nu_drain u), bool_ptr (nu_backup u),
        bool_ptr (nu_offline u))) else s)"
| "applyNlbCall lb bs (NlbDeleteBackend i b n) s = (if i = lb \<and> b = bs then s(n := None) else s)"
| "applyNlbCall lb bs _ s = s"

fun nlbStoredRev ::
    "lb_env \<Rightarrow> string option \<Rightarrow> string \<Rightarrow> (string \<rightharpoonup> nlb_attrs) \<Rightarrow> lb_call list \<Rightarrow> (string \<rightharpoonup> nlb_attrs)" where
  "nlbStoredRev w lb bs s [] = s"
| "nlbStoredRev w lb bs s (c # rh) =
     (if nlbAccepted w (rev rh) c then applyNlbCall lb bs c (nlbStoredRev w lb bs s rh)
      else nlbStoredRev w lb bs s rh)"

definition nlbStored ::
    "lb_env \<Rightarrow> string option \<Rightarrow> string \<Rightarrow> (string \<rightharpoonup> nlb_attrs) \<Rightarrow> lb_call list \<Rightarrow> (string \<rightharpoonup> nlb_attrs)" where
  "nlbStored w lb bs s h = nlbStoredRev w lb bs s (rev h)"

text \<open>The service says that a backend to delete is missing only when it is.\<close>

definition nlbTruthful :: "lb_env \<Rightarrow> string option \<Rightarrow> string \<Rightarrow> (string \<rightharpoonup> nlb_attrs) \<Rightarrow> bool" where
  "nlbTruthful w lb bs s \<longleftrightarrow> (\<forall>h n. case env_write w h (NlbDeleteBackend lb bs n) of
     Inl err \<Rightarrow> svc_has_status 404 err \<longrightarrow> nlbStored w lb bs s h n = None | Inr _ \<Rightarrow> True)"

lemma nlbStored_snoc:
  "nlbStored w lb bs s (h @ [c]) =
    (if nlbAccepted w h c then applyNlbCall lb bs c (nlbStored w lb bs s h) else nlbStored w lb bs s h)"
  by (simp add: nlbStored_def)

lemma write_call_run: "write_call w c h = (Inr (env_write w h c), h @ [c])"
  by (rule get_run(4))

lemma waitForNlb_ok:
  assumes "waitForNetworkLoadBalancerBackendOperation w r op bs n (h @ [c]) = (Inr (), h')" "env_write w h c = Inr r"
  shows "nlbStored w lb b s h' = applyNlbCall lb b c (nlbStored w lb b s h)"
proof -
  obtain i where i: "r = Some i" "env_nlb_wait w (h @ [c]) i = None" "h' = (h @ [c]) @ [NlbWaitFor i]"
    using assms(1) by (auto simp: waitForNetworkLoadBalancerBackendOperation_def eff_bind_call eff_simps
        split: option.splits)
  with assms(2) have "nlbAccepted w h c" by (auto simp: nlbAccepted_def)
  with i show ?thesis by (simp add: nlbStored_snoc del: append_assoc)
qed

lemma createNlb_ok:
  assumes "createNetworkLoadBalancerBackend w lb bs d h = (Inr (), h')"
  shows "nlbStored w lb bs s h' = (nlbStored w lb bs s h)(str_ptr (nd_name d) \<mapsto> detailsAttrs d)"
proof -
  obtain r where "env_write w h (NlbCreateBackend lb bs d) = Inr r"
    "waitForNetworkLoadBalancerBackendOperation w r ''create'' bs (networkLoadBalancerBackendKey d)
      (h @ [NlbCreateBackend lb bs d]) = (Inr (), h')"
    using assms by (auto simp: createNetworkLoadBalancerBackend_def eff_bind_Inr [OF write_call_run] eff_simps
        split: sum.splits)
  from waitForNlb_ok [OF this(2,1)] show ?thesis by simp
qed

lemma updateNlb_ok:
  assumes "updateNetworkLoadBalancerBackend w lb bs n d h = (Inr (), h')" "nd_name d = Some n"
  shows "nlbStored w lb bs s h' = (nlbStored w lb bs s h)(n \<mapsto> detailsAttrs d)"
proof -
  let ?c = "NlbUpdateBackend lb bs n
    \<lparr>nu_weight = nd_weight d, nu_drain = nd_drain d, nu_backup = nd_backup d, nu_offline = nd_offline d\<rparr>"
  show ?thesis
  proof (cases "env_write w h ?c")
    case (Inl err)
    then have "createNetworkLoadBalancerBackend w lb bs d (h @ [?c]) = (Inr (), h')"
      using assms(1) by (auto simp: updateNetworkLoadBalancerBackend_def eff_bind_Inr [OF write_call_run] eff_simps
          split: if_splits)
    moreover have "nlbStored w lb bs s (h @ [?c]) = nlbStored w lb bs s h"
      using Inl by (simp add: nlbStored_snoc nlbAccepted_def)
    ultimately show ?thesis using createNlb_ok [of w lb bs d "h @ [?c]" h' s] assms(2) by simp
  next
    case (Inr r)
    then have "waitForNetworkLoadBalancerBackendOperation w r ''update'' bs n (h @ [?c]) = (Inr (), h')"
      using assms(1) by (simp add: updateNetworkLoadBalancerBackend_def eff_bind_Inr [OF write_call_run])
    from waitForNlb_ok [OF this Inr] show ?thesis by (simp add: detailsAttrs_def)
  qed
qed

lemma deleteNlb_ok:
  assumes "deleteNetworkLoadBalancerBackend w lb bs n h = (Inr (), h')" "nlbTruthful w lb bs s"
  shows "nlbStored w lb bs s h' = (nlbStored w lb bs s h)(n := None)"
proof (cases "env_write w h (NlbDeleteBackend lb bs n)")
  case (Inl err)
  then have nf: "svc_has_status 404 err" and h': "h' = h @ [NlbDeleteBackend lb bs n]"
    using assms(1) by (auto simp: deleteNetworkLoadBalancerBackend_def eff_bind_Inr [OF write_call_run] eff_simps
        networkLoadBalancerBackendNotFound_def split: if_splits)
  have "nlbStored w lb bs s h n = None"
    using assms(2) [unfolded nlbTruthful_def, THEN spec [of _ h], THEN spec [of _ n]] Inl nf by simp
  then have "(nlbStored w lb bs s h)(n := None) = nlbStored w lb bs s h" by (simp add: fun_upd_idem)
  with Inl h' show ?thesis by (simp add: nlbStored_snoc nlbAccepted_def)
next
  case (Inr r)
  then have "waitForNetworkLoadBalancerBackendOperation w r ''delete'' bs n (h @ [NlbDeleteBackend lb bs n]) = (Inr (), h')"
    using assms(1) by (simp add: deleteNetworkLoadBalancerBackend_def eff_bind_Inr [OF write_call_run])
  from waitForNlb_ok [OF this Inr] show ?thesis by simp
qed

lemma syncDesired_ok:
  assumes "syncDesiredBackend w lb bs current (n, d) h = (Inr (), h')" "nd_name d = Some n"
    and "nlbStored w lb bs s h n = map_option currentAttrs (map_of current n)"
  shows "nlbStored w lb bs s h' = (nlbStored w lb bs s h)(n \<mapsto> detailsAttrs d)"
proof (cases "map_of current n")
  case None
  with assms(1,2) createNlb_ok [of w lb bs d h h' s] show ?thesis by (simp add: syncDesiredBackend_def)
next
  case (Some c)
  show ?thesis
  proof (cases "networkLoadBalancerBackendDetailsEqual c d")
    case True
    then have "currentAttrs c = detailsAttrs d"
      by (simp add: networkLoadBalancerBackendDetailsEqual_def currentAttrs_def detailsAttrs_def)
    with True Some assms(1,3) show ?thesis by (simp add: syncDesiredBackend_def eff_return_run fun_upd_idem)
  next
    case False
    with Some assms(1,2) updateNlb_ok [of w lb bs n d h h' s] show ?thesis by (simp add: syncDesiredBackend_def)
  qed
qed

lemma syncDesired_loop:
  assumes "eff_foreach (syncDesiredBackend w lb bs current) xs h = (Inr (), h')" "distinct (map fst xs)"
    and "\<forall>(n, d)\<in>set xs. nd_name d = Some n \<and> nlbStored w lb bs s h n = map_option currentAttrs (map_of current n)"
  shows "nlbStored w lb bs s h' = nlbStored w lb bs s h ++ (\<lambda>n. map_option detailsAttrs (map_of xs n))"
  using assms
proof (induction xs arbitrary: h)
  case Nil
  then show ?case by (simp add: eff_return_run map_add_def fun_eq_iff)
next
  case (Cons x xs)
  obtain n d where x: "x = (n, d)" by fastforce
  from Cons.prems(1) obtain u h1 where first: "syncDesiredBackend w lb bs current (n, d) h = (Inr (), h1)"
    and rest: "eff_foreach (syncDesiredBackend w lb bs current) xs h1 = (Inr (), h')"
    unfolding x by (auto elim: eff_bind_InrE)
  have st: "nlbStored w lb bs s h1 = (nlbStored w lb bs s h)(n \<mapsto> detailsAttrs d)"
    using syncDesired_ok [OF first] Cons.prems(3) x by simp
  have "n \<notin> fst ` set xs" using Cons.prems(2) x by simp
  then have "\<forall>(m, d)\<in>set xs. nd_name d = Some m \<and> nlbStored w lb bs s h1 m = map_option currentAttrs (map_of current m)"
    using Cons.prems(3) by (force simp: st)
  from Cons.IH [OF rest _ this] Cons.prems(2) show ?case
    using \<open>n \<notin> fst ` set xs\<close> by (force simp: st x map_add_def fun_eq_iff map_of_eq_None_iff split: option.split)
qed

lemma syncStale_loop:
  assumes "eff_foreach (syncStaleBackend w lb bs desiredMap) xs h = (Inr (), h')" "nlbTruthful w lb bs s"
  shows "nlbStored w lb bs s h' =
    (\<lambda>n. if n \<in> fst ` set xs \<and> map_of desiredMap n = None then None else nlbStored w lb bs s h n)"
  using assms(1)
proof (induction xs arbitrary: h)
  case Nil
  then show ?case by (simp add: eff_return_run)
next
  case (Cons x xs)
  obtain n b where x: "x = (n, b)" by fastforce
  from Cons.prems obtain h1 where first: "syncStaleBackend w lb bs desiredMap (n, b) h = (Inr (), h1)"
    and rest: "eff_foreach (syncStaleBackend w lb bs desiredMap) xs h1 = (Inr (), h')"
    unfolding x by (auto elim: eff_bind_InrE)
  have "nlbStored w lb bs s h1 = (if map_of desiredMap n = None then (nlbStored w lb bs s h)(n := None)
      else nlbStored w lb bs s h)"
    using first deleteNlb_ok [OF _ assms(2), of n h h1]
    by (auto simp: syncStaleBackend_def eff_return_run split: if_splits)
  with Cons.IH [OF rest] show ?case by (auto simp: x fun_eq_iff)
qed

lemma map_of_map_iter: "distinct (map fst m) \<Longrightarrow> map_of (map_iter order m) = map_of m"
  by (rule map_of_eqI) (auto simp: map_of_eq_Some_iff)

lemma find_rev_distinct:
  "distinct (map f xs) \<Longrightarrow> List.find (\<lambda>x. f x = k) (rev xs) = List.find (\<lambda>x. f x = k) xs"
proof (cases "\<exists>x\<in>set xs. f x = k")
  case True
  assume d: "distinct (map f xs)"
  then have "distinct (map f (rev xs))" by (simp add: rev_map [symmetric])
  with d True find_unique show ?thesis by (metis set_rev)
next
  case False
  then have "List.find (\<lambda>x. f x = k) xs = None" "List.find (\<lambda>x. f x = k) (rev xs) = None"
    by (simp_all add: find_None_ball)
  then show ?thesis by simp
qed

lemma desiredMap_spec:
  "map_of (slice_to_map networkLoadBalancerBackendKey id [] (normalizeNetworkLoadBalancerBackendDetails order bs)) =
    map_of (mergedBackends bs)"
  by (rule ext) (simp add: map_of_slice_to_map find_rev_distinct [OF distinct_normalized] find_normalized
      split: option.split)

text \<open>
  C17: When an update of a backend set succeeds, the backends stored by the service are the
  desired ones with the merged weights and flags: missing ones were created, differing ones
  updated and the others deleted, provided that the load balancer was read when the stored
  backends were as at the start.
\<close>

theorem updateNlbBackendSet_synchronises:
  assumes "nlbTruthful w (nl_id nlb) bs s"
    and "nlbStored w (nl_id nlb) bs s h = (\<lambda>n. map_option currentAttrs (map_of (currentBackends nlb bs) n))"
    and "updateNetworkLoadBalancerBackendSet w nlb bs operation details h = (Inr (), h')"
  shows "nlbStored w (nl_id nlb) bs s h' =
    (\<lambda>n. map_option detailsAttrs (map_of (mergedBackends (ns_backends details)) n))"
proof -
  let ?lb = "nl_id nlb"
  let ?upd = "NlbUpdateBackendSet ?lb bs (details\<lparr>ns_backends := []\<rparr>)"
  let ?desired = "normalizeNetworkLoadBalancerBackendDetails (env_order w h) (ns_backends details)"
  let ?map = "slice_to_map networkLoadBalancerBackendKey id [] ?desired"
  let ?current = "currentBackends nlb bs"
  obtain i where sync: "syncNetworkLoadBalancerBackends w nlb bs ?desired ((h @ [?upd]) @ [NlbWaitFor i]) = (Inr (), h')"
    using assms(3)
    by (auto simp: updateNetworkLoadBalancerBackendSet_def eff_bind_ask Let_def eff_bind_Inr [OF write_call_run]
        eff_simps split: option.splits sum.splits)
  define h0 where "h0 = (h @ [?upd]) @ [NlbWaitFor i]"
  have st0: "nlbStored w ?lb bs s h0 = nlbStored w ?lb bs s h"
    by (simp add: h0_def nlbStored_snoc del: append_assoc)
  obtain h1 where loop1: "eff_foreach (syncDesiredBackend w ?lb bs ?current) (map_iter (env_order w h0) ?map) h0 = (Inr (), h1)"
    and loop2: "eff_foreach (syncStaleBackend w ?lb bs ?map) (map_iter (env_order w h1) ?current) h1 = (Inr (), h')"
  proof -
    have "eff_bind (eff_foreach (syncDesiredBackend w ?lb bs ?current) (map_iter (env_order w h0) ?map)) (\<lambda>_.
        eff_bind (eff_ask (env_order w)) (\<lambda>order.
          eff_foreach (syncStaleBackend w ?lb bs ?map) (map_iter order ?current))) h0 = (Inr (), h')"
      using sync [folded h0_def] by (simp add: syncNetworkLoadBalancerBackends_def Let_def eff_bind_ask)
    from eff_bind_InrE [OF this] that show thesis by (auto simp: eff_bind_ask)
  qed
  have dist: "distinct (map fst ?map)" by (simp add: distinct_slice_to_map)
  have spec: "map_of ?map = map_of (mergedBackends (ns_backends details))" by (rule desiredMap_spec)
  have iter: "map_of (map_iter order ?map) = map_of ?map" for order
    using dist by (rule map_of_map_iter)
  have "nd_name d = Some n" if "(n, d) \<in> set ?map" for n d
    using that dist spec mergedBackends_keyed by (metis map_of_SomeD map_of_is_SomeI)
  then have "\<forall>(n, d)\<in>set (map_iter (env_order w h0) ?map). nd_name d = Some n \<and>
      nlbStored w ?lb bs s h0 n = map_option currentAttrs (map_of ?current n)"
    using st0 assms(2) by auto
  from syncDesired_loop [OF loop1 _ this] dist
  have st1: "nlbStored w ?lb bs s h1 = nlbStored w ?lb bs s h ++ (\<lambda>n. map_option detailsAttrs (map_of ?map n))"
    by (simp add: st0 iter)
  show ?thesis
  proof
    fix n
    show "nlbStored w ?lb bs s h' n = map_option detailsAttrs (map_of (mergedBackends (ns_backends details)) n)"
      unfolding syncStale_loop [OF loop2 assms(1)] st1 spec [symmetric] assms(2)
      using map_of_eq_None_iff [of ?current n] by (cases "map_of ?map n") (simp_all add: map_add_def)
  qed
qed

text \<open>A service that accepts everything: one backend to update, one to create, one to delete.\<close>

definition sampleNlbEnv :: lb_env where
  "sampleNlbEnv = agreeable_env\<lparr>env_order := \<lambda>_. [1]\<rparr>"

definition sampleNlbDetails :: "string \<Rightarrow> int \<Rightarrow> nlb_backend_details" where
  "sampleNlbDetails ip weight = \<lparr>nd_name = None, nd_ip = Some ip, nd_target_id = None, nd_port = Some 80,
     nd_weight = Some weight, nd_drain = None, nd_backup = None, nd_offline = None\<rparr>"

definition sampleNlbBackend :: "string \<Rightarrow> nlb_backend" where
  "sampleNlbBackend ip = \<lparr>nb_ip = Some ip, nb_port = Some 80, nb_weight = Some 1, nb_drain = Some False,
     nb_backup = None, nb_offline = None\<rparr>"

definition sampleNlb :: network_load_balancer where
  "sampleNlb = \<lparr>nl_id = Some ''nlb'', nl_lifecycle = ''ACTIVE'', nl_addresses = [], nl_listeners = [],
     nl_backend_sets = Some [(''bs'', \<lparr>nbs_policy = ''FIVE_TUPLE'', nbs_preserve_source = None, nbs_health_checker = None,
       nbs_backends = [sampleNlbBackend ''a'', sampleNlbBackend ''b'']\<rparr>)]\<rparr>"

definition sampleNlbSet :: nlb_backend_set_details where
  "sampleNlbSet = \<lparr>ns_backends = [sampleNlbDetails ''a'' 1, sampleNlbDetails ''c'' 2, sampleNlbDetails ''a'' 3],
     ns_policy = None, ns_preserve_source = None, ns_health_checker = None\<rparr>"

definition sampleNlbStart :: "string \<Rightarrow> nlb_attrs option" where
  "sampleNlbStart = (\<lambda>n. map_option currentAttrs (map_of (currentBackends sampleNlb ''bs'') n))"

lemmas sample_nlb_defs = sampleNlbEnv_def sampleNlbDetails_def sampleNlbBackend_def sampleNlb_def sampleNlbSet_def

lemma sample_nlb_run:
  "\<exists>h'. updateNetworkLoadBalancerBackendSet sampleNlbEnv sampleNlb ''bs'' ''update'' sampleNlbSet [] = (Inr (), h')"
proof -
  have "case updateNetworkLoadBalancerBackendSet sampleNlbEnv sampleNlb ''bs'' ''update'' sampleNlbSet [] of
      (Inr _, _) \<Rightarrow> True | (Inl _, _) \<Rightarrow> False"
    by code_simp
  then show ?thesis by (auto split: prod.splits sum.splits)
qed

theorem updateNlbBackendSet_synchronises_witness:
  "\<exists>h'. updateNetworkLoadBalancerBackendSet sampleNlbEnv sampleNlb ''bs'' ''update'' sampleNlbSet [] = (Inr (), h') \<and>
    nlbStored sampleNlbEnv (Some ''nlb'') ''bs'' sampleNlbStart h' =
      (\<lambda>n. map_option detailsAttrs (map_of (mergedBackends (ns_backends sampleNlbSet)) n))"
proof -
  obtain h' where run: "updateNetworkLoadBalancerBackendSet sampleNlbEnv sampleNlb ''bs'' ''update'' sampleNlbSet []
      = (Inr (), h')" using sample_nlb_run by blast
  have "nlbTruthful sampleNlbEnv (nl_id sampleNlb) ''bs'' sampleNlbStart"
    by (simp add: nlbTruthful_def sampleNlbEnv_def)
  moreover have "nlbStored sampleNlbEnv (nl_id sampleNlb) ''bs'' sampleNlbStart [] =
      (\<lambda>n. map_option currentAttrs (map_of (currentBackends sampleNlb ''bs'') n))"
    by (simp add: nlbStored_def sampleNlbStart_def)
  ultimately show ?thesis
    using updateNlbBackendSet_synchronises [OF _ _ run] run by (auto simp: sampleNlb_def)
qed

end
