(* ===== verification/LbLocks.thy ===== *)
theory LbLocks
  imports GoStrings
begin

text \<open>
  The keyed locks that serialise operations on one load balancer object: the routing policy
  and certificate locks of \<open>oci_load_balancer_model.go\<close>, which count their users and drop
  unused entries, and the operation locks of \<open>network_load_balancer_operation_lock.go\<close>,
  which keep them. Goroutines run \<open>withLock\<close> step by step in any interleaving; a mutex is
  the goroutine that holds it. Shown through one contract that the three tables satisfy: two
  operations of one key never run together, some goroutine can always continue, no entry of
  a counting table outlives its users, and a cached certificate comes from its own key.
\<close>

section \<open>The tables\<close>

text \<open>
  A lock object is known by its address; \<open>rl_heap\<close> holds the objects ever made and
  \<open>rl_locks\<close> is the Go map. \<open>acquire\<close> and \<open>release\<close> run under the table's own mutex, so
  each is one step.
\<close>

record routingPolicyLock =
  rl_refs :: int

record routingPolicyLocks =
  rl_heap :: "routingPolicyLock list"
  rl_locks :: "(string \<times> nat) list"

definition routingPolicyLocks_acquire :: "routingPolicyLocks \<Rightarrow> string \<Rightarrow> routingPolicyLocks \<times> nat" where
  "routingPolicyLocks_acquire l key =
     (let (l1, lock) =
        (case map_of (rl_locks l) key of
           Some a \<Rightarrow> (l, a)
         | None \<Rightarrow> (l\<lparr>rl_heap := rl_heap l @ [\<lparr>rl_refs = 0\<rparr>],
             rl_locks := AList.update key (length (rl_heap l)) (rl_locks l)\<rparr>, length (rl_heap l)))
      in (l1\<lparr>rl_heap := (rl_heap l1)[lock := (rl_heap l1 ! lock)\<lparr>rl_refs := rl_refs (rl_heap l1 ! lock) + 1\<rparr>]\<rparr>, lock))"

definition routingPolicyLocks_release :: "routingPolicyLocks \<Rightarrow> string \<Rightarrow> nat \<Rightarrow> routingPolicyLocks" where
  "routingPolicyLocks_release l key lock =
     (let refs = rl_refs (rl_heap l ! lock) - 1;
          l1 = l\<lparr>rl_heap := (rl_heap l)[lock := (rl_heap l ! lock)\<lparr>rl_refs := refs\<rparr>]\<rparr>
      in if refs = 0 \<and> map_of (rl_locks l1) key = Some lock
         then l1\<lparr>rl_locks := AList.delete key (rl_locks l1)\<rparr> else l1)"

record 'c loadBalancerCertificateLock =
  cl_refs :: int
  cl_certificate :: "'c option"

record 'c loadBalancerCertificateLocks =
  cl_heap :: "'c loadBalancerCertificateLock list"
  cl_locks :: "(string \<times> nat) list"

definition loadBalancerCertificateLocks_acquire ::
    "'c loadBalancerCertificateLocks \<Rightarrow> string \<Rightarrow> 'c loadBalancerCertificateLocks \<times> nat" where
  "loadBalancerCertificateLocks_acquire l key =
     (let (l1, lock) =
        (case map_of (cl_locks l) key of
           Some a \<Rightarrow> (l, a)
         | None \<Rightarrow> (l\<lparr>cl_heap := cl_heap l @ [\<lparr>cl_refs = 0, cl_certificate = None\<rparr>],
             cl_locks := AList.update key (length (cl_heap l)) (cl_locks l)\<rparr>, length (cl_heap l)))
      in (l1\<lparr>cl_heap := (cl_heap l1)[lock := (cl_heap l1 ! lock)\<lparr>cl_refs := cl_refs (cl_heap l1 ! lock) + 1\<rparr>]\<rparr>, lock))"

definition loadBalancerCertificateLocks_release ::
    "'c loadBalancerCertificateLocks \<Rightarrow> string \<Rightarrow> nat \<Rightarrow> 'c loadBalancerCertificateLocks" where
  "loadBalancerCertificateLocks_release l key lock =
     (let refs = cl_refs (cl_heap l ! lock) - 1;
          l1 = l\<lparr>cl_heap := (cl_heap l)[lock := (cl_heap l ! lock)\<lparr>cl_refs := refs\<rparr>]\<rparr>
      in if refs = 0 \<and> map_of (cl_locks l1) key = Some lock
         then l1\<lparr>cl_locks := AList.delete key (cl_locks l1)\<rparr> else l1)"

text \<open>
  The end of the body of \<open>withLock\<close>: a certificate the operation returned is cached in the
  lock, an error (\<open>None\<close>) leaves the cache.
\<close>

definition loadBalancerCertificateLocks_finish ::
    "'c loadBalancerCertificateLocks \<Rightarrow> nat \<Rightarrow> 'c option \<Rightarrow> 'c loadBalancerCertificateLocks" where
  "loadBalancerCertificateLocks_finish l lock result =
     (case result of
        None \<Rightarrow> l
      | Some cert \<Rightarrow> l\<lparr>cl_heap := (cl_heap l)[lock := (cl_heap l ! lock)\<lparr>cl_certificate := Some cert\<rparr>]\<rparr>)"

definition loadBalancerCertificateLocks_cached :: "'c loadBalancerCertificateLocks \<Rightarrow> nat \<Rightarrow> 'c option" where
  "loadBalancerCertificateLocks_cached l lock = cl_certificate (cl_heap l ! lock)"

text \<open>
  The operation locks: \<open>LoadOrStore\<close> on a \<open>sync.Map\<close> whose entries stay. Only mutexes are
  stored, so the branch for values of another type is not reached. A nil or empty id runs
  the operation without a lock.
\<close>

record networkLoadBalancerOperationLocks =
  ol_mutexes :: "(string \<times> nat) list"
  ol_next :: nat

definition networkLoadBalancerOperationLocks_loadOrStore ::
    "networkLoadBalancerOperationLocks \<Rightarrow> string \<Rightarrow> networkLoadBalancerOperationLocks \<times> nat" where
  "networkLoadBalancerOperationLocks_loadOrStore l key =
     (case map_of (ol_mutexes l) key of
        Some a \<Rightarrow> (l, a)
      | None \<Rightarrow> (l\<lparr>ol_mutexes := AList.update key (ol_next l) (ol_mutexes l), ol_next := ol_next l + 1\<rparr>, ol_next l))"

definition networkLoadBalancerOperationLocks_key :: "string option \<Rightarrow> string option" where
  "networkLoadBalancerOperationLocks_key networkLoadBalancerID =
     (if networkLoadBalancerID = None \<or> networkLoadBalancerID = Some [] then None else networkLoadBalancerID)"

definition networkLoadBalancerOperationLockID :: "string \<Rightarrow> string \<Rightarrow> string option" where
  "networkLoadBalancerOperationLockID gatewayAnnotation configLoadBalancerID =
     (if gatewayAnnotation \<noteq> [] then Some gatewayAnnotation
      else if configLoadBalancerID \<noteq> [] then Some configLoadBalancerID
      else None)"

section \<open>Goroutines\<close>

text \<open>
  Where a goroutine is in \<open>withLock\<close>: before it, waiting for the mutex of its lock, running
  the operation, after the unlock, or running the operation without a lock.
\<close>

datatype lock_phase =
    Outside
  | Waiting string nat
  | Inside string nat
  | Leaving string nat
  | Unguarded

record 't lock_machine =
  lm_table :: 't
  lm_held :: "nat \<Rightarrow> nat option"
  lm_phase :: "nat \<Rightarrow> lock_phase"

text \<open>
  The steps of \<open>n\<close> goroutines over a table with the given operations; \<open>guard\<close> is the key a
  request is locked under. The operation run under key \<open>k\<close> may return \<open>c\<close> if
  \<open>produces k c\<close>.
\<close>

inductive lock_step ::
    "('t \<Rightarrow> string \<Rightarrow> 't \<times> nat) \<Rightarrow> ('t \<Rightarrow> string \<Rightarrow> nat \<Rightarrow> 't) \<Rightarrow> ('t \<Rightarrow> nat \<Rightarrow> 'c option \<Rightarrow> 't) \<Rightarrow>
      ('r \<Rightarrow> string option) \<Rightarrow> (string \<Rightarrow> 'c \<Rightarrow> bool) \<Rightarrow> nat \<Rightarrow>
      't lock_machine \<Rightarrow> nat \<Rightarrow> 't lock_machine \<Rightarrow> bool"
  for acquire release finish guard produces n where
  step_acquire: "\<lbrakk>t < n; lm_phase m t = Outside; guard request = Some k; acquire (lm_table m) k = (tbl, a)\<rbrakk> \<Longrightarrow>
    lock_step acquire release finish guard produces n m t
      (m\<lparr>lm_table := tbl, lm_phase := (lm_phase m)(t := Waiting k a)\<rparr>)"
| step_bypass: "\<lbrakk>t < n; lm_phase m t = Outside; guard request = None\<rbrakk> \<Longrightarrow>
    lock_step acquire release finish guard produces n m t (m\<lparr>lm_phase := (lm_phase m)(t := Unguarded)\<rparr>)"
| step_lock: "\<lbrakk>t < n; lm_phase m t = Waiting k a; lm_held m a = None\<rbrakk> \<Longrightarrow>
    lock_step acquire release finish guard produces n m t
      (m\<lparr>lm_held := (lm_held m)(a \<mapsto> t), lm_phase := (lm_phase m)(t := Inside k a)\<rparr>)"
| step_unlock: "\<lbrakk>t < n; lm_phase m t = Inside k a; \<forall>c. result = Some c \<longrightarrow> produces k c\<rbrakk> \<Longrightarrow>
    lock_step acquire release finish guard produces n m t
      (m\<lparr>lm_table := finish (lm_table m) a result, lm_held := (lm_held m)(a := None),
         lm_phase := (lm_phase m)(t := Leaving k a)\<rparr>)"
| step_release: "\<lbrakk>t < n; lm_phase m t = Leaving k a\<rbrakk> \<Longrightarrow>
    lock_step acquire release finish guard produces n m t
      (m\<lparr>lm_table := release (lm_table m) k a, lm_phase := (lm_phase m)(t := Outside)\<rparr>)"
| step_return: "\<lbrakk>t < n; lm_phase m t = Unguarded\<rbrakk> \<Longrightarrow>
    lock_step acquire release finish guard produces n m t (m\<lparr>lm_phase := (lm_phase m)(t := Outside)\<rparr>)"

inductive lock_reachable ::
    "('t \<Rightarrow> string \<Rightarrow> 't \<times> nat) \<Rightarrow> ('t \<Rightarrow> string \<Rightarrow> nat \<Rightarrow> 't) \<Rightarrow> ('t \<Rightarrow> nat \<Rightarrow> 'c option \<Rightarrow> 't) \<Rightarrow>
      ('r \<Rightarrow> string option) \<Rightarrow> (string \<Rightarrow> 'c \<Rightarrow> bool) \<Rightarrow> nat \<Rightarrow> 't \<Rightarrow> 't lock_machine \<Rightarrow> bool"
  for acquire release finish guard produces n tbl where
  reach_start: "lock_reachable acquire release finish guard produces n tbl
    \<lparr>lm_table = tbl, lm_held = (\<lambda>_. None), lm_phase = (\<lambda>_. Outside)\<rparr>"
| reach_step: "\<lbrakk>lock_reachable acquire release finish guard produces n tbl m;
    lock_step acquire release finish guard produces n m t m'\<rbrakk> \<Longrightarrow>
    lock_reachable acquire release finish guard produces n tbl m'"

inductive_cases lock_stepE: "lock_step acquire release finish guard produces n m t m'"

text \<open>The goroutines that have acquired the lock object \<open>a\<close>, and under which key.\<close>

fun phase_lock :: "lock_phase \<Rightarrow> (string \<times> nat) option" where
  "phase_lock (Waiting k a) = Some (k, a)"
| "phase_lock (Inside k a) = Some (k, a)"
| "phase_lock (Leaving k a) = Some (k, a)"
| "phase_lock _ = None"

definition lock_users :: "nat \<Rightarrow> 't lock_machine \<Rightarrow> nat \<Rightarrow> nat" where
  "lock_users n m a = card {t. t < n \<and> (\<exists>k. phase_lock (lm_phase m t) = Some (k, a))}"

section \<open>The contract of a table\<close>

text \<open>
  \<open>good tbl u\<close> says that the table is as it must be when \<open>u a\<close> goroutines use the lock
  object \<open>a\<close>.
\<close>

locale keyed_locks =
  fixes acquire :: "'t \<Rightarrow> string \<Rightarrow> 't \<times> nat"
    and release :: "'t \<Rightarrow> string \<Rightarrow> nat \<Rightarrow> 't"
    and finish :: "'t \<Rightarrow> nat \<Rightarrow> 'c option \<Rightarrow> 't"
    and entry :: "'t \<Rightarrow> string \<Rightarrow> nat option"
    and cached :: "'t \<Rightarrow> nat \<Rightarrow> 'c option"
    and good :: "'t \<Rightarrow> (nat \<Rightarrow> nat) \<Rightarrow> bool"
    and empty :: 't
  assumes good_empty: "good empty (\<lambda>_. 0)"
    and entry_empty: "entry empty k = None"
    and acquire_good: "good tbl u \<Longrightarrow> acquire tbl k = (tbl', a) \<Longrightarrow> good tbl' (u(a := Suc (u a)))"
    and acquire_entry: "good tbl u \<Longrightarrow> acquire tbl k = (tbl', a) \<Longrightarrow> entry tbl' = (entry tbl)(k \<mapsto> a)"
    and acquire_fresh: "good tbl u \<Longrightarrow> acquire tbl k = (tbl', a) \<Longrightarrow>
      entry tbl k = Some a \<or> (entry tbl k = None \<and> u a = 0 \<and> a \<notin> ran (entry tbl) \<and> cached tbl' a = None)"
    and acquire_cached: "good tbl u \<Longrightarrow> acquire tbl k = (tbl', a) \<Longrightarrow> entry tbl k' = Some b \<Longrightarrow>
      cached tbl' b = cached tbl b"
    and release_good: "good tbl u \<Longrightarrow> entry tbl k = Some a \<Longrightarrow> 0 < u a \<Longrightarrow> good (release tbl k a) (u(a := u a - 1))"
    and release_entry: "good tbl u \<Longrightarrow> entry tbl k = Some a \<Longrightarrow> 0 < u a \<Longrightarrow>
      entry (release tbl k a) = entry tbl \<or> (u a = 1 \<and> entry (release tbl k a) = (entry tbl)(k := None))"
    and release_cached: "good tbl u \<Longrightarrow> entry tbl k = Some a \<Longrightarrow> 0 < u a \<Longrightarrow> cached (release tbl k a) b = cached tbl b"
    and finish_good: "good tbl u \<Longrightarrow> entry tbl k = Some a \<Longrightarrow> 0 < u a \<Longrightarrow> good (finish tbl a r) u"
    and finish_entry: "good tbl u \<Longrightarrow> entry tbl k = Some a \<Longrightarrow> 0 < u a \<Longrightarrow> entry (finish tbl a r) = entry tbl"
    and finish_cached: "good tbl u \<Longrightarrow> entry tbl k = Some a \<Longrightarrow> 0 < u a \<Longrightarrow>
      cached (finish tbl a r) b = (if b = a \<and> r \<noteq> None then r else cached tbl b) \<or> cached (finish tbl a r) b = None"

text \<open>A table that counts its users drops the entries nobody uses.\<close>

locale counted_locks = keyed_locks +
  assumes entry_used: "good tbl u \<Longrightarrow> entry tbl k = Some a \<Longrightarrow> 0 < u a"

text \<open>What holds of every reachable state.\<close>

definition lock_invariant ::
    "('t \<Rightarrow> (nat \<Rightarrow> nat) \<Rightarrow> bool) \<Rightarrow> ('t \<Rightarrow> string \<Rightarrow> nat option) \<Rightarrow> ('t \<Rightarrow> nat \<Rightarrow> 'c option) \<Rightarrow>
      (string \<Rightarrow> 'c \<Rightarrow> bool) \<Rightarrow> nat \<Rightarrow> 't lock_machine \<Rightarrow> bool" where
  "lock_invariant good entry cached produces n m \<longleftrightarrow>
     good (lm_table m) (lock_users n m) \<and>
     (\<forall>t k a. phase_lock (lm_phase m t) = Some (k, a) \<longrightarrow> t < n \<and> entry (lm_table m) k = Some a) \<and>
     (\<forall>k k' a. entry (lm_table m) k = Some a \<longrightarrow> entry (lm_table m) k' = Some a \<longrightarrow> k = k') \<and>
     (\<forall>a t. lm_held m a = Some t \<longleftrightarrow> (\<exists>k. lm_phase m t = Inside k a)) \<and>
     (\<forall>k a c. entry (lm_table m) k = Some a \<longrightarrow> cached (lm_table m) a = Some c \<longrightarrow> produces k c)"

lemma lock_invariantI:
  assumes "good (lm_table m) (lock_users n m)"
    and "\<And>t k a. phase_lock (lm_phase m t) = Some (k, a) \<Longrightarrow> t < n \<and> entry (lm_table m) k = Some a"
    and "\<And>k k' a. entry (lm_table m) k = Some a \<Longrightarrow> entry (lm_table m) k' = Some a \<Longrightarrow> k = k'"
    and "\<And>a t. lm_held m a = Some t \<longleftrightarrow> (\<exists>k. lm_phase m t = Inside k a)"
    and "\<And>k a c. entry (lm_table m) k = Some a \<Longrightarrow> cached (lm_table m) a = Some c \<Longrightarrow> produces k c"
  shows "lock_invariant good entry cached produces n m"
  using assms unfolding lock_invariant_def by blast

lemma lock_invariantD:
  assumes "lock_invariant good entry cached produces n m"
  shows "good (lm_table m) (lock_users n m)"
    and "phase_lock (lm_phase m t) = Some (k, a) \<Longrightarrow> t < n"
    and "phase_lock (lm_phase m t) = Some (k, a) \<Longrightarrow> entry (lm_table m) k = Some a"
    and "entry (lm_table m) k = Some a \<Longrightarrow> entry (lm_table m) k' = Some a \<Longrightarrow> k = k'"
    and "lm_held m a = Some t \<longleftrightarrow> (\<exists>k. lm_phase m t = Inside k a)"
    and "entry (lm_table m) k = Some a \<Longrightarrow> cached (lm_table m) a = Some c \<Longrightarrow> produces k c"
  using assms unfolding lock_invariant_def by blast+

section \<open>Counting users\<close>

lemma lock_users_enter:
  assumes "lm_phase m' = (lm_phase m)(t := p)" "t < n" "phase_lock (lm_phase m t) = None" "phase_lock p = Some (k, a)"
  shows "lock_users n m' = (lock_users n m)(a := Suc (lock_users n m a))"
proof
  fix b
  have "{s. s < n \<and> (\<exists>j. phase_lock (lm_phase m' s) = Some (j, b))} =
      (if b = a then insert t {s. s < n \<and> (\<exists>j. phase_lock (lm_phase m s) = Some (j, b))}
       else {s. s < n \<and> (\<exists>j. phase_lock (lm_phase m s) = Some (j, b))})"
    using assms by (auto split: if_splits)
  with assms(3) show "lock_users n m' b = ((lock_users n m)(a := Suc (lock_users n m a))) b"
    by (simp add: lock_users_def)
qed

lemma lock_users_stay:
  assumes "lm_phase m' = (lm_phase m)(t := p)" "phase_lock p = phase_lock (lm_phase m t)"
  shows "lock_users n m' = lock_users n m"
proof -
  have "phase_lock (lm_phase m' s) = phase_lock (lm_phase m s)" for s using assms by simp
  then show ?thesis by (simp add: lock_users_def fun_eq_iff)
qed

lemma lock_users_leave:
  assumes "lm_phase m' = (lm_phase m)(t := p)" "t < n" "phase_lock (lm_phase m t) = Some (k, a)" "phase_lock p = None"
  shows "lock_users n m' = (lock_users n m)(a := lock_users n m a - 1)"
proof -
  have "lm_phase m = (lm_phase m')(t := lm_phase m t)" using assms(1) by simp
  from lock_users_enter [OF this assms(2)] assms show ?thesis by (simp add: fun_eq_iff)
qed

lemma lock_users_pos: "t < n \<Longrightarrow> phase_lock (lm_phase m t) = Some (k, a) \<Longrightarrow> 0 < lock_users n m a"
  unfolding lock_users_def card_gt_0_iff by auto

section \<open>Consequences of the contract\<close>

context keyed_locks
begin

lemma invariant_start:
  "lock_invariant good entry cached produces n \<lparr>lm_table = empty, lm_held = (\<lambda>_. None), lm_phase = (\<lambda>_. Outside)\<rparr>"
proof -
  have "lock_users n \<lparr>lm_table = empty, lm_held = (\<lambda>_. None), lm_phase = (\<lambda>_. Outside)\<rparr> = (\<lambda>_. 0)"
    by (simp add: lock_users_def fun_eq_iff)
  then show ?thesis by (simp add: lock_invariant_def good_empty entry_empty)
qed

lemma invariant_acquire:
  assumes "lock_invariant good entry cached produces n m" "t < n" "lm_phase m t = Outside"
    and "acquire (lm_table m) k = (tbl, a)"
  shows "lock_invariant good entry cached produces n
    (m\<lparr>lm_table := tbl, lm_phase := (lm_phase m)(t := Waiting k a)\<rparr>)" (is "lock_invariant _ _ _ _ _ ?m")
proof (rule lock_invariantI)
  let ?u = "lock_users n m"
  note inv = lock_invariantD [OF assms(1)]
  note entry' = acquire_entry [OF inv(1) assms(4)]
  have "lock_users n ?m = ?u(a := Suc (?u a))"
    by (rule lock_users_enter [of _ m t "Waiting k a" n k]) (simp_all add: assms)
  with acquire_good [OF inv(1) assms(4)] show "good (lm_table ?m) (lock_users n ?m)" by simp
  show "s < n \<and> entry (lm_table ?m) j = Some b" if "phase_lock (lm_phase ?m s) = Some (j, b)" for s j b
  proof (cases "s = t")
    case True
    with that assms(2) show ?thesis by (simp add: entry')
  next
    case False
    with that have "phase_lock (lm_phase m s) = Some (j, b)" by simp
    from inv(2) [OF this] inv(3) [OF this] acquire_fresh [OF inv(1) assms(4)] show ?thesis by (auto simp: entry')
  qed
  show "k1 = k2" if "entry (lm_table ?m) k1 = Some b" "entry (lm_table ?m) k2 = Some b" for k1 k2 b
    using that acquire_fresh [OF inv(1) assms(4)] inv(4) [of k1 b k2] inv(4) [of k1 b k] inv(4) [of k2 b k]
    by (auto simp: entry' ran_def split: if_splits)
  show "lm_held ?m b = Some s \<longleftrightarrow> (\<exists>j. lm_phase ?m s = Inside j b)" for b s
    using inv(5) [of b s] assms(3) by auto
  show "produces k1 c" if "entry (lm_table ?m) k1 = Some b" "cached (lm_table ?m) b = Some c" for k1 b c
  proof (cases "entry (lm_table m) k1 = Some b")
    case True
    with that(2) acquire_cached [OF inv(1) assms(4) True] inv(6) show ?thesis by simp
  next
    case False
    with that(1) have "k1 = k" "b = a" by (auto simp: entry' split: if_splits)
    with False acquire_fresh [OF inv(1) assms(4)] that(2) show ?thesis by simp
  qed
qed

lemma invariant_lock:
  assumes "lock_invariant good entry cached produces n m" "lm_phase m t = Waiting k a" "lm_held m a = None"
  shows "lock_invariant good entry cached produces n
    (m\<lparr>lm_held := (lm_held m)(a \<mapsto> t), lm_phase := (lm_phase m)(t := Inside k a)\<rparr>)" (is "lock_invariant _ _ _ _ _ ?m")
proof (rule lock_invariantI)
  note inv = lock_invariantD [OF assms(1)]
  have "lock_users n ?m = lock_users n m"
    by (rule lock_users_stay [of _ m t "Inside k a"]) (simp_all add: assms(2))
  with inv(1) show "good (lm_table ?m) (lock_users n ?m)" by simp
  show "s < n \<and> entry (lm_table ?m) j = Some b" if "phase_lock (lm_phase ?m s) = Some (j, b)" for s j b
    using that inv(2,3) [of s j b] inv(2,3) [of t k a] assms(2) by (auto split: if_splits)
  show "lm_held ?m b = Some s \<longleftrightarrow> (\<exists>j. lm_phase ?m s = Inside j b)" for b s
    using inv(5) [of b s] inv(5) [of b t] inv(5) [of a s] assms(2,3) by auto
qed (use lock_invariantD [OF assms(1)] in simp_all)

lemma invariant_unlock:
  assumes "lock_invariant good entry cached produces n m" "t < n" "lm_phase m t = Inside k a"
    and "\<forall>c. r = Some c \<longrightarrow> produces k c"
  shows "lock_invariant good entry cached produces n
    (m\<lparr>lm_table := finish (lm_table m) a r, lm_held := (lm_held m)(a := None),
       lm_phase := (lm_phase m)(t := Leaving k a)\<rparr>)" (is "lock_invariant _ _ _ _ _ ?m")
proof (rule lock_invariantI)
  note inv = lock_invariantD [OF assms(1)]
  have users: "lock_users n ?m = lock_users n m"
    by (rule lock_users_stay [of _ m t "Leaving k a"]) (simp_all add: assms(3))
  have pl: "phase_lock (lm_phase m t) = Some (k, a)" using assms(3) by simp
  note e = inv(3) [OF pl]
  note facts = inv(1) e lock_users_pos [OF assms(2) pl]
  show "good (lm_table ?m) (lock_users n ?m)" using finish_good [OF facts] by (simp add: users)
  show "s < n \<and> entry (lm_table ?m) j = Some b" if "phase_lock (lm_phase ?m s) = Some (j, b)" for s j b
    using that inv(2,3) [of s j b] e assms(2) by (auto simp: finish_entry [OF facts] split: if_splits)
  show "k1 = k2" if "entry (lm_table ?m) k1 = Some b" "entry (lm_table ?m) k2 = Some b" for k1 k2 b
    using that inv(4) [of k1 b k2] by (simp add: finish_entry [OF facts])
  show "lm_held ?m b = Some s \<longleftrightarrow> (\<exists>j. lm_phase ?m s = Inside j b)" for b s
    using inv(5) [of b s] inv(5) [of b t] inv(5) [of a s] inv(5) [of a t] assms(3) by auto
  show "produces k1 c" if "entry (lm_table ?m) k1 = Some b" "cached (lm_table ?m) b = Some c" for k1 b c
  proof (cases "b = a \<and> r \<noteq> None")
    case True
    with that(1) inv(4) [OF _ e, of k1] have "k1 = k" by (simp add: finish_entry [OF facts])
    with that(2) finish_cached [OF facts, of r b] True assms(4) show ?thesis by auto
  next
    case False
    with that finish_cached [OF facts, of r b] inv(6) [of k1 b c] show ?thesis
      by (auto simp: finish_entry [OF facts])
  qed
qed

lemma invariant_release:
  assumes "lock_invariant good entry cached produces n m" "t < n" "lm_phase m t = Leaving k a"
  shows "lock_invariant good entry cached produces n
    (m\<lparr>lm_table := release (lm_table m) k a, lm_phase := (lm_phase m)(t := Outside)\<rparr>)" (is "lock_invariant _ _ _ _ _ ?m")
proof (rule lock_invariantI)
  note inv = lock_invariantD [OF assms(1)]
  have pl: "phase_lock (lm_phase m t) = Some (k, a)" using assms(3) by simp
  have users: "lock_users n ?m = (lock_users n m)(a := lock_users n m a - 1)"
    by (rule lock_users_leave [of _ m t Outside n k]) (simp_all add: assms)
  note facts = inv(1) inv(3) [OF pl] lock_users_pos [OF assms(2) pl]
  have sub: "entry (lm_table m) j = Some b" if "entry (lm_table ?m) j = Some b" for j b
    using that release_entry [OF facts] by (auto split: if_splits)
  show "good (lm_table ?m) (lock_users n ?m)" using release_good [OF facts] by (simp add: users)
  show "s < n \<and> entry (lm_table ?m) j = Some b" if "phase_lock (lm_phase ?m s) = Some (j, b)" for s j b
  proof -
    have old: "phase_lock (lm_phase m s) = Some (j, b)" using that by (auto split: if_splits)
    note ent = inv(2) [OF old] inv(3) [OF old]
    have "lock_users n m a \<noteq> 1" if "j = k"
    proof -
      have "0 < lock_users n ?m b" by (rule lock_users_pos [OF ent(1) \<open>phase_lock (lm_phase ?m s) = Some (j, b)\<close>])
      moreover have "b = a" using ent(2) facts(2) that by simp
      ultimately show ?thesis by (simp add: users)
    qed
    with ent release_entry [OF facts] show ?thesis by auto
  qed
  show "k1 = k2" if "entry (lm_table ?m) k1 = Some b" "entry (lm_table ?m) k2 = Some b" for k1 k2 b
    by (rule inv(4) [OF sub sub]) (use that in simp_all)
  show "lm_held ?m b = Some s \<longleftrightarrow> (\<exists>j. lm_phase ?m s = Inside j b)" for b s
    using inv(5) [of b s] assms(3) by auto
  show "produces k1 c" if "entry (lm_table ?m) k1 = Some b" "cached (lm_table ?m) b = Some c" for k1 b c
    using that(2) inv(6) [OF sub [OF that(1)]] by (simp add: release_cached [OF facts])
qed

lemma invariant_unguarded:
  assumes "lock_invariant good entry cached produces n m"
    and "lm_phase m t = Outside \<and> p = Unguarded \<or> lm_phase m t = Unguarded \<and> p = Outside"
  shows "lock_invariant good entry cached produces n (m\<lparr>lm_phase := (lm_phase m)(t := p)\<rparr>)" (is "lock_invariant _ _ _ _ _ ?m")
proof (rule lock_invariantI)
  note inv = lock_invariantD [OF assms(1)]
  have "lock_users n ?m = lock_users n m"
    by (rule lock_users_stay [of _ m t p]) (use assms(2) in auto)
  with inv(1) show "good (lm_table ?m) (lock_users n ?m)" by simp
  show "s < n \<and> entry (lm_table ?m) j = Some b" if "phase_lock (lm_phase ?m s) = Some (j, b)" for s j b
    using that inv(2,3) [of s j b] assms(2) by (auto split: if_splits)
  show "lm_held ?m b = Some s \<longleftrightarrow> (\<exists>j. lm_phase ?m s = Inside j b)" for b s
    using inv(5) [of b s] assms(2) by auto
qed (use lock_invariantD [OF assms(1)] in simp_all)

lemma invariant_step:
  "lock_step acquire release finish guard produces n m t m' \<Longrightarrow>
    lock_invariant good entry cached produces n m \<Longrightarrow> lock_invariant good entry cached produces n m'"
  by (erule lock_stepE)
    (auto intro: invariant_acquire invariant_lock invariant_unlock invariant_release invariant_unguarded)

lemma invariant_reachable:
  "lock_reachable acquire release finish guard produces n empty m \<Longrightarrow> lock_invariant good entry cached produces n m"
  by (induction rule: lock_reachable.induct) (auto intro: invariant_start invariant_step)

lemma mutual_exclusion:
  assumes "lock_reachable acquire release finish guard produces n empty m"
    and "lm_phase m t = Inside k a" "lm_phase m t' = Inside k a'"
  shows "t = t'"
proof -
  note inv = lock_invariantD [OF invariant_reachable [OF assms(1)]]
  have "entry (lm_table m) k = Some a" "entry (lm_table m) k = Some a'"
    by (rule inv(3) [of t], simp add: assms(2), rule inv(3) [of t'], simp add: assms(3))
  then have "lm_held m a = Some t" "lm_held m a = Some t'" using inv(5) [of a] assms(2,3) by auto
  then show ?thesis by simp
qed

lemma not_stuck:
  assumes "lock_reachable acquire release finish guard produces n empty m" "lm_phase m t \<noteq> Outside"
    and "t < n"
  shows "\<exists>t' m'. lm_phase m t' \<noteq> Outside \<and> lock_step acquire release finish guard produces n m t' m'"
proof (cases "lm_phase m t")
  case (Waiting k a)
  show ?thesis
  proof (cases "lm_held m a")
    case None
    from step_lock [OF assms(3) Waiting None] Waiting show ?thesis by force
  next
    case (Some s)
    note inv = lock_invariantD [OF invariant_reachable [OF assms(1)]]
    from Some inv(5) obtain j where j: "lm_phase m s = Inside j a" by blast
    then have "s < n" using inv(2) [of s j a] by simp
    from step_unlock [OF this j, of None] j show ?thesis by force
  qed
next
  case (Inside k a)
  from step_unlock [OF assms(3) this, of None] Inside show ?thesis by force
next
  case (Leaving k a)
  from step_release [OF assms(3) this] Leaving show ?thesis by force
next
  case Unguarded
  from step_return [OF assms(3) this] Unguarded show ?thesis by force
qed (use assms(2) in simp)

lemma cache_of_key:
  assumes "lock_reachable acquire release finish guard produces n empty m"
    and "lm_phase m t = Inside k a" "cached (lm_table m) a = Some c"
  shows "produces k c"
proof -
  note inv = lock_invariantD [OF invariant_reachable [OF assms(1)]]
  have "entry (lm_table m) k = Some a" by (rule inv(3) [of t]) (simp add: assms(2))
  then show ?thesis by (rule inv(6)) (rule assms(3))
qed

end

context counted_locks
begin

lemma no_leak:
  assumes "lock_reachable acquire release finish guard produces n empty m" "\<forall>t. phase_lock (lm_phase m t) = None"
  shows "entry (lm_table m) k = None"
proof -
  have "lock_users n m = (\<lambda>_. 0)" using assms(2) by (simp add: lock_users_def fun_eq_iff)
  with invariant_reachable [OF assms(1)] have "good (lm_table m) (\<lambda>_. 0)" by (simp add: lock_invariant_def)
  with entry_used show ?thesis by (metis not_less_zero option.exhaust)
qed

end

section \<open>The three tables keep the contract\<close>

definition refs_good :: "(string \<times> nat) list \<Rightarrow> int list \<Rightarrow> (nat \<Rightarrow> nat) \<Rightarrow> bool" where
  "refs_good locks refs u \<longleftrightarrow>
     (\<forall>a. if a < length refs then refs ! a = int (u a) else u a = 0) \<and>
     (\<forall>k a. map_of locks k = Some a \<longrightarrow> a < length refs \<and> 0 < u a) \<and>
     (\<forall>k k' a. map_of locks k = Some a \<longrightarrow> map_of locks k' = Some a \<longrightarrow> k = k')"

lemma refs_good_new:
  "refs_good locks refs u \<Longrightarrow> map_of locks k = None \<Longrightarrow>
    refs_good (AList.update k (length refs) locks) (refs @ [1]) (u(length refs := Suc (u (length refs))))"
  unfolding refs_good_def by (auto simp: update_conv' nth_append split: if_splits) (metis less_irrefl less_SucI)+

lemma refs_good_again:
  "refs_good locks refs u \<Longrightarrow> map_of locks k = Some a \<Longrightarrow>
    refs_good locks (refs[a := refs ! a + 1]) (u(a := Suc (u a)))"
  unfolding refs_good_def by (auto simp: nth_list_update)

lemma refs_good_last:
  "refs_good locks refs u \<Longrightarrow> map_of locks k = Some a \<Longrightarrow> refs ! a = 1 \<Longrightarrow>
    refs_good (AList.delete k locks) (refs[a := 0]) (u(a := u a - 1))"
  unfolding refs_good_def by (auto simp: delete_conv' nth_list_update split: if_splits)

lemma refs_good_fewer:
  "refs_good locks refs u \<Longrightarrow> map_of locks k = Some a \<Longrightarrow> refs ! a \<noteq> 1 \<Longrightarrow>
    refs_good locks (refs[a := refs ! a - 1]) (u(a := u a - 1))"
proof -
  assume g: "refs_good locks refs u" and k: "map_of locks k = Some a" and r: "refs ! a \<noteq> 1"
  then have "0 < u a" "u a \<noteq> 1" unfolding refs_good_def by auto
  then have "2 \<le> u a" by linarith
  then obtain n where "u a = Suc (Suc n)" by (metis add_2_eq_Suc le_Suc_ex)
  with g k show ?thesis unfolding refs_good_def by (auto simp: nth_list_update)
qed

definition routingPolicyLocks_good :: "routingPolicyLocks \<Rightarrow> (nat \<Rightarrow> nat) \<Rightarrow> bool" where
  "routingPolicyLocks_good l u \<longleftrightarrow> refs_good (rl_locks l) (map rl_refs (rl_heap l)) u"

definition certificateLocks_good :: "'c loadBalancerCertificateLocks \<Rightarrow> (nat \<Rightarrow> nat) \<Rightarrow> bool" where
  "certificateLocks_good l u \<longleftrightarrow> refs_good (cl_locks l) (map cl_refs (cl_heap l)) u"

definition operationLocks_good :: "networkLoadBalancerOperationLocks \<Rightarrow> (nat \<Rightarrow> nat) \<Rightarrow> bool" where
  "operationLocks_good l u \<longleftrightarrow>
     (\<forall>a. 0 < u a \<longrightarrow> a < ol_next l) \<and>
     (\<forall>k a. map_of (ol_mutexes l) k = Some a \<longrightarrow> a < ol_next l)"

lemma refs_good_facts:
  assumes "refs_good locks refs u"
  shows "map_of locks k = Some a \<Longrightarrow> a < length refs" "map_of locks k = Some a \<Longrightarrow> 0 < u a"
    "map_of locks k = Some a \<Longrightarrow> refs ! a = int (u a)"
    "u (length refs) = 0" "length refs \<notin> ran (map_of locks)"
  using assms unfolding refs_good_def by (auto simp: ran_def)

definition no_finish :: "'t \<Rightarrow> nat \<Rightarrow> unit option \<Rightarrow> 't" where
  "no_finish tbl a r = tbl"

definition no_cache :: "'t \<Rightarrow> nat \<Rightarrow> unit option" where
  "no_cache tbl a = None"

definition routingPolicyLocks_empty :: routingPolicyLocks where
  "routingPolicyLocks_empty = \<lparr>rl_heap = [], rl_locks = []\<rparr>"

definition certificateLocks_empty :: "'c loadBalancerCertificateLocks" where
  "certificateLocks_empty = \<lparr>cl_heap = [], cl_locks = []\<rparr>"

definition newNetworkLoadBalancerOperationLocks :: networkLoadBalancerOperationLocks where
  "newNetworkLoadBalancerOperationLocks = \<lparr>ol_mutexes = [], ol_next = 0\<rparr>"

lemma map_update_nth: "a < length xs \<Longrightarrow> map f (xs[a := y]) = (map f xs)[a := f y]"
  by (simp add: map_update)

lemma routingPolicyLocks_acquire_spec:
  assumes "routingPolicyLocks_good l u" "routingPolicyLocks_acquire l k = (l', a)"
  shows "routingPolicyLocks_good l' (u(a := Suc (u a)))"
    and "map_of (rl_locks l') = (map_of (rl_locks l))(k \<mapsto> a)"
    and "map_of (rl_locks l) k = Some a \<or>
      map_of (rl_locks l) k = None \<and> u a = 0 \<and> a \<notin> ran (map_of (rl_locks l))"
proof -
  note facts = refs_good_facts [OF assms(1) [unfolded routingPolicyLocks_good_def]]
  have "routingPolicyLocks_good l' (u(a := Suc (u a))) \<and>
    map_of (rl_locks l') = (map_of (rl_locks l))(k \<mapsto> a) \<and>
    (map_of (rl_locks l) k = Some a \<or> map_of (rl_locks l) k = None \<and> u a = 0 \<and> a \<notin> ran (map_of (rl_locks l)))"
  proof (cases "map_of (rl_locks l) k")
    case None
    with assms facts(4,5) refs_good_new [of "rl_locks l" "map rl_refs (rl_heap l)" u k] show ?thesis
      by (auto simp: routingPolicyLocks_acquire_def routingPolicyLocks_good_def Let_def update_conv' nth_append
          list_update_append)
  next
    case (Some b)
    with assms facts(1) [of k b] refs_good_again [of "rl_locks l" "map rl_refs (rl_heap l)" u k b] show ?thesis
      by (auto simp: routingPolicyLocks_acquire_def routingPolicyLocks_good_def Let_def map_update fun_upd_idem)
  qed
  then show "routingPolicyLocks_good l' (u(a := Suc (u a)))"
    and "map_of (rl_locks l') = (map_of (rl_locks l))(k \<mapsto> a)"
    and "map_of (rl_locks l) k = Some a \<or>
      map_of (rl_locks l) k = None \<and> u a = 0 \<and> a \<notin> ran (map_of (rl_locks l))" by blast+
qed

lemma routingPolicyLocks_release_spec:
  assumes "routingPolicyLocks_good l u" "map_of (rl_locks l) k = Some a"
  shows "routingPolicyLocks_good (routingPolicyLocks_release l k a) (u(a := u a - 1))"
    and "map_of (rl_locks (routingPolicyLocks_release l k a)) =
      (if u a = 1 then (map_of (rl_locks l))(k := None) else map_of (rl_locks l))"
proof -
  note g = assms(1) [unfolded routingPolicyLocks_good_def]
  note facts = refs_good_facts [OF g]
  have "rl_refs (rl_heap l ! a) = int (u a)" using facts(1,3) [OF assms(2)] by simp
  then show "routingPolicyLocks_good (routingPolicyLocks_release l k a) (u(a := u a - 1))"
    and "map_of (rl_locks (routingPolicyLocks_release l k a)) =
      (if u a = 1 then (map_of (rl_locks l))(k := None) else map_of (rl_locks l))"
    using facts(1) [OF assms(2)] refs_good_last [OF g assms(2)] refs_good_fewer [OF g assms(2)] assms(2)
    by (auto simp: routingPolicyLocks_release_def routingPolicyLocks_good_def Let_def map_update delete_conv')
qed

interpretation routing_locks: counted_locks routingPolicyLocks_acquire routingPolicyLocks_release no_finish
    "\<lambda>l. map_of (rl_locks l)" no_cache routingPolicyLocks_good routingPolicyLocks_empty
proof (unfold_locales, goal_cases)
  case 1
  show ?case by (simp add: routingPolicyLocks_good_def routingPolicyLocks_empty_def refs_good_def)
next
  case (13 tbl u k a)
  then show ?case using refs_good_facts(2) unfolding routingPolicyLocks_good_def by blast
qed (auto simp: routingPolicyLocks_empty_def no_cache_def no_finish_def
    routingPolicyLocks_release_spec routingPolicyLocks_acquire_spec
    dest: routingPolicyLocks_acquire_spec routingPolicyLocks_release_spec(1) split: if_splits)

lemma loadBalancerCertificateLocks_acquire_spec:
  assumes "certificateLocks_good l u" "loadBalancerCertificateLocks_acquire l k = (l', a)"
  shows "certificateLocks_good l' (u(a := Suc (u a)))"
    and "map_of (cl_locks l') = (map_of (cl_locks l))(k \<mapsto> a)"
    and "map_of (cl_locks l) k = Some a \<or>
      map_of (cl_locks l) k = None \<and> u a = 0 \<and> a \<notin> ran (map_of (cl_locks l)) \<and>
        loadBalancerCertificateLocks_cached l' a = None"
    and "map_of (cl_locks l) k' = Some b \<Longrightarrow>
      loadBalancerCertificateLocks_cached l' b = loadBalancerCertificateLocks_cached l b"
proof -
  note facts = refs_good_facts [OF assms(1) [unfolded certificateLocks_good_def]]
  have "certificateLocks_good l' (u(a := Suc (u a))) \<and>
    map_of (cl_locks l') = (map_of (cl_locks l))(k \<mapsto> a) \<and>
    (map_of (cl_locks l) k = Some a \<or> map_of (cl_locks l) k = None \<and> u a = 0 \<and> a \<notin> ran (map_of (cl_locks l)) \<and>
      loadBalancerCertificateLocks_cached l' a = None) \<and>
    (\<forall>k' b. map_of (cl_locks l) k' = Some b \<longrightarrow>
      loadBalancerCertificateLocks_cached l' b = loadBalancerCertificateLocks_cached l b)"
  proof (cases "map_of (cl_locks l) k")
    case None
    with assms facts(1,4,5) refs_good_new [of "cl_locks l" "map cl_refs (cl_heap l)" u k] show ?thesis
      by (auto simp: loadBalancerCertificateLocks_cached_def nth_list_update loadBalancerCertificateLocks_acquire_def certificateLocks_good_def Let_def update_conv' nth_append
          list_update_append)
  next
    case (Some b)
    with assms facts(1) [of k b] refs_good_again [of "cl_locks l" "map cl_refs (cl_heap l)" u k b] show ?thesis
      by (auto simp: loadBalancerCertificateLocks_cached_def nth_list_update loadBalancerCertificateLocks_acquire_def certificateLocks_good_def Let_def map_update fun_upd_idem)
  qed
  then show "certificateLocks_good l' (u(a := Suc (u a)))"
    and "map_of (cl_locks l') = (map_of (cl_locks l))(k \<mapsto> a)"
    and "map_of (cl_locks l) k = Some a \<or>
      map_of (cl_locks l) k = None \<and> u a = 0 \<and> a \<notin> ran (map_of (cl_locks l)) \<and>
        loadBalancerCertificateLocks_cached l' a = None"
    and "map_of (cl_locks l) k' = Some b \<Longrightarrow>
      loadBalancerCertificateLocks_cached l' b = loadBalancerCertificateLocks_cached l b" by blast+
qed

lemma loadBalancerCertificateLocks_release_spec:
  assumes "certificateLocks_good l u" "map_of (cl_locks l) k = Some a"
  shows "certificateLocks_good (loadBalancerCertificateLocks_release l k a) (u(a := u a - 1))"
    and "map_of (cl_locks (loadBalancerCertificateLocks_release l k a)) =
      (if u a = 1 then (map_of (cl_locks l))(k := None) else map_of (cl_locks l))"
    and "loadBalancerCertificateLocks_cached (loadBalancerCertificateLocks_release l k a) b =
      loadBalancerCertificateLocks_cached l b"
proof -
  note g = assms(1) [unfolded certificateLocks_good_def]
  note facts = refs_good_facts [OF g]
  have "cl_refs (cl_heap l ! a) = int (u a)" using facts(1,3) [OF assms(2)] by simp
  then show "certificateLocks_good (loadBalancerCertificateLocks_release l k a) (u(a := u a - 1))"
    and "map_of (cl_locks (loadBalancerCertificateLocks_release l k a)) =
      (if u a = 1 then (map_of (cl_locks l))(k := None) else map_of (cl_locks l))"
    and "loadBalancerCertificateLocks_cached (loadBalancerCertificateLocks_release l k a) b =
      loadBalancerCertificateLocks_cached l b"
    using facts(1) [OF assms(2)] refs_good_last [OF g assms(2)] refs_good_fewer [OF g assms(2)] assms(2)
    by (auto simp: loadBalancerCertificateLocks_cached_def nth_list_update loadBalancerCertificateLocks_release_def certificateLocks_good_def Let_def map_update delete_conv')
qed

lemma loadBalancerCertificateLocks_finish_spec:
  assumes "certificateLocks_good l u" "map_of (cl_locks l) k = Some a"
  shows "certificateLocks_good (loadBalancerCertificateLocks_finish l a r) u"
    and "cl_locks (loadBalancerCertificateLocks_finish l a r) = cl_locks l"
    and "loadBalancerCertificateLocks_cached (loadBalancerCertificateLocks_finish l a r) b =
      (if b = a \<and> r \<noteq> None then r else loadBalancerCertificateLocks_cached l b)"
proof -
  have "a < length (cl_heap l)"
    using refs_good_facts(1) [OF assms(1) [unfolded certificateLocks_good_def] assms(2)] by simp
  moreover from this have "map cl_refs ((cl_heap l)[a := (cl_heap l ! a)\<lparr>cl_certificate := c\<rparr>]) = map cl_refs (cl_heap l)" for c
    by (intro nth_equalityI) (auto simp: nth_list_update)
  ultimately show "certificateLocks_good (loadBalancerCertificateLocks_finish l a r) u"
    and "cl_locks (loadBalancerCertificateLocks_finish l a r) = cl_locks l"
    and "loadBalancerCertificateLocks_cached (loadBalancerCertificateLocks_finish l a r) b =
      (if b = a \<and> r \<noteq> None then r else loadBalancerCertificateLocks_cached l b)"
    using assms(1)
    by (simp_all add: loadBalancerCertificateLocks_finish_def certificateLocks_good_def
        loadBalancerCertificateLocks_cached_def nth_list_update split: option.split)
qed

interpretation certificate_locks: counted_locks loadBalancerCertificateLocks_acquire
    loadBalancerCertificateLocks_release loadBalancerCertificateLocks_finish
    "\<lambda>l. map_of (cl_locks l)" loadBalancerCertificateLocks_cached certificateLocks_good certificateLocks_empty
proof (unfold_locales, goal_cases)
  case 1
  show ?case by (simp add: certificateLocks_good_def certificateLocks_empty_def refs_good_def)
next
  case (13 tbl u k a)
  then show ?case using refs_good_facts(2) unfolding certificateLocks_good_def by blast
qed (auto simp: certificateLocks_empty_def
    loadBalancerCertificateLocks_release_spec loadBalancerCertificateLocks_finish_spec
    dest: loadBalancerCertificateLocks_acquire_spec loadBalancerCertificateLocks_release_spec(1) split: if_splits)

interpretation operation_locks: keyed_locks networkLoadBalancerOperationLocks_loadOrStore "\<lambda>l _ _. l" no_finish
    "\<lambda>l. map_of (ol_mutexes l)" no_cache operationLocks_good newNetworkLoadBalancerOperationLocks
  by unfold_locales
    (auto simp: less_Suc_eq networkLoadBalancerOperationLocks_loadOrStore_def operationLocks_good_def no_cache_def no_finish_def
      newNetworkLoadBalancerOperationLocks_def update_conv' ran_def split: option.splits if_splits)

section \<open>The locks of the controller\<close>

text \<open>The reachable states of \<open>n\<close> goroutines that call \<open>withLock\<close> of each table.\<close>

definition routingPolicyLocks_withLock :: "nat \<Rightarrow> routingPolicyLocks lock_machine \<Rightarrow> bool" where
  "routingPolicyLocks_withLock n m \<longleftrightarrow>
     lock_reachable routingPolicyLocks_acquire routingPolicyLocks_release no_finish Some (\<lambda>_ _. True) n
       routingPolicyLocks_empty m"

definition loadBalancerCertificateLocks_withLock ::
    "(string \<Rightarrow> 'c \<Rightarrow> bool) \<Rightarrow> nat \<Rightarrow> 'c loadBalancerCertificateLocks lock_machine \<Rightarrow> bool" where
  "loadBalancerCertificateLocks_withLock produces n m \<longleftrightarrow>
     lock_reachable loadBalancerCertificateLocks_acquire loadBalancerCertificateLocks_release
       loadBalancerCertificateLocks_finish Some produces n certificateLocks_empty m"

definition networkLoadBalancerOperationLocks_step ::
    "nat \<Rightarrow> networkLoadBalancerOperationLocks lock_machine \<Rightarrow> nat \<Rightarrow>
      networkLoadBalancerOperationLocks lock_machine \<Rightarrow> bool" where
  "networkLoadBalancerOperationLocks_step n =
     lock_step networkLoadBalancerOperationLocks_loadOrStore (\<lambda>l _ _. l) no_finish
       networkLoadBalancerOperationLocks_key (\<lambda>_ _. True) n"

definition networkLoadBalancerOperationLocks_withLock ::
    "nat \<Rightarrow> networkLoadBalancerOperationLocks lock_machine \<Rightarrow> bool" where
  "networkLoadBalancerOperationLocks_withLock n m \<longleftrightarrow>
     lock_reachable networkLoadBalancerOperationLocks_loadOrStore (\<lambda>l _ _. l) no_finish
       networkLoadBalancerOperationLocks_key (\<lambda>_ _. True) n newNetworkLoadBalancerOperationLocks m"

lemmas withLock_defs = routingPolicyLocks_withLock_def loadBalancerCertificateLocks_withLock_def
  networkLoadBalancerOperationLocks_withLock_def networkLoadBalancerOperationLocks_step_def

text \<open>
  C23: Two commits of routing policies under one key never overlap, whatever the interleaving of
  the goroutines and although the lock object is dropped and made again.
\<close>

theorem routingPolicyLocks_exclusive:
  "routingPolicyLocks_withLock n m \<Longrightarrow> lm_phase m t = Inside k a \<Longrightarrow> lm_phase m t' = Inside k a' \<Longrightarrow> t = t'"
  unfolding withLock_defs by (rule routing_locks.mutual_exclusion)

text \<open>
  The certificate that an operation finds in its lock was produced by an operation for the
  same load balancer and certificate name.
\<close>

theorem certificateLocks_cache_of_key:
  "loadBalancerCertificateLocks_withLock produces n m \<Longrightarrow> lm_phase m t = Inside k a \<Longrightarrow>
    loadBalancerCertificateLocks_cached (lm_table m) a = Some c \<Longrightarrow> produces k c"
  unfolding withLock_defs by (rule certificate_locks.cache_of_key)

text \<open>When no certificate operation is under way the table is empty, so no cached certificate is kept.\<close>

theorem certificateLocks_no_leak:
  assumes "loadBalancerCertificateLocks_withLock produces n m" "\<forall>t. phase_lock (lm_phase m t) = None"
  shows "cl_locks (lm_table m) = []"
proof -
  have "map_of (cl_locks (lm_table m)) k = None" for k
    using assms unfolding withLock_defs by (rule certificate_locks.no_leak)
  then show ?thesis by (metis map_of_eq_empty_iff ext)
qed

text \<open>Two operations on one network load balancer never overlap.\<close>

theorem operationLocks_exclusive:
  "networkLoadBalancerOperationLocks_withLock n m \<Longrightarrow> lm_phase m t = Inside k a \<Longrightarrow>
    lm_phase m t' = Inside k a' \<Longrightarrow> t = t'"
  unfolding withLock_defs by (rule operation_locks.mutual_exclusion)

text \<open>
  While some goroutine has not returned from \<open>withLock\<close>, one of those goroutines can take a
  step: the operation locks of one call cannot deadlock.
\<close>

theorem operationLocks_not_stuck:
  "networkLoadBalancerOperationLocks_withLock n m \<Longrightarrow> lm_phase m t \<noteq> Outside \<Longrightarrow> t < n \<Longrightarrow>
    \<exists>s m'. lm_phase m s \<noteq> Outside \<and> networkLoadBalancerOperationLocks_step n m s m'"
  unfolding withLock_defs by (rule operation_locks.not_stuck)

section \<open>Concrete runs\<close>

text \<open>
  Goroutine 0 runs under a key, goroutine 1 waits for it; and goroutine 0 has come and gone,
  its certificate cached meanwhile.
\<close>

definition contended :: "'t \<Rightarrow> lock_phase \<Rightarrow> 't lock_machine" where
  "contended tbl p = \<lparr>lm_table = tbl, lm_held = [0 \<mapsto> 0], lm_phase = (\<lambda>_. Outside)(0 := Inside ''k'' 0, 1 := p)\<rparr>"

lemma contended_reachable:
  assumes "guard r = Some ''k''" "acquire tbl ''k'' = (tbl1, 0)" "acquire tbl1 ''k'' = (tbl2, 0)"
  shows "lock_reachable acquire release finish guard produces 2 tbl (contended tbl2 (Waiting ''k'' 0))"
proof -
  let ?r = "lock_reachable acquire release finish guard produces 2 tbl"
  let ?m0 = "\<lparr>lm_table = tbl, lm_held = (\<lambda>_. None), lm_phase = (\<lambda>_. Outside)\<rparr>"
  have 0: "?r ?m0" by (rule reach_start)
  let ?m1 = "?m0\<lparr>lm_table := tbl1, lm_phase := (lm_phase ?m0)(0 := Waiting ''k'' 0)\<rparr>"
  have 1: "?r ?m1" by (rule reach_step [OF 0]) (rule step_acquire [of 0 2 _ guard r], simp_all add: assms)
  let ?m2 = "?m1\<lparr>lm_held := (lm_held ?m1)(0 \<mapsto> 0), lm_phase := (lm_phase ?m1)(0 := Inside ''k'' 0)\<rparr>"
  have 2: "?r ?m2" by (rule reach_step [OF 1]) (rule step_lock, simp_all)
  let ?m3 = "?m2\<lparr>lm_table := tbl2, lm_phase := (lm_phase ?m2)(1 := Waiting ''k'' 0)\<rparr>"
  have 3: "?r ?m3" by (rule reach_step [OF 2]) (rule step_acquire [of 1 2 _ guard r], simp_all add: assms)
  have "?m3 = contended tbl2 (Waiting ''k'' 0)" by (simp add: contended_def fun_eq_iff)
  with 3 show ?thesis by simp
qed

lemma contended_routing:
  "routingPolicyLocks_withLock 2
    (contended \<lparr>rl_heap = [\<lparr>rl_refs = 2\<rparr>], rl_locks = [(''k'', 0)]\<rparr> (Waiting ''k'' 0))"
  unfolding withLock_defs
  by (rule contended_reachable [of Some "''k''" _ _ "\<lparr>rl_heap = [\<lparr>rl_refs = 1\<rparr>], rl_locks = [(''k'', 0)]\<rparr>"])
    (simp_all add: routingPolicyLocks_acquire_def routingPolicyLocks_empty_def)

lemma contended_operation:
  "networkLoadBalancerOperationLocks_withLock 2
    (contended \<lparr>ol_mutexes = [(''k'', 0)], ol_next = 1\<rparr> (Waiting ''k'' 0))"
  unfolding withLock_defs
  by (rule contended_reachable [of _ "Some ''k''" _ _ "\<lparr>ol_mutexes = [(''k'', 0)], ol_next = 1\<rparr>"])
    (simp_all add: networkLoadBalancerOperationLocks_loadOrStore_def newNetworkLoadBalancerOperationLocks_def
      networkLoadBalancerOperationLocks_key_def)

lemma contended_certificate:
  "loadBalancerCertificateLocks_withLock produces 2
    (contended \<lparr>cl_heap = [\<lparr>cl_refs = 2, cl_certificate = None\<rparr>], cl_locks = [(''k'', 0)]\<rparr> (Waiting ''k'' 0))"
  unfolding withLock_defs
  by (rule contended_reachable [of Some "''k''" _ _
        "\<lparr>cl_heap = [\<lparr>cl_refs = 1, cl_certificate = None\<rparr>], cl_locks = [(''k'', 0)]\<rparr>"])
    (simp_all add: loadBalancerCertificateLocks_acquire_def certificateLocks_empty_def)

lemma contended_phases:
  "lm_phase (contended tbl p) 0 = Inside ''k'' 0" "lm_phase (contended tbl p) 1 = p"
  "lm_phase (contended tbl p) (Suc 0) = p" "lm_held (contended tbl p) = [0 \<mapsto> 0]"
  "lm_table (contended tbl p) = tbl"
  by (simp_all add: contended_def)

theorem routingPolicyLocks_exclusive_witness:
  "\<exists>m. routingPolicyLocks_withLock 2 m \<and> lm_phase m 1 = Waiting ''k'' 0 \<and>
    {t. \<exists>a. lm_phase m t = Inside ''k'' a} = {0}"
  using routingPolicyLocks_exclusive [OF contended_routing contended_phases(1)] contended_routing
  by (intro exI conjI) (auto simp: contended_phases)

theorem operationLocks_exclusive_witness:
  "\<exists>m. networkLoadBalancerOperationLocks_withLock 2 m \<and> lm_phase m 1 = Waiting ''k'' 0 \<and>
    {t. \<exists>a. lm_phase m t = Inside ''k'' a} = {0}"
  using operationLocks_exclusive [OF contended_operation contended_phases(1)] contended_operation
  by (intro exI conjI) (auto simp: contended_phases)

theorem operationLocks_not_stuck_witness:
  "\<exists>m s m'. networkLoadBalancerOperationLocks_withLock 2 m \<and> lm_phase m 1 = Waiting ''k'' 0 \<and>
    lm_phase m s \<noteq> Outside \<and> networkLoadBalancerOperationLocks_step 2 m s m'"
proof -
  let ?m = "contended \<lparr>ol_mutexes = [(''k'', 0)], ol_next = 1\<rparr> (Waiting ''k'' 0)"
  have "lm_phase ?m 1 \<noteq> Outside" "(1::nat) < 2" by (simp_all add: contended_phases)
  from operationLocks_not_stuck [OF contended_operation this]
  obtain s m' where step: "lm_phase ?m s \<noteq> Outside" "networkLoadBalancerOperationLocks_step 2 ?m s m'" by auto
  show ?thesis
    by (rule exI [of _ ?m], rule exI [of _ s], rule exI [of _ m'])
      (intro conjI contended_operation contended_phases(2) step)
qed

text \<open>Goroutine 0 leaves its certificate, which goroutine 1 then finds.\<close>

definition handed_over :: "'t \<Rightarrow> 't lock_machine" where
  "handed_over tbl = \<lparr>lm_table = tbl, lm_held = [0 \<mapsto> 1], lm_phase = (\<lambda>_. Outside)(0 := Leaving ''k'' 0, 1 := Inside ''k'' 0)\<rparr>"

lemma handed_over_reachable:
  assumes "lock_reachable acquire release finish guard produces 2 tbl (contended tbl2 (Waiting ''k'' 0))"
    and "produces ''k'' c"
  shows "lock_reachable acquire release finish guard produces 2 tbl (handed_over (finish tbl2 0 (Some c)))"
proof -
  let ?r = "lock_reachable acquire release finish guard produces 2 tbl"
  let ?m = "contended tbl2 (Waiting ''k'' 0)"
  let ?m1 = "?m\<lparr>lm_table := finish (lm_table ?m) 0 (Some c), lm_held := (lm_held ?m)(0 := None),
    lm_phase := (lm_phase ?m)(0 := Leaving ''k'' 0)\<rparr>"
  have 1: "?r ?m1" by (rule reach_step [OF assms(1)]) (rule step_unlock, simp_all add: contended_phases assms(2))
  let ?m2 = "?m1\<lparr>lm_held := (lm_held ?m1)(0 \<mapsto> 1), lm_phase := (lm_phase ?m1)(1 := Inside ''k'' 0)\<rparr>"
  have 2: "?r ?m2" by (rule reach_step [OF 1]) (rule step_lock, simp_all add: contended_phases)
  have "?m2 = handed_over (finish tbl2 0 (Some c))"
    by (simp add: handed_over_def contended_def fun_eq_iff)
  with 2 show ?thesis by simp
qed

lemma cached_run:
  "loadBalancerCertificateLocks_withLock (\<lambda>k c. c = k @ ''-certificate'') 2
    (handed_over \<lparr>cl_heap = [\<lparr>cl_refs = 2, cl_certificate = Some ''k-certificate''\<rparr>], cl_locks = [(''k'', 0)]\<rparr>)"
  using handed_over_reachable [OF contended_certificate [unfolded withLock_defs], of "\<lambda>k c. c = k @ ''-certificate''" "''k-certificate''"]
  by (simp add: withLock_defs loadBalancerCertificateLocks_finish_def)

theorem certificateLocks_cache_of_key_witness:
  "\<exists>m c. loadBalancerCertificateLocks_withLock (\<lambda>k c. c = k @ ''-certificate'') 2 m \<and>
    loadBalancerCertificateLocks_cached (lm_table m) 0 = Some c \<and> c = ''k'' @ ''-certificate''"
proof -
  let ?m = "handed_over \<lparr>cl_heap = [\<lparr>cl_refs = 2, cl_certificate = Some ''k-certificate''\<rparr>], cl_locks = [(''k'', 0)]\<rparr>"
  have c: "loadBalancerCertificateLocks_cached (lm_table ?m) 0 = Some ''k-certificate''"
    by (simp add: handed_over_def loadBalancerCertificateLocks_cached_def)
  have "lm_phase ?m 1 = Inside ''k'' 0" by (simp add: handed_over_def)
  from certificateLocks_cache_of_key [OF cached_run this c] cached_run c show ?thesis by blast
qed

text \<open>One goroutine has run an operation that failed.\<close>

lemma finished_reachable:
  assumes "guard r = Some ''k''" "acquire tbl ''k'' = (tbl1, 0)"
  shows "lock_reachable acquire release finish guard produces 1 tbl
    \<lparr>lm_table = release (finish tbl1 0 None) ''k'' 0, lm_held = (\<lambda>_. None), lm_phase = (\<lambda>_. Outside)\<rparr>"
proof -
  let ?r = "lock_reachable acquire release finish guard produces 1 tbl"
  let ?m0 = "\<lparr>lm_table = tbl, lm_held = (\<lambda>_. None), lm_phase = (\<lambda>_. Outside)\<rparr>"
  have 0: "?r ?m0" by (rule reach_start)
  let ?m1 = "?m0\<lparr>lm_table := tbl1, lm_phase := (lm_phase ?m0)(0 := Waiting ''k'' 0)\<rparr>"
  have 1: "?r ?m1" by (rule reach_step [OF 0]) (rule step_acquire [of 0 1 _ guard r], simp_all add: assms)
  let ?m2 = "?m1\<lparr>lm_held := (lm_held ?m1)(0 \<mapsto> 0), lm_phase := (lm_phase ?m1)(0 := Inside ''k'' 0)\<rparr>"
  have 2: "?r ?m2" by (rule reach_step [OF 1]) (rule step_lock, simp_all)
  let ?m3 = "?m2\<lparr>lm_table := finish (lm_table ?m2) 0 None, lm_held := (lm_held ?m2)(0 := None),
    lm_phase := (lm_phase ?m2)(0 := Leaving ''k'' 0)\<rparr>"
  have 3: "?r ?m3" by (rule reach_step [OF 2]) (rule step_unlock, simp_all)
  let ?m4 = "?m3\<lparr>lm_table := release (lm_table ?m3) ''k'' 0, lm_phase := (lm_phase ?m3)(0 := Outside)\<rparr>"
  have 4: "?r ?m4" by (rule reach_step [OF 3]) (rule step_release, simp_all)
  have "?m4 = \<lparr>lm_table = release (finish tbl1 0 None) ''k'' 0, lm_held = (\<lambda>_. None), lm_phase = (\<lambda>_. Outside)\<rparr>"
    by (simp add: fun_eq_iff)
  with 4 show ?thesis by simp
qed

definition finished_machine :: "nat loadBalancerCertificateLocks lock_machine" where
  "finished_machine = \<lparr>lm_table = \<lparr>cl_heap = [\<lparr>cl_refs = 0, cl_certificate = None\<rparr>], cl_locks = []\<rparr>,
     lm_held = (\<lambda>_. None), lm_phase = (\<lambda>_. Outside)\<rparr>"

lemma finished_run: "loadBalancerCertificateLocks_withLock (\<lambda>_ _. True) 1 finished_machine"
  using finished_reachable [of Some "''k''" loadBalancerCertificateLocks_acquire certificateLocks_empty
      "\<lparr>cl_heap = [\<lparr>cl_refs = 1, cl_certificate = None\<rparr>], cl_locks = [(''k'', 0)]\<rparr>"
      loadBalancerCertificateLocks_release loadBalancerCertificateLocks_finish "\<lambda>_ _. True"]
  by (simp add: withLock_defs finished_machine_def loadBalancerCertificateLocks_acquire_def certificateLocks_empty_def
      loadBalancerCertificateLocks_release_def loadBalancerCertificateLocks_finish_def Let_def)

theorem certificateLocks_no_leak_witness:
  "loadBalancerCertificateLocks_withLock (\<lambda>_ _. True) 1 finished_machine \<and> cl_locks (lm_table finished_machine) = []"
  using certificateLocks_no_leak [OF finished_run] finished_run by (simp add: finished_machine_def)

end
