(* ===== verification/Conditions.thy ===== *)
theory Conditions
  imports GatewayTypes Prelude
begin

text \<open>
  Status conditions: \<open>meta.SetStatusCondition\<close>, \<open>meta.FindStatusCondition\<close> of the
  Kubernetes libraries, and the comparisons of \<open>listenerset_model.go\<close>.
\<close>

fun setStatusCondition :: "condition list \<Rightarrow> condition \<Rightarrow> condition list" where
  "setStatusCondition [] c = [c]"
| "setStatusCondition (d # ds) c = (if cn_type d = cn_type c then c # ds else d # setStatusCondition ds c)"

definition findStatusCondition :: "condition list \<Rightarrow> string \<Rightarrow> condition option" where
  "findStatusCondition cs ty = find (\<lambda>c. cn_type c = ty) cs"

definition isStatusConditionTrue :: "condition list \<Rightarrow> string \<Rightarrow> bool" where
  "isStatusConditionTrue cs ty =
     (case findStatusCondition cs ty of None \<Rightarrow> False | Some c \<Rightarrow> cn_status c = ''True'')"

definition conditionsSemanticallyEqual :: "condition list \<Rightarrow> condition list \<Rightarrow> bool" where
  "conditionsSemanticallyEqual left right =
     (if length left \<noteq> length right then False
      else (let leftByType = slice_to_map cn_type id [] left in
        list_all (\<lambda>rightCondition. case map_of leftByType (cn_type rightCondition) of
            None \<Rightarrow> False
          | Some leftCondition \<Rightarrow> leftCondition = rightCondition) right))"

lemma find_set_condition: "findStatusCondition (setStatusCondition cs c) ty =
    (if ty = cn_type c then Some c else findStatusCondition cs ty)"
  by (induction cs) (auto simp: findStatusCondition_def)

lemma types_set_condition: "map cn_type (setStatusCondition cs c) =
    (if cn_type c \<in> cn_type ` set cs then map cn_type cs else map cn_type cs @ [cn_type c])"
  by (induction cs) auto

lemma distinct_set_condition: "distinct (map cn_type cs) \<Longrightarrow> distinct (map cn_type (setStatusCondition cs c))"
  by (simp add: types_set_condition)

lemma set_condition_idem [simp]: "setStatusCondition (setStatusCondition cs c) c = setStatusCondition cs c"
  by (induction cs) auto

lemma conditionsSemanticallyEqual_iff:
  assumes "distinct (map cn_type left)" "distinct (map cn_type right)"
  shows "conditionsSemanticallyEqual left right \<longleftrightarrow> set left = set right"
proof -
  have at: "map_of (slice_to_map cn_type id [] left) ty = Some c \<longleftrightarrow> c \<in> set left \<and> cn_type c = ty" for c ty
  proof
    assume "map_of (slice_to_map cn_type id [] left) ty = Some c"
    then show "c \<in> set left \<and> cn_type c = ty"
      by (auto simp: map_of_slice_to_map dest: find_SomeD split: option.splits)
  next
    assume "c \<in> set left \<and> cn_type c = ty"
    then show "map_of (slice_to_map cn_type id [] left) ty = Some c"
      using map_of_slice_to_map_unique [OF assms(1), of c id "[]"] by auto
  qed
  have "(case map_of (slice_to_map cn_type id [] left) (cn_type c) of None \<Rightarrow> False | Some d \<Rightarrow> d = c)
      \<longleftrightarrow> map_of (slice_to_map cn_type id [] left) (cn_type c) = Some c" for c
    by (auto split: option.split)
  then have "conditionsSemanticallyEqual left right \<longleftrightarrow> length left = length right \<and> set right \<subseteq> set left"
    by (auto simp: conditionsSemanticallyEqual_def Let_def list_all_iff at)
  moreover have "length left = card (set left)" "length right = card (set right)"
    using assms distinct_card distinct_map by metis+
  ultimately show ?thesis by (metis List.finite_set card_subset_eq order_refl)
qed

end
