(* ===== verification/GoPath.thy ===== *)
theory GoPath
  imports GoStrings
begin

text \<open>
  Go's \<open>path.Join\<close> and \<open>path.Clean\<close>, which the controller uses to build keys of
  objects, and \<open>NamespacedName.String\<close>. For names of Kubernetes objects they agree.
\<close>

text \<open>The elements kept so far are in reverse order; \<open>rooted\<close> paths drop a leading dot-dot.\<close>

fun clean_elements :: "bool \<Rightarrow> string list \<Rightarrow> string list \<Rightarrow> string list" where
  "clean_elements rooted kept [] = rev kept"
| "clean_elements rooted kept (e # es) =
     (if e = [] \<or> e = ''.'' then clean_elements rooted kept es
      else if e = ''..'' then
        (case kept of
           k # ks \<Rightarrow> clean_elements rooted (if k \<noteq> ''..'' then ks else e # kept) es
         | [] \<Rightarrow> clean_elements rooted (if rooted then [] else [e]) es)
      else clean_elements rooted (e # kept) es)"

definition path_clean :: "string \<Rightarrow> string" where
  "path_clean p =
     (let rooted = has_prefix p ''/'';
          cleaned = (if rooted then ''/'' else []) @ str_join ''/'' (clean_elements rooted [] (str_split (CHR ''/'') p))
      in if cleaned = [] then ''.'' else cleaned)"

definition path_join :: "string list \<Rightarrow> string" where
  "path_join elems =
     (case dropWhile (\<lambda>e. e = []) elems of
        [] \<Rightarrow> []
      | es \<Rightarrow> path_clean (str_join ''/'' es))"

definition namespaced_name :: "string \<Rightarrow> string \<Rightarrow> string" where
  "namespaced_name ns name = ns @ ''/'' @ name"

text \<open>Names of namespaces, objects and listeners: not empty, no slash, not a dot element.\<close>

definition plain_element :: "string \<Rightarrow> bool" where
  "plain_element e \<longleftrightarrow> e \<noteq> [] \<and> CHR ''/'' \<notin> set e \<and> e \<noteq> ''.'' \<and> e \<noteq> ''..''"

lemma clean_elements_plain: "\<forall>e\<in>set es. plain_element e \<Longrightarrow> clean_elements r kept es = rev kept @ es"
  by (induction es arbitrary: kept) (auto simp: plain_element_def)

lemma path_join_plain:
  assumes "es \<noteq> []" "\<forall>e\<in>set es. plain_element e"
  shows "path_join es = str_join ''/'' es"
proof -
  obtain e rest where es: "es = e # rest" using assms(1) by (cases es) auto
  with assms(2) have e: "e \<noteq> []" "CHR ''/'' \<notin> set e" by (simp_all add: plain_element_def)
  then have "\<exists>r. str_join ''/'' es = e @ r" using es by (cases rest) auto
  then have "\<not> has_prefix (str_join ''/'' es) ''/''" "str_join ''/'' es \<noteq> []"
    using e by (cases e; auto simp: has_prefix_iff)+
  moreover have "str_split (CHR ''/'') (str_join ''/'' es) = es"
    using assms by (intro str_split_join) (auto simp: plain_element_def)
  moreover have "dropWhile (\<lambda>e. e = []) es = es" using es e by simp
  ultimately show ?thesis
    using assms es clean_elements_plain [of es False "[]"]
    by (simp add: path_join_def path_clean_def Let_def split: list.split)
qed

lemma path_join_inj:
  assumes "es \<noteq> []" "fs \<noteq> []" "\<forall>e\<in>set es \<union> set fs. plain_element e" "path_join es = path_join fs"
  shows "es = fs"
proof -
  have "str_split (CHR ''/'') (str_join ''/'' es) = es" "str_split (CHR ''/'') (str_join ''/'' fs) = fs"
    using assms(1-3) by (auto intro!: str_split_join simp: plain_element_def)
  moreover have "str_join ''/'' es = str_join ''/'' fs"
    using assms by (simp add: path_join_plain)
  ultimately show ?thesis by metis
qed

end
