(* ===== verification/Hostnames.thy ===== *)
theory Hostnames
  imports GoPath
begin

text \<open>
  Hostname patterns of listeners and routes (\<open>httproute_model.go\<close>): the empty pattern
  matches every host, \<open>*.example.com\<close> every host below \<open>example.com\<close>. Shown: two patterns
  intersect, as the code decides, exactly when there is a host both match.
\<close>

definition l7WildcardHostnameMatches :: "string \<Rightarrow> string \<Rightarrow> bool" where
  "l7WildcardHostnameMatches pattern hostname =
     (let suffix = trim_prefix pattern ''*.''
      in hostname \<noteq> suffix \<and> has_suffix hostname (''.'' @ suffix))"

definition l7HostnamePatternsIntersect :: "string \<Rightarrow> string \<Rightarrow> bool" where
  "l7HostnamePatternsIntersect a b =
     (let aValue = to_lower a; bValue = to_lower b in
      if aValue = [] \<or> bValue = [] then True
      else if aValue = bValue then True
      else (let aWildcard = has_prefix aValue ''*.''; bWildcard = has_prefix bValue ''*.'' in
        if aWildcard \<and> bWildcard then
          (let aSuffix = trim_prefix aValue ''*.''; bSuffix = trim_prefix bValue ''*.''
           in aSuffix = bSuffix \<or> has_suffix aSuffix (''.'' @ bSuffix) \<or> has_suffix bSuffix (''.'' @ aSuffix))
        else if aWildcard then l7WildcardHostnameMatches aValue bValue
        else if bWildcard then l7WildcardHostnameMatches bValue aValue
        else False))"

definition l7RouteHostnamesIntersect :: "string list \<Rightarrow> string list \<Rightarrow> bool" where
  "l7RouteHostnamesIntersect a b =
     (if a = [] \<or> b = [] then False
      else list_ex (\<lambda>aHostname. list_ex (\<lambda>bHostname. l7HostnamePatternsIntersect aHostname bHostname) b) a)"

text \<open>The hosts a pattern stands for.\<close>

definition pattern_matches :: "string \<Rightarrow> string \<Rightarrow> bool" where
  "pattern_matches pattern host \<longleftrightarrow>
     (case cut_prefix (to_lower pattern) ''*.'' of
        Some suffix \<Rightarrow> has_suffix host (''.'' @ suffix)
      | None \<Rightarrow> to_lower pattern = [] \<or> host = to_lower pattern)"

lemma trim_prefix_append [simp]: "trim_prefix (p @ s) p = s"
  by (simp add: trim_prefix_def)

lemma wildcard_matches: "l7WildcardHostnameMatches (''*.'' @ s) h \<longleftrightarrow> has_suffix h (''.'' @ s)"
proof -
  have "has_suffix h (''.'' @ s) \<Longrightarrow> h \<noteq> s" by (auto simp: has_suffix_iff)
  then show ?thesis unfolding l7WildcardHostnameMatches_def trim_prefix_append Let_def by blast
qed

lemma has_suffix_chain: "has_suffix h a \<Longrightarrow> has_suffix h b \<Longrightarrow> has_suffix a b \<or> has_suffix b a"
  unfolding has_suffix_iff by (auto simp: append_eq_append_conv2)

lemma dotted_suffix: "has_suffix (''.'' @ a) (''.'' @ b) \<longleftrightarrow> a = b \<or> has_suffix a (''.'' @ b)"
  by (auto simp: has_suffix_iff Cons_eq_append_conv)

lemma wildcards_meet:
  "(\<exists>h. has_suffix h (''.'' @ a) \<and> has_suffix h (''.'' @ b)) \<longleftrightarrow>
    a = b \<or> has_suffix a (''.'' @ b) \<or> has_suffix b (''.'' @ a)"
proof
  assume "\<exists>h. has_suffix h (''.'' @ a) \<and> has_suffix h (''.'' @ b)"
  then have "has_suffix (''.'' @ a) (''.'' @ b) \<or> has_suffix (''.'' @ b) (''.'' @ a)"
    using has_suffix_chain by blast
  then show "a = b \<or> has_suffix a (''.'' @ b) \<or> has_suffix b (''.'' @ a)"
    unfolding dotted_suffix by blast
next
  have self: "has_suffix s s" for s by (simp add: has_suffix_iff)
  assume "a = b \<or> has_suffix a (''.'' @ b) \<or> has_suffix b (''.'' @ a)"
  then have "has_suffix (''.'' @ a) (''.'' @ b) \<or> has_suffix (''.'' @ b) (''.'' @ a)"
    unfolding dotted_suffix by blast
  then show "\<exists>h. has_suffix h (''.'' @ a) \<and> has_suffix h (''.'' @ b)" using self by blast
qed

lemma cut_prefix_cases: "cut_prefix s p = (if has_prefix s p then Some (drop (length p) s) else None)"
  by (auto simp: cut_prefix_def has_prefix_def)

text \<open>
  C26: Two hostname patterns intersect, as the code decides it, exactly when some host matches both.
\<close>

theorem hostname_patterns_intersect_iff:
  "l7HostnamePatternsIntersect a b \<longleftrightarrow> (\<exists>host. pattern_matches a host \<and> pattern_matches b host)"
proof -
  define x y where "x = to_lower a" and "y = to_lower b"
  have a: "pattern_matches a h \<longleftrightarrow> (case cut_prefix x ''*.'' of Some s \<Rightarrow> has_suffix h (''.'' @ s) | None \<Rightarrow> x = [] \<or> h = x)"
    and b: "pattern_matches b h \<longleftrightarrow> (case cut_prefix y ''*.'' of Some s \<Rightarrow> has_suffix h (''.'' @ s) | None \<Rightarrow> y = [] \<or> h = y)"
    for h unfolding pattern_matches_def x_def y_def by (rule refl)+
  have meet: "\<exists>h. has_suffix h (''.'' @ s)" for s by (auto simp: has_suffix_iff)
  have empty: "cut_prefix [] ''*.'' = None" by (simp add: cut_prefix_cases has_prefix_def)
  show ?thesis
  proof (cases "cut_prefix x ''*.''"; cases "cut_prefix y ''*.''")
    fix s t assume "cut_prefix x ''*.'' = Some s" "cut_prefix y ''*.'' = Some t"
    then have "x = ''*.'' @ s" "y = ''*.'' @ t" by (simp_all add: cut_prefix_Some)
    then show ?thesis
      unfolding a b l7HostnamePatternsIntersect_def x_def [symmetric] y_def [symmetric] Let_def
      by (simp only: has_prefix_append trim_prefix_append cut_prefix_append option.case wildcards_meet)
        (simp add: disj_commute)
  next
    fix s assume "cut_prefix x ''*.'' = Some s" and y: "cut_prefix y ''*.'' = None"
    then have x: "x = ''*.'' @ s" by (simp add: cut_prefix_Some)
    from y have p: "\<not> has_prefix y ''*.''" by (simp add: cut_prefix_cases split: if_splits)
    show ?thesis
      unfolding a b l7HostnamePatternsIntersect_def x_def [symmetric] y_def [symmetric] Let_def y x
      by (simp only: has_prefix_append cut_prefix_append option.case wildcard_matches p if_False if_True)
        (use meet p in \<open>auto simp del: append.simps\<close>)
  next
    fix t assume x: "cut_prefix x ''*.'' = None" and "cut_prefix y ''*.'' = Some t"
    then have y: "y = ''*.'' @ t" by (simp add: cut_prefix_Some)
    from x have p: "\<not> has_prefix x ''*.''" by (simp add: cut_prefix_cases split: if_splits)
    show ?thesis
      unfolding a b l7HostnamePatternsIntersect_def x_def [symmetric] y_def [symmetric] Let_def x y
      by (simp only: has_prefix_append cut_prefix_append option.case wildcard_matches p if_False if_True)
        (use meet p in \<open>auto simp del: append.simps\<close>)
  next
    assume "cut_prefix x ''*.'' = None" "cut_prefix y ''*.'' = None"
    then show ?thesis
      unfolding a b l7HostnamePatternsIntersect_def x_def [symmetric] y_def [symmetric] Let_def
      by (auto simp: cut_prefix_cases split: if_splits)
  qed
qed

lemma patternsIntersect_commute: "l7HostnamePatternsIntersect a b = l7HostnamePatternsIntersect b a"
  unfolding l7HostnamePatternsIntersect_def by (auto simp: Let_def)

lemma hostnamesIntersect_commute: "l7RouteHostnamesIntersect a b = l7RouteHostnamesIntersect b a"
  unfolding l7RouteHostnamesIntersect_def list_ex_iff using patternsIntersect_commute by auto

end
