(* ===== verification/ListenerSets.thy ===== *)
theory ListenerSets
  imports Conditions Hostnames Ports
begin

text \<open>
  Listeners of a Gateway together with those of the ListenerSets attached to it
  (\<open>listenerset_model.go\<close>): which ListenerSets may attach, the effective listeners with
  their names on the load balancer, conflicts of ports, and the status of a ListenerSet.
  Shown: of the listeners that ask for one port exactly the first is served; the result does
  not depend on the order in which the API lists the ListenerSets; a Gateway's own listeners
  never lose to a ListenerSet; an unchanged status is not written again.
\<close>

section \<open>Effective listeners\<close>

definition gatewayGroupName :: string where
  "gatewayGroupName = ''gateway.networking.k8s.io''"

definition maxOCIListenerNameLength :: int where
  "maxOCIListenerNameLength = 32"

datatype effectiveListenerSourceKind = effectiveListenerSourceGateway | effectiveListenerSourceListenerSet

definition source_kind_text :: "effectiveListenerSourceKind \<Rightarrow> string" where
  "source_kind_text k =
     (case k of effectiveListenerSourceGateway \<Rightarrow> ''Gateway'' | effectiveListenerSourceListenerSet \<Rightarrow> ''ListenerSet'')"

record effective_listener =
  ef_listener :: gw_listener
  ef_sourceKind :: effectiveListenerSourceKind
  ef_sourceNamespace :: string
  ef_sourceName :: string
  ef_ociName :: string
  ef_conflicted :: bool
  ef_conflictReason :: string
  ef_unsupported :: bool
  ef_unsupportedReason :: string
  ef_unsupportedMessage :: string

text \<open>What the controller resolves for a Gateway (\<open>gateway_model.go\<close>).\<close>

record resolved_gateway_details =
  rd_gateway :: gateway
  rd_gatewayClass :: gateway_class
  rd_listenerSets :: "listener_set list"
  rd_gatewaySecrets :: "k8s_secret go_map"
  rd_frontendMTLSConfigMaps :: "config_map go_map"
  rd_frontendMTLSReferenceGrants :: "reference_grant go_map"
  rd_loadBalancerID :: string
  rd_loadBalancer :: "load_balancer option"
  rd_effectiveListeners :: "effective_listener list"

definition effectiveListenerObjectKey :: "effective_listener \<Rightarrow> string" where
  "effectiveListenerObjectKey listener =
     path_join [ef_sourceNamespace listener, ef_sourceName listener, l_name (ef_listener listener)]"

definition effectiveListenerOCIListener :: "effective_listener \<Rightarrow> gw_listener" where
  "effectiveListenerOCIListener listener =
     (let ociListener = (ef_listener listener)\<lparr>l_name := ef_ociName listener\<rparr> in
      case (ef_sourceKind listener, l_tls ociListener) of
        (effectiveListenerSourceListenerSet, Some tls) \<Rightarrow>
          ociListener\<lparr>l_tls := Some (tls\<lparr>tls_cert_refs := map (\<lambda>ref.
            if sr_namespace ref = None then ref\<lparr>sr_namespace := Some (ef_sourceNamespace listener)\<rparr> else ref)
            (tls_cert_refs tls)\<rparr>)\<rparr>
      | _ \<Rightarrow> ociListener)"

definition listenerSetParentRefTargetsGateway :: "parent_ref \<Rightarrow> bool" where
  "listenerSetParentRefTargetsGateway parentRef \<longleftrightarrow>
     \<not> (pr_group parentRef \<noteq> None \<and> pr_group parentRef \<noteq> Some gatewayGroupName) \<and>
     \<not> (pr_kind parentRef \<noteq> None \<and> pr_kind parentRef \<noteq> Some ''Gateway'')"

definition listenerSetParentGatewayName :: "listener_set \<Rightarrow> string option" where
  "listenerSetParentGatewayName listenerSet =
     (let parentRef = ls_parent listenerSet in
      if \<not> listenerSetParentRefTargetsGateway parentRef then None
      else Some (path_join [case pr_namespace parentRef of Some n \<Rightarrow> n | None \<Rightarrow> ls_namespace listenerSet,
        pr_name parentRef]))"

definition parentRefTargetName :: "parent_ref \<Rightarrow> string \<Rightarrow> string \<times> string" where
  "parentRefTargetName parentRef routeNamespace =
     ((case pr_namespace parentRef of Some n \<Rightarrow> n | None \<Rightarrow> routeNamespace), pr_name parentRef)"

definition parentRefTargetsGateway :: "parent_ref \<Rightarrow> bool" where
  "parentRefTargetsGateway parentRef \<longleftrightarrow>
     (case pr_group parentRef of Some g \<Rightarrow> g | None \<Rightarrow> gatewayGroupName) = gatewayGroupName \<and>
     (case pr_kind parentRef of Some k \<Rightarrow> k | None \<Rightarrow> ''Gateway'') = ''Gateway''"

definition parentRefTargetsListenerSet :: "parent_ref \<Rightarrow> bool" where
  "parentRefTargetsListenerSet parentRef \<longleftrightarrow>
     (case pr_kind parentRef of
        None \<Rightarrow> False
      | Some k \<Rightarrow> (case pr_group parentRef of Some g \<Rightarrow> g | None \<Rightarrow> gatewayGroupName) = gatewayGroupName \<and>
          k = ''ListenerSet'')"

definition listenerSetParentGatewayTarget :: "lb_env \<Rightarrow> string \<Rightarrow> parent_ref \<Rightarrow> (string \<times> string) option lb_op" where
  "listenerSetParentGatewayTarget w routeNamespace parentRef =
     (case parentRefTargetName parentRef routeNamespace of (ns, name) \<Rightarrow>
        eff_bind (get_listener_set w ns name) (\<lambda>r. case r of
            Inl err \<Rightarrow>
              (if is_not_found err then eff_return None
               else eff_fail (ErrWrap (errtext ''failed to get ListenerSet '' (namespaced_name ns name) '': '') err []))
          | Inr listenerSet \<Rightarrow>
              eff_return (case listenerSetParentGatewayName listenerSet of
                 None \<Rightarrow> None
               | Some parentGatewayName \<Rightarrow> str_cut parentGatewayName ''/'')))"

definition listenerSetAllowedByGateway :: "lb_env \<Rightarrow> gateway \<Rightarrow> listener_set \<Rightarrow> string go_map \<Rightarrow> bool" where
  "listenerSetAllowedByGateway w gateway listenerSet namespaceLabels =
     (case gw_allowed_listeners gateway of
        None \<Rightarrow> False
      | Some namespaces \<Rightarrow>
          (let from_ns = (case rn_from namespaces of Some f \<Rightarrow> f | None \<Rightarrow> ''None'') in
           if from_ns = ''All'' then True
           else if from_ns = ''Same'' then ls_namespace listenerSet = gw_namespace gateway
           else if from_ns = ''Selector'' then
             (case rn_selector namespaces of
                None \<Rightarrow> False
              | Some sel \<Rightarrow> (case env_selector w sel of Inl _ \<Rightarrow> False | Inr matches \<Rightarrow> matches namespaceLabels))
           else False))"

definition listenerSetOCIListenerName :: "gateway \<Rightarrow> listener_set \<Rightarrow> gw_listener \<Rightarrow> string" where
  "listenerSetOCIListenerName gateway listenerSet listener =
     ConstructOCIResourceName
       (''ls_'' @ path_join [gw_namespace gateway, gw_name gateway, ls_namespace listenerSet, ls_name listenerSet,
          l_name listener])
       \<lparr>MaxLength = maxOCIListenerNameLength, InvalidCharsPattern = Some invalidCharsForPolicyNamePattern,
        sanitizeFunc = None, hashFunc = None\<rparr>"

definition listenersHaveHostnameConflict :: "gw_listener \<Rightarrow> gw_listener \<Rightarrow> bool" where
  "listenersHaveHostnameConflict left right =
     l7HostnamePatternsIntersect (str_ptr (l_hostname left)) (str_ptr (l_hostname right))"

definition effectiveListenersConflict :: "gw_listener \<Rightarrow> gw_listener \<Rightarrow> string option" where
  "effectiveListenersConflict left right =
     (if l_port left \<noteq> l_port right then None
      else if l_protocol left \<noteq> l_protocol right then Some ''ProtocolConflict''
      else if listenersHaveHostnameConflict left right then Some ''HostnameConflict''
      else Some ''PortUnavailable'')"

fun markEffectiveListenerConflict :: "effective_listener \<Rightarrow> effective_listener list \<Rightarrow> effective_listener" where
  "markEffectiveListenerConflict listener [] = listener"
| "markEffectiveListenerConflict listener (previous # rest) =
     (if ef_conflicted listener then listener
      else case effectiveListenersConflict (ef_listener previous) (ef_listener listener) of
          Some reason \<Rightarrow> listener\<lparr>ef_conflicted := True, ef_conflictReason := reason\<rparr>
        | None \<Rightarrow> markEffectiveListenerConflict listener rest)"

fun markConflictsFrom :: "effective_listener list \<Rightarrow> effective_listener list \<Rightarrow> effective_listener list" where
  "markConflictsFrom previous [] = []"
| "markConflictsFrom previous (listener # rest) =
     (let marked = markEffectiveListenerConflict listener previous
      in marked # markConflictsFrom (previous @ [marked]) rest)"

definition markConflictedEffectiveListeners :: "effective_listener list \<Rightarrow> effective_listener list" where
  "markConflictedEffectiveListeners listeners = markConflictsFrom [] listeners"

definition newEffectiveListener ::
    "gw_listener \<Rightarrow> effectiveListenerSourceKind \<Rightarrow> string \<Rightarrow> string \<Rightarrow> string \<Rightarrow> effective_listener" where
  "newEffectiveListener listener kind ns name ociName =
     \<lparr>ef_listener = listener, ef_sourceKind = kind, ef_sourceNamespace = ns, ef_sourceName = name, ef_ociName = ociName,
      ef_conflicted = False, ef_conflictReason = [], ef_unsupported = False, ef_unsupportedReason = [],
      ef_unsupportedMessage = []\<rparr>"

text \<open>The stable sort of the ListenerSets, which also reorders the caller's slice.\<close>

definition listenerSetBefore :: "listener_set \<Rightarrow> listener_set \<Rightarrow> bool" where
  "listenerSetBefore left right =
     (if ls_creation left \<noteq> ls_creation right then ls_creation left < ls_creation right
      else path_join [ls_namespace left, ls_name left] < path_join [ls_namespace right, ls_name right])"

definition sortListenerSets :: "listener_set list \<Rightarrow> listener_set list" where
  "sortListenerSets listenerSets = sort_by listenerSetBefore listenerSets"

definition effectiveListenersForGateway :: "gateway \<Rightarrow> listener_set list \<Rightarrow> effective_listener list" where
  "effectiveListenersForGateway gateway listenerSets =
     markConflictedEffectiveListeners
       (map (\<lambda>l. newEffectiveListener l effectiveListenerSourceGateway (gw_namespace gateway) (gw_name gateway)
           (l_name l)) (gw_listeners gateway) @
        concat (map (\<lambda>s. map (\<lambda>l. newEffectiveListener l effectiveListenerSourceListenerSet (ls_namespace s) (ls_name s)
           (listenerSetOCIListenerName gateway s l)) (ls_listeners s)) (sortListenerSets listenerSets)))"

definition resolvedEffectiveListeners :: "resolved_gateway_details \<Rightarrow> effective_listener list" where
  "resolvedEffectiveListeners data =
     (if rd_effectiveListeners data = [] then effectiveListenersForGateway (rd_gateway data) []
      else rd_effectiveListeners data)"

definition effectiveOCIListenersForGateway :: "resolved_gateway_details \<Rightarrow> gw_listener list" where
  "effectiveOCIListenersForGateway data =
     map effectiveListenerOCIListener
       (filter (\<lambda>l. \<not> (ef_conflicted l \<or> ef_unsupported l)) (resolvedEffectiveListeners data))"

definition gatewayManagedOCIListenersForLoadBalancer :: "resolved_gateway_details \<Rightarrow> gw_listener list" where
  "gatewayManagedOCIListenersForLoadBalancer data =
     filter (\<lambda>l. l_protocol l \<noteq> ''TLS'') (effectiveOCIListenersForGateway data)"

definition gatewayManagedOCIListenersForNetworkLoadBalancer :: "resolved_gateway_details \<Rightarrow> gw_listener list" where
  "gatewayManagedOCIListenersForNetworkLoadBalancer data =
     filter (\<lambda>l. l_protocol l = ''TCP'' \<or> l_protocol l = ''UDP'') (effectiveOCIListenersForGateway data)"

section \<open>Listeners a controller does not support\<close>

definition ControllerClassName :: string where
  "ControllerClassName = ''oke-gateway-api.gemyago.github.io/oke-alb-gateway-controller''"

definition NetworkLoadBalancerControllerClassName :: string where
  "NetworkLoadBalancerControllerClassName = ''oke-gateway-api.gemyago.github.io/oke-nlb-gateway-controller''"

definition unsupportedProtocol :: "gw_listener \<Rightarrow> string \<Rightarrow> (string \<times> string) option" where
  "unsupportedProtocol listener product = Some (''UnsupportedProtocol'',
     errtext ''listener '' (l_name listener) (errtext '' uses unsupported protocol '' (l_protocol listener) product))"

definition unsupportedTLSMode :: "gw_listener \<Rightarrow> string \<Rightarrow> (string \<times> string) option" where
  "unsupportedTLSMode listener product = Some (''UnsupportedValue'',
     errtext ''listener '' (l_name listener) ('' uses unsupported TLS mode'' @ product))"

definition listener_tls_mode :: "gw_listener \<Rightarrow> string option" where
  "listener_tls_mode listener = (case l_tls listener of None \<Rightarrow> None | Some tls \<Rightarrow> tls_mode tls)"

definition loadBalancerListenerSetListenerUnsupported :: "gw_listener \<Rightarrow> (string \<times> string) option" where
  "loadBalancerListenerSetListenerUnsupported listener =
     (if l_protocol listener = ''HTTP'' \<or> l_protocol listener = ''HTTPS'' then None
      else if l_protocol listener = ''TLS'' then
        (if listener_tls_mode listener = Some ''Terminate'' then None
         else unsupportedTLSMode listener '' for OCI Load Balancer'')
      else unsupportedProtocol listener '' for OCI Load Balancer'')"

definition networkLoadBalancerListenerSetListenerUnsupported :: "gw_listener \<Rightarrow> (string \<times> string) option" where
  "networkLoadBalancerListenerSetListenerUnsupported listener =
     (if l_protocol listener = ''TCP'' \<or> l_protocol listener = ''UDP'' then None
      else if l_protocol listener = ''TLS'' then
        (if listener_tls_mode listener = Some ''Passthrough'' then None
         else unsupportedTLSMode listener '' for OCI Network Load Balancer'')
      else unsupportedProtocol listener '' for OCI Network Load Balancer'')"

definition listenerSetListenerUnsupported :: "gw_listener \<Rightarrow> string \<Rightarrow> (string \<times> string) option" where
  "listenerSetListenerUnsupported listener controllerName =
     (if controllerName = ControllerClassName then loadBalancerListenerSetListenerUnsupported listener
      else if controllerName = NetworkLoadBalancerControllerClassName then
        networkLoadBalancerListenerSetListenerUnsupported listener
      else None)"

definition markUnsupportedListenerSetListeners :: "effective_listener list \<Rightarrow> string \<Rightarrow> effective_listener list" where
  "markUnsupportedListenerSetListeners listeners controllerName =
     map (\<lambda>l. if ef_sourceKind l \<noteq> effectiveListenerSourceListenerSet \<or> ef_conflicted l then l
       else case listenerSetListenerUnsupported (ef_listener l) controllerName of
           None \<Rightarrow> l
         | Some (reason, message) \<Rightarrow>
             l\<lparr>ef_unsupported := True, ef_unsupportedReason := reason, ef_unsupportedMessage := message\<rparr>) listeners"

section \<open>Listeners of a parent reference\<close>

definition parentRefTargetsEffectiveListener ::
    "parent_ref \<Rightarrow> string \<Rightarrow> gateway \<Rightarrow> effective_listener \<Rightarrow> bool" where
  "parentRefTargetsEffectiveListener parentRef routeNamespace gateway listener \<longleftrightarrow>
     (let target = parentRefTargetName parentRef routeNamespace in
      if parentRefTargetsGateway parentRef then
        ef_sourceKind listener = effectiveListenerSourceGateway \<and> target = (gw_namespace gateway, gw_name gateway)
      else if parentRefTargetsListenerSet parentRef then
        ef_sourceKind listener = effectiveListenerSourceListenerSet \<and>
        target = (ef_sourceNamespace listener, ef_sourceName listener)
      else False)"

definition effectiveListenersForParentRef ::
    "resolved_gateway_details \<Rightarrow> parent_ref \<Rightarrow> string \<Rightarrow> (parent_ref \<Rightarrow> gw_listener \<Rightarrow> bool) \<Rightarrow> gw_listener list" where
  "effectiveListenersForParentRef gatewayDetails parentRef routeNamespace matchesListener =
     map effectiveListenerOCIListener
       (filter (\<lambda>l. \<not> ef_conflicted l \<and>
           parentRefTargetsEffectiveListener parentRef routeNamespace (rd_gateway gatewayDetails) l \<and>
           matchesListener parentRef (ef_listener l))
         (resolvedEffectiveListeners gatewayDetails))"

definition effectiveListenerSourceNamespaceForOCIListener :: "resolved_gateway_details \<Rightarrow> gw_listener \<Rightarrow> string" where
  "effectiveListenerSourceNamespaceForOCIListener gatewayDetails listener =
     (case find (\<lambda>e. \<not> (ef_conflicted e \<or> ef_unsupported e) \<and>
         l_name (effectiveListenerOCIListener e) = l_name listener) (resolvedEffectiveListeners gatewayDetails) of
        Some effective \<Rightarrow> ef_sourceNamespace effective
      | None \<Rightarrow> gw_namespace (rd_gateway gatewayDetails))"

section \<open>The status of a ListenerSet\<close>

definition supportedRouteKindNamesForProtocol :: "string \<Rightarrow> string list" where
  "supportedRouteKindNamesForProtocol protocol =
     (if protocol = ''HTTP'' \<or> protocol = ''HTTPS'' then [''HTTPRoute'', ''GRPCRoute'']
      else if protocol = ''TLS'' then [''TLSRoute'']
      else if protocol = ''TCP'' then [''TCPRoute'']
      else if protocol = ''UDP'' then [''UDPRoute'']
      else [])"

definition group_of_kind :: "route_group_kind \<Rightarrow> string" where
  "group_of_kind k = (case rgk_group k of Some g \<Rightarrow> g | None \<Rightarrow> gatewayGroupName)"

definition supportedRouteKindsForListener :: "gw_listener \<Rightarrow> route_group_kind list" where
  "supportedRouteKindsForListener listener =
     (let kindNames = supportedRouteKindNamesForProtocol (l_protocol listener);
          kindNames = (case l_allowed listener of
            Some allowed \<Rightarrow>
              (if ar_kinds allowed \<noteq> [] then
                 (let allowedKinds = map rgk_kind (filter (\<lambda>k. group_of_kind k = gatewayGroupName) (ar_kinds allowed))
                  in filter (\<lambda>k. k \<in> set allowedKinds) kindNames)
               else kindNames)
          | None \<Rightarrow> kindNames)
      in map (\<lambda>k. \<lparr>rgk_group = Some gatewayGroupName, rgk_kind = k\<rparr>) kindNames)"

definition listenerEntryReasonFromListenerReason :: "string \<Rightarrow> string" where
  "listenerEntryReasonFromListenerReason reason =
     (if reason \<in> {''HostnameConflict'', ''ProtocolConflict'', ''InvalidCertificateRef'', ''InvalidRouteKinds'',
         ''RefNotPermitted'', ''UnsupportedProtocol'', ''PortUnavailable''} then reason
      else ''Invalid'')"

definition listenerEntryResolvedRefsStatus :: "string \<Rightarrow> string" where
  "listenerEntryResolvedRefsStatus reason =
     (if reason \<in> {''InvalidCertificateRef'', ''InvalidRouteKinds'', ''RefNotPermitted''} then ''False'' else ''True'')"

definition listenerEntryResolvedRefsReason :: "string \<Rightarrow> string" where
  "listenerEntryResolvedRefsReason reason =
     (if listenerEntryResolvedRefsStatus reason = ''False'' then reason else ''ResolvedRefs'')"

definition listenerEntryConflictedStatus :: "effective_listener option \<Rightarrow> string" where
  "listenerEntryConflictedStatus listener =
     (case listener of Some l \<Rightarrow> if ef_conflicted l then ''True'' else ''False'' | None \<Rightarrow> ''False'')"

definition listenerEntryConflictedReason :: "effective_listener option \<Rightarrow> string" where
  "listenerEntryConflictedReason listener =
     (case listener of
        Some l \<Rightarrow> if ef_conflicted l then listenerEntryReasonFromListenerReason (ef_conflictReason l) else ''NoConflicts''
      | None \<Rightarrow> ''NoConflicts'')"

definition setListenerEntryCondition ::
    "int \<Rightarrow> string \<Rightarrow> string \<Rightarrow> string \<Rightarrow> string \<Rightarrow> listener_entry_status \<Rightarrow> listener_entry_status" where
  "setListenerEntryCondition generation ty status reason message entry =
     entry\<lparr>les_conditions := setStatusCondition (les_conditions entry)
       \<lparr>cn_type = ty, cn_status = status, cn_reason = reason, cn_message = message, cn_generation = generation\<rparr>\<rparr>"

text \<open>
  The map of effective listeners by object key; a key that is missing reads as the zero
  value, a listener without problems.
\<close>

definition rejectedListener :: "effective_listener option \<Rightarrow> bool" where
  "rejectedListener effective =
     (case effective of Some l \<Rightarrow> ef_conflicted l \<or> ef_unsupported l | None \<Rightarrow> False)"

definition entryListener :: "(string \<times> effective_listener) list \<Rightarrow> listener_set \<Rightarrow> gw_listener \<Rightarrow> effective_listener option" where
  "entryListener listenersByKey listenerSet listener =
     map_of listenersByKey (path_join [ls_namespace listenerSet, ls_name listenerSet, l_name listener])"

definition listenerSetHasAcceptedListener :: "listener_set \<Rightarrow> (string \<times> effective_listener) list \<Rightarrow> bool" where
  "listenerSetHasAcceptedListener listenerSet listenersByKey =
     list_ex (\<lambda>l. \<not> rejectedListener (entryListener listenersByKey listenerSet l)) (ls_listeners listenerSet)"

definition listenerSetTopLevelStatusForGateway ::
    "gateway \<Rightarrow> listener_set \<Rightarrow> (string \<times> effective_listener) list \<Rightarrow> string \<Rightarrow> condition list" where
  "listenerSetTopLevelStatusForGateway gateway listenerSet listenersByKey controllerName =
     (let setName = namespaced_name (ls_namespace listenerSet) (ls_name listenerSet);
          invalid = errtext ''ListenerSet '' setName '' has invalid listeners'';
          (status, acceptedReason, acceptedMessage, programmedReason, programmedMessage) =
            (if listenerSetHasAcceptedListener listenerSet listenersByKey then
               (''True'', ''Accepted'', errtext ''ListenerSet '' setName
                  ('' accepted by Gateway '' @ namespaced_name (gw_namespace gateway) (gw_name gateway)),
                ''Programmed'', errtext ''ListenerSet '' setName ('' programmed by '' @ controllerName))
             else (''False'', ''ListenersNotValid'', invalid, ''ListenersNotValid'', invalid))
      in setStatusCondition (setStatusCondition []
           \<lparr>cn_type = ''Accepted'', cn_status = status, cn_reason = acceptedReason, cn_message = acceptedMessage,
            cn_generation = ls_generation listenerSet\<rparr>)
           \<lparr>cn_type = ''Programmed'', cn_status = status, cn_reason = programmedReason,
            cn_message = programmedMessage, cn_generation = ls_generation listenerSet\<rparr>)"

definition acceptedEntry ::
    "(string \<Rightarrow> string \<Rightarrow> string \<Rightarrow> string \<Rightarrow> listener_entry_status \<Rightarrow> listener_entry_status) \<Rightarrow> gw_listener \<Rightarrow>
      listener_entry_status \<Rightarrow> listener_entry_status" where
  "acceptedEntry set_cond listener entryStatus =
     set_cond ''Conflicted'' ''False'' ''NoConflicts'' (errtext ''listener '' (l_name listener) '' has no conflicts'')
     (set_cond ''ResolvedRefs'' ''True'' ''ResolvedRefs'' (errtext ''listener '' (l_name listener) '' references resolved'')
     (set_cond ''Programmed'' ''True'' ''Programmed'' (errtext ''listener '' (l_name listener) '' programmed'')
     (set_cond ''Accepted'' ''True'' ''Accepted'' (errtext ''listener '' (l_name listener) '' accepted'') entryStatus)))"

definition entryStatusForGateway ::
    "(string \<times> effective_listener) list \<Rightarrow> listener_set \<Rightarrow> int go_map \<Rightarrow> gw_listener \<Rightarrow> listener_entry_status" where
  "entryStatusForGateway listenersByKey listenerSet attachedRoutes listener =
     (let effective = entryListener listenersByKey listenerSet listener;
          set_cond = setListenerEntryCondition (ls_generation listenerSet);
          entryStatus = \<lparr>les_name = l_name listener, les_supported = supportedRouteKindsForListener listener,
            les_attached = (case map_of attachedRoutes (l_name listener) of Some n \<Rightarrow> n | None \<Rightarrow> 0),
            les_conditions = []\<rparr>
      in case effective of
          Some l \<Rightarrow>
            (if ef_conflicted l \<or> ef_unsupported l then
               (let (reason, message) =
                   (if ef_unsupported l then
                      (listenerEntryReasonFromListenerReason (ef_unsupportedReason l), ef_unsupportedMessage l)
                    else (listenerEntryReasonFromListenerReason (ef_conflictReason l),
                      errtext ''listener '' (l_name listener) '' conflicts with an earlier Gateway or ListenerSet listener''))
                in set_cond ''Conflicted'' (listenerEntryConflictedStatus effective) (listenerEntryConflictedReason effective) message
                  (set_cond ''ResolvedRefs'' (listenerEntryResolvedRefsStatus reason) (listenerEntryResolvedRefsReason reason) message
                  (set_cond ''Programmed'' ''False'' reason message
                  (set_cond ''Accepted'' ''False'' reason message entryStatus))))
             else acceptedEntry set_cond listener entryStatus)
        | None \<Rightarrow> acceptedEntry set_cond listener entryStatus)"

definition listenerSetStatusForGateway ::
    "gateway \<Rightarrow> listener_set \<Rightarrow> effective_listener list \<Rightarrow> string \<Rightarrow> int go_map \<Rightarrow> listener_set_status" where
  "listenerSetStatusForGateway gateway listenerSet effectiveListeners controllerName attachedRoutes =
     (let listenersByKey = slice_to_map effectiveListenerObjectKey id [] effectiveListeners
      in \<lparr>lss_conditions = listenerSetTopLevelStatusForGateway gateway listenerSet listenersByKey controllerName,
          lss_listeners = map (entryStatusForGateway listenersByKey listenerSet attachedRoutes) (ls_listeners listenerSet)\<rparr>)"

definition routeGroupKindsEqual :: "route_group_kind list \<Rightarrow> route_group_kind list \<Rightarrow> bool" where
  "routeGroupKindsEqual left right =
     (if length left \<noteq> length right then False
      else list_all2 (\<lambda>l r. str_ptr (rgk_group l) = str_ptr (rgk_group r) \<and> rgk_kind l = rgk_kind r)
        (sort_by (\<lambda>a b. rgk_kind a < rgk_kind b) left) (sort_by (\<lambda>a b. rgk_kind a < rgk_kind b) right))"

definition listenerSetStatusSemanticallyEqual :: "listener_set_status \<Rightarrow> listener_set_status \<Rightarrow> bool" where
  "listenerSetStatusSemanticallyEqual left right =
     (if \<not> conditionsSemanticallyEqual (lss_conditions left) (lss_conditions right) \<or>
        length (lss_listeners left) \<noteq> length (lss_listeners right) then False
      else (let leftListeners = slice_to_map les_name id [] (lss_listeners left) in
        list_all (\<lambda>r. case map_of leftListeners (les_name r) of
            None \<Rightarrow> False
          | Some l \<Rightarrow> les_attached l = les_attached r \<and> routeGroupKindsEqual (les_supported l) (les_supported r) \<and>
              conditionsSemanticallyEqual (les_conditions l) (les_conditions r)) (lss_listeners right)))"

definition maxInt32 :: int where
  "maxInt32 = 2 ^ 31 - 1"

text \<open>The counting loop saturates at the largest 32-bit integer.\<close>

definition attachedListenerSetCount :: "listener_set list \<Rightarrow> effective_listener list \<Rightarrow> int" where
  "attachedListenerSetCount listenerSets effectiveListeners =
     (let accepted = map (\<lambda>l. path_join [ef_sourceNamespace l, ef_sourceName l])
            (filter (\<lambda>l. ef_sourceKind l = effectiveListenerSourceListenerSet \<and> \<not> ef_conflicted l \<and> \<not> ef_unsupported l)
              effectiveListeners);
          counted = filter (\<lambda>s. effectiveListeners = [] \<or> path_join [ls_namespace s, ls_name s] \<in> set accepted)
            listenerSets
      in min maxInt32 (int (length counted)))"

section \<open>One listener per port\<close>

abbreviation ef_port :: "effective_listener \<Rightarrow> int" where
  "ef_port e \<equiv> l_port (ef_listener e)"

text \<open>\<open>lo.UniqBy\<close> keeps the first element of every key.\<close>

function uniq_by :: "('a \<Rightarrow> 'k) \<Rightarrow> 'a list \<Rightarrow> 'a list" where
  "uniq_by key [] = []"
| "uniq_by key (x # xs) = x # uniq_by key (filter (\<lambda>y. key y \<noteq> key x) xs)"
  by pat_completeness auto
termination by (relation "measure (length \<circ> snd)") (auto simp: less_Suc_eq_le)

text \<open>What the load balancer can serve: of the listeners of one port the first.\<close>

abbreviation firstPerPort :: "gw_listener list \<Rightarrow> gw_listener list" where
  "firstPerPort \<equiv> uniq_by l_port"

lemma conflict_iff_port: "effectiveListenersConflict l r = None \<longleftrightarrow> l_port l \<noteq> l_port r"
  by (simp add: effectiveListenersConflict_def)

lemma mark_conflict:
  assumes "\<not> ef_conflicted l"
  shows "ef_conflicted (markEffectiveListenerConflict l ps) \<longleftrightarrow> ef_port l \<in> ef_port ` set ps"
    and "ef_listener (markEffectiveListenerConflict l ps) = ef_listener l"
  using assms by (induction ps) (auto simp: effectiveListenersConflict_def)

lemma markConflictsFrom_served:
  assumes "list_all (\<lambda>l. \<not> ef_conflicted l) ls"
  shows "map ef_listener (filter (\<lambda>l. \<not> ef_conflicted l) (markConflictsFrom ps ls)) =
    firstPerPort (filter (\<lambda>l. l_port l \<notin> ef_port ` set ps) (map ef_listener ls))"
  using assms
proof (induction ls arbitrary: ps)
  case (Cons l ls)
  let ?m = "markEffectiveListenerConflict l ps"
  have m: "ef_conflicted ?m \<longleftrightarrow> ef_port l \<in> ef_port ` set ps" "ef_listener ?m = ef_listener l"
    using Cons.prems mark_conflict [of l ps] by simp_all
  have ih: "map ef_listener (filter (\<lambda>l. \<not> ef_conflicted l) (markConflictsFrom (ps @ [?m]) ls)) =
      firstPerPort (filter (\<lambda>k. l_port k \<notin> ef_port ` set (ps @ [?m])) (map ef_listener ls))"
    using Cons by simp
  have "filter (\<lambda>k. l_port k \<notin> ef_port ` set (ps @ [?m])) (map ef_listener ls) =
      filter (\<lambda>k. l_port k \<noteq> ef_port l) (filter (\<lambda>k. l_port k \<notin> ef_port ` set ps) (map ef_listener ls))"
    by (simp add: m(2) filter_map o_def conj_commute)
  with ih m show ?case
    by (cases "ef_port l \<in> ef_port ` set ps") (auto simp: Let_def filter_map o_def insert_absorb)
qed simp

text \<open>
  The listeners of a Gateway and its ListenerSets that are not in conflict are the first ones
  of their ports: the Gateway's in their order, then those of the ListenerSets from the oldest.
\<close>

theorem effectiveListeners_first_per_port:
  "map ef_listener (filter (\<lambda>l. \<not> ef_conflicted l) (effectiveListenersForGateway gateway sets)) =
    firstPerPort (gw_listeners gateway @ concat (map ls_listeners (sortListenerSets sets)))"
proof -
  have "map ef_listener (concat (map (\<lambda>s. map (\<lambda>l. newEffectiveListener l effectiveListenerSourceListenerSet (ls_namespace s)
      (ls_name s) (listenerSetOCIListenerName gateway s l)) (ls_listeners s)) ss)) = concat (map ls_listeners ss)" for ss
    by (induction ss) (simp_all add: newEffectiveListener_def o_def)
  then show ?thesis
    unfolding effectiveListenersForGateway_def markConflictedEffectiveListeners_def
    by (subst markConflictsFrom_served) (auto simp: newEffectiveListener_def list_all_iff o_def)
qed

lemma key_uniq_by: "key ` set (uniq_by key xs) = key ` set xs"
proof (induction key xs rule: uniq_by.induct)
  case (2 key x xs)
  then show ?case by (force simp: image_iff)
qed simp

lemma uniq_by_subset: "set (uniq_by key xs) \<subseteq> set xs"
  by (induction key xs rule: uniq_by.induct) auto

lemma distinct_uniq_by: "distinct (map key (uniq_by key xs))"
proof (induction key xs rule: uniq_by.induct)
  case (2 key x xs)
  then show ?case using uniq_by_subset [of key "filter (\<lambda>y. key y \<noteq> key x) xs"] by auto
qed simp

lemma set_uniq_id [simp]: "set (uniq_by id xs) = set xs"
  using key_uniq_by [of id xs] by simp

lemma firstPerPort_append:
  "distinct (map l_port ls) \<Longrightarrow> \<exists>rest. firstPerPort (ls @ ks) = ls @ rest"
proof (induction ls arbitrary: ks)
  case (Cons l ls)
  then have "filter (\<lambda>k. l_port k \<noteq> l_port l) ls = ls" by (force simp: filter_id_conv image_iff)
  moreover obtain rest where "firstPerPort (ls @ filter (\<lambda>k. l_port k \<noteq> l_port l) ks) = ls @ rest"
    using Cons by auto
  ultimately show ?case by auto
qed simp

text \<open>
  A ListenerSet never takes a port away from the Gateway: when the Gateway's own listeners have
  different ports, all of them are served, before any listener of a ListenerSet.
\<close>

theorem gateway_listeners_served:
  assumes "distinct (map l_port (gw_listeners gateway))"
  shows "\<exists>rest. map ef_listener (filter (\<lambda>l. \<not> ef_conflicted l) (effectiveListenersForGateway gateway sets)) =
    gw_listeners gateway @ rest"
  unfolding effectiveListeners_first_per_port using assms by (rule firstPerPort_append)

text \<open>Example objects: an HTTP and an HTTPS listener, and a ListenerSet that asks for a taken port.\<close>

definition plainListener :: "string \<Rightarrow> int \<Rightarrow> string \<Rightarrow> gw_listener" where
  "plainListener name port protocol =
     \<lparr>l_name = name, l_hostname = None, l_port = port, l_protocol = protocol, l_tls = None, l_allowed = None\<rparr>"

definition gatewayRef :: "string \<Rightarrow> parent_ref" where
  "gatewayRef name =
     \<lparr>pr_group = None, pr_kind = None, pr_namespace = None, pr_name = name, pr_section = None, pr_port = None\<rparr>"

definition exampleGateway :: gateway where
  "exampleGateway = \<lparr>gw_namespace = ''ns'', gw_name = ''gw'', gw_uid = ''uid'', gw_creation = None, gw_generation = 1,
     gw_deleting = False, gw_finalizers = [], gw_annotations = [], gw_class_name = ''oci'', gw_parameters = Some ''cfg'',
     gw_listeners = [plainListener ''web'' 80 ''HTTP'', plainListener ''tls'' 443 ''HTTPS''],
     gw_allowed_listeners = None, gw_frontend = None, gw_conditions = [], gw_addresses = [],
     gw_attached_listener_sets = None\<rparr>"

definition exampleListenerSet :: "string \<Rightarrow> gw_listener list \<Rightarrow> listener_set" where
  "exampleListenerSet name listeners = \<lparr>ls_namespace = ''ns'', ls_name = name, ls_creation = 0, ls_generation = 1,
     ls_deleting = False, ls_annotations = [], ls_parent = gatewayRef ''gw'', ls_listeners = listeners,
     ls_status = \<lparr>lss_conditions = [], lss_listeners = []\<rparr>\<rparr>"

theorem gateway_listeners_served_witness:
  "\<exists>rest. map ef_listener (filter (\<lambda>l. \<not> ef_conflicted l)
      (effectiveListenersForGateway exampleGateway [exampleListenerSet ''ls'' [plainListener ''mine'' 80 ''HTTP'']])) =
    gw_listeners exampleGateway @ rest"
  by (rule gateway_listeners_served) (simp add: exampleGateway_def plainListener_def)

section \<open>The order of the ListenerSets\<close>

definition namedSets :: "listener_set list \<Rightarrow> bool" where
  "namedSets sets \<longleftrightarrow> distinct (map (\<lambda>s. (ls_namespace s, ls_name s)) sets) \<and>
     (\<forall>s\<in>set sets. plain_element (ls_namespace s) \<and> plain_element (ls_name s))"

interpretation listener_set_order: strict_order listenerSetBefore namedSets
proof
  fix sets x y
  assume sets: "namedSets sets" "x \<in> set sets" "y \<in> set sets" "x \<noteq> y"
  then have "(ls_namespace x, ls_name x) \<noteq> (ls_namespace y, ls_name y)"
    by (auto simp: namedSets_def distinct_map inj_on_def)
  moreover have "\<forall>e\<in>set [ls_namespace x, ls_name x] \<union> set [ls_namespace y, ls_name y]. plain_element e"
    using sets by (auto simp: namedSets_def)
  ultimately have "path_join [ls_namespace x, ls_name x] \<noteq> path_join [ls_namespace y, ls_name y]"
    using path_join_inj [of "[ls_namespace x, ls_name x]" "[ls_namespace y, ls_name y]"] by auto
  then show "listenerSetBefore x y \<or> listenerSetBefore y x" by (auto simp: listenerSetBefore_def)
qed (auto simp: listenerSetBefore_def split: if_splits)

text \<open>
  C22: The effective listeners do not depend on the order in which the Kubernetes API lists the
  ListenerSets.
\<close>

theorem effectiveListeners_order_independent:
  assumes "mset sets' = mset sets" "namedSets sets"
  shows "effectiveListenersForGateway gateway sets' = effectiveListenersForGateway gateway sets"
proof -
  have "namedSets sets'"
    using assms by (metis (no_types, lifting) mset_eq_imp_distinct_iff mset_eq_setD mset_map namedSets_def)
  then have "sortListenerSets sets' = sortListenerSets sets"
    unfolding sortListenerSets_def using assms by (intro listener_set_order.sort_by_perm_eq)
  then show ?thesis by (simp add: effectiveListenersForGateway_def)
qed

theorem effectiveListeners_order_independent_witness:
  "effectiveListenersForGateway exampleGateway [exampleListenerSet ''b'' [], exampleListenerSet ''a'' []] =
    effectiveListenersForGateway exampleGateway [exampleListenerSet ''a'' [], exampleListenerSet ''b'' []]"
  by (rule effectiveListeners_order_independent)
    (simp_all add: namedSets_def plain_element_def exampleListenerSet_def)

section \<open>Writing the status\<close>

lemma routeGroupKindsEqual_refl: "routeGroupKindsEqual k k"
  by (simp add: routeGroupKindsEqual_def list.rel_refl)

lemma conditionsEqual_refl: "distinct (map cn_type cs) \<Longrightarrow> conditionsSemanticallyEqual cs cs"
  by (simp add: conditionsSemanticallyEqual_iff)

lemma entry_conditions_distinct:
  "distinct (map cn_type (les_conditions (entryStatusForGateway m s counts l)))"
  by (simp add: entryStatusForGateway_def acceptedEntry_def setListenerEntryCondition_def Let_def
      distinct_set_condition split: option.split prod.split)

lemma top_conditions_distinct:
  "distinct (map cn_type (listenerSetTopLevelStatusForGateway g s m c))"
  by (simp add: listenerSetTopLevelStatusForGateway_def Let_def)

text \<open>
  Once the status of a ListenerSet is written, the next reconciliation finds it equal to the
  desired one and writes nothing.
\<close>

theorem listenerSetStatus_settles:
  assumes "distinct (map l_name (ls_listeners listenerSet))"
  shows "listenerSetStatusSemanticallyEqual
    (listenerSetStatusForGateway gateway listenerSet effectiveListeners controllerName attachedRoutes)
    (listenerSetStatusForGateway gateway listenerSet effectiveListeners controllerName attachedRoutes)"
proof -
  define m where "m = slice_to_map effectiveListenerObjectKey id [] effectiveListeners"
  define entries where "entries = map (entryStatusForGateway m listenerSet attachedRoutes) (ls_listeners listenerSet)"
  have "map les_name entries = map l_name (ls_listeners listenerSet)"
    by (simp add: entries_def entryStatusForGateway_def acceptedEntry_def setListenerEntryCondition_def Let_def
        split: option.split prod.split)
  then have "map_of (slice_to_map les_name id [] entries) (les_name e) = Some e" if "e \<in> set entries" for e
    using assms that map_of_slice_to_map_unique [of les_name entries e id "[]"] by simp
  moreover have "conditionsSemanticallyEqual (les_conditions e) (les_conditions e)" if "e \<in> set entries" for e
    using that entry_conditions_distinct by (auto simp: entries_def intro: conditionsEqual_refl)
  ultimately show ?thesis
    unfolding listenerSetStatusForGateway_def listenerSetStatusSemanticallyEqual_def Let_def
      m_def [symmetric] entries_def [symmetric]
    using top_conditions_distinct conditionsEqual_refl
    by (simp add: list_all_iff routeGroupKindsEqual_refl)
qed

theorem listenerSetStatus_settles_witness:
  "listenerSetStatusSemanticallyEqual
    (listenerSetStatusForGateway exampleGateway (exampleListenerSet ''ls'' [plainListener ''mine'' 80 ''HTTP''])
      (effectiveListenersForGateway exampleGateway []) ControllerClassName [])
    (listenerSetStatusForGateway exampleGateway (exampleListenerSet ''ls'' [plainListener ''mine'' 80 ''HTTP''])
      (effectiveListenersForGateway exampleGateway []) ControllerClassName [])"
  by (rule listenerSetStatus_settles) (simp add: exampleListenerSet_def)

section \<open>Unsupported listeners\<close>

text \<open>
  A listener that the controller reports as unsupported still counts as a listener of its
  ListenerSet for the routes that name it, although it is never programmed.
\<close>

definition unsupportedDetails :: resolved_gateway_details where
  "unsupportedDetails = \<lparr>rd_gateway = exampleGateway,
     rd_gatewayClass = \<lparr>gc_name = ''oci'', gc_controller = ControllerClassName, gc_generation = 1, gc_finalizers = [], gc_annotations = [], gc_conditions = []\<rparr>,
     rd_listenerSets = [], rd_gatewaySecrets = [], rd_frontendMTLSConfigMaps = [], rd_frontendMTLSReferenceGrants = [],
     rd_loadBalancerID = ''lb'', rd_loadBalancer = None,
     rd_effectiveListeners = markUnsupportedListenerSetListeners
       [newEffectiveListener (plainListener ''db'' 5432 ''TCP'') effectiveListenerSourceListenerSet ''ns'' ''ls'' ''ls_db'']
       ControllerClassName\<rparr>"

theorem unsupported_listener_still_attached:
  "effectiveOCIListenersForGateway unsupportedDetails = [] \<and>
    map l_name (effectiveListenersForParentRef unsupportedDetails
      ((gatewayRef ''ls'')\<lparr>pr_kind := Some ''ListenerSet''\<rparr>) ''ns'' (\<lambda>_ _. True)) = [''ls_db'']"
  by code_simp

end
