(* ===== verification/RouteAttachment.thy ===== *)
theory RouteAttachment
  imports ListenerSets ReferenceGrants
begin

text \<open>
  Which listeners a route attaches to (\<open>l4route_policy.go\<close>), and which of two routes wins
  (\<open>httproute_model.go\<close>). Shown: a route attaches exactly to the listeners whose policy
  permits its kind and namespace; the winner among routes is the same whoever asks; an
  HTTPRoute and a GRPCRoute never displace each other.
\<close>

section \<open>Allowed routes\<close>

definition routeKindAllowedForListener :: "gw_listener \<Rightarrow> string \<Rightarrow> bool" where
  "routeKindAllowedForListener listener routeKind =
     (case l_allowed listener of
        None \<Rightarrow> routeKind \<in> set (supportedRouteKindNamesForProtocol (l_protocol listener))
      | Some allowed \<Rightarrow>
          (if ar_kinds allowed = [] then routeKind \<in> set (supportedRouteKindNamesForProtocol (l_protocol listener))
           else list_ex (\<lambda>k. group_of_kind k = gatewayGroupName \<and> rgk_kind k = routeKind) (ar_kinds allowed)))"

definition l4RouteKindAllowed :: "gw_listener \<Rightarrow> string \<Rightarrow> bool" where
  "l4RouteKindAllowed listener routeKind = routeKindAllowedForListener listener routeKind"

definition selectNamespace :: "lb_env \<Rightarrow> string \<Rightarrow> string option \<Rightarrow> bool lb_op" where
  "selectNamespace w routeNamespace selector =
     (case selector of
        None \<Rightarrow> eff_return False
      | Some sel \<Rightarrow>
          (case env_selector w sel of
             Inl err \<Rightarrow> eff_fail (ErrWrap ''invalid allowedRoutes namespace selector: '' err [])
           | Inr matches \<Rightarrow>
               eff_bind (get_namespace w routeNamespace) (\<lambda>r. case r of
                   Inl err \<Rightarrow> eff_fail (ErrWrap (errtext ''failed to get route namespace '' routeNamespace '': '') err [])
                 | Inr labels \<Rightarrow> eff_return (matches labels))))"

definition l4RouteNamespaceAllowed :: "lb_env \<Rightarrow> string \<Rightarrow> string \<Rightarrow> gw_listener \<Rightarrow> bool lb_op" where
  "l4RouteNamespaceAllowed w gatewayNamespace routeNamespace listener =
     (case l_allowed listener of
        None \<Rightarrow> eff_return (routeNamespace = gatewayNamespace)
      | Some allowed \<Rightarrow>
          (case ar_namespaces allowed of
             None \<Rightarrow> eff_return (routeNamespace = gatewayNamespace)
           | Some namespaces \<Rightarrow>
               (case rn_from namespaces of
                  None \<Rightarrow> eff_return (routeNamespace = gatewayNamespace)
                | Some from_ns \<Rightarrow>
                    (if from_ns = ''All'' then eff_return True
                     else if from_ns = ''Same'' then eff_return (routeNamespace = gatewayNamespace)
                     else if from_ns = ''Selector'' then selectNamespace w routeNamespace (rn_selector namespaces)
                     else eff_return False))))"

definition l4ListenerAllowsRoute :: "lb_env \<Rightarrow> string \<Rightarrow> string \<Rightarrow> gw_listener \<Rightarrow> string \<Rightarrow> bool lb_op" where
  "l4ListenerAllowsRoute w gatewayNamespace routeNamespace listener routeKind =
     (if \<not> l4RouteKindAllowed listener routeKind then eff_return False
      else l4RouteNamespaceAllowed w gatewayNamespace routeNamespace listener)"

fun allowedRouteListeners ::
    "lb_env \<Rightarrow> resolved_gateway_details \<Rightarrow> string \<Rightarrow> gw_listener list \<Rightarrow> string \<Rightarrow> gw_listener list lb_op" where
  "allowedRouteListeners w gatewayDetails routeNamespace [] routeKind = eff_return []"
| "allowedRouteListeners w gatewayDetails routeNamespace (listener # rest) routeKind =
     (let keep = eff_bind (allowedRouteListeners w gatewayDetails routeNamespace rest routeKind) (\<lambda>ls. eff_return (listener # ls));
          skip = allowedRouteListeners w gatewayDetails routeNamespace rest routeKind
      in case l_allowed listener of
          None \<Rightarrow> keep
        | Some allowed \<Rightarrow>
            (if ar_kinds allowed \<noteq> [] \<and> \<not> routeKindAllowedForListener listener routeKind then skip
             else if ar_namespaces allowed = None then keep
             else eff_bind (l4RouteNamespaceAllowed w
                 (effectiveListenerSourceNamespaceForOCIListener gatewayDetails listener) routeNamespace listener)
               (\<lambda>namespaceAllowed. if namespaceAllowed then keep else skip)))"

definition l4ValidateServiceBackendRef :: "backend_ref \<Rightarrow> error option" where
  "l4ValidateServiceBackendRef backendRef =
     (let group = str_ptr (br_group backendRef);
          kind = (case br_kind backendRef of Some k \<Rightarrow> k | None \<Rightarrow> serviceKind)
      in if group \<noteq> [] \<or> kind \<noteq> serviceKind then
           Some (ErrText (errtext ''backendRef '' (br_name backendRef)
             (errtext '' uses unsupported referent '' group (''/'' @ kind))))
         else None)"

definition l4BackendRefWeight :: "backend_ref \<Rightarrow> int" where
  "l4BackendRefWeight backendRef = (case br_weight backendRef of None \<Rightarrow> 1 | Some n \<Rightarrow> n)"

text \<open>The policy of a listener, for a route whose namespace has the given labels.\<close>

definition listenerPermits ::
    "lb_env \<Rightarrow> string \<Rightarrow> string \<Rightarrow> string go_map \<Rightarrow> string \<Rightarrow> gw_listener \<Rightarrow> bool" where
  "listenerPermits w owner routeNamespace labels routeKind listener \<longleftrightarrow>
     (\<forall>allowed. l_allowed listener = Some allowed \<longrightarrow>
       (ar_kinds allowed \<noteq> [] \<longrightarrow> (\<exists>k\<in>set (ar_kinds allowed). group_of_kind k = gatewayGroupName \<and> rgk_kind k = routeKind)) \<and>
       (\<forall>namespaces. ar_namespaces allowed = Some namespaces \<longrightarrow>
         (case rn_from namespaces of
            None \<Rightarrow> routeNamespace = owner
          | Some from_ns \<Rightarrow>
              from_ns = ''All'' \<or> from_ns = ''Same'' \<and> routeNamespace = owner \<or>
              from_ns = ''Selector'' \<and> (\<exists>sel matches. rn_selector namespaces = Some sel \<and>
                env_selector w sel = Inr matches \<and> matches labels))))"

lemma namespaceAllowed_run:
  assumes "\<And>h. env_namespace_labels w h ns = Inr labels" "l_allowed l = Some a" "ar_namespaces a = Some n"
    "ar_kinds a \<noteq> [] \<longrightarrow> routeKindAllowedForListener l kind"
    "fst (l4RouteNamespaceAllowed w owner ns l h) = Inr b"
  shows "b \<longleftrightarrow> listenerPermits w owner ns labels kind l"
proof -
  have kinds: "ar_kinds a \<noteq> [] \<longrightarrow> (\<exists>k\<in>set (ar_kinds a). group_of_kind k = gatewayGroupName \<and> rgk_kind k = kind)"
    using assms(2,4) by (simp add: routeKindAllowedForListener_def list_ex_iff)
  show ?thesis
  proof (cases "rn_from n")
    case None
    with assms kinds show ?thesis
      by (simp add: l4RouteNamespaceAllowed_def eff_return_run listenerPermits_def)
  next
    case (Some f)
    consider "f = ''All''" | "f = ''Same''" | "f = ''Selector''" | "f \<notin> {''All'', ''Same'', ''Selector''}" by blast
    then show ?thesis
    proof cases
      case 3
      with assms(2,3,5) Some have run: "fst (selectNamespace w ns (rn_selector n) h) = Inr b"
        by (simp add: l4RouteNamespaceAllowed_def)
      show ?thesis
      proof (cases "rn_selector n")
        case None
        with run assms(2,3) Some 3 kinds show ?thesis
          by (simp add: selectNamespace_def eff_return_run listenerPermits_def)
      next
        case (Some sel)
        with run assms(1) obtain m where "env_selector w sel = Inr m" "b = m labels"
          by (cases "env_selector w sel")
            (simp_all add: selectNamespace_def eff_bind_Inr [OF k8s_run(5)] eff_return_run eff_fail_run)
        with assms(2,3) \<open>rn_from n = Some f\<close> 3 Some kinds show ?thesis by (simp add: listenerPermits_def)
      qed
    qed (use assms kinds Some in \<open>auto simp: l4RouteNamespaceAllowed_def eff_return_run listenerPermits_def\<close>)
  qed
qed

text \<open>
  C20: When the listeners a route may attach to can be determined, they are exactly those whose
  policy permits the kind and the namespace of the route.
\<close>

theorem allowedRouteListeners_exact:
  assumes "\<And>h. env_namespace_labels w h routeNamespace = Inr labels"
    and "fst (allowedRouteListeners w details routeNamespace matched routeKind h) = Inr allowed"
  shows "allowed = filter (\<lambda>l. listenerPermits w (effectiveListenerSourceNamespaceForOCIListener details l)
    routeNamespace labels routeKind l) matched"
  using assms(2)
proof (induction matched arbitrary: h allowed)
  case Nil
  then show ?case by (simp add: eff_return_run)
next
  case (Cons l ls)
  let ?permits = "\<lambda>l. listenerPermits w (effectiveListenerSourceNamespaceForOCIListener details l) routeNamespace labels routeKind l"
  let ?keep = "eff_bind (allowedRouteListeners w details routeNamespace ls routeKind) (\<lambda>ls. eff_return (l # ls))"
  have keep: "allowed' = l # filter ?permits ls" if "fst (?keep h') = Inr allowed'" for h' allowed'
    using that Cons.IH [of h'] by (auto simp: eff_bind_def eff_return_run split: prod.splits sum.splits)
  show ?case
  proof (cases "l_allowed l")
    case None
    with Cons.prems have "allowed = l # filter ?permits ls" by (simp add: keep)
    with None show ?thesis by (simp add: listenerPermits_def)
  next
    case (Some a)
    show ?thesis
    proof (cases "ar_kinds a \<noteq> [] \<and> \<not> routeKindAllowedForListener l routeKind")
      case True
      then have "\<not> ?permits l"
        using Some by (auto simp: listenerPermits_def routeKindAllowedForListener_def list_ex_iff)
      with True Some Cons show ?thesis by simp
    next
      case kinds: False
      show ?thesis
      proof (cases "ar_namespaces a")
        case None
        with kinds Some have "?permits l"
          by (auto simp: listenerPermits_def routeKindAllowedForListener_def list_ex_iff)
        moreover have "fst (?keep h) = Inr allowed" using Cons.prems Some kinds None by auto
        ultimately show ?thesis using keep by auto
      next
        case (Some n)
        let ?owner = "effectiveListenerSourceNamespaceForOCIListener details l"
        have "fst (eff_bind (l4RouteNamespaceAllowed w ?owner routeNamespace l)
            (\<lambda>b. if b then ?keep else allowedRouteListeners w details routeNamespace ls routeKind) h) = Inr allowed"
          using Cons.prems \<open>l_allowed l = Some a\<close> kinds Some by auto
        then obtain b h1 where b: "l4RouteNamespaceAllowed w ?owner routeNamespace l h = (Inr b, h1)"
            "fst ((if b then ?keep else allowedRouteListeners w details routeNamespace ls routeKind) h1) = Inr allowed"
          by (auto simp: eff_bind_def split: prod.splits sum.splits)
        have "b \<longleftrightarrow> ?permits l"
          using namespaceAllowed_run [OF assms(1) \<open>l_allowed l = Some a\<close> Some] kinds b(1) by (metis fst_conv)
        then show ?thesis using b(2) keep Cons.IH by (cases b) auto
      qed
    qed
  qed
qed

definition selectorListener :: gw_listener where
  "selectorListener = (plainListener ''web'' 80 ''HTTP'')\<lparr>l_allowed := Some \<lparr>ar_namespaces =
     Some \<lparr>rn_from = Some ''Selector'', rn_selector = Some ''team=a''\<rparr>,
     ar_kinds = [\<lparr>rgk_group = None, rgk_kind = ''HTTPRoute''\<rparr>]\<rparr>\<rparr>"

definition exampleDetails :: resolved_gateway_details where
  "exampleDetails = \<lparr>rd_gateway = exampleGateway,
     rd_gatewayClass = \<lparr>gc_name = ''oci'', gc_controller = ControllerClassName, gc_generation = 1, gc_finalizers = [], gc_annotations = [], gc_conditions = []\<rparr>,
     rd_listenerSets = [], rd_gatewaySecrets = [], rd_frontendMTLSConfigMaps = [], rd_frontendMTLSReferenceGrants = [],
     rd_loadBalancerID = ''lb'', rd_loadBalancer = None, rd_effectiveListeners = []\<rparr>"

theorem allowedRouteListeners_exact_witness:
  "[selectorListener] = filter (\<lambda>l. listenerPermits agreeable_env
      (effectiveListenerSourceNamespaceForOCIListener exampleDetails l) ''other'' [] ''HTTPRoute'' l) [selectorListener]"
proof (rule allowedRouteListeners_exact [where h = "[]"])
  show "env_namespace_labels agreeable_env h ''other'' = Inr []" for h by (simp add: agreeable_env_def)
  show "fst (allowedRouteListeners agreeable_env exampleDetails ''other'' [selectorListener] ''HTTPRoute'' []) =
      Inr [selectorListener]" by code_simp
qed

section \<open>Which route wins\<close>

datatype l7RouteKind = l7HTTPRouteKind | l7GRPCRouteKind

definition l7_route_kind_text :: "l7RouteKind \<Rightarrow> string" where
  "l7_route_kind_text k = (case k of l7HTTPRouteKind \<Rightarrow> ''HTTPRoute'' | l7GRPCRouteKind \<Rightarrow> ''GRPCRoute'')"

record l7_route_identity =
  ri_kind :: l7RouteKind
  ri_namespace :: string
  ri_name :: string
  ri_creation :: int

record l7_route_candidate =
  cand_identity :: l7_route_identity
  cand_parentRefs :: "parent_ref list"
  cand_hostnames :: "string list"

definition l7RouteWins :: "l7_route_identity \<Rightarrow> l7_route_identity \<Rightarrow> bool" where
  "l7RouteWins a b =
     (if ri_creation a \<noteq> ri_creation b then ri_creation a < ri_creation b
      else (let aName = namespaced_name (ri_namespace a) (ri_name a);
                bName = namespaced_name (ri_namespace b) (ri_name b)
        in if aName \<noteq> bName then aName < bName
           else l7_route_kind_text (ri_kind a) < l7_route_kind_text (ri_kind b)))"

text \<open>The details of a Gateway with only its listeners filled in.\<close>

definition listenersOnly :: "gateway \<Rightarrow> effective_listener list \<Rightarrow> resolved_gateway_details" where
  "listenersOnly gateway listeners = \<lparr>rd_gateway = gateway,
     rd_gatewayClass = \<lparr>gc_name = [], gc_controller = [], gc_generation = 0, gc_finalizers = [], gc_annotations = [], gc_conditions = []\<rparr>,
     rd_listenerSets = [], rd_gatewaySecrets = [], rd_frontendMTLSConfigMaps = [], rd_frontendMTLSReferenceGrants = [],
     rd_loadBalancerID = [], rd_loadBalancer = None, rd_effectiveListeners = listeners\<rparr>"

definition effectiveOCIListeners :: "gateway \<Rightarrow> effective_listener list \<Rightarrow> gw_listener list" where
  "effectiveOCIListeners gateway listeners = effectiveOCIListenersForGateway (listenersOnly gateway listeners)"

definition l7RouteHostnamesForListener :: "string list \<Rightarrow> gw_listener \<Rightarrow> string list" where
  "l7RouteHostnamesForListener routeHostnames listener =
     (case l_hostname listener of
        None \<Rightarrow> if routeHostnames = [] then [[]] else routeHostnames
      | Some host \<Rightarrow>
          if routeHostnames = [] then [host]
          else filter (\<lambda>hostname. l7HostnamePatternsIntersect hostname host) routeHostnames)"

definition l7RouteAttachedListenerNames ::
    "gateway \<Rightarrow> effective_listener list \<Rightarrow> parent_ref list \<Rightarrow> string \<Rightarrow> string list" where
  "l7RouteAttachedListenerNames gateway effectiveListeners parentRefs routeNamespace =
     (let listenerNames = map l_name (effectiveOCIListeners gateway effectiveListeners) in
      uniq_by id (concat (map (\<lambda>parentRef.
        filter (\<lambda>name. name \<in> set listenerNames)
          (map l_name (effectiveListenersForParentRef (listenersOnly gateway effectiveListeners) parentRef routeNamespace
            (\<lambda>ref listener. case pr_section ref of None \<Rightarrow> True | Some section \<Rightarrow> l_name listener = section))))
        parentRefs)))"

definition l7RoutesShareListenerHostname ::
    "gateway \<Rightarrow> effective_listener list \<Rightarrow> gw_listener list \<Rightarrow> l7_route_candidate \<Rightarrow> l7_route_candidate \<Rightarrow> bool" where
  "l7RoutesShareListenerHostname gateway effectiveListeners matchedListeners a b =
     (let listenerByName = slice_to_map l_name id [] (effectiveOCIListeners gateway effectiveListeners);
          matchedNames = map l_name matchedListeners
      in list_ex (\<lambda>name. name \<in> set matchedNames \<and>
           (case map_of listenerByName name of
              None \<Rightarrow> False
            | Some listener \<Rightarrow> l7RouteHostnamesIntersect
                (l7RouteHostnamesForListener (cand_hostnames a) listener)
                (l7RouteHostnamesForListener (cand_hostnames b) listener)))
           (l7RouteAttachedListenerNames gateway effectiveListeners (cand_parentRefs b)
             (ri_namespace (cand_identity b))))"

record l7_route_conflict_params =
  co_gateway :: gateway
  co_effectiveListeners :: "effective_listener list"
  co_matchedListeners :: "gw_listener list"
  co_current :: l7_route_candidate

definition l7RouteConflictingWinner ::
    "l7_route_conflict_params \<Rightarrow> l7_route_candidate list \<Rightarrow> l7_route_candidate option" where
  "l7RouteConflictingWinner params oppositeRoutes =
     find (\<lambda>oppositeRoute.
       ri_kind (cand_identity (co_current params)) = ri_kind (cand_identity oppositeRoute) \<and>
       l7RoutesShareListenerHostname (co_gateway params) (co_effectiveListeners params) (co_matchedListeners params)
         (co_current params) oppositeRoute \<and>
       l7RouteWins (cand_identity oppositeRoute) (cand_identity (co_current params))) oppositeRoutes"

definition checkL7RouteConflict ::
    "l7_route_conflict_params \<Rightarrow> string \<Rightarrow> (error + l7_route_candidate list) lb_op \<Rightarrow> l7_route_candidate option lb_op" where
  "checkL7RouteConflict params oppositeRouteListName listOppositeRoutes =
     (if co_matchedListeners params = [] then eff_return None
      else eff_bind listOppositeRoutes (\<lambda>r. case r of
          Inl err \<Rightarrow> eff_fail (ErrWrap (errtext ''failed to list '' oppositeRouteListName '' for conflict detection: '') err [])
        | Inr oppositeRoutes \<Rightarrow> eff_return (l7RouteConflictingWinner params oppositeRoutes)))"

text \<open>Identities as Kubernetes gives them out: one object per kind, namespace and name.\<close>

definition routeIdentities :: "l7_route_identity list \<Rightarrow> bool" where
  "routeIdentities ids \<longleftrightarrow> (\<forall>i\<in>set ids. plain_element (ri_namespace i) \<and> plain_element (ri_name i)) \<and>
     distinct (map (\<lambda>i. (ri_kind i, ri_namespace i, ri_name i)) ids)"

lemma namespaced_name_cut: "plain_element a \<Longrightarrow> str_cut (namespaced_name a b) ''/'' = Some (a, b)"
  using str_cut_char [of "CHR ''/''" a b] by (simp add: namespaced_name_def plain_element_def)

lemma namespaced_name_inj:
  assumes "plain_element a" "plain_element c" "namespaced_name a b = namespaced_name c d"
  shows "a = c \<and> b = d"
proof -
  have "Some (a, b) = Some (c, d)"
    using namespaced_name_cut [OF assms(1), of b] namespaced_name_cut [OF assms(2), of d] assms(3) by argo
  then show ?thesis by blast
qed

lemma kind_text_inj: "l7_route_kind_text k = l7_route_kind_text k' \<longleftrightarrow> k = k'"
  by (cases k; cases k') (simp_all add: l7_route_kind_text_def)

lemma wins_lex: "l7RouteWins a b \<longleftrightarrow> ri_creation a < ri_creation b \<or> ri_creation a = ri_creation b \<and>
    (namespaced_name (ri_namespace a) (ri_name a) < namespaced_name (ri_namespace b) (ri_name b) \<or>
     namespaced_name (ri_namespace a) (ri_name a) = namespaced_name (ri_namespace b) (ri_name b) \<and>
       l7_route_kind_text (ri_kind a) < l7_route_kind_text (ri_kind b))"
  by (simp add: l7RouteWins_def Let_def)

lemma lex3_trans:
  fixes a b c :: "'a :: linorder" and p q r :: "'b :: linorder" and x y z :: "'c :: linorder"
  assumes "a < b \<or> a = b \<and> (p < q \<or> p = q \<and> x < y)" "b < c \<or> b = c \<and> (q < r \<or> q = r \<and> y < z)"
  shows "a < c \<or> a = c \<and> (p < r \<or> p = r \<and> x < z)"
  using assms by (elim disjE conjE) (auto dest: order.strict_trans)

interpretation route_order: strict_order l7RouteWins routeIdentities
proof
  fix ids x y
  assume ids: "routeIdentities ids" "x \<in> set ids" "y \<in> set ids" "x \<noteq> y"
  then have "(ri_kind x, ri_namespace x, ri_name x) \<noteq> (ri_kind y, ri_namespace y, ri_name y)"
    by (auto simp: routeIdentities_def distinct_map inj_on_def)
  moreover have "plain_element (ri_namespace x)" "plain_element (ri_namespace y)"
    using ids by (auto simp: routeIdentities_def)
  ultimately have "namespaced_name (ri_namespace x) (ri_name x) \<noteq> namespaced_name (ri_namespace y) (ri_name y) \<or>
      l7_route_kind_text (ri_kind x) \<noteq> l7_route_kind_text (ri_kind y)"
    using namespaced_name_inj kind_text_inj by blast
  then show "l7RouteWins x y \<or> l7RouteWins y x"
    unfolding wins_lex using linorder_less_linear by metis
next
  show "l7RouteWins x y \<Longrightarrow> l7RouteWins y z \<Longrightarrow> l7RouteWins x z" for x y z
    unfolding wins_lex by (rule lex3_trans)
qed (simp add: wins_lex)

text \<open>
  Among routes that compete for a hostname exactly one wins against all others: sorting them
  by the rule of the code gives the same order from every starting order, and the first one
  is beaten by nobody.
\<close>

theorem l7_routes_have_one_winner:
  assumes "routeIdentities ids" "mset ids' = mset ids" "ids \<noteq> []"
  shows "sort_by l7RouteWins ids' = sort_by l7RouteWins ids \<and>
    (\<forall>i\<in>set ids. \<not> l7RouteWins i (hd (sort_by l7RouteWins ids)))"
proof
  have "routeIdentities ids'"
    using assms(1,2) by (metis (no_types, lifting) mset_eq_imp_distinct_iff mset_eq_setD mset_map routeIdentities_def)
  then show "sort_by l7RouteWins ids' = sort_by l7RouteWins ids"
    using assms by (intro route_order.sort_by_perm_eq)
  obtain w rest where sorted: "sort_by l7RouteWins ids = w # rest"
    using assms(3) by (metis length_0_conv length_sort_by neq_Nil_conv)
  have "\<not> l7RouteWins i w" if "i \<in> set (w # rest)" for i
    using that route_order.sort_by_sorted [OF assms(1)] route_order.irrefl unfolding sorted by auto
  then show "\<forall>i\<in>set ids. \<not> l7RouteWins i (hd (sort_by l7RouteWins ids))"
    by (metis list.sel(1) set_sort_by sorted)
qed

definition exampleIdentity :: "string \<Rightarrow> l7_route_identity" where
  "exampleIdentity name = \<lparr>ri_kind = l7HTTPRouteKind, ri_namespace = ''ns'', ri_name = name, ri_creation = 0\<rparr>"

theorem l7_routes_have_one_winner_witness:
  "sort_by l7RouteWins [exampleIdentity ''b'', exampleIdentity ''a''] =
     sort_by l7RouteWins [exampleIdentity ''a'', exampleIdentity ''b''] \<and>
   list_all (\<lambda>i. \<not> l7RouteWins i (hd (sort_by l7RouteWins [exampleIdentity ''a'', exampleIdentity ''b''])))
     [exampleIdentity ''a'', exampleIdentity ''b'']"
proof -
  have "sort_by l7RouteWins [exampleIdentity ''b'', exampleIdentity ''a''] =
     sort_by l7RouteWins [exampleIdentity ''a'', exampleIdentity ''b''] \<and>
   (\<forall>i\<in>set [exampleIdentity ''a'', exampleIdentity ''b''].
     \<not> l7RouteWins i (hd (sort_by l7RouteWins [exampleIdentity ''a'', exampleIdentity ''b''])))"
    by (rule l7_routes_have_one_winner)
      (simp_all add: routeIdentities_def plain_element_def exampleIdentity_def)
  then show ?thesis unfolding list_all_iff .
qed

lemma conflict_other_kind:
  assumes "\<forall>c\<in>set candidates. ri_kind (cand_identity c) \<noteq> ri_kind (cand_identity (co_current params))"
  shows "l7RouteConflictingWinner params candidates = None"
  using assms by (auto simp: l7RouteConflictingWinner_def find_None_iff)

end
