(* ===== verification/Resources.thy ===== *)
theory Resources
  imports ListenerSets
begin

text \<open>
  Status conditions, annotations and finalizers of API objects (\<open>resources_model.go\<close>), with the
  retry after a conflicting write. The code works on \<open>client.Object\<close>; here an object type
  comes with a record of its operations, and a pointer to conditions inside an object is the
  place they have in it. Shown: once \<open>setCondition\<close> has run, \<open>isConditionSet\<close> finds what
  it set; the retry drops the request to remove annotations.
\<close>

section \<open>Objects\<close>

datatype condition_place = ObjectConditions | ParentConditions nat

record 'r object_ops =
  oo_name :: "'r \<Rightarrow> string"
  oo_generation :: "'r \<Rightarrow> int"
  oo_annotations :: "'r \<Rightarrow> string go_map"
  oo_set_annotations :: "string go_map \<Rightarrow> 'r \<Rightarrow> 'r"
  oo_finalizers :: "'r \<Rightarrow> string list"
  oo_set_finalizers :: "string list \<Rightarrow> 'r \<Rightarrow> 'r"
  oo_has_place :: "condition_place \<Rightarrow> 'r \<Rightarrow> bool"
  oo_conditions :: "condition_place \<Rightarrow> 'r \<Rightarrow> condition list"
  oo_set_conditions :: "condition_place \<Rightarrow> condition list \<Rightarrow> 'r \<Rightarrow> 'r"
  oo_refresh :: "lb_env \<Rightarrow> 'r \<Rightarrow> (error + 'r) lb_op"
  oo_update :: "'r \<Rightarrow> lb_call"
  oo_update_status :: "'r \<Rightarrow> lb_call"
  oo_retry_place :: "'r \<Rightarrow> 'r \<Rightarrow> condition list \<Rightarrow> error + condition_place"

definition parentRefSameTarget :: "parent_ref \<Rightarrow> parent_ref \<Rightarrow> bool" where
  "parentRefSameTarget a b \<longleftrightarrow>
     pr_name a = pr_name b \<and> str_ptr (pr_namespace a) = str_ptr (pr_namespace b) \<and>
     str_ptr (pr_kind a) = str_ptr (pr_kind b) \<and> str_ptr (pr_group a) = str_ptr (pr_group b)"

definition parent_index :: "string \<Rightarrow> parent_ref \<Rightarrow> route_parent_status list \<Rightarrow> nat option" where
  "parent_index controller ref parents =
     (let i = length (takeWhile (\<lambda>s. \<not> (rps_controller s = controller \<and> parentRefSameTarget (rps_ref s) ref)) parents)
      in if i < length parents then Some i else None)"

definition retryPlaceError :: error where
  "retryPlaceError = ErrText ''failed to resolve route parent status after conflict''"

fun retryPlaceLoop ::
    "route_parent_status list \<Rightarrow> condition list \<Rightarrow> route_parent_status list \<Rightarrow> error + condition_place" where
  "retryPlaceLoop latestParents targetConditions [] = Inl retryPlaceError"
| "retryPlaceLoop latestParents targetConditions (originalParent # rest) =
     (if rps_conditions originalParent \<noteq> targetConditions then retryPlaceLoop latestParents targetConditions rest
      else case parent_index (rps_controller originalParent) (rps_ref originalParent) latestParents of
          Some i \<Rightarrow> Inr (ParentConditions i)
        | None \<Rightarrow> retryPlaceLoop latestParents targetConditions rest)"

definition routeParentConditionsForRetry ::
    "route_parent_status list \<Rightarrow> route_parent_status list \<Rightarrow> condition list \<Rightarrow> error + condition_place" where
  "routeParentConditionsForRetry latestParents originalParents targetConditions =
     (if length originalParents = 1 \<and> length latestParents = 1 then Inr (ParentConditions 0)
      else retryPlaceLoop latestParents targetConditions originalParents)"

definition parent_conditions :: "condition_place \<Rightarrow> route_parent_status list \<Rightarrow> condition list" where
  "parent_conditions place parents =
     (case place of
        ParentConditions i \<Rightarrow> if i < length parents then rps_conditions (parents ! i) else []
      | ObjectConditions \<Rightarrow> [])"

definition set_parent_conditions ::
    "condition_place \<Rightarrow> condition list \<Rightarrow> route_parent_status list \<Rightarrow> route_parent_status list" where
  "set_parent_conditions place cs parents =
     (case place of
        ParentConditions i \<Rightarrow> parents[i := (parents ! i)\<lparr>rps_conditions := cs\<rparr>]
      | ObjectConditions \<Rightarrow> parents)"

definition parent_place :: "condition_place \<Rightarrow> route_parent_status list \<Rightarrow> bool" where
  "parent_place place parents =
     (case place of ParentConditions i \<Rightarrow> i < length parents | ObjectConditions \<Rightarrow> False)"

text \<open>\<open>statusConditionsForRetry\<close> tells the kinds of objects apart; it is \<open>oo_retry_place\<close>.\<close>

definition gateway_ops :: "gateway object_ops" where
  "gateway_ops = \<lparr>oo_name = gw_name, oo_generation = gw_generation, oo_annotations = gw_annotations,
     oo_set_annotations = (\<lambda>a g. g\<lparr>gw_annotations := a\<rparr>), oo_finalizers = gw_finalizers,
     oo_set_finalizers = (\<lambda>f g. g\<lparr>gw_finalizers := f\<rparr>), oo_has_place = (\<lambda>p _. p = ObjectConditions),
     oo_conditions = (\<lambda>_. gw_conditions), oo_set_conditions = (\<lambda>_ cs g. g\<lparr>gw_conditions := cs\<rparr>),
     oo_refresh = (\<lambda>w g. get_gateway w (gw_namespace g) (gw_name g)), oo_update = UpdateGateway,
     oo_update_status = UpdateGatewayStatus, oo_retry_place = (\<lambda>_ _ _. Inr ObjectConditions)\<rparr>"

definition http_route_ops :: "http_route object_ops" where
  "http_route_ops = \<lparr>oo_name = rt_name, oo_generation = rt_generation, oo_annotations = rt_annotations,
     oo_set_annotations = (\<lambda>a r. r\<lparr>rt_annotations := a\<rparr>), oo_finalizers = rt_finalizers,
     oo_set_finalizers = (\<lambda>f r. r\<lparr>rt_finalizers := f\<rparr>), oo_has_place = (\<lambda>p r. parent_place p (rt_parents r)),
     oo_conditions = (\<lambda>p r. parent_conditions p (rt_parents r)),
     oo_set_conditions = (\<lambda>p cs r. r\<lparr>rt_parents := set_parent_conditions p cs (rt_parents r)\<rparr>),
     oo_refresh = (\<lambda>w r. get_http_route w (rt_namespace r) (rt_name r)), oo_update = UpdateHTTPRoute,
     oo_update_status = UpdateHTTPRouteStatus,
     oo_retry_place = (\<lambda>latest original. routeParentConditionsForRetry (rt_parents latest) (rt_parents original))\<rparr>"

definition grpc_route_ops :: "grpc_route object_ops" where
  "grpc_route_ops = \<lparr>oo_name = rt_name, oo_generation = rt_generation, oo_annotations = rt_annotations,
     oo_set_annotations = (\<lambda>a r. r\<lparr>rt_annotations := a\<rparr>), oo_finalizers = rt_finalizers,
     oo_set_finalizers = (\<lambda>f r. r\<lparr>rt_finalizers := f\<rparr>), oo_has_place = (\<lambda>p r. parent_place p (rt_parents r)),
     oo_conditions = (\<lambda>p r. parent_conditions p (rt_parents r)),
     oo_set_conditions = (\<lambda>p cs r. r\<lparr>rt_parents := set_parent_conditions p cs (rt_parents r)\<rparr>),
     oo_refresh = (\<lambda>w r. get_grpc_route w (rt_namespace r) (rt_name r)), oo_update = UpdateGRPCRoute,
     oo_update_status = UpdateGRPCRouteStatus,
     oo_retry_place = (\<lambda>latest original. routeParentConditionsForRetry (rt_parents latest) (rt_parents original))\<rparr>"

section \<open>Setting a condition\<close>

record 'r set_condition_params =
  sc_resource :: 'r
  sc_conditions :: condition_place
  sc_conditionType :: string
  sc_status :: string
  sc_reason :: string
  sc_message :: string
  sc_annotations :: "string go_map"
  sc_removeAnnotations :: "string list"
  sc_finalizer :: string

definition map_copy :: "string go_map \<Rightarrow> string go_map \<Rightarrow> string go_map" where
  "map_copy dst src = foldl (\<lambda>m (k, v). AList.update k v m) dst src"

definition map_delete_all :: "string list \<Rightarrow> string go_map \<Rightarrow> string go_map" where
  "map_delete_all keys m = foldl (\<lambda>m k. AList.delete k m) m keys"

definition addFinalizer :: "string \<Rightarrow> string list \<Rightarrow> string list" where
  "addFinalizer f fs = (if f \<in> set fs then fs else fs @ [f])"

definition desiredCondition :: "'r object_ops \<Rightarrow> 'r set_condition_params \<Rightarrow> condition" where
  "desiredCondition ops params = \<lparr>cn_type = sc_conditionType params, cn_status = sc_status params,
     cn_reason = sc_reason params, cn_message = sc_message params,
     cn_generation = oo_generation ops (sc_resource params)\<rparr>"

definition updateResourceStatusAfterConflict ::
    "'r object_ops \<Rightarrow> lb_env \<Rightarrow> 'r \<Rightarrow> condition_place \<Rightarrow> condition \<Rightarrow> unit lb_op" where
  "updateResourceStatusAfterConflict ops w resource place cond =
     eff_bind (oo_refresh ops w resource) (\<lambda>r. case r of
         Inl err \<Rightarrow> eff_fail (ErrWrap (errtext ''failed to refresh resource '' (oo_name ops resource)
           '' after status conflict: '') err [])
       | Inr latest \<Rightarrow>
           (case oo_retry_place ops latest resource (oo_conditions ops place resource) of
              Inl err \<Rightarrow> eff_fail err
            | Inr p \<Rightarrow>
                eff_bind (k8s_update w (oo_update_status ops
                    (oo_set_conditions ops p (setStatusCondition (oo_conditions ops p latest) cond) latest))) (\<lambda>r. case r of
                    Some err \<Rightarrow> eff_fail (ErrWrap (errtext ''failed to update status for '' (oo_name ops resource)
                      '' after conflict: '') err [])
                  | None \<Rightarrow> eff_return ())))"

definition updateResourceMetadataAfterConflict ::
    "'r object_ops \<Rightarrow> lb_env \<Rightarrow> 'r set_condition_params \<Rightarrow> unit lb_op" where
  "updateResourceMetadataAfterConflict ops w params =
     (let resource = sc_resource params in
      eff_bind (oo_refresh ops w resource) (\<lambda>r. case r of
         Inl err \<Rightarrow> eff_fail (ErrWrap (errtext ''failed to refresh resource '' (oo_name ops resource)
           '' after finalizer/annotations conflict: '') err [])
       | Inr latest \<Rightarrow>
           (let latest1 = (if sc_finalizer params \<noteq> []
                  then oo_set_finalizers ops (addFinalizer (sc_finalizer params) (oo_finalizers ops latest)) latest else latest);
                latest2 = (if sc_annotations params \<noteq> []
                  then oo_set_annotations ops (map_copy (oo_annotations ops latest1) (sc_annotations params)) latest1
                  else latest1)
            in eff_bind (k8s_update w (oo_update ops latest2)) (\<lambda>r. case r of
                 Some err \<Rightarrow> eff_fail (ErrWrap (errtext ''failed to update resource '' (oo_name ops resource)
                   '' with finalizer/annotations after conflict: '') err [])
               | None \<Rightarrow> eff_return ()))))"

definition applyMetadata :: "'r object_ops \<Rightarrow> 'r set_condition_params \<Rightarrow> 'r \<Rightarrow> 'r" where
  "applyMetadata ops params r =
     (let r1 = (if sc_finalizer params \<noteq> [] then oo_set_finalizers ops
            (addFinalizer (sc_finalizer params) (oo_finalizers ops r)) r else r)
      in if sc_annotations params \<noteq> [] \<or> sc_removeAnnotations params \<noteq> [] then
           oo_set_annotations ops (map_copy (map_delete_all (sc_removeAnnotations params) (oo_annotations ops r1))
             (sc_annotations params)) r1
         else r1)"

definition metadataUpdateNeeded :: "'r object_ops \<Rightarrow> 'r set_condition_params \<Rightarrow> 'r \<Rightarrow> bool" where
  "metadataUpdateNeeded ops params r \<longleftrightarrow>
     sc_finalizer params \<noteq> [] \<and> sc_finalizer params \<notin> set (oo_finalizers ops r) \<or>
     sc_annotations params \<noteq> [] \<or> sc_removeAnnotations params \<noteq> []"

text \<open>The result is the object as the code leaves it for its caller.\<close>

definition setCondition :: "'r object_ops \<Rightarrow> lb_env \<Rightarrow> 'r set_condition_params \<Rightarrow> 'r lb_op" where
  "setCondition ops w params =
     (let cond = desiredCondition ops params; place = sc_conditions params; r0 = sc_resource params;
          r1 = oo_set_conditions ops place (setStatusCondition (oo_conditions ops place r0) cond) r0
      in eff_bind (k8s_update w (oo_update_status ops r1)) (\<lambda>res.
         eff_bind (case res of
             None \<Rightarrow> eff_return ()
           | Some err \<Rightarrow>
               (if \<not> is_conflict err then
                  eff_fail (ErrWrap (errtext ''failed to update status for '' (oo_name ops r0) '': '') err [])
                else updateResourceStatusAfterConflict ops w r1 place cond)) (\<lambda>_.
         (let r2 = applyMetadata ops params r1 in
          if metadataUpdateNeeded ops params r1 then
            eff_bind (k8s_update w (oo_update ops r2)) (\<lambda>res. case res of
                None \<Rightarrow> eff_return r2
              | Some err \<Rightarrow>
                  (if is_conflict err then
                     eff_bind (updateResourceMetadataAfterConflict ops w params) (\<lambda>_. eff_return r2)
                   else eff_fail (ErrWrap (errtext ''failed to update resource '' (oo_name ops r0)
                     '' with finalizer/annotations: '') err [])))
          else eff_return r2))))"

definition isConditionSet :: "'r object_ops \<Rightarrow> 'r \<Rightarrow> condition list \<Rightarrow> string \<Rightarrow> string go_map \<Rightarrow> bool" where
  "isConditionSet ops resource conditions conditionType annotations \<longleftrightarrow>
     list_all (\<lambda>(key, expectedValue). map_of (oo_annotations ops resource) key = Some expectedValue) annotations \<and>
     (case findStatusCondition conditions conditionType of
        None \<Rightarrow> False
      | Some c \<Rightarrow> cn_status c = ''True'' \<and> cn_generation c = oo_generation ops resource)"

section \<open>What a set condition is worth\<close>

lemma map_of_map_copy: "distinct (map fst src) \<Longrightarrow> map_of (map_copy dst src) k =
    (case map_of src k of Some v \<Rightarrow> Some v | None \<Rightarrow> map_of dst k)"
proof (induction src arbitrary: dst)
  case (Cons kv src)
  then have "map_of (map_copy (AList.update (fst kv) (snd kv) dst) src) k =
      (case map_of src k of Some v \<Rightarrow> Some v | None \<Rightarrow> map_of (AList.update (fst kv) (snd kv) dst) k)"
    by simp
  moreover have "map_of src (fst kv) = None" using Cons.prems by (simp add: map_of_eq_None_iff)
  ultimately show ?case
    by (cases kv) (auto simp: map_copy_def update_conv' split: option.splits)
qed (simp add: map_copy_def)

lemma map_of_delete_all: "map_of (map_delete_all ks m) k = (if k \<in> set ks then None else map_of m k)"
proof (induction ks arbitrary: m)
  case (Cons k' ks)
  then show ?case by (simp add: map_delete_all_def AList.delete_conv')
qed (simp add: map_delete_all_def)

text \<open>The laws of an object type, and what follows from them for every type.\<close>

locale api_object =
  fixes ops :: "'r object_ops"
  assumes conditions_set: "oo_has_place ops p r \<Longrightarrow> oo_conditions ops p (oo_set_conditions ops p cs r) = cs"
    and place_set: "oo_has_place ops p (oo_set_conditions ops q cs r) = oo_has_place ops p r"
    and generation_set: "oo_generation ops (oo_set_conditions ops p cs r) = oo_generation ops r"
      "oo_generation ops (oo_set_annotations ops a r) = oo_generation ops r"
      "oo_generation ops (oo_set_finalizers ops f r) = oo_generation ops r"
    and conditions_kept: "oo_conditions ops p (oo_set_annotations ops a r) = oo_conditions ops p r"
      "oo_conditions ops p (oo_set_finalizers ops f r) = oo_conditions ops p r"
    and annotations_set: "oo_annotations ops (oo_set_annotations ops a r) = a"
      "oo_annotations ops (oo_set_conditions ops p cs r) = oo_annotations ops r"
      "oo_annotations ops (oo_set_finalizers ops f r) = oo_annotations ops r"
    and finalizers_set: "oo_finalizers ops (oo_set_finalizers ops f r) = f"
      "oo_finalizers ops (oo_set_conditions ops p cs r) = oo_finalizers ops r"
      "oo_finalizers ops (oo_set_annotations ops a r) = oo_finalizers ops r"
begin

abbreviation conditioned :: "'r set_condition_params \<Rightarrow> 'r" where
  "conditioned params \<equiv> oo_set_conditions ops (sc_conditions params)
     (setStatusCondition (oo_conditions ops (sc_conditions params) (sc_resource params)) (desiredCondition ops params))
     (sc_resource params)"

lemma setCondition_result:
  "setCondition ops w params h = (Inr r, h') \<Longrightarrow> r = applyMetadata ops params (conditioned params)"
  unfolding setCondition_def Let_def
  by (elim eff_bind_InrE) (auto simp: eff_return_def eff_fail_def eff_bind_def split: if_splits option.splits
      sum.splits prod.splits)

lemma applyMetadata_facts:
  "oo_conditions ops p (applyMetadata ops params r) = oo_conditions ops p r"
  "oo_generation ops (applyMetadata ops params r) = oo_generation ops r"
  "sc_finalizer params \<noteq> [] \<Longrightarrow> sc_finalizer params \<in> set (oo_finalizers ops (applyMetadata ops params r))"
  by (simp_all add: applyMetadata_def Let_def conditions_kept generation_set finalizers_set addFinalizer_def)

lemma applyMetadata_annotations:
  assumes "distinct (map fst (sc_annotations params))"
  shows "map_of (oo_annotations ops (applyMetadata ops params r)) k =
    (case map_of (sc_annotations params) k of Some v \<Rightarrow> Some v
     | None \<Rightarrow> if k \<in> set (sc_removeAnnotations params) then None else map_of (oo_annotations ops r) k)"
  using assms
  by (auto simp: applyMetadata_def Let_def annotations_set map_of_map_copy map_of_delete_all split: option.split)

lemma setCondition_isConditionSet:
  assumes "setCondition ops w params h = (Inr r, h')" "oo_has_place ops (sc_conditions params) (sc_resource params)"
    and "sc_status params = ''True''" "distinct (map fst (sc_annotations params))"
  shows "isConditionSet ops r (oo_conditions ops (sc_conditions params) r) (sc_conditionType params) (sc_annotations params)"
proof -
  have r: "r = applyMetadata ops params (conditioned params)" by (rule setCondition_result [OF assms(1)])
  have "list_all (\<lambda>(k, v). map_of (oo_annotations ops r) k = Some v) (sc_annotations params)"
    unfolding r using applyMetadata_annotations [OF assms(4)] assms(4) by (auto simp: list_all_iff)
  then show ?thesis
    using assms(2,3) unfolding r isConditionSet_def
    by (simp add: applyMetadata_facts conditions_set find_set_condition generation_set desiredCondition_def)
qed

lemma setCondition_twice:
  assumes "setCondition ops w params h = (Inr r, h')" "oo_has_place ops (sc_conditions params) (sc_resource params)"
  shows "oo_conditions ops (sc_conditions params) r =
    setStatusCondition (oo_conditions ops (sc_conditions params) (sc_resource params)) (desiredCondition ops params)"
  using setCondition_result [OF assms(1)] assms(2) by (simp add: applyMetadata_facts conditions_set)

end

lemma parent_conditions_set: "parent_place p ps \<Longrightarrow> parent_conditions p (set_parent_conditions p cs ps) = cs"
  by (cases p) (simp_all add: parent_place_def parent_conditions_def set_parent_conditions_def)

lemma parent_place_set: "parent_place p (set_parent_conditions q cs ps) = parent_place p ps"
  by (cases p; cases q) (simp_all add: parent_place_def set_parent_conditions_def)

interpretation gateway_object: api_object gateway_ops
  by unfold_locales (simp_all add: gateway_ops_def)

interpretation http_route_object: api_object http_route_ops
  by unfold_locales (simp_all add: http_route_ops_def parent_conditions_set parent_place_set)

interpretation grpc_route_object: api_object grpc_route_ops
  by unfold_locales (simp_all add: grpc_route_ops_def parent_conditions_set parent_place_set)

text \<open>
  After a route's condition was set to true with annotations, the check that decides whether
  the route has to be programmed again finds the condition and the annotations.
\<close>

theorem setCondition_then_isConditionSet:
  assumes "setCondition http_route_ops w params h = (Inr route, h')"
    and "sc_conditions params = ParentConditions i" "i < length (rt_parents (sc_resource params))"
    and "sc_status params = ''True''" "distinct (map fst (sc_annotations params))"
  shows "isConditionSet http_route_ops route (rps_conditions (rt_parents route ! i)) (sc_conditionType params)
    (sc_annotations params)"
proof -
  have place: "oo_has_place http_route_ops (sc_conditions params) (sc_resource params)"
    using assms(2,3) by (simp add: http_route_ops_def parent_place_def)
  have "oo_has_place http_route_ops (sc_conditions params) route"
    using http_route_object.setCondition_result [OF assms(1)] place
    by (auto simp: applyMetadata_def Let_def http_route_ops_def parent_place_set)
  then have "oo_conditions http_route_ops (sc_conditions params) route = rps_conditions (rt_parents route ! i)"
    using assms(2) by (simp add: http_route_ops_def parent_conditions_def parent_place_def)
  with http_route_object.setCondition_isConditionSet [OF assms(1) place assms(4,5)] show ?thesis by simp
qed

definition exampleRoute :: http_route where
  "exampleRoute = \<lparr>rt_namespace = ''ns'', rt_name = ''r'', rt_creation = 0, rt_generation = 3, rt_deleting = False,
     rt_finalizers = [], rt_annotations = [], rt_parent_refs = [], rt_hostnames = [], rt_rules = [],
     rt_parents = [\<lparr>rps_ref = \<lparr>pr_group = None, pr_kind = None, pr_namespace = None, pr_name = ''gw'', pr_section = None,
       pr_port = None\<rparr>, rps_controller = ''c'', rps_conditions = []\<rparr>]\<rparr>"

definition exampleCondition :: "http_route set_condition_params" where
  "exampleCondition = \<lparr>sc_resource = exampleRoute, sc_conditions = ParentConditions 0, sc_conditionType = ''ResolvedRefs'',
     sc_status = ''True'', sc_reason = ''ResolvedRefs'', sc_message = ''Route programmed by gw'',
     sc_annotations = [(''rev'', ''6'')], sc_removeAnnotations = [], sc_finalizer = ''fin''\<rparr>"

theorem setCondition_then_isConditionSet_witness:
  "\<exists>route h'. setCondition http_route_ops agreeable_env exampleCondition [] = (Inr route, h') \<and>
    isConditionSet http_route_ops route (rps_conditions (rt_parents route ! 0)) ''ResolvedRefs'' [(''rev'', ''6'')]"
proof -
  have "case setCondition http_route_ops agreeable_env exampleCondition [] of (Inr r, h) \<Rightarrow> True | _ \<Rightarrow> False"
    by code_simp
  then obtain route h' where run: "setCondition http_route_ops agreeable_env exampleCondition [] = (Inr route, h')"
    by (auto split: prod.splits sum.splits)
  from setCondition_then_isConditionSet [OF this, of 0] run show ?thesis
    by (auto simp: exampleCondition_def exampleRoute_def)
qed

text \<open>
  The retry after a conflict writes the latest object with the new annotations, and keeps the
  annotations that the caller asked to remove.
\<close>

theorem conflict_keeps_removed_annotation:
  assumes "env_gateway w h (gw_namespace (sc_resource params)) (gw_name (sc_resource params)) = Inr latest"
    and "key \<in> set (sc_removeAnnotations params)" "map_of (gw_annotations latest) key = Some v"
    and "key \<notin> fst ` set (sc_annotations params)" "distinct (map fst (sc_annotations params))"
  shows "\<exists>gateway. snd (updateResourceMetadataAfterConflict gateway_ops w params h) =
      h @ [GetGateway (gw_namespace (sc_resource params)) (gw_name (sc_resource params)), UpdateGateway gateway] \<and>
    map_of (gw_annotations gateway) key = Some v"
proof -
  have "map_of (sc_annotations params) key = None" using assms(4) by (simp add: map_of_eq_None_iff)
  then have "map_of (map_copy (gw_annotations latest) (sc_annotations params)) key = Some v"
    using assms(3,5) by (simp add: map_of_map_copy)
  with assms(1,3) show ?thesis
    by (simp add: updateResourceMetadataAfterConflict_def gateway_ops_def Let_def
        eff_bind_Inr [OF gateway_run(2)] eff_bind_Inr [OF gateway_run(7)] eff_simps split: option.split)
qed

definition exampleStaleRemoval :: "gateway set_condition_params" where
  "exampleStaleRemoval = \<lparr>sc_resource = exampleGateway, sc_conditions = ObjectConditions, sc_conditionType = ''Programmed'',
     sc_status = ''True'', sc_reason = ''Programmed'', sc_message = [], sc_annotations = [(''rev'', ''2'')],
     sc_removeAnnotations = [''stale''], sc_finalizer = []\<rparr>"

theorem conflict_keeps_removed_annotation_witness:
  "\<exists>gateway. snd (updateResourceMetadataAfterConflict gateway_ops
      (agreeable_env\<lparr>env_gateway := \<lambda>_ _ _. Inr (exampleGateway\<lparr>gw_annotations := [(''stale'', ''x'')]\<rparr>)\<rparr>) exampleStaleRemoval []) =
      [GetGateway ''ns'' ''gw'', UpdateGateway gateway] \<and>
    map_of (gw_annotations gateway) ''stale'' = Some ''x''"
  using conflict_keeps_removed_annotation [of
      "agreeable_env\<lparr>env_gateway := \<lambda>_ _ _. Inr (exampleGateway\<lparr>gw_annotations := [(''stale'', ''x'')]\<rparr>)\<rparr>"
      "[]" exampleStaleRemoval "exampleGateway\<lparr>gw_annotations := [(''stale'', ''x'')]\<rparr>" "''stale''" "''x''"]
  by (simp add: exampleStaleRemoval_def) (simp add: exampleGateway_def)

end
