(* ===== verification/L7Routes.thy ===== *)
theory L7Routes
  imports HttpBackend Listeners RouteAttachment Resources
begin

text \<open>
  Programming of HTTPRoutes and GRPCRoutes (\<open>httproute_model.go\<close>, the part both share):
  what is recorded on a route and read back, and the operations that program its rules and
  backend sets and take them away again. Shown: the record round-trips; backend sets exist
  before rules refer to them and are deleted only after the rules are committed; only
  recorded backend sets that are no longer wanted are deleted; an invalid backend TLS policy
  lets the backend set be programmed without TLS.
\<close>

section \<open>The record of programmed rules\<close>

record programmed_http_route_policy_rule =
  pr_listenerName :: string
  pr_ruleName :: string

fun parseRuleEntries :: "string list \<Rightarrow> programmed_http_route_policy_rule list" where
  "parseRuleEntries [] = []"
| "parseRuleEntries (e # rest) =
     (let entry = trim_space e in
      if entry = [] then parseRuleEntries rest
      else case str_cut entry ''/'' of
          None \<Rightarrow> \<lparr>pr_listenerName = [], pr_ruleName = entry\<rparr> # parseRuleEntries rest
        | Some (lname, rname) \<Rightarrow>
            (if lname = [] \<or> rname = [] then parseRuleEntries rest
             else \<lparr>pr_listenerName = lname, pr_ruleName = rname\<rparr> # parseRuleEntries rest))"

definition parseProgrammedHTTPRoutePolicyRules :: "string \<Rightarrow> programmed_http_route_policy_rule list" where
  "parseProgrammedHTTPRoutePolicyRules annotationValue =
     (if annotationValue = [] then [] else parseRuleEntries (str_split (CHR '','') annotationValue))"

definition programmedHTTPRoutePolicyRulesAnnotation :: "gw_listener list \<Rightarrow> string list \<Rightarrow> string list" where
  "programmedHTTPRoutePolicyRulesAnnotation listeners ruleNames =
     concat (map (\<lambda>listener. map (\<lambda>rname. l_name listener @ ''/'' @ rname) ruleNames) listeners)"

definition append_at :: "string \<Rightarrow> string \<Rightarrow> string list go_map \<Rightarrow> string list go_map" where
  "append_at k v m = AList.update k ((case map_of m k of Some vs \<Rightarrow> vs | None \<Rightarrow> []) @ [v]) m"

definition previousPolicyRulesByListener ::
    "programmed_http_route_policy_rule list \<Rightarrow> gw_listener list \<Rightarrow> string list go_map" where
  "previousPolicyRulesByListener previousRules currentListeners =
     foldl (\<lambda>m rule.
       if pr_listenerName rule = [] then
         foldl (\<lambda>m name. append_at name (pr_ruleName rule) m) m (uniq_by id (map l_name currentListeners))
       else append_at (pr_listenerName rule) (pr_ruleName rule) m) [] previousRules"

definition mergeL7ProgrammedPolicyRules :: "string \<Rightarrow> string list \<Rightarrow> string list" where
  "mergeL7ProgrammedPolicyRules existingAnnotation programmedPolicyRules =
     (if existingAnnotation = [] then programmedPolicyRules
      else (let newListenerNames = filter (\<lambda>n. n \<noteq> [])
              (map pr_listenerName (parseProgrammedHTTPRoutePolicyRules (str_join '','' programmedPolicyRules)))
        in if newListenerNames = [] then programmedPolicyRules
           else map (\<lambda>rule. pr_listenerName rule @ ''/'' @ pr_ruleName rule)
               (filter (\<lambda>rule. pr_listenerName rule \<noteq> [] \<and> pr_listenerName rule \<notin> set newListenerNames)
                 (parseProgrammedHTTPRoutePolicyRules existingAnnotation)) @ programmedPolicyRules))"

definition l7ProgrammedListenersChanged :: "string \<Rightarrow> gw_listener list \<Rightarrow> bool" where
  "l7ProgrammedListenersChanged programmedPolicyRulesAnnotation matchedListeners =
     (if matchedListeners = [] then False
      else (let programmed = uniq_by id (filter (\<lambda>n. n \<noteq> [])
              (map pr_listenerName (parseProgrammedHTTPRoutePolicyRules programmedPolicyRulesAnnotation)));
                matched = uniq_by id (map l_name matchedListeners)
        in length programmed \<noteq> length matched \<or> list_ex (\<lambda>n. n \<notin> set programmed) matched))"

text \<open>Backend sets recorded in an annotation (\<open>l4route_annotations.go\<close>); a set is a list without duplicates.\<close>

definition annotatedBackendSetNames :: "string go_map \<Rightarrow> string \<Rightarrow> string list" where
  "annotatedBackendSetNames annotations annotation =
     uniq_by id (filter (\<lambda>n. n \<noteq> []) (map trim_space (str_split (CHR '','') (map_get annotations annotation))))"

definition joinedAnnotationNames :: "string list \<Rightarrow> string" where
  "joinedAnnotationNames names = str_join '','' (sort_strings names)"

definition setAnnotatedBackendSetNames :: "string go_map \<Rightarrow> string \<Rightarrow> string list \<Rightarrow> string go_map" where
  "setAnnotatedBackendSetNames annotations annotation names =
     (if names = [] then AList.delete annotation annotations
      else AList.update annotation (joinedAnnotationNames names) annotations)"

section \<open>Taking rules away\<close>

definition commitRemoval :: "lb_env \<Rightarrow> string \<Rightarrow> string list go_map \<Rightarrow> string \<Rightarrow> unit lb_op" where
  "commitRemoval w loadBalancerID prevRulesByListener listenerName =
     commitRoutingPolicy w \<lparr>cm_loadBalancerID = loadBalancerID, cm_listenerName = listenerName, cm_policyRules = [],
       cm_prevPolicyRules = (case map_of prevRulesByListener listenerName of Some rs \<Rightarrow> rs | None \<Rightarrow> [])\<rparr>"

definition removeL7RoutePolicyRules :: "lb_env \<Rightarrow> string \<Rightarrow> gw_listener list \<Rightarrow> string \<Rightarrow> unit lb_op" where
  "removeL7RoutePolicyRules w loadBalancerID matchedListeners programmedPolicyRulesAnnotation =
     (let previousRules = parseProgrammedHTTPRoutePolicyRules programmedPolicyRulesAnnotation;
          prevRulesByListener = previousPolicyRulesByListener previousRules matchedListeners
      in eff_foreach (\<lambda>listenerName.
           eff_bind (eff_attempt (commitRemoval w loadBalancerID prevRulesByListener listenerName)) (\<lambda>r. case r of
               Inr _ \<Rightarrow> eff_return ()
             | Inl err \<Rightarrow>
                 (if service_error_status w 404 err then eff_return ()
                  else eff_fail (ErrWrap (errtext ''failed to remove route policy rules for listener '' listenerName '': '') err []))))
         (sort_strings (map fst prevRulesByListener)))"

section \<open>Programming\<close>

record program_l7_route_policy_params =
  pp_loadBalancerID :: string
  pp_routeName :: string
  pp_routeNamespace :: string
  pp_backendRefs :: "backend_ref list"
  pp_knownBackends :: "k8s_service go_map"
  pp_matchedListeners :: "gw_listener list"
  pp_previousPolicyRules :: "programmed_http_route_policy_rule list"
  pp_previousBackendSets :: "string list"
  pp_ruleCount :: nat
  pp_makeRoutingRule :: "nat \<Rightarrow> int \<Rightarrow> error + routing_rule"
  pp_backendTLSPolicy :: "(k8s_service \<Rightarrow> backend_ref \<Rightarrow> ssl_details option lb_op) option"
  pp_backendTLSDisabled :: bool

definition backendServiceName :: "backend_ref \<Rightarrow> string \<Rightarrow> string" where
  "backendServiceName ref ns = (case backendObjectRefName ref ns of (n, name) \<Rightarrow> namespaced_name n name)"

definition resolvedServiceNotFound :: "string \<Rightarrow> error" where
  "resolvedServiceNotFound serviceName = ErrText (errtext ''resolved backend service '' serviceName '' not found'')"

fun validateRefs :: "program_l7_route_policy_params \<Rightarrow> string list \<Rightarrow> backend_ref list \<Rightarrow> error option" where
  "validateRefs params processed [] = None"
| "validateRefs params processed (ref # refs) =
     (let key = l7BackendRefKey ref (pp_routeNamespace params) in
      if key \<in> set processed then validateRefs params processed refs
      else (let serviceName = backendServiceName ref (pp_routeNamespace params) in
        if map_of (pp_knownBackends params) serviceName = None then Some (resolvedServiceNotFound serviceName)
        else validateRefs params (key # processed) refs))"

definition validateResolvedL7BackendRefs :: "program_l7_route_policy_params \<Rightarrow> error option" where
  "validateResolvedL7BackendRefs params = validateRefs params [] (pp_backendRefs params)"

definition listenerRules :: "program_l7_route_policy_params \<Rightarrow> gw_listener \<Rightarrow> error + routing_rule list" where
  "listenerRules params listener =
     result_map (\<lambda>ruleIndex. case pp_makeRoutingRule params ruleIndex (l_port listener) of
         Inl err \<Rightarrow> Inl (ErrWrap (errtext ''failed to make routing rule '' (nat_to_string ruleIndex)
           (errtext '' for route '' (pp_routeName params) '': '')) err [])
       | Inr rule \<Rightarrow> Inr rule) [0..<pp_ruleCount params]"

text \<open>The rules of every listener, and the names of all rules in the order they were made.\<close>

definition buildL7RoutingRulesByListener ::
    "program_l7_route_policy_params \<Rightarrow> error + (routing_rule list go_map \<times> string list)" where
  "buildL7RoutingRulesByListener params =
     (case result_map (listenerRules params) (pp_matchedListeners params) of
        Inl err \<Rightarrow> Inl err
      | Inr rules \<Rightarrow>
          Inr (slice_to_map (\<lambda>(l, _). l_name l) snd [] (zip (pp_matchedListeners params) rules),
            uniq_by id (filter (\<lambda>n. n \<noteq> []) (map (\<lambda>r. str_ptr (rule_name r)) (concat rules)))))"

definition resolveL7BackendSSLConfig ::
    "program_l7_route_policy_params \<Rightarrow> k8s_service \<Rightarrow> backend_ref \<Rightarrow> (ssl_details option \<times> bool) lb_op" where
  "resolveL7BackendSSLConfig params service ref =
     (if pp_backendTLSDisabled params then eff_return (None, False)
      else case pp_backendTLSPolicy params of
          None \<Rightarrow> eff_return (None, False)
        | Some resolve \<Rightarrow>
            eff_bind (eff_attempt (resolve service ref)) (\<lambda>r. case r of
                Inr sslConfig \<Rightarrow> eff_return (sslConfig, True)
              | Inl err \<Rightarrow>
                  (if errors_is err ErrBackendTLSPolicyNotFound then eff_return (None, True)
                   else if errors_as backend_tls_status_of err \<noteq> None then eff_return (None, True)
                   else eff_fail err)))"

fun reconcileRefs ::
    "lb_env \<Rightarrow> program_l7_route_policy_params \<Rightarrow> string list \<Rightarrow> string list \<Rightarrow> backend_ref list \<Rightarrow> string list lb_op" where
  "reconcileRefs w params processed desired [] = eff_return desired"
| "reconcileRefs w params processed desired (ref # refs) =
     (let key = l7BackendRefKey ref (pp_routeNamespace params) in
      if key \<in> set processed then reconcileRefs w params processed desired refs
      else (let backendSetName = ociBackendSetNameFromBackendObjectRef (pp_routeNamespace params) ref;
                serviceName = backendServiceName ref (pp_routeNamespace params)
        in case map_of (pp_knownBackends params) serviceName of
            None \<Rightarrow> eff_fail (resolvedServiceNotFound serviceName)
          | Some service \<Rightarrow>
              eff_bind (eff_attempt (resolveL7BackendSSLConfig params service ref)) (\<lambda>r. case r of
                  Inl err \<Rightarrow> eff_fail (ErrWrap (errtext ''failed to resolve BackendTLSPolicy for service '' key '': '') err [])
                | Inr (sslConfig, manageSSLConfig) \<Rightarrow>
                    eff_bind (eff_attempt (reconcileBackendSet w \<lparr>rb_loadBalancerID = pp_loadBalancerID params,
                        rb_service = service, rb_routeNS = pp_routeNamespace params, rb_backendRef = ref,
                        rb_sslConfig = sslConfig, rb_manageSSLConfig = manageSSLConfig\<rparr>)) (\<lambda>r. case r of
                        Inl err \<Rightarrow> eff_fail (ErrWrap (errtext ''failed to reconcile backend set for service '' key '': '') err [])
                      | Inr _ \<Rightarrow> reconcileRefs w params (key # processed) (List.insert backendSetName desired) refs))))"

definition reconcileL7BackendSets :: "lb_env \<Rightarrow> program_l7_route_policy_params \<Rightarrow> string list lb_op" where
  "reconcileL7BackendSets w params = reconcileRefs w params [] [] (pp_backendRefs params)"

definition wrapping :: "string \<Rightarrow> unit lb_op \<Rightarrow> unit lb_op" where
  "wrapping pre m = eff_bind (eff_attempt m) (\<lambda>r. case r of Inl err \<Rightarrow> eff_fail (ErrWrap pre err []) | Inr _ \<Rightarrow> eff_return ())"

definition removeStaleL7PolicyRules ::
    "lb_env \<Rightarrow> string \<Rightarrow> string list go_map \<Rightarrow> string list \<Rightarrow> unit lb_op" where
  "removeStaleL7PolicyRules w loadBalancerID prevRulesByListener currentListenerNames =
     eff_foreach (\<lambda>listenerName.
         wrapping (errtext ''failed to remove stale routing policy rules for listener '' listenerName '': '')
           (commitRemoval w loadBalancerID prevRulesByListener listenerName))
       (filter (\<lambda>n. n \<notin> set currentListenerNames) (sort_strings (map fst prevRulesByListener)))"

definition deprovisionStaleL7BackendSets ::
    "lb_env \<Rightarrow> string \<Rightarrow> string list \<Rightarrow> string list \<Rightarrow> unit lb_op" where
  "deprovisionStaleL7BackendSets w loadBalancerID desiredBackendSets previousBackendSets =
     eff_foreach (\<lambda>backendSetName.
         wrapping (errtext ''failed to deprovision stale backend set '' backendSetName '': '')
           (deprovisionBackendSetByName w loadBalancerID backendSetName))
       (filter (\<lambda>n. n \<notin> set desiredBackendSets) (sort_strings previousBackendSets))"

definition commitListener ::
    "lb_env \<Rightarrow> program_l7_route_policy_params \<Rightarrow> routing_rule list go_map \<Rightarrow> string list go_map \<Rightarrow> gw_listener \<Rightarrow> unit lb_op" where
  "commitListener w params rulesByListener prevRulesByListener listener =
     wrapping (errtext ''failed to commit routing policy for listener '' (l_name listener) '': '')
       (commitRoutingPolicy w \<lparr>cm_loadBalancerID = pp_loadBalancerID params, cm_listenerName = l_name listener,
         cm_policyRules = (case map_of rulesByListener (l_name listener) of Some rs \<Rightarrow> rs | None \<Rightarrow> []),
         cm_prevPolicyRules = (case map_of prevRulesByListener (l_name listener) of Some rs \<Rightarrow> rs | None \<Rightarrow> [])\<rparr>)"

record program_route_result =
  ro_programmedPolicyRules :: "string list"
  ro_programmedBackendSets :: "string list"

definition programL7RoutePolicy :: "lb_env \<Rightarrow> program_l7_route_policy_params \<Rightarrow> program_route_result lb_op" where
  "programL7RoutePolicy w params =
     (case validateResolvedL7BackendRefs params of
        Some err \<Rightarrow> eff_fail err
      | None \<Rightarrow>
          (case buildL7RoutingRulesByListener params of
             Inl err \<Rightarrow> eff_fail err
           | Inr (rulesByListener, ruleNames) \<Rightarrow>
               eff_bind (reconcileL7BackendSets w params) (\<lambda>desiredBackendSets.
               (let prevRulesByListener = previousPolicyRulesByListener (pp_previousPolicyRules params) (pp_matchedListeners params)
                in eff_bind (eff_foreach (commitListener w params rulesByListener prevRulesByListener)
                     (pp_matchedListeners params)) (\<lambda>_.
                   eff_bind (removeStaleL7PolicyRules w (pp_loadBalancerID params) prevRulesByListener
                     (map l_name (pp_matchedListeners params))) (\<lambda>_.
                   eff_bind (deprovisionStaleL7BackendSets w (pp_loadBalancerID params) desiredBackendSets
                     (pp_previousBackendSets params)) (\<lambda>_.
                   eff_return \<lparr>ro_programmedPolicyRules =
                       programmedHTTPRoutePolicyRulesAnnotation (pp_matchedListeners params) ruleNames,
                     ro_programmedBackendSets = sort_strings desiredBackendSets\<rparr>)))))))"

section \<open>Deprovisioning\<close>

record deprovision_l7_backend_sets_params =
  dp_loadBalancerID :: string
  dp_routeKind :: string
  dp_routeNamespace :: string
  dp_routeName :: string
  dp_backendRefs :: "backend_ref list"
  dp_previousBackendSets :: "string list"

fun deprovisionRefs ::
    "lb_env \<Rightarrow> deprovision_l7_backend_sets_params \<Rightarrow> string list \<Rightarrow> backend_ref list \<Rightarrow> unit lb_op" where
  "deprovisionRefs w params processed [] = eff_return ()"
| "deprovisionRefs w params processed (ref # refs) =
     (let key = l7BackendRefKey ref (dp_routeNamespace params);
          name = ociBackendSetNameFromBackendObjectRef (dp_routeNamespace params) ref
      in if key \<in> set processed then deprovisionRefs w params processed refs
         else eff_bind
           (if name \<in> set (dp_previousBackendSets params) then
              eff_bind (eff_attempt (backendSetReferenced w (dp_loadBalancerID params) name)) (\<lambda>r. case r of
                  Inl err \<Rightarrow> eff_fail (ErrWrap (errtext ''failed to check backend set '' name '' references: '') err [])
                | Inr referenced \<Rightarrow> eff_return referenced)
            else eff_return False) (\<lambda>referenced.
           if referenced then deprovisionRefs w params (key # processed) refs
           else eff_bind (wrapping (errtext ''failed to deprovision backend set for '' (dp_routeKind params)
                (errtext '' '' (namespaced_name (dp_routeNamespace params) (dp_routeName params)) '': ''))
              (deprovisionBackendSet w (dp_loadBalancerID params) (dp_routeNamespace params) ref)) (\<lambda>_.
            deprovisionRefs w params (key # processed) refs)))"

definition deprovisionL7BackendSets :: "lb_env \<Rightarrow> deprovision_l7_backend_sets_params \<Rightarrow> unit lb_op" where
  "deprovisionL7BackendSets w params = deprovisionRefs w params [] (dp_backendRefs params)"

section \<open>Reading the record back\<close>

definition rule_entry :: "programmed_http_route_policy_rule \<Rightarrow> string" where
  "rule_entry r = pr_listenerName r @ ''/'' @ pr_ruleName r"

definition recordable :: "programmed_http_route_policy_rule \<Rightarrow> bool" where
  "recordable r \<longleftrightarrow> pr_listenerName r \<noteq> [] \<and> pr_ruleName r \<noteq> [] \<and> CHR ''/'' \<notin> set (pr_listenerName r) \<and>
     CHR '','' \<notin> set (pr_listenerName r) \<and> CHR '','' \<notin> set (pr_ruleName r) \<and>
     plain_char (hd (pr_listenerName r)) \<and> plain_char (last (pr_ruleName r))"

lemma parse_entries:
  assumes "\<forall>r\<in>set rules. recordable r"
  shows "parseRuleEntries (map rule_entry rules) = rules"
  using assms
proof (induction rules)
  case (Cons r rules)
  then have r: "recordable r" by simp
  let ?e = "rule_entry r"
  have "trim_space ?e = ?e"
    using r by (intro trim_space_trimmed trimmed_plain) (auto simp: recordable_def rule_entry_def hd_append)
  moreover have "str_cut ?e ''/'' = Some (pr_listenerName r, pr_ruleName r)"
    using r str_cut_char [of "CHR ''/''" "pr_listenerName r" "pr_ruleName r"]
    by (simp add: recordable_def rule_entry_def)
  moreover have "parseRuleEntries (map rule_entry rules) = rules" using Cons by simp
  moreover have "?e \<noteq> []" by (simp add: rule_entry_def)
  ultimately show ?case using r by (simp add: recordable_def)
qed simp

lemma parse_joined:
  assumes "\<forall>r\<in>set rules. recordable r"
  shows "parseProgrammedHTTPRoutePolicyRules (str_join '','' (map rule_entry rules)) = rules"
proof (cases "rules = []")
  case True
  then show ?thesis by (simp add: parseProgrammedHTTPRoutePolicyRules_def)
next
  case False
  then have "str_split (CHR '','') (str_join '','' (map rule_entry rules)) = map rule_entry rules"
    using assms by (intro str_split_join) (auto simp: recordable_def rule_entry_def)
  moreover from this have "str_join '','' (map rule_entry rules) \<noteq> []"
    using False by (cases rules) (auto simp: rule_entry_def)
  ultimately show ?thesis
    using parse_entries [OF assms] by (simp add: parseProgrammedHTTPRoutePolicyRules_def)
qed

text \<open>
  C19: The rules recorded on a route for its listeners are read back, each with its listener.
\<close>

theorem programmed_rules_roundtrip:
  assumes "\<forall>l\<in>set listeners. \<forall>n\<in>set ruleNames. recordable \<lparr>pr_listenerName = l_name l, pr_ruleName = n\<rparr>"
  shows "parseProgrammedHTTPRoutePolicyRules (str_join '','' (programmedHTTPRoutePolicyRulesAnnotation listeners ruleNames)) =
    concat (map (\<lambda>l. map (\<lambda>n. \<lparr>pr_listenerName = l_name l, pr_ruleName = n\<rparr>) ruleNames) listeners)"
proof -
  have "programmedHTTPRoutePolicyRulesAnnotation listeners ruleNames = map rule_entry
      (concat (map (\<lambda>l. map (\<lambda>n. \<lparr>pr_listenerName = l_name l, pr_ruleName = n\<rparr>) ruleNames) listeners))"
    unfolding programmedHTTPRoutePolicyRulesAnnotation_def by (induction listeners) (simp_all add: rule_entry_def)
  moreover have "parseProgrammedHTTPRoutePolicyRules (str_join '','' (map rule_entry
      (concat (map (\<lambda>l. map (\<lambda>n. \<lparr>pr_listenerName = l_name l, pr_ruleName = n\<rparr>) ruleNames) listeners)))) =
      concat (map (\<lambda>l. map (\<lambda>n. \<lparr>pr_listenerName = l_name l, pr_ruleName = n\<rparr>) ruleNames) listeners)"
    by (rule parse_joined) (use assms in auto)
  ultimately show ?thesis by simp
qed

theorem programmed_rules_roundtrip_witness:
  "parseProgrammedHTTPRoutePolicyRules (str_join '','' (programmedHTTPRoutePolicyRulesAnnotation
      [plainListener ''web'' 80 ''HTTP''] [''p0000_r'', ''p0001_r''])) =
    [\<lparr>pr_listenerName = ''web'', pr_ruleName = ''p0000_r''\<rparr>, \<lparr>pr_listenerName = ''web'', pr_ruleName = ''p0001_r''\<rparr>]"
  using programmed_rules_roundtrip [of "[plainListener ''web'' 80 ''HTTP'']" "[''p0000_r'', ''p0001_r'']"]
  by (simp add: recordable_def plainListener_def plain_char_def)

section \<open>Listeners a route left\<close>

lemma merge_recorded:
  assumes "\<forall>r\<in>set old \<union> set new. recordable r" "new \<noteq> []"
  shows "mergeL7ProgrammedPolicyRules (str_join '','' (map rule_entry old)) (map rule_entry new) =
    map rule_entry (filter (\<lambda>r. pr_listenerName r \<notin> pr_listenerName ` set new) old @ new)"
proof -
  have parse_new: "parseProgrammedHTTPRoutePolicyRules (str_join '','' (map rule_entry new)) = new"
    and parse_old: "parseProgrammedHTTPRoutePolicyRules (str_join '','' (map rule_entry old)) = old"
    using assms(1) by (auto intro!: parse_joined)
  have names: "filter (\<lambda>n. n \<noteq> []) (map pr_listenerName new) = map pr_listenerName new"
    using assms(1) by (auto simp: filter_id_conv recordable_def)
  show ?thesis
  proof (cases "old = []")
    case False
    then have "str_join '','' (map rule_entry old) \<noteq> []"
      using parse_old by (auto simp: parseProgrammedHTTPRoutePolicyRules_def)
    moreover have "filter (\<lambda>r. pr_listenerName r \<noteq> [] \<and> pr_listenerName r \<notin> pr_listenerName ` set new) old =
        filter (\<lambda>r. pr_listenerName r \<notin> pr_listenerName ` set new) old"
      using assms(1) by (intro filter_cong) (auto simp: recordable_def)
    ultimately show ?thesis
      using assms(2) by (simp add: mergeL7ProgrammedPolicyRules_def parse_new parse_old names Let_def rule_entry_def)
  qed (simp add: mergeL7ProgrammedPolicyRules_def)
qed

lemma listenersChanged_recorded:
  assumes "\<forall>r\<in>set rules. recordable r" "matched \<noteq> []"
  shows "l7ProgrammedListenersChanged (str_join '','' (map rule_entry rules)) matched \<longleftrightarrow>
    pr_listenerName ` set rules \<noteq> l_name ` set matched"
proof -
  let ?a = "uniq_by id (map pr_listenerName rules)" and ?b = "uniq_by id (map l_name matched)"
  have names: "filter (\<lambda>n. n \<noteq> []) (map pr_listenerName rules) = map pr_listenerName rules"
    using assms(1) by (auto simp: filter_id_conv recordable_def)
  have "distinct ?a" "distinct ?b"
    using distinct_uniq_by [of id "map pr_listenerName rules"] distinct_uniq_by [of id "map l_name matched"] by simp_all
  then have "length ?a = card (pr_listenerName ` set rules)" "length ?b = card (l_name ` set matched)"
    by (metis distinct_card list.set_map set_uniq_id)+
  then have "l7ProgrammedListenersChanged (str_join '','' (map rule_entry rules)) matched \<longleftrightarrow>
      card (pr_listenerName ` set rules) \<noteq> card (l_name ` set matched) \<or>
      \<not> l_name ` set matched \<subseteq> pr_listenerName ` set rules"
    using assms(2)
    by (auto simp: l7ProgrammedListenersChanged_def parse_joined [OF assms(1)] names list_ex_iff Let_def)
  then show ?thesis by (metis List.finite_set card_subset_eq finite_imageI order_refl)
qed

text \<open>
  A route that was programmed for a listener which it no longer matches keeps that listener
  in its record after every programming, so the check for changed listeners asks to
  program it again, for ever.
\<close>

theorem left_listener_never_settles:
  assumes "\<forall>r\<in>set old \<union> set new. recordable r" "new \<noteq> []"
    and "pr_listenerName ` set new = l_name ` set matched"
    and "stale \<in> set old" "pr_listenerName stale \<notin> l_name ` set matched"
  shows "l7ProgrammedListenersChanged (str_join '',''
    (mergeL7ProgrammedPolicyRules (str_join '','' (map rule_entry old)) (map rule_entry new))) matched"
proof -
  let ?merged = "filter (\<lambda>r. pr_listenerName r \<notin> pr_listenerName ` set new) old @ new"
  have "\<forall>r\<in>set ?merged. recordable r" using assms(1) by auto
  moreover have "matched \<noteq> []" using assms(2,3) by auto
  moreover have "pr_listenerName ` set ?merged \<noteq> l_name ` set matched" using assms(3-5) by auto
  ultimately show ?thesis
    unfolding merge_recorded [OF assms(1,2)] using listenersChanged_recorded [of ?merged matched] by blast
qed

theorem left_listener_never_settles_witness:
  "l7ProgrammedListenersChanged (str_join '','' (mergeL7ProgrammedPolicyRules
      (str_join '','' (map rule_entry [\<lparr>pr_listenerName = ''web'', pr_ruleName = ''p0000_r''\<rparr>]))
      (map rule_entry [\<lparr>pr_listenerName = ''tls'', pr_ruleName = ''p0000_r''\<rparr>]))) [plainListener ''tls'' 443 ''HTTPS'']"
  by (rule left_listener_never_settles [where stale = "\<lparr>pr_listenerName = ''web'', pr_ruleName = ''p0000_r''\<rparr>"])
    (simp_all add: recordable_def plainListener_def plain_char_def)

text \<open>Without such a listener the record does settle.\<close>

lemma unchanged_listeners_settle:
  assumes "\<forall>r\<in>set old \<union> set new. recordable r" "new \<noteq> []"
    and "pr_listenerName ` set new = l_name ` set matched" "pr_listenerName ` set old \<subseteq> l_name ` set matched"
  shows "\<not> l7ProgrammedListenersChanged (str_join '',''
    (mergeL7ProgrammedPolicyRules (str_join '','' (map rule_entry old)) (map rule_entry new))) matched"
proof -
  have "filter (\<lambda>r. pr_listenerName r \<notin> pr_listenerName ` set new) old = []"
    using assms(3,4) by (auto simp: filter_empty_conv)
  moreover have "matched \<noteq> []" using assms(2,3) by auto
  moreover have "\<forall>r\<in>set new. recordable r" using assms(1) by blast
  ultimately show ?thesis
    unfolding merge_recorded [OF assms(1,2)] using assms(3) listenersChanged_recorded [of new matched] by simp
qed

section \<open>The order of the requests\<close>

text \<open>An operation whose calls come in consecutive phases, each with its own kind of calls.\<close>

definition phased :: "('c \<Rightarrow> bool) list \<Rightarrow> ('c, 'e, 'a) eff \<Rightarrow> bool" where
  "phased Ps m \<longleftrightarrow> (\<forall>h. \<exists>css. snd (m h) = h @ concat css \<and> list_all2 list_all Ps css)"

lemma phased_emits: "emits P m \<Longrightarrow> phased [P] m"
  unfolding phased_def emits_def by (metis append_Nil2 concat.simps list.rel_inject(2) list_all2_Nil)

lemma no_calls: "\<exists>css. concat css = ([] :: 'c list) \<and> list_all2 list_all Ps css"
  by (rule exI [of _ "map (\<lambda>_. []) Ps"]) (induction Ps; simp)

lemma phased_bind:
  assumes "phased Ps m" "\<And>x. phased Qs (f x)"
  shows "phased (Ps @ Qs) (eff_bind m f)"
  unfolding phased_def
proof
  fix h
  obtain r h1 where m: "m h = (r, h1)" by (cases "m h")
  obtain css where css: "h1 = h @ concat css" "list_all2 list_all Ps css"
    using assms(1) m unfolding phased_def by (metis snd_conv)
  show "\<exists>css. snd (eff_bind m f h) = h @ concat css \<and> list_all2 list_all (Ps @ Qs) css"
  proof (cases r)
    case (Inl e)
    obtain dss :: "'a list list" where "concat dss = []" "list_all2 list_all Qs dss" using no_calls by blast
    with Inl m css show ?thesis
      by (intro exI [of _ "css @ dss"]) (simp add: eff_bind_def list_all2_appendI)
  next
    case (Inr x)
    obtain dss where "snd (f x h1) = h1 @ concat dss" "list_all2 list_all Qs dss"
      using assms(2) unfolding phased_def by blast
    with Inr m css show ?thesis
      by (intro exI [of _ "css @ dss"]) (simp add: eff_bind_def list_all2_appendI)
  qed
qed

text \<open>
  The phases of programming a route: backend sets are created and updated; routing policies
  are written; backend sets are deleted.
\<close>

fun backendSetPhase :: "lb_call \<Rightarrow> bool" where
  "backendSetPhase (CreateRoutingPolicy _ _) = False"
| "backendSetPhase (UpdateRoutingPolicy _ _ _) = False"
| "backendSetPhase (DeleteRoutingPolicy _ _) = False"
| "backendSetPhase (DeleteBackendSet _ _) = False"
| "backendSetPhase c = True"

fun policyPhase :: "lb_call \<Rightarrow> bool" where
  "policyPhase (CreateRoutingPolicy _ _) = True"
| "policyPhase (UpdateRoutingPolicy _ _ _) = True"
| "policyPhase (DeleteRoutingPolicy _ _) = True"
| "policyPhase c = reading c"

fun deletionPhase :: "string list \<Rightarrow> lb_call \<Rightarrow> bool" where
  "deletionPhase previous (DeleteBackendSet _ name) = (name \<in> set previous)"
| "deletionPhase previous c = reading c"

lemma emits_wrapping: "emits P m \<Longrightarrow> emits P (wrapping pre m)"
  by (auto simp: wrapping_def intro!: emits_bind emits_attempt emits_return emits_fail split: sum.split)

lemma emits_commit: "emits policyPhase (commitRoutingPolicy w params)"
  by (auto simp: commitRoutingPolicy_def commitRoutingPolicyLocked_def createMissingCommittedRoutingPolicy_def
      deleteMissingRoutingPolicy_def Let_def intro!: emits_bind emits_get emits_ask emits_return emits_fail
      emits_awaited_write split: sum.split)

lemma emits_reconcileBackendSet: "emits backendSetPhase (reconcileBackendSet w params)"
  by (auto simp: reconcileBackendSet_def reconcileExistingBackendSet_def updateBackendSetConfig_def Let_def
      intro!: emits_bind emits_get emits_return emits_fail emits_awaited_write split: sum.split)

lemma emits_deprovision: "name \<in> set previous \<Longrightarrow> emits (deletionPhase previous) (deprovisionBackendSetByName w lb name)"
  by (auto simp: deprovisionBackendSetByName_def wait_for_def intro!: emits_bind emits_get emits_call emits_return emits_fail
      split: sum.split option.split)

definition quietPolicy :: "program_l7_route_policy_params \<Rightarrow> bool" where
  "quietPolicy params \<longleftrightarrow> (\<forall>resolve service ref. pp_backendTLSPolicy params = Some resolve \<longrightarrow>
     emits backendSetPhase (resolve service ref))"

lemma emits_resolveSSL: "quietPolicy params \<Longrightarrow> emits backendSetPhase (resolveL7BackendSSLConfig params service ref)"
  by (auto simp: resolveL7BackendSSLConfig_def quietPolicy_def intro!: emits_bind emits_attempt emits_return emits_fail
      split: option.split sum.split)

lemma emits_reconcileRefs:
  "quietPolicy params \<Longrightarrow> emits backendSetPhase (reconcileRefs w params processed desired refs)"
proof (induction refs arbitrary: processed desired)
  case (Cons ref refs)
  then show ?case
    by (auto simp: Let_def intro!: emits_bind emits_attempt emits_resolveSSL emits_reconcileBackendSet emits_return
        emits_fail split: option.split sum.split)
qed (simp add: emits_return)

text \<open>
  Programming a route first makes its backend sets, then writes the rules that refer to them,
  and deletes backend sets only after that, and only ones recorded on the route; this holds
  for every run, whichever request fails.
\<close>

theorem programL7RoutePolicy_order:
  assumes "quietPolicy params"
  shows "phased [backendSetPhase, policyPhase, policyPhase, deletionPhase (pp_previousBackendSets params)]
    (programL7RoutePolicy w params)"
proof -
  let ?Ps = "[policyPhase, policyPhase, deletionPhase (pp_previousBackendSets params)]"
  let ?prev = "previousPolicyRulesByListener (pp_previousPolicyRules params) (pp_matchedListeners params)"
  have fail: "phased ([P] @ Qs) (eff_fail err)" for P :: "lb_call \<Rightarrow> bool" and Qs and err :: error
      and dummy :: "program_route_result"
    unfolding phased_def eff_fail_def using no_calls [of "[P] @ Qs"] by auto
  have deletions: "phased [deletionPhase (pp_previousBackendSets params)]
      (eff_bind (deprovisionStaleL7BackendSets w lb desired (pp_previousBackendSets params)) (\<lambda>_. eff_return res))"
    for lb desired and res :: program_route_result
    unfolding deprovisionStaleL7BackendSets_def
    by (intro phased_emits emits_bind emits_foreach emits_wrapping emits_deprovision emits_return) simp
  have stale: "emits policyPhase (removeStaleL7PolicyRules w lb prev current)" for lb prev current
    unfolding removeStaleL7PolicyRules_def commitRemoval_def by (intro emits_foreach emits_wrapping emits_commit)
  have commits: "emits policyPhase (eff_foreach (commitListener w params rules prev) ls)" for rules prev ls
    unfolding commitListener_def by (intro emits_foreach emits_wrapping emits_commit)
  have rest: "phased ?Ps (eff_bind (eff_foreach (commitListener w params rules prev) ls) (\<lambda>_.
      eff_bind (removeStaleL7PolicyRules w lb prev current) (\<lambda>_.
      eff_bind (deprovisionStaleL7BackendSets w lb desired (pp_previousBackendSets params)) (\<lambda>_. eff_return res))))"
    for rules prev ls lb current desired and res :: program_route_result
    using phased_bind [OF phased_emits [OF commits] phased_bind [OF phased_emits [OF stale] deletions]] by simp
  have "phased ([backendSetPhase] @ ?Ps) (eff_bind (reconcileL7BackendSets w params) (\<lambda>desired.
      eff_bind (eff_foreach (commitListener w params rules ?prev) (pp_matchedListeners params)) (\<lambda>_.
      eff_bind (removeStaleL7PolicyRules w (pp_loadBalancerID params) ?prev (map l_name (pp_matchedListeners params))) (\<lambda>_.
      eff_bind (deprovisionStaleL7BackendSets w (pp_loadBalancerID params) desired (pp_previousBackendSets params)) (\<lambda>_.
        eff_return \<lparr>ro_programmedPolicyRules = programmedHTTPRoutePolicyRulesAnnotation (pp_matchedListeners params) names,
          ro_programmedBackendSets = sort_strings desired\<rparr>)))))" for rules names
    unfolding reconcileL7BackendSets_def
    by (rule phased_bind [OF phased_emits [OF emits_reconcileRefs [OF assms]] rest])
  then show ?thesis
    unfolding programL7RoutePolicy_def Let_def using fail
    by (auto split: option.split sum.split prod.split)
qed

text \<open>A route for one service, on a load balancer that has nothing yet.\<close>

definition exampleBackendRef :: backend_ref where
  "exampleBackendRef = \<lparr>br_group = None, br_kind = None, br_name = ''svc'', br_namespace = None, br_port = Some 80,
     br_weight = None\<rparr>"

definition exampleL7Params :: program_l7_route_policy_params where
  "exampleL7Params = \<lparr>pp_loadBalancerID = ''lb'', pp_routeName = ''r'', pp_routeNamespace = ''ns'',
     pp_backendRefs = [exampleBackendRef], pp_knownBackends = [(''ns/svc'', \<lparr>svc_namespace = ''ns'', svc_name = ''svc'',
       svc_ports = [\<lparr>sp_name = ''http'', sp_port = 80,
         sp_target_port = \<lparr>tp_is_string = False, tp_int_val = 8080, tp_int_value = 8080\<rparr>\<rparr>]\<rparr>)],
     pp_matchedListeners = [], pp_previousPolicyRules = [], pp_previousBackendSets = [''old''], pp_ruleCount = 0,
     pp_makeRoutingRule = (\<lambda>_ _. Inl ErrUnsupportedMatch), pp_backendTLSPolicy = None, pp_backendTLSDisabled = False\<rparr>"

theorem programL7RoutePolicy_order_witness:
  "phased [backendSetPhase, policyPhase, policyPhase, deletionPhase [''old'']]
    (programL7RoutePolicy agreeable_env exampleL7Params)"
  using programL7RoutePolicy_order [of exampleL7Params agreeable_env]
  by (simp add: quietPolicy_def exampleL7Params_def)

section \<open>Backend TLS that cannot be resolved\<close>

text \<open>
  When the policy of a route's only backend is invalid, a backend set that does not exist yet is
  created without TLS.
\<close>

theorem invalid_policy_disables_tls:
  assumes "pp_backendTLSPolicy params = Some resolve" "\<not> pp_backendTLSDisabled params"
    and "pp_backendRefs params = [ref]"
    and "map_of (pp_knownBackends params) (backendServiceName ref (pp_routeNamespace params)) = Some service"
    and "resolve service ref h = (Inl err, h')" "errors_as backend_tls_status_of err = Some status"
    and "env_backend_set w h' (pp_loadBalancerID params)
      (ociBackendSetNameFromBackendObjectRef (pp_routeNamespace params) ref) = Inl (ServiceError 404 code msg)"
  shows "\<exists>details waits. cb_ssl details = None \<and>
    snd (reconcileL7BackendSets w params h) = h' @
      [GetBackendSet (pp_loadBalancerID params) (ociBackendSetNameFromBackendObjectRef (pp_routeNamespace params) ref),
       CreateBackendSet (pp_loadBalancerID params) details] @ waits"
proof -
  have ssl: "resolveL7BackendSSLConfig params service ref h = (Inr (None, True), h')"
    using assms(1,2,5,6) by (simp add: resolveL7BackendSSLConfig_def eff_simps)
  have created: "\<exists>details waits. cb_ssl details = None \<and> snd (reconcileBackendSet w
      \<lparr>rb_loadBalancerID = pp_loadBalancerID params, rb_service = service, rb_routeNS = pp_routeNamespace params,
       rb_backendRef = ref, rb_sslConfig = None, rb_manageSSLConfig = True\<rparr> h') = h' @
      [GetBackendSet (pp_loadBalancerID params) (ociBackendSetNameFromBackendObjectRef (pp_routeNamespace params) ref),
       CreateBackendSet (pp_loadBalancerID params) details] @ waits"
    using assms(7)
    by (simp add: reconcileBackendSet_def Let_def backendSetLookupFound_def eff_bind_Inr [OF get_run(2)] awaited_write_run
        split: sum.split option.split)
  have "snd (reconcileL7BackendSets w params h) = snd (reconcileBackendSet w
      \<lparr>rb_loadBalancerID = pp_loadBalancerID params, rb_service = service, rb_routeNS = pp_routeNamespace params,
       rb_backendRef = ref, rb_sslConfig = None, rb_manageSSLConfig = True\<rparr> h')"
    using assms(3,4) by (simp add: reconcileL7BackendSets_def Let_def eff_simps ssl split: sum.split)
  with created show ?thesis by simp
qed

definition invalidPolicyParams :: program_l7_route_policy_params where
  "invalidPolicyParams = exampleL7Params\<lparr>pp_backendTLSPolicy := Some (\<lambda>_ _.
     eff_fail (ErrBackendTLSStatus ''InvalidCACertificateRef'' ''CA certificate reference was not found''))\<rparr>"

theorem invalid_policy_disables_tls_witness:
  "\<exists>details waits. cb_ssl details = None \<and>
    snd (reconcileL7BackendSets agreeable_env invalidPolicyParams []) =
      [GetBackendSet ''lb'' (ociBackendSetNameFromBackendObjectRef ''ns'' exampleBackendRef),
       CreateBackendSet ''lb'' details] @ waits"
proof -
  have names: "pp_loadBalancerID invalidPolicyParams = ''lb''" "pp_routeNamespace invalidPolicyParams = ''ns''"
    "pp_backendRefs invalidPolicyParams = [exampleBackendRef]"
    by (simp_all add: invalidPolicyParams_def exampleL7Params_def)
  have "backendServiceName exampleBackendRef ''ns'' = ''ns/svc''" by code_simp
  then have "\<exists>service. map_of (pp_knownBackends invalidPolicyParams) (backendServiceName exampleBackendRef ''ns'') = Some service"
    by (simp add: invalidPolicyParams_def exampleL7Params_def)
  then obtain service where service:
      "map_of (pp_knownBackends invalidPolicyParams) (backendServiceName exampleBackendRef ''ns'') = Some service" by blast
  show ?thesis
    using invalid_policy_disables_tls [of invalidPolicyParams
        "\<lambda>_ _. eff_fail (ErrBackendTLSStatus ''InvalidCACertificateRef'' ''CA certificate reference was not found'')"
        exampleBackendRef service "[]"
        "ErrBackendTLSStatus ''InvalidCACertificateRef'' ''CA certificate reference was not found''" "[]"] service
    by (simp add: names) (simp add: invalidPolicyParams_def exampleL7Params_def eff_fail_def agreeable_env_def)
qed

end
