(* ===== verification/Drift.thy ===== *)
theory Drift
  imports Ports
begin

text \<open>
  When a controller looks again at an object that did not change (\<open>drift_reconcile.go\<close>): the
  interval with a jitter of up to a tenth, in nanoseconds of 64 bits. Shown: a positive interval
  asks for a delay of at least a minute and at most a tenth more than asked for.
\<close>

text \<open>Signed 64-bit arithmetic wraps around; the remainder has the sign of the dividend.\<close>

definition wrap64 :: "int \<Rightarrow> int" where
  "wrap64 x = (x + 2 ^ 63) mod 2 ^ 64 - 2 ^ 63"

definition go_rem :: "int \<Rightarrow> int \<Rightarrow> int" where
  "go_rem a b = (if a < 0 then - ((- a) mod \<bar>b\<bar>) else a mod \<bar>b\<bar>)"

definition go_quot :: "int \<Rightarrow> int \<Rightarrow> int" where
  "go_quot a b = sgn a * sgn b * (\<bar>a\<bar> div \<bar>b\<bar>)"

definition minimumDriftRequeueInterval :: int where
  "minimumDriftRequeueInterval = 60 * 1000000000"

definition maxDriftRequeueJitterRatio :: int where
  "maxDriftRequeueJitterRatio = 10"

text \<open>The result is \<open>RequeueAfter\<close>; zero asks for nothing.\<close>

definition driftRequeue :: "lb_env \<Rightarrow> int \<Rightarrow> int lb_op" where
  "driftRequeue w interval =
     (if interval \<le> 0 then eff_return 0
      else (let interval1 = (if interval < minimumDriftRequeueInterval then minimumDriftRequeueInterval else interval);
                jitter = go_quot interval1 maxDriftRequeueJitterRatio
        in if jitter > 0 then
             eff_bind (eff_ask (env_now w)) (\<lambda>now. eff_return (wrap64 (interval1 + go_rem now (wrap64 (jitter + 1)))))
           else eff_return interval1))"

definition shouldProgramRoute :: "bool \<Rightarrow> int \<Rightarrow> bool" where
  "shouldProgramRoute programmingRequired driftInterval \<longleftrightarrow> programmingRequired \<or> driftInterval > 0"

lemma wrap64_id: "- (2 ^ 63) \<le> x \<Longrightarrow> x < 2 ^ 63 \<Longrightarrow> wrap64 x = x"
  by (simp add: wrap64_def)

text \<open>
  The delay is at least a minute and at least what was asked for, and at most a tenth more; no
  arithmetic wraps around for intervals up to 250 years, and the clock may be anything after 1970.
\<close>

theorem driftRequeue_bounds:
  assumes "0 < interval" "interval \<le> 8 * 10 ^ 18" "0 \<le> env_now w h"
  shows "\<exists>delay. driftRequeue w interval h = (Inr delay, h) \<and>
    max interval minimumDriftRequeueInterval \<le> delay \<and>
    delay \<le> max interval minimumDriftRequeueInterval + max interval minimumDriftRequeueInterval div 10"
proof -
  let ?i = "max interval minimumDriftRequeueInterval"
  have i: "60000000000 \<le> ?i" "?i \<le> 8 * 10 ^ 18" "(if interval < minimumDriftRequeueInterval
      then minimumDriftRequeueInterval else interval) = ?i"
    using assms(2) by (auto simp: minimumDriftRequeueInterval_def)
  have quot: "go_quot ?i maxDriftRequeueJitterRatio = ?i div 10"
    using i(1) by (simp add: go_quot_def maxDriftRequeueJitterRatio_def)
  have jitter: "0 < ?i div 10" "?i div 10 \<le> 8 * 10 ^ 17" using i(1) zdiv_mono1 [OF i(2), of 10] by simp_all
  then have wrap: "wrap64 (?i div 10 + 1) = ?i div 10 + 1" by (intro wrap64_id) simp_all
  let ?r = "go_rem (env_now w h) (?i div 10 + 1)"
  have r: "0 \<le> ?r" "?r \<le> ?i div 10"
    using assms(3) jitter(1) pos_mod_bound [of "?i div 10 + 1" "env_now w h"] by (simp_all add: go_rem_def)
  have "?i + ?r \<le> 8 * 10 ^ 18 + 8 * 10 ^ 17" using r(2) jitter(2) i(2) by linarith
  also have "\<dots> < (2 :: int) ^ 63" by simp
  finally have "wrap64 (?i + ?r) = ?i + ?r" using i(1) r(1) by (intro wrap64_id) linarith+
  then have "driftRequeue w interval h = (Inr (?i + ?r), h)"
    using assms(1) jitter(1) by (simp add: driftRequeue_def Let_def i(3) quot wrap eff_simps)
  with r show ?thesis by auto
qed

theorem driftRequeue_bounds_witness:
  "\<exists>delay. driftRequeue agreeable_env (300 * 10 ^ 9) [] = (Inr delay, []) \<and>
    max (300 * 10 ^ 9) minimumDriftRequeueInterval \<le> delay \<and>
    delay \<le> max (300 * 10 ^ 9) minimumDriftRequeueInterval + max (300 * 10 ^ 9) minimumDriftRequeueInterval div 10"
  by (rule driftRequeue_bounds) (simp_all add: agreeable_env_def)

end
