(* ===== verification/StatusAddresses.thy ===== *)
theory StatusAddresses
  imports Ports
begin

text \<open>
  The addresses in the status of a Gateway (\<open>gateway_status_addresses.go\<close>), with Go's
  \<open>net.ParseIP\<close> and its classes of addresses. Shown: the addresses are the non-empty values,
  each once, public addresses first, in an order that does not depend on the iteration over the
  map that removes duplicates; ranks agree with the private ranges.
\<close>

section \<open>Parsing\<close>

text \<open>\<open>netip.parseIPv4Fields\<close>: four decimal numbers up to 255 without leading zeros.\<close>

definition ipv4_field :: "string \<Rightarrow> nat option" where
  "ipv4_field s =
     (if s = [] \<or> \<not> list_all is_digit s then None
      else if 1 < length s \<and> hd s = CHR ''0'' then None
      else if 255 < string_to_nat s then None
      else Some (string_to_nat s))"

definition parse_ipv4 :: "string \<Rightarrow> nat list option" where
  "parse_ipv4 s =
     (let fields = map ipv4_field (str_split (CHR ''.'') s) in
      if length fields = 4 \<and> list_all (\<lambda>f. f \<noteq> None) fields then Some (map the fields) else None)"

text \<open>
  \<open>netip.parseIPv6\<close>: groups of up to four hexadecimal digits; one \<open>::\<close> stands for the missing
  groups, and the last four bytes may be an IPv4 address. The bytes parsed so far and the
  place of the \<open>::\<close> are threaded through; the result is what the address is without it.
\<close>

definition hex_value :: "char \<Rightarrow> nat option" where
  "hex_value c =
     (let n = of_char c :: nat in
      if 48 \<le> n \<and> n \<le> 57 then Some (n - 48)
      else if 97 \<le> n \<and> n \<le> 102 then Some (n - 87)
      else if 65 \<le> n \<and> n \<le> 70 then Some (n - 55)
      else None)"

definition hex_prefix :: "string \<Rightarrow> string" where
  "hex_prefix s = takeWhile (\<lambda>c. hex_value c \<noteq> None) s"

definition hex_number :: "string \<Rightarrow> nat" where
  "hex_number s = foldl (\<lambda>acc c. acc * 16 + the (hex_value c)) 0 s"

fun ipv6_groups :: "nat \<Rightarrow> string \<Rightarrow> nat list \<Rightarrow> nat option \<Rightarrow> (nat list \<times> nat option) option" where
  "ipv6_groups 0 s bytes ellipsis = (if s = [] then Some (bytes, ellipsis) else None)"
| "ipv6_groups (Suc n) s bytes ellipsis =
     (let digits = hex_prefix s; rest = drop (length digits) s in
      if 4 < length digits \<or> digits = [] then None
      else if rest \<noteq> [] \<and> hd rest = CHR ''.'' then
        (if ellipsis = None \<and> length bytes \<noteq> 12 \<or> 16 < length bytes + 4 then None
         else map_option (\<lambda>v4. (bytes @ v4, ellipsis)) (parse_ipv4 s))
      else (let bytes1 = bytes @ [hex_number digits div 256, hex_number digits mod 256] in
        if rest = [] then Some (bytes1, ellipsis)
        else if hd rest \<noteq> CHR '':'' \<or> length rest = 1 then None
        else if rest ! 1 = CHR '':'' then
          (if ellipsis \<noteq> None then None
           else if length rest = 2 then Some (bytes1, Some (length bytes1))
           else ipv6_groups n (drop 2 rest) bytes1 (Some (length bytes1)))
        else ipv6_groups n (drop 1 rest) bytes1 ellipsis))"

definition expand_ellipsis :: "nat list \<Rightarrow> nat option \<Rightarrow> nat list option" where
  "expand_ellipsis bytes ellipsis =
     (if length bytes < 16 then
        map_option (\<lambda>e. take e bytes @ replicate (16 - length bytes) 0 @ drop e bytes) ellipsis
      else if ellipsis = None then Some bytes else None)"

definition parse_ipv6 :: "string \<Rightarrow> nat list option" where
  "parse_ipv6 s =
     (if CHR ''%'' \<in> set s then None
      else if s = ''::'' then Some (replicate 16 0)
      else case (if has_prefix s ''::'' then ipv6_groups 8 (drop 2 s) [] (Some 0) else ipv6_groups 8 s [] None) of
          None \<Rightarrow> None
        | Some (bytes, ellipsis) \<Rightarrow> expand_ellipsis bytes ellipsis)"

text \<open>\<open>net.ParseIP\<close> decides by the first dot, colon or percent sign; an address with a zone is none.\<close>

definition parse_ip :: "string \<Rightarrow> nat list option" where
  "parse_ip s =
     (case find (\<lambda>c. c \<in> {CHR ''.'', CHR '':'', CHR ''%''}) s of
        None \<Rightarrow> None
      | Some c \<Rightarrow> (if c = CHR ''.'' then parse_ipv4 s else if c = CHR '':'' then parse_ipv6 s else None))"

text \<open>An IPv4 address may be written as an IPv6 one.\<close>

definition to4 :: "nat list \<Rightarrow> nat list option" where
  "to4 ip =
     (if length ip = 4 then Some ip
      else if take 12 ip = replicate 10 0 @ [255, 255] then Some (drop 12 ip) else None)"

definition is_private :: "nat list \<Rightarrow> bool" where
  "is_private ip \<longleftrightarrow> (case to4 ip of
     Some v4 \<Rightarrow> v4 ! 0 = 10 \<or> v4 ! 0 = 172 \<and> v4 ! 1 div 16 = 1 \<or> v4 ! 0 = 192 \<and> v4 ! 1 = 168
   | None \<Rightarrow> ip ! 0 div 2 = 126)"

definition is_loopback :: "nat list \<Rightarrow> bool" where
  "is_loopback ip \<longleftrightarrow> (case to4 ip of Some v4 \<Rightarrow> v4 ! 0 = 127 | None \<Rightarrow> ip = replicate 15 0 @ [1])"

definition is_link_local_unicast :: "nat list \<Rightarrow> bool" where
  "is_link_local_unicast ip \<longleftrightarrow> (case to4 ip of
     Some v4 \<Rightarrow> v4 ! 0 = 169 \<and> v4 ! 1 = 254 | None \<Rightarrow> ip ! 0 = 254 \<and> ip ! 1 div 64 = 2)"

definition is_link_local_multicast :: "nat list \<Rightarrow> bool" where
  "is_link_local_multicast ip \<longleftrightarrow> (case to4 ip of
     Some v4 \<Rightarrow> v4 ! 0 = 224 \<and> v4 ! 1 = 0 \<and> v4 ! 2 = 0 | None \<Rightarrow> ip ! 0 = 255 \<and> ip ! 1 mod 16 = 2)"

section \<open>The addresses of a status\<close>

type_synonym status_address = "string option \<times> string"

definition gatewayStatusAddressRankPublicIP :: nat where
  "gatewayStatusAddressRankPublicIP = 0"

definition gatewayStatusAddressRankNonPublicIP :: nat where
  "gatewayStatusAddressRankNonPublicIP = 1"

definition gatewayStatusAddressRankOther :: nat where
  "gatewayStatusAddressRankOther = 2"

definition gatewayStatusAddressRank :: "status_address \<Rightarrow> nat" where
  "gatewayStatusAddressRank address =
     (if fst address \<noteq> Some ''IPAddress'' then gatewayStatusAddressRankOther
      else case parse_ip (snd address) of
          None \<Rightarrow> gatewayStatusAddressRankOther
        | Some ip \<Rightarrow>
            (if is_private ip \<or> is_loopback ip \<or> is_link_local_unicast ip \<or> is_link_local_multicast ip
             then gatewayStatusAddressRankNonPublicIP else gatewayStatusAddressRankPublicIP))"

definition addressBefore :: "status_address \<Rightarrow> status_address \<Rightarrow> bool" where
  "addressBefore left right =
     (if gatewayStatusAddressRank left \<noteq> gatewayStatusAddressRank right
      then gatewayStatusAddressRank left < gatewayStatusAddressRank right else snd left < snd right)"

definition sortGatewayStatusAddresses :: "status_address list \<Rightarrow> status_address list" where
  "sortGatewayStatusAddresses addresses = sort_by addressBefore addresses"

definition gatewayStatusAddressesFromValues :: "nat list \<Rightarrow> string list \<Rightarrow> status_address list" where
  "gatewayStatusAddressesFromValues order values =
     (let addressesByValue = slice_to_map id (\<lambda>v. (Some ''IPAddress'', v)) [] (filter (\<lambda>v. v \<noteq> []) values)
      in sortGatewayStatusAddresses (map snd (map_iter order addressesByValue)))"

definition gatewayStatusAddressesFromLoadBalancer :: "nat list \<Rightarrow> load_balancer option \<Rightarrow> status_address list" where
  "gatewayStatusAddressesFromLoadBalancer order lb =
     (case lb of
        None \<Rightarrow> []
      | Some l \<Rightarrow> gatewayStatusAddressesFromValues order (filter (\<lambda>v. v \<noteq> []) (List.map_filter id (lb_ip_addresses l))))"

section \<open>The order of the addresses\<close>

definition typedAddresses :: "status_address list \<Rightarrow> bool" where
  "typedAddresses as \<longleftrightarrow> (\<forall>a\<in>set as. fst a = Some ''IPAddress'')"

interpretation address_order: strict_order addressBefore typedAddresses
proof
  fix as and x y :: status_address
  assume "typedAddresses as" "x \<in> set as" "y \<in> set as" "x \<noteq> y"
  then have "snd x \<noteq> snd y" by (metis prod_eqI typedAddresses_def)
  then show "addressBefore x y \<or> addressBefore y x" by (auto simp: addressBefore_def)
qed (auto simp: addressBefore_def split: if_splits)

lemma values_map_entries:
  "(k, v) \<in> set (slice_to_map id (\<lambda>v. (Some ''IPAddress'', v)) [] vs) \<longleftrightarrow> k \<in> set vs \<and> v = (Some ''IPAddress'', k)"
proof -
  let ?m = "slice_to_map id (\<lambda>v. (Some ''IPAddress'', v)) [] vs"
  have "distinct (map fst ?m)" by (simp add: distinct_slice_to_map)
  then have "(k, v) \<in> set ?m \<longleftrightarrow> map_of ?m k = Some v" by simp
  also have "\<dots> \<longleftrightarrow> k \<in> set vs \<and> v = (Some ''IPAddress'', k)"
    by (auto simp: map_of_slice_to_map find_None_ball dest: find_SomeD split: option.splits)
  finally show ?thesis .
qed

text \<open>
  The addresses are the non-empty values of the load balancer, each once, sorted by rank and
  value: the same list for every order in which the map is visited.
\<close>

theorem status_addresses_sorted:
  "set (gatewayStatusAddressesFromValues order values) = Pair (Some ''IPAddress'') ` (set values - {[]}) \<and>
    distinct (gatewayStatusAddressesFromValues order values) \<and>
    sorted_wrt (\<lambda>a b. \<not> addressBefore b a) (gatewayStatusAddressesFromValues order values) \<and>
    gatewayStatusAddressesFromValues order values = gatewayStatusAddressesFromValues [] values"
proof -
  let ?m = "slice_to_map id (\<lambda>v. (Some ''IPAddress'', v)) [] (filter (\<lambda>v. v \<noteq> []) values)"
  have keys: "distinct (map fst ?m)" by (simp add: distinct_slice_to_map)
  have ent: "e \<in> set ?m \<longleftrightarrow> fst e \<in> set values - {[]} \<and> snd e = (Some ''IPAddress'', fst e)" for e
    using values_map_entries [of "fst e" "snd e" "filter (\<lambda>v. v \<noteq> []) values"] by simp
  have set_m: "snd ` set ?m = Pair (Some ''IPAddress'') ` (set values - {[]})"
    using ent by (auto simp: image_iff; metis fst_conv snd_conv)
  have "inj_on snd (set ?m)" using ent by (intro inj_onI) (metis prod.inject prod_eqI)
  then have dist: "distinct (map snd ?m)" using keys by (simp add: distinct_map)
  have typed: "typedAddresses (map snd (map_iter order ?m))" "typedAddresses (map snd ?m)"
    using ent by (auto simp: typedAddresses_def simp del: slice_to_map.simps)
  have same: "gatewayStatusAddressesFromValues order values = gatewayStatusAddressesFromValues [] values"
    unfolding gatewayStatusAddressesFromValues_def sortGatewayStatusAddresses_def Let_def
    using typed by (intro address_order.sort_by_perm_eq) simp_all
  show ?thesis
    unfolding same using set_m dist address_order.sort_by_sorted [OF typed(2)]
    by (simp add: gatewayStatusAddressesFromValues_def sortGatewayStatusAddresses_def)
qed

section \<open>Dotted addresses\<close>

lemma hd_nat_to_string: "0 < n \<Longrightarrow> hd (nat_to_string n) \<noteq> CHR ''0''"
proof (induction n rule: nat_to_string.induct)
  case (1 n)
  show ?case
  proof (cases "n < 10")
    case True
    then have "digit_value (digit_char n) = n" by simp
    moreover have "digit_value (CHR ''0'') = 0" by (simp add: digit_value_def)
    ultimately have "digit_char n \<noteq> CHR ''0''" using 1(2) by (metis less_numeral_extra(3))
    then show ?thesis using True by (simp add: nat_to_string.simps [of n])
  next
    case False
    then show ?thesis using 1 by (simp add: nat_to_string.simps [of n] hd_append)
  qed
qed

lemma ipv4_field_nat:
  assumes "n < 256"
  shows "ipv4_field (nat_to_string n) = Some n"
proof -
  have "length (nat_to_string 0) = 1" by (simp add: nat_to_string.simps)
  then have "\<not> (1 < length (nat_to_string n) \<and> hd (nat_to_string n) = CHR ''0'')"
    using hd_nat_to_string [of n] by (cases "n = 0") auto
  then show ?thesis
    using assms by (simp add: ipv4_field_def nat_to_string_all_digits string_to_nat_inverse)
qed

lemma find_first: "\<forall>c\<in>set xs. \<not> P c \<Longrightarrow> P d \<Longrightarrow> find P (xs @ d # ys) = Some d"
  by (induction xs) auto

text \<open>An IPv4 address written in dotted decimals is read back.\<close>

theorem parse_ipv4_roundtrip:
  assumes "length ip = 4" "\<forall>b\<in>set ip. b < 256"
  shows "parse_ip (str_join ''.'' (map nat_to_string ip)) = Some ip"
proof -
  let ?fields = "map nat_to_string ip"
  have digits: "\<forall>f\<in>set ?fields. \<forall>c\<in>set f. is_digit c" using nat_to_string_digits by auto
  moreover have "\<not> is_digit (CHR ''.'')" by (simp add: is_digit_def)
  ultimately have split: "str_split (CHR ''.'') (str_join ''.'' ?fields) = ?fields"
    using assms(1) by (intro str_split_join) auto
  have fields: "map ipv4_field ?fields = map Some ip" using assms(2) ipv4_field_nat by simp
  have v4: "parse_ipv4 (str_join ''.'' ?fields) = Some ip"
    using assms(1) by (simp add: parse_ipv4_def split fields list_all_iff del: map_map) (simp add: comp_def)
  obtain a b r where ip: "ip = a # b # r" using assms(1) by (cases ip; cases "tl ip") auto
  let ?stop = "\<lambda>c. c \<in> {CHR ''.'', CHR '':'', CHR ''%''}"
  have "\<forall>c\<in>set (nat_to_string a). \<not> ?stop c"
  proof (intro ballI notI)
    fix c assume "c \<in> set (nat_to_string a)" and stop: "?stop c"
    then have "is_digit c" by (intro nat_to_string_digits)
    with stop show False by (auto simp: is_digit_def)
  qed
  then have "find ?stop (nat_to_string a @ CHR ''.'' # x) = Some (CHR ''.'')" for x by (rule find_first) simp
  moreover have "str_join ''.'' ?fields = nat_to_string a @ CHR ''.'' # str_join ''.'' (map nat_to_string (b # r))"
    unfolding ip by simp
  ultimately have "find ?stop (str_join ''.'' ?fields) = Some (CHR ''.'')" by metis
  then show ?thesis using v4 by (simp add: parse_ip_def)
qed

theorem parse_ipv4_roundtrip_witness: "parse_ip (str_join ''.'' (map nat_to_string [10, 0, 200, 7])) = Some [10, 0, 200, 7]"
  by (rule parse_ipv4_roundtrip) simp_all

end
