(* ===== verification/GatewayResolution.thy ===== *)
theory GatewayResolution
  imports Certificates ReferenceGrants ListenerSets
begin

text \<open>
  What the controller resolves for a Gateway before programming it (\<open>gateway_model.go\<close>): its
  class, its load balancer, the ListenerSets attached to it, the secrets of its listeners and
  the objects of frontend mTLS. A receiver that the code fills in place is a result here; after
  an error only its Gateway is used. Shown: a secret of another namespace is read for a
  ListenerSet only with a ReferenceGrant; a broken ListenerSet does not stop the Gateway; a
  Gateway of another controller is left alone.
\<close>

section \<open>Configuration\<close>

definition loadBalancerGatewayProgrammedFinalizer :: string where
  "loadBalancerGatewayProgrammedFinalizer = ''oke-gateway-api.gemyago.github.io/alb-gateway-programmed''"

definition loadBalancerGatewayIDAnnotation :: string where
  "loadBalancerGatewayIDAnnotation = ''oke-gateway-api.gemyago.github.io/alb-id''"

definition loadBalancerGatewayCanFinalizeWithoutConfig :: "gateway \<Rightarrow> bool" where
  "loadBalancerGatewayCanFinalizeWithoutConfig gateway \<longleftrightarrow>
     gw_deleting gateway \<and> loadBalancerGatewayProgrammedFinalizer \<in> set (gw_finalizers gateway) \<and>
     map_get (gw_annotations gateway) loadBalancerGatewayIDAnnotation \<noteq> []"

definition invalidParameters :: "string \<Rightarrow> error" where
  "invalidParameters message = ErrResourceStatus ''Accepted'' ''InvalidParameters'' message None"

text \<open>The load balancer of the Gateway; the code returns false only together with an error.\<close>

definition resolveGatewayConfig :: "lb_env \<Rightarrow> gateway \<Rightarrow> string lb_op" where
  "resolveGatewayConfig w gateway =
     (case gw_parameters gateway of
        None \<Rightarrow>
          (if loadBalancerGatewayCanFinalizeWithoutConfig gateway
           then eff_return (map_get (gw_annotations gateway) loadBalancerGatewayIDAnnotation)
           else eff_fail (invalidParameters ''spec.infrastructure is missing parametersRef''))
      | Some configName \<Rightarrow>
          eff_bind (get_gateway_config w (gw_namespace gateway) configName) (\<lambda>r. case r of
              Inr loadBalancerID \<Rightarrow> eff_return loadBalancerID
            | Inl err \<Rightarrow>
                (if is_not_found err then
                   (if loadBalancerGatewayCanFinalizeWithoutConfig gateway
                    then eff_return (map_get (gw_annotations gateway) loadBalancerGatewayIDAnnotation)
                    else eff_fail (invalidParameters
                      ''spec.infrastructure is pointing to a non-existent GatewayConfig''))
                 else eff_fail (ErrWrap (errtext ''failed to get GatewayConfig ''
                   (namespaced_name (gw_namespace gateway) configName) '': '') err []))))"

section \<open>ListenerSets\<close>

fun filterAttachedListenerSets :: "lb_env \<Rightarrow> gateway \<Rightarrow> listener_set list \<Rightarrow> listener_set list lb_op" where
  "filterAttachedListenerSets w gateway [] = eff_return []"
| "filterAttachedListenerSets w gateway (listenerSet # rest) =
     (if listenerSetParentGatewayName listenerSet \<noteq> Some (namespaced_name (gw_namespace gateway) (gw_name gateway))
      then filterAttachedListenerSets w gateway rest
      else eff_bind (get_namespace w (ls_namespace listenerSet)) (\<lambda>r. case r of
          Inl err \<Rightarrow>
            (if is_not_found err then filterAttachedListenerSets w gateway rest
             else eff_fail (ErrWrap (errtext ''failed to get ListenerSet namespace '' (ls_namespace listenerSet) '': '') err []))
        | Inr labels \<Rightarrow>
            eff_bind (filterAttachedListenerSets w gateway rest) (\<lambda>attached.
              eff_return (if listenerSetAllowedByGateway w gateway listenerSet labels
                then listenerSet # attached else attached))))"

definition withListenerSets :: "listener_set list \<Rightarrow> resolved_gateway_details \<Rightarrow> resolved_gateway_details" where
  "withListenerSets attached receiver = receiver\<lparr>rd_listenerSets := attached,
     rd_effectiveListeners := markUnsupportedListenerSetListeners
       (effectiveListenersForGateway (rd_gateway receiver) attached) (gc_controller (rd_gatewayClass receiver))\<rparr>"

definition populateListenerSets ::
    "lb_env \<Rightarrow> string option \<Rightarrow> resolved_gateway_details \<Rightarrow> resolved_gateway_details lb_op" where
  "populateListenerSets w indexKey receiver =
     eff_bind (list_listener_sets w indexKey) (\<lambda>r. case r of
         Inl err \<Rightarrow> eff_fail (ErrWrap (errtext ''failed to list ListenerSets for Gateway ''
           (namespaced_name (gw_namespace (rd_gateway receiver)) (gw_name (rd_gateway receiver))) '': '') err [])
       | Inr items \<Rightarrow>
           eff_bind (filterAttachedListenerSets w (rd_gateway receiver) items) (\<lambda>attached.
             eff_return (withListenerSets attached receiver)))"

definition populateAttachedListenerSets :: "lb_env \<Rightarrow> resolved_gateway_details \<Rightarrow> resolved_gateway_details lb_op" where
  "populateAttachedListenerSets w receiver = populateListenerSets w
     (Some (namespaced_name (gw_namespace (rd_gateway receiver)) (gw_name (rd_gateway receiver)))) receiver"

definition populateAttachedListenerSetsUnindexed ::
    "lb_env \<Rightarrow> resolved_gateway_details \<Rightarrow> resolved_gateway_details lb_op" where
  "populateAttachedListenerSetsUnindexed w receiver = populateListenerSets w None receiver"

section \<open>Secrets\<close>

definition populateGatewaySecret :: "lb_env \<Rightarrow> k8s_secret go_map \<Rightarrow> string \<Rightarrow> string \<Rightarrow> k8s_secret go_map lb_op" where
  "populateGatewaySecret w secrets secretNamespace secretName =
     (let fullSecretName = namespaced_name secretNamespace secretName in
      if map_of secrets fullSecretName \<noteq> None then eff_return secrets
      else eff_bind (get_secret w secretNamespace secretName) (\<lambda>r. case r of
          Inr secret \<Rightarrow> eff_return (AList.update fullSecretName secret secrets)
        | Inl err \<Rightarrow>
            (if is_not_found err then
               eff_fail (invalidParameters (errtext ''referenced secret '' fullSecretName '' not found''))
             else eff_fail (ErrWrap (errtext ''failed to get secret '' fullSecretName '': '') err []))))"

definition notPermitted :: "string \<Rightarrow> error" where
  "notPermitted fullName =
     invalidParameters (errtext ''certificateRef '' fullName '' is not permitted by a ReferenceGrant'')"

text \<open>Whether a listener may use a secret: only those of ListenerSets are checked.\<close>

definition certRefPermitted ::
    "lb_env \<Rightarrow> effectiveListenerSourceKind \<Rightarrow> string \<Rightarrow> string \<times> string \<Rightarrow> unit lb_op" where
  "certRefPermitted w sourceKind defaultNamespace fullName =
     (if sourceKind = effectiveListenerSourceListenerSet then
        eff_bind (referenceGrantAllowsSecretRef w (source_kind_text sourceKind) defaultNamespace (fst fullName) (snd fullName))
          (\<lambda>allowed. if allowed then eff_return ()
             else eff_fail (notPermitted (namespaced_name (fst fullName) (snd fullName))))
      else eff_return ())"

text \<open>
  The secrets collected so far stay in the map when a later reference fails, so the loop
  returns the error beside them.
\<close>

fun listenerSecretsLoop ::
    "lb_env \<Rightarrow> effectiveListenerSourceKind \<Rightarrow> string \<Rightarrow> secret_ref list \<Rightarrow> k8s_secret go_map \<Rightarrow>
      (k8s_secret go_map \<times> error option) lb_op" where
  "listenerSecretsLoop w sourceKind ns [] secrets = eff_return (secrets, None)"
| "listenerSecretsLoop w sourceKind ns (certRef # rest) secrets =
     (let fullName = certificateRefNamespacedName ns certRef in
      eff_bind (eff_attempt (eff_bind (certRefPermitted w sourceKind ns fullName)
          (\<lambda>_. populateGatewaySecret w secrets (fst fullName) (snd fullName)))) (\<lambda>r. case r of
          Inl err \<Rightarrow> eff_return (secrets, Some err)
        | Inr secrets1 \<Rightarrow> listenerSecretsLoop w sourceKind ns rest secrets1))"

definition populateGatewayListenerSecrets ::
    "lb_env \<Rightarrow> effectiveListenerSourceKind \<Rightarrow> string \<Rightarrow> gw_listener \<Rightarrow> k8s_secret go_map \<Rightarrow>
      (k8s_secret go_map \<times> error option) lb_op" where
  "populateGatewayListenerSecrets w sourceKind defaultNamespace listener secrets =
     (case l_tls listener of
        None \<Rightarrow> eff_return (secrets, None)
      | Some tls \<Rightarrow> listenerSecretsLoop w sourceKind defaultNamespace (tls_cert_refs tls) secrets)"

definition markListenerSetSecretError :: "lb_env \<Rightarrow> effective_listener \<Rightarrow> error \<Rightarrow> effective_listener option" where
  "markListenerSetSecretError w listener err =
     (if ef_sourceKind listener \<noteq> effectiveListenerSourceListenerSet then None
      else Some (listener\<lparr>ef_unsupported := True,
        ef_unsupportedReason := (case errors_as status_of err of
            Some (_, reason, message) \<Rightarrow>
              (if reason = ''InvalidParameters'' \<and> str_contains message ''not permitted'' then ''RefNotPermitted''
               else ''InvalidCertificateRef'')
          | None \<Rightarrow> ''InvalidCertificateRef''),
        ef_unsupportedMessage := error_text (env_svc_text w) err\<rparr>))"

fun specSecretsLoop ::
    "lb_env \<Rightarrow> gateway \<Rightarrow> gw_listener list \<Rightarrow> k8s_secret go_map \<Rightarrow> k8s_secret go_map lb_op" where
  "specSecretsLoop w gateway [] secrets = eff_return secrets"
| "specSecretsLoop w gateway (listener # rest) secrets =
     (if listenerOCICertificateOCID listener \<noteq> [] then specSecretsLoop w gateway rest secrets
      else eff_bind (populateGatewayListenerSecrets w effectiveListenerSourceGateway (gw_namespace gateway) listener secrets)
        (\<lambda>(secrets1, failure). case failure of
            Some err \<Rightarrow> eff_fail err
          | None \<Rightarrow> specSecretsLoop w gateway rest secrets1))"

text \<open>The loop over the effective listeners keeps going past a ListenerSet's listener that it marks.\<close>

fun effectiveSecretsLoop ::
    "lb_env \<Rightarrow> effective_listener list \<Rightarrow> k8s_secret go_map \<Rightarrow> (effective_listener list \<times> k8s_secret go_map) lb_op" where
  "effectiveSecretsLoop w [] secrets = eff_return ([], secrets)"
| "effectiveSecretsLoop w (listener # rest) secrets =
     (if ef_conflicted listener \<or> ef_unsupported listener \<or> listenerOCICertificateOCID (ef_listener listener) \<noteq> [] then
        eff_bind (effectiveSecretsLoop w rest secrets) (\<lambda>(ls, s). eff_return (listener # ls, s))
      else eff_bind (populateGatewayListenerSecrets w (ef_sourceKind listener) (ef_sourceNamespace listener)
          (ef_listener listener) secrets) (\<lambda>(secrets1, failure). case failure of
          None \<Rightarrow> eff_bind (effectiveSecretsLoop w rest secrets1) (\<lambda>(ls, s). eff_return (listener # ls, s))
        | Some err \<Rightarrow>
            (case markListenerSetSecretError w listener err of
               None \<Rightarrow> eff_fail err
             | Some marked \<Rightarrow>
                 eff_bind (effectiveSecretsLoop w rest secrets1) (\<lambda>(ls, s). eff_return (marked # ls, s)))))"

definition populateGatewaySecrets :: "lb_env \<Rightarrow> resolved_gateway_details \<Rightarrow> resolved_gateway_details lb_op" where
  "populateGatewaySecrets w receiver =
     (if rd_effectiveListeners receiver = [] then
        eff_bind (specSecretsLoop w (rd_gateway receiver) (gw_listeners (rd_gateway receiver)) []) (\<lambda>secrets.
          eff_return (receiver\<lparr>rd_gatewaySecrets := secrets\<rparr>))
      else eff_bind (effectiveSecretsLoop w (rd_effectiveListeners receiver) []) (\<lambda>(listeners, secrets).
          eff_return (receiver\<lparr>rd_gatewaySecrets := secrets, rd_effectiveListeners := listeners\<rparr>)))"

section \<open>Dependencies of frontend mTLS\<close>

definition validationRefs :: "gateway \<Rightarrow> frontend_validation option \<Rightarrow> (string \<times> string) list" where
  "validationRefs gateway validation =
     (case validation of
        None \<Rightarrow> []
      | Some v \<Rightarrow> map (\<lambda>ref. (case or_namespace ref of Some n \<Rightarrow> n | None \<Rightarrow> gw_namespace gateway, or_name ref))
          (filter (\<lambda>ref. or_group ref = [] \<and> or_kind ref = ''ConfigMap'') (fv_ca_refs v)))"

text \<open>The keys of a map are visited in some order and then sorted by their text.\<close>

definition frontendMTLSConfigMapRefs :: "nat list \<Rightarrow> gateway \<Rightarrow> (string \<times> string) list" where
  "frontendMTLSConfigMapRefs order gateway =
     (case gw_frontend gateway of
        None \<Rightarrow> []
      | Some frontend \<Rightarrow>
          sort_by (\<lambda>a b. namespaced_name (fst a) (snd a) < namespaced_name (fst b) (snd b))
            (map_iter order (remdups (concat (map (validationRefs gateway)
              (ft_default frontend # map snd (ft_per_port frontend)))))))"

definition frontendMTLSReferenceGrantsAlreadyListed :: "gateway \<Rightarrow> string \<Rightarrow> string list \<Rightarrow> bool" where
  "frontendMTLSReferenceGrantsAlreadyListed gateway namespace listedGrantNamespaces \<longleftrightarrow>
     namespace = gw_namespace gateway \<or> namespace \<in> set listedGrantNamespaces"

definition populateGatewayFrontendMTLSConfigMapDependency ::
    "lb_env \<Rightarrow> string \<times> string \<Rightarrow> config_map go_map \<Rightarrow> config_map go_map lb_op" where
  "populateGatewayFrontendMTLSConfigMapDependency w = (\<lambda>(ns, name) configMaps.
     eff_bind (get_config_map w ns name) (\<lambda>r. case r of
         Inr configMap \<Rightarrow> eff_return (AList.update (namespaced_name ns name) configMap configMaps)
       | Inl err \<Rightarrow>
           (if is_not_found err then eff_return configMaps
            else eff_fail (ErrWrap (errtext ''failed to get frontend mTLS ConfigMap '' (namespaced_name ns name) '': '') err []))))"

definition addGatewayFrontendMTLSReferenceGrantDependency ::
    "gateway \<Rightarrow> (string \<times> string) list \<Rightarrow> reference_grant \<Rightarrow> reference_grant go_map \<Rightarrow> reference_grant go_map" where
  "addGatewayFrontendMTLSReferenceGrantDependency gateway refs grant grants =
     (if \<not> referenceGrantHasMatchingFrom grant ''Gateway'' (gw_namespace gateway) then grants
      else if list_ex (\<lambda>(ns, name). ns = rg_namespace grant \<and> referenceGrantHasMatchingCoreTo grant ''ConfigMap'' name) refs
        then AList.update (namespaced_name (rg_namespace grant) (rg_name grant)) grant grants
      else grants)"

definition populateGatewayFrontendMTLSReferenceGrantDependencies ::
    "lb_env \<Rightarrow> gateway \<Rightarrow> (string \<times> string) list \<Rightarrow> string \<Rightarrow> reference_grant go_map \<Rightarrow> reference_grant go_map lb_op" where
  "populateGatewayFrontendMTLSReferenceGrantDependencies w gateway refs namespace grants =
     eff_bind (list_grants w namespace) (\<lambda>r. case r of
         Inl err \<Rightarrow> eff_fail (ErrWrap (errtext ''failed to list frontend mTLS ReferenceGrants in namespace ''
           namespace '': '') err [])
       | Inr items \<Rightarrow> eff_return (foldl (\<lambda>gs g. addGatewayFrontendMTLSReferenceGrantDependency gateway refs g gs) grants items))"

fun frontendMTLSDependenciesLoop ::
    "lb_env \<Rightarrow> gateway \<Rightarrow> (string \<times> string) list \<Rightarrow> (string \<times> string) list \<Rightarrow> string list \<Rightarrow>
      config_map go_map \<Rightarrow> reference_grant go_map \<Rightarrow> (config_map go_map \<times> reference_grant go_map) lb_op" where
  "frontendMTLSDependenciesLoop w gateway refs [] listed configMaps grants = eff_return (configMaps, grants)"
| "frontendMTLSDependenciesLoop w gateway refs (fullName # rest) listed configMaps grants =
     eff_bind (populateGatewayFrontendMTLSConfigMapDependency w fullName configMaps) (\<lambda>configMaps1.
       if frontendMTLSReferenceGrantsAlreadyListed gateway (fst fullName) listed
       then frontendMTLSDependenciesLoop w gateway refs rest listed configMaps1 grants
       else eff_bind (populateGatewayFrontendMTLSReferenceGrantDependencies w gateway refs (fst fullName) grants) (\<lambda>grants1.
         frontendMTLSDependenciesLoop w gateway refs rest (fst fullName # listed) configMaps1 grants1))"

definition populateGatewayFrontendMTLSDependencies ::
    "lb_env \<Rightarrow> resolved_gateway_details \<Rightarrow> resolved_gateway_details lb_op" where
  "populateGatewayFrontendMTLSDependencies w receiver =
     eff_bind (eff_ask (env_order w)) (\<lambda>order.
       (let refs = frontendMTLSConfigMapRefs order (rd_gateway receiver)
        in eff_bind (frontendMTLSDependenciesLoop w (rd_gateway receiver) refs refs [] [] []) (\<lambda>(configMaps, grants).
             eff_return (receiver\<lparr>rd_frontendMTLSConfigMaps := configMaps,
               rd_frontendMTLSReferenceGrants := grants\<rparr>))))"

section \<open>Resolving a request\<close>

text \<open>The part after the configuration is known.\<close>

definition resolveGatewayDependencies :: "lb_env \<Rightarrow> bool \<Rightarrow> resolved_gateway_details \<Rightarrow> resolved_gateway_details lb_op" where
  "resolveGatewayDependencies w listenerSetEnabled receiver =
     eff_bind (if listenerSetEnabled then populateAttachedListenerSets w receiver else eff_return receiver) (\<lambda>receiver1.
       (let gateway = rd_gateway receiver1 in
        if gw_deleting gateway \<and> loadBalancerGatewayProgrammedFinalizer \<in> set (gw_finalizers gateway)
        then eff_return receiver1
        else case validateGatewayCertificateOptions gateway of
            Some err \<Rightarrow> eff_fail err
          | None \<Rightarrow>
              eff_bind (populateGatewaySecrets w receiver1) (populateGatewayFrontendMTLSDependencies w)))"

text \<open>
  What a request comes to: a Gateway of this controller with all it refers to, a Gateway that is
  none of its business, or an error with the Gateway as far as it is known.
\<close>

datatype resolution = Relevant resolved_gateway_details | Irrelevant | Unresolved gateway error

definition zeroGateway :: gateway where
  "zeroGateway = \<lparr>gw_namespace = [], gw_name = [], gw_uid = [], gw_creation = None, gw_generation = 0, gw_deleting = False,
     gw_finalizers = [], gw_annotations = [], gw_class_name = [], gw_parameters = None, gw_listeners = [],
     gw_allowed_listeners = None, gw_frontend = None, gw_conditions = [], gw_addresses = [],
     gw_attached_listener_sets = None\<rparr>"

definition resolvedGateway :: "gateway \<Rightarrow> gateway_class \<Rightarrow> string \<Rightarrow> resolved_gateway_details" where
  "resolvedGateway gateway class loadBalancerID = \<lparr>rd_gateway = gateway, rd_gatewayClass = class, rd_listenerSets = [],
     rd_gatewaySecrets = [], rd_frontendMTLSConfigMaps = [], rd_frontendMTLSReferenceGrants = [],
     rd_loadBalancerID = loadBalancerID, rd_loadBalancer = None, rd_effectiveListeners = []\<rparr>"

definition resolveReconcileRequest :: "lb_env \<Rightarrow> bool \<Rightarrow> string \<times> string \<Rightarrow> resolution lb_op" where
  "resolveReconcileRequest w listenerSetEnabled = (\<lambda>(ns, name).
     eff_bind (get_gateway w ns name) (\<lambda>r. case r of
         Inl err \<Rightarrow>
           eff_return (if is_not_found err then Irrelevant
             else Unresolved zeroGateway (ErrWrap (errtext ''failed to get Gateway '' (namespaced_name ns name) '': '') err []))
       | Inr gateway \<Rightarrow>
           eff_bind (get_gateway_class w (gw_class_name gateway)) (\<lambda>r. case r of
               Inl err \<Rightarrow>
                 eff_return (if is_not_found err then Irrelevant
                   else Unresolved gateway (ErrWrap (errtext ''failed to get GatewayClass '' (gw_class_name gateway) '': '') err []))
             | Inr class \<Rightarrow>
                 (if gc_controller class \<noteq> ControllerClassName then eff_return Irrelevant
                  else eff_bind (eff_attempt (eff_bind (resolveGatewayConfig w gateway) (\<lambda>loadBalancerID.
                      resolveGatewayDependencies w listenerSetEnabled (resolvedGateway gateway class loadBalancerID))))
                    (\<lambda>r. eff_return (case r of Inl err \<Rightarrow> Unresolved gateway err | Inr details \<Rightarrow> Relevant details))))))"

section \<open>Which secrets are collected\<close>

abbreviation fullSecretName :: "string \<Rightarrow> secret_ref \<Rightarrow> string" where
  "fullSecretName ns ref \<equiv>
     namespaced_name (fst (certificateRefNamespacedName ns ref)) (snd (certificateRefNamespacedName ns ref))"

text \<open>What the rules of the Gateway API ask of a ListenerSet's reference to a secret.\<close>

definition secretPermitted :: "lb_env \<Rightarrow> effectiveListenerSourceKind \<Rightarrow> string \<Rightarrow> string \<times> string \<Rightarrow> bool" where
  "secretPermitted w kind ns fullName \<longleftrightarrow>
     kind = effectiveListenerSourceGateway \<or> fst fullName = ns \<or>
     (\<exists>h grants. env_grants w h (fst fullName) = Inr grants \<and>
       (\<exists>g\<in>set grants. grantPermits g ''ListenerSet'' ns ''Secret'' (snd fullName)))"

lemma yields_permitted:
  "certRefPermitted w kind ns fullName h = (Inr u, h') \<Longrightarrow> secretPermitted w kind ns fullName"
  using allowsSecretRef_iff [of w "source_kind_text kind" ns "fst fullName" "snd fullName" h]
  by (cases kind) (auto simp: certRefPermitted_def secretPermitted_def source_kind_text_def eff_simps
      elim!: eff_bind_InrE split: if_splits)

lemma yields_secret:
  "yields (\<lambda>s'. map_of s' (namespaced_name ns n) \<noteq> None \<and>
    (\<forall>k. k \<noteq> namespaced_name ns n \<longrightarrow> map_of s' k = map_of s k) \<and> (\<forall>k v. map_of s k = Some v \<longrightarrow> map_of s' k = Some v))
    (populateGatewaySecret w s ns n)"
  unfolding yields_def
  by (auto simp: populateGatewaySecret_def Let_def eff_bind_Inr [OF k8s_run(1)] eff_simps update_conv'
      split: if_splits sum.splits)

definition permittedKey :: "lb_env \<Rightarrow> effectiveListenerSourceKind \<Rightarrow> string \<Rightarrow> secret_ref list \<Rightarrow> string \<Rightarrow> bool" where
  "permittedKey w kind ns refs k \<longleftrightarrow>
     (\<exists>ref\<in>set refs. k = fullSecretName ns ref \<and> secretPermitted w kind ns (certificateRefNamespacedName ns ref))"

lemma permittedKey_Cons [simp]: "permittedKey w kind ns (ref # refs) k \<longleftrightarrow>
    k = fullSecretName ns ref \<and> secretPermitted w kind ns (certificateRefNamespacedName ns ref) \<or>
    permittedKey w kind ns refs k"
  by (auto simp: permittedKey_def)

definition secretsCollected ::
    "lb_env \<Rightarrow> effectiveListenerSourceKind \<Rightarrow> string \<Rightarrow> secret_ref list \<Rightarrow> k8s_secret go_map \<Rightarrow>
      k8s_secret go_map \<times> error option \<Rightarrow> bool" where
  "secretsCollected w kind ns refs s = (\<lambda>(s', failure).
     (\<forall>k v. map_of s k = Some v \<longrightarrow> map_of s' k = Some v) \<and>
     (failure = None \<longrightarrow> (\<forall>ref\<in>set refs. map_of s' (fullSecretName ns ref) \<noteq> None)) \<and>
     (\<forall>k. map_of s' k \<noteq> None \<longrightarrow> map_of s k \<noteq> None \<or> permittedKey w kind ns refs k))"

lemma yields_listenerSecrets: "yields (secretsCollected w kind ns refs s) (listenerSecretsLoop w kind ns refs s)"
proof (induction refs arbitrary: s)
  case Nil
  then show ?case by (auto simp: secretsCollected_def intro: yields_return)
next
  case (Cons ref refs)
  let ?n = "certificateRefNamespacedName ns ref"
  show ?case unfolding yields_def
  proof (intro allI impI)
    fix h x h'
    assume run: "listenerSecretsLoop w kind ns (ref # refs) s h = (Inr x, h')"
    let ?one = "eff_bind (certRefPermitted w kind ns ?n) (\<lambda>_. populateGatewaySecret w s (fst ?n) (snd ?n))"
    show "secretsCollected w kind ns (ref # refs) s x"
    proof (cases "fst (?one h)")
      case (Inl err)
      with run show ?thesis by (auto simp: Let_def eff_bind_attempt eff_return_def secretsCollected_def)
    next
      case (Inr s1)
      have one: "?one h = (Inr s1, snd (?one h))" using Inr by (metis prod.collapse)
      then have rest: "listenerSecretsLoop w kind ns refs s1 (snd (?one h)) = (Inr x, h')"
        using run Inr by (simp add: Let_def eff_bind_attempt)
      obtain h1 u where "certRefPermitted w kind ns ?n h = (Inr u, h1)" "populateGatewaySecret w s (fst ?n) (snd ?n) h1 = (Inr s1, snd (?one h))"
        using one by (elim eff_bind_InrE)
      with yields_permitted yieldsD [OF yields_secret] have "secretPermitted w kind ns ?n"
        "map_of s1 (fullSecretName ns ref) \<noteq> None" "\<forall>k. k \<noteq> fullSecretName ns ref \<longrightarrow> map_of s1 k = map_of s k"
        "\<forall>k v. map_of s k = Some v \<longrightarrow> map_of s1 k = Some v" by fast+
      moreover have "secretsCollected w kind ns refs s1 x" using yieldsD [OF Cons.IH rest] .
      ultimately show ?thesis unfolding secretsCollected_def
        by (cases x) (auto; metis not_None_eq)
    qed
  qed
qed

definition listenerRefs :: "gw_listener \<Rightarrow> secret_ref list" where
  "listenerRefs listener = (case l_tls listener of None \<Rightarrow> [] | Some tls \<Rightarrow> tls_cert_refs tls)"

lemma yields_populateListener:
  "yields (secretsCollected w kind ns (listenerRefs l) s) (populateGatewayListenerSecrets w kind ns l s)"
proof (cases "l_tls l")
  case None
  then show ?thesis
    by (auto simp: populateGatewayListenerSecrets_def listenerRefs_def secretsCollected_def intro!: yields_return)
qed (simp add: populateGatewayListenerSecrets_def listenerRefs_def yields_listenerSecrets)

abbreviation skippedListener :: "effective_listener \<Rightarrow> bool" where
  "skippedListener l \<equiv> ef_conflicted l \<or> ef_unsupported l \<or> listenerOCICertificateOCID (ef_listener l) \<noteq> []"

abbreviation effectiveRefs :: "effective_listener \<Rightarrow> secret_ref list" where
  "effectiveRefs l \<equiv> listenerRefs (ef_listener l)"

definition effectiveCollected ::
    "lb_env \<Rightarrow> effective_listener list \<Rightarrow> k8s_secret go_map \<Rightarrow> effective_listener list \<times> k8s_secret go_map \<Rightarrow> bool" where
  "effectiveCollected w listeners s = (\<lambda>(ls, s').
     map ef_listener ls = map ef_listener listeners \<and>
     (\<forall>k v. map_of s k = Some v \<longrightarrow> map_of s' k = Some v) \<and>
     (\<forall>l\<in>set ls. \<not> skippedListener l \<longrightarrow>
       (\<forall>ref\<in>set (effectiveRefs l). map_of s' (fullSecretName (ef_sourceNamespace l) ref) \<noteq> None)) \<and>
     (\<forall>k. map_of s' k \<noteq> None \<longrightarrow> map_of s k \<noteq> None \<or>
       (\<exists>l\<in>set listeners. permittedKey w (ef_sourceKind l) (ef_sourceNamespace l) (effectiveRefs l) k)))"

lemma effectiveCollected_Cons:
  assumes "secretsCollected w (ef_sourceKind l) (ef_sourceNamespace l) (effectiveRefs l) s (s1, failure)"
    and "effectiveCollected w listeners s1 (ls, s')" "ef_listener l' = ef_listener l"
    and "\<not> skippedListener l' \<Longrightarrow> failure = None \<and> l' = l"
  shows "effectiveCollected w (l # listeners) s (l' # ls, s')"
proof -
  from assms(1) have one: "\<And>k v. map_of s k = Some v \<Longrightarrow> map_of s1 k = Some v"
    "failure = None \<Longrightarrow> \<forall>ref\<in>set (effectiveRefs l). map_of s1 (fullSecretName (ef_sourceNamespace l) ref) \<noteq> None"
    "\<And>k. map_of s1 k \<noteq> None \<Longrightarrow> map_of s k \<noteq> None \<or>
      permittedKey w (ef_sourceKind l) (ef_sourceNamespace l) (effectiveRefs l) k"
    unfolding secretsCollected_def by blast+
  from assms(2) have rest: "map ef_listener ls = map ef_listener listeners"
    "\<And>k v. map_of s1 k = Some v \<Longrightarrow> map_of s' k = Some v"
    "\<And>l. l \<in> set ls \<Longrightarrow> \<not> skippedListener l \<Longrightarrow>
      \<forall>ref\<in>set (effectiveRefs l). map_of s' (fullSecretName (ef_sourceNamespace l) ref) \<noteq> None"
    "\<And>k. map_of s' k \<noteq> None \<Longrightarrow> map_of s1 k \<noteq> None \<or>
      (\<exists>l\<in>set listeners. permittedKey w (ef_sourceKind l) (ef_sourceNamespace l) (effectiveRefs l) k)"
    unfolding effectiveCollected_def by blast+
  have head: "\<forall>ref\<in>set (effectiveRefs l'). map_of s' (fullSecretName (ef_sourceNamespace l') ref) \<noteq> None"
    if "\<not> skippedListener l'"
    using one(2) assms(4) [OF that] rest(2) by (metis not_None_eq)
  show ?thesis unfolding effectiveCollected_def prod.case
  proof (intro conjI allI impI)
    show "map ef_listener (l' # ls) = map ef_listener (l # listeners)" using rest(1) assms(3) by simp
    show "map_of s' k = Some v" if "map_of s k = Some v" for k v using one(1) rest(2) that by blast
    show "\<forall>l\<in>set (l' # ls). \<not> skippedListener l \<longrightarrow>
        (\<forall>ref\<in>set (effectiveRefs l). map_of s' (fullSecretName (ef_sourceNamespace l) ref) \<noteq> None)"
      using head rest(3) by (metis set_ConsD)
    show "map_of s k \<noteq> None \<or>
        (\<exists>l\<in>set (l # listeners). permittedKey w (ef_sourceKind l) (ef_sourceNamespace l) (effectiveRefs l) k)"
      if "map_of s' k \<noteq> None" for k
      using one(3) rest(4) [OF that] by (metis list.set_intros)
  qed
qed

lemma secretsCollected_refl [simp]: "secretsCollected w kind ns refs s (s, Some err)"
  by (simp add: secretsCollected_def)

lemma marked_listener:
  "markListenerSetSecretError w l err = Some l' \<Longrightarrow> ef_listener l' = ef_listener l \<and> ef_unsupported l'"
  by (auto simp: markListenerSetSecretError_def split: if_splits)

lemma yields_effectiveSecrets: "yields (effectiveCollected w listeners s) (effectiveSecretsLoop w listeners s)"
proof (induction listeners arbitrary: s)
  case Nil
  then show ?case by (auto simp: effectiveCollected_def intro!: yields_return)
next
  case (Cons l listeners)
  have tail: "yields (effectiveCollected w (l # listeners) s)
      (eff_bind (effectiveSecretsLoop w listeners s1) (\<lambda>(ls, s'). eff_return (l' # ls, s')))"
    if "secretsCollected w (ef_sourceKind l) (ef_sourceNamespace l) (effectiveRefs l) s (s1, failure)"
      "ef_listener l' = ef_listener l" "\<not> skippedListener l' \<Longrightarrow> failure = None \<and> l' = l" for s1 failure l'
    by (rule yields_bind_post [OF Cons.IH [of s1]])
      (auto intro!: yields_return effectiveCollected_Cons [OF that(1) _ that(2,3)])
  show ?case
  proof (cases "skippedListener l")
    case True
    then show ?thesis using tail [of s "Some ErrCanceled" l] by simp
  next
    case False
    then show ?thesis
      by (auto intro!: yields_bind_post [OF yields_populateListener] tail yields_fail dest: marked_listener
          split: option.split)
  qed
qed

text \<open>
  After the secrets of a Gateway are populated, every listener that will be programmed has all
  the secrets it refers to, and its Gateway's listeners are the same.
\<close>

theorem populateGatewaySecrets_complete:
  assumes "populateGatewaySecrets w receiver h = (Inr receiver', h')" "rd_effectiveListeners receiver \<noteq> []"
    and "l \<in> set (rd_effectiveListeners receiver')" "\<not> skippedListener l" "ref \<in> set (effectiveRefs l)"
  shows "map_of (rd_gatewaySecrets receiver') (fullSecretName (ef_sourceNamespace l) ref) \<noteq> None \<and>
    map ef_listener (rd_effectiveListeners receiver') = map ef_listener (rd_effectiveListeners receiver)"
proof -
  obtain ls s where "effectiveSecretsLoop w (rd_effectiveListeners receiver) [] h = (Inr (ls, s), h')"
    "receiver' = receiver\<lparr>rd_gatewaySecrets := s, rd_effectiveListeners := ls\<rparr>"
    using assms(1,2) by (auto simp: populateGatewaySecrets_def eff_simps elim!: eff_bind_InrE)
  with yieldsD [OF yields_effectiveSecrets] assms(3-5) show ?thesis
    unfolding effectiveCollected_def by fastforce
qed

text \<open>
  Every secret collected is one that some listener refers to; when that listener comes from a
  ListenerSet, the secret is in its namespace or a ReferenceGrant permits it.
\<close>

theorem populateGatewaySecrets_permitted:
  assumes "populateGatewaySecrets w receiver h = (Inr receiver', h')" "rd_effectiveListeners receiver \<noteq> []"
    and "map_of (rd_gatewaySecrets receiver') key \<noteq> None"
  shows "\<exists>l\<in>set (rd_effectiveListeners receiver). \<exists>ref\<in>set (effectiveRefs l).
    key = fullSecretName (ef_sourceNamespace l) ref \<and>
    secretPermitted w (ef_sourceKind l) (ef_sourceNamespace l) (certificateRefNamespacedName (ef_sourceNamespace l) ref)"
proof -
  obtain ls s where "effectiveSecretsLoop w (rd_effectiveListeners receiver) [] h = (Inr (ls, s), h')"
    "receiver' = receiver\<lparr>rd_gatewaySecrets := s, rd_effectiveListeners := ls\<rparr>"
    using assms(1,2) by (auto simp: populateGatewaySecrets_def eff_simps elim!: eff_bind_InrE)
  with yieldsD [OF yields_effectiveSecrets] assms(3) have
    "\<exists>l\<in>set (rd_effectiveListeners receiver). permittedKey w (ef_sourceKind l) (ef_sourceNamespace l) (effectiveRefs l) key"
    unfolding effectiveCollected_def by fastforce
  then show ?thesis unfolding permittedKey_def .
qed

text \<open>Operations that return whatever the services answer.\<close>

definition always_returns :: "('c, 'e, 'a) eff \<Rightarrow> bool" where
  "always_returns m \<longleftrightarrow> (\<forall>h. \<exists>x h'. m h = (Inr x, h'))"

lemma always_returns_basic: "always_returns (eff_return x)" "always_returns (eff_attempt m)"
  by (simp_all add: always_returns_def eff_return_def eff_attempt_run)

lemma always_returns_bind: "always_returns m \<Longrightarrow> (\<And>x. always_returns (f x)) \<Longrightarrow> always_returns (eff_bind m f)"
  unfolding always_returns_def by (metis eff_bind_Inr)

lemma listenerSecrets_return: "always_returns (listenerSecretsLoop w kind ns refs s)"
  by (induction refs arbitrary: s)
    (auto simp: Let_def intro!: always_returns_basic always_returns_bind split: sum.split)

text \<open>A failure can come only from a listener of the Gateway itself: a ListenerSet cannot stop it.\<close>

theorem only_gateway_listeners_fail:
  assumes "\<And>l. l \<in> set (rd_effectiveListeners receiver) \<Longrightarrow>
      ef_sourceKind l = effectiveListenerSourceListenerSet \<or> skippedListener l"
    and "rd_effectiveListeners receiver \<noteq> []"
  shows "\<exists>receiver' h'. populateGatewaySecrets w receiver h = (Inr receiver', h')"
proof -
  have "always_returns (effectiveSecretsLoop w listeners s)"
    if "\<And>l. l \<in> set listeners \<Longrightarrow> ef_sourceKind l = effectiveListenerSourceListenerSet \<or> skippedListener l"
    for listeners s
    using that
  proof (induction listeners arbitrary: s)
    case (Cons l listeners)
    have rest: "always_returns (eff_bind (effectiveSecretsLoop w listeners s') (\<lambda>(ls, s). eff_return (l' # ls, s)))" for s' l'
      using Cons by (auto intro!: always_returns_bind always_returns_basic)
    have "always_returns (populateGatewayListenerSecrets w kind ns listener s')" for kind ns listener s'
      by (auto simp: populateGatewayListenerSecrets_def intro: always_returns_basic listenerSecrets_return split: option.split)
    with Cons.prems [of l] rest show ?case
      by (auto simp: markListenerSetSecretError_def intro!: always_returns_bind split: option.split)
  qed (simp add: always_returns_basic)
  then have "always_returns (populateGatewaySecrets w receiver)"
    using assms by (auto simp: populateGatewaySecrets_def intro!: always_returns_bind always_returns_basic)
  then show ?thesis by (simp add: always_returns_def)
qed

text \<open>A ListenerSet of \<open>team\<close> with a certificate in \<open>certs\<close>, which a ReferenceGrant permits.\<close>

definition crossListener :: gw_listener where
  "crossListener = (plainListener ''tls'' 443 ''HTTPS'')\<lparr>l_tls := Some \<lparr>tls_mode = None,
     tls_cert_refs = [\<lparr>sr_name = ''cert'', sr_namespace = Some ''certs''\<rparr>], tls_options = []\<rparr>\<rparr>"

definition crossEffective :: "effectiveListenerSourceKind \<Rightarrow> effective_listener" where
  "crossEffective kind = \<lparr>ef_listener = crossListener, ef_sourceKind = kind, ef_sourceNamespace = ''team'',
     ef_sourceName = ''set'', ef_ociName = ''tls'', ef_conflicted = False, ef_conflictReason = [], ef_unsupported = False,
     ef_unsupportedReason = [], ef_unsupportedMessage = []\<rparr>"

definition crossReceiver :: "effectiveListenerSourceKind \<Rightarrow> resolved_gateway_details" where
  "crossReceiver kind = (resolvedGateway exampleGateway \<lparr>gc_name = ''oci'', gc_controller = ControllerClassName,
     gc_generation = 1, gc_finalizers = [], gc_annotations = [], gc_conditions = []\<rparr> ''lb'')
     \<lparr>rd_effectiveListeners := [crossEffective kind]\<rparr>"

definition exampleSecret :: k8s_secret where
  "exampleSecret = \<lparr>sec_namespace = ''certs'', sec_name = ''cert'', sec_uid = ''u1'', sec_resource_version = ''7'', sec_data = []\<rparr>"

definition secretEnv :: "reference_grant list \<Rightarrow> lb_env" where
  "secretEnv grants = agreeable_env\<lparr>env_secret := \<lambda>_ _ _. Inr exampleSecret, env_grants := \<lambda>_ _. Inr grants\<rparr>"

definition exampleGrant :: reference_grant where
  "exampleGrant = \<lparr>rg_namespace = ''certs'', rg_name = ''g'', rg_uid = ''u2'', rg_version = ''1'',
     rg_from = [\<lparr>gf_group = gatewayAPIGroup, gf_kind = ''ListenerSet'', gf_namespace = ''team''\<rparr>],
     rg_to = [\<lparr>gt_group = [], gt_kind = ''Secret'', gt_name = None\<rparr>]\<rparr>"

lemma example_run: "case populateGatewaySecrets (secretEnv [exampleGrant]) (crossReceiver effectiveListenerSourceListenerSet) [] of
    (Inr r, h) \<Rightarrow> rd_effectiveListeners r = [crossEffective effectiveListenerSourceListenerSet] \<and>
      map fst (rd_gatewaySecrets r) = [''certs/cert''] \<and> h = [ListReferenceGrants ''certs'', GetSecret ''certs'' ''cert''] | _ \<Rightarrow> False"
  by code_simp

theorem populateGatewaySecrets_complete_witness:
  "\<exists>r h. populateGatewaySecrets (secretEnv [exampleGrant]) (crossReceiver effectiveListenerSourceListenerSet) [] = (Inr r, h) \<and>
    map_of (rd_gatewaySecrets r) ''certs/cert'' \<noteq> None"
proof -
  obtain r h where run: "populateGatewaySecrets (secretEnv [exampleGrant]) (crossReceiver effectiveListenerSourceListenerSet) [] = (Inr r, h)"
    "rd_effectiveListeners r = [crossEffective effectiveListenerSourceListenerSet]"
    using example_run by (auto split: prod.splits sum.splits)
  have "fullSecretName ''team'' \<lparr>sr_name = ''cert'', sr_namespace = Some ''certs''\<rparr> = ''certs/cert''" by code_simp
  moreover have "\<not> skippedListener (crossEffective effectiveListenerSourceListenerSet)" by code_simp
  moreover have "ef_sourceNamespace (crossEffective effectiveListenerSourceListenerSet) = ''team''"
    "\<lparr>sr_name = ''cert'', sr_namespace = Some ''certs''\<rparr> \<in> set (effectiveRefs (crossEffective effectiveListenerSourceListenerSet))"
    "rd_effectiveListeners (crossReceiver effectiveListenerSourceListenerSet) \<noteq> []"
    by (simp_all add: crossEffective_def listenerRefs_def crossListener_def crossReceiver_def)
  ultimately show ?thesis
    using populateGatewaySecrets_complete [OF run(1), of "crossEffective effectiveListenerSourceListenerSet"
        "\<lparr>sr_name = ''cert'', sr_namespace = Some ''certs''\<rparr>"] run by auto
qed

theorem populateGatewaySecrets_permitted_witness:
  "\<exists>l\<in>set [crossEffective effectiveListenerSourceListenerSet]. \<exists>ref\<in>set (effectiveRefs l).
    ''certs/cert'' = fullSecretName (ef_sourceNamespace l) ref \<and> secretPermitted (secretEnv [exampleGrant]) (ef_sourceKind l)
      (ef_sourceNamespace l) (certificateRefNamespacedName (ef_sourceNamespace l) ref)"
proof -
  obtain r h where run: "populateGatewaySecrets (secretEnv [exampleGrant]) (crossReceiver effectiveListenerSourceListenerSet) [] = (Inr r, h)"
    "map fst (rd_gatewaySecrets r) = [''certs/cert'']"
    using example_run by (auto split: prod.splits sum.splits)
  then have "map_of (rd_gatewaySecrets r) ''certs/cert'' \<noteq> None" by (auto simp: map_of_eq_None_iff simp flip: list.set_map)
  from populateGatewaySecrets_permitted [OF run(1) _ this] show ?thesis by (simp add: crossReceiver_def)
qed

theorem only_gateway_listeners_fail_witness:
  "\<exists>r h. populateGatewaySecrets agreeable_env (crossReceiver effectiveListenerSourceListenerSet) [] = (Inr r, h)"
  by (rule only_gateway_listeners_fail) (simp_all add: crossReceiver_def crossEffective_def)

text \<open>
  A listener of the Gateway itself may use a secret of any namespace: no ReferenceGrant is read.
\<close>

theorem gateway_secret_needs_no_grant:
  assumes "env_secret w h secretNamespace secretName = Inr secret" "ref = \<lparr>sr_name = secretName, sr_namespace = Some secretNamespace\<rparr>"
    and "l_tls listener = Some tls" "tls_cert_refs tls = [ref]"
  shows "populateGatewayListenerSecrets w effectiveListenerSourceGateway gatewayNamespace listener [] h =
    (Inr ([(namespaced_name secretNamespace secretName, secret)], None), h @ [GetSecret secretNamespace secretName])"
proof -
  have "populateGatewaySecret w [] secretNamespace secretName h =
      (Inr [(namespaced_name secretNamespace secretName, secret)], h @ [GetSecret secretNamespace secretName])"
    using assms(1) by (simp add: populateGatewaySecret_def Let_def eff_bind_Inr [OF k8s_run(1)] eff_simps)
  then show ?thesis
    using assms(2-4)
    by (simp add: populateGatewayListenerSecrets_def Let_def certRefPermitted_def certificateRefNamespacedName_def eff_simps)
qed

theorem gateway_secret_needs_no_grant_witness:
  "populateGatewayListenerSecrets (secretEnv []) effectiveListenerSourceGateway ''team'' crossListener [] [] =
    (Inr ([(namespaced_name ''certs'' ''cert'', exampleSecret)], None), [GetSecret ''certs'' ''cert''])"
  using gateway_secret_needs_no_grant [of "secretEnv []" "[]" "''certs''" "''cert''" exampleSecret _ crossListener]
  by (simp add: secretEnv_def crossListener_def)

end
