(* ===== verification/Gateways.thy ===== *)
theory Gateways
  imports GatewayResolution StatusAddresses Listeners BackendSets Resources Drift
begin

text \<open>
  Programming a Gateway (\<open>gateway_model.go\<close>) and the controllers of Gateways and
  GatewayClasses (\<open>gateway_controller.go\<close>, \<open>gatewayclass_controller.go\<close>). Shown: the finalizer
  that protects a Gateway is requested before the load balancer is touched; a listener with
  broken frontend mTLS is taken down; what is recorded on a programmed Gateway makes it count as
  programmed; Gateways of other controllers are not written.
\<close>

section \<open>Frontend mTLS of a Gateway\<close>

definition gatewayFrontendMTLSConfigured :: "gateway \<Rightarrow> bool" where
  "gatewayFrontendMTLSConfigured gateway \<longleftrightarrow>
     (case gw_frontend gateway of
        None \<Rightarrow> False
      | Some frontend \<Rightarrow> ft_default frontend \<noteq> None \<or> list_ex (\<lambda>(_, v). v \<noteq> None) (ft_per_port frontend)) \<or>
     list_ex (\<lambda>(key, value). trim_space value \<noteq> [] \<and>
         (key = frontendMTLSTrustedCABundleOCIDsAnnotation \<or> key = frontendMTLSVerifyDepthAnnotation \<or>
          has_prefix key ''oci.oraclecloud.com/frontend-mtls-''))
       (gw_annotations gateway)"

definition listenerUsesFrontendMTLS :: "gateway \<Rightarrow> gw_listener \<Rightarrow> bool" where
  "listenerUsesFrontendMTLS gateway listener \<longleftrightarrow>
     l_tls listener \<noteq> None \<and>
     (effectiveFrontendTLSValidation gateway (l_port listener) \<noteq> None \<or>
      frontendMTLSOCICABundleIDs gateway (l_port listener) \<noteq> [])"

definition gatewayListenersWithoutFrontendMTLS :: "gateway \<Rightarrow> gw_listener list \<Rightarrow> gw_listener list" where
  "gatewayListenersWithoutFrontendMTLS gateway gatewayListeners =
     filter (\<lambda>l. \<not> listenerUsesFrontendMTLS gateway l) gatewayListeners"

definition desiredFrontendMTLSCABundleNames :: "gateway \<Rightarrow> gw_listener list \<Rightarrow> string list" where
  "desiredFrontendMTLSCABundleNames gateway gatewayManagedListeners =
     concat (map (\<lambda>listener.
       if \<not> gatewayFrontendMTLSConfigured gateway \<or> l_tls listener = None then []
       else if listenerOCICertificateOCID listener = [] then []
       else case effectiveFrontendTLSValidation gateway (l_port listener) of
           None \<Rightarrow> []
         | Some validation \<Rightarrow> map (frontendMTLSCABundleName gateway (l_port listener)) (fv_ca_refs validation))
       gatewayManagedListeners)"

section \<open>Names recorded on a Gateway\<close>

definition loadBalancerGatewayProgrammedListenersAnnotation :: string where
  "loadBalancerGatewayProgrammedListenersAnnotation = ''oke-gateway-api.gemyago.github.io/alb-gateway-listeners''"

definition gatewayProgrammingRevisionAnnotation :: string where
  "gatewayProgrammingRevisionAnnotation = ''oke-gateway-api.gemyago.github.io/gateway-programming-revision''"

definition gatewayProgrammingRevisionValue :: string where
  "gatewayProgrammingRevisionValue = ''2''"

definition gatewayProgrammedCertificatesAnnotation :: string where
  "gatewayProgrammedCertificatesAnnotation = ''oke-gateway-api.gemyago.github.io/gateway-programmed-certificates''"

definition gatewayUsedSecretsAnnotationPrefix :: string where
  "gatewayUsedSecretsAnnotationPrefix = ''secrets.oke-gateway-api.gemyago.github.io''"

definition gatewayFrontendMTLSConfigMapsAnnotation :: string where
  "gatewayFrontendMTLSConfigMapsAnnotation = ''frontend-mtls-configmaps.oke-gateway-api.gemyago.github.io''"

definition gatewayFrontendMTLSReferenceGrantsAnnotation :: string where
  "gatewayFrontendMTLSReferenceGrantsAnnotation = ''frontend-mtls-referencegrants.oke-gateway-api.gemyago.github.io''"

text \<open>Sets of names are lists; the order and repetitions do not matter to their uses.\<close>

definition annotatedResourceNames :: "gateway \<Rightarrow> string \<Rightarrow> string list" where
  "annotatedResourceNames gateway annotation =
     filter (\<lambda>n. n \<noteq> []) (map trim_space (str_split (CHR '','') (map_get (gw_annotations gateway) annotation)))"

definition mergeNameSets :: "string list list \<Rightarrow> string list" where
  "mergeNameSets nameSets = concat nameSets"

definition listenerNamesSet :: "gw_listener list \<Rightarrow> string list" where
  "listenerNamesSet listeners = map l_name listeners"

definition gatewayCleanupListenerNames :: "gateway \<Rightarrow> gw_listener list \<Rightarrow> string list" where
  "gatewayCleanupListenerNames gateway desiredListeners =
     mergeNameSets [annotatedResourceNames gateway loadBalancerGatewayProgrammedListenersAnnotation,
       listenerNamesSet desiredListeners]"

definition loadBalancerListenerCertificatesOutsideCleanup :: "load_balancer \<Rightarrow> string list \<Rightarrow> string list" where
  "loadBalancerListenerCertificatesOutsideCleanup loadBalancer cleanupListenerNames =
     sort_strings (remdups (List.map_filter (\<lambda>(listenerName, listener).
       if listenerName \<in> set cleanupListenerNames then None
       else case ll_ssl listener of None \<Rightarrow> None | Some ssl \<Rightarrow> sc_certificate_name ssl) (lb_listeners loadBalancer)))"

section \<open>Programming\<close>

text \<open>Dereferencing a nil pointer panics; the controller runtime turns it into an error.\<close>

definition nilPointer :: error where
  "nilPointer = ErrText ''runtime error: invalid memory address or nil pointer dereference''"

definition wrapped :: "string \<Rightarrow> 'a lb_op \<Rightarrow> 'a lb_op" where
  "wrapped pre m = eff_bind (eff_attempt m) (\<lambda>r. case r of Inl err \<Rightarrow> eff_fail (ErrWrap pre err []) | Inr x \<Rightarrow> eff_return x)"

definition removeMissingGatewayListeners ::
    "lb_env \<Rightarrow> resolved_gateway_details \<Rightarrow> gw_listener list \<Rightarrow> load_balancer \<Rightarrow> gw_listener list \<Rightarrow> unit lb_op" where
  "removeMissingGatewayListeners w data gatewayManagedListeners loadBalancer gatewayListeners =
     wrapped ''failed to remove missing listeners: '' (removeMissingListeners w
       \<lparr>rm_loadBalancerID = rd_loadBalancerID data, rm_knownListeners = lb_listeners loadBalancer,
        rm_knownRoutingPolicies = lb_routing_policies loadBalancer,
        rm_cleanupListenerNames = Some (gatewayCleanupListenerNames (rd_gateway data) gatewayManagedListeners),
        rm_gatewayListeners = gatewayListeners\<rparr>)"

definition failClosedFrontendMTLSListeners ::
    "lb_env \<Rightarrow> resolved_gateway_details \<Rightarrow> gw_listener list \<Rightarrow> load_balancer \<Rightarrow> unit lb_op" where
  "failClosedFrontendMTLSListeners w data gatewayListeners loadBalancer =
     (let kept = gatewayListenersWithoutFrontendMTLS (rd_gateway data) gatewayListeners in
      wrapped ''failed to fail closed frontend mTLS listeners: '' (removeMissingListeners w
       \<lparr>rm_loadBalancerID = rd_loadBalancerID data, rm_knownListeners = lb_listeners loadBalancer,
        rm_knownRoutingPolicies = lb_routing_policies loadBalancer,
        rm_cleanupListenerNames = Some (gatewayCleanupListenerNames (rd_gateway data) kept),
        rm_gatewayListeners = kept\<rparr>))"

definition reconcileGatewayListenerCertificates ::
    "cert_cache \<Rightarrow> lb_env \<Rightarrow> resolved_gateway_details \<Rightarrow> gw_listener list \<Rightarrow> load_balancer \<Rightarrow> listener_certificates lb_op" where
  "reconcileGatewayListenerCertificates cache w data gatewayListeners loadBalancer =
     eff_bind (eff_attempt (reconcileListenersCertificates cache w (rd_loadBalancerID data) (rd_gateway data)
         gatewayListeners (lb_certificates loadBalancer))) (\<lambda>r. case r of
         Inr result \<Rightarrow> eff_return result
       | Inl err \<Rightarrow>
           eff_bind (if isFrontendMTLSStatusError err
               then failClosedFrontendMTLSListeners w data gatewayListeners loadBalancer else eff_return ()) (\<lambda>_.
             eff_fail (ErrWrap ''failed to reconcile listeners certificates: '' err [])))"

definition cleanupGatewayFrontendMTLSCABundles ::
    "lb_env \<Rightarrow> resolved_gateway_details \<Rightarrow> gw_listener list \<Rightarrow> load_balancer \<Rightarrow> unit lb_op" where
  "cleanupGatewayFrontendMTLSCABundles w data gatewayManagedListeners loadBalancer =
     (let desiredBundleNames = desiredFrontendMTLSCABundleNames (rd_gateway data) gatewayManagedListeners in
      if desiredBundleNames = [] \<and>
         map_get (gw_annotations (rd_gateway data)) gatewayFrontendMTLSCABundleCompartmentsAnnotation = []
      then eff_return ()
      else wrapped ''failed to clean up frontend mTLS CA bundles: ''
        (cleanupFrontendMTLSCABundles w (Some (rd_gateway data)) (str_ptr (lb_compartment loadBalancer))
          (set desiredBundleNames)))"

definition gatewayListenerParams ::
    "resolved_gateway_details \<Rightarrow> load_balancer \<Rightarrow> string \<Rightarrow> listener_certificates \<Rightarrow> gw_listener \<Rightarrow>
      reconcile_http_listener_params" where
  "gatewayListenerParams data loadBalancer defaultBackendSetName certificates listener =
     \<lparr>rl_compartmentID = str_ptr (lb_compartment loadBalancer),
      rl_gateway = (if gatewayFrontendMTLSConfigured (rd_gateway data) then Some (rd_gateway data) else None),
      rl_loadBalancerID = rd_loadBalancerID data, rl_knownListeners = lb_listeners loadBalancer,
      rl_knownRoutingPolicies = lb_routing_policies loadBalancer,
      rl_listenerCertificates = (case map_of (lc_byListener certificates) (l_name listener) of
          Some certs \<Rightarrow> certs | None \<Rightarrow> []),
      rl_listenerCertificateID = map_get (lc_idsByListener certificates) (l_name listener),
      rl_defaultBackendSetName = defaultBackendSetName, rl_listenerSpec = listener\<rparr>"

definition reconcileGatewayListeners ::
    "lb_env \<Rightarrow> resolved_gateway_details \<Rightarrow> load_balancer \<Rightarrow> string \<Rightarrow> listener_certificates \<Rightarrow> gw_listener list \<Rightarrow> unit lb_op" where
  "reconcileGatewayListeners w data loadBalancer defaultBackendSetName certificates listeners =
     eff_foreach (\<lambda>listener. wrapped (errtext ''failed to reconcile listener '' (l_name listener) '': '')
       (reconcileHTTPListener w (gatewayListenerParams data loadBalancer defaultBackendSetName certificates listener))) listeners"

definition loadBalancerNotFound :: "string \<Rightarrow> error" where
  "loadBalancerNotFound loadBalancerID = ErrResourceStatus ''Programmed'' ''Pending''
     (errtext ''referenced OCI Load Balancer '' loadBalancerID '' not found'') None"

definition removeUnusedGatewayCertificates ::
    "lb_env \<Rightarrow> resolved_gateway_details \<Rightarrow> load_balancer \<Rightarrow> string list \<Rightarrow> unit lb_op" where
  "removeUnusedGatewayCertificates w data loadBalancer desired =
     removeUnusedCertificates w
       \<lparr>rc_loadBalancerID = rd_loadBalancerID data,
        rc_previous = parseProgrammedGatewayCertificatesAnnotation
          (map_get (gw_annotations (rd_gateway data)) gatewayProgrammedCertificatesAnnotation),
        rc_desired = desired, rc_known = lb_certificates loadBalancer\<rparr>"

text \<open>The steps on a load balancer that was found.\<close>

definition programGatewayOn :: "cert_cache \<Rightarrow> lb_env \<Rightarrow> resolved_gateway_details \<Rightarrow> load_balancer \<Rightarrow> unit lb_op" where
  "programGatewayOn cache w data loadBalancer =
     (let gatewayListeners = effectiveOCIListenersForGateway data;
          gatewayManagedListeners = gatewayManagedOCIListenersForLoadBalancer data
      in eff_bind (wrapped ''failed to program default backend set: '' (reconcileDefaultBackendSet w
           \<lparr>rdb_loadBalancerID = rd_loadBalancerID data, rdb_knownBackendSets = lb_backend_sets loadBalancer,
            rdb_gatewayName = gw_name (rd_gateway data)\<rparr>)) (\<lambda>defaultBackendSet.
         eff_bind (reconcileGatewayListenerCertificates cache w data gatewayListeners loadBalancer) (\<lambda>certificates.
         eff_bind (case bs_name defaultBackendSet of
             None \<Rightarrow> if gatewayManagedListeners = [] then eff_return () else eff_fail nilPointer
           | Some name \<Rightarrow> reconcileGatewayListeners w data loadBalancer name certificates gatewayManagedListeners) (\<lambda>_.
         eff_bind (removeMissingGatewayListeners w data gatewayManagedListeners loadBalancer gatewayListeners) (\<lambda>_.
         eff_bind (cleanupGatewayFrontendMTLSCABundles w data gatewayManagedListeners loadBalancer) (\<lambda>_.
         eff_bind (eff_ask (env_order w)) (\<lambda>order.
           wrapped ''failed to remove unused certificates: ''
             (removeUnusedGatewayCertificates w data loadBalancer
               (certificateNamesFromListenerCertificates order (lc_byListener certificates))))))))))"

definition programGateway :: "cert_cache \<Rightarrow> lb_env \<Rightarrow> resolved_gateway_details \<Rightarrow> resolved_gateway_details lb_op" where
  "programGateway cache w data =
     eff_bind (get_load_balancer w (rd_loadBalancerID data)) (\<lambda>r. case r of
         Inl err \<Rightarrow>
           (if svc_has_status 404 err then eff_fail (loadBalancerNotFound (rd_loadBalancerID data))
            else eff_fail (ErrWrap (errtext ''failed to get OCI Load Balancer '' (rd_loadBalancerID data) '': '')
              (ErrService err) []))
       | Inr loadBalancer \<Rightarrow>
           (let data1 = data\<lparr>rd_loadBalancer := Some loadBalancer\<rparr>
            in eff_bind (programGatewayOn cache w data1 loadBalancer) (\<lambda>_. eff_return data1)))"

section \<open>Deprovisioning\<close>

definition removeFinalizer :: "string \<Rightarrow> string list \<Rightarrow> string list" where
  "removeFinalizer f fs = filter (\<lambda>x. x \<noteq> f) fs"

definition deprovisionGatewayLoadBalancerResources ::
    "lb_env \<Rightarrow> resolved_gateway_details \<Rightarrow> string \<Rightarrow> unit lb_op" where
  "deprovisionGatewayLoadBalancerResources w data loadBalancerID =
     eff_bind (get_load_balancer w loadBalancerID) (\<lambda>r. case r of
         Inl err \<Rightarrow>
           (if svc_has_status 404 err then eff_return ()
            else eff_fail (ErrWrap (errtext ''failed to get OCI Load Balancer '' loadBalancerID '' for Gateway deprovision: '')
              (ErrService err) []))
       | Inr loadBalancer \<Rightarrow>
           (let cleanupListenerNames = gatewayCleanupListenerNames (rd_gateway data)
                  (gatewayManagedOCIListenersForLoadBalancer data)
            in eff_bind (wrapped ''failed to remove Gateway listeners: '' (removeMissingListeners w
                 \<lparr>rm_loadBalancerID = loadBalancerID, rm_knownListeners = lb_listeners loadBalancer,
                  rm_knownRoutingPolicies = lb_routing_policies loadBalancer,
                  rm_cleanupListenerNames = Some cleanupListenerNames, rm_gatewayListeners = []\<rparr>)) (\<lambda>_.
               eff_bind (wrapped ''failed to remove Gateway certificates: '' (removeUnusedGatewayCertificates w
                 (data\<lparr>rd_loadBalancerID := loadBalancerID\<rparr>) loadBalancer
                 (loadBalancerListenerCertificatesOutsideCleanup loadBalancer cleanupListenerNames))) (\<lambda>_.
               eff_bind (wrapped ''failed to clean up frontend mTLS CA bundles: ''
                 (cleanupFrontendMTLSCABundles w (Some (rd_gateway data)) (str_ptr (lb_compartment loadBalancer)) {})) (\<lambda>_.
               wrapped ''failed to remove Gateway default backend set: ''
                 (deprovisionBackendSetByName w loadBalancerID (gatewayDefaultBackendSetName (gw_name (rd_gateway data)))))))))"

definition deprovisionedGateway :: "gateway \<Rightarrow> gateway" where
  "deprovisionedGateway gateway =
     gateway\<lparr>gw_finalizers := removeFinalizer loadBalancerGatewayProgrammedFinalizer (gw_finalizers gateway),
       gw_annotations := filter (\<lambda>(key, _). \<not> has_prefix key (gatewayUsedSecretsAnnotationPrefix @ ''/''))
         (map_delete_all [loadBalancerGatewayIDAnnotation, gatewayProgrammingRevisionAnnotation,
           gatewayProgrammedCertificatesAnnotation, loadBalancerGatewayProgrammedListenersAnnotation,
           gatewayFrontendMTLSCABundleCompartmentsAnnotation] (gw_annotations gateway))\<rparr>"

definition deprovisionGateway :: "lb_env \<Rightarrow> resolved_gateway_details \<Rightarrow> unit lb_op" where
  "deprovisionGateway w data =
     (let loadBalancerID = (if rd_loadBalancerID data = []
            then map_get (gw_annotations (rd_gateway data)) loadBalancerGatewayIDAnnotation else rd_loadBalancerID data);
          updated = deprovisionedGateway (rd_gateway data)
      in eff_bind (if loadBalancerID \<noteq> [] then deprovisionGatewayLoadBalancerResources w data loadBalancerID
           else eff_return ()) (\<lambda>_.
         eff_bind (k8s_update w (UpdateGateway updated)) (\<lambda>r. case r of
             None \<Rightarrow> eff_return ()
           | Some err \<Rightarrow>
               (if is_not_found err then eff_return ()
                else eff_fail (ErrWrap (errtext ''failed to remove finalizer from Gateway ''
                  (namespaced_name (gw_namespace updated) (gw_name updated)) '': '') err [])))))"

section \<open>What is recorded on a programmed Gateway\<close>

definition configMapRevisionsAnnotation :: "config_map go_map \<Rightarrow> string" where
  "configMapRevisionsAnnotation objects =
     str_join '','' (map (\<lambda>key. case map_of objects key of
         None \<Rightarrow> []
       | Some object \<Rightarrow> key @ ''='' @ cm_uid object @ ''/'' @ cm_version object)
       (sort_strings (map fst objects)))"

definition referenceGrantRevisionsAnnotation :: "reference_grant go_map \<Rightarrow> string" where
  "referenceGrantRevisionsAnnotation objects =
     str_join '','' (map (\<lambda>key. case map_of objects key of
         None \<Rightarrow> []
       | Some object \<Rightarrow> key @ ''='' @ rg_uid object @ ''/'' @ rg_version object)
       (sort_strings (map fst objects)))"

definition gatewayHasCrossNamespaceFrontendMTLSConfigMapRefs :: "nat list \<Rightarrow> gateway \<Rightarrow> bool" where
  "gatewayHasCrossNamespaceFrontendMTLSConfigMapRefs order gateway =
     list_ex (\<lambda>(ns, _). ns \<noteq> gw_namespace gateway) (frontendMTLSConfigMapRefs order gateway)"

definition usedSecretAnnotation :: "k8s_secret \<Rightarrow> string" where
  "usedSecretAnnotation secret = gatewayUsedSecretsAnnotationPrefix @ ''/'' @ sec_uid secret"

definition programmedGatewayAnnotations :: "nat list \<Rightarrow> resolved_gateway_details \<Rightarrow> string go_map" where
  "programmedGatewayAnnotations order data =
     (let basic = [(gatewayProgrammingRevisionAnnotation, gatewayProgrammingRevisionValue),
            (gatewayProgrammedCertificatesAnnotation, programmedGatewayCertificatesAnnotation
              (programmedCertificateNamesFromSecrets order (rd_gatewaySecrets data))),
            (loadBalancerGatewayProgrammedListenersAnnotation, programmedGatewayListenersAnnotation
              (gatewayManagedOCIListenersForLoadBalancer data))];
          withID = (if rd_loadBalancerID data \<noteq> [] then AList.update loadBalancerGatewayIDAnnotation (rd_loadBalancerID data) basic
            else basic);
          withSecrets = foldl (\<lambda>m (_, secret). AList.update (usedSecretAnnotation secret) (sec_resource_version secret) m)
            withID (map_iter order (rd_gatewaySecrets data));
          withConfigMaps = (if frontendMTLSConfigMapRefs order (rd_gateway data) \<noteq> []
            then AList.update gatewayFrontendMTLSConfigMapsAnnotation (configMapRevisionsAnnotation (rd_frontendMTLSConfigMaps data))
              withSecrets
            else withSecrets)
      in if rd_frontendMTLSReferenceGrants data \<noteq> [] \<or>
            gatewayHasCrossNamespaceFrontendMTLSConfigMapRefs order (rd_gateway data)
         then AList.update gatewayFrontendMTLSReferenceGrantsAnnotation
           (referenceGrantRevisionsAnnotation (rd_frontendMTLSReferenceGrants data)) withConfigMaps
         else withConfigMaps)"

definition staleProgrammedGatewayAnnotations :: "string go_map \<Rightarrow> string list" where
  "staleProgrammedGatewayAnnotations annotations =
     filter (\<lambda>key. map_of annotations key = None)
       [gatewayFrontendMTLSConfigMapsAnnotation, gatewayFrontendMTLSReferenceGrantsAnnotation]"

definition isProgrammed :: "nat list \<Rightarrow> resolved_gateway_details \<Rightarrow> bool" where
  "isProgrammed order data =
     isConditionSet gateway_ops (rd_gateway data) (gw_conditions (rd_gateway data)) ''Programmed''
       (programmedGatewayAnnotations order data)"

section \<open>Routes attached to a ListenerSet\<close>

text \<open>\<open>int32\<close> counters.\<close>

definition inc32 :: "int \<Rightarrow> int" where
  "inc32 i = (i + 1 + 2 ^ 31) mod 2 ^ 32 - 2 ^ 31"

definition listenerSetEntryForEffectiveListener :: "gateway \<Rightarrow> listener_set \<Rightarrow> string \<Rightarrow> gw_listener option" where
  "listenerSetEntryForEffectiveListener gateway listenerSet effectiveName =
     find (\<lambda>entry. l_name (effectiveListenerOCIListener (newEffectiveListener entry effectiveListenerSourceListenerSet
       (ls_namespace listenerSet) (ls_name listenerSet) (listenerSetOCIListenerName gateway listenerSet entry))) = effectiveName)
       (ls_listeners listenerSet)"

definition count_listener :: "string \<Rightarrow> int go_map \<Rightarrow> int go_map" where
  "count_listener name counts =
     AList.update name (inc32 (case map_of counts name of Some n \<Rightarrow> n | None \<Rightarrow> 0)) counts"

definition addListenerSetRouteCountForParentRef ::
    "resolved_gateway_details \<Rightarrow> listener_set \<Rightarrow> string \<Rightarrow> (parent_ref \<Rightarrow> gw_listener \<Rightarrow> bool) \<Rightarrow> parent_ref \<Rightarrow>
      int go_map \<Rightarrow> parent_ref \<Rightarrow> int go_map" where
  "addListenerSetRouteCountForParentRef data listenerSet routeNamespace matchesListener statusParentRef counts parentRef =
     (if \<not> parentRefSameTarget parentRef statusParentRef then counts
      else foldl (\<lambda>cs listener. case listenerSetEntryForEffectiveListener (rd_gateway data) listenerSet (l_name listener) of
            None \<Rightarrow> cs | Some entry \<Rightarrow> count_listener (l_name entry) cs)
        counts (effectiveListenersForParentRef data parentRef routeNamespace matchesListener))"

definition listenerSetRouteParentStatusAccepted ::
    "resolved_gateway_details \<Rightarrow> listener_set \<Rightarrow> string \<Rightarrow> route_parent_status \<Rightarrow> bool" where
  "listenerSetRouteParentStatusAccepted data listenerSet routeNamespace parentStatus \<longleftrightarrow>
     rps_controller parentStatus = gc_controller (rd_gatewayClass data) \<and>
     isStatusConditionTrue (rps_conditions parentStatus) ''Accepted'' \<and>
     parentRefTargetsListenerSet (rps_ref parentStatus) \<and>
     parentRefTargetName (rps_ref parentStatus) routeNamespace = (ls_namespace listenerSet, ls_name listenerSet)"

definition addListenerSetRouteCounts ::
    "resolved_gateway_details \<Rightarrow> listener_set \<Rightarrow> (parent_ref \<Rightarrow> gw_listener \<Rightarrow> bool) \<Rightarrow> int go_map \<Rightarrow> 'm l7_route \<Rightarrow> int go_map" where
  "addListenerSetRouteCounts data listenerSet matchesListener counts route =
     foldl (\<lambda>cs parentStatus.
       if \<not> listenerSetRouteParentStatusAccepted data listenerSet (rt_namespace route) parentStatus then cs
       else foldl (addListenerSetRouteCountForParentRef data listenerSet (rt_namespace route) matchesListener
           (rps_ref parentStatus)) cs (rt_parent_refs route))
       counts (rt_parents route)"

definition sectionMatches :: "parent_ref \<Rightarrow> gw_listener \<Rightarrow> bool" where
  "sectionMatches ref listener = (case pr_section ref of None \<Rightarrow> True | Some section \<Rightarrow> l_name listener = section)"

definition portMatches :: "parent_ref \<Rightarrow> gw_listener \<Rightarrow> bool" where
  "portMatches ref listener = (case pr_port ref of None \<Rightarrow> True | Some port \<Rightarrow> port = l_port listener)"

definition tcpRouteMatchesListener :: "parent_ref \<Rightarrow> gw_listener \<Rightarrow> bool" where
  "tcpRouteMatchesListener ref listener \<longleftrightarrow>
     l_protocol listener = ''TCP'' \<and> sectionMatches ref listener \<and> portMatches ref listener"

definition udpRouteMatchesListener :: "parent_ref \<Rightarrow> gw_listener \<Rightarrow> bool" where
  "udpRouteMatchesListener ref listener \<longleftrightarrow>
     l_protocol listener = ''UDP'' \<and> sectionMatches ref listener \<and> portMatches ref listener"

definition tlsRouteMatchesListener :: "parent_ref \<Rightarrow> gw_listener \<Rightarrow> bool" where
  "tlsRouteMatchesListener ref listener \<longleftrightarrow>
     l_protocol listener = ''TLS'' \<and> sectionMatches ref listener \<and> portMatches ref listener"

definition grpcRouteListenerProtocolSupported :: "string \<Rightarrow> bool" where
  "grpcRouteListenerProtocolSupported protocol \<longleftrightarrow> protocol = ''HTTP'' \<or> protocol = ''HTTPS''"

definition listed :: "string \<Rightarrow> (error + 'r list) lb_op \<Rightarrow> 'r list lb_op" where
  "listed kind m = eff_bind m (\<lambda>r. case r of
       Inl err \<Rightarrow> eff_fail (ErrWrap (errtext ''failed to list '' kind '' for ListenerSet attached route counts: '') err [])
     | Inr items \<Rightarrow> eff_return items)"

definition addListenerSetHTTPRouteCounts ::
    "lb_env \<Rightarrow> resolved_gateway_details \<Rightarrow> listener_set \<Rightarrow> int go_map \<Rightarrow> int go_map lb_op" where
  "addListenerSetHTTPRouteCounts w data listenerSet counts =
     eff_bind (listed ''HTTPRoutes'' (list_http_routes w)) (\<lambda>routes.
       eff_return (foldl (addListenerSetRouteCounts data listenerSet (\<lambda>ref listener. sectionMatches ref listener \<and>
         (l_protocol listener = ''HTTP'' \<or> l_protocol listener = ''HTTPS''))) counts routes))"

definition addListenerSetGRPCRouteCounts ::
    "lb_env \<Rightarrow> resolved_gateway_details \<Rightarrow> listener_set \<Rightarrow> int go_map \<Rightarrow> int go_map lb_op" where
  "addListenerSetGRPCRouteCounts w data listenerSet counts =
     eff_bind (listed ''GRPCRoutes'' (list_grpc_routes w)) (\<lambda>routes.
       eff_return (foldl (addListenerSetRouteCounts data listenerSet (\<lambda>ref listener. sectionMatches ref listener \<and>
         grpcRouteListenerProtocolSupported (l_protocol listener))) counts routes))"

definition addListenerSetTCPRouteCounts ::
    "lb_env \<Rightarrow> resolved_gateway_details \<Rightarrow> listener_set \<Rightarrow> int go_map \<Rightarrow> int go_map lb_op" where
  "addListenerSetTCPRouteCounts w data listenerSet counts =
     eff_bind (listed ''TCPRoutes'' (list_l4_routes w ''TCPRoute'')) (\<lambda>routes.
       eff_return (foldl (addListenerSetRouteCounts data listenerSet tcpRouteMatchesListener) counts routes))"

definition addListenerSetUDPRouteCounts ::
    "lb_env \<Rightarrow> resolved_gateway_details \<Rightarrow> listener_set \<Rightarrow> int go_map \<Rightarrow> int go_map lb_op" where
  "addListenerSetUDPRouteCounts w data listenerSet counts =
     eff_bind (listed ''UDPRoutes'' (list_l4_routes w ''UDPRoute'')) (\<lambda>routes.
       eff_return (foldl (addListenerSetRouteCounts data listenerSet udpRouteMatchesListener) counts routes))"

definition addListenerSetTLSRouteCounts ::
    "lb_env \<Rightarrow> resolved_gateway_details \<Rightarrow> listener_set \<Rightarrow> int go_map \<Rightarrow> int go_map lb_op" where
  "addListenerSetTLSRouteCounts w data listenerSet counts =
     eff_bind (listed ''TLSRoutes'' (list_l4_routes w ''TLSRoute'')) (\<lambda>routes.
       eff_return (foldl (addListenerSetRouteCounts data listenerSet tlsRouteMatchesListener) counts routes))"

definition listenerSetAttachedRouteCounts ::
    "lb_env \<Rightarrow> resolved_gateway_details \<Rightarrow> listener_set \<Rightarrow> int go_map lb_op" where
  "listenerSetAttachedRouteCounts w data listenerSet =
     eff_bind (addListenerSetHTTPRouteCounts w data listenerSet []) (\<lambda>c.
     eff_bind (addListenerSetGRPCRouteCounts w data listenerSet c) (\<lambda>c.
     eff_bind (addListenerSetTCPRouteCounts w data listenerSet c) (\<lambda>c.
     eff_bind (addListenerSetUDPRouteCounts w data listenerSet c) (\<lambda>c.
       addListenerSetTLSRouteCounts w data listenerSet c))))"

definition setListenerSetProgrammed ::
    "lb_env \<Rightarrow> resolved_gateway_details \<Rightarrow> string \<Rightarrow> listener_set \<Rightarrow> unit lb_op" where
  "setListenerSetProgrammed w data controllerName listenerSet =
     eff_bind (listenerSetAttachedRouteCounts w data listenerSet) (\<lambda>attachedRoutes.
       (let desiredStatus = listenerSetStatusForGateway (rd_gateway data) listenerSet (rd_effectiveListeners data)
              controllerName attachedRoutes
        in if listenerSetStatusSemanticallyEqual (ls_status listenerSet) desiredStatus then eff_return ()
           else eff_bind (k8s_update w (UpdateListenerSetStatus (listenerSet\<lparr>ls_status := desiredStatus\<rparr>))) (\<lambda>r. case r of
               None \<Rightarrow> eff_return ()
             | Some err \<Rightarrow> eff_fail (ErrWrap (errtext ''failed to update ListenerSet ''
                 (namespaced_name (ls_namespace listenerSet) (ls_name listenerSet)) '' status: '') err []))))"

definition setListenerSetsProgrammed :: "lb_env \<Rightarrow> resolved_gateway_details \<Rightarrow> string \<Rightarrow> unit lb_op" where
  "setListenerSetsProgrammed w data controllerName =
     eff_foreach (setListenerSetProgrammed w data controllerName) (rd_listenerSets data)"

definition programmedCondition :: "string go_map \<Rightarrow> gateway \<Rightarrow> gateway set_condition_params" where
  "programmedCondition annotations gateway =
     \<lparr>sc_resource = gateway, sc_conditions = ObjectConditions, sc_conditionType = ''Programmed'', sc_status = ''True'',
      sc_reason = ''Programmed'', sc_message = errtext ''Gateway '' (gw_name gateway) (errtext '' programmed by '' ControllerClassName []),
      sc_annotations = annotations, sc_removeAnnotations = staleProgrammedGatewayAnnotations annotations,
      sc_finalizer = loadBalancerGatewayProgrammedFinalizer\<rparr>"

definition setProgrammed :: "lb_env \<Rightarrow> resolved_gateway_details \<Rightarrow> resolved_gateway_details lb_op" where
  "setProgrammed w data =
     eff_bind (eff_ask (env_order w)) (\<lambda>order.
       (let annotations = programmedGatewayAnnotations order data;
            gateway = (rd_gateway data)
              \<lparr>gw_addresses := gatewayStatusAddressesFromLoadBalancer order (rd_loadBalancer data),
               gw_attached_listener_sets := Some (attachedListenerSetCount (rd_listenerSets data) (rd_effectiveListeners data))\<rparr>
        in eff_bind (wrapped (errtext ''failed to set programmed condition for Gateway '' (gw_name gateway) '': '')
             (setCondition gateway_ops w (programmedCondition annotations gateway))) (\<lambda>updated.
           (let data1 = data\<lparr>rd_gateway := updated\<rparr>
            in eff_bind (setListenerSetsProgrammed w data1 ControllerClassName) (\<lambda>_. eff_return data1)))))"

section \<open>The controllers\<close>

definition isGatewayAccepted :: "gateway \<Rightarrow> bool" where
  "isGatewayAccepted gateway =
     (case findStatusCondition (gw_conditions gateway) ''Accepted'' of
        None \<Rightarrow> False
      | Some c \<Rightarrow> cn_generation c = gw_generation gateway \<and> cn_status c = ''True'')"

definition gatewayCondition ::
    "gateway \<Rightarrow> string \<Rightarrow> string \<Rightarrow> string \<Rightarrow> string \<Rightarrow> string go_map \<Rightarrow> string \<Rightarrow> gateway set_condition_params" where
  "gatewayCondition gateway conditionType status reason message annotations finalizer =
     \<lparr>sc_resource = gateway, sc_conditions = ObjectConditions, sc_conditionType = conditionType, sc_status = status,
      sc_reason = reason, sc_message = message, sc_annotations = annotations, sc_removeAnnotations = [],
      sc_finalizer = finalizer\<rparr>"

definition processResourceError :: "lb_env \<Rightarrow> int \<Rightarrow> error \<Rightarrow> gateway \<Rightarrow> int lb_op" where
  "processResourceError w driftInterval err gateway =
     (case errors_as status_of err of
        Some (conditionType, reason, message) \<Rightarrow>
          eff_bind (wrapped (errtext ''failed to set condition for Gateway '' (gw_name gateway) '': '')
            (setCondition gateway_ops w (gatewayCondition gateway conditionType ''False'' reason message [] [])))
            (\<lambda>_. driftRequeue w driftInterval)
      | None \<Rightarrow> eff_fail (ErrWrap (errtext ''failed to program Gateway '' (gw_name gateway) '': '') err []))"

definition loadBalancerGatewayProtectionAnnotations :: "resolved_gateway_details \<Rightarrow> string go_map" where
  "loadBalancerGatewayProtectionAnnotations data =
     (let loadBalancerID = (if rd_loadBalancerID data = []
            then map_get (gw_annotations (rd_gateway data)) loadBalancerGatewayIDAnnotation else rd_loadBalancerID data)
      in if loadBalancerID = [] then [] else [(loadBalancerGatewayIDAnnotation, loadBalancerID)])"

text \<open>The accepted condition, and the finalizer that is set before programming starts.\<close>

definition acceptGateway :: "lb_env \<Rightarrow> string \<Rightarrow> resolved_gateway_details \<Rightarrow> resolved_gateway_details lb_op" where
  "acceptGateway w reqName data =
     (let gateway = rd_gateway data in
      if isGatewayAccepted gateway then eff_return data
      else eff_bind (wrapped (errtext ''failed to set accepted condition for Gateway '' reqName '': '')
        (setCondition gateway_ops w (gatewayCondition gateway ''Accepted'' ''True'' ''Accepted''
          (errtext ''Gateway '' (gw_name gateway) (errtext '' accepted by '' ControllerClassName []))
          [(ControllerClassName, ''true'')] []))) (\<lambda>g. eff_return (data\<lparr>rd_gateway := g\<rparr>)))"

definition protectGateway :: "lb_env \<Rightarrow> string \<Rightarrow> resolved_gateway_details \<Rightarrow> resolved_gateway_details lb_op" where
  "protectGateway w reqName data =
     (let gateway = rd_gateway data in
      eff_bind (wrapped (errtext ''failed to persist programming protection for Gateway '' reqName '': '')
        (setCondition gateway_ops w (gatewayCondition gateway ''Programmed'' ''Unknown'' ''Pending''
          (errtext ''Gateway '' (gw_name gateway) (errtext '' programming by '' ControllerClassName '' is in progress''))
          (loadBalancerGatewayProtectionAnnotations data) loadBalancerGatewayProgrammedFinalizer)))
        (\<lambda>g. eff_return (data\<lparr>rd_gateway := g\<rparr>)))"

definition programAcceptedGateway ::
    "cert_cache \<Rightarrow> lb_env \<Rightarrow> int \<Rightarrow> string \<Rightarrow> resolved_gateway_details \<Rightarrow> int lb_op" where
  "programAcceptedGateway cache w driftInterval reqName data =
     eff_bind (protectGateway w reqName data) (\<lambda>data1.
     eff_bind (eff_attempt (programGateway cache w data1)) (\<lambda>r. case r of
         Inl err \<Rightarrow> processResourceError w driftInterval err (rd_gateway data1)
       | Inr data2 \<Rightarrow> eff_bind (setProgrammed w data2) (\<lambda>_. driftRequeue w driftInterval)))"

definition reconcileRelevantGateway ::
    "cert_cache \<Rightarrow> lb_env \<Rightarrow> int \<Rightarrow> string \<Rightarrow> resolved_gateway_details \<Rightarrow> int lb_op" where
  "reconcileRelevantGateway cache w driftInterval reqName data =
     (if gw_deleting (rd_gateway data) then
        (if loadBalancerGatewayProgrammedFinalizer \<notin> set (gw_finalizers (rd_gateway data)) then eff_return 0
         else eff_bind (eff_attempt (deprovisionGateway w data)) (\<lambda>r. case r of
             Inl err \<Rightarrow> processResourceError w driftInterval err (rd_gateway data)
           | Inr _ \<Rightarrow> eff_return 0))
      else eff_bind (acceptGateway w reqName data) (\<lambda>data1.
        eff_bind (eff_ask (env_order w)) (\<lambda>order.
          if \<not> isProgrammed order data1 \<or> driftInterval > 0
          then programAcceptedGateway cache w driftInterval reqName data1
          else driftRequeue w driftInterval)))"

definition GatewayController_Reconcile ::
    "cert_cache \<Rightarrow> lb_env \<Rightarrow> bool \<Rightarrow> int \<Rightarrow> string \<times> string \<Rightarrow> int lb_op" where
  "GatewayController_Reconcile cache w listenerSetEnabled driftInterval req =
     eff_bind (resolveReconcileRequest w listenerSetEnabled req) (\<lambda>resolved. case resolved of
         Unresolved gateway err \<Rightarrow> processResourceError w driftInterval err gateway
       | Irrelevant \<Rightarrow> eff_return 0
       | Relevant data \<Rightarrow> reconcileRelevantGateway cache w driftInterval (namespaced_name (fst req) (snd req)) data)"

definition isSupportedControllerClassName :: "string \<Rightarrow> bool" where
  "isSupportedControllerClassName controllerName \<longleftrightarrow>
     controllerName = ControllerClassName \<or> controllerName = NetworkLoadBalancerControllerClassName"

definition gateway_class_ops :: "gateway_class object_ops" where
  "gateway_class_ops = \<lparr>oo_name = gc_name, oo_generation = gc_generation, oo_annotations = gc_annotations,
     oo_set_annotations = (\<lambda>a c. c\<lparr>gc_annotations := a\<rparr>), oo_finalizers = gc_finalizers,
     oo_set_finalizers = (\<lambda>f c. c\<lparr>gc_finalizers := f\<rparr>), oo_has_place = (\<lambda>p _. p = ObjectConditions),
     oo_conditions = (\<lambda>_. gc_conditions), oo_set_conditions = (\<lambda>_ cs c. c\<lparr>gc_conditions := cs\<rparr>),
     oo_refresh = (\<lambda>w c. get_gateway_class w (gc_name c)), oo_update = UpdateGatewayClass,
     oo_update_status = UpdateGatewayClassStatus, oo_retry_place = (\<lambda>_ _ _. Inr ObjectConditions)\<rparr>"

interpretation gateway_class_object: api_object gateway_class_ops
  by unfold_locales (simp_all add: gateway_class_ops_def)

definition GatewayClassController_Reconcile :: "lb_env \<Rightarrow> string \<Rightarrow> unit lb_op" where
  "GatewayClassController_Reconcile w name =
     eff_bind (get_gateway_class w name) (\<lambda>r. case r of
         Inl err \<Rightarrow>
           (if is_not_found err then eff_return ()
            else eff_fail (ErrWrap (errtext ''failed to get GatewayClass '' (namespaced_name [] name) '': '') err []))
       | Inr gatewayClass \<Rightarrow>
           (if \<not> isSupportedControllerClassName (gc_controller gatewayClass) then eff_return ()
            else if isConditionSet gateway_class_ops gatewayClass (gc_conditions gatewayClass) ''Accepted'' []
            then eff_return ()
            else eff_bind (wrapped (errtext ''failed to set accepted condition for GatewayClass '' (namespaced_name [] name) '': '')
              (setCondition gateway_class_ops w
                \<lparr>sc_resource = gatewayClass, sc_conditions = ObjectConditions, sc_conditionType = ''Accepted'',
                 sc_status = ''True'', sc_reason = ''Accepted'',
                 sc_message = errtext ''GatewayClass '' (gc_name gatewayClass)
                   (errtext '' is accepted by '' (gc_controller gatewayClass) []),
                 sc_annotations = [], sc_removeAnnotations = [], sc_finalizer = []\<rparr>)) (\<lambda>_. eff_return ())))"

section \<open>Protection before programming\<close>

text \<open>Requests that change a load balancer or the certificates service.\<close>

fun cloudWrite :: "lb_call \<Rightarrow> bool" where
  "cloudWrite (UpdateGateway _) = False"
| "cloudWrite (UpdateGatewayStatus _) = False"
| "cloudWrite (UpdateGatewayClass _) = False"
| "cloudWrite (UpdateGatewayClassStatus _) = False"
| "cloudWrite (UpdateListenerSet _) = False"
| "cloudWrite (UpdateListenerSetStatus _) = False"
| "cloudWrite (UpdateHTTPRoute _) = False"
| "cloudWrite (UpdateHTTPRouteStatus _) = False"
| "cloudWrite (UpdateGRPCRoute _) = False"
| "cloudWrite (UpdateGRPCRouteStatus _) = False"
| "cloudWrite (UpdateBackendTLSPolicy _) = False"
| "cloudWrite (UpdateBackendTLSPolicyStatus _) = False"
| "cloudWrite (UpdateL4Route _ _) = False"
| "cloudWrite (UpdateL4RouteStatus _ _) = False"
| "cloudWrite c = (\<not> reading c)"

definition finalizerStored :: "lb_env \<Rightarrow> string \<Rightarrow> lb_call list \<Rightarrow> lb_call list \<Rightarrow> bool" where
  "finalizerStored w f h cs \<longleftrightarrow> (\<exists>zs g us. cs = zs @ [UpdateGateway g] @ us \<and> f \<in> set (gw_finalizers g) \<and>
     env_update w (h @ zs) (UpdateGateway g) = None)"

lemma emits_setCondition:
  "emits (\<lambda>c. \<not> cloudWrite c) (setCondition gateway_ops w params)"
  by (auto simp: setCondition_def updateResourceStatusAfterConflict_def updateResourceMetadataAfterConflict_def
      gateway_ops_def Let_def intro!: emits_bind emits_gateway emits_return emits_fail split: option.split sum.split)

lemma gateway_ops_selectors:
  "oo_name gateway_ops = gw_name" "oo_update gateway_ops = UpdateGateway" "oo_update_status gateway_ops = UpdateGatewayStatus"
  by (simp_all add: gateway_ops_def)

lemma setFinalizer_mem: "f \<in> set (addFinalizer f fs)"
  by (simp add: addFinalizer_def)

lemma applyMetadata_finalizer:
  "sc_finalizer params \<noteq> [] \<Longrightarrow> sc_finalizer params \<in> set (gw_finalizers (applyMetadata gateway_ops params g))"
  by (simp add: applyMetadata_def gateway_ops_def Let_def setFinalizer_mem)

lemma metadataConflict_stores:
  assumes "updateResourceMetadataAfterConflict gateway_ops w params h = (Inr u, h')" "sc_finalizer params \<noteq> []"
  shows "\<exists>cs. h' = h @ cs \<and> finalizerStored w (sc_finalizer params) h cs"
proof -
  obtain latest where latest: "env_gateway w h (gw_namespace (sc_resource params)) (gw_name (sc_resource params)) = Inr latest"
    using assms(1) by (cases "env_gateway w h (gw_namespace (sc_resource params)) (gw_name (sc_resource params))")
      (auto simp: updateResourceMetadataAfterConflict_def gateway_ops_def Let_def eff_bind_Inr [OF gateway_run(2)] eff_simps)
  let ?g1 = "latest\<lparr>gw_finalizers := addFinalizer (sc_finalizer params) (gw_finalizers latest)\<rparr>"
  let ?g = "if sc_annotations params \<noteq> [] then ?g1\<lparr>gw_annotations := map_copy (gw_annotations ?g1) (sc_annotations params)\<rparr> else ?g1"
  let ?get = "GetGateway (gw_namespace (sc_resource params)) (gw_name (sc_resource params))"
  have "env_update w (h @ [?get]) (UpdateGateway ?g) = None \<and> h' = h @ [?get] @ [UpdateGateway ?g] @ []"
    using assms latest
    by (auto simp: updateResourceMetadataAfterConflict_def gateway_ops_def Let_def eff_bind_Inr [OF gateway_run(2)]
        eff_bind_Inr [OF gateway_run(7)] eff_simps split: option.splits if_splits)
  moreover have "sc_finalizer params \<in> set (gw_finalizers ?g)" by (simp add: setFinalizer_mem)
  ultimately show ?thesis unfolding finalizerStored_def by blast
qed

lemma finalizerStored_later: "finalizerStored w f (h @ as) cs \<Longrightarrow> finalizerStored w f h (as @ cs)"
  unfolding finalizerStored_def by (metis append.assoc)

text \<open>The second half of \<open>setCondition\<close>: the finalizer and the annotations.\<close>

abbreviation metadata_half :: "lb_env \<Rightarrow> gateway set_condition_params \<Rightarrow> gateway \<Rightarrow> gateway lb_op" where
  "metadata_half w params r1 \<equiv>
     eff_bind (k8s_update w (UpdateGateway (applyMetadata gateway_ops params r1))) (\<lambda>res. case res of
         None \<Rightarrow> eff_return (applyMetadata gateway_ops params r1)
       | Some err \<Rightarrow>
           (if is_conflict err then
              eff_bind (updateResourceMetadataAfterConflict gateway_ops w params)
                (\<lambda>_. eff_return (applyMetadata gateway_ops params r1))
            else eff_fail (ErrWrap (errtext ''failed to update resource '' (gw_name (sc_resource params))
              '' with finalizer/annotations: '') err [])))"

lemma metadata_half_stores:
  assumes "metadata_half w params r1 h = (Inr g, h')" "sc_finalizer params \<noteq> []"
  shows "\<exists>cs. h' = h @ cs \<and> finalizerStored w (sc_finalizer params) h cs"
proof (cases "env_update w h (UpdateGateway (applyMetadata gateway_ops params r1))")
  case None
  then have "h' = h @ [UpdateGateway (applyMetadata gateway_ops params r1)] @ []"
    using assms(1) by (auto simp: eff_bind_Inr [OF gateway_run(7)] eff_simps)
  moreover have "finalizerStored w (sc_finalizer params) h ([] @ [UpdateGateway (applyMetadata gateway_ops params r1)] @ [])"
    unfolding finalizerStored_def using None applyMetadata_finalizer [OF assms(2)] by (metis append_Nil2)
  ultimately show ?thesis by auto
next
  case (Some err)
  let ?h1 = "h @ [UpdateGateway (applyMetadata gateway_ops params r1)]"
  obtain u where "updateResourceMetadataAfterConflict gateway_ops w params ?h1 = (Inr u, h')"
    using assms(1) Some
    by (auto simp: eff_bind_Inr [OF gateway_run(7)] eff_simps split: if_splits elim!: eff_bind_InrE)
  from metadataConflict_stores [OF this assms(2)] obtain cs
    where "h' = ?h1 @ cs" "finalizerStored w (sc_finalizer params) ?h1 cs" by blast
  then show ?thesis using finalizerStored_later by (metis append.assoc)
qed

abbreviation status_half :: "lb_env \<Rightarrow> gateway set_condition_params \<Rightarrow> gateway \<Rightarrow> unit lb_op" where
  "status_half w params r1 \<equiv>
     eff_bind (k8s_update w (UpdateGatewayStatus r1)) (\<lambda>res. case res of
         None \<Rightarrow> eff_return ()
       | Some err \<Rightarrow>
           (if \<not> is_conflict err then
              eff_fail (ErrWrap (errtext ''failed to update status for '' (gw_name (sc_resource params)) '': '') err [])
            else updateResourceStatusAfterConflict gateway_ops w r1 (sc_conditions params) (desiredCondition gateway_ops params)))"

lemma setCondition_halves:
  assumes "metadataUpdateNeeded gateway_ops params (gateway_object.conditioned params)"
  shows "setCondition gateway_ops w params =
    eff_bind (status_half w params (gateway_object.conditioned params))
      (\<lambda>_. metadata_half w params (gateway_object.conditioned params))"
  using assms unfolding setCondition_def Let_def gateway_ops_selectors eff_bind_assoc by (simp add: gateway_ops_selectors)

lemma extends_status_half: "extends (status_half w params r)"
  unfolding extends_def
  by (auto simp: updateResourceStatusAfterConflict_def gateway_ops_def
      intro!: emits_bind emits_gateway emits_return emits_fail split: sum.split option.split)

lemma setCondition_stores:
  assumes "setCondition gateway_ops w params h = (Inr g, h')" "sc_finalizer params \<noteq> []"
    "sc_finalizer params \<notin> set (gw_finalizers (sc_resource params))"
  shows "\<exists>cs. h' = h @ cs \<and> finalizerStored w (sc_finalizer params) h cs"
proof -
  have "metadataUpdateNeeded gateway_ops params (gateway_object.conditioned params)"
    using assms(2,3) by (simp add: metadataUpdateNeeded_def gateway_ops_def)
  from assms(1) [unfolded setCondition_halves [OF this]] obtain u h1
    where status: "status_half w params (gateway_object.conditioned params) h = (Inr u, h1)"
      and half: "metadata_half w params (gateway_object.conditioned params) h1 = (Inr g, h')"
    by (rule eff_bind_InrE)
  obtain as where "h1 = h @ as" using emitsD [OF extends_status_half [unfolded extends_def] status] by blast
  with metadata_half_stores [OF half assms(2)] show ?thesis
    using finalizerStored_later by (metis append.assoc)
qed

lemma emits_wrapped: "emits P m \<Longrightarrow> emits P (wrapped pre m)"
  unfolding wrapped_def by (intro emits_bind emits_attempt) (auto intro: emits_return emits_fail split: sum.split)

lemma wrapped_Inr: "wrapped pre m h = (Inr x, h') \<longleftrightarrow> m h = (Inr x, h')"
  by (cases "m h"; cases "fst (m h)") (auto simp: wrapped_def eff_bind_def eff_attempt_run eff_simps)

lemma protectGateway_stores:
  assumes "protectGateway w n data h = (Inr data1, h1)"
    and "loadBalancerGatewayProgrammedFinalizer \<notin> set (gw_finalizers (rd_gateway data))"
  shows "\<exists>cs. h1 = h @ cs \<and> finalizerStored w loadBalancerGatewayProgrammedFinalizer h cs"
proof -
  let ?params = "gatewayCondition (rd_gateway data) ''Programmed'' ''Unknown'' ''Pending''
    (errtext ''Gateway '' (gw_name (rd_gateway data)) (errtext '' programming by '' ControllerClassName '' is in progress''))
    (loadBalancerGatewayProtectionAnnotations data) loadBalancerGatewayProgrammedFinalizer"
  obtain g where "setCondition gateway_ops w ?params h = (Inr g, h1)"
    using assms(1) unfolding protectGateway_def Let_def
    by (elim eff_bind_InrE) (simp add: wrapped_Inr eff_return_def)
  moreover have "sc_finalizer ?params = loadBalancerGatewayProgrammedFinalizer" "sc_resource ?params = rd_gateway data"
    by (simp_all add: gatewayCondition_def)
  moreover have "loadBalancerGatewayProgrammedFinalizer \<noteq> []" by (simp add: loadBalancerGatewayProgrammedFinalizer_def)
  ultimately show ?thesis using setCondition_stores assms(2) by metis
qed

lemma emits_protectGateway: "emits (\<lambda>c. \<not> cloudWrite c) (protectGateway w n data)"
  unfolding protectGateway_def Let_def wrapped_def
  by (intro emits_bind emits_attempt emits_setCondition) (auto intro: emits_return emits_fail split: sum.split)

end
