(* ===== verification/GatewaySafety.thy ===== *)
theory GatewaySafety
  imports Gateways
begin

text \<open>
  What the reconciliation of a Gateway may do to the cloud (\<open>gateway_model.go\<close>,
  \<open>gateway_controller.go\<close>): every step stays on the load balancer and on the CA bundles of the
  Gateway, and nothing is written there before the Gateway carries the finalizer that makes the
  controller clean up after it.
\<close>

section \<open>The scope of a Gateway\<close>

text \<open>The writes that belong to one Gateway on one load balancer.\<close>

fun gatewayScope :: "lb_env \<Rightarrow> gateway \<Rightarrow> string \<Rightarrow> lb_call \<Rightarrow> bool" where
  "gatewayScope w g lb (CreateBackendSet i _) \<longleftrightarrow> i = lb"
| "gatewayScope w g lb (UpdateBackendSet i _ _) \<longleftrightarrow> i = lb"
| "gatewayScope w g lb (DeleteBackendSet i n) \<longleftrightarrow> i = lb \<and> n = gatewayDefaultBackendSetName (gw_name g)"
| "gatewayScope w g lb (CreateListener i _) \<longleftrightarrow> i = lb"
| "gatewayScope w g lb (UpdateListener i _ _) \<longleftrightarrow> i = lb"
| "gatewayScope w g lb (DeleteListener i _) \<longleftrightarrow> i = lb"
| "gatewayScope w g lb (CreateRoutingPolicy i _) \<longleftrightarrow> i = lb"
| "gatewayScope w g lb (UpdateRoutingPolicy i _ _) \<longleftrightarrow> i = lb"
| "gatewayScope w g lb (DeleteRoutingPolicy i _) \<longleftrightarrow> i = lb"
| "gatewayScope w g lb (CreateCertificate i _) \<longleftrightarrow> i = lb"
| "gatewayScope w g lb (DeleteCertificate i _) \<longleftrightarrow> i = lb"
| "gatewayScope w g lb (CreateCaBundle d) \<longleftrightarrow> isOwnedFrontendMTLSCABundle (ccb_tags d) g"
| "gatewayScope w g lb (UpdateCaBundle i _ _) \<longleftrightarrow> listedOwned w g (\<lambda>_. True) i"
| "gatewayScope w g lb (DeleteCaBundle i) \<longleftrightarrow> listedOwned w g (\<lambda>_. True) i"
| "gatewayScope w g lb (UpdateGateway g') \<longleftrightarrow> gw_namespace g' = gw_namespace g \<and> gw_name g' = gw_name g"
| "gatewayScope w g lb c = reading c"

lemma listedOwned_weaken: "listedOwned w g p i \<Longrightarrow> listedOwned w g (\<lambda>_. True) i"
  unfolding listedOwned_def by blast

lemma scope_of_ensure: "ensureAllowed w g c \<Longrightarrow> gatewayScope w g lb c"
  by (cases c) (auto intro: listedOwned_weaken)

lemma scope_of_cleanup: "cleanupAllowed w g desired c \<Longrightarrow> gatewayScope w g lb c"
  by (cases c) (auto intro: listedOwned_weaken)

lemmas scope_steps = emits_mono [OF _ scope_of_ensure] emits_mono [OF _ scope_of_cleanup]

lemma scope_defaultBackendSet:
  "rdb_loadBalancerID params = lb \<Longrightarrow> emits (gatewayScope w g lb) (reconcileDefaultBackendSet w params)"
  by (auto simp: reconcileDefaultBackendSet_def updateBackendSetConfig_def Let_def intro!: emits_intros split: option.split sum.split)

lemma scope_frontendMTLS:
  "rl_gateway params \<in> {None, Some g} \<Longrightarrow> emits (gatewayScope w g lb) (applyFrontendMTLS w params ssl)"
  by (auto simp: applyFrontendMTLS_def Let_def
      intro!: emits_intros scope_steps(1) [OF resolveCARef_emits] scope_steps(1) [OF trustedCAIDs_emits]
      split: sum.split option.split)

lemma scope_listenerPolicy:
  "rl_loadBalancerID params = lb \<Longrightarrow> emits (gatewayScope w g lb) (reconcileListenerRoutingPolicy w params)"
  by (auto simp: reconcileListenerRoutingPolicy_def reconcileListenerRoutingPolicyLocked_def
      getListenerRoutingPolicy_def updateListenerRoutingPolicyDefaultRule_def createListenerRoutingPolicy_def Let_def intro!: emits_intros
      split: sum.split option.split)

lemma scope_listener:
  assumes "rl_gateway params \<in> {None, Some g}" "rl_loadBalancerID params = lb"
  shows "emits (gatewayScope w g lb) (reconcileHTTPListener w params)"
  using assms(2)
  by (auto simp: reconcileHTTPListener_def reconcileExistingHTTPListener_def
      createHTTPListener_def Let_def intro!: emits_intros scope_listenerPolicy scope_frontendMTLS [OF assms(1)]
      split: sum.split option.split)

lemma scope_listeners:
  "emits (gatewayScope w (rd_gateway data) (rd_loadBalancerID data))
    (reconcileGatewayListeners w data loadBalancer name certificates listeners)"
  unfolding reconcileGatewayListeners_def
  by (auto simp: gatewayListenerParams_def intro!: emits_intros emits_wrapped scope_listener)

lemma scope_deleteListener: "emits (gatewayScope w g lb) (deleteMissingListener w lb l)"
  by (auto simp: deleteMissingListener_def intro!: emits_intros)

lemma scope_removeMissing:
  "rm_loadBalancerID params = lb \<Longrightarrow> emits (gatewayScope w g lb) (removeMissingListeners w params)"
  by (auto simp: removeMissingListeners_def removeOrphanedListenerRoutingPolicies_def
      intro!: emits_intros scope_deleteListener emits_deletePolicy split: prod.split)

lemma scope_removeCertificates:
  "rc_loadBalancerID params = lb \<Longrightarrow> emits (gatewayScope w g lb) (removeUnusedCertificates w params)"
  by (auto simp: removeUnusedCertificates_def deleteCertificate_def intro!: emits_intros split: prod.split option.split)

lemma scope_cleanup: "emits (gatewayScope w g lb) (cleanupFrontendMTLSCABundles w (Some g) cp desired)"
  by (auto simp: cleanupFrontendMTLSCABundles_def intro!: emits_intros scope_steps(2) [OF cleanupInCompartment_emits])

lemma scope_secretCertificate:
  "emits (gatewayScope w g lb) (reconcileListenerSecretCertificate cache w lb ns gateway l ref known)"
proof -
  have pems: "emits (gatewayScope w g lb) (resolveCAPEMs w g' refs)" for g' refs
    by (induction refs) (auto intro!: emits_intros scope_steps(1) [OF resolveCARef_emits])
  have "emits (gatewayScope w g lb) (frontendMTLSCAForListenerCertificate w g' l)" for g'
    by (auto simp: frontendMTLSCAForListenerCertificate_def Let_def intro!: emits_intros pems split: sum.split)
  then show ?thesis
    by (auto simp: reconcileListenerSecretCertificate_def getListenerCertificateSecret_def createUnderLock_def
        createListenerCertificate_def Let_def intro!: emits_intros split: prod.split sum.split option.split)
qed

lemma scope_certificatesLoop:
  "emits (gatewayScope w g lb) (listenersCertificatesLoop cache w lb gateway ids ls known byListener)"
proof (induction ls arbitrary: known byListener)
  case (Cons l ls)
  have "emits (gatewayScope w g lb) (secretCertificatesLoop
      (reconcileListenerSecretCertificate cache w lb ns gateway' l) ns' seen refs k)" for ns gateway' ns' seen refs k
    by (induction refs arbitrary: seen k) (auto intro!: emits_intros scope_secretCertificate split: prod.split)
  then show ?case
    using Cons by (auto simp: reconcileListenerSecretCertificates_def intro!: emits_intros split: prod.split option.split)
qed (simp add: emits_return)

lemma scope_certificates:
  "emits (gatewayScope w (rd_gateway data) (rd_loadBalancerID data))
    (reconcileGatewayListenerCertificates cache w data listeners loadBalancer)"
  by (auto simp: reconcileGatewayListenerCertificates_def reconcileListenersCertificates_def
      failClosedFrontendMTLSListeners_def Let_def
      intro!: emits_intros emits_wrapped scope_certificatesLoop scope_removeMissing split: sum.split)

lemma scope_programGatewayOn:
  "emits (gatewayScope w (rd_gateway data) (rd_loadBalancerID data)) (programGatewayOn cache w data loadBalancer)"
  unfolding programGatewayOn_def Let_def removeMissingGatewayListeners_def cleanupGatewayFrontendMTLSCABundles_def
    removeUnusedGatewayCertificates_def
  by (auto intro!: emits_intros emits_wrapped scope_defaultBackendSet scope_certificates scope_listeners scope_removeMissing
      scope_cleanup scope_removeCertificates split: option.split)

lemma scope_programGateway:
  "emits (gatewayScope w (rd_gateway data) (rd_loadBalancerID data)) (programGateway cache w data)"
proof -
  have "emits (gatewayScope w (rd_gateway data) (rd_loadBalancerID data))
      (programGatewayOn cache w (data\<lparr>rd_loadBalancer := Some loadBalancer\<rparr>) loadBalancer)" for loadBalancer
    using scope_programGatewayOn [of w "data\<lparr>rd_loadBalancer := Some loadBalancer\<rparr>"] by simp
  then show ?thesis
    by (auto simp: programGateway_def Let_def intro!: emits_intros split: sum.split)
qed

text \<open>The load balancer that is cleaned up: the one of the configuration, or else the recorded one.\<close>

definition deprovisionedLoadBalancer :: "resolved_gateway_details \<Rightarrow> string" where
  "deprovisionedLoadBalancer data =
     (if rd_loadBalancerID data = [] then map_get (gw_annotations (rd_gateway data)) loadBalancerGatewayIDAnnotation
      else rd_loadBalancerID data)"

lemma scope_deprovisionResources:
  "emits (gatewayScope w (rd_gateway data) lb) (deprovisionGatewayLoadBalancerResources w data lb)"
  unfolding deprovisionGatewayLoadBalancerResources_def removeUnusedGatewayCertificates_def Let_def deprovisionBackendSetByName_def
  by (auto simp: wait_for_def intro!: emits_intros emits_wrapped scope_removeMissing scope_cleanup scope_removeCertificates
      split: sum.split option.split)

text \<open>
  C13: Programming a Gateway and deprovisioning it write only to its own load balancer, to CA bundles
  that carry its tags and to the Gateway itself; no other load balancer, bundle or object changes.
\<close>

theorem gateway_writes_in_scope:
  "emits (gatewayScope w (rd_gateway data) (rd_loadBalancerID data)) (programGateway cache w data) \<and>
   emits (gatewayScope w (rd_gateway data) (deprovisionedLoadBalancer data)) (deprovisionGateway w data)"
proof
  show "emits (gatewayScope w (rd_gateway data) (deprovisionedLoadBalancer data)) (deprovisionGateway w data)"
    unfolding deprovisionGateway_def Let_def deprovisionedLoadBalancer_def [symmetric]
    by (auto simp: deprovisionedGateway_def intro!: emits_intros scope_deprovisionResources split: option.split)
qed (rule scope_programGateway)

section \<open>The finalizer comes first\<close>

lemma setCondition_keeps_finalizers:
  assumes "setCondition gateway_ops w params h = (Inr g, h')" "sc_finalizer params = []"
  shows "gw_finalizers g = gw_finalizers (sc_resource params)"
  using gateway_object.setCondition_result [OF assms(1)] assms(2) by (simp add: applyMetadata_def gateway_ops_def Let_def)

lemma acceptGateway_keeps_finalizers:
  assumes "acceptGateway w n data h = (Inr data1, h1)"
  shows "gw_finalizers (rd_gateway data1) = gw_finalizers (rd_gateway data)"
proof (cases "isGatewayAccepted (rd_gateway data)")
  case False
  then obtain g params where "setCondition gateway_ops w params h = (Inr g, h1)" "data1 = data\<lparr>rd_gateway := g\<rparr>"
      "sc_finalizer params = []" "sc_resource params = rd_gateway data"
    using assms unfolding acceptGateway_def Let_def
    by (auto simp: wrapped_Inr eff_return_def gatewayCondition_def elim!: eff_bind_InrE)
  then show ?thesis using setCondition_keeps_finalizers by fastforce
qed (use assms in \<open>simp add: acceptGateway_def eff_return_def\<close>)

lemma emits_acceptGateway: "emits (\<lambda>c. \<not> cloudWrite c) (acceptGateway w n data)"
  unfolding acceptGateway_def Let_def by (auto intro!: emits_intros emits_wrapped emits_setCondition)

lemma extends_condition: "extends (setCondition gateway_ops w params)"
  by (rule emits_extends [OF emits_setCondition])

lemma extends_listenerSetProgrammed: "extends (setListenerSetsProgrammed w data name)"
  unfolding extends_def setListenerSetsProgrammed_def
  by (auto simp: setListenerSetProgrammed_def listenerSetAttachedRouteCounts_def addListenerSetHTTPRouteCounts_def
      addListenerSetGRPCRouteCounts_def addListenerSetTCPRouteCounts_def addListenerSetUDPRouteCounts_def
      addListenerSetTLSRouteCounts_def listed_def Let_def intro!: emits_intros split: option.split sum.split)

lemma extends_error: "extends (processResourceError w d err g)"
  unfolding extends_def processResourceError_def
  by (auto simp: driftRequeue_def shouldProgramRoute_def Let_def
      intro!: emits_intros emits_wrapped extends_condition [unfolded extends_def] split: option.split)

lemma extends_drift: "extends (driftRequeue w d)"
  unfolding extends_def by (auto simp: driftRequeue_def Let_def intro!: emits_intros)

lemma extends_setProgrammed: "extends (setProgrammed w data)"
  unfolding extends_def setProgrammed_def Let_def
  by (intro emits_intros emits_wrapped extends_condition [unfolded extends_def]
      extends_listenerSetProgrammed [unfolded extends_def])

lemma extends_afterProtection:
  "extends (eff_bind (eff_attempt (programGateway cache w data)) (\<lambda>r. case r of
       Inl err \<Rightarrow> processResourceError w d err (rd_gateway data)
     | Inr data2 \<Rightarrow> eff_bind (setProgrammed w data2) (\<lambda>_. driftRequeue w d)))"
  using emits_extends [OF scope_programGateway] extends_setProgrammed extends_drift extends_error unfolding extends_def
  by (intro emits_bind emits_attempt) (auto intro: emits_bind split: sum.split)

text \<open>
  A controller that accepts an object, protects it with a finalizer and only then works on the
  cloud. A step after the acceptance does nothing, or it protects first.
\<close>

locale protected_controller =
  fixes accept :: "lb_env \<Rightarrow> string \<Rightarrow> 'd \<Rightarrow> 'd lb_op"
    and step :: "'k \<Rightarrow> lb_env \<Rightarrow> string \<Rightarrow> 'd \<Rightarrow> int lb_op"
    and protect :: "lb_env \<Rightarrow> string \<Rightarrow> 'd \<Rightarrow> 'd lb_op"
    and after :: "'k \<Rightarrow> lb_env \<Rightarrow> 'd \<Rightarrow> int lb_op"
    and finalizer :: string
    and finalizers :: "'d \<Rightarrow> string list"
  assumes quiet_accept: "emits (\<lambda>c. \<not> cloudWrite c) (accept w n data)"
    and quiet_protect: "emits (\<lambda>c. \<not> cloudWrite c) (protect w n data)"
    and extends_after: "extends (after k w data)"
    and step_protects: "snd (step k w n data h) = h \<or> step k w n data h = eff_bind (protect w n data) (after k w) h"
    and accept_keeps: "accept w n data h = (Inr data1, h1) \<Longrightarrow> finalizers data1 = finalizers data"
    and protect_stores: "protect w n data h = (Inr data1, h1) \<Longrightarrow> finalizer \<notin> set (finalizers data) \<Longrightarrow>
      \<exists>cs. h1 = h @ cs \<and> finalizerStored w finalizer h cs"
begin

lemma extends_step: "extends (step k w n data)"
proof -
  have "extends (eff_bind (protect w n data) (after k w))"
    using emits_extends [OF quiet_protect] extends_after unfolding extends_def by (intro emits_bind)
  then have "\<exists>cs. snd (step k w n data h) = h @ cs" for h
    using step_protects [of k w n data h] extendsD by (metis append_Nil2)
  then show ?thesis unfolding extends_def emits_def by (auto simp: list_all_iff)
qed

lemma finalizer_before_writes:
  assumes "snd (eff_bind (accept w n data) (step k w n) h) = h @ xs @ c # ys" "cloudWrite c"
  shows "finalizer \<in> set (finalizers data) \<or> (\<exists>ps qs. xs = ps @ qs \<and> finalizerStored w finalizer h ps)"
proof -
  obtain data1 as xs1 where accepts: "accept w n data h = (Inr data1, h @ as)" "xs = as @ xs1"
      and later: "snd (step k w n data1 (h @ as)) = (h @ as) @ xs1 @ c # ys"
    using emits_guard [OF quiet_accept extends_step assms] by blast
  then have run: "snd (eff_bind (protect w n data1) (after k w) (h @ as)) = (h @ as) @ xs1 @ c # ys"
    using step_protects [of k w n data1 "h @ as"] by auto
  obtain data2 bs xs2 where protects: "protect w n data1 (h @ as) = (Inr data2, (h @ as) @ bs)" "xs1 = bs @ xs2"
    using emits_guard [OF quiet_protect extends_after run assms(2)] by blast
  show ?thesis
  proof (cases "finalizer \<in> set (finalizers data)")
    case False
    then have "finalizerStored w finalizer (h @ as) bs"
      using protect_stores [OF protects(1)] accept_keeps [OF accepts(1)] by auto
    then have "finalizerStored w finalizer h (as @ bs)" by (rule finalizerStored_later)
    then show ?thesis using accepts(2) protects(2) by (metis append.assoc)
  qed simp
qed

end

text \<open>The steps of the controller of Gateways on Load Balancers.\<close>

definition albGatewayStep :: "cert_cache \<times> int \<Rightarrow> lb_env \<Rightarrow> string \<Rightarrow> resolved_gateway_details \<Rightarrow> int lb_op" where
  "albGatewayStep k w n data1 = eff_bind (eff_ask (env_order w)) (\<lambda>order.
     if \<not> isProgrammed order data1 \<or> snd k > 0 then programAcceptedGateway (fst k) w (snd k) n data1
     else driftRequeue w (snd k))"

definition albGatewayAfter :: "cert_cache \<times> int \<Rightarrow> lb_env \<Rightarrow> resolved_gateway_details \<Rightarrow> int lb_op" where
  "albGatewayAfter k w data = eff_bind (eff_attempt (programGateway (fst k) w data)) (\<lambda>r. case r of
       Inl err \<Rightarrow> processResourceError w (snd k) err (rd_gateway data)
     | Inr data2 \<Rightarrow> eff_bind (setProgrammed w data2) (\<lambda>_. driftRequeue w (snd k)))"

lemma quiet_drift: "snd (driftRequeue w d h) = h"
  by (simp add: driftRequeue_def Let_def eff_simps)

interpretation alb_gateways: protected_controller acceptGateway albGatewayStep protectGateway albGatewayAfter
  loadBalancerGatewayProgrammedFinalizer "\<lambda>data. gw_finalizers (rd_gateway data)"
proof unfold_locales
  show "extends (albGatewayAfter k w data)" for k w data
    unfolding albGatewayAfter_def by (rule extends_afterProtection)
  show "snd (albGatewayStep k w n data h) = h \<or>
      albGatewayStep k w n data h = eff_bind (protectGateway w n data) (albGatewayAfter k w) h" for k w n data h
    by (simp add: albGatewayStep_def albGatewayAfter_def [abs_def] programAcceptedGateway_def eff_bind_ask quiet_drift)
qed (rule emits_acceptGateway emits_protectGateway acceptGateway_keeps_finalizers protectGateway_stores; assumption?)+

text \<open>
  C12: Nothing is written to the load balancer or to the certificates service for a Gateway that is
  not deleted before the Gateway carries the finalizer: either it had it already, or an update of
  the Gateway that adds it was accepted before.
\<close>

theorem finalizer_before_cloud_writes:
  assumes "snd (reconcileRelevantGateway cache w d n data h) = h @ xs @ c # ys"
    and "\<not> gw_deleting (rd_gateway data)" "cloudWrite c"
  shows "loadBalancerGatewayProgrammedFinalizer \<in> set (gw_finalizers (rd_gateway data)) \<or>
    (\<exists>ps qs. xs = ps @ qs \<and> finalizerStored w loadBalancerGatewayProgrammedFinalizer h ps)"
proof -
  have "snd (eff_bind (acceptGateway w n data) (albGatewayStep (cache, d) w n) h) = h @ xs @ c # ys"
    using assms(1,2) unfolding reconcileRelevantGateway_def albGatewayStep_def fst_conv snd_conv by simp
  then show ?thesis by (rule alb_gateways.finalizer_before_writes [OF _ assms(3)])
qed

text \<open>A Gateway whose certificate and listener were never programmed.\<close>

definition freshGateway :: gateway where
  "freshGateway = exampleGateway\<lparr>gw_finalizers := []\<rparr>"

definition freshGatewayDetails :: resolved_gateway_details where
  "freshGatewayDetails = resolvedGateway freshGateway \<lparr>gc_name = ''oci'', gc_controller = ControllerClassName,
     gc_generation = 1, gc_finalizers = [], gc_annotations = [], gc_conditions = []\<rparr> ''lb''"

definition foundEnv :: lb_env where
  "foundEnv = agreeable_env\<lparr>env_load_balancer := \<lambda>_ _. Inr exampleLoadBalancer\<rparr>"

definition freshGatewayCalls :: "lb_call list" where
  "freshGatewayCalls = snd (reconcileRelevantGateway (\<lambda>_ _. None) foundEnv 0 ''ns/gw'' freshGatewayDetails [])"

lemma fresh_writes: "list_ex cloudWrite freshGatewayCalls \<and> \<not> gw_deleting (rd_gateway freshGatewayDetails) \<and>
    loadBalancerGatewayProgrammedFinalizer \<notin> set (gw_finalizers (rd_gateway freshGatewayDetails))"
  by code_simp

theorem finalizer_before_cloud_writes_witness:
  "\<exists>xs c ys. freshGatewayCalls = xs @ c # ys \<and> cloudWrite c \<and>
    (\<exists>ps qs. xs = ps @ qs \<and> finalizerStored foundEnv loadBalancerGatewayProgrammedFinalizer [] ps)"
proof -
  obtain xs c ys where calls: "freshGatewayCalls = xs @ c # ys" and c: "cloudWrite c"
    using fresh_writes by (auto simp: list_ex_iff in_set_conv_decomp)
  from finalizer_before_cloud_writes [of "\<lambda>_ _. None" foundEnv 0 "''ns/gw''" freshGatewayDetails "[]" xs c ys]
  show ?thesis using calls c fresh_writes by (simp add: freshGatewayCalls_def) metis
qed

section \<open>Broken frontend mTLS\<close>

text \<open>
  When the certificates of a Gateway's listeners cannot be set up because its frontend mTLS
  configuration is invalid, a delete request goes out for every listener of the Gateway on the
  load balancer that asks for client certificates, before the error is reported: an unprotected
  listener is not left behind.
\<close>

theorem invalid_mtls_takes_listeners_down:
  assumes "fst (reconcileListenersCertificates cache w (rd_loadBalancerID data) (rd_gateway data) listeners
      (lb_certificates loadBalancer) h) = Inl err" "isFrontendMTLSStatusError err"
    and "(name, known) \<in> set (lb_listeners loadBalancer)"
    and "name \<in> set (annotatedResourceNames (rd_gateway data) loadBalancerGatewayProgrammedListenersAnnotation)"
    and "\<forall>l \<in> set listeners. l_name l = name \<longrightarrow> listenerUsesFrontendMTLS (rd_gateway data) l"
  shows "DeleteListener (rd_loadBalancerID data) (ll_name known) \<in>
    set (snd (reconcileGatewayListenerCertificates cache w data listeners loadBalancer h))"
proof -
  let ?params = "\<lparr>rm_loadBalancerID = rd_loadBalancerID data, rm_knownListeners = lb_listeners loadBalancer,
      rm_knownRoutingPolicies = lb_routing_policies loadBalancer,
      rm_cleanupListenerNames = Some (gatewayCleanupListenerNames (rd_gateway data)
        (gatewayListenersWithoutFrontendMTLS (rd_gateway data) listeners)),
      rm_gatewayListeners = gatewayListenersWithoutFrontendMTLS (rd_gateway data) listeners\<rparr>"
  obtain h1 where cert: "reconcileListenersCertificates cache w (rd_loadBalancerID data) (rd_gateway data) listeners
      (lb_certificates loadBalancer) h = (Inl err, h1)"
    using assms(1) by (metis prod.collapse)
  have "missingListener ?params (name, known)"
    using assms(4,5) by (auto simp: missingListener_def gatewayCleanupListenerNames_def mergeNameSets_def
        gatewayListenersWithoutFrontendMTLS_def)
  then have removed: "issues (DeleteListener (rd_loadBalancerID data) (ll_name known)) (removeMissingListeners w ?params)"
    using removeMissing_issues [of name known ?params] assms(3) by simp
  have wrapped_calls: "snd (wrapped pre m h) = snd (m h)" for pre and m :: "unit lb_op" and h
    by (cases "m h"; cases "fst (m h)") (auto simp: wrapped_def eff_bind_def eff_attempt_run eff_fail_def eff_return_def)
  obtain cs where "snd (removeMissingListeners w ?params h1) = h1 @ cs"
      "DeleteListener (rd_loadBalancerID data) (ll_name known) \<in> set cs"
    using removed unfolding issues_def by blast
  then have "DeleteListener (rd_loadBalancerID data) (ll_name known) \<in>
      set (snd (failClosedFrontendMTLSListeners w data listeners loadBalancer h1))"
    by (simp add: failClosedFrontendMTLSListeners_def Let_def wrapped_calls)
  then show ?thesis
    using cert assms(2)
    by (cases "failClosedFrontendMTLSListeners w data listeners loadBalancer h1"; cases "fst (failClosedFrontendMTLSListeners w data listeners loadBalancer h1)")
      (simp_all add: reconcileGatewayListenerCertificates_def eff_bind_def eff_attempt_run eff_fail_def eff_return_def)
qed

definition brokenMTLSDetails :: resolved_gateway_details where
  "brokenMTLSDetails = resolvedGateway (freshGateway\<lparr>gw_annotations :=
       [(frontendMTLSTrustedCABundleOCIDsAnnotation, ''ocid''),
        (loadBalancerGatewayProgrammedListenersAnnotation, ''http'')]\<rparr>)
     \<lparr>gc_name = ''oci'', gc_controller = ControllerClassName, gc_generation = 1, gc_finalizers = [],
      gc_annotations = [], gc_conditions = []\<rparr> ''lb''"

definition mtlsListener :: gw_listener where
  "mtlsListener = crossListener\<lparr>l_name := ''http''\<rparr>"

lemma broken_run: "case fst (reconcileListenersCertificates (\<lambda>_ _. None) (secretEnv []) ''lb'' (rd_gateway brokenMTLSDetails)
    [mtlsListener] (lb_certificates exampleLoadBalancer) []) of Inl err \<Rightarrow> isFrontendMTLSStatusError err | Inr _ \<Rightarrow> False"
  by code_simp

lemma broken_listener:
  "listenerUsesFrontendMTLS (rd_gateway brokenMTLSDetails) mtlsListener \<and> rd_loadBalancerID brokenMTLSDetails = ''lb'' \<and>
    ''http'' \<in> set (annotatedResourceNames (rd_gateway brokenMTLSDetails) loadBalancerGatewayProgrammedListenersAnnotation)"
  by code_simp

theorem invalid_mtls_takes_listeners_down_witness:
  "DeleteListener ''lb'' (ll_name exampleListener) \<in> set (snd (reconcileGatewayListenerCertificates (\<lambda>_ _. None)
     (secretEnv []) brokenMTLSDetails [mtlsListener] (exampleLoadBalancer\<lparr>lb_listeners := [(''http'', exampleListener)]\<rparr>) []))"
proof -
  obtain err where "fst (reconcileListenersCertificates (\<lambda>_ _. None) (secretEnv []) ''lb'' (rd_gateway brokenMTLSDetails)
      [mtlsListener] (lb_certificates exampleLoadBalancer) []) = Inl err" "isFrontendMTLSStatusError err"
    using broken_run by (auto split: sum.splits)
  with invalid_mtls_takes_listeners_down [of "\<lambda>_ _. None" "secretEnv []" brokenMTLSDetails "[mtlsListener]"
      "exampleLoadBalancer\<lparr>lb_listeners := [(''http'', exampleListener)]\<rparr>" "[]" err "''http''" exampleListener]
  show ?thesis using broken_listener by simp
qed

section \<open>The finalizer goes last\<close>

fun deletionOnly :: "lb_call \<Rightarrow> bool" where
  "deletionOnly (DeleteListener _ _) = True"
| "deletionOnly (DeleteRoutingPolicy _ _) = True"
| "deletionOnly (DeleteCertificate _ _) = True"
| "deletionOnly (DeleteBackendSet _ _) = True"
| "deletionOnly (DeleteCaBundle _) = True"
| "deletionOnly c = reading c"

lemma deletionOnly_cleanup: "cleanupAllowed w g desired c \<Longrightarrow> deletionOnly c"
  by (cases c) simp_all

lemma deletionOnly_steps:
  "emits deletionOnly (removeMissingListeners w params)"
  "emits deletionOnly (removeUnusedCertificates w cparams)"
  "emits deletionOnly (cleanupFrontendMTLSCABundles w (Some g) cp desired)"
  "emits deletionOnly (deprovisionBackendSetByName w lb name)"
     apply (auto simp: removeMissingListeners_def removeOrphanedListenerRoutingPolicies_def deleteMissingListener_def
      intro!: emits_intros emits_deletePolicy split: prod.split)[1]
    apply (auto simp: removeUnusedCertificates_def deleteCertificate_def intro!: emits_intros split: prod.split option.split)[1]
   apply (auto simp: cleanupFrontendMTLSCABundles_def
      intro!: emits_intros emits_mono [OF cleanupInCompartment_emits deletionOnly_cleanup])[1]
  apply (auto simp: deprovisionBackendSetByName_def wait_for_def intro!: emits_intros split: sum.split option.split)[1]
  done

lemma deletionOnly_resources: "emits deletionOnly (deprovisionGatewayLoadBalancerResources w data lb)"
  unfolding deprovisionGatewayLoadBalancerResources_def removeUnusedGatewayCertificates_def Let_def
  by (auto intro!: emits_intros emits_wrapped deletionOnly_steps split: sum.split)


lemma deprovision_run: "case snd (deprovisionGateway foundEnv freshGatewayDetails []) of
    calls \<Rightarrow> calls \<noteq> [] \<and> (case last calls of UpdateGateway g \<Rightarrow> True | _ \<Rightarrow> False)"
  by code_simp


end
