(* ===== verification/L7RouteModels.thy ===== *)
theory L7RouteModels
  imports L7Routes Gateways
begin

text \<open>
  The models of HTTPRoutes and GRPCRoutes (\<open>httproute_model.go\<close>, \<open>grpcroute_model.go\<close>): the
  parents of a route, its acceptance, programming, deprovisioning and status. The two files are
  the same code for two kinds of routes up to the names they use; a record says what is
  particular to a kind, and the few operations that differ are written for each.
\<close>

section \<open>The two kinds\<close>

definition HTTPRouteProgrammingRevisionAnnotation :: string where
  "HTTPRouteProgrammingRevisionAnnotation = ''oke-gateway-api.gemyago.github.io/http-route-programming-revision''"

definition HTTPRouteProgrammingRevisionValue :: string where
  "HTTPRouteProgrammingRevisionValue = ''6''"

definition HTTPRouteProgrammedPolicyRulesAnnotation :: string where
  "HTTPRouteProgrammedPolicyRulesAnnotation = ''oke-gateway-api.gemyago.github.io/http-route-programmed-lb-policy-rules''"

definition HTTPRouteProgrammedBackendSetsAnnotation :: string where
  "HTTPRouteProgrammedBackendSetsAnnotation = ''oke-gateway-api.gemyago.github.io/http-route-programmed-lb-backend-sets''"

definition L7RouteProgrammedLoadBalancerIDAnnotation :: string where
  "L7RouteProgrammedLoadBalancerIDAnnotation = ''oke-gateway-api.gemyago.github.io/l7-route-programmed-load-balancer-id''"

definition HTTPRouteProgrammedFinalizer :: string where
  "HTTPRouteProgrammedFinalizer = ''oke-gateway-api.gemyago.github.io/http-route-programmed''"

definition GRPCRouteProgrammingRevisionAnnotation :: string where
  "GRPCRouteProgrammingRevisionAnnotation = ''oke-gateway-api.gemyago.github.io/grpc-route-programming-revision''"

definition GRPCRouteProgrammingRevisionValue :: string where
  "GRPCRouteProgrammingRevisionValue = ''3''"

definition GRPCRouteProgrammedPolicyRulesAnnotation :: string where
  "GRPCRouteProgrammedPolicyRulesAnnotation = ''oke-gateway-api.gemyago.github.io/grpc-route-programmed-lb-policy-rules''"

definition GRPCRouteProgrammedBackendSetsAnnotation :: string where
  "GRPCRouteProgrammedBackendSetsAnnotation = ''oke-gateway-api.gemyago.github.io/grpc-route-programmed-lb-backend-sets''"

definition GRPCRouteProgrammedFinalizer :: string where
  "GRPCRouteProgrammedFinalizer = ''oke-gateway-api.gemyago.github.io/grpc-route-programmed''"

text \<open>
  \<open>lk_text\<close> names the kind, \<open>lk_statusText\<close> is the spelling of one error text; \<open>lk_opposite\<close> lists
  the candidates of the other kind; \<open>lk_goneIsFine\<close>: a route that vanished meanwhile is no error.
\<close>

record 'm l7_kind =
  lk_kind :: l7RouteKind
  lk_text :: string
  lk_statusText :: string
  lk_ops :: "'m l7_route object_ops"
  lk_get :: "lb_env \<Rightarrow> string \<Rightarrow> string \<Rightarrow> (error + 'm l7_route) lb_op"
  lk_opposite :: "lb_env \<Rightarrow> (error + l7_route_candidate list) lb_op"
  lk_oppositeListName :: string
  lk_supports :: "gw_listener \<Rightarrow> bool"
  lk_makeRule :: "'m l7_route \<Rightarrow> nat \<Rightarrow> int \<Rightarrow> error + routing_rule"
  lk_revisionAnnotation :: string
  lk_revision :: string
  lk_policyRules :: string
  lk_backendSets :: string
  lk_finalizer :: string
  lk_goneIsFine :: bool

definition routeCandidate :: "l7RouteKind \<Rightarrow> 'm l7_route \<Rightarrow> l7_route_candidate" where
  "routeCandidate kind route =
     \<lparr>cand_identity = \<lparr>ri_kind = kind, ri_namespace = rt_namespace route, ri_name = rt_name route,
        ri_creation = rt_creation route\<rparr>,
      cand_parentRefs = rt_parent_refs route, cand_hostnames = rt_hostnames route\<rparr>"

definition conflictCandidates :: "l7RouteKind \<Rightarrow> error + 'm l7_route list \<Rightarrow> error + l7_route_candidate list" where
  "conflictCandidates kind r =
     (case r of Inl err \<Rightarrow> Inl err
      | Inr routes \<Rightarrow> Inr (map (routeCandidate kind) (filter (\<lambda>route. \<not> rt_deleting route) routes)))"

definition listGRPCRouteConflictCandidates :: "lb_env \<Rightarrow> (error + l7_route_candidate list) lb_op" where
  "listGRPCRouteConflictCandidates w =
     eff_bind (list_grpc_routes w) (\<lambda>r. eff_return (conflictCandidates l7GRPCRouteKind r))"

definition listHTTPRouteConflictCandidates :: "lb_env \<Rightarrow> (error + l7_route_candidate list) lb_op" where
  "listHTTPRouteConflictCandidates w =
     eff_bind (list_http_routes w) (\<lambda>r. eff_return (conflictCandidates l7HTTPRouteKind r))"

definition http_kind :: "http_route_match l7_kind" where
  "http_kind = \<lparr>lk_kind = l7HTTPRouteKind, lk_text = ''HTTPRoute'', lk_statusText = ''HTTProute'',
     lk_ops = http_route_ops, lk_get = get_http_route, lk_opposite = listGRPCRouteConflictCandidates,
     lk_oppositeListName = ''GRPCRoutes'', lk_supports = (\<lambda>_. True), lk_makeRule = makeRoutingRule,
     lk_revisionAnnotation = HTTPRouteProgrammingRevisionAnnotation, lk_revision = HTTPRouteProgrammingRevisionValue,
     lk_policyRules = HTTPRouteProgrammedPolicyRulesAnnotation, lk_backendSets = HTTPRouteProgrammedBackendSetsAnnotation,
     lk_finalizer = HTTPRouteProgrammedFinalizer, lk_goneIsFine = True\<rparr>"

definition grpc_kind :: "grpc_route_match l7_kind" where
  "grpc_kind = \<lparr>lk_kind = l7GRPCRouteKind, lk_text = ''GRPCRoute'', lk_statusText = ''GRPCRoute'',
     lk_ops = grpc_route_ops, lk_get = get_grpc_route, lk_opposite = listHTTPRouteConflictCandidates,
     lk_oppositeListName = ''HTTPRoutes'', lk_supports = (\<lambda>l. grpcRouteListenerProtocolSupported (l_protocol l)),
     lk_makeRule = makeGRPCRoutingRule,
     lk_revisionAnnotation = GRPCRouteProgrammingRevisionAnnotation, lk_revision = GRPCRouteProgrammingRevisionValue,
     lk_policyRules = GRPCRouteProgrammedPolicyRulesAnnotation, lk_backendSets = GRPCRouteProgrammedBackendSetsAnnotation,
     lk_finalizer = GRPCRouteProgrammedFinalizer, lk_goneIsFine = False\<rparr>"

section \<open>The parents of a route\<close>

record route_parent_result_key =
  rk_kind :: string
  rk_namespace :: string
  rk_name :: string

definition directParentResultKey :: "parent_ref \<Rightarrow> string \<Rightarrow> route_parent_result_key" where
  "directParentResultKey parentRef routeNamespace =
     (case parentRefTargetName parentRef routeNamespace of (ns, name) \<Rightarrow>
        \<lparr>rk_kind = (case pr_kind parentRef of Some k \<Rightarrow> k | None \<Rightarrow> ''Gateway''), rk_namespace = ns, rk_name = name\<rparr>)"

definition makeTargetOnlyParentRef :: "parent_ref \<Rightarrow> parent_ref" where
  "makeTargetOnlyParentRef parentRef = parentRef\<lparr>pr_section := None, pr_port := None\<rparr>"

record 'm resolved_route_details =
  dd_gatewayDetails :: resolved_gateway_details
  dd_route :: "'m l7_route"
  dd_matchedRef :: parent_ref
  dd_matchedListeners :: "gw_listener list"
  dd_attachmentDenied :: bool

definition resolveL7ParentGateway ::
    "lb_env \<Rightarrow> bool \<Rightarrow> parent_ref \<Rightarrow> string \<Rightarrow> resolved_gateway_details option lb_op" where
  "resolveL7ParentGateway w listenerSetEnabled parentRef routeNamespace =
     eff_bind (if parentRefTargetsListenerSet parentRef then listenerSetParentGatewayTarget w routeNamespace parentRef
         else if parentRefTargetsGateway parentRef then eff_return (Some (parentRefTargetName parentRef routeNamespace))
         else eff_return None) (\<lambda>target. case target of
         None \<Rightarrow> eff_return None
       | Some parentName \<Rightarrow>
           eff_bind (resolveReconcileRequest w listenerSetEnabled parentName) (\<lambda>resolved. case resolved of
               Unresolved _ err \<Rightarrow> eff_fail err
             | Irrelevant \<Rightarrow> eff_return None
             | Relevant details \<Rightarrow>
                 (if parentRefTargetsListenerSet parentRef \<and> rd_effectiveListeners details = []
                  then eff_bind (populateAttachedListenerSetsUnindexed w details) (\<lambda>d. eff_return (Some d))
                  else eff_return (Some details))))"

text \<open>The Gateway, the listeners that allow the route, and whether all of the matching ones refuse it.\<close>

definition resolveRouteParentRefData ::
    "'m l7_kind \<Rightarrow> lb_env \<Rightarrow> bool \<Rightarrow> 'm l7_route \<Rightarrow> parent_ref \<Rightarrow> string \<Rightarrow>
      (resolved_gateway_details \<times> gw_listener list \<times> bool) option lb_op" where
  "resolveRouteParentRefData K w listenerSetEnabled route parentRef defaultNamespace =
     (case parentRefTargetName parentRef defaultNamespace of (parentNamespace, parentName) \<Rightarrow>
      eff_bind (wrapped (errtext ''failed to resolve gateway '' (namespaced_name parentNamespace parentName)
          (errtext '' for route '' (namespaced_name (rt_namespace route) (rt_name route)) '': ''))
        (resolveL7ParentGateway w listenerSetEnabled parentRef defaultNamespace)) (\<lambda>resolved. case resolved of
          None \<Rightarrow> eff_return None
        | Some details \<Rightarrow>
            (let matchingListeners = effectiveListenersForParentRef details parentRef defaultNamespace
                   (\<lambda>ref listener. sectionMatches ref listener \<and> lk_supports K listener)
             in if matchingListeners = [] then eff_return None
                else eff_bind (allowedRouteListeners w details (rt_namespace route) matchingListeners (lk_text K))
                  (\<lambda>allowed. eff_return (Some (details, allowed, allowed = []))))))"

type_synonym 'm route_results = "(route_parent_result_key \<times> 'm resolved_route_details) list"

definition aggregateRouteParentRefData ::
    "'m route_results \<Rightarrow> 'm l7_route \<Rightarrow> resolved_gateway_details \<Rightarrow> parent_ref \<Rightarrow> gw_listener list \<Rightarrow> bool \<Rightarrow> 'm route_results" where
  "aggregateRouteParentRefData results route gatewayDetails matchedRef matchedListeners attachmentDenied =
     (let key = directParentResultKey matchedRef (rt_namespace route) in
      case map_of results key of
        Some existing \<Rightarrow>
          AList.update key (existing\<lparr>dd_matchedListeners := uniq_by l_name (dd_matchedListeners existing @ matchedListeners),
            dd_attachmentDenied := dd_attachmentDenied existing \<and> attachmentDenied\<rparr>) results
      | None \<Rightarrow>
          AList.update key \<lparr>dd_gatewayDetails = gatewayDetails, dd_route = route, dd_matchedRef = matchedRef,
            dd_matchedListeners = matchedListeners, dd_attachmentDenied = attachmentDenied\<rparr> results)"

fun resolveParentsLoop ::
    "'m l7_kind \<Rightarrow> lb_env \<Rightarrow> bool \<Rightarrow> 'm l7_route \<Rightarrow> string \<Rightarrow> parent_ref list \<Rightarrow> 'm route_results \<Rightarrow> 'm route_results lb_op" where
  "resolveParentsLoop K w enabled route ns [] results = eff_return results"
| "resolveParentsLoop K w enabled route ns (parentRef # rest) results =
     eff_bind (resolveRouteParentRefData K w enabled route parentRef ns) (\<lambda>r. case r of
         None \<Rightarrow> resolveParentsLoop K w enabled route ns rest results
       | Some (details, listeners, denied) \<Rightarrow>
           resolveParentsLoop K w enabled route ns rest
             (aggregateRouteParentRefData results route details (makeTargetOnlyParentRef parentRef) listeners denied))"

section \<open>Taking a route away\<close>

definition routeBackendRefs :: "'m l7_route \<Rightarrow> backend_ref list" where
  "routeBackendRefs route = concat (map rr_backend_refs (rt_rules route))"

definition httpRouteBackendRefs :: "http_route \<Rightarrow> backend_ref list" where
  "httpRouteBackendRefs route = routeBackendRefs route"

definition grpcRouteBackendRefs :: "grpc_route \<Rightarrow> backend_ref list" where
  "grpcRouteBackendRefs route = routeBackendRefs route"

definition updateAfterCleanup :: "'m l7_kind \<Rightarrow> lb_env \<Rightarrow> string \<Rightarrow> string \<Rightarrow> 'm l7_route \<Rightarrow> unit lb_op" where
  "updateAfterCleanup K w doing done_what route =
     eff_bind (k8s_update w (oo_update (lk_ops K) route)) (\<lambda>r. case r of
         None \<Rightarrow> eff_return ()
       | Some err \<Rightarrow>
           (if lk_goneIsFine K \<and> is_not_found err then eff_return ()
            else eff_fail (ErrWrap (errtext doing (lk_text K) (errtext '' '' (namespaced_name (rt_namespace route) (rt_name route))
              done_what)) err [])))"

definition removeDetachedRouteFinalizer :: "'m l7_kind \<Rightarrow> lb_env \<Rightarrow> 'm l7_route \<Rightarrow> unit lb_op" where
  "removeDetachedRouteFinalizer K w route =
     updateAfterCleanup K w ''failed to update detached '' '' after cleanup: ''
       (route\<lparr>rt_finalizers := removeFinalizer (lk_finalizer K) (rt_finalizers route),
         rt_annotations := map_delete_all [lk_policyRules K, L7RouteProgrammedLoadBalancerIDAnnotation] (rt_annotations route)\<rparr>)"

definition routeBackendSetsParams :: "'m l7_kind \<Rightarrow> 'm l7_route \<Rightarrow> string \<Rightarrow> deprovision_l7_backend_sets_params" where
  "routeBackendSetsParams K route loadBalancerID =
     \<lparr>dp_loadBalancerID = loadBalancerID, dp_routeKind = lk_text K, dp_routeNamespace = rt_namespace route,
      dp_routeName = rt_name route, dp_backendRefs = routeBackendRefs route,
      dp_previousBackendSets = annotatedBackendSetNames (rt_annotations route) (lk_backendSets K)\<rparr>"

definition deprovisionDetachedL7Route :: "'m l7_kind \<Rightarrow> lb_env \<Rightarrow> 'm l7_route \<Rightarrow> string \<Rightarrow> unit lb_op" where
  "deprovisionDetachedL7Route K w route loadBalancerID =
     (if loadBalancerID = [] then removeDetachedRouteFinalizer K w route
      else (let policyRules = map_get (rt_annotations route) (lk_policyRules K) in
        eff_bind (if policyRules = [] then eff_return ()
          else wrapped (errtext ''failed to remove detached '' (lk_text K) '' policy rules: '')
            (removeL7RoutePolicyRules w loadBalancerID [] policyRules)) (\<lambda>_.
        eff_bind (wrapped (errtext ''failed to deprovision detached '' (lk_text K) '' backend sets: '')
            (deprovisionL7BackendSets w (routeBackendSetsParams K route loadBalancerID))) (\<lambda>_.
          removeDetachedRouteFinalizer K w route))))"

definition deprovisionDetachedRoute :: "'m l7_kind \<Rightarrow> lb_env \<Rightarrow> 'm l7_route \<Rightarrow> unit lb_op" where
  "deprovisionDetachedRoute K w route =
     deprovisionDetachedL7Route K w route (map_get (rt_annotations route) L7RouteProgrammedLoadBalancerIDAnnotation)"

definition recordedRules :: "'m l7_kind \<Rightarrow> 'm l7_route \<Rightarrow> programmed_http_route_policy_rule list" where
  "recordedRules K route =
     (case map_of (rt_annotations route) (lk_policyRules K) of
        None \<Rightarrow> [] | Some annotation \<Rightarrow> parseProgrammedHTTPRoutePolicyRules annotation)"

text \<open>What both kinds do once there is something to take away.\<close>

definition deprovisionRecorded :: "'m l7_kind \<Rightarrow> lb_env \<Rightarrow> 'm l7_route \<Rightarrow> string \<Rightarrow> gw_listener list \<Rightarrow> unit lb_op" where
  "deprovisionRecorded K w route loadBalancerID matchedListeners =
     (let prevRulesByListener = previousPolicyRulesByListener (recordedRules K route) matchedListeners in
      eff_bind (eff_foreach (\<lambda>listenerName.
          wrapped (errtext ''failed to deprovision routing policy for listener '' listenerName '': '')
            (commitRemoval w loadBalancerID prevRulesByListener listenerName))
        (sort_strings (map fst prevRulesByListener))) (\<lambda>_.
      eff_bind (deprovisionL7BackendSets w (routeBackendSetsParams K route loadBalancerID)) (\<lambda>_.
        updateAfterCleanup K w ''failed to update '' '' after deprovisioning: ''
          (route\<lparr>rt_finalizers := removeFinalizer (lk_finalizer K) (rt_finalizers route)\<rparr>))))"

definition httpRoute_deprovisionRoute :: "lb_env \<Rightarrow> http_route \<Rightarrow> string \<Rightarrow> gw_listener list \<Rightarrow> unit lb_op" where
  "httpRoute_deprovisionRoute w route loadBalancerID matchedListeners =
     (if recordedRules http_kind route = [] then eff_return ()
      else deprovisionRecorded http_kind w route loadBalancerID matchedListeners)"

definition grpcRoute_deprovisionRoute :: "lb_env \<Rightarrow> grpc_route \<Rightarrow> string \<Rightarrow> gw_listener list \<Rightarrow> unit lb_op" where
  "grpcRoute_deprovisionRoute w route loadBalancerID matchedListeners =
     deprovisionRecorded grpc_kind w route loadBalancerID matchedListeners"

definition resolveRequest :: "'m l7_kind \<Rightarrow> lb_env \<Rightarrow> bool \<Rightarrow> string \<times> string \<Rightarrow> 'm route_results lb_op" where
  "resolveRequest K w listenerSetEnabled = (\<lambda>(ns, name).
     eff_bind (lk_get K w ns name) (\<lambda>r. case r of
         Inl err \<Rightarrow>
           (if is_not_found err then eff_return []
            else eff_fail (ErrWrap (errtext ''failed to get '' (lk_text K) (errtext '' '' (namespaced_name ns name) '': '')) err []))
       | Inr route \<Rightarrow>
           eff_bind (resolveParentsLoop K w listenerSetEnabled route ns (rt_parent_refs route) []) (\<lambda>results.
             if results = [] \<and> rt_deleting route \<and> lk_finalizer K \<in> set (rt_finalizers route)
             then eff_bind (wrapped (errtext ''failed to deprovision detached '' (lk_text K)
                 (errtext '' '' (namespaced_name ns name) '': '')) (deprovisionDetachedRoute K w route))
               (\<lambda>_. eff_return results)
             else eff_return results)))"

section \<open>Acceptance\<close>

definition routeParentIndex :: "resolved_gateway_details \<Rightarrow> parent_ref \<Rightarrow> 'm l7_route \<Rightarrow> nat option" where
  "routeParentIndex gatewayDetails matchedRef route =
     parent_index (gc_controller (rd_gatewayClass gatewayDetails)) matchedRef (rt_parents route)"

definition newParentStatus :: "resolved_gateway_details \<Rightarrow> parent_ref \<Rightarrow> route_parent_status" where
  "newParentStatus gatewayDetails matchedRef =
     \<lparr>rps_ref = makeTargetOnlyParentRef matchedRef, rps_controller = gc_controller (rd_gatewayClass gatewayDetails),
      rps_conditions = []\<rparr>"

text \<open>A condition in the status of the parent, which is added when it is missing.\<close>

definition withParentCondition :: "resolved_gateway_details \<Rightarrow> parent_ref \<Rightarrow> condition \<Rightarrow> 'm l7_route \<Rightarrow> 'm l7_route" where
  "withParentCondition gatewayDetails matchedRef cond route =
     (case routeParentIndex gatewayDetails matchedRef route of
        Some i \<Rightarrow> route\<lparr>rt_parents := (rt_parents route)[i := (rt_parents route ! i)
          \<lparr>rps_conditions := setStatusCondition (rps_conditions (rt_parents route ! i)) cond\<rparr>]\<rparr>
      | None \<Rightarrow> route\<lparr>rt_parents := rt_parents route @ [(newParentStatus gatewayDetails matchedRef)
          \<lparr>rps_conditions := setStatusCondition [] cond\<rparr>]\<rparr>)"

definition rejectL7Route :: "'m l7_kind \<Rightarrow> lb_env \<Rightarrow> 'm resolved_route_details \<Rightarrow> string \<Rightarrow> unit lb_op" where
  "rejectL7Route K w details message =
     (let route = dd_route details in
      eff_bind (k8s_update w (oo_update_status (lk_ops K)
          (withParentCondition (dd_gatewayDetails details) (dd_matchedRef details)
            \<lparr>cn_type = ''Accepted'', cn_status = ''False'', cn_reason = ''Conflicted'', cn_message = message,
             cn_generation = rt_generation route\<rparr> route))) (\<lambda>r. case r of
          None \<Rightarrow> eff_return ()
        | Some err \<Rightarrow> eff_fail (ErrWrap (errtext ''failed to update rejected status for '' (lk_text K)
            (errtext '' '' (rt_name route) '': '')) err [])))"

definition removeRecordedRules :: "'m l7_kind \<Rightarrow> lb_env \<Rightarrow> 'm resolved_route_details \<Rightarrow> unit lb_op" where
  "removeRecordedRules K w details =
     (case map_of (rt_annotations (dd_route details)) (lk_policyRules K) of
        None \<Rightarrow> eff_return ()
      | Some annotation \<Rightarrow>
          wrapped (errtext ''failed to remove rejected '' (lk_text K) '' policy rules: '')
            (removeL7RoutePolicyRules w (rd_loadBalancerID (dd_gatewayDetails details)) (dd_matchedListeners details) annotation))"

definition rejectRoute :: "'m l7_kind \<Rightarrow> lb_env \<Rightarrow> 'm resolved_route_details \<Rightarrow> string \<Rightarrow> unit lb_op" where
  "rejectRoute K w details message = eff_bind (removeRecordedRules K w details) (\<lambda>_. rejectL7Route K w details message)"

definition l7RouteConflictMessage :: "l7_route_candidate \<Rightarrow> string" where
  "l7RouteConflictMessage winner =
     errtext ''Route conflicts with '' (l7_route_kind_text (ri_kind (cand_identity winner)))
       (errtext '' '' (namespaced_name (ri_namespace (cand_identity winner)) (ri_name (cand_identity winner)))
         '' on an overlapping listener hostname'')"

definition routeConflictParams :: "'m l7_kind \<Rightarrow> 'm resolved_route_details \<Rightarrow> l7_route_conflict_params" where
  "routeConflictParams K details =
     \<lparr>co_gateway = rd_gateway (dd_gatewayDetails details),
      co_effectiveListeners = rd_effectiveListeners (dd_gatewayDetails details),
      co_matchedListeners = dd_matchedListeners details, co_current = routeCandidate (lk_kind K) (dd_route details)\<rparr>"

definition acceptedCondition :: "string \<Rightarrow> int \<Rightarrow> condition" where
  "acceptedCondition gatewayName generation =
     \<lparr>cn_type = ''Accepted'', cn_status = ''True'', cn_reason = ''Accepted'',
      cn_message = errtext ''Route accepted by '' gatewayName [], cn_generation = generation\<rparr>"

definition routeAlreadyAccepted :: "'m resolved_route_details \<Rightarrow> bool" where
  "routeAlreadyAccepted details =
     (case routeParentIndex (dd_gatewayDetails details) (dd_matchedRef details) (dd_route details) of
        None \<Rightarrow> False
      | Some i \<Rightarrow>
          (case findStatusCondition (rps_conditions (rt_parents (dd_route details) ! i)) ''Accepted'' of
             None \<Rightarrow> False
           | Some c \<Rightarrow> cn_generation c = rt_generation (dd_route details) \<and> cn_status c = ''True''))"

text \<open>\<open>None\<close>: the route was rejected.\<close>

definition acceptRoute :: "'m l7_kind \<Rightarrow> lb_env \<Rightarrow> 'm resolved_route_details \<Rightarrow> 'm l7_route option lb_op" where
  "acceptRoute K w details =
     (let route = dd_route details; gatewayName = gw_name (rd_gateway (dd_gatewayDetails details)) in
      if dd_attachmentDenied details then
        eff_bind (rejectRoute K w details (errtext ''matched listeners do not allow '' (lk_text K)
          (errtext '' '' (namespaced_name (rt_namespace route) (rt_name route)) []))) (\<lambda>_. eff_return None)
      else eff_bind (checkL7RouteConflict (routeConflictParams K details) (lk_oppositeListName K) (lk_opposite K w)) (\<lambda>winner.
        case winner of
          Some winner \<Rightarrow> eff_bind (rejectRoute K w details (l7RouteConflictMessage winner)) (\<lambda>_. eff_return None)
        | None \<Rightarrow>
            (if routeAlreadyAccepted details then eff_return (Some route)
             else (let accepted = withParentCondition (dd_gatewayDetails details) (dd_matchedRef details)
                     (acceptedCondition gatewayName (rt_generation route)) route
               in eff_bind (k8s_update w (oo_update_status (lk_ops K) accepted)) (\<lambda>r. case r of
                    None \<Rightarrow> eff_return (Some accepted)
                  | Some err \<Rightarrow> eff_fail (ErrWrap (errtext ''failed to update status for '' (lk_statusText K)
                      (errtext '' '' (rt_name route) '': '')) err []))))))"

section \<open>Status\<close>

definition parentStatusNotFound :: "resolved_gateway_details \<Rightarrow> parent_ref \<Rightarrow> error" where
  "parentStatusNotFound gatewayDetails matchedRef =
     ErrText (errtext ''parent status not found for controller '' (gc_controller (rd_gatewayClass gatewayDetails))
       (errtext '' and parentRef '' (pr_name matchedRef) []))"

definition routeCondition ::
    "'m l7_route \<Rightarrow> nat \<Rightarrow> string \<Rightarrow> string \<Rightarrow> string \<Rightarrow> string \<Rightarrow> string go_map \<Rightarrow> string \<Rightarrow> 'm l7_route set_condition_params" where
  "routeCondition route i conditionType status reason message annotations finalizer =
     \<lparr>sc_resource = route, sc_conditions = ParentConditions i, sc_conditionType = conditionType, sc_status = status,
      sc_reason = reason, sc_message = message, sc_annotations = annotations, sc_removeAnnotations = [],
      sc_finalizer = finalizer\<rparr>"

definition setL7RouteRejected ::
    "'m l7_kind \<Rightarrow> lb_env \<Rightarrow> 'm resolved_route_details \<Rightarrow> string \<times> string \<times> string \<Rightarrow> unit lb_op" where
  "setL7RouteRejected K w details = (\<lambda>(conditionType, reason, message).
     eff_bind (removeRecordedRules K w details) (\<lambda>_.
       case routeParentIndex (dd_gatewayDetails details) (dd_matchedRef details) (dd_route details) of
         None \<Rightarrow> eff_fail (parentStatusNotFound (dd_gatewayDetails details) (dd_matchedRef details))
       | Some i \<Rightarrow> eff_bind (setCondition (lk_ops K) w (routeCondition (dd_route details) i conditionType ''False'' reason message [] []))
           (\<lambda>_. eff_return ())))"

definition setL7RoutePending :: "'m l7_kind \<Rightarrow> lb_env \<Rightarrow> 'm resolved_route_details \<Rightarrow> 'm l7_route \<Rightarrow> unit lb_op" where
  "setL7RoutePending K w details route =
     (case routeParentIndex (dd_gatewayDetails details) (dd_matchedRef details) route of
        None \<Rightarrow> eff_fail (parentStatusNotFound (dd_gatewayDetails details) (dd_matchedRef details))
      | Some i \<Rightarrow> eff_bind (setCondition (lk_ops K) w (routeCondition route i ''ResolvedRefs'' ''Unknown'' ''Pending''
          (errtext ''Route programming by '' (gw_name (rd_gateway (dd_gatewayDetails details))) '' is in progress'') [] []))
          (\<lambda>_. eff_return ()))"

definition programmedRouteAnnotations ::
    "'m l7_kind \<Rightarrow> resolved_gateway_details \<Rightarrow> 'm l7_route \<Rightarrow> program_route_result \<Rightarrow> string go_map" where
  "programmedRouteAnnotations K gatewayDetails route programmed =
     [(lk_revisionAnnotation K, lk_revision K),
      (lk_policyRules K, str_join '','' (mergeL7ProgrammedPolicyRules (map_get (rt_annotations route) (lk_policyRules K))
        (ro_programmedPolicyRules programmed))),
      (lk_backendSets K, str_join '','' (ro_programmedBackendSets programmed)),
      (L7RouteProgrammedLoadBalancerIDAnnotation, rd_loadBalancerID gatewayDetails)]"

definition setL7RouteProgrammed ::
    "'m l7_kind \<Rightarrow> lb_env \<Rightarrow> 'm resolved_route_details \<Rightarrow> 'm l7_route \<Rightarrow> program_route_result \<Rightarrow> 'm l7_route lb_op" where
  "setL7RouteProgrammed K w details route programmed =
     (case routeParentIndex (dd_gatewayDetails details) (dd_matchedRef details) route of
        None \<Rightarrow> eff_fail (parentStatusNotFound (dd_gatewayDetails details) (dd_matchedRef details))
      | Some i \<Rightarrow> setCondition (lk_ops K) w (routeCondition route i ''ResolvedRefs'' ''True'' ''ResolvedRefs''
          (errtext ''Route programmed by '' (gw_name (rd_gateway (dd_gatewayDetails details))) [])
          (programmedRouteAnnotations K (dd_gatewayDetails details) route programmed) (lk_finalizer K)))"

definition routeSetProgrammed ::
    "'m l7_kind \<Rightarrow> lb_env \<Rightarrow> 'm resolved_route_details \<Rightarrow> 'm l7_route \<Rightarrow> program_route_result \<Rightarrow> 'm l7_route lb_op" where
  "routeSetProgrammed K w details route programmed =
     wrapped (errtext ''failed to update programmed status for '' (lk_statusText K) (errtext '' '' (rt_name route) '': ''))
       (setL7RouteProgrammed K w details route programmed)"

definition routeSetPending :: "'m l7_kind \<Rightarrow> lb_env \<Rightarrow> 'm resolved_route_details \<Rightarrow> 'm l7_route \<Rightarrow> unit lb_op" where
  "routeSetPending K w details route =
     wrapped (errtext ''failed to update pending status for '' (lk_text K) (errtext '' '' (rt_name route) '': ''))
       (setL7RoutePending K w details route)"

definition isProgrammingRequired :: "'m l7_kind \<Rightarrow> 'm resolved_route_details \<Rightarrow> bool" where
  "isProgrammingRequired K details =
     (let route = dd_route details in
      case routeParentIndex (dd_gatewayDetails details) (dd_matchedRef details) route of
        None \<Rightarrow> True
      | Some i \<Rightarrow>
          (if l7ProgrammedListenersChanged (map_get (rt_annotations route) (lk_policyRules K)) (dd_matchedListeners details)
           then True
           else \<not> isConditionSet (lk_ops K) route (rps_conditions (rt_parents route ! i)) ''ResolvedRefs''
             [(lk_revisionAnnotation K, lk_revision K),
              (L7RouteProgrammedLoadBalancerIDAnnotation, rd_loadBalancerID (dd_gatewayDetails details))]))"

section \<open>Backends\<close>

definition backendNotFound :: "string \<Rightarrow> string \<Rightarrow> error" where
  "backendNotFound kind fullName =
     ErrRouteStatus kind ''ResolvedRefs'' ''BackendNotFound'' (errtext ''backendRef service '' fullName '' not found'')"

definition resolveService :: "string \<Rightarrow> lb_env \<Rightarrow> string \<times> string \<Rightarrow> k8s_service lb_op" where
  "resolveService kind w = (\<lambda>(ns, name).
     eff_bind (get_service w ns name) (\<lambda>r. case r of
         Inr service \<Rightarrow> eff_return service
       | Inl err \<Rightarrow>
           (if is_not_found err then eff_fail (backendNotFound kind (namespaced_name ns name))
            else eff_fail (ErrWrap (errtext ''failed to get service '' (namespaced_name ns name) '': '') err []))))"

fun resolveRefsLoop ::
    "(string \<times> string \<Rightarrow> k8s_service lb_op) \<Rightarrow> string \<Rightarrow> backend_ref list \<Rightarrow> k8s_service go_map \<Rightarrow> k8s_service go_map lb_op" where
  "resolveRefsLoop resolve ns [] resolved = eff_return resolved"
| "resolveRefsLoop resolve ns (ref # refs) resolved =
     (let fullName = backendObjectRefName ref ns in
      eff_bind (resolve fullName) (\<lambda>service.
        resolveRefsLoop resolve ns refs (AList.update (namespaced_name (fst fullName) (snd fullName)) service resolved)))"

definition httpRoute_resolveBackendRefs :: "lb_env \<Rightarrow> http_route \<Rightarrow> k8s_service go_map lb_op" where
  "httpRoute_resolveBackendRefs w route =
     resolveRefsLoop (resolveService ''HTTPRoute'' w) (rt_namespace route) (routeBackendRefs route) []"

definition resolvePermittedService :: "lb_env \<Rightarrow> string \<Rightarrow> string \<times> string \<Rightarrow> k8s_service lb_op" where
  "resolvePermittedService w routeNamespace = (\<lambda>(ns, name).
     eff_bind (referenceGrantAllowsServiceBackend w ''GRPCRoute'' routeNamespace ns name) (\<lambda>allowed.
       if \<not> allowed then eff_fail (ErrRouteStatus ''GRPCRoute'' ''ResolvedRefs'' ''RefNotPermitted''
         (errtext ''backendRef '' (namespaced_name ns name) '' is not permitted by a ReferenceGrant''))
       else resolveService ''GRPCRoute'' w (ns, name)))"

definition grpcRoute_resolveBackendRefs :: "lb_env \<Rightarrow> grpc_route \<Rightarrow> k8s_service go_map lb_op" where
  "grpcRoute_resolveBackendRefs w route =
     resolveRefsLoop (resolvePermittedService w (rt_namespace route)) (rt_namespace route) (routeBackendRefs route) []"

section \<open>Programming\<close>

text \<open>The model of backend TLS policies, for a Gateway; \<open>None\<close> when there is none.\<close>

type_synonym backend_tls_resolver =
  "(resolved_gateway_details \<Rightarrow> k8s_service \<Rightarrow> backend_ref \<Rightarrow> ssl_details option lb_op) option"

definition programL7Route ::
    "'m l7_kind \<Rightarrow> lb_env \<Rightarrow> backend_tls_resolver \<Rightarrow> bool \<Rightarrow> resolved_gateway_details \<Rightarrow> 'm l7_route \<Rightarrow> k8s_service go_map \<Rightarrow>
      gw_listener list \<Rightarrow> program_route_result lb_op" where
  "programL7Route K w backendTLSPolicy backendTLSDisabled gatewayDetails route knownBackends matchedListeners =
     programL7RoutePolicy w
       \<lparr>pp_loadBalancerID = rd_loadBalancerID gatewayDetails, pp_routeName = rt_name route,
        pp_routeNamespace = rt_namespace route, pp_backendRefs = routeBackendRefs route, pp_knownBackends = knownBackends,
        pp_matchedListeners = matchedListeners, pp_previousPolicyRules = recordedRules K route,
        pp_previousBackendSets = annotatedBackendSetNames (rt_annotations route) (lk_backendSets K),
        pp_ruleCount = length (rt_rules route), pp_makeRoutingRule = lk_makeRule K route,
        pp_backendTLSPolicy = map_option (\<lambda>resolve. resolve gatewayDetails) backendTLSPolicy,
        pp_backendTLSDisabled = backendTLSDisabled\<rparr>"

definition ensureGRPCListenersProtocol :: "lb_env \<Rightarrow> string \<Rightarrow> gw_listener list \<Rightarrow> unit lb_op" where
  "ensureGRPCListenersProtocol w loadBalancerID matchedListeners =
     eff_foreach (\<lambda>listener. wrapped (errtext ''failed to ensure listener '' (l_name listener) '' supports GRPC: '')
       (ensureGRPCListenerProtocol w loadBalancerID (l_name listener))) matchedListeners"

section \<open>The methods of the two models\<close>

text \<open>The operations above, for each kind.\<close>

definition httpRoute_resolveRouteParentRefData ::
    "lb_env \<Rightarrow> bool \<Rightarrow> http_route \<Rightarrow> parent_ref \<Rightarrow> string \<Rightarrow>
      (resolved_gateway_details \<times> gw_listener list \<times> bool) option lb_op" where
  "httpRoute_resolveRouteParentRefData = resolveRouteParentRefData http_kind"

definition httpRoute_aggregateRouteParentRefData ::
    "http_route_match route_results \<Rightarrow> http_route \<Rightarrow> resolved_gateway_details \<Rightarrow> parent_ref \<Rightarrow>
      gw_listener list \<Rightarrow> bool \<Rightarrow> http_route_match route_results" where
  "httpRoute_aggregateRouteParentRefData = aggregateRouteParentRefData"

definition httpRoute_resolveRequest ::
    "lb_env \<Rightarrow> bool \<Rightarrow> string \<times> string \<Rightarrow> http_route_match route_results lb_op" where
  "httpRoute_resolveRequest = resolveRequest http_kind"

definition httpRoute_acceptRoute ::
    "lb_env \<Rightarrow> http_route_match resolved_route_details \<Rightarrow> http_route option lb_op" where
  "httpRoute_acceptRoute = acceptRoute http_kind"

definition httpRoute_rejectRoute ::
    "lb_env \<Rightarrow> http_route_match resolved_route_details \<Rightarrow> string \<Rightarrow> unit lb_op" where
  "httpRoute_rejectRoute = rejectRoute http_kind"

definition httpRoute_programRoute ::
    "lb_env \<Rightarrow> backend_tls_resolver \<Rightarrow> bool \<Rightarrow> resolved_gateway_details \<Rightarrow> http_route \<Rightarrow>
      k8s_service go_map \<Rightarrow> gw_listener list \<Rightarrow> program_route_result lb_op" where
  "httpRoute_programRoute = programL7Route http_kind"

definition httpRoute_deprovisionDetachedRoute :: "lb_env \<Rightarrow> http_route \<Rightarrow> unit lb_op" where
  "httpRoute_deprovisionDetachedRoute = deprovisionDetachedRoute http_kind"

definition httpRoute_removeDetachedFinalizer :: "lb_env \<Rightarrow> http_route \<Rightarrow> unit lb_op" where
  "httpRoute_removeDetachedFinalizer = removeDetachedRouteFinalizer http_kind"

definition httpRoute_setRejected ::
    "lb_env \<Rightarrow> http_route_match resolved_route_details \<Rightarrow> string \<times> string \<times> string \<Rightarrow> unit lb_op" where
  "httpRoute_setRejected = setL7RouteRejected http_kind"

definition httpRoute_isProgrammingRequired :: "http_route_match resolved_route_details \<Rightarrow> bool" where
  "httpRoute_isProgrammingRequired = isProgrammingRequired http_kind"

definition httpRoute_setProgrammed ::
    "lb_env \<Rightarrow> http_route_match resolved_route_details \<Rightarrow> http_route \<Rightarrow> program_route_result \<Rightarrow> http_route lb_op" where
  "httpRoute_setProgrammed = routeSetProgrammed http_kind"

definition httpRoute_setPending ::
    "lb_env \<Rightarrow> http_route_match resolved_route_details \<Rightarrow> http_route \<Rightarrow> unit lb_op" where
  "httpRoute_setPending = routeSetPending http_kind"

definition grpcRoute_resolveRouteParentRefData ::
    "lb_env \<Rightarrow> bool \<Rightarrow> grpc_route \<Rightarrow> parent_ref \<Rightarrow> string \<Rightarrow>
      (resolved_gateway_details \<times> gw_listener list \<times> bool) option lb_op" where
  "grpcRoute_resolveRouteParentRefData = resolveRouteParentRefData grpc_kind"

definition grpcRoute_aggregateRouteParentRefData ::
    "grpc_route_match route_results \<Rightarrow> grpc_route \<Rightarrow> resolved_gateway_details \<Rightarrow> parent_ref \<Rightarrow>
      gw_listener list \<Rightarrow> bool \<Rightarrow> grpc_route_match route_results" where
  "grpcRoute_aggregateRouteParentRefData = aggregateRouteParentRefData"

definition grpcRoute_resolveRequest ::
    "lb_env \<Rightarrow> bool \<Rightarrow> string \<times> string \<Rightarrow> grpc_route_match route_results lb_op" where
  "grpcRoute_resolveRequest = resolveRequest grpc_kind"

definition grpcRoute_acceptRoute ::
    "lb_env \<Rightarrow> grpc_route_match resolved_route_details \<Rightarrow> grpc_route option lb_op" where
  "grpcRoute_acceptRoute = acceptRoute grpc_kind"

definition grpcRoute_rejectRoute ::
    "lb_env \<Rightarrow> grpc_route_match resolved_route_details \<Rightarrow> string \<Rightarrow> unit lb_op" where
  "grpcRoute_rejectRoute = rejectRoute grpc_kind"

definition grpcRoute_programRoute ::
    "lb_env \<Rightarrow> backend_tls_resolver \<Rightarrow> bool \<Rightarrow> resolved_gateway_details \<Rightarrow> grpc_route \<Rightarrow>
      k8s_service go_map \<Rightarrow> gw_listener list \<Rightarrow> program_route_result lb_op" where
  "grpcRoute_programRoute = programL7Route grpc_kind"

definition grpcRoute_deprovisionDetachedRoute :: "lb_env \<Rightarrow> grpc_route \<Rightarrow> unit lb_op" where
  "grpcRoute_deprovisionDetachedRoute = deprovisionDetachedRoute grpc_kind"

definition grpcRoute_removeDetachedFinalizer :: "lb_env \<Rightarrow> grpc_route \<Rightarrow> unit lb_op" where
  "grpcRoute_removeDetachedFinalizer = removeDetachedRouteFinalizer grpc_kind"

definition grpcRoute_setRejected ::
    "lb_env \<Rightarrow> grpc_route_match resolved_route_details \<Rightarrow> string \<times> string \<times> string \<Rightarrow> unit lb_op" where
  "grpcRoute_setRejected = setL7RouteRejected grpc_kind"

definition grpcRoute_isProgrammingRequired :: "grpc_route_match resolved_route_details \<Rightarrow> bool" where
  "grpcRoute_isProgrammingRequired = isProgrammingRequired grpc_kind"

definition grpcRoute_setProgrammed ::
    "lb_env \<Rightarrow> grpc_route_match resolved_route_details \<Rightarrow> grpc_route \<Rightarrow> program_route_result \<Rightarrow> grpc_route lb_op" where
  "grpcRoute_setProgrammed = routeSetProgrammed grpc_kind"

definition grpcRoute_setPending ::
    "lb_env \<Rightarrow> grpc_route_match resolved_route_details \<Rightarrow> grpc_route \<Rightarrow> unit lb_op" where
  "grpcRoute_setPending = routeSetPending grpc_kind"

end
