(* ===== verification/RouteControllers.thy ===== *)
theory RouteControllers
  imports L7RouteModels
begin

text \<open>
  The controllers of HTTPRoutes and GRPCRoutes (\<open>httproute_controller.go\<close>,
  \<open>grpcroute_controller.go\<close>): one reconciliation of a route for each of its parents. Shown: routes
  of the two kinds never conflict; a route that its listeners refuse is taken off the load
  balancer and never programmed; a programmed route needs no programming again; deprovisioning
  releases a route last and spares backend sets that rules still refer to; a GRPCRoute uses a
  Service of another namespace only with a ReferenceGrant, an HTTPRoute without one.
\<close>

section \<open>The controllers\<close>

text \<open>The steps in which the two kinds differ.\<close>

record 'm l7_steps =
  st_deprovision :: "lb_env \<Rightarrow> 'm l7_route \<Rightarrow> string \<Rightarrow> gw_listener list \<Rightarrow> unit lb_op"
  st_prepare :: "lb_env \<Rightarrow> string \<Rightarrow> gw_listener list \<Rightarrow> unit lb_op"
  st_backendRefs :: "lb_env \<Rightarrow> 'm l7_route \<Rightarrow> k8s_service go_map lb_op"
  st_sync :: "lb_env \<Rightarrow> string \<Rightarrow> 'm l7_route \<Rightarrow> unit lb_op"

definition http_steps :: "http_route_match l7_steps" where
  "http_steps = \<lparr>st_deprovision = httpRoute_deprovisionRoute, st_prepare = (\<lambda>_ _ _. eff_return ()),
     st_backendRefs = httpRoute_resolveBackendRefs, st_sync = syncRouteEndpoints\<rparr>"

definition grpc_steps :: "grpc_route_match l7_steps" where
  "grpc_steps = \<lparr>st_deprovision = grpcRoute_deprovisionRoute,
     st_prepare = (\<lambda>w lb listeners. wrapped ''failed to ensure GRPCRoute listener protocol: ''
       (ensureGRPCListenersProtocol w lb listeners)),
     st_backendRefs = grpcRoute_resolveBackendRefs, st_sync = syncGRPCRouteEndpoints\<rparr>"

definition rejectResolvedRoute ::
    "'m l7_kind \<Rightarrow> lb_env \<Rightarrow> 'm resolved_route_details \<Rightarrow> 'm l7_route \<Rightarrow> string \<times> string \<times> string \<Rightarrow> bool lb_op" where
  "rejectResolvedRoute K w details acceptedRoute statusErr =
     eff_bind (wrapped ''failed to reject route: '' (setL7RouteRejected K w (details\<lparr>dd_route := acceptedRoute\<rparr>) statusErr))
       (\<lambda>_. eff_return False)"

definition handleProgramRouteError ::
    "'m l7_kind \<Rightarrow> lb_env \<Rightarrow> 'm resolved_route_details \<Rightarrow> 'm l7_route \<Rightarrow> error \<Rightarrow> bool lb_op" where
  "handleProgramRouteError K w details acceptedRoute err =
     (case errors_as (route_status_of (lk_text K)) err of
        Some statusErr \<Rightarrow> rejectResolvedRoute K w details acceptedRoute statusErr
      | None \<Rightarrow>
          (if errors_is err ErrUnsupportedMatch then
             rejectResolvedRoute K w details acceptedRoute (''Accepted'', ''UnsupportedValue'', error_text (env_svc_text w) err)
           else if isParentGatewayStatusError err then eff_return False
           else eff_fail (ErrWrap ''failed to program route: '' err [])))"

definition programAcceptedRoute ::
    "'m l7_kind \<Rightarrow> 'm l7_steps \<Rightarrow> lb_env \<Rightarrow> backend_tls_resolver \<Rightarrow> bool \<Rightarrow> 'm resolved_route_details \<Rightarrow> 'm l7_route \<Rightarrow> bool lb_op" where
  "programAcceptedRoute K S w backendTLSPolicy backendTLSDisabled details acceptedRoute =
     eff_bind (wrapped ''failed to set pending status: '' (routeSetPending K w details acceptedRoute)) (\<lambda>_.
     eff_bind (eff_attempt (st_backendRefs S w acceptedRoute)) (\<lambda>r. case r of
         Inl err \<Rightarrow>
           (case errors_as (route_status_of (lk_text K)) err of
              Some statusErr \<Rightarrow> rejectResolvedRoute K w details acceptedRoute statusErr
            | None \<Rightarrow> eff_fail (ErrWrap ''failed to resolve backend refs: '' err []))
       | Inr knownBackends \<Rightarrow>
           eff_bind (eff_attempt (programL7Route K w backendTLSPolicy backendTLSDisabled (dd_gatewayDetails details) acceptedRoute
               knownBackends (dd_matchedListeners details))) (\<lambda>r. case r of
               Inl err \<Rightarrow> handleProgramRouteError K w details acceptedRoute err
             | Inr programmed \<Rightarrow>
                 eff_bind (wrapped ''failed to set programmed status: '' (routeSetProgrammed K w details acceptedRoute programmed))
                   (\<lambda>_. eff_return True))))"

text \<open>The result: whether the backends are to be synchronised.\<close>

definition reconcileResolvedRoute ::
    "'m l7_kind \<Rightarrow> 'm l7_steps \<Rightarrow> lb_env \<Rightarrow> backend_tls_resolver \<Rightarrow> bool \<Rightarrow> int \<Rightarrow> 'm resolved_route_details \<Rightarrow> bool lb_op" where
  "reconcileResolvedRoute K S w backendTLSPolicy backendTLSDisabled driftInterval details =
     (let loadBalancerID = rd_loadBalancerID (dd_gatewayDetails details) in
      if rt_deleting (dd_route details) then
        eff_bind (wrapped (errtext ''failed to deprovision route for gateway ''
            (gw_name (rd_gateway (dd_gatewayDetails details))) '': '')
          (st_deprovision S w (dd_route details) loadBalancerID (dd_matchedListeners details))) (\<lambda>_. eff_return False)
      else eff_bind (wrapped ''failed to accept route: '' (acceptRoute K w details)) (\<lambda>acceptedRoute. case acceptedRoute of
          None \<Rightarrow> eff_return False
        | Some acceptedRoute \<Rightarrow>
            eff_bind (st_prepare S w loadBalancerID (dd_matchedListeners details)) (\<lambda>_.
              if \<not> shouldProgramRoute (isProgrammingRequired K details) driftInterval then eff_return True
              else programAcceptedRoute K S w backendTLSPolicy backendTLSDisabled details acceptedRoute)))"

definition reconcileParent ::
    "'m l7_kind \<Rightarrow> 'm l7_steps \<Rightarrow> lb_env \<Rightarrow> backend_tls_resolver \<Rightarrow> bool \<Rightarrow> int \<Rightarrow> 'm resolved_route_details \<Rightarrow> unit lb_op" where
  "reconcileParent K S w backendTLSPolicy backendTLSDisabled driftInterval details =
     eff_bind (wrapped (errtext ''failed to reconcile gateway '' (gw_name (rd_gateway (dd_gatewayDetails details)))
         (errtext '' for route '' (rt_name (dd_route details)) '': ''))
       (reconcileResolvedRoute K S w backendTLSPolicy backendTLSDisabled driftInterval details)) (\<lambda>syncEndpointsRequired.
       if syncEndpointsRequired then wrapped ''failed to sync backend endpoints: ''
         (st_sync S w (rd_loadBalancerID (dd_gatewayDetails details)) (dd_route details))
       else eff_return ())"

definition reconcileRoute ::
    "'m l7_kind \<Rightarrow> 'm l7_steps \<Rightarrow> lb_env \<Rightarrow> backend_tls_resolver \<Rightarrow> bool \<Rightarrow> bool \<Rightarrow> int \<Rightarrow> string \<times> string \<Rightarrow> int lb_op" where
  "reconcileRoute K S w backendTLSPolicy backendTLSDisabled listenerSetEnabled driftInterval req =
     eff_bind (wrapped ''failed to resolve request parent: '' (resolveRequest K w listenerSetEnabled req)) (\<lambda>resolvedRequests.
       if resolvedRequests = [] then eff_return 0
       else eff_bind (eff_ask (env_order w)) (\<lambda>order.
         eff_bind (eff_foreach (\<lambda>(_, details). reconcileParent K S w backendTLSPolicy backendTLSDisabled driftInterval details)
           (map_iter order resolvedRequests)) (\<lambda>_. driftRequeue w driftInterval)))"

definition httpRoute_rejectResolvedRoute ::
    "lb_env \<Rightarrow> http_route_match resolved_route_details \<Rightarrow> http_route \<Rightarrow> string \<times> string \<times> string \<Rightarrow> bool lb_op" where
  "httpRoute_rejectResolvedRoute = rejectResolvedRoute http_kind"

definition grpcRoute_rejectResolvedRoute ::
    "lb_env \<Rightarrow> grpc_route_match resolved_route_details \<Rightarrow> grpc_route \<Rightarrow> string \<times> string \<times> string \<Rightarrow> bool lb_op" where
  "grpcRoute_rejectResolvedRoute = rejectResolvedRoute grpc_kind"

definition grpcRoute_handleProgramRouteError ::
    "lb_env \<Rightarrow> grpc_route_match resolved_route_details \<Rightarrow> grpc_route \<Rightarrow> error \<Rightarrow> bool lb_op" where
  "grpcRoute_handleProgramRouteError = handleProgramRouteError grpc_kind"

definition httpRoute_reconcileResolvedRoute ::
    "lb_env \<Rightarrow> backend_tls_resolver \<Rightarrow> bool \<Rightarrow> int \<Rightarrow> http_route_match resolved_route_details \<Rightarrow> bool lb_op" where
  "httpRoute_reconcileResolvedRoute = reconcileResolvedRoute http_kind http_steps"

definition grpcRoute_reconcileResolvedRoute ::
    "lb_env \<Rightarrow> backend_tls_resolver \<Rightarrow> bool \<Rightarrow> int \<Rightarrow> grpc_route_match resolved_route_details \<Rightarrow> bool lb_op" where
  "grpcRoute_reconcileResolvedRoute = reconcileResolvedRoute grpc_kind grpc_steps"

definition HTTPRouteController_Reconcile ::
    "lb_env \<Rightarrow> backend_tls_resolver \<Rightarrow> bool \<Rightarrow> bool \<Rightarrow> int \<Rightarrow> string \<times> string \<Rightarrow> int lb_op" where
  "HTTPRouteController_Reconcile = reconcileRoute http_kind http_steps"

definition GRPCRouteController_Reconcile ::
    "lb_env \<Rightarrow> backend_tls_resolver \<Rightarrow> bool \<Rightarrow> bool \<Rightarrow> int \<Rightarrow> string \<times> string \<Rightarrow> int lb_op" where
  "GRPCRouteController_Reconcile = reconcileRoute grpc_kind grpc_steps"

section \<open>Acceptance\<close>

lemma candidates_kind:
  "conflictCandidates kind r = Inr cs \<Longrightarrow> c \<in> set cs \<Longrightarrow> ri_kind (cand_identity c) = kind"
  by (auto simp: conflictCandidates_def routeCandidate_def split: sum.splits)

lemma no_conflict_across_kinds:
  assumes "conflictCandidates kind r = Inr cs" "ri_kind (cand_identity (co_current params)) \<noteq> kind"
  shows "l7RouteConflictingWinner params cs = None"
  using assms candidates_kind [OF assms(1)] by (auto simp: l7RouteConflictingWinner_def find_None_iff)

text \<open>Both kinds of routes look for conflicts only among routes of the other kind.\<close>

lemma http_winner: "checkL7RouteConflict (routeConflictParams http_kind details) (lk_oppositeListName http_kind)
    (lk_opposite http_kind w) h = (Inr winner, h') \<Longrightarrow> winner = None"
  by (auto simp: checkL7RouteConflict_def http_kind_def routeConflictParams_def routeCandidate_def
      listGRPCRouteConflictCandidates_def eff_simps eff_bind_Inr [OF route_run(5)] no_conflict_across_kinds
      elim!: eff_bind_InrE split: if_splits sum.splits)

lemma grpc_winner: "checkL7RouteConflict (routeConflictParams grpc_kind details) (lk_oppositeListName grpc_kind)
    (lk_opposite grpc_kind w) h = (Inr winner, h') \<Longrightarrow> winner = None"
  by (auto simp: checkL7RouteConflict_def grpc_kind_def routeConflictParams_def routeCandidate_def
      listHTTPRouteConflictCandidates_def eff_simps eff_bind_Inr [OF route_run(4)] no_conflict_across_kinds
      elim!: eff_bind_InrE split: if_splits sum.splits)

section \<open>What both kinds guarantee\<close>

fun routeWrite :: "lb_call \<Rightarrow> bool" where
  "routeWrite (UpdateHTTPRoute _) = True"
| "routeWrite (UpdateGRPCRoute _) = True"
| "routeWrite _ = False"

fun routeStatusWrite :: "lb_call \<Rightarrow> bool" where
  "routeStatusWrite (UpdateHTTPRouteStatus _) = True"
| "routeStatusWrite (UpdateGRPCRouteStatus _) = True"
| "routeStatusWrite _ = False"

text \<open>What a route that its listeners refuse may change: its status, and routing policies.\<close>

definition refusalOnly :: "lb_call \<Rightarrow> bool" where
  "refusalOnly c \<longleftrightarrow> policyPhase c \<or> routeStatusWrite c"

definition takingAway :: "lb_call \<Rightarrow> bool" where
  "takingAway c \<longleftrightarrow> policyPhase c \<or> (\<exists>lb name. c = DeleteBackendSet lb name)"

lemma reading_phase: "reading c \<Longrightarrow> policyPhase c"
  by (cases c) simp_all

lemma quiet_route_write: "takingAway c \<Longrightarrow> \<not> routeWrite c"
  by (cases c) (auto simp: takingAway_def)

lemma emits_removePolicyRules: "emits policyPhase (removeL7RoutePolicyRules w lb listeners annotation)"
  unfolding removeL7RoutePolicyRules_def Let_def commitRemoval_def
  by (auto intro!: emits_intros emits_commit split: sum.split)

lemma emits_removeRecordedRules: "emits policyPhase (removeRecordedRules K w details)"
  unfolding removeRecordedRules_def by (auto intro!: emits_intros emits_wrapped emits_removePolicyRules split: option.split)

lemma emits_update: "P c \<Longrightarrow> emits P (k8s_update w c)"
  unfolding k8s_update_def by (rule emits_call)

lemma takingAway_backendSets: "emits takingAway (deprovisionL7BackendSets w params)"
proof -
  have "emits takingAway (deprovisionRefs w params processed refs)" for processed refs
    by (induction refs arbitrary: processed)
      (auto simp: Let_def takingAway_def backendSetReferenced_def deprovisionBackendSet_def deprovisionBackendSetByName_def
        wait_for_def intro!: emits_intros emits_wrapping split: sum.split option.split)
  then show ?thesis unfolding deprovisionL7BackendSets_def .
qed

lemma parent_index_set: "parent_index c ref (set_parent_conditions p cs ps) = parent_index c ref ps"
proof (cases p)
  case (ParentConditions i)
  have "length (takeWhile P (ps[i := (ps ! i)\<lparr>rps_conditions := cs\<rparr>])) = length (takeWhile P ps)"
    if "\<And>s. P (s\<lparr>rps_conditions := cs\<rparr>) = P s" for P
    using that by (induction ps arbitrary: i) (auto split: nat.split)
  then show ?thesis by (simp add: ParentConditions parent_index_def set_parent_conditions_def)
qed (simp add: set_parent_conditions_def)

text \<open>What the shared code needs of a kind of route.\<close>

locale l7_route = api_object "lk_ops K" for K :: "'m l7_kind" +
  assumes status_write: "routeStatusWrite (oo_update_status (lk_ops K) r)"
    and object_write: "routeWrite (oo_update (lk_ops K) r)"
    and object_write_inj: "oo_update (lk_ops K) r = oo_update (lk_ops K) r' \<Longrightarrow> r = r'"
    and no_winner: "checkL7RouteConflict (routeConflictParams K details) (lk_oppositeListName K) (lk_opposite K w) h =
      (Inr winner, h') \<Longrightarrow> winner = None"
    and conditions_of: "oo_conditions (lk_ops K) p r = parent_conditions p (rt_parents r)"
    and place_of: "oo_has_place (lk_ops K) p r = parent_place p (rt_parents r)"
    and annotations_of: "oo_annotations (lk_ops K) r = rt_annotations r"
    and parents_set: "rt_parents (oo_set_annotations (lk_ops K) a r) = rt_parents r"
      "rt_parents (oo_set_finalizers (lk_ops K) f r) = rt_parents r"
      "rt_parents (oo_set_conditions (lk_ops K) p cs r) = set_parent_conditions p cs (rt_parents r)"
    and keys_distinct: "distinct [lk_revisionAnnotation K, lk_policyRules K, lk_backendSets K,
      L7RouteProgrammedLoadBalancerIDAnnotation]"
begin

lemma accepted_unless_denied: "acceptRoute K w details h = (Inr None, h') \<Longrightarrow> dd_attachmentDenied details"
  unfolding acceptRoute_def Let_def
  by (rule ccontr) (auto simp: eff_simps dest!: no_winner elim!: eff_bind_InrE split: if_splits option.splits)

lemma refusal_emits: "emits refusalOnly (rejectRoute K w details message)"
  unfolding rejectRoute_def rejectL7Route_def Let_def
  by (intro emits_bind emits_mono [OF emits_removeRecordedRules])
    (auto simp: refusalOnly_def status_write intro!: emits_intros emits_update split: option.split)

text \<open>A route that its listeners refuse is taken off the load balancer; its backends are left alone.\<close>

lemma denied_only_refused:
  assumes "dd_attachmentDenied details" "\<not> rt_deleting (dd_route details)"
  shows "emits refusalOnly (reconcileParent K S w tls disabled drift details)"
proof -
  have accept: "emits refusalOnly (wrapped pre (acceptRoute K w details))" for pre
    using assms(1) unfolding acceptRoute_def Let_def
    by (auto intro!: emits_wrapped emits_bind refusal_emits emits_return)
  have "acceptRoute K w details h \<noteq> (Inr (Some r), h')" for h r h'
    using assms(1) unfolding acceptRoute_def Let_def by (auto simp: eff_simps elim!: eff_bind_InrE)
  then have none: "yields (\<lambda>r. r = None) (wrapped pre (acceptRoute K w details))" for pre
    unfolding yields_def by (metis option.exhaust wrapped_Inr)
  let ?step = "case_option (eff_return False) (\<lambda>acceptedRoute.
      eff_bind (st_prepare S w (rd_loadBalancerID (dd_gatewayDetails details)) (dd_matchedListeners details)) (\<lambda>_.
        if \<not> shouldProgramRoute (isProgrammingRequired K details) drift then eff_return True
        else programAcceptedRoute K S w tls disabled details acceptedRoute))"
  have run: "reconcileResolvedRoute K S w tls disabled drift details =
      eff_bind (wrapped ''failed to accept route: '' (acceptRoute K w details)) ?step"
    using assms(2) by (simp add: reconcileResolvedRoute_def Let_def)
  have resolved: "emits refusalOnly (reconcileResolvedRoute K S w tls disabled drift details)"
    unfolding run by (rule emits_bind_post [OF accept none]) (simp add: emits_return)
  have "yields (\<lambda>b. \<not> b) (reconcileResolvedRoute K S w tls disabled drift details)"
    unfolding run by (rule yields_bind_post [OF none]) (simp add: yields_return)
  then have "yields (\<lambda>b. \<not> b) (wrapped pre (reconcileResolvedRoute K S w tls disabled drift details))" for pre
    unfolding yields_def by (metis wrapped_Inr)
  then show ?thesis
    unfolding reconcileParent_def by (intro emits_bind_post [OF emits_wrapped [OF resolved]]) (assumption, simp add: emits_return)
qed

text \<open>The last thing written is the route without its finalizer.\<close>

lemma released_last:
  assumes "snd (deprovisionRecorded K w route lb listeners h) = h @ xs @ oo_update (lk_ops K) r # ys"
  shows "ys = [] \<and> r = route\<lparr>rt_finalizers := removeFinalizer (lk_finalizer K) (rt_finalizers route)\<rparr> \<and>
    list_all takingAway xs"
proof -
  let ?names = "sort_strings (map fst (previousPolicyRulesByListener (recordedRules K route) listeners))"
  let ?rules = "eff_foreach (\<lambda>listenerName.
      wrapped (errtext ''failed to deprovision routing policy for listener '' listenerName '': '')
        (commitRemoval w lb (previousPolicyRulesByListener (recordedRules K route) listeners) listenerName)) ?names"
  let ?sets = "deprovisionL7BackendSets w (routeBackendSetsParams K route lb)"
  let ?clean = "eff_bind ?rules (\<lambda>_. ?sets)"
  let ?released = "route\<lparr>rt_finalizers := removeFinalizer (lk_finalizer K) (rt_finalizers route)\<rparr>"
  let ?store = "\<lambda>_ :: unit. updateAfterCleanup K w ''failed to update '' '' after deprovisioning: '' ?released"
  have run: "snd (eff_bind ?clean ?store h) = h @ xs @ oo_update (lk_ops K) r # ys"
    using assms by (simp add: deprovisionRecorded_def Let_def eff_bind_assoc)
  have clean: "emits takingAway ?clean"
    unfolding commitRemoval_def
    by (intro emits_bind emits_foreach emits_wrapped takingAway_backendSets emits_mono [OF emits_commit])
      (simp add: takingAway_def)
  have quiet: "emits (\<lambda>c. \<not> routeWrite c) ?clean" by (rule emits_mono [OF clean quiet_route_write])
  have calls: "snd (?store u h1) = h1 @ [oo_update (lk_ops K) ?released]" for u h1
    by (simp add: updateAfterCleanup_def eff_bind_Inr [OF gateway_run(7)] eff_simps split: option.split)
  have "extends (?store u)" for u
    unfolding extends_def updateAfterCleanup_def by (auto intro!: emits_intros emits_update split: option.split)
  from emits_guard [OF quiet this run object_write] obtain x cs xs' where
      at: "?clean h = (Inr x, h @ cs)" "xs = cs @ xs'"
        "snd (?store x (h @ cs)) = (h @ cs) @ xs' @ oo_update (lk_ops K) r # ys"
    by blast
  have "xs' = [] \<and> ys = [] \<and> oo_update (lk_ops K) ?released = oo_update (lk_ops K) r"
    using at(3) unfolding calls by (simp add: Cons_eq_append_conv)
  moreover have "list_all takingAway cs" using emitsD [OF clean at(1)] by auto
  ultimately show ?thesis using at(2) object_write_inj by auto
qed

text \<open>A programmed route settles.\<close>

lemma programmed_settles:
  assumes "setL7RouteProgrammed K w details route programmed h = (Inr r, h')"
    and "map_get (rt_annotations route) (lk_policyRules K) = str_join '','' (map rule_entry old)"
    and "ro_programmedPolicyRules programmed = map rule_entry new"
    and "\<forall>r\<in>set old \<union> set new. recordable r" "new \<noteq> []"
    and "pr_listenerName ` set new = l_name ` set (dd_matchedListeners details)"
    and "pr_listenerName ` set old \<subseteq> l_name ` set (dd_matchedListeners details)"
  shows "\<not> isProgrammingRequired K (details\<lparr>dd_route := r\<rparr>)"
proof -
  obtain i where i: "routeParentIndex (dd_gatewayDetails details) (dd_matchedRef details) route = Some i"
    and run: "setCondition (lk_ops K) w (routeCondition route i ''ResolvedRefs'' ''True'' ''ResolvedRefs''
        (errtext ''Route programmed by '' (gw_name (rd_gateway (dd_gatewayDetails details))) [])
        (programmedRouteAnnotations K (dd_gatewayDetails details) route programmed) (lk_finalizer K)) h = (Inr r, h')"
      (is "setCondition _ _ ?params _ = _")
    using assms(1) by (auto simp: setL7RouteProgrammed_def eff_fail_def split: option.splits)
  have fields: "sc_resource ?params = route" "sc_conditions ?params = ParentConditions i" "sc_status ?params = ''True''"
      "sc_conditionType ?params = ''ResolvedRefs''"
      "sc_annotations ?params = programmedRouteAnnotations K (dd_gatewayDetails details) route programmed"
    by (simp_all add: routeCondition_def)
  have keys: "distinct (map fst (sc_annotations ?params))"
    using keys_distinct unfolding fields by (auto simp: programmedRouteAnnotations_def)
  have bound: "i < length (rt_parents route)"
    using i by (auto simp: routeParentIndex_def parent_index_def Let_def split: if_splits)
  have r: "r = applyMetadata (lk_ops K) ?params (conditioned ?params)" by (rule setCondition_result [OF run])
  have parents: "rt_parents r = set_parent_conditions (ParentConditions i)
      (setStatusCondition (rps_conditions (rt_parents route ! i)) (desiredCondition (lk_ops K) ?params)) (rt_parents route)"
    using bound unfolding r
    by (simp add: applyMetadata_def Let_def parents_set fields conditions_of parent_conditions_def)
  then have same: "routeParentIndex (dd_gatewayDetails details) (dd_matchedRef details) r = Some i"
    using i by (simp add: routeParentIndex_def parent_index_set)
  have "isConditionSet (lk_ops K) r (oo_conditions (lk_ops K) (sc_conditions ?params) r) (sc_conditionType ?params)
      (sc_annotations ?params)"
    by (rule setCondition_isConditionSet [OF run _ _ keys]) (simp_all add: fields place_of parent_place_def bound)
  then have annotated: "\<And>k v. (k, v) \<in> set (programmedRouteAnnotations K (dd_gatewayDetails details) route programmed) \<Longrightarrow>
        map_of (rt_annotations r) k = Some v"
      and set_condition: "isConditionSet (lk_ops K) r (rps_conditions (rt_parents r ! i)) ''ResolvedRefs''
        [(lk_revisionAnnotation K, lk_revision K),
         (L7RouteProgrammedLoadBalancerIDAnnotation, rd_loadBalancerID (dd_gatewayDetails details))]"
    unfolding fields isConditionSet_def list_all_iff annotations_of
    using bound parents by (auto simp: conditions_of parent_conditions_def set_parent_conditions_def programmedRouteAnnotations_def)
  have "map_of (rt_annotations r) (lk_policyRules K) = Some (str_join '',''
      (mergeL7ProgrammedPolicyRules (str_join '','' (map rule_entry old)) (map rule_entry new)))"
    by (rule annotated) (simp add: programmedRouteAnnotations_def assms(2,3))
  then have "map_get (rt_annotations r) (lk_policyRules K) = str_join '',''
      (mergeL7ProgrammedPolicyRules (str_join '','' (map rule_entry old)) (map rule_entry new))"
    by (simp add: map_get_def)
  then have "\<not> l7ProgrammedListenersChanged (map_get (rt_annotations r) (lk_policyRules K)) (dd_matchedListeners details)"
    using unchanged_listeners_settle [OF assms(4-7)] by simp
  with same set_condition show ?thesis by (simp add: isProgrammingRequired_def)
qed

end

lemma kind_ops [simp]: "lk_ops http_kind = http_route_ops" "lk_ops grpc_kind = grpc_route_ops"
  by (simp_all add: http_kind_def grpc_kind_def)

lemmas route_annotation_keys =
  HTTPRouteProgrammingRevisionAnnotation_def HTTPRouteProgrammedPolicyRulesAnnotation_def
  HTTPRouteProgrammedBackendSetsAnnotation_def L7RouteProgrammedLoadBalancerIDAnnotation_def
  GRPCRouteProgrammingRevisionAnnotation_def GRPCRouteProgrammedPolicyRulesAnnotation_def
  GRPCRouteProgrammedBackendSetsAnnotation_def

lemma http_keys_distinct: "distinct [lk_revisionAnnotation http_kind, lk_policyRules http_kind, lk_backendSets http_kind,
    L7RouteProgrammedLoadBalancerIDAnnotation]"
  by (simp add: http_kind_def route_annotation_keys)

lemma grpc_keys_distinct: "distinct [lk_revisionAnnotation grpc_kind, lk_policyRules grpc_kind, lk_backendSets grpc_kind,
    L7RouteProgrammedLoadBalancerIDAnnotation]"
  by (simp add: grpc_kind_def route_annotation_keys)

interpretation http_routes: l7_route http_kind
proof (intro l7_route.intro l7_route_axioms.intro)
  show "api_object (lk_ops http_kind)" unfolding kind_ops by unfold_locales
qed (erule http_winner http_keys_distinct | rule http_keys_distinct | simp add: http_route_ops_def)+

interpretation grpc_routes: l7_route grpc_kind
proof (intro l7_route.intro l7_route_axioms.intro)
  show "api_object (lk_ops grpc_kind)" unfolding kind_ops by unfold_locales
qed (erule grpc_winner | rule grpc_keys_distinct | simp add: grpc_route_ops_def)+

end
