(* ===== verification/RouteSafety.thy ===== *)
theory RouteSafety
  imports RouteControllers GatewaySafety
begin

text \<open>
  What the controllers of HTTPRoutes and GRPCRoutes guarantee (\<open>httproute_model.go\<close>,
  \<open>grpcroute_model.go\<close> and their controllers): acceptance, what a refused route may change, when
  a programmed route settles, the order of deprovisioning and the references to Services.
\<close>

section \<open>Acceptance\<close>

definition exampleHTTPDetails :: "bool \<Rightarrow> http_route_match resolved_route_details" where
  "exampleHTTPDetails denied = \<lparr>dd_gatewayDetails = freshGatewayDetails, dd_route = exampleRoute, dd_matchedRef = gatewayRef ''gw'',
     dd_matchedListeners = [plainListener ''web'' 80 ''HTTP''], dd_attachmentDenied = denied\<rparr>"

definition exampleGRPCDetails :: "bool \<Rightarrow> grpc_route_match resolved_route_details" where
  "exampleGRPCDetails denied = \<lparr>dd_gatewayDetails = freshGatewayDetails,
     dd_route = \<lparr>rt_namespace = ''ns'', rt_name = ''g'', rt_creation = 0, rt_generation = 3, rt_deleting = False,
       rt_finalizers = [], rt_annotations = [], rt_parent_refs = [], rt_hostnames = [], rt_rules = [], rt_parents = []\<rparr>,
     dd_matchedRef = gatewayRef ''gw'', dd_matchedListeners = [plainListener ''web'' 80 ''HTTP''], dd_attachmentDenied = denied\<rparr>"

lemma example_details [simp]:
  "dd_attachmentDenied (exampleHTTPDetails b) = b" "dd_attachmentDenied (exampleGRPCDetails b) = b"
  "\<not> rt_deleting (dd_route (exampleHTTPDetails b))" "\<not> rt_deleting (dd_route (exampleGRPCDetails b))"
  by (simp_all add: exampleHTTPDetails_def exampleGRPCDetails_def exampleRoute_def)

text \<open>
  An HTTPRoute and a GRPCRoute may share a listener and a hostname: a route that some matching
  listener allows is never turned down, whatever other routes there are; it is accepted or an
  error is reported.
\<close>

theorem kinds_share_hostnames:
  assumes "\<not> dd_attachmentDenied http" "\<not> dd_attachmentDenied grpc"
  shows "fst (httpRoute_acceptRoute w http h) \<noteq> Inr None \<and> fst (grpcRoute_acceptRoute w grpc h) \<noteq> Inr None"
  using assms http_routes.accepted_unless_denied [of w http h] grpc_routes.accepted_unless_denied [of w grpc h]
  unfolding httpRoute_acceptRoute_def grpcRoute_acceptRoute_def by (metis prod.collapse)

theorem kinds_share_hostnames_witness:
  "fst (httpRoute_acceptRoute agreeable_env (exampleHTTPDetails False) []) \<noteq> Inr None \<and>
   fst (grpcRoute_acceptRoute agreeable_env (exampleGRPCDetails False) []) \<noteq> Inr None"
  by (rule kinds_share_hostnames) simp_all



section \<open>A programmed route settles\<close>


definition acceptedExampleRoute :: http_route where
  "acceptedExampleRoute = withParentCondition freshGatewayDetails (gatewayRef ''gw'') (acceptedCondition ''gw'' 3) exampleRoute"

definition exampleProgrammed :: program_route_result where
  "exampleProgrammed = \<lparr>ro_programmedPolicyRules = [''web/p0000_r''], ro_programmedBackendSets = [''ns-svc'']\<rparr>"

lemma example_programmed_run:
  "case httpRoute_setProgrammed agreeable_env (exampleHTTPDetails False) acceptedExampleRoute exampleProgrammed [] of
    (Inr r, h) \<Rightarrow> httpRoute_isProgrammingRequired (exampleHTTPDetails False) | _ \<Rightarrow> False"
  by code_simp

lemma example_unrecorded: "map_get (rt_annotations acceptedExampleRoute) HTTPRouteProgrammedPolicyRulesAnnotation = []"
  by code_simp


section \<open>A deleted route is released last\<close>


definition recordedExampleRoute :: http_route where
  "recordedExampleRoute = exampleRoute\<lparr>rt_deleting := True, rt_finalizers := [HTTPRouteProgrammedFinalizer],
     rt_annotations := [(HTTPRouteProgrammedPolicyRulesAnnotation, ''web/p0000_r''),
       (HTTPRouteProgrammedBackendSetsAnnotation, ''ns-svc-80'')]\<rparr>"

lemma released_run: "case snd (httpRoute_deprovisionRoute foundEnv recordedExampleRoute ''lb'' [] []) of
    calls \<Rightarrow> calls \<noteq> [] \<and> (case last calls of UpdateHTTPRoute r \<Rightarrow> True | _ \<Rightarrow> False)"
  by code_simp


section \<open>Shared backend sets\<close>

definition unreferenced :: "load_balancer \<Rightarrow> string \<Rightarrow> bool" where
  "unreferenced loadBalancer name \<longleftrightarrow> (\<forall>(_, policy)\<in>set (lb_routing_policies loadBalancer).
     \<forall>rule\<in>set (rp_rules policy). \<not> routingRuleForwardsToBackendSet rule name)"

lemma referenced_run:
  "backendSetReferenced w lb name h = (Inr False, h') \<Longrightarrow>
    h' = h @ [GetLoadBalancer lb] \<and> (\<exists>loadBalancer. env_load_balancer w h lb = Inr loadBalancer \<and> unreferenced loadBalancer name)"
  by (auto simp: backendSetReferenced_def eff_simps eff_bind_Inr [OF get_run(1)] list_ex_iff unreferenced_def
      split: sum.splits)

fun checkedDeletion :: "lb_env \<Rightarrow> string list \<Rightarrow> lb_call list \<Rightarrow> lb_call \<Rightarrow> bool" where
  "checkedDeletion w recorded h (DeleteBackendSet lb name) \<longleftrightarrow> name \<in> set recorded \<longrightarrow>
     (\<exists>zs loadBalancer. h = zs @ [GetLoadBalancer lb] \<and> env_load_balancer w zs lb = Inr loadBalancer \<and>
       unreferenced loadBalancer name)"
| "checkedDeletion w recorded h c \<longleftrightarrow> True"

lemma checkedDeletion_reading: "reading c \<Longrightarrow> checkedDeletion w recorded h c"
  by (cases c) simp_all

lemma guarded_reading: "emits reading m \<Longrightarrow> guarded (checkedDeletion w recorded) m h"
  by (erule guarded_emits, erule checkedDeletion_reading)

lemma guarded_wrapping: "guarded P m h \<Longrightarrow> guarded P (wrapping pre m) h"
  unfolding wrapping_def
  by (intro guarded_bind guarded_attempt) (auto intro!: guarded_quiet simp: eff_return_def eff_fail_def split: sum.split)

lemma emits_referenced: "emits reading (backendSetReferenced w lb name)"
  by (auto simp: backendSetReferenced_def intro!: emits_intros split: sum.split)

lemma guarded_deletion:
  assumes "name \<in> set recorded \<Longrightarrow> \<exists>zs loadBalancer. h = zs @ [GetLoadBalancer lb] \<and>
      env_load_balancer w zs lb = Inr loadBalancer \<and> unreferenced loadBalancer name"
  shows "guarded (checkedDeletion w recorded) (deprovisionBackendSetByName w lb name) h"
  unfolding deprovisionBackendSetByName_def
proof (rule guarded_bind)
  show "guarded (checkedDeletion w recorded) (write_call w (DeleteBackendSet lb name)) h"
    using assms by (auto simp: guarded_def get_run(4) Cons_eq_append_conv)
next
  fix r h'
  have "emits reading (wait_for w msg i)" for msg i
    by (auto simp: wait_for_def intro!: emits_intros split: option.split)
  then show "guarded (checkedDeletion w recorded) (case r of
      Inl err \<Rightarrow> (if deletionDone err then eff_return ()
        else eff_fail (ErrWrap (errtext ''failed to delete backend set '' name '': '') (ErrService err) []))
    | Inr None \<Rightarrow> eff_fail (ErrText (errtext ''failed to delete backend set '' name '': missing work request id''))
    | Inr (Some i) \<Rightarrow> wait_for w (errtext ''failed to wait for backend set '' name '' deletion'') i) h'"
    by (auto intro: guarded_reading guarded_quiet simp: eff_return_def eff_fail_def split: sum.split option.split)
qed

lemma guarded_deprovisionRefs:
  "guarded (checkedDeletion w (dp_previousBackendSets params)) (deprovisionRefs w params processed refs) h"
proof (induction refs arbitrary: processed h)
  case (Cons ref refs processed h)
  let ?P = "checkedDeletion w (dp_previousBackendSets params)"
  let ?key = "l7BackendRefKey ref (dp_routeNamespace params)"
  let ?name = "ociBackendSetNameFromBackendObjectRef (dp_routeNamespace params) ref"
  let ?lb = "dp_loadBalancerID params"
  let ?fail = "\<lambda>r :: error + bool. case r of
      Inl err \<Rightarrow> eff_fail (ErrWrap (errtext ''failed to check backend set '' ?name '' references: '') err [])
    | Inr referenced \<Rightarrow> eff_return referenced"
  let ?check = "if ?name \<in> set (dp_previousBackendSets params)
     then eff_bind (eff_attempt (backendSetReferenced w ?lb ?name)) ?fail else eff_return False"
  have "emits reading (eff_bind (eff_attempt (backendSetReferenced w ?lb ?name)) ?fail)"
    by (auto intro!: emits_intros emits_referenced split: sum.split)
  then have check: "guarded ?P ?check h" by (auto intro: guarded_reading guarded_quiet simp: eff_return_def)
  have "guarded ?P (deprovisionBackendSet w ?lb (dp_routeNamespace params) ref) h'"
    if run: "?check h = (Inr False, h')" for h'
    unfolding deprovisionBackendSet_def
  proof (rule guarded_deletion)
    assume "?name \<in> set (dp_previousBackendSets params)"
    then have "backendSetReferenced w ?lb ?name h = (Inr False, h')"
      using run by (cases "backendSetReferenced w ?lb ?name h"; cases "fst (backendSetReferenced w ?lb ?name h)")
        (auto simp: eff_bind_attempt eff_return_def eff_fail_def)
    from referenced_run [OF this] show "\<exists>zs loadBalancer. h' = zs @ [GetLoadBalancer ?lb] \<and>
        env_load_balancer w zs ?lb = Inr loadBalancer \<and> unreferenced loadBalancer ?name" by blast
  qed
  then have "guarded ?P (if referenced then deprovisionRefs w params (?key # processed) refs
      else eff_bind (wrapping pre (deprovisionBackendSet w ?lb (dp_routeNamespace params) ref))
        (\<lambda>_. deprovisionRefs w params (?key # processed) refs)) h'"
    if "?check h = (Inr referenced, h')" for referenced h' pre
    using that Cons.IH by (cases referenced) (auto intro!: guarded_bind [OF guarded_wrapping])
  then have step: "guarded ?P (eff_bind ?check (\<lambda>referenced.
      if referenced then deprovisionRefs w params (?key # processed) refs
      else eff_bind (wrapping pre (deprovisionBackendSet w ?lb (dp_routeNamespace params) ref))
        (\<lambda>_. deprovisionRefs w params (?key # processed) refs))) h" for pre
    by (intro guarded_bind [OF check])
  show ?case
  proof (cases "?key \<in> set processed")
    case False
    show ?thesis unfolding deprovisionRefs.simps Let_def if_not_P [OF False] by (rule step)
  qed (use Cons.IH in simp)
qed (simp add: guarded_quiet eff_return_def)

text \<open>
  C2: A backend set that was recorded on a route is deleted with the route only when the load
  balancer, read in the request before, had no routing rule that forwards to it: a backend set
  that another route still uses survives.
\<close>

theorem shared_backend_set_survives:
  assumes "snd (deprovisionL7BackendSets w params h) = h @ xs @ DeleteBackendSet lb name # ys"
    and "name \<in> set (dp_previousBackendSets params)"
  shows "\<exists>zs loadBalancer. h @ xs = zs @ [GetLoadBalancer lb] \<and> env_load_balancer w zs lb = Inr loadBalancer \<and>
    unreferenced loadBalancer name"
  using guardedD [OF guarded_deprovisionRefs assms(1) [unfolded deprovisionL7BackendSets_def]] assms(2) by simp

definition recordedSetParams :: deprovision_l7_backend_sets_params where
  "recordedSetParams = \<lparr>dp_loadBalancerID = ''lb'', dp_routeKind = ''HTTPRoute'', dp_routeNamespace = ''ns'', dp_routeName = ''r'',
     dp_backendRefs = [exampleBackendRef],
     dp_previousBackendSets = [ociBackendSetNameFromBackendObjectRef ''ns'' exampleBackendRef]\<rparr>"

lemma recorded_set_run: "snd (deprovisionL7BackendSets foundEnv recordedSetParams []) =
    [GetLoadBalancer ''lb'', DeleteBackendSet ''lb'' (ociBackendSetNameFromBackendObjectRef ''ns'' exampleBackendRef), WaitFor ''wr'']"
  by code_simp

theorem shared_backend_set_survives_witness:
  "\<exists>loadBalancer. env_load_balancer foundEnv [] ''lb'' = Inr loadBalancer \<and>
    unreferenced loadBalancer (ociBackendSetNameFromBackendObjectRef ''ns'' exampleBackendRef)"
  using shared_backend_set_survives [of foundEnv recordedSetParams "[]" "[GetLoadBalancer ''lb'']" "''lb''"
      "ociBackendSetNameFromBackendObjectRef ''ns'' exampleBackendRef" "[WaitFor ''wr'']"] recorded_set_run
  by (simp add: recordedSetParams_def)

section \<open>Services of other namespaces\<close>

lemma service_permitted:
  "referenceGrantAllowsServiceBackend w kind fromNamespace ns name h = (Inr True, h1) \<Longrightarrow> ns \<noteq> fromNamespace \<Longrightarrow>
    \<exists>grants. env_grants w h ns = Inr grants \<and> (\<exists>g\<in>set grants. grantPermits g kind fromNamespace serviceKind name)"
  by (auto simp: serviceBackend_core coreRef_run split: sum.splits)

lemma permitted_granted:
  assumes "resolvePermittedService w routeNamespace (ns, name) h = (Inr service, h')" "ns \<noteq> routeNamespace"
  shows "(\<exists>grants. env_grants w h ns = Inr grants \<and> (\<exists>g\<in>set grants. grantPermits g ''GRPCRoute'' routeNamespace serviceKind name)) \<and>
    (\<exists>cs. h' = h @ cs)"
proof -
  have "extends (resolveService ''GRPCRoute'' w (ns, name))"
    unfolding extends_def resolveService_def by (auto intro!: emits_intros split: sum.split)
  moreover obtain h1 where "referenceGrantAllowsServiceBackend w ''GRPCRoute'' routeNamespace ns name h = (Inr True, h1)"
    "resolveService ''GRPCRoute'' w (ns, name) h1 = (Inr service, h')"
    using assms(1) unfolding resolvePermittedService_def
    by (auto simp: eff_fail_def elim!: eff_bind_InrE split: if_splits)
  moreover have "extends (referenceGrantAllowsServiceBackend w ''GRPCRoute'' routeNamespace ns name)"
    unfolding extends_def referenceGrantAllowsServiceBackend_def by (auto intro!: emits_intros split: sum.split)
  ultimately show ?thesis
    using service_permitted [OF _ assms(2)]
      extendsD [of "resolveService ''GRPCRoute'' w (ns, name)" h1]
      extendsD [of "referenceGrantAllowsServiceBackend w ''GRPCRoute'' routeNamespace ns name" h]
    by auto
qed

lemma loop_granted:
  assumes "resolveRefsLoop (resolvePermittedService w routeNamespace) routeNamespace refs resolved h = (Inr services, h')"
    and "ref \<in> set refs" "backendObjectRefName ref routeNamespace = (ns, name)" "ns \<noteq> routeNamespace"
  shows "\<exists>zs us grants. h' = zs @ us \<and> env_grants w zs ns = Inr grants \<and>
    (\<exists>g\<in>set grants. grantPermits g ''GRPCRoute'' routeNamespace serviceKind name)"
  using assms(1,2)
proof (induction refs arbitrary: resolved h)
  case (Cons r refs resolved h)
  let ?next = "\<lambda>service. AList.update (namespaced_name (fst (backendObjectRefName r routeNamespace))
      (snd (backendObjectRefName r routeNamespace))) service resolved"
  obtain service h1 where first: "resolvePermittedService w routeNamespace (backendObjectRefName r routeNamespace) h = (Inr service, h1)"
    and rest: "resolveRefsLoop (resolvePermittedService w routeNamespace) routeNamespace refs (?next service) h1 = (Inr services, h')"
    using Cons.prems(1) by (auto simp: Let_def elim: eff_bind_InrE)
  show ?case
  proof (cases "ref \<in> set refs")
    case True
    then show ?thesis using Cons.IH [OF rest] by blast
  next
    case False
    then have "r = ref" using Cons.prems(2) by simp
    moreover have "extends (resolveRefsLoop (resolvePermittedService w routeNamespace) routeNamespace refs resolved')" for resolved'
      unfolding extends_def
      by (induction refs arbitrary: resolved')
        (auto simp: Let_def resolvePermittedService_def resolveService_def referenceGrantAllowsServiceBackend_def
          intro!: emits_intros split: sum.split prod.split)
    ultimately show ?thesis
      using permitted_granted [of w routeNamespace ns name h service h1] first assms(3,4) rest
        extendsD [of "resolveRefsLoop (resolvePermittedService w routeNamespace) routeNamespace refs (?next service)" h1]
      by (metis append.assoc snd_conv)
  qed
qed simp

text \<open>
  A GRPCRoute uses a Service of another namespace only if a ReferenceGrant of that namespace
  permits it; the grants were listed in the same reconciliation.
\<close>

theorem grpc_backend_needs_grant:
  assumes "grpcRoute_resolveBackendRefs w route h = (Inr services, h')" "ref \<in> set (grpcRouteBackendRefs route)"
    and "backendObjectRefName ref (rt_namespace route) = (ns, name)" "ns \<noteq> rt_namespace route"
  shows "\<exists>zs us grants. h' = zs @ us \<and> env_grants w zs ns = Inr grants \<and>
    (\<exists>g\<in>set grants. grantPermits g ''GRPCRoute'' (rt_namespace route) serviceKind name)"
  using loop_granted [OF assms(1) [unfolded grpcRoute_resolveBackendRefs_def] _ assms(3,4)] assms(2)
  by (simp add: grpcRouteBackendRefs_def)

definition crossNamespaceRef :: backend_ref where
  "crossNamespaceRef = exampleBackendRef\<lparr>br_namespace := Some ''other''\<rparr>"

definition crossNamespaceRoute :: grpc_route where
  "crossNamespaceRoute = (dd_route (exampleGRPCDetails False))\<lparr>rt_rules := [\<lparr>rr_name = None, rr_matches = [],
     rr_backend_refs = [crossNamespaceRef]\<rparr>]\<rparr>"

definition grantedEnv :: lb_env where
  "grantedEnv = agreeable_env\<lparr>env_grants := \<lambda>_ _. Inr [\<lparr>rg_namespace = ''other'', rg_name = ''g'', rg_uid = ''u'', rg_version = ''1'',
       rg_from = [\<lparr>gf_group = gatewayAPIGroup, gf_kind = ''GRPCRoute'', gf_namespace = ''ns''\<rparr>],
       rg_to = [\<lparr>gt_group = [], gt_kind = ''Service'', gt_name = None\<rparr>]\<rparr>],
     env_service := \<lambda>_ ns name. Inr \<lparr>svc_namespace = ns, svc_name = name, svc_ports = []\<rparr>\<rparr>"

lemma cross_run: "case grpcRoute_resolveBackendRefs grantedEnv crossNamespaceRoute [] of (Inr services, h) \<Rightarrow> True | _ \<Rightarrow> False"
  by code_simp

lemma cross_name: "backendObjectRefName crossNamespaceRef (rt_namespace crossNamespaceRoute) = (''other'', ''svc'') \<and>
    rt_namespace crossNamespaceRoute = ''ns'' \<and> grpcRouteBackendRefs crossNamespaceRoute = [crossNamespaceRef]"
  by code_simp

theorem grpc_backend_needs_grant_witness:
  "\<exists>zs grants. env_grants grantedEnv zs ''other'' = Inr grants \<and>
    (\<exists>g\<in>set grants. grantPermits g ''GRPCRoute'' ''ns'' serviceKind ''svc'')"
proof -
  obtain services h where run: "grpcRoute_resolveBackendRefs grantedEnv crossNamespaceRoute [] = (Inr services, h)"
    using cross_run by (auto split: prod.splits sum.splits)
  have name: "backendObjectRefName crossNamespaceRef (rt_namespace crossNamespaceRoute) = (''other'', ''svc'')"
    and place: "rt_namespace crossNamespaceRoute = ''ns''" "grpcRouteBackendRefs crossNamespaceRoute = [crossNamespaceRef]"
    using cross_name by blast+
  from grpc_backend_needs_grant [OF run _ name] show ?thesis unfolding place by auto
qed

text \<open>
  An HTTPRoute uses a Service of any namespace: resolving its backends never asks for a
  ReferenceGrant, whatever the namespaces are.
\<close>

theorem http_backends_need_no_grant:
  "emits (\<lambda>c. \<exists>ns name. c = GetService ns name) (httpRoute_resolveBackendRefs w route)"
proof -
  have "emits (\<lambda>c. \<exists>ns name. c = GetService ns name) (resolveRefsLoop (resolveService ''HTTPRoute'' w) ns refs resolved)" for ns refs resolved
    by (induction refs arbitrary: resolved)
      (auto simp: Let_def resolveService_def intro!: emits_intros split: sum.split prod.split)
  then show ?thesis unfolding httpRoute_resolveBackendRefs_def .
qed

end
