(* ===== verification/NlbGateways.thy ===== *)
theory NlbGateways
  imports GatewaySafety L7Routes NlbBackends
begin

text \<open>
  Gateways on OCI Network Load Balancers (\<open>network_load_balancer_gateway_model.go\<close> and its
  controller): listeners and backend sets of a Gateway, their removal, its status and its
  reconciliation. Locks are the matter of \<open>LbLocks\<close>; the theorems are in \<open>NlbSafety\<close>.
\<close>

section \<open>Names and settings\<close>

definition networkLoadBalancerHealthCheckRetries :: int where
  "networkLoadBalancerHealthCheckRetries = 3"

definition networkLoadBalancerHealthCheckTimeoutMillis :: int where
  "networkLoadBalancerHealthCheckTimeoutMillis = 3000"

definition networkLoadBalancerHealthCheckIntervalMillis :: int where
  "networkLoadBalancerHealthCheckIntervalMillis = 10000"

definition networkLoadBalancerTCPIdleTimeoutSeconds :: int where
  "networkLoadBalancerTCPIdleTimeoutSeconds = 360"

definition networkLoadBalancerUDPIdleTimeoutSeconds :: int where
  "networkLoadBalancerUDPIdleTimeoutSeconds = 120"

definition NetworkLoadBalancerGatewayProgrammingRevisionAnnotation :: string where
  "NetworkLoadBalancerGatewayProgrammingRevisionAnnotation =
     ''oke-gateway-api.gemyago.github.io/nlb-gateway-programming-revision''"

definition NetworkLoadBalancerGatewayProgrammingRevisionValue :: string where
  "NetworkLoadBalancerGatewayProgrammingRevisionValue = ''2''"

definition NetworkLoadBalancerGatewayProgrammedFinalizer :: string where
  "NetworkLoadBalancerGatewayProgrammedFinalizer = ''oke-gateway-api.gemyago.github.io/nlb-gateway-programmed''"

definition NetworkLoadBalancerGatewayIDAnnotation :: string where
  "NetworkLoadBalancerGatewayIDAnnotation = ''oke-gateway-api.gemyago.github.io/nlb-id''"

definition NetworkLoadBalancerGatewayProgrammedListenersAnnotation :: string where
  "NetworkLoadBalancerGatewayProgrammedListenersAnnotation =
     ''oke-gateway-api.gemyago.github.io/nlb-gateway-listeners''"

definition NetworkLoadBalancerGatewayProgrammedBackendSetsAnnotation :: string where
  "NetworkLoadBalancerGatewayProgrammedBackendSetsAnnotation =
     ''oke-gateway-api.gemyago.github.io/nlb-gateway-backendsets''"

definition networkLoadBalancerBackendSetName :: "gw_listener \<Rightarrow> string" where
  "networkLoadBalancerBackendSetName listener = ''bs_'' @ map (\<lambda>c. if c = CHR ''-'' then CHR ''_'' else c) (l_name listener)"

definition networkLoadBalancerListenerProtocol :: "string \<Rightarrow> string option" where
  "networkLoadBalancerListenerProtocol protocol =
     (if protocol = ''TCP'' then Some ''TCP'' else if protocol = ''UDP'' then Some ''UDP'' else None)"

definition networkLoadBalancerHealthCheckerDetails :: "int option \<Rightarrow> nlb_health_checker" where
  "networkLoadBalancerHealthCheckerDetails port =
     \<lparr>nh_protocol = ''TCP'', nh_port = port, nh_retries = Some networkLoadBalancerHealthCheckRetries,
      nh_timeout = Some networkLoadBalancerHealthCheckTimeoutMillis,
      nh_interval = Some networkLoadBalancerHealthCheckIntervalMillis, nh_url_path = None, nh_body_regex = None,
      nh_return_code = None, nh_request_data = None, nh_response_data = None, nh_dns = None\<rparr>"

definition networkLoadBalancerHealthCheckerMatches :: "nlb_health_checker option \<Rightarrow> nlb_health_checker \<Rightarrow> bool" where
  "networkLoadBalancerHealthCheckerMatches actual desired =
     (case actual of
        None \<Rightarrow> False
      | Some a \<Rightarrow> nh_protocol a = nh_protocol desired \<and> int_ptr (nh_port a) = int_ptr (nh_port desired) \<and>
          int_ptr (nh_retries a) = int_ptr (nh_retries desired) \<and> int_ptr (nh_timeout a) = int_ptr (nh_timeout desired) \<and>
          int_ptr (nh_interval a) = int_ptr (nh_interval desired))"

definition networkLoadBalancerListenerMatches :: "nlb_listener \<Rightarrow> string \<Rightarrow> int \<Rightarrow> string \<Rightarrow> bool" where
  "networkLoadBalancerListenerMatches actual desiredProtocol desiredPort desiredBackendSetName =
     (if nll_protocol actual \<noteq> desiredProtocol \<or> int_ptr (nll_port actual) \<noteq> desiredPort \<or>
         str_ptr (nll_backend_set actual) \<noteq> desiredBackendSetName then False
      else if desiredProtocol = ''TCP'' then int_ptr (nll_tcp_idle actual) = networkLoadBalancerTCPIdleTimeoutSeconds
      else if desiredProtocol = ''UDP'' then int_ptr (nll_udp_idle actual) = networkLoadBalancerUDPIdleTimeoutSeconds
      else True)"

definition networkLoadBalancerListenerDetails :: "string \<Rightarrow> int \<Rightarrow> string \<Rightarrow> nlb_update_listener" where
  "networkLoadBalancerListenerDetails backendSetName port protocol =
     \<lparr>nul_backend_set = Some backendSetName, nul_port = Some port, nul_protocol = protocol,
      nul_tcp_idle = (if protocol = ''TCP'' then Some networkLoadBalancerTCPIdleTimeoutSeconds else None),
      nul_udp_idle = (if protocol = ''UDP'' then Some networkLoadBalancerUDPIdleTimeoutSeconds else None)\<rparr>"

text \<open>The name of the new listener is an argument of the request here.\<close>

definition createNetworkLoadBalancerListenerDetails :: "string \<Rightarrow> string \<Rightarrow> int \<Rightarrow> string \<Rightarrow> string \<times> nlb_update_listener" where
  "createNetworkLoadBalancerListenerDetails listenerName backendSetName port protocol =
     (listenerName, networkLoadBalancerListenerDetails backendSetName port protocol)"

definition gatewayStatusAddressesFromNetworkLoadBalancer ::
    "nat list \<Rightarrow> network_load_balancer option \<Rightarrow> status_address list" where
  "gatewayStatusAddressesFromNetworkLoadBalancer order nlb =
     (case nlb of
        None \<Rightarrow> []
      | Some n \<Rightarrow>
          (if nl_addresses n = [] then []
           else gatewayStatusAddressesFromValues order (filter (\<lambda>v. v \<noteq> []) (List.map_filter id (nl_addresses n)))))"

definition networkLoadBalancerID :: "string \<Rightarrow> error + string" where
  "networkLoadBalancerID loadBalancerID =
     (if loadBalancerID = [] then Inl (invalidParameters
        ''spec.loadBalancerId is required for OCI Network Load Balancer gateways'')
      else Inr loadBalancerID)"

section \<open>Resolution\<close>

definition networkLoadBalancerGatewayCanFinalizeWithoutConfig :: "gateway \<Rightarrow> bool" where
  "networkLoadBalancerGatewayCanFinalizeWithoutConfig gateway \<longleftrightarrow>
     gw_deleting gateway \<and> NetworkLoadBalancerGatewayProgrammedFinalizer \<in> set (gw_finalizers gateway) \<and>
     map_get (gw_annotations gateway) NetworkLoadBalancerGatewayIDAnnotation \<noteq> []"

text \<open>A Gateway of the class with its configuration; without one the load balancer id is empty.\<close>

definition nlbGateway_resolveConfig :: "lb_env \<Rightarrow> bool \<Rightarrow> gateway \<Rightarrow> gateway_class \<Rightarrow> resolution lb_op" where
  "nlbGateway_resolveConfig w listenerSetEnabled gateway class =
     (let withoutConfig = (\<lambda>message. if networkLoadBalancerGatewayCanFinalizeWithoutConfig gateway
            then Relevant (resolvedGateway gateway class []) else Unresolved gateway (invalidParameters message))
      in case gw_parameters gateway of
          None \<Rightarrow> eff_return (withoutConfig ''spec.infrastructure is missing parametersRef'')
        | Some configName \<Rightarrow>
            eff_bind (get_gateway_config w (gw_namespace gateway) configName) (\<lambda>r. case r of
                Inl err \<Rightarrow>
                  eff_return (if is_not_found err
                    then withoutConfig ''spec.infrastructure is pointing to a non-existent GatewayConfig''
                    else Unresolved gateway (ErrWrap (errtext ''failed to get GatewayConfig ''
                      (namespaced_name (gw_namespace gateway) configName) '': '') err []))
              | Inr loadBalancerID \<Rightarrow>
                  (let data = resolvedGateway gateway class loadBalancerID in
                   if listenerSetEnabled then
                     eff_bind (eff_attempt (populateAttachedListenerSets w data)) (\<lambda>r. eff_return (case r of
                         Inl err \<Rightarrow> Unresolved gateway err
                       | Inr data1 \<Rightarrow> Relevant data1))
                   else eff_return (Relevant data))))"

definition nlbGateway_resolveReconcileRequest :: "lb_env \<Rightarrow> bool \<Rightarrow> string \<times> string \<Rightarrow> resolution lb_op" where
  "nlbGateway_resolveReconcileRequest w listenerSetEnabled = (\<lambda>(ns, name).
     eff_bind (get_gateway w ns name) (\<lambda>r. case r of
         Inl err \<Rightarrow>
           eff_return (if is_not_found err then Irrelevant
             else Unresolved zeroGateway (ErrWrap (errtext ''failed to get Gateway '' (namespaced_name ns name) '': '') err []))
       | Inr gateway \<Rightarrow>
           eff_bind (get_gateway_class w (gw_class_name gateway)) (\<lambda>r. case r of
               Inl err \<Rightarrow>
                 eff_return (if is_not_found err then Irrelevant
                   else Unresolved gateway (ErrWrap (errtext ''failed to get GatewayClass '' (gw_class_name gateway) '': '') err []))
             | Inr class \<Rightarrow>
                 (if gc_controller class \<noteq> NetworkLoadBalancerControllerClassName then eff_return Irrelevant
                  else nlbGateway_resolveConfig w listenerSetEnabled gateway class))))"

definition getNetworkLoadBalancerByID :: "lb_env \<Rightarrow> string \<Rightarrow> network_load_balancer lb_op" where
  "getNetworkLoadBalancerByID w i =
     eff_bind (get_nlb w i) (\<lambda>r. case r of
         Inr nlb \<Rightarrow> eff_return nlb
       | Inl err \<Rightarrow>
           (if svc_has_status 404 err then eff_fail (ErrResourceStatus ''Programmed'' ''Pending''
              (errtext ''referenced OCI Network Load Balancer '' i '' not found'') None)
            else eff_fail (ErrWrap (errtext ''failed to get OCI Network Load Balancer '' i '': '') (ErrService err) [])))"

definition getNetworkLoadBalancer :: "lb_env \<Rightarrow> string \<Rightarrow> network_load_balancer lb_op" where
  "getNetworkLoadBalancer w loadBalancerID =
     (case networkLoadBalancerID loadBalancerID of
        Inl err \<Rightarrow> eff_fail err
      | Inr nlbID \<Rightarrow> getNetworkLoadBalancerByID w nlbID)"

definition ensureNetworkLoadBalancer :: "lb_env \<Rightarrow> string \<Rightarrow> network_load_balancer lb_op" where
  "ensureNetworkLoadBalancer w loadBalancerID =
     (case networkLoadBalancerID loadBalancerID of
        Inl err \<Rightarrow> eff_fail err
      | Inr nlbID \<Rightarrow> getNetworkLoadBalancerByID w nlbID)"

section \<open>Listeners\<close>

text \<open>A request, and the wait for it; a busy load balancer is told apart from other failures.\<close>

definition nlb_awaited :: "lb_env \<Rightarrow> string option \<Rightarrow> lb_call \<Rightarrow> string \<Rightarrow> unit lb_op" where
  "nlb_awaited w nlbID c doing =
     eff_bind (write_call w c) (\<lambda>r. case r of
         Inl err \<Rightarrow>
           (case networkLoadBalancerBusyErrorFromOCI nlbID err of
              Some busy \<Rightarrow> eff_fail busy
            | None \<Rightarrow> eff_fail (ErrWrap (doing @ '': '') (ErrService err) []))
       | Inr None \<Rightarrow> eff_fail (ErrText (doing @ '': missing work request id''))
       | Inr (Some i) \<Rightarrow> eff_bind (nlb_wait w i) (\<lambda>r. case r of None \<Rightarrow> eff_return () | Some err \<Rightarrow> eff_fail err))"

definition reconcileListenerBackendSet :: "lb_env \<Rightarrow> network_load_balancer \<Rightarrow> gw_listener \<Rightarrow> unit lb_op" where
  "reconcileListenerBackendSet w nlb listener =
     (let backendSetName = networkLoadBalancerBackendSetName listener in
      if map_of (from_ptr [] (nl_backend_sets nlb)) backendSetName \<noteq> None then eff_return ()
      else nlb_awaited w (nl_id nlb) (NlbCreateBackendSet (nl_id nlb)
          \<lparr>nc_name = Some backendSetName, nc_policy = ''FIVE_TUPLE'',
           nc_health_checker = Some (networkLoadBalancerHealthCheckerDetails (Some (l_port listener))),
           nc_preserve_source = Some False\<rparr>)
        (errtext ''failed to create OCI Network Load Balancer backend set '' backendSetName []))"

definition unsupportedNlbProtocol :: "gw_listener \<Rightarrow> error" where
  "unsupportedNlbProtocol listener =
     ErrResourceStatus ''Accepted'' ''Invalid'' (errtext ''listener '' (l_name listener)
       (errtext '' uses unsupported protocol '' (l_protocol listener) '' for OCI Network Load Balancer'')) None"

definition nlbGateway_reconcileListener :: "lb_env \<Rightarrow> network_load_balancer \<Rightarrow> gw_listener \<Rightarrow> unit lb_op" where
  "nlbGateway_reconcileListener w nlb listener =
     (case networkLoadBalancerListenerProtocol (l_protocol listener) of
        None \<Rightarrow> eff_fail (unsupportedNlbProtocol listener)
      | Some protocol \<Rightarrow>
          eff_bind (reconcileListenerBackendSet w nlb listener) (\<lambda>_.
          (let listenerName = l_name listener; backendSetName = networkLoadBalancerBackendSetName listener; port = l_port listener
           in case map_of (nl_listeners nlb) listenerName of
               Some existingListener \<Rightarrow>
                 (if networkLoadBalancerListenerMatches existingListener protocol port backendSetName then eff_return ()
                  else nlb_awaited w (nl_id nlb) (NlbUpdateListener (nl_id nlb) listenerName
                      (networkLoadBalancerListenerDetails backendSetName port protocol))
                    (errtext ''failed to update OCI Network Load Balancer listener '' listenerName []))
             | None \<Rightarrow>
                 (case createNetworkLoadBalancerListenerDetails listenerName backendSetName port protocol of (name, details) \<Rightarrow>
                   nlb_awaited w (nl_id nlb) (NlbCreateListener (nl_id nlb) name details)
                     (errtext ''failed to create OCI Network Load Balancer listener '' listenerName [])))))"

section \<open>Removal\<close>

definition networkLoadBalancerListenerPreservedByGateway :: "string \<Rightarrow> bool" where
  "networkLoadBalancerListenerPreservedByGateway protocol \<longleftrightarrow>
     networkLoadBalancerListenerProtocol protocol \<noteq> None \<or> protocol = ''TLS''"

definition desiredNetworkLoadBalancerListenerNames :: "gw_listener list \<Rightarrow> string list" where
  "desiredNetworkLoadBalancerListenerNames listeners =
     uniq_by id (map l_name (filter (\<lambda>l. networkLoadBalancerListenerPreservedByGateway (l_protocol l)) listeners))"

definition desiredNetworkLoadBalancerBackendSetNames :: "gw_listener list \<Rightarrow> string list" where
  "desiredNetworkLoadBalancerBackendSetNames listeners =
     uniq_by id (map networkLoadBalancerBackendSetName
       (filter (\<lambda>l. networkLoadBalancerListenerPreservedByGateway (l_protocol l)) listeners))"

text \<open>\<open>None\<close> for the candidates: everything may be cleaned up.\<close>

definition removeMissingNetworkLoadBalancerResources ::
    "lb_env \<Rightarrow> string option \<Rightarrow> 'a go_map \<Rightarrow> string list \<Rightarrow> string list option \<Rightarrow> string \<Rightarrow> (string \<Rightarrow> lb_call) \<Rightarrow> unit lb_op" where
  "removeMissingNetworkLoadBalancerResources w nlbID current desired candidates kind delete_call =
     eff_bind (eff_ask (env_order w)) (\<lambda>order.
       eff_foreach (\<lambda>(resourceName, _).
         if resourceName \<in> set desired then eff_return ()
         else if (case candidates of Some names \<Rightarrow> resourceName \<notin> set names | None \<Rightarrow> False) then eff_return ()
         else eff_bind (write_call w (delete_call resourceName)) (\<lambda>r. case r of
             Inl err \<Rightarrow>
               (case networkLoadBalancerBusyErrorFromOCI nlbID err of
                  Some busy \<Rightarrow> eff_fail busy
                | None \<Rightarrow> eff_fail (ErrWrap (errtext ''failed to delete stale OCI Network Load Balancer '' kind
                    (errtext '' '' resourceName '': '')) (ErrService err) []))
           | Inr None \<Rightarrow> eff_fail (ErrText (errtext ''failed to delete stale '' kind
               (errtext '' '' resourceName '': missing work request id'')))
           | Inr (Some i) \<Rightarrow>
               eff_bind (nlb_wait w i) (\<lambda>r. case r of
                   None \<Rightarrow> eff_return ()
                 | Some err \<Rightarrow> eff_fail (ErrWrap (errtext ''failed waiting for stale '' kind
                     (errtext '' '' resourceName '' deletion: '')) err []))))
         (map_iter order current))"

definition nlbGateway_removeMissingListeners ::
    "lb_env \<Rightarrow> network_load_balancer \<Rightarrow> gw_listener list \<Rightarrow> string list option \<Rightarrow> unit lb_op" where
  "nlbGateway_removeMissingListeners w nlb gatewayListeners candidates =
     removeMissingNetworkLoadBalancerResources w (nl_id nlb) (nl_listeners nlb)
       (desiredNetworkLoadBalancerListenerNames gatewayListeners) candidates ''listener''
       (NlbDeleteListener (nl_id nlb))"

definition nlbGateway_removeMissingBackendSets ::
    "lb_env \<Rightarrow> network_load_balancer \<Rightarrow> gw_listener list \<Rightarrow> string list option \<Rightarrow> unit lb_op" where
  "nlbGateway_removeMissingBackendSets w nlb gatewayListeners candidates =
     removeMissingNetworkLoadBalancerResources w (nl_id nlb) (from_ptr [] (nl_backend_sets nlb))
       (desiredNetworkLoadBalancerBackendSetNames gatewayListeners) candidates ''backend set''
       (NlbDeleteBackendSet (nl_id nlb))"

text \<open>A map restricted to the names the Gateway owns.\<close>

definition namedNetworkLoadBalancerListeners :: "string list \<Rightarrow> nlb_listener go_map \<Rightarrow> nlb_listener go_map" where
  "namedNetworkLoadBalancerListeners ownedNames knownListeners = filter (\<lambda>(name, _). name \<in> set ownedNames) knownListeners"

definition namedNetworkLoadBalancerBackendSets :: "string list \<Rightarrow> nlb_backend_set go_map \<Rightarrow> nlb_backend_set go_map" where
  "namedNetworkLoadBalancerBackendSets ownedNames knownBackendSets =
     filter (\<lambda>(name, _). name \<in> set ownedNames) knownBackendSets"

definition ownedNlbListenerNames :: "resolved_gateway_details \<Rightarrow> string list" where
  "ownedNlbListenerNames data = mergeNameSets
     [annotatedResourceNames (rd_gateway data) NetworkLoadBalancerGatewayProgrammedListenersAnnotation,
      desiredNetworkLoadBalancerListenerNames (effectiveOCIListenersForGateway data)]"

definition ownedNlbBackendSetNames :: "resolved_gateway_details \<Rightarrow> string list" where
  "ownedNlbBackendSetNames data = mergeNameSets
     [annotatedResourceNames (rd_gateway data) NetworkLoadBalancerGatewayProgrammedBackendSetsAnnotation,
      desiredNetworkLoadBalancerBackendSetNames (effectiveOCIListenersForGateway data)]"

definition nlbIdEmpty :: error where
  "nlbIdEmpty = ErrText ''OCI Network Load Balancer id is empty''"

text \<open>A load balancer that is gone needs no clean-up.\<close>

definition deprovisionNetworkLoadBalancerGatewayResources :: "lb_env \<Rightarrow> resolved_gateway_details \<Rightarrow> string \<Rightarrow> unit lb_op" where
  "deprovisionNetworkLoadBalancerGatewayResources w data nlbID =
     eff_bind (eff_attempt (getNetworkLoadBalancerByID w nlbID)) (\<lambda>r. case r of
         Inl err \<Rightarrow>
           (case errors_as status_of err of
              Some (_, reason, _) \<Rightarrow> (if reason = ''Pending'' then eff_return () else eff_fail err)
            | None \<Rightarrow> eff_fail err)
       | Inr nlb \<Rightarrow>
           (if nl_id nlb = None then eff_fail nlbIdEmpty
            else case networkLoadBalancerBusyErrorFromState (Some nlb) of
                Some busy \<Rightarrow> eff_fail busy
              | None \<Rightarrow>
                  (let scopedNLB = nlb\<lparr>nl_listeners := namedNetworkLoadBalancerListeners (ownedNlbListenerNames data) (nl_listeners nlb),
                     nl_backend_sets := Some (namedNetworkLoadBalancerBackendSets (ownedNlbBackendSetNames data)
                       (from_ptr [] (nl_backend_sets nlb)))\<rparr>
                   in eff_bind (nlbGateway_removeMissingListeners w scopedNLB [] None) (\<lambda>_.
                        nlbGateway_removeMissingBackendSets w scopedNLB [] None))))"

definition nlbGateway_deprovisionedGateway :: "gateway \<Rightarrow> gateway" where
  "nlbGateway_deprovisionedGateway gateway =
     gateway\<lparr>gw_finalizers := removeFinalizer NetworkLoadBalancerGatewayProgrammedFinalizer (gw_finalizers gateway),
       gw_annotations := map_delete_all [NetworkLoadBalancerGatewayIDAnnotation,
         NetworkLoadBalancerGatewayProgrammedListenersAnnotation,
         NetworkLoadBalancerGatewayProgrammedBackendSetsAnnotation] (gw_annotations gateway)\<rparr>"

definition recordedNlbID :: "resolved_gateway_details \<Rightarrow> string" where
  "recordedNlbID data = (if rd_loadBalancerID data = []
     then map_get (gw_annotations (rd_gateway data)) NetworkLoadBalancerGatewayIDAnnotation else rd_loadBalancerID data)"

definition nlbGateway_deprovisionGateway :: "lb_env \<Rightarrow> resolved_gateway_details \<Rightarrow> unit lb_op" where
  "nlbGateway_deprovisionGateway w data =
     (let updated = nlbGateway_deprovisionedGateway (rd_gateway data) in
      eff_bind (if recordedNlbID data \<noteq> [] then deprovisionNetworkLoadBalancerGatewayResources w data (recordedNlbID data)
        else eff_return ()) (\<lambda>_.
      eff_bind (k8s_update w (UpdateGateway updated)) (\<lambda>r. case r of
          None \<Rightarrow> eff_return ()
        | Some err \<Rightarrow>
            (if is_not_found err then eff_return ()
             else eff_fail (ErrWrap (errtext ''failed to remove finalizer from Gateway ''
               (namespaced_name (gw_namespace updated) (gw_name updated)) '': '') err [])))))"

section \<open>Programming\<close>

definition validateNetworkLoadBalancerGatewayListeners :: "resolved_gateway_details \<Rightarrow> error option" where
  "validateNetworkLoadBalancerGatewayListeners data =
     (if gatewayFrontendMTLSConfigured (rd_gateway data) then Some (ErrResourceStatus ''Accepted'' ''Invalid''
        ''frontend mTLS is not supported by OCI Network Load Balancer gateways'' None)
      else map_option (\<lambda>l. unsupportedNlbProtocol (ef_listener l))
        (find (\<lambda>l. \<not> (ef_sourceKind l \<noteq> effectiveListenerSourceGateway \<or> ef_conflicted l \<or>
             l_protocol (ef_listener l) = ''TLS'') \<and> networkLoadBalancerListenerProtocol (l_protocol (ef_listener l)) = None)
          (resolvedEffectiveListeners data)))"

text \<open>The steps under the lock of the load balancer.\<close>

definition nlbGateway_programListeners :: "lb_env \<Rightarrow> resolved_gateway_details \<Rightarrow> network_load_balancer \<Rightarrow> unit lb_op" where
  "nlbGateway_programListeners w data nlb =
     (let gatewayListeners = effectiveOCIListenersForGateway data in
      case validateNetworkLoadBalancerGatewayListeners data of
        Some err \<Rightarrow> eff_fail err
      | None \<Rightarrow>
          eff_bind (eff_foreach (\<lambda>listener.
             wrapped (errtext ''failed to reconcile Network Load Balancer listener '' (l_name listener) '': '')
               (nlbGateway_reconcileListener w nlb listener)) (gatewayManagedOCIListenersForNetworkLoadBalancer data)) (\<lambda>_.
          eff_bind (nlbGateway_removeMissingListeners w nlb gatewayListeners
             (Some (annotatedResourceNames (rd_gateway data) NetworkLoadBalancerGatewayProgrammedListenersAnnotation))) (\<lambda>_.
          nlbGateway_removeMissingBackendSets w nlb gatewayListeners
             (Some (annotatedResourceNames (rd_gateway data) NetworkLoadBalancerGatewayProgrammedBackendSetsAnnotation)))))"

text \<open>The Gateway in memory gets the id of the load balancer, also when a later step fails; it comes
  with the outcome.\<close>

definition nlbGateway_programGateway :: "lb_env \<Rightarrow> resolved_gateway_details \<Rightarrow> (resolved_gateway_details \<times> (error + unit)) lb_op" where
  "nlbGateway_programGateway w data =
     eff_bind (eff_attempt (ensureNetworkLoadBalancer w (rd_loadBalancerID data))) (\<lambda>r. case r of
         Inl err \<Rightarrow> eff_return (data, Inl err)
       | Inr nlb \<Rightarrow>
           (case nl_id nlb of
              None \<Rightarrow> eff_return (data, Inl nlbIdEmpty)
            | Some i \<Rightarrow>
                (case networkLoadBalancerBusyErrorFromState (Some nlb) of
                   Some busy \<Rightarrow> eff_return (data, Inl busy)
                 | None \<Rightarrow>
                     (let gateway = rd_gateway data;
                          data1 = data\<lparr>rd_gateway := gateway\<lparr>gw_annotations :=
                            AList.update NetworkLoadBalancerGatewayIDAnnotation i (gw_annotations gateway)\<rparr>\<rparr>
                      in eff_bind (eff_attempt (nlbGateway_programListeners w data1 nlb)) (\<lambda>r. eff_return (data1, r))))))"

definition nlbGateway_programmedAnnotations :: "resolved_gateway_details \<Rightarrow> string option \<Rightarrow> string go_map" where
  "nlbGateway_programmedAnnotations data nlbID =
     (let gatewayListeners = effectiveOCIListenersForGateway data in
      (NetworkLoadBalancerGatewayProgrammingRevisionAnnotation, NetworkLoadBalancerGatewayProgrammingRevisionValue) #
      (case nlbID of Some i \<Rightarrow> [(NetworkLoadBalancerGatewayIDAnnotation, i)] | None \<Rightarrow> []) @
      [(NetworkLoadBalancerGatewayProgrammedListenersAnnotation,
          joinedAnnotationNames (desiredNetworkLoadBalancerListenerNames gatewayListeners)),
       (NetworkLoadBalancerGatewayProgrammedBackendSetsAnnotation,
          joinedAnnotationNames (desiredNetworkLoadBalancerBackendSetNames gatewayListeners))])"

definition nlbGateway_isProgrammed :: "resolved_gateway_details \<Rightarrow> bool" where
  "nlbGateway_isProgrammed data =
     isConditionSet gateway_ops (rd_gateway data) (gw_conditions (rd_gateway data)) ''Programmed''
       (nlbGateway_programmedAnnotations data (if rd_loadBalancerID data = [] then None else Some (rd_loadBalancerID data)))"

definition nlbGateway_setProgrammed :: "lb_env \<Rightarrow> resolved_gateway_details \<Rightarrow> network_load_balancer \<Rightarrow> unit lb_op" where
  "nlbGateway_setProgrammed w data0 nlb =
     eff_bind (get_gateway w (gw_namespace (rd_gateway data0)) (gw_name (rd_gateway data0))) (\<lambda>r. case r of
         Inl err \<Rightarrow> eff_fail (ErrWrap (errtext ''failed to refresh Gateway '' (gw_name (rd_gateway data0))
           '' before setting programmed condition: '') err [])
       | Inr fresh \<Rightarrow>
           eff_bind (eff_ask (env_order w)) (\<lambda>order.
           (let gateway = fresh\<lparr>gw_addresses := gatewayStatusAddressesFromNetworkLoadBalancer order (Some nlb),
                  gw_attached_listener_sets := Some (attachedListenerSetCount (rd_listenerSets data0) (rd_effectiveListeners data0))\<rparr>;
                data = data0\<lparr>rd_gateway := gateway\<rparr>
            in eff_bind (wrapped (errtext ''failed to set programmed condition for Gateway '' (gw_name gateway) '': '')
                 (setCondition gateway_ops w (gatewayCondition gateway ''Programmed'' ''True'' ''Programmed''
                   (errtext ''Gateway '' (gw_name gateway) (errtext '' programmed by '' NetworkLoadBalancerControllerClassName []))
                   (nlbGateway_programmedAnnotations data (nl_id nlb))
                   NetworkLoadBalancerGatewayProgrammedFinalizer))) (\<lambda>updated.
               setListenerSetsProgrammed w (data\<lparr>rd_gateway := updated\<rparr>) NetworkLoadBalancerControllerClassName))))"

text \<open>Backend sets that other routes reconcile are compared with this.\<close>

definition networkLoadBalancerBackendSetMatches :: "nlb_backend_set \<Rightarrow> string \<Rightarrow> nlb_health_checker \<Rightarrow> bool" where
  "networkLoadBalancerBackendSetMatches actual desiredPolicy desiredHealthChecker \<longleftrightarrow>
     nbs_policy actual = desiredPolicy \<and> \<not> bool_ptr (nbs_preserve_source actual) \<and>
     networkLoadBalancerHealthCheckerMatches (nbs_health_checker actual) desiredHealthChecker"

section \<open>The controller\<close>

definition networkLoadBalancerBusyRequeueAfter :: int where
  "networkLoadBalancerBusyRequeueAfter = 15 * 1000000000"

definition nlbGateway_processResourceError :: "lb_env \<Rightarrow> int \<Rightarrow> error \<Rightarrow> gateway \<Rightarrow> int lb_op" where
  "nlbGateway_processResourceError w driftInterval err gateway =
     (case errors_as busy_of err of
        Some _ \<Rightarrow> eff_return networkLoadBalancerBusyRequeueAfter
      | None \<Rightarrow>
          (case errors_as status_of err of
             Some (conditionType, reason, message) \<Rightarrow>
               eff_bind (wrapped (errtext ''failed to set condition for Gateway '' (gw_name gateway) '': '')
                 (setCondition gateway_ops w (gatewayCondition gateway conditionType ''False'' reason message [] [])))
                 (\<lambda>_. driftRequeue w driftInterval)
           | None \<Rightarrow> eff_fail (ErrWrap (errtext ''failed to program Network Load Balancer Gateway '' (gw_name gateway) '': '')
               err [])))"

definition networkLoadBalancerGatewayProtectionAnnotations :: "resolved_gateway_details \<Rightarrow> string go_map" where
  "networkLoadBalancerGatewayProtectionAnnotations data =
     (if recordedNlbID data = [] then [] else [(NetworkLoadBalancerGatewayIDAnnotation, recordedNlbID data)])"

definition nlbGateway_accept :: "lb_env \<Rightarrow> string \<Rightarrow> resolved_gateway_details \<Rightarrow> resolved_gateway_details lb_op" where
  "nlbGateway_accept w reqName data =
     (let gateway = rd_gateway data in
      if isConditionSet gateway_ops gateway (gw_conditions gateway) ''Accepted'' [] then eff_return data
      else eff_bind (wrapped (errtext ''failed to set accepted condition for Gateway '' reqName '': '')
        (setCondition gateway_ops w (gatewayCondition gateway ''Accepted'' ''True'' ''Accepted''
          (errtext ''Gateway '' (gw_name gateway) (errtext '' accepted by '' NetworkLoadBalancerControllerClassName []))
          [(NetworkLoadBalancerControllerClassName, ''true'')] []))) (\<lambda>g. eff_return (data\<lparr>rd_gateway := g\<rparr>)))"

definition nlbGateway_protect :: "lb_env \<Rightarrow> string \<Rightarrow> resolved_gateway_details \<Rightarrow> resolved_gateway_details lb_op" where
  "nlbGateway_protect w reqName data =
     (let gateway = rd_gateway data in
      eff_bind (wrapped (errtext ''failed to persist programming protection for Gateway '' reqName '': '')
        (setCondition gateway_ops w (gatewayCondition gateway ''Programmed'' ''Unknown'' ''Pending''
          (errtext ''Gateway '' (gw_name gateway) (errtext '' programming by '' NetworkLoadBalancerControllerClassName
            '' is in progress''))
          (networkLoadBalancerGatewayProtectionAnnotations data) NetworkLoadBalancerGatewayProgrammedFinalizer)))
        (\<lambda>g. eff_return (data\<lparr>rd_gateway := g\<rparr>)))"

definition nlbGateway_programProtected :: "lb_env \<Rightarrow> int \<Rightarrow> resolved_gateway_details \<Rightarrow> int lb_op" where
  "nlbGateway_programProtected w driftInterval data =
     eff_bind (nlbGateway_programGateway w data) (\<lambda>(data1, r). case r of
         Inl err \<Rightarrow> nlbGateway_processResourceError w driftInterval err (rd_gateway data1)
       | Inr _ \<Rightarrow>
           eff_bind (eff_attempt (getNetworkLoadBalancer w (rd_loadBalancerID data1))) (\<lambda>r. case r of
               Inl err \<Rightarrow>
                 (if errors_as status_of err \<noteq> None
                  then nlbGateway_processResourceError w driftInterval err (rd_gateway data1)
                  else eff_fail (ErrWrap ''failed to get programmed Network Load Balancer: '' err []))
             | Inr nlb \<Rightarrow> eff_bind (nlbGateway_setProgrammed w data1 nlb) (\<lambda>_. driftRequeue w driftInterval)))"

definition nlbGateway_reconcileRelevant :: "lb_env \<Rightarrow> int \<Rightarrow> string \<Rightarrow> resolved_gateway_details \<Rightarrow> int lb_op" where
  "nlbGateway_reconcileRelevant w driftInterval reqName data =
     (if gw_deleting (rd_gateway data) then
        (if NetworkLoadBalancerGatewayProgrammedFinalizer \<notin> set (gw_finalizers (rd_gateway data)) then eff_return 0
         else eff_bind (eff_attempt (nlbGateway_deprovisionGateway w data)) (\<lambda>r. case r of
             Inl err \<Rightarrow> nlbGateway_processResourceError w driftInterval err (rd_gateway data)
           | Inr _ \<Rightarrow> eff_return 0))
      else eff_bind (nlbGateway_accept w reqName data) (\<lambda>data1.
        if nlbGateway_isProgrammed data1 \<and> driftInterval \<le> 0 then eff_return 0
        else eff_bind (nlbGateway_protect w reqName data1) (nlbGateway_programProtected w driftInterval)))"

definition NetworkLoadBalancerGatewayController_Reconcile ::
    "lb_env \<Rightarrow> bool \<Rightarrow> int \<Rightarrow> string \<times> string \<Rightarrow> int lb_op" where
  "NetworkLoadBalancerGatewayController_Reconcile w listenerSetEnabled driftInterval req =
     eff_bind (nlbGateway_resolveReconcileRequest w listenerSetEnabled req) (\<lambda>resolved. case resolved of
         Unresolved gateway err \<Rightarrow> nlbGateway_processResourceError w driftInterval err gateway
       | Irrelevant \<Rightarrow> eff_return 0
       | Relevant data \<Rightarrow> nlbGateway_reconcileRelevant w driftInterval (namespaced_name (fst req) (snd req)) data)"

end
