(* ===== verification/NlbSafety.thy ===== *)
theory NlbSafety
  imports NlbGateways
begin

text \<open>
  What the controller of Gateways on Network Load Balancers does to the cloud: the finalizer comes
  before the first write; what is deleted belongs to the Gateway; a backend set exists before the
  listener that uses it; after a run that succeeded there is nothing left to do.
\<close>

section \<open>The finalizer comes first\<close>

lemma nlbGateway_accept_keeps:
  assumes "nlbGateway_accept w n data h = (Inr data1, h1)"
  shows "gw_finalizers (rd_gateway data1) = gw_finalizers (rd_gateway data)"
proof (cases "isConditionSet gateway_ops (rd_gateway data) (gw_conditions (rd_gateway data)) ''Accepted'' []")
  case False
  then obtain g params where "setCondition gateway_ops w params h = (Inr g, h1)" "data1 = data\<lparr>rd_gateway := g\<rparr>"
      "sc_finalizer params = []" "sc_resource params = rd_gateway data"
    using assms unfolding nlbGateway_accept_def Let_def
    by (auto simp: wrapped_Inr eff_return_def gatewayCondition_def elim!: eff_bind_InrE)
  then show ?thesis using setCondition_keeps_finalizers by fastforce
qed (use assms in \<open>simp add: nlbGateway_accept_def eff_return_def\<close>)

lemma nlbGateway_protect_stores:
  assumes "nlbGateway_protect w n data h = (Inr data1, h1)"
    and "NetworkLoadBalancerGatewayProgrammedFinalizer \<notin> set (gw_finalizers (rd_gateway data))"
  shows "\<exists>cs. h1 = h @ cs \<and> finalizerStored w NetworkLoadBalancerGatewayProgrammedFinalizer h cs"
proof -
  let ?params = "gatewayCondition (rd_gateway data) ''Programmed'' ''Unknown'' ''Pending''
    (errtext ''Gateway '' (gw_name (rd_gateway data)) (errtext '' programming by '' NetworkLoadBalancerControllerClassName
      '' is in progress''))
    (networkLoadBalancerGatewayProtectionAnnotations data) NetworkLoadBalancerGatewayProgrammedFinalizer"
  obtain g where "setCondition gateway_ops w ?params h = (Inr g, h1)"
    using assms(1) unfolding nlbGateway_protect_def Let_def
    by (elim eff_bind_InrE) (simp add: wrapped_Inr eff_return_def)
  moreover have "sc_finalizer ?params = NetworkLoadBalancerGatewayProgrammedFinalizer" "sc_resource ?params = rd_gateway data"
    by (simp_all add: gatewayCondition_def)
  moreover have "NetworkLoadBalancerGatewayProgrammedFinalizer \<noteq> []"
    by (simp add: NetworkLoadBalancerGatewayProgrammedFinalizer_def)
  ultimately show ?thesis using setCondition_stores assms(2) by metis
qed

lemma quiet_nlb_steps:
  "emits (\<lambda>c. \<not> cloudWrite c) (nlbGateway_accept w n data)"
  "emits (\<lambda>c. \<not> cloudWrite c) (nlbGateway_protect w n data)"
  by (auto simp: nlbGateway_accept_def nlbGateway_protect_def Let_def intro!: emits_intros emits_wrapped emits_setCondition)

text \<open>Calls of the steps on the load balancer.\<close>

lemma emits_nlb_awaited:
  "P c \<Longrightarrow> (\<And>i. P (NlbWaitFor i)) \<Longrightarrow> emits P (nlb_awaited w i c doing)"
  by (auto simp: nlb_awaited_def intro!: emits_intros split: sum.split option.split)

fun nlbGatewayCall :: "network_load_balancer \<Rightarrow> lb_call \<Rightarrow> bool" where
  "nlbGatewayCall nlb (NlbCreateBackendSet i _) \<longleftrightarrow> i = nl_id nlb"
| "nlbGatewayCall nlb (NlbCreateListener i _ _) \<longleftrightarrow> i = nl_id nlb"
| "nlbGatewayCall nlb (NlbUpdateListener i _ _) \<longleftrightarrow> i = nl_id nlb"
| "nlbGatewayCall nlb (NlbDeleteListener i _) \<longleftrightarrow> i = nl_id nlb"
| "nlbGatewayCall nlb (NlbDeleteBackendSet i _) \<longleftrightarrow> i = nl_id nlb"
| "nlbGatewayCall nlb (NlbWaitFor _) \<longleftrightarrow> True"
| "nlbGatewayCall nlb _ \<longleftrightarrow> False"

lemma emits_reconcileNlbListener:
  "emits (nlbGatewayCall nlb) (nlbGateway_reconcileListener w nlb l)"
  by (auto simp: nlbGateway_reconcileListener_def reconcileListenerBackendSet_def Let_def
      intro!: emits_intros emits_nlb_awaited split: option.split prod.split)

lemma emits_removeMissingNlb:
  assumes "\<And>n v. (n, v) \<in> set current \<Longrightarrow> n \<notin> set desired \<Longrightarrow>
      (case candidates of Some names \<Rightarrow> n \<in> set names | None \<Rightarrow> True) \<Longrightarrow> P (delete_call n)"
    and "\<And>i. P (NlbWaitFor i)"
  shows "emits P (removeMissingNetworkLoadBalancerResources w i current desired candidates kind delete_call)"
  using assms by (auto simp: removeMissingNetworkLoadBalancerResources_def
      intro!: emits_intros split: prod.split option.split sum.split if_splits)

lemma emits_nlbListeners: "emits (nlbGatewayCall nlb) (nlbGateway_programListeners w data nlb)"
  unfolding nlbGateway_programListeners_def Let_def nlbGateway_removeMissingListeners_def nlbGateway_removeMissingBackendSets_def
  by (auto intro!: emits_intros emits_wrapped emits_reconcileNlbListener emits_removeMissingNlb split: option.split)

lemma extends_nlb:
  "extends (getNetworkLoadBalancer w i)" "extends (ensureNetworkLoadBalancer w i)"
  "extends (nlbGateway_programGateway w data)" "extends (nlbGateway_processResourceError w d err g)"
  "extends (nlbGateway_setProgrammed w data nlb)"
proof -
  show get: "extends (getNetworkLoadBalancer w i)" and ensure: "extends (ensureNetworkLoadBalancer w i)" for i
    unfolding extends_def getNetworkLoadBalancer_def ensureNetworkLoadBalancer_def getNetworkLoadBalancerByID_def
    by (auto intro!: emits_intros split: sum.split)
  have "emits (\<lambda>_. True) (nlbGateway_programListeners w data' nlb)" for data' nlb
    using emits_extends [OF emits_nlbListeners] unfolding extends_def .
  then show "extends (nlbGateway_programGateway w data)"
    using ensure unfolding extends_def nlbGateway_programGateway_def Let_def
    by (auto intro!: emits_intros split: sum.split option.split)
  show "extends (nlbGateway_processResourceError w d err g)"
    using extends_condition extends_drift unfolding extends_def nlbGateway_processResourceError_def
    by (auto intro!: emits_intros emits_wrapped split: option.split)
  show "extends (nlbGateway_setProgrammed w data nlb)"
    unfolding extends_def nlbGateway_setProgrammed_def Let_def
    by (auto intro!: emits_intros emits_wrapped extends_condition [unfolded extends_def]
        extends_listenerSetProgrammed [unfolded extends_def] split: sum.split)
qed

text \<open>The steps of this controller after the acceptance.\<close>

definition nlbGatewayStep :: "int \<Rightarrow> lb_env \<Rightarrow> string \<Rightarrow> resolved_gateway_details \<Rightarrow> int lb_op" where
  "nlbGatewayStep d w n data1 =
     (if nlbGateway_isProgrammed data1 \<and> d \<le> 0 then eff_return 0
      else eff_bind (nlbGateway_protect w n data1) (nlbGateway_programProtected w d))"

interpretation nlb_gateways: protected_controller nlbGateway_accept nlbGatewayStep nlbGateway_protect
  "\<lambda>d w. nlbGateway_programProtected w d" NetworkLoadBalancerGatewayProgrammedFinalizer
  "\<lambda>data. gw_finalizers (rd_gateway data)"
proof unfold_locales
  show "extends (nlbGateway_programProtected w d data)" for w d data
    using extends_nlb extends_drift unfolding extends_def nlbGateway_programProtected_def
    by (auto intro!: emits_intros split: sum.split prod.split)
  show "snd (nlbGatewayStep d w n data h) = h \<or>
      nlbGatewayStep d w n data h = eff_bind (nlbGateway_protect w n data) (nlbGateway_programProtected w d) h" for d w n data h
    by (simp add: nlbGatewayStep_def eff_return_run)
qed (rule quiet_nlb_steps nlbGateway_accept_keeps nlbGateway_protect_stores; assumption?)+

text \<open>
  C7: The controller of Gateways on Network Load Balancers writes nothing to the cloud for a Gateway
  that is not deleted before the Gateway carries the finalizer: it had it already, or an update
  that adds it was accepted before.
\<close>

theorem nlb_finalizer_before_writes:
  assumes "snd (nlbGateway_reconcileRelevant w d n data h) = h @ xs @ c # ys"
    and "\<not> gw_deleting (rd_gateway data)" "cloudWrite c"
  shows "NetworkLoadBalancerGatewayProgrammedFinalizer \<in> set (gw_finalizers (rd_gateway data)) \<or>
    (\<exists>ps qs. xs = ps @ qs \<and> finalizerStored w NetworkLoadBalancerGatewayProgrammedFinalizer h ps)"
proof -
  have "nlbGateway_reconcileRelevant w d n data = eff_bind (nlbGateway_accept w n data) (nlbGatewayStep d w n)"
    using assms(2) unfolding nlbGateway_reconcileRelevant_def nlbGatewayStep_def by simp
  then show ?thesis using nlb_gateways.finalizer_before_writes assms(1,3) by metis
qed

text \<open>A Gateway with one TCP listener, on an empty Network Load Balancer.\<close>

definition emptyNlb :: network_load_balancer where
  "emptyNlb = \<lparr>nl_id = Some ''nlb'', nl_lifecycle = ''ACTIVE'', nl_addresses = [], nl_listeners = [], nl_backend_sets = None\<rparr>"

definition nlbEnv :: lb_env where
  "nlbEnv = agreeable_env\<lparr>env_nlb := \<lambda>_ _. Inr emptyNlb\<rparr>"

definition tcpGatewayDetails :: resolved_gateway_details where
  "tcpGatewayDetails = resolvedGateway
     (exampleGateway\<lparr>gw_finalizers := [], gw_listeners := [plainListener ''tcp'' 9000 ''TCP'']\<rparr>)
     \<lparr>gc_name = ''nlb'', gc_controller = NetworkLoadBalancerControllerClassName, gc_generation = 1, gc_finalizers = [],
      gc_annotations = [], gc_conditions = []\<rparr> ''nlb''"

definition tcpGatewayCalls :: "lb_call list" where
  "tcpGatewayCalls = snd (nlbGateway_reconcileRelevant nlbEnv 0 ''ns/gw'' tcpGatewayDetails [])"

lemma tcp_gateway_writes: "list_ex cloudWrite tcpGatewayCalls \<and> \<not> gw_deleting (rd_gateway tcpGatewayDetails) \<and>
    NetworkLoadBalancerGatewayProgrammedFinalizer \<notin> set (gw_finalizers (rd_gateway tcpGatewayDetails))"
  by code_simp

theorem nlb_finalizer_before_writes_witness:
  "\<exists>xs c ys. tcpGatewayCalls = xs @ c # ys \<and> cloudWrite c \<and>
    (\<exists>ps qs. xs = ps @ qs \<and> finalizerStored nlbEnv NetworkLoadBalancerGatewayProgrammedFinalizer [] ps)"
proof -
  obtain xs c ys where calls: "tcpGatewayCalls = xs @ c # ys" and c: "cloudWrite c"
    using tcp_gateway_writes by (auto simp: list_ex_iff in_set_conv_decomp)
  from nlb_finalizer_before_writes [of nlbEnv 0 "''ns/gw''" tcpGatewayDetails "[]" xs c ys]
  show ?thesis using calls c tcp_gateway_writes by (simp add: tcpGatewayCalls_def) metis
qed

section \<open>What is deleted\<close>

fun nlbDeletes :: "(string \<Rightarrow> bool) \<Rightarrow> (string \<Rightarrow> bool) \<Rightarrow> lb_call \<Rightarrow> bool" where
  "nlbDeletes listener backendSet (NlbDeleteListener _ n) = listener n"
| "nlbDeletes listener backendSet (NlbDeleteBackendSet _ n) = backendSet n"
| "nlbDeletes listener backendSet _ = True"

text \<open>
  Programming a Gateway deletes only listeners and backend sets that an earlier run recorded on
  the Gateway and that its listeners do not ask for any more; deprovisioning deletes only recorded
  or desired ones. Listeners of other Gateways on the same load balancer are never touched.
\<close>

theorem nlb_deletes_only_its_own:
  "emits (nlbDeletes
      (\<lambda>n. n \<in> set (annotatedResourceNames (rd_gateway data) NetworkLoadBalancerGatewayProgrammedListenersAnnotation) \<and>
        n \<notin> set (desiredNetworkLoadBalancerListenerNames (effectiveOCIListenersForGateway data)))
      (\<lambda>n. n \<in> set (annotatedResourceNames (rd_gateway data) NetworkLoadBalancerGatewayProgrammedBackendSetsAnnotation) \<and>
        n \<notin> set (desiredNetworkLoadBalancerBackendSetNames (effectiveOCIListenersForGateway data))))
    (nlbGateway_programListeners w data nlb) \<and>
   emits (nlbDeletes (\<lambda>n. n \<in> set (ownedNlbListenerNames data)) (\<lambda>n. n \<in> set (ownedNlbBackendSetNames data)))
    (nlbGateway_deprovisionGateway w data)"
proof
  have reconcile: "emits (nlbDeletes P Q) (nlbGateway_reconcileListener w nlb l)" for P Q l
    by (auto simp: nlbGateway_reconcileListener_def reconcileListenerBackendSet_def Let_def
        intro!: emits_intros emits_nlb_awaited split: option.split prod.split)
  show "emits (nlbDeletes
      (\<lambda>n. n \<in> set (annotatedResourceNames (rd_gateway data) NetworkLoadBalancerGatewayProgrammedListenersAnnotation) \<and>
        n \<notin> set (desiredNetworkLoadBalancerListenerNames (effectiveOCIListenersForGateway data)))
      (\<lambda>n. n \<in> set (annotatedResourceNames (rd_gateway data) NetworkLoadBalancerGatewayProgrammedBackendSetsAnnotation) \<and>
        n \<notin> set (desiredNetworkLoadBalancerBackendSetNames (effectiveOCIListenersForGateway data))))
    (nlbGateway_programListeners w data nlb)"
    unfolding nlbGateway_programListeners_def Let_def nlbGateway_removeMissingListeners_def nlbGateway_removeMissingBackendSets_def
    by (auto intro!: emits_intros emits_wrapped reconcile emits_removeMissingNlb split: option.split)
  show "emits (nlbDeletes (\<lambda>n. n \<in> set (ownedNlbListenerNames data)) (\<lambda>n. n \<in> set (ownedNlbBackendSetNames data)))
    (nlbGateway_deprovisionGateway w data)"
    unfolding nlbGateway_deprovisionGateway_def deprovisionNetworkLoadBalancerGatewayResources_def Let_def
      nlbGateway_removeMissingListeners_def nlbGateway_removeMissingBackendSets_def getNetworkLoadBalancerByID_def
    by (auto simp: namedNetworkLoadBalancerListeners_def namedNetworkLoadBalancerBackendSets_def
        intro!: emits_intros emits_removeMissingNlb split: option.split sum.split)
qed

section \<open>Nothing left to do\<close>

text \<open>What the accepted requests of a run make of the load balancer.\<close>

definition storedNlbListener :: "nlb_update_listener \<Rightarrow> nlb_listener" where
  "storedNlbListener d = \<lparr>nll_protocol = nul_protocol d, nll_port = nul_port d, nll_backend_set = nul_backend_set d,
     nll_tcp_idle = nul_tcp_idle d, nll_udp_idle = nul_udp_idle d\<rparr>"

definition storedNlbBackendSet :: "nlb_create_backend_set \<Rightarrow> nlb_backend_set" where
  "storedNlbBackendSet d = \<lparr>nbs_policy = nc_policy d, nbs_preserve_source = nc_preserve_source d,
     nbs_health_checker = nc_health_checker d, nbs_backends = []\<rparr>"

abbreviation nlbSets :: "network_load_balancer \<Rightarrow> nlb_backend_set go_map" where
  "nlbSets s \<equiv> from_ptr [] (nl_backend_sets s)"

fun nlbApply :: "lb_call \<Rightarrow> network_load_balancer \<Rightarrow> network_load_balancer" where
  "nlbApply (NlbCreateListener _ n d) s = s\<lparr>nl_listeners := AList.update n (storedNlbListener d) (nl_listeners s)\<rparr>"
| "nlbApply (NlbUpdateListener _ n d) s = s\<lparr>nl_listeners := AList.update n (storedNlbListener d) (nl_listeners s)\<rparr>"
| "nlbApply (NlbDeleteListener _ n) s = s\<lparr>nl_listeners := AList.delete n (nl_listeners s)\<rparr>"
| "nlbApply (NlbCreateBackendSet _ d) s = s\<lparr>nl_backend_sets := Some (AList.update (str_ptr (nc_name d))
     (storedNlbBackendSet d) (nlbSets s))\<rparr>"
| "nlbApply (NlbDeleteBackendSet _ n) s = s\<lparr>nl_backend_sets := Some (AList.delete n (nlbSets s))\<rparr>"
| "nlbApply _ s = s"

definition nlbAfter :: "lb_call list \<Rightarrow> network_load_balancer \<Rightarrow> network_load_balancer" where
  "nlbAfter cs s = foldl (\<lambda>s c. nlbApply c s) s cs"

lemma nlbAfter_simps [simp]:
  "nlbAfter [] s = s" "nlbAfter (c # cs) s = nlbAfter cs (nlbApply c s)" "nlbAfter (cs @ ds) s = nlbAfter ds (nlbAfter cs s)"
  by (simp_all add: nlbAfter_def)

lemma nlb_awaited_Inr:
  "nlb_awaited w i c doing h = (Inr (), h') \<Longrightarrow> \<exists>j. h' = h @ [c, NlbWaitFor j]"
  by (auto simp: nlb_awaited_def eff_bind_Inr [OF get_run(4)] eff_bind_Inr [OF nlb_run(2)] eff_simps
      split: sum.splits option.splits)

definition nlbListenerUpToDate :: "network_load_balancer \<Rightarrow> gw_listener \<Rightarrow> bool" where
  "nlbListenerUpToDate s l \<longleftrightarrow>
     (case (map_of (nl_listeners s) (l_name l), networkLoadBalancerListenerProtocol (l_protocol l)) of
        (Some e, Some p) \<Rightarrow> networkLoadBalancerListenerMatches e p (l_port l) (networkLoadBalancerBackendSetName l)
      | _ \<Rightarrow> False) \<and>
     map_of (nlbSets s) (networkLoadBalancerBackendSetName l) \<noteq> None"

lemma stored_listener_matches:
  "p \<in> {''TCP'', ''UDP''} \<Longrightarrow>
    networkLoadBalancerListenerMatches (storedNlbListener (networkLoadBalancerListenerDetails b port p)) p port b"
  by (auto simp: networkLoadBalancerListenerMatches_def storedNlbListener_def networkLoadBalancerListenerDetails_def)

lemma nlb_protocols: "networkLoadBalancerListenerProtocol p = Some q \<Longrightarrow> q \<in> {''TCP'', ''UDP''}"
  by (auto simp: networkLoadBalancerListenerProtocol_def split: if_splits)

text \<open>One listener of the loop, on a load balancer that agrees with the known one about it.\<close>

definition nlbGrows :: "network_load_balancer \<Rightarrow> gw_listener \<Rightarrow> network_load_balancer \<Rightarrow> bool" where
  "nlbGrows s l s' \<longleftrightarrow>
     (\<forall>n. n \<noteq> l_name l \<longrightarrow> map_of (nl_listeners s') n = map_of (nl_listeners s) n) \<and>
     (\<forall>n. map_of (nlbSets s) n \<noteq> None \<longrightarrow> map_of (nlbSets s') n \<noteq> None) \<and>
     (\<forall>n. map_of (nlbSets s') n \<noteq> None \<longrightarrow> map_of (nlbSets s) n \<noteq> None \<or> n = networkLoadBalancerBackendSetName l)"

lemma backendSet_step:
  assumes "reconcileListenerBackendSet w nlb l h = (Inr (), h1)"
    and known: "\<forall>n. map_of (nlbSets nlb) n \<noteq> None \<longrightarrow> map_of (nlbSets s) n \<noteq> None"
  shows "\<exists>cs. h1 = h @ cs \<and> nl_listeners (nlbAfter cs s) = nl_listeners s \<and> nlbGrows s l (nlbAfter cs s) \<and>
    map_of (nlbSets (nlbAfter cs s)) (networkLoadBalancerBackendSetName l) \<noteq> None"
proof (cases "map_of (nlbSets nlb) (networkLoadBalancerBackendSetName l)")
  case None
  from assms(1) obtain j where "h1 = h @ [NlbCreateBackendSet (nl_id nlb)
        \<lparr>nc_name = Some (networkLoadBalancerBackendSetName l), nc_policy = ''FIVE_TUPLE'',
         nc_health_checker = Some (networkLoadBalancerHealthCheckerDetails (Some (l_port l))),
         nc_preserve_source = Some False\<rparr>, NlbWaitFor j]"
    unfolding reconcileListenerBackendSet_def Let_def using None by (auto dest: nlb_awaited_Inr)
  then show ?thesis by (fastforce simp: nlbGrows_def update_conv')
next
  case (Some bs)
  then have "h1 = h" using assms(1) by (simp add: reconcileListenerBackendSet_def eff_return_run)
  then show ?thesis using known Some by (intro exI [of _ "[]"]) (auto simp: nlbGrows_def)
qed

lemma listener_step:
  assumes "nlbGateway_reconcileListener w nlb l h = (Inr (), h')"
    and agree: "map_of (nl_listeners s) (l_name l) = map_of (nl_listeners nlb) (l_name l)"
    and known: "\<forall>n. map_of (nlbSets nlb) n \<noteq> None \<longrightarrow> map_of (nlbSets s) n \<noteq> None"
  shows "\<exists>cs. h' = h @ cs \<and> nlbListenerUpToDate (nlbAfter cs s) l \<and> nlbGrows s l (nlbAfter cs s)"
proof -
  let ?name = "l_name l" and ?set = "networkLoadBalancerBackendSetName l"
  obtain p where p: "networkLoadBalancerListenerProtocol (l_protocol l) = Some p"
    using assms(1) by (cases "networkLoadBalancerListenerProtocol (l_protocol l)")
      (auto simp: nlbGateway_reconcileListener_def eff_fail_run)
  let ?details = "networkLoadBalancerListenerDetails ?set (l_port l) p"
  obtain h1 where first: "reconcileListenerBackendSet w nlb l h = (Inr (), h1)"
    and second: "(case map_of (nl_listeners nlb) ?name of
        Some e \<Rightarrow> if networkLoadBalancerListenerMatches e p (l_port l) ?set then eff_return ()
          else nlb_awaited w (nl_id nlb) (NlbUpdateListener (nl_id nlb) ?name ?details)
            (errtext ''failed to update OCI Network Load Balancer listener '' ?name [])
      | None \<Rightarrow> nlb_awaited w (nl_id nlb) (NlbCreateListener (nl_id nlb) ?name ?details)
          (errtext ''failed to create OCI Network Load Balancer listener '' ?name [])) h1 = (Inr (), h')"
    using assms(1) p unfolding nlbGateway_reconcileListener_def Let_def createNetworkLoadBalancerListenerDetails_def
    by (auto elim!: eff_bind_InrE)
  from backendSet_step [OF first known] obtain cs1 where h1: "h1 = h @ cs1"
    and same: "nl_listeners (nlbAfter cs1 s) = nl_listeners s" and grows: "nlbGrows s l (nlbAfter cs1 s)"
    and set: "map_of (nlbSets (nlbAfter cs1 s)) ?set \<noteq> None" by blast
  have matches: "networkLoadBalancerListenerMatches (storedNlbListener ?details) p (l_port l) ?set"
    using stored_listener_matches nlb_protocols [OF p] by blast
  consider (kept) e where "map_of (nl_listeners nlb) ?name = Some e" "networkLoadBalancerListenerMatches e p (l_port l) ?set"
      "h' = h1"
    | (written) j c where "h' = h1 @ [c, NlbWaitFor j]"
        "c = NlbUpdateListener (nl_id nlb) ?name ?details \<or> c = NlbCreateListener (nl_id nlb) ?name ?details"
    using second by (auto simp: eff_return_run dest: nlb_awaited_Inr split: option.splits if_splits)
  then show ?thesis
  proof cases
    case kept
    then have "nlbListenerUpToDate (nlbAfter cs1 s) l"
      using set agree same p by (simp add: nlbListenerUpToDate_def)
    then show ?thesis using kept(3) h1 grows by blast
  next
    case written
    let ?s = "nlbAfter (cs1 @ [c, NlbWaitFor j]) s"
    have "nl_listeners ?s = AList.update ?name (storedNlbListener ?details) (nl_listeners s)" "nlbSets ?s = nlbSets (nlbAfter cs1 s)"
      using written(2) same by auto
    then have "nlbListenerUpToDate ?s l \<and> nlbGrows s l ?s"
      using set p matches grows by (auto simp: nlbListenerUpToDate_def nlbGrows_def update_conv')
    then show ?thesis using written(1) h1 by (metis append.assoc)
  qed
qed

text \<open>All listeners of the loop.\<close>

definition nlbGrowsBy :: "gw_listener list \<Rightarrow> network_load_balancer \<Rightarrow> network_load_balancer \<Rightarrow> bool" where
  "nlbGrowsBy ls s s' \<longleftrightarrow>
     (\<forall>n. n \<notin> l_name ` set ls \<longrightarrow> map_of (nl_listeners s') n = map_of (nl_listeners s) n) \<and>
     (\<forall>n. map_of (nlbSets s) n \<noteq> None \<longrightarrow> map_of (nlbSets s') n \<noteq> None) \<and>
     (\<forall>n. map_of (nlbSets s') n \<noteq> None \<longrightarrow>
       map_of (nlbSets s) n \<noteq> None \<or> n \<in> networkLoadBalancerBackendSetName ` set ls)"

lemma upToDate_grows:
  "nlbListenerUpToDate s l \<Longrightarrow> nlbGrowsBy ls s s' \<Longrightarrow> l_name l \<notin> l_name ` set ls \<Longrightarrow> nlbListenerUpToDate s' l"
  by (simp add: nlbListenerUpToDate_def nlbGrowsBy_def)

lemma listeners_loop:
  assumes "eff_foreach (\<lambda>l. wrapped (pre l) (nlbGateway_reconcileListener w nlb l)) ls h = (Inr (), h')"
    and "distinct (map l_name ls)"
    and "\<forall>l\<in>set ls. map_of (nl_listeners s) (l_name l) = map_of (nl_listeners nlb) (l_name l)"
    and "\<forall>n. map_of (nlbSets nlb) n \<noteq> None \<longrightarrow> map_of (nlbSets s) n \<noteq> None"
  shows "\<exists>cs. h' = h @ cs \<and> list_all (nlbListenerUpToDate (nlbAfter cs s)) ls \<and> nlbGrowsBy ls s (nlbAfter cs s)"
  using assms
proof (induction ls arbitrary: h s)
  case Nil
  then show ?case by (simp add: nlbGrowsBy_def eff_return_run)
next
  case (Cons l ls)
  from Cons.prems(1) obtain h1 where run: "nlbGateway_reconcileListener w nlb l h = (Inr (), h1)"
    and rest: "eff_foreach (\<lambda>l. wrapped (pre l) (nlbGateway_reconcileListener w nlb l)) ls h1 = (Inr (), h')"
    by (auto simp: wrapped_Inr elim!: eff_bind_InrE)
  from listener_step [OF run] Cons.prems(3,4) obtain cs where h1: "h1 = h @ cs"
    and current: "nlbListenerUpToDate (nlbAfter cs s) l" and grows: "nlbGrows s l (nlbAfter cs s)" by auto
  have others: "\<forall>k\<in>set ls. map_of (nl_listeners (nlbAfter cs s)) (l_name k) = map_of (nl_listeners nlb) (l_name k)"
  proof
    fix k assume "k \<in> set ls"
    then have "l_name k \<noteq> l_name l" using Cons.prems(2) by (auto simp: image_iff)
    with \<open>k \<in> set ls\<close> show "map_of (nl_listeners (nlbAfter cs s)) (l_name k) = map_of (nl_listeners nlb) (l_name k)"
      using Cons.prems(3) grows by (simp add: nlbGrows_def)
  qed
  have known: "\<forall>n. map_of (nlbSets nlb) n \<noteq> None \<longrightarrow> map_of (nlbSets (nlbAfter cs s)) n \<noteq> None"
    using Cons.prems(4) grows by (simp add: nlbGrows_def)
  from Cons.IH [OF rest _ others known] Cons.prems(2) obtain ds where h': "h' = h1 @ ds"
    and rest_current: "list_all (nlbListenerUpToDate (nlbAfter ds (nlbAfter cs s))) ls"
    and rest_grows: "nlbGrowsBy ls (nlbAfter cs s) (nlbAfter ds (nlbAfter cs s))" by auto
  have "nlbListenerUpToDate (nlbAfter ds (nlbAfter cs s)) l"
    using upToDate_grows [OF current rest_grows] Cons.prems(2) by simp
  moreover have "nlbGrowsBy (l # ls) s (nlbAfter ds (nlbAfter cs s))"
    using grows rest_grows unfolding nlbGrows_def nlbGrowsBy_def by (simp add: image_iff) metis
  ultimately show ?case using h1 h' rest_current by (intro exI [of _ "cs @ ds"]) simp
qed

text \<open>The requests of a removal that succeeded: one for each name to remove.\<close>

definition nlbDeletions :: "(string \<Rightarrow> lb_call) \<Rightarrow> (string \<times> string) list \<Rightarrow> lb_call list" where
  "nlbDeletions delete_call ns = concat (map (\<lambda>(n, j). [delete_call n, NlbWaitFor j]) ns)"

definition nlbToRemove :: "'a go_map \<Rightarrow> string list \<Rightarrow> string list \<Rightarrow> string set" where
  "nlbToRemove current desired candidates = {n \<in> fst ` set current. n \<notin> set desired \<and> n \<in> set candidates}"

lemma removal_run:
  assumes "removeMissingNetworkLoadBalancerResources w i current desired (Some candidates) kind delete_call h = (Inr (), h')"
  shows "\<exists>ns. h' = h @ nlbDeletions delete_call ns \<and> fst ` set ns = nlbToRemove current desired candidates"
proof -
  let ?step = "\<lambda>(resourceName, _ :: 'a). if resourceName \<in> set desired then eff_return ()
         else if (case Some candidates of Some names \<Rightarrow> resourceName \<notin> set names | None \<Rightarrow> False) then eff_return ()
         else eff_bind (write_call w (delete_call resourceName)) (\<lambda>r. case r of
             Inl err \<Rightarrow>
               (case networkLoadBalancerBusyErrorFromOCI i err of
                  Some busy \<Rightarrow> eff_fail busy
                | None \<Rightarrow> eff_fail (ErrWrap (errtext ''failed to delete stale OCI Network Load Balancer '' kind
                    (errtext '' '' resourceName '': '')) (ErrService err) []))
           | Inr None \<Rightarrow> eff_fail (ErrText (errtext ''failed to delete stale '' kind
               (errtext '' '' resourceName '': missing work request id'')))
           | Inr (Some i) \<Rightarrow>
               eff_bind (nlb_wait w i) (\<lambda>r. case r of
                   None \<Rightarrow> eff_return ()
                 | Some err \<Rightarrow> eff_fail (ErrWrap (errtext ''failed waiting for stale '' kind
                     (errtext '' '' resourceName '' deletion: '')) err [])))"
  have loop: "\<exists>ns. h' = h @ nlbDeletions delete_call ns \<and> fst ` set ns = nlbToRemove xs desired candidates"
    if "eff_foreach ?step xs h = (Inr (), h')" for xs h
    using that
  proof (induction xs arbitrary: h)
    case Nil
    then show ?case by (intro exI [of _ "[]"]) (simp add: nlbDeletions_def nlbToRemove_def eff_return_run)
  next
    case (Cons x xs)
    obtain n v where x: "x = (n, v)" by fastforce
    from Cons.prems obtain h1 where step: "?step x h = (Inr (), h1)" and rest: "eff_foreach ?step xs h1 = (Inr (), h')"
      by (auto elim!: eff_bind_InrE)
    from Cons.IH [OF rest] obtain ns where ns: "h' = h1 @ nlbDeletions delete_call ns"
      "fst ` set ns = nlbToRemove xs desired candidates" by blast
    show ?case
    proof (cases "n \<notin> set desired \<and> n \<in> set candidates")
      case True
      with step x obtain j where "h1 = h @ [delete_call n, NlbWaitFor j]"
        by (auto simp: eff_bind_Inr [OF get_run(4)] eff_bind_Inr [OF nlb_run(2)] eff_simps split: sum.splits option.splits)
      with ns True x show ?thesis
        by (intro exI [of _ "(n, j) # ns"]) (auto simp: nlbDeletions_def nlbToRemove_def)
    next
      case False
      with step x have "h1 = h" by (auto simp: eff_return_run split: if_splits)
      with ns False x show ?thesis by (intro exI [of _ ns]) (auto simp: nlbToRemove_def)
    qed
  qed
  have "eff_foreach ?step (map_iter (env_order w h) current) h = (Inr (), h')"
    using assms unfolding removeMissingNetworkLoadBalancerResources_def by (simp add: eff_bind_ask)
  from loop [OF this] show ?thesis by (simp add: nlbToRemove_def)
qed

lemma listeners_deleted:
  "map_of (nl_listeners (nlbAfter (nlbDeletions (NlbDeleteListener i) ns) s)) n =
     (if n \<in> fst ` set ns then None else map_of (nl_listeners s) n) \<and>
   nlbSets (nlbAfter (nlbDeletions (NlbDeleteListener i) ns) s) = nlbSets s"
  by (induction ns arbitrary: s) (auto simp: nlbDeletions_def delete_conv')

lemma backendSets_deleted:
  "map_of (nlbSets (nlbAfter (nlbDeletions (NlbDeleteBackendSet i) ns) s)) n =
     (if n \<in> fst ` set ns then None else map_of (nlbSets s) n) \<and>
   nl_listeners (nlbAfter (nlbDeletions (NlbDeleteBackendSet i) ns) s) = nl_listeners s"
  by (induction ns arbitrary: s) (auto simp: nlbDeletions_def delete_conv')

text \<open>A load balancer on which a Gateway has nothing left to do.\<close>

definition nlbSettled :: "resolved_gateway_details \<Rightarrow> network_load_balancer \<Rightarrow> bool" where
  "nlbSettled data s \<longleftrightarrow>
     validateNetworkLoadBalancerGatewayListeners data = None \<and>
     list_all (nlbListenerUpToDate s) (gatewayManagedOCIListenersForNetworkLoadBalancer data) \<and>
     nlbToRemove (nl_listeners s) (desiredNetworkLoadBalancerListenerNames (effectiveOCIListenersForGateway data))
       (annotatedResourceNames (rd_gateway data) NetworkLoadBalancerGatewayProgrammedListenersAnnotation) = {} \<and>
     nlbToRemove (nlbSets s) (desiredNetworkLoadBalancerBackendSetNames (effectiveOCIListenersForGateway data))
       (annotatedResourceNames (rd_gateway data) NetworkLoadBalancerGatewayProgrammedBackendSetsAnnotation) = {}"

lemma foreach_quiet: "(\<And>x. x \<in> set xs \<Longrightarrow> f x h = (Inr (), h)) \<Longrightarrow> eff_foreach f xs h = (Inr (), h)"
  by (induction xs) (auto simp: eff_return_run eff_bind_Inr)

lemma removal_quiet:
  assumes "nlbToRemove current desired candidates = {}"
  shows "removeMissingNetworkLoadBalancerResources w i current desired (Some candidates) kind delete_call h = (Inr (), h)"
proof -
  have "n \<in> set desired \<or> n \<notin> set candidates" if "(n, v) \<in> set current" for n v
    using assms that unfolding nlbToRemove_def by force
  then show ?thesis
    unfolding removeMissingNetworkLoadBalancerResources_def eff_bind_ask
    by (intro foreach_quiet) (auto simp: eff_return_run split: prod.split)
qed

lemma upToDate_quiet: "nlbListenerUpToDate s l \<Longrightarrow> nlbGateway_reconcileListener w s l h = (Inr (), h)"
  by (auto simp: nlbListenerUpToDate_def nlbGateway_reconcileListener_def reconcileListenerBackendSet_def Let_def eff_simps
      split: option.splits)

lemma settled_quiet:
  assumes "nlbSettled data s"
  shows "nlbGateway_programListeners w data s h = (Inr (), h)"
proof -
  have "eff_foreach (\<lambda>l. wrapped (errtext ''failed to reconcile Network Load Balancer listener '' (l_name l) '': '')
      (nlbGateway_reconcileListener w s l)) (gatewayManagedOCIListenersForNetworkLoadBalancer data) h = (Inr (), h)"
    using assms by (intro foreach_quiet) (auto simp: nlbSettled_def list_all_iff wrapped_Inr upToDate_quiet)
  then show ?thesis
    using assms unfolding nlbSettled_def nlbGateway_programListeners_def Let_def nlbGateway_removeMissingListeners_def
      nlbGateway_removeMissingBackendSets_def
    by (simp add: eff_bind_Inr removal_quiet)
qed

lemma managed_desired:
  assumes "l \<in> set (gatewayManagedOCIListenersForNetworkLoadBalancer data)"
  shows "l_name l \<in> set (desiredNetworkLoadBalancerListenerNames (effectiveOCIListenersForGateway data))"
    and "networkLoadBalancerBackendSetName l \<in>
      set (desiredNetworkLoadBalancerBackendSetNames (effectiveOCIListenersForGateway data))"
  using assms by (auto simp: gatewayManagedOCIListenersForNetworkLoadBalancer_def
      desiredNetworkLoadBalancerListenerNames_def desiredNetworkLoadBalancerBackendSetNames_def
      networkLoadBalancerListenerPreservedByGateway_def networkLoadBalancerListenerProtocol_def)

text \<open>The two removals of a run leave what is desired.\<close>

lemma removals_settle:
  fixes i j :: "string option"
  assumes listeners: "fst ` set ns = nlbToRemove (nl_listeners nlb) dl cl"
    and sets: "fst ` set ms = nlbToRemove (nlbSets nlb) db cb"
    and grows: "nlbGrowsBy ls nlb s"
    and desired: "\<And>l. l \<in> set ls \<Longrightarrow> l_name l \<in> set dl \<and> networkLoadBalancerBackendSetName l \<in> set db"
    and current: "list_all (nlbListenerUpToDate s) ls"
  defines "t \<equiv> nlbAfter (nlbDeletions (NlbDeleteBackendSet i) ms) (nlbAfter (nlbDeletions (NlbDeleteListener j) ns) s)"
  shows "list_all (nlbListenerUpToDate t) ls \<and> nlbToRemove (nl_listeners t) dl cl = {} \<and> nlbToRemove (nlbSets t) db cb = {}"
proof -
  have l: "map_of (nl_listeners t) n = (if n \<in> fst ` set ns then None else map_of (nl_listeners s) n)" for n
    by (simp add: t_def backendSets_deleted listeners_deleted)
  have b: "map_of (nlbSets t) n = (if n \<in> fst ` set ms then None else map_of (nlbSets s) n)" for n
    by (simp add: t_def backendSets_deleted listeners_deleted)
  have keys: "n \<in> fst ` set m \<longleftrightarrow> map_of m n \<noteq> None" for n and m :: "'x go_map"
    by (simp add: map_of_eq_None_iff)
  have "nlbListenerUpToDate t k" if "k \<in> set ls" for k
    using that current desired [OF that] l b unfolding listeners sets
    by (simp add: nlbListenerUpToDate_def list_all_iff nlbToRemove_def)
  moreover have "n \<notin> nlbToRemove (nl_listeners t) dl cl" for n
  proof
    assume removable: "n \<in> nlbToRemove (nl_listeners t) dl cl"
    then have "map_of (nl_listeners t) n \<noteq> None" "n \<notin> set dl" "n \<in> set cl"
      unfolding nlbToRemove_def mem_Collect_eq keys by blast+
    then have "n \<notin> fst ` set ns" "map_of (nl_listeners s) n \<noteq> None" using l [of n] by (simp_all split: if_splits)
    moreover have "n \<notin> l_name ` set ls" using desired \<open>n \<notin> set dl\<close> by blast
    ultimately have "map_of (nl_listeners nlb) n \<noteq> None" using grows by (simp add: nlbGrowsBy_def)
    then have "n \<in> nlbToRemove (nl_listeners nlb) dl cl"
      using \<open>n \<notin> set dl\<close> \<open>n \<in> set cl\<close> unfolding nlbToRemove_def mem_Collect_eq keys by blast
    with \<open>n \<notin> fst ` set ns\<close> listeners show False by blast
  qed
  moreover have "n \<notin> nlbToRemove (nlbSets t) db cb" for n
  proof
    assume removable: "n \<in> nlbToRemove (nlbSets t) db cb"
    then have "map_of (nlbSets t) n \<noteq> None" "n \<notin> set db" "n \<in> set cb"
      unfolding nlbToRemove_def mem_Collect_eq keys by blast+
    then have "n \<notin> fst ` set ms" "map_of (nlbSets s) n \<noteq> None" using b [of n] by (simp_all split: if_splits)
    moreover have "n \<notin> networkLoadBalancerBackendSetName ` set ls" using desired \<open>n \<notin> set db\<close> by blast
    ultimately have "map_of (nlbSets nlb) n \<noteq> None" using grows unfolding nlbGrowsBy_def by blast
    then have "n \<in> nlbToRemove (nlbSets nlb) db cb"
      using \<open>n \<notin> set db\<close> \<open>n \<in> set cb\<close> unfolding nlbToRemove_def mem_Collect_eq keys by blast
    with \<open>n \<notin> fst ` set ms\<close> sets show False by blast
  qed
  ultimately show ?thesis by (auto simp: list_all_iff)
qed

text \<open>
  C8: When programming the listeners of a Gateway succeeds, a second run on the load balancer as the
  accepted requests left it asks for nothing, whatever the service would answer: every listener
  has its protocol, port, backend set and idle timeout, and what the Gateway dropped is gone.
\<close>

theorem nlb_second_run_is_quiet:
  assumes "nlbGateway_programListeners w data nlb h = (Inr (), h')"
    and "distinct (map l_name (gatewayManagedOCIListenersForNetworkLoadBalancer data))"
  shows "\<exists>cs. h' = h @ cs \<and> nlbGateway_programListeners w' data (nlbAfter cs nlb) h2 = (Inr (), h2)"
proof -
  let ?ls = "gatewayManagedOCIListenersForNetworkLoadBalancer data"
  have valid: "validateNetworkLoadBalancerGatewayListeners data = None"
    using assms(1) by (auto simp: nlbGateway_programListeners_def Let_def eff_fail_run split: option.splits)
  obtain h1 h2' where loop: "eff_foreach (\<lambda>l. wrapped (errtext ''failed to reconcile Network Load Balancer listener '' (l_name l) '': '')
        (nlbGateway_reconcileListener w nlb l)) ?ls h = (Inr (), h1)"
    and first: "nlbGateway_removeMissingListeners w nlb (effectiveOCIListenersForGateway data)
        (Some (annotatedResourceNames (rd_gateway data) NetworkLoadBalancerGatewayProgrammedListenersAnnotation)) h1 = (Inr (), h2')"
    and second: "nlbGateway_removeMissingBackendSets w nlb (effectiveOCIListenersForGateway data)
        (Some (annotatedResourceNames (rd_gateway data) NetworkLoadBalancerGatewayProgrammedBackendSetsAnnotation)) h2' = (Inr (), h')"
    using assms(1) valid unfolding nlbGateway_programListeners_def Let_def by (auto elim!: eff_bind_InrE)
  from listeners_loop [OF loop assms(2), of nlb] obtain cs where cs: "h1 = h @ cs"
    "list_all (nlbListenerUpToDate (nlbAfter cs nlb)) ?ls" "nlbGrowsBy ?ls nlb (nlbAfter cs nlb)" by auto
  from removal_run [OF first [unfolded nlbGateway_removeMissingListeners_def]] obtain ns where ns:
    "h2' = h1 @ nlbDeletions (NlbDeleteListener (nl_id nlb)) ns"
    "fst ` set ns = nlbToRemove (nl_listeners nlb) (desiredNetworkLoadBalancerListenerNames (effectiveOCIListenersForGateway data))
      (annotatedResourceNames (rd_gateway data) NetworkLoadBalancerGatewayProgrammedListenersAnnotation)" by blast
  from removal_run [OF second [unfolded nlbGateway_removeMissingBackendSets_def]] obtain ms where ms:
    "h' = h2' @ nlbDeletions (NlbDeleteBackendSet (nl_id nlb)) ms"
    "fst ` set ms = nlbToRemove (nlbSets nlb) (desiredNetworkLoadBalancerBackendSetNames (effectiveOCIListenersForGateway data))
      (annotatedResourceNames (rd_gateway data) NetworkLoadBalancerGatewayProgrammedBackendSetsAnnotation)" by blast
  let ?ds = "nlbDeletions (NlbDeleteListener (nl_id nlb)) ns @ nlbDeletions (NlbDeleteBackendSet (nl_id nlb)) ms"
  have "nlbSettled data (nlbAfter (cs @ ?ds) nlb)"
    using removals_settle [OF ns(2) ms(2) cs(3) _ cs(2)] managed_desired valid by (simp add: nlbSettled_def)
  then show ?thesis
    using cs(1) ns(1) ms(1) settled_quiet by (intro exI [of _ "cs @ ?ds"]) simp
qed

definition tcpListenerCalls :: "(error + unit) \<times> lb_call list" where
  "tcpListenerCalls = nlbGateway_programListeners nlbEnv tcpGatewayDetails emptyNlb []"

lemma tcp_listener_run: "fst tcpListenerCalls = Inr () \<and> length (snd tcpListenerCalls) = 4 \<and>
    distinct (map l_name (gatewayManagedOCIListenersForNetworkLoadBalancer tcpGatewayDetails))"
  by code_simp

theorem nlb_second_run_is_quiet_witness:
  "nlbGateway_programListeners agreeable_env tcpGatewayDetails (nlbAfter (snd tcpListenerCalls) emptyNlb) [] = (Inr (), [])"
proof -
  have "nlbGateway_programListeners nlbEnv tcpGatewayDetails emptyNlb [] = (Inr (), snd tcpListenerCalls)"
    using tcp_listener_run by (simp add: tcpListenerCalls_def prod_eq_iff)
  from nlb_second_run_is_quiet [OF this, of agreeable_env "[]"] tcp_listener_run show ?thesis by simp
qed

end
