(* ===== verification/L4Routes.thy ===== *)
theory L4Routes
  imports L7RouteModels NlbGateways
begin

text \<open>
  TCPRoutes and UDPRoutes (\<open>tcproute_model.go\<close>, \<open>udproute_model.go\<close> and their controllers): the
  listeners a route attaches to, who owns a listener, the backends of the backend set behind it,
  status and finalizer, and what happens to a deleted or detached route. The two kinds share one
  set of operations over what differs, an \<open>l4_kind\<close>. Locks are the matter of \<open>LbLocks\<close>; the
  theorems are in \<open>L4Safety\<close>.
\<close>

section \<open>Kinds of routes\<close>

definition L4RouteProgrammedNetworkLoadBalancerIDAnnotation :: string where
  "L4RouteProgrammedNetworkLoadBalancerIDAnnotation =
     ''oke-gateway-api.gemyago.github.io/l4-route-programmed-network-load-balancer-id''"

definition NetworkLoadBalancerTCPRouteProgrammedFinalizer :: string where
  "NetworkLoadBalancerTCPRouteProgrammedFinalizer = ''oke-gateway-api.gemyago.github.io/nlb-tcproute-programmed''"

definition NetworkLoadBalancerTCPRouteProgrammedBackendSetsAnnotation :: string where
  "NetworkLoadBalancerTCPRouteProgrammedBackendSetsAnnotation =
     ''oke-gateway-api.gemyago.github.io/nlb-tcproute-backendsets''"

definition NetworkLoadBalancerUDPRouteProgrammedFinalizer :: string where
  "NetworkLoadBalancerUDPRouteProgrammedFinalizer = ''oke-gateway-api.gemyago.github.io/nlb-udproute-programmed''"

definition NetworkLoadBalancerUDPRouteProgrammedBackendSetsAnnotation :: string where
  "NetworkLoadBalancerUDPRouteProgrammedBackendSetsAnnotation =
     ''oke-gateway-api.gemyago.github.io/nlb-udproute-backendsets''"

definition NetworkLoadBalancerUDPRouteHealthCheckPortAnnotation :: string where
  "NetworkLoadBalancerUDPRouteHealthCheckPortAnnotation =
     ''oke-gateway-api.gemyago.github.io/nlb-udp-health-check-port''"

definition l4AcceptedStatusError :: "string \<Rightarrow> string \<Rightarrow> string \<Rightarrow> error" where
  "l4AcceptedStatusError kind reason message = ErrRouteStatus kind ''Accepted'' reason message"

definition l4ResolvedRefsStatusError :: "string \<Rightarrow> string \<Rightarrow> string \<Rightarrow> error" where
  "l4ResolvedRefsStatusError kind reason message = ErrRouteStatus kind ''ResolvedRefs'' reason message"

definition newTCPRouteAcceptedStatusError :: "string \<Rightarrow> string \<Rightarrow> error" where
  "newTCPRouteAcceptedStatusError = l4AcceptedStatusError ''TCPRoute''"

definition newTCPRouteResolvedRefsStatusError :: "string \<Rightarrow> string \<Rightarrow> error" where
  "newTCPRouteResolvedRefsStatusError = l4ResolvedRefsStatusError ''TCPRoute''"

definition newUDPRouteAcceptedStatusError :: "string \<Rightarrow> string \<Rightarrow> error" where
  "newUDPRouteAcceptedStatusError = l4AcceptedStatusError ''UDPRoute''"

definition newUDPRouteResolvedRefsStatusError :: "string \<Rightarrow> string \<Rightarrow> error" where
  "newUDPRouteResolvedRefsStatusError = l4ResolvedRefsStatusError ''UDPRoute''"

text \<open>The health checkers of the two kinds.\<close>

definition tcpHealthCheckerDetailsFromBackendSet :: "nlb_backend_set \<Rightarrow> nlb_health_checker option" where
  "tcpHealthCheckerDetailsFromBackendSet backendSet = nbs_health_checker backendSet"

definition udpHealthCheckerDetailsFromBackendSet :: "nlb_backend_set \<Rightarrow> nlb_health_checker option" where
  "udpHealthCheckerDetailsFromBackendSet backendSet =
     map_option (\<lambda>h. if nh_protocol h = ''UDP''
       then h\<lparr>nh_protocol := ''TCP'', nh_request_data := None, nh_response_data := None\<rparr> else h)
       (nbs_health_checker backendSet)"

definition udpBackendSetUsesTCPHealthChecker :: "nlb_backend_set \<Rightarrow> bool" where
  "udpBackendSetUsesTCPHealthChecker backendSet =
     (case nbs_health_checker backendSet of None \<Rightarrow> False | Some h \<Rightarrow> nh_protocol h = ''TCP'')"

definition udpBackendSetUsesHealthChecker :: "nlb_backend_set \<Rightarrow> nlb_health_checker \<Rightarrow> bool" where
  "udpBackendSetUsesHealthChecker backendSet healthChecker =
     (if \<not> udpBackendSetUsesTCPHealthChecker backendSet then False
      else (let actual = (case nbs_health_checker backendSet of None \<Rightarrow> None | Some h \<Rightarrow> nh_port h) in
        case nh_port healthChecker of
          None \<Rightarrow> actual = None
        | Some port \<Rightarrow> actual = Some port))"

definition udpHealthCheckPort :: "l4_route \<Rightarrow> error + int" where
  "udpHealthCheckPort route =
     (let value = map_get (rt_annotations route) NetworkLoadBalancerUDPRouteHealthCheckPortAnnotation in
      if value = [] then Inl (newUDPRouteAcceptedStatusError ''UnsupportedValue''
        (errtext ''annotation '' NetworkLoadBalancerUDPRouteHealthCheckPortAnnotation
          '' is required and must be a TCP port between 1 and 65535''))
      else let invalid = Inl (newUDPRouteAcceptedStatusError ''UnsupportedValue''
             (errtext ''annotation '' NetworkLoadBalancerUDPRouteHealthCheckPortAnnotation
               '' must be a TCP port between 1 and 65535''))
        in (case go_atoi value of
              None \<Rightarrow> invalid
            | Some port \<Rightarrow> if port < 1 \<or> port > 65535 then invalid else Inr port))"

text \<open>
  What differs between the kinds. \<open>k4_update_checker\<close> is the health checker an update writes, or
  why there is none; \<open>k4_checker_current\<close> says whether a backend set has it.
\<close>

record l4_kind =
  k4_kind :: string
  k4_protocol :: string
  k4_finalizer :: string
  k4_backend_sets :: string
  k4_matches :: "parent_ref \<Rightarrow> gw_listener \<Rightarrow> bool"
  k4_stored_checker :: "nlb_backend_set \<Rightarrow> nlb_health_checker option"
  k4_default_checker :: nlb_health_checker
  k4_update_checker :: "l4_route \<Rightarrow> error + nlb_health_checker"
  k4_checker_current :: "nlb_backend_set \<Rightarrow> nlb_health_checker \<Rightarrow> bool"

definition tcpDefaultHealthChecker :: nlb_health_checker where
  "tcpDefaultHealthChecker = \<lparr>nh_protocol = ''TCP'', nh_port = None, nh_retries = None, nh_timeout = None,
     nh_interval = None, nh_url_path = None, nh_body_regex = None, nh_return_code = None, nh_request_data = None,
     nh_response_data = None, nh_dns = None\<rparr>"

definition tcp_kind :: l4_kind where
  "tcp_kind = \<lparr>k4_kind = ''TCPRoute'', k4_protocol = ''TCP'', k4_finalizer = NetworkLoadBalancerTCPRouteProgrammedFinalizer,
     k4_backend_sets = NetworkLoadBalancerTCPRouteProgrammedBackendSetsAnnotation, k4_matches = tcpRouteMatchesListener,
     k4_stored_checker = tcpHealthCheckerDetailsFromBackendSet, k4_default_checker = tcpDefaultHealthChecker,
     k4_update_checker = (\<lambda>_. Inr (networkLoadBalancerHealthCheckerDetails None)), k4_checker_current = (\<lambda>_ _. True)\<rparr>"

definition udp_kind :: l4_kind where
  "udp_kind = \<lparr>k4_kind = ''UDPRoute'', k4_protocol = ''UDP'', k4_finalizer = NetworkLoadBalancerUDPRouteProgrammedFinalizer,
     k4_backend_sets = NetworkLoadBalancerUDPRouteProgrammedBackendSetsAnnotation, k4_matches = udpRouteMatchesListener,
     k4_stored_checker = udpHealthCheckerDetailsFromBackendSet,
     k4_default_checker = networkLoadBalancerHealthCheckerDetails None,
     k4_update_checker = (\<lambda>route. case udpHealthCheckPort route of
       Inl err \<Rightarrow> Inl err | Inr port \<Rightarrow> Inr (networkLoadBalancerHealthCheckerDetails (Some port))),
     k4_checker_current = udpBackendSetUsesHealthChecker\<rparr>"

text \<open>A route at one of the listeners it attaches to.\<close>

record l4_route_details =
  ld_gateway :: resolved_gateway_details
  ld_route :: l4_route
  ld_ref :: parent_ref
  ld_listener :: gw_listener

definition l4RouteKey :: "l4_route \<Rightarrow> string" where
  "l4RouteKey route = namespaced_name (rt_namespace route) (rt_name route)"

definition l4BackendRefName :: "backend_ref \<Rightarrow> string \<Rightarrow> string \<times> string" where
  "l4BackendRefName backendRef defaultNamespace =
     ((case br_namespace backendRef of Some n \<Rightarrow> n | None \<Rightarrow> defaultNamespace), br_name backendRef)"

definition desiredL4RouteBackendSetNames :: "l4_kind \<Rightarrow> l4_route_details \<Rightarrow> string list" where
  "desiredL4RouteBackendSetNames k details =
     (let gateway = rd_gateway (ld_gateway details); route = ld_route details in
      uniq_by id (concat (map (\<lambda>parentRef.
        if \<not> parentRefTargetsGateway parentRef \<and> \<not> parentRefTargetsListenerSet parentRef then []
        else if parentRefTargetsGateway parentRef \<and>
          parentRefTargetName parentRef (rt_namespace route) \<noteq> (gw_namespace gateway, gw_name gateway) then []
        else map networkLoadBalancerBackendSetName
          (effectiveListenersForParentRef (ld_gateway details) parentRef (rt_namespace route) (k4_matches k)))
        (rt_parent_refs route))))"

section \<open>Status\<close>

definition l4ParentMatches :: "string \<Rightarrow> parent_ref \<Rightarrow> route_parent_status \<Rightarrow> bool" where
  "l4ParentMatches controller ref status \<longleftrightarrow> rps_controller status = controller \<and> parentRefSameTarget (rps_ref status) ref"

definition updatedParent :: "string \<Rightarrow> parent_ref \<Rightarrow> condition list \<Rightarrow> route_parent_status \<Rightarrow> route_parent_status" where
  "updatedParent controller ref conditions status =
     \<lparr>rps_ref = ref, rps_controller = controller, rps_conditions = foldl setStatusCondition (rps_conditions status) conditions\<rparr>"

text \<open>The loop stops at the first parent that matches.\<close>

fun mergeParentsLoop ::
    "string \<Rightarrow> parent_ref \<Rightarrow> condition list \<Rightarrow> route_parent_status list \<Rightarrow> route_parent_status list" where
  "mergeParentsLoop controller ref conditions [] =
     [\<lparr>rps_ref = ref, rps_controller = controller, rps_conditions = conditions\<rparr>]"
| "mergeParentsLoop controller ref conditions (status # rest) =
     (if l4ParentMatches controller ref status then updatedParent controller ref conditions status # rest
      else status # mergeParentsLoop controller ref conditions rest)"

definition mergeL4RouteParentStatus ::
    "route_parent_status list \<Rightarrow> parent_ref \<Rightarrow> condition list \<Rightarrow> route_parent_status list" where
  "mergeL4RouteParentStatus parents parentRef conditions =
     mergeParentsLoop NetworkLoadBalancerControllerClassName parentRef conditions parents"

type_synonym parents_merge = "route_parent_status list \<Rightarrow> parent_ref \<Rightarrow> condition list \<Rightarrow> route_parent_status list"

definition l4StatusAfterConflict ::
    "string \<Rightarrow> parents_merge \<Rightarrow> lb_env \<Rightarrow> l4_route \<Rightarrow> parent_ref \<Rightarrow> condition list \<Rightarrow> unit lb_op" where
  "l4StatusAfterConflict kind merge w route ref conditions =
     eff_bind (get_l4_route w kind (rt_namespace route) (rt_name route)) (\<lambda>r. case r of
         Inl err \<Rightarrow> eff_fail (ErrWrap (errtext ''failed to refresh '' kind (errtext '' '' (rt_name route)
           '' status after conflict: '')) err [])
       | Inr latest \<Rightarrow>
           eff_bind (k8s_update w (UpdateL4RouteStatus kind (latest\<lparr>rt_parents := merge (rt_parents latest) ref conditions\<rparr>)))
             (\<lambda>r. case r of
                None \<Rightarrow> eff_return ()
              | Some err \<Rightarrow> eff_fail (ErrWrap (errtext ''failed to update '' kind (errtext '' '' (rt_name route)
                  '' status after conflict: '')) err [])))"

definition l4UpdateParentStatus ::
    "string \<Rightarrow> parents_merge \<Rightarrow> lb_env \<Rightarrow> l4_route \<Rightarrow> parent_ref \<Rightarrow> condition list \<Rightarrow> unit lb_op" where
  "l4UpdateParentStatus kind merge w route ref conditions =
     (let updated = route\<lparr>rt_parents := merge (rt_parents route) ref conditions\<rparr> in
      eff_bind (k8s_update w (UpdateL4RouteStatus kind updated)) (\<lambda>r. case r of
          None \<Rightarrow> eff_return ()
        | Some err \<Rightarrow>
            (if is_conflict err then l4StatusAfterConflict kind merge w updated ref conditions
             else eff_fail (ErrWrap (errtext ''failed to update '' kind (errtext '' '' (rt_name route) '' status: '')) err []))))"

definition l4Condition :: "l4_route \<Rightarrow> string \<Rightarrow> string \<Rightarrow> string \<Rightarrow> string \<Rightarrow> condition" where
  "l4Condition route type status reason message =
     \<lparr>cn_type = type, cn_status = status, cn_reason = reason, cn_message = message, cn_generation = rt_generation route\<rparr>"

definition l4AcceptedCondition :: "string \<Rightarrow> string \<Rightarrow> l4_route \<Rightarrow> condition" where
  "l4AcceptedCondition kind controllerName route = l4Condition route ''Accepted'' ''True'' ''Accepted''
     (errtext kind ('' '' @ rt_name route) (errtext '' accepted by '' controllerName []))"

record l4_programmed_params =
  lp_kind :: string
  lp_controllerName :: string
  lp_finalizer :: string
  lp_annotation :: string
  lp_loadBalancerID :: string
  lp_desired :: "string list"

definition applyL4RouteProgrammedMetadata :: "l4_programmed_params \<Rightarrow> l4_route \<Rightarrow> bool \<times> l4_route" where
  "applyL4RouteProgrammedMetadata params route =
     (let added = lp_finalizer params \<notin> set (rt_finalizers route);
          route1 = route\<lparr>rt_finalizers := addFinalizer (lp_finalizer params) (rt_finalizers route)\<rparr>;
          route2 = (if lp_desired params \<noteq> [] then route1\<lparr>rt_annotations :=
            setAnnotatedBackendSetNames (rt_annotations route1) (lp_annotation params) (lp_desired params)\<rparr> else route1);
          relocated = lp_loadBalancerID params \<noteq> [] \<and>
            map_get (rt_annotations route2) L4RouteProgrammedNetworkLoadBalancerIDAnnotation \<noteq> lp_loadBalancerID params
      in (added \<or> lp_desired params \<noteq> [] \<or> relocated,
          if relocated then route2\<lparr>rt_annotations := AList.update L4RouteProgrammedNetworkLoadBalancerIDAnnotation
            (lp_loadBalancerID params) (rt_annotations route2)\<rparr> else route2))"

definition l4ObjectText :: "string \<Rightarrow> string \<Rightarrow> l4_route \<Rightarrow> string \<Rightarrow> string" where
  "l4ObjectText before kind route after = errtext before kind (errtext '' '' (l4RouteKey route) after)"

definition updateL4RouteProgrammedMetadataAfterConflict :: "lb_env \<Rightarrow> l4_programmed_params \<Rightarrow> l4_route \<Rightarrow> unit lb_op" where
  "updateL4RouteProgrammedMetadataAfterConflict w params route =
     eff_bind (get_l4_route w (lp_kind params) (rt_namespace route) (rt_name route)) (\<lambda>r. case r of
         Inl err \<Rightarrow> eff_fail (ErrWrap (l4ObjectText ''failed to refresh '' (lp_kind params) route
           '' after finalizer and annotations conflict: '') err [])
       | Inr latest \<Rightarrow>
           eff_bind (k8s_update w (UpdateL4Route (lp_kind params) (snd (applyL4RouteProgrammedMetadata params latest))))
             (\<lambda>r. case r of
                None \<Rightarrow> eff_return ()
              | Some err \<Rightarrow> eff_fail (ErrWrap (l4ObjectText ''failed to update '' (lp_kind params) route
                  '' finalizer and annotations: '') err [])))"

definition updateL4RouteProgrammedMetadata :: "lb_env \<Rightarrow> l4_programmed_params \<Rightarrow> l4_route \<Rightarrow> unit lb_op" where
  "updateL4RouteProgrammedMetadata w params route =
     eff_bind (k8s_update w (UpdateL4Route (lp_kind params) route)) (\<lambda>r. case r of
         None \<Rightarrow> eff_return ()
       | Some err \<Rightarrow>
           (if is_conflict err then updateL4RouteProgrammedMetadataAfterConflict w params route
            else eff_fail (ErrWrap (l4ObjectText ''failed to update '' (lp_kind params) route
              '' finalizer and annotations: '') err [])))"

definition setL4RouteProgrammed ::
    "lb_env \<Rightarrow> l4_programmed_params \<Rightarrow> l4_route \<Rightarrow> (l4_route \<Rightarrow> condition list \<Rightarrow> unit lb_op) \<Rightarrow> unit lb_op" where
  "setL4RouteProgrammed w params route updateParentStatus =
     (case applyL4RouteProgrammedMetadata params route of (needsUpdate, routeToUpdate) \<Rightarrow>
        eff_bind (if needsUpdate then updateL4RouteProgrammedMetadata w params routeToUpdate else eff_return ()) (\<lambda>_.
          updateParentStatus routeToUpdate
            [l4AcceptedCondition (lp_kind params) (lp_controllerName params) routeToUpdate,
             l4Condition routeToUpdate ''ResolvedRefs'' ''True'' ''ResolvedRefs'' ''Backend references resolved'']))"

definition setL4RoutePending ::
    "string \<Rightarrow> string \<Rightarrow> l4_route \<Rightarrow> (l4_route \<Rightarrow> condition list \<Rightarrow> unit lb_op) \<Rightarrow> unit lb_op" where
  "setL4RoutePending kind controllerName route updateParentStatus =
     updateParentStatus route
       [l4AcceptedCondition kind controllerName route,
        l4Condition route ''ResolvedRefs'' ''Unknown'' ''Pending'' ''Route programming is in progress'']"

section \<open>Parent Gateways\<close>

definition resolveL4ParentGateway :: "lb_env \<Rightarrow> string \<times> string \<Rightarrow> resolved_gateway_details option lb_op" where
  "resolveL4ParentGateway w = (\<lambda>(ns, name).
     eff_bind (get_gateway w ns name) (\<lambda>r. case r of
         Inl err \<Rightarrow>
           (if is_not_found err then eff_return None
            else eff_fail (ErrWrap (errtext ''failed to get Gateway '' (namespaced_name ns name) '': '') err []))
       | Inr gateway \<Rightarrow>
           eff_bind (get_gateway_class w (gw_class_name gateway)) (\<lambda>r. case r of
               Inl err \<Rightarrow>
                 (if is_not_found err then eff_return None
                  else eff_fail (ErrWrap (errtext ''failed to get GatewayClass '' (gw_class_name gateway) '': '') err []))
             | Inr class \<Rightarrow>
                 (if gc_controller class \<noteq> NetworkLoadBalancerControllerClassName then eff_return None
                  else case gw_parameters gateway of
                      None \<Rightarrow> eff_return None
                    | Some configName \<Rightarrow>
                        eff_bind (get_gateway_config w (gw_namespace gateway) configName) (\<lambda>r. case r of
                            Inl err \<Rightarrow>
                              (if is_not_found err then eff_return None
                               else eff_fail (ErrWrap (errtext ''failed to get GatewayConfig for Gateway ''
                                 (namespaced_name ns name) '': '') err []))
                          | Inr loadBalancerID \<Rightarrow> eff_return (Some (resolvedGateway gateway class loadBalancerID)))))))"

definition resolveL4ParentGatewayForRouteParentRef ::
    "lb_env \<Rightarrow> string \<Rightarrow> parent_ref \<Rightarrow> resolved_gateway_details option lb_op" where
  "resolveL4ParentGatewayForRouteParentRef w routeNamespace parentRef =
     (if parentRefTargetsGateway parentRef then resolveL4ParentGateway w (parentRefTargetName parentRef routeNamespace)
      else if \<not> parentRefTargetsListenerSet parentRef then eff_return None
      else eff_bind (listenerSetParentGatewayTarget w routeNamespace parentRef) (\<lambda>target. case target of
          None \<Rightarrow> eff_return None
        | Some gatewayName \<Rightarrow>
            eff_bind (resolveL4ParentGateway w gatewayName) (\<lambda>resolved. case resolved of
                None \<Rightarrow> eff_return None
              | Some details \<Rightarrow>
                  eff_bind (populateAttachedListenerSetsUnindexed w details) (\<lambda>d. eff_return (Some d)))))"

definition resolveDetachedL4RouteGateway ::
    "lb_env \<Rightarrow> string \<times> string \<Rightarrow> string \<Rightarrow> resolved_gateway_details option lb_op" where
  "resolveDetachedL4RouteGateway w = (\<lambda>(ns, name) routeKind.
     (let text = (\<lambda>what. what @ errtext '' for detached '' routeKind '' cleanup: '') in
     eff_bind (get_gateway w ns name) (\<lambda>r. case r of
         Inl err \<Rightarrow>
           (if is_not_found err then eff_return None
            else eff_fail (ErrWrap (text (errtext ''failed to get Gateway '' (namespaced_name ns name) [])) err []))
       | Inr gateway \<Rightarrow>
           eff_bind (get_gateway_class w (gw_class_name gateway)) (\<lambda>r. case r of
               Inl err \<Rightarrow>
                 (if is_not_found err then eff_return None
                  else eff_fail (ErrWrap (text (errtext ''failed to get GatewayClass '' (gw_class_name gateway) [])) err []))
             | Inr class \<Rightarrow>
                 (if gc_controller class \<noteq> NetworkLoadBalancerControllerClassName then eff_return None
                  else case gw_parameters gateway of
                      None \<Rightarrow> eff_return None
                    | Some configName \<Rightarrow>
                        eff_bind (get_gateway_config w (gw_namespace gateway) configName) (\<lambda>r. case r of
                            Inl err \<Rightarrow>
                              (if is_not_found err then eff_return None
                               else eff_fail (ErrWrap (text ''failed to get GatewayConfig'') err []))
                          | Inr loadBalancerID \<Rightarrow> eff_return (Some (resolvedGateway gateway class loadBalancerID))))))))"

section \<open>Backends\<close>

definition resolveL4BackendRefServicePort ::
    "lb_env \<Rightarrow> string \<Rightarrow> string \<Rightarrow> backend_ref \<Rightarrow> string \<times> string \<Rightarrow> (string \<Rightarrow> string \<Rightarrow> error) \<Rightarrow>
      ((string \<times> string) \<times> service_port) lb_op" where
  "resolveL4BackendRefServicePort w routeKind routeNamespace backendRef = (\<lambda>(ns, name) statusErr.
     case l4ValidateServiceBackendRef backendRef of
       Some err \<Rightarrow> eff_fail (statusErr ''InvalidKind'' (error_text (env_svc_text w) err))
     | None \<Rightarrow>
         (if br_port backendRef = None then
            eff_fail (statusErr ''InvalidKind'' (errtext ''backendRef '' (br_name backendRef) '' is missing port''))
          else eff_bind (referenceGrantAllowsServiceBackend w routeKind routeNamespace ns name) (\<lambda>allowed.
            if \<not> allowed then eff_fail (statusErr ''RefNotPermitted''
              (errtext ''backendRef '' (namespaced_name ns name) '' is not permitted by a ReferenceGrant''))
            else eff_bind (get_service w ns name) (\<lambda>r. case r of
                Inl err \<Rightarrow>
                  (if is_not_found err then eff_fail (statusErr ''BackendNotFound''
                     (errtext ''backendRef service '' (namespaced_name ns name) '' not found''))
                   else eff_fail (ErrWrap (errtext ''failed to get service '' (namespaced_name ns name) '': '') err []))
              | Inr service \<Rightarrow>
                  (case servicePortForBackendRef service backendRef of
                     Inl err \<Rightarrow> eff_fail (statusErr ''InvalidKind'' (error_text (env_svc_text w) err))
                   | Inr servicePort \<Rightarrow> eff_return ((ns, name), servicePort))))))"

definition sliceBackends :: "service_port \<Rightarrow> int \<Rightarrow> endpoint_slice \<Rightarrow> nlb_backend_details list" where
  "sliceBackends servicePort weight endpointSlice =
     (case endpointPortForServicePort servicePort endpointSlice of
        None \<Rightarrow> []
      | Some port \<Rightarrow>
          map (\<lambda>endpoint. \<lparr>nd_name = None, nd_ip = Some (hd (ep_addresses endpoint)), nd_target_id = None,
              nd_port = Some port, nd_weight = Some weight, nd_drain = Some (ep_terminating endpoint = Some True),
              nd_backup = None, nd_offline = None\<rparr>)
            (filter (\<lambda>endpoint. ep_ready endpoint \<noteq> Some False \<and> ep_addresses endpoint \<noteq> []) (es_endpoints endpointSlice)))"

definition endpointBackendsForSlices :: "endpoint_slice list \<Rightarrow> service_port \<Rightarrow> int \<Rightarrow> nlb_backend_details list" where
  "endpointBackendsForSlices endpointSlices servicePort weight =
     concat (map (sliceBackends servicePort weight) endpointSlices)"

definition endpointBackendsForBackendRef ::
    "lb_env \<Rightarrow> string \<Rightarrow> string \<Rightarrow> backend_ref \<Rightarrow> nlb_backend_details list lb_op" where
  "endpointBackendsForBackendRef w kind routeNamespace backendRef =
     (let weight = l4BackendRefWeight backendRef in
      if weight = 0 then eff_return []
      else eff_bind (resolveL4BackendRefServicePort w kind routeNamespace backendRef
           (l4BackendRefName backendRef routeNamespace) (l4ResolvedRefsStatusError kind)) (\<lambda>((ns, name), servicePort).
        eff_bind (list_endpoint_slices w ns (br_name backendRef)) (\<lambda>r. case r of
            Inl err \<Rightarrow> eff_fail (ErrWrap (errtext ''failed to list endpoint slices for backend ''
              (namespaced_name ns name) '': '') err [])
          | Inr slices \<Rightarrow> eff_return (endpointBackendsForSlices slices servicePort weight))))"

fun mergedBackendsForRefs ::
    "lb_env \<Rightarrow> string \<Rightarrow> string \<Rightarrow> (string \<times> nlb_backend_details) list \<Rightarrow> backend_ref list \<Rightarrow>
      (string \<times> nlb_backend_details) list lb_op" where
  "mergedBackendsForRefs w kind routeNamespace desired [] = eff_return desired"
| "mergedBackendsForRefs w kind routeNamespace desired (backendRef # rest) =
     eff_bind (endpointBackendsForBackendRef w kind routeNamespace backendRef) (\<lambda>backends.
       mergedBackendsForRefs w kind routeNamespace (foldl mergeNetworkLoadBalancerBackend desired backends) rest)"

definition endpointBackendsForRoute :: "lb_env \<Rightarrow> string \<Rightarrow> l4_route \<Rightarrow> nlb_backend_details list lb_op" where
  "endpointBackendsForRoute w kind route =
     eff_bind (mergedBackendsForRefs w kind (rt_namespace route) [] (concat (map rr_backend_refs (rt_rules route))))
       (\<lambda>desired. eff_bind (eff_ask (env_order w)) (\<lambda>order. eff_return (map snd (map_iter order desired))))"

definition tcpBackendsEqual :: "nlb_backend list \<Rightarrow> nlb_backend_details list \<Rightarrow> bool" where
  "tcpBackendsEqual current desired =
     (if length current \<noteq> length desired then False
      else (let currentMap = slice_to_map (\<lambda>b. str_ptr (nb_ip b) @ '':'' @ int_to_string (int_ptr (nb_port b))) id [] current
        in list_all (\<lambda>backend. case map_of currentMap (str_ptr (nd_ip backend) @ '':'' @ int_to_string (int_ptr (nd_port backend))) of
             None \<Rightarrow> False
           | Some c \<Rightarrow> bool_ptr (nb_drain c) = bool_ptr (nd_drain backend) \<and> int_ptr (nb_weight c) = int_ptr (nd_weight backend))
           desired))"

section \<open>The owner of a listener\<close>

definition l4ParentRefMatchesListener ::
    "resolved_gateway_details \<Rightarrow> parent_ref \<Rightarrow> string \<Rightarrow> gw_listener \<Rightarrow> (parent_ref \<Rightarrow> gw_listener \<Rightarrow> bool) \<Rightarrow> bool" where
  "l4ParentRefMatchesListener gatewayDetails parentRef routeNamespace listener matchesListener =
     (if \<not> parentRefTargetsGateway parentRef \<and> \<not> parentRefTargetsListenerSet parentRef then False
      else (let matched = effectiveListenersForParentRef gatewayDetails parentRef routeNamespace matchesListener;
                gateway = rd_gateway gatewayDetails;
                matchedListeners = (if parentRefTargetsGateway parentRef \<and> matched = [] \<and>
                    parentRefTargetName parentRef routeNamespace = (gw_namespace gateway, gw_name gateway) \<and>
                    matchesListener parentRef listener then [listener] else matched)
        in list_ex (\<lambda>m. l_name m = l_name listener) matchedListeners))"

record l4_listener_match =
  l4m_route :: l4_route
  l4m_key :: string
  l4m_ref :: parent_ref

definition l4MatchBefore :: "l4_listener_match \<Rightarrow> l4_listener_match \<Rightarrow> bool" where
  "l4MatchBefore a b =
     (if rt_creation (l4m_route a) \<noteq> rt_creation (l4m_route b) then rt_creation (l4m_route a) < rt_creation (l4m_route b)
      else l4m_key a < l4m_key b)"

definition l4ListenerMatch ::
    "resolved_gateway_details \<Rightarrow> gw_listener \<Rightarrow> string \<Rightarrow> (parent_ref \<Rightarrow> gw_listener \<Rightarrow> bool) \<Rightarrow> l4_route \<Rightarrow>
      l4_listener_match option" where
  "l4ListenerMatch gatewayDetails listener excludeRouteKey matchesListener route =
     (let key = l4RouteKey route in
      if rt_deleting route \<or> key = excludeRouteKey then None
      else map_option (\<lambda>ref. \<lparr>l4m_route = route, l4m_key = key, l4m_ref = ref\<rparr>)
        (find (\<lambda>ref. l4ParentRefMatchesListener gatewayDetails ref (rt_namespace route) listener matchesListener)
          (rt_parent_refs route)))"

definition matchingL4RoutesForListener ::
    "l4_route list \<Rightarrow> resolved_gateway_details \<Rightarrow> gw_listener \<Rightarrow> string \<Rightarrow> (parent_ref \<Rightarrow> gw_listener \<Rightarrow> bool) \<Rightarrow>
      l4_listener_match list" where
  "matchingL4RoutesForListener routes gatewayDetails listener excludeRouteKey matchesListener =
     sort_by l4MatchBefore
       (List.map_filter (l4ListenerMatch gatewayDetails listener excludeRouteKey matchesListener) routes)"

definition listMatchingL4RoutesForListener ::
    "lb_env \<Rightarrow> string \<Rightarrow> string \<Rightarrow> l4_route_details \<Rightarrow> string \<Rightarrow> (parent_ref \<Rightarrow> gw_listener \<Rightarrow> bool) \<Rightarrow>
      l4_listener_match list lb_op" where
  "listMatchingL4RoutesForListener w kind listError details excludeRouteKey matchesListener =
     eff_bind (list_l4_routes w kind) (\<lambda>r. case r of
         Inl err \<Rightarrow> eff_fail (ErrWrap (listError @ '': '') err [])
       | Inr items \<Rightarrow> eff_return (matchingL4RoutesForListener items (ld_gateway details) (ld_listener details)
           excludeRouteKey matchesListener))"

definition ensureExclusiveL4ListenerOwner ::
    "l4_listener_match list \<Rightarrow> string \<Rightarrow> gw_listener \<Rightarrow> string \<Rightarrow> (string \<Rightarrow> string \<Rightarrow> error) \<Rightarrow> unit lb_op" where
  "ensureExclusiveL4ListenerOwner matches currentRouteKey listener routeKind statusErr =
     (case matches of
        [] \<Rightarrow> eff_return ()
      | m # _ \<Rightarrow>
          (if l4m_key m = currentRouteKey then eff_return ()
           else eff_fail (statusErr ''NotAllowedByListeners'' (errtext ''listener '' (l_name listener)
             (errtext '' already has an attached '' routeKind ('' '' @ l4m_key m))))))"

definition l4MatchingRoutesForListener ::
    "l4_kind \<Rightarrow> lb_env \<Rightarrow> l4_route_details \<Rightarrow> string \<Rightarrow> string \<Rightarrow> l4_listener_match list lb_op" where
  "l4MatchingRoutesForListener k w details excludeRouteKey listError =
     listMatchingL4RoutesForListener w (k4_kind k) listError details excludeRouteKey (k4_matches k)"

definition l4EnsureExclusiveListenerOwner :: "l4_kind \<Rightarrow> lb_env \<Rightarrow> l4_route_details \<Rightarrow> unit lb_op" where
  "l4EnsureExclusiveListenerOwner k w details =
     eff_bind (l4MatchingRoutesForListener k w details []
         (errtext ''failed to list '' (k4_kind k) ''s for listener ownership check'')) (\<lambda>matches.
       ensureExclusiveL4ListenerOwner matches (l4RouteKey (ld_route details)) (ld_listener details) (k4_kind k)
         (l4AcceptedStatusError (k4_kind k)))"

definition nextOwner :: "l4_route_details \<Rightarrow> l4_listener_match list \<Rightarrow> l4_route_details option" where
  "nextOwner details matches =
     (case matches of
        [] \<Rightarrow> None
      | m # _ \<Rightarrow> Some (details\<lparr>ld_route := l4m_route m, ld_ref := makeTargetOnlyParentRef (l4m_ref m)\<rparr>))"

definition l4NextEligibleRouteForListener :: "l4_kind \<Rightarrow> lb_env \<Rightarrow> l4_route_details \<Rightarrow> l4_route_details option lb_op" where
  "l4NextEligibleRouteForListener k w details =
     eff_bind (l4MatchingRoutesForListener k w details (l4RouteKey (ld_route details))
         (errtext ''failed to list '' (k4_kind k) ''s for listener failover'')) (\<lambda>matches.
       eff_return (nextOwner details matches))"

section \<open>Backend sets\<close>

definition l4BackendSetUpdate :: "nlb_health_checker \<Rightarrow> nlb_backend_details list \<Rightarrow> nlb_backend_set_details" where
  "l4BackendSetUpdate healthChecker backends =
     \<lparr>ns_backends = backends, ns_policy = Some ''FIVE_TUPLE'', ns_preserve_source = Some False,
      ns_health_checker = Some healthChecker\<rparr>"

text \<open>The backend set is known missing only when the load balancer has a map of backend sets.\<close>

definition l4ClearBackendSetByName ::
    "(nlb_backend_set \<Rightarrow> nlb_health_checker option) \<Rightarrow> nlb_health_checker \<Rightarrow> lb_env \<Rightarrow> string \<Rightarrow> string \<Rightarrow>
      nlb_health_checker option \<Rightarrow> unit lb_op" where
  "l4ClearBackendSetByName stored fallback w loadBalancerID backendSetName healthChecker =
     eff_bind (getNetworkLoadBalancer w loadBalancerID) (\<lambda>nlb.
       if nl_id nlb = None then eff_return ()
       else (let clear = (\<lambda>checker. updateNetworkLoadBalancerBackendSet w nlb backendSetName ''clear''
                (l4BackendSetUpdate (case checker of Some c \<Rightarrow> c | None \<Rightarrow> fallback) []))
         in case nl_backend_sets nlb of
             None \<Rightarrow> clear healthChecker
           | Some sets \<Rightarrow>
               (case map_of sets backendSetName of
                  None \<Rightarrow> eff_return ()
                | Some backendSet \<Rightarrow>
                    clear (case healthChecker of Some c \<Rightarrow> Some c | None \<Rightarrow> stored backendSet))))"

definition l4ClearNamed :: "l4_kind \<Rightarrow> lb_env \<Rightarrow> string \<Rightarrow> string \<Rightarrow> nlb_health_checker option \<Rightarrow> unit lb_op" where
  "l4ClearNamed k = l4ClearBackendSetByName (k4_stored_checker k) (k4_default_checker k)"

definition l4ClearBackendSet :: "l4_kind \<Rightarrow> lb_env \<Rightarrow> l4_route_details \<Rightarrow> unit lb_op" where
  "l4ClearBackendSet k w details =
     l4ClearNamed k w (rd_loadBalancerID (ld_gateway details)) (networkLoadBalancerBackendSetName (ld_listener details))
       (Some (networkLoadBalancerHealthCheckerDetails (Some (l_port (ld_listener details)))))"

definition l4ClearStaleBackendSets :: "l4_kind \<Rightarrow> lb_env \<Rightarrow> l4_route_details \<Rightarrow> unit lb_op" where
  "l4ClearStaleBackendSets k w details =
     (let programmed = annotatedBackendSetNames (rt_annotations (ld_route details)) (k4_backend_sets k);
          desired = desiredL4RouteBackendSetNames k details
      in eff_bind (eff_ask (env_order w)) (\<lambda>order.
           eff_foreach (\<lambda>backendSetName.
             if backendSetName \<in> set desired then eff_return ()
             else l4ClearNamed k w (rd_loadBalancerID (ld_gateway details)) backendSetName None)
             (map_iter order programmed)))"

definition l4UpdateBackendSet ::
    "l4_kind \<Rightarrow> lb_env \<Rightarrow> l4_route_details \<Rightarrow> string \<Rightarrow> nlb_backend_details list \<Rightarrow> unit lb_op" where
  "l4UpdateBackendSet k w details backendSetName backends =
     (case k4_update_checker k (ld_route details) of
        Inl err \<Rightarrow> eff_fail err
      | Inr healthChecker \<Rightarrow>
          eff_bind (ensureNetworkLoadBalancer w (rd_loadBalancerID (ld_gateway details))) (\<lambda>nlb.
            case networkLoadBalancerBusyErrorFromState (Some nlb) of
              Some busy \<Rightarrow> eff_fail busy
            | None \<Rightarrow>
                (let upToDate = (case map_of (from_ptr [] (nl_backend_sets nlb)) backendSetName of
                       None \<Rightarrow> False
                     | Some current \<Rightarrow> tcpBackendsEqual (nbs_backends current) backends \<and>
                         nbs_preserve_source current = Some False \<and> k4_checker_current k current healthChecker)
                 in if upToDate then eff_return ()
                    else updateNetworkLoadBalancerBackendSet w nlb backendSetName ''update''
                      (l4BackendSetUpdate healthChecker backends))))"

section \<open>Programming\<close>

record program_l4_params =
  pl_kind :: string
  pl_route :: l4_route
  pl_listenerNamespace :: string
  pl_listener :: gw_listener
  pl_finalizer :: string
  pl_clear :: "unit lb_op"
  pl_ensureOwner :: "unit lb_op"
  pl_clearStale :: "unit lb_op"
  pl_backends :: "nlb_backend_details list lb_op"
  pl_update :: "string \<Rightarrow> nlb_backend_details list \<Rightarrow> unit lb_op"

text \<open>A status error of the route's own kind about its references.\<close>

definition isResolvedRefsError :: "string \<Rightarrow> error \<Rightarrow> bool" where
  "isResolvedRefsError kind err =
     (case errors_as (route_status_of kind) err of Some (type, _, _) \<Rightarrow> type = ''ResolvedRefs'' | None \<Rightarrow> False)"

definition programL4Backends :: "program_l4_params \<Rightarrow> unit lb_op" where
  "programL4Backends params =
     eff_bind (eff_attempt (pl_backends params)) (\<lambda>r. case r of
         Inr backends \<Rightarrow> pl_update params (networkLoadBalancerBackendSetName (pl_listener params)) backends
       | Inl err \<Rightarrow>
           eff_bind (if isResolvedRefsError (pl_kind params) err
             then wrapped (errtext ''failed to clear backend set after '' (pl_kind params) '' backend resolution error: '')
               (pl_clear params) else eff_return ())
             (\<lambda>_. eff_fail err))"

definition programL4Route :: "lb_env \<Rightarrow> program_l4_params \<Rightarrow> unit lb_op" where
  "programL4Route w params =
     (let route = pl_route params; programmed = (pl_finalizer params \<in> set (rt_finalizers route)) in
      eff_bind (l4ListenerAllowsRoute w (pl_listenerNamespace params) (rt_namespace route) (pl_listener params)
          (pl_kind params)) (\<lambda>allowed.
        if \<not> allowed then
          eff_bind (if programmed then wrapped (errtext ''failed to clear backend set after '' (pl_kind params)
              '' attachment was rejected: '') (pl_clear params) else eff_return ()) (\<lambda>_.
            eff_fail (l4AcceptedStatusError (pl_kind params) ''NotAllowedByListeners''
              (errtext ''listener '' (l_name (pl_listener params))
                (l4ObjectText '' does not allow '' (pl_kind params) route []))))
        else eff_bind (pl_ensureOwner params) (\<lambda>_.
          eff_bind (if programmed then pl_clearStale params else eff_return ()) (\<lambda>_.
            programL4Backends params))))"

definition newProgramL4RouteParams ::
    "string \<Rightarrow> l4_route_details \<Rightarrow> string \<Rightarrow> unit lb_op \<Rightarrow> unit lb_op \<Rightarrow> unit lb_op \<Rightarrow> nlb_backend_details list lb_op \<Rightarrow>
      (string \<Rightarrow> nlb_backend_details list \<Rightarrow> unit lb_op) \<Rightarrow> program_l4_params" where
  "newProgramL4RouteParams kind details finalizer clear ensureOwner clearStale backends update =
     \<lparr>pl_kind = kind, pl_route = ld_route details,
      pl_listenerNamespace = effectiveListenerSourceNamespaceForOCIListener (ld_gateway details) (ld_listener details),
      pl_listener = ld_listener details, pl_finalizer = finalizer, pl_clear = clear, pl_ensureOwner = ensureOwner,
      pl_clearStale = clearStale, pl_backends = backends, pl_update = update\<rparr>"

definition l4ProgramRouteParams :: "l4_kind \<Rightarrow> lb_env \<Rightarrow> l4_route_details \<Rightarrow> program_l4_params" where
  "l4ProgramRouteParams k w details = newProgramL4RouteParams (k4_kind k) details (k4_finalizer k)
     (l4ClearBackendSet k w details) (l4EnsureExclusiveListenerOwner k w details) (l4ClearStaleBackendSets k w details)
     (endpointBackendsForRoute w (k4_kind k) (ld_route details)) (l4UpdateBackendSet k w details)"

definition l4ProgramRoute :: "l4_kind \<Rightarrow> lb_env \<Rightarrow> l4_route_details \<Rightarrow> unit lb_op" where
  "l4ProgramRoute k w details = programL4Route w (l4ProgramRouteParams k w details)"

definition l4ParentStatus :: "l4_kind \<Rightarrow> lb_env \<Rightarrow> parent_ref \<Rightarrow> l4_route \<Rightarrow> condition list \<Rightarrow> unit lb_op" where
  "l4ParentStatus k w ref route conditions =
     l4UpdateParentStatus (k4_kind k) mergeL4RouteParentStatus w route ref conditions"

definition l4SetProgrammed :: "l4_kind \<Rightarrow> lb_env \<Rightarrow> l4_route_details \<Rightarrow> unit lb_op" where
  "l4SetProgrammed k w details =
     setL4RouteProgrammed w
       \<lparr>lp_kind = k4_kind k, lp_controllerName = NetworkLoadBalancerControllerClassName, lp_finalizer = k4_finalizer k,
        lp_annotation = k4_backend_sets k, lp_loadBalancerID = rd_loadBalancerID (ld_gateway details),
        lp_desired = desiredL4RouteBackendSetNames k details\<rparr>
       (ld_route details) (l4ParentStatus k w (ld_ref details))"

definition l4SetPending :: "l4_kind \<Rightarrow> lb_env \<Rightarrow> l4_route_details \<Rightarrow> unit lb_op" where
  "l4SetPending k w details = setL4RoutePending (k4_kind k) NetworkLoadBalancerControllerClassName (ld_route details)
     (l4ParentStatus k w (ld_ref details))"

definition l4SetRejected :: "l4_kind \<Rightarrow> lb_env \<Rightarrow> l4_route \<Rightarrow> parent_ref \<Rightarrow> string \<times> string \<times> string \<Rightarrow> unit lb_op" where
  "l4SetRejected k w route ref = (\<lambda>(type, reason, message).
     l4ParentStatus k w ref route [l4Condition route type ''False'' reason message])"

section \<open>Releasing a route\<close>

definition l4Released :: "string \<Rightarrow> string \<Rightarrow> l4_route \<Rightarrow> l4_route" where
  "l4Released finalizer annotation route =
     route\<lparr>rt_finalizers := removeFinalizer finalizer (rt_finalizers route),
       rt_annotations := AList.delete L4RouteProgrammedNetworkLoadBalancerIDAnnotation
         (setAnnotatedBackendSetNames (rt_annotations route) annotation [])\<rparr>"

definition l4StoreReleased :: "lb_env \<Rightarrow> string \<Rightarrow> l4_route \<Rightarrow> string \<Rightarrow> string \<Rightarrow> unit lb_op" where
  "l4StoreReleased w kind route before after =
     eff_bind (k8s_update w (UpdateL4Route kind route)) (\<lambda>r. case r of
         None \<Rightarrow> eff_return ()
       | Some err \<Rightarrow> eff_fail (ErrWrap (l4ObjectText before kind route after) err []))"

record deprovision_l4_params =
  dl_kind :: string
  dl_route :: l4_route
  dl_finalizer :: string
  dl_annotation :: string
  dl_next :: "l4_route_details option lb_op"
  dl_program :: "l4_route_details \<Rightarrow> unit lb_op"
  dl_setProgrammed :: "l4_route_details \<Rightarrow> unit lb_op"
  dl_clear :: "unit lb_op"

definition deprovisionL4Route :: "lb_env \<Rightarrow> deprovision_l4_params \<Rightarrow> unit lb_op" where
  "deprovisionL4Route w params =
     eff_bind (dl_next params) (\<lambda>nextRoute.
     eff_bind (case nextRoute of
         None \<Rightarrow> dl_clear params
       | Some nxt \<Rightarrow>
           eff_bind (wrapped (l4ObjectText ''failed to program next '' (dl_kind params) (ld_route nxt) '': '')
             (dl_program params nxt)) (\<lambda>_.
           wrapped (l4ObjectText ''failed to set next '' (dl_kind params) (ld_route nxt) '' programmed status: '')
             (dl_setProgrammed params nxt))) (\<lambda>_.
     l4StoreReleased w (dl_kind params) (l4Released (dl_finalizer params) (dl_annotation params) (dl_route params))
       ''failed to remove finalizer from '' '': ''))"

definition l4DeprovisionRoute :: "l4_kind \<Rightarrow> lb_env \<Rightarrow> l4_route_details \<Rightarrow> unit lb_op" where
  "l4DeprovisionRoute k w details =
     deprovisionL4Route w
       \<lparr>dl_kind = k4_kind k, dl_route = ld_route details, dl_finalizer = k4_finalizer k, dl_annotation = k4_backend_sets k,
        dl_next = l4NextEligibleRouteForListener k w details, dl_program = l4ProgramRoute k w,
        dl_setProgrammed = l4SetProgrammed k w, dl_clear = l4ClearBackendSet k w details\<rparr>"

text \<open>Routes whose parents are gone: the recorded backend sets are cleared on the load balancer of a
  former parent, or on the recorded one.\<close>

definition l4ClearAll :: "l4_kind \<Rightarrow> lb_env \<Rightarrow> string \<Rightarrow> string list \<Rightarrow> unit lb_op" where
  "l4ClearAll k w loadBalancerID programmedBackendSets =
     eff_bind (eff_ask (env_order w)) (\<lambda>order.
       eff_foreach (\<lambda>backendSetName. l4ClearNamed k w loadBalancerID backendSetName None)
         (map_iter order programmedBackendSets))"

definition l4StoreDetached :: "l4_kind \<Rightarrow> lb_env \<Rightarrow> l4_route \<Rightarrow> unit lb_op" where
  "l4StoreDetached k w route =
     l4StoreReleased w (k4_kind k) (l4Released (k4_finalizer k) (k4_backend_sets k) route)
       ''failed to update detached '' '' after cleanup: ''"

definition l4RemoveDeletingRouteFinalizer :: "l4_kind \<Rightarrow> lb_env \<Rightarrow> l4_route \<Rightarrow> unit lb_op" where
  "l4RemoveDeletingRouteFinalizer k w route =
     l4StoreReleased w (k4_kind k) (l4Released (k4_finalizer k) (k4_backend_sets k) route)
       ''failed to remove finalizer from deleting '' '': ''"

definition l4RemoveDetachedRouteFinalizer :: "l4_kind \<Rightarrow> lb_env \<Rightarrow> l4_route \<Rightarrow> unit lb_op" where
  "l4RemoveDetachedRouteFinalizer k w route =
     l4StoreReleased w (k4_kind k) (route\<lparr>rt_finalizers := removeFinalizer (k4_finalizer k) (rt_finalizers route),
         rt_annotations := AList.delete L4RouteProgrammedNetworkLoadBalancerIDAnnotation (rt_annotations route)\<rparr>)
       ''failed to remove finalizer from detached '' '': ''"

definition l4CleanupDetachedRouteParent ::
    "l4_kind \<Rightarrow> lb_env \<Rightarrow> l4_route \<Rightarrow> route_parent_status \<Rightarrow> string list \<Rightarrow> bool lb_op" where
  "l4CleanupDetachedRouteParent k w route parentStatus programmedBackendSets =
     eff_bind (resolveDetachedL4RouteGateway w (parentRefTargetName (rps_ref parentStatus) (rt_namespace route)) (k4_kind k))
       (\<lambda>resolved. case resolved of
          None \<Rightarrow> eff_return False
        | Some gatewayDetails \<Rightarrow>
            eff_bind (l4ClearAll k w (rd_loadBalancerID gatewayDetails) programmedBackendSets) (\<lambda>_.
            eff_bind (l4StoreDetached k w route) (\<lambda>_. eff_return True)))"

definition l4CleanupDetachedRouteByAnnotatedNetworkLoadBalancer ::
    "l4_kind \<Rightarrow> lb_env \<Rightarrow> l4_route \<Rightarrow> string list \<Rightarrow> bool lb_op" where
  "l4CleanupDetachedRouteByAnnotatedNetworkLoadBalancer k w route programmedBackendSets =
     (let nlbID = map_get (rt_annotations route) L4RouteProgrammedNetworkLoadBalancerIDAnnotation in
      if nlbID = [] then eff_return False
      else eff_bind (l4ClearAll k w nlbID programmedBackendSets) (\<lambda>_.
           eff_bind (l4StoreDetached k w route) (\<lambda>_. eff_return True)))"

fun l4CleanupDetachedParents ::
    "l4_kind \<Rightarrow> lb_env \<Rightarrow> l4_route \<Rightarrow> string list \<Rightarrow> route_parent_status list \<Rightarrow> bool lb_op" where
  "l4CleanupDetachedParents k w route programmedBackendSets [] = eff_return False"
| "l4CleanupDetachedParents k w route programmedBackendSets (parentStatus # rest) =
     (if rps_controller parentStatus \<noteq> NetworkLoadBalancerControllerClassName
      then l4CleanupDetachedParents k w route programmedBackendSets rest
      else eff_bind (l4CleanupDetachedRouteParent k w route parentStatus programmedBackendSets) (\<lambda>cleaned.
        if cleaned then eff_return True else l4CleanupDetachedParents k w route programmedBackendSets rest))"

definition l4DeprovisionDetachedRoute :: "l4_kind \<Rightarrow> lb_env \<Rightarrow> l4_route \<Rightarrow> unit lb_op" where
  "l4DeprovisionDetachedRoute k w route =
     (let programmedBackendSets = annotatedBackendSetNames (rt_annotations route) (k4_backend_sets k) in
      if programmedBackendSets = [] then l4RemoveDetachedRouteFinalizer k w route
      else eff_bind (l4CleanupDetachedParents k w route programmedBackendSets (rt_parents route)) (\<lambda>cleaned.
        if cleaned then eff_return ()
        else eff_bind (l4CleanupDetachedRouteByAnnotatedNetworkLoadBalancer k w route programmedBackendSets) (\<lambda>cleaned.
          if cleaned then eff_return ()
          else if rt_deleting route then l4RemoveDeletingRouteFinalizer k w route
          else eff_return ())))"

section \<open>Resolving a request\<close>

definition l4ResolveParentRef :: "l4_kind \<Rightarrow> lb_env \<Rightarrow> l4_route \<Rightarrow> parent_ref \<Rightarrow> l4_route_details list option lb_op" where
  "l4ResolveParentRef k w route parentRef =
     eff_bind (resolveL4ParentGatewayForRouteParentRef w (rt_namespace route) parentRef) (\<lambda>resolved.
       eff_return (map_option (\<lambda>gatewayDetails.
         map (\<lambda>listener. \<lparr>ld_gateway = gatewayDetails, ld_route = route, ld_ref = makeTargetOnlyParentRef parentRef,
             ld_listener = listener\<rparr>)
           (effectiveListenersForParentRef gatewayDetails parentRef (rt_namespace route) (k4_matches k))) resolved))"

definition l4RejectNoMatchingListener :: "l4_kind \<Rightarrow> lb_env \<Rightarrow> l4_route \<Rightarrow> parent_ref \<Rightarrow> unit lb_op" where
  "l4RejectNoMatchingListener k w route parentRef =
     eff_bind (resolveL4ParentGatewayForRouteParentRef w (rt_namespace route) parentRef) (\<lambda>resolved. case resolved of
         None \<Rightarrow> eff_return ()
       | Some gatewayDetails \<Rightarrow>
           (let gateway = rd_gateway gatewayDetails in
            l4SetRejected k w route (makeTargetOnlyParentRef parentRef) (''Accepted'', ''NoMatchingParent'',
              errtext ''Gateway '' (namespaced_name (gw_namespace gateway) (gw_name gateway))
                (errtext '' has no '' (k4_protocol k) '' listener matching this parentRef''))))"

text \<open>The generic part, also used for TLSRoutes.\<close>

record 'd resolve_l4_params =
  rl4_kind :: string
  rl4_resolve :: "l4_route \<Rightarrow> parent_ref \<Rightarrow> 'd list option lb_op"
  rl4_reject :: "l4_route \<Rightarrow> parent_ref \<Rightarrow> unit lb_op"
  rl4_finalizer :: string
  rl4_unresolved :: "l4_route \<Rightarrow> unit lb_op"

definition resolveL4RouteParentRef :: "'d resolve_l4_params \<Rightarrow> l4_route \<Rightarrow> parent_ref \<Rightarrow> 'd list lb_op" where
  "resolveL4RouteParentRef params route parentRef =
     (if \<not> parentRefTargetsGateway parentRef \<and> \<not> parentRefTargetsListenerSet parentRef then eff_return []
      else eff_bind (rl4_resolve params route parentRef) (\<lambda>resolved. case resolved of
          None \<Rightarrow> eff_return []
        | Some results \<Rightarrow>
            eff_bind (if results = [] \<and> \<not> rt_deleting route then rl4_reject params route parentRef else eff_return ())
              (\<lambda>_. eff_return results)))"

fun resolveL4ParentRefs :: "'d resolve_l4_params \<Rightarrow> l4_route \<Rightarrow> parent_ref list \<Rightarrow> 'd list lb_op" where
  "resolveL4ParentRefs params route [] = eff_return []"
| "resolveL4ParentRefs params route (parentRef # rest) =
     eff_bind (resolveL4RouteParentRef params route parentRef) (\<lambda>results.
     eff_bind (resolveL4ParentRefs params route rest) (\<lambda>more. eff_return (results @ more)))"

text \<open>The route comes with the result, for the caller that holds it; \<open>None\<close> when it does not exist.\<close>

definition resolveL4RouteRequest ::
    "lb_env \<Rightarrow> 'd resolve_l4_params \<Rightarrow> string \<times> string \<Rightarrow> (l4_route \<times> 'd list) option lb_op" where
  "resolveL4RouteRequest w params = (\<lambda>(ns, name).
     eff_bind (get_l4_route w (rl4_kind params) ns name) (\<lambda>r. case r of
         Inl err \<Rightarrow>
           (if is_not_found err then eff_return None
            else eff_fail (ErrWrap (errtext ''failed to get '' (rl4_kind params)
              (errtext '' '' (namespaced_name ns name) '': '')) err []))
       | Inr route \<Rightarrow>
           eff_bind (resolveL4ParentRefs params route (rt_parent_refs route)) (\<lambda>results.
           eff_bind (if results = [] \<and> rl4_finalizer params \<in> set (rt_finalizers route)
             then rl4_unresolved params route else eff_return ()) (\<lambda>_.
           eff_return (Some (route, results))))))"

definition l4ResolveRequest :: "l4_kind \<Rightarrow> lb_env \<Rightarrow> string \<times> string \<Rightarrow> l4_route_details list lb_op" where
  "l4ResolveRequest k w req =
     eff_bind (resolveL4RouteRequest w
       \<lparr>rl4_kind = k4_kind k, rl4_resolve = l4ResolveParentRef k w, rl4_reject = l4RejectNoMatchingListener k w,
        rl4_finalizer = k4_finalizer k, rl4_unresolved = l4DeprovisionDetachedRoute k w\<rparr> req)
       (\<lambda>r. eff_return (case r of None \<Rightarrow> [] | Some (_, results) \<Rightarrow> results))"

section \<open>The controllers\<close>

text \<open>
  The route of every result is the one that was read; that a rejection changes the parents of
  that route in memory is left out, as the pending status written next sets both conditions.
\<close>

definition handleL4RouteProgramError ::
    "l4_kind \<Rightarrow> lb_env \<Rightarrow> string \<Rightarrow> l4_route_details \<Rightarrow> error \<Rightarrow> unit lb_op" where
  "handleL4RouteProgramError k w reqName details err =
     (case errors_as (route_status_of (k4_kind k)) err of
        Some statusErr \<Rightarrow>
          wrapped (errtext ''failed to set '' (k4_kind k) (errtext '' '' reqName '' rejected status: ''))
            (l4SetRejected k w (ld_route details) (ld_ref details) statusErr)
      | None \<Rightarrow> eff_fail (ErrWrap (errtext ''failed to program '' (k4_kind k) (errtext '' '' reqName '': '')) err []))"

definition reconcileResolvedL4Route :: "l4_kind \<Rightarrow> lb_env \<Rightarrow> string \<Rightarrow> l4_route_details \<Rightarrow> unit lb_op" where
  "reconcileResolvedL4Route k w reqName details =
     (let route = ld_route details; text = (\<lambda>before after. errtext before (k4_kind k) (errtext '' '' reqName after)) in
      if rt_deleting route then
        (if k4_finalizer k \<notin> set (rt_finalizers route) then eff_return ()
         else wrapped (text ''failed to deprovision '' '': '') (l4DeprovisionRoute k w details))
      else eff_bind (wrapped (text ''failed to set '' '' pending status: '') (l4SetPending k w details)) (\<lambda>_.
        eff_bind (eff_attempt (l4ProgramRoute k w details)) (\<lambda>r. case r of
            Inl err \<Rightarrow> handleL4RouteProgramError k w reqName details err
          | Inr _ \<Rightarrow> wrapped (text ''failed to set '' '' programmed status: '') (l4SetProgrammed k w details))))"

text \<open>The loop over the results; a busy load balancer ends it with a request to come back.\<close>

fun reconcileL4Routes ::
    "('d \<Rightarrow> unit lb_op) \<Rightarrow> lb_env \<Rightarrow> int \<Rightarrow> 'd list \<Rightarrow> int lb_op" where
  "reconcileL4Routes reconcileOne w driftInterval [] = driftRequeue w driftInterval"
| "reconcileL4Routes reconcileOne w driftInterval (details # rest) =
     eff_bind (eff_attempt (reconcileOne details)) (\<lambda>r. case r of
         Inr _ \<Rightarrow> reconcileL4Routes reconcileOne w driftInterval rest
       | Inl err \<Rightarrow>
           (if errors_as busy_of err \<noteq> None then eff_return networkLoadBalancerBusyRequeueAfter else eff_fail err))"

definition reconcileL4Route :: "l4_kind \<Rightarrow> lb_env \<Rightarrow> int \<Rightarrow> string \<times> string \<Rightarrow> int lb_op" where
  "reconcileL4Route k w driftInterval req =
     eff_bind (wrapped (errtext ''failed to resolve '' (k4_kind k) '' parent: '') (l4ResolveRequest k w req))
       (\<lambda>resolvedRoutes.
          if resolvedRoutes = [] then eff_return 0
          else reconcileL4Routes (reconcileResolvedL4Route k w (namespaced_name (fst req) (snd req))) w driftInterval
            resolvedRoutes)"

section \<open>The methods of the two models\<close>

text \<open>The operations above, for each kind.\<close>

definition desiredTCPRouteBackendSetNames :: "l4_route_details \<Rightarrow> string list" where
  "desiredTCPRouteBackendSetNames = desiredL4RouteBackendSetNames tcp_kind"

definition tcpRouteKey :: "l4_route \<Rightarrow> string" where
  "tcpRouteKey = l4RouteKey"

definition tcpRouteBackendRefName :: "backend_ref \<Rightarrow> string \<Rightarrow> string \<times> string" where
  "tcpRouteBackendRefName = l4BackendRefName"

definition tcpRoute_resolveParentGateway ::
    "lb_env \<Rightarrow> string \<Rightarrow> parent_ref \<Rightarrow> resolved_gateway_details option lb_op" where
  "tcpRoute_resolveParentGateway = resolveL4ParentGatewayForRouteParentRef"

definition tcpRoute_resolveParentRef ::
    "lb_env \<Rightarrow> l4_route \<Rightarrow> parent_ref \<Rightarrow> l4_route_details list option lb_op" where
  "tcpRoute_resolveParentRef = l4ResolveParentRef tcp_kind"

definition tcpRoute_rejectNoMatchingListener ::
    "lb_env \<Rightarrow> l4_route \<Rightarrow> parent_ref \<Rightarrow> unit lb_op" where
  "tcpRoute_rejectNoMatchingListener = l4RejectNoMatchingListener tcp_kind"

definition tcpRoute_resolveRequest ::
    "lb_env \<Rightarrow> string \<times> string \<Rightarrow> l4_route_details list lb_op" where
  "tcpRoute_resolveRequest = l4ResolveRequest tcp_kind"

definition tcpRoute_removeDeletingRouteFinalizer :: "lb_env \<Rightarrow> l4_route \<Rightarrow> unit lb_op" where
  "tcpRoute_removeDeletingRouteFinalizer = l4RemoveDeletingRouteFinalizer tcp_kind"

definition tcpRoute_endpointBackendsForBackendRef ::
    "lb_env \<Rightarrow> string \<Rightarrow> backend_ref \<Rightarrow> nlb_backend_details list lb_op" where
  "tcpRoute_endpointBackendsForBackendRef = (\<lambda>w. endpointBackendsForBackendRef w (k4_kind tcp_kind))"

definition tcpRoute_endpointBackendsForRoute ::
    "lb_env \<Rightarrow> l4_route \<Rightarrow> nlb_backend_details list lb_op" where
  "tcpRoute_endpointBackendsForRoute = (\<lambda>w. endpointBackendsForRoute w (k4_kind tcp_kind))"

definition tcpRoute_ensureExclusiveListenerOwner ::
    "lb_env \<Rightarrow> l4_route_details \<Rightarrow> unit lb_op" where
  "tcpRoute_ensureExclusiveListenerOwner = l4EnsureExclusiveListenerOwner tcp_kind"

definition tcpRoute_nextEligibleRouteForListener ::
    "lb_env \<Rightarrow> l4_route_details \<Rightarrow> l4_route_details option lb_op" where
  "tcpRoute_nextEligibleRouteForListener = l4NextEligibleRouteForListener tcp_kind"

definition tcpRoute_matchingRoutesForListener ::
    "lb_env \<Rightarrow> l4_route_details \<Rightarrow> string \<Rightarrow> string \<Rightarrow> l4_listener_match list lb_op" where
  "tcpRoute_matchingRoutesForListener = l4MatchingRoutesForListener tcp_kind"

definition tcpRoute_clearBackendSet :: "lb_env \<Rightarrow> l4_route_details \<Rightarrow> unit lb_op" where
  "tcpRoute_clearBackendSet = l4ClearBackendSet tcp_kind"

definition tcpRoute_clearBackendSetByName ::
    "lb_env \<Rightarrow> string \<Rightarrow> string \<Rightarrow> nlb_health_checker option \<Rightarrow> unit lb_op" where
  "tcpRoute_clearBackendSetByName = l4ClearNamed tcp_kind"

definition tcpRoute_clearStaleBackendSets :: "lb_env \<Rightarrow> l4_route_details \<Rightarrow> unit lb_op" where
  "tcpRoute_clearStaleBackendSets = l4ClearStaleBackendSets tcp_kind"

definition tcpRoute_programRouteParams ::
    "lb_env \<Rightarrow> l4_route_details \<Rightarrow> program_l4_params" where
  "tcpRoute_programRouteParams = l4ProgramRouteParams tcp_kind"

definition tcpRoute_programRoute :: "lb_env \<Rightarrow> l4_route_details \<Rightarrow> unit lb_op" where
  "tcpRoute_programRoute = l4ProgramRoute tcp_kind"

definition tcpRoute_updateBackendSet ::
    "lb_env \<Rightarrow> l4_route_details \<Rightarrow> string \<Rightarrow> nlb_backend_details list \<Rightarrow> unit lb_op" where
  "tcpRoute_updateBackendSet = l4UpdateBackendSet tcp_kind"

definition tcpRoute_deprovisionRoute :: "lb_env \<Rightarrow> l4_route_details \<Rightarrow> unit lb_op" where
  "tcpRoute_deprovisionRoute = l4DeprovisionRoute tcp_kind"

definition tcpRoute_deprovisionDetachedRoute :: "lb_env \<Rightarrow> l4_route \<Rightarrow> unit lb_op" where
  "tcpRoute_deprovisionDetachedRoute = l4DeprovisionDetachedRoute tcp_kind"

definition tcpRoute_cleanupDetachedRouteParent ::
    "lb_env \<Rightarrow> l4_route \<Rightarrow> route_parent_status \<Rightarrow> string list \<Rightarrow> bool lb_op" where
  "tcpRoute_cleanupDetachedRouteParent = l4CleanupDetachedRouteParent tcp_kind"

definition tcpRoute_cleanupDetachedByAnnotation ::
    "lb_env \<Rightarrow> l4_route \<Rightarrow> string list \<Rightarrow> bool lb_op" where
  "tcpRoute_cleanupDetachedByAnnotation = l4CleanupDetachedRouteByAnnotatedNetworkLoadBalancer tcp_kind"

definition tcpRoute_removeDetachedRouteFinalizer :: "lb_env \<Rightarrow> l4_route \<Rightarrow> unit lb_op" where
  "tcpRoute_removeDetachedRouteFinalizer = l4RemoveDetachedRouteFinalizer tcp_kind"

definition tcpRoute_updateParentStatus ::
    "lb_env \<Rightarrow> l4_route \<Rightarrow> parent_ref \<Rightarrow> condition list \<Rightarrow> unit lb_op" where
  "tcpRoute_updateParentStatus = l4UpdateParentStatus (k4_kind tcp_kind) mergeL4RouteParentStatus"

definition tcpRoute_statusAfterConflict ::
    "lb_env \<Rightarrow> l4_route \<Rightarrow> parent_ref \<Rightarrow> condition list \<Rightarrow> unit lb_op" where
  "tcpRoute_statusAfterConflict = l4StatusAfterConflict (k4_kind tcp_kind) mergeL4RouteParentStatus"

definition tcpRoute_setProgrammed :: "lb_env \<Rightarrow> l4_route_details \<Rightarrow> unit lb_op" where
  "tcpRoute_setProgrammed = l4SetProgrammed tcp_kind"

definition tcpRoute_setPending :: "lb_env \<Rightarrow> l4_route_details \<Rightarrow> unit lb_op" where
  "tcpRoute_setPending = l4SetPending tcp_kind"

definition tcpRoute_setRejected ::
    "lb_env \<Rightarrow> l4_route \<Rightarrow> parent_ref \<Rightarrow> string \<times> string \<times> string \<Rightarrow> unit lb_op" where
  "tcpRoute_setRejected = l4SetRejected tcp_kind"

definition TCPRouteController_Reconcile ::
    "lb_env \<Rightarrow> int \<Rightarrow> string \<times> string \<Rightarrow> int lb_op" where
  "TCPRouteController_Reconcile = reconcileL4Route tcp_kind"

definition desiredUDPRouteBackendSetNames :: "l4_route_details \<Rightarrow> string list" where
  "desiredUDPRouteBackendSetNames = desiredL4RouteBackendSetNames udp_kind"

definition udpRouteKey :: "l4_route \<Rightarrow> string" where
  "udpRouteKey = l4RouteKey"

definition udpRouteBackendRefName :: "backend_ref \<Rightarrow> string \<Rightarrow> string \<times> string" where
  "udpRouteBackendRefName = l4BackendRefName"

definition udpRoute_resolveParentGateway ::
    "lb_env \<Rightarrow> string \<Rightarrow> parent_ref \<Rightarrow> resolved_gateway_details option lb_op" where
  "udpRoute_resolveParentGateway = resolveL4ParentGatewayForRouteParentRef"

definition udpRoute_resolveParentRef ::
    "lb_env \<Rightarrow> l4_route \<Rightarrow> parent_ref \<Rightarrow> l4_route_details list option lb_op" where
  "udpRoute_resolveParentRef = l4ResolveParentRef udp_kind"

definition udpRoute_rejectNoMatchingListener ::
    "lb_env \<Rightarrow> l4_route \<Rightarrow> parent_ref \<Rightarrow> unit lb_op" where
  "udpRoute_rejectNoMatchingListener = l4RejectNoMatchingListener udp_kind"

definition udpRoute_resolveRequest ::
    "lb_env \<Rightarrow> string \<times> string \<Rightarrow> l4_route_details list lb_op" where
  "udpRoute_resolveRequest = l4ResolveRequest udp_kind"

definition udpRoute_removeDeletingRouteFinalizer :: "lb_env \<Rightarrow> l4_route \<Rightarrow> unit lb_op" where
  "udpRoute_removeDeletingRouteFinalizer = l4RemoveDeletingRouteFinalizer udp_kind"

definition udpRoute_endpointBackendsForBackendRef ::
    "lb_env \<Rightarrow> string \<Rightarrow> backend_ref \<Rightarrow> nlb_backend_details list lb_op" where
  "udpRoute_endpointBackendsForBackendRef = (\<lambda>w. endpointBackendsForBackendRef w (k4_kind udp_kind))"

definition udpRoute_endpointBackendsForRoute ::
    "lb_env \<Rightarrow> l4_route \<Rightarrow> nlb_backend_details list lb_op" where
  "udpRoute_endpointBackendsForRoute = (\<lambda>w. endpointBackendsForRoute w (k4_kind udp_kind))"

definition udpRoute_ensureExclusiveListenerOwner ::
    "lb_env \<Rightarrow> l4_route_details \<Rightarrow> unit lb_op" where
  "udpRoute_ensureExclusiveListenerOwner = l4EnsureExclusiveListenerOwner udp_kind"

definition udpRoute_nextEligibleRouteForListener ::
    "lb_env \<Rightarrow> l4_route_details \<Rightarrow> l4_route_details option lb_op" where
  "udpRoute_nextEligibleRouteForListener = l4NextEligibleRouteForListener udp_kind"

definition udpRoute_matchingRoutesForListener ::
    "lb_env \<Rightarrow> l4_route_details \<Rightarrow> string \<Rightarrow> string \<Rightarrow> l4_listener_match list lb_op" where
  "udpRoute_matchingRoutesForListener = l4MatchingRoutesForListener udp_kind"

definition udpRoute_clearBackendSet :: "lb_env \<Rightarrow> l4_route_details \<Rightarrow> unit lb_op" where
  "udpRoute_clearBackendSet = l4ClearBackendSet udp_kind"

definition udpRoute_clearBackendSetByName ::
    "lb_env \<Rightarrow> string \<Rightarrow> string \<Rightarrow> nlb_health_checker option \<Rightarrow> unit lb_op" where
  "udpRoute_clearBackendSetByName = l4ClearNamed udp_kind"

definition udpRoute_clearStaleBackendSets :: "lb_env \<Rightarrow> l4_route_details \<Rightarrow> unit lb_op" where
  "udpRoute_clearStaleBackendSets = l4ClearStaleBackendSets udp_kind"

definition udpRoute_programRouteParams ::
    "lb_env \<Rightarrow> l4_route_details \<Rightarrow> program_l4_params" where
  "udpRoute_programRouteParams = l4ProgramRouteParams udp_kind"

definition udpRoute_programRoute :: "lb_env \<Rightarrow> l4_route_details \<Rightarrow> unit lb_op" where
  "udpRoute_programRoute = l4ProgramRoute udp_kind"

definition udpRoute_updateBackendSet ::
    "lb_env \<Rightarrow> l4_route_details \<Rightarrow> string \<Rightarrow> nlb_backend_details list \<Rightarrow> unit lb_op" where
  "udpRoute_updateBackendSet = l4UpdateBackendSet udp_kind"

definition udpRoute_deprovisionRoute :: "lb_env \<Rightarrow> l4_route_details \<Rightarrow> unit lb_op" where
  "udpRoute_deprovisionRoute = l4DeprovisionRoute udp_kind"

definition udpRoute_deprovisionDetachedRoute :: "lb_env \<Rightarrow> l4_route \<Rightarrow> unit lb_op" where
  "udpRoute_deprovisionDetachedRoute = l4DeprovisionDetachedRoute udp_kind"

definition udpRoute_cleanupDetachedRouteParent ::
    "lb_env \<Rightarrow> l4_route \<Rightarrow> route_parent_status \<Rightarrow> string list \<Rightarrow> bool lb_op" where
  "udpRoute_cleanupDetachedRouteParent = l4CleanupDetachedRouteParent udp_kind"

definition udpRoute_cleanupDetachedByAnnotation ::
    "lb_env \<Rightarrow> l4_route \<Rightarrow> string list \<Rightarrow> bool lb_op" where
  "udpRoute_cleanupDetachedByAnnotation = l4CleanupDetachedRouteByAnnotatedNetworkLoadBalancer udp_kind"

definition udpRoute_removeDetachedRouteFinalizer :: "lb_env \<Rightarrow> l4_route \<Rightarrow> unit lb_op" where
  "udpRoute_removeDetachedRouteFinalizer = l4RemoveDetachedRouteFinalizer udp_kind"

definition udpRoute_updateParentStatus ::
    "lb_env \<Rightarrow> l4_route \<Rightarrow> parent_ref \<Rightarrow> condition list \<Rightarrow> unit lb_op" where
  "udpRoute_updateParentStatus = l4UpdateParentStatus (k4_kind udp_kind) mergeL4RouteParentStatus"

definition udpRoute_statusAfterConflict ::
    "lb_env \<Rightarrow> l4_route \<Rightarrow> parent_ref \<Rightarrow> condition list \<Rightarrow> unit lb_op" where
  "udpRoute_statusAfterConflict = l4StatusAfterConflict (k4_kind udp_kind) mergeL4RouteParentStatus"

definition udpRoute_setProgrammed :: "lb_env \<Rightarrow> l4_route_details \<Rightarrow> unit lb_op" where
  "udpRoute_setProgrammed = l4SetProgrammed udp_kind"

definition udpRoute_setPending :: "lb_env \<Rightarrow> l4_route_details \<Rightarrow> unit lb_op" where
  "udpRoute_setPending = l4SetPending udp_kind"

definition udpRoute_setRejected ::
    "lb_env \<Rightarrow> l4_route \<Rightarrow> parent_ref \<Rightarrow> string \<times> string \<times> string \<Rightarrow> unit lb_op" where
  "udpRoute_setRejected = l4SetRejected udp_kind"

definition UDPRouteController_Reconcile ::
    "lb_env \<Rightarrow> int \<Rightarrow> string \<times> string \<Rightarrow> int lb_op" where
  "UDPRouteController_Reconcile = reconcileL4Route udp_kind"

end
