(* ===== verification/TlsRoutes.thy ===== *)
theory TlsRoutes
  imports L4Routes
begin

text \<open>
  TLSRoutes (\<open>tlsroute_model.go\<close>, \<open>tlsroute_controller.go\<close>): TLS passed through by a Network Load
  Balancer, or terminated by a Load Balancer with a listener and a backend set of the route's own;
  moving from one to the other; detached routes. A model of backend TLS policies is a parameter.
  The theorems are in \<open>L4Safety\<close>.
\<close>

section \<open>Names\<close>

definition tlsRouteBackendSetPolicy :: string where
  "tlsRouteBackendSetPolicy = ''ROUND_ROBIN''"

definition tlsRouteLoadBalancerProtocol :: string where
  "tlsRouteLoadBalancerProtocol = ''TCP''"

definition tlsRouteLoadBalancerResourceSeparator :: string where
  "tlsRouteLoadBalancerResourceSeparator = ''/''"

definition NetworkLoadBalancerTLSRouteProgrammedFinalizer :: string where
  "NetworkLoadBalancerTLSRouteProgrammedFinalizer = ''oke-gateway-api.gemyago.github.io/nlb-tlsroute-programmed''"

definition NetworkLoadBalancerTLSRouteProgrammedBackendSetsAnnotation :: string where
  "NetworkLoadBalancerTLSRouteProgrammedBackendSetsAnnotation =
     ''oke-gateway-api.gemyago.github.io/nlb-tlsroute-backendsets''"

definition LoadBalancerTLSRouteProgrammedFinalizer :: string where
  "LoadBalancerTLSRouteProgrammedFinalizer = ''oke-gateway-api.gemyago.github.io/alb-tlsroute-programmed''"

definition LoadBalancerTLSRouteProgrammedBackendSetAnnotation :: string where
  "LoadBalancerTLSRouteProgrammedBackendSetAnnotation =
     ''oke-gateway-api.gemyago.github.io/alb-tlsroute-backendset''"

definition LoadBalancerTLSRouteProgrammedResourcesAnnotation :: string where
  "LoadBalancerTLSRouteProgrammedResourcesAnnotation =
     ''oke-gateway-api.gemyago.github.io/alb-tlsroute-resources''"

definition newTLSRouteAcceptedStatusError :: "string \<Rightarrow> string \<Rightarrow> error" where
  "newTLSRouteAcceptedStatusError = l4AcceptedStatusError ''TLSRoute''"

definition newTLSRouteResolvedRefsStatusError :: "string \<Rightarrow> string \<Rightarrow> error" where
  "newTLSRouteResolvedRefsStatusError = l4ResolvedRefsStatusError ''TLSRoute''"

definition tlsController :: "l4_route_details \<Rightarrow> string" where
  "tlsController details = gc_controller (rd_gatewayClass (ld_gateway details))"

definition tlsRouteFinalizerForDetails :: "l4_route_details \<Rightarrow> string" where
  "tlsRouteFinalizerForDetails details =
     (if tlsController details = ControllerClassName then LoadBalancerTLSRouteProgrammedFinalizer
      else NetworkLoadBalancerTLSRouteProgrammedFinalizer)"

definition tlsRouteMode :: "gw_listener \<Rightarrow> string option" where
  "tlsRouteMode listener = (case l_tls listener of None \<Rightarrow> None | Some tls \<Rightarrow> tls_mode tls)"

definition tlsRouteBackendSetName :: "l4_route \<Rightarrow> gw_listener \<Rightarrow> string" where
  "tlsRouteBackendSetName route listener =
     ociBackendSetNameFromService (rt_namespace route) (rt_name route @ ''-'' @ l_name listener)"

text \<open>Listener and backend set pairs recorded on a route.\<close>

definition parseTLSRouteResource :: "string go_map \<Rightarrow> string \<Rightarrow> string go_map" where
  "parseTLSRouteResource result resource =
     (let r = trim_space resource in
      if r = [] then result
      else case str_cut r tlsRouteLoadBalancerResourceSeparator of
          None \<Rightarrow> result
        | Some (l, b) \<Rightarrow>
            (let listenerName = trim_space l; backendSetName = trim_space b in
             if listenerName \<noteq> [] \<and> backendSetName \<noteq> [] then AList.update listenerName backendSetName result else result))"

definition annotatedLoadBalancerTLSRouteResources :: "l4_route \<Rightarrow> string go_map" where
  "annotatedLoadBalancerTLSRouteResources route =
     foldl parseTLSRouteResource []
       (str_split (CHR '','') (map_get (rt_annotations route) LoadBalancerTLSRouteProgrammedResourcesAnnotation))"

definition setAnnotatedLoadBalancerTLSRouteResources :: "string go_map \<Rightarrow> string go_map \<Rightarrow> string go_map" where
  "setAnnotatedLoadBalancerTLSRouteResources annotations resources =
     (if resources = [] then AList.delete LoadBalancerTLSRouteProgrammedResourcesAnnotation annotations
      else AList.update LoadBalancerTLSRouteProgrammedResourcesAnnotation
        (str_join '','' (map (\<lambda>name. name @ tlsRouteLoadBalancerResourceSeparator @ map_get resources name)
          (sort_strings (map fst resources)))) annotations)"

section \<open>Status\<close>

text \<open>Every parent that matches is updated here, not only the first.\<close>

definition mergeTLSRouteParentStatus ::
    "string \<Rightarrow> route_parent_status list \<Rightarrow> parent_ref \<Rightarrow> condition list \<Rightarrow> route_parent_status list" where
  "mergeTLSRouteParentStatus controllerName parents parentRef conditions =
     (if list_ex (l4ParentMatches controllerName parentRef) parents
      then map (\<lambda>status. if l4ParentMatches controllerName parentRef status
        then updatedParent controllerName parentRef conditions status else status) parents
      else parents @ [\<lparr>rps_ref = parentRef, rps_controller = controllerName, rps_conditions = conditions\<rparr>])"

definition tls_statusAfterConflict ::
    "lb_env \<Rightarrow> resolved_gateway_details \<Rightarrow> l4_route \<Rightarrow> parent_ref \<Rightarrow> condition list \<Rightarrow> unit lb_op" where
  "tls_statusAfterConflict w gatewayDetails =
     l4StatusAfterConflict ''TLSRoute'' (mergeTLSRouteParentStatus (gc_controller (rd_gatewayClass gatewayDetails))) w"

definition tls_updateParentStatus ::
    "lb_env \<Rightarrow> resolved_gateway_details \<Rightarrow> parent_ref \<Rightarrow> l4_route \<Rightarrow> condition list \<Rightarrow> unit lb_op" where
  "tls_updateParentStatus w gatewayDetails ref route conditions =
     l4UpdateParentStatus ''TLSRoute'' (mergeTLSRouteParentStatus (gc_controller (rd_gatewayClass gatewayDetails))) w
       route ref conditions"

definition tls_setRejected ::
    "lb_env \<Rightarrow> resolved_gateway_details \<Rightarrow> l4_route \<Rightarrow> parent_ref \<Rightarrow> string \<times> string \<times> string \<Rightarrow> unit lb_op" where
  "tls_setRejected w gatewayDetails route ref = (\<lambda>(type, reason, message).
     tls_updateParentStatus w gatewayDetails ref route [l4Condition route type ''False'' reason message])"

definition tls_setPending :: "lb_env \<Rightarrow> l4_route_details \<Rightarrow> unit lb_op" where
  "tls_setPending w details = setL4RoutePending ''TLSRoute'' (tlsController details) (ld_route details)
     (tls_updateParentStatus w (ld_gateway details) (ld_ref details))"

text \<open>The route before the finalizer and the backend set are recorded: what the other load balancer
  needed is dropped.\<close>

definition tlsRouteMoved :: "l4_route_details \<Rightarrow> l4_route" where
  "tlsRouteMoved details =
     (let route = ld_route details in
      if tlsController details = ControllerClassName then
        route\<lparr>rt_finalizers := removeFinalizer NetworkLoadBalancerTLSRouteProgrammedFinalizer (rt_finalizers route),
          rt_annotations := AList.delete L4RouteProgrammedNetworkLoadBalancerIDAnnotation
            (setAnnotatedBackendSetNames
              (setAnnotatedLoadBalancerTLSRouteResources (rt_annotations route)
                [(l_name (ld_listener details), tlsRouteBackendSetName route (ld_listener details))])
              NetworkLoadBalancerTLSRouteProgrammedBackendSetsAnnotation [])\<rparr>
      else
        route\<lparr>rt_finalizers := removeFinalizer LoadBalancerTLSRouteProgrammedFinalizer (rt_finalizers route),
          rt_annotations := setAnnotatedLoadBalancerTLSRouteResources
            (setAnnotatedBackendSetNames (rt_annotations route) LoadBalancerTLSRouteProgrammedBackendSetAnnotation []) []\<rparr>)"

definition tls_setProgrammed :: "lb_env \<Rightarrow> l4_route_details \<Rightarrow> unit lb_op" where
  "tls_setProgrammed w details =
     (let alb = (tlsController details = ControllerClassName) in
      setL4RouteProgrammed w
        \<lparr>lp_kind = ''TLSRoute'', lp_controllerName = tlsController details,
         lp_finalizer = tlsRouteFinalizerForDetails details,
         lp_annotation = (if alb then LoadBalancerTLSRouteProgrammedBackendSetAnnotation
           else NetworkLoadBalancerTLSRouteProgrammedBackendSetsAnnotation),
         lp_loadBalancerID = (if tlsController details = NetworkLoadBalancerControllerClassName
           then rd_loadBalancerID (ld_gateway details) else []),
         lp_desired = [if alb then tlsRouteBackendSetName (ld_route details) (ld_listener details)
           else networkLoadBalancerBackendSetName (ld_listener details)]\<rparr>
        (tlsRouteMoved details) (tls_updateParentStatus w (ld_gateway details) (ld_ref details)))"

section \<open>Parent Gateways\<close>

definition tls_parentGatewayName :: "lb_env \<Rightarrow> string \<Rightarrow> parent_ref \<Rightarrow> (string \<times> string) option lb_op" where
  "tls_parentGatewayName w routeNamespace parentRef =
     (if parentRefTargetsListenerSet parentRef then listenerSetParentGatewayTarget w routeNamespace parentRef
      else if \<not> parentRefTargetsGateway parentRef then eff_return None
      else eff_return (Some (parentRefTargetName parentRef routeNamespace)))"

definition tls_resolveNamedGateway ::
    "lb_env \<Rightarrow> bool \<Rightarrow> string \<times> string \<Rightarrow> resolved_gateway_details option lb_op" where
  "tls_resolveNamedGateway w listenerSets = (\<lambda>(ns, name).
     eff_bind (get_gateway w ns name) (\<lambda>r. case r of
         Inl err \<Rightarrow>
           (if is_not_found err then eff_return None
            else eff_fail (ErrWrap (errtext ''failed to get Gateway '' (namespaced_name ns name) '': '') err []))
       | Inr gateway \<Rightarrow>
           eff_bind (get_gateway_class w (gw_class_name gateway)) (\<lambda>r. case r of
               Inl err \<Rightarrow>
                 (if is_not_found err then eff_return None
                  else eff_fail (ErrWrap (errtext ''failed to get GatewayClass '' (gw_class_name gateway) '': '') err []))
             | Inr class \<Rightarrow>
                 (if \<not> isSupportedControllerClassName (gc_controller class) then eff_return None
                  else case gw_parameters gateway of
                      None \<Rightarrow> eff_return None
                    | Some configName \<Rightarrow>
                        eff_bind (get_gateway_config w (gw_namespace gateway) configName) (\<lambda>r. case r of
                            Inl err \<Rightarrow>
                              (if is_not_found err then eff_return None
                               else eff_fail (ErrWrap (errtext ''failed to get GatewayConfig for Gateway ''
                                 (namespaced_name ns name) '': '') err []))
                          | Inr loadBalancerID \<Rightarrow>
                              (let details = resolvedGateway gateway class loadBalancerID in
                               if listenerSets then
                                 eff_bind (populateAttachedListenerSetsUnindexed w details) (\<lambda>d. eff_return (Some d))
                               else eff_return (Some details)))))))"

definition tls_resolveParentGateway :: "lb_env \<Rightarrow> string \<Rightarrow> parent_ref \<Rightarrow> resolved_gateway_details option lb_op" where
  "tls_resolveParentGateway w routeNamespace parentRef =
     eff_bind (tls_parentGatewayName w routeNamespace parentRef) (\<lambda>target. case target of
         None \<Rightarrow> eff_return None
       | Some gatewayName \<Rightarrow> tls_resolveNamedGateway w (parentRefTargetsListenerSet parentRef) gatewayName)"

definition tls_resolveParentRef :: "lb_env \<Rightarrow> l4_route \<Rightarrow> parent_ref \<Rightarrow> l4_route_details list option lb_op" where
  "tls_resolveParentRef w route parentRef =
     eff_bind (tls_resolveParentGateway w (rt_namespace route) parentRef) (\<lambda>resolved.
       eff_return (map_option (\<lambda>gatewayDetails.
         map (\<lambda>listener. \<lparr>ld_gateway = gatewayDetails, ld_route = route, ld_ref = makeTargetOnlyParentRef parentRef,
             ld_listener = listener\<rparr>)
           (effectiveListenersForParentRef gatewayDetails parentRef (rt_namespace route) tlsRouteMatchesListener)) resolved))"

definition tls_rejectNoMatchingListener :: "lb_env \<Rightarrow> l4_route \<Rightarrow> parent_ref \<Rightarrow> unit lb_op" where
  "tls_rejectNoMatchingListener w route parentRef =
     eff_bind (tls_resolveParentGateway w (rt_namespace route) parentRef) (\<lambda>resolved. case resolved of
         None \<Rightarrow> eff_return ()
       | Some gatewayDetails \<Rightarrow>
           (let gateway = rd_gateway gatewayDetails in
            tls_setRejected w gatewayDetails route (makeTargetOnlyParentRef parentRef) (''Accepted'', ''NoMatchingParent'',
              errtext ''Gateway '' (namespaced_name (gw_namespace gateway) (gw_name gateway))
                '' has no TLS listener matching this parentRef'')))"

text \<open>The parent of a detached route is always asked for as a Gateway.\<close>

definition gatewayOnlyRef :: "string \<times> string \<Rightarrow> parent_ref" where
  "gatewayOnlyRef = (\<lambda>(ns, name). \<lparr>pr_group = None, pr_kind = None, pr_namespace = Some ns, pr_name = name,
     pr_section = None, pr_port = None\<rparr>)"

definition tls_resolveDetachedLoadBalancerRouteGateway ::
    "lb_env \<Rightarrow> l4_route \<Rightarrow> route_parent_status \<Rightarrow> resolved_gateway_details option lb_op" where
  "tls_resolveDetachedLoadBalancerRouteGateway w route parentStatus =
     eff_bind (tls_resolveParentGateway w (rt_namespace route)
         (gatewayOnlyRef (parentRefTargetName (rps_ref parentStatus) (rt_namespace route)))) (\<lambda>resolved.
       eff_return (case resolved of
         None \<Rightarrow> None
       | Some d \<Rightarrow> if gc_controller (rd_gatewayClass d) \<noteq> ControllerClassName then None else Some d))"

section \<open>Validation and ownership\<close>

definition tls_validateRoute :: "l4_route_details \<Rightarrow> error option" where
  "tls_validateRoute details =
     (case tlsRouteMode (ld_listener details) of
        None \<Rightarrow> Some (newTLSRouteAcceptedStatusError ''UnsupportedValue''
          (errtext ''listener '' (l_name (ld_listener details)) '' must specify tls.mode''))
      | Some mode \<Rightarrow>
          (if tlsController details = ControllerClassName then
             (if mode \<noteq> ''Terminate'' then Some (newTLSRouteAcceptedStatusError ''UnsupportedValue''
                ''OCI Load Balancer TLSRoute supports only Terminate mode'') else None)
           else if tlsController details = NetworkLoadBalancerControllerClassName then
             (if mode \<noteq> ''Passthrough'' then Some (newTLSRouteAcceptedStatusError ''UnsupportedValue''
                ''OCI Network Load Balancer TLSRoute supports only Passthrough mode'') else None)
           else Some (newTLSRouteAcceptedStatusError ''InvalidKind'' ''unsupported GatewayClass controller'')))"

definition tls_matchingRoutesForListener ::
    "lb_env \<Rightarrow> l4_route_details \<Rightarrow> string \<Rightarrow> l4_listener_match list lb_op" where
  "tls_matchingRoutesForListener w details excludeRouteKey =
     listMatchingL4RoutesForListener w ''TLSRoute'' ''failed to list TLSRoutes for listener ownership check'' details
       excludeRouteKey tlsRouteMatchesListener"

definition tls_ensureExclusiveListenerOwner :: "lb_env \<Rightarrow> l4_route_details \<Rightarrow> unit lb_op" where
  "tls_ensureExclusiveListenerOwner w details =
     eff_bind (tls_matchingRoutesForListener w details []) (\<lambda>matches.
       ensureExclusiveL4ListenerOwner matches (l4RouteKey (ld_route details)) (ld_listener details) ''TLSRoute''
         newTLSRouteAcceptedStatusError)"

definition tls_nextEligibleRouteForListener :: "lb_env \<Rightarrow> l4_route_details \<Rightarrow> l4_route_details option lb_op" where
  "tls_nextEligibleRouteForListener w details =
     eff_bind (tls_matchingRoutesForListener w details (l4RouteKey (ld_route details))) (\<lambda>matches.
       eff_return (nextOwner details matches))"

definition tls_endpointBackendsForRoute :: "lb_env \<Rightarrow> l4_route \<Rightarrow> nlb_backend_details list lb_op" where
  "tls_endpointBackendsForRoute w = endpointBackendsForRoute w ''TLSRoute''"

definition tls_resolveBackendRefServicePort ::
    "lb_env \<Rightarrow> l4_route \<Rightarrow> backend_ref \<Rightarrow> ((string \<times> string) \<times> service_port) lb_op" where
  "tls_resolveBackendRefServicePort w route backendRef =
     resolveL4BackendRefServicePort w ''TLSRoute'' (rt_namespace route) backendRef
       (l4BackendRefName backendRef (rt_namespace route)) newTLSRouteResolvedRefsStatusError"

definition tlsRouteFirstWeightedBackendRef :: "l4_route \<Rightarrow> backend_ref option" where
  "tlsRouteFirstWeightedBackendRef route =
     find (\<lambda>ref. l4BackendRefWeight ref \<noteq> 0) (concat (map rr_backend_refs (rt_rules route)))"

fun firstSlicePort :: "service_port \<Rightarrow> endpoint_slice list \<Rightarrow> int" where
  "firstSlicePort servicePort [] = sp_port servicePort"
| "firstSlicePort servicePort (s # rest) =
     (case endpointPortForServicePort servicePort s of Some port \<Rightarrow> port | None \<Rightarrow> firstSlicePort servicePort rest)"

definition tls_backendRefHealthCheckPort :: "lb_env \<Rightarrow> l4_route \<Rightarrow> backend_ref \<Rightarrow> int lb_op" where
  "tls_backendRefHealthCheckPort w route backendRef =
     eff_bind (tls_resolveBackendRefServicePort w route backendRef) (\<lambda>((ns, name), servicePort).
       if \<not> tp_is_string (sp_target_port servicePort) \<or> tp_int_val (sp_target_port servicePort) \<noteq> 0 then
         eff_return (let port = tp_int_value (sp_target_port servicePort) in if port = 0 then sp_port servicePort else port)
       else eff_bind (list_endpoint_slices w ns (br_name backendRef)) (\<lambda>r. case r of
           Inl err \<Rightarrow> eff_fail (ErrWrap (errtext ''failed to list endpoint slices for backend ''
             (namespaced_name ns name) '': '') err [])
         | Inr slices \<Rightarrow> eff_return (firstSlicePort servicePort slices)))"

definition tls_routeHealthCheckPort :: "lb_env \<Rightarrow> l4_route \<Rightarrow> int lb_op" where
  "tls_routeHealthCheckPort w route =
     (case tlsRouteFirstWeightedBackendRef route of
        None \<Rightarrow> eff_fail (newTLSRouteResolvedRefsStatusError ''InvalidKind''
          (errtext ''TLSRoute '' (l4RouteKey route) '' has no backendRefs''))
      | Some backendRef \<Rightarrow> tls_backendRefHealthCheckPort w route backendRef)"

section \<open>Passthrough on a Network Load Balancer\<close>

definition tls_updateNLBBackendSet ::
    "lb_env \<Rightarrow> l4_route_details \<Rightarrow> string \<Rightarrow> nlb_backend_details list \<Rightarrow> unit lb_op" where
  "tls_updateNLBBackendSet w details backendSetName backends =
     eff_bind (tls_routeHealthCheckPort w (ld_route details)) (\<lambda>healthCheckPort.
       (let healthChecker = networkLoadBalancerHealthCheckerDetails (Some healthCheckPort) in
        eff_bind (ensureNetworkLoadBalancer w (rd_loadBalancerID (ld_gateway details))) (\<lambda>nlb.
          case networkLoadBalancerBusyErrorFromState (Some nlb) of
            Some busy \<Rightarrow> eff_fail busy
          | None \<Rightarrow>
              (let upToDate = (case map_of (from_ptr [] (nl_backend_sets nlb)) backendSetName of
                     None \<Rightarrow> False
                   | Some current \<Rightarrow> tcpBackendsEqual (nbs_backends current) backends \<and>
                       networkLoadBalancerHealthCheckerMatches (nbs_health_checker current) healthChecker \<and>
                       nbs_preserve_source current = Some False)
               in if upToDate then eff_return ()
                  else updateNetworkLoadBalancerBackendSet w nlb backendSetName ''update''
                    (l4BackendSetUpdate healthChecker backends)))))"

definition tls_clearNLBBackendSet :: "lb_env \<Rightarrow> l4_route_details \<Rightarrow> unit lb_op" where
  "tls_clearNLBBackendSet w details =
     tcpRoute_clearBackendSetByName w (rd_loadBalancerID (ld_gateway details))
       (networkLoadBalancerBackendSetName (ld_listener details))
       (Some (networkLoadBalancerHealthCheckerDetails (Some (l_port (ld_listener details)))))"

definition tls_programNetworkLoadBalancerPassthroughRoute :: "lb_env \<Rightarrow> l4_route_details \<Rightarrow> unit lb_op" where
  "tls_programNetworkLoadBalancerPassthroughRoute w details =
     programL4Route w (newProgramL4RouteParams ''TLSRoute'' details NetworkLoadBalancerTLSRouteProgrammedFinalizer
       (tls_clearNLBBackendSet w details) (eff_return ()) (eff_return ())
       (tls_endpointBackendsForRoute w (ld_route details)) (tls_updateNLBBackendSet w details))"

section \<open>Termination on a Load Balancer\<close>

definition tls_loadBalancerBackendsForRoute :: "lb_env \<Rightarrow> l4_route \<Rightarrow> backend_details list lb_op" where
  "tls_loadBalancerBackendsForRoute w route =
     eff_bind (tls_endpointBackendsForRoute w route) (\<lambda>nlbBackends.
       eff_return (map (\<lambda>backend. \<lparr>bd_ip = nd_ip backend, bd_port = nd_port backend, bd_weight = nd_weight backend,
         bd_max_connections = None, bd_backup = None, bd_drain = nd_drain backend, bd_offline = None\<rparr>) nlbBackends))"

definition tls_loadBalancerBackendTLSConfigForRef ::
    "lb_env \<Rightarrow> (resolved_gateway_details \<Rightarrow> k8s_service \<Rightarrow> backend_ref \<Rightarrow> ssl_details option lb_op) \<Rightarrow>
      l4_route_details \<Rightarrow> backend_ref \<Rightarrow> ssl_details option lb_op" where
  "tls_loadBalancerBackendTLSConfigForRef w resolve details backendRef =
     (case l4BackendRefName backendRef (rt_namespace (ld_route details)) of (ns, name) \<Rightarrow>
        eff_bind (get_service w ns name) (\<lambda>r. case r of
            Inl err \<Rightarrow> eff_fail (ErrWrap (errtext ''failed to get TLSRoute backend Service '' (namespaced_name ns name) '': '')
              err [])
          | Inr service \<Rightarrow>
              eff_bind (eff_attempt (resolve (ld_gateway details) service backendRef)) (\<lambda>r. case r of
                  Inr ssl \<Rightarrow> eff_return ssl
                | Inl err \<Rightarrow> eff_fail (if errors_is err ErrBackendTLSPolicyNotFound then ErrBackendTLSPolicyNotFound
                    else err))))"

text \<open>The configuration all backends agree on; \<open>resolved\<close> is that of the backends before.\<close>

fun tlsConfigLoop ::
    "lb_env \<Rightarrow> (resolved_gateway_details \<Rightarrow> k8s_service \<Rightarrow> backend_ref \<Rightarrow> ssl_details option lb_op) \<Rightarrow>
      l4_route_details \<Rightarrow> ssl_details option option \<Rightarrow> backend_ref list \<Rightarrow> ssl_details option lb_op" where
  "tlsConfigLoop w resolve details resolved [] = eff_return (case resolved of Some ssl \<Rightarrow> ssl | None \<Rightarrow> None)"
| "tlsConfigLoop w resolve details resolved (backendRef # rest) =
     (if l4BackendRefWeight backendRef = 0 then tlsConfigLoop w resolve details resolved rest
      else eff_bind (eff_attempt (tls_loadBalancerBackendTLSConfigForRef w resolve details backendRef)) (\<lambda>r.
        case (case r of Inl err \<Rightarrow> if errors_is err ErrBackendTLSPolicyNotFound then Inr None else Inl err | Inr s \<Rightarrow> Inr s) of
          Inl err \<Rightarrow> (case l4BackendRefName backendRef (rt_namespace (ld_route details)) of (ns, name) \<Rightarrow>
            eff_fail (ErrWrap (errtext ''failed to resolve BackendTLSPolicy for TLSRoute backend ''
              (namespaced_name ns name) '': '') err []))
        | Inr sslConfig \<Rightarrow>
            (case resolved of
               None \<Rightarrow> tlsConfigLoop w resolve details (Some sslConfig) rest
             | Some first \<Rightarrow>
                 (if \<not> loadBalancerSSLConfigurationsEqual first sslConfig then
                    eff_fail (newTLSRouteResolvedRefsStatusError ''UnsupportedValue''
                      ''ALB TLSRoute uses one backend set; all backendRefs must resolve to the same BackendTLSPolicy SSL configuration'')
                  else tlsConfigLoop w resolve details resolved rest))))"

definition tls_loadBalancerBackendTLSConfigForRoute ::
    "lb_env \<Rightarrow> backend_tls_resolver \<Rightarrow> bool \<Rightarrow> l4_route_details \<Rightarrow> ssl_details option lb_op" where
  "tls_loadBalancerBackendTLSConfigForRoute w backendTLSPolicy backendTLSDisabled details =
     (case backendTLSPolicy of
        None \<Rightarrow> eff_return None
      | Some resolve \<Rightarrow>
          (if backendTLSDisabled then eff_return None
           else tlsConfigLoop w resolve details None (concat (map rr_backend_refs (rt_rules (ld_route details))))))"

definition loadBalancerBackendsEqual :: "lb_backend list \<Rightarrow> backend_details list \<Rightarrow> bool" where
  "loadBalancerBackendsEqual current desired =
     (if length current \<noteq> length desired then False
      else (let currentMap = slice_to_map (\<lambda>b. str_ptr (b_ip b) @ '':'' @ int_to_string (int_ptr (b_port b))) id [] current
        in list_all (\<lambda>backend. case map_of currentMap (str_ptr (bd_ip backend) @ '':'' @ int_to_string (int_ptr (bd_port backend))) of
             None \<Rightarrow> False
           | Some c \<Rightarrow> bool_ptr (b_drain c) = bool_ptr (bd_drain backend) \<and> int_ptr (b_weight c) = int_ptr (bd_weight backend))
           desired))"

definition tls_reconcileLoadBalancerBackendSet ::
    "lb_env \<Rightarrow> string \<Rightarrow> string \<Rightarrow> backend_set option \<Rightarrow> backend_details list \<Rightarrow> int \<Rightarrow> ssl_details option \<Rightarrow> unit lb_op" where
  "tls_reconcileLoadBalancerBackendSet w loadBalancerID backendSetName existing backends healthCheckPort desiredSSLConfig =
     (let healthChecker = loadBalancerBackendSetHealthChecker healthCheckPort;
          create = awaited_write w (CreateBackendSet loadBalancerID \<lparr>cb_name = backendSetName, cb_policy = tlsRouteBackendSetPolicy,
              cb_backends = backends, cb_health_checker = healthChecker, cb_ssl = desiredSSLConfig\<rparr>)
            (errtext ''failed to create TLSRoute backend set '' backendSetName [])
            (errtext ''failed to wait for TLSRoute backend set '' backendSetName '' creation'');
          update = awaited_write w (UpdateBackendSet loadBalancerID backendSetName \<lparr>ub_backends = backends,
              ub_policy = Some tlsRouteBackendSetPolicy, ub_health_checker = Some healthChecker, ub_session_persistence = None,
              ub_lb_cookie_persistence = None, ub_ssl = desiredSSLConfig\<rparr>)
            (errtext ''failed to update TLSRoute backend set '' backendSetName [])
            (errtext ''failed to wait for TLSRoute backend set '' backendSetName '' update'')
      in case existing of
          None \<Rightarrow> create
        | Some current \<Rightarrow>
            (if bs_name current = None then create
             else if loadBalancerBackendSetMatches current tlsRouteBackendSetPolicy healthChecker desiredSSLConfig \<and>
               loadBalancerBackendsEqual (bs_backends current) backends \<and>
               loadBalancerSSLConfigurationsEqual (sslConfigurationDetailsFromBackendSet (bs_ssl current)) desiredSSLConfig
             then eff_return () else update))"

definition listenerOnlySSL :: "string list \<Rightarrow> string option \<Rightarrow> ssl_details" where
  "listenerOnlySSL certificateIDs certificateName = \<lparr>sd_verify_depth = None, sd_verify_peer = None,
     sd_session_resumption = None, sd_trusted_ca_ids = [], sd_certificate_ids = certificateIDs,
     sd_certificate_name = certificateName, sd_protocols = [], sd_cipher_suite = None, sd_server_order = []\<rparr>"

definition tls_listenerSSLConfig :: "l4_route_details \<Rightarrow> listener_certificates \<Rightarrow> error + ssl_details option" where
  "tls_listenerSSLConfig details certificates =
     (let listenerName = l_name (ld_listener details); tls = l_tls (ld_listener details);
          certificateID = map_get (lc_idsByListener certificates) listenerName
      in if certificateID \<noteq> [] then Inr (applyListenerTLSOptions (Some (listenerOnlySSL [certificateID] None)) tls)
         else case (case map_of (lc_byListener certificates) listenerName of Some cs \<Rightarrow> cs | None \<Rightarrow> []) of
             [] \<Rightarrow> Inl (newTLSRouteAcceptedStatusError ''InvalidKind''
               (errtext ''listener '' listenerName (errtext '' requires certificateRefs or ''
                 listenerTLSOptionOCICertificateOCID '' TLS option'')))
           | c # _ \<Rightarrow> Inr (applyListenerTLSOptions (Some (listenerOnlySSL [] (ct_name c))) tls))"

definition makeOciTLSListenerUpdateDetails ::
    "lb_listener option \<Rightarrow> gw_listener \<Rightarrow> string \<Rightarrow> ssl_details option \<Rightarrow> update_listener option" where
  "makeOciTLSListenerUpdateDetails existing listener backendSetName sslConfig =
     (let unchanged = (case existing of
            None \<Rightarrow> False
          | Some e \<Rightarrow> ll_protocol e = Some tlsRouteLoadBalancerProtocol \<and> ll_port e = Some (l_port listener) \<and>
              str_ptr (ll_default_backend_set e) = backendSetName \<and> str_ptr (ll_routing_policy e) = [] \<and>
              loadBalancerListenerSSLConfigurationsEqual (sslConfigurationDetailsFromBackendSet (ll_ssl e)) sslConfig)
      in if unchanged then None
         else Some \<lparr>ul_default_backend_set = Some backendSetName, ul_port = Some (l_port listener),
           ul_protocol = Some tlsRouteLoadBalancerProtocol, ul_hostname_names = [], ul_path_route_set = None,
           ul_routing_policy = None, ul_ssl = sslConfig, ul_connection = None, ul_rule_sets = []\<rparr>)"

text \<open>An empty routing policy name in the request to create a listener is none.\<close>

definition tls_reconcileLoadBalancerTLSListener ::
    "lb_env \<Rightarrow> string \<Rightarrow> string \<Rightarrow> lb_listener option \<Rightarrow> gw_listener \<Rightarrow> ssl_details option \<Rightarrow> unit lb_op" where
  "tls_reconcileLoadBalancerTLSListener w loadBalancerID backendSetName existing listener sslConfig =
     (let listenerName = l_name listener in
      if (case existing of Some e \<Rightarrow> ll_name e \<noteq> None | None \<Rightarrow> False) then
        (case makeOciTLSListenerUpdateDetails existing listener backendSetName sslConfig of
           None \<Rightarrow> eff_return ()
         | Some updateDetails \<Rightarrow>
             awaited_write w (UpdateListener loadBalancerID listenerName updateDetails)
               (errtext ''failed to update TLSRoute listener '' listenerName [])
               (errtext ''failed to wait for TLSRoute listener '' listenerName '' update''))
      else awaited_write w (CreateListener loadBalancerID \<lparr>cl_name = listenerName, cl_default_backend_set = backendSetName,
          cl_port = l_port listener, cl_protocol = tlsRouteLoadBalancerProtocol, cl_routing_policy = [], cl_ssl = sslConfig\<rparr>)
        (errtext ''failed to create TLSRoute listener '' listenerName [])
        (errtext ''failed to wait for TLSRoute listener '' listenerName '' creation''))"

text \<open>The steps on a load balancer that was found. The listeners of the Gateway itself are the ones
  whose certificates are set up.\<close>

definition tls_programTerminateOn ::
    "cert_cache \<Rightarrow> lb_env \<Rightarrow> backend_tls_resolver \<Rightarrow> bool \<Rightarrow> l4_route_details \<Rightarrow> load_balancer \<Rightarrow> unit lb_op" where
  "tls_programTerminateOn cache w backendTLSPolicy backendTLSDisabled details lb =
     (let route = ld_route details; listener = ld_listener details; gatewayDetails = ld_gateway details;
          loadBalancerID = rd_loadBalancerID gatewayDetails; backendSetName = tlsRouteBackendSetName route listener
      in eff_bind (tls_loadBalancerBackendsForRoute w route) (\<lambda>backends.
         eff_bind (tls_routeHealthCheckPort w route) (\<lambda>healthCheckPort.
         eff_bind (tls_loadBalancerBackendTLSConfigForRoute w backendTLSPolicy backendTLSDisabled details) (\<lambda>backendSSL.
         eff_bind (tls_reconcileLoadBalancerBackendSet w loadBalancerID backendSetName
             (map_of (lb_backend_sets lb) backendSetName) backends healthCheckPort backendSSL) (\<lambda>_.
         eff_bind (wrapped ''failed to reconcile listener certificates: ''
             (reconcileListenersCertificates cache w loadBalancerID (rd_gateway gatewayDetails) [] (lb_certificates lb)))
           (\<lambda>certificates.
         case tls_listenerSSLConfig details certificates of
           Inl err \<Rightarrow> eff_fail err
         | Inr sslConfig \<Rightarrow>
             tls_reconcileLoadBalancerTLSListener w loadBalancerID backendSetName
               (map_of (lb_listeners lb) (l_name listener)) listener sslConfig))))))"

definition tls_programLoadBalancerTerminateRoute ::
    "cert_cache \<Rightarrow> lb_env \<Rightarrow> backend_tls_resolver \<Rightarrow> bool \<Rightarrow> l4_route_details \<Rightarrow> unit lb_op" where
  "tls_programLoadBalancerTerminateRoute cache w backendTLSPolicy backendTLSDisabled details =
     (let loadBalancerID = rd_loadBalancerID (ld_gateway details) in
      eff_bind (get_load_balancer w loadBalancerID) (\<lambda>r. case r of
          Inl err \<Rightarrow> eff_fail (ErrWrap (errtext ''failed to get OCI Load Balancer '' loadBalancerID '': '') (ErrService err) [])
        | Inr lb \<Rightarrow> tls_programTerminateOn cache w backendTLSPolicy backendTLSDisabled details lb))"

section \<open>Removal\<close>

text \<open>A deletion the service does not know the object of is done.\<close>

definition deletedOrGone :: "lb_env \<Rightarrow> lb_call \<Rightarrow> string \<Rightarrow> unit lb_op" where
  "deletedOrGone w c what =
     eff_bind (write_call w c) (\<lambda>r. case r of
         Inl err \<Rightarrow>
           (if svc_has_status 404 err then eff_return ()
            else eff_fail (ErrWrap (errtext ''failed to delete TLSRoute '' what '': '') (ErrService err) []))
       | Inr None \<Rightarrow> eff_fail (ErrText (errtext ''failed to delete TLSRoute '' what '': missing work request id''))
       | Inr (Some i) \<Rightarrow> wait_for w (errtext ''failed to wait for TLSRoute '' what '' deletion'') i)"

definition tls_deleteLoadBalancerRouteResourcesByName :: "lb_env \<Rightarrow> string \<Rightarrow> string \<Rightarrow> string \<Rightarrow> unit lb_op" where
  "tls_deleteLoadBalancerRouteResourcesByName w loadBalancerID listenerName backendSetName =
     eff_bind (deletedOrGone w (DeleteListener loadBalancerID (Some listenerName)) (errtext ''listener '' listenerName []))
       (\<lambda>_. deletedOrGone w (DeleteBackendSet loadBalancerID backendSetName) (errtext ''backend set '' backendSetName []))"

definition tls_deleteLoadBalancerRouteResources :: "lb_env \<Rightarrow> l4_route_details \<Rightarrow> unit lb_op" where
  "tls_deleteLoadBalancerRouteResources w details =
     tls_deleteLoadBalancerRouteResourcesByName w (rd_loadBalancerID (ld_gateway details)) (l_name (ld_listener details))
       (tlsRouteBackendSetName (ld_route details) (ld_listener details))"

definition tls_deleteAllResources :: "lb_env \<Rightarrow> string \<Rightarrow> string go_map \<Rightarrow> unit lb_op" where
  "tls_deleteAllResources w loadBalancerID resources =
     eff_bind (eff_ask (env_order w)) (\<lambda>order.
       eff_foreach (\<lambda>(listenerName, backendSetName).
         tls_deleteLoadBalancerRouteResourcesByName w loadBalancerID listenerName backendSetName)
         (map_iter order resources))"

text \<open>What is left on a route without its TLS finalizers.\<close>

definition withoutNLBState :: "l4_route \<Rightarrow> l4_route" where
  "withoutNLBState route = route\<lparr>rt_finalizers := removeFinalizer NetworkLoadBalancerTLSRouteProgrammedFinalizer (rt_finalizers route),
     rt_annotations := AList.delete L4RouteProgrammedNetworkLoadBalancerIDAnnotation (setAnnotatedBackendSetNames
       (rt_annotations route) NetworkLoadBalancerTLSRouteProgrammedBackendSetsAnnotation [])\<rparr>"

definition withoutLBBackendSet :: "l4_route \<Rightarrow> l4_route" where
  "withoutLBBackendSet route = route\<lparr>rt_finalizers := removeFinalizer LoadBalancerTLSRouteProgrammedFinalizer (rt_finalizers route),
     rt_annotations := setAnnotatedBackendSetNames (rt_annotations route) LoadBalancerTLSRouteProgrammedBackendSetAnnotation []\<rparr>"

definition withoutLBState :: "l4_route \<Rightarrow> l4_route" where
  "withoutLBState route = (withoutLBBackendSet route)\<lparr>rt_annotations :=
     setAnnotatedLoadBalancerTLSRouteResources (rt_annotations (withoutLBBackendSet route)) []\<rparr>"

definition tls_removeDeletingRouteFinalizers :: "lb_env \<Rightarrow> l4_route \<Rightarrow> unit lb_op" where
  "tls_removeDeletingRouteFinalizers w route =
     l4StoreReleased w ''TLSRoute'' (withoutLBBackendSet (withoutNLBState route))
       ''failed to remove finalizers from deleting '' '': ''"

definition tls_removeDetachedRouteFinalizers :: "lb_env \<Rightarrow> l4_route \<Rightarrow> unit lb_op" where
  "tls_removeDetachedRouteFinalizers w route =
     l4StoreReleased w ''TLSRoute'' (withoutLBState (withoutNLBState route))
       ''failed to update detached '' '' after cleanup: ''"

definition tls_removeProgrammedState :: "lb_env \<Rightarrow> l4_route \<Rightarrow> bool \<Rightarrow> unit lb_op" where
  "tls_removeProgrammedState w route nlb =
     l4StoreReleased w ''TLSRoute'' (if nlb then withoutNLBState route else withoutLBState route)
       ''failed to update '' '' after stale programmed state cleanup: ''"

definition tls_clearAll :: "lb_env \<Rightarrow> string \<Rightarrow> string list \<Rightarrow> unit lb_op" where
  "tls_clearAll = l4ClearAll tcp_kind"

definition tls_deprovisionDetachedByAnnotation :: "lb_env \<Rightarrow> l4_route \<Rightarrow> string list \<Rightarrow> unit lb_op" where
  "tls_deprovisionDetachedByAnnotation w route programmedBackendSets =
     (let nlbID = map_get (rt_annotations route) L4RouteProgrammedNetworkLoadBalancerIDAnnotation in
      if nlbID = [] then eff_return ()
      else eff_bind (tls_clearAll w nlbID programmedBackendSets) (\<lambda>_. tls_removeDetachedRouteFinalizers w route))"

text \<open>The first former parent on a Network Load Balancer that still exists; \<open>store\<close> is how the route
  is written then, \<open>orElse\<close> what is done when there is none.\<close>

fun tls_clearOnParents ::
    "lb_env \<Rightarrow> l4_route \<Rightarrow> string list \<Rightarrow> unit lb_op \<Rightarrow> unit lb_op \<Rightarrow> route_parent_status list \<Rightarrow> unit lb_op" where
  "tls_clearOnParents w route backendSets store orElse [] = orElse"
| "tls_clearOnParents w route backendSets store orElse (parentStatus # rest) =
     (if rps_controller parentStatus \<noteq> NetworkLoadBalancerControllerClassName
      then tls_clearOnParents w route backendSets store orElse rest
      else eff_bind (resolveDetachedL4RouteGateway w (parentRefTargetName (rps_ref parentStatus) (rt_namespace route))
          ''TLSRoute'') (\<lambda>resolved. case resolved of
            None \<Rightarrow> tls_clearOnParents w route backendSets store orElse rest
          | Some gatewayDetails \<Rightarrow>
              eff_bind (tls_clearAll w (rd_loadBalancerID gatewayDetails) backendSets) (\<lambda>_. store)))"

definition tls_deprovisionDetachedNetworkLoadBalancerRoute :: "lb_env \<Rightarrow> l4_route \<Rightarrow> string list \<Rightarrow> unit lb_op" where
  "tls_deprovisionDetachedNetworkLoadBalancerRoute w route programmedBackendSets =
     tls_clearOnParents w route programmedBackendSets (tls_removeDetachedRouteFinalizers w route)
       (eff_bind (tls_deprovisionDetachedByAnnotation w route programmedBackendSets) (\<lambda>_.
          if rt_deleting route then tls_removeDeletingRouteFinalizers w route else eff_return ()))
       (rt_parents route)"

definition detachedRouteListenerName :: "route_parent_status \<Rightarrow> string option" where
  "detachedRouteListenerName parentStatus = pr_section (rps_ref parentStatus)"

definition loadBalancerTLSRouteParentHasProgrammedResource :: "route_parent_status \<Rightarrow> string go_map \<Rightarrow> bool" where
  "loadBalancerTLSRouteParentHasProgrammedResource parentStatus resources =
     (if resources = [] then False
      else case detachedRouteListenerName parentStatus of
          None \<Rightarrow> True
        | Some listenerName \<Rightarrow> map_of resources listenerName \<noteq> None)"

text \<open>The last backend set of the iteration stays.\<close>

definition loadBalancerTLSRouteResourcesFromLegacyStatus :: "nat list \<Rightarrow> l4_route \<Rightarrow> string list \<Rightarrow> string go_map" where
  "loadBalancerTLSRouteResourcesFromLegacyStatus order route backendSets =
     foldl (\<lambda>resources parentStatus.
       if rps_controller parentStatus \<noteq> ControllerClassName then resources
       else case detachedRouteListenerName parentStatus of
           None \<Rightarrow> resources
         | Some listenerName \<Rightarrow>
             foldl (\<lambda>m backendSetName. AList.update listenerName backendSetName m) resources (map_iter order backendSets))
       [] (rt_parents route)"

fun tls_deleteOnFirstParent ::
    "lb_env \<Rightarrow> l4_route \<Rightarrow> string go_map \<Rightarrow> route_parent_status list \<Rightarrow> unit lb_op" where
  "tls_deleteOnFirstParent w route resources [] = eff_return ()"
| "tls_deleteOnFirstParent w route resources (parentStatus # rest) =
     (if rps_controller parentStatus \<noteq> ControllerClassName then tls_deleteOnFirstParent w route resources rest
      else if \<not> loadBalancerTLSRouteParentHasProgrammedResource parentStatus resources then eff_return ()
      else eff_bind (tls_resolveDetachedLoadBalancerRouteGateway w route parentStatus) (\<lambda>resolved. case resolved of
          None \<Rightarrow> eff_return ()
        | Some gatewayDetails \<Rightarrow>
            eff_bind (tls_deleteAllResources w (rd_loadBalancerID gatewayDetails) resources) (\<lambda>_.
              tls_removeDetachedRouteFinalizers w route)))"

definition tls_deprovisionDetachedLoadBalancerRoute :: "lb_env \<Rightarrow> l4_route \<Rightarrow> string go_map \<Rightarrow> unit lb_op" where
  "tls_deprovisionDetachedLoadBalancerRoute w route programmedResources =
     (if programmedResources = [] then eff_return ()
      else tls_deleteOnFirstParent w route programmedResources (rt_parents route))"

definition tls_deprovisionDetachedRoute :: "lb_env \<Rightarrow> l4_route \<Rightarrow> unit lb_op" where
  "tls_deprovisionDetachedRoute w route =
     (let nlbSets = annotatedBackendSetNames (rt_annotations route) NetworkLoadBalancerTLSRouteProgrammedBackendSetsAnnotation;
          resources = annotatedLoadBalancerTLSRouteResources route;
          lbSets = annotatedBackendSetNames (rt_annotations route) LoadBalancerTLSRouteProgrammedBackendSetAnnotation
      in if nlbSets \<noteq> [] then tls_deprovisionDetachedNetworkLoadBalancerRoute w route nlbSets
         else if resources \<noteq> [] then tls_deprovisionDetachedLoadBalancerRoute w route resources
         else if lbSets \<noteq> [] then
           eff_bind (eff_ask (env_order w)) (\<lambda>order. tls_deprovisionDetachedLoadBalancerRoute w route
             (loadBalancerTLSRouteResourcesFromLegacyStatus order route lbSets))
         else tls_removeDetachedRouteFinalizers w route)"

section \<open>Moving between load balancers\<close>

definition tls_cleanupStaleNetworkLoadBalancerProgrammedState :: "lb_env \<Rightarrow> l4_route \<Rightarrow> unit lb_op" where
  "tls_cleanupStaleNetworkLoadBalancerProgrammedState w route =
     (let backendSets = annotatedBackendSetNames (rt_annotations route) NetworkLoadBalancerTLSRouteProgrammedBackendSetsAnnotation in
      if backendSets = [] then
        (if NetworkLoadBalancerTLSRouteProgrammedFinalizer \<in> set (rt_finalizers route)
         then tls_removeProgrammedState w route True else eff_return ())
      else tls_clearOnParents w route backendSets (tls_removeProgrammedState w route True)
        (tls_deprovisionDetachedByAnnotation w route backendSets) (rt_parents route))"

fun tls_deleteOnSomeParent ::
    "lb_env \<Rightarrow> l4_route \<Rightarrow> string go_map \<Rightarrow> route_parent_status list \<Rightarrow> unit lb_op" where
  "tls_deleteOnSomeParent w route resources [] = eff_return ()"
| "tls_deleteOnSomeParent w route resources (parentStatus # rest) =
     (if rps_controller parentStatus \<noteq> ControllerClassName \<or>
         \<not> loadBalancerTLSRouteParentHasProgrammedResource parentStatus resources
      then tls_deleteOnSomeParent w route resources rest
      else eff_bind (tls_resolveDetachedLoadBalancerRouteGateway w route parentStatus) (\<lambda>resolved. case resolved of
          None \<Rightarrow> eff_return ()
        | Some gatewayDetails \<Rightarrow>
            eff_bind (tls_deleteAllResources w (rd_loadBalancerID gatewayDetails) resources) (\<lambda>_.
              tls_removeProgrammedState w route False)))"

definition tls_cleanupStaleLoadBalancerProgrammedState :: "lb_env \<Rightarrow> l4_route \<Rightarrow> unit lb_op" where
  "tls_cleanupStaleLoadBalancerProgrammedState w route =
     eff_bind (eff_ask (env_order w)) (\<lambda>order.
       (let recorded = annotatedLoadBalancerTLSRouteResources route;
            resources = (if recorded = [] then loadBalancerTLSRouteResourcesFromLegacyStatus order route
              (annotatedBackendSetNames (rt_annotations route) LoadBalancerTLSRouteProgrammedBackendSetAnnotation)
              else recorded)
        in if resources = [] then
             (if LoadBalancerTLSRouteProgrammedFinalizer \<in> set (rt_finalizers route)
              then tls_removeProgrammedState w route False else eff_return ())
           else tls_deleteOnSomeParent w route resources (rt_parents route)))"

section \<open>Programming and deprovisioning\<close>

definition tls_programRoute ::
    "cert_cache \<Rightarrow> lb_env \<Rightarrow> backend_tls_resolver \<Rightarrow> bool \<Rightarrow> l4_route_details \<Rightarrow> unit lb_op" where
  "tls_programRoute cache w backendTLSPolicy backendTLSDisabled details =
     (let route = ld_route details; listener = ld_listener details in
      case tls_validateRoute details of
        Some err \<Rightarrow> eff_fail err
      | None \<Rightarrow>
          eff_bind (l4ListenerAllowsRoute w (gw_namespace (rd_gateway (ld_gateway details))) (rt_namespace route) listener
              ''TLSRoute'') (\<lambda>allowed.
            if \<not> allowed then eff_fail (newTLSRouteAcceptedStatusError ''NotAllowedByListeners''
              (errtext ''listener '' (l_name listener) (l4ObjectText '' does not allow '' ''TLSRoute'' route [])))
            else eff_bind (tls_ensureExclusiveListenerOwner w details) (\<lambda>_.
              if tlsController details = ControllerClassName then
                eff_bind (tls_cleanupStaleNetworkLoadBalancerProgrammedState w route) (\<lambda>_.
                  tls_programLoadBalancerTerminateRoute cache w backendTLSPolicy backendTLSDisabled details)
              else
                eff_bind (tls_cleanupStaleLoadBalancerProgrammedState w route) (\<lambda>_.
                  tls_programNetworkLoadBalancerPassthroughRoute w details))))"

definition tls_deprovisionNetworkLoadBalancerRoute ::
    "cert_cache \<Rightarrow> lb_env \<Rightarrow> backend_tls_resolver \<Rightarrow> bool \<Rightarrow> l4_route_details \<Rightarrow> unit lb_op" where
  "tls_deprovisionNetworkLoadBalancerRoute cache w backendTLSPolicy backendTLSDisabled details =
     deprovisionL4Route w
       \<lparr>dl_kind = ''TLSRoute'', dl_route = ld_route details, dl_finalizer = NetworkLoadBalancerTLSRouteProgrammedFinalizer,
        dl_annotation = NetworkLoadBalancerTLSRouteProgrammedBackendSetsAnnotation,
        dl_next = tls_nextEligibleRouteForListener w details,
        dl_program = tls_programRoute cache w backendTLSPolicy backendTLSDisabled,
        dl_setProgrammed = tls_setProgrammed w, dl_clear = tls_clearNLBBackendSet w details\<rparr>"

definition tls_deprovisionLoadBalancerRoute ::
    "cert_cache \<Rightarrow> lb_env \<Rightarrow> backend_tls_resolver \<Rightarrow> bool \<Rightarrow> l4_route_details \<Rightarrow> unit lb_op" where
  "tls_deprovisionLoadBalancerRoute cache w backendTLSPolicy backendTLSDisabled details =
     eff_bind (tls_nextEligibleRouteForListener w details) (\<lambda>nextRoute.
     eff_bind (case nextRoute of
         None \<Rightarrow> tls_deleteLoadBalancerRouteResources w details
       | Some nxt \<Rightarrow>
           eff_bind (wrapped (l4ObjectText ''failed to program next '' ''TLSRoute'' (ld_route nxt) '': '')
             (tls_programRoute cache w backendTLSPolicy backendTLSDisabled nxt)) (\<lambda>_.
           wrapped (l4ObjectText ''failed to set next '' ''TLSRoute'' (ld_route nxt) '' programmed status: '')
             (tls_setProgrammed w nxt))) (\<lambda>_.
     (let updated = withoutLBState (ld_route details) in
      eff_bind (k8s_update w (UpdateL4Route ''TLSRoute'' updated)) (\<lambda>r. case r of
          None \<Rightarrow> eff_return ()
        | Some err \<Rightarrow> eff_fail (ErrWrap (errtext ''failed to remove ALB TLSRoute finalizer from '' (l4RouteKey updated) '': '')
            err [])))))"

definition tls_deprovisionRoute ::
    "cert_cache \<Rightarrow> lb_env \<Rightarrow> backend_tls_resolver \<Rightarrow> bool \<Rightarrow> l4_route_details \<Rightarrow> unit lb_op" where
  "tls_deprovisionRoute cache w backendTLSPolicy backendTLSDisabled details =
     (if tlsController details = ControllerClassName
      then tls_deprovisionLoadBalancerRoute cache w backendTLSPolicy backendTLSDisabled details
      else tls_deprovisionNetworkLoadBalancerRoute cache w backendTLSPolicy backendTLSDisabled details)"

section \<open>The controller\<close>

definition tls_resolveRequest :: "lb_env \<Rightarrow> string \<times> string \<Rightarrow> l4_route_details list lb_op" where
  "tls_resolveRequest w req =
     eff_bind (resolveL4RouteRequest w
       \<lparr>rl4_kind = ''TLSRoute'', rl4_resolve = tls_resolveParentRef w, rl4_reject = tls_rejectNoMatchingListener w,
        rl4_finalizer = NetworkLoadBalancerTLSRouteProgrammedFinalizer, rl4_unresolved = tls_deprovisionDetachedRoute w\<rparr> req)
       (\<lambda>r. case r of
          None \<Rightarrow> eff_return []
        | Some (route, results) \<Rightarrow>
            (if results = [] \<and> LoadBalancerTLSRouteProgrammedFinalizer \<in> set (rt_finalizers route)
             then eff_bind (tls_deprovisionDetachedRoute w route) (\<lambda>_. eff_return [])
             else eff_return results))"

definition tls_reconcileResolvedRoute ::
    "cert_cache \<Rightarrow> lb_env \<Rightarrow> backend_tls_resolver \<Rightarrow> bool \<Rightarrow> string \<Rightarrow> l4_route_details \<Rightarrow> unit lb_op" where
  "tls_reconcileResolvedRoute cache w backendTLSPolicy backendTLSDisabled reqName details =
     (let route = ld_route details; about = (\<lambda>before after. errtext before reqName after) in
      if rt_deleting route then
        (if tlsRouteFinalizerForDetails details \<notin> set (rt_finalizers route) then eff_return ()
         else wrapped (about ''failed to deprovision TLSRoute '' '': '')
           (tls_deprovisionRoute cache w backendTLSPolicy backendTLSDisabled details))
      else eff_bind (wrapped (about ''failed to set TLSRoute '' '' pending status: '') (tls_setPending w details)) (\<lambda>_.
        eff_bind (eff_attempt (tls_programRoute cache w backendTLSPolicy backendTLSDisabled details)) (\<lambda>r. case r of
            Inr _ \<Rightarrow> wrapped (about ''failed to set TLSRoute '' '' programmed status: '') (tls_setProgrammed w details)
          | Inl err \<Rightarrow>
              (case errors_as (route_status_of ''TLSRoute'') err of
                 Some statusErr \<Rightarrow> wrapped (about ''failed to set TLSRoute '' '' rejected status: '')
                   (tls_setRejected w (ld_gateway details) route (ld_ref details) statusErr)
               | None \<Rightarrow>
                   (if isParentGatewayStatusError err then eff_return ()
                    else eff_fail (ErrWrap (about ''failed to program TLSRoute '' '': '') err []))))))"

definition TLSRouteController_Reconcile ::
    "cert_cache \<Rightarrow> lb_env \<Rightarrow> backend_tls_resolver \<Rightarrow> bool \<Rightarrow> int \<Rightarrow> string \<times> string \<Rightarrow> int lb_op" where
  "TLSRouteController_Reconcile cache w backendTLSPolicy backendTLSDisabled driftInterval req =
     eff_bind (wrapped ''failed to resolve TLSRoute parent: '' (tls_resolveRequest w req)) (\<lambda>resolvedRoutes.
       if resolvedRoutes = [] then eff_return 0
       else reconcileL4Routes (tls_reconcileResolvedRoute cache w backendTLSPolicy backendTLSDisabled
           (namespaced_name (fst req) (snd req))) w driftInterval resolvedRoutes)"

end
