(* ===== verification/L4Safety.thy ===== *)
theory L4Safety
  imports TlsRoutes NlbSafety
begin

text \<open>
  What the controllers of TCPRoutes, UDPRoutes and TLSRoutes guarantee: one owner per listener,
  written backends that belong to the owner, the order of releasing a route, what is recorded on
  a route; and where releasing a route is stuck.
\<close>

section \<open>The owner of a listener\<close>

text \<open>The first of a sorted list is least, when the order is a weak one.\<close>

lemma hd_insert_by:
  assumes "\<And>a b. lt a b \<Longrightarrow> \<not> lt b a" "\<And>a b c. lt a c \<Longrightarrow> lt a b \<or> lt b c"
    and "\<And>y. y \<in> set ys \<Longrightarrow> \<not> lt y (hd ys)" "y \<in> set (x # ys)"
  shows "\<not> lt y (hd (insert_by lt x ys))"
proof (cases ys)
  case Nil
  then show ?thesis using assms(1,4) by auto
next
  case (Cons z zs)
  show ?thesis
  proof (cases "lt z x")
    case True
    then show ?thesis using Cons assms(1,3,4) by auto
  next
    case False
    have "\<not> lt y x" if "y \<in> set ys"
      using that assms(2) [of y x z] assms(3) [of y] Cons False by auto
    then show ?thesis using Cons False assms(1,4) by auto
  qed
qed

lemma hd_sort_by:
  assumes "\<And>a b. lt a b \<Longrightarrow> \<not> lt b a" "\<And>a b c. lt a c \<Longrightarrow> lt a b \<or> lt b c" "y \<in> set xs"
  shows "\<not> lt y (hd (sort_by lt xs))"
  using assms(3)
proof (induction xs arbitrary: y)
  case (Cons x xs)
  then show ?case
    using hd_insert_by [of lt "sort_by lt xs" y x, OF assms(1,2)] by simp
qed simp

lemma match_order:
  "l4MatchBefore a b \<Longrightarrow> \<not> l4MatchBefore b a"
  "l4MatchBefore a c \<Longrightarrow> l4MatchBefore a b \<or> l4MatchBefore b c"
  by (auto simp: l4MatchBefore_def split: if_splits)

definition routeBefore :: "l4_route \<Rightarrow> l4_route \<Rightarrow> bool" where
  "routeBefore r s \<longleftrightarrow> rt_creation r < rt_creation s \<or> rt_creation r = rt_creation s \<and> l4RouteKey r < l4RouteKey s"

definition attachedTo :: "l4_route_details \<Rightarrow> (parent_ref \<Rightarrow> gw_listener \<Rightarrow> bool) \<Rightarrow> l4_route \<Rightarrow> bool" where
  "attachedTo d attaches r \<longleftrightarrow> \<not> rt_deleting r \<and>
     list_ex (\<lambda>ref. l4ParentRefMatchesListener (ld_gateway d) ref (rt_namespace r) (ld_listener d) attaches) (rt_parent_refs r)"

text \<open>The route is the first of those attached to the listener, or there are none.\<close>

definition ownsListener :: "l4_route_details \<Rightarrow> (parent_ref \<Rightarrow> gw_listener \<Rightarrow> bool) \<Rightarrow> l4_route list \<Rightarrow> bool" where
  "ownsListener d attaches routes \<longleftrightarrow>
     (\<forall>r\<in>set routes. \<not> attachedTo d attaches r) \<or>
     (\<exists>own\<in>set routes. l4RouteKey own = l4RouteKey (ld_route d) \<and> attachedTo d attaches own \<and>
       (\<forall>r\<in>set routes. attachedTo d attaches r \<longrightarrow> \<not> routeBefore r own))"

lemma listener_match_iff:
  "l4ListenerMatch g l [] attaches r = None \<longleftrightarrow>
     rt_deleting r \<or> \<not> list_ex (\<lambda>ref. l4ParentRefMatchesListener g ref (rt_namespace r) l attaches) (rt_parent_refs r)"
  "l4ListenerMatch g l [] attaches r = Some m \<Longrightarrow> l4m_route m = r \<and> l4m_key m = l4RouteKey r"
  by (auto simp: l4ListenerMatch_def Let_def l4RouteKey_def namespaced_name_def find_None_iff list_ex_iff split: if_splits)

lemma matching_head:
  assumes "matchingL4RoutesForListener routes (ld_gateway d) (ld_listener d) [] attaches = m # ms"
  shows "l4m_route m \<in> set routes" "l4m_key m = l4RouteKey (l4m_route m)" "attachedTo d attaches (l4m_route m)"
    and "r \<in> set routes \<Longrightarrow> attachedTo d attaches r \<Longrightarrow> \<not> routeBefore r (l4m_route m)"
proof -
  let ?f = "l4ListenerMatch (ld_gateway d) (ld_listener d) [] attaches"
  have "m \<in> set (List.map_filter ?f routes)"
    using assms unfolding matchingL4RoutesForListener_def by (metis list.set_intros(1) set_sort_by)
  then obtain r0 where "r0 \<in> set routes" "?f r0 = Some m" by (auto simp: List.map_filter_def)
  then show "l4m_route m \<in> set routes" "l4m_key m = l4RouteKey (l4m_route m)" "attachedTo d attaches (l4m_route m)"
    using listener_match_iff(1) [of "ld_gateway d" "ld_listener d" attaches r0]
      listener_match_iff(2) [of "ld_gateway d" "ld_listener d" attaches r0 m]
    by (simp_all add: attachedTo_def)
  note key = this(2)
  show "\<not> routeBefore r (l4m_route m)" if r: "r \<in> set routes" "attachedTo d attaches r"
  proof -
    obtain n where n: "?f r = Some n"
      using r(2) listener_match_iff(1) [of "ld_gateway d" "ld_listener d" attaches r] by (auto simp: attachedTo_def)
    then have "n \<in> set (List.map_filter ?f routes)" using r(1) by (force simp: List.map_filter_def)
    from hd_sort_by [of l4MatchBefore, OF match_order this] have "\<not> l4MatchBefore n m"
      using assms by (simp add: matchingL4RoutesForListener_def)
    then show ?thesis using listener_match_iff(2) [OF n] key by (auto simp: l4MatchBefore_def routeBefore_def split: if_splits)
  qed
qed

lemma exclusive_owner:
  assumes "fst (ensureExclusiveL4ListenerOwner (matchingL4RoutesForListener routes (ld_gateway d) (ld_listener d) [] attaches)
      (l4RouteKey (ld_route d)) l kind err h) = Inr ()"
  shows "ownsListener d attaches routes"
proof (cases "matchingL4RoutesForListener routes (ld_gateway d) (ld_listener d) [] attaches")
  case Nil
  have "\<not> attachedTo d attaches r" if "r \<in> set routes" for r
  proof -
    have "List.map_filter (l4ListenerMatch (ld_gateway d) (ld_listener d) [] attaches) routes = []"
      using Nil unfolding matchingL4RoutesForListener_def by (metis set_sort_by set_empty)
    with that have "l4ListenerMatch (ld_gateway d) (ld_listener d) [] attaches r = None"
      by (auto simp: List.map_filter_def filter_empty_conv)
    then show ?thesis by (simp add: listener_match_iff attachedTo_def)
  qed
  then show ?thesis by (simp add: ownsListener_def)
next
  case (Cons m ms)
  then have "l4m_key m = l4RouteKey (ld_route d)"
    using assms by (auto simp: ensureExclusiveL4ListenerOwner_def eff_simps split: if_splits)
  then show ?thesis
    using matching_head [OF Cons] unfolding ownsListener_def by metis
qed

text \<open>Requests that give a listener or a backend set to a route.\<close>

fun fills :: "lb_call \<Rightarrow> bool" where
  "fills (NlbCreateBackend _ _ _) = True"
| "fills (NlbUpdateBackend _ _ _ _) = True"
| "fills (CreateBackendSet _ _) = True"
| "fills (UpdateBackendSet _ _ _) = True"
| "fills (CreateListener _ _) = True"
| "fills (UpdateListener _ _ _) = True"
| "fills _ = False"

lemma emits_nlb_wait [emits_intros]:
  "(\<And>i. P (NlbWaitFor i)) \<Longrightarrow> emits P (waitForNetworkLoadBalancerBackendOperation w i op bs n)"
  by (auto simp: waitForNetworkLoadBalancerBackendOperation_def intro!: emits_intros split: option.split)

lemma emits_updateNlbBackendSet:
  assumes "\<And>d. P (NlbUpdateBackendSet (nl_id nlb) n d)" "\<And>i. P (NlbWaitFor i)" "\<And>m. P (NlbDeleteBackend (nl_id nlb) n m)"
    and "ns_backends details \<noteq> [] \<Longrightarrow> (\<forall>d. P (NlbCreateBackend (nl_id nlb) n d)) \<and> (\<forall>m d. P (NlbUpdateBackend (nl_id nlb) n m d))"
  shows "emits P (updateNetworkLoadBalancerBackendSet w nlb n op details)"
proof -
  have "ns_backends details = [] \<Longrightarrow> normalizeNetworkLoadBalancerBackendDetails order (ns_backends details) = []" for order
    by (simp add: normalizeNetworkLoadBalancerBackendDetails_def mergedBackends_def)
  then have "emits P (syncNetworkLoadBalancerBackends w nlb n
      (normalizeNetworkLoadBalancerBackendDetails order (ns_backends details)))" for order
    using assms(2-) by (cases "ns_backends details = []")
      (auto simp: syncNetworkLoadBalancerBackends_def syncDesiredBackend_def syncStaleBackend_def Let_def
        createNetworkLoadBalancerBackend_def updateNetworkLoadBalancerBackend_def deleteNetworkLoadBalancerBackend_def
        intro!: emits_intros split: option.split sum.split)
  then show ?thesis
    using assms(1,2) by (auto simp: updateNetworkLoadBalancerBackendSet_def Let_def intro!: emits_intros
        split: option.split sum.split)
qed

lemma emits_getNlb [emits_intros]:
  "(\<And>i. P (GetNlb i)) \<Longrightarrow> emits P (getNetworkLoadBalancer w i)"
  "(\<And>i. P (GetNlb i)) \<Longrightarrow> emits P (ensureNetworkLoadBalancer w i)"
  by (auto simp: getNetworkLoadBalancer_def ensureNetworkLoadBalancer_def getNetworkLoadBalancerByID_def
      intro!: emits_intros split: sum.split)

lemma emits_clearNamed:
  assumes "\<And>i. P (GetNlb i)" "\<And>i d. P (NlbUpdateBackendSet i n d)" "\<And>i. P (NlbWaitFor i)"
    "\<And>i m. P (NlbDeleteBackend i n m)"
  shows "emits P (l4ClearBackendSetByName stored fallback w lb n checker)"
  using assms by (auto simp: l4ClearBackendSetByName_def Let_def l4BackendSetUpdate_def
      intro!: emits_intros emits_updateNlbBackendSet split: option.split)

lemma emits_allowed [emits_intros]:
  "(\<And>n. P (GetNamespace n)) \<Longrightarrow> emits P (l4ListenerAllowsRoute w ns rns l kind)"
  by (auto simp: l4ListenerAllowsRoute_def l4RouteNamespaceAllowed_def selectNamespace_def
      intro!: emits_intros split: option.split sum.split)

lemma emits_l4Backends [emits_intros]:
  assumes "\<And>ns n. P (GetService ns n)" "\<And>ns n. P (ListEndpointSlices ns n)" "\<And>ns. P (ListReferenceGrants ns)"
  shows "emits P (endpointBackendsForRoute w kind route)"
proof -
  have "emits P (endpointBackendsForBackendRef w kind ns ref)" for ns ref
    using assms by (auto simp: endpointBackendsForBackendRef_def resolveL4BackendRefServicePort_def Let_def
        referenceGrantAllowsServiceBackend_def intro!: emits_intros split: option.split sum.split prod.split)
  then have "emits P (mergedBackendsForRefs w kind ns m refs)" for ns m refs
    by (induction refs arbitrary: m) (auto intro!: emits_intros)
  then show ?thesis by (auto simp: endpointBackendsForRoute_def intro!: emits_intros)
qed

text \<open>
  A controller that gives a listener to a route: checks, then the search for the owner, then the
  rest. What it relies on is that the checks fill nothing.
\<close>

locale exclusive_program =
  fixes kind :: string and attaches :: "parent_ref \<Rightarrow> gw_listener \<Rightarrow> bool"
    and gate owner rest program :: "lb_env \<Rightarrow> l4_route_details \<Rightarrow> unit lb_op"
  assumes gate_quiet: "emits (\<lambda>c. \<not> fills c) (gate w d)"
    and gate_allows: "gate w d h = (Inr x, h') \<Longrightarrow> l4RouteKindAllowed (ld_listener d) kind"
    and owner_def: "\<exists>text err. owner w d = eff_bind (listMatchingL4RoutesForListener w kind text d [] attaches)
      (\<lambda>matches. ensureExclusiveL4ListenerOwner matches (l4RouteKey (ld_route d)) (ld_listener d) kind err)"
    and rest_extends: "extends (rest w d)"
    and program_def: "program w d = eff_bind (gate w d) (\<lambda>_. eff_bind (owner w d) (\<lambda>_. rest w d))"
begin

lemma owner_run:
  assumes "owner w d h = (Inr x, h')"
  shows "h' = h @ [ListL4Routes kind] \<and> (\<exists>routes. env_l4_routes w h kind = Inr routes \<and> ownsListener d attaches routes)"
proof -
  obtain msg err where owner: "owner w d = eff_bind (listMatchingL4RoutesForListener w kind msg d [] attaches)
      (\<lambda>matches. ensureExclusiveL4ListenerOwner matches (l4RouteKey (ld_route d)) (ld_listener d) kind err)"
    using owner_def by blast
  from assms [unfolded owner] obtain ms h1 where
    listed: "listMatchingL4RoutesForListener w kind msg d [] attaches h = (Inr ms, h1)" and
    own: "ensureExclusiveL4ListenerOwner ms (l4RouteKey (ld_route d)) (ld_listener d) kind err h1 = (Inr x, h')"
    by (elim eff_bind_InrE)
  from listed obtain routes where "env_l4_routes w h kind = Inr routes" "h1 = h @ [ListL4Routes kind]"
    "ms = matchingL4RoutesForListener routes (ld_gateway d) (ld_listener d) [] attaches"
    by (auto simp: listMatchingL4RoutesForListener_def eff_bind_Inr [OF route_run(6)] eff_return_run eff_fail_run split: sum.splits)
  moreover have "h' = h1" using own by (auto simp: ensureExclusiveL4ListenerOwner_def eff_simps split: list.splits if_splits)
  ultimately show ?thesis using own exclusive_owner by (metis fst_conv old.unit.exhaust)
qed

lemma owner_quiet: "emits (\<lambda>c. \<not> fills c) (owner w d)"
proof -
  have "emits (\<lambda>c. \<not> fills c) (listMatchingL4RoutesForListener w kind msg d [] attaches)" for msg
    by (auto simp: listMatchingL4RoutesForListener_def intro!: emits_intros split: sum.split)
  moreover have "emits (\<lambda>c. \<not> fills c) (ensureExclusiveL4ListenerOwner ms key l kind err)" for ms key l err
    by (auto simp: ensureExclusiveL4ListenerOwner_def intro!: emits_intros split: list.split)
  ultimately show ?thesis using owner_def [of w d] by (auto intro!: emits_intros)
qed

lemma fills_owned:
  assumes "snd (program w d h) = h @ xs @ c # ys" "fills c"
  shows "l4RouteKindAllowed (ld_listener d) kind \<and> (\<exists>ps qs routes. xs = ps @ ListL4Routes kind # qs \<and>
    env_l4_routes w (h @ ps) kind = Inr routes \<and> ownsListener d attaches routes)"
proof -
  have ext: "extends (eff_bind (owner w d) (\<lambda>_. rest w d))"
    using emits_extends [OF owner_quiet, of w d] rest_extends unfolding extends_def by (auto intro!: emits_intros)
  from emits_guard [OF gate_quiet ext assms(1) [unfolded program_def]] assms(2) obtain x zs where
    gate: "gate w d h = (Inr x, h @ zs)" "\<exists>us. xs = zs @ us \<and> snd (eff_bind (owner w d) (\<lambda>_. rest w d) (h @ zs)) = (h @ zs) @ us @ c # ys"
    by auto
  then obtain us where us: "xs = zs @ us" "snd (eff_bind (owner w d) (\<lambda>_. rest w d) (h @ zs)) = (h @ zs) @ us @ c # ys"
    by blast
  from emits_guard [OF owner_quiet rest_extends us(2)] assms(2) obtain y vs where
    own: "owner w d (h @ zs) = (Inr y, (h @ zs) @ vs)" "\<exists>ts. us = vs @ ts" by auto
  from owner_run [OF own(1)] own(2) us(1) gate_allows [OF gate(1)] show ?thesis by auto
qed

end

text \<open>The parts of the programming of a TCPRoute or UDPRoute, and of a TLSRoute.\<close>

definition programGate :: "lb_env \<Rightarrow> program_l4_params \<Rightarrow> unit lb_op" where
  "programGate w params =
     eff_bind (l4ListenerAllowsRoute w (pl_listenerNamespace params) (rt_namespace (pl_route params)) (pl_listener params)
         (pl_kind params)) (\<lambda>allowed.
       if allowed then eff_return ()
       else eff_bind (if pl_finalizer params \<in> set (rt_finalizers (pl_route params))
           then wrapped (errtext ''failed to clear backend set after '' (pl_kind params) '' attachment was rejected: '')
             (pl_clear params) else eff_return ()) (\<lambda>_.
         eff_fail (l4AcceptedStatusError (pl_kind params) ''NotAllowedByListeners''
           (errtext ''listener '' (l_name (pl_listener params))
             (l4ObjectText '' does not allow '' (pl_kind params) (pl_route params) [])))))"

definition programRest :: "program_l4_params \<Rightarrow> unit lb_op" where
  "programRest params =
     eff_bind (if pl_finalizer params \<in> set (rt_finalizers (pl_route params)) then pl_clearStale params else eff_return ())
       (\<lambda>_. programL4Backends params)"

lemma programL4Route_parts:
  "programL4Route w params = eff_bind (programGate w params) (\<lambda>_. eff_bind (pl_ensureOwner params) (\<lambda>_. programRest params))"
  unfolding programL4Route_def programGate_def programRest_def Let_def eff_bind_assoc
  by (intro arg_cong [where f = "eff_bind _"] ext) (simp add: eff_bind_assoc eff_bind_return eff_bind_fail)

lemma allows_kind:
  "l4ListenerAllowsRoute w ns rns l kind h = (Inr True, h') \<Longrightarrow> l4RouteKindAllowed l kind"
  by (simp add: l4ListenerAllowsRoute_def eff_return_run split: if_splits)

lemma programGate_allows:
  "programGate w params h = (Inr x, h') \<Longrightarrow> l4RouteKindAllowed (pl_listener params) (pl_kind params)"
  unfolding programGate_def by (auto elim!: eff_bind_InrE simp: eff_fail_run allows_kind split: if_splits)

lemma emits_programGate:
  "emits P (pl_clear params) \<Longrightarrow> (\<And>n. P (GetNamespace n)) \<Longrightarrow> emits P (programGate w params)"
  by (auto simp: programGate_def intro!: emits_intros emits_wrapped)

lemma emits_l4Clear:
  assumes "\<And>i. P (GetNlb i)" "\<And>i n d. P (NlbUpdateBackendSet i n d)" "\<And>i. P (NlbWaitFor i)"
    "\<And>i n m. P (NlbDeleteBackend i n m)"
  shows "emits P (l4ClearNamed k w lb n checker)" "emits P (l4ClearBackendSet k w d)" "emits P (l4ClearStaleBackendSets k w d)"
    "emits P (l4ClearAll k w lb ns)"
  using assms by (auto simp: l4ClearNamed_def l4ClearBackendSet_def l4ClearStaleBackendSets_def l4ClearAll_def Let_def
      intro!: emits_intros emits_clearNamed)

lemma emits_l4Update:
  assumes "\<And>i. P (GetNlb i)" "\<And>i n d. P (NlbUpdateBackendSet i n d)" "\<And>i. P (NlbWaitFor i)"
    "\<And>i n m. P (NlbDeleteBackend i n m)" "\<And>i n d. P (NlbCreateBackend i n d)" "\<And>i n m d. P (NlbUpdateBackend i n m d)"
  shows "emits P (l4UpdateBackendSet k w d n bs)"
  using assms by (auto simp: l4UpdateBackendSet_def Let_def
      intro!: emits_intros emits_updateNlbBackendSet split: option.split sum.split)

lemma emits_programBackends:
  assumes "emits P (pl_clear params)" "emits P (pl_backends params)" "\<And>n bs. emits P (pl_update params n bs)"
  shows "emits P (programL4Backends params)"
  using assms by (auto simp: programL4Backends_def intro!: emits_intros emits_wrapped split: sum.split)

definition l4Gate :: "l4_kind \<Rightarrow> lb_env \<Rightarrow> l4_route_details \<Rightarrow> unit lb_op" where
  "l4Gate k w d = programGate w (l4ProgramRouteParams k w d)"

definition l4Rest :: "l4_kind \<Rightarrow> lb_env \<Rightarrow> l4_route_details \<Rightarrow> unit lb_op" where
  "l4Rest k w d = programRest (l4ProgramRouteParams k w d)"

lemma l4Params [simp]:
  "pl_kind (l4ProgramRouteParams k w d) = k4_kind k" "pl_route (l4ProgramRouteParams k w d) = ld_route d"
  "pl_listener (l4ProgramRouteParams k w d) = ld_listener d" "pl_finalizer (l4ProgramRouteParams k w d) = k4_finalizer k"
  "pl_clear (l4ProgramRouteParams k w d) = l4ClearBackendSet k w d"
  "pl_ensureOwner (l4ProgramRouteParams k w d) = l4EnsureExclusiveListenerOwner k w d"
  "pl_clearStale (l4ProgramRouteParams k w d) = l4ClearStaleBackendSets k w d"
  "pl_backends (l4ProgramRouteParams k w d) = endpointBackendsForRoute w (k4_kind k) (ld_route d)"
  "pl_update (l4ProgramRouteParams k w d) = l4UpdateBackendSet k w d"
  by (simp_all add: l4ProgramRouteParams_def newProgramL4RouteParams_def)

lemma l4_exclusive:
  "exclusive_program (k4_kind k) (k4_matches k) (l4Gate k) (l4EnsureExclusiveListenerOwner k) (l4Rest k) (l4ProgramRoute k)"
proof
  show "emits (\<lambda>c. \<not> fills c) (l4Gate k w d)" for w d
    by (auto simp: l4Gate_def intro!: emits_programGate emits_l4Clear)
  show "l4Gate k w d h = (Inr x, h') \<Longrightarrow> l4RouteKindAllowed (ld_listener d) (k4_kind k)" for w d h x h'
    using programGate_allows [of w "l4ProgramRouteParams k w d"] by (simp add: l4Gate_def)
  show "extends (l4Rest k w d)" for w d
    unfolding extends_def by (auto simp: l4Rest_def programRest_def
        intro!: emits_intros emits_l4Clear emits_l4Update emits_programBackends)
  show "l4ProgramRoute k w d = eff_bind (l4Gate k w d) (\<lambda>_. eff_bind (l4EnsureExclusiveListenerOwner k w d) (\<lambda>_. l4Rest k w d))"
    for w d by (simp add: l4ProgramRoute_def programL4Route_parts l4Gate_def l4Rest_def)
qed (auto simp: l4EnsureExclusiveListenerOwner_def l4MatchingRoutesForListener_def)

definition tlsGate :: "lb_env \<Rightarrow> l4_route_details \<Rightarrow> unit lb_op" where
  "tlsGate w d =
     (case tls_validateRoute d of
        Some err \<Rightarrow> eff_fail err
      | None \<Rightarrow> eff_bind (l4ListenerAllowsRoute w (gw_namespace (rd_gateway (ld_gateway d))) (rt_namespace (ld_route d))
            (ld_listener d) ''TLSRoute'') (\<lambda>allowed.
          if allowed then eff_return ()
          else eff_fail (newTLSRouteAcceptedStatusError ''NotAllowedByListeners''
            (errtext ''listener '' (l_name (ld_listener d)) (l4ObjectText '' does not allow '' ''TLSRoute'' (ld_route d) [])))))"

definition tlsRest :: "cert_cache \<Rightarrow> backend_tls_resolver \<Rightarrow> bool \<Rightarrow> lb_env \<Rightarrow> l4_route_details \<Rightarrow> unit lb_op" where
  "tlsRest cache policy disabled w d =
     (if tlsController d = ControllerClassName then
        eff_bind (tls_cleanupStaleNetworkLoadBalancerProgrammedState w (ld_route d)) (\<lambda>_.
          tls_programLoadBalancerTerminateRoute cache w policy disabled d)
      else
        eff_bind (tls_cleanupStaleLoadBalancerProgrammedState w (ld_route d)) (\<lambda>_.
          tls_programNetworkLoadBalancerPassthroughRoute w d))"

lemma tlsProgram_parts:
  "tls_programRoute cache w policy disabled d =
     eff_bind (tlsGate w d) (\<lambda>_. eff_bind (tls_ensureExclusiveListenerOwner w d) (\<lambda>_. tlsRest cache policy disabled w d))"
  unfolding tls_programRoute_def tlsGate_def tlsRest_def Let_def
  by (auto simp: eff_bind_assoc eff_bind_return eff_bind_fail split: option.split
      intro!: arg_cong [where f = "eff_bind _"])

text \<open>What the steps of a TLSRoute may ask for.\<close>

lemma emits_stored [emits_intros]: "(\<And>r. P (UpdateL4Route k r)) \<Longrightarrow> emits P (l4StoreReleased w k r a b)"
  by (auto simp: l4StoreReleased_def intro!: emits_intros split: option.split)

lemma emits_detachedGateway:
  "(\<And>c. reading c \<Longrightarrow> P c) \<Longrightarrow> emits P (resolveDetachedL4RouteGateway w g kind)"
  by (cases g) (auto simp: resolveDetachedL4RouteGateway_def Let_def intro!: emits_intros split: sum.split option.split)

lemma emits_tlsParent:
  assumes "\<And>c. reading c \<Longrightarrow> P c"
  shows "emits P (tls_resolveDetachedLoadBalancerRouteGateway w route parent)"
proof -
  have "emits P (tls_resolveParentGateway w ns (gatewayOnlyRef g))" for ns g
    using assms by (cases g) (auto simp: tls_resolveParentGateway_def tls_parentGatewayName_def tls_resolveNamedGateway_def
        gatewayOnlyRef_def Let_def parentRefTargetsListenerSet_def parentRefTargetsGateway_def
        intro!: emits_intros split: sum.split option.split prod.split)
  then show ?thesis unfolding tls_resolveDetachedLoadBalancerRouteGateway_def by (intro emits_intros)
qed

text \<open>Calls that take a listener or a backend set away, or say what a route has.\<close>

definition releasing :: "lb_call \<Rightarrow> bool" where
  "releasing c \<longleftrightarrow> (case c of
     DeleteListener _ _ \<Rightarrow> True | DeleteBackendSet _ _ \<Rightarrow> True | NlbUpdateBackendSet _ _ _ \<Rightarrow> True
   | NlbDeleteBackend _ _ _ \<Rightarrow> True | UpdateL4Route k _ \<Rightarrow> k = ''TLSRoute'' | _ \<Rightarrow> reading c)"

lemma releasing_simps [simp]:
  "releasing (DeleteListener a b)" "releasing (DeleteBackendSet a d)" "releasing (NlbUpdateBackendSet e d u)"
  "releasing (NlbDeleteBackend e d f)" "releasing (UpdateL4Route k r) \<longleftrightarrow> k = ''TLSRoute''"
  "reading c \<Longrightarrow> releasing c" "releasing c \<Longrightarrow> \<not> fills c"
  by (auto simp: releasing_def split: lb_call.splits)

lemma emits_tlsReleases:
  "emits releasing (tls_removeDetachedRouteFinalizers w r)" "emits releasing (tls_removeProgrammedState w r b)"
  "emits releasing (tls_removeDeletingRouteFinalizers w r)" "emits releasing (tls_clearAll w lb ns)"
  "emits releasing (tls_deleteAllResources w lb res)"
proof -
  show clear: "emits releasing (tls_clearAll w lb ns)" by (simp add: tls_clearAll_def emits_l4Clear)
  have wait: "emits releasing (wait_for w m i)" for m i
    by (auto simp: wait_for_def intro!: emits_intros split: option.split)
  then show "emits releasing (tls_deleteAllResources w lb res)"
    by (auto simp: tls_deleteAllResources_def tls_deleteLoadBalancerRouteResourcesByName_def deletedOrGone_def
        intro!: emits_intros split: sum.split option.split)
qed (auto simp: tls_removeDetachedRouteFinalizers_def tls_removeProgrammedState_def tls_removeDeletingRouteFinalizers_def
    intro!: emits_intros)

lemma emits_clearOnParents:
  "emits releasing store \<Longrightarrow> emits releasing orElse \<Longrightarrow> emits releasing (tls_clearOnParents w route sets store orElse parents)"
  by (induction parents) (auto intro!: emits_intros emits_detachedGateway emits_tlsReleases split: option.split)

lemma emits_deleteOnParents:
  "emits releasing (tls_deleteOnFirstParent w route res parents)" "emits releasing (tls_deleteOnSomeParent w route res parents)"
  by (induction parents) (auto intro!: emits_intros emits_tlsParent emits_tlsReleases split: option.split)

lemma emits_tlsCleanup:
  "emits releasing (tls_cleanupStaleNetworkLoadBalancerProgrammedState w r)"
  "emits releasing (tls_cleanupStaleLoadBalancerProgrammedState w r)"
  "emits releasing (tls_deprovisionDetachedRoute w r)"
proof -
  have annotated: "emits releasing (tls_deprovisionDetachedByAnnotation w r ns)" for ns
    by (auto simp: tls_deprovisionDetachedByAnnotation_def Let_def intro!: emits_intros emits_tlsReleases)
  have lb: "emits releasing (tls_deprovisionDetachedLoadBalancerRoute w r res)" for res
    by (auto simp: tls_deprovisionDetachedLoadBalancerRoute_def intro!: emits_intros emits_deleteOnParents)
  show "emits releasing (tls_cleanupStaleNetworkLoadBalancerProgrammedState w r)"
    by (auto simp: tls_cleanupStaleNetworkLoadBalancerProgrammedState_def Let_def
        intro!: emits_intros emits_tlsReleases emits_clearOnParents annotated)
  show "emits releasing (tls_cleanupStaleLoadBalancerProgrammedState w r)"
    by (auto simp: tls_cleanupStaleLoadBalancerProgrammedState_def Let_def
        intro!: emits_intros emits_tlsReleases emits_deleteOnParents)
  show "emits releasing (tls_deprovisionDetachedRoute w r)"
    by (auto simp: tls_deprovisionDetachedRoute_def tls_deprovisionDetachedNetworkLoadBalancerRoute_def Let_def
        intro!: emits_intros emits_tlsReleases emits_clearOnParents annotated lb)
qed

text \<open>The model of backend TLS policies sets up certificate authorities and nothing else.\<close>

definition resolverEmits :: "(lb_call \<Rightarrow> bool) \<Rightarrow> backend_tls_resolver \<Rightarrow> bool" where
  "resolverEmits P policy \<longleftrightarrow> (\<forall>resolve g s ref. policy = Some resolve \<longrightarrow> emits P (resolve g s ref))"

lemma emits_tlsHealthPort:
  assumes "\<And>c. reading c \<Longrightarrow> P c"
  shows "emits P (tls_routeHealthCheckPort w route)"
  using assms by (auto simp: tls_routeHealthCheckPort_def tls_backendRefHealthCheckPort_def tls_resolveBackendRefServicePort_def
      resolveL4BackendRefServicePort_def referenceGrantAllowsServiceBackend_def Let_def
      intro!: emits_intros split: option.split sum.split prod.split)

lemma emits_tlsConfig:
  assumes "\<And>c. reading c \<Longrightarrow> P c" "resolverEmits P policy"
  shows "emits P (tls_loadBalancerBackendTLSConfigForRoute w policy disabled d)"
proof -
  have "emits P (tlsConfigLoop w resolve d done' refs)" if "policy = Some resolve" for resolve done' refs
  proof (induction refs arbitrary: done')
    case (Cons ref refs)
    have "emits P (tls_loadBalancerBackendTLSConfigForRef w resolve d ref)"
      using assms that by (auto simp: tls_loadBalancerBackendTLSConfigForRef_def resolverEmits_def
          intro!: emits_intros split: sum.split prod.split)
    with Cons show ?case by (auto intro!: emits_intros split: sum.split option.split prod.split)
  qed (auto intro!: emits_intros)
  then show ?thesis by (auto simp: tls_loadBalancerBackendTLSConfigForRoute_def intro!: emits_intros split: option.split)
qed

lemma emits_tlsTerminate:
  assumes "\<And>c. reading c \<Longrightarrow> P c" "\<And>lb d. P (CreateBackendSet lb d)" "\<And>lb n d. P (UpdateBackendSet lb n d)"
    and "\<And>lb d. P (CreateListener lb d)" "\<And>lb n d. P (UpdateListener lb n d)" "\<And>lb d. P (CreateCertificate lb d)"
    and "resolverEmits P policy"
  shows "emits P (tls_programLoadBalancerTerminateRoute cache w policy disabled d)"
proof -
  have certificates: "emits P (reconcileListenersCertificates cache w lb g ls known)" for lb g ls known
    by (rule emits_mono [OF reconcileListenersCertificates_uploads_new]) (use assms in \<open>auto elim: uploadsOnly.elims\<close>)
  have set: "emits P (tls_reconcileLoadBalancerBackendSet w lb n e bs port ssl)" for lb n e bs port ssl
    using assms by (auto simp: tls_reconcileLoadBalancerBackendSet_def Let_def intro!: emits_intros split: option.split)
  have listener: "emits P (tls_reconcileLoadBalancerTLSListener w lb n e l ssl)" for lb n e l ssl
    using assms by (auto simp: tls_reconcileLoadBalancerTLSListener_def Let_def intro!: emits_intros split: option.split)
  show ?thesis
    using assms by (auto simp: tls_programLoadBalancerTerminateRoute_def tls_programTerminateOn_def Let_def
        tls_loadBalancerBackendsForRoute_def tls_endpointBackendsForRoute_def
        intro!: emits_intros emits_wrapped certificates set listener emits_tlsConfig emits_tlsHealthPort split: sum.split)
qed

lemma emits_tlsPassthrough:
  assumes "\<And>c. reading c \<Longrightarrow> P c" "\<And>i n d. P (NlbUpdateBackendSet i n d)" "\<And>i n m. P (NlbDeleteBackend i n m)"
    and "\<And>i n d. P (NlbCreateBackend i n d)" "\<And>i n m d. P (NlbUpdateBackend i n m d)"
  shows "emits P (tls_programNetworkLoadBalancerPassthroughRoute w d)"
proof -
  have clear: "emits P (tls_clearNLBBackendSet w d)"
    using assms by (auto simp: tls_clearNLBBackendSet_def tcpRoute_clearBackendSetByName_def intro!: emits_l4Clear)
  have update: "emits P (tls_updateNLBBackendSet w d n bs)" for n bs
    using assms by (auto simp: tls_updateNLBBackendSet_def Let_def
        intro!: emits_intros emits_tlsHealthPort emits_updateNlbBackendSet split: option.split)
  have gate: "emits P (programGate w params)" if "pl_clear params = tls_clearNLBBackendSet w d" for params
    using that clear assms(1) by (auto intro!: emits_programGate)
  show ?thesis
    unfolding tls_programNetworkLoadBalancerPassthroughRoute_def programL4Route_parts programRest_def
    using clear update assms
    by (auto simp: newProgramL4RouteParams_def tls_endpointBackendsForRoute_def
        intro!: emits_intros gate emits_programBackends)
qed

lemma tls_exclusive:
  assumes "resolverEmits (\<lambda>_. True) policy"
  shows "exclusive_program ''TLSRoute'' tlsRouteMatchesListener tlsGate tls_ensureExclusiveListenerOwner
    (tlsRest cache policy disabled) (\<lambda>w. tls_programRoute cache w policy disabled)"
proof
  show "emits (\<lambda>c. \<not> fills c) (tlsGate w d)" for w d
    by (auto simp: tlsGate_def intro!: emits_intros split: option.split)
  show "tlsGate w d h = (Inr x, h') \<Longrightarrow> l4RouteKindAllowed (ld_listener d) ''TLSRoute''" for w d h x h'
    by (auto simp: tlsGate_def eff_fail_run allows_kind elim!: eff_bind_InrE split: option.splits if_splits)
  show "extends (tlsRest cache policy disabled w d)" for w d
    unfolding extends_def tlsRest_def using assms
    by (auto intro!: emits_intros emits_tlsTerminate emits_tlsPassthrough emits_mono [OF emits_tlsCleanup(1)]
        emits_mono [OF emits_tlsCleanup(2)])
  show "tls_programRoute cache w policy disabled d =
      eff_bind (tlsGate w d) (\<lambda>_. eff_bind (tls_ensureExclusiveListenerOwner w d) (\<lambda>_. tlsRest cache policy disabled w d))"
    for w d by (rule tlsProgram_parts)
qed (auto simp: tls_ensureExclusiveListenerOwner_def tls_matchingRoutesForListener_def)

interpretation tcp_listeners: exclusive_program "''TCPRoute''" tcpRouteMatchesListener "l4Gate tcp_kind"
  tcpRoute_ensureExclusiveListenerOwner "l4Rest tcp_kind" tcpRoute_programRoute
  using l4_exclusive [of tcp_kind]
  by (simp add: tcpRoute_ensureExclusiveListenerOwner_def tcpRoute_programRoute_def tcp_kind_def)

interpretation udp_listeners: exclusive_program "''UDPRoute''" udpRouteMatchesListener "l4Gate udp_kind"
  udpRoute_ensureExclusiveListenerOwner "l4Rest udp_kind" udpRoute_programRoute
  using l4_exclusive [of udp_kind]
  by (simp add: udpRoute_ensureExclusiveListenerOwner_def udpRoute_programRoute_def udp_kind_def)

text \<open>The three kinds, with what programs a route of the kind.\<close>

definition l4Programs ::
    "cert_cache \<Rightarrow> backend_tls_resolver \<Rightarrow> bool \<Rightarrow>
      (string \<times> (parent_ref \<Rightarrow> gw_listener \<Rightarrow> bool) \<times> (lb_env \<Rightarrow> l4_route_details \<Rightarrow> unit lb_op)) list" where
  "l4Programs cache policy disabled =
     [(''TCPRoute'', tcpRouteMatchesListener, tcpRoute_programRoute),
      (''UDPRoute'', udpRouteMatchesListener, udpRoute_programRoute),
      (''TLSRoute'', tlsRouteMatchesListener, \<lambda>w. tls_programRoute cache w policy disabled)]"

text \<open>
  C5: A listener has one owner. Whenever programming a TCPRoute, UDPRoute or TLSRoute creates or
  changes a backend of a Network Load Balancer, or a backend set or listener of a Load Balancer,
  the routes were listed before, and of those attached to the listener no other is older (or as
  old with a smaller name), however often other controllers wrote in between; and the listener
  takes routes of this kind.
\<close>

theorem owner_before_backends:
  assumes "(kind, attaches, program) \<in> set (l4Programs cache policy disabled)" "resolverEmits (\<lambda>_. True) policy"
    and "snd (program w d h) = h @ xs @ c # ys" "fills c"
  shows "l4RouteKindAllowed (ld_listener d) kind \<and> (\<exists>ps qs routes. xs = ps @ ListL4Routes kind # qs \<and>
    env_l4_routes w (h @ ps) kind = Inr routes \<and> ownsListener d attaches routes)"
  using assms tcp_listeners.fills_owned [of w d h xs c ys] udp_listeners.fills_owned [of w d h xs c ys]
    exclusive_program.fills_owned [OF tls_exclusive [OF assms(2), of cache disabled], of w d h xs c ys]
  unfolding l4Programs_def by auto

text \<open>A TCPRoute for the listener of \<open>tcpGatewayDetails\<close>, its Service and one ready endpoint.\<close>

definition tcpService :: k8s_service where
  "tcpService = \<lparr>svc_namespace = ''ns'', svc_name = ''svc'', svc_ports = [\<lparr>sp_name = [], sp_port = 80,
     sp_target_port = \<lparr>tp_is_string = False, tp_int_val = 8, tp_int_value = 8\<rparr>\<rparr>]\<rparr>"

definition tcpSlice :: endpoint_slice where
  "tcpSlice = \<lparr>es_endpoints = [\<lparr>ep_addresses = [''10.0.0.1''], ep_ready = Some True, ep_terminating = None\<rparr>],
     es_ports = [\<lparr>epp_name = None, epp_port = Some 8\<rparr>]\<rparr>"

definition tcpRouteNamed :: "string \<Rightarrow> string \<Rightarrow> int \<Rightarrow> l4_route" where
  "tcpRouteNamed ns name created = \<lparr>rt_namespace = ns, rt_name = name, rt_creation = created, rt_generation = 1, rt_deleting = False,
     rt_finalizers = [], rt_annotations = [],
     rt_parent_refs = [\<lparr>pr_group = None, pr_kind = None, pr_namespace = Some ''ns'', pr_name = ''gw'', pr_section = None, pr_port = None\<rparr>],
     rt_hostnames = [], rt_rules = [\<lparr>rr_name = None, rr_matches = [], rr_backend_refs = [\<lparr>br_group = None, br_kind = None,
       br_name = ''svc'', br_namespace = None, br_port = Some 80, br_weight = None\<rparr>]\<rparr>], rt_parents = []\<rparr>"

definition tcpRoutesEnv :: "l4_route list \<Rightarrow> lb_env" where
  "tcpRoutesEnv routes = nlbEnv\<lparr>env_service := \<lambda>_ _ _. Inr tcpService, env_endpoint_slices := \<lambda>_ _ _. Inr [tcpSlice],
     env_l4_routes := \<lambda>_ _. Inr routes\<rparr>"

definition tcpDetails :: "l4_route \<Rightarrow> l4_route_details" where
  "tcpDetails route = \<lparr>ld_gateway = tcpGatewayDetails, ld_route = route, ld_ref = gatewayRef ''gw'',
     ld_listener = plainListener ''tcp'' 9000 ''TCP''\<rparr>"

definition tcpRouteCalls :: "lb_call list" where
  "tcpRouteCalls = snd (tcpRoute_programRoute (tcpRoutesEnv [tcpRouteNamed ''ns'' ''b'' 2, tcpRouteNamed ''ns'' ''a'' 1])
     (tcpDetails (tcpRouteNamed ''ns'' ''a'' 1)) [])"

lemma tcp_route_fills: "list_ex fills tcpRouteCalls"
  by code_simp

theorem owner_before_backends_witness:
  "\<exists>xs c ys ps qs. tcpRouteCalls = xs @ c # ys \<and> fills c \<and> xs = ps @ ListL4Routes ''TCPRoute'' # qs \<and>
    ownsListener (tcpDetails (tcpRouteNamed ''ns'' ''a'' 1)) tcpRouteMatchesListener
      [tcpRouteNamed ''ns'' ''b'' 2, tcpRouteNamed ''ns'' ''a'' 1]"
proof -
  let ?w = "tcpRoutesEnv [tcpRouteNamed ''ns'' ''b'' 2, tcpRouteNamed ''ns'' ''a'' 1]"
  let ?d = "tcpDetails (tcpRouteNamed ''ns'' ''a'' 1)"
  have answer: "env_l4_routes ?w h kind = Inr [tcpRouteNamed ''ns'' ''b'' 2, tcpRouteNamed ''ns'' ''a'' 1]" for h kind
    by (simp add: tcpRoutesEnv_def)
  obtain xs c ys where calls: "tcpRouteCalls = xs @ c # ys" and c: "fills c"
    using tcp_route_fills by (auto simp: list_ex_iff in_set_conv_decomp)
  have "(''TCPRoute'', tcpRouteMatchesListener, tcpRoute_programRoute) \<in> set (l4Programs undefined None False)"
    "resolverEmits (\<lambda>_. True) None" by (simp_all add: l4Programs_def resolverEmits_def)
  from owner_before_backends [OF this _ c, of ?w ?d "[]" xs ys] calls obtain ps qs routes where
    "xs = ps @ ListL4Routes ''TCPRoute'' # qs" "env_l4_routes ?w ps ''TCPRoute'' = Inr routes"
    "ownsListener ?d tcpRouteMatchesListener routes" unfolding tcpRouteCalls_def by auto
  then show ?thesis using calls c by (metis answer sum.inject(2))
qed

section \<open>A deleted route is released last\<close>

text \<open>Writing a route of a kind without a finalizer.\<close>

fun releases :: "string \<Rightarrow> lb_call \<Rightarrow> bool" where
  "releases finalizer (UpdateL4Route _ r) \<longleftrightarrow> finalizer \<notin> set (rt_finalizers r)"
| "releases finalizer _ \<longleftrightarrow> False"

lemma reading_releases: "reading c \<Longrightarrow> \<not> releases f c"
  by (cases c) auto

lemma emits_setL4RouteProgrammed:
  assumes "\<And>r. lp_finalizer params \<in> set (rt_finalizers r) \<Longrightarrow> P (UpdateL4Route (lp_kind params) r)"
    and "\<And>c. reading c \<Longrightarrow> P c" "\<And>r cs. emits P (status r cs)"
  shows "emits P (setL4RouteProgrammed w params route status)"
proof -
  have finalizer: "lp_finalizer params \<in> set (rt_finalizers (snd (applyL4RouteProgrammedMetadata params r)))" for r
    by (simp add: applyL4RouteProgrammedMetadata_def Let_def addFinalizer_def)
  have retry: "emits P (updateL4RouteProgrammedMetadataAfterConflict w params r)" for r
    using assms(1,2) finalizer by (auto simp: updateL4RouteProgrammedMetadataAfterConflict_def
        intro!: emits_intros split: sum.split option.split)
  have "emits P (updateL4RouteProgrammedMetadata w params r)" if "lp_finalizer params \<in> set (rt_finalizers r)" for r
    using assms(1) that retry by (auto simp: updateL4RouteProgrammedMetadata_def intro!: emits_intros split: option.split)
  then show ?thesis
    using finalizer [of route] assms(3) by (auto simp: setL4RouteProgrammed_def intro!: emits_intros split: prod.split)
qed

lemma emits_parentStatus:
  assumes "\<And>r. P (UpdateL4RouteStatus kind r)" "\<And>c. reading c \<Longrightarrow> P c"
  shows "emits P (l4UpdateParentStatus kind merge w r ref cs)"
  using assms by (auto simp: l4UpdateParentStatus_def l4StatusAfterConflict_def Let_def
      intro!: emits_intros split: sum.split option.split)

lemma emits_l4SetProgrammed:
  assumes "\<And>r. k4_finalizer k \<in> set (rt_finalizers r) \<Longrightarrow> P (UpdateL4Route (k4_kind k) r)"
    and "\<And>c. reading c \<Longrightarrow> P c" "\<And>r. P (UpdateL4RouteStatus (k4_kind k) r)"
  shows "emits P (l4SetProgrammed k w d)"
  using assms by (auto simp: l4SetProgrammed_def l4ParentStatus_def intro!: emits_setL4RouteProgrammed emits_parentStatus)

lemma emits_l4Program:
  assumes "\<And>c. reading c \<Longrightarrow> P c" "\<And>i n d. P (NlbUpdateBackendSet i n d)" "\<And>i n m. P (NlbDeleteBackend i n m)"
    and "\<And>i n d. P (NlbCreateBackend i n d)" "\<And>i n m d. P (NlbUpdateBackend i n m d)"
  shows "emits P (l4ProgramRoute k w d)"
proof -
  have owner: "emits P (l4EnsureExclusiveListenerOwner k w d)"
    using assms(1) by (auto simp: l4EnsureExclusiveListenerOwner_def l4MatchingRoutesForListener_def
        listMatchingL4RoutesForListener_def ensureExclusiveL4ListenerOwner_def intro!: emits_intros split: sum.split list.split)
  show ?thesis
    unfolding l4ProgramRoute_def programL4Route_parts programRest_def using assms owner
    by (auto intro!: emits_intros emits_programGate emits_l4Clear emits_l4Update emits_programBackends)
qed

lemma emits_nextEligible:
  "(\<And>c. reading c \<Longrightarrow> P c) \<Longrightarrow> emits P (l4NextEligibleRouteForListener k w d)"
  by (auto simp: l4NextEligibleRouteForListener_def l4MatchingRoutesForListener_def listMatchingL4RoutesForListener_def
      intro!: emits_intros split: sum.split)

text \<open>What comes before the release.\<close>

definition handOver :: "deprovision_l4_params \<Rightarrow> unit lb_op" where
  "handOver params =
     eff_bind (dl_next params) (\<lambda>nextRoute. case nextRoute of
         None \<Rightarrow> dl_clear params
       | Some nxt \<Rightarrow>
           eff_bind (wrapped (l4ObjectText ''failed to program next '' (dl_kind params) (ld_route nxt) '': '')
             (dl_program params nxt)) (\<lambda>_.
           wrapped (l4ObjectText ''failed to set next '' (dl_kind params) (ld_route nxt) '' programmed status: '')
             (dl_setProgrammed params nxt)))"

lemma deprovision_handOver:
  "deprovisionL4Route w params = eff_bind (handOver params) (\<lambda>_.
     l4StoreReleased w (dl_kind params) (l4Released (dl_finalizer params) (dl_annotation params) (dl_route params))
       ''failed to remove finalizer from '' '': '')"
  by (simp add: deprovisionL4Route_def handOver_def eff_bind_assoc)

lemma stored_calls: "snd (l4StoreReleased w k r a b h) = h @ [UpdateL4Route k r]"
  by (simp add: l4StoreReleased_def eff_bind_Inr [OF gateway_run(7)] eff_return_run eff_fail_run split: option.split)

lemma deprovision_last:
  assumes "emits (\<lambda>c. \<not> releases f c) (handOver params)"
    and "snd (deprovisionL4Route w params h) = h @ xs @ UpdateL4Route kind r # ys" "f \<notin> set (rt_finalizers r)"
  shows "ys = [] \<and> kind = dl_kind params \<and> r = l4Released (dl_finalizer params) (dl_annotation params) (dl_route params) \<and>
    handOver params h = (Inr (), h @ xs)"
proof -
  let ?store = "\<lambda>_. l4StoreReleased w (dl_kind params)
      (l4Released (dl_finalizer params) (dl_annotation params) (dl_route params)) ''failed to remove finalizer from '' '': ''"
  have extends: "extends (?store x)" for x by (auto simp: extends_def intro!: emits_intros)
  from emits_guard [OF assms(1) extends assms(2) [unfolded deprovision_handOver]] assms(3)
  obtain x cs us where "handOver params h = (Inr x, h @ cs)" "xs = cs @ us"
    "snd (?store x (h @ cs)) = (h @ cs) @ us @ UpdateL4Route kind r # ys" by auto
  then show ?thesis by (auto simp: stored_calls append_eq_Cons_conv Cons_eq_append_conv)
qed

text \<open>
  C6: When a deleted TCPRoute or UDPRoute is written without its finalizer, this is the last call
  and the records of what was programmed go with it. Before, either the backend set of the
  listener was cleared without an error, or the next route in line was programmed and carries the
  finalizer itself.
\<close>

theorem l4_route_released_last:
  assumes "snd (l4DeprovisionRoute k w d h) = h @ xs @ UpdateL4Route kind r # ys"
    and "k4_finalizer k \<notin> set (rt_finalizers r)"
  shows "ys = [] \<and> kind = k4_kind k \<and> r = l4Released (k4_finalizer k) (k4_backend_sets k) (ld_route d) \<and>
    (\<exists>h1 nxt. l4NextEligibleRouteForListener k w d h = (Inr nxt, h1) \<and>
      (case nxt of None \<Rightarrow> l4ClearBackendSet k w d h1 = (Inr (), h @ xs)
       | Some n \<Rightarrow> \<exists>h2. l4ProgramRoute k w n h1 = (Inr (), h2) \<and> l4SetProgrammed k w n h2 = (Inr (), h @ xs)))"
proof -
  let ?params = "\<lparr>dl_kind = k4_kind k, dl_route = ld_route d, dl_finalizer = k4_finalizer k, dl_annotation = k4_backend_sets k,
      dl_next = l4NextEligibleRouteForListener k w d, dl_program = l4ProgramRoute k w,
      dl_setProgrammed = l4SetProgrammed k w, dl_clear = l4ClearBackendSet k w d\<rparr>"
  have quiet: "emits (\<lambda>c. \<not> releases (k4_finalizer k) c) (handOver ?params)"
    by (auto simp: handOver_def reading_releases intro!: emits_intros emits_wrapped emits_nextEligible emits_l4Program
        emits_l4SetProgrammed emits_l4Clear split: option.split)
  from deprovision_last [OF quiet assms(1) [unfolded l4DeprovisionRoute_def] assms(2)]
  have "ys = []" "kind = k4_kind k" "r = l4Released (k4_finalizer k) (k4_backend_sets k) (ld_route d)"
    and "handOver ?params h = (Inr (), h @ xs)" by simp_all
  from this(4) obtain h1 nxt where "l4NextEligibleRouteForListener k w d h = (Inr nxt, h1)" "case nxt of
      None \<Rightarrow> l4ClearBackendSet k w d h1 = (Inr (), h @ xs)
    | Some n \<Rightarrow> \<exists>h2. l4ProgramRoute k w n h1 = (Inr (), h2) \<and> l4SetProgrammed k w n h2 = (Inr (), h @ xs)"
    unfolding handOver_def by (auto elim!: eff_bind_InrE simp: wrapped_Inr split: option.split option.splits)
  with \<open>ys = []\<close> \<open>kind = _\<close> \<open>r = _\<close> show ?thesis by blast
qed

definition deletedRoute :: l4_route where
  "deletedRoute = (tcpRouteNamed ''ns'' ''a'' 1)\<lparr>rt_deleting := True, rt_finalizers := [NetworkLoadBalancerTCPRouteProgrammedFinalizer],
     rt_annotations := [(NetworkLoadBalancerTCPRouteProgrammedBackendSetsAnnotation, ''tcp'')]\<rparr>"

definition releaseCalls :: "lb_call list" where
  "releaseCalls = snd (l4DeprovisionRoute tcp_kind (tcpRoutesEnv [deletedRoute]) (tcpDetails deletedRoute) [])"

lemma release_run: "releaseCalls \<noteq> [] \<and> (case last releaseCalls of
    UpdateL4Route k r \<Rightarrow> NetworkLoadBalancerTCPRouteProgrammedFinalizer \<notin> set (rt_finalizers r) | _ \<Rightarrow> False)"
  by code_simp

theorem l4_route_released_last_witness:
  "\<exists>xs r. releaseCalls = xs @ [UpdateL4Route ''TCPRoute'' r] \<and>
    r = l4Released NetworkLoadBalancerTCPRouteProgrammedFinalizer NetworkLoadBalancerTCPRouteProgrammedBackendSetsAnnotation deletedRoute"
proof -
  obtain k r where r: "last releaseCalls = UpdateL4Route k r" "k4_finalizer tcp_kind \<notin> set (rt_finalizers r)"
    using release_run by (cases "last releaseCalls") (auto simp: tcp_kind_def)
  then have calls: "releaseCalls = [] @ butlast releaseCalls @ UpdateL4Route k r # []"
    using release_run append_butlast_last_id [of releaseCalls] by simp
  from l4_route_released_last [OF calls [unfolded releaseCalls_def] r(2)] calls show ?thesis
    by (auto simp: tcp_kind_def tcpDetails_def)
qed

section \<open>Where the release is stuck\<close>

definition fails :: "('c, 'e, 'a) eff \<Rightarrow> bool" where
  "fails m \<longleftrightarrow> (\<forall>h. \<exists>e. fst (m h) = Inl e)"

lemma fails_run: "fails m \<Longrightarrow> eff_bind m f h = (case m h of (Inl e, h') \<Rightarrow> (Inl e, h') | (Inr x, h') \<Rightarrow> f x h')"
  by (auto simp: eff_bind_def split: sum.split prod.split)

lemma fails_fail: "fails (eff_fail e)"
  by (simp add: fails_def eff_fail_run)

lemma fails_first: "fails m \<Longrightarrow> fails (eff_bind m f)"
  by (auto simp: fails_def eff_bind_def split: sum.split prod.split) (metis fst_conv sum.distinct(1))

lemma fails_then: "(\<And>x. fails (f x)) \<Longrightarrow> fails (eff_bind m f)"
  by (auto simp: fails_def eff_bind_def split: sum.split prod.split)

lemma fails_post: "yields Q m \<Longrightarrow> (\<And>x. Q x \<Longrightarrow> fails (f x)) \<Longrightarrow> fails (eff_bind m f)"
  unfolding fails_def
proof
  fix h
  assume "yields Q m" "\<And>x. Q x \<Longrightarrow> \<forall>h. \<exists>e. fst (f x h) = Inl e"
  then show "\<exists>e. fst (eff_bind m f h) = Inl e"
    by (cases "m h"; cases "fst (m h)") (auto simp: eff_bind_def dest: yieldsD)
qed

lemma fails_wrapped: "fails m \<Longrightarrow> fails (wrapped pre m)"
  by (auto simp: fails_def wrapped_def eff_bind_attempt eff_fail_run eff_return_run split: sum.split)
     (metis sum.distinct(1))

lemma emits_fails: "fails m \<Longrightarrow> emits P m \<Longrightarrow> emits P (eff_bind m f)"
  unfolding emits_def fails_def eff_bind_def
  by (auto split: sum.split prod.split) (metis fst_conv snd_conv sum.distinct(1))+

definition balancerGone :: "lb_env \<Rightarrow> string \<Rightarrow> bool" where
  "balancerGone w i \<longleftrightarrow> (\<forall>h. \<exists>e. env_nlb w h i = Inl e \<and> svc_has_status 404 e)"

lemma gone_fails:
  assumes "balancerGone w i"
  shows "fails (getNetworkLoadBalancer w i)" "fails (ensureNetworkLoadBalancer w i)"
proof -
  have "fails (getNetworkLoadBalancerByID w i)"
    unfolding fails_def getNetworkLoadBalancerByID_def
  proof
    fix h
    obtain e where "env_nlb w h i = Inl e" using assms by (auto simp: balancerGone_def)
    then show "\<exists>e. fst (eff_bind (get_nlb w i) (\<lambda>r. case r of
        Inr nlb \<Rightarrow> eff_return nlb
      | Inl err \<Rightarrow> if svc_has_status 404 err then eff_fail (ErrResourceStatus ''Programmed'' ''Pending''
            (errtext ''referenced OCI Network Load Balancer '' i '' not found'') None)
          else eff_fail (ErrWrap (errtext ''failed to get OCI Network Load Balancer '' i '': '') (ErrService err) [])) h) = Inl e"
      by (simp add: eff_bind_Inr [OF nlb_run(1)] eff_fail_run)
  qed
  then show "fails (getNetworkLoadBalancer w i)" "fails (ensureNetworkLoadBalancer w i)"
    by (auto simp: getNetworkLoadBalancer_def ensureNetworkLoadBalancer_def networkLoadBalancerID_def fails_fail)
qed

lemma clear_gone: "balancerGone w (rd_loadBalancerID (ld_gateway d)) \<Longrightarrow> fails (l4ClearBackendSet k w d)"
  unfolding l4ClearBackendSet_def l4ClearNamed_def l4ClearBackendSetByName_def by (intro fails_first gone_fails)

lemma program_gone:
  assumes "balancerGone w (rd_loadBalancerID (ld_gateway d))"
  shows "fails (l4ProgramRoute k w d)"
proof -
  have "fails (l4UpdateBackendSet k w d n bs)" for n bs
    using gone_fails [OF assms] by (auto simp: l4UpdateBackendSet_def intro: fails_fail fails_first split: sum.split)
  then have "fails (programL4Backends (l4ProgramRouteParams k w d))"
    unfolding programL4Backends_def by (auto intro!: fails_then fails_fail split: sum.split)
  then show ?thesis
    unfolding l4ProgramRoute_def programL4Route_parts programRest_def by (intro fails_then)
qed

text \<open>
  When the Network Load Balancer of a deleted TCPRoute or UDPRoute does not exist any more, the
  route is never released: clearing its backend set, or giving the listener to the next route, asks
  for the load balancer, takes the answer 404 for an error, and no route is written.
\<close>

theorem l4_route_stuck_without_balancer:
  assumes "balancerGone w (rd_loadBalancerID (ld_gateway d))"
  shows "fails (l4DeprovisionRoute k w d) \<and> emits (\<lambda>c. \<forall>kind r. c \<noteq> UpdateL4Route kind r) (l4DeprovisionRoute k w d)"
proof -
  let ?P = "\<lambda>c. \<forall>kind r. c \<noteq> UpdateL4Route kind r"
  let ?params = "\<lparr>dl_kind = k4_kind k, dl_route = ld_route d, dl_finalizer = k4_finalizer k, dl_annotation = k4_backend_sets k,
      dl_next = l4NextEligibleRouteForListener k w d, dl_program = l4ProgramRoute k w,
      dl_setProgrammed = l4SetProgrammed k w, dl_clear = l4ClearBackendSet k w d\<rparr>"
  let ?branch = "\<lambda>nextRoute. case nextRoute of None \<Rightarrow> l4ClearBackendSet k w d
    | Some nxt \<Rightarrow> eff_bind (wrapped (l4ObjectText ''failed to program next '' (k4_kind k) (ld_route nxt) '': '')
        (l4ProgramRoute k w nxt)) (\<lambda>_. wrapped (l4ObjectText ''failed to set next '' (k4_kind k) (ld_route nxt)
          '' programmed status: '') (l4SetProgrammed k w nxt))"
  have quiet: "reading c \<Longrightarrow> ?P c" for c by auto
  have step: "yields (\<lambda>nxt. \<forall>n. nxt = Some n \<longrightarrow> ld_gateway n = ld_gateway d) (l4NextEligibleRouteForListener k w d)"
    unfolding l4NextEligibleRouteForListener_def
    by (intro yields_bind yields_return) (auto simp: nextOwner_def split: list.splits)
  have branch: "fails (?branch nxt) \<and> emits ?P (?branch nxt)" if "\<forall>n. nxt = Some n \<longrightarrow> ld_gateway n = ld_gateway d" for nxt
  proof (cases nxt)
    case None
    then show ?thesis using clear_gone [OF assms] by (auto intro!: emits_l4Clear)
  next
    case (Some n)
    then have "fails (l4ProgramRoute k w n)" using that assms by (intro program_gone) simp
    then show ?thesis using Some by (auto intro!: fails_first fails_wrapped emits_fails emits_wrapped emits_l4Program)
  qed
  have "fails (handOver ?params)" "emits ?P (handOver ?params)"
    unfolding handOver_def using branch
    by (auto intro!: fails_post [OF step] emits_bind_post [OF emits_nextEligible step])
  then show ?thesis
    unfolding l4DeprovisionRoute_def deprovision_handOver by (auto intro: fails_first emits_fails)
qed

theorem l4_route_stuck_without_balancer_witness:
  "fails (l4DeprovisionRoute tcp_kind agreeable_env (tcpDetails deletedRoute)) \<and>
   emits (\<lambda>c. \<forall>kind r. c \<noteq> UpdateL4Route kind r) (l4DeprovisionRoute tcp_kind agreeable_env (tcpDetails deletedRoute))"
  by (rule l4_route_stuck_without_balancer) (simp add: balancerGone_def agreeable_env_def)

text \<open>Permission is checked for a route itself, not for the routes it competes with.\<close>

text \<open>
  A route that its listener refuses can still hold the listener. An older TCPRoute from a
  namespace that the listener does not take is refused; the younger TCPRoute that the listener
  takes is refused as well, with nothing written, because the listener already has a route. And a
  deleted TCPRoute that was programmed is not released while the refused one is next in line.
\<close>

theorem refused_route_blocks:
  "(let refused = tcpRouteNamed ''other'' ''old'' 0; allowed = tcpRouteNamed ''ns'' ''a'' 1;
        w = tcpRoutesEnv [allowed, refused]
    in errors_as (route_status_of ''TCPRoute'') (projl (fst (tcpRoute_programRoute w (tcpDetails refused) []))) =
        Some (''Accepted'', ''NotAllowedByListeners'', ''listener tcp does not allow TCPRoute other/old'') \<and>
      errors_as (route_status_of ''TCPRoute'') (projl (fst (tcpRoute_programRoute w (tcpDetails allowed) []))) =
        Some (''Accepted'', ''NotAllowedByListeners'', ''listener tcp already has an attached TCPRoute other/old'') \<and>
      list_all reading (snd (tcpRoute_programRoute w (tcpDetails allowed) []))) \<and>
   (let refused = tcpRouteNamed ''other'' ''old'' 0; w = tcpRoutesEnv [deletedRoute, refused]
    in isl (fst (tcpRoute_deprovisionRoute w (tcpDetails deletedRoute) [])) \<and>
      list_all reading (snd (tcpRoute_deprovisionRoute w (tcpDetails deletedRoute) [])))"
  by code_simp

section \<open>What a route records\<close>

text \<open>The statuses of a route have one entry per controller and parent.\<close>

definition parentKey :: "string \<Rightarrow> parent_ref \<Rightarrow> string \<times> string \<times> string \<times> string \<times> string" where
  "parentKey controller ref = (controller, pr_name ref, str_ptr (pr_namespace ref), str_ptr (pr_kind ref), str_ptr (pr_group ref))"

definition statusKeys :: "route_parent_status list \<Rightarrow> (string \<times> string \<times> string \<times> string \<times> string) list" where
  "statusKeys parents = map (\<lambda>s. parentKey (rps_controller s) (rps_ref s)) parents"

lemma matches_key: "l4ParentMatches c ref s \<longleftrightarrow> parentKey (rps_controller s) (rps_ref s) = parentKey c ref"
  by (auto simp: l4ParentMatches_def parentRefSameTarget_def parentKey_def)

lemma updated_key: "l4ParentMatches c ref s \<Longrightarrow>
    parentKey (rps_controller (updatedParent c ref cs s)) (rps_ref (updatedParent c ref cs s)) = parentKey c ref"
  by (simp add: updatedParent_def)

lemma merge_keys:
  "statusKeys (mergeParentsLoop c ref cs parents) =
    (if parentKey c ref \<in> set (statusKeys parents) then statusKeys parents else statusKeys parents @ [parentKey c ref])"
  by (induction parents) (auto simp: statusKeys_def matches_key updatedParent_def)

lemma merge_others:
  "filter (\<lambda>s. \<not> l4ParentMatches c ref s) (mergeParentsLoop c ref cs parents) = filter (\<lambda>s. \<not> l4ParentMatches c ref s) parents"
  by (induction parents) (auto simp: matches_key updatedParent_def)

lemma merge_all_is_first:
  "distinct (statusKeys parents) \<Longrightarrow> mergeTLSRouteParentStatus c parents ref cs = mergeParentsLoop c ref cs parents"
proof (induction parents)
  case (Cons s parents)
  show ?case
  proof (cases "l4ParentMatches c ref s")
    case True
    then have "\<forall>t\<in>set parents. \<not> l4ParentMatches c ref t"
      using Cons.prems unfolding statusKeys_def matches_key by (force simp: image_iff)
    then show ?thesis using True by (simp add: mergeTLSRouteParentStatus_def map_idI)
  next
    case False
    then show ?thesis using Cons by (auto simp: mergeTLSRouteParentStatus_def statusKeys_def split: if_splits)
  qed
qed (simp add: mergeTLSRouteParentStatus_def)

text \<open>
  C21: The statuses of the parents of a route stay well-formed: when there is one entry for each
  controller and parent, then also after a status is merged, and the entries of other controllers
  and parents are the same. On such lists updating the first entry that matches, as for TCPRoutes
  and UDPRoutes, and updating all that match, as for TLSRoutes, are the same.
\<close>

theorem parent_statuses_well_formed:
  assumes "distinct (statusKeys parents)"
  shows "distinct (statusKeys (mergeL4RouteParentStatus parents ref cs)) \<and>
    distinct (statusKeys (mergeTLSRouteParentStatus controller parents ref cs)) \<and>
    filter (\<lambda>s. \<not> l4ParentMatches NetworkLoadBalancerControllerClassName ref s) (mergeL4RouteParentStatus parents ref cs) =
      filter (\<lambda>s. \<not> l4ParentMatches NetworkLoadBalancerControllerClassName ref s) parents \<and>
    mergeTLSRouteParentStatus NetworkLoadBalancerControllerClassName parents ref cs = mergeL4RouteParentStatus parents ref cs"
  using assms by (simp add: mergeL4RouteParentStatus_def merge_keys merge_others merge_all_is_first)

definition twoParents :: "route_parent_status list" where
  "twoParents = [\<lparr>rps_ref = gatewayRef ''gw'', rps_controller = ControllerClassName, rps_conditions = []\<rparr>,
     \<lparr>rps_ref = gatewayRef ''gw'', rps_controller = NetworkLoadBalancerControllerClassName, rps_conditions = []\<rparr>]"

theorem parent_statuses_well_formed_witness:
  "distinct (statusKeys (mergeL4RouteParentStatus twoParents (gatewayRef ''other'') [])) \<and>
   mergeTLSRouteParentStatus NetworkLoadBalancerControllerClassName twoParents (gatewayRef ''gw'') [] =
     mergeL4RouteParentStatus twoParents (gatewayRef ''gw'') []"
proof -
  have "distinct (statusKeys twoParents)" by code_simp
  from parent_statuses_well_formed [OF this] show ?thesis by blast
qed

text \<open>Listeners and backend sets of a TLSRoute, as written to its annotation and read again.\<close>

definition recordableResource :: "string \<times> string \<Rightarrow> bool" where
  "recordableResource = (\<lambda>(l, b). l \<noteq> [] \<and> b \<noteq> [] \<and> CHR ''/'' \<notin> set l \<and> CHR '','' \<notin> set l \<union> set b \<and>
     plain_char (hd l) \<and> plain_char (last l) \<and> plain_char (hd b) \<and> plain_char (last b))"

lemma parse_resource_entry:
  assumes "recordableResource (l, b)"
  shows "parseTLSRouteResource m (l @ ''/'' @ b) = AList.update l b m"
proof -
  have parts: "trim_space l = l" "trim_space b = b" "trim_space (l @ ''/'' @ b) = l @ ''/'' @ b"
    using assms by (auto simp: recordableResource_def hd_append intro!: trim_space_trimmed trimmed_plain)
  have "str_cut (l @ ''/'' @ b) ''/'' = Some (l, b)"
    using assms str_cut_char [of "CHR ''/''" l b] by (simp add: recordableResource_def)
  with assms show ?thesis unfolding parseTLSRouteResource_def parts(3) Let_def
    by (simp add: tlsRouteLoadBalancerResourceSeparator_def parts recordableResource_def)
qed

lemma parse_resource_entries:
  "\<forall>n\<in>set ns. recordableResource (n, g n) \<Longrightarrow>
    map_of (foldl parseTLSRouteResource m (map (\<lambda>n. n @ ''/'' @ g n) ns)) =
      (\<lambda>k. if k \<in> set ns then Some (g k) else map_of m k)"
proof (induction ns arbitrary: m)
  case (Cons n ns)
  have entry: "parseTLSRouteResource m (n @ ''/'' @ g n) = AList.update n (g n) m"
    by (rule parse_resource_entry) (use Cons.prems in simp)
  have "foldl parseTLSRouteResource m (map (\<lambda>n. n @ ''/'' @ g n) (n # ns)) =
      foldl parseTLSRouteResource (AList.update n (g n) m) (map (\<lambda>n. n @ ''/'' @ g n) ns)"
    unfolding list.map foldl_Cons entry ..
  moreover have "map_of (foldl parseTLSRouteResource (AList.update n (g n) m) (map (\<lambda>n. n @ ''/'' @ g n) ns)) =
      (\<lambda>k. if k \<in> set ns then Some (g k) else map_of (AList.update n (g n) m) k)"
    by (rule Cons.IH) (use Cons.prems in simp)
  ultimately show ?case unfolding update_conv' by (simp only:) auto
qed simp

text \<open>
  What a TLSRoute records of its listeners and their backend sets is what a later
  reconciliation reads, so that it deletes these and no others.
\<close>

theorem tls_resources_roundtrip:
  assumes "\<forall>r\<in>set resources. recordableResource r"
  shows "map_of (annotatedLoadBalancerTLSRouteResources (route\<lparr>rt_annotations :=
      setAnnotatedLoadBalancerTLSRouteResources annotations resources\<rparr>)) = map_of resources"
proof (cases "resources = []")
  case True
  then show ?thesis
    by (simp add: annotatedLoadBalancerTLSRouteResources_def setAnnotatedLoadBalancerTLSRouteResources_def map_get_def
        parseTLSRouteResource_def delete_conv')
next
  case False
  let ?names = "sort_strings (map fst resources)"
  let ?entries = "map (\<lambda>n. n @ ''/'' @ map_get resources n) ?names"
  have good: "recordableResource (n, map_get resources n)" if "n \<in> set ?names" for n
  proof -
    obtain b where "map_of resources n = Some b" using \<open>n \<in> set ?names\<close> by (cases "map_of resources n") (auto simp: map_of_eq_None_iff)
    then show ?thesis using assms map_of_SomeD by (fastforce simp: map_get_def)
  qed
  have split: "str_split (CHR '','') (str_join '','' ?entries) = ?entries"
  proof (rule str_split_join)
    show "?entries \<noteq> []" using False mset_sort_strings [of "map fst resources"] by (metis map_is_Nil_conv mset_zero_iff)
  next
    show "\<And>x. x \<in> set ?entries \<Longrightarrow> CHR '','' \<notin> set x"
      using good unfolding recordableResource_def by fastforce
  qed
  have annotation: "map_get (AList.update LoadBalancerTLSRouteProgrammedResourcesAnnotation v annotations)
      LoadBalancerTLSRouteProgrammedResourcesAnnotation = v" for v
    by (simp add: map_get_def update_conv')
  have "annotatedLoadBalancerTLSRouteResources (route\<lparr>rt_annotations :=
      setAnnotatedLoadBalancerTLSRouteResources annotations resources\<rparr>) = foldl parseTLSRouteResource [] ?entries"
    using False split by (simp add: annotatedLoadBalancerTLSRouteResources_def setAnnotatedLoadBalancerTLSRouteResources_def
        annotation tlsRouteLoadBalancerResourceSeparator_def)
  also have "map_of \<dots> = (\<lambda>k. if k \<in> set ?names then Some (map_get resources k) else map_of [] k)"
    by (rule parse_resource_entries) (use good in blast)
  also have "\<dots> = map_of resources"
  proof
    fix k
    show "(if k \<in> set ?names then Some (map_get resources k) else map_of [] k) = map_of resources k"
    proof (cases "map_of resources k")
      case None
      then have "k \<notin> fst ` set resources" by (simp add: map_of_eq_None_iff)
      then show ?thesis using None by simp
    next
      case (Some b)
      then have "k \<in> fst ` set resources" by (force dest: map_of_SomeD)
      then show ?thesis using Some by (simp add: map_get_def)
    qed
  qed
  finally show ?thesis .
qed

theorem tls_resources_roundtrip_witness:
  "map_of (annotatedLoadBalancerTLSRouteResources (deletedRoute\<lparr>rt_annotations :=
      setAnnotatedLoadBalancerTLSRouteResources [] [(''tls'', ''bs-tls''), (''alt'', ''bs-alt'')]\<rparr>)) =
    map_of [(''tls'', ''bs-tls''), (''alt'', ''bs-alt'')]"
  by (rule tls_resources_roundtrip) (simp add: recordableResource_def plain_char_def)

section \<open>The two modes of TLS\<close>

text \<open>What fills a listener, by the load balancer it is on.\<close>

fun onBalancer :: "bool \<Rightarrow> bool \<Rightarrow> lb_call \<Rightarrow> bool" where
  "onBalancer network layer7 (NlbCreateBackend _ _ _) \<longleftrightarrow> network"
| "onBalancer network layer7 (NlbUpdateBackend _ _ _ _) \<longleftrightarrow> network"
| "onBalancer network layer7 c \<longleftrightarrow> fills c \<longrightarrow> layer7"

lemma onBalancer_quiet: "\<not> fills c \<Longrightarrow> onBalancer a b c"
  by (cases c) auto

lemma reading_fills: "reading c \<Longrightarrow> \<not> fills c"
  by (cases c) auto

text \<open>
  A TLSRoute is passed through only by a listener of mode Passthrough on a Network Load Balancer,
  and terminated only by a listener of mode Terminate on a Load Balancer: backends of a Network
  Load Balancer are written in the first case only, backend sets and listeners of a Load Balancer in
  the second only. The model of backend TLS policies is assumed to write neither.
\<close>

theorem tls_mode_decides:
  assumes "resolverEmits (\<lambda>c. \<not> fills c) policy"
  shows "emits (onBalancer
      (tlsController d = NetworkLoadBalancerControllerClassName \<and> tlsRouteMode (ld_listener d) = Some ''Passthrough'')
      (tlsController d = ControllerClassName \<and> tlsRouteMode (ld_listener d) = Some ''Terminate''))
    (tls_programRoute cache w policy disabled d)"
proof (cases "tls_validateRoute d")
  case (Some err)
  then show ?thesis by (simp add: tls_programRoute_def Let_def emits_fail)
next
  case None
  let ?P = "onBalancer
      (tlsController d = NetworkLoadBalancerControllerClassName \<and> tlsRouteMode (ld_listener d) = Some ''Passthrough'')
      (tlsController d = ControllerClassName \<and> tlsRouteMode (ld_listener d) = Some ''Terminate'')"
  have quiet: "\<not> fills c \<Longrightarrow> ?P c" and reads: "reading c \<Longrightarrow> ?P c" for c
    by (rule onBalancer_quiet, assumption) (rule onBalancer_quiet, erule reading_fills)
  have gate: "emits ?P (tlsGate w d)"
    by (auto simp: tlsGate_def intro!: emits_intros split: option.split)
  have owner: "emits ?P (tls_ensureExclusiveListenerOwner w d)"
    by (auto simp: tls_ensureExclusiveListenerOwner_def tls_matchingRoutesForListener_def listMatchingL4RoutesForListener_def
        ensureExclusiveL4ListenerOwner_def intro!: emits_intros split: sum.split list.split)
  have cleanup: "emits ?P (tls_cleanupStaleNetworkLoadBalancerProgrammedState w r)"
    "emits ?P (tls_cleanupStaleLoadBalancerProgrammedState w r)" for r
    by (rule emits_mono [OF emits_tlsCleanup(1)] emits_mono [OF emits_tlsCleanup(2)], rule quiet, simp)+
  have resolver: "resolverEmits ?P policy"
    unfolding resolverEmits_def
  proof (intro allI impI)
    fix resolve g s ref
    assume "policy = Some resolve"
    then have "emits (\<lambda>c. \<not> fills c) (resolve g s ref)" using assms by (simp add: resolverEmits_def)
    then show "emits ?P (resolve g s ref)" by (rule emits_mono) (rule quiet)
  qed
  have "emits ?P (tls_programLoadBalancerTerminateRoute cache w policy disabled d)" if "tlsController d = ControllerClassName"
    using that None resolver by - (rule emits_tlsTerminate, erule reads,
      auto simp: tls_validateRoute_def split: option.splits if_splits)
  moreover have "emits ?P (tls_programNetworkLoadBalancerPassthroughRoute w d)" if "tlsController d \<noteq> ControllerClassName"
    using that None by - (rule emits_tlsPassthrough, erule reads,
      auto simp: tls_validateRoute_def split: option.splits if_splits)
  ultimately show ?thesis
    unfolding tlsProgram_parts tlsRest_def using gate owner cleanup by (auto intro!: emits_intros)
qed

definition albTlsDetails :: "gateway \<Rightarrow> gw_listener \<Rightarrow> l4_route_details" where
  "albTlsDetails gateway listener = \<lparr>ld_gateway = resolvedGateway gateway
       \<lparr>gc_name = ''alb'', gc_controller = ControllerClassName, gc_generation = 1, gc_finalizers = [], gc_annotations = [],
        gc_conditions = []\<rparr> ''lb'',
     ld_route = tcpRouteNamed ''ns'' ''a'' 1, ld_ref = gatewayRef ''gw'', ld_listener = listener\<rparr>"

theorem tls_mode_decides_witness:
  "emits (onBalancer False False) (tls_programRoute (\<lambda>_ _. None) agreeable_env None False
    (albTlsDetails exampleGateway (plainListener ''tls'' 443 ''TLS'')))"
  using tls_mode_decides [of None "albTlsDetails exampleGateway (plainListener ''tls'' 443 ''TLS'')" "\<lambda>_ _. None" agreeable_env False]
  by (simp add: resolverEmits_def tlsRouteMode_def albTlsDetails_def plainListener_def)

text \<open>Certificates are set up for the listeners of the Gateway itself.\<close>

lemma yields_mono: "yields Q m \<Longrightarrow> (\<And>x. Q x \<Longrightarrow> R x) \<Longrightarrow> yields R m"
  unfolding yields_def by blast

lemma yields_wrapped: "yields Q m \<Longrightarrow> yields Q (wrapped pre m)"
  unfolding yields_def by (auto simp: wrapped_Inr)

lemma certificates_names:
  "yields (\<lambda>c. lc_idsByListener c = ids \<and> fst ` set (lc_byListener c) \<subseteq> fst ` set byListener \<union> l_name ` set ls)
    (listenersCertificatesLoop cache w lb gateway ids ls known byListener)"
proof (induction ls arbitrary: known byListener)
  case (Cons l ls)
  have weaker: "yields (\<lambda>c. lc_idsByListener c = ids \<and> fst ` set (lc_byListener c) \<subseteq> fst ` set byListener \<union> l_name ` set (l # ls))
      (listenersCertificatesLoop cache w lb gateway ids ls known1 b)"
    if "fst ` set b \<subseteq> insert (l_name l) (fst ` set byListener)" for known1 b
    by (rule yields_mono [OF Cons]) (simp, use that in blast)
  have "yields (\<lambda>c. lc_idsByListener c = ids \<and> fst ` set (lc_byListener c) \<subseteq> fst ` set byListener \<union> l_name ` set (l # ls))
      (case x of (certs, known1) \<Rightarrow> listenersCertificatesLoop cache w lb gateway ids ls known1
        (if certs \<noteq> [] then AList.update (l_name l) certs byListener else byListener))" for x
  proof (cases x)
    case (Pair certs known1)
    have "fst ` set (if certs \<noteq> [] then AList.update (l_name l) certs byListener else byListener)
        \<subseteq> insert (l_name l) (fst ` set byListener)" by (auto simp: dom_update)
    from weaker [OF this, of known1] show ?thesis unfolding Pair by simp
  qed
  note step = this
  show ?case
  proof (cases "map_of ids (l_name l) = None")
    case True
    show ?thesis unfolding listenersCertificatesLoop.simps True
      by (simp only: simp_thms if_False, rule yields_bind, rule step)
  next
    case False
    then show ?thesis using weaker [OF subset_insertI, of known] by simp
  qed
qed (simp add: yields_return)

text \<open>
  A TLSRoute at a listener of a ListenerSet is never terminated on a Load Balancer: certificates are
  set up for the listeners of the Gateway only, so none is found for the listener, the route is
  turned down (after its backend set was written), and no listener is created or changed.
\<close>

theorem tls_listenerset_never_terminates:
  assumes "l_name (ld_listener d) \<notin> l_name ` set (gw_listeners (rd_gateway (ld_gateway d)))"
    and "resolverEmits (\<lambda>c. \<not> fills c) policy"
  shows "fails (tls_programLoadBalancerTerminateRoute cache w policy disabled d) \<and>
    emits (\<lambda>c. \<forall>lb n l u. c \<noteq> CreateListener lb l \<and> c \<noteq> UpdateListener lb n u)
      (tls_programLoadBalancerTerminateRoute cache w policy disabled d)"
proof -
  let ?P = "\<lambda>c. \<forall>lb n l u. c \<noteq> CreateListener lb l \<and> c \<noteq> UpdateListener lb n u"
  let ?none = "\<lambda>c. \<exists>err. tls_listenerSSLConfig d c = Inl err"
  have quiet: "\<not> fills c \<Longrightarrow> ?P c" and reads: "reading c \<Longrightarrow> ?P c" for c by auto
  have ids: "map_get (certificateIDsByListener (gw_listeners (rd_gateway (ld_gateway d)))) (l_name (ld_listener d)) = []"
    using assms(1) by (force simp: certificateIDsByListener_def map_get_def map_of_slice_to_map find_None_ball image_iff
        split: option.split dest!: find_SomeD)
  have none: "yields ?none (reconcileListenersCertificates cache w lb (rd_gateway (ld_gateway d)) [] known)" for lb known
    unfolding yields_def
  proof (intro allI impI)
    fix h c h'
    assume "reconcileListenersCertificates cache w lb (rd_gateway (ld_gateway d)) [] known h = (Inr c, h')"
    from yieldsD [OF certificates_names this [unfolded reconcileListenersCertificates_def Let_def if_P [OF refl]]]
    have "lc_idsByListener c = certificateIDsByListener (gw_listeners (rd_gateway (ld_gateway d)))"
      "l_name (ld_listener d) \<notin> fst ` set (lc_byListener c)" using assms(1) by auto
    moreover from this(2) have "map_of (lc_byListener c) (l_name (ld_listener d)) = None" by (simp add: map_of_eq_None_iff)
    ultimately show "?none c" using ids by (simp add: tls_listenerSSLConfig_def Let_def)
  qed
  have certificates: "emits ?P (reconcileListenersCertificates cache w lb g ls known)" for lb g ls known
    by (rule emits_mono [OF reconcileListenersCertificates_uploads_new]) (auto elim: uploadsOnly.elims)
  have resolver: "resolverEmits ?P policy"
    unfolding resolverEmits_def
  proof (intro allI impI)
    fix resolve g s ref
    assume "policy = Some resolve"
    then have "emits (\<lambda>c. \<not> fills c) (resolve g s ref)" using assms(2) by (simp add: resolverEmits_def)
    then show "emits ?P (resolve g s ref)" by (rule emits_mono) (rule quiet)
  qed
  have set: "emits ?P (tls_reconcileLoadBalancerBackendSet w lb n e bs port ssl)" for lb n e bs port ssl
    by (auto simp: tls_reconcileLoadBalancerBackendSet_def Let_def intro!: emits_intros split: option.split)
  have last: "yields ?none (wrapped ''failed to reconcile listener certificates: ''
      (reconcileListenersCertificates cache w lb (rd_gateway (ld_gateway d)) [] known))" for lb known
    by (rule yields_wrapped [OF none])
  have "fails (tls_programTerminateOn cache w policy disabled d lb)" for lb
    unfolding tls_programTerminateOn_def Let_def
    by (rule fails_then, rule fails_then, rule fails_then, rule fails_then, rule fails_post [OF last],
        erule exE, simp only: sum.case fails_fail)
  moreover have tail: "emits ?P (eff_bind (wrapped ''failed to reconcile listener certificates: ''
        (reconcileListenersCertificates cache w (rd_loadBalancerID (ld_gateway d)) (rd_gateway (ld_gateway d)) []
          (lb_certificates lb)))
      (\<lambda>certificates. case tls_listenerSSLConfig d certificates of
          Inl err \<Rightarrow> eff_fail err
        | Inr sslConfig \<Rightarrow> tls_reconcileLoadBalancerTLSListener w (rd_loadBalancerID (ld_gateway d))
            (tlsRouteBackendSetName (ld_route d) (ld_listener d)) (map_of (lb_listeners lb) (l_name (ld_listener d)))
            (ld_listener d) sslConfig))" for lb
    by (rule emits_bind_post [OF _ last], rule emits_wrapped, rule certificates, erule exE)
      (simp only: sum.case emits_fail)
  have "emits ?P (tls_loadBalancerBackendsForRoute w (ld_route d))"
    unfolding tls_loadBalancerBackendsForRoute_def tls_endpointBackendsForRoute_def
    by (rule emits_bind [OF emits_l4Backends emits_return]) simp_all
  then have "emits ?P (tls_programTerminateOn cache w policy disabled d lb)" for lb
    unfolding tls_programTerminateOn_def Let_def
    by (rule emits_bind [OF _ emits_bind [OF emits_tlsHealthPort [OF reads] emits_bind [OF emits_tlsConfig [OF reads resolver]
      emits_bind [OF set tail]]]])
  ultimately show ?thesis
    unfolding tls_programLoadBalancerTerminateRoute_def Let_def
    by (auto intro!: fails_then fails_fail emits_intros split: sum.split)
qed

theorem tls_listenerset_never_terminates_witness:
  "fails (tls_programLoadBalancerTerminateRoute (\<lambda>_ _. None) foundEnv None False
    (albTlsDetails exampleGateway (plainListener ''ls-extra'' 8443 ''TLS'')))"
proof -
  have "l_name (ld_listener (albTlsDetails exampleGateway (plainListener ''ls-extra'' 8443 ''TLS''))) \<notin>
      l_name ` set (gw_listeners (rd_gateway (ld_gateway (albTlsDetails exampleGateway (plainListener ''ls-extra'' 8443 ''TLS'')))))"
    by (simp add: albTlsDetails_def resolvedGateway_def exampleGateway_def plainListener_def)
  from tls_listenerset_never_terminates [OF this, of None] show ?thesis by (simp add: resolverEmits_def)
qed

section \<open>The backends of a route\<close>

lemma mergedRefs_run:
  "mergedBackendsForRefs w kind ns m refs h = (Inr r, h') \<Longrightarrow>
    \<exists>dss. list_all2 (\<lambda>ref ds. \<exists>h1 h2. endpointBackendsForBackendRef w kind ns ref h1 = (Inr ds, h2)) refs dss \<and>
      r = foldl mergeNetworkLoadBalancerBackend m (concat dss)"
proof (induction refs arbitrary: m h)
  case (Cons ref refs)
  from Cons.prems obtain ds h1 where one: "endpointBackendsForBackendRef w kind ns ref h = (Inr ds, h1)"
    "mergedBackendsForRefs w kind ns (foldl mergeNetworkLoadBalancerBackend m ds) refs h1 = (Inr r, h')"
    by (auto elim!: eff_bind_InrE)
  from Cons.IH [OF one(2)] obtain dss where
    "list_all2 (\<lambda>ref ds. \<exists>h1 h2. endpointBackendsForBackendRef w kind ns ref h1 = (Inr ds, h2)) refs dss"
    "r = foldl mergeNetworkLoadBalancerBackend (foldl mergeNetworkLoadBalancerBackend m ds) (concat dss)" by blast
  then show ?case using one(1) by (intro exI [of _ "ds # dss"]) auto
qed (auto simp: eff_return_run)

text \<open>
  The backends a TCPRoute, UDPRoute or TLSRoute asks for have distinct addresses. They are those
  of its backend references, in the order of the rules; where several references lead to one
  address its weight is the sum of the weights, and it drains only when all of them drain.
\<close>

theorem l4_backends_merged:
  assumes "endpointBackendsForRoute w kind route h = (Inr bs, h')"
  shows "distinct (map networkLoadBalancerBackendKey bs) \<and>
    (\<exists>dss. list_all2 (\<lambda>ref ds. \<exists>h1 h2. endpointBackendsForBackendRef w kind (rt_namespace route) ref h1 = (Inr ds, h2))
        (concat (map rr_backend_refs (rt_rules route))) dss \<and>
      (\<forall>key. mergedAs (concat dss) key (List.find (\<lambda>d. networkLoadBalancerBackendKey d = key) bs)))"
proof -
  from assms obtain m h1 where
    "mergedBackendsForRefs w kind (rt_namespace route) [] (concat (map rr_backend_refs (rt_rules route))) h = (Inr m, h1)"
    and bs: "bs = map snd (map_iter (env_order w h1) m)"
    by (auto simp: endpointBackendsForRoute_def eff_ask_run eff_return_run elim!: eff_bind_InrE)
  from mergedRefs_run [OF this(1)] obtain dss where dss:
    "list_all2 (\<lambda>ref ds. \<exists>h1 h2. endpointBackendsForBackendRef w kind (rt_namespace route) ref h1 = (Inr ds, h2))
      (concat (map rr_backend_refs (rt_rules route))) dss" "m = mergedBackends (concat dss)"
    unfolding mergedBackends_def by blast
  then have "bs = normalizeNetworkLoadBalancerBackendDetails (env_order w h1) (concat dss)"
    using bs by (simp add: normalizeNetworkLoadBalancerBackendDetails_def)
  then have "distinct (map networkLoadBalancerBackendKey bs)"
    "mergedAs (concat dss) key (List.find (\<lambda>d. networkLoadBalancerBackendKey d = key) bs)" for key
    by (simp_all only: distinct_normalized find_normalized mergedBackends_at)
  with dss(1) show ?thesis by blast
qed

definition tcpRouteBackends :: "(error + nlb_backend_details list) \<times> lb_call list" where
  "tcpRouteBackends = endpointBackendsForRoute (tcpRoutesEnv []) ''TCPRoute'' (tcpRouteNamed ''ns'' ''a'' 1) []"

lemma tcp_route_backends: "case fst tcpRouteBackends of Inr bs \<Rightarrow> map networkLoadBalancerBackendKey bs = [''10.0.0.1:8''] | _ \<Rightarrow> False"
  by code_simp

theorem l4_backends_merged_witness:
  "\<exists>bs dss. fst tcpRouteBackends = Inr bs \<and> mergedAs (concat dss) ''10.0.0.1:8'' (List.find (\<lambda>d. networkLoadBalancerBackendKey d = ''10.0.0.1:8'') bs) \<and>
    bs \<noteq> []"
proof -
  obtain bs where bs: "fst tcpRouteBackends = Inr bs" "map networkLoadBalancerBackendKey bs = [''10.0.0.1:8'']"
    using tcp_route_backends by (auto split: sum.splits)
  then have "endpointBackendsForRoute (tcpRoutesEnv []) ''TCPRoute'' (tcpRouteNamed ''ns'' ''a'' 1) [] = (Inr bs, snd tcpRouteBackends)"
    by (simp add: tcpRouteBackends_def prod_eq_iff)
  from l4_backends_merged [OF this] bs show ?thesis by blast
qed

end
