(* ===== verification/WorkRequests.thy ===== *)
theory WorkRequests
  imports Errors
begin

text \<open>
  Waiting for OCI work requests (\<open>src/internal/services/ociapi/work_requests_watcher.go\<close>): the
  polling loop with its ticker, its deadline and the context, and the two watchers. Times are in
  nanoseconds since the loop was entered. Shown: the loop ends, after a bounded number of polls;
  what each outcome means; a cancelled work request is only noticed when the time is up.
\<close>

section \<open>The services, the clock and the channels\<close>

datatype wake = IntervalTick | DeadlineTick | ContextDone

datatype (plugins only: code size) wr_call =
    GetWorkRequest string
  | GetNetworkLoadBalancerWorkRequest string
  | Selected wake

text \<open>
  \<open>wre_status\<close> is the answer of the client, a state or an error; \<open>wre_duration\<close> how long the request
  took; \<open>wre_done\<close> when the context is done, if ever; \<open>wre_pick\<close> the choice that \<open>select\<close> makes
  among the channels that are ready.
\<close>

record wr_env =
  wre_status :: "wr_call list \<Rightarrow> wr_call \<Rightarrow> error + string"
  wre_duration :: "wr_call list \<Rightarrow> int"
  wre_pick :: "wr_call list \<Rightarrow> nat"
  wre_done :: "int option"

record wr_config =
  wc_workRequestID :: string
  wc_pollInterval :: int
  wc_maxPollDuration :: int
  wc_description :: string
  wc_getStatus :: "(wr_call, error, string \<times> bool \<times> bool) eff"

text \<open>A non-positive interval makes \<open>time.NewTicker\<close> panic.\<close>

datatype wait_outcome = Panicked | Returned "error option"

section \<open>The loop\<close>

text \<open>
  The ticker sends at the multiples of the interval into a channel with room for one tick: after a
  tick is taken at time \<open>at\<close>, the next one is there at the next multiple. \<open>select\<close> waits until
  a channel is ready, and takes one of those that are.
\<close>

definition next_tick :: "wr_config \<Rightarrow> int \<Rightarrow> int" where
  "next_tick c at = (at div wc_pollInterval c + 1) * wc_pollInterval c"

definition select_time :: "wr_env \<Rightarrow> wr_config \<Rightarrow> int \<Rightarrow> int \<Rightarrow> int" where
  "select_time w c now tick =
     max now (case wre_done w of
         None \<Rightarrow> min tick (wc_maxPollDuration c)
       | Some t \<Rightarrow> min t (min tick (wc_maxPollDuration c)))"

definition ready_channels :: "wr_env \<Rightarrow> wr_config \<Rightarrow> int \<Rightarrow> int \<Rightarrow> wake list" where
  "ready_channels w c at tick =
     (if tick \<le> at then [IntervalTick] else []) @
     (if wc_maxPollDuration c \<le> at then [DeadlineTick] else []) @
     (case wre_done w of None \<Rightarrow> [] | Some t \<Rightarrow> if t \<le> at then [ContextDone] else [])"

definition select_channel :: "wr_env \<Rightarrow> wr_config \<Rightarrow> wr_call list \<Rightarrow> int \<Rightarrow> int \<Rightarrow> wake" where
  "select_channel w c h at tick =
     (let ready = ready_channels w c at tick in ready ! (wre_pick w h mod length ready))"

text \<open>The body of the loop from one poll to the next, at time \<open>now\<close>; it may never end.\<close>

partial_function (option) poll_loop ::
    "wr_env \<Rightarrow> wr_config \<Rightarrow> int \<Rightarrow> int \<Rightarrow> wr_call list \<Rightarrow> (error option \<times> wr_call list) option" where
  "poll_loop w c now tick h =
     (case wc_getStatus c h of (answer, h1) \<Rightarrow>
        (case answer of
           Inl err \<Rightarrow> Some (Some err, h1)
         | Inr (status, succeeded, failed) \<Rightarrow>
             if succeeded then Some (None, h1)
             else if failed then
               Some (Some (ErrText (errtext (wc_description c) ('' '' @ wc_workRequestID c)
                 (errtext '' is in '' status '' state''))), h1)
             else
               (let at = select_time w c (now + wre_duration w h1) tick in
                case select_channel w c h1 at tick of
                  IntervalTick \<Rightarrow> poll_loop w c at (next_tick c at) (h1 @ [Selected IntervalTick])
                | DeadlineTick \<Rightarrow>
                    Some (Some (ErrWrap (errtext (wc_description c) ('' '' @ wc_workRequestID c) '' timed out: '')
                      ErrDeadlineExceeded []), h1 @ [Selected DeadlineTick])
                | ContextDone \<Rightarrow>
                    Some (Some (ErrWrap (errtext (wc_description c) ('' '' @ wc_workRequestID c) '' timed out: '')
                      ErrCanceled []), h1 @ [Selected ContextDone]))))"

definition waitForWorkRequest :: "wr_env \<Rightarrow> wr_config \<Rightarrow> wr_call list \<Rightarrow> (wait_outcome \<times> wr_call list) option" where
  "waitForWorkRequest w c h =
     (if wc_pollInterval c \<le> 0 then Some (Panicked, h)
      else case poll_loop w c 0 (wc_pollInterval c) h of
          None \<Rightarrow> None
        | Some (r, h') \<Rightarrow> Some (Returned r, h'))"

section \<open>The watchers\<close>

definition second :: int where
  "second = 1000000000"

definition defaultPollInterval :: int where
  "defaultPollInterval = 2 * second"

definition defaultMaxPollDuration :: int where
  "defaultMaxPollDuration = 20 * (60 * second)"

record wr_watcher =
  ww_pollInterval :: int
  ww_maxPollDuration :: int

definition NewWorkRequestsWatcher :: "wr_watcher \<Rightarrow> wr_watcher" where
  "NewWorkRequestsWatcher deps =
     \<lparr>ww_pollInterval = (if ww_pollInterval deps = 0 then defaultPollInterval else ww_pollInterval deps),
      ww_maxPollDuration =
        (if ww_maxPollDuration deps = 0 then defaultMaxPollDuration else ww_maxPollDuration deps)\<rparr>"

definition NewNetworkLoadBalancerWorkRequestsWatcher :: "wr_watcher \<Rightarrow> wr_watcher" where
  "NewNetworkLoadBalancerWorkRequestsWatcher deps =
     \<lparr>ww_pollInterval = (if ww_pollInterval deps = 0 then defaultPollInterval else ww_pollInterval deps),
      ww_maxPollDuration =
        (if ww_maxPollDuration deps = 0 then defaultMaxPollDuration else ww_maxPollDuration deps)\<rparr>"

definition get_status :: "wr_env \<Rightarrow> wr_call \<Rightarrow> string \<Rightarrow> (wr_call, error, string \<times> bool \<times> bool) eff" where
  "get_status w call failing =
     eff_bind (eff_call call (\<lambda>h. wre_status w h call)) (\<lambda>r. case r of
         Inl err \<Rightarrow> eff_fail (ErrWrap failing err [])
       | Inr state \<Rightarrow> eff_return (state, state = ''SUCCEEDED'', state = ''FAILED''))"

definition WorkRequestsWatcher_WaitFor ::
    "wr_env \<Rightarrow> wr_watcher \<Rightarrow> string \<Rightarrow> wr_call list \<Rightarrow> (wait_outcome \<times> wr_call list) option" where
  "WorkRequestsWatcher_WaitFor w watcher workRequestID =
     waitForWorkRequest w
       \<lparr>wc_workRequestID = workRequestID, wc_pollInterval = ww_pollInterval watcher,
        wc_maxPollDuration = ww_maxPollDuration watcher, wc_description = ''work request'',
        wc_getStatus = get_status w (GetWorkRequest workRequestID)
          (errtext ''failed to get work request '' workRequestID '': '')\<rparr>"

definition NetworkLoadBalancerWorkRequestsWatcher_WaitFor ::
    "wr_env \<Rightarrow> wr_watcher \<Rightarrow> string \<Rightarrow> wr_call list \<Rightarrow> (wait_outcome \<times> wr_call list) option" where
  "NetworkLoadBalancerWorkRequestsWatcher_WaitFor w watcher workRequestID =
     waitForWorkRequest w
       \<lparr>wc_workRequestID = workRequestID, wc_pollInterval = ww_pollInterval watcher,
        wc_maxPollDuration = ww_maxPollDuration watcher, wc_description = ''network load balancer work request'',
        wc_getStatus = get_status w (GetNetworkLoadBalancerWorkRequest workRequestID)
          (errtext ''failed to get network load balancer work request '' workRequestID '': '')\<rparr>"

section \<open>The loop ends\<close>

text \<open>A client whose requests are answered within the poll interval.\<close>

definition prompt :: "wr_env \<Rightarrow> int \<Rightarrow> bool" where
  "prompt w interval \<longleftrightarrow> (\<forall>h. 0 \<le> wre_duration w h \<and> wre_duration w h < interval)"

lemma promptD: "prompt w interval \<Longrightarrow> 0 \<le> wre_duration w h" "prompt w interval \<Longrightarrow> wre_duration w h < interval"
  by (simp_all add: prompt_def)

text \<open>\<open>select\<close> takes a channel that is ready, and one always is.\<close>

lemma select_channel_ready: "select_channel w c h (select_time w c now tick) tick \<in>
    set (ready_channels w c (select_time w c now tick) tick)"
proof -
  have "ready_channels w c (select_time w c now tick) tick \<noteq> []"
    by (auto simp: ready_channels_def select_time_def split: option.split)
  then show ?thesis by (simp add: select_channel_def Let_def)
qed

lemma select_IntervalTick:
  assumes "select_channel w c h (select_time w c now tick) tick = IntervalTick" "now < tick"
  shows "select_time w c now tick = tick" "tick \<le> wc_maxPollDuration c"
proof -
  have "tick \<le> select_time w c now tick"
    using select_channel_ready [of w c h now tick] assms(1) by (auto simp: ready_channels_def split: option.splits if_splits)
  with assms(2) show "select_time w c now tick = tick" "tick \<le> wc_maxPollDuration c"
    by (auto simp: select_time_def min_def max_def split: option.splits if_splits)
qed

lemma select_DeadlineTick:
  assumes "select_channel w c h (select_time w c now tick) tick = DeadlineTick"
  shows "wc_maxPollDuration c \<le> select_time w c now tick"
  using select_channel_ready [of w c h now tick] assms by (auto simp: ready_channels_def split: option.splits if_splits)

lemma select_ContextDone:
  assumes "select_channel w c h (select_time w c now tick) tick = ContextDone"
  obtains t where "wre_done w = Some t" "t \<le> select_time w c now tick"
  using select_channel_ready [of w c h now tick] assms that
  by (cases "wre_done w") (auto simp: ready_channels_def split: if_splits)

text \<open>A client operation that asks once each time, by the request \<open>q\<close>.\<close>

definition asks_by :: "wr_call \<Rightarrow> wr_config \<Rightarrow> bool" where
  "asks_by q c \<longleftrightarrow> (\<forall>h. snd (wc_getStatus c h) = h @ [q]) \<and> (\<forall>x. q \<noteq> Selected x)"

lemma asks_byD: "asks_by q c \<Longrightarrow> wc_getStatus c h = (r, h1) \<Longrightarrow> h1 = h @ [q]"
  unfolding asks_by_def by (metis snd_conv)

definition polls :: "wr_call \<Rightarrow> wr_call list \<Rightarrow> nat" where
  "polls q h = List.length (List.filter (\<lambda>c. c = q) h)"

lemma polls_simps [simp]:
  "polls q [] = 0" "polls q (h @ h') = polls q h + polls q h'" "polls q (q # h) = Suc (polls q h)"
  "asks_by q c \<Longrightarrow> polls q (Selected x # h) = polls q h"
  by (auto simp: polls_def asks_by_def)

text \<open>One round of the loop either ends it or takes a tick before the deadline.\<close>

lemma poll_loop_step:
  assumes "asks_by q c" "\<And>h. now + wre_duration w h < tick"
  obtains (ends) r cs where "poll_loop w c now tick h = Some (r, h @ q # cs)" "polls q cs = 0"
  | (goes) "tick \<le> wc_maxPollDuration c"
      "poll_loop w c now tick h = poll_loop w c tick (next_tick c tick) (h @ [q, Selected IntervalTick])"
proof -
  obtain answer h1 where answer: "wc_getStatus c h = (answer, h1)" by fastforce
  then have h1: "h1 = h @ [q]" using asks_byD [OF assms(1)] by blast
  note run = poll_loop.simps [of w c now tick h] answer h1
  show ?thesis
  proof (cases answer)
    case (Inl e)
    then show ?thesis using run by (intro ends [of "Some e" "[]"]) simp_all
  next
    case (Inr a)
    obtain status succeeded failed where a: "a = (status, succeeded, failed)" by (cases a)
    let ?now = "now + wre_duration w (h @ [q])"
    consider "succeeded \<or> failed" | "\<not> succeeded" "\<not> failed" by blast
    then show ?thesis
    proof cases
      case 1
      then show ?thesis using run Inr a
        by (cases succeeded) (auto intro: ends [of _ "[]"])
    next
      case 2
      show ?thesis
      proof (cases "select_channel w c (h @ [q]) (select_time w c ?now tick) tick")
        case IntervalTick
        then show ?thesis using run Inr a 2 select_IntervalTick [OF IntervalTick assms(2)]
          by (intro goes) (simp_all add: Let_def)
      qed (use run Inr a 2 assms(1) in \<open>auto simp: Let_def intro!: ends [of _ "[Selected _]"]\<close>)
    qed
  qed
qed

text \<open>The loop entered at a multiple of the interval.\<close>

lemma poll_loop_returns:
  assumes w: "prompt w (wc_pollInterval c)" "asks_by q c"
    and now: "now = k * wc_pollInterval c" "wc_maxPollDuration c - now < int n * wc_pollInterval c"
  shows "\<exists>r h'. poll_loop w c now (now + wc_pollInterval c) h = Some (r, h') \<and> polls q h' \<le> polls q h + max 1 n"
  using now
proof (induction n arbitrary: now h k)
  case 0
  have pos: "0 < wc_pollInterval c" using promptD [OF w(1)] by (meson le_less_trans)
  have prompt: "now + wre_duration w h < now + wc_pollInterval c" for h using promptD [OF w(1)] by simp
  show ?case by (rule poll_loop_step [OF w(2) prompt, of h]) (use 0 pos in simp_all)
next
  case (Suc n)
  let ?next = "now + wc_pollInterval c"
  have pos: "0 < wc_pollInterval c" using promptD [OF w(1)] by (meson le_less_trans)
  have prompt: "now + wre_duration w h < ?next" for h using promptD [OF w(1)] by simp
  show ?case
  proof (rule poll_loop_step [OF w(2) prompt, of h])
    assume goes: "?next \<le> wc_maxPollDuration c"
      "poll_loop w c now ?next h = poll_loop w c ?next (next_tick c ?next) (h @ [q, Selected IntervalTick])"
    have "next_tick c ?next = ?next + wc_pollInterval c"
      using pos Suc.prems(1) by (simp add: next_tick_def algebra_simps)
    moreover have left: "wc_maxPollDuration c - ?next < int n * wc_pollInterval c"
      using Suc.prems(2) by (simp add: algebra_simps)
    moreover have "?next = (k + 1) * wc_pollInterval c" using Suc.prems(1) by (simp add: algebra_simps)
    moreover have "n \<noteq> 0" using left goes(1) by (cases n) auto
    ultimately show ?thesis
      using Suc.IH [of ?next "k + 1" "h @ [q, Selected IntervalTick]"] goes w(2) by fastforce
  qed simp
qed

lemma get_status_asks: "snd (get_status w q failing h) = h @ [q]"
  by (simp add: get_status_def eff_bind_call eff_simps split: sum.split)

lemma waitForWorkRequest_returns:
  assumes "prompt w (wc_pollInterval c)" "asks_by q c" "0 \<le> wc_maxPollDuration c"
  shows "\<exists>r cs. waitForWorkRequest w c h = Some (Returned r, cs) \<and>
    polls q cs \<le> polls q h + nat (wc_maxPollDuration c div wc_pollInterval c) + 1"
proof -
  let ?I = "wc_pollInterval c" and ?D = "wc_maxPollDuration c"
  let ?n = "nat (?D div ?I) + 1"
  have pos: "0 < ?I" using promptD [OF assms(1)] by (meson le_less_trans)
  have "0 \<le> ?D div ?I" using pos assms(3) by (simp add: pos_imp_zdiv_nonneg_iff)
  then have "int ?n * ?I = ?D div ?I * ?I + ?I" by (simp add: distrib_right)
  moreover have "?D mod ?I < ?I" using pos by simp
  ultimately have "?D - 0 < int ?n * ?I" using div_mult_mod_eq [of ?D ?I] by linarith
  from poll_loop_returns [OF assms(1,2), of 0 0, OF _ this, of h] obtain r cs where
      "poll_loop w c 0 ?I h = Some (r, cs)" "polls q cs \<le> polls q h + max 1 ?n" by auto
  then show ?thesis using pos by (simp add: waitForWorkRequest_def)
qed

section \<open>What the outcome means\<close>

definition timedOut :: "wr_config \<Rightarrow> error \<Rightarrow> error" where
  "timedOut c cause = ErrWrap (errtext (wc_description c) ('' '' @ wc_workRequestID c) '' timed out: '') cause []"

text \<open>
  The three ways out: the last answer of the client, the deadline, or the end of the context.
\<close>

definition explains :: "wr_env \<Rightarrow> wr_call \<Rightarrow> wr_config \<Rightarrow> wr_call list \<Rightarrow> error option \<Rightarrow> bool" where
  "explains w q c h r \<longleftrightarrow>
     (\<exists>past. h = past @ [q] \<and> (case fst (wc_getStatus c past) of
         Inl err \<Rightarrow> r = Some err
       | Inr (status, succeeded, failed) \<Rightarrow> (succeeded \<or> failed) \<and> (r = None \<longleftrightarrow> succeeded) \<and>
           (r \<noteq> None \<longrightarrow> r = Some (ErrText (errtext (wc_description c) ('' '' @ wc_workRequestID c)
              (errtext '' is in '' status '' state'')))))) \<or>
     (\<exists>past. h = past @ [Selected DeadlineTick] \<and> r = Some (timedOut c ErrDeadlineExceeded)) \<or>
     (\<exists>past. h = past @ [Selected ContextDone] \<and> wre_done w \<noteq> None \<and> r = Some (timedOut c ErrCanceled))"

lemma explains_poll:
  assumes "wc_getStatus c past = (answer, h1)"
    and "case answer of
         Inl err \<Rightarrow> r = Some err
       | Inr (status, succeeded, failed) \<Rightarrow> (succeeded \<or> failed) \<and> (r = None \<longleftrightarrow> succeeded) \<and>
           (r \<noteq> None \<longrightarrow> r = Some (ErrText (errtext (wc_description c) ('' '' @ wc_workRequestID c)
              (errtext '' is in '' status '' state''))))"
  shows "explains w q c (past @ [q]) r"
  unfolding explains_def by (rule disjI1) (use assms in simp)

lemma poll_loop_explains:
  assumes "poll_loop w c now tick h = Some (r, h')" "asks_by q c"
  shows "explains w q c h' r"
proof -
  have "explains w q c (snd y) (fst y)" if "poll_loop w c now tick h = Some y" "asks_by q c" for y
    using that
  proof (induction w c now tick h y rule: poll_loop.raw_induct [rotated, consumes 1, case_names loop])
    case (loop again w c now tick h y)
    obtain answer h1 where answer: "wc_getStatus c h = (answer, h1)" by fastforce
    then have h1: "h1 = h @ [q]" using asks_byD [OF loop(3)] by blast
    show ?case
    proof (cases answer)
      case (Inl err)
      then show ?thesis using loop(2) answer h1 explains_poll [of c h answer h1 "Some err" w q] by auto
    next
      case (Inr a)
      obtain status succeeded failed where a: "a = (status, succeeded, failed)" by (cases a)
      show ?thesis
      proof (cases "succeeded \<or> failed")
        case True
        then show ?thesis using loop(2) answer h1 Inr a by (auto intro!: explains_poll split: if_splits)
      next
        case False
        note body = loop(2) answer h1 Inr a False
        show ?thesis
        proof (cases "select_channel w c (h @ [q]) (select_time w c (now + wre_duration w (h @ [q])) tick) tick")
          case IntervalTick
          then show ?thesis using body loop(1,3) by (auto simp: Let_def)
        next
          case DeadlineTick
          then show ?thesis using body by (auto simp: Let_def explains_def timedOut_def)
        next
          case ContextDone
          then obtain t where "wre_done w = Some t" by (rule select_ContextDone)
          then show ?thesis using ContextDone body by (auto simp: Let_def explains_def timedOut_def)
        qed
      qed
    qed
  qed
  then show ?thesis using assms by fastforce
qed

lemma waitForWorkRequest_explains:
  "waitForWorkRequest w c h = Some (Returned r, h') \<Longrightarrow> asks_by q c \<Longrightarrow> explains w q c h' r"
  by (auto simp: waitForWorkRequest_def split: if_splits option.splits intro: poll_loop_explains)

section \<open>The watchers of the controller\<close>


definition stuckWorkRequest :: "string \<Rightarrow> wr_env" where
  "stuckWorkRequest state = \<lparr>wre_status = (\<lambda>_ _. Inr state), wre_duration = (\<lambda>_. 5), wre_pick = (\<lambda>_. 0), wre_done = None\<rparr>"

lemma stuck_prompt: "prompt (stuckWorkRequest state) defaultPollInterval"
  by (simp add: prompt_def stuckWorkRequest_def defaultPollInterval_def second_def)


text \<open>
  A wait for a work request succeeds exactly when the last thing it did was to ask the
  service and hear that the request has succeeded.
\<close>

theorem work_request_wait_succeeds_iff:
  assumes "WorkRequestsWatcher_WaitFor w watcher workRequestID h = Some (Returned r, h')"
  shows "r = None \<longleftrightarrow> (\<exists>past. h' = past @ [GetWorkRequest workRequestID] \<and>
    wre_status w past (GetWorkRequest workRequestID) = Inr ''SUCCEEDED'')"
proof -
  define c where "c = \<lparr>wc_workRequestID = workRequestID, wc_pollInterval = ww_pollInterval watcher,
    wc_maxPollDuration = ww_maxPollDuration watcher, wc_description = ''work request'',
    wc_getStatus = get_status w (GetWorkRequest workRequestID)
      (errtext ''failed to get work request '' workRequestID '': '')\<rparr>"
  have "asks_by (GetWorkRequest workRequestID) c" by (simp add: asks_by_def c_def get_status_asks)
  moreover have "waitForWorkRequest w c h = Some (Returned r, h')"
    using assms by (simp add: WorkRequestsWatcher_WaitFor_def c_def)
  ultimately have "explains w (GetWorkRequest workRequestID) c h' r" by (blast intro: waitForWorkRequest_explains)
  then show ?thesis
    by (auto simp: explains_def c_def get_status_def eff_bind_call eff_simps split: sum.splits)
qed

definition quickWorkRequest :: wr_env where
  "quickWorkRequest = (stuckWorkRequest ''SUCCEEDED'')\<lparr>wre_duration := (\<lambda>_. 0)\<rparr>"

lemma quick_run: "WorkRequestsWatcher_WaitFor quickWorkRequest
    (NewWorkRequestsWatcher \<lparr>ww_pollInterval = 0, ww_maxPollDuration = 0\<rparr>) ''wr'' [] =
  Some (Returned None, [GetWorkRequest ''wr''])"
  by (subst WorkRequestsWatcher_WaitFor_def, subst waitForWorkRequest_def, subst poll_loop.simps)
    (simp add: get_status_def quickWorkRequest_def stuckWorkRequest_def NewWorkRequestsWatcher_def eff_bind_call eff_simps
      defaultPollInterval_def second_def)

theorem work_request_wait_succeeds_iff_witness:
  "(None :: error option) = None \<longleftrightarrow> (\<exists>past. [GetWorkRequest ''wr''] = past @ [GetWorkRequest ''wr''] \<and>
    wre_status quickWorkRequest past (GetWorkRequest ''wr'') = Inr ''SUCCEEDED'')"
  by (rule work_request_wait_succeeds_iff [OF quick_run])

text \<open>
  A network load balancer work request that OCI reports as neither succeeded nor failed, a
  cancelled one for example, is waited for until the deadline, and reported as timed out.
\<close>

theorem unfinished_work_request_times_out:
  assumes "prompt w defaultPollInterval" "wre_done w = None"
    and "\<And>h. \<exists>state. wre_status w h (GetNetworkLoadBalancerWorkRequest workRequestID) = Inr state \<and>
      \<not> List.member [''SUCCEEDED'', ''FAILED''] state"
  shows "\<exists>cs. NetworkLoadBalancerWorkRequestsWatcher_WaitFor w
      (NewNetworkLoadBalancerWorkRequestsWatcher \<lparr>ww_pollInterval = 0, ww_maxPollDuration = 0\<rparr>) workRequestID h =
    Some (Returned (Some (ErrWrap (errtext ''network load balancer work request'' ('' '' @ workRequestID) '' timed out: '')
      ErrDeadlineExceeded [])), cs)"
proof -
  define c where "c = \<lparr>wc_workRequestID = workRequestID, wc_pollInterval = defaultPollInterval,
    wc_maxPollDuration = defaultMaxPollDuration, wc_description = ''network load balancer work request'',
    wc_getStatus = get_status w (GetNetworkLoadBalancerWorkRequest workRequestID)
      (errtext ''failed to get network load balancer work request '' workRequestID '': '')\<rparr>"
  let ?q = "GetNetworkLoadBalancerWorkRequest workRequestID"
  have run: "NetworkLoadBalancerWorkRequestsWatcher_WaitFor w
      (NewNetworkLoadBalancerWorkRequestsWatcher \<lparr>ww_pollInterval = 0, ww_maxPollDuration = 0\<rparr>) workRequestID =
    waitForWorkRequest w c"
    by (simp add: NetworkLoadBalancerWorkRequestsWatcher_WaitFor_def NewNetworkLoadBalancerWorkRequestsWatcher_def c_def)
  have asks: "asks_by ?q c" by (simp add: asks_by_def c_def get_status_asks)
  have "prompt w (wc_pollInterval c)" "0 \<le> wc_maxPollDuration c"
    using assms(1) by (simp_all add: c_def defaultMaxPollDuration_def second_def)
  from waitForWorkRequest_returns [OF this(1) asks this(2), of h] obtain r cs where
    r: "waitForWorkRequest w c h = Some (Returned r, cs)" by blast
  moreover have "explains w ?q c cs r" using r asks by (rule waitForWorkRequest_explains)
  moreover have "\<exists>state. fst (wc_getStatus c past) = Inr (state, False, False)" for past
    using assms(3) [of past] by (auto simp: c_def get_status_def eff_bind_call eff_simps)
  ultimately have "r = Some (timedOut c ErrDeadlineExceeded)"
    using assms(2) by (auto simp: explains_def split: sum.splits) (metis Inr_inject Pair_inject sum.case(2) case_prod_conv)
  then show ?thesis using r run by (simp add: timedOut_def c_def)
qed

theorem unfinished_work_request_times_out_witness:
  "\<exists>cs. NetworkLoadBalancerWorkRequestsWatcher_WaitFor (stuckWorkRequest ''CANCELED'')
      (NewNetworkLoadBalancerWorkRequestsWatcher \<lparr>ww_pollInterval = 0, ww_maxPollDuration = 0\<rparr>) ''wr'' [] =
    Some (Returned (Some (ErrWrap (errtext ''network load balancer work request'' ('' '' @ ''wr'') '' timed out: '')
      ErrDeadlineExceeded [])), cs)"
  by (rule unfinished_work_request_times_out [OF stuck_prompt]) (simp_all add: stuckWorkRequest_def)

end
