(* ===== verification/ListenerSetController.thy ===== *)
theory ListenerSetController
  imports ListenerSets
begin

text \<open>
  The controller of ListenerSets (\<open>listenerset_controller.go\<close>): the status that does not need the
  parent Gateway to be programmed, and the annotation with the name of the parent. Shown: when a
  ListenerSet is accepted; that deleted ones are left alone and nothing else is written; that a second
  run is quiet; and that every reconciliation takes back what the Gateway controller has reported.
\<close>

section \<open>Statuses\<close>

definition ListenerSetParentGatewayAnnotation :: string where
  "ListenerSetParentGatewayAnnotation = ''oke-gateway-api.gemyago.github.io/listenerset-parent-gateway''"

definition listenerSetGatewayClassSupported :: "gateway_class \<Rightarrow> bool" where
  "listenerSetGatewayClassSupported gatewayClass \<longleftrightarrow>
     gc_controller gatewayClass = ControllerClassName \<or> gc_controller gatewayClass = NetworkLoadBalancerControllerClassName"

definition stringsCutParentName :: "string \<Rightarrow> (string \<times> string) option" where
  "stringsCutParentName parentName = str_cut parentName ''/''"

definition listenerSetStatusWithConditions ::
    "listener_set \<Rightarrow> string \<Rightarrow> string \<Rightarrow> string \<Rightarrow> string \<Rightarrow> string \<Rightarrow> string \<Rightarrow> listener_set_status" where
  "listenerSetStatusWithConditions listenerSet acceptedStatus acceptedReason acceptedMessage
      programmedStatus programmedReason programmedMessage =
     \<lparr>lss_conditions = setStatusCondition (setStatusCondition []
        \<lparr>cn_type = ''Accepted'', cn_status = acceptedStatus, cn_reason = acceptedReason, cn_message = acceptedMessage,
         cn_generation = ls_generation listenerSet\<rparr>)
        \<lparr>cn_type = ''Programmed'', cn_status = programmedStatus, cn_reason = programmedReason,
         cn_message = programmedMessage, cn_generation = ls_generation listenerSet\<rparr>,
      lss_listeners = []\<rparr>"

definition listenerSetListenerStatuses ::
    "listener_set \<Rightarrow> string \<Rightarrow> string \<Rightarrow> string \<Rightarrow> string \<Rightarrow> string \<Rightarrow> string \<Rightarrow> listener_entry_status list" where
  "listenerSetListenerStatuses listenerSet acceptedStatus acceptedReason acceptedMessage
      programmedStatus programmedReason programmedMessage =
     map (\<lambda>listener.
       setListenerEntryCondition (ls_generation listenerSet) ''Programmed'' programmedStatus programmedReason programmedMessage
         (setListenerEntryCondition (ls_generation listenerSet) ''Accepted'' acceptedStatus acceptedReason acceptedMessage
            \<lparr>les_name = l_name listener, les_supported = supportedRouteKindsForListener listener, les_attached = 0,
             les_conditions = []\<rparr>))
       (ls_listeners listenerSet)"

definition pendingListenerSetStatus :: "listener_set \<Rightarrow> gateway \<Rightarrow> listener_set_status" where
  "pendingListenerSetStatus listenerSet gateway =
     (let setName = namespaced_name (ls_namespace listenerSet) (ls_name listenerSet);
          gatewayName = namespaced_name (gw_namespace gateway) (gw_name gateway)
      in (listenerSetStatusWithConditions listenerSet
           ''True'' ''Accepted'' (errtext ''ListenerSet '' setName ('' accepted by Gateway '' @ gatewayName))
           ''Unknown'' ''Pending'' (errtext ''ListenerSet '' setName '' is waiting for parent Gateway programming''))
         \<lparr>lss_listeners := listenerSetListenerStatuses listenerSet
           ''True'' ''Accepted'' (errtext ''listener accepted by Gateway '' gatewayName [])
           ''Unknown'' ''Pending'' ''listener is waiting for parent Gateway programming''\<rparr>)"

definition rejectedListenerSetStatus :: "listener_set \<Rightarrow> string \<Rightarrow> string \<Rightarrow> listener_set_status" where
  "rejectedListenerSetStatus listenerSet reason message =
     (listenerSetStatusWithConditions listenerSet ''False'' reason message ''False'' reason message)
       \<lparr>lss_listeners := listenerSetListenerStatuses listenerSet ''False'' reason message ''False'' reason message\<rparr>"

definition statusForListenerSet :: "lb_env \<Rightarrow> listener_set \<Rightarrow> listener_set_status lb_op" where
  "statusForListenerSet w listenerSet =
     (case listenerSetParentGatewayName listenerSet of
        None \<Rightarrow> eff_return (rejectedListenerSetStatus listenerSet ''Invalid'' ''ListenerSet parentRef must target a Gateway'')
      | Some parentName \<Rightarrow> (case stringsCutParentName parentName of
          None \<Rightarrow> eff_return (rejectedListenerSetStatus listenerSet ''Invalid'' ''ListenerSet parentRef is invalid'')
        | Some (parentNamespace, parentGatewayName) \<Rightarrow>
            eff_bind (get_gateway w parentNamespace parentGatewayName) (\<lambda>r. case r of
                Inl err \<Rightarrow>
                  (if is_not_found err then
                     eff_return (rejectedListenerSetStatus listenerSet ''ParentNotAccepted''
                       (errtext ''parent Gateway '' parentName '' was not found''))
                   else eff_fail (ErrWrap (errtext ''failed to get parent Gateway '' parentName '': '') err []))
              | Inr gateway \<Rightarrow>
            eff_bind (get_gateway_class w (gw_class_name gateway)) (\<lambda>r. case r of
                Inl err \<Rightarrow>
                  (if is_not_found err then
                     eff_return (rejectedListenerSetStatus listenerSet ''ParentNotAccepted''
                       (errtext ''parent GatewayClass '' (gw_class_name gateway) '' was not found''))
                   else eff_fail (ErrWrap (errtext ''failed to get parent GatewayClass '' (gw_class_name gateway) '': '') err []))
              | Inr gatewayClass \<Rightarrow>
            if \<not> listenerSetGatewayClassSupported gatewayClass then
              eff_return (rejectedListenerSetStatus listenerSet ''ParentNotAccepted''
                (errtext ''parent GatewayClass '' (gw_class_name gateway) '' is not managed by this controller''))
            else eff_bind (get_namespace w (ls_namespace listenerSet)) (\<lambda>r. case r of
                Inl err \<Rightarrow>
                  (if is_not_found err then
                     eff_return (rejectedListenerSetStatus listenerSet ''NotAllowed''
                       (errtext ''ListenerSet namespace '' (ls_namespace listenerSet) '' was not found''))
                   else eff_fail (ErrWrap (errtext ''failed to get ListenerSet namespace '' (ls_namespace listenerSet) '': '') err []))
              | Inr labels \<Rightarrow>
                  eff_return (if \<not> listenerSetAllowedByGateway w gateway listenerSet labels then
                      rejectedListenerSetStatus listenerSet ''NotAllowed''
                        (errtext ''ListenerSet '' (namespaced_name (ls_namespace listenerSet) (ls_name listenerSet))
                          ('' is not allowed by Gateway '' @ parentName))
                    else pendingListenerSetStatus listenerSet gateway))))))"

section \<open>The reconciliation\<close>

definition updateParentGatewayAnnotation :: "lb_env \<Rightarrow> string \<times> string \<Rightarrow> listener_set \<Rightarrow> unit lb_op" where
  "updateParentGatewayAnnotation w listenerSetKey resolvedListenerSet =
     (let desiredParent = (case listenerSetParentGatewayName resolvedListenerSet of Some parentName \<Rightarrow> parentName | None \<Rightarrow> [])
      in eff_bind (get_listener_set w (fst listenerSetKey) (snd listenerSetKey)) (\<lambda>r. case r of
          Inl err \<Rightarrow>
            (if is_not_found err then eff_return ()
             else eff_fail (ErrWrap (errtext ''failed to refresh ListenerSet ''
               (namespaced_name (fst listenerSetKey) (snd listenerSetKey)) '' before annotation update: '') err []))
        | Inr listenerSet \<Rightarrow>
            if map_get (ls_annotations listenerSet) ListenerSetParentGatewayAnnotation = desiredParent then eff_return ()
            else eff_bind (k8s_update w (UpdateListenerSet (listenerSet\<lparr>ls_annotations :=
                if desiredParent = [] then AList.delete ListenerSetParentGatewayAnnotation (ls_annotations listenerSet)
                else AList.update ListenerSetParentGatewayAnnotation desiredParent (ls_annotations listenerSet)\<rparr>))) (\<lambda>r. case r of
                None \<Rightarrow> eff_return ()
              | Some err \<Rightarrow> eff_fail (ErrWrap (errtext ''failed to update ListenerSet ''
                  (namespaced_name (ls_namespace listenerSet) (ls_name listenerSet)) '' parent Gateway annotation: '') err []))))"

definition ListenerSetController_Reconcile :: "lb_env \<Rightarrow> string \<times> string \<Rightarrow> unit lb_op" where
  "ListenerSetController_Reconcile w req =
     eff_bind (get_listener_set w (fst req) (snd req)) (\<lambda>r. case r of
         Inl err \<Rightarrow>
           (if is_not_found err then eff_return ()
            else eff_fail (ErrWrap (errtext ''failed to get ListenerSet '' (namespaced_name (fst req) (snd req)) '': '') err []))
       | Inr listenerSet \<Rightarrow>
           if ls_deleting listenerSet then eff_return ()
           else eff_bind (statusForListenerSet w listenerSet) (\<lambda>status.
             if listenerSetStatusSemanticallyEqual (ls_status listenerSet) status then
               updateParentGatewayAnnotation w req listenerSet
             else eff_bind (k8s_update w (UpdateListenerSetStatus (listenerSet\<lparr>ls_status := status\<rparr>))) (\<lambda>r. case r of
                 Some err \<Rightarrow> eff_fail (ErrWrap (errtext ''failed to update ListenerSet ''
                   (namespaced_name (fst req) (snd req)) '' status: '') err [])
               | None \<Rightarrow> updateParentGatewayAnnotation w req (listenerSet\<lparr>ls_status := status\<rparr>))))"

section \<open>When a ListenerSet is accepted\<close>

lemma pending_conditions:
  "lss_conditions (pendingListenerSetStatus s g) =
    [\<lparr>cn_type = ''Accepted'', cn_status = ''True'', cn_reason = ''Accepted'',
      cn_message = errtext ''ListenerSet '' (namespaced_name (ls_namespace s) (ls_name s))
        ('' accepted by Gateway '' @ namespaced_name (gw_namespace g) (gw_name g)), cn_generation = ls_generation s\<rparr>,
     \<lparr>cn_type = ''Programmed'', cn_status = ''Unknown'', cn_reason = ''Pending'',
      cn_message = errtext ''ListenerSet '' (namespaced_name (ls_namespace s) (ls_name s))
        '' is waiting for parent Gateway programming'', cn_generation = ls_generation s\<rparr>]"
  by (simp add: pendingListenerSetStatus_def listenerSetStatusWithConditions_def Let_def)

lemma rejected_conditions:
  "lss_conditions (rejectedListenerSetStatus s reason message) =
    [\<lparr>cn_type = ''Accepted'', cn_status = ''False'', cn_reason = reason, cn_message = message, cn_generation = ls_generation s\<rparr>,
     \<lparr>cn_type = ''Programmed'', cn_status = ''False'', cn_reason = reason, cn_message = message, cn_generation = ls_generation s\<rparr>]"
  by (simp add: rejectedListenerSetStatus_def listenerSetStatusWithConditions_def)

lemma status_flags:
  "isStatusConditionTrue (lss_conditions (pendingListenerSetStatus s g)) ''Accepted''"
  "\<not> isStatusConditionTrue (lss_conditions (pendingListenerSetStatus s g)) ''Programmed''"
  "\<not> isStatusConditionTrue (lss_conditions (rejectedListenerSetStatus s reason message)) ''Accepted''"
  "\<not> isStatusConditionTrue (lss_conditions (rejectedListenerSetStatus s reason message)) ''Programmed''"
  by (simp_all add: pending_conditions rejected_conditions isStatusConditionTrue_def findStatusCondition_def)

lemma status_types:
  "distinct (map cn_type (lss_conditions (pendingListenerSetStatus s g)))"
  "distinct (map cn_type (lss_conditions (rejectedListenerSetStatus s reason message)))"
  by (simp_all add: pending_conditions rejected_conditions)

lemma isStatusConditionTrue_iff:
  "distinct (map cn_type cs) \<Longrightarrow>
    isStatusConditionTrue cs ty \<longleftrightarrow> (\<exists>c\<in>set cs. cn_type c = ty \<and> cn_status c = ''True'')"
  by (induction cs) (auto simp: isStatusConditionTrue_def findStatusCondition_def image_iff)

text \<open>What the API server answers about the parent of a ListenerSet at one moment.\<close>

definition parentAllows :: "lb_env \<Rightarrow> listener_set \<Rightarrow> lb_call list \<Rightarrow> bool" where
  "parentAllows w s h \<longleftrightarrow> (\<exists>parent ns n g gc labels. listenerSetParentGatewayName s = Some parent \<and>
     stringsCutParentName parent = Some (ns, n) \<and> env_gateway w h ns n = Inr g \<and>
     env_gateway_class w (h @ [GetGateway ns n]) (gw_class_name g) = Inr gc \<and> listenerSetGatewayClassSupported gc \<and>
     env_namespace_labels w (h @ [GetGateway ns n, GetGatewayClass (gw_class_name g)]) (ls_namespace s) = Inr labels \<and>
     listenerSetAllowedByGateway w g s labels)"

lemma statusForListenerSet_shape:
  assumes "statusForListenerSet w s h = (Inr status, h')"
  shows "if parentAllows w s h then \<exists>g. status = pendingListenerSetStatus s g
    else \<exists>reason message. status = rejectedListenerSetStatus s reason message"
proof (cases "listenerSetParentGatewayName s")
  case None
  then show ?thesis using assms by (auto simp: statusForListenerSet_def parentAllows_def eff_simps)
next
  case (Some parent)
  show ?thesis
  proof (cases "stringsCutParentName parent")
    case None
    then show ?thesis using assms Some by (auto simp: statusForListenerSet_def parentAllows_def eff_simps)
  next
    case (Some p)
    obtain ns n where p: "p = (ns, n)" by fastforce
    note found = \<open>listenerSetParentGatewayName s = Some parent\<close> Some p
    show ?thesis
      using assms found
      by (auto simp: statusForListenerSet_def parentAllows_def eff_bind_Inr [OF gateway_run(2)] eff_bind_Inr [OF gateway_run(3)]
        eff_bind_Inr [OF k8s_run(5)] eff_simps split: sum.splits if_splits)
  qed
qed


section \<open>A second run\<close>

lemma statusForListenerSet_reads: "emits reading (statusForListenerSet w s)"
  unfolding statusForListenerSet_def Let_def
  by (auto intro!: emits_bind emits_return emits_fail emits_gateway emits_k8s split: option.split sum.split)

text \<open>
  An API server that stores what is written to one ListenerSet and changes nothing else; an update
  of the object does not touch its status, nor an update of the status the rest.
\<close>

fun applyListenerSet :: "lb_call \<Rightarrow> listener_set \<Rightarrow> listener_set" where
  "applyListenerSet (UpdateListenerSet x) s = s\<lparr>ls_annotations := ls_annotations x\<rparr>"
| "applyListenerSet (UpdateListenerSetStatus x) s = s\<lparr>ls_status := ls_status x\<rparr>"
| "applyListenerSet _ s = s"

definition storesListenerSet :: "lb_env \<Rightarrow> string \<times> string \<Rightarrow> listener_set \<Rightarrow> bool" where
  "storesListenerSet w key s0 \<longleftrightarrow>
     (\<forall>h. env_listener_set w h (fst key) (snd key) = Inr (foldl (\<lambda>s c. applyListenerSet c s) s0 h)) \<and>
     (\<forall>h c. env_update w h c = None) \<and>
     (\<forall>h h'. env_gateway w h = env_gateway w h' \<and> env_gateway_class w h = env_gateway_class w h' \<and>
        env_namespace_labels w h = env_namespace_labels w h')"

abbreviation storedListenerSet :: "listener_set \<Rightarrow> lb_call list \<Rightarrow> listener_set" where
  "storedListenerSet s0 h \<equiv> foldl (\<lambda>s c. applyListenerSet c s) s0 h"

lemma apply_reading: "reading c \<Longrightarrow> applyListenerSet c s = s"
  by (cases c) simp_all

lemma stored_reads: "list_all reading cs \<Longrightarrow> storedListenerSet s cs = s"
  by (induction cs arbitrary: s) (simp_all add: apply_reading)

lemma parentName_update [simp]:
  "listenerSetParentGatewayName (s\<lparr>ls_status := st\<rparr>) = listenerSetParentGatewayName s"
  "listenerSetParentGatewayName (s\<lparr>ls_annotations := m\<rparr>) = listenerSetParentGatewayName s"
  by (simp_all add: listenerSetParentGatewayName_def Let_def split: option.split)

lemma stored_spec:
  "listenerSetParentGatewayName (storedListenerSet s h) = listenerSetParentGatewayName s"
  "ls_namespace (storedListenerSet s h) = ls_namespace s" "ls_name (storedListenerSet s h) = ls_name s"
  "ls_generation (storedListenerSet s h) = ls_generation s" "ls_listeners (storedListenerSet s h) = ls_listeners s"
  "ls_deleting (storedListenerSet s h) = ls_deleting s"
proof -
  have "listenerSetParentGatewayName (applyListenerSet c s) = listenerSetParentGatewayName s \<and>
    ls_namespace (applyListenerSet c s) = ls_namespace s \<and> ls_name (applyListenerSet c s) = ls_name s \<and>
    ls_generation (applyListenerSet c s) = ls_generation s \<and> ls_listeners (applyListenerSet c s) = ls_listeners s \<and>
    ls_deleting (applyListenerSet c s) = ls_deleting s" for c s
    by (cases c) simp_all
  then show "listenerSetParentGatewayName (storedListenerSet s h) = listenerSetParentGatewayName s"
    "ls_namespace (storedListenerSet s h) = ls_namespace s" "ls_name (storedListenerSet s h) = ls_name s"
    "ls_generation (storedListenerSet s h) = ls_generation s" "ls_listeners (storedListenerSet s h) = ls_listeners s"
    "ls_deleting (storedListenerSet s h) = ls_deleting s"
    by (induction h arbitrary: s) simp_all
qed

lemma stored_statuses:
  "rejectedListenerSetStatus (storedListenerSet s h) reason message = rejectedListenerSetStatus s reason message"
  "pendingListenerSetStatus (storedListenerSet s h) g = pendingListenerSetStatus s g"
  "listenerSetAllowedByGateway w g (storedListenerSet s h) labels = listenerSetAllowedByGateway w g s labels"
  unfolding rejectedListenerSetStatus_def pendingListenerSetStatus_def listenerSetStatusWithConditions_def
    listenerSetListenerStatuses_def listenerSetAllowedByGateway_def stored_spec by (rule refl)+

lemma stored_status: "statusForListenerSet w (storedListenerSet s h) = statusForListenerSet w s"
  unfolding statusForListenerSet_def stored_spec stored_statuses by (rule refl)

lemma storesD:
  assumes "storesListenerSet w (ns, n) s0"
  shows "env_listener_set w h ns n = Inr (storedListenerSet s0 h)" "env_update w h c = None"
  using assms by (simp_all add: storesListenerSet_def)

lemma status_stable:
  assumes "storesListenerSet w key s0"
  shows "fst (statusForListenerSet w (storedListenerSet s0 h) h1) = fst (statusForListenerSet w s0 [])"
proof -
  define G where "G = env_gateway w []"
  define C where "C = env_gateway_class w []"
  define N where "N = env_namespace_labels w []"
  have "env_gateway w h = G" "env_gateway_class w h = C" "env_namespace_labels w h = N" for h
    using assms by (simp_all add: storesListenerSet_def G_def C_def N_def)
  note same = this
  have "fst (statusForListenerSet w s0 h1) = fst (statusForListenerSet w s0 [])"
  proof (cases "listenerSetParentGatewayName s0")
    case (Some parent)
    show ?thesis
    proof (cases "stringsCutParentName parent")
      case (Some p)
      obtain ns n where p: "p = (ns, n)" by fastforce
      note run = statusForListenerSet_def \<open>listenerSetParentGatewayName s0 = Some parent\<close> Some p same
        eff_bind_Inr [OF gateway_run(2)] eff_bind_Inr [OF gateway_run(3)] eff_bind_Inr [OF k8s_run(5)] eff_simps
      show ?thesis
        by (cases "G ns n"; cases "C (gw_class_name (projr (G ns n)))"; cases "N (ls_namespace s0)") (simp_all add: run)
    qed (use Some in \<open>simp add: statusForListenerSet_def eff_simps\<close>)
  qed (simp add: statusForListenerSet_def eff_simps)
  then show ?thesis by (simp add: stored_status)
qed

definition parentAnnotation :: "listener_set \<Rightarrow> string" where
  "parentAnnotation s = (case listenerSetParentGatewayName s of Some parentName \<Rightarrow> parentName | None \<Rightarrow> [])"

lemma annotation_run:
  assumes "storesListenerSet w (ns, n) s0"
  shows "\<exists>cs. updateParentGatewayAnnotation w (ns, n) s h = (Inr (), h @ cs) \<and>
    ls_status (storedListenerSet s0 (h @ cs)) = ls_status (storedListenerSet s0 h) \<and>
    map_get (ls_annotations (storedListenerSet s0 (h @ cs))) ListenerSetParentGatewayAnnotation = parentAnnotation s \<and>
    (map_get (ls_annotations (storedListenerSet s0 h)) ListenerSetParentGatewayAnnotation = parentAnnotation s \<longrightarrow> writes_of cs = [])"
proof -
  let ?stored = "storedListenerSet s0 h"
  have run: "updateParentGatewayAnnotation w (ns, n) s h =
    (if map_get (ls_annotations ?stored) ListenerSetParentGatewayAnnotation = parentAnnotation s
     then (Inr (), h @ [GetListenerSet ns n])
     else (Inr (), h @ [GetListenerSet ns n, UpdateListenerSet (?stored\<lparr>ls_annotations :=
       if parentAnnotation s = [] then AList.delete ListenerSetParentGatewayAnnotation (ls_annotations ?stored)
       else AList.update ListenerSetParentGatewayAnnotation (parentAnnotation s) (ls_annotations ?stored)\<rparr>)]))"
    by (simp add: updateParentGatewayAnnotation_def parentAnnotation_def [symmetric] Let_def storesD [OF assms]
      eff_bind_Inr [OF gateway_run(6)] eff_bind_Inr [OF gateway_run(7)] eff_simps)
  show ?thesis
  proof (cases "map_get (ls_annotations ?stored) ListenerSetParentGatewayAnnotation = parentAnnotation s")
    case True
    then show ?thesis using run by (intro exI [of _ "[GetListenerSet ns n]"]) simp
  next
    case False
    then show ?thesis using run
      by (auto simp: map_get_def update_conv' delete_conv' split: option.split intro!: exI)
  qed
qed

lemma status_equal_refl:
  assumes "distinct (map les_name (lss_listeners st))" "distinct (map cn_type (lss_conditions st))"
    and "\<And>e. e \<in> set (lss_listeners st) \<Longrightarrow> distinct (map cn_type (les_conditions e))"
  shows "listenerSetStatusSemanticallyEqual st st"
  using assms conditionsEqual_refl map_of_slice_to_map_unique [OF assms(1), of _ id "[]"]
  by (simp add: listenerSetStatusSemanticallyEqual_def Let_def list_all_iff routeGroupKindsEqual_refl)

lemma computed_status_distinct:
  assumes "distinct (map l_name (ls_listeners s))"
  shows "listenerSetStatusSemanticallyEqual (rejectedListenerSetStatus s reason message) (rejectedListenerSetStatus s reason message)"
    "listenerSetStatusSemanticallyEqual (pendingListenerSetStatus s g) (pendingListenerSetStatus s g)"
  using assms
  by (auto intro!: status_equal_refl simp: pendingListenerSetStatus_def rejectedListenerSetStatus_def
    listenerSetStatusWithConditions_def listenerSetListenerStatuses_def setListenerEntryCondition_def Let_def comp_def)

lemma parentAnnotation_stored: "parentAnnotation (storedListenerSet s h) = parentAnnotation s"
    "parentAnnotation (s\<lparr>ls_status := st\<rparr>) = parentAnnotation s"
  by (simp_all add: parentAnnotation_def stored_spec)

lemma reconcile_run:
  assumes "storesListenerSet w (ns, n) s0" "\<not> ls_deleting s0" "fst (statusForListenerSet w s0 []) = Inr st"
  shows "\<exists>cs. ListenerSetController_Reconcile w (ns, n) h = (Inr (), h @ cs) \<and>
    map_get (ls_annotations (storedListenerSet s0 (h @ cs))) ListenerSetParentGatewayAnnotation = parentAnnotation s0 \<and>
    (if listenerSetStatusSemanticallyEqual (ls_status (storedListenerSet s0 h)) st
     then ls_status (storedListenerSet s0 (h @ cs)) = ls_status (storedListenerSet s0 h) \<and>
       (map_get (ls_annotations (storedListenerSet s0 h)) ListenerSetParentGatewayAnnotation = parentAnnotation s0 \<longrightarrow>
          writes_of cs = [])
     else ls_status (storedListenerSet s0 (h @ cs)) = st)"
proof -
  let ?stored = "storedListenerSet s0 h"
  let ?h = "h @ [GetListenerSet ns n]"
  have "fst (statusForListenerSet w ?stored ?h) = Inr st" using status_stable [OF assms(1)] assms(3) by simp
  moreover obtain rs where rs: "snd (statusForListenerSet w ?stored ?h) = ?h @ rs" "list_all reading rs"
    using statusForListenerSet_reads unfolding emits_def by blast
  ultimately have status: "statusForListenerSet w ?stored ?h = (Inr st, ?h @ rs)" by (metis prod.collapse)
  have quiet: "writes_of rs = []" using rs(2) by (induction rs) simp_all
  have same: "storedListenerSet s0 (?h @ rs) = ?stored" using rs(2) by (simp add: stored_reads)
  have run: "ListenerSetController_Reconcile w (ns, n) h =
    (if listenerSetStatusSemanticallyEqual (ls_status ?stored) st
     then updateParentGatewayAnnotation w (ns, n) ?stored (?h @ rs)
     else updateParentGatewayAnnotation w (ns, n) (?stored\<lparr>ls_status := st\<rparr>)
       (?h @ rs @ [UpdateListenerSetStatus (?stored\<lparr>ls_status := st\<rparr>)]))"
    using assms(2) by (simp add: ListenerSetController_Reconcile_def storesD [OF assms(1)] stored_spec
      eff_bind_Inr [OF gateway_run(6)] eff_bind_Inr [where m = "statusForListenerSet w ?stored" and h = ?h, OF status] eff_bind_Inr [OF gateway_run(7)] eff_simps)
  show ?thesis
  proof (cases "listenerSetStatusSemanticallyEqual (ls_status ?stored) st")
    case True
    obtain cs where "updateParentGatewayAnnotation w (ns, n) ?stored (?h @ rs) = (Inr (), (?h @ rs) @ cs)"
      "ls_status (storedListenerSet s0 ((?h @ rs) @ cs)) = ls_status (storedListenerSet s0 (?h @ rs))"
      "map_get (ls_annotations (storedListenerSet s0 ((?h @ rs) @ cs))) ListenerSetParentGatewayAnnotation = parentAnnotation ?stored"
      "map_get (ls_annotations (storedListenerSet s0 (?h @ rs))) ListenerSetParentGatewayAnnotation = parentAnnotation ?stored \<longrightarrow>
        writes_of cs = []"
      using annotation_run [OF assms(1), of ?stored "?h @ rs"] by blast
    then show ?thesis using True run quiet same
      by (intro exI [of _ "GetListenerSet ns n # rs @ cs"]) (simp add: parentAnnotation_stored)
  next
    case False
    let ?h1 = "?h @ rs @ [UpdateListenerSetStatus (?stored\<lparr>ls_status := st\<rparr>)]"
    obtain cs where "updateParentGatewayAnnotation w (ns, n) (?stored\<lparr>ls_status := st\<rparr>) ?h1 = (Inr (), ?h1 @ cs)"
      "ls_status (storedListenerSet s0 (?h1 @ cs)) = ls_status (storedListenerSet s0 ?h1)"
      "map_get (ls_annotations (storedListenerSet s0 (?h1 @ cs))) ListenerSetParentGatewayAnnotation =
        parentAnnotation (?stored\<lparr>ls_status := st\<rparr>)"
      using annotation_run [OF assms(1), of "?stored\<lparr>ls_status := st\<rparr>" ?h1] by blast
    then show ?thesis using False run same
      by (intro exI [of _ "GetListenerSet ns n # rs @ UpdateListenerSetStatus (?stored\<lparr>ls_status := st\<rparr>) # cs"])
        (simp add: parentAnnotation_stored)
  qed
qed

lemma reconcile_status:
  assumes "storesListenerSet w (ns, n) s0" "\<not> ls_deleting s0" "ListenerSetController_Reconcile w (ns, n) h = (Inr (), h1)"
  shows "\<exists>st. fst (statusForListenerSet w s0 []) = Inr st"
proof -
  let ?stored = "storedListenerSet s0 h"
  from assms(3) obtain st h2 where "statusForListenerSet w ?stored (h @ [GetListenerSet ns n]) = (Inr st, h2)"
    using assms(2) by (auto simp: ListenerSetController_Reconcile_def storesD [OF assms(1)] stored_spec
      eff_bind_Inr [OF gateway_run(6)] elim!: eff_bind_InrE)
  then show ?thesis using status_stable [OF assms(1), of h "h @ [GetListenerSet ns n]"] by (metis fst_conv)
qed

text \<open>
  C32: When nothing else changes, a reconciliation of a ListenerSet that follows a successful one
  writes nothing.
\<close>

theorem listener_set_second_run_quiet:
  assumes "storesListenerSet w (ns, n) s0" "\<not> ls_deleting s0" "distinct (map l_name (ls_listeners s0))"
    and "ListenerSetController_Reconcile w (ns, n) h = (Inr (), h1)"
  shows "\<exists>cs. ListenerSetController_Reconcile w (ns, n) h1 = (Inr (), h1 @ cs) \<and> writes_of cs = []"
proof -
  obtain st where st: "fst (statusForListenerSet w s0 []) = Inr st" using reconcile_status assms by blast
  note run = reconcile_run [OF assms(1,2) st]
  have "listenerSetStatusSemanticallyEqual st st"
    using statusForListenerSet_shape [of w s0 "[]" st] st computed_status_distinct [OF assms(3)]
    by (metis prod.collapse)
  then have "listenerSetStatusSemanticallyEqual (ls_status (storedListenerSet s0 h1)) st \<and>
      map_get (ls_annotations (storedListenerSet s0 h1)) ListenerSetParentGatewayAnnotation = parentAnnotation s0"
    using run [of h] assms(4) by (auto split: if_splits)
  then show ?thesis using run [of h1] by auto
qed

section \<open>The report of the Gateway controller is taken back\<close>

text \<open>
  A ListenerSet that the Gateway controller has reported as programmed is reset by every
  reconciliation of this controller that computes a status: it writes a status that is not
  programmed, although nothing about the ListenerSet has changed.
\<close>

theorem programmed_listener_set_is_reset:
  assumes "env_listener_set w h ns n = Inr s" "\<not> ls_deleting s"
    and "isStatusConditionTrue (lss_conditions (ls_status s)) ''Programmed''"
    and "distinct (map cn_type (lss_conditions (ls_status s)))"
    and "statusForListenerSet w s (h @ [GetListenerSet ns n]) = (Inr status, h1)"
  shows "\<exists>cs. snd (ListenerSetController_Reconcile w (ns, n) h) =
      h1 @ UpdateListenerSetStatus (s\<lparr>ls_status := status\<rparr>) # cs \<and>
    \<not> isStatusConditionTrue (lss_conditions status) ''Programmed''"
proof -
  have shape: "\<not> isStatusConditionTrue (lss_conditions status) ''Programmed'' \<and> distinct (map cn_type (lss_conditions status))"
    using statusForListenerSet_shape [OF assms(5)]
    by (cases "parentAllows w s (h @ [GetListenerSet ns n])") (auto simp: status_flags status_types)
  have differs: "\<not> listenerSetStatusSemanticallyEqual (ls_status s) status"
  proof
    assume "listenerSetStatusSemanticallyEqual (ls_status s) status"
    then have "conditionsSemanticallyEqual (lss_conditions (ls_status s)) (lss_conditions status)"
      by (auto simp: listenerSetStatusSemanticallyEqual_def split: if_splits)
    then have "set (lss_conditions (ls_status s)) = set (lss_conditions status)"
      using conditionsSemanticallyEqual_iff assms(4) shape by blast
    then show False using assms(3,4) shape isStatusConditionTrue_iff by metis
  qed
  have "extends (updateParentGatewayAnnotation w key x)" for key x
    unfolding updateParentGatewayAnnotation_def extends_def Let_def
    by (auto intro!: emits_bind emits_return emits_fail emits_gateway split: option.split sum.split)
  from extendsD [OF this] obtain cs where
    tail: "snd (updateParentGatewayAnnotation w (ns, n) (s\<lparr>ls_status := status\<rparr>) (h1 @ [UpdateListenerSetStatus (s\<lparr>ls_status := status\<rparr>)])) =
      (h1 @ [UpdateListenerSetStatus (s\<lparr>ls_status := status\<rparr>)]) @ cs" by blast
  have "ListenerSetController_Reconcile w (ns, n) h =
    (case env_update w h1 (UpdateListenerSetStatus (s\<lparr>ls_status := status\<rparr>)) of
       Some err \<Rightarrow> (Inl (ErrWrap (errtext ''failed to update ListenerSet '' (namespaced_name ns n) '' status: '') err []),
         h1 @ [UpdateListenerSetStatus (s\<lparr>ls_status := status\<rparr>)])
     | None \<Rightarrow> updateParentGatewayAnnotation w (ns, n) (s\<lparr>ls_status := status\<rparr>)
         (h1 @ [UpdateListenerSetStatus (s\<lparr>ls_status := status\<rparr>)]))"
    using assms(1,2) differs
    by (simp add: ListenerSetController_Reconcile_def eff_bind_Inr [OF gateway_run(6)]
      eff_bind_Inr [where m = "statusForListenerSet w s" and h = "h @ [GetListenerSet ns n]", OF assms(5)]
      eff_bind_Inr [OF gateway_run(7)] eff_simps split: option.split)
  then show ?thesis using tail shape by (auto split: option.splits)
qed

section \<open>Examples\<close>

definition openGateway :: gateway where
  "openGateway = exampleGateway\<lparr>gw_allowed_listeners := Some \<lparr>rn_from = Some ''All'', rn_selector = None\<rparr>\<rparr>"

definition exampleClass :: gateway_class where
  "exampleClass = \<lparr>gc_name = ''oci'', gc_controller = ControllerClassName, gc_generation = 1, gc_finalizers = [],
     gc_annotations = [], gc_conditions = []\<rparr>"

definition listenerSetEnv :: "listener_set \<Rightarrow> lb_env" where
  "listenerSetEnv s = agreeable_env\<lparr>env_gateway := (\<lambda>_ _ _. Inr openGateway), env_gateway_class := (\<lambda>_ _. Inr exampleClass),
     env_listener_set := (\<lambda>h _ _. Inr (storedListenerSet s h))\<rparr>"

lemma listenerSetEnv_simps:
  "env_gateway (listenerSetEnv s) = (\<lambda>_ _ _. Inr openGateway)" "env_gateway_class (listenerSetEnv s) = (\<lambda>_ _. Inr exampleClass)"
  "env_listener_set (listenerSetEnv s) h ns n = Inr (storedListenerSet s h)" "env_update (listenerSetEnv s) h c = None"
  "env_namespace_labels (listenerSetEnv s) = (\<lambda>_ _. Inr [])"
  by (simp_all add: listenerSetEnv_def agreeable_env_def)

lemma listenerSetEnv_stores: "storesListenerSet (listenerSetEnv s) key s"
  by (simp add: storesListenerSet_def listenerSetEnv_simps)

definition webSet :: listener_set where
  "webSet = exampleListenerSet ''ls'' [plainListener ''mine'' 80 ''HTTP'']"

lemma webSet_parent: "listenerSetParentGatewayName webSet = Some ''ns/gw''"
  by code_simp

lemma webSet_status: "statusForListenerSet (listenerSetEnv s) webSet h =
    (Inr (pendingListenerSetStatus webSet openGateway), h @ [GetGateway ''ns'' ''gw'', GetGatewayClass ''oci'', GetNamespace ''ns''])"
proof -
  have "stringsCutParentName ''ns/gw'' = Some (''ns'', ''gw'')" by code_simp
  moreover have "gw_class_name openGateway = ''oci''" "ls_namespace webSet = ''ns''" "listenerSetGatewayClassSupported exampleClass"
    by (simp_all add: openGateway_def exampleGateway_def webSet_def exampleListenerSet_def listenerSetGatewayClassSupported_def
      exampleClass_def)
  moreover have "listenerSetAllowedByGateway w openGateway webSet []" for w
    by (simp add: listenerSetAllowedByGateway_def openGateway_def)
  ultimately show ?thesis
    by (simp add: statusForListenerSet_def webSet_parent listenerSetEnv_simps eff_bind_Inr [OF gateway_run(2)]
      eff_bind_Inr [OF gateway_run(3)] eff_bind_Inr [OF k8s_run(5)] eff_simps)
qed


theorem listener_set_second_run_quiet_witness:
  "\<exists>cs. ListenerSetController_Reconcile (listenerSetEnv webSet) (''ns'', ''ls'')
      (snd (ListenerSetController_Reconcile (listenerSetEnv webSet) (''ns'', ''ls'') [])) =
    (Inr (), snd (ListenerSetController_Reconcile (listenerSetEnv webSet) (''ns'', ''ls'') []) @ cs) \<and> writes_of cs = []"
proof (rule listener_set_second_run_quiet [OF listenerSetEnv_stores, where h = "[]"])
  show "\<not> ls_deleting webSet" by (simp add: webSet_def exampleListenerSet_def)
  have "fst (statusForListenerSet (listenerSetEnv webSet) webSet []) = Inr (pendingListenerSetStatus webSet openGateway)"
    by (simp add: webSet_status)
  from reconcile_run [OF listenerSetEnv_stores \<open>\<not> ls_deleting webSet\<close> this, of "''ns''" "''ls''" "[]"]
  show "ListenerSetController_Reconcile (listenerSetEnv webSet) (''ns'', ''ls'') [] =
    (Inr (), snd (ListenerSetController_Reconcile (listenerSetEnv webSet) (''ns'', ''ls'') []))" by auto
qed (simp add: webSet_def exampleListenerSet_def)

definition programmedSet :: listener_set where
  "programmedSet = webSet\<lparr>ls_status := listenerSetStatusForGateway openGateway webSet [] ControllerClassName []\<rparr>"

theorem programmed_listener_set_is_reset_witness:
  "\<exists>cs. snd (ListenerSetController_Reconcile (listenerSetEnv programmedSet) (''ns'', ''ls'') []) =
      [GetListenerSet ''ns'' ''ls'', GetGateway ''ns'' ''gw'', GetGatewayClass ''oci'', GetNamespace ''ns''] @
      UpdateListenerSetStatus (programmedSet\<lparr>ls_status := pendingListenerSetStatus programmedSet openGateway\<rparr>) # cs \<and>
    \<not> isStatusConditionTrue (lss_conditions (pendingListenerSetStatus programmedSet openGateway)) ''Programmed''"
proof (rule programmed_listener_set_is_reset)
  show "env_listener_set (listenerSetEnv programmedSet) [] ''ns'' ''ls'' = Inr programmedSet"
    by (simp add: listenerSetEnv_simps)
  show "\<not> ls_deleting programmedSet" by (simp add: programmedSet_def webSet_def exampleListenerSet_def)
  show "isStatusConditionTrue (lss_conditions (ls_status programmedSet)) ''Programmed''" by code_simp
  show "distinct (map cn_type (lss_conditions (ls_status programmedSet)))"
    by (simp add: programmedSet_def listenerSetStatusForGateway_def top_conditions_distinct Let_def)
  have "programmedSet = storedListenerSet webSet [UpdateListenerSetStatus programmedSet]"
    by (simp add: programmedSet_def)
  then have "statusForListenerSet w programmedSet h = statusForListenerSet w webSet h"
      "pendingListenerSetStatus programmedSet g = pendingListenerSetStatus webSet g" for w h g
    by (metis stored_status, metis stored_statuses(2))
  then show "statusForListenerSet (listenerSetEnv programmedSet) programmedSet ([] @ [GetListenerSet ''ns'' ''ls'']) =
    (Inr (pendingListenerSetStatus programmedSet openGateway),
     [GetListenerSet ''ns'' ''ls'', GetGateway ''ns'' ''gw'', GetGatewayClass ''oci'', GetNamespace ''ns''])"
    by (simp add: webSet_status)
qed

end
