(* ===== verification/Watches.thy ===== *)
theory Watches
  imports L4Routes ListenerSetController ReferenceGrants
begin

text \<open>
  Which objects are reconciled after a change (\<open>watches_model.go\<close>): the keys under which the cache
  finds routes, Gateways and ListenerSets, and the mappings from the object that changed to the
  requests. The cache of the Kubernetes client is a parameter. A list from the keys or values of a Go
  map has the order that \<open>we_order\<close> makes. The theorems are in \<open>WatchSafety\<close>.
\<close>

section \<open>The cache and the objects\<close>

datatype list_selector = AllObjects | InNamespace string | MatchingField string string

record watch_env =
  we_http_routes :: "list_selector \<Rightarrow> error + http_route list"
  we_grpc_routes :: "list_selector \<Rightarrow> error + grpc_route list"
  we_l4_routes :: "string \<Rightarrow> list_selector \<Rightarrow> error + l4_route list"
  we_gateways :: "list_selector \<Rightarrow> error + gateway list"
  we_listener_sets :: "list_selector \<Rightarrow> error + listener_set list"
  we_policies :: "list_selector \<Rightarrow> error + backend_tls_policy list"
  we_gateway :: "string \<Rightarrow> string \<Rightarrow> error + gateway"
  we_order :: "nat list"

text \<open>The objects of events; an EndpointSlice with its labels, a Secret with its type.\<close>

datatype (plugins only: code size) k8s_object =
    HTTPRouteObject http_route
  | GRPCRouteObject grpc_route
  | TCPRouteObject l4_route
  | UDPRouteObject l4_route
  | TLSRouteObject l4_route
  | GatewayObject gateway
  | ListenerSetObject listener_set
  | EndpointSliceObject string "string go_map"
  | ServiceObject string string
  | ConfigMapObject string string
  | SecretObject k8s_secret string
  | NamespaceObject string
  | ReferenceGrantObject reference_grant
  | BackendTLSPolicyObject backend_tls_policy
  | GatewayConfigObject string string

type_synonym request = "string \<times> string"

text \<open>\<open>lo.Keys\<close> of a map filled with the given keys.\<close>

definition lo_keys :: "nat list \<Rightarrow> 'a list \<Rightarrow> 'a list" where
  "lo_keys order xs = map_iter order (remdups xs)"

lemma set_lo_keys [simp]: "set (lo_keys order xs) = set xs"
  by (simp add: lo_keys_def)

section \<open>Index keys\<close>

definition httpRouteBackendServiceIndexKey :: string where
  "httpRouteBackendServiceIndexKey = ''.metadata.backendRefs.serviceName''"

definition grpcRouteBackendServiceIndexKey :: string where
  "grpcRouteBackendServiceIndexKey = ''.metadata.grpcBackendRefs.serviceName''"

definition httpRouteParentGatewayIndexKey :: string where
  "httpRouteParentGatewayIndexKey = ''.metadata.parentRefs.gateway''"

definition grpcRouteParentGatewayIndexKey :: string where
  "grpcRouteParentGatewayIndexKey = ''.metadata.grpcParentRefs.gateway''"

definition tlsRouteParentGatewayIndexKey :: string where
  "tlsRouteParentGatewayIndexKey = ''.metadata.tlsParentRefs.gateway''"

definition gatewayCertificateIndexKey :: string where
  "gatewayCertificateIndexKey = ''.metadata.certificates''"

definition gatewayFrontendMTLSCAConfigMapIndexKey :: string where
  "gatewayFrontendMTLSCAConfigMapIndexKey = ''.metadata.frontendMTLSConfigMaps''"

definition listenerSetParentGatewayIndexKey :: string where
  "listenerSetParentGatewayIndexKey = ''.metadata.parentRef.gateway''"

definition listenerSetCertificateIndexKey :: string where
  "listenerSetCertificateIndexKey = ''.metadata.listenerSetCertificates''"

definition tcpRouteBackendServiceIndexKey :: string where
  "tcpRouteBackendServiceIndexKey = ''.metadata.tcpBackendRefs.serviceName''"

definition udpRouteBackendServiceIndexKey :: string where
  "udpRouteBackendServiceIndexKey = ''.metadata.udpBackendRefs.serviceName''"

definition tlsRouteBackendServiceIndexKey :: string where
  "tlsRouteBackendServiceIndexKey = ''.metadata.tlsBackendRefs.serviceName''"

subsection \<open>Parents\<close>

definition parentGatewayKey :: "string \<Rightarrow> parent_ref \<Rightarrow> string list" where
  "parentGatewayKey routeNamespace ref =
     (if pr_group ref \<noteq> None \<and> pr_group ref \<noteq> Some gatewayGroupName then []
      else if pr_kind ref \<noteq> None \<and> pr_kind ref \<noteq> Some ''Gateway'' \<and> pr_kind ref \<noteq> Some ''ListenerSet'' then []
      else [path_join [case pr_namespace ref of Some n \<Rightarrow> n | None \<Rightarrow> routeNamespace, pr_name ref]])"

definition parentGatewayIndexKeys :: "nat list \<Rightarrow> string \<Rightarrow> parent_ref list \<Rightarrow> string list" where
  "parentGatewayIndexKeys order routeNamespace refs = lo_keys order (concat (map (parentGatewayKey routeNamespace) refs))"

definition indexHTTPRouteByParentGateway :: "nat list \<Rightarrow> k8s_object \<Rightarrow> string list" where
  "indexHTTPRouteByParentGateway order obj =
     (case obj of HTTPRouteObject route \<Rightarrow>
        (if rt_deleting route then [] else parentGatewayIndexKeys order (rt_namespace route) (rt_parent_refs route))
      | _ \<Rightarrow> [])"

definition indexGRPCRouteByParentGateway :: "nat list \<Rightarrow> k8s_object \<Rightarrow> string list" where
  "indexGRPCRouteByParentGateway order obj =
     (case obj of GRPCRouteObject route \<Rightarrow>
        (if rt_deleting route then [] else parentGatewayIndexKeys order (rt_namespace route) (rt_parent_refs route))
      | _ \<Rightarrow> [])"

definition indexTLSRouteByParentGateway :: "nat list \<Rightarrow> k8s_object \<Rightarrow> string list" where
  "indexTLSRouteByParentGateway order obj =
     (case obj of TLSRouteObject route \<Rightarrow>
        (if rt_deleting route then [] else parentGatewayIndexKeys order (rt_namespace route) (rt_parent_refs route))
      | _ \<Rightarrow> [])"

definition indexListenerSetByParentGateway :: "k8s_object \<Rightarrow> string list" where
  "indexListenerSetByParentGateway obj =
     (case obj of ListenerSetObject listenerSet \<Rightarrow>
        (if ls_deleting listenerSet then []
         else case listenerSetParentGatewayName listenerSet of None \<Rightarrow> [] | Some parentName \<Rightarrow> [parentName])
      | _ \<Rightarrow> [])"

subsection \<open>Certificates\<close>

definition listenerSecretKeys :: "string \<Rightarrow> gw_listener \<Rightarrow> string list" where
  "listenerSecretKeys namespace listener =
     (if l_protocol listener \<noteq> ''HTTPS'' \<and> l_protocol listener \<noteq> ''TLS'' then []
      else case l_tls listener of
          None \<Rightarrow> []
        | Some tls \<Rightarrow> map (\<lambda>ref. path_join [case sr_namespace ref of Some n \<Rightarrow> n | None \<Rightarrow> namespace, sr_name ref])
            (tls_cert_refs tls))"

definition indexListenerSetByCertificateSecrets :: "nat list \<Rightarrow> k8s_object \<Rightarrow> string list" where
  "indexListenerSetByCertificateSecrets order obj =
     (case obj of ListenerSetObject listenerSet \<Rightarrow>
        (if ls_deleting listenerSet then []
         else lo_keys order (concat (map (listenerSecretKeys (ls_namespace listenerSet)) (ls_listeners listenerSet))))
      | _ \<Rightarrow> [])"

definition indexGatewayByCertificateSecrets :: "nat list \<Rightarrow> k8s_object \<Rightarrow> string list" where
  "indexGatewayByCertificateSecrets order obj =
     (case obj of GatewayObject gateway \<Rightarrow>
        (if gw_deleting gateway then []
         else lo_keys order (concat (map (listenerSecretKeys (gw_namespace gateway)) (gw_listeners gateway))))
      | _ \<Rightarrow> [])"

definition configMapKeysOf :: "gateway \<Rightarrow> frontend_validation option \<Rightarrow> string list" where
  "configMapKeysOf gateway validation =
     (case validation of
        None \<Rightarrow> []
      | Some v \<Rightarrow> map (\<lambda>ref. path_join [case or_namespace ref of Some n \<Rightarrow> n | None \<Rightarrow> gw_namespace gateway, or_name ref])
          (filter (\<lambda>ref. \<not> (or_group ref \<noteq> [] \<or> or_kind ref \<noteq> ''ConfigMap'')) (fv_ca_refs v)))"

definition indexGatewayByFrontendMTLSConfigMaps :: "nat list \<Rightarrow> k8s_object \<Rightarrow> string list" where
  "indexGatewayByFrontendMTLSConfigMaps order obj =
     (case obj of GatewayObject gateway \<Rightarrow>
        (if gw_deleting gateway then []
         else case gw_frontend gateway of
             None \<Rightarrow> []
           | Some frontend \<Rightarrow>
               if map_get (gw_annotations gateway) ControllerClassName \<noteq> ''true'' then []
               else lo_keys order (configMapKeysOf gateway (ft_default frontend) @
                 concat (map (\<lambda>(port, validation). configMapKeysOf gateway validation) (ft_per_port frontend))))
      | _ \<Rightarrow> [])"

subsection \<open>Backends\<close>

definition backendServiceKey :: "string \<Rightarrow> backend_ref \<Rightarrow> string" where
  "backendServiceKey namespace backendRef =
     path_join [case br_namespace backendRef of Some n \<Rightarrow> n | None \<Rightarrow> namespace, br_name backendRef]"

definition indexBackendRefsByService :: "nat list \<Rightarrow> string \<Rightarrow> backend_ref list \<Rightarrow> string list" where
  "indexBackendRefsByService order namespace refs = lo_keys order (map (backendServiceKey namespace) refs)"

text \<open>The first status of this controller decides whether a route counts as programmed.\<close>

definition programmedByController :: "route_parent_status list \<Rightarrow> bool" where
  "programmedByController parents =
     (case find (\<lambda>status. rps_controller status = ControllerClassName) parents of
        None \<Rightarrow> False
      | Some matchingParentStatus \<Rightarrow>
          (case findStatusCondition (rps_conditions matchingParentStatus) ''ResolvedRefs'' of
             None \<Rightarrow> False
           | Some condition \<Rightarrow> cn_status condition = ''True''))"

definition indexGRPCRouteByBackendService :: "nat list \<Rightarrow> k8s_object \<Rightarrow> string list" where
  "indexGRPCRouteByBackendService order obj =
     (case obj of GRPCRouteObject route \<Rightarrow>
        (if rt_deleting route then []
         else if \<not> programmedByController (rt_parents route) then []
         else lo_keys order (concat (map (\<lambda>rule. indexBackendRefsByService order (rt_namespace route) (rr_backend_refs rule))
           (rt_rules route))))
      | _ \<Rightarrow> [])"

definition indexHTTPRouteByBackendService :: "nat list \<Rightarrow> k8s_object \<Rightarrow> string list" where
  "indexHTTPRouteByBackendService order obj =
     (case obj of HTTPRouteObject route \<Rightarrow>
        (if rt_deleting route then []
         else if \<not> programmedByController (rt_parents route) then []
         else lo_keys order (concat (map (\<lambda>rule. map (backendServiceKey (rt_namespace route)) (rr_backend_refs rule))
           (rt_rules route))))
      | _ \<Rightarrow> [])"

definition indexL4RouteByBackendService :: "nat list \<Rightarrow> string \<Rightarrow> backend_ref list list \<Rightarrow> string list" where
  "indexL4RouteByBackendService order namespace rulesBackendRefs =
     lo_keys order (concat (map (indexBackendRefsByService order namespace) rulesBackendRefs))"

definition indexTCPRouteByBackendService :: "nat list \<Rightarrow> k8s_object \<Rightarrow> string list" where
  "indexTCPRouteByBackendService order obj =
     (case obj of TCPRouteObject route \<Rightarrow>
        (if rt_deleting route then []
         else indexL4RouteByBackendService order (rt_namespace route) (map rr_backend_refs (rt_rules route)))
      | _ \<Rightarrow> [])"

definition indexUDPRouteByBackendService :: "nat list \<Rightarrow> k8s_object \<Rightarrow> string list" where
  "indexUDPRouteByBackendService order obj =
     (case obj of UDPRouteObject route \<Rightarrow>
        (if rt_deleting route then []
         else indexL4RouteByBackendService order (rt_namespace route) (map rr_backend_refs (rt_rules route)))
      | _ \<Rightarrow> [])"

definition indexTLSRouteByBackendService :: "nat list \<Rightarrow> k8s_object \<Rightarrow> string list" where
  "indexTLSRouteByBackendService order obj =
     (case obj of TLSRouteObject route \<Rightarrow>
        (if rt_deleting route then []
         else indexL4RouteByBackendService order (rt_namespace route) (map rr_backend_refs (rt_rules route)))
      | _ \<Rightarrow> [])"

section \<open>Registration of the indexes\<close>

record RegisterFieldIndexersOptions =
  EnableTCPRoute :: bool
  EnableUDPRoute :: bool
  EnableTLSRoute :: bool
  EnableListenerSet :: bool
  EnableFrontendMTLS :: bool

text \<open>\<open>indexer.IndexField\<close> for a kind and a key may fail; the function it gets is the one above.\<close>

type_synonym index_call = "string \<times> string"
type_synonym indexer = "index_call list \<Rightarrow> index_call \<Rightarrow> error option"

definition indexField :: "indexer \<Rightarrow> string \<Rightarrow> string \<Rightarrow> string \<Rightarrow> (index_call, error, unit) eff" where
  "indexField ix kind key failing =
     eff_bind (eff_call (kind, key) (\<lambda>h. ix h (kind, key))) (\<lambda>r. case r of
         None \<Rightarrow> eff_return ()
       | Some err \<Rightarrow> eff_fail (ErrWrap failing err []))"

definition registerGatewayCertificateIndexers :: "indexer \<Rightarrow> (index_call, error, unit) eff" where
  "registerGatewayCertificateIndexers ix =
     indexField ix ''Gateway'' gatewayCertificateIndexKey ''failed to index Gateway by certificate: ''"

definition registerFrontendMTLSIndexers :: "indexer \<Rightarrow> (index_call, error, unit) eff" where
  "registerFrontendMTLSIndexers ix =
     indexField ix ''Gateway'' gatewayFrontendMTLSCAConfigMapIndexKey ''failed to index Gateway by frontend mTLS ConfigMap: ''"

definition registerListenerSetIndexers :: "indexer \<Rightarrow> (index_call, error, unit) eff" where
  "registerListenerSetIndexers ix =
     eff_bind (indexField ix ''ListenerSet'' listenerSetParentGatewayIndexKey ''failed to index ListenerSet by parent Gateway: '') (\<lambda>_.
       indexField ix ''ListenerSet'' listenerSetCertificateIndexKey ''failed to index ListenerSet by certificate: '')"

definition registerL7RouteParentGatewayIndexers :: "indexer \<Rightarrow> (index_call, error, unit) eff" where
  "registerL7RouteParentGatewayIndexers ix =
     eff_bind (indexField ix ''HTTPRoute'' httpRouteParentGatewayIndexKey ''failed to index HTTPRoute by parent Gateway: '') (\<lambda>_.
       indexField ix ''GRPCRoute'' grpcRouteParentGatewayIndexKey ''failed to index GRPCRoute by parent Gateway: '')"

definition registerTLSRouteIndexers :: "indexer \<Rightarrow> (index_call, error, unit) eff" where
  "registerTLSRouteIndexers ix =
     eff_bind (indexField ix ''TLSRoute'' tlsRouteBackendServiceIndexKey ''failed to index TLSRoute by backend service: '') (\<lambda>_.
       indexField ix ''TLSRoute'' tlsRouteParentGatewayIndexKey ''failed to index TLSRoute by parent Gateway: '')"

definition RegisterFieldIndexers ::
    "indexer \<Rightarrow> RegisterFieldIndexersOptions list \<Rightarrow> (index_call, error, unit) eff" where
  "RegisterFieldIndexers ix options =
     (let opts = (case options of [] \<Rightarrow> \<lparr>EnableTCPRoute = True, EnableUDPRoute = True, EnableTLSRoute = False,
                    EnableListenerSet = False, EnableFrontendMTLS = False\<rparr> | o1 # _ \<Rightarrow> o1) in
      eff_bind (indexField ix ''HTTPRoute'' httpRouteBackendServiceIndexKey ''failed to index HTTPRoute by backend service: '') (\<lambda>_.
      eff_bind (indexField ix ''GRPCRoute'' grpcRouteBackendServiceIndexKey ''failed to index GRPCRoute by backend service: '') (\<lambda>_.
      eff_bind (registerL7RouteParentGatewayIndexers ix) (\<lambda>_.
      eff_bind (if EnableTCPRoute opts then indexField ix ''TCPRoute'' tcpRouteBackendServiceIndexKey
          ''failed to index TCPRoute by backend service: '' else eff_return ()) (\<lambda>_.
      eff_bind (if EnableUDPRoute opts then indexField ix ''UDPRoute'' udpRouteBackendServiceIndexKey
          ''failed to index UDPRoute by backend service: '' else eff_return ()) (\<lambda>_.
      eff_bind (if EnableTLSRoute opts then registerTLSRouteIndexers ix else eff_return ()) (\<lambda>_.
      eff_bind (registerGatewayCertificateIndexers ix) (\<lambda>_.
      eff_bind (if EnableFrontendMTLS opts then registerFrontendMTLSIndexers ix else eff_return ()) (\<lambda>_.
        if EnableListenerSet opts then registerListenerSetIndexers ix else eff_return ())))))))))"

section \<open>Requests from lists\<close>

definition routeKey :: "'m l7_route \<Rightarrow> request" where
  "routeKey route = (rt_namespace route, rt_name route)"

definition gatewayKey :: "gateway \<Rightarrow> request" where
  "gatewayKey gateway = (gw_namespace gateway, gw_name gateway)"

definition listenerSetKey :: "listener_set \<Rightarrow> request" where
  "listenerSetKey listenerSet = (ls_namespace listenerSet, ls_name listenerSet)"

text \<open>The loops that skip what is being deleted; \<open>ok\<close> is the condition of the loop.\<close>

definition liveRoutes :: "('m l7_route \<Rightarrow> bool) \<Rightarrow> 'm l7_route list \<Rightarrow> request list" where
  "liveRoutes ok routes = map routeKey (filter (\<lambda>r. \<not> rt_deleting r \<and> ok r) routes)"

definition liveGateways :: "(gateway \<Rightarrow> bool) \<Rightarrow> gateway list \<Rightarrow> request list" where
  "liveGateways ok gateways = map gatewayKey (filter (\<lambda>g. \<not> gw_deleting g \<and> ok g) gateways)"

definition liveListenerSets :: "(listener_set \<Rightarrow> bool) \<Rightarrow> listener_set list \<Rightarrow> request list" where
  "liveListenerSets ok listenerSets = map listenerSetKey (filter (\<lambda>s. \<not> ls_deleting s \<and> ok s) listenerSets)"

text \<open>A failed list gives no requests.\<close>

definition orNone :: "'e + 'a list \<Rightarrow> ('a list \<Rightarrow> request list) \<Rightarrow> request list" where
  "orNone answer requestsFromList = (case answer of Inl _ \<Rightarrow> [] | Inr items \<Rightarrow> requestsFromList items)"

text \<open>Lists for one key after the other; the first failure gives up.\<close>

fun listForKeys :: "(string \<Rightarrow> 'e + 'a list) \<Rightarrow> string list \<Rightarrow> 'e + 'a list" where
  "listForKeys list_by [] = Inr []"
| "listForKeys list_by (key # keys) =
     (case list_by key of
        Inl err \<Rightarrow> Inl err
      | Inr items \<Rightarrow> (case listForKeys list_by keys of Inl err \<Rightarrow> Inl err | Inr rest \<Rightarrow> Inr (items @ rest)))"

section \<open>Backends that change\<close>

definition LabelServiceName :: string where
  "LabelServiceName = ''kubernetes.io/service-name''"

definition endpointSliceServiceKey :: "k8s_object \<Rightarrow> string option" where
  "endpointSliceServiceKey obj =
     (case obj of EndpointSliceObject ns labels \<Rightarrow>
        map_option (\<lambda>svcName. path_join [ns, svcName]) (map_of labels LabelServiceName)
      | _ \<Rightarrow> None)"

definition MapEndpointSliceToHTTPRoute :: "watch_env \<Rightarrow> k8s_object \<Rightarrow> request list" where
  "MapEndpointSliceToHTTPRoute w obj =
     (case endpointSliceServiceKey obj of
        None \<Rightarrow> []
      | Some indexKey \<Rightarrow>
          orNone (we_http_routes w (MatchingField httpRouteBackendServiceIndexKey indexKey)) (liveRoutes (\<lambda>_. True)))"

definition mapEndpointSliceToL4Route ::
    "k8s_object \<Rightarrow> (list_selector \<Rightarrow> error + 'm l7_route list) \<Rightarrow> string \<Rightarrow> ('m l7_route list \<Rightarrow> request list) \<Rightarrow> request list" where
  "mapEndpointSliceToL4Route obj routes indexKey requestsFromList =
     (case endpointSliceServiceKey obj of
        None \<Rightarrow> []
      | Some serviceIndexKey \<Rightarrow> orNone (routes (MatchingField indexKey serviceIndexKey)) requestsFromList)"

definition MapEndpointSliceToGRPCRoute :: "watch_env \<Rightarrow> k8s_object \<Rightarrow> request list" where
  "MapEndpointSliceToGRPCRoute w obj =
     mapEndpointSliceToL4Route obj (we_grpc_routes w) grpcRouteBackendServiceIndexKey (liveRoutes (\<lambda>_. True))"

definition MapEndpointSliceToTCPRoute :: "watch_env \<Rightarrow> k8s_object \<Rightarrow> request list" where
  "MapEndpointSliceToTCPRoute w obj =
     mapEndpointSliceToL4Route obj (we_l4_routes w ''TCPRoute'') tcpRouteBackendServiceIndexKey (liveRoutes (\<lambda>_. True))"

definition MapEndpointSliceToUDPRoute :: "watch_env \<Rightarrow> k8s_object \<Rightarrow> request list" where
  "MapEndpointSliceToUDPRoute w obj =
     mapEndpointSliceToL4Route obj (we_l4_routes w ''UDPRoute'') udpRouteBackendServiceIndexKey (liveRoutes (\<lambda>_. True))"

definition MapEndpointSliceToTLSRoute :: "watch_env \<Rightarrow> k8s_object \<Rightarrow> request list" where
  "MapEndpointSliceToTLSRoute w obj =
     mapEndpointSliceToL4Route obj (we_l4_routes w ''TLSRoute'') tlsRouteBackendServiceIndexKey (liveRoutes (\<lambda>_. True))"

definition mapServiceKeyToIndexedRoutes ::
    "watch_env \<Rightarrow> string \<Rightarrow> (list_selector \<Rightarrow> error + 'm l7_route list) \<Rightarrow> string \<Rightarrow> request list" where
  "mapServiceKeyToIndexedRoutes w serviceKey routes indexKey =
     orNone (routes (MatchingField indexKey serviceKey)) (\<lambda>items. lo_keys (we_order w) (liveRoutes (\<lambda>_. True) items))"

definition mapServiceToIndexedRoutes ::
    "watch_env \<Rightarrow> k8s_object \<Rightarrow> (list_selector \<Rightarrow> error + 'm l7_route list) \<Rightarrow> string \<Rightarrow> request list" where
  "mapServiceToIndexedRoutes w obj routes indexKey =
     (case obj of ServiceObject ns name \<Rightarrow> mapServiceKeyToIndexedRoutes w (path_join [ns, name]) routes indexKey | _ \<Rightarrow> [])"

definition MapServiceToHTTPRoute :: "watch_env \<Rightarrow> k8s_object \<Rightarrow> request list" where
  "MapServiceToHTTPRoute w obj = mapServiceToIndexedRoutes w obj (we_http_routes w) httpRouteBackendServiceIndexKey"

definition MapServiceToGRPCRoute :: "watch_env \<Rightarrow> k8s_object \<Rightarrow> request list" where
  "MapServiceToGRPCRoute w obj = mapServiceToIndexedRoutes w obj (we_grpc_routes w) grpcRouteBackendServiceIndexKey"

definition MapServiceToTLSRoute :: "watch_env \<Rightarrow> k8s_object \<Rightarrow> request list" where
  "MapServiceToTLSRoute w obj = mapServiceToIndexedRoutes w obj (we_l4_routes w ''TLSRoute'') tlsRouteBackendServiceIndexKey"

section \<open>Backend TLS policies and ConfigMaps\<close>

definition mapBackendTLSPolicyToIndexedRoutes ::
    "watch_env \<Rightarrow> k8s_object \<Rightarrow> (list_selector \<Rightarrow> error + 'm l7_route list) \<Rightarrow> string \<Rightarrow> request list" where
  "mapBackendTLSPolicyToIndexedRoutes w obj routes indexKey =
     (case obj of BackendTLSPolicyObject policy \<Rightarrow>
        orNone (listForKeys (\<lambda>serviceKey. routes (MatchingField indexKey serviceKey))
            (map (\<lambda>ref. path_join [btp_namespace policy, ptr_name ref])
              (filter (\<lambda>ref. \<not> (ptr_group ref \<noteq> [] \<or> ptr_kind ref \<noteq> ''Service'')) (btp_target_refs policy))))
          (\<lambda>items. lo_keys (we_order w) (liveRoutes (\<lambda>_. True) items))
      | _ \<Rightarrow> [])"

definition MapBackendTLSPolicyToHTTPRoute :: "watch_env \<Rightarrow> k8s_object \<Rightarrow> request list" where
  "MapBackendTLSPolicyToHTTPRoute w obj =
     mapBackendTLSPolicyToIndexedRoutes w obj (we_http_routes w) httpRouteBackendServiceIndexKey"

definition MapBackendTLSPolicyToGRPCRoute :: "watch_env \<Rightarrow> k8s_object \<Rightarrow> request list" where
  "MapBackendTLSPolicyToGRPCRoute w obj =
     mapBackendTLSPolicyToIndexedRoutes w obj (we_grpc_routes w) grpcRouteBackendServiceIndexKey"

definition MapBackendTLSPolicyToTLSRoute :: "watch_env \<Rightarrow> k8s_object \<Rightarrow> request list" where
  "MapBackendTLSPolicyToTLSRoute w obj =
     mapBackendTLSPolicyToIndexedRoutes w obj (we_l4_routes w ''TLSRoute'') tlsRouteBackendServiceIndexKey"

definition backendTLSPolicyReferencesConfigMap :: "backend_tls_policy \<Rightarrow> string \<Rightarrow> bool" where
  "backendTLSPolicyReferencesConfigMap policy name =
     list_ex (\<lambda>caRef. cr_group caRef = [] \<and> cr_kind caRef = ''ConfigMap'' \<and> cr_name caRef = name) (btp_ca_refs policy)"

definition mapConfigMapToBackendTLSPolicyRoutes ::
    "watch_env \<Rightarrow> k8s_object \<Rightarrow> (backend_tls_policy \<Rightarrow> request list) \<Rightarrow> request list" where
  "mapConfigMapToBackendTLSPolicyRoutes w obj mapPolicy =
     (case obj of ConfigMapObject ns name \<Rightarrow>
        orNone (we_policies w (InNamespace ns)) (\<lambda>policies. lo_keys (we_order w)
          (concat (map mapPolicy (filter (\<lambda>policy. backendTLSPolicyReferencesConfigMap policy name) policies))))
      | _ \<Rightarrow> [])"

definition MapConfigMapToHTTPRoute :: "watch_env \<Rightarrow> k8s_object \<Rightarrow> request list" where
  "MapConfigMapToHTTPRoute w obj =
     mapConfigMapToBackendTLSPolicyRoutes w obj (\<lambda>policy. MapBackendTLSPolicyToHTTPRoute w (BackendTLSPolicyObject policy))"

definition MapConfigMapToGRPCRoute :: "watch_env \<Rightarrow> k8s_object \<Rightarrow> request list" where
  "MapConfigMapToGRPCRoute w obj =
     mapConfigMapToBackendTLSPolicyRoutes w obj (\<lambda>policy. MapBackendTLSPolicyToGRPCRoute w (BackendTLSPolicyObject policy))"

definition MapConfigMapToTLSRoute :: "watch_env \<Rightarrow> k8s_object \<Rightarrow> request list" where
  "MapConfigMapToTLSRoute w obj =
     mapConfigMapToBackendTLSPolicyRoutes w obj (\<lambda>policy. MapBackendTLSPolicyToTLSRoute w (BackendTLSPolicyObject policy))"

definition MapConfigMapToGateway :: "watch_env \<Rightarrow> k8s_object \<Rightarrow> request list" where
  "MapConfigMapToGateway w obj =
     (case obj of ConfigMapObject ns name \<Rightarrow>
        orNone (we_gateways w (MatchingField gatewayFrontendMTLSCAConfigMapIndexKey (path_join [ns, name])))
          (liveGateways (\<lambda>_. True))
      | _ \<Rightarrow> [])"

section \<open>Parents that change\<close>

definition mapParentGatewaysToL7RouteRequests ::
    "watch_env \<Rightarrow> string list \<Rightarrow> (list_selector \<Rightarrow> error + 'm l7_route list) \<Rightarrow> string \<Rightarrow> request list" where
  "mapParentGatewaysToL7RouteRequests w parentGatewayKeys routes indexKey =
     orNone (listForKeys (\<lambda>parentGatewayKey. routes (MatchingField indexKey parentGatewayKey)) parentGatewayKeys)
       (\<lambda>items. lo_keys (we_order w) (liveRoutes (\<lambda>_. True) items))"

definition MapHTTPRouteToGRPCRoute :: "watch_env \<Rightarrow> k8s_object \<Rightarrow> request list" where
  "MapHTTPRouteToGRPCRoute w obj =
     (case obj of HTTPRouteObject route \<Rightarrow>
        mapParentGatewaysToL7RouteRequests w (parentGatewayIndexKeys (we_order w) (rt_namespace route) (rt_parent_refs route))
          (we_grpc_routes w) grpcRouteParentGatewayIndexKey
      | _ \<Rightarrow> [])"

definition MapGRPCRouteToHTTPRoute :: "watch_env \<Rightarrow> k8s_object \<Rightarrow> request list" where
  "MapGRPCRouteToHTTPRoute w obj =
     (case obj of GRPCRouteObject route \<Rightarrow>
        mapParentGatewaysToL7RouteRequests w (parentGatewayIndexKeys (we_order w) (rt_namespace route) (rt_parent_refs route))
          (we_http_routes w) httpRouteParentGatewayIndexKey
      | _ \<Rightarrow> [])"

definition mapGatewayToL7RouteRequests ::
    "watch_env \<Rightarrow> k8s_object \<Rightarrow> (list_selector \<Rightarrow> error + 'm l7_route list) \<Rightarrow> string \<Rightarrow> request list" where
  "mapGatewayToL7RouteRequests w obj routes indexKey =
     (case obj of GatewayObject gateway \<Rightarrow>
        mapParentGatewaysToL7RouteRequests w [path_join [gw_namespace gateway, gw_name gateway]] routes indexKey
      | _ \<Rightarrow> [])"

definition MapGatewayToHTTPRoute :: "watch_env \<Rightarrow> k8s_object \<Rightarrow> request list" where
  "MapGatewayToHTTPRoute w obj = mapGatewayToL7RouteRequests w obj (we_http_routes w) httpRouteParentGatewayIndexKey"

definition MapGatewayToGRPCRoute :: "watch_env \<Rightarrow> k8s_object \<Rightarrow> request list" where
  "MapGatewayToGRPCRoute w obj = mapGatewayToL7RouteRequests w obj (we_grpc_routes w) grpcRouteParentGatewayIndexKey"

definition mapListenerSetToIndexedRoutes ::
    "k8s_object \<Rightarrow> (list_selector \<Rightarrow> error + 'm l7_route list) \<Rightarrow> string \<Rightarrow> ('m l7_route list \<Rightarrow> request list) \<Rightarrow> request list" where
  "mapListenerSetToIndexedRoutes obj routes indexKey requestsFromList =
     (case obj of ListenerSetObject listenerSet \<Rightarrow>
        orNone (routes (MatchingField indexKey (namespaced_name (ls_namespace listenerSet) (ls_name listenerSet)))) requestsFromList
      | _ \<Rightarrow> [])"

definition MapListenerSetToHTTPRoute :: "watch_env \<Rightarrow> k8s_object \<Rightarrow> request list" where
  "MapListenerSetToHTTPRoute w obj =
     mapListenerSetToIndexedRoutes obj (we_http_routes w) httpRouteParentGatewayIndexKey (liveRoutes (\<lambda>_. True))"

definition MapListenerSetToGRPCRoute :: "watch_env \<Rightarrow> k8s_object \<Rightarrow> request list" where
  "MapListenerSetToGRPCRoute w obj =
     mapListenerSetToIndexedRoutes obj (we_grpc_routes w) grpcRouteParentGatewayIndexKey (liveRoutes (\<lambda>_. True))"

definition MapListenerSetToTLSRoute :: "watch_env \<Rightarrow> k8s_object \<Rightarrow> request list" where
  "MapListenerSetToTLSRoute w obj =
     mapListenerSetToIndexedRoutes obj (we_l4_routes w ''TLSRoute'') tlsRouteParentGatewayIndexKey (liveRoutes (\<lambda>_. True))"

subsection \<open>TCP and UDP routes\<close>

definition tcpParentRefTarget :: "parent_ref \<Rightarrow> string \<Rightarrow> request" where
  "tcpParentRefTarget parentRef routeNamespace = parentRefTargetName parentRef routeNamespace"

definition udpParentRefTarget :: "parent_ref \<Rightarrow> string \<Rightarrow> request" where
  "udpParentRefTarget parentRef routeNamespace = parentRefTargetName parentRef routeNamespace"

definition tcpRouteReferencesGateway :: "l4_route \<Rightarrow> gateway \<Rightarrow> bool" where
  "tcpRouteReferencesGateway route gateway =
     list_ex (\<lambda>parentRef. parentRefTargetsGateway parentRef \<and> tcpParentRefTarget parentRef (rt_namespace route) = gatewayKey gateway)
       (rt_parent_refs route)"

definition udpRouteReferencesGateway :: "l4_route \<Rightarrow> gateway \<Rightarrow> bool" where
  "udpRouteReferencesGateway route gateway =
     list_ex (\<lambda>parentRef. parentRefTargetsGateway parentRef \<and> udpParentRefTarget parentRef (rt_namespace route) = gatewayKey gateway)
       (rt_parent_refs route)"

definition routeRefsTargetListenerSet :: "parent_ref list \<Rightarrow> string \<Rightarrow> listener_set \<Rightarrow> bool" where
  "routeRefsTargetListenerSet parentRefs routeNamespace listenerSet =
     list_ex (\<lambda>parentRef. parentRefTargetsListenerSet parentRef \<and> parentRefTargetName parentRef routeNamespace = listenerSetKey listenerSet)
       parentRefs"

definition mapListenerSetToL4Route ::
    "k8s_object \<Rightarrow> (list_selector \<Rightarrow> error + l4_route list) \<Rightarrow> (l4_route list \<Rightarrow> listener_set \<Rightarrow> request list) \<Rightarrow> request list" where
  "mapListenerSetToL4Route obj routes requestsFromList =
     (case obj of ListenerSetObject listenerSet \<Rightarrow> orNone (routes AllObjects) (\<lambda>items. requestsFromList items listenerSet) | _ \<Rightarrow> [])"

definition MapListenerSetToTCPRoute :: "watch_env \<Rightarrow> k8s_object \<Rightarrow> request list" where
  "MapListenerSetToTCPRoute w obj = mapListenerSetToL4Route obj (we_l4_routes w ''TCPRoute'') (\<lambda>routes listenerSet.
     liveRoutes (\<lambda>route. routeRefsTargetListenerSet (rt_parent_refs route) (rt_namespace route) listenerSet) routes)"

definition MapListenerSetToUDPRoute :: "watch_env \<Rightarrow> k8s_object \<Rightarrow> request list" where
  "MapListenerSetToUDPRoute w obj = mapListenerSetToL4Route obj (we_l4_routes w ''UDPRoute'') (\<lambda>routes listenerSet.
     liveRoutes (\<lambda>route. routeRefsTargetListenerSet (rt_parent_refs route) (rt_namespace route) listenerSet) routes)"

definition mapGatewayToL4Route ::
    "k8s_object \<Rightarrow> (list_selector \<Rightarrow> error + l4_route list) \<Rightarrow> (l4_route list \<Rightarrow> gateway \<Rightarrow> request list) \<Rightarrow> request list" where
  "mapGatewayToL4Route obj routes requestsFromList =
     (case obj of GatewayObject gateway \<Rightarrow> orNone (routes AllObjects) (\<lambda>items. requestsFromList items gateway) | _ \<Rightarrow> [])"

definition MapGatewayToTCPRoute :: "watch_env \<Rightarrow> k8s_object \<Rightarrow> request list" where
  "MapGatewayToTCPRoute w obj = mapGatewayToL4Route obj (we_l4_routes w ''TCPRoute'') (\<lambda>routes gateway.
     map routeKey (filter (\<lambda>route. tcpRouteReferencesGateway route gateway) routes))"

definition MapGatewayToUDPRoute :: "watch_env \<Rightarrow> k8s_object \<Rightarrow> request list" where
  "MapGatewayToUDPRoute w obj = mapGatewayToL4Route obj (we_l4_routes w ''UDPRoute'') (\<lambda>routes gateway.
     map routeKey (filter (\<lambda>route. udpRouteReferencesGateway route gateway) routes))"

definition MapGatewayToTLSRoute :: "watch_env \<Rightarrow> k8s_object \<Rightarrow> request list" where
  "MapGatewayToTLSRoute w obj =
     (case obj of GatewayObject gateway \<Rightarrow>
        orNone (we_l4_routes w ''TLSRoute'' (MatchingField tlsRouteParentGatewayIndexKey
          (path_join [gw_namespace gateway, gw_name gateway]))) (map routeKey)
      | _ \<Rightarrow> [])"

section \<open>Reference grants\<close>

definition routeReferencesBackendNamespace :: "string \<Rightarrow> backend_ref list \<Rightarrow> string \<Rightarrow> bool" where
  "routeReferencesBackendNamespace routeNamespace refs backendNamespace =
     list_ex (\<lambda>backendRef. (let ns = (case br_namespace backendRef of Some n \<Rightarrow> n | None \<Rightarrow> routeNamespace) in
       ns = backendNamespace \<and> ns \<noteq> routeNamespace)) refs"

definition grantedRoutes :: "l4_route list \<Rightarrow> reference_grant \<Rightarrow> request list" where
  "grantedRoutes routes grant =
     map routeKey (filter (\<lambda>route. list_ex (\<lambda>rule. routeReferencesBackendNamespace (rt_namespace route)
       (rr_backend_refs rule) (rg_namespace grant)) (rt_rules route)) routes)"

definition mapReferenceGrantToL4Route ::
    "k8s_object \<Rightarrow> (list_selector \<Rightarrow> error + l4_route list) \<Rightarrow> (l4_route list \<Rightarrow> reference_grant \<Rightarrow> request list) \<Rightarrow> request list" where
  "mapReferenceGrantToL4Route obj routes requestsFromList =
     (case obj of ReferenceGrantObject grant \<Rightarrow> orNone (routes AllObjects) (\<lambda>items. requestsFromList items grant) | _ \<Rightarrow> [])"

definition MapReferenceGrantToTCPRoute :: "watch_env \<Rightarrow> k8s_object \<Rightarrow> request list" where
  "MapReferenceGrantToTCPRoute w obj = mapReferenceGrantToL4Route obj (we_l4_routes w ''TCPRoute'') grantedRoutes"

definition MapReferenceGrantToUDPRoute :: "watch_env \<Rightarrow> k8s_object \<Rightarrow> request list" where
  "MapReferenceGrantToUDPRoute w obj = mapReferenceGrantToL4Route obj (we_l4_routes w ''UDPRoute'') grantedRoutes"

definition MapReferenceGrantToTLSRoute :: "watch_env \<Rightarrow> k8s_object \<Rightarrow> request list" where
  "MapReferenceGrantToTLSRoute w obj = mapReferenceGrantToL4Route obj (we_l4_routes w ''TLSRoute'') grantedRoutes"

definition referenceGrantHasMatchingFromKind :: "reference_grant \<Rightarrow> string \<Rightarrow> bool" where
  "referenceGrantHasMatchingFromKind grant kind =
     list_ex (\<lambda>from_ref. gf_group from_ref = gatewayAPIGroup \<and> gf_kind from_ref = kind) (rg_from grant)"

definition referenceGrantHasMatchingCoreToKind :: "reference_grant \<Rightarrow> string \<Rightarrow> bool" where
  "referenceGrantHasMatchingCoreToKind grant kind =
     list_ex (\<lambda>to_ref. gt_group to_ref = [] \<and> gt_kind to_ref = kind) (rg_to grant)"

definition referenceGrantHasSecretTo :: "reference_grant \<Rightarrow> bool" where
  "referenceGrantHasSecretTo grant = referenceGrantHasMatchingCoreToKind grant ''Secret''"

definition referenceGrantMayAllowListenerSetSecret :: "reference_grant \<Rightarrow> bool" where
  "referenceGrantMayAllowListenerSetSecret grant \<longleftrightarrow>
     referenceGrantHasMatchingFromKind grant ''ListenerSet'' \<and> referenceGrantHasSecretTo grant"

definition listenerSetReferencesGrantedSecret :: "listener_set \<Rightarrow> reference_grant \<Rightarrow> bool" where
  "listenerSetReferencesGrantedSecret listenerSet grant =
     (if \<not> referenceGrantHasMatchingFrom grant ''ListenerSet'' (ls_namespace listenerSet) then False
      else list_ex (\<lambda>listener. case l_tls listener of
          None \<Rightarrow> False
        | Some tls \<Rightarrow> list_ex (\<lambda>ref.
            (let certNamespace = (case sr_namespace ref of Some n \<Rightarrow> n | None \<Rightarrow> ls_namespace listenerSet) in
             \<not> (certNamespace = ls_namespace listenerSet \<or> certNamespace \<noteq> rg_namespace grant) \<and>
             referenceGrantHasMatchingSecretTo grant (sr_name ref))) (tls_cert_refs tls)) (ls_listeners listenerSet))"

definition grantedConfigMapRef :: "gateway \<Rightarrow> reference_grant \<Rightarrow> object_ref \<Rightarrow> bool" where
  "grantedConfigMapRef gateway grant ref \<longleftrightarrow>
     (case or_namespace ref of Some n \<Rightarrow> n | None \<Rightarrow> gw_namespace gateway) = rg_namespace grant \<and>
     or_group ref = [] \<and> or_kind ref = ''ConfigMap'' \<and> referenceGrantHasMatchingCoreTo grant ''ConfigMap'' (or_name ref)"

definition gatewayFrontendMTLSReferencesGrantedConfigMap :: "gateway \<Rightarrow> reference_grant \<Rightarrow> bool" where
  "gatewayFrontendMTLSReferencesGrantedConfigMap gateway grant =
     (case gw_frontend gateway of
        None \<Rightarrow> False
      | Some frontend \<Rightarrow>
          if \<not> referenceGrantHasMatchingFrom grant ''Gateway'' (gw_namespace gateway) then False
          else (case ft_default frontend of None \<Rightarrow> False | Some v \<Rightarrow> list_ex (grantedConfigMapRef gateway grant) (fv_ca_refs v)) \<or>
            list_ex (\<lambda>(port, validation). case validation of
                None \<Rightarrow> False | Some v \<Rightarrow> list_ex (grantedConfigMapRef gateway grant) (fv_ca_refs v)) (ft_per_port frontend))"

section \<open>ListenerSets, Gateways and namespaces\<close>

definition listenerSetParentGatewayRequest :: "string \<Rightarrow> request list" where
  "listenerSetParentGatewayRequest parentName = (case str_cut parentName ''/'' of None \<Rightarrow> [] | Some key \<Rightarrow> [key])"

definition MapListenerSetToGateway :: "watch_env \<Rightarrow> k8s_object \<Rightarrow> request list" where
  "MapListenerSetToGateway w obj =
     (case obj of ListenerSetObject listenerSet \<Rightarrow>
        lo_keys (we_order w)
          ((case listenerSetParentGatewayName listenerSet of
              Some parentName \<Rightarrow> listenerSetParentGatewayRequest parentName | None \<Rightarrow> []) @
           listenerSetParentGatewayRequest (map_get (ls_annotations listenerSet) ListenerSetParentGatewayAnnotation))
      | _ \<Rightarrow> [])"

definition MapGatewayToListenerSet :: "watch_env \<Rightarrow> k8s_object \<Rightarrow> request list" where
  "MapGatewayToListenerSet w obj =
     (case obj of GatewayObject gateway \<Rightarrow>
        orNone (we_listener_sets w (MatchingField listenerSetParentGatewayIndexKey
          (namespaced_name (gw_namespace gateway) (gw_name gateway)))) (liveListenerSets (\<lambda>_. True))
      | _ \<Rightarrow> [])"

definition MapNamespaceToListenerSet :: "watch_env \<Rightarrow> k8s_object \<Rightarrow> request list" where
  "MapNamespaceToListenerSet w obj =
     (case obj of NamespaceObject name \<Rightarrow>
        orNone (we_listener_sets w (InNamespace name)) (liveListenerSets (\<lambda>_. True))
      | _ \<Rightarrow> [])"

definition gatewayAllowedListenersUsesNamespaceSelector :: "gateway \<Rightarrow> bool" where
  "gatewayAllowedListenersUsesNamespaceSelector gateway =
     (case gw_allowed_listeners gateway of
        None \<Rightarrow> False
      | Some namespaces \<Rightarrow> rn_from namespaces = Some ''Selector'')"

definition MapNamespaceToGateway :: "watch_env \<Rightarrow> k8s_object \<Rightarrow> request list" where
  "MapNamespaceToGateway w obj =
     (case obj of NamespaceObject name \<Rightarrow>
        orNone (we_gateways w AllObjects) (liveGateways gatewayAllowedListenersUsesNamespaceSelector)
      | _ \<Rightarrow> [])"

definition MapReferenceGrantToGatewayWithListenerSets :: "watch_env \<Rightarrow> k8s_object \<Rightarrow> request list" where
  "MapReferenceGrantToGatewayWithListenerSets w obj =
     (case obj of ReferenceGrantObject grant \<Rightarrow>
        (if \<not> referenceGrantMayAllowListenerSetSecret grant then []
         else orNone (we_listener_sets w AllObjects) (\<lambda>listenerSets. lo_keys (we_order w)
           (concat (map (\<lambda>listenerSet. MapListenerSetToGateway w (ListenerSetObject listenerSet))
             (filter (\<lambda>s. \<not> (ls_deleting s \<or> \<not> listenerSetReferencesGrantedSecret s grant)) listenerSets)))))
      | _ \<Rightarrow> [])"

definition MapReferenceGrantToGatewayFrontendMTLS :: "watch_env \<Rightarrow> k8s_object \<Rightarrow> request list" where
  "MapReferenceGrantToGatewayFrontendMTLS w obj =
     (case obj of ReferenceGrantObject grant \<Rightarrow>
        (if \<not> referenceGrantHasMatchingFromKind grant ''Gateway'' \<or> \<not> referenceGrantHasMatchingCoreToKind grant ''ConfigMap'' then []
         else orNone (we_gateways w AllObjects) (liveGateways (\<lambda>gateway.
           map_get (gw_annotations gateway) ControllerClassName = ''true'' \<and>
           gatewayFrontendMTLSReferencesGrantedConfigMap gateway grant)))
      | _ \<Rightarrow> [])"

definition MapReferenceGrantToListenerSet :: "watch_env \<Rightarrow> k8s_object \<Rightarrow> request list" where
  "MapReferenceGrantToListenerSet w obj =
     (case obj of ReferenceGrantObject grant \<Rightarrow>
        (if \<not> referenceGrantMayAllowListenerSetSecret grant then []
         else orNone (we_listener_sets w AllObjects)
           (liveListenerSets (\<lambda>s. listenerSetReferencesGrantedSecret s grant)))
      | _ \<Rightarrow> [])"

definition gatewayUsesSupportedController :: "gateway \<Rightarrow> bool" where
  "gatewayUsesSupportedController gateway \<longleftrightarrow>
     map_get (gw_annotations gateway) ControllerClassName = ''true'' \<or>
     map_get (gw_annotations gateway) NetworkLoadBalancerControllerClassName = ''true''"

definition MapGatewayConfigToGateway :: "watch_env \<Rightarrow> k8s_object \<Rightarrow> request list" where
  "MapGatewayConfigToGateway w obj =
     (case obj of GatewayConfigObject ns name \<Rightarrow>
        orNone (we_gateways w (InNamespace ns)) (liveGateways (\<lambda>gateway.
          gatewayUsesSupportedController gateway \<and> gw_parameters gateway = Some name))
      | _ \<Rightarrow> [])"

section \<open>Secrets\<close>

definition tlsSecretKey :: "k8s_object \<Rightarrow> string option" where
  "tlsSecretKey obj =
     (case obj of SecretObject secret ty \<Rightarrow>
        (if ty \<noteq> ''kubernetes.io/tls'' then None
         else if map_of (sec_data secret) ''tls.crt'' = None then None
         else if map_of (sec_data secret) ''tls.key'' = None then None
         else Some (path_join [sec_namespace secret, sec_name secret]))
      | _ \<Rightarrow> None)"

definition MapSecretToGateway :: "watch_env \<Rightarrow> k8s_object \<Rightarrow> request list" where
  "MapSecretToGateway w obj =
     (case tlsSecretKey obj of
        None \<Rightarrow> []
      | Some indexKey \<Rightarrow>
          orNone (we_gateways w (MatchingField gatewayCertificateIndexKey indexKey)) (liveGateways (\<lambda>_. True)))"

definition MapSecretToGatewayWithListenerSets :: "watch_env \<Rightarrow> k8s_object \<Rightarrow> request list" where
  "MapSecretToGatewayWithListenerSets w obj =
     (let directRequests = MapSecretToGateway w obj in
      case tlsSecretKey obj of
        None \<Rightarrow> directRequests
      | Some indexKey \<Rightarrow>
          (case we_listener_sets w (MatchingField listenerSetCertificateIndexKey indexKey) of
             Inl err \<Rightarrow> directRequests
           | Inr listenerSets \<Rightarrow> lo_keys (we_order w) (directRequests @
               concat (map (\<lambda>listenerSet. MapListenerSetToGateway w (ListenerSetObject listenerSet))
                 (filter (\<lambda>s. \<not> ls_deleting s) listenerSets)))))"

definition MapSecretToListenerSet :: "watch_env \<Rightarrow> k8s_object \<Rightarrow> request list" where
  "MapSecretToListenerSet w obj =
     (case tlsSecretKey obj of
        None \<Rightarrow> []
      | Some indexKey \<Rightarrow>
          orNone (we_listener_sets w (MatchingField listenerSetCertificateIndexKey indexKey)) (liveListenerSets (\<lambda>_. True)))"

definition MapSecretToTLSRoute :: "watch_env \<Rightarrow> k8s_object \<Rightarrow> request list" where
  "MapSecretToTLSRoute w obj =
     lo_keys (we_order w) (concat (map (\<lambda>(ns, name). case we_gateway w ns name of
         Inl err \<Rightarrow> []
       | Inr gateway \<Rightarrow> MapGatewayToTLSRoute w (GatewayObject gateway)) (MapSecretToGateway w obj)))"

end
