(* ===== verification/WatchSetup.thy ===== *)
theory WatchSetup
  imports Watches NlbGateways
begin

text \<open>
  What runs in the manager (\<open>start_manager.go\<close>, \<open>middleware.go\<close>): the controllers with the kinds they
  watch, the mappings of \<open>Watches\<close> and the filters for events; which of them are set up, by the
  features and the kinds the API server knows; and what happens to the error of a reconciliation.
\<close>

section \<open>Events and predicates\<close>

record object_meta =
  om_generation :: int
  om_resource_version :: string
  om_labels :: "string go_map"
  om_annotations :: "string go_map"
  om_deleting :: bool

text \<open>The old or the new object of an update may be missing.\<close>

datatype watch_event =
    ObjectCreated object_meta
  | ObjectUpdated "object_meta option" "object_meta option"
  | ObjectDeleted object_meta
  | ObjectGeneric object_meta

type_synonym event_predicate = "watch_event \<Rightarrow> bool"

text \<open>
  The predicates of \<open>controller-runtime\<close>. \<open>documented\<close> is what its documentation says of updates:
  each predicate lets those pass that change the field it is named after.
\<close>

record predicate_library =
  generationChanged :: event_predicate
  labelChanged :: event_predicate
  annotationChanged :: event_predicate
  resourceVersionChanged :: event_predicate

definition documented :: "predicate_library \<Rightarrow> bool" where
  "documented L \<longleftrightarrow> (\<forall>old new.
     (generationChanged L (ObjectUpdated (Some old) (Some new)) \<longleftrightarrow> om_generation old \<noteq> om_generation new) \<and>
     (labelChanged L (ObjectUpdated (Some old) (Some new)) \<longleftrightarrow> map_of (om_labels old) \<noteq> map_of (om_labels new)) \<and>
     (annotationChanged L (ObjectUpdated (Some old) (Some new)) \<longleftrightarrow> map_of (om_annotations old) \<noteq> map_of (om_annotations new)) \<and>
     (resourceVersionChanged L (ObjectUpdated (Some old) (Some new)) \<longleftrightarrow> om_resource_version old \<noteq> om_resource_version new))"

text \<open>\<open>predicate.Or\<close>, and \<open>predicate.Funcs\<close> with an \<open>UpdateFunc\<close>, which lets all other events pass.\<close>

definition predicate_or :: "event_predicate \<Rightarrow> event_predicate \<Rightarrow> event_predicate" where
  "predicate_or p q e \<longleftrightarrow> p e \<or> q e"

definition update_func :: "event_predicate \<Rightarrow> event_predicate" where
  "update_func p e = (case e of ObjectUpdated _ _ \<Rightarrow> p e | _ \<Rightarrow> True)"

definition l4RouteObjectPredicate :: "predicate_library \<Rightarrow> event_predicate" where
  "l4RouteObjectPredicate L = update_func (\<lambda>e. generationChanged L e \<or> labelChanged L e \<or> annotationChanged L e)"

definition l7RouteObjectPredicate :: "predicate_library \<Rightarrow> event_predicate" where
  "l7RouteObjectPredicate L = update_func (\<lambda>e. generationChanged L e \<or> labelChanged L e \<or> annotationChanged L e)"

definition listenerSetRouteObjectPredicate :: "predicate_library \<Rightarrow> event_predicate" where
  "listenerSetRouteObjectPredicate L = resourceVersionChanged L"

definition gatewayDeletionStarted :: event_predicate where
  "gatewayDeletionStarted e =
     (case e of ObjectUpdated (Some old) (Some new) \<Rightarrow> \<not> om_deleting old \<and> om_deleting new | _ \<Rightarrow> False)"

definition gatewayControllerWatchedAnnotations :: "string list" where
  "gatewayControllerWatchedAnnotations =
     [loadBalancerGatewayIDAnnotation, gatewayProgrammedCertificatesAnnotation,
      loadBalancerGatewayProgrammedListenersAnnotation, NetworkLoadBalancerGatewayIDAnnotation,
      NetworkLoadBalancerGatewayProgrammedListenersAnnotation, NetworkLoadBalancerGatewayProgrammedBackendSetsAnnotation]"

definition gatewayControllerAnnotationChanged :: event_predicate where
  "gatewayControllerAnnotationChanged e =
     (case e of
        ObjectUpdated (Some old) (Some new) \<Rightarrow>
          list_ex (\<lambda>a. map_get (om_annotations old) a \<noteq> map_get (om_annotations new) a) gatewayControllerWatchedAnnotations
      | _ \<Rightarrow> False)"

definition gatewayObjectPredicate :: "predicate_library \<Rightarrow> event_predicate" where
  "gatewayObjectPredicate L = update_func (\<lambda>e. generationChanged L e \<or> labelChanged L e \<or> gatewayDeletionStarted e \<or>
     gatewayControllerAnnotationChanged e)"

definition gatewaySecretPredicate :: "predicate_library \<Rightarrow> event_predicate" where
  "gatewaySecretPredicate L = update_func (resourceVersionChanged L)"

section \<open>Controllers\<close>

text \<open>
  A watch has a kind, the mapping to requests, and its predicates; a controller also has the kind it
  is for and a filter for all of its events. An event leads to requests when all predicates pass.
\<close>

record watch =
  wa_kind :: string
  wa_map :: "watch_env \<Rightarrow> k8s_object \<Rightarrow> request list"
  wa_predicates :: "event_predicate list"

record manager_controller =
  co_name :: string
  co_for :: string
  co_for_predicates :: "event_predicate list"
  co_watches :: "watch list"
  co_filter :: "event_predicate list"

definition passes :: "manager_controller \<Rightarrow> watch \<Rightarrow> watch_event \<Rightarrow> bool" where
  "passes c x e \<longleftrightarrow> list_all (\<lambda>p. p e) (co_filter c) \<and> list_all (\<lambda>p. p e) (wa_predicates x)"

definition wakes :: "manager_controller \<Rightarrow> watch_env \<Rightarrow> string \<Rightarrow> watch_event \<Rightarrow> k8s_object \<Rightarrow> request list" where
  "wakes c w kind e obj = concat (map (\<lambda>x. wa_map x w obj) (filter (\<lambda>x. wa_kind x = kind \<and> passes c x e) (co_watches c)))"

definition watch_of ::
    "string \<Rightarrow> (watch_env \<Rightarrow> k8s_object \<Rightarrow> request list) option \<Rightarrow> event_predicate list \<Rightarrow> watch list" where
  "watch_of kind mapper predicates =
     (case mapper of None \<Rightarrow> [] | Some m \<Rightarrow> [\<lparr>wa_kind = kind, wa_map = m, wa_predicates = predicates\<rparr>])"

type_synonym map_func = "watch_env \<Rightarrow> k8s_object \<Rightarrow> request list"

record setupL4RouteControllerParams =
  p4_name :: string
  p4_route :: string
  p4_mapEndpoint :: map_func
  p4_mapGrant :: map_func
  p4_mapGateway :: map_func
  p4_mapListenerSet :: "map_func option"
  p4_mapSecret :: "map_func option"
  p4_mapBackendTLSPolicy :: "map_func option"
  p4_mapConfigMap :: "map_func option"
  p4_mapService :: "map_func option"

record setupL7RouteControllerParams =
  p7_name :: string
  p7_route :: string
  p7_mapEndpoint :: map_func
  p7_mapGateway :: map_func
  p7_pairedRoute :: string
  p7_mapPairedRoute :: map_func
  p7_mapListenerSetToRoute :: "map_func option"
  p7_mapBackendTLSPolicyToRoute :: map_func
  p7_mapConfigMapToRoute :: map_func
  p7_mapServiceToRoute :: map_func

definition listenerSetMapper :: "bool \<Rightarrow> map_func \<Rightarrow> map_func option" where
  "listenerSetMapper enabled mapper = (if \<not> enabled then None else Some mapper)"

definition setupL4RouteController :: "predicate_library \<Rightarrow> setupL4RouteControllerParams \<Rightarrow> bool \<Rightarrow> manager_controller" where
  "setupL4RouteController L params enableBackendTLSPolicy =
     \<lparr>co_name = p4_name params, co_for = p4_route params, co_for_predicates = [l4RouteObjectPredicate L],
      co_watches =
        watch_of ''EndpointSlice'' (Some (p4_mapEndpoint params)) [resourceVersionChanged L] @
        watch_of ''ReferenceGrant'' (Some (p4_mapGrant params)) [generationChanged L] @
        watch_of ''Gateway'' (Some (p4_mapGateway params)) [predicate_or (generationChanged L) (labelChanged L)] @
        watch_of ''Secret'' (p4_mapSecret params) [gatewaySecretPredicate L] @
        watch_of ''ListenerSet'' (p4_mapListenerSet params) [listenerSetRouteObjectPredicate L] @
        (if enableBackendTLSPolicy \<and> p4_name params = ''tlsroute'' then
           watch_of ''BackendTLSPolicy'' (p4_mapBackendTLSPolicy params) [resourceVersionChanged L] @
           watch_of ''ConfigMap'' (p4_mapConfigMap params) [resourceVersionChanged L] @
           watch_of ''Service'' (p4_mapService params) [resourceVersionChanged L]
         else []),
      co_filter = []\<rparr>"

definition setupL7RouteController :: "predicate_library \<Rightarrow> setupL7RouteControllerParams \<Rightarrow> bool \<Rightarrow> manager_controller" where
  "setupL7RouteController L params enableBackendTLSPolicy =
     \<lparr>co_name = p7_name params, co_for = p7_route params, co_for_predicates = [],
      co_watches =
        watch_of ''EndpointSlice'' (Some (p7_mapEndpoint params)) [] @
        watch_of ''Gateway'' (Some (p7_mapGateway params)) [predicate_or (generationChanged L) (labelChanged L)] @
        watch_of (p7_pairedRoute params) (Some (p7_mapPairedRoute params)) [l7RouteObjectPredicate L] @
        (if enableBackendTLSPolicy then
           watch_of ''BackendTLSPolicy'' (Some (p7_mapBackendTLSPolicyToRoute params)) [resourceVersionChanged L] @
           watch_of ''ConfigMap'' (Some (p7_mapConfigMapToRoute params)) [resourceVersionChanged L] @
           watch_of ''Service'' (Some (p7_mapServiceToRoute params)) [resourceVersionChanged L]
         else []) @
        watch_of ''ListenerSet'' (p7_mapListenerSetToRoute params) [listenerSetRouteObjectPredicate L],
      co_filter = [l7RouteObjectPredicate L]\<rparr>"

definition setupHTTPRouteController :: "predicate_library \<Rightarrow> bool \<Rightarrow> bool \<Rightarrow> manager_controller" where
  "setupHTTPRouteController L enableBackendTLSPolicy enableListenerSet =
     setupL7RouteController L
       \<lparr>p7_name = ''httproute'', p7_route = ''HTTPRoute'', p7_mapEndpoint = MapEndpointSliceToHTTPRoute,
        p7_mapGateway = MapGatewayToHTTPRoute, p7_pairedRoute = ''GRPCRoute'', p7_mapPairedRoute = MapGRPCRouteToHTTPRoute,
        p7_mapListenerSetToRoute = listenerSetMapper enableListenerSet MapListenerSetToHTTPRoute,
        p7_mapBackendTLSPolicyToRoute = MapBackendTLSPolicyToHTTPRoute, p7_mapConfigMapToRoute = MapConfigMapToHTTPRoute,
        p7_mapServiceToRoute = MapServiceToHTTPRoute\<rparr> enableBackendTLSPolicy"

definition setupGRPCRouteController :: "predicate_library \<Rightarrow> bool \<Rightarrow> bool \<Rightarrow> manager_controller" where
  "setupGRPCRouteController L enableBackendTLSPolicy enableListenerSet =
     setupL7RouteController L
       \<lparr>p7_name = ''grpcroute'', p7_route = ''GRPCRoute'', p7_mapEndpoint = MapEndpointSliceToGRPCRoute,
        p7_mapGateway = MapGatewayToGRPCRoute, p7_pairedRoute = ''HTTPRoute'', p7_mapPairedRoute = MapHTTPRouteToGRPCRoute,
        p7_mapListenerSetToRoute = listenerSetMapper enableListenerSet MapListenerSetToGRPCRoute,
        p7_mapBackendTLSPolicyToRoute = MapBackendTLSPolicyToGRPCRoute, p7_mapConfigMapToRoute = MapConfigMapToGRPCRoute,
        p7_mapServiceToRoute = MapServiceToGRPCRoute\<rparr> enableBackendTLSPolicy"

definition tlsRouteController :: "predicate_library \<Rightarrow> bool \<Rightarrow> bool \<Rightarrow> manager_controller" where
  "tlsRouteController L reconcileBackendTLSPolicy listenerSetAvailable =
     setupL4RouteController L
       \<lparr>p4_name = ''tlsroute'', p4_route = ''TLSRoute'', p4_mapEndpoint = MapEndpointSliceToTLSRoute,
        p4_mapGrant = MapReferenceGrantToTLSRoute, p4_mapGateway = MapGatewayToTLSRoute,
        p4_mapListenerSet = listenerSetMapper listenerSetAvailable MapListenerSetToTLSRoute,
        p4_mapSecret = Some MapSecretToTLSRoute, p4_mapBackendTLSPolicy = Some MapBackendTLSPolicyToTLSRoute,
        p4_mapConfigMap = Some MapConfigMapToTLSRoute, p4_mapService = Some MapServiceToTLSRoute\<rparr>
       reconcileBackendTLSPolicy"

definition tcpRouteController :: "predicate_library \<Rightarrow> bool \<Rightarrow> manager_controller" where
  "tcpRouteController L listenerSetAvailable =
     setupL4RouteController L
       \<lparr>p4_name = ''tcproute'', p4_route = ''TCPRoute'', p4_mapEndpoint = MapEndpointSliceToTCPRoute,
        p4_mapGrant = MapReferenceGrantToTCPRoute, p4_mapGateway = MapGatewayToTCPRoute,
        p4_mapListenerSet = listenerSetMapper listenerSetAvailable MapListenerSetToTCPRoute,
        p4_mapSecret = None, p4_mapBackendTLSPolicy = None, p4_mapConfigMap = None, p4_mapService = None\<rparr> False"

definition udpRouteController :: "predicate_library \<Rightarrow> bool \<Rightarrow> manager_controller" where
  "udpRouteController L listenerSetAvailable =
     setupL4RouteController L
       \<lparr>p4_name = ''udproute'', p4_route = ''UDPRoute'', p4_mapEndpoint = MapEndpointSliceToUDPRoute,
        p4_mapGrant = MapReferenceGrantToUDPRoute, p4_mapGateway = MapGatewayToUDPRoute,
        p4_mapListenerSet = listenerSetMapper listenerSetAvailable MapListenerSetToUDPRoute,
        p4_mapSecret = None, p4_mapBackendTLSPolicy = None, p4_mapConfigMap = None, p4_mapService = None\<rparr> False"

definition watchListenerSetGatewayObjects :: "predicate_library \<Rightarrow> bool \<Rightarrow> watch list" where
  "watchListenerSetGatewayObjects L listenerSetAvailable =
     (if \<not> listenerSetAvailable then []
      else watch_of ''ListenerSet'' (Some MapListenerSetToGateway) [l4RouteObjectPredicate L] @
        watch_of ''Namespace'' (Some MapNamespaceToGateway) [labelChanged L] @
        watch_of ''ReferenceGrant'' (Some MapReferenceGrantToGatewayWithListenerSets) [generationChanged L])"

definition gatewayController :: "predicate_library \<Rightarrow> bool \<Rightarrow> manager_controller" where
  "gatewayController L listenerSetAvailable =
     \<lparr>co_name = ''gateway'', co_for = ''Gateway'', co_for_predicates = [gatewayObjectPredicate L],
      co_watches =
        watch_of ''Secret'' (Some (if listenerSetAvailable then MapSecretToGatewayWithListenerSets else MapSecretToGateway))
          [gatewaySecretPredicate L] @
        watch_of ''GatewayConfig'' (Some MapGatewayConfigToGateway) [generationChanged L] @
        watch_of ''ConfigMap'' (Some MapConfigMapToGateway) [] @
        watch_of ''ReferenceGrant'' (Some MapReferenceGrantToGatewayFrontendMTLS) [generationChanged L] @
        watchListenerSetGatewayObjects L listenerSetAvailable,
      co_filter = []\<rparr>"

definition networkLoadBalancerGatewayController :: "predicate_library \<Rightarrow> bool \<Rightarrow> manager_controller" where
  "networkLoadBalancerGatewayController L listenerSetAvailable =
     \<lparr>co_name = ''networkloadbalancer-gateway'', co_for = ''Gateway'', co_for_predicates = [gatewayObjectPredicate L],
      co_watches =
        watch_of ''GatewayConfig'' (Some MapGatewayConfigToGateway) [generationChanged L] @
        watchListenerSetGatewayObjects L listenerSetAvailable,
      co_filter = []\<rparr>"

definition listenerSetController :: "predicate_library \<Rightarrow> manager_controller" where
  "listenerSetController L =
     \<lparr>co_name = ''listenerset'', co_for = ''ListenerSet'', co_for_predicates = [l4RouteObjectPredicate L],
      co_watches =
        watch_of ''Gateway'' (Some MapGatewayToListenerSet) [predicate_or (generationChanged L) (labelChanged L)] @
        watch_of ''Namespace'' (Some MapNamespaceToListenerSet) [labelChanged L] @
        watch_of ''Secret'' (Some MapSecretToListenerSet) [gatewaySecretPredicate L] @
        watch_of ''ReferenceGrant'' (Some MapReferenceGrantToListenerSet) [generationChanged L],
      co_filter = []\<rparr>"

definition gatewayClassController :: "predicate_library \<Rightarrow> manager_controller" where
  "gatewayClassController L =
     \<lparr>co_name = ''gatewayclass'', co_for = ''GatewayClass'', co_for_predicates = [], co_watches = [],
      co_filter = [predicate_or (generationChanged L) (labelChanged L)]\<rparr>"

definition backendTLSPolicyController :: manager_controller where
  "backendTLSPolicyController =
     \<lparr>co_name = ''backendtlspolicy'', co_for = ''BackendTLSPolicy'', co_for_predicates = [], co_watches = [], co_filter = []\<rparr>"

section \<open>Setting up and starting\<close>

record StartManagerDeps =
  ReconcileGatewayClass :: bool
  ReconcileGateway :: bool
  ReconcileNetworkLoadBalancerGateway :: bool
  ReconcileTCPRoute :: bool
  ReconcileUDPRoute :: bool
  ReconcileTLSRoute :: bool
  ReconcileHTTPRoute :: bool
  ReconcileGRPCRoute :: bool
  ReconcileBackendTLSPolicy :: bool

text \<open>
  What is done with the manager: the setters of the controllers' switches are calls as well.
  \<open>me_rest_mapping\<close> asks the API server for a kind; \<open>me_complete\<close> builds a controller.
\<close>

datatype (plugins only: code size) manager_call =
    IndexField index_call
  | SetListenerSetEnabled string bool
  | SetBackendTLSPolicyEnabled string bool
  | SetupController manager_controller
  | StartControllers

record manager_env =
  me_rest_mapping :: "string \<Rightarrow> error option"
  me_index :: "manager_call list \<Rightarrow> index_call \<Rightarrow> error option"
  me_complete :: "manager_call list \<Rightarrow> string \<Rightarrow> error option"
  me_start :: "manager_call list \<Rightarrow> error option"
  me_predicates :: predicate_library

type_synonym 'a manager_op = "(manager_call, error, 'a) eff"

definition complete_controller :: "manager_env \<Rightarrow> manager_controller \<Rightarrow> unit manager_op" where
  "complete_controller w c =
     eff_bind (eff_call (SetupController c) (\<lambda>h. me_complete w h (co_name c))) (\<lambda>r. case r of
         None \<Rightarrow> eff_return () | Some err \<Rightarrow> eff_fail err)"

definition set_switch :: "manager_call \<Rightarrow> unit manager_op" where
  "set_switch c = eff_call c (\<lambda>_. ())"

record experimentalRouteCapabilities =
  ec_TCPRoute :: bool
  ec_UDPRoute :: bool
  ec_TLSRoute :: bool
  ec_BackendTLSPolicy :: bool
  ec_ListenerSet :: bool

record resolvedExperimentalRouteCapabilities =
  rc_reconcileTCPRoute :: bool
  rc_reconcileUDPRoute :: bool
  rc_reconcileTLSRoute :: bool
  rc_reconcileBackendTLSPolicy :: bool
  rc_backendTLSPolicyAvailable :: bool
  rc_listenerSetAvailable :: bool

definition resourceKindAvailable :: "manager_env \<Rightarrow> string \<Rightarrow> error + bool" where
  "resourceKindAvailable w kind =
     (case me_rest_mapping w kind of
        None \<Rightarrow> Inr True
      | Some err \<Rightarrow> if is_no_match err then Inr False else Inl err)"

definition detectKind :: "manager_env \<Rightarrow> string \<Rightarrow> error + bool" where
  "detectKind w kind =
     (case resourceKindAvailable w kind of
        Inl err \<Rightarrow> Inl (ErrWrap (errtext ''failed to detect '' kind '' availability: '') err [])
      | Inr available \<Rightarrow> Inr available)"

definition detectExperimentalRouteCapabilities :: "manager_env \<Rightarrow> error + experimentalRouteCapabilities" where
  "detectExperimentalRouteCapabilities w =
     (case result_map (detectKind w) [''TCPRoute'', ''UDPRoute'', ''TLSRoute'', ''BackendTLSPolicy'', ''ListenerSet''] of
        Inl err \<Rightarrow> Inl err
      | Inr found \<Rightarrow> Inr \<lparr>ec_TCPRoute = found ! 0, ec_UDPRoute = found ! 1, ec_TLSRoute = found ! 2,
          ec_BackendTLSPolicy = found ! 3, ec_ListenerSet = found ! 4\<rparr>)"

definition resolveExperimentalRouteCapabilities ::
    "manager_env \<Rightarrow> StartManagerDeps \<Rightarrow> error + resolvedExperimentalRouteCapabilities" where
  "resolveExperimentalRouteCapabilities w deps =
     (case detectExperimentalRouteCapabilities w of
        Inl err \<Rightarrow> Inl err
      | Inr found \<Rightarrow> Inr
          \<lparr>rc_reconcileTCPRoute = ReconcileTCPRoute deps \<and> ec_TCPRoute found,
           rc_reconcileUDPRoute = ReconcileUDPRoute deps \<and> ec_UDPRoute found,
           rc_reconcileTLSRoute = ReconcileTLSRoute deps \<and> ec_TLSRoute found,
           rc_reconcileBackendTLSPolicy = ReconcileBackendTLSPolicy deps \<and> ec_BackendTLSPolicy found,
           rc_backendTLSPolicyAvailable = ec_BackendTLSPolicy found, rc_listenerSetAvailable = ec_ListenerSet found\<rparr>)"

record controllerSetupTask =
  ta_enabled :: bool
  ta_setupErr :: string
  ta_setup :: "unit manager_op"

fun runControllerSetupTasks :: "controllerSetupTask list \<Rightarrow> unit manager_op" where
  "runControllerSetupTasks [] = eff_return ()"
| "runControllerSetupTasks (task # tasks) =
     (if \<not> ta_enabled task then runControllerSetupTasks tasks
      else eff_bind (eff_attempt (ta_setup task)) (\<lambda>r. case r of
          Inl err \<Rightarrow> eff_fail (ErrWrap (ta_setupErr task) err [])
        | Inr _ \<Rightarrow> runControllerSetupTasks tasks))"

definition setupGatewayController :: "manager_env \<Rightarrow> bool \<Rightarrow> unit manager_op" where
  "setupGatewayController w listenerSetAvailable =
     eff_bind (set_switch (SetListenerSetEnabled ''gateway'' listenerSetAvailable)) (\<lambda>_.
       complete_controller w (gatewayController (me_predicates w) listenerSetAvailable))"

definition setupNetworkLoadBalancerGatewayController :: "manager_env \<Rightarrow> bool \<Rightarrow> unit manager_op" where
  "setupNetworkLoadBalancerGatewayController w listenerSetAvailable =
     eff_bind (set_switch (SetListenerSetEnabled ''networkloadbalancer-gateway'' listenerSetAvailable)) (\<lambda>_.
       complete_controller w (networkLoadBalancerGatewayController (me_predicates w) listenerSetAvailable))"

definition coreControllerSetupTasks ::
    "manager_env \<Rightarrow> StartManagerDeps \<Rightarrow> resolvedExperimentalRouteCapabilities \<Rightarrow> controllerSetupTask list" where
  "coreControllerSetupTasks w deps caps =
     [\<lparr>ta_enabled = ReconcileGatewayClass deps, ta_setupErr = ''failed to setup GatewayClass controller: '',
       ta_setup = complete_controller w (gatewayClassController (me_predicates w))\<rparr>,
      \<lparr>ta_enabled = ReconcileGateway deps, ta_setupErr = ''failed to setup Gateway controller: '',
       ta_setup = setupGatewayController w (rc_listenerSetAvailable caps)\<rparr>,
      \<lparr>ta_enabled = ReconcileNetworkLoadBalancerGateway deps,
       ta_setupErr = ''failed to setup Network Load Balancer Gateway controller: '',
       ta_setup = setupNetworkLoadBalancerGatewayController w (rc_listenerSetAvailable caps)\<rparr>]"

definition listenerSetControllerSetupTasks ::
    "manager_env \<Rightarrow> resolvedExperimentalRouteCapabilities \<Rightarrow> controllerSetupTask list" where
  "listenerSetControllerSetupTasks w caps =
     [\<lparr>ta_enabled = rc_listenerSetAvailable caps, ta_setupErr = ''failed to setup ListenerSet controller: '',
       ta_setup = complete_controller w (listenerSetController (me_predicates w))\<rparr>]"

definition l7AndTLSControllerSetupTasks ::
    "manager_env \<Rightarrow> StartManagerDeps \<Rightarrow> resolvedExperimentalRouteCapabilities \<Rightarrow> controllerSetupTask list" where
  "l7AndTLSControllerSetupTasks w deps caps =
     [\<lparr>ta_enabled = ReconcileHTTPRoute deps, ta_setupErr = ''failed to setup HTTPRoute controller: '',
       ta_setup = eff_bind (set_switch (SetBackendTLSPolicyEnabled ''httproute'' (rc_reconcileBackendTLSPolicy caps))) (\<lambda>_.
         complete_controller w (setupHTTPRouteController (me_predicates w) (rc_reconcileBackendTLSPolicy caps)
           (rc_listenerSetAvailable caps)))\<rparr>,
      \<lparr>ta_enabled = ReconcileGRPCRoute deps, ta_setupErr = ''failed to setup GRPCRoute controller: '',
       ta_setup = eff_bind (set_switch (SetBackendTLSPolicyEnabled ''grpcroute'' (rc_reconcileBackendTLSPolicy caps))) (\<lambda>_.
         complete_controller w (setupGRPCRouteController (me_predicates w) (rc_reconcileBackendTLSPolicy caps)
           (rc_listenerSetAvailable caps)))\<rparr>,
      \<lparr>ta_enabled = rc_reconcileTLSRoute caps, ta_setupErr = ''failed to setup TLSRoute controller: '',
       ta_setup = eff_bind (set_switch (SetBackendTLSPolicyEnabled ''tlsroute'' (rc_reconcileBackendTLSPolicy caps))) (\<lambda>_.
         complete_controller w (tlsRouteController (me_predicates w) (rc_reconcileBackendTLSPolicy caps)
           (rc_listenerSetAvailable caps)))\<rparr>,
      \<lparr>ta_enabled = rc_backendTLSPolicyAvailable caps, ta_setupErr = ''failed to setup BackendTLSPolicy controller: '',
       ta_setup = complete_controller w backendTLSPolicyController\<rparr>]"

definition l4RouteControllerSetupTasks ::
    "manager_env \<Rightarrow> resolvedExperimentalRouteCapabilities \<Rightarrow> controllerSetupTask list" where
  "l4RouteControllerSetupTasks w caps =
     [\<lparr>ta_enabled = rc_reconcileTCPRoute caps, ta_setupErr = ''failed to setup TCPRoute controller: '',
       ta_setup = complete_controller w (tcpRouteController (me_predicates w) (rc_listenerSetAvailable caps))\<rparr>,
      \<lparr>ta_enabled = rc_reconcileUDPRoute caps, ta_setupErr = ''failed to setup UDPRoute controller: '',
       ta_setup = complete_controller w (udpRouteController (me_predicates w) (rc_listenerSetAvailable caps))\<rparr>]"

definition registerIndexes :: "manager_env \<Rightarrow> RegisterFieldIndexersOptions \<Rightarrow> unit manager_op" where
  "registerIndexes w options h =
     (case RegisterFieldIndexers (\<lambda>calls c. me_index w (h @ map IndexField calls) c) [options] [] of
        (Inl err, calls) \<Rightarrow> (Inl (ErrWrap ''failed to register field indexers: '' err []), h @ map IndexField calls)
      | (Inr _, calls) \<Rightarrow> (Inr (), h @ map IndexField calls))"

definition StartManager :: "manager_env \<Rightarrow> StartManagerDeps \<Rightarrow> unit manager_op" where
  "StartManager w deps =
     (case resolveExperimentalRouteCapabilities w deps of
        Inl err \<Rightarrow> eff_fail err
      | Inr caps \<Rightarrow>
          eff_bind (registerIndexes w \<lparr>EnableTCPRoute = rc_reconcileTCPRoute caps, EnableUDPRoute = rc_reconcileUDPRoute caps,
            EnableTLSRoute = rc_reconcileTLSRoute caps, EnableListenerSet = rc_listenerSetAvailable caps,
            EnableFrontendMTLS = True\<rparr>) (\<lambda>_.
          eff_bind (runControllerSetupTasks (coreControllerSetupTasks w deps caps @ listenerSetControllerSetupTasks w caps @
            l7AndTLSControllerSetupTasks w deps caps @ l4RouteControllerSetupTasks w caps)) (\<lambda>_.
          eff_bind (eff_call StartControllers (me_start w)) (\<lambda>r. case r of
              None \<Rightarrow> eff_return () | Some err \<Rightarrow> eff_fail err))))"

section \<open>Errors of reconciliations\<close>

text \<open>
  \<open>reconcile.Result\<close> with the delay in nanoseconds; a reconciler answers with a result and maybe an
  error. Tracing only adds attributes to the context.
\<close>

record reconcile_result =
  rr_requeue :: bool
  rr_requeue_after :: int

type_synonym 's reconciler = "request \<Rightarrow> 's \<Rightarrow> (reconcile_result \<times> error option) \<times> 's"

fun reconcile_error_of :: "error \<Rightarrow> bool option" where
  "reconcile_error_of (ErrReconcile msg retriable cause) = Some retriable"
| "reconcile_error_of _ = None"

definition newTracingMiddleware :: "'s reconciler \<Rightarrow> 's reconciler" where
  "newTracingMiddleware next_ctrl = next_ctrl"

definition newErrorHandlingMiddleware :: "'s reconciler \<Rightarrow> 's reconciler" where
  "newErrorHandlingMiddleware next_ctrl req s =
     (case next_ctrl req s of ((res, err), s') \<Rightarrow>
        (case err of
           None \<Rightarrow> ((res, None), s')
         | Some e \<Rightarrow>
             if errors_as reconcile_error_of e = Some False then ((\<lparr>rr_requeue = False, rr_requeue_after = 0\<rparr>, None), s')
             else if is_conflict e then ((\<lparr>rr_requeue = True, rr_requeue_after = 0\<rparr>, None), s')
             else ((res, Some e), s')))"

definition wireupReconciler :: "('s reconciler \<Rightarrow> 's reconciler) list \<Rightarrow> 's reconciler \<Rightarrow> 's reconciler" where
  "wireupReconciler middlewares ctrl = foldl (\<lambda>c v. v c) ctrl (rev middlewares)"

end
