(* ===== verification/WatchSafety.thy ===== *)
theory WatchSafety
  imports WatchSetup
begin

text \<open>
  What the watches guarantee. A cache that holds some objects serves a field exactly those whose index
  function gives the key (\<open>cached\<close>), which is what the client library promises. Shown: which routes
  a changed backend, Gateway, Secret or ListenerSet wakes; that the index of parents agrees with the
  parents that the controllers follow; the wake-ups that are missing; which controllers are set up.
\<close>

section \<open>The cache\<close>

definition cached :: "(list_selector \<Rightarrow> error + 'o list) \<Rightarrow> string \<Rightarrow> ('o \<Rightarrow> string list) \<Rightarrow> 'o list \<Rightarrow> bool" where
  "cached answer key index objects \<longleftrightarrow>
     (\<forall>v. \<exists>xs. answer (MatchingField key v) = Inr xs \<and> set xs = {x \<in> set objects. v \<in> set (index x)})"

lemma cachedE:
  assumes "cached answer key index objects"
  obtains xs where "answer (MatchingField key v) = Inr xs" "set xs = {x \<in> set objects. v \<in> set (index x)}"
  using assms unfolding cached_def by blast

text \<open>A cache that answers from a list of objects, for examples.\<close>

definition serve_from :: "'o list \<Rightarrow> (string \<Rightarrow> 'o \<Rightarrow> string list) \<Rightarrow> list_selector \<Rightarrow> error + 'o list" where
  "serve_from objects index selector =
     (case selector of MatchingField key v \<Rightarrow> Inr (filter (\<lambda>x. List.member (index key x) v) objects) | _ \<Rightarrow> Inr objects)"

lemma serve_from_cached: "cached (serve_from objects index) key (index key) objects"
  by (simp add: cached_def serve_from_def)

lemma set_liveRoutes: "set (liveRoutes ok routes) = {routeKey r |r. r \<in> set routes \<and> \<not> rt_deleting r \<and> ok r}"
  by (auto simp: liveRoutes_def)

lemma listForKeys_cached:
  assumes "cached answer key index objects"
  shows "\<exists>xs. listForKeys (\<lambda>v. answer (MatchingField key v)) vs = Inr xs \<and>
    set xs = {x \<in> set objects. \<exists>v\<in>set vs. v \<in> set (index x)}"
proof (induction vs)
  case Nil
  then show ?case by simp
next
  case (Cons v vs)
  obtain xs where "answer (MatchingField key v) = Inr xs" "set xs = {x \<in> set objects. v \<in> set (index x)}"
    using assms by (rule cachedE)
  with Cons show ?case by auto
qed

section \<open>Backends\<close>

definition usesBackend :: "string \<Rightarrow> 'm l7_route \<Rightarrow> bool" where
  "usesBackend serviceKey route \<longleftrightarrow>
     (\<exists>rule\<in>set (rt_rules route). \<exists>b\<in>set (rr_backend_refs rule). backendServiceKey (rt_namespace route) b = serviceKey)"

lemma http_backend_index:
  "v \<in> set (indexHTTPRouteByBackendService order (HTTPRouteObject r)) \<longleftrightarrow>
    \<not> rt_deleting r \<and> programmedByController (rt_parents r) \<and> usesBackend v r"
  by (auto simp: indexHTTPRouteByBackendService_def usesBackend_def)

lemma grpc_backend_index:
  "v \<in> set (indexGRPCRouteByBackendService order (GRPCRouteObject r)) \<longleftrightarrow>
    \<not> rt_deleting r \<and> programmedByController (rt_parents r) \<and> usesBackend v r"
  by (auto simp: indexGRPCRouteByBackendService_def indexBackendRefsByService_def usesBackend_def)

lemma l4_backend_index:
  "v \<in> set (indexTCPRouteByBackendService order (TCPRouteObject r)) \<longleftrightarrow> \<not> rt_deleting r \<and> usesBackend v r"
  "v \<in> set (indexUDPRouteByBackendService order (UDPRouteObject r)) \<longleftrightarrow> \<not> rt_deleting r \<and> usesBackend v r"
  "v \<in> set (indexTLSRouteByBackendService order (TLSRouteObject r)) \<longleftrightarrow> \<not> rt_deleting r \<and> usesBackend v r"
  by (auto simp: indexTCPRouteByBackendService_def indexUDPRouteByBackendService_def indexTLSRouteByBackendService_def
    indexL4RouteByBackendService_def indexBackendRefsByService_def usesBackend_def)

definition httpRoutesCached :: "watch_env \<Rightarrow> http_route list \<Rightarrow> bool" where
  "httpRoutesCached w routes \<longleftrightarrow> (\<exists>order. cached (we_http_routes w) httpRouteBackendServiceIndexKey
     (\<lambda>r. indexHTTPRouteByBackendService order (HTTPRouteObject r)) routes)"

definition tcpRoutesCached :: "watch_env \<Rightarrow> l4_route list \<Rightarrow> bool" where
  "tcpRoutesCached w routes \<longleftrightarrow> (\<exists>order. cached (we_l4_routes w ''TCPRoute'') tcpRouteBackendServiceIndexKey
     (\<lambda>r. indexTCPRouteByBackendService order (TCPRouteObject r)) routes)"



section \<open>Parents\<close>

text \<open>Names as the API server admits them: no separators in them.\<close>

definition plainParents :: "string \<Rightarrow> parent_ref list \<Rightarrow> bool" where
  "plainParents routeNamespace refs \<longleftrightarrow> plain_element routeNamespace \<and>
     (\<forall>ref\<in>set refs. plain_element (pr_name ref) \<and> (\<forall>n. pr_namespace ref = Some n \<longrightarrow> plain_element n))"

definition followsParent :: "string \<Rightarrow> request \<Rightarrow> parent_ref \<Rightarrow> bool" where
  "followsParent routeNamespace target ref \<longleftrightarrow>
     (parentRefTargetsGateway ref \<or> parentRefTargetsListenerSet ref) \<and> parentRefTargetName ref routeNamespace = target"

lemma parentGatewayKey_follows:
  assumes "plain_element routeNamespace" "plain_element (pr_name ref)" "\<And>m. pr_namespace ref = Some m \<Longrightarrow> plain_element m"
    and "plain_element ns" "plain_element n"
  shows "path_join [ns, n] \<in> set (parentGatewayKey routeNamespace ref) \<longleftrightarrow> followsParent routeNamespace (ns, n) ref"
proof -
  let ?ns = "case pr_namespace ref of Some m \<Rightarrow> m | None \<Rightarrow> routeNamespace"
  have "plain_element ?ns" using assms(1,3) by (simp split: option.split)
  then have "path_join [ns, n] = path_join [?ns, pr_name ref] \<longleftrightarrow> [ns, n] = [?ns, pr_name ref]"
    using assms(2,4,5) path_join_inj [of "[ns, n]" "[?ns, pr_name ref]"] by auto
  then show ?thesis
    by (auto simp: parentGatewayKey_def followsParent_def parentRefTargetsGateway_def parentRefTargetsListenerSet_def
      parentRefTargetName_def split: option.splits)
qed


text \<open>
  A change of a Gateway wakes exactly the live HTTPRoutes with a parent reference that the
  controllers follow to its name.
\<close>

theorem gateway_wakes_its_routes:
  assumes "cached (we_http_routes w) httpRouteParentGatewayIndexKey (\<lambda>r. indexHTTPRouteByParentGateway order (HTTPRouteObject r)) routes"
    and "\<And>r. r \<in> set routes \<Longrightarrow> plainParents (rt_namespace r) (rt_parent_refs r)"
    and "plain_element (gw_namespace g)" "plain_element (gw_name g)"
  shows "set (MapGatewayToHTTPRoute w (GatewayObject g)) =
    {routeKey r |r. r \<in> set routes \<and> \<not> rt_deleting r \<and> list_ex (followsParent (rt_namespace r) (gatewayKey g)) (rt_parent_refs r)}"
proof -
  let ?key = "path_join [gw_namespace g, gw_name g]"
  obtain xs where xs: "listForKeys (\<lambda>v. we_http_routes w (MatchingField httpRouteParentGatewayIndexKey v)) [?key] = Inr xs"
      "set xs = {x \<in> set routes. \<exists>v\<in>set [?key]. v \<in> set (indexHTTPRouteByParentGateway order (HTTPRouteObject x))}"
    using listForKeys_cached [OF assms(1)] by blast
  have "?key \<in> set (indexHTTPRouteByParentGateway order (HTTPRouteObject r)) \<longleftrightarrow>
      \<not> rt_deleting r \<and> list_ex (followsParent (rt_namespace r) (gatewayKey g)) (rt_parent_refs r)" if "r \<in> set routes" for r
    using that assms parentGatewayKey_follows
    by (auto simp: indexHTTPRouteByParentGateway_def parentGatewayIndexKeys_def plainParents_def list_ex_iff gatewayKey_def)
  then show ?thesis using xs
    by (auto simp: MapGatewayToHTTPRoute_def mapGatewayToL7RouteRequests_def mapParentGatewaysToL7RouteRequests_def orNone_def
      set_liveRoutes)
qed

section \<open>ListenerSets\<close>

definition wokenParents :: "listener_set \<Rightarrow> request set" where
  "wokenParents s = {k. (\<exists>p. listenerSetParentGatewayName s = Some p \<and> str_cut p ''/'' = Some k) \<or>
     str_cut (map_get (ls_annotations s) ListenerSetParentGatewayAnnotation) ''/'' = Some k}"

lemma MapListenerSetToGateway_set: "set (MapListenerSetToGateway w (ListenerSetObject s)) = wokenParents s"
  by (cases "listenerSetParentGatewayName s"; cases "str_cut (the (listenerSetParentGatewayName s)) ''/''")
    (auto simp: MapListenerSetToGateway_def wokenParents_def listenerSetParentGatewayRequest_def split: option.split)

text \<open>
  When a ListenerSet moves to another Gateway, both Gateways are woken: the new one by its parent
  reference and the old one by the annotation that the ListenerSet controller left.
\<close>

theorem moved_listener_set_wakes_both:
  assumes "listenerSetParentGatewayName old = Some oldName" "str_cut oldName ''/'' = Some oldKey"
    and "listenerSetParentGatewayName new = Some newName" "str_cut newName ''/'' = Some newKey"
    and "map_get (ls_annotations new) ListenerSetParentGatewayAnnotation = parentAnnotation old"
  shows "set (MapListenerSetToGateway w (ListenerSetObject new)) = {oldKey, newKey}"
  using assms by (auto simp: MapListenerSetToGateway_set wokenParents_def parentAnnotation_def)

text \<open>
  A change of a namespace's labels makes the ListenerSet controller reset the ListenerSets there,
  but does not wake their Gateway unless it selects namespaces by label, so nothing reports them
  programmed again.
\<close>

theorem namespace_change_misses_gateway:
  assumes "we_listener_sets w (InNamespace (ls_namespace s)) = Inr sets" "s \<in> set sets" "\<not> ls_deleting s"
    and "we_gateways w AllObjects = Inr gateways"
    and "\<And>g. g \<in> set gateways \<Longrightarrow> gatewayKey g = key \<Longrightarrow> gw_allowed_listeners g = Some \<lparr>rn_from = Some ''All'', rn_selector = None\<rparr>"
  shows "listenerSetKey s \<in> set (MapNamespaceToListenerSet w (NamespaceObject (ls_namespace s))) \<and>
    key \<notin> set (MapNamespaceToGateway w (NamespaceObject (ls_namespace s)))"
  using assms
  by (force simp: MapNamespaceToListenerSet_def MapNamespaceToGateway_def orNone_def liveListenerSets_def liveGateways_def
    gatewayAllowedListenersUsesNamespaceSelector_def)

section \<open>Secrets\<close>

definition usesSecret :: "string \<Rightarrow> string \<Rightarrow> gw_listener list \<Rightarrow> bool" where
  "usesSecret namespace secretKey listeners \<longleftrightarrow> (\<exists>l\<in>set listeners. secretKey \<in> set (listenerSecretKeys namespace l))"

text \<open>
  A changed TLS Secret wakes exactly the live Gateways with a listener that names it, and the
  parents of the live ListenerSets with such a listener.
\<close>

theorem secret_wakes_gateways:
  assumes "tlsSecretKey (SecretObject secret ty) = Some secretKey"
    and "cached (we_gateways w) gatewayCertificateIndexKey (\<lambda>g. indexGatewayByCertificateSecrets order (GatewayObject g)) gateways"
    and "cached (we_listener_sets w) listenerSetCertificateIndexKey
      (\<lambda>s. indexListenerSetByCertificateSecrets order (ListenerSetObject s)) sets"
  shows "set (MapSecretToGatewayWithListenerSets w (SecretObject secret ty)) =
    {gatewayKey g |g. g \<in> set gateways \<and> \<not> gw_deleting g \<and> usesSecret (gw_namespace g) secretKey (gw_listeners g)} \<union>
    (\<Union>s \<in> {s \<in> set sets. \<not> ls_deleting s \<and> usesSecret (ls_namespace s) secretKey (ls_listeners s)}. wokenParents s)"
proof -
  obtain gs where gs: "we_gateways w (MatchingField gatewayCertificateIndexKey secretKey) = Inr gs"
      "set gs = {g \<in> set gateways. secretKey \<in> set (indexGatewayByCertificateSecrets order (GatewayObject g))}"
    using assms(2) by (rule cachedE)
  obtain ss where ss: "we_listener_sets w (MatchingField listenerSetCertificateIndexKey secretKey) = Inr ss"
      "set ss = {s \<in> set sets. secretKey \<in> set (indexListenerSetByCertificateSecrets order (ListenerSetObject s))}"
    using assms(3) by (rule cachedE)
  have "set (MapSecretToGateway w (SecretObject secret ty)) =
      {gatewayKey g |g. g \<in> set gateways \<and> \<not> gw_deleting g \<and> usesSecret (gw_namespace g) secretKey (gw_listeners g)}"
    using assms(1) gs by (auto simp: MapSecretToGateway_def orNone_def liveGateways_def indexGatewayByCertificateSecrets_def
      usesSecret_def)
  moreover have "{s \<in> set ss. \<not> ls_deleting s} =
      {s \<in> set sets. \<not> ls_deleting s \<and> usesSecret (ls_namespace s) secretKey (ls_listeners s)}"
    using ss(2) by (auto simp: indexListenerSetByCertificateSecrets_def usesSecret_def)
  ultimately show ?thesis
    using assms(1) ss(1) by (simp add: MapSecretToGatewayWithListenerSets_def MapListenerSetToGateway_set)
qed

section \<open>Filters of events\<close>

text \<open>
  C40: The filter of the HTTPRoute and GRPCRoute controllers drops every update that leaves generation,
  labels and annotations alone, from whatever watch: new contents of a CA ConfigMap, or a new status of
  a ListenerSet, never reach them, although their watches ask for those changes and the TLSRoute
  controller does get them.
\<close>

theorem l7_filter_drops_data_changes:
  assumes "documented L" "om_generation old = om_generation new" "om_labels old = om_labels new"
    and "om_annotations old = om_annotations new" "om_resource_version old \<noteq> om_resource_version new"
  shows "wakes (setupHTTPRouteController L tls sets) w kind (ObjectUpdated (Some old) (Some new)) obj = [] \<and>
    wakes (setupGRPCRouteController L tls sets) w kind (ObjectUpdated (Some old) (Some new)) obj = [] \<and>
    wakes (tlsRouteController L True sets) w ''ConfigMap'' (ObjectUpdated (Some old) (Some new)) obj = MapConfigMapToTLSRoute w obj \<and>
    wakes (tlsRouteController L tls True) w ''ListenerSet'' (ObjectUpdated (Some old) (Some new)) obj = MapListenerSetToTLSRoute w obj"
proof -
  let ?e = "ObjectUpdated (Some old) (Some new)"
  have "\<not> generationChanged L ?e" "\<not> labelChanged L ?e" "\<not> annotationChanged L ?e" "resourceVersionChanged L ?e"
    using assms unfolding documented_def by simp_all
  then show ?thesis
    by (cases tls) (simp_all add: wakes_def passes_def setupHTTPRouteController_def setupGRPCRouteController_def setupL7RouteController_def
      tlsRouteController_def setupL4RouteController_def l7RouteObjectPredicate_def update_func_def watch_of_def
      listenerSetMapper_def listenerSetRouteObjectPredicate_def)
qed

section \<open>What is set up\<close>

definition optionalKind :: "string \<Rightarrow> bool" where
  "optionalKind kind = List.member [''TCPRoute'', ''UDPRoute'', ''TLSRoute'', ''BackendTLSPolicy'', ''ListenerSet''] kind"

text \<open>A controller whose optional kinds, its own and those it watches, are known to the API server.\<close>

definition servedKinds :: "manager_env \<Rightarrow> manager_controller \<Rightarrow> bool" where
  "servedKinds w c = list_all (\<lambda>kind. \<not> optionalKind kind \<or> me_rest_mapping w kind = None) (co_for c # map wa_kind (co_watches c))"

definition sound_call :: "manager_env \<Rightarrow> manager_call \<Rightarrow> bool" where
  "sound_call w call = (case call of SetupController c \<Rightarrow> servedKinds w c | _ \<Rightarrow> True)"

lemma detectKind_True: "detectKind w kind = Inr True \<Longrightarrow> me_rest_mapping w kind = None"
  by (auto simp: detectKind_def resourceKindAvailable_def split: sum.splits option.splits if_splits)

lemma detect_found:
  assumes "resolveExperimentalRouteCapabilities w deps = Inr caps"
  shows "rc_reconcileTCPRoute caps \<Longrightarrow> me_rest_mapping w ''TCPRoute'' = None"
    "rc_reconcileUDPRoute caps \<Longrightarrow> me_rest_mapping w ''UDPRoute'' = None"
    "rc_reconcileTLSRoute caps \<Longrightarrow> me_rest_mapping w ''TLSRoute'' = None"
    "rc_reconcileBackendTLSPolicy caps \<Longrightarrow> me_rest_mapping w ''BackendTLSPolicy'' = None"
    "rc_backendTLSPolicyAvailable caps \<Longrightarrow> me_rest_mapping w ''BackendTLSPolicy'' = None"
    "rc_listenerSetAvailable caps \<Longrightarrow> me_rest_mapping w ''ListenerSet'' = None"
proof -
  let ?kinds = "[''TCPRoute'', ''UDPRoute'', ''TLSRoute'', ''BackendTLSPolicy'', ''ListenerSet'']"
  obtain found where "result_map (detectKind w) ?kinds = Inr found"
      and caps: "caps = \<lparr>rc_reconcileTCPRoute = ReconcileTCPRoute deps \<and> found ! 0,
        rc_reconcileUDPRoute = ReconcileUDPRoute deps \<and> found ! 1, rc_reconcileTLSRoute = ReconcileTLSRoute deps \<and> found ! 2,
        rc_reconcileBackendTLSPolicy = ReconcileBackendTLSPolicy deps \<and> found ! 3, rc_backendTLSPolicyAvailable = found ! 3,
        rc_listenerSetAvailable = found ! 4\<rparr>"
    using assms by (auto simp: resolveExperimentalRouteCapabilities_def detectExperimentalRouteCapabilities_def
      simp del: result_map.simps split: sum.splits)
  then have "list_all2 (\<lambda>kind b. detectKind w kind = Inr b) ?kinds found" by (simp only: result_map_Inr_iff)
  then have at: "detectKind w (?kinds ! i) = Inr (found ! i)" if "i < 5" for i
    using that by (simp only: list_all2_conv_all_nth) simp
  have all: "found ! i \<Longrightarrow> me_rest_mapping w (?kinds ! i) = None" if "i < 5" for i
    using detectKind_True at [OF that] by metis
  show "rc_reconcileTCPRoute caps \<Longrightarrow> me_rest_mapping w ''TCPRoute'' = None"
    "rc_reconcileUDPRoute caps \<Longrightarrow> me_rest_mapping w ''UDPRoute'' = None"
    "rc_reconcileTLSRoute caps \<Longrightarrow> me_rest_mapping w ''TLSRoute'' = None"
    "rc_reconcileBackendTLSPolicy caps \<Longrightarrow> me_rest_mapping w ''BackendTLSPolicy'' = None"
    "rc_backendTLSPolicyAvailable caps \<Longrightarrow> me_rest_mapping w ''BackendTLSPolicy'' = None"
    "rc_listenerSetAvailable caps \<Longrightarrow> me_rest_mapping w ''ListenerSet'' = None"
    using all [of 0] all [of 1] all [of 2] all [of 3] all [of 4] by (simp_all add: caps)
qed

lemma emits_complete: "servedKinds w c \<Longrightarrow> emits (sound_call w) (complete_controller w c)"
  by (auto simp: complete_controller_def sound_call_def intro!: emits_bind emits_return emits_fail emits_call split: option.split)

lemma emits_switch: "emits (sound_call w) (set_switch (SetListenerSetEnabled k b))"
    "emits (sound_call w) (set_switch (SetBackendTLSPolicyEnabled k b))"
  by (simp_all add: set_switch_def sound_call_def emits_call)

lemma emits_tasks:
  assumes "\<And>t. t \<in> set tasks \<Longrightarrow> ta_enabled t \<Longrightarrow> emits P (ta_setup t)"
  shows "emits P (runControllerSetupTasks tasks)"
  using assms
  by (induction tasks) (auto intro!: emits_return emits_bind emits_attempt emits_fail split: sum.split)

lemma emits_registerIndexes: "emits (sound_call w) (registerIndexes v options)"
  by (rule emitsI) (auto simp: registerIndexes_def sound_call_def list_all_iff split: prod.split sum.split)


section \<open>Errors of reconciliations\<close>

text \<open>
  The outer reconciler leaves a successful result alone; an error is retried by the queue unless
  it holds a reconcile error that is not retriable, and a conflict of versions is retried at once.
\<close>

theorem reconcile_errors_are_retried:
  assumes "ctrl req s = ((res, err), s')"
  shows "wireupReconciler [newTracingMiddleware, newErrorHandlingMiddleware] ctrl req s =
    ((case err of
        None \<Rightarrow> (res, None)
      | Some e \<Rightarrow>
          if errors_as reconcile_error_of e = Some False then (\<lparr>rr_requeue = False, rr_requeue_after = 0\<rparr>, None)
          else if is_conflict e then (\<lparr>rr_requeue = True, rr_requeue_after = 0\<rparr>, None)
          else (res, Some e)), s')"
  using assms by (simp add: wireupReconciler_def newTracingMiddleware_def newErrorHandlingMiddleware_def split: option.split)

section \<open>Examples\<close>

definition shopRoute :: "route_parent_status list \<Rightarrow> http_route" where
  "shopRoute parents = \<lparr>rt_namespace = ''ns'', rt_name = ''shop'', rt_creation = 0, rt_generation = 1, rt_deleting = False,
     rt_finalizers = [], rt_annotations = [], rt_parent_refs = [gatewayRef ''gw''], rt_hostnames = [],
     rt_rules = [\<lparr>rr_name = None, rr_matches = [], rr_backend_refs = [\<lparr>br_group = None, br_kind = None, br_name = ''svc'',
       br_namespace = None, br_port = Some 80, br_weight = None\<rparr>]\<rparr>], rt_parents = parents\<rparr>"

definition routeStatus :: "string \<Rightarrow> route_parent_status" where
  "routeStatus status = \<lparr>rps_ref = gatewayRef ''gw'', rps_controller = ControllerClassName,
     rps_conditions = [\<lparr>cn_type = ''ResolvedRefs'', cn_status = status, cn_reason = [], cn_message = [], cn_generation = 1\<rparr>]\<rparr>"

definition httpIndex :: "string \<Rightarrow> http_route \<Rightarrow> string list" where
  "httpIndex key r =
     (if key = httpRouteBackendServiceIndexKey then indexHTTPRouteByBackendService [] (HTTPRouteObject r)
      else indexHTTPRouteByParentGateway [] (HTTPRouteObject r))"

definition gatewayIndex :: "string \<Rightarrow> gateway \<Rightarrow> string list" where
  "gatewayIndex key g = indexGatewayByCertificateSecrets [] (GatewayObject g)"

definition setIndex :: "string \<Rightarrow> listener_set \<Rightarrow> string list" where
  "setIndex key s = indexListenerSetByCertificateSecrets [] (ListenerSetObject s)"

definition watchExample :: "route_parent_status list \<Rightarrow> watch_env" where
  "watchExample parents = \<lparr>we_http_routes = serve_from [shopRoute parents] httpIndex, we_grpc_routes = (\<lambda>_. Inr []),
     we_l4_routes = (\<lambda>_ _. Inr []), we_gateways = serve_from [openGateway] gatewayIndex,
     we_listener_sets = serve_from [webSet] setIndex, we_policies = (\<lambda>_. Inr []),
     we_gateway = (\<lambda>_ _. Inr openGateway), we_order = []\<rparr>"

lemma httpIndex_keys:
  "httpIndex httpRouteBackendServiceIndexKey = (\<lambda>r. indexHTTPRouteByBackendService [] (HTTPRouteObject r))"
  "httpIndex httpRouteParentGatewayIndexKey = (\<lambda>r. indexHTTPRouteByParentGateway [] (HTTPRouteObject r))"
proof -
  have "httpRouteParentGatewayIndexKey \<noteq> httpRouteBackendServiceIndexKey" by code_simp
  then show "httpIndex httpRouteBackendServiceIndexKey = (\<lambda>r. indexHTTPRouteByBackendService [] (HTTPRouteObject r))"
    "httpIndex httpRouteParentGatewayIndexKey = (\<lambda>r. indexHTTPRouteByParentGateway [] (HTTPRouteObject r))"
    by (simp_all add: httpIndex_def fun_eq_iff)
qed

lemma watchExample_cached:
  "httpRoutesCached (watchExample parents) [shopRoute parents]" "tcpRoutesCached (watchExample parents) []"
  "cached (we_http_routes (watchExample parents)) httpRouteParentGatewayIndexKey
    (\<lambda>r. indexHTTPRouteByParentGateway [] (HTTPRouteObject r)) [shopRoute parents]"
  "cached (we_gateways (watchExample parents)) gatewayCertificateIndexKey
    (\<lambda>g. indexGatewayByCertificateSecrets [] (GatewayObject g)) [openGateway]"
  "cached (we_listener_sets (watchExample parents)) listenerSetCertificateIndexKey
    (\<lambda>s. indexListenerSetByCertificateSecrets [] (ListenerSetObject s)) [webSet]"
  unfolding httpRoutesCached_def tcpRoutesCached_def
  using serve_from_cached [of "[shopRoute parents]" httpIndex httpRouteBackendServiceIndexKey]
    serve_from_cached [of "[shopRoute parents]" httpIndex httpRouteParentGatewayIndexKey]
    serve_from_cached [of "[openGateway]" gatewayIndex gatewayCertificateIndexKey]
    serve_from_cached [of "[webSet]" setIndex listenerSetCertificateIndexKey]
  by (auto simp: watchExample_def httpIndex_keys gatewayIndex_def [abs_def] setIndex_def [abs_def] cached_def)



lemma example_plain: "plainParents (rt_namespace (shopRoute parents)) (rt_parent_refs (shopRoute parents))"
    "plain_element ''ns''" "plain_element ''gw''"
  by (simp_all add: plainParents_def shopRoute_def gatewayRef_def plain_element_def)


theorem gateway_wakes_its_routes_witness:
  "set (MapGatewayToHTTPRoute (watchExample []) (GatewayObject openGateway)) =
    {routeKey r |r. r \<in> set [shopRoute []] \<and> \<not> rt_deleting r \<and>
      list_ex (followsParent (rt_namespace r) (gatewayKey openGateway)) (rt_parent_refs r)}"
proof (rule gateway_wakes_its_routes [OF watchExample_cached(3)])
  show "plainParents (rt_namespace r) (rt_parent_refs r)" if "r \<in> set [shopRoute []]" for r
    using that example_plain by simp
qed (use example_plain in \<open>simp_all add: openGateway_def exampleGateway_def\<close>)

definition movedSet :: listener_set where
  "movedSet = webSet\<lparr>ls_parent := gatewayRef ''other'', ls_annotations := [(ListenerSetParentGatewayAnnotation, ''ns/gw'')]\<rparr>"

theorem moved_listener_set_wakes_both_witness:
  "set (MapListenerSetToGateway (watchExample []) (ListenerSetObject movedSet)) = {(''ns'', ''gw''), (''ns'', ''other'')}"
proof (rule moved_listener_set_wakes_both [of webSet "''ns/gw''" _ _ "''ns/other''"])
  show "listenerSetParentGatewayName webSet = Some ''ns/gw''" by (rule webSet_parent)
  show "listenerSetParentGatewayName movedSet = Some ''ns/other''" by code_simp
  show "map_get (ls_annotations movedSet) ListenerSetParentGatewayAnnotation = parentAnnotation webSet"
    by (simp add: movedSet_def parentAnnotation_def webSet_parent)
qed code_simp+

theorem namespace_change_misses_gateway_witness:
  "listenerSetKey webSet \<in> set (MapNamespaceToListenerSet (watchExample []) (NamespaceObject (ls_namespace webSet))) \<and>
    (''ns'', ''gw'') \<notin> set (MapNamespaceToGateway (watchExample []) (NamespaceObject (ls_namespace webSet)))"
  by (rule namespace_change_misses_gateway [where sets = "[webSet]" and gateways = "[openGateway]"])
    (simp_all add: watchExample_def serve_from_def openGateway_def webSet_def exampleListenerSet_def)

definition tlsSecret :: k8s_secret where
  "tlsSecret = \<lparr>sec_namespace = ''ns'', sec_name = ''cert'', sec_uid = [], sec_resource_version = [],
     sec_data = [(''tls.crt'', ''c''), (''tls.key'', ''k'')]\<rparr>"

theorem secret_wakes_gateways_witness:
  "set (MapSecretToGatewayWithListenerSets (watchExample []) (SecretObject tlsSecret ''kubernetes.io/tls'')) =
    {gatewayKey g |g. g \<in> set [openGateway] \<and> \<not> gw_deleting g \<and>
      usesSecret (gw_namespace g) (path_join [''ns'', ''cert'']) (gw_listeners g)} \<union>
    (\<Union>s \<in> {s \<in> set [webSet]. \<not> ls_deleting s \<and> usesSecret (ls_namespace s) (path_join [''ns'', ''cert'']) (ls_listeners s)}.
      wokenParents s)"
  by (rule secret_wakes_gateways [OF _ watchExample_cached(4,5)]) (simp add: tlsSecretKey_def tlsSecret_def)

definition changedField :: "(object_meta \<Rightarrow> 'a) \<Rightarrow> event_predicate" where
  "changedField field e = (case e of ObjectUpdated (Some old) (Some new) \<Rightarrow> field old \<noteq> field new | _ \<Rightarrow> False)"

definition documentedLibrary :: predicate_library where
  "documentedLibrary = \<lparr>generationChanged = changedField om_generation, labelChanged = changedField (map_of \<circ> om_labels),
     annotationChanged = changedField (map_of \<circ> om_annotations), resourceVersionChanged = changedField om_resource_version\<rparr>"

lemma documentedLibrary_documented: "documented documentedLibrary"
  by (simp add: documented_def documentedLibrary_def changedField_def)

definition caMeta :: "string \<Rightarrow> object_meta" where
  "caMeta version = \<lparr>om_generation = 0, om_resource_version = version, om_labels = [], om_annotations = [], om_deleting = False\<rparr>"

theorem l7_filter_drops_data_changes_witness:
  "wakes (setupHTTPRouteController documentedLibrary True True) (watchExample []) ''ConfigMap''
      (ObjectUpdated (Some (caMeta ''1'')) (Some (caMeta ''2''))) (ConfigMapObject ''ns'' ''ca'') = [] \<and>
    wakes (setupGRPCRouteController documentedLibrary True True) (watchExample []) ''ConfigMap''
      (ObjectUpdated (Some (caMeta ''1'')) (Some (caMeta ''2''))) (ConfigMapObject ''ns'' ''ca'') = [] \<and>
    wakes (tlsRouteController documentedLibrary True True) (watchExample []) ''ConfigMap''
      (ObjectUpdated (Some (caMeta ''1'')) (Some (caMeta ''2''))) (ConfigMapObject ''ns'' ''ca'') =
      MapConfigMapToTLSRoute (watchExample []) (ConfigMapObject ''ns'' ''ca'') \<and>
    wakes (tlsRouteController documentedLibrary True True) (watchExample []) ''ListenerSet''
      (ObjectUpdated (Some (caMeta ''1'')) (Some (caMeta ''2''))) (ConfigMapObject ''ns'' ''ca'') =
      MapListenerSetToTLSRoute (watchExample []) (ConfigMapObject ''ns'' ''ca'')"
  by (rule l7_filter_drops_data_changes [OF documentedLibrary_documented]) (simp_all add: caMeta_def)

theorem reconcile_errors_are_retried_witness:
  "wireupReconciler [newTracingMiddleware, newErrorHandlingMiddleware]
      (\<lambda>req n. ((\<lparr>rr_requeue = False, rr_requeue_after = 5\<rparr>, Some (ErrReconcile ''no'' False None)), Suc n)) (''ns'', ''gw'') 0 =
    ((\<lparr>rr_requeue = False, rr_requeue_after = 0\<rparr>, None), 1)"
  using reconcile_errors_are_retried [of "\<lambda>req n. ((\<lparr>rr_requeue = False, rr_requeue_after = 5\<rparr>,
    Some (ErrReconcile ''no'' False None)), Suc n)" "(''ns'', ''gw'')" 0] by simp

end
