(* ===== verification/BackendTls.thy ===== *)
theory BackendTls
  imports L7RouteModels
begin

text \<open>
  BackendTLSPolicies (\<open>backend_tls_policy_model.go\<close>, \<open>backend_tls_policy_controller.go\<close>): which policy
  of a Service counts, the CA bundles made for it with their cache, the status of policies, and the
  clean-up of deleted ones. The theorems are in \<open>BackendTlsSafety\<close>.
\<close>

section \<open>Names\<close>

definition backendTLSHostnameValidationDisabled :: string where
  "backendTLSHostnameValidationDisabled = ''Disabled''"

definition backendTLSCABundleNamePrefix :: string where
  "backendTLSCABundleNamePrefix = ''oke-btls-''"

definition backendTLSCAHashTag :: string where
  "backendTLSCAHashTag = ''oke-gateway-api-ca-sha256''"

definition backendTLSManagedByTag :: string where
  "backendTLSManagedByTag = ''oke-gateway-api-managed-by''"

definition backendTLSPolicyTag :: string where
  "backendTLSPolicyTag = ''oke-gateway-api-policy''"

definition backendTLSManagedByValue :: string where
  "backendTLSManagedByValue = ''backend-tls-policy''"

definition defaultBackendTLSVerifyDepth :: int where
  "defaultBackendTLSVerifyDepth = 3"

definition backendTLSPolicyReasonPending :: string where
  "backendTLSPolicyReasonPending = ''Pending''"

text \<open>Nanoseconds.\<close>

definition backendTLSCABundleCacheTTL :: int where
  "backendTLSCABundleCacheTTL = 120000000000"

definition backendTLSPolicyCleanupRequeueAfter :: int where
  "backendTLSPolicyCleanupRequeueAfter = 30000000000"

definition BackendTLSPolicyProgrammedFinalizer :: string where
  "BackendTLSPolicyProgrammedFinalizer = ''oke-gateway-api.gemyago.github.io/backend-tls-policy-programmed''"

definition BackendTLSPolicyCompartmentsAnnotation :: string where
  "BackendTLSPolicyCompartmentsAnnotation = ''oke-gateway-api.gemyago.github.io/backend-tls-policy-compartments''"

definition BackendTLSOptionHostnameValidation :: string where
  "BackendTLSOptionHostnameValidation = ''oci.oraclecloud.com/backend-hostname-validation''"

definition BackendTLSOptionTrustedCABundleOCIDs :: string where
  "BackendTLSOptionTrustedCABundleOCIDs = ''oci.oraclecloud.com/trusted-ca-bundle-ocids''"

definition BackendTLSOptionProtocols :: string where
  "BackendTLSOptionProtocols = ''oci.oraclecloud.com/tls-protocols''"

definition BackendTLSOptionCipherSuiteName :: string where
  "BackendTLSOptionCipherSuiteName = ''oci.oraclecloud.com/cipher-suite-name''"

definition BackendTLSOptionVerifyDepth :: string where
  "BackendTLSOptionVerifyDepth = ''oci.oraclecloud.com/verify-depth''"

definition BackendTLSOptionSessionResumption :: string where
  "BackendTLSOptionSessionResumption = ''oci.oraclecloud.com/session-resumption''"

definition policyFullName :: "backend_tls_policy \<Rightarrow> string" where
  "policyFullName policy = btp_namespace policy @ ''/'' @ btp_name policy"

section \<open>The cache of CA bundles\<close>

text \<open>
  The entry of a key is the last one that was set; it counts for two minutes. The history of calls
  holds the entries, with the time at which each was set.
\<close>

fun lastCaBundleEntry ::
    "lb_env \<Rightarrow> string \<times> string \<times> string \<Rightarrow> lb_call list \<Rightarrow> (string \<times> int) option" where
  "lastCaBundleEntry w key [] = None"
| "lastCaBundleEntry w key (c # rh) =
     (case c of
        CacheCaBundle compartmentID name caHash i \<Rightarrow>
          (if (compartmentID, name, caHash) = key then Some (i, env_now w (rev rh) + backendTLSCABundleCacheTTL)
           else lastCaBundleEntry w key rh)
      | _ \<Rightarrow> lastCaBundleEntry w key rh)"

definition caBundleCache_get :: "lb_env \<Rightarrow> string \<times> string \<times> string \<Rightarrow> lb_call list \<Rightarrow> string option" where
  "caBundleCache_get w key h =
     (case lastCaBundleEntry w key (rev h) of
        None \<Rightarrow> None
      | Some (i, expiresAt) \<Rightarrow> if \<not> env_now w h < expiresAt then None else Some i)"

definition caBundleCache_set :: "string \<times> string \<times> string \<Rightarrow> string \<Rightarrow> unit lb_op" where
  "caBundleCache_set = (\<lambda>(compartmentID, name, caHash) i.
     if i = [] then eff_return () else eff_call (CacheCaBundle compartmentID name caHash i) (\<lambda>_. ()))"

section \<open>Policies of a Service\<close>

record backend_tls_candidate =
  bc_policy :: backend_tls_policy
  bc_targetRef :: policy_target_ref
  bc_servicePort :: "service_port option"
  bc_invalid :: "(string \<times> string) option"

definition sectionPort :: "string \<Rightarrow> k8s_service \<Rightarrow> backend_ref \<Rightarrow> service_port option" where
  "sectionPort section service backendRef =
     find (\<lambda>port. sp_name port = section \<and> (case br_port backendRef of None \<Rightarrow> True | Some p \<Rightarrow> p = sp_port port))
       (svc_ports service)"

definition targetsOtherService :: "policy_target_ref \<Rightarrow> k8s_service \<Rightarrow> bool" where
  "targetsOtherService targetRef service \<longleftrightarrow>
     ptr_group targetRef \<noteq> [] \<or> ptr_kind targetRef \<noteq> ''Service'' \<or> ptr_name targetRef \<noteq> svc_name service"

definition backendTLSPolicyTargetMatchesService ::
    "policy_target_ref \<Rightarrow> k8s_service \<Rightarrow> backend_ref \<Rightarrow> service_port option \<times> bool" where
  "backendTLSPolicyTargetMatchesService targetRef service backendRef =
     (if targetsOtherService targetRef service then (None, False)
      else case ptr_section targetRef of
          None \<Rightarrow> (None, True)
        | Some section \<Rightarrow>
            (case sectionPort section service backendRef of
               Some port \<Rightarrow> (Some port, True)
             | None \<Rightarrow> (None, False)))"

definition backendTLSPolicyTargetRefUnsupportedKind :: "policy_target_ref \<Rightarrow> k8s_service \<Rightarrow> bool" where
  "backendTLSPolicyTargetRefUnsupportedKind targetRef service \<longleftrightarrow>
     ptr_name targetRef = svc_name service \<and> (ptr_group targetRef \<noteq> [] \<or> ptr_kind targetRef \<noteq> ''Service'')"

definition backendTLSPolicyTargetRefMissingServicePort :: "policy_target_ref \<Rightarrow> k8s_service \<Rightarrow> bool" where
  "backendTLSPolicyTargetRefMissingServicePort targetRef service =
     (if targetsOtherService targetRef service then False
      else case ptr_section targetRef of
          None \<Rightarrow> False
        | Some section \<Rightarrow> list_all (\<lambda>port. sp_name port \<noteq> section) (svc_ports service))"

definition policyCandidate ::
    "backend_tls_policy \<Rightarrow> k8s_service \<Rightarrow> backend_ref \<Rightarrow> policy_target_ref \<Rightarrow> backend_tls_candidate list" where
  "policyCandidate policy service backendRef targetRef =
     (case backendTLSPolicyTargetMatchesService targetRef service backendRef of
        (servicePort, True) \<Rightarrow> [\<lparr>bc_policy = policy, bc_targetRef = targetRef, bc_servicePort = servicePort, bc_invalid = None\<rparr>]
      | (_, False) \<Rightarrow>
          (if backendTLSPolicyTargetRefUnsupportedKind targetRef service then
             [\<lparr>bc_policy = policy, bc_targetRef = targetRef, bc_servicePort = None, bc_invalid = Some (''InvalidKind'',
               errtext ''targetRef '' (ptr_group targetRef) (errtext ''/'' (ptr_kind targetRef) '' must reference a core Service''))\<rparr>]
           else if backendTLSPolicyTargetRefMissingServicePort targetRef service then
             [\<lparr>bc_policy = policy, bc_targetRef = targetRef, bc_servicePort = None, bc_invalid = Some (''TargetNotFound'',
               errtext ''targetRef sectionName \"'' (str_ptr (ptr_section targetRef)) (errtext ''\" does not match any port on Service ''
                 (namespaced_name (svc_namespace service) (svc_name service)) []))\<rparr>]
           else []))"

definition matchingPolicies :: "lb_env \<Rightarrow> k8s_service \<Rightarrow> backend_ref \<Rightarrow> backend_tls_candidate list lb_op" where
  "matchingPolicies w service backendRef =
     eff_bind (list_backend_tls_policies w (svc_namespace service)) (\<lambda>r. case r of
         Inl err \<Rightarrow>
           (if is_no_match err then eff_return []
            else eff_fail (ErrWrap ''failed to list BackendTLSPolicies: '' err []))
       | Inr policies \<Rightarrow>
           eff_return (concat (map (\<lambda>policy. concat (map (policyCandidate policy service backendRef) (btp_target_refs policy)))
             (filter (\<lambda>policy. \<not> btp_deleting policy) policies))))"

definition candidateBefore :: "backend_tls_candidate \<Rightarrow> backend_tls_candidate \<Rightarrow> bool" where
  "candidateBefore left right =
     (if btp_creation (bc_policy left) \<noteq> btp_creation (bc_policy right)
      then btp_creation (bc_policy left) < btp_creation (bc_policy right)
      else policyFullName (bc_policy left) < policyFullName (bc_policy right))"

definition sortBackendTLSPolicyCandidates :: "backend_tls_candidate list \<Rightarrow> backend_tls_candidate list" where
  "sortBackendTLSPolicyCandidates candidates = sort_by candidateBefore candidates"

section \<open>The status of a policy\<close>

definition backendTLSPolicyCondition :: "int \<Rightarrow> string \<Rightarrow> string \<Rightarrow> string \<Rightarrow> string \<Rightarrow> condition" where
  "backendTLSPolicyCondition observedGeneration conditionType status reason message =
     \<lparr>cn_type = conditionType, cn_status = status, cn_reason = reason, cn_message = message, cn_generation = observedGeneration\<rparr>"

definition parentRefsEqual :: "parent_ref \<Rightarrow> parent_ref \<Rightarrow> bool" where
  "parentRefsEqual left right \<longleftrightarrow>
     str_ptr (pr_group left) = str_ptr (pr_group right) \<and> str_ptr (pr_kind left) = str_ptr (pr_kind right) \<and>
     str_ptr (pr_namespace left) = str_ptr (pr_namespace right) \<and> pr_name left = pr_name right \<and>
     str_ptr (pr_section left) = str_ptr (pr_section right) \<and> int_ptr (pr_port left) = int_ptr (pr_port right)"

definition ancestorOf :: "gateway \<Rightarrow> parent_ref" where
  "ancestorOf gateway = \<lparr>pr_group = Some ''gateway.networking.k8s.io'', pr_kind = Some ''Gateway'',
     pr_namespace = Some (gw_namespace gateway), pr_name = gw_name gateway, pr_section = None, pr_port = None\<rparr>"

fun mergeAncestor :: "parent_ref \<Rightarrow> condition list \<Rightarrow> route_parent_status list \<Rightarrow> route_parent_status list" where
  "mergeAncestor ref conditions [] = [\<lparr>rps_ref = ref, rps_controller = ControllerClassName, rps_conditions = conditions\<rparr>]"
| "mergeAncestor ref conditions (ancestor # rest) =
     (if rps_controller ancestor = ControllerClassName \<and> parentRefsEqual (rps_ref ancestor) ref
      then ancestor\<lparr>rps_conditions := foldl setStatusCondition (rps_conditions ancestor) conditions\<rparr> # rest
      else ancestor # mergeAncestor ref conditions rest)"

definition setPolicyConditions :: "lb_env \<Rightarrow> backend_tls_policy \<Rightarrow> gateway \<Rightarrow> condition list \<Rightarrow> unit lb_op" where
  "setPolicyConditions w policy gateway conditions =
     eff_bind (get_backend_tls_policy w (btp_namespace policy) (btp_name policy)) (\<lambda>r. case r of
         Inl err \<Rightarrow> eff_fail (ErrWrap (errtext ''failed to get BackendTLSPolicy '' (policyFullName policy)
           '' before status update: '') err [])
       | Inr latest \<Rightarrow>
           (let ancestors = mergeAncestor (ancestorOf gateway) conditions (btp_ancestors latest) in
            if ancestors = btp_ancestors latest then eff_return ()
            else eff_bind (k8s_update w (UpdateBackendTLSPolicyStatus (latest\<lparr>btp_ancestors := ancestors\<rparr>))) (\<lambda>r. case r of
                None \<Rightarrow> eff_return ()
              | Some err \<Rightarrow> eff_fail (ErrWrap (errtext ''failed to update BackendTLSPolicy '' (policyFullName policy)
                  '' status: '') err []))))"

definition setPolicyCondition ::
    "lb_env \<Rightarrow> backend_tls_policy \<Rightarrow> gateway \<Rightarrow> string \<Rightarrow> string \<Rightarrow> string \<Rightarrow> unit lb_op" where
  "setPolicyCondition w policy gateway status reason message =
     setPolicyConditions w policy gateway
       [backendTLSPolicyCondition (btp_generation policy) ''Accepted'' status reason message]"

definition setPolicyErrorConditions :: "lb_env \<Rightarrow> backend_tls_policy \<Rightarrow> gateway \<Rightarrow> string \<Rightarrow> string \<Rightarrow> unit lb_op" where
  "setPolicyErrorConditions w policy gateway reason message =
     setPolicyConditions w policy gateway
       [backendTLSPolicyCondition (btp_generation policy) ''Accepted'' ''False'' reason message,
        backendTLSPolicyCondition (btp_generation policy) ''ResolvedRefs'' ''False'' reason message]"

definition setPolicyPendingConditions :: "lb_env \<Rightarrow> backend_tls_policy \<Rightarrow> gateway \<Rightarrow> unit lb_op" where
  "setPolicyPendingConditions w policy gateway =
     setPolicyConditions w policy gateway
       [backendTLSPolicyCondition (btp_generation policy) ''Accepted'' ''True'' ''Accepted'' ''BackendTLSPolicy is accepted.'',
        backendTLSPolicyCondition (btp_generation policy) ''ResolvedRefs'' ''Unknown'' backendTLSPolicyReasonPending
          ''BackendTLSPolicy reconciliation is in progress.'']"

section \<open>What a policy asks for\<close>

definition backendTLSPolicyStatusError :: "string \<Rightarrow> string \<Rightarrow> error" where
  "backendTLSPolicyStatusError reason message = ErrBackendTLSStatus reason message"

definition supportedBackendTLSOption :: "string \<Rightarrow> bool" where
  "supportedBackendTLSOption key \<longleftrightarrow> List.member
     [BackendTLSOptionHostnameValidation, BackendTLSOptionTrustedCABundleOCIDs, BackendTLSOptionProtocols,
      BackendTLSOptionCipherSuiteName, BackendTLSOptionVerifyDepth, BackendTLSOptionSessionResumption] key"

text \<open>The options are a Go map: \<open>order\<close> is the order in which it is visited.\<close>

definition validateBackendTLSPolicyShape :: "nat list \<Rightarrow> backend_tls_policy \<Rightarrow> error option" where
  "validateBackendTLSPolicyShape order policy =
     (if str_ptr (btp_well_known policy) \<noteq> [] then
        Some (backendTLSPolicyStatusError ''Invalid'' ''wellKnownCACertificates is not supported by OCI backend TLS'')
      else if btp_subject_alt_names policy \<noteq> [] then
        Some (backendTLSPolicyStatusError ''Invalid''
          ''subjectAltNames is not supported because OCI backend TLS does not enforce hostname/SAN identity'')
      else if map_get (btp_options policy) BackendTLSOptionHostnameValidation \<noteq> backendTLSHostnameValidationDisabled then
        Some (backendTLSPolicyStatusError ''Invalid'' (errtext ''option '' BackendTLSOptionHostnameValidation
          (errtext '' must be set to \"'' backendTLSHostnameValidationDisabled
            ''\" because OCI backend TLS does not enforce hostname/SAN identity'')))
      else case find (\<lambda>option. \<not> supportedBackendTLSOption (fst option)) (map_iter order (btp_options policy)) of
          Some (key, _) \<Rightarrow>
            Some (backendTLSPolicyStatusError ''Invalid'' (errtext ''unsupported BackendTLSPolicy option '' key []))
        | None \<Rightarrow>
            (if btp_ca_refs policy = [] \<and>
                splitCSVOption (map_get (btp_options policy) BackendTLSOptionTrustedCABundleOCIDs) = [] then
               Some (backendTLSPolicyStatusError ''NoValidCACertificate''
                 ''at least one caCertificateRef or trusted OCI CA bundle OCID is required for OCI backend TLS'')
             else None))"

text \<open>\<open>strconv.ParseBool\<close>.\<close>

definition go_parse_bool :: "string \<Rightarrow> bool option" where
  "go_parse_bool s =
     (if List.member [''1'', ''t'', ''T'', ''true'', ''TRUE'', ''True''] s then Some True
      else if List.member [''0'', ''f'', ''F'', ''false'', ''FALSE'', ''False''] s then Some False
      else None)"

definition backendTLSVerifyDepth :: "backend_tls_policy \<Rightarrow> error + int" where
  "backendTLSVerifyDepth policy =
     (let value = trim_space (map_get (btp_options policy) BackendTLSOptionVerifyDepth) in
      if value = [] then Inr defaultBackendTLSVerifyDepth
      else case go_atoi value of
          None \<Rightarrow> Inl (backendTLSPolicyStatusError ''Invalid''
            (errtext ''option '' BackendTLSOptionVerifyDepth '' must be a positive integer''))
        | Some parsed \<Rightarrow>
            (if parsed < 1 then Inl (backendTLSPolicyStatusError ''Invalid''
               (errtext ''option '' BackendTLSOptionVerifyDepth '' must be a positive integer''))
             else Inr parsed))"

definition backendTLSSessionResumption :: "backend_tls_policy \<Rightarrow> error + bool option" where
  "backendTLSSessionResumption policy =
     (let value = trim_space (map_get (btp_options policy) BackendTLSOptionSessionResumption) in
      if value = [] then Inr None
      else case go_parse_bool value of
          None \<Rightarrow> Inl (backendTLSPolicyStatusError ''Invalid''
            (errtext ''option '' BackendTLSOptionSessionResumption '' must be a boolean''))
        | Some parsed \<Rightarrow> Inr (Some parsed))"

definition backendTLSSSLConfigFromOptions :: "backend_tls_policy \<Rightarrow> string list \<Rightarrow> error + ssl_details" where
  "backendTLSSSLConfigFromOptions policy trustedCAIDs =
     (case backendTLSVerifyDepth policy of
        Inl err \<Rightarrow> Inl err
      | Inr verifyDepth \<Rightarrow>
          (case backendTLSSessionResumption policy of
             Inl err \<Rightarrow> Inl err
           | Inr resumption \<Rightarrow>
               (let cipherSuite = trim_space (map_get (btp_options policy) BackendTLSOptionCipherSuiteName)
                in Inr (noSSL\<lparr>sd_verify_peer := Some True, sd_verify_depth := Some verifyDepth,
                     sd_trusted_ca_ids := trustedCAIDs,
                     sd_protocols := splitCSVOption (map_get (btp_options policy) BackendTLSOptionProtocols),
                     sd_cipher_suite := (if cipherSuite = [] then None else Some cipherSuite),
                     sd_session_resumption := resumption\<rparr>))))"

definition resolveCACertificateRefPEM :: "lb_env \<Rightarrow> backend_tls_policy \<Rightarrow> ca_ref \<Rightarrow> string lb_op" where
  "resolveCACertificateRefPEM w policy ref =
     (if cr_group ref \<noteq> [] \<or> cr_kind ref \<noteq> ''ConfigMap'' then
        eff_fail (backendTLSPolicyStatusError ''InvalidKind'' (errtext ''caCertificateRef '' (cr_group ref)
          (errtext ''/'' (cr_kind ref) '' must reference a core ConfigMap'')))
      else
        (let fullName = namespaced_name (btp_namespace policy) (cr_name ref)
         in eff_bind (get_config_map w (btp_namespace policy) (cr_name ref)) (\<lambda>r. case r of
              Inl err \<Rightarrow>
                (if is_not_found err then
                   eff_fail (backendTLSPolicyStatusError ''InvalidCACertificateRef''
                     (errtext ''caCertificateRef ConfigMap '' fullName '' was not found''))
                 else eff_fail (ErrWrap (errtext ''failed to get caCertificateRef ConfigMap '' fullName '': '') err []))
            | Inr configMap \<Rightarrow>
                (case map_of (cm_data configMap) ''ca.crt'' of
                   None \<Rightarrow> eff_fail (backendTLSPolicyStatusError ''InvalidCACertificateRef''
                     (errtext ''caCertificateRef ConfigMap '' fullName '' is missing ca.crt''))
                 | Some caPEM \<Rightarrow>
                     (case validateCABundlePEM w caPEM of
                        Some err \<Rightarrow> eff_fail (backendTLSPolicyStatusError ''InvalidCACertificateRef''
                          (errtext ''caCertificateRef ConfigMap '' fullName
                            (errtext '' has invalid ca.crt: '' (error_text (\<lambda>_. []) err) [])))
                      | None \<Rightarrow> eff_return caPEM)))))"

fun resolveCACertificateRefs :: "lb_env \<Rightarrow> backend_tls_policy \<Rightarrow> ca_ref list \<Rightarrow> (ca_ref \<times> string) list lb_op" where
  "resolveCACertificateRefs w policy [] = eff_return []"
| "resolveCACertificateRefs w policy (ref # refs) =
     eff_bind (resolveCACertificateRefPEM w policy ref) (\<lambda>caPEM.
     eff_bind (resolveCACertificateRefs w policy refs) (\<lambda>rest. eff_return ((ref, caPEM) # rest)))"

definition checkOptionCA :: "lb_env \<Rightarrow> string \<Rightarrow> unit lb_op" where
  "checkOptionCA w caID =
     eff_bind (get_ca_bundle w caID) (\<lambda>r. case r of
         None \<Rightarrow> eff_return ()
       | Some _ \<Rightarrow> eff_fail (backendTLSPolicyStatusError ''Invalid''
           (errtext ''option '' BackendTLSOptionTrustedCABundleOCIDs
             (errtext '' references an OCI CA bundle that cannot be resolved: '' caID []))))"

section \<open>CA bundles of a policy\<close>

definition backendTLSPolicyObjectIdentity :: "backend_tls_policy \<Rightarrow> string" where
  "backendTLSPolicyObjectIdentity policy =
     (if btp_uid policy \<noteq> [] then btp_uid policy
      else case btp_creation_text policy of Some t \<Rightarrow> t | None \<Rightarrow> int_to_string (btp_generation policy))"

definition backendTLSCABundleName :: "backend_tls_policy \<Rightarrow> policy_target_ref \<Rightarrow> ca_ref \<Rightarrow> string" where
  "backendTLSCABundleName policy targetRef ref =
     backendTLSCABundleNamePrefix @ take 24 (sha256_hex (str_join ''/''
       [btp_namespace policy, btp_name policy, backendTLSPolicyObjectIdentity policy,
        ptr_group targetRef, ptr_kind targetRef, ptr_name targetRef, str_ptr (ptr_section targetRef),
        cr_group ref, cr_kind ref, cr_name ref]))"

definition backendTLSCABundleTags :: "backend_tls_policy \<Rightarrow> string \<Rightarrow> string go_map" where
  "backendTLSCABundleTags policy caHash =
     [(backendTLSManagedByTag, backendTLSManagedByValue), (backendTLSPolicyTag, policyFullName policy),
      (backendTLSCAHashTag, caHash)]"

definition isOwnedBackendTLSCABundle :: "string go_map \<Rightarrow> backend_tls_policy \<Rightarrow> bool" where
  "isOwnedBackendTLSCABundle tags policy \<longleftrightarrow>
     map_get tags backendTLSManagedByTag = backendTLSManagedByValue \<and>
     map_get tags backendTLSPolicyTag = policyFullName policy"

definition ensureBackendTLSCABundleUsable :: "ca_bundle \<Rightarrow> error option" where
  "ensureBackendTLSCABundleUsable bundle =
     (if cab_state bundle = [] \<or> cab_state bundle = ''ACTIVE'' then None
      else if cab_state bundle = ''DELETING'' then
        Some (ErrText (errtext ''OCI CA bundle '' (str_ptr (cab_name bundle)) (errtext '' is '' (cab_state bundle)
          '' and cannot be reused for backend TLS'')))
      else
        Some (ErrText (errtext ''OCI CA bundle '' (str_ptr (cab_name bundle)) (errtext '' is '' (cab_state bundle)
          '' and is not ready for backend TLS''))))"

definition isBackendTLSCABundleAlreadyExists :: "svc_error \<Rightarrow> bool" where
  "isBackendTLSCABundleAlreadyExists err =
     (case err of
        TransportError _ \<Rightarrow> False
      | ServiceError status code message \<Rightarrow>
          status = 400 \<and> code = ''InvalidParameter'' \<and> str_contains message ''already exists'')"

definition isBackendTLSCABundleAlreadyDeleted :: "svc_error \<Rightarrow> bool" where
  "isBackendTLSCABundleAlreadyDeleted err = svc_has_status 404 err"

definition isBackendTLSCABundleStillAssociated :: "svc_error \<Rightarrow> bool" where
  "isBackendTLSCABundleStillAssociated err =
     (case err of
        TransportError _ \<Rightarrow> False
      | ServiceError status code message \<Rightarrow>
          status = 409 \<and> code = ''IncorrectState'' \<and> str_contains message ''Association'')"

definition notOwnedByPolicy :: "string \<Rightarrow> backend_tls_policy \<Rightarrow> error" where
  "notOwnedByPolicy name policy = ErrText (errtext ''OCI CA bundle '' name
     (errtext '' already exists and is not owned by BackendTLSPolicy '' (policyFullName policy) []))"

definition resolveExistingOCIManagedCABundle ::
    "lb_env \<Rightarrow> backend_tls_policy \<Rightarrow> string \<Rightarrow> string \<Rightarrow> string \<Rightarrow> string lb_op" where
  "resolveExistingOCIManagedCABundle w policy compartmentID name caHash =
     eff_bind (list_ca_bundles w compartmentID (Some name)) (\<lambda>r. case r of
         Inl err \<Rightarrow> eff_fail (ErrWrap (errtext ''failed to re-list OCI CA bundle '' name '' after create conflict: '')
           (ErrService err) [])
       | Inr bundles \<Rightarrow>
           (case liveBundle bundles of
              None \<Rightarrow> eff_fail (ErrText (errtext ''OCI CA bundle '' name
                '' already exists but was not visible in list response''))
            | Some bundle \<Rightarrow>
                (if \<not> isOwnedBackendTLSCABundle (cab_tags bundle) policy then eff_fail (notOwnedByPolicy name policy)
                 else case ensureBackendTLSCABundleUsable bundle of
                     Some err \<Rightarrow> eff_fail err
                   | None \<Rightarrow>
                       (if map_get (cab_tags bundle) backendTLSCAHashTag \<noteq> caHash then
                          eff_fail (ErrText (errtext ''OCI CA bundle '' name
                            '' already exists with stale CA data and is not ready for update''))
                        else eff_return (str_ptr (cab_id bundle))))))"

record listed_ca_bundle_params =
  lc_policy :: backend_tls_policy
  lc_name :: string
  lc_caHash :: string
  lc_caPEM :: string
  lc_tags :: "string go_map"
  lc_bundles :: "ca_bundle list"
  lc_cacheKey :: "string \<times> string \<times> string"

text \<open>\<open>None\<close>: no bundle matched. The loop ends at the first bundle that is not deleted.\<close>

definition resolveListedOCIManagedCABundle :: "lb_env \<Rightarrow> listed_ca_bundle_params \<Rightarrow> string option lb_op" where
  "resolveListedOCIManagedCABundle w params =
     (case liveBundle (lc_bundles params) of
        None \<Rightarrow> eff_return None
      | Some bundle \<Rightarrow>
          (if \<not> isOwnedBackendTLSCABundle (cab_tags bundle) (lc_policy params) then
             eff_fail (notOwnedByPolicy (lc_name params) (lc_policy params))
           else case ensureBackendTLSCABundleUsable bundle of
               Some err \<Rightarrow> eff_fail err
             | None \<Rightarrow>
                 eff_bind
                   (if map_get (cab_tags bundle) backendTLSCAHashTag \<noteq> lc_caHash params then
                      eff_bind (ca_write w (UpdateCaBundle (cab_id bundle) (lc_caPEM params) (lc_tags params))) (\<lambda>r. case r of
                          None \<Rightarrow> eff_return ()
                        | Some err \<Rightarrow> eff_fail (ErrWrap (errtext ''failed to update OCI CA bundle '' (lc_name params) '': '')
                            (ErrService err) []))
                    else eff_return ()) (\<lambda>_.
                 eff_bind (caBundleCache_set (lc_cacheKey params) (str_ptr (cab_id bundle))) (\<lambda>_.
                   eff_return (Some (str_ptr (cab_id bundle)))))))"

definition createOCIManagedCABundle ::
    "lb_env \<Rightarrow> backend_tls_policy \<Rightarrow> string \<Rightarrow> string \<Rightarrow> string \<Rightarrow> string \<Rightarrow> string lb_op" where
  "createOCIManagedCABundle w policy compartmentID name caHash caPEM =
     eff_bind (create_ca_bundle_call w
         \<lparr>ccb_name = name, ccb_compartment = compartmentID, ccb_pem = caPEM, ccb_tags = backendTLSCABundleTags policy caHash\<rparr>) (\<lambda>r. case r of
         Inl err \<Rightarrow>
           (if isBackendTLSCABundleAlreadyExists err then
              eff_bind (resolveExistingOCIManagedCABundle w policy compartmentID name caHash) (\<lambda>caBundleID.
              eff_bind (caBundleCache_set (compartmentID, name, caHash) caBundleID) (\<lambda>_. eff_return caBundleID))
            else eff_fail (ErrWrap (errtext ''failed to create OCI CA bundle '' name '': '') (ErrService err) []))
       | Inr bundle \<Rightarrow>
           (if cab_state bundle \<noteq> ''ACTIVE'' then
              eff_fail (ErrText (errtext ''OCI CA bundle '' name (errtext '' is '' (cab_state bundle)
                '' and is not ready for backend TLS'')))
            else eff_bind (caBundleCache_set (compartmentID, name, caHash) (str_ptr (cab_id bundle))) (\<lambda>_.
              eff_return (str_ptr (cab_id bundle)))))"

definition ensureOCIManagedCABundle ::
    "lb_env \<Rightarrow> backend_tls_policy \<Rightarrow> policy_target_ref \<Rightarrow> string \<Rightarrow> ca_ref \<times> string \<Rightarrow> string lb_op" where
  "ensureOCIManagedCABundle w policy targetRef compartmentID caRef =
     (let name = backendTLSCABundleName policy targetRef (fst caRef);
          caPEM = snd caRef;
          caHash = sha256_hex caPEM;
          cacheKey = (compartmentID, name, caHash)
      in eff_bind (eff_ask (caBundleCache_get w cacheKey)) (\<lambda>cached. case cached of
           Some caBundleID \<Rightarrow> eff_return caBundleID
         | None \<Rightarrow>
             eff_bind (list_ca_bundles w compartmentID (Some name)) (\<lambda>r. case r of
                 Inl err \<Rightarrow> eff_fail (ErrWrap (errtext ''failed to list OCI CA bundles for BackendTLSPolicy ''
                   (policyFullName policy) '': '') (ErrService err) [])
               | Inr bundles \<Rightarrow>
                   eff_bind (resolveListedOCIManagedCABundle w
                     \<lparr>lc_policy = policy, lc_name = name, lc_caHash = caHash, lc_caPEM = caPEM,
                      lc_tags = backendTLSCABundleTags policy caHash, lc_bundles = bundles, lc_cacheKey = cacheKey\<rparr>)
                     (\<lambda>matched. case matched of
                         Some caBundleID \<Rightarrow> eff_return caBundleID
                       | None \<Rightarrow> createOCIManagedCABundle w policy compartmentID name caHash caPEM))))"

fun ensureOCIManagedCABundles ::
    "lb_env \<Rightarrow> backend_tls_policy \<Rightarrow> policy_target_ref \<Rightarrow> string \<Rightarrow> (ca_ref \<times> string) list \<Rightarrow> string list lb_op" where
  "ensureOCIManagedCABundles w policy targetRef compartmentID [] = eff_return []"
| "ensureOCIManagedCABundles w policy targetRef compartmentID (caRef # caRefs) =
     eff_bind (ensureOCIManagedCABundle w policy targetRef compartmentID caRef) (\<lambda>caID.
     eff_bind (ensureOCIManagedCABundles w policy targetRef compartmentID caRefs) (\<lambda>rest. eff_return (caID # rest)))"

section \<open>The finalizer and the compartments of a policy\<close>

definition backendTLSPolicyCompartmentIDs :: "backend_tls_policy \<Rightarrow> string list" where
  "backendTLSPolicyCompartmentIDs policy =
     (let annotation = map_get (btp_annotations policy) BackendTLSPolicyCompartmentsAnnotation in
      if annotation = [] then []
      else sort_strings (remdups (filter (\<lambda>c. c \<noteq> []) (map trim_space (str_split (CHR '','') annotation)))))"

definition addBackendTLSPolicyCompartment :: "backend_tls_policy \<Rightarrow> string \<Rightarrow> backend_tls_policy \<times> bool" where
  "addBackendTLSPolicyCompartment policy compartmentID =
     (if compartmentID = [] \<or> compartmentID \<in> set (backendTLSPolicyCompartmentIDs policy) then (policy, False)
      else (policy\<lparr>btp_annotations := AList.update BackendTLSPolicyCompartmentsAnnotation
        (str_join '','' (sort_strings (backendTLSPolicyCompartmentIDs policy @ [compartmentID]))) (btp_annotations policy)\<rparr>, True))"

definition ensurePolicyFinalizerAndCompartment :: "lb_env \<Rightarrow> backend_tls_policy \<Rightarrow> string \<Rightarrow> unit lb_op" where
  "ensurePolicyFinalizerAndCompartment w policy compartmentID =
     (let finalized = policy\<lparr>btp_finalizers := addFinalizer BackendTLSPolicyProgrammedFinalizer (btp_finalizers policy)\<rparr>;
          (updated, added) = addBackendTLSPolicyCompartment finalized compartmentID
      in if BackendTLSPolicyProgrammedFinalizer \<in> set (btp_finalizers policy) \<and> \<not> added then eff_return ()
         else eff_bind (k8s_update w (UpdateBackendTLSPolicy updated)) (\<lambda>r. case r of
             None \<Rightarrow> eff_return ()
           | Some err \<Rightarrow> eff_fail (ErrWrap ''failed to add BackendTLSPolicy finalizer: '' err [])))"

section \<open>Resolution\<close>

definition getPolicyLoadBalancer :: "lb_env \<Rightarrow> backend_tls_policy \<Rightarrow> string \<Rightarrow> string lb_op" where
  "getPolicyLoadBalancer w policy loadBalancerID =
     eff_bind (get_load_balancer w loadBalancerID) (\<lambda>r. case r of
         Inl err \<Rightarrow> eff_fail (ErrWrap (errtext ''failed to get Load Balancer '' loadBalancerID '' for BackendTLSPolicy: '')
           (ErrService err) [])
       | Inr loadBalancer \<Rightarrow>
           (let compartmentID = str_ptr (lb_compartment loadBalancer) in
            if compartmentID = [] then
              eff_fail (ErrText (errtext ''failed to resolve Load Balancer compartment for BackendTLSPolicy ''
                (policyFullName policy) []))
            else eff_return compartmentID))"

definition refreshPolicy :: "lb_env \<Rightarrow> backend_tls_policy \<Rightarrow> backend_tls_policy lb_op" where
  "refreshPolicy w policy =
     eff_bind (get_backend_tls_policy w (btp_namespace policy) (btp_name policy)) (\<lambda>r. case r of
         Inl err \<Rightarrow> eff_fail (ErrWrap (errtext ''failed to get BackendTLSPolicy '' (policyFullName policy)
           '' after pending status update: '') err [])
       | Inr latest \<Rightarrow> eff_return latest)"

definition resolveAcceptedPolicy ::
    "lb_env \<Rightarrow> backend_tls_candidate \<Rightarrow> resolved_gateway_details \<Rightarrow> ssl_details lb_op" where
  "resolveAcceptedPolicy w candidate data =
     (let policy = bc_policy candidate;
          optionCAIDs = splitCSVOption (map_get (btp_options policy) BackendTLSOptionTrustedCABundleOCIDs)
      in eff_bind (eff_ask (env_order w)) (\<lambda>order.
         case validateBackendTLSPolicyShape order policy of
           Some err \<Rightarrow> eff_fail err
         | None \<Rightarrow>
             eff_bind (resolveCACertificateRefs w policy (btp_ca_refs policy)) (\<lambda>resolvedCARefs.
             eff_bind (eff_foreach (checkOptionCA w) optionCAIDs) (\<lambda>_.
             case backendTLSSSLConfigFromOptions policy [] of
               Inl err \<Rightarrow> eff_fail err
             | Inr sslConfig \<Rightarrow>
                 eff_bind (getPolicyLoadBalancer w policy (rd_loadBalancerID data)) (\<lambda>compartmentID.
                 eff_bind (setPolicyPendingConditions w policy (rd_gateway data)) (\<lambda>_.
                 eff_bind (refreshPolicy w policy) (\<lambda>policyToFinalize.
                 eff_bind (ensurePolicyFinalizerAndCompartment w policyToFinalize compartmentID) (\<lambda>_.
                 eff_bind (ensureOCIManagedCABundles w policy (bc_targetRef candidate) compartmentID resolvedCARefs) (\<lambda>caIDs.
                   eff_return (sslConfig\<lparr>sd_trusted_ca_ids := sort_strings (remdups (caIDs @ optionCAIDs))\<rparr>))))))))))"

text \<open>A status that cannot be written is ignored where the code assigns the error to \<open>_\<close>.\<close>

definition ignoring :: "unit lb_op \<Rightarrow> unit lb_op" where
  "ignoring m = eff_bind (eff_attempt m) (\<lambda>_. eff_return ())"

definition lowerPrecedence :: "backend_tls_policy \<Rightarrow> backend_tls_policy \<Rightarrow> k8s_service \<Rightarrow> string" where
  "lowerPrecedence conflicted selected service =
     errtext ''BackendTLSPolicy '' (policyFullName conflicted) (errtext '' has lower precedence than ''
       (policyFullName selected) (errtext '' for Service '' (namespaced_name (svc_namespace service) (svc_name service)) []))"

definition resolveForBackendRef ::
    "lb_env \<Rightarrow> resolved_gateway_details \<Rightarrow> k8s_service \<Rightarrow> backend_ref \<Rightarrow> ssl_details option lb_op" where
  "resolveForBackendRef w data service backendRef =
     eff_bind (matchingPolicies w service backendRef) (\<lambda>candidates.
       case sortBackendTLSPolicyCandidates candidates of
         [] \<Rightarrow> eff_fail ErrBackendTLSPolicyNotFound
       | selected # others \<Rightarrow>
           (case bc_invalid selected of
              Some (reason, message) \<Rightarrow>
                eff_bind (ignoring (setPolicyErrorConditions w (bc_policy selected) (rd_gateway data) reason message)) (\<lambda>_.
                  eff_fail (backendTLSPolicyStatusError reason message))
            | None \<Rightarrow>
                eff_bind (eff_foreach (\<lambda>conflicted. ignoring (setPolicyCondition w (bc_policy conflicted) (rd_gateway data)
                  ''False'' ''Conflicted'' (lowerPrecedence (bc_policy conflicted) (bc_policy selected) service))) others) (\<lambda>_.
                eff_bind (eff_attempt (resolveAcceptedPolicy w selected data)) (\<lambda>r. case r of
                    Inl err \<Rightarrow>
                      (case errors_as backend_tls_status_of err of
                         Some (reason, message) \<Rightarrow>
                           eff_bind (ignoring (setPolicyErrorConditions w (bc_policy selected) (rd_gateway data) reason message))
                             (\<lambda>_. eff_fail err)
                       | None \<Rightarrow> eff_fail err)
                  | Inr sslConfig \<Rightarrow>
                      eff_bind (setPolicyConditions w (bc_policy selected) (rd_gateway data)
                        [backendTLSPolicyCondition (btp_generation (bc_policy selected)) ''Accepted'' ''True'' ''Accepted''
                           ''OCI backend TLS is configured with CA-chain validation only; hostname/SAN validation is disabled by explicit option.'',
                         backendTLSPolicyCondition (btp_generation (bc_policy selected)) ''ResolvedRefs'' ''True'' ''ResolvedRefs''
                           ''BackendTLSPolicy references are resolved.'']) (\<lambda>_.
                        eff_return (Some sslConfig))))))"

text \<open>The resolver that the routes use.\<close>

definition backendTLSPolicyModel :: "lb_env \<Rightarrow> backend_tls_resolver" where
  "backendTLSPolicyModel w = Some (resolveForBackendRef w)"

section \<open>Deleted policies\<close>

definition errBackendTLSCABundleStillAssociated :: error where
  "errBackendTLSCABundleStillAssociated = ErrCABundleStillAssociated"

definition deleteOwnedCABundle :: "lb_env \<Rightarrow> backend_tls_policy \<Rightarrow> ca_bundle \<Rightarrow> unit lb_op" where
  "deleteOwnedCABundle w policy bundle =
     (if \<not> isOwnedBackendTLSCABundle (cab_tags bundle) policy then eff_return ()
      else if cab_state bundle = ''DELETED'' \<or> cab_state bundle = ''DELETING'' then eff_return ()
      else eff_bind (ca_write w (DeleteCaBundle (cab_id bundle))) (\<lambda>r. case r of
          None \<Rightarrow> eff_return ()
        | Some err \<Rightarrow>
            (if isBackendTLSCABundleAlreadyDeleted err then eff_return ()
             else if isBackendTLSCABundleStillAssociated err then eff_fail errBackendTLSCABundleStillAssociated
             else eff_fail (ErrWrap (errtext ''failed to delete OCI CA bundle '' (str_ptr (cab_name bundle)) '': '')
               (ErrService err) []))))"

definition deleteOwnedCABundles :: "lb_env \<Rightarrow> backend_tls_policy \<Rightarrow> string \<Rightarrow> unit lb_op" where
  "deleteOwnedCABundles w policy compartmentID =
     (if compartmentID = [] then eff_return ()
      else eff_bind (list_ca_bundles w compartmentID None) (\<lambda>r. case r of
          Inl err \<Rightarrow> eff_fail (ErrWrap ''failed to list OCI CA bundles for BackendTLSPolicy cleanup: '' (ErrService err) [])
        | Inr bundles \<Rightarrow> eff_foreach (deleteOwnedCABundle w policy) bundles))"

definition backendTLSPolicyCleanupCompartment :: "lb_env \<Rightarrow> gateway \<Rightarrow> string lb_op" where
  "backendTLSPolicyCleanupCompartment w gateway =
     (case gw_parameters gateway of
        None \<Rightarrow> eff_return []
      | Some name \<Rightarrow>
          eff_bind (get_gateway_config w (gw_namespace gateway) name) (\<lambda>r. case r of
              Inl err \<Rightarrow>
                (if is_not_found err then eff_return []
                 else eff_fail (ErrWrap (errtext ''failed to get GatewayConfig '' (namespaced_name (gw_namespace gateway) name)
                   '' for BackendTLSPolicy cleanup: '') err []))
            | Inr loadBalancerID \<Rightarrow>
                eff_bind (get_load_balancer w loadBalancerID) (\<lambda>r. case r of
                    Inl err \<Rightarrow> eff_fail (ErrWrap (errtext ''failed to get Load Balancer '' loadBalancerID
                      '' for BackendTLSPolicy cleanup: '') (ErrService err) [])
                  | Inr loadBalancer \<Rightarrow> eff_return (str_ptr (lb_compartment loadBalancer)))))"

fun discoverCompartmentsLoop :: "lb_env \<Rightarrow> gateway list \<Rightarrow> string list lb_op" where
  "discoverCompartmentsLoop w [] = eff_return []"
| "discoverCompartmentsLoop w (gateway # gateways) =
     eff_bind (backendTLSPolicyCleanupCompartment w gateway) (\<lambda>compartmentID.
     eff_bind (discoverCompartmentsLoop w gateways) (\<lambda>rest.
       eff_return (if compartmentID = [] then rest else compartmentID # rest)))"

definition discoverBackendTLSPolicyCleanupCompartments :: "lb_env \<Rightarrow> string list lb_op" where
  "discoverBackendTLSPolicyCleanupCompartments w =
     eff_bind (list_gateways w) (\<lambda>r. case r of
         Inl err \<Rightarrow> eff_fail (ErrWrap ''failed to list Gateways for BackendTLSPolicy cleanup: '' err [])
       | Inr gateways \<Rightarrow> eff_bind (discoverCompartmentsLoop w gateways) (\<lambda>found. eff_return (remdups found)))"

definition releasedPolicy :: "backend_tls_policy \<Rightarrow> backend_tls_policy" where
  "releasedPolicy policy = policy\<lparr>
     btp_finalizers := removeFinalizer BackendTLSPolicyProgrammedFinalizer (btp_finalizers policy),
     btp_annotations := AList.delete BackendTLSPolicyCompartmentsAnnotation (btp_annotations policy)\<rparr>"

definition cleanupDeletingPolicy :: "lb_env \<Rightarrow> backend_tls_policy \<Rightarrow> unit lb_op" where
  "cleanupDeletingPolicy w policy =
     (if BackendTLSPolicyProgrammedFinalizer \<notin> set (btp_finalizers policy) then eff_return ()
      else eff_bind (if backendTLSPolicyCompartmentIDs policy = [] then discoverBackendTLSPolicyCleanupCompartments w
          else eff_return (backendTLSPolicyCompartmentIDs policy)) (\<lambda>compartmentIDs.
        eff_bind (eff_ask (env_order w)) (\<lambda>order.
        eff_bind (eff_foreach (deleteOwnedCABundles w policy) (map_iter order compartmentIDs)) (\<lambda>_.
        eff_bind (k8s_update w (UpdateBackendTLSPolicy (releasedPolicy policy))) (\<lambda>r. case r of
            None \<Rightarrow> eff_return ()
          | Some err \<Rightarrow> eff_fail (ErrWrap ''failed to remove BackendTLSPolicy finalizer: '' err []))))))"

text \<open>The result is the delay after which the request comes again; 0 for none.\<close>

definition BackendTLSPolicyController_Reconcile :: "lb_env \<Rightarrow> string \<times> string \<Rightarrow> int lb_op" where
  "BackendTLSPolicyController_Reconcile w req =
     eff_bind (get_backend_tls_policy w (fst req) (snd req)) (\<lambda>r. case r of
         Inl err \<Rightarrow>
           (if is_not_found err then eff_return 0
            else eff_fail (ErrWrap (errtext ''failed to get BackendTLSPolicy '' (namespaced_name (fst req) (snd req)) '': '')
              err []))
       | Inr policy \<Rightarrow>
           (if \<not> btp_deleting policy then eff_return 0
            else eff_bind (eff_attempt (cleanupDeletingPolicy w policy)) (\<lambda>r. case r of
                Inr _ \<Rightarrow> eff_return 0
              | Inl err \<Rightarrow>
                  (if errors_is err errBackendTLSCABundleStillAssociated then eff_return backendTLSPolicyCleanupRequeueAfter
                   else eff_fail (ErrWrap (errtext ''failed to cleanup BackendTLSPolicy ''
                     (namespaced_name (fst req) (snd req)) '': '') err [])))))"

end
