(* ===== verification/BackendTlsSafety.thy ===== *)
theory BackendTlsSafety
  imports BackendTls L4Safety
begin

text \<open>
  Safety of BackendTLSPolicies: a configuration that is handed out makes the load balancer verify
  its backends against some CA; which policy of a Service decides; what resolution and clean-up
  may write, and in which order. Two findings: a policy for an object of another kind that only has
  the name of the Service takes its TLS away, and a policy with two matching targets conflicts
  with itself.
\<close>

section \<open>Trimmed parts of a list\<close>

lemma set_trim_left: "set (trim_left s) \<subseteq> set s"
proof (induction s rule: trim_left.induct)
  case (1 s)
  then show ?case
    by (subst trim_left.simps) (auto split: option.split dest: in_set_dropD)
qed

lemma set_trim_right: "set (trim_right s) \<subseteq> set s"
proof (induction s rule: trim_right.induct)
  case (1 s)
  then show ?case
    by (subst trim_right.simps) (auto split: option.split dest: in_set_takeD)
qed

lemma set_trim_space: "set (trim_space s) \<subseteq> set s"
  unfolding trim_space_def using set_trim_left set_trim_right by blast

lemma starts_trim_left: "starts_with_space (trim_left s) = None"
proof (induction s rule: trim_left.induct)
  case (1 s)
  then show ?case
    by (subst trim_left.simps) (auto split: option.split)
qed

lemma ends_trim_right: "ends_with_space (trim_right s) = None"
proof (induction s rule: trim_right.induct)
  case (1 s)
  then show ?case
    by (subst trim_right.simps) (auto split: option.split)
qed

lemma starts_with_space_take: "starts_with_space s = None \<Longrightarrow> starts_with_space (take n s) = None"
  unfolding starts_with_space_def find_None_ball has_prefix_iff
  by (metis append.assoc append_take_drop_id)

lemma starts_trim_right: "starts_with_space s = None \<Longrightarrow> starts_with_space (trim_right s) = None"
proof (induction s rule: trim_right.induct)
  case (1 s)
  then show ?case
    by (subst trim_right.simps) (auto simp: starts_with_space_take split: option.split)
qed

lemma trim_space_idem [simp]: "trim_space (trim_space s) = trim_space s"
  by (rule trim_space_trimmed) (simp add: trimmed_def trim_space_def ends_trim_right starts_trim_right starts_trim_left)

lemma str_split_no_sep_mem: "x \<in> set (str_split c s) \<Longrightarrow> c \<notin> set x"
  by (induction s arbitrary: x) (auto split: if_splits list.splits)

section \<open>What is handed out\<close>

lemma yields_caRefs: "yields (\<lambda>rs. map fst rs = refs) (resolveCACertificateRefs w policy refs)"
proof (induction refs)
  case Nil
  show ?case by (simp add: yields_return)
next
  case (Cons ref refs)
  show ?case
    by (auto intro!: yields_bind yields_bind_post [OF Cons] yields_return)
qed

lemma yields_bundles:
  "yields (\<lambda>ids. length ids = length caRefs) (ensureOCIManagedCABundles w policy targetRef compartmentID caRefs)"
proof (induction caRefs)
  case Nil
  show ?case by (simp add: yields_return)
next
  case (Cons ref refs)
  show ?case
    by (auto intro!: yields_bind yields_bind_post [OF Cons] yields_return)
qed

text \<open>The settings that make a load balancer check its backends.\<close>

definition verifiesBackends :: "ssl_details \<Rightarrow> bool" where
  "verifiesBackends s \<longleftrightarrow> sd_verify_peer s = Some True \<and> sd_trusted_ca_ids s \<noteq> [] \<and>
     (\<exists>depth \<ge> 1. sd_verify_depth s = Some depth)"

lemma options_verify:
  "backendTLSSSLConfigFromOptions policy ids = Inr s \<Longrightarrow>
    sd_verify_peer s = Some True \<and> (\<exists>depth \<ge> 1. sd_verify_depth s = Some depth)"
  by (auto simp: backendTLSSSLConfigFromOptions_def backendTLSVerifyDepth_def Let_def defaultBackendTLSVerifyDepth_def
      split: sum.splits option.splits if_splits)

lemma shape_asks_for_CA:
  "validateBackendTLSPolicyShape order policy = None \<Longrightarrow>
    btp_ca_refs policy \<noteq> [] \<or> splitCSVOption (map_get (btp_options policy) BackendTLSOptionTrustedCABundleOCIDs) \<noteq> []"
  by (auto simp: validateBackendTLSPolicyShape_def split: if_splits option.splits)

lemma sort_strings_Nil [simp]: "sort_strings xs = [] \<longleftrightarrow> xs = []"
  by (metis mset_sort_by mset_zero_iff sort_strings_def)

lemma accepted_verifies: "yields verifiesBackends (resolveAcceptedPolicy w candidate data)"
  unfolding resolveAcceptedPolicy_def Let_def
proof (rule yields_bind)
  fix order
  let ?policy = "bc_policy candidate"
  let ?optionCAIDs = "splitCSVOption (map_get (btp_options ?policy) BackendTLSOptionTrustedCABundleOCIDs)"
  show "yields verifiesBackends
     (case validateBackendTLSPolicyShape order ?policy of
           Some err \<Rightarrow> eff_fail err
         | None \<Rightarrow>
             eff_bind (resolveCACertificateRefs w ?policy (btp_ca_refs ?policy)) (\<lambda>resolvedCARefs.
             eff_bind (eff_foreach (checkOptionCA w) ?optionCAIDs) (\<lambda>_.
             case backendTLSSSLConfigFromOptions ?policy [] of
               Inl err \<Rightarrow> eff_fail err
             | Inr sslConfig \<Rightarrow>
                 eff_bind (getPolicyLoadBalancer w ?policy (rd_loadBalancerID data)) (\<lambda>compartmentID.
                 eff_bind (setPolicyPendingConditions w ?policy (rd_gateway data)) (\<lambda>_.
                 eff_bind (refreshPolicy w ?policy) (\<lambda>policyToFinalize.
                 eff_bind (ensurePolicyFinalizerAndCompartment w policyToFinalize compartmentID) (\<lambda>_.
                 eff_bind (ensureOCIManagedCABundles w ?policy (bc_targetRef candidate) compartmentID resolvedCARefs) (\<lambda>caIDs.
                   eff_return (sslConfig\<lparr>sd_trusted_ca_ids := sort_strings (remdups (caIDs @ ?optionCAIDs))\<rparr>)))))))))"
  proof (cases "validateBackendTLSPolicyShape order ?policy")
    case None
    show ?thesis unfolding None option.case
      apply (rule yields_bind_post [OF yields_caRefs])
      apply (rule yields_bind)
      using shape_asks_for_CA [OF None]
      apply (auto split: sum.split intro!: yields_fail yields_bind yields_bind_post [OF yields_bundles] yields_return
          simp: verifiesBackends_def dest: options_verify)
      done
  qed (simp add: yields_fail)
qed

lemma yields_attempt: "yields Q m \<Longrightarrow> yields (\<lambda>r. \<forall>x. r = Inr x \<longrightarrow> Q x) (eff_attempt m)"
  by (auto simp: yields_def eff_attempt_run) (metis prod.collapse)

text \<open>
  C33: Whenever a route gets TLS settings from a policy, the load balancer verifies the certificate of
  the backend, with a depth of at least 1, against a list of CAs that is not empty.
\<close>

theorem backend_tls_verified:
  "yields (\<lambda>config. \<exists>s. config = Some s \<and> verifiesBackends s) (resolveForBackendRef w data service backendRef)"
proof -
  have attempt: "yields Q (eff_bind m (\<lambda>_. eff_bind (eff_attempt (resolveAcceptedPolicy w c data)) f))"
    if "\<And>s. verifiesBackends s \<Longrightarrow> yields Q (f (Inr s))" "\<And>err. yields Q (f (Inl err))" for Q c and m :: "unit lb_op" and f :: "error + ssl_details \<Rightarrow> ssl_details option lb_op"
    by (rule yields_bind, rule yields_bind_post [OF yields_attempt [OF accepted_verifies]]) (metis sum.exhaust that)
  show ?thesis
    unfolding resolveForBackendRef_def
    by (rule yields_bind) (auto intro!: attempt yields_fail yields_bind [OF yields_return] yields_bind [OF yields_fail]
        split: list.split option.split)
qed

section \<open>What a resolution writes\<close>

text \<open>
  A policy that was listed for the Service; a bundle that was listed with the tags of a policy; an
  object as it was read, for changes of some of its fields.
\<close>

definition listedPolicy :: "lb_env \<Rightarrow> k8s_service \<Rightarrow> backend_tls_policy \<Rightarrow> bool" where
  "listedPolicy w service p \<longleftrightarrow>
     (\<exists>h ps. env_backend_tls_policies w h (svc_namespace service) = Inr ps \<and> p \<in> set ps \<and> \<not> btp_deleting p)"

definition listedBundle :: "lb_env \<Rightarrow> backend_tls_policy \<Rightarrow> (ca_bundle \<Rightarrow> bool) \<Rightarrow> string option \<Rightarrow> bool" where
  "listedBundle w p ok i \<longleftrightarrow> (\<exists>h compartment name bundles b. env_ca_bundles w h compartment name = Inr bundles \<and>
     b \<in> set bundles \<and> isOwnedBackendTLSCABundle (cab_tags b) p \<and> ok b \<and> cab_id b = i)"

lemma listedBundleI:
  "env_ca_bundles w h compartment name = Inr bundles \<Longrightarrow> b \<in> set bundles \<Longrightarrow>
    isOwnedBackendTLSCABundle (cab_tags b) p \<Longrightarrow> ok b \<Longrightarrow> listedBundle w p ok (cab_id b)"
  unfolding listedBundle_def by blast

definition readPolicy :: "lb_env \<Rightarrow> backend_tls_policy \<Rightarrow> backend_tls_policy \<Rightarrow> bool" where
  "readPolicy w p latest \<longleftrightarrow> (\<exists>h. env_backend_tls_policy w h (btp_namespace p) (btp_name p) = Inr latest)"

text \<open>The entries of a status that are not this controller's entry for the Gateway.\<close>

definition otherAncestors :: "gateway \<Rightarrow> route_parent_status list \<Rightarrow> route_parent_status list" where
  "otherAncestors g = filter (\<lambda>a. \<not> (rps_controller a = ControllerClassName \<and> parentRefsEqual (rps_ref a) (ancestorOf g)))"

definition policyScope :: "lb_env \<Rightarrow> gateway \<Rightarrow> (backend_tls_policy \<Rightarrow> bool) \<Rightarrow> lb_call \<Rightarrow> bool" where
  "policyScope w g P c \<longleftrightarrow> reading c \<or>
     (\<exists>d p. c = CreateCaBundle d \<and> P p \<and> isOwnedBackendTLSCABundle (ccb_tags d) p) \<or>
     (\<exists>i pem tags p. c = UpdateCaBundle i pem tags \<and> P p \<and> isOwnedBackendTLSCABundle tags p \<and>
       listedBundle w p (\<lambda>b. cab_state b = [] \<or> cab_state b = ''ACTIVE'') i) \<or>
     (\<exists>p latest f a. c = UpdateBackendTLSPolicy (latest\<lparr>btp_finalizers := f, btp_annotations := a\<rparr>) \<and>
       P p \<and> readPolicy w p latest \<and> BackendTLSPolicyProgrammedFinalizer \<in> set f) \<or>
     (\<exists>p latest A. c = UpdateBackendTLSPolicyStatus (latest\<lparr>btp_ancestors := A\<rparr>) \<and>
       P p \<and> readPolicy w p latest \<and> otherAncestors g A = otherAncestors g (btp_ancestors latest))"

lemma policyScope_reading [simp]: "reading c \<Longrightarrow> policyScope w g P c"
  by (simp add: policyScope_def)

lemma policyScope_create: "P p \<Longrightarrow> isOwnedBackendTLSCABundle (ccb_tags d) p \<Longrightarrow> policyScope w g P (CreateCaBundle d)"
  unfolding policyScope_def by blast

lemma policyScope_update:
  "P p \<Longrightarrow> isOwnedBackendTLSCABundle tags p \<Longrightarrow> listedBundle w p (\<lambda>b. cab_state b = [] \<or> cab_state b = ''ACTIVE'') i \<Longrightarrow>
    policyScope w g P (UpdateCaBundle i pem tags)"
  unfolding policyScope_def by blast

lemma policyScope_policy:
  "P p \<Longrightarrow> readPolicy w p latest \<Longrightarrow> q = latest\<lparr>btp_finalizers := f, btp_annotations := a\<rparr> \<Longrightarrow>
    BackendTLSPolicyProgrammedFinalizer \<in> set f \<Longrightarrow> policyScope w g P (UpdateBackendTLSPolicy q)"
  unfolding policyScope_def by blast

lemma policyScope_status:
  "P p \<Longrightarrow> readPolicy w p latest \<Longrightarrow> otherAncestors g A = otherAncestors g (btp_ancestors latest) \<Longrightarrow>
    policyScope w g P (UpdateBackendTLSPolicyStatus (latest\<lparr>btp_ancestors := A\<rparr>))"
  unfolding policyScope_def by blast

lemma parentRefsEqual_refl: "parentRefsEqual r r"
  by (simp add: parentRefsEqual_def)

lemma otherAncestors_merge: "otherAncestors g (mergeAncestor (ancestorOf g) conditions as) = otherAncestors g as"
  by (induction as) (auto simp: otherAncestors_def parentRefsEqual_refl)

lemma emits_setPolicyConditions:
  assumes "P policy" shows "emits (policyScope w g P) (setPolicyConditions w policy g conditions)"
  unfolding setPolicyConditions_def get_backend_tls_policy_def Let_def
proof (rule emits_bind_call)
  fix h
  have "policyScope w g P (UpdateBackendTLSPolicyStatus (latest\<lparr>btp_ancestors := mergeAncestor (ancestorOf g) conditions (btp_ancestors latest)\<rparr>))"
    if "env_backend_tls_policy w h (btp_namespace policy) (btp_name policy) = Inr latest" for latest
    using assms that by (intro policyScope_status [of P policy]) (auto simp: readPolicy_def otherAncestors_merge)
  then show "emits (policyScope w g P) (case env_backend_tls_policy w h (btp_namespace policy) (btp_name policy) of
      Inl err \<Rightarrow> eff_fail (ErrWrap (errtext ''failed to get BackendTLSPolicy '' (policyFullName policy)
           '' before status update: '') err [])
    | Inr latest \<Rightarrow>
        if mergeAncestor (ancestorOf g) conditions (btp_ancestors latest) = btp_ancestors latest then eff_return ()
        else eff_bind (k8s_update w (UpdateBackendTLSPolicyStatus
            (latest\<lparr>btp_ancestors := mergeAncestor (ancestorOf g) conditions (btp_ancestors latest)\<rparr>))) (\<lambda>r. case r of
              None \<Rightarrow> eff_return ()
            | Some err \<Rightarrow> eff_fail (ErrWrap (errtext ''failed to update BackendTLSPolicy '' (policyFullName policy)
                '' status: '') err [])))"
    by (auto intro!: emits_intros split: sum.split option.split)
qed simp

lemma policy_tags_owned: "isOwnedBackendTLSCABundle (backendTLSCABundleTags policy caHash) policy"
  by (simp add: isOwnedBackendTLSCABundle_def backendTLSCABundleTags_def backendTLSManagedByTag_def backendTLSPolicyTag_def)

lemma emits_cache [emits_intros]:
  "(\<And>c n h i. P (CacheCaBundle c n h i)) \<Longrightarrow> emits P (caBundleCache_set key i)"
  by (cases key) (auto simp: caBundleCache_set_def intro!: emits_intros)

lemma usable_state: "ensureBackendTLSCABundleUsable b = None \<longleftrightarrow> cab_state b = [] \<or> cab_state b = ''ACTIVE''"
  by (auto simp: ensureBackendTLSCABundleUsable_def)

lemma emits_resolveExistingOCI: "emits (policyScope w g P) (resolveExistingOCIManagedCABundle w policy cp name caHash)"
  by (auto simp: resolveExistingOCIManagedCABundle_def intro!: emits_intros split: sum.split option.split)

lemma emits_createOCI:
  "P policy \<Longrightarrow> emits (policyScope w g P) (createOCIManagedCABundle w policy cp name caHash pem)"
proof -
  assume "P policy"
  then have "policyScope w g P (CreateCaBundle \<lparr>ccb_name = name, ccb_compartment = cp, ccb_pem = pem,
      ccb_tags = backendTLSCABundleTags policy caHash\<rparr>)"
    using policy_tags_owned by (intro policyScope_create [of P policy]) simp_all
  then show ?thesis
    by (auto simp: createOCIManagedCABundle_def
        intro!: emits_intros emits_resolveExistingOCI split: sum.split)
qed

lemma emits_resolveListedOCI:
  assumes "P (lc_policy params)" "isOwnedBackendTLSCABundle (lc_tags params) (lc_policy params)"
    and "env_ca_bundles w h cp name = Inr (lc_bundles params)"
  shows "emits (policyScope w g P) (resolveListedOCIManagedCABundle w params)"
proof -
  have "policyScope w g P (UpdateCaBundle (cab_id b) pem (lc_tags params))"
    if "liveBundle (lc_bundles params) = Some b" "isOwnedBackendTLSCABundle (cab_tags b) (lc_policy params)"
      "ensureBackendTLSCABundleUsable b = None" for b pem
  proof -
    have "b \<in> set (lc_bundles params)" using liveBundle_Some [OF that(1)] by simp
    then have "listedBundle w (lc_policy params) (\<lambda>b. cab_state b = [] \<or> cab_state b = ''ACTIVE'') (cab_id b)"
      using that(3) usable_state by (intro listedBundleI [OF assms(3) _ that(2)]) simp_all
    then show ?thesis using assms(1,2) by (intro policyScope_update [of P "lc_policy params"])
  qed
  then show ?thesis
    by (auto simp: resolveListedOCIManagedCABundle_def intro!: emits_intros
        split: sum.split option.split)
qed

lemma emits_ensureOCI:
  assumes "P policy" shows "emits (policyScope w g P) (ensureOCIManagedCABundle w policy targetRef cp caRef)"
  unfolding ensureOCIManagedCABundle_def Let_def list_ca_bundles_def
proof (rule emits_bind [OF emits_ask])
  fix cached
  let ?name = "backendTLSCABundleName policy targetRef (fst caRef)"
  let ?hash = "sha256_hex (snd caRef)"
  let ?params = "\<lambda>bundles. \<lparr>lc_policy = policy, lc_name = ?name, lc_caHash = ?hash, lc_caPEM = snd caRef,
    lc_tags = backendTLSCABundleTags policy ?hash, lc_bundles = bundles, lc_cacheKey = (cp, ?name, ?hash)\<rparr>"
  let ?after = "\<lambda>r. case r of
      Inl err \<Rightarrow> eff_fail (ErrWrap (errtext ''failed to list OCI CA bundles for BackendTLSPolicy ''
        (policyFullName policy) '': '') (ErrService err) [])
    | Inr bundles \<Rightarrow> eff_bind (resolveListedOCIManagedCABundle w (?params bundles)) (\<lambda>matched. case matched of
          Some caBundleID \<Rightarrow> eff_return caBundleID
        | None \<Rightarrow> createOCIManagedCABundle w policy cp ?name ?hash (snd caRef))"
  have "emits (policyScope w g P) (eff_bind (eff_call (ListCaBundles cp (Some ?name)) (\<lambda>h. env_ca_bundles w h cp (Some ?name))) ?after)"
  proof (rule emits_bind_call)
    fix h
    show "emits (policyScope w g P) (?after (env_ca_bundles w h cp (Some ?name)))"
    proof (cases "env_ca_bundles w h cp (Some ?name)")
      case (Inr bundles)
      have "emits (policyScope w g P) (resolveListedOCIManagedCABundle w (?params bundles))"
        by (rule emits_resolveListedOCI [of _ _ w h cp "Some ?name"]) (simp_all add: assms Inr policy_tags_owned)
      then show ?thesis using Inr by (auto intro!: emits_intros emits_createOCI assms split: option.split)
    qed (simp add: emits_fail)
  qed simp
  then show "emits (policyScope w g P) (case cached of
      Some caBundleID \<Rightarrow> eff_return caBundleID
    | None \<Rightarrow> eff_bind (eff_call (ListCaBundles cp (Some ?name)) (\<lambda>h. env_ca_bundles w h cp (Some ?name))) ?after)"
    by (cases cached) (simp_all add: emits_return)
qed

lemma emits_finalize:
  assumes "P policy" "readPolicy w policy latest"
  shows "emits (policyScope w g P) (ensurePolicyFinalizerAndCompartment w latest cp)"
proof -
  let ?fs = "addFinalizer BackendTLSPolicyProgrammedFinalizer (btp_finalizers latest)"
  let ?finalized = "latest\<lparr>btp_finalizers := ?fs\<rparr>"
  obtain a where "fst (addBackendTLSPolicyCompartment ?finalized cp) = ?finalized\<lparr>btp_annotations := a\<rparr>"
  proof (cases "snd (addBackendTLSPolicyCompartment ?finalized cp)")
    case False
    then have "fst (addBackendTLSPolicyCompartment ?finalized cp) = ?finalized\<lparr>btp_annotations := btp_annotations ?finalized\<rparr>"
      by (auto simp: addBackendTLSPolicyCompartment_def split: if_splits)
    then show ?thesis using that by blast
  next
    case True
    then show ?thesis using that by (auto simp: addBackendTLSPolicyCompartment_def split: if_splits)
  qed
  then have "policyScope w g P (UpdateBackendTLSPolicy (fst (addBackendTLSPolicyCompartment ?finalized cp)))"
    using assms setFinalizer_mem by (intro policyScope_policy [of P policy w latest]) auto
  then show ?thesis
    by (auto simp: ensurePolicyFinalizerAndCompartment_def Let_def case_prod_beta
        intro!: emits_intros split: option.split)
qed

lemma candidate_policy: "c \<in> set (policyCandidate p service backendRef targetRef) \<Longrightarrow> bc_policy c = p"
  by (auto simp: policyCandidate_def split: prod.splits bool.splits if_splits)

lemma candidates_listed: "yields (\<lambda>cs. \<forall>c\<in>set cs. listedPolicy w service (bc_policy c)) (matchingPolicies w service backendRef)"
  unfolding yields_def matchingPolicies_def list_backend_tls_policies_def
  by (auto simp: eff_simps listedPolicy_def dest!: candidate_policy split: sum.splits if_splits)

lemma emits_caRefs: "emits (policyScope w g P) (resolveCACertificateRefs w policy refs)"
  by (induction refs) (auto simp: resolveCACertificateRefPEM_def Let_def intro!: emits_intros split: sum.split option.split)

lemma emits_resolveAccepted:
  assumes "P (bc_policy c)"
  shows "emits (policyScope w (rd_gateway data) P) (resolveAcceptedPolicy w c data)"
proof -
  let ?P = "policyScope w (rd_gateway data) P"
  have refs: "emits ?P (resolveCACertificateRefs w (bc_policy c) refs)" for refs by (rule emits_caRefs)
  have options: "emits ?P (eff_foreach (checkOptionCA w) ids)" for ids
    by (auto simp: checkOptionCA_def intro!: emits_intros split: option.split)
  have balancer: "emits ?P (getPolicyLoadBalancer w (bc_policy c) i)" for i
    by (auto simp: getPolicyLoadBalancer_def Let_def intro!: emits_intros split: sum.split)
  have pending: "emits ?P (setPolicyPendingConditions w (bc_policy c) (rd_gateway data))"
    unfolding setPolicyPendingConditions_def by (rule emits_setPolicyConditions, rule assms)
  have refresh: "emits ?P (refreshPolicy w (bc_policy c))"
    by (auto simp: refreshPolicy_def intro!: emits_intros split: sum.split)
  have latest: "yields (readPolicy w (bc_policy c)) (refreshPolicy w (bc_policy c))"
    unfolding yields_def refreshPolicy_def get_backend_tls_policy_def
    by (auto simp: eff_simps readPolicy_def split: sum.splits)
  have bundles: "emits ?P (ensureOCIManagedCABundles w (bc_policy c) t cp caRefs)" for t cp caRefs
    by (induction caRefs) (auto intro!: emits_intros emits_ensureOCI assms)
  show ?thesis
    unfolding resolveAcceptedPolicy_def Let_def
    by (auto intro!: emits_return emits_fail emits_ask emits_bind [OF refs] emits_bind [OF options] emits_bind [OF balancer]
        emits_bind [OF pending] emits_bind_post [OF refresh latest] emits_bind [OF emits_finalize] emits_bind [OF bundles]
        emits_bind [OF emits_ask] assms split: sum.split option.split)
qed

text \<open>
  A resolution writes the status of policies that were listed for the Service (only this
  controller's entry for the Gateway), their finalizers and annotations, and bundles with the tags
  of such a policy; a bundle that is updated was listed with these tags and is active.
\<close>

theorem policy_writes_in_scope:
  "emits (policyScope w (rd_gateway data) (listedPolicy w service)) (resolveForBackendRef w data service backendRef)"
proof -
  let ?P = "policyScope w (rd_gateway data) (listedPolicy w service)"
  have matching: "emits ?P (matchingPolicies w service backendRef)"
    by (auto simp: matchingPolicies_def intro!: emits_intros split: sum.split)
  have ignored: "emits ?P (ignoring m)" if "emits ?P m" for m
    unfolding ignoring_def by (intro emits_intros that)
  have "emits ?P (case sortBackendTLSPolicyCandidates cs of
         [] \<Rightarrow> eff_fail ErrBackendTLSPolicyNotFound
       | selected # others \<Rightarrow>
           (case bc_invalid selected of
              Some (reason, message) \<Rightarrow>
                eff_bind (ignoring (setPolicyErrorConditions w (bc_policy selected) (rd_gateway data) reason message)) (\<lambda>_.
                  eff_fail (backendTLSPolicyStatusError reason message))
            | None \<Rightarrow>
                eff_bind (eff_foreach (\<lambda>conflicted. ignoring (setPolicyCondition w (bc_policy conflicted) (rd_gateway data)
                  ''False'' ''Conflicted'' (lowerPrecedence (bc_policy conflicted) (bc_policy selected) service))) others) (\<lambda>_.
                eff_bind (eff_attempt (resolveAcceptedPolicy w selected data)) (f selected))))"
    if cs: "\<forall>c\<in>set cs. listedPolicy w service (bc_policy c)"
      and f: "\<And>c r. listedPolicy w service (bc_policy c) \<Longrightarrow> emits ?P (f c r)" for cs f
  proof (cases "sortBackendTLSPolicyCandidates cs")
    case Nil
    then show ?thesis by (simp add: emits_fail)
  next
    case (Cons selected others)
    then have sel: "listedPolicy w service (bc_policy c)" if "c \<in> insert selected (set others)" for c
      using cs that by (metis list.simps(15) set_sort_by sortBackendTLSPolicyCandidates_def)
    have conflicted: "emits ?P (eff_foreach (\<lambda>conflicted. ignoring (setPolicyCondition w (bc_policy conflicted) (rd_gateway data)
        ''False'' ''Conflicted'' (lowerPrecedence (bc_policy conflicted) (bc_policy selected) service))) others)"
      unfolding setPolicyCondition_def using sel by (auto intro!: emits_foreach ignored emits_setPolicyConditions)
    show ?thesis unfolding Cons list.case
      using sel [of selected]
      by (auto simp: setPolicyErrorConditions_def intro!: emits_bind [OF conflicted] emits_bind [OF emits_attempt]
          emits_resolveAccepted f emits_bind [OF ignored] emits_setPolicyConditions emits_fail split: option.split)
  qed
  note rest = this
  show ?thesis
    unfolding resolveForBackendRef_def
    by (rule emits_bind_post [OF matching candidates_listed], rule rest, assumption)
      (auto simp: setPolicyErrorConditions_def intro!: emits_intros ignored emits_setPolicyConditions split: sum.split option.split)
qed

text \<open>A resolution never writes backends, backend sets or listeners, as the layer 4 routes rely on.\<close>

lemma scope_fills: "policyScope w g P c \<Longrightarrow> \<not> fills c"
  by (auto simp: policyScope_def reading_fills)

lemma policy_model_fills_nothing: "resolverEmits (\<lambda>c. \<not> fills c) (backendTLSPolicyModel w)"
  unfolding resolverEmits_def backendTLSPolicyModel_def
  using emits_mono [OF policy_writes_in_scope] scope_fills by fastforce

section \<open>The finalizer before the first bundle\<close>

text \<open>A compartment that can be recorded in a list with commas.\<close>

definition plainCompartment :: "string \<Rightarrow> bool" where
  "plainCompartment cp \<longleftrightarrow> cp \<noteq> [] \<and> trim_space cp = cp \<and> CHR '','' \<notin> set cp"

lemma recorded_plain: "cp \<in> set (backendTLSPolicyCompartmentIDs p) \<Longrightarrow> plainCompartment cp"
  using set_trim_space str_split_no_sep_mem
  by (fastforce simp: backendTLSPolicyCompartmentIDs_def plainCompartment_def Let_def sort_strings_def split: if_splits)

lemma join_nonempty_iff: "(\<And>x. x \<in> set xs \<Longrightarrow> x \<noteq> []) \<Longrightarrow> str_join sep xs = [] \<longleftrightarrow> xs = []"
  by (cases xs; cases "tl xs") auto

lemma recorded_ids:
  assumes "list_all plainCompartment ids" "ids \<noteq> []"
    and "map_get (btp_annotations p) BackendTLSPolicyCompartmentsAnnotation = str_join '','' (sort_strings ids)"
  shows "set (backendTLSPolicyCompartmentIDs p) = set ids"
proof -
  have plain: "plainCompartment x" if "x \<in> set ids" for x using assms(1) that by (simp add: list_all_iff)
  have "str_split (CHR '','') (str_join '','' (sort_strings ids)) = sort_strings ids"
    using assms(2) plain by (intro str_split_join) (auto simp: plainCompartment_def)
  moreover have "str_join '','' (sort_strings ids) \<noteq> []"
    using assms(2) plain by (subst join_nonempty_iff) (auto simp: plainCompartment_def)
  moreover have "map trim_space (sort_strings ids) = sort_strings ids"
    using plain by (intro map_idI) (auto simp: plainCompartment_def)
  ultimately have "backendTLSPolicyCompartmentIDs p = sort_strings (remdups (filter (\<lambda>c. c \<noteq> []) (sort_strings ids)))"
    using assms(3) by (simp add: backendTLSPolicyCompartmentIDs_def Let_def)
  then show ?thesis using plain by (auto simp: plainCompartment_def)
qed

lemma recorded_compartment:
  assumes "plainCompartment compartmentID"
  shows "set (backendTLSPolicyCompartmentIDs (fst (addBackendTLSPolicyCompartment policy compartmentID))) =
    insert compartmentID (set (backendTLSPolicyCompartmentIDs policy))"
proof (cases "compartmentID \<in> set (backendTLSPolicyCompartmentIDs policy)")
  case True
  then show ?thesis by (auto simp: addBackendTLSPolicyCompartment_def)
next
  case False
  let ?ids = "backendTLSPolicyCompartmentIDs policy @ [compartmentID]"
  have "compartmentID \<noteq> []" using assms by (simp add: plainCompartment_def)
  then have "fst (addBackendTLSPolicyCompartment policy compartmentID) = policy\<lparr>btp_annotations :=
      AList.update BackendTLSPolicyCompartmentsAnnotation (str_join '','' (sort_strings ?ids)) (btp_annotations policy)\<rparr>"
    using False by (simp add: addBackendTLSPolicyCompartment_def)
  moreover have "list_all plainCompartment ?ids" using assms recorded_plain by (auto simp: list_all_iff)
  ultimately have "set (backendTLSPolicyCompartmentIDs (fst (addBackendTLSPolicyCompartment policy compartmentID))) = set ?ids"
    by (intro recorded_ids) (simp_all add: map_get_def update_conv')
  then show ?thesis by simp
qed

text \<open>
  A policy is protected when it carries the finalizer and the compartment is recorded on it: it was
  read like that, or it was read and then stored like that.
\<close>

definition protectedBy :: "backend_tls_policy \<Rightarrow> string \<Rightarrow> bool" where
  "protectedBy q cp \<longleftrightarrow> BackendTLSPolicyProgrammedFinalizer \<in> set (btp_finalizers q) \<and>
     (plainCompartment cp \<longrightarrow> cp \<in> set (backendTLSPolicyCompartmentIDs q))"

definition policyProtected :: "lb_env \<Rightarrow> backend_tls_policy \<Rightarrow> string \<Rightarrow> lb_call list \<Rightarrow> bool" where
  "policyProtected w p cp h \<longleftrightarrow> (\<exists>xs ys q. protectedBy q cp \<and>
     (h = xs @ GetBackendTLSPolicy (btp_namespace p) (btp_name p) # ys \<and>
        env_backend_tls_policy w xs (btp_namespace p) (btp_name p) = Inr q \<or>
      h = xs @ UpdateBackendTLSPolicy q # ys \<and> env_update w xs (UpdateBackendTLSPolicy q) = None \<and>
        (\<exists>latest f a. readPolicy w p latest \<and> q = latest\<lparr>btp_finalizers := f, btp_annotations := a\<rparr>)))"

lemma policyProtected_later: "policyProtected w p cp h \<Longrightarrow> policyProtected w p cp (h @ cs)"
  unfolding policyProtected_def by (metis append_Cons append_assoc)

definition protectedWrite :: "lb_env \<Rightarrow> (backend_tls_policy \<Rightarrow> bool) \<Rightarrow> lb_call list \<Rightarrow> lb_call \<Rightarrow> bool" where
  "protectedWrite w P h c \<longleftrightarrow>
     (\<forall>d. c = CreateCaBundle d \<longrightarrow>
       (\<exists>p. P p \<and> isOwnedBackendTLSCABundle (ccb_tags d) p \<and> policyProtected w p (ccb_compartment d) h)) \<and>
     (\<forall>i pem tags. c = UpdateCaBundle i pem tags \<longrightarrow>
       (\<exists>p cp. P p \<and> isOwnedBackendTLSCABundle tags p \<and> policyProtected w p cp h))"

definition bundleWrite :: "backend_tls_policy \<Rightarrow> string \<Rightarrow> lb_call \<Rightarrow> bool" where
  "bundleWrite p cp c \<longleftrightarrow> reading c \<or>
     (\<exists>d. c = CreateCaBundle d \<and> ccb_compartment d = cp \<and> isOwnedBackendTLSCABundle (ccb_tags d) p) \<or>
     (\<exists>i pem tags. c = UpdateCaBundle i pem tags \<and> isOwnedBackendTLSCABundle tags p)"

definition caWrite :: "lb_call \<Rightarrow> bool" where
  "caWrite c \<longleftrightarrow> (\<exists>d. c = CreateCaBundle d) \<or> (\<exists>i pem tags. c = UpdateCaBundle i pem tags)"

lemma emits_bundles: "emits (bundleWrite p cp) (ensureOCIManagedCABundles w p t cp caRefs)"
proof (induction caRefs)
  case (Cons caRef caRefs)
  have "emits (bundleWrite p cp) (ensureOCIManagedCABundle w p t cp caRef)"
    by (auto simp: bundleWrite_def ensureOCIManagedCABundle_def Let_def resolveListedOCIManagedCABundle_def createOCIManagedCABundle_def
        resolveExistingOCIManagedCABundle_def policy_tags_owned intro!: emits_intros split: sum.split option.split)
  with Cons show ?case by (auto intro!: emits_intros)
qed (simp add: emits_return)

lemma guarded_unwritten: "emits (\<lambda>c. \<not> caWrite c) m \<Longrightarrow> guarded (protectedWrite w P) m h"
proof (rule guarded_emits, assumption)
  show "protectedWrite w P h c" if "\<not> caWrite c" for h c using that by (auto simp: protectedWrite_def caWrite_def)
qed

lemma guarded_bundles:
  assumes "P p" "policyProtected w p cp h"
  shows "guarded (protectedWrite w P) (ensureOCIManagedCABundles w p t cp caRefs) h"
proof -
  obtain cs where cs: "snd (ensureOCIManagedCABundles w p t cp caRefs h) = h @ cs" "list_all (bundleWrite p cp) cs"
    using emits_bundles [of p cp w t caRefs] unfolding emits_def by blast
  have "protectedWrite w P (h @ xs) c" if "cs = xs @ c # ys" for xs c ys
  proof -
    have "bundleWrite p cp c" using cs(2) that by simp
    then show ?thesis using assms policyProtected_later [OF assms(2), of xs] by (auto simp: bundleWrite_def protectedWrite_def)
  qed
  with cs(1) show ?thesis unfolding guarded_def by blast
qed

lemma unwritten_conditions: "emits (\<lambda>c. \<not> caWrite c) (setPolicyConditions w policy g conditions)"
  by (auto simp: caWrite_def setPolicyConditions_def Let_def intro!: emits_intros split: sum.split option.split)

lemma unwritten_finalize: "emits (\<lambda>c. \<not> caWrite c) (ensurePolicyFinalizerAndCompartment w q cp)"
  by (auto simp: caWrite_def ensurePolicyFinalizerAndCompartment_def Let_def case_prod_beta intro!: emits_intros split: option.split)

lemma refreshPolicy_run:
  "refreshPolicy w policy h = (Inr latest, h1) \<longleftrightarrow>
    env_backend_tls_policy w h (btp_namespace policy) (btp_name policy) = Inr latest \<and>
    h1 = h @ [GetBackendTLSPolicy (btp_namespace policy) (btp_name policy)]"
  unfolding refreshPolicy_def get_backend_tls_policy_def by (auto simp: eff_simps split: sum.split)

lemma finalize_protects:
  assumes "refreshPolicy w policy h = (Inr latest, h1)" "ensurePolicyFinalizerAndCompartment w latest cp h1 = (Inr x, h2)"
  shows "policyProtected w policy cp h2"
proof -
  let ?f = BackendTLSPolicyProgrammedFinalizer
  let ?finalized = "latest\<lparr>btp_finalizers := addFinalizer ?f (btp_finalizers latest)\<rparr>"
  let ?updated = "fst (addBackendTLSPolicyCompartment ?finalized cp)"
  have get: "env_backend_tls_policy w h (btp_namespace policy) (btp_name policy) = Inr latest"
      "h1 = h @ [GetBackendTLSPolicy (btp_namespace policy) (btp_name policy)]"
    using assms(1) by (simp_all add: refreshPolicy_run)
  have ids: "backendTLSPolicyCompartmentIDs ?finalized = backendTLSPolicyCompartmentIDs latest"
    by (simp add: backendTLSPolicyCompartmentIDs_def)
  show ?thesis
  proof (cases "?f \<in> set (btp_finalizers latest) \<and> \<not> snd (addBackendTLSPolicyCompartment ?finalized cp)")
    case True
    then have "protectedBy latest cp" "h2 = h1"
      using assms(2) ids by (auto simp: protectedBy_def addBackendTLSPolicyCompartment_def plainCompartment_def
          ensurePolicyFinalizerAndCompartment_def Let_def case_prod_beta eff_simps split: if_splits)
    then show ?thesis using get unfolding policyProtected_def by blast
  next
    case False
    then have stored: "env_update w h1 (UpdateBackendTLSPolicy ?updated) = None" "h2 = h1 @ [UpdateBackendTLSPolicy ?updated]"
      using assms(2) by (auto simp: ensurePolicyFinalizerAndCompartment_def Let_def case_prod_beta
          eff_bind_Inr [OF gateway_run(7)] eff_simps split: if_splits option.splits)
    have fs: "btp_finalizers ?updated = addFinalizer ?f (btp_finalizers latest)"
      by (simp add: addBackendTLSPolicyCompartment_def)
    have "protectedBy ?updated cp"
      using fs setFinalizer_mem recorded_compartment by (simp add: protectedBy_def)
    moreover have "?updated = latest\<lparr>btp_finalizers := btp_finalizers ?updated, btp_annotations := btp_annotations ?updated\<rparr>"
      by (simp add: addBackendTLSPolicyCompartment_def)
    moreover have "readPolicy w policy latest" using get(1) unfolding readPolicy_def by blast
    ultimately show ?thesis using stored unfolding policyProtected_def by blast
  qed
qed

lemma guarded_resolveAccepted:
  assumes "P (bc_policy c)"
  shows "guarded (protectedWrite w P) (resolveAcceptedPolicy w c data) h"
proof -
  let ?p = "bc_policy c"
  have quiet: "emits (\<lambda>c. \<not> caWrite c) (resolveCACertificateRefs w ?p refs)"
    "emits (\<lambda>c. \<not> caWrite c) (eff_foreach (checkOptionCA w) ids)"
    "emits (\<lambda>c. \<not> caWrite c) (getPolicyLoadBalancer w ?p i)"
    "emits (\<lambda>c. \<not> caWrite c) (setPolicyPendingConditions w ?p g)"
    "emits (\<lambda>c. \<not> caWrite c) (refreshPolicy w ?p)" for refs ids i g
  proof -
    show "emits (\<lambda>c. \<not> caWrite c) (resolveCACertificateRefs w ?p refs)"
      by (induction refs) (auto simp: caWrite_def resolveCACertificateRefPEM_def Let_def intro!: emits_intros split: sum.split option.split)
    show "emits (\<lambda>c. \<not> caWrite c) (eff_foreach (checkOptionCA w) ids)"
      by (auto simp: caWrite_def checkOptionCA_def intro!: emits_intros split: option.split)
    show "emits (\<lambda>c. \<not> caWrite c) (getPolicyLoadBalancer w ?p i)"
      by (auto simp: caWrite_def getPolicyLoadBalancer_def Let_def intro!: emits_intros split: sum.split)
    show "emits (\<lambda>c. \<not> caWrite c) (setPolicyPendingConditions w ?p g)"
      by (simp add: setPolicyPendingConditions_def unwritten_conditions)
    show "emits (\<lambda>c. \<not> caWrite c) (refreshPolicy w ?p)"
      by (auto simp: caWrite_def refreshPolicy_def intro!: emits_intros split: sum.split)
  qed
  have last_steps: "guarded (protectedWrite w P) (eff_bind (refreshPolicy w ?p) (\<lambda>policyToFinalize.
      eff_bind (ensurePolicyFinalizerAndCompartment w policyToFinalize cp) (\<lambda>_.
      eff_bind (ensureOCIManagedCABundles w ?p t cp caRefs) (\<lambda>caIDs. eff_return (k caIDs))))) h" for cp t caRefs h and k :: "string list \<Rightarrow> ssl_details"
    by (rule guarded_bind [OF guarded_unwritten [OF quiet(5)]], rule guarded_bind [OF guarded_unwritten [OF unwritten_finalize]],
        rule guarded_bind [OF guarded_bundles], rule assms, erule finalize_protects, assumption)
      (simp add: guarded_quiet eff_return_run)
  show ?thesis
    unfolding resolveAcceptedPolicy_def Let_def
    by (auto intro!: guarded_bind [OF guarded_unwritten [OF emits_ask]] guarded_unwritten [OF emits_fail]
        guarded_bind [OF guarded_unwritten [OF quiet(1)]] guarded_bind [OF guarded_unwritten [OF quiet(2)]]
        guarded_bind [OF guarded_unwritten [OF quiet(3)]] guarded_bind [OF guarded_unwritten [OF quiet(4)]] last_steps
        split: option.split sum.split)
qed

lemma sorted_listed:
  assumes "matchingPolicies w service backendRef h = (Inr cs, h1)" "sortBackendTLSPolicyCandidates cs = selected # others"
    and "c \<in> insert selected (set others)"
  shows "listedPolicy w service (bc_policy c)"
  using yieldsD [OF candidates_listed assms(1)] assms(2,3)
  by (metis list.simps(15) set_sort_by sortBackendTLSPolicyCandidates_def)


section \<open>Which policy decides\<close>

definition candidatesAmong :: "backend_tls_policy list \<Rightarrow> k8s_service \<Rightarrow> backend_ref \<Rightarrow> backend_tls_candidate list" where
  "candidatesAmong policies service backendRef =
     concat (map (\<lambda>policy. concat (map (policyCandidate policy service backendRef) (btp_target_refs policy)))
       (filter (\<lambda>policy. \<not> btp_deleting policy) policies))"

lemma matchingPolicies_listed:
  "env_backend_tls_policies w h (svc_namespace service) = Inr policies \<Longrightarrow>
    matchingPolicies w service backendRef h =
      (Inr (candidatesAmong policies service backendRef), h @ [ListBackendTLSPolicies (svc_namespace service)])"
  by (simp add: matchingPolicies_def candidatesAmong_def eff_bind_Inr [OF policy_run(2)] eff_simps)

lemma bind_matching:
  "env_backend_tls_policies w h (svc_namespace service) = Inr policies \<Longrightarrow>
    eff_bind (matchingPolicies w service backendRef) f h =
      f (candidatesAmong policies service backendRef) (h @ [ListBackendTLSPolicies (svc_namespace service)])"
  by (simp add: eff_bind_def matchingPolicies_listed)

lemma candidateBefore_asym: "candidateBefore a b \<Longrightarrow> \<not> candidateBefore b a"
  by (auto simp: candidateBefore_def split: if_splits)

lemma candidateBefore_linear: "candidateBefore a c \<Longrightarrow> candidateBefore a b \<or> candidateBefore b c"
  by (auto simp: candidateBefore_def split: if_splits)

lemma selected_first:
  assumes "sortBackendTLSPolicyCandidates cs = selected # others"
  shows "selected \<in> set cs" "c \<in> set cs \<Longrightarrow> \<not> candidateBefore c selected"
proof -
  show "selected \<in> set cs"
    using assms by (metis list.set_intros(1) set_sort_by sortBackendTLSPolicyCandidates_def)
  show "\<not> candidateBefore c selected" if "c \<in> set cs"
    using hd_sort_by [of candidateBefore, OF candidateBefore_asym candidateBefore_linear that] assms
    by (simp add: sortBackendTLSPolicyCandidates_def)
qed

lemma candidate_invalid: "c \<in> set (policyCandidate p service backendRef targetRef) \<Longrightarrow>
    bc_targetRef c = targetRef \<and> (bc_invalid c = None \<longrightarrow> snd (backendTLSPolicyTargetMatchesService targetRef service backendRef))"
  by (cases "backendTLSPolicyTargetMatchesService targetRef service backendRef")
    (auto simp: policyCandidate_def split: bool.splits if_splits)

lemma attempt_run: "m h = (r, h1) \<Longrightarrow> eff_bind (eff_attempt m) f h = f r h1"
  by (simp add: eff_bind_attempt)


text \<open>
  C37: An object of another kind that has the name of the Service: a policy for it counts as a candidate
  for the Service, and when it is the oldest, the Service is treated as if it had no TLS, whatever
  the policies for the Service itself say. With \<open>invalid_policy_disables_tls\<close> (\<open>L7Routes\<close>), the
  backend set is then created without TLS.
\<close>

theorem policy_of_other_kind_disables_tls:
  assumes "pp_backendTLSPolicy params = Some (resolveForBackendRef w data)" "\<not> pp_backendTLSDisabled params"
    and "env_backend_tls_policies w h (svc_namespace service) = Inr policies"
    and "p \<in> set policies" "\<not> btp_deleting p" "btp_target_refs p = [targetRef]"
    and "ptr_name targetRef = svc_name service" "ptr_kind targetRef \<noteq> ''Service''"
    and "list_all (\<lambda>q. q = p \<or> btp_creation p < btp_creation q) policies"
  shows "fst (resolveL7BackendSSLConfig params service backendRef h) = Inr (None, True)"
proof -
  let ?cs = "candidatesAmong policies service backendRef"
  have cand: "\<exists>message. policyCandidate p service backendRef targetRef = [\<lparr>bc_policy = p, bc_targetRef = targetRef,
      bc_servicePort = None, bc_invalid = Some (''InvalidKind'', message)\<rparr>]"
    using assms(7,8) by (simp add: policyCandidate_def backendTLSPolicyTargetMatchesService_def targetsOtherService_def
        backendTLSPolicyTargetRefUnsupportedKind_def)
  then obtain message where c: "policyCandidate p service backendRef targetRef = [\<lparr>bc_policy = p, bc_targetRef = targetRef,
      bc_servicePort = None, bc_invalid = Some (''InvalidKind'', message)\<rparr>]" by blast
  let ?c = "\<lparr>bc_policy = p, bc_targetRef = targetRef, bc_servicePort = None, bc_invalid = Some (''InvalidKind'', message)\<rparr>"
  have mem: "?c \<in> set ?cs"
    using assms(4,5,6) c by (auto simp: candidatesAmong_def intro!: bexI [of _ p])
  have others: "x = ?c" if x: "x \<in> set ?cs" and first: "\<not> candidateBefore ?c x" for x
  proof -
    obtain q t where q: "q \<in> set policies" "t \<in> set (btp_target_refs q)" "x \<in> set (policyCandidate q service backendRef t)"
      using x by (auto simp: candidatesAmong_def)
    then have "bc_policy x = q" by (blast dest: candidate_policy)
    then have "q = p" using first q(1) assms(9) by (auto simp: candidateBefore_def list_all_iff)
    then show ?thesis using q(2,3) c assms(6) by simp
  qed
  obtain selected rest where sorted: "sortBackendTLSPolicyCandidates ?cs = selected # rest"
    using mem by (cases "sortBackendTLSPolicyCandidates ?cs") (auto simp: sortBackendTLSPolicyCandidates_def
        dest: arg_cong [where f = set])
  then have "selected = ?c" using selected_first [OF sorted] mem others by blast
  then have "fst (resolveForBackendRef w data service backendRef h) = Inl (ErrBackendTLSStatus ''InvalidKind'' message)"
    unfolding resolveForBackendRef_def bind_matching [OF assms(3)] sorted
    by (simp add: ignoring_def eff_bind_assoc eff_bind_attempt backendTLSPolicyStatusError_def eff_simps)
  then show ?thesis using assms(1,2)
    by (simp add: resolveL7BackendSSLConfig_def eff_bind_attempt errors_is_def eff_simps)
qed

section \<open>Bundles in the cache\<close>

text \<open>A bundle that was just resolved is taken from the cache: the same request makes no calls.\<close>

theorem cached_bundle_needs_no_call:
  assumes "ensureOCIManagedCABundle w policy targetRef compartmentID caRef h = (Inr caBundleID, h1)" "caBundleID \<noteq> []"
    and "env_now w h1 < env_now w (butlast h1) + backendTLSCABundleCacheTTL"
  shows "ensureOCIManagedCABundle w policy targetRef compartmentID caRef h1 = (Inr caBundleID, h1)"
proof -
  let ?name = "backendTLSCABundleName policy targetRef (fst caRef)"
  let ?hash = "sha256_hex (snd caRef)"
  let ?key = "(compartmentID, ?name, ?hash)"
  have hit: "ensureOCIManagedCABundle w policy targetRef compartmentID caRef h' = (Inr i, h')"
    if "caBundleCache_get w ?key h' = Some i" for h' i
    using that by (simp add: ensureOCIManagedCABundle_def Let_def eff_bind_ask eff_simps)
  show ?thesis
  proof (cases "caBundleCache_get w ?key h")
    case (Some i)
    then show ?thesis using hit [OF Some] assms(1) by simp
  next
    case None
    have "\<exists>h0. h1 = h0 @ [CacheCaBundle compartmentID ?name ?hash caBundleID]"
      using assms(1,2) None
      by (auto simp: ensureOCIManagedCABundle_def Let_def resolveListedOCIManagedCABundle_def createOCIManagedCABundle_def
          caBundleCache_set_def eff_bind_ask eff_simps split: sum.splits option.splits if_splits elim!: eff_bind_InrE)
    then obtain h0 where h0: "h1 = h0 @ [CacheCaBundle compartmentID ?name ?hash caBundleID]" by blast
    then have "caBundleCache_get w ?key h1 = Some caBundleID"
      using assms(3) by (simp add: caBundleCache_get_def)
    then show ?thesis by (rule hit)
  qed
qed

section \<open>Deleted policies\<close>

definition ownedLive :: "backend_tls_policy \<Rightarrow> ca_bundle \<Rightarrow> bool" where
  "ownedLive policy b \<longleftrightarrow> isOwnedBackendTLSCABundle (cab_tags b) policy \<and>
     cab_state b \<noteq> ''DELETED'' \<and> cab_state b \<noteq> ''DELETING''"

definition bundleDeleted :: "lb_env \<Rightarrow> backend_tls_policy \<Rightarrow> lb_call list \<Rightarrow> lb_call list \<Rightarrow> ca_bundle \<Rightarrow> bool" where
  "bundleDeleted w policy h cs b \<longleftrightarrow> (ownedLive policy b \<longrightarrow>
     (\<exists>xs ys. cs = xs @ DeleteCaBundle (cab_id b) # ys \<and>
       (case env_ca_write w (h @ xs) (DeleteCaBundle (cab_id b)) of None \<Rightarrow> True | Some err \<Rightarrow> svc_has_status 404 err)))"

text \<open>The bundles of a compartment were listed, and each that is the policy's was then deleted or is gone.\<close>

definition bundlesGone :: "lb_env \<Rightarrow> backend_tls_policy \<Rightarrow> lb_call list \<Rightarrow> lb_call list \<Rightarrow> string \<Rightarrow> bool" where
  "bundlesGone w policy h cs cp \<longleftrightarrow> (\<exists>xs ys bundles. cs = xs @ ListCaBundles cp None # ys \<and>
     env_ca_bundles w (h @ xs) cp None = Inr bundles \<and>
     list_all (bundleDeleted w policy (h @ xs @ [ListCaBundles cp None]) ys) bundles)"

lemma bundleDeleted_shift: "bundleDeleted w policy (h @ ds) cs b \<Longrightarrow> bundleDeleted w policy h (ds @ cs) b"
  unfolding bundleDeleted_def by (metis append_assoc)

lemma bundleDeleted_more: "bundleDeleted w policy h cs b \<Longrightarrow> bundleDeleted w policy h (cs @ ds) b"
  unfolding bundleDeleted_def by (metis append_Cons append_assoc)

lemma bundlesGone_shift: "bundlesGone w policy (h @ ds) cs cp \<Longrightarrow> bundlesGone w policy h (ds @ cs) cp"
  unfolding bundlesGone_def by (metis append_assoc)

lemma bundlesGone_more: "bundlesGone w policy h cs cp \<Longrightarrow> bundlesGone w policy h (cs @ ds) cp"
proof -
  assume "bundlesGone w policy h cs cp"
  then obtain xs ys bundles where cs: "cs = xs @ ListCaBundles cp None # ys"
      "env_ca_bundles w (h @ xs) cp None = Inr bundles"
      "list_all (bundleDeleted w policy (h @ xs @ [ListCaBundles cp None]) ys) bundles"
    unfolding bundlesGone_def by blast
  then have "list_all (bundleDeleted w policy (h @ xs @ [ListCaBundles cp None]) (ys @ ds)) bundles"
    by (auto simp: list_all_iff intro: bundleDeleted_more)
  with cs(1,2) show ?thesis unfolding bundlesGone_def by (intro exI [of _ xs] exI [of _ "ys @ ds"] exI [of _ bundles]) simp
qed

text \<open>A loop that succeeds has done for every element what its step does when it succeeds.\<close>

lemma foreach_done:
  assumes "eff_foreach f xs h = (Inr u, h')"
    and step: "\<And>x h1 h2. x \<in> set xs \<Longrightarrow> f x h1 = (Inr (), h2) \<Longrightarrow> \<exists>cs. h2 = h1 @ cs \<and> Q h1 cs x"
    and shift: "\<And>h ds cs x. Q (h @ ds) cs x \<Longrightarrow> Q h (ds @ cs) x"
    and more: "\<And>h cs ds x. Q h cs x \<Longrightarrow> Q h (cs @ ds) x"
  shows "\<exists>cs. h' = h @ cs \<and> list_all (Q h cs) xs"
  using assms(1) step
proof (induction xs arbitrary: h)
  case Nil
  then show ?case by (simp add: eff_simps)
next
  case (Cons x xs)
  from Cons.prems(1) obtain h1 where x: "f x h = (Inr (), h1)" and rest: "eff_foreach f xs h1 = (Inr u, h')"
    by (auto elim!: eff_bind_InrE)
  obtain cs where cs: "h1 = h @ cs" "Q h cs x" using Cons.prems(2) [OF _ x] by auto
  obtain ds where ds: "h' = h1 @ ds" "list_all (Q h1 ds) xs" using Cons.IH [OF rest] Cons.prems(2) by auto
  have "list_all (Q h (cs @ ds)) (x # xs)" using cs ds shift more by (auto simp: list_all_iff)
  then show ?case using cs(1) ds(1) by auto
qed

lemma deletion_step:
  assumes "deleteOwnedCABundle w policy b h = (Inr (), h')"
  shows "\<exists>cs. h' = h @ cs \<and> bundleDeleted w policy h cs b"
proof (cases "ownedLive policy b")
  case True
  then have "h' = h @ [DeleteCaBundle (cab_id b)] \<and>
      (case env_ca_write w h (DeleteCaBundle (cab_id b)) of None \<Rightarrow> True | Some err \<Rightarrow> svc_has_status 404 err)"
    using assms by (auto simp: ownedLive_def deleteOwnedCABundle_def eff_bind_Inr [OF ca_run(4)]
        isBackendTLSCABundleAlreadyDeleted_def eff_simps split: option.splits if_splits)
  then show ?thesis unfolding bundleDeleted_def by (metis append_Nil append_Nil2)
next
  case False
  then show ?thesis using assms by (auto simp: ownedLive_def bundleDeleted_def deleteOwnedCABundle_def eff_simps split: if_splits)
qed

lemma compartment_step:
  assumes "deleteOwnedCABundles w policy cp h = (Inr (), h')" "cp \<noteq> []"
  shows "\<exists>cs. h' = h @ cs \<and> bundlesGone w policy h cs cp"
proof -
  obtain bundles where bundles: "env_ca_bundles w h cp None = Inr bundles"
      "eff_foreach (deleteOwnedCABundle w policy) bundles (h @ [ListCaBundles cp None]) = (Inr (), h')"
    using assms by (auto simp: deleteOwnedCABundles_def eff_bind_Inr [OF ca_run(2)] eff_simps split: sum.splits)
  obtain ys where "h' = (h @ [ListCaBundles cp None]) @ ys"
      "list_all (bundleDeleted w policy (h @ [ListCaBundles cp None]) ys) bundles"
    using foreach_done [OF bundles(2), where Q = "bundleDeleted w policy"] deletion_step bundleDeleted_shift bundleDeleted_more
    by blast
  moreover from this(2) have "bundlesGone w policy h (ListCaBundles cp None # ys) cp"
    using bundles(1) unfolding bundlesGone_def by (intro exI [of _ "[]"] exI [of _ ys] exI [of _ bundles]) simp
  ultimately show ?thesis by (intro exI [of _ "ListCaBundles cp None # ys"]) simp
qed

text \<open>Before the finalizer goes, only bundles of the policy that were listed are deleted.\<close>

definition cleanupCall :: "lb_env \<Rightarrow> backend_tls_policy \<Rightarrow> lb_call \<Rightarrow> bool" where
  "cleanupCall w policy c \<longleftrightarrow> reading c \<or> (\<exists>i. c = DeleteCaBundle i \<and> listedBundle w policy (\<lambda>_. True) i)"

lemma emits_discover: "emits (cleanupCall w policy) (discoverBackendTLSPolicyCleanupCompartments w)"
proof -
  have "emits (cleanupCall w policy) (discoverCompartmentsLoop w gateways)" for gateways
    by (induction gateways) (auto simp: cleanupCall_def backendTLSPolicyCleanupCompartment_def intro!: emits_intros
        split: option.split sum.split)
  then show ?thesis
    by (auto simp: cleanupCall_def discoverBackendTLSPolicyCleanupCompartments_def intro!: emits_intros split: sum.split)
qed

lemma emits_deleteOwned: "emits (cleanupCall w policy) (deleteOwnedCABundles w policy cp)"
proof -
  have step: "emits (cleanupCall w policy) (deleteOwnedCABundle w policy b)"
    if "env_ca_bundles w h cp None = Inr bundles" "b \<in> set bundles" for h bundles b
  proof -
    have "isOwnedBackendTLSCABundle (cab_tags b) policy \<Longrightarrow> cleanupCall w policy (DeleteCaBundle (cab_id b))"
      using listedBundleI [OF that] unfolding cleanupCall_def by simp
    then show ?thesis by (auto simp: deleteOwnedCABundle_def intro!: emits_intros split: option.split)
  qed
  show ?thesis
    unfolding deleteOwnedCABundles_def list_ca_bundles_def
    by (auto simp: emits_return cleanupCall_def [of _ _ "ListCaBundles _ _"] intro!: emits_bind_call emits_fail emits_foreach intro: step
        split: sum.split)
qed

lemma compartments_nonempty: "cp \<in> set (backendTLSPolicyCompartmentIDs policy) \<Longrightarrow> cp \<noteq> []"
  by (simp add: backendTLSPolicyCompartmentIDs_def Let_def split: if_splits)

lemma last_of_kind:
  assumes "xs @ c # ys = cs @ [d]" "P c" "list_all (\<lambda>c. \<not> P c) cs"
  shows "xs = cs \<and> ys = [] \<and> c = d"
proof (cases ys rule: rev_cases)
  case (snoc zs y)
  then have "c \<in> set cs" using assms(1) by auto
  then show ?thesis using assms(2,3) by (auto simp: list_all_iff)
qed (use assms(1) in simp)

lemma cleanupCall_no_update: "list_all (cleanupCall w policy) cs \<Longrightarrow> list_all (\<lambda>c. \<not> (\<exists>q. c = UpdateBackendTLSPolicy q)) cs"
  by (auto simp: list_all_iff cleanupCall_def)

text \<open>
  C35: The finalizer of a deleted policy is removed by the last call, and only after the bundles of the
  policy in every recorded compartment were listed and each live one was deleted, or is gone. Until
  then nothing but such bundles is deleted.
\<close>

theorem policy_released_last:
  assumes "snd (cleanupDeletingPolicy w policy h) = h @ xs @ UpdateBackendTLSPolicy q # ys"
  shows "ys = [] \<and> q = releasedPolicy policy \<and> list_all (cleanupCall w policy) xs \<and>
    list_all (bundlesGone w policy h xs) (backendTLSPolicyCompartmentIDs policy)"
proof -
  let ?ids = "backendTLSPolicyCompartmentIDs policy"
  let ?found = "if ?ids = [] then discoverBackendTLSPolicyCleanupCompartments w else eff_return ?ids"
  let ?delete = "\<lambda>order ids. eff_foreach (deleteOwnedCABundles w policy) (map_iter order ids)"
  have impossible: False if "list_all (cleanupCall w policy) (xs @ UpdateBackendTLSPolicy q # ys)"
    using that by (simp add: cleanupCall_def)
  have finalizer: "BackendTLSPolicyProgrammedFinalizer \<in> set (btp_finalizers policy)"
    using assms by (auto simp: cleanupDeletingPolicy_def eff_simps split: if_splits)
  obtain r1 cs1 where found: "?found h = (r1, h @ cs1)" "list_all (cleanupCall w policy) cs1"
  proof -
    have "emits (cleanupCall w policy) ?found" using emits_discover emits_return by auto
    then show ?thesis using that emitsD [of "cleanupCall w policy" ?found h] by (cases "?found h") blast
  qed
  then obtain ids where r1: "r1 = Inr ids"
    using impossible assms finalizer by (cases r1) (auto simp: cleanupDeletingPolicy_def eff_bind_Inl)
  have ids: "ids = ?ids" if "?ids \<noteq> []" using found(1) r1 that by (simp add: eff_simps)
  let ?order = "env_order w (h @ cs1)"
  have "emits (cleanupCall w policy) (?delete ?order ids)" by (intro emits_foreach emits_deleteOwned)
  then obtain r2 cs2 where deleted: "?delete ?order ids (h @ cs1) = (r2, (h @ cs1) @ cs2)" "list_all (cleanupCall w policy) cs2"
    using emitsD by (cases "?delete ?order ids (h @ cs1)") blast
  have run: "snd (cleanupDeletingPolicy w policy h) = (case r2 of
      Inl e \<Rightarrow> h @ cs1 @ cs2 | Inr _ \<Rightarrow> h @ cs1 @ cs2 @ [UpdateBackendTLSPolicy (releasedPolicy policy)])"
    using finalizer found(1) deleted(1) r1
    by (cases r2) (simp_all add: cleanupDeletingPolicy_def eff_bind_def eff_ask_run gateway_run(7) eff_return_run eff_fail_run
        split: option.split)
  have "list_all (cleanupCall w policy) (cs1 @ cs2)" using found(2) deleted(2) by simp
  then have "xs @ UpdateBackendTLSPolicy q # ys \<noteq> cs1 @ cs2" using impossible by metis
  then obtain u where r2: "r2 = Inr u" using assms run by (cases r2) auto
  have eq: "xs @ UpdateBackendTLSPolicy q # ys = (cs1 @ cs2) @ [UpdateBackendTLSPolicy (releasedPolicy policy)]"
    using assms run r2 by simp
  have "list_all (\<lambda>c. \<not> (\<exists>q. c = UpdateBackendTLSPolicy q)) (cs1 @ cs2)"
    by (rule cleanupCall_no_update [of w policy]) (simp add: found(2) deleted(2))
  from last_of_kind [OF eq _ this] have last: "xs = cs1 @ cs2" "ys = []" "q = releasedPolicy policy" by simp_all
  have "list_all (bundlesGone w policy h xs) ?ids"
  proof (cases "?ids = []")
    case False
    have "\<exists>ds. (h @ cs1) @ cs2 = (h @ cs1) @ ds \<and> list_all (bundlesGone w policy (h @ cs1) ds) (map_iter ?order ids)"
      using deleted(1) r2 ids [OF False] compartments_nonempty
      by (intro foreach_done [where f = "deleteOwnedCABundles w policy"] compartment_step bundlesGone_shift bundlesGone_more) auto
    then show ?thesis using ids [OF False] last(1) bundlesGone_shift by (auto simp: list_all_iff)
  qed simp
  then show ?thesis using last found(2) deleted(2) by simp
qed

text \<open>
  A bundle that OCI still has in use ends the attempt: the policy keeps its finalizer and the request
  comes again after 30 seconds.
\<close>

theorem associated_bundle_keeps_policy:
  assumes "env_backend_tls_policy w h ns n = Inr policy" "btp_deleting policy"
    and "BackendTLSPolicyProgrammedFinalizer \<in> set (btp_finalizers policy)"
    and "backendTLSPolicyCompartmentIDs policy = [cp]"
    and "env_ca_bundles w (h @ [GetBackendTLSPolicy ns n]) cp None = Inr (others @ b # later)"
    and "list_all (\<lambda>b. \<not> ownedLive policy b) others" "ownedLive policy b"
    and "env_ca_write w (h @ [GetBackendTLSPolicy ns n, ListCaBundles cp None]) (DeleteCaBundle (cab_id b)) =
      Some (ServiceError 409 ''IncorrectState'' msg)" "str_contains msg ''Association''"
  shows "BackendTLSPolicyController_Reconcile w (ns, n) h =
    (Inr backendTLSPolicyCleanupRequeueAfter, h @ [GetBackendTLSPolicy ns n, ListCaBundles cp None, DeleteCaBundle (cab_id b)])"
proof -
  let ?h1 = "h @ [GetBackendTLSPolicy ns n]"
  let ?h2 = "h @ [GetBackendTLSPolicy ns n, ListCaBundles cp None]"
  let ?err = errBackendTLSCABundleStillAssociated
  have step: "deleteOwnedCABundle w policy b ?h2 = (Inl ?err, ?h2 @ [DeleteCaBundle (cab_id b)])"
    using assms(7,8,9) by (simp add: ownedLive_def deleteOwnedCABundle_def eff_bind_Inr [OF ca_run(4)]
        isBackendTLSCABundleAlreadyDeleted_def isBackendTLSCABundleStillAssociated_def eff_simps)
  have "eff_foreach (deleteOwnedCABundle w policy) (others @ b # later) ?h2 = (Inl ?err, ?h2 @ [DeleteCaBundle (cab_id b)])"
    using assms(6)
  proof (induction others)
    case Nil
    then show ?case using step by (simp add: eff_bind_Inl)
  next
    case (Cons c cs)
    then have "deleteOwnedCABundle w policy c = eff_return ()" by (auto simp: ownedLive_def deleteOwnedCABundle_def)
    then show ?case using Cons by (simp add: eff_bind_return)
  qed
  then have one: "deleteOwnedCABundles w policy cp ?h1 = (Inl ?err, ?h2 @ [DeleteCaBundle (cab_id b)])"
    using assms(4,5) compartments_nonempty [of cp policy]
    by (simp add: deleteOwnedCABundles_def eff_bind_Inr [OF ca_run(2)])
  have "map_iter order [cp] = [cp]" for order
    by (metis length_map_iter length_Suc_conv length_0_conv list.set_intros(1) set_map_iter singletonD list.simps(15) empty_set)
  then have "cleanupDeletingPolicy w policy ?h1 = (Inl ?err, ?h2 @ [DeleteCaBundle (cab_id b)])"
    using assms(3,4) one by (simp add: cleanupDeletingPolicy_def eff_bind_return eff_bind_ask eff_bind_Inl)
  then show ?thesis
    using assms(1,2) by (simp add: BackendTLSPolicyController_Reconcile_def eff_bind_Inr [OF policy_run(3)] eff_bind_attempt
        errors_is_def errBackendTLSCABundleStillAssociated_def eff_simps)
qed

section \<open>Examples\<close>

definition serviceTarget :: "string \<Rightarrow> policy_target_ref" where
  "serviceTarget kind = \<lparr>ptr_group = [], ptr_kind = kind, ptr_name = ''svc'', ptr_section = None\<rparr>"

definition examplePolicy :: "string \<Rightarrow> int \<Rightarrow> policy_target_ref \<Rightarrow> backend_tls_policy" where
  "examplePolicy name creation targetRef = \<lparr>btp_namespace = ''ns'', btp_name = name, btp_uid = name, btp_creation = creation,
     btp_creation_text = None, btp_generation = 1, btp_deleting = False, btp_finalizers = [], btp_annotations = [],
     btp_target_refs = [targetRef], btp_ca_refs = [], btp_well_known = None, btp_subject_alt_names = [],
     btp_options = [(BackendTLSOptionHostnameValidation, ''Disabled''), (BackendTLSOptionTrustedCABundleOCIDs, ''ca1, ca2'')],
     btp_ancestors = []\<rparr>"

definition policyEnv :: "backend_tls_policy list \<Rightarrow> lb_env" where
  "policyEnv policies = agreeable_env\<lparr>env_backend_tls_policies := (\<lambda>_ _. Inr policies),
     env_backend_tls_policy := (\<lambda>_ _ name. case find (\<lambda>p. btp_name p = name) policies of
       None \<Rightarrow> Inl (ErrApi ''NotFound'' ''not found'') | Some p \<Rightarrow> Inr p),
     env_load_balancer := (\<lambda>_ _. Inr (exampleLoadBalancer\<lparr>lb_compartment := Some ''compartment''\<rparr>))\<rparr>"

definition policyService :: k8s_service where
  "policyService = \<lparr>svc_namespace = ''ns'', svc_name = ''svc'',
     svc_ports = [\<lparr>sp_name = ''https'', sp_port = 80, sp_target_port = \<lparr>tp_is_string = False, tp_int_val = 8443, tp_int_value = 8443\<rparr>\<rparr>]\<rparr>"

definition policyDetails :: resolved_gateway_details where
  "policyDetails = ld_gateway (albTlsDetails exampleGateway (plainListener ''tls'' 443 ''TLS''))"

definition exampleConfig :: ssl_details where
  "exampleConfig = noSSL\<lparr>sd_verify_peer := Some True, sd_verify_depth := Some 3, sd_trusted_ca_ids := [''ca1'', ''ca2'']\<rparr>"

lemma policy_run_example:
  "fst (resolveForBackendRef (policyEnv [examplePolicy ''p'' 1 (serviceTarget ''Service'')]) policyDetails policyService
    exampleBackendRef []) = Inr (Some exampleConfig)"
  by code_simp


theorem policy_of_other_kind_disables_tls_witness:
  "fst (resolveL7BackendSSLConfig
    (exampleL7Params\<lparr>pp_backendTLSPolicy := Some (resolveForBackendRef
       (policyEnv [examplePolicy ''p'' 2 (serviceTarget ''Service''), examplePolicy ''o'' 1 (serviceTarget ''Deployment'')]) policyDetails)\<rparr>)
    policyService exampleBackendRef []) = Inr (None, True)"
  by (rule policy_of_other_kind_disables_tls [of _ "policyEnv [examplePolicy ''p'' 2 (serviceTarget ''Service''),
      examplePolicy ''o'' 1 (serviceTarget ''Deployment'')]" policyDetails "[]" policyService
      "[examplePolicy ''p'' 2 (serviceTarget ''Service''), examplePolicy ''o'' 1 (serviceTarget ''Deployment'')]"
      "examplePolicy ''o'' 1 (serviceTarget ''Deployment'')" "serviceTarget ''Deployment''"])
    (simp_all add: policyEnv_def examplePolicy_def serviceTarget_def policyService_def exampleL7Params_def)

definition exampleCaRef :: "ca_ref \<times> string" where
  "exampleCaRef = (\<lparr>cr_group = [], cr_kind = ''ConfigMap'', cr_name = ''ca''\<rparr>, ''pem'')"

definition examplePolicyBundle :: string where
  "examplePolicyBundle = backendTLSCABundleName (examplePolicy ''p'' 1 (serviceTarget ''Service'')) (serviceTarget ''Service'')
     (fst exampleCaRef)"

lemma bundle_run_example:
  "ensureOCIManagedCABundle agreeable_env (examplePolicy ''p'' 1 (serviceTarget ''Service'')) (serviceTarget ''Service'') ''cp''
    exampleCaRef [] = (Inr examplePolicyBundle, [ListCaBundles ''cp'' (Some examplePolicyBundle),
      CreateCaBundle \<lparr>ccb_name = examplePolicyBundle, ccb_compartment = ''cp'', ccb_pem = ''pem'',
        ccb_tags = backendTLSCABundleTags (examplePolicy ''p'' 1 (serviceTarget ''Service'')) (sha256_hex ''pem'')\<rparr>,
      CacheCaBundle ''cp'' examplePolicyBundle (sha256_hex ''pem'') examplePolicyBundle])"
proof -
  have "examplePolicyBundle \<noteq> []"
    by (simp add: examplePolicyBundle_def backendTLSCABundleName_def backendTLSCABundleNamePrefix_def)
  then show ?thesis
    unfolding ensureOCIManagedCABundle_def Let_def exampleCaRef_def fst_conv snd_conv
      examplePolicyBundle_def [symmetric, unfolded exampleCaRef_def fst_conv]
    by (simp add: eff_bind_ask caBundleCache_get_def eff_bind_Inr [OF ca_run(2)] agreeable_env_def
        resolveListedOCIManagedCABundle_def liveBundle_def createOCIManagedCABundle_def eff_bind_Inr [OF ca_run(3)]
        caBundleCache_set_def eff_bind_call eff_simps)
qed

theorem cached_bundle_needs_no_call_witness:
  "let h = [ListCaBundles ''cp'' (Some examplePolicyBundle),
      CreateCaBundle \<lparr>ccb_name = examplePolicyBundle, ccb_compartment = ''cp'', ccb_pem = ''pem'',
        ccb_tags = backendTLSCABundleTags (examplePolicy ''p'' 1 (serviceTarget ''Service'')) (sha256_hex ''pem'')\<rparr>,
      CacheCaBundle ''cp'' examplePolicyBundle (sha256_hex ''pem'') examplePolicyBundle]
   in ensureOCIManagedCABundle agreeable_env (examplePolicy ''p'' 1 (serviceTarget ''Service'')) (serviceTarget ''Service'') ''cp''
        exampleCaRef h = (Inr examplePolicyBundle, h)"
  unfolding Let_def
  by (rule cached_bundle_needs_no_call [OF bundle_run_example])
    (simp_all add: examplePolicyBundle_def backendTLSCABundleName_def backendTLSCABundleNamePrefix_def agreeable_env_def
      backendTLSCABundleCacheTTL_def)

definition deletedPolicy :: backend_tls_policy where
  "deletedPolicy = (examplePolicy ''p'' 1 (serviceTarget ''Service''))\<lparr>btp_deleting := True,
     btp_finalizers := [BackendTLSPolicyProgrammedFinalizer],
     btp_annotations := [(BackendTLSPolicyCompartmentsAnnotation, ''cp'')]\<rparr>"

definition ownedBundle :: ca_bundle where
  "ownedBundle = \<lparr>cab_id = Some ''b1'', cab_name = Some ''bundle'', cab_state = ''ACTIVE'',
     cab_tags = backendTLSCABundleTags deletedPolicy ''hash''\<rparr>"

definition cleanupEnv :: "svc_error option \<Rightarrow> lb_env" where
  "cleanupEnv answer = (policyEnv [deletedPolicy])\<lparr>env_ca_bundles := (\<lambda>_ _ _. Inr [ownedBundle]),
     env_ca_write := (\<lambda>_ _. answer)\<rparr>"

lemma cleanup_run_example:
  "snd (cleanupDeletingPolicy (cleanupEnv None) deletedPolicy []) =
    [] @ [ListCaBundles ''cp'' None, DeleteCaBundle (Some ''b1'')] @ UpdateBackendTLSPolicy (releasedPolicy deletedPolicy) # []"
  by code_simp

theorem policy_released_last_witness:
  "list_all (cleanupCall (cleanupEnv None) deletedPolicy) [ListCaBundles ''cp'' None, DeleteCaBundle (Some ''b1'')] \<and>
   bundlesGone (cleanupEnv None) deletedPolicy [] [ListCaBundles ''cp'' None, DeleteCaBundle (Some ''b1'')] ''cp''"
proof -
  have "backendTLSPolicyCompartmentIDs deletedPolicy = [''cp'']" by code_simp
  then show ?thesis using policy_released_last [OF cleanup_run_example] by simp
qed

theorem associated_bundle_keeps_policy_witness:
  "BackendTLSPolicyController_Reconcile
     (cleanupEnv (Some (ServiceError 409 ''IncorrectState'' ''Association exists''))) (''ns'', ''p'') [] =
    (Inr backendTLSPolicyCleanupRequeueAfter,
     [] @ [GetBackendTLSPolicy ''ns'' ''p'', ListCaBundles ''cp'' None, DeleteCaBundle (cab_id ownedBundle)])"
proof (rule associated_bundle_keeps_policy [where policy = deletedPolicy and others = "[]" and later = "[]"])
  show "backendTLSPolicyCompartmentIDs deletedPolicy = [''cp'']" by code_simp
  show "ownedLive deletedPolicy ownedBundle" by code_simp
  show "str_contains ''Association exists'' ''Association''" by code_simp
qed (simp_all add: cleanupEnv_def policyEnv_def deletedPolicy_def examplePolicy_def)

end
