(* ===== verification/Spec2Isabelle.thy ===== *)
theory Spec2Isabelle
  imports
    RoutingConditions RoutingPolicy BackendSets HttpBackend Listeners Certificates
    NlbBackends LbLocks
    ListenerSets RouteAttachment Resources L7Routes
    Drift StatusAddresses GatewayResolution Gateways GatewaySafety
    RouteControllers RouteSafety
    NlbGateways NlbSafety L4Routes TlsRoutes L4Safety
    WorkRequests ListenerSetController Watches WatchSetup WatchSafety
    BackendTls BackendTlsSafety
begin

text \<open>
  A model of the OKE gateway API controller (\<open>src/internal/app\<close>), a Kubernetes controller that
  turns Gateways and routes into OCI load balancers.

  \<^bold>\<open>Effects.\<close> Code that talks to OCI or to Kubernetes is an operation of the monad of \<open>Prelude\<close>:
  a function from the calls made so far to an error or a result, and the calls made then. The
  services are one record of answers, \<open>lb_env\<close> in \<open>Ports\<close>; an answer may depend on all calls before
  it, so a theorem about every environment covers concurrent writers, lost updates and failures
  at any point. The order in which Go visits a map is one of the answers. Errors are values
  (\<open>Errors\<close>), with the texts and the wrapping of the code.

  \<^bold>\<open>Library.\<close> \<open>Prelude\<close>: the monad, what operations emit, maps, sorting. \<open>GoStrings\<close>, \<open>GoPath\<close>,
  \<open>Hashes\<close>: strings, \<open>path.Join\<close>, CRC-32 and SHA-256. \<open>GatewayTypes\<close>, \<open>Ports\<close>: the objects and the
  calls. \<open>OciNames\<close>: names of OCI resources (\<open>oci_load_balancer_model.go\<close>, \<open>ociapi\<close>).

  \<^bold>\<open>Load balancers\<close> (\<open>oci_load_balancer_model.go\<close> and its neighbours). \<open>RoutingConditions\<close>: matches of a
  route to the condition language of OCI, which gets a semantics. \<open>RoutingPolicy\<close>: the commit of
  a route's rules refines a map update. \<open>BackendSets\<close>, \<open>HttpBackend\<close>: backend sets and their
  backends refine the stored state of the service. \<open>Listeners\<close>, \<open>FrontendMTLS\<close>, \<open>Certificates\<close>:
  listeners with their TLS settings and what may be removed. \<open>ReferenceGrants\<close>: who may refer to
  what. \<open>NlbBackends\<close>: network load balancers. \<open>LbLocks\<close>: the keyed locks under every interleaving.

  \<^bold>\<open>Gateways and routes.\<close> \<open>ListenerSets\<close> (\<open>listenerset_model.go\<close>): the effective listeners.
  \<open>RouteAttachment\<close>, \<open>Hostnames\<close>: which listeners take a route. \<open>Conditions\<close>, \<open>Resources\<close>
  (\<open>resources_model.go\<close>): status, with retries. \<open>L7Routes\<close>: programming of HTTPRoutes and
  GRPCRoutes. \<open>Drift\<close>, \<open>StatusAddresses\<close>: delays and addresses. \<open>GatewayResolution\<close>, \<open>Gateways\<close>
  (\<open>gateway_model.go\<close>, \<open>gateway_controller.go\<close>): from a request to a programmed or deprovisioned
  Gateway. \<open>GatewaySafety\<close>: the order and the scope of the writes of a whole reconciliation.
  \<open>L7RouteModels\<close>, \<open>RouteControllers\<close> (\<open>httproute_model.go\<close>, \<open>grpcroute_model.go\<close> and their
  controllers): both kinds of routes from a request to a programmed or deprovisioned route, with a
  record for what differs. \<open>RouteSafety\<close>: what a reconciliation of a route may change, and when.

  \<^bold>\<open>Network load balancers.\<close> \<open>NlbGateways\<close> (\<open>network_load_balancer_gateway_model.go\<close> and its
  controller): Gateways on Network Load Balancers; \<open>NlbSafety\<close>: the finalizer before the first
  write, what is deleted, and that a second run has nothing to do. \<open>L4Routes\<close> (\<open>tcproute_model.go\<close>,
  \<open>udproute_model.go\<close>): one set of operations for both kinds, with a record for what differs, and
  the methods of each. \<open>TlsRoutes\<close> (\<open>tlsroute_model.go\<close>): passthrough, termination and moving between
  them. \<open>L4Safety\<close>: the owner of a listener, the release of a route, the modes of TLS, and two
  places where the release is stuck.

  \<^bold>\<open>What wakes a controller.\<close> \<open>Watches\<close> (\<open>watches_model.go\<close>): the indexes of objects and the
  mapping from a changed object to requests. \<open>WatchSetup\<close> (\<open>start_manager.go\<close>, \<open>middleware.go\<close>):
  controllers as data, with their watches and predicates, the capabilities of the API server, the
  start, and what becomes of the error of a reconciliation. \<open>WatchSafety\<close>: the indexes agree with the
  attachment of routes, which changes wake whom, and four kinds of change that wake nobody.
  \<open>ListenerSetController\<close> (\<open>listenerset_controller.go\<close>): when a ListenerSet is accepted, and that
  its reconciliation resets what the Gateway controller reported.

  \<^bold>\<open>TLS to the backends.\<close> \<open>BackendTls\<close> (\<open>backend_tls_policy_model.go\<close> and its controller): the
  policies of a Service, the CA bundles made for them with the cache, their status and clean-up; it
  is the resolver that the route theories take as an argument. \<open>BackendTlsSafety\<close>: what is handed out
  verifies the backends, which policy decides, what is written and in which order, and that a policy
  for another kind of object takes the TLS of a Service with the same name away.

  \<^bold>\<open>Waiting.\<close> \<open>WorkRequests\<close> (\<open>work_requests_watcher.go\<close>): the polling loop as a partial function
  with a clock; it is shown to end for the intervals the constructors choose, after at most 601
  requests (20 minutes, one request every 2 seconds, and one at the end).

  \<^bold>\<open>Interfaces.\<close> Locales state what a client needs: strict orders for sorting (\<open>Prelude\<close>), API
  objects with conditions (\<open>Resources\<close>), machines with locks (\<open>LbLocks\<close>), controllers that protect
  a Gateway before they program it (\<open>GatewaySafety\<close>), programs that look for the owner of a listener
  first (\<open>L4Safety\<close>); each is interpreted on the definitions of the model.

  \<^bold>\<open>Not modelled.\<close> Logging, metrics, configuration and dependency injection; the SDK clients,
  Kubernetes and controller-runtime, which are the parameters above; caches of the Kubernetes client, except that any answer is possible.
\<close>

end
